(* ===== verification/Prelude.thy ===== *)
theory Prelude
  imports Main "HOL-Library.Char_ord" "HOL-Library.List_Lexorder" "HOL-Library.Sublist"
begin

text \<open>
  What every component shares: JavaScript's ordered sets and maps as lists, its
  text operations on strings, and the generic theory of a ledger reducer (a
  fold over events that stops at the first refusal).

  A JavaScript string is a list of 8-bit characters, so the model is exact for
  strings whose code units lie below 256; text outside that range which the
  source writes in a fixed message (the em dash) appears as its UTF-8 bytes.
\<close>

named_theorems js_text \<open>evaluation rules of the text operations\<close>

named_theorems reducer \<open>rules for folding an event list through a reducer\<close>

subsection \<open>Ordered sets: \<open>[...new Set(xs)]\<close>\<close>

text \<open>A JavaScript set keeps the first occurrence of each element, in order.\<close>

fun uniq_from :: "'a list \<Rightarrow> 'a list \<Rightarrow> 'a list" where
  "uniq_from seen [] = []"
| "uniq_from seen (x # xs) =
     (if x \<in> set seen then uniq_from seen xs else x # uniq_from (x # seen) xs)"

definition uniq :: "'a list \<Rightarrow> 'a list" where
  "uniq xs = uniq_from [] xs"

lemma set_uniq_from: "set (uniq_from seen xs) = set xs - set seen"
  by (induction seen xs rule: uniq_from.induct) auto

lemma distinct_uniq_from: "distinct (uniq_from seen xs)"
  by (induction seen xs rule: uniq_from.induct) (auto simp: set_uniq_from)

lemma set_uniq [simp]: "set (uniq xs) = set xs"
  by (simp add: uniq_def set_uniq_from)

lemma distinct_uniq [simp]: "distinct (uniq xs)"
  by (simp add: uniq_def distinct_uniq_from)

lemma uniq_Nil_iff [simp]: "uniq xs = [] \<longleftrightarrow> xs = []"
  using set_uniq [of xs] by (metis set_empty2)

lemma uniq_from_id: "distinct xs \<Longrightarrow> set xs \<inter> set seen = {} \<Longrightarrow> uniq_from seen xs = xs"
  by (induction seen xs rule: uniq_from.induct) auto

lemma uniq_id: "distinct xs \<Longrightarrow> uniq xs = xs"
  by (simp add: uniq_def uniq_from_id)

text \<open>The duplicate scans of the schema checks report each element already seen.\<close>

fun dups_from :: "'a list \<Rightarrow> 'a list \<Rightarrow> 'a list" where
  "dups_from seen [] = []"
| "dups_from seen (x # xs) =
     (if x \<in> set seen then x # dups_from seen xs else dups_from (x # seen) xs)"

lemma dups_from_Nil_iff:
  "dups_from seen xs = [] \<longleftrightarrow> distinct xs \<and> set xs \<inter> set seen = {}"
  by (induction seen xs rule: dups_from.induct) auto

definition dups :: "'a list \<Rightarrow> 'a list" where
  "dups xs = dups_from [] xs"

lemma dups_Nil_iff [simp]: "dups xs = [] \<longleftrightarrow> distinct xs"
  by (simp add: dups_def dups_from_Nil_iff)

subsection \<open>Lists with their positions\<close>

definition indexed :: "'a list \<Rightarrow> (nat \<times> 'a) list" where
  "indexed xs = zip [0..<length xs] xs"

lemma set_indexed: "(i, x) \<in> set (indexed xs) \<longleftrightarrow> i < length xs \<and> xs ! i = x"
  by (force simp: indexed_def set_zip)

lemma length_indexed [simp]: "length (indexed xs) = length xs"
  by (simp add: indexed_def)

lemma snd_indexed [simp]: "map snd (indexed xs) = xs"
  by (simp add: indexed_def)

lemma concat_indexed_Nil:
  assumes "\<And>i x. f (i, x) = [] \<longleftrightarrow> P x"
  shows "concat (map f (indexed xs)) = [] \<longleftrightarrow> (\<forall>x\<in>set xs. P x)"
proof -
  have "concat (map f (indexed xs)) = [] \<longleftrightarrow> (\<forall>p\<in>set (indexed xs). P (snd p))"
    using assms by (auto simp: concat_eq_Nil_conv)
  also have "\<dots> \<longleftrightarrow> (\<forall>x\<in>snd ` set (indexed xs). P x)" by simp
  also have "snd ` set (indexed xs) = set xs" using snd_indexed [of xs] by (metis set_map)
  finally show ?thesis .
qed

text \<open>\<open>xs.at(-1)\<close>: the last element, or undefined.\<close>

definition last_opt :: "'a list \<Rightarrow> 'a option" where
  "last_opt xs = (if xs = [] then None else Some (last xs))"

lemma last_opt_simps [simp]:
  "last_opt [] = None" "last_opt (xs @ [x]) = Some x" "last_opt [x] = Some x"
  by (simp_all add: last_opt_def)

lemma last_opt_None [simp]: "last_opt xs = None \<longleftrightarrow> xs = []"
  by (simp add: last_opt_def)

lemma last_opt_Some: "last_opt xs = Some x \<longleftrightarrow> xs \<noteq> [] \<and> last xs = x"
  by (auto simp: last_opt_def)

lemma last_opt_in: "last_opt xs = Some x \<Longrightarrow> x \<in> set xs"
  by (auto simp: last_opt_Some)

lemma last_opt_map: "last_opt (map f xs) = map_option f (last_opt xs)"
  by (cases xs rule: rev_cases) simp_all

text \<open>\<open>xs[i]\<close>: the element at a position, or undefined.\<close>

fun nth_opt :: "'a list \<Rightarrow> nat \<Rightarrow> 'a option" where
  "nth_opt [] _ = None"
| "nth_opt (x # xs) 0 = Some x"
| "nth_opt (x # xs) (Suc n) = nth_opt xs n"

lemma nth_opt_conv: "nth_opt xs n = (if n < length xs then Some (xs ! n) else None)"
  by (induction xs n rule: nth_opt.induct) auto

subsection \<open>Reducers: folding events until the first refusal\<close>

text \<open>
  The ledgers of the runtime are validated by a loop over their events that
  updates a state and returns at the first event it refuses. \<open>fold_events\<close>
  is that loop; the index is the event's position, which the refusals name.
\<close>

fun fold_events ::
  "(nat \<Rightarrow> 's \<Rightarrow> 'e \<Rightarrow> 'f + 's) \<Rightarrow> nat \<Rightarrow> 's \<Rightarrow> 'e list \<Rightarrow> 'f + 's" where
  "fold_events step i s [] = Inr s"
| "fold_events step i s (e # es) =
     (case step i s e of Inl f \<Rightarrow> Inl f | Inr t \<Rightarrow> fold_events step (Suc i) t es)"

lemma fold_events_append [reducer]:
  "fold_events step i s (xs @ ys) =
     (case fold_events step i s xs of
        Inl f \<Rightarrow> Inl f
      | Inr t \<Rightarrow> fold_events step (i + length xs) t ys)"
  by (induction xs arbitrary: i s) (auto split: sum.splits)

lemma fold_events_prefix:
  assumes "fold_events step i s (xs @ ys) = Inr t"
  shows "\<exists>u. fold_events step i s xs = Inr u \<and> fold_events step (i + length xs) u ys = Inr t"
  using assms by (auto simp: fold_events_append split: sum.splits)

lemma fold_events_snoc:
  "fold_events step i s (xs @ [e]) = Inr t \<longleftrightarrow>
     (\<exists>u. fold_events step i s xs = Inr u \<and> step (i + length xs) u e = Inr t)"
  by (auto simp: fold_events_append split: sum.splits)

text \<open>
  The contract of a reducer with an invariant: every accepted event keeps it.
  A client gets the invariant for whole prefixes, and for every cut of one.
\<close>

locale guarded_reducer =
  fixes step :: "nat \<Rightarrow> 's \<Rightarrow> 'e \<Rightarrow> 'f + 's"
    and inv :: "'s \<Rightarrow> bool"
  assumes step_inv: "inv s \<Longrightarrow> step i s e = Inr t \<Longrightarrow> inv t"
begin

lemma fold_inv: "inv s \<Longrightarrow> fold_events step i s es = Inr t \<Longrightarrow> inv t"
proof (induction es arbitrary: i s)
  case Nil
  then show ?case by simp
next
  case (Cons e es)
  then show ?case by (auto split: sum.splits dest: step_inv)
qed

lemma cut_inv:
  assumes "inv s" and "fold_events step i s (xs @ ys) = Inr t"
  shows "\<exists>u. fold_events step i s xs = Inr u \<and> inv u"
  using assms fold_events_prefix fold_inv by metis

end

text \<open>
  A reducer over a state with a measure that no accepted event decreases (a
  fence epoch, an attempt ordinal, a counter): later prefixes have larger values.
\<close>

locale monotone_reducer = guarded_reducer step inv
  for step :: "nat \<Rightarrow> 's \<Rightarrow> 'e \<Rightarrow> 'f + 's" and inv :: "'s \<Rightarrow> bool" +
  fixes level :: "'s \<Rightarrow> 'v::preorder"
  assumes step_level: "inv s \<Longrightarrow> step i s e = Inr t \<Longrightarrow> level s \<le> level t"
begin

lemma fold_level: "inv s \<Longrightarrow> fold_events step i s es = Inr t \<Longrightarrow> level s \<le> level t"
proof (induction es arbitrary: i s)
  case Nil
  then show ?case by simp
next
  case (Cons e es)
  from Cons.prems(2) obtain u
    where u: "step i s e = Inr u" and t: "fold_events step (Suc i) u es = Inr t"
    by (auto split: sum.splits)
  from Cons.prems(1) u have "inv u" by (rule step_inv)
  then have "level u \<le> level t" using t by (rule Cons.IH)
  moreover from Cons.prems(1) u have "level s \<le> level u" by (rule step_level)
  ultimately show ?case by (rule order_trans [rotated])
qed

end

subsection \<open>Hash chains\<close>

text \<open>
  A chain of records: each stores a digest of its content, names the digest of the
  record before it and carries its position. The interface asks one law of a record
  type, that content and stored digest together are the record; the client lemma is
  that, up to collisions among the records at hand, the head digest determines the
  whole chain.
\<close>

fun chain_from ::
  "('e \<Rightarrow> 'c) \<Rightarrow> ('e \<Rightarrow> string) \<Rightarrow> ('e \<Rightarrow> string option) \<Rightarrow> ('e \<Rightarrow> int) \<Rightarrow> ('c \<Rightarrow> string) \<Rightarrow>
   nat \<Rightarrow> string option \<Rightarrow> 'e list \<Rightarrow> bool" where
  "chain_from content stored prev seqno digest i h [] \<longleftrightarrow> True"
| "chain_from content stored prev seqno digest i h (e # es) \<longleftrightarrow>
     digest (content e) = stored e \<and> seqno e = int i + 1 \<and> prev e = h \<and>
     chain_from content stored prev seqno digest (Suc i) (Some (stored e)) es"

abbreviation sound_chain ::
  "('e \<Rightarrow> 'c) \<Rightarrow> ('e \<Rightarrow> string) \<Rightarrow> ('e \<Rightarrow> string option) \<Rightarrow> ('e \<Rightarrow> int) \<Rightarrow> ('c \<Rightarrow> string) \<Rightarrow>
   'e list \<Rightarrow> bool" where
  "sound_chain content stored prev seqno digest es \<equiv>
     chain_from content stored prev seqno digest 0 None es"

lemma chain_from_append:
  "chain_from content stored prev seqno digest i h (es @ fs) \<longleftrightarrow>
     chain_from content stored prev seqno digest i h es \<and>
     chain_from content stored prev seqno digest (i + length es)
       (if es = [] then h else Some (stored (last es))) fs"
  by (induction es arbitrary: i h) auto

lemma sound_chain_snoc:
  "sound_chain content stored prev seqno digest (es @ [e]) \<longleftrightarrow>
     sound_chain content stored prev seqno digest es \<and>
     digest (content e) = stored e \<and> seqno e = int (length es) + 1 \<and>
     prev e = map_option stored (last_opt es)"
  by (cases es rule: rev_cases) (auto simp: chain_from_append)

lemma chain_from_mem:
  "chain_from content stored prev seqno digest i h es \<Longrightarrow> e \<in> set es \<Longrightarrow> digest (content e) = stored e"
  by (induction es arbitrary: i h) auto

definition collision_free :: "('c \<Rightarrow> string) \<Rightarrow> 'c set \<Rightarrow> bool" where
  "collision_free digest cs \<longleftrightarrow> inj_on digest cs"

locale hash_chain =
  fixes content :: "'e \<Rightarrow> 'c"
    and stored :: "'e \<Rightarrow> string"
    and prev :: "'e \<Rightarrow> string option"
    and seqno :: "'e \<Rightarrow> int"
  assumes content_inj: "content e = content f \<Longrightarrow> stored e = stored f \<Longrightarrow> e = f"
begin

lemma head_binds:
  assumes "sound_chain content stored prev seqno digest es"
    and "sound_chain content stored prev seqno digest fs"
    and "map_option stored (last_opt es) = map_option stored (last_opt fs)"
    and "collision_free digest (content ` (set es \<union> set fs))"
  shows "es = fs"
  using assms
proof (induction es arbitrary: fs rule: rev_induct)
  case Nil
  then show ?case by simp
next
  case (snoc e es)
  then obtain f gs where fs: "fs = gs @ [f]" by (cases fs rule: rev_cases) auto
  have eq: "stored e = stored f" using snoc.prems(3) fs by simp
  with snoc.prems(1,2) fs have digests: "digest (content e) = digest (content f)"
    by (simp add: sound_chain_snoc)
  have "content e = content f"
    by (rule inj_onD [OF snoc.prems(4) [unfolded collision_free_def] digests]) (simp_all add: fs)
  with eq have ef: "e = f" by (metis content_inj)
  have "map_option stored (last_opt es) = map_option stored (last_opt gs)"
    using snoc.prems(1,2) fs ef by (simp add: sound_chain_snoc)
  moreover have "collision_free digest (content ` (set es \<union> set gs))"
    using snoc.prems(4) unfolding collision_free_def
    by (rule inj_on_subset) (auto simp: fs)
  ultimately have "es = gs"
    using snoc.prems(1,2) fs by (intro snoc.IH) (simp_all add: sound_chain_snoc)
  with ef fs show ?case by simp
qed

lemma alteration_breaks:
  assumes "sound_chain content stored prev seqno digest es"
    and "i < length es" and "stored f = stored (es ! i)" and "content f \<noteq> content (es ! i)"
    and "collision_free digest {content f, content (es ! i)}"
  shows "\<not> sound_chain content stored prev seqno digest (es[i := f])"
proof
  assume "sound_chain content stored prev seqno digest (es[i := f])"
  then have "digest (content f) = stored f"
    by (rule chain_from_mem) (rule set_update_memI [OF assms(2)])
  also have "\<dots> = digest (content (es ! i))"
    using chain_from_mem [OF assms(1) nth_mem [OF assms(2)]] assms(3) by simp
  finally show False using assms(4,5) by (simp add: collision_free_def)
qed

end

subsection \<open>Text operations\<close>

text \<open>JavaScript white space, restricted to the 8-bit range (what \<open>trim\<close> strips and \<open>\s\<close> matches).\<close>

definition is_ws :: "char \<Rightarrow> bool" where
  "is_ws c \<longleftrightarrow> of_char c \<in> {9, 10, 11, 12, 13, 32, 160 :: nat}"

definition trim :: "string \<Rightarrow> string" where
  "trim s = rev (dropWhile is_ws (rev (dropWhile is_ws s)))"

definition is_digit :: "char \<Rightarrow> bool" where
  "is_digit c \<longleftrightarrow> 48 \<le> (of_char c :: nat) \<and> (of_char c :: nat) \<le> 57"

definition is_lower :: "char \<Rightarrow> bool" where
  "is_lower c \<longleftrightarrow> 97 \<le> (of_char c :: nat) \<and> (of_char c :: nat) \<le> 122"

definition is_upper :: "char \<Rightarrow> bool" where
  "is_upper c \<longleftrightarrow> 65 \<le> (of_char c :: nat) \<and> (of_char c :: nat) \<le> 90"

text \<open>Case mapping on the Latin letters whose counterpart is again an 8-bit character.\<close>

definition to_lower_char :: "char \<Rightarrow> char" where
  "to_lower_char c =
     (let n = of_char c :: nat in
      if (65 \<le> n \<and> n \<le> 90) \<or> (192 \<le> n \<and> n \<le> 222 \<and> n \<noteq> 215) then char_of (n + 32) else c)"

definition to_lower :: "string \<Rightarrow> string" where
  "to_lower s = map to_lower_char s"

definition to_upper_char :: "char \<Rightarrow> string" where
  "to_upper_char c =
     (let n = of_char c :: nat in
      if (97 \<le> n \<and> n \<le> 122) \<or> (224 \<le> n \<and> n \<le> 254 \<and> n \<noteq> 247) then [char_of (n - 32)]
      else if n = 223 then ''SS'' else [c])"

definition to_upper :: "string \<Rightarrow> string" where
  "to_upper s = concat (map to_upper_char s)"

text \<open>\<open>split\<close> on one character and \<open>join\<close>.\<close>

fun split_on :: "char \<Rightarrow> string \<Rightarrow> string list" where
  "split_on d [] = [[]]"
| "split_on d (c # cs) =
     (if c = d then [] # split_on d cs
      else (case split_on d cs of [] \<Rightarrow> [[c]] | w # ws \<Rightarrow> (c # w) # ws))"

fun join :: "string \<Rightarrow> string list \<Rightarrow> string" where
  "join d [] = []"
| "join d [w] = w"
| "join d (w # v # ws) = w @ d @ join d (v # ws)"

lemma split_on_not_Nil [simp]: "split_on d s \<noteq> []"
  by (induction s) (auto split: list.splits)

lemma join_Cons: "ws \<noteq> [] \<Longrightarrow> join d (w # ws) = w @ d @ join d ws"
  by (cases ws) auto

lemma join_split_on [simp]: "join [d] (split_on d s) = s"
proof (induction s)
  case Nil
  then show ?case by simp
next
  case (Cons c cs)
  show ?case
  proof (cases "c = d")
    case True
    with Cons show ?thesis by (simp add: join_Cons)
  next
    case False
    obtain w ws where w: "split_on d cs = w # ws"
      using split_on_not_Nil by (meson neq_Nil_conv)
    with False Cons show ?thesis by (cases ws) auto
  qed
qed

lemma join_snoc_empty: "ws \<noteq> [] \<Longrightarrow> join d (ws @ [[]]) = join d ws @ d"
  by (induction d ws rule: join.induct) (auto simp: join_Cons)

lemma split_on_no_sep: "w \<in> set (split_on d s) \<Longrightarrow> d \<notin> set w"
proof (induction s arbitrary: w)
  case Nil
  then show ?case by simp
next
  case (Cons c cs)
  then show ?case
    by (auto split: if_splits list.splits)
qed

lemma split_on_word: "d \<notin> set w \<Longrightarrow> split_on d w = [w]"
  by (induction w) auto

lemma split_on_append: "d \<notin> set w \<Longrightarrow> split_on d (w @ d # s) = w # split_on d s"
  by (induction w) auto

lemma split_on_join:
  "ws \<noteq> [] \<Longrightarrow> (\<And>w. w \<in> set ws \<Longrightarrow> d \<notin> set w) \<Longrightarrow> split_on d (join [d] ws) = ws"
proof (induction ws)
  case Nil
  then show ?case by simp
next
  case (Cons w ws)
  then show ?case by (cases ws) (auto simp: split_on_word split_on_append)
qed

lemma set_join: "set (join d ws) \<subseteq> (\<Union>w\<in>set ws. set w) \<union> set d"
  by (induction d ws rule: join.induct) auto

text \<open>\<open>startsWith\<close>, \<open>endsWith\<close> and \<open>slice(n)\<close>.\<close>

definition starts_with :: "string \<Rightarrow> string \<Rightarrow> bool" where
  "starts_with p s \<longleftrightarrow> take (length p) s = p"

definition ends_with :: "string \<Rightarrow> string \<Rightarrow> bool" where
  "ends_with p s \<longleftrightarrow> starts_with (rev p) (rev s)"

lemma starts_with_append [simp]: "starts_with p (p @ s)"
  by (simp add: starts_with_def)

lemma starts_withD: "starts_with p s \<Longrightarrow> s = p @ drop (length p) s"
  by (metis append_take_drop_id starts_with_def)

text \<open>Decimal text of numbers, and \<open>padStart\<close>.\<close>

fun dec :: "nat \<Rightarrow> string" where
  "dec n = (if n < 10 then [char_of (48 + n)] else dec (n div 10) @ [char_of (48 + n mod 10)])"

declare dec.simps [simp del]

definition dec_int :: "int \<Rightarrow> string" where
  "dec_int i = (if i < 0 then ''-'' @ dec (nat (- i)) else dec (nat i))"

definition pad_start :: "nat \<Rightarrow> char \<Rightarrow> string \<Rightarrow> string" where
  "pad_start n c s = replicate (n - length s) c @ s"

definition em_dash :: string where
  "em_dash = map char_of [226, 128, 148 :: nat]"

end
