(* ===== verification/Json.thy ===== *)
theory Json
  imports Prelude
begin

text \<open>
  JSON values as the code reads them: what \<open>JSON.parse\<close> returns and the
  payloads the events carry. Integers are exact; a number that is not an integer
  is kept by its text (\<open>JFrac\<close>), since no rule of the code does more with such
  a number than to see that it is a number and not equal to an integer. An object
  is its list of own properties in order.
\<close>

datatype json =
    JNull
  | JBool bool
  | JInt int
  | JFrac string
  | JStr string
  | JArr "json list"
  | JObj "(string \<times> json) list"

text \<open>\<open>v[k]\<close> for a value that passed \<open>typeof v === "object" && v !== null\<close>: undefined is None.\<close>

fun jget :: "json \<Rightarrow> string \<Rightarrow> json option" where
  "jget (JObj fs) k = map_of fs k"
| "jget _ k = None"

text \<open>The type tests of the sources.\<close>

fun is_objectish :: "json \<Rightarrow> bool" where
  "is_objectish (JObj _) = True"
| "is_objectish (JArr _) = True"
| "is_objectish _ = False"

fun as_string :: "json option \<Rightarrow> string option" where
  "as_string (Some (JStr s)) = Some s"
| "as_string _ = None"

fun as_array :: "json option \<Rightarrow> json list option" where
  "as_array (Some (JArr xs)) = Some xs"
| "as_array _ = None"

text \<open>A number: an integer, or a number that equals none.\<close>

datatype number = Whole int | Fractional string

fun as_number :: "json option \<Rightarrow> number option" where
  "as_number (Some (JInt i)) = Some (Whole i)"
| "as_number (Some (JFrac s)) = Some (Fractional s)"
| "as_number _ = None"

fun show_number :: "number \<Rightarrow> string" where
  "show_number (Whole i) = dec_int i"
| "show_number (Fractional s) = s"

text \<open>\<open>String(v ?? "")\<close> on a field: the texts the adapters switch on.\<close>

fun string_of_json :: "json \<Rightarrow> string" where
  "string_of_json JNull = ''null''"
| "string_of_json (JBool b) = (if b then ''true'' else ''false'')"
| "string_of_json (JInt i) = dec_int i"
| "string_of_json (JFrac s) = s"
| "string_of_json (JStr s) = s"
| "string_of_json (JArr xs) =
     join '','' (map (\<lambda>x. if x = JNull then [] else string_of_json x) xs)"
| "string_of_json (JObj _) = ''[object Object]''"

definition text_or_empty :: "json option \<Rightarrow> string" where
  "text_or_empty v = (case v of None \<Rightarrow> [] | Some JNull \<Rightarrow> [] | Some x \<Rightarrow> string_of_json x)"

subsection \<open>Lookup in an object literal used as a table\<close>

text \<open>
  \<open>TABLE[k]\<close> on an object literal also finds the properties every object
  inherits from \<open>Object.prototype\<close>: such a key does not give undefined.
\<close>

datatype 'a slot = Own 'a | Inherited | Missing

definition prototype_keys :: "string list" where
  "prototype_keys =
     [''constructor'', ''__defineGetter__'', ''__defineSetter__'', ''hasOwnProperty'',
      ''__lookupGetter__'', ''__lookupSetter__'', ''isPrototypeOf'', ''propertyIsEnumerable'',
      ''toString'', ''valueOf'', ''__proto__'', ''toLocaleString'']"

definition table_lookup :: "(string \<times> 'a) list \<Rightarrow> string \<Rightarrow> 'a slot" where
  "table_lookup t k =
     (case map_of t k of
        Some v \<Rightarrow> Own v
      | None \<Rightarrow> if k \<in> set prototype_keys then Inherited else Missing)"

lemma table_lookup_Own: "table_lookup t k = Own v \<longleftrightarrow> map_of t k = Some v"
  by (auto simp: table_lookup_def split: option.splits)

lemma table_lookup_Missing:
  "table_lookup t k = Missing \<longleftrightarrow> k \<notin> fst ` set t \<and> k \<notin> set prototype_keys"
  unfolding map_of_eq_None_iff [symmetric] by (simp add: table_lookup_def split: option.splits)

end
