(* ===== verification/Adapters.thy ===== *)
theory Adapters
  imports Json
begin

text \<open>
  The engine adapters (\<open>src/adapters/types.ts\<close>, \<open>codex.ts\<close>, \<open>claude.ts\<close>): a raw
  engine stream, already parsed as JSON, becomes normalised events and declared
  capture gaps. \<open>NotAKind\<close> is what a kind table gives for an item type that names a
  property every object inherits: a value that is no kind but counts as true.
\<close>

subsection \<open>Normalised events\<close>

datatype engine = Codex | Claude

datatype kind =
    RunStarted | Reasoning | Message | Command | FileChange | ToolCall | HookEvent | Usage
  | Notice | ErrorEvent | RunCompleted | NotAKind

record normalized_event =
  ne_source :: engine
  ne_kind :: kind
  ne_raw_type :: string
  ne_payload :: json

datatype capability =
    NoninteractiveRun | StreamedJsonEvents | FinalStructuredOutput | ShellCommandExecution
  | FileChanges | ToolApprovals | McpActivity | BrowserActions | SubagentLifecycle | TokenContextUsage

datatype capture_level = Full | Partial | NoCapture

record capture_gap =
  gap_capability :: capability
  gap_level :: capture_level
  gap_note :: string

record adapter_result =
  ar_engine :: engine
  ar_events :: "normalized_event list"
  ar_capture_gaps :: "capture_gap list"
  ar_unmapped :: "string list"

record adapter_state =
  as_events :: "normalized_event list"
  as_unmapped :: "string list"
  as_last :: string

definition adapter_start :: adapter_state where
  "adapter_start = \<lparr>as_events = [], as_unmapped = [], as_last = []\<rparr>"

definition emit :: "engine \<Rightarrow> kind \<Rightarrow> string \<Rightarrow> json \<Rightarrow> adapter_state \<Rightarrow> adapter_state" where
  "emit eng k raw_type p st =
     st\<lparr>as_events := as_events st @
        [\<lparr>ne_source = eng, ne_kind = k, ne_raw_type = raw_type, ne_payload = p\<rparr>]\<rparr>"

definition unmapped :: "string \<Rightarrow> adapter_state \<Rightarrow> adapter_state" where
  "unmapped t st = st\<lparr>as_unmapped := as_unmapped st @ [t]\<rparr>"

definition gap :: "capability \<Rightarrow> capture_level \<Rightarrow> string \<Rightarrow> capture_gap" where
  "gap c l n = \<lparr>gap_capability = c, gap_level = l, gap_note = n\<rparr>"

definition or_null :: "json option \<Rightarrow> json" where
  "or_null v = (case v of None \<Rightarrow> JNull | Some w \<Rightarrow> w)"

subsection \<open>Codex\<close>

definition ITEM_KIND :: "(string \<times> kind) list" where
  "ITEM_KIND =
     [(''agent_message'', Message),
      (''reasoning'', Reasoning),
      (''command_execution'', Command),
      (''file_change'', FileChange),
      (''mcp_tool_call'', ToolCall),
      (''collab_tool_call'', ToolCall),
      (''web_search'', ToolCall),
      (''todo_list'', Notice),
      (''error'', Notice)]"

definition CODEX_GAPS :: "capture_gap list" where
  "CODEX_GAPS =
     [gap NoninteractiveRun Full ''codex exec headless run.'',
      gap StreamedJsonEvents Full ''codex exec --json JSONL event stream.'',
      gap FinalStructuredOutput Full ''--output-schema constrained final response.'',
      gap ShellCommandExecution Full ''command_execution items are emitted in the event stream.'',
      gap FileChanges Partial
        ''engine self-report; shell-level mutations invisible (no file_change item for bare shell rm/mv).'',
      gap ToolApprovals Partial
        ''sandbox denials surface as error items; explicit approval binding is partial.'',
      gap McpActivity Full ''mcp_tool_call items are emitted.'',
      gap BrowserActions Partial ''only via tool items; require browser evidence.'',
      gap SubagentLifecycle Partial ''not distinctly emitted in exec JSON in this version.'',
      gap TokenContextUsage Full ''usage on turn.completed.'']"

definition string_field :: "json \<Rightarrow> string \<Rightarrow> (string \<times> json) list" where
  "string_field v k = (case jget v k of Some (JStr s) \<Rightarrow> [(k, JStr s)] | _ \<Rightarrow> [])"

definition number_field :: "json \<Rightarrow> string \<Rightarrow> (string \<times> json) list" where
  "number_field v k =
     (case jget v k of
        Some (JInt i) \<Rightarrow> [(k, JInt i)] | Some (JFrac s) \<Rightarrow> [(k, JFrac s)] | _ \<Rightarrow> [])"

definition change_entry :: "json \<Rightarrow> json list" where
  "change_entry c =
     (if \<not> is_objectish c then []
      else (case jget c ''path'' of
              Some (JStr p) \<Rightarrow> [JObj ((''path'', JStr p) # string_field c ''kind'')]
            | _ \<Rightarrow> []))"

definition itemPayload :: "string \<Rightarrow> json \<Rightarrow> json" where
  "itemPayload itemType item =
     JObj ((''item_type'', JStr itemType) #
       (if itemType = ''command_execution'' then
          string_field item ''command'' @ number_field item ''exit_code'' @ string_field item ''status''
        else if itemType = ''file_change'' then
          string_field item ''status'' @
          [(''changes'', JArr (concat (map change_entry
              (case as_array (jget item ''changes'') of None \<Rightarrow> [] | Some cs \<Rightarrow> cs))))]
        else []))"

definition codex_item :: "json \<Rightarrow> adapter_state \<Rightarrow> adapter_state" where
  "codex_item e st =
     (let item = or_null (jget e ''item'');
          itemType = (if is_objectish item then text_or_empty (jget item ''type'') else []);
          raw = ''item.completed:'' @ itemType
      in (case table_lookup ITEM_KIND itemType of
            Own k \<Rightarrow> emit Codex k raw (itemPayload itemType item) st
          | Inherited \<Rightarrow> emit Codex NotAKind raw (itemPayload itemType item) st
          | Missing \<Rightarrow> unmapped raw st))"

definition codex_step :: "adapter_state \<Rightarrow> json \<Rightarrow> adapter_state" where
  "codex_step st e =
     (if \<not> is_objectish e then st
      else
        (let t = text_or_empty (jget e ''type'');
             s = st\<lparr>as_last := t\<rparr>
         in if t = ''thread.started'' then emit Codex RunStarted t (JObj []) s
            else if t = ''turn.started'' then s
            else if t = ''item.started'' \<or> t = ''item.updated'' then s
            else if t = ''item.completed'' then codex_item e s
            else if t = ''turn.completed'' then
              emit Codex Usage t (JObj [(''available'', JBool (jget e ''usage'' \<noteq> None)),
                (''source'', JStr ''turn.completed'')]) s
            else if t = ''turn.failed'' \<or> t = ''error'' then emit Codex ErrorEvent t (JObj []) s
            else if t \<noteq> [] then unmapped t s
            else s))"

definition codex_normalize :: "json list \<Rightarrow> adapter_result" where
  "codex_normalize rawEvents =
     (let st = foldl codex_step adapter_start rawEvents;
          fin = (if as_last st = ''turn.completed'' then emit Codex RunCompleted ''stream.end'' (JObj []) st
                 else st)
      in \<lparr>ar_engine = Codex, ar_events = as_events fin, ar_capture_gaps = CODEX_GAPS,
          ar_unmapped = sort (uniq (as_unmapped fin))\<rparr>)"

subsection \<open>Claude Code\<close>

definition COMMAND_TOOLS :: "string list" where
  "COMMAND_TOOLS = [''Bash'']"

definition FILE_TOOLS :: "string list" where
  "FILE_TOOLS = [''Edit'', ''Write'', ''MultiEdit'', ''NotebookEdit'']"

definition CLAUDE_GAPS :: "capture_gap list" where
  "CLAUDE_GAPS =
     [gap NoninteractiveRun Full ''claude -p headless run.'',
      gap StreamedJsonEvents Full ''--output-format stream-json.'',
      gap FinalStructuredOutput Full ''--json-schema constrained output.'',
      gap ShellCommandExecution Partial
        ''Inferred from Bash tool_use + PostToolUse hooks; require command/filesystem evidence for strong claims.'',
      gap FileChanges Partial
        ''Inferred from Edit/Write tool_use + hooks; verify with filesystem hashes.'',
      gap ToolApprovals Partial
        ''permission_denials + permissionMode in result/init; no per-call approval binding in the stream.'',
      gap McpActivity Partial
        ''mcp_servers listed in init config (redacted); MCP tool calls appear as tool_use.'',
      gap BrowserActions Partial
        ''Only via tool_use events; require browser evidence for browser claims.'',
      gap SubagentLifecycle Partial
        ''TaskCreated/TaskCompleted hook events when --include-hook-events.'',
      gap TokenContextUsage Full ''usage + total_cost_usd in the result event.'']"

definition copied :: "json \<Rightarrow> (string \<times> string) list \<Rightarrow> json" where
  "copied e ks = JObj (map (\<lambda>(k, from). (k, or_null (jget e from))) ks)"

definition claude_system :: "json \<Rightarrow> adapter_state \<Rightarrow> adapter_state" where
  "claude_system e st =
     (let subtype = text_or_empty (jget e ''subtype'') in
      if subtype = ''init'' then
        emit Claude RunStarted ''system:init''
          (copied e [(''engine_version'', ''claude_code_version''), (''permission_mode'', ''permissionMode'')]) st
      else if starts_with ''hook'' subtype then
        emit Claude HookEvent (''system:'' @ subtype)
          (copied e [(''hook_event'', ''hook_event''), (''hook_name'', ''hook_name''),
             (''outcome'', ''outcome''), (''exit_code'', ''exit_code'')]) st
      else if subtype = ''api_retry'' then
        emit Claude Notice ''system:api_retry''
          (JObj [(''notice'', JStr ''api_retry''), (''error_status'', or_null (jget e ''error_status''))]) st
      else if subtype = ''plugin_install'' then
        emit Claude Notice ''system:plugin_install''
          (JObj [(''notice'', JStr ''plugin_install''), (''status'', or_null (jget e ''status''))]) st
      else unmapped (''system:'' @ subtype) st)"

definition claude_block :: "adapter_state \<Rightarrow> json \<Rightarrow> adapter_state" where
  "claude_block st b =
     (if \<not> is_objectish b then st
      else
        (let btype = text_or_empty (jget b ''type'') in
         if btype = ''text'' then
           emit Claude Message ''assistant.text''
             (JObj [(''text_len'',
                JInt (case jget b ''text'' of Some (JStr s) \<Rightarrow> int (length s) | _ \<Rightarrow> 0))]) st
         else if btype = ''tool_use'' then
           (let name = text_or_empty (jget b ''name'');
                k = (if name \<in> set COMMAND_TOOLS then Command
                     else if name \<in> set FILE_TOOLS then FileChange else ToolCall)
            in emit Claude k ''assistant.tool_use'' (JObj [(''tool'', JStr name)]) st)
         else unmapped (''assistant.content:'' @ btype) st))"

definition claude_content :: "json \<Rightarrow> json list" where
  "claude_content e =
     (let message = or_null (jget e ''message'') in
      if is_objectish message then
        (case as_array (jget message ''content'') of Some bs \<Rightarrow> bs | None \<Rightarrow> [])
      else [])"

definition claude_step :: "adapter_state \<Rightarrow> json \<Rightarrow> adapter_state" where
  "claude_step st e =
     (if \<not> is_objectish e then st
      else
        (let t = text_or_empty (jget e ''type'') in
         if t = ''system'' then claude_system e st
         else if t = ''assistant'' then foldl claude_block st (claude_content e)
         else if t = ''result'' then
           emit Claude Usage ''result''
             (JObj [(''available'', JBool (jget e ''usage'' \<noteq> None \<or> jget e ''total_cost_usd'' \<noteq> None)),
                (''source'', JStr ''result'')])
             (emit Claude RunCompleted ''result''
               (copied e [(''subtype'', ''subtype''), (''is_error'', ''is_error''),
                  (''stop_reason'', ''stop_reason''), (''num_turns'', ''num_turns'')]) st)
         else if t = ''user'' then unmapped ''user'' st
         else if t = ''stream_event'' then st
         else if t \<noteq> [] then unmapped t st
         else st))"

definition claude_normalize :: "json list \<Rightarrow> adapter_result" where
  "claude_normalize rawEvents =
     (let st = foldl claude_step adapter_start rawEvents in
      \<lparr>ar_engine = Claude, ar_events = as_events st, ar_capture_gaps = CLAUDE_GAPS,
       ar_unmapped = sort (uniq (as_unmapped st))\<rparr>)"

subsection \<open>One completion per Codex stream\<close>

definition completions :: "normalized_event list \<Rightarrow> nat" where
  "completions es = length (filter (\<lambda>e. ne_kind e = RunCompleted) es)"

lemma completions_snoc [simp]:
  "completions (es @ [e]) = completions es + (if ne_kind e = RunCompleted then 1 else 0)"
  by (simp add: completions_def)

lemma emit_simps [simp]:
  "as_events (emit eng k r p st) =
     as_events st @ [\<lparr>ne_source = eng, ne_kind = k, ne_raw_type = r, ne_payload = p\<rparr>]"
  "as_last (emit eng k r p st) = as_last st" "as_unmapped (emit eng k r p st) = as_unmapped st"
  "as_events (unmapped t st) = as_events st" "as_last (unmapped t st) = as_last st"
  "as_unmapped (unmapped t st) = as_unmapped st @ [t]"
  by (simp_all add: emit_def unmapped_def)

lemma item_kind_not_completed: "table_lookup ITEM_KIND t = Own k \<Longrightarrow> k \<noteq> RunCompleted"
  unfolding table_lookup_Own by (drule map_of_SomeD) (auto simp: ITEM_KIND_def)

lemma codex_item_completions: "completions (as_events (codex_item e st)) = completions (as_events st)"
  by (auto simp: codex_item_def Let_def split: slot.splits dest: item_kind_not_completed)

lemma codex_item_last: "as_last (codex_item e st) = as_last st"
  by (simp add: codex_item_def Let_def split: slot.splits)

lemma codex_step_completions: "completions (as_events (codex_step st e)) = completions (as_events st)"
  by (simp add: codex_step_def Let_def codex_item_completions)

lemma codex_step_last:
  "as_last (codex_step st e) = (if is_objectish e then text_or_empty (jget e ''type'') else as_last st)"
  by (simp add: codex_step_def Let_def codex_item_last)

lemma codex_fold_completions:
  "completions (as_events (foldl codex_step st es)) = completions (as_events st)"
  by (induction es arbitrary: st) (simp_all add: codex_step_completions)

text \<open>The type of the last event that is an object, or the given one.\<close>

definition last_type :: "json list \<Rightarrow> string" where
  "last_type es =
     (case last_opt (filter is_objectish es) of None \<Rightarrow> [] | Some e \<Rightarrow> text_or_empty (jget e ''type''))"

lemma codex_fold_last: "as_last (foldl codex_step adapter_start es) = last_type es"
proof (induction es rule: rev_induct)
  case Nil
  then show ?case by (simp add: adapter_start_def last_type_def)
next
  case (snoc e es)
  then show ?case by (simp add: codex_step_last last_type_def)
qed

text \<open>
  A Codex stream is reported as completed at most once, and exactly when its last
  event is a completed turn: a stream that ends in a failure or an error, or is cut off
  within a turn, yields no completion.
\<close>

theorem codex_completion_iff:
  "completions (ar_events (codex_normalize es)) = (if last_type es = ''turn.completed'' then 1 else 0)"
  by (simp add: codex_normalize_def Let_def codex_fold_last codex_fold_completions)
    (simp add: adapter_start_def completions_def)

text \<open>
  An item type that names an inherited object property reaches the stream as an event
  with no kind instead of being listed as unmapped; every other unknown item type is listed.
\<close>

theorem codex_unknown_item_type:
  assumes "t \<notin> fst ` set ITEM_KIND" and "st' = codex_item (JObj [(''item'', JObj [(''type'', JStr t)])]) st"
  shows "if t \<in> set prototype_keys
    then as_events st' = as_events st @
        [\<lparr>ne_source = Codex, ne_kind = NotAKind, ne_raw_type = ''item.completed:'' @ t,
          ne_payload = JObj [(''item_type'', JStr t)]\<rparr>] \<and> as_unmapped st' = as_unmapped st
    else as_events st' = as_events st \<and> as_unmapped st' = as_unmapped st @ [''item.completed:'' @ t]"
proof -
  have "map_of ITEM_KIND t = None" using assms(1) by (simp add: map_of_eq_None_iff)
  moreover have "t \<noteq> ''command_execution''" "t \<noteq> ''file_change''"
    using assms(1) by (auto simp: ITEM_KIND_def)
  ultimately show ?thesis
    by (simp add: assms(2) codex_item_def Let_def or_null_def text_or_empty_def table_lookup_def
        itemPayload_def)
qed

theorem codex_unknown_item_type_witness:
  "as_events (codex_item (JObj [(''item'', JObj [(''type'', JStr ''constructor'')])]) adapter_start) =
     as_events adapter_start @
        [\<lparr>ne_source = Codex, ne_kind = NotAKind, ne_raw_type = ''item.completed:'' @ ''constructor'',
          ne_payload = JObj [(''item_type'', JStr ''constructor'')]\<rparr>] \<and>
   as_unmapped (codex_item (JObj [(''item'', JObj [(''type'', JStr ''constructor'')])]) adapter_start) =
     as_unmapped adapter_start"
proof -
  have "''constructor'' \<notin> fst ` set ITEM_KIND" "''constructor'' \<in> set prototype_keys"
    by code_simp+
  then show ?thesis using codex_unknown_item_type [OF _ refl, of "''constructor''" adapter_start] by simp
qed

subsection \<open>What each engine's gaps declare\<close>

lemma claude_events_claude:
  "\<forall>e\<in>set (as_events st). ne_source e = Claude \<Longrightarrow>
     \<forall>e\<in>set (as_events (claude_step st raw)). ne_source e = Claude"
proof -
  assume *: "\<forall>e\<in>set (as_events st). ne_source e = Claude"
  have "\<forall>e\<in>set (as_events (foldl claude_block st' bs)). ne_source e = Claude"
    if "\<forall>e\<in>set (as_events st'). ne_source e = Claude" for st' bs
    using that
  proof (induction bs arbitrary: st')
    case Nil
    then show ?case by simp
  next
    case (Cons b bs)
    have "\<forall>e\<in>set (as_events (claude_block st' b)). ne_source e = Claude"
      using Cons.prems by (simp add: claude_block_def Let_def)
    then show ?case using Cons.IH by simp
  qed
  with * show ?thesis by (simp add: claude_step_def claude_system_def Let_def)
qed

end
