(* ===== verification/Regex.thy ===== *)
theory Regex
  imports Prelude
begin

text \<open>
  The part of JavaScript regular expressions that the sources use: anchored
  patterns over character classes with concatenation, alternatives and
  repetition, tested against a whole string (\<open>/^...$/.test(s)\<close>). A pattern
  is a value of type \<open>re\<close>, its meaning is the set of strings \<open>lang\<close>, and
  \<open>re_test\<close> decides membership by taking residuals character by character.
\<close>

subsection \<open>Patterns\<close>

datatype cclass =
    Only char
  | NotSlash            \<comment> \<open>the class \<open>[^/]\<close>\<close>
  | AnyDot              \<comment> \<open>the dot: any character but a line terminator\<close>
  | Among "char list"   \<comment> \<open>an enumerated class\<close>
  | Span nat nat        \<comment> \<open>a range of code units\<close>

datatype re =
    RNone
  | REps
  | RChr cclass
  | RSeq re re
  | RAlt re re
  | RStar re

definition line_end :: "char \<Rightarrow> bool" where
  "line_end c \<longleftrightarrow> of_char c = (10 :: nat) \<or> of_char c = (13 :: nat)"

fun in_class :: "cclass \<Rightarrow> char \<Rightarrow> bool" where
  "in_class (Only d) c \<longleftrightarrow> c = d"
| "in_class NotSlash c \<longleftrightarrow> c \<noteq> CHR ''/''"
| "in_class AnyDot c \<longleftrightarrow> \<not> line_end c"
| "in_class (Among ds) c \<longleftrightarrow> c \<in> set ds"
| "in_class (Span lo hi) c \<longleftrightarrow> lo \<le> of_char c \<and> of_char c \<le> hi"

definition RPlus :: "re \<Rightarrow> re" where
  "RPlus r = RSeq r (RStar r)"

definition ROpt :: "re \<Rightarrow> re" where
  "ROpt r = RAlt r REps"

fun RTimes :: "nat \<Rightarrow> re \<Rightarrow> re" where
  "RTimes 0 r = REps"
| "RTimes (Suc n) r = RSeq r (RTimes n r)"

fun RText :: "string \<Rightarrow> re" where
  "RText [] = REps"
| "RText (c # cs) = RSeq (RChr (Only c)) (RText cs)"

subsection \<open>Meaning\<close>

inductive_set iterate :: "string set \<Rightarrow> string set" for A where
  iterate_empty: "[] \<in> iterate A"
| iterate_more: "u \<in> A \<Longrightarrow> v \<in> iterate A \<Longrightarrow> u @ v \<in> iterate A"

primrec lang :: "re \<Rightarrow> string set" where
  "lang RNone = {}"
| "lang REps = {[]}"
| "lang (RChr k) = {[c] | c. in_class k c}"
| "lang (RSeq r q) = {u @ v | u v. u \<in> lang r \<and> v \<in> lang q}"
| "lang (RAlt r q) = lang r \<union> lang q"
| "lang (RStar r) = iterate (lang r)"

subsection \<open>The matcher\<close>

primrec has_empty :: "re \<Rightarrow> bool" where
  "has_empty RNone = False"
| "has_empty REps = True"
| "has_empty (RChr k) = False"
| "has_empty (RSeq r q) = (has_empty r \<and> has_empty q)"
| "has_empty (RAlt r q) = (has_empty r \<or> has_empty q)"
| "has_empty (RStar r) = True"

definition mk_seq :: "re \<Rightarrow> re \<Rightarrow> re" where
  "mk_seq r q = (if r = RNone \<or> q = RNone then RNone else if r = REps then q else RSeq r q)"

definition mk_alt :: "re \<Rightarrow> re \<Rightarrow> re" where
  "mk_alt r q = (if r = RNone then q else if q = RNone \<or> r = q then r else RAlt r q)"

primrec residual :: "char \<Rightarrow> re \<Rightarrow> re" where
  "residual c RNone = RNone"
| "residual c REps = RNone"
| "residual c (RChr k) = (if in_class k c then REps else RNone)"
| "residual c (RSeq r q) =
     (let l = mk_seq (residual c r) q in if has_empty r then mk_alt l (residual c q) else l)"
| "residual c (RAlt r q) = mk_alt (residual c r) (residual c q)"
| "residual c (RStar r) = mk_seq (residual c r) (RStar r)"

primrec re_test :: "re \<Rightarrow> string \<Rightarrow> bool" where
  "re_test r [] = has_empty r"
| "re_test r (c # cs) = re_test (residual c r) cs"

subsection \<open>The matcher decides membership\<close>

lemma has_empty_lang: "has_empty r \<longleftrightarrow> [] \<in> lang r"
  by (induction r) (auto intro: iterate_empty)

lemma lang_mk_seq [simp]: "lang (mk_seq r q) = lang (RSeq r q)"
  by (auto simp: mk_seq_def)

lemma lang_mk_alt [simp]: "lang (mk_alt r q) = lang (RAlt r q)"
  by (auto simp: mk_alt_def)

lemma iterate_Cons:
  "c # s \<in> iterate A \<longleftrightarrow> (\<exists>u v. s = u @ v \<and> c # u \<in> A \<and> v \<in> iterate A)"
proof
  assume "c # s \<in> iterate A"
  then show "\<exists>u v. s = u @ v \<and> c # u \<in> A \<and> v \<in> iterate A"
  proof (induction "c # s" rule: iterate.induct)
    case (iterate_more u v)
    show ?case
    proof (cases u)
      case Nil
      with iterate_more show ?thesis by simp
    next
      case (Cons d u')
      with iterate_more.hyps have "s = u' @ v" and "c # u' \<in> A" by auto
      with iterate_more.hyps(2) show ?thesis by blast
    qed
  qed
next
  assume "\<exists>u v. s = u @ v \<and> c # u \<in> A \<and> v \<in> iterate A"
  then show "c # s \<in> iterate A"
    by (elim exE conjE) (simp add: iterate_more flip: append_Cons)
qed

lemma lang_residual: "s \<in> lang (residual c r) \<longleftrightarrow> c # s \<in> lang r"
proof (induction r arbitrary: s)
  case (RSeq r q)
  have "c # s \<in> lang (RSeq r q) \<longleftrightarrow>
      (\<exists>u v. s = u @ v \<and> c # u \<in> lang r \<and> v \<in> lang q) \<or> ([] \<in> lang r \<and> c # s \<in> lang q)"
    (is "?l = (?m \<or> ?n)")
  proof
    assume ?l
    then obtain u v where uv: "c # s = u @ v" "u \<in> lang r" "v \<in> lang q" by auto
    then show "?m \<or> ?n" by (cases u) auto
  next
    assume "?m \<or> ?n"
    then show ?l
    proof
      assume ?m
      then obtain u v where "c # s = (c # u) @ v" "c # u \<in> lang r" "v \<in> lang q" by auto
      then show ?l unfolding lang.simps(4) by blast
    next
      assume ?n
      then have "c # s = [] @ (c # s)" "[] \<in> lang r" "c # s \<in> lang q" by simp_all
      then show ?l unfolding lang.simps(4) by blast
    qed
  qed
  with RSeq show ?case
    by (auto simp: Let_def has_empty_lang)
next
  case (RStar r)
  then show ?case by (auto simp: iterate_Cons)
qed auto

lemma re_test_lang: "re_test r s \<longleftrightarrow> s \<in> lang r"
  by (induction s arbitrary: r) (simp_all add: has_empty_lang lang_residual)

lemma lang_SeqI: "u \<in> lang r \<Longrightarrow> v \<in> lang q \<Longrightarrow> u @ v \<in> lang (RSeq r q)"
  unfolding lang.simps(4) by blast

lemma lang_SeqE:
  assumes "s \<in> lang (RSeq r q)"
  obtains u v where "s = u @ v" and "u \<in> lang r" and "v \<in> lang q"
  using assms unfolding lang.simps(4) by blast

lemma lang_Seq_Nil: "[] \<in> lang r \<Longrightarrow> s \<in> lang q \<Longrightarrow> s \<in> lang (RSeq r q)"
  using lang_SeqI [of "[]"] by simp

lemma lang_class_Cons:
  "s \<in> lang (RSeq (RChr k) r) \<longleftrightarrow> (\<exists>c cs. s = c # cs \<and> in_class k c \<and> cs \<in> lang r)"
proof
  assume "s \<in> lang (RSeq (RChr k) r)"
  then show "\<exists>c cs. s = c # cs \<and> in_class k c \<and> cs \<in> lang r"
    by (rule lang_SeqE) auto
next
  assume "\<exists>c cs. s = c # cs \<and> in_class k c \<and> cs \<in> lang r"
  then obtain c cs where "s = [c] @ cs" "[c] \<in> lang (RChr k)" "cs \<in> lang r" by auto
  then show "s \<in> lang (RSeq (RChr k) r)" using lang_SeqI by blast
qed

lemma lang_Only_Seq: "lang (RSeq (RChr (Only c)) r) = (#) c ` lang r"
  using lang_class_Cons [of _ "Only c" r] by (intro set_eqI) (simp only: image_iff in_class.simps, blast)

subsection \<open>Languages of the derived forms\<close>

lemma lang_RText [simp]: "lang (RText s) = {s}"
  by (induction s) auto

lemma iterate_chars:
  "iterate {[c] | c. P c} = {s. \<forall>c\<in>set s. P c}"
proof (intro set_eqI iffI)
  fix s assume "s \<in> iterate {[c] | c. P c}"
  then show "s \<in> {s. \<forall>c\<in>set s. P c}" by induction auto
next
  fix s assume "s \<in> {s. \<forall>c\<in>set s. P c}"
  then show "s \<in> iterate {[c] | c. P c}"
  proof (induction s)
    case Nil
    show ?case by (rule iterate_empty)
  next
    case (Cons c s)
    then have "[c] @ s \<in> iterate {[c] | c. P c}" by (intro iterate_more) auto
    then show ?case by simp
  qed
qed

lemma lang_star_class: "lang (RStar (RChr k)) = {s. \<forall>c\<in>set s. in_class k c}"
  by (simp add: iterate_chars)

lemma lang_plus_class: "lang (RPlus (RChr k)) = {s. s \<noteq> [] \<and> (\<forall>c\<in>set s. in_class k c)}"
proof -
  have "s \<in> lang (RPlus (RChr k)) \<longleftrightarrow> s \<noteq> [] \<and> (\<forall>c\<in>set s. in_class k c)" for s
  proof
    assume "s \<in> lang (RPlus (RChr k))"
    then show "s \<noteq> [] \<and> (\<forall>c\<in>set s. in_class k c)"
      by (auto simp: RPlus_def lang_star_class simp del: lang.simps(6))
  next
    assume *: "s \<noteq> [] \<and> (\<forall>c\<in>set s. in_class k c)"
    then have "s = [hd s] @ tl s" "[hd s] \<in> lang (RChr k)" "tl s \<in> lang (RStar (RChr k))"
      by (auto simp: lang_star_class dest: list.set_sel(2) simp del: lang.simps(6))
    then show "s \<in> lang (RPlus (RChr k))" unfolding RPlus_def lang.simps(4) by blast
  qed
  then show ?thesis by blast
qed

end
