(* ===== verification/Scalars.thy ===== *)
theory Scalars
  imports Regex Json
begin

text \<open>
  The shared scalar contracts (\<open>src/schema/scalars.ts\<close>): identifiers, versions,
  hashes, run-relative paths and risk tiers, as tests on strings, and the reading of
  required, nullable and array fields that the schemas are made of. The time stamp
  test \<open>z.iso.datetime\<close> belongs to the schema library and is a parameter.
\<close>

abbreviation lower_char :: re where "lower_char \<equiv> RChr (Span 97 122)"
abbreviation digit_char :: re where "digit_char \<equiv> RChr (Span 48 57)"
abbreviation token_char :: re where "token_char \<equiv> RAlt (RChr (Span 97 122)) (RChr (Span 48 57))"

definition HumanId :: "string \<Rightarrow> bool" where
  "HumanId = re_test
     (RSeq (RPlus token_char) (RStar (RSeq (RChr (Only (CHR ''-''))) (RPlus token_char))))"

definition MachineId :: "string \<Rightarrow> bool" where
  "MachineId = re_test
     (RSeq (RPlus lower_char)
       (RSeq (RChr (Only (CHR ''_'')))
         (RSeq (RPlus token_char) (RStar (RSeq (RChr (Only (CHR ''_''))) (RPlus token_char))))))"

definition SchemaVersion :: "string \<Rightarrow> bool" where
  "SchemaVersion = re_test (RSeq (RPlus digit_char) (RSeq (RChr (Only (CHR ''.''))) (RPlus digit_char)))"

definition LoopVersion :: "string \<Rightarrow> bool" where
  "LoopVersion = re_test (RSeq (RChr (Only (CHR ''v''))) (RTimes 3 digit_char))"

definition Hash :: "string \<Rightarrow> bool" where
  "Hash = re_test
     (RSeq (RText ''sha256:'') (RTimes 64 (RAlt (RChr (Span 48 57)) (RChr (Span 97 102)))))"

text \<open>A digest test without the matcher, for evaluation.\<close>

lemma lang_RTimes_class:
  "lang r = {[c] | c. P c} \<Longrightarrow> s \<in> lang (RTimes n r) \<longleftrightarrow> length s = n \<and> list_all P s"
proof (induction n arbitrary: s)
  case 0
  then show ?case by auto
next
  case (Suc n)
  have "s \<in> lang (RTimes (Suc n) r) \<longleftrightarrow> (\<exists>c cs. s = [c] @ cs \<and> P c \<and> cs \<in> lang (RTimes n r))"
    unfolding RTimes.simps lang.simps(4) Suc.prems by blast
  then show ?case using Suc.IH [OF Suc.prems] by (cases s) auto
qed

lemma lang_RText_Seq: "s \<in> lang (RSeq (RText t) r) \<longleftrightarrow> starts_with t s \<and> drop (length t) s \<in> lang r"
proof
  assume "s \<in> lang (RSeq (RText t) r)"
  then show "starts_with t s \<and> drop (length t) s \<in> lang r" by auto
next
  assume "starts_with t s \<and> drop (length t) s \<in> lang r"
  then have "s = t @ drop (length t) s" "drop (length t) s \<in> lang r" by (auto dest: starts_withD)
  then show "s \<in> lang (RSeq (RText t) r)" by (metis lang_RText lang_SeqI singletonI)
qed

lemma Hash_code [code]:
  "Hash s \<longleftrightarrow> starts_with ''sha256:'' s \<and> length s = 71 \<and>
     list_all (\<lambda>c. in_class (Span 48 57) c \<or> in_class (Span 97 102) c) (drop 7 s)"
proof -
  have "lang (RAlt (RChr (Span 48 57)) (RChr (Span 97 102))) =
      {[c] | c. in_class (Span 48 57) c \<or> in_class (Span 97 102) c}"
    by auto
  note digits = lang_RTimes_class [OF this]
  have "length ''sha256:'' = 7" by simp
  moreover have "length (drop 7 s) = 64 \<longleftrightarrow> length s = 71" by auto
  ultimately show ?thesis
    unfolding Hash_def re_test_lang lang_RText_Seq digits by (simp only: conj_assoc)
qed

definition windows_drive :: "string \<Rightarrow> bool" where
  "windows_drive p =
     (case p of
        a # b # _ \<Rightarrow> (is_lower a \<or> is_upper a) \<and> b = CHR '':''
      | _ \<Rightarrow> False)"

text \<open>\<open>p.split(/[\\/]/)\<close> cuts at both kinds of slash.\<close>

definition backslash :: char where "backslash = CHR 0x5C"

definition split_slashes :: "string \<Rightarrow> string list" where
  "split_slashes p = concat (map (split_on backslash) (split_on (CHR ''/'') p))"

definition RelativeRunPath :: "string \<Rightarrow> bool" where
  "RelativeRunPath p \<longleftrightarrow>
     \<not> (starts_with ''/'' p \<or> starts_with [backslash] p) \<and>
     \<not> windows_drive p \<and>
     ''..'' \<notin> set (split_slashes p)"

definition RiskTier :: "string list" where
  "RiskTier = [''T0'', ''T1'', ''T2'', ''T3a'', ''T3b'', ''T3c'', ''T3d'', ''T4'', ''T5'']"

definition RiskTierV1 :: "string list" where
  "RiskTierV1 = [''T0'', ''T1'', ''T2'', ''T3a'', ''T3b'', ''T3c'', ''T3d'', ''T4'']"

lemma RiskTierV1_no_T5: "t \<in> set RiskTierV1 \<longleftrightarrow> t \<in> set RiskTier \<and> t \<noteq> ''T5''"
  by (auto simp: RiskTierV1_def RiskTier_def)

subsection \<open>Fields of an object under a schema\<close>

definition MAX_SAFE_INTEGER :: int where "MAX_SAFE_INTEGER = 9007199254740991"

definition isSafeInteger :: "int \<Rightarrow> bool" where
  "isSafeInteger n \<longleftrightarrow> - MAX_SAFE_INTEGER \<le> n \<and> n \<le> MAX_SAFE_INTEGER"

definition field_string :: "(string \<Rightarrow> bool) \<Rightarrow> json \<Rightarrow> string \<Rightarrow> string option" where
  "field_string ok v k =
     (case jget v k of Some (JStr s) \<Rightarrow> if ok s then Some s else None | _ \<Rightarrow> None)"

definition field_nullable :: "(string \<Rightarrow> bool) \<Rightarrow> json \<Rightarrow> string \<Rightarrow> string option option" where
  "field_nullable ok v k =
     (case jget v k of
        Some JNull \<Rightarrow> Some None
      | Some (JStr s) \<Rightarrow> if ok s then Some (Some s) else None
      | _ \<Rightarrow> None)"

definition field_int :: "int \<Rightarrow> json \<Rightarrow> string \<Rightarrow> int option" where
  "field_int lo v k =
     (case jget v k of Some (JInt n) \<Rightarrow> if lo \<le> n \<and> isSafeInteger n then Some n else None | _ \<Rightarrow> None)"

definition field_object :: "json \<Rightarrow> string \<Rightarrow> json option" where
  "field_object v k = (case jget v k of Some (JObj fs) \<Rightarrow> Some (JObj fs) | _ \<Rightarrow> None)"

fun all_strings :: "json list \<Rightarrow> string list option" where
  "all_strings [] = Some []"
| "all_strings (JStr s # vs) = map_option ((#) s) (all_strings vs)"
| "all_strings (_ # vs) = None"

definition field_strings :: "json \<Rightarrow> string \<Rightarrow> string list option" where
  "field_strings v k = (case jget v k of Some (JArr vs) \<Rightarrow> all_strings vs | _ \<Rightarrow> None)"

text \<open>A strict object schema refuses unknown keys.\<close>

fun keys_within :: "string list \<Rightarrow> json \<Rightarrow> bool" where
  "keys_within ks (JObj fs) = list_all (\<lambda>f. fst f \<in> set ks) fs"
| "keys_within ks _ = False"

lemma all_strings_JStr [simp]: "all_strings (map JStr ss) = Some ss"
  by (induction ss) auto

text \<open>A run-relative path never names a parent directory, whichever slash separates it.\<close>

theorem RelativeRunPath_no_escape:
  assumes "RelativeRunPath p"
  shows "\<not> starts_with ''/'' p \<and> ''..'' \<notin> set (split_on (CHR ''/'') p)"
proof -
  have "''..'' \<in> set (split_slashes p)" if "''..'' \<in> set (split_on (CHR ''/'') p)"
    using that unfolding split_slashes_def
    by (force intro: bexI [where x = "''..''"] simp: backslash_def)
  with assms show ?thesis unfolding RelativeRunPath_def by blast
qed

theorem RelativeRunPath_no_escape_witness:
  "\<not> starts_with ''/'' ''runs/a/report.md'' \<and>
   ''..'' \<notin> set (split_on (CHR ''/'') ''runs/a/report.md'')"
  by (rule RelativeRunPath_no_escape) code_simp

end
