(* ===== verification/Gates.thy ===== *)
theory Gates
  imports Scalars
begin

text \<open>
  The gate engine (\<open>src/gates.ts\<close>) and the record checks on gate results and
  findings (\<open>src/schema/evidence.ts\<close>). A context may be malformed at run time, so
  the parts the code tests before use are options: None is a value of another type.
\<close>

subsection \<open>Gates and their context\<close>

datatype gate_status = PASS | HOLD | FAIL | WAIVED

definition REQUIRED_V1_GATES :: "string list" where
  "REQUIRED_V1_GATES = [''no-t5'']"

definition UNWAIVABLE_GATES :: "string list" where
  "UNWAIVABLE_GATES = [''no-t5'', ''report-truthfulness'', ''secrets-privacy'', ''evidence-integrity'']"

record gate_spec =
  g_id :: string
  g_blocking :: bool
  g_inputs_required :: "string list option"   \<comment> \<open>None: not an array\<close>
  g_waiver_allowed :: "bool option"           \<comment> \<open>None: absent\<close>

record risk_controls =
  rc_max_tier :: "json option"
  rc_t5_allowed :: "json option"

record gate_context =
  ctx_gates :: "gate_spec list option"
  ctx_risk_controls :: "risk_controls option"   \<comment> \<open>None: null or not an object\<close>
  ctx_tool_grant_tiers :: "json list option"
  ctx_available_inputs :: "string list option"
  ctx_waivers :: "string list option"
  ctx_unattended_loop_present :: bool

datatype gate_reason =
    T5Present | NoT5 | MissingEvidence "string list" | NothingToVerify | AllPresent
  | WaivedReason gate_reason

datatype gate_finding = IgnoredUnwaivable string | IgnoredNonWaivable string

record gate_decision =
  d_gate_id :: string
  d_blocking :: bool
  d_status :: gate_status
  d_reason :: gate_reason
  d_missing_inputs :: "string list"
  d_findings :: "gate_finding list"

record gate_summary =
  n_pass :: nat
  n_hold :: nat
  n_fail :: nat
  n_waived :: nat

record gate_report =
  decisions :: "gate_decision list"
  summary :: gate_summary
  blocking_hold_or_fail :: bool

definition normId :: "string \<Rightarrow> string" where
  "normId i = to_lower (trim i)"

fun isT5Tier :: "json option \<Rightarrow> bool" where
  "isT5Tier (Some (JStr t)) \<longleftrightarrow> to_upper (trim t) = ''T5''"
| "isT5Tier _ \<longleftrightarrow> False"

definition hasT5 :: "gate_context \<Rightarrow> bool" where
  "hasT5 ctx =
     (case ctx_risk_controls ctx of
        None \<Rightarrow> True
      | Some rc \<Rightarrow>
          rc_t5_allowed rc \<noteq> Some (JBool False) \<or>
          isT5Tier (rc_max_tier rc) \<or>
          list_ex (\<lambda>t. isT5Tier (Some t)) (case ctx_tool_grant_tiers ctx of None \<Rightarrow> [] | Some ts \<Rightarrow> ts) \<or>
          ctx_unattended_loop_present ctx)"

definition injected_gate :: "string \<Rightarrow> gate_spec" where
  "injected_gate req =
     \<lparr>g_id = req, g_blocking = True, g_inputs_required = Some [], g_waiver_allowed = Some False\<rparr>"

definition gates_in_force :: "gate_context \<Rightarrow> gate_spec list" where
  "gates_in_force ctx =
     filter (\<lambda>g. normId (g_id g) \<notin> set (map normId REQUIRED_V1_GATES))
       (case ctx_gates ctx of None \<Rightarrow> [] | Some gs \<Rightarrow> gs) @
     map injected_gate REQUIRED_V1_GATES"

definition gate_inputs :: "gate_spec \<Rightarrow> string list" where
  "gate_inputs g = (case g_inputs_required g of None \<Rightarrow> [] | Some is \<Rightarrow> is)"

definition available :: "gate_context \<Rightarrow> string list" where
  "available ctx = (case ctx_available_inputs ctx of None \<Rightarrow> [] | Some is \<Rightarrow> is)"

definition waived_ids :: "gate_context \<Rightarrow> string list" where
  "waived_ids ctx = map normId (case ctx_waivers ctx of None \<Rightarrow> [] | Some ws \<Rightarrow> ws)"

text \<open>The status before waivers, with its reason and the missing inputs.\<close>

definition base_status ::
  "gate_context \<Rightarrow> gate_spec \<Rightarrow> gate_status \<times> gate_reason \<times> string list" where
  "base_status ctx g =
     (if normId (g_id g) = ''no-t5'' then
        (if hasT5 ctx then (FAIL, T5Present, []) else (PASS, NoT5, []))
      else
        (let inputs = gate_inputs g;
             missing = filter (\<lambda>i. i \<notin> set (available ctx)) inputs in
         if missing \<noteq> [] then (HOLD, MissingEvidence missing, missing)
         else if g_blocking g \<and> inputs = [] then (HOLD, NothingToVerify, missing)
         else (PASS, AllPresent, missing)))"

definition decide_gate :: "gate_context \<Rightarrow> gate_spec \<Rightarrow> gate_decision" where
  "decide_gate ctx g =
     (case base_status ctx g of
        (status, reason, missing) \<Rightarrow>
          (let (status', reason', findings) =
             (if normId (g_id g) \<in> set (waived_ids ctx) then
                (if normId (g_id g) \<in> set UNWAIVABLE_GATES then
                   (status, reason, [IgnoredUnwaivable (g_id g)])
                 else if g_waiver_allowed g = Some False then
                   (status, reason, [IgnoredNonWaivable (g_id g)])
                 else if status = FAIL \<or> status = HOLD then (WAIVED, WaivedReason reason, [])
                 else (status, reason, []))
              else (status, reason, []))
           in \<lparr>d_gate_id = g_id g, d_blocking = g_blocking g, d_status = status',
               d_reason = reason', d_missing_inputs = missing, d_findings = findings\<rparr>))"

definition count_status :: "gate_status \<Rightarrow> gate_decision list \<Rightarrow> nat" where
  "count_status st ds = length (filter (\<lambda>d. d_status d = st) ds)"

definition evaluateGates :: "gate_context \<Rightarrow> gate_report" where
  "evaluateGates ctx =
     (let ds = map (decide_gate ctx) (gates_in_force ctx) in
      \<lparr>decisions = ds,
       summary = \<lparr>n_pass = count_status PASS ds, n_hold = count_status HOLD ds,
         n_fail = count_status FAIL ds, n_waived = count_status WAIVED ds\<rparr>,
       blocking_hold_or_fail =
         list_ex (\<lambda>d. d_blocking d \<and> (d_status d = HOLD \<or> d_status d = FAIL)) ds\<rparr>)"

subsection \<open>What a decision says\<close>

lemma decide_gate_simps [simp]:
  "d_gate_id (decide_gate ctx g) = g_id g" "d_blocking (decide_gate ctx g) = g_blocking g"
  by (simp_all add: decide_gate_def Let_def split: prod.splits)

definition waiver_applies :: "gate_context \<Rightarrow> gate_spec \<Rightarrow> bool" where
  "waiver_applies ctx g \<longleftrightarrow>
     normId (g_id g) \<in> set (waived_ids ctx) \<and> normId (g_id g) \<notin> set UNWAIVABLE_GATES \<and>
     g_waiver_allowed g \<noteq> Some False"

lemma decide_gate_status:
  "d_status (decide_gate ctx g) =
     (if waiver_applies ctx g \<and> fst (base_status ctx g) \<noteq> PASS then WAIVED
      else fst (base_status ctx g))"
proof -
  have "fst (base_status ctx g) \<noteq> WAIVED"
    by (simp add: base_status_def Let_def)
  then show ?thesis
    by (cases "base_status ctx g"; cases "fst (base_status ctx g)")
      (auto simp: decide_gate_def waiver_applies_def)
qed

lemma base_status_PASS:
  "fst (base_status ctx g) = PASS \<longleftrightarrow>
     (if normId (g_id g) = ''no-t5'' then \<not> hasT5 ctx
      else set (gate_inputs g) \<subseteq> set (available ctx) \<and> \<not> (g_blocking g \<and> gate_inputs g = []))"
  by (auto simp: base_status_def Let_def filter_empty_conv)

lemma normId_no_t5: "normId ''no-t5'' = ''no-t5''"
  by code_simp

lemma in_force_no_t5:
  "g \<in> set (gates_in_force ctx) \<Longrightarrow> normId (g_id g) = ''no-t5'' \<Longrightarrow> g = injected_gate ''no-t5''"
  by (auto simp: gates_in_force_def REQUIRED_V1_GATES_def normId_no_t5)

lemma injected_in_force: "injected_gate ''no-t5'' \<in> set (gates_in_force ctx)"
  by (simp add: gates_in_force_def REQUIRED_V1_GATES_def)

lemma set_decisions: "set (decisions (evaluateGates ctx)) = decide_gate ctx ` set (gates_in_force ctx)"
  by (simp add: evaluateGates_def Let_def)

lemma count_status_sum:
  "count_status PASS ds + count_status HOLD ds + count_status FAIL ds + count_status WAIVED ds = length ds"
proof (induction ds)
  case Nil
  then show ?case by (simp add: count_status_def)
next
  case (Cons d ds)
  then show ?case by (cases "d_status d") (simp_all add: count_status_def)
qed

text \<open>
  Whatever the spec declares, exactly one decision is about \<open>no-t5\<close>, it is the
  last one and blocking, it cannot be waived, and it fails exactly when a T5 signal is present.
\<close>

theorem no_t5_always_decided:
  "\<exists>ds d. decisions (evaluateGates ctx) = ds @ [d] \<and>
     filter (\<lambda>e. normId (d_gate_id e) = ''no-t5'') ds = [] \<and>
     d_gate_id d = ''no-t5'' \<and> d_blocking d \<and>
     d_status d = (if hasT5 ctx then FAIL else PASS)"
proof -
  let ?gs = "filter (\<lambda>g. normId (g_id g) \<notin> set (map normId REQUIRED_V1_GATES))
       (case ctx_gates ctx of None \<Rightarrow> [] | Some gs \<Rightarrow> gs)"
  have "decisions (evaluateGates ctx) =
      map (decide_gate ctx) ?gs @ [decide_gate ctx (injected_gate ''no-t5'')]"
    by (simp add: evaluateGates_def Let_def gates_in_force_def REQUIRED_V1_GATES_def)
  moreover have "filter (\<lambda>e. normId (d_gate_id e) = ''no-t5'') (map (decide_gate ctx) ?gs) = []"
    by (auto simp: filter_empty_conv REQUIRED_V1_GATES_def normId_no_t5)
  moreover have "d_status (decide_gate ctx (injected_gate ''no-t5'')) = (if hasT5 ctx then FAIL else PASS)"
    by (simp add: decide_gate_status waiver_applies_def injected_gate_def base_status_def
        normId_no_t5 UNWAIVABLE_GATES_def)
  ultimately show ?thesis
    by (intro exI conjI) (assumption, assumption, simp_all add: injected_gate_def)
qed

definition gate_earned :: "gate_context \<Rightarrow> gate_spec \<Rightarrow> bool" where
  "gate_earned ctx g \<longleftrightarrow>
     gate_inputs g \<noteq> [] \<and> set (gate_inputs g) \<subseteq> set (available ctx) \<or> waiver_applies ctx g"

lemma holds_nothing:
  "d_status (decide_gate ctx g) \<noteq> HOLD \<and> d_status (decide_gate ctx g) \<noteq> FAIL \<longleftrightarrow>
     fst (base_status ctx g) = PASS \<or> waiver_applies ctx g"
  by (cases "fst (base_status ctx g)") (auto simp: decide_gate_status base_status_def Let_def split: if_splits)

lemma earned_unheld:
  "g_blocking g \<Longrightarrow> normId (g_id g) \<noteq> ''no-t5'' \<Longrightarrow>
     d_status (decide_gate ctx g) \<noteq> HOLD \<and> d_status (decide_gate ctx g) \<noteq> FAIL \<longleftrightarrow> gate_earned ctx g"
  unfolding holds_nothing by (auto simp: base_status_PASS gate_earned_def)

lemma injected_unheld:
  "d_status (decide_gate ctx (injected_gate ''no-t5'')) \<noteq> HOLD \<and>
   d_status (decide_gate ctx (injected_gate ''no-t5'')) \<noteq> FAIL \<longleftrightarrow> \<not> hasT5 ctx"
  unfolding holds_nothing
  by (simp add: base_status_PASS waiver_applies_def injected_gate_def normId_no_t5 UNWAIVABLE_GATES_def)

text \<open>
  C24: a report blocks nothing exactly when no T5 signal is present and every declared blocking
  gate, other than a declaration of \<open>no-t5\<close>, either has inputs to verify, all of them
  available, or is waived by a listed waiver that neither the unwaivable list nor its own spec
  forbids. This holds whatever gates are declared, also for none: a declared \<open>no-t5\<close> is
  dropped for the engine's own, which looks at the T5 signals only and at no input.
\<close>

theorem clear_report_iff:
  "\<not> blocking_hold_or_fail (evaluateGates ctx) \<longleftrightarrow>
     \<not> hasT5 ctx \<and>
     (\<forall>g\<in>set (case ctx_gates ctx of None \<Rightarrow> [] | Some gs \<Rightarrow> gs).
        g_blocking g \<and> normId (g_id g) \<noteq> ''no-t5'' \<longrightarrow>
          gate_inputs g \<noteq> [] \<and> set (gate_inputs g) \<subseteq> set (available ctx) \<or>
          normId (g_id g) \<in> set (waived_ids ctx) \<and> normId (g_id g) \<notin> set UNWAIVABLE_GATES \<and>
          g_waiver_allowed g \<noteq> Some False)"
proof -
  let ?declared = "set (case ctx_gates ctx of None \<Rightarrow> [] | Some gs \<Rightarrow> gs)"
  have "\<not> blocking_hold_or_fail (evaluateGates ctx) \<longleftrightarrow>
      (\<forall>g\<in>set (gates_in_force ctx). g_blocking g \<longrightarrow>
        d_status (decide_gate ctx g) \<noteq> HOLD \<and> d_status (decide_gate ctx g) \<noteq> FAIL)"
    by (auto simp: evaluateGates_def Let_def list_ex_iff)
  also have "\<dots> \<longleftrightarrow> \<not> hasT5 ctx \<and> (\<forall>g\<in>?declared. g_blocking g \<and> normId (g_id g) \<noteq> ''no-t5'' \<longrightarrow> gate_earned ctx g)"
    using earned_unheld [of _ ctx] injected_unheld [of ctx]
    by (auto simp: gates_in_force_def REQUIRED_V1_GATES_def normId_no_t5) (simp_all add: injected_gate_def)
  finally show ?thesis by (simp only: gate_earned_def waiver_applies_def)
qed

definition demo_gate :: gate_spec where
  "demo_gate = \<lparr>g_id = ''tests-pass'', g_blocking = True, g_inputs_required = Some [''test-log''],
     g_waiver_allowed = Some False\<rparr>"

definition demo_gate_context :: gate_context where
  "demo_gate_context =
     \<lparr>ctx_gates = Some [demo_gate],
      ctx_risk_controls = Some \<lparr>rc_max_tier = Some (JStr ''T2''), rc_t5_allowed = Some (JBool False)\<rparr>,
      ctx_tool_grant_tiers = None, ctx_available_inputs = Some [''test-log''],
      ctx_waivers = None, ctx_unattended_loop_present = False\<rparr>"

theorem clear_report_iff_witness:
  "\<not> blocking_hold_or_fail (evaluateGates demo_gate_context)"
  by (subst clear_report_iff) code_simp

text \<open>
  An unwaivable control that a spec declares non-blocking and without inputs passes
  with nothing checked, on any context, so declaring such a control does not keep it from
  passing vacuously; only blocking ones are held.
\<close>

theorem nonblocking_control_passes_unverified:
  "d_status (decide_gate ctx
     \<lparr>g_id = ''secrets-privacy'', g_blocking = False, g_inputs_required = Some [],
      g_waiver_allowed = Some False\<rparr>) = PASS"
proof -
  have "normId ''secrets-privacy'' \<noteq> ''no-t5''" "normId ''secrets-privacy'' \<in> set UNWAIVABLE_GATES"
    by code_simp+
  then show ?thesis
    by (simp add: decide_gate_status waiver_applies_def base_status_def gate_inputs_def)
qed

subsection \<open>Record checks on gate results and findings\<close>

record gate_result =
  gr_gate_result_id :: string
  gr_gate_id :: string
  gr_status :: gate_status

datatype record_issue = UnwaivableWaived string | OwnerMissing string | RationaleMissing string
  | StrongUnsupported string

definition checkGateResultInvariants :: "gate_result \<Rightarrow> record_issue list" where
  "checkGateResultInvariants gate =
     (if gr_status gate = WAIVED \<and> gr_gate_id gate \<in> set UNWAIVABLE_GATES
      then [UnwaivableWaived (gr_gate_result_id gate)] else [])"

record finding_record =
  f_finding_id :: string
  f_classification :: string
  f_owner :: "string option"
  f_rationale :: string

definition checkFindingInvariants :: "finding_record \<Rightarrow> record_issue list" where
  "checkFindingInvariants finding =
     (if f_classification finding \<noteq> ''blocking'' then
        (case f_owner finding of
           None \<Rightarrow> [OwnerMissing (f_finding_id finding)]
         | Some w \<Rightarrow> if trim w = [] then [OwnerMissing (f_finding_id finding)] else []) @
        (if trim (f_rationale finding) = [] then [RationaleMissing (f_finding_id finding)] else [])
      else [])"

text \<open>Identifiers that pass \<open>HumanId\<close> are their own normal form.\<close>

fun alphabet :: "re \<Rightarrow> char \<Rightarrow> bool" where
  "alphabet RNone c \<longleftrightarrow> False"
| "alphabet REps c \<longleftrightarrow> False"
| "alphabet (RChr k) c \<longleftrightarrow> in_class k c"
| "alphabet (RSeq r q) c \<longleftrightarrow> alphabet r c \<or> alphabet q c"
| "alphabet (RAlt r q) c \<longleftrightarrow> alphabet r c \<or> alphabet q c"
| "alphabet (RStar r) c \<longleftrightarrow> alphabet r c"

lemma iterate_alphabet:
  "s \<in> iterate A \<Longrightarrow> (\<And>u c. u \<in> A \<Longrightarrow> c \<in> set u \<Longrightarrow> P c) \<Longrightarrow> c \<in> set s \<Longrightarrow> P c"
  by (induction rule: iterate.induct) auto

lemma lang_alphabet: "s \<in> lang r \<Longrightarrow> c \<in> set s \<Longrightarrow> alphabet r c"
proof (induction r arbitrary: s c)
  case (RStar r)
  then show ?case using iterate_alphabet [of s "lang r" "alphabet r" c] by auto
qed auto

lemma HumanId_chars:
  "HumanId s \<Longrightarrow> c \<in> set s \<Longrightarrow> is_lower c \<or> is_digit c \<or> c = CHR ''-''"
  using lang_alphabet
  by (fastforce simp: HumanId_def re_test_lang RPlus_def is_lower_def is_digit_def simp del: lang.simps)

lemma trim_id: "\<forall>c\<in>set s. \<not> is_ws c \<Longrightarrow> trim s = s"
proof -
  assume *: "\<forall>c\<in>set s. \<not> is_ws c"
  have id: "dropWhile is_ws t = t" if "\<forall>c\<in>set t. \<not> is_ws c" for t :: string
    using that by (cases t) simp_all
  show ?thesis using * by (simp add: trim_def id)
qed

lemma to_lower_id: "\<forall>c\<in>set s. is_lower c \<or> is_digit c \<or> c = CHR ''-'' \<Longrightarrow> to_lower s = s"
  by (induction s) (auto simp: to_lower_def to_lower_char_def is_lower_def is_digit_def Let_def)

lemma normId_HumanId: "HumanId s \<Longrightarrow> normId s = s"
proof -
  assume "HumanId s"
  then have *: "\<forall>c\<in>set s. is_lower c \<or> is_digit c \<or> c = CHR ''-''" using HumanId_chars by blast
  then have "\<forall>c\<in>set s. \<not> is_ws c" by (auto simp: is_ws_def is_lower_def is_digit_def)
  with * show ?thesis by (simp add: normId_def trim_id to_lower_id)
qed

text \<open>
  A gate result recorded from a decision on a well-formed gate id passes the record
  check: the engine never produces the waived unwaivable gate that the schema refuses.
\<close>

theorem decisions_satisfy_record_check:
  assumes "d \<in> set (decisions (evaluateGates ctx))" and "HumanId (d_gate_id d)"
  shows "checkGateResultInvariants
    \<lparr>gr_gate_result_id = rid, gr_gate_id = d_gate_id d, gr_status = d_status d\<rparr> = []"
  using assms normId_HumanId
  by (auto simp: set_decisions checkGateResultInvariants_def decide_gate_status waiver_applies_def
      base_status_def Let_def split: if_splits)

theorem decisions_satisfy_record_check_witness:
  "checkGateResultInvariants
    \<lparr>gr_gate_result_id = ''gate_1'', gr_gate_id = d_gate_id (decide_gate demo_gate_context demo_gate),
     gr_status = d_status (decide_gate demo_gate_context demo_gate)\<rparr> = []"
  by (rule decisions_satisfy_record_check [of _ demo_gate_context]) code_simp+

end
