(* ===== verification/Evidence.thy ===== *)
theory Evidence
  imports Gates
begin

text \<open>
  The evidence and evaluation verifier (\<open>src/evidence-verifier.ts\<close>) with the claim
  check of \<open>src/schema/evidence.ts\<close>. Statuses are resolved from the evidence that
  is present, never copied from the declaration.
\<close>

subsection \<open>Claims\<close>

datatype claim_strength = Strong | Limited | Informational

datatype claim_status = Verified | Unverified | Contradicted | Waived

record claim_input =
  cl_id :: string
  cl_strength :: claim_strength
  cl_required_types :: "string list"
  cl_supported_by :: "string list"
  cl_status :: claim_status

record evidence_input =
  ev_id :: string
  ev_type :: string

definition INDEPENDENT_EVIDENCE_TYPES :: "string list" where
  "INDEPENDENT_EVIDENCE_TYPES =
     [''command'', ''file'', ''test'', ''artifact'', ''adapter_event'', ''source_citation'', ''browser'']"

datatype evidence_issue =
    PhantomEvidence nat
  | NoSupport claim_strength
  | NoIndependent
  | MissingTypes "string list"
  | WaivedWithoutWaiver
  | Downgraded claim_status

record claim_verification =
  cv_claim_id :: string
  cv_strength :: claim_strength
  cv_declared :: claim_status
  cv_resolved :: claim_status
  cv_supporting :: "string list"
  cv_missing_types :: "string list"
  cv_issues :: "evidence_issue list"

record evidence_summary =
  es_total :: nat
  es_verified :: nat
  es_unverified :: nat
  es_contradicted :: nat
  es_waived :: nat

record evidence_report =
  er_claims :: "claim_verification list"
  er_verified :: "string list"
  er_unverified :: "string list"
  er_summary :: evidence_summary

text \<open>\<open>new Map(evidence.map(e => [e.evidence_id, e]))\<close>: the last entry of an id wins.\<close>

definition evidence_by_id :: "evidence_input list \<Rightarrow> string \<Rightarrow> evidence_input option" where
  "evidence_by_id evs = map_of (rev (map (\<lambda>e. (ev_id e, e)) evs))"

definition supporting_ids :: "claim_input \<Rightarrow> (string \<Rightarrow> evidence_input option) \<Rightarrow> string list" where
  "supporting_ids c byId = filter (\<lambda>i. byId i \<noteq> None) (cl_supported_by c)"

definition supporting_types :: "claim_input \<Rightarrow> (string \<Rightarrow> evidence_input option) \<Rightarrow> string list" where
  "supporting_types c byId = map (\<lambda>i. ev_type (the (byId i))) (supporting_ids c byId)"

definition resolveByEvidence ::
  "claim_input \<Rightarrow> (string \<Rightarrow> evidence_input option) \<Rightarrow>
   claim_status \<times> string list \<times> string list \<times> evidence_issue list" where
  "resolveByEvidence c byId =
     (let supporting = supporting_ids c byId;
          phantom = filter (\<lambda>i. byId i = None) (cl_supported_by c);
          issues = (if phantom \<noteq> [] then [PhantomEvidence (length phantom)] else []);
          types = supporting_types c byId;
          hasIndependent = list_ex (\<lambda>t. t \<in> set INDEPENDENT_EVIDENCE_TYPES) types;
          missingTypes = filter (\<lambda>t. t \<notin> set types) (cl_required_types c);
          (resolved, more) =
            (if cl_strength c = Strong then
               (if supporting = [] then (Unverified, [NoSupport Strong])
                else if \<not> hasIndependent then (Unverified, [NoIndependent])
                else if missingTypes \<noteq> [] then (Unverified, [MissingTypes missingTypes])
                else (Verified, []))
             else if supporting = [] then (Unverified, [NoSupport (cl_strength c)])
             else (Verified, []))
      in (resolved, supporting, missingTypes, issues @ more))"

definition verify_claim ::
  "(string \<Rightarrow> evidence_input option) \<Rightarrow> string list \<Rightarrow> claim_input \<Rightarrow> claim_verification" where
  "verify_claim byId waivedOk c =
     (let (resolved, supporting, missingTypes, issues) =
        (if cl_status c = Contradicted then (Contradicted, [], [], [])
         else if cl_status c = Waived \<and> cl_id c \<in> set waivedOk then (Waived, [], [], [])
         else
           (case resolveByEvidence c byId of
              (resolved, supporting, missingTypes, issues) \<Rightarrow>
                (resolved, supporting, missingTypes,
                 issues @
                 (if cl_status c = Waived then [WaivedWithoutWaiver] else []) @
                 (if cl_status c = Verified \<and> resolved \<noteq> Verified then [Downgraded resolved] else []))))
      in \<lparr>cv_claim_id = cl_id c, cv_strength = cl_strength c, cv_declared = cl_status c,
          cv_resolved = resolved, cv_supporting = supporting, cv_missing_types = missingTypes,
          cv_issues = issues\<rparr>)"

definition with_status :: "claim_status \<Rightarrow> claim_verification list \<Rightarrow> string list" where
  "with_status st cs = map cv_claim_id (filter (\<lambda>c. cv_resolved c = st) cs)"

definition verifyEvidence ::
  "claim_input list \<Rightarrow> evidence_input list \<Rightarrow> string list \<Rightarrow> evidence_report" where
  "verifyEvidence claimsIn evidence waivedOk =
     (let cs = map (verify_claim (evidence_by_id evidence) waivedOk) claimsIn in
      \<lparr>er_claims = cs, er_verified = with_status Verified cs, er_unverified = with_status Unverified cs,
       er_summary = \<lparr>es_total = length cs, es_verified = length (with_status Verified cs),
         es_unverified = length (with_status Unverified cs),
         es_contradicted = length (filter (\<lambda>c. cv_resolved c = Contradicted) cs),
         es_waived = length (filter (\<lambda>c. cv_resolved c = Waived) cs)\<rparr>\<rparr>)"

definition checkClaimInvariants :: "claim_input \<Rightarrow> record_issue list" where
  "checkClaimInvariants claim =
     (if cl_strength claim = Strong \<and> cl_status claim = Verified \<and> cl_supported_by claim = []
      then [StrongUnsupported (cl_id claim)] else [])"

subsection \<open>What a resolved status says\<close>

lemma verify_claim_resolved:
  "cv_resolved (verify_claim byId waivedOk c) =
     (if cl_status c = Contradicted then Contradicted
      else if cl_status c = Waived \<and> cl_id c \<in> set waivedOk then Waived
      else fst (resolveByEvidence c byId))"
  by (simp add: verify_claim_def Let_def split: prod.splits)

lemma verify_claim_id [simp]: "cv_claim_id (verify_claim byId waivedOk c) = cl_id c"
  by (simp add: verify_claim_def Let_def split: prod.splits)

text \<open>The evidence that counts for a claim, as a set of items that are present.\<close>

definition present_support :: "claim_input \<Rightarrow> evidence_input list \<Rightarrow> evidence_input set" where
  "present_support c evs =
     {e. ev_id e \<in> set (cl_supported_by c) \<and> evidence_by_id evs (ev_id e) = Some e}"

lemma evidence_by_id_Some: "evidence_by_id evs i = Some e \<Longrightarrow> e \<in> set evs \<and> ev_id e = i"
  unfolding evidence_by_id_def by (drule map_of_SomeD) auto

lemma evidence_by_id_same: "evidence_by_id evs i = Some e \<Longrightarrow> ev_id e = i"
  by (drule evidence_by_id_Some) simp

lemma supporting_types_set:
  "set (supporting_types c (evidence_by_id evs)) = ev_type ` present_support c evs"
proof (intro set_eqI iffI)
  fix t assume "t \<in> set (supporting_types c (evidence_by_id evs))"
  then obtain i e where "i \<in> set (cl_supported_by c)" "evidence_by_id evs i = Some e" "t = ev_type e"
    by (auto simp: supporting_types_def supporting_ids_def)
  moreover from this(2) have "ev_id e = i" by (rule evidence_by_id_same)
  ultimately show "t \<in> ev_type ` present_support c evs" by (auto simp: present_support_def)
next
  fix t assume "t \<in> ev_type ` present_support c evs"
  then show "t \<in> set (supporting_types c (evidence_by_id evs))"
    by (force simp: supporting_types_def supporting_ids_def present_support_def)
qed

lemma supporting_ids_Nil:
  "supporting_ids c (evidence_by_id evs) = [] \<longleftrightarrow> present_support c evs = {}"
  using supporting_types_set [of c evs]
  by (metis image_is_empty list.map_disc_iff set_empty supporting_types_def)

text \<open>
  A strong claim is resolved as verified exactly when it is neither declared
  contradicted nor covered by an approved waiver, some present evidence item it cites is
  of an independent type, and the types of the present items cover every required type.
  Its declared status decides nothing else.
\<close>

theorem strong_claim_verified_iff:
  assumes "cl_strength c = Strong"
  shows "cv_resolved (verify_claim (evidence_by_id evs) waivedOk c) = Verified \<longleftrightarrow>
    cl_status c \<noteq> Contradicted \<and> \<not> (cl_status c = Waived \<and> cl_id c \<in> set waivedOk) \<and>
    (\<exists>e\<in>present_support c evs. ev_type e \<in> set INDEPENDENT_EVIDENCE_TYPES) \<and>
    set (cl_required_types c) \<subseteq> ev_type ` present_support c evs"
proof -
  have "fst (resolveByEvidence c (evidence_by_id evs)) = Verified \<longleftrightarrow>
      supporting_ids c (evidence_by_id evs) \<noteq> [] \<and>
      (\<exists>t\<in>set (supporting_types c (evidence_by_id evs)). t \<in> set INDEPENDENT_EVIDENCE_TYPES) \<and>
      (\<forall>t\<in>set (cl_required_types c). t \<in> set (supporting_types c (evidence_by_id evs)))"
    using assms
    by (auto simp: resolveByEvidence_def Let_def list_ex_iff filter_empty_conv split: if_splits)
  then show ?thesis
    unfolding verify_claim_resolved supporting_ids_Nil supporting_types_set by auto
qed

definition demo_claim :: claim_input where
  "demo_claim = \<lparr>cl_id = ''claim_a'', cl_strength = Strong, cl_required_types = [''test''],
     cl_supported_by = [''ev_a''], cl_status = Unverified\<rparr>"

theorem strong_claim_verified_iff_witness:
  "cv_resolved (verify_claim (evidence_by_id [\<lparr>ev_id = ''ev_a'', ev_type = ''test''\<rparr>]) [] demo_claim) = Verified \<longleftrightarrow>
    cl_status demo_claim \<noteq> Contradicted \<and> \<not> (cl_status demo_claim = Waived \<and> cl_id demo_claim \<in> set []) \<and>
    (\<exists>e\<in>present_support demo_claim [\<lparr>ev_id = ''ev_a'', ev_type = ''test''\<rparr>].
       ev_type e \<in> set INDEPENDENT_EVIDENCE_TYPES) \<and>
    set (cl_required_types demo_claim) \<subseteq>
      ev_type ` present_support demo_claim [\<lparr>ev_id = ''ev_a'', ev_type = ''test''\<rparr>]"
  by (rule strong_claim_verified_iff) code_simp

text \<open>The summary counts partition the claims.\<close>

lemma filter_status_sum:
  "length (filter (\<lambda>c. cv_resolved c = Verified) cs) + length (filter (\<lambda>c. cv_resolved c = Unverified) cs) +
   length (filter (\<lambda>c. cv_resolved c = Contradicted) cs) + length (filter (\<lambda>c. cv_resolved c = Waived) cs) =
   length cs"
proof (induction cs)
  case Nil
  then show ?case by simp
next
  case (Cons c cs)
  then show ?case by (cases "cv_resolved c") simp_all
qed

lemma evidence_summary_total:
  "es_verified (er_summary r) + es_unverified (er_summary r) + es_contradicted (er_summary r) +
   es_waived (er_summary r) = es_total (er_summary r)"
  if "r = verifyEvidence cs evs w"
  unfolding that using filter_status_sum [of "map (verify_claim (evidence_by_id evs) w) cs"]
  by (simp add: verifyEvidence_def Let_def with_status_def)

subsection \<open>Evaluations\<close>

datatype eval_status = EPass | EHold | EFail | ESkipped

record evaluation_input =
  ei_id :: string
  ei_type :: string
  ei_status :: eval_status
  ei_required :: "bool option"
  ei_exit_code :: "int option"

datatype eval_issue = PassWithoutExitZero "int option" | StatusIs eval_status

record eval_result =
  er_id :: string
  er_status :: eval_status
  er_ok :: bool
  er_issue :: "eval_issue option"

record eval_report =
  results :: "eval_result list"
  all_required_passed :: bool
  missing_required :: "string list"

definition verify_evaluation :: "evaluation_input \<Rightarrow> eval_result" where
  "verify_evaluation e =
     (let (ok, issue) =
        (if ei_type e = ''command'' \<and> ei_status e = EPass \<and> ei_exit_code e \<noteq> Some 0
         then (False, Some (PassWithoutExitZero (ei_exit_code e)))
         else if ei_status e \<noteq> EPass then (False, Some (StatusIs (ei_status e)))
         else (True, None))
      in \<lparr>er_id = ei_id e, er_status = ei_status e, er_ok = ok, er_issue = issue\<rparr>)"

text \<open>The map from ids to the conjunction of their results, built result by result.\<close>

definition record_ok :: "(string \<Rightarrow> bool option) \<Rightarrow> eval_result \<Rightarrow> (string \<Rightarrow> bool option)" where
  "record_ok m r =
     m(er_id r \<mapsto> ((case m (er_id r) of None \<Rightarrow> True | Some b \<Rightarrow> b) \<and> er_ok r))"

definition verifyEvaluations :: "evaluation_input list \<Rightarrow> string list \<Rightarrow> eval_report" where
  "verifyEvaluations evals expected =
     (let rs = map verify_evaluation evals;
          okById = foldl record_ok (\<lambda>_. None) rs;
          missing = filter (\<lambda>i. okById i = None) expected;
          requiredOk = list_all (\<lambda>e. ei_required e = Some False \<or> okById (ei_id e) = Some True) evals
      in \<lparr>results = rs, all_required_passed = (requiredOk \<and> missing = []), missing_required = missing\<rparr>)"

lemma foldl_record_ok:
  "foldl record_ok m rs i =
     (if \<exists>r\<in>set rs. er_id r = i
      then Some ((case m i of None \<Rightarrow> True | Some b \<Rightarrow> b) \<and> (\<forall>r\<in>set rs. er_id r = i \<longrightarrow> er_ok r))
      else m i)"
  by (induction rs arbitrary: m) (auto simp: record_ok_def)

text \<open>An evaluation that confirms success: it passed, and a command shows exit code 0.\<close>

definition confirmed :: "evaluation_input \<Rightarrow> bool" where
  "confirmed e \<longleftrightarrow> ei_status e = EPass \<and> (ei_type e \<noteq> ''command'' \<or> ei_exit_code e = Some 0)"

lemma verify_evaluation_simps [simp]:
  "er_id (verify_evaluation e) = ei_id e" "er_ok (verify_evaluation e) = confirmed e"
  by (auto simp: verify_evaluation_def confirmed_def Let_def)

text \<open>
  All required evaluations passed exactly when every expected id has a result and,
  for every evaluation not marked optional, each result with its id is confirmed: a
  passing duplicate hides no failing one, and a command without exit code 0 never passes.
\<close>

theorem all_required_passed_iff:
  "all_required_passed (verifyEvaluations evals expected) =
     (set expected \<subseteq> ei_id ` set evals \<and>
      filter (\<lambda>e. ei_required e \<noteq> Some False \<and>
        filter (\<lambda>f. ei_id f = ei_id e \<and> \<not> confirmed f) evals \<noteq> []) evals = [])"
proof -
  have ok: "foldl record_ok (\<lambda>_. None) (map verify_evaluation evals) i =
      (if i \<in> ei_id ` set evals then Some (\<forall>f\<in>set evals. ei_id f = i \<longrightarrow> confirmed f) else None)" for i
    by (auto simp: foldl_record_ok)
  show ?thesis
    by (auto simp: verifyEvaluations_def Let_def ok filter_empty_conv list_all_iff)
qed

end
