(* ===== verification/Agent_Proof.thy ===== *)
theory Agent_Proof
  imports Evidence
begin

text \<open>
  The strict assurance profile for agent work (\<open>src/agent-proof.ts\<close>). List entries
  that are null or have no string id are skipped by the code; such an entry is None
  here, and so is a strength or a cited id that is not a string.
\<close>

definition EXECUTABLE_EVIDENCE_TYPES :: "string list" where
  "EXECUTABLE_EVIDENCE_TYPES = [''command'', ''test'']"

definition AGENT_PROOF_MANDATORY_GATES :: "string list" where
  "AGENT_PROOF_MANDATORY_GATES = [''no-t5'', ''evidence-integrity'', ''report-truthfulness'']"

definition NON_STRONG_STRENGTHS :: "string list" where
  "NON_STRONG_STRENGTHS = [''limited'', ''informational'']"

record proof_claim =
  pc_claim_id :: string
  pc_strength :: "string option"
  pc_supported_by :: "string option list"

record proof_evidence =
  pe_evidence_id :: string
  pe_type :: string
  pe_outcome :: "string option"
  pe_exit_code :: "number option"

record proof_gate =
  pg_id :: string
  pg_blocking :: bool
  pg_waiver_allowed :: bool

record proof_input =
  pi_claims :: "proof_claim option list"
  pi_evidence :: "proof_evidence option list"
  pi_gates :: "proof_gate option list"

datatype proof_violation = ClaimsWithoutExecution "string list" | WeakGates "string list"

record proof_result =
  meets_bar :: bool
  violations :: "proof_violation list"
  strong_claims_without_execution :: "string list"
  missing_mandatory_gates :: "string list"

definition present :: "'a option list \<Rightarrow> 'a list" where
  "present xs = List.map_filter (\<lambda>x. x) xs"

text \<open>A map from ids to their entries in order, grown entry by entry.\<close>

definition group_step ::
  "('a \<Rightarrow> string) \<Rightarrow> (string \<Rightarrow> 'a list option) \<Rightarrow> 'a \<Rightarrow> (string \<Rightarrow> 'a list option)" where
  "group_step key m e =
     m(key e \<mapsto> (case m (key e) of None \<Rightarrow> [] | Some l \<Rightarrow> l) @ [e])"

definition group_by :: "('a \<Rightarrow> string) \<Rightarrow> 'a list \<Rightarrow> string \<Rightarrow> 'a list option" where
  "group_by key es = foldl (group_step key) (\<lambda>_. None) es"

definition passed :: "proof_evidence \<Rightarrow> bool" where
  "passed e \<longleftrightarrow> pe_outcome e = Some ''pass'' \<or> pe_exit_code e = Some (Whole 0)"

definition failed :: "proof_evidence \<Rightarrow> bool" where
  "failed e \<longleftrightarrow> pe_outcome e = Some ''fail'' \<or>
     (case pe_exit_code e of None \<Rightarrow> False | Some n \<Rightarrow> n \<noteq> Whole 0)"

definition idIsPassingExecution :: "(string \<Rightarrow> proof_evidence list option) \<Rightarrow> string \<Rightarrow> bool" where
  "idIsPassingExecution evById i =
     (case evById i of
        None \<Rightarrow> False
      | Some items \<Rightarrow>
          items \<noteq> [] \<and>
          list_all (\<lambda>e. pe_type e \<in> set EXECUTABLE_EVIDENCE_TYPES) items \<and>
          list_ex passed items \<and> \<not> list_ex failed items)"

definition is_strong :: "proof_claim \<Rightarrow> bool" where
  "is_strong c \<longleftrightarrow>
     (case pc_strength c of None \<Rightarrow> ''strong'' | Some s \<Rightarrow> to_lower (trim s)) \<notin> set NON_STRONG_STRENGTHS"

definition executed :: "(string \<Rightarrow> proof_evidence list option) \<Rightarrow> proof_claim \<Rightarrow> bool" where
  "executed evById c \<longleftrightarrow>
     list_ex (\<lambda>i. case i of None \<Rightarrow> False | Some s \<Rightarrow> idIsPassingExecution evById s) (pc_supported_by c)"

definition gate_weak :: "(string \<Rightarrow> proof_gate list option) \<Rightarrow> string \<Rightarrow> bool" where
  "gate_weak gatesById req \<longleftrightarrow>
     (let instances = (case gatesById req of None \<Rightarrow> [] | Some l \<Rightarrow> l) in
      instances = [] \<or> \<not> list_all (\<lambda>g. pg_blocking g \<and> \<not> pg_waiver_allowed g) instances)"

definition assessAgentProof :: "proof_input \<Rightarrow> proof_result" where
  "assessAgentProof inp =
     (let evById = group_by pe_evidence_id (present (pi_evidence inp));
          gatesById = group_by pg_id (present (pi_gates inp));
          without = map pc_claim_id
            (filter (\<lambda>c. is_strong c \<and> \<not> executed evById c) (present (pi_claims inp)));
          missing = filter (gate_weak gatesById) AGENT_PROOF_MANDATORY_GATES;
          vs = (if without \<noteq> [] then [ClaimsWithoutExecution without] else []) @
               (if missing \<noteq> [] then [WeakGates missing] else [])
      in \<lparr>meets_bar = (vs = []), violations = vs, strong_claims_without_execution = without,
          missing_mandatory_gates = missing\<rparr>)"

subsection \<open>Meaning\<close>

lemma group_by_aux:
  "foldl (group_step key) m es k =
     (let new = filter (\<lambda>e. key e = k) es in
      if new = [] then m k else Some ((case m k of None \<Rightarrow> [] | Some l \<Rightarrow> l) @ new))"
  by (induction es arbitrary: m) (auto simp: group_step_def Let_def split: option.splits)

lemma group_by_filter:
  "group_by key es k =
     (if filter (\<lambda>e. key e = k) es = [] then None else Some (filter (\<lambda>e. key e = k) es))"
  by (simp add: group_by_def group_by_aux Let_def)

lemma set_present: "set (present xs) = {x. Some x \<in> set xs}"
  by (force simp: present_def map_filter_def)

text \<open>An id that proves execution: it names some item, all of them executable, one passing, none failing.\<close>

definition proves_execution :: "proof_evidence set \<Rightarrow> string \<Rightarrow> bool" where
  "proves_execution evs i \<longleftrightarrow>
     (\<forall>e\<in>evs. pe_evidence_id e = i \<longrightarrow> pe_type e \<in> set EXECUTABLE_EVIDENCE_TYPES \<and> \<not> failed e) \<and>
     (\<exists>e\<in>evs. pe_evidence_id e = i \<and> passed e)"

lemma passing_execution_iff:
  "idIsPassingExecution (group_by pe_evidence_id es) i \<longleftrightarrow> proves_execution (set es) i"
  by (auto simp: idIsPassingExecution_def group_by_filter proves_execution_def list_all_iff list_ex_iff
      filter_empty_conv)

lemma gate_weak_iff:
  "gate_weak (group_by pg_id gs) req \<longleftrightarrow>
     req \<notin> pg_id ` set gs \<or> (\<exists>g\<in>set gs. pg_id g = req \<and> \<not> (pg_blocking g \<and> \<not> pg_waiver_allowed g))"
  by (auto simp: gate_weak_def Let_def group_by_filter list_all_iff filter_empty_conv)

text \<open>
  The bar is met exactly when every strong claim cites an id all of whose evidence
  items are executions, one passing and none failing, and every mandatory gate is present
  with all its instances blocking and not waivable.
\<close>

theorem meets_bar_iff:
  "meets_bar (assessAgentProof inp) =
     (filter (\<lambda>c. is_strong c \<and>
        \<not> list_ex (\<lambda>i. i \<noteq> None \<and> proves_execution (set (present (pi_evidence inp))) (the i))
          (pc_supported_by c)) (present (pi_claims inp)) = [] \<and>
      list_all (\<lambda>req. req \<in> pg_id ` set (present (pi_gates inp)) \<and>
        filter (\<lambda>g. pg_id g = req \<and> \<not> (pg_blocking g \<and> \<not> pg_waiver_allowed g))
          (present (pi_gates inp)) = []) AGENT_PROOF_MANDATORY_GATES)"
proof -
  let ?ev = "present (pi_evidence inp)" and ?gs = "present (pi_gates inp)"
  have ex: "executed (group_by pe_evidence_id ?ev) c \<longleftrightarrow>
      list_ex (\<lambda>i. i \<noteq> None \<and> proves_execution (set ?ev) (the i)) (pc_supported_by c)" for c
    by (auto simp: executed_def passing_execution_iff list_ex_iff split: option.splits)
  have meets: "meets_bar (assessAgentProof inp) \<longleftrightarrow>
      filter (\<lambda>c. is_strong c \<and> \<not> executed (group_by pe_evidence_id ?ev) c) (present (pi_claims inp)) = [] \<and>
      filter (gate_weak (group_by pg_id ?gs)) AGENT_PROOF_MANDATORY_GATES = []"
    by (simp add: assessAgentProof_def Let_def)
  show ?thesis
    unfolding meets ex filter_empty_conv gate_weak_iff list_all_iff by blast
qed

end
