(* ===== verification/Ledger.thy ===== *)
theory Ledger
  imports Scalars "HOL-Library.Monad_Syntax"
begin

text \<open>
  The hash-chained run ledger of version 0.1 (\<open>src/ledger.ts\<close>, with the event
  schema of \<open>src/schema/runtime.ts\<close>): sealing, the line format, the chain and
  content checks, and recovery. SHA-256 over RFC 8785 canonical bytes, the JSON
  text functions and the time-stamp test are parameters, collected in one record.
\<close>

subsection \<open>Functions the code imports\<close>

record externals =
  hashCanonical :: "json \<Rightarrow> string"         \<comment> \<open>\<open>hashCanonical\<close> of a value\<close>
  hashBytes :: "string \<Rightarrow> string"
  isoDatetime :: "string \<Rightarrow> bool"           \<comment> \<open>\<open>z.iso.datetime({offset: false})\<close>\<close>
  jsonParse :: "string \<Rightarrow> json option"      \<comment> \<open>None: \<open>JSON.parse\<close> throws\<close>
  jsonStringify :: "json \<Rightarrow> string"

text \<open>
  What the code relies on, as named conditions: a digest is \<open>sha256:\<close> and 64 hex
  digits; printing and parsing JSON are inverse and the text has no line break and
  is not blank; and two given values with one digest are equal (collision freedom
  is asked of the values at hand only, never of all values).
\<close>

definition hash_shaped :: "externals \<Rightarrow> bool" where
  "hash_shaped x \<longleftrightarrow> (\<forall>v. Hash (hashCanonical x v))"

definition json_text_ok :: "externals \<Rightarrow> json \<Rightarrow> bool" where
  "json_text_ok x v \<longleftrightarrow>
     jsonParse x (jsonStringify x v) = Some v \<and>
     CHR 0x0A \<notin> set (jsonStringify x v) \<and> trim (jsonStringify x v) \<noteq> []"

subsection \<open>Events\<close>

definition LedgerSource :: "string list" where
  "LedgerSource =
     [''loopeix'', ''codex_cli'', ''claude_code_cli'', ''shell'', ''browser'', ''user'', ''evaluator'']"

record ledger_event_draft =
  schema_version :: string
  event_id :: string
  run_id :: string
  timestamp :: string
  event_type :: string
  source :: string
  actor_id :: "string option"
  task_run_id :: "string option"
  risk_tier :: string
  payload :: json
  related_ids :: "string list"

record ledger_event = ledger_event_draft +
  sequence :: int
  previous_event_hash :: "string option"
  event_hash :: string

definition jopt :: "string option \<Rightarrow> json" where
  "jopt s = (case s of None \<Rightarrow> JNull | Some t \<Rightarrow> JStr t)"

text \<open>The event without its \<open>event_hash\<close>, the value that is hashed, and the whole event.\<close>

definition unsealed_fields :: "ledger_event \<Rightarrow> (string \<times> json) list" where
  "unsealed_fields e =
     [(''schema_version'', JStr (schema_version e)),
      (''event_id'', JStr (event_id e)),
      (''run_id'', JStr (run_id e)),
      (''timestamp'', JStr (timestamp e)),
      (''event_type'', JStr (event_type e)),
      (''source'', JStr (source e)),
      (''actor_id'', jopt (actor_id e)),
      (''task_run_id'', jopt (task_run_id e)),
      (''risk_tier'', JStr (risk_tier e)),
      (''payload'', payload e),
      (''related_ids'', JArr (map JStr (related_ids e))),
      (''sequence'', JInt (sequence e)),
      (''previous_event_hash'', jopt (previous_event_hash e))]"

definition unsealed :: "ledger_event \<Rightarrow> json" where
  "unsealed e = JObj (unsealed_fields e)"

definition event_json :: "ledger_event \<Rightarrow> json" where
  "event_json e = JObj (unsealed_fields e @ [(''event_hash'', JStr (event_hash e))])"

definition event_keys :: "string list" where
  "event_keys =
     [''schema_version'', ''event_id'', ''run_id'', ''timestamp'', ''event_type'', ''source'',
      ''actor_id'', ''task_run_id'', ''risk_tier'', ''payload'', ''related_ids'', ''sequence'',
      ''previous_event_hash'', ''event_hash'']"

text \<open>\<open>LedgerEvent.safeParse(raw)\<close>: None is a shape error.\<close>

definition parse_event :: "externals \<Rightarrow> json \<Rightarrow> ledger_event option" where
  "parse_event x raw =
     (if \<not> keys_within event_keys raw then None
      else do {
        sv \<leftarrow> field_string SchemaVersion raw ''schema_version'';
        eid \<leftarrow> field_string MachineId raw ''event_id'';
        rid \<leftarrow> field_string MachineId raw ''run_id'';
        sq \<leftarrow> field_int 1 raw ''sequence'';
        ts \<leftarrow> field_string (isoDatetime x) raw ''timestamp'';
        et \<leftarrow> field_string (\<lambda>s. s \<noteq> []) raw ''event_type'';
        src \<leftarrow> field_string (\<lambda>s. s \<in> set LedgerSource) raw ''source'';
        act \<leftarrow> field_nullable (\<lambda>_. True) raw ''actor_id'';
        tsk \<leftarrow> field_nullable (\<lambda>_. True) raw ''task_run_id'';
        rt \<leftarrow> field_string (\<lambda>s. s \<in> set RiskTier) raw ''risk_tier'';
        pl \<leftarrow> field_object raw ''payload'';
        rel \<leftarrow> field_strings raw ''related_ids'';
        prev \<leftarrow> field_nullable Hash raw ''previous_event_hash'';
        h \<leftarrow> field_string Hash raw ''event_hash'';
        Some \<lparr>schema_version = sv, event_id = eid, run_id = rid, timestamp = ts, event_type = et,
          source = src, actor_id = act, task_run_id = tsk, risk_tier = rt, payload = pl,
          related_ids = rel, sequence = sq, previous_event_hash = prev, event_hash = h\<rparr>
      })"

subsection \<open>Sealing\<close>

definition appendToLedger ::
  "externals \<Rightarrow> ledger_event list \<Rightarrow> ledger_event_draft \<Rightarrow> ledger_event" where
  "appendToLedger x existing draft =
     (let u = ledger_event_draft.extend draft
                (ledger_event.fields (int (length existing) + 1)
                   (map_option event_hash (last_opt existing)) [])
      in u\<lparr>event_hash := hashCanonical x (unsealed u)\<rparr>)"

text \<open>A writer appends one draft after another.\<close>

fun seal_all :: "externals \<Rightarrow> ledger_event list \<Rightarrow> ledger_event_draft list \<Rightarrow> ledger_event list" where
  "seal_all x ledger [] = ledger"
| "seal_all x ledger (d # ds) = seal_all x (ledger @ [appendToLedger x ledger d]) ds"

definition newline :: char where "newline = CHR 0x0A"

definition serializeLedger :: "externals \<Rightarrow> ledger_event list \<Rightarrow> string" where
  "serializeLedger x events =
     join [newline] (map (\<lambda>e. jsonStringify x (event_json e)) events) @ [newline]"

subsection \<open>Reading the text back\<close>

record parsed_ledger =
  pl_events :: "json list"
  partialFinalLineDropped :: bool
  corruptLines :: "nat list"

fun drop_trailing_empty :: "string list \<Rightarrow> string list" where
  "drop_trailing_empty ls = rev (dropWhile (\<lambda>l. l = []) (rev ls))"

definition read_line ::
  "externals \<Rightarrow> nat \<Rightarrow> parsed_ledger \<Rightarrow> nat \<times> string \<Rightarrow> parsed_ledger" where
  "read_line x n st il =
     (case il of (idx, line) \<Rightarrow>
        if trim line = [] then st
        else (case jsonParse x line of
                Some v \<Rightarrow> st\<lparr>pl_events := pl_events st @ [v]\<rparr>
              | None \<Rightarrow>
                  if idx = n - 1 then st\<lparr>partialFinalLineDropped := True\<rparr>
                  else st\<lparr>corruptLines := corruptLines st @ [idx + 1]\<rparr>))"

definition parseLedgerText :: "externals \<Rightarrow> string \<Rightarrow> parsed_ledger" where
  "parseLedgerText x text =
     (let ls = drop_trailing_empty (split_on newline text) in
      foldl (read_line x (length ls))
        \<lparr>pl_events = [], partialFinalLineDropped = False, corruptLines = []\<rparr> (indexed ls))"

subsection \<open>The chain and content checks\<close>

datatype ledger_issue =
    ShapeIssue nat
  | RunIdMismatch nat string string
  | DuplicateEventId nat string
  | WrongSequence nat int
  | FirstPreviousNotNull
  | ChainBreak nat
  | HashMismatch nat

record chain_state =
  cs_prevHash :: "string option"
  cs_runId :: "string option"
  cs_eventIds :: "string list"

definition chain_start :: chain_state where
  "chain_start = \<lparr>cs_prevHash = None, cs_runId = None, cs_eventIds = []\<rparr>"

definition event_issues :: "nat \<Rightarrow> chain_state \<Rightarrow> ledger_event \<Rightarrow> ledger_issue list" where
  "event_issues i s ev =
     (case cs_runId s of
        Some r \<Rightarrow> if run_id ev \<noteq> r then [RunIdMismatch i (run_id ev) r] else []
      | None \<Rightarrow> []) @
     (if event_id ev \<in> set (cs_eventIds s) then [DuplicateEventId i (event_id ev)] else []) @
     (if sequence ev \<noteq> int i + 1 then [WrongSequence i (sequence ev)] else []) @
     (if i = 0 then (if previous_event_hash ev \<noteq> None then [FirstPreviousNotNull] else [])
      else if previous_event_hash ev \<noteq> cs_prevHash s then [ChainBreak i] else [])"

definition chain_next :: "chain_state \<Rightarrow> ledger_event \<Rightarrow> chain_state" where
  "chain_next s ev =
     \<lparr>cs_prevHash = Some (event_hash ev),
      cs_runId = (case cs_runId s of None \<Rightarrow> Some (run_id ev) | Some r \<Rightarrow> Some r),
      cs_eventIds = event_id ev # cs_eventIds s\<rparr>"

fun validate_from :: "externals \<Rightarrow> nat \<Rightarrow> chain_state \<Rightarrow> json list \<Rightarrow> ledger_issue list" where
  "validate_from x i s [] = []"
| "validate_from x i s (raw # raws) =
     (case parse_event x raw of
        None \<Rightarrow> ShapeIssue i # validate_from x (Suc i) s raws
      | Some ev \<Rightarrow> event_issues i s ev @ validate_from x (Suc i) (chain_next s ev) raws)"

definition validateLedger :: "externals \<Rightarrow> json list \<Rightarrow> ledger_issue list" where
  "validateLedger x raws = validate_from x 0 chain_start raws"

definition content_ok :: "externals \<Rightarrow> ledger_event \<Rightarrow> bool" where
  "content_ok x ev \<longleftrightarrow> hashCanonical x (unsealed ev) = event_hash ev"

definition verifyEventHashes :: "externals \<Rightarrow> ledger_event list \<Rightarrow> ledger_issue list" where
  "verifyEventHashes x events =
     concat (map (\<lambda>(i, ev). if content_ok x ev then [] else [HashMismatch i]) (indexed events))"

subsection \<open>Recovery\<close>

definition RUN_STATE_BY_EVENT :: "(string \<times> string) list" where
  "RUN_STATE_BY_EVENT =
     [(''run.completed'', ''completed''),
      (''run.failed'', ''failed''),
      (''run.interrupted'', ''interrupted''),
      (''run.recovering'', ''recovering''),
      (''run.held'', ''held''),
      (''run.started'', ''running'')]"

definition TERMINAL_EVENTS :: "string list" where
  "TERMINAL_EVENTS = [''run.completed'', ''run.failed'', ''run.held'', ''run.archived'']"

datatype integrity = Valid | Hold

text \<open>The state is a string, unless an event type names a property every object inherits.\<close>

datatype run_state = RunState string | InheritedState

datatype recovery_finding =
    PartialLineDropped
  | Quarantined "nat list"
  | ChainFinding ledger_issue
  | IntegrityFinding ledger_issue
  | Truncation int int

record recovery_result =
  integrity_status :: integrity
  run_state :: run_state
  last_valid_sequence :: int
  terminated :: bool
  findings :: "recovery_finding list"

record recovery_opts =
  opt_partial :: bool
  opt_expected :: "int option"
  opt_corrupt :: "nat list"

definition no_opts :: recovery_opts where
  "no_opts = \<lparr>opt_partial = False, opt_expected = None, opt_corrupt = []\<rparr>"

fun valid_prefix ::
  "externals \<Rightarrow> nat \<Rightarrow> string option \<Rightarrow> ledger_event list \<Rightarrow> ledger_event list" where
  "valid_prefix x i prev [] = []"
| "valid_prefix x i prev (ev # evs) =
     (if sequence ev = int i + 1 \<and>
         (if i = 0 then previous_event_hash ev = None else previous_event_hash ev = prev) \<and>
         content_ok x ev
      then ev # valid_prefix x (Suc i) (Some (event_hash ev)) evs
      else [])"

definition state_of_event :: "string \<Rightarrow> run_state" where
  "state_of_event t =
     (case table_lookup RUN_STATE_BY_EVENT t of
        Own s \<Rightarrow> RunState s | Inherited \<Rightarrow> InheritedState | Missing \<Rightarrow> RunState ''running'')"

definition recoverLedger :: "externals \<Rightarrow> json list \<Rightarrow> recovery_opts \<Rightarrow> recovery_result" where
  "recoverLedger x rawEvents opts =
     (let chainIssues = validateLedger x rawEvents;
          sealed = List.map_filter (parse_event x) rawEvents;
          lastValid = last_opt (valid_prefix x 0 None sealed);
          lastSeq = (case lastValid of Some ev \<Rightarrow> sequence ev | None \<Rightarrow> 0);
          fs = (if opt_partial opts then [PartialLineDropped] else []) @
               (if opt_corrupt opts \<noteq> [] then [Quarantined (opt_corrupt opts)] else []) @
               map ChainFinding chainIssues @
               (if chainIssues = [] then map IntegrityFinding (verifyEventHashes x sealed) else []) @
               (case opt_expected opts of
                  Some n \<Rightarrow> if lastSeq < n then [Truncation n lastSeq] else []
                | None \<Rightarrow> [])
      in \<lparr>integrity_status = (if fs = [] then Valid else Hold),
          run_state = (case lastValid of Some ev \<Rightarrow> state_of_event (event_type ev)
                       | None \<Rightarrow> RunState ''planned''),
          last_valid_sequence = lastSeq,
          terminated = (case lastValid of Some ev \<Rightarrow> event_type ev \<in> set TERMINAL_EVENTS
                        | None \<Rightarrow> False),
          findings = fs\<rparr>)"

subsection \<open>Well-formed events and the parser\<close>

definition event_ok :: "externals \<Rightarrow> ledger_event \<Rightarrow> bool" where
  "event_ok x e \<longleftrightarrow>
     SchemaVersion (schema_version e) \<and> MachineId (event_id e) \<and> MachineId (run_id e) \<and>
     1 \<le> sequence e \<and> sequence e \<le> MAX_SAFE_INTEGER \<and> isoDatetime x (timestamp e) \<and>
     event_type e \<noteq> [] \<and> source e \<in> set LedgerSource \<and> risk_tier e \<in> set RiskTier \<and>
     (case payload e of JObj fs \<Rightarrow> True | _ \<Rightarrow> False) \<and>
     (case previous_event_hash e of None \<Rightarrow> True | Some h \<Rightarrow> Hash h) \<and> Hash (event_hash e)"

lemma jget_event_json:
  "jget (event_json e) ''schema_version'' = Some (JStr (schema_version e))"
  "jget (event_json e) ''event_id'' = Some (JStr (event_id e))"
  "jget (event_json e) ''run_id'' = Some (JStr (run_id e))"
  "jget (event_json e) ''timestamp'' = Some (JStr (timestamp e))"
  "jget (event_json e) ''event_type'' = Some (JStr (event_type e))"
  "jget (event_json e) ''source'' = Some (JStr (source e))"
  "jget (event_json e) ''actor_id'' = Some (jopt (actor_id e))"
  "jget (event_json e) ''task_run_id'' = Some (jopt (task_run_id e))"
  "jget (event_json e) ''risk_tier'' = Some (JStr (risk_tier e))"
  "jget (event_json e) ''payload'' = Some (payload e)"
  "jget (event_json e) ''related_ids'' = Some (JArr (map JStr (related_ids e)))"
  "jget (event_json e) ''sequence'' = Some (JInt (sequence e))"
  "jget (event_json e) ''previous_event_hash'' = Some (jopt (previous_event_hash e))"
  "jget (event_json e) ''event_hash'' = Some (JStr (event_hash e))"
  by (simp_all add: event_json_def unsealed_fields_def)

lemma keys_within_event_json: "keys_within event_keys (event_json e)"
  by (simp add: event_json_def unsealed_fields_def event_keys_def)

lemma field_nullable_jopt:
  "jget v k = Some (jopt s) \<Longrightarrow>
     field_nullable ok v k =
       (case s of None \<Rightarrow> Some None | Some t \<Rightarrow> if ok t then Some (Some t) else None)"
  by (simp add: field_nullable_def jopt_def split: option.splits)

lemma parse_event_json: "event_ok x e \<Longrightarrow> parse_event x (event_json e) = Some e"
  by (cases e, cases "previous_event_hash e"; cases "actor_id e"; cases "task_run_id e")
    (simp_all add: parse_event_def keys_within_event_json event_ok_def field_string_def
      field_int_def field_object_def field_strings_def jget_event_json isSafeInteger_def
      MAX_SAFE_INTEGER_def field_nullable_jopt [OF jget_event_json(7)]
      field_nullable_jopt [OF jget_event_json(8)] field_nullable_jopt [OF jget_event_json(13)]
      split: json.splits)

lemma unsealed_inj: "unsealed e = unsealed f \<Longrightarrow> event_hash e = event_hash f \<Longrightarrow> e = f"
proof -
  assume u: "unsealed e = unsealed f" and h: "event_hash e = event_hash f"
  have jopt: "jopt a = jopt b \<longleftrightarrow> a = b" for a b
    by (simp add: jopt_def split: option.splits)
  have "inj JStr" by (rule injI) simp
  with u h show ?thesis
    by (cases e, cases f) (simp add: unsealed_def unsealed_fields_def jopt inj_map_eq_map)
qed

interpretation event_chain: hash_chain unsealed event_hash previous_event_hash sequence
  by unfold_locales (rule unsealed_inj)

subsection \<open>What the checks establish\<close>

text \<open>
  The abstract specification of a ledger: a sound hash chain over one run with
  pairwise different event ids.
\<close>

abbreviation chained :: "externals \<Rightarrow> nat \<Rightarrow> string option \<Rightarrow> ledger_event list \<Rightarrow> bool" where
  "chained x i h es \<equiv>
     chain_from unsealed event_hash previous_event_hash sequence (hashCanonical x) i h es"

definition same_run :: "ledger_event list \<Rightarrow> bool" where
  "same_run es \<longleftrightarrow> (\<forall>e\<in>set es. run_id e = run_id (hd es))"

definition intact :: "externals \<Rightarrow> ledger_event list \<Rightarrow> bool" where
  "intact x es \<longleftrightarrow> chained x 0 None es \<and> distinct (map event_id es) \<and> same_run es"

fun clean_from :: "nat \<Rightarrow> chain_state \<Rightarrow> ledger_event list \<Rightarrow> bool" where
  "clean_from i s [] \<longleftrightarrow> True"
| "clean_from i s (e # es) \<longleftrightarrow> event_issues i s e = [] \<and> clean_from (Suc i) (chain_next s e) es"

lemma validate_from_clean:
  "map (parse_event x) raws = map Some es \<Longrightarrow> validate_from x i s raws = [] \<longleftrightarrow> clean_from i s es"
  by (induction raws arbitrary: i s es) (auto simp: Cons_eq_map_conv)

lemma validate_from_parses:
  "validate_from x i s raws = [] \<Longrightarrow> \<exists>es. map (parse_event x) raws = map Some es"
proof (induction raws arbitrary: i s)
  case Nil
  then show ?case by simp
next
  case (Cons raw raws)
  then obtain ev where "parse_event x raw = Some ev"
    and "validate_from x (Suc i) (chain_next s ev) raws = []"
    by (auto split: option.splits)
  moreover from this(2) obtain es where "map (parse_event x) raws = map Some es"
    using Cons.IH by blast
  ultimately have "map (parse_event x) (raw # raws) = map Some (ev # es)" by simp
  then show ?case by blast
qed

definition runs_from :: "string option \<Rightarrow> ledger_event list \<Rightarrow> bool" where
  "runs_from r es \<longleftrightarrow>
     (case r of Some q \<Rightarrow> (\<forall>e\<in>set es. run_id e = q) | None \<Rightarrow> same_run es)"

lemma clean_from_chained:
  assumes "i = 0 \<Longrightarrow> cs_prevHash s = None"
  shows "clean_from i s es \<and> (\<forall>e\<in>set es. content_ok x e) \<longleftrightarrow>
    chained x i (cs_prevHash s) es \<and> distinct (map event_id es) \<and>
    set (map event_id es) \<inter> set (cs_eventIds s) = {} \<and> runs_from (cs_runId s) es"
  using assms
proof (induction es arbitrary: i s)
  case Nil
  then show ?case by (simp add: runs_from_def same_run_def split: option.splits)
next
  case (Cons e es)
  have IH: "clean_from (Suc i) (chain_next s e) es \<and> (\<forall>e\<in>set es. content_ok x e) \<longleftrightarrow>
      chained x (Suc i) (Some (event_hash e)) es \<and> distinct (map event_id es) \<and>
      set (map event_id es) \<inter> set (event_id e # cs_eventIds s) = {} \<and>
      runs_from (cs_runId (chain_next s e)) es"
    using Cons.IH [of "Suc i" "chain_next s e"] by (simp add: chain_next_def)
  have "event_issues i s e = [] \<longleftrightarrow>
      (case cs_runId s of Some r \<Rightarrow> run_id e = r | None \<Rightarrow> True) \<and>
      event_id e \<notin> set (cs_eventIds s) \<and> sequence e = int i + 1 \<and>
      previous_event_hash e = cs_prevHash s"
    using Cons.prems by (auto simp: event_issues_def split: option.splits)
  moreover have "runs_from (cs_runId s) (e # es) \<longleftrightarrow>
      (case cs_runId s of Some r \<Rightarrow> run_id e = r | None \<Rightarrow> True) \<and>
      runs_from (cs_runId (chain_next s e)) es"
    by (simp add: runs_from_def same_run_def chain_next_def split: option.splits)
  ultimately show ?case
    using IH by (auto simp: content_ok_def)
qed

lemma verifyEventHashes_Nil: "verifyEventHashes x es = [] \<longleftrightarrow> (\<forall>e\<in>set es. content_ok x e)"
  unfolding verifyEventHashes_def by (rule concat_indexed_Nil) simp

lemma map_filter_parsed:
  "map (parse_event x) raws = map Some es \<Longrightarrow> List.map_filter (parse_event x) raws = es"
  by (induction raws arbitrary: es) (auto simp: Cons_eq_map_conv map_filter_simps)

lemma checks_pass_iff:
  "validateLedger x raws = [] \<and> verifyEventHashes x (List.map_filter (parse_event x) raws) = [] \<longleftrightarrow>
     (\<exists>es. map (parse_event x) raws = map Some es \<and> intact x es)"
proof -
  have iff: "validateLedger x raws = [] \<and> verifyEventHashes x es = [] \<longleftrightarrow> intact x es"
    if "map (parse_event x) raws = map Some es" for es
    using clean_from_chained [of 0 chain_start es x] validate_from_clean [OF that, of 0 chain_start]
    by (simp add: validateLedger_def verifyEventHashes_Nil intact_def runs_from_def chain_start_def)
  show ?thesis
    using iff map_filter_parsed validate_from_parses unfolding validateLedger_def by metis
qed

lemma valid_prefix_chained:
  "chained x i h es \<Longrightarrow> (i = 0 \<Longrightarrow> h = None) \<Longrightarrow> valid_prefix x i h es = es"
  by (induction es arbitrary: i h) (auto simp: content_ok_def)

lemma valid_prefix_is_chained:
  "(i = 0 \<Longrightarrow> h = None) \<Longrightarrow> chained x i h (valid_prefix x i h es)"
  by (induction es arbitrary: i h) (auto simp: content_ok_def)

lemma valid_prefix_prefix: "prefix (valid_prefix x i h es) es"
  by (induction es arbitrary: i h) auto

lemma chained_last_sequence:
  "chained x 0 None es \<Longrightarrow> (case last_opt es of Some e \<Rightarrow> sequence e | None \<Rightarrow> 0) = int (length es)"
  by (cases es rule: rev_cases) (auto simp: chain_from_append)

lemma recoverLedger_simps:
  "integrity_status (recoverLedger x raws opts) = Valid \<longleftrightarrow> findings (recoverLedger x raws opts) = []"
  "last_valid_sequence (recoverLedger x raws opts) =
     int (length (valid_prefix x 0 None (List.map_filter (parse_event x) raws)))"
  using chained_last_sequence [OF valid_prefix_is_chained [of 0 None x "List.map_filter (parse_event x) raws"]]
  by (simp_all add: recoverLedger_def Let_def)

text \<open>
  C7: recovery reports a ledger as valid exactly when nothing was dropped or
  quarantined, every line is an event, the events are one intact chain, and the chain
  is at least as long as the caller knows it to be.
\<close>

theorem recover_valid_iff:
  "integrity_status (recoverLedger x raws opts) = Valid \<longleftrightarrow>
     \<not> opt_partial opts \<and> opt_corrupt opts = [] \<and>
     (\<exists>es. map (parse_event x) raws = map Some es \<and> intact x es) \<and>
     (case opt_expected opts of Some n \<Rightarrow> n \<le> int (length raws) | None \<Rightarrow> True)"
proof -
  let ?sealed = "List.map_filter (parse_event x) raws"
  let ?last = "last_opt (valid_prefix x 0 None ?sealed)"
  let ?seq = "case ?last of Some ev \<Rightarrow> sequence ev | None \<Rightarrow> 0"
  have fs: "findings (recoverLedger x raws opts) = [] \<longleftrightarrow>
      \<not> opt_partial opts \<and> opt_corrupt opts = [] \<and> validateLedger x raws = [] \<and>
      verifyEventHashes x ?sealed = [] \<and>
      (case opt_expected opts of Some n \<Rightarrow> n \<le> ?seq | None \<Rightarrow> True)"
    by (simp add: recoverLedger_def Let_def not_less split: option.splits)
  have len: "?seq = int (length raws)"
    if "map (parse_event x) raws = map Some es" "intact x es" for es
  proof -
    have "length raws = length es" using that(1) by (metis length_map)
    then show ?thesis
      using that map_filter_parsed [OF that(1)] valid_prefix_chained [of x 0 None es]
        chained_last_sequence [of x es] by (simp add: intact_def)
  qed
  show ?thesis
    unfolding recoverLedger_simps(1) fs using checks_pass_iff [of x raws] len by metis
qed

text \<open>A ledger that recovers as valid is valid to its end: the head sequence is its length.\<close>

theorem recover_valid_reaches_end:
  assumes "integrity_status (recoverLedger x raws opts) = Valid"
  shows "last_valid_sequence (recoverLedger x raws opts) = int (length raws)"
proof -
  from assms obtain es where es: "map (parse_event x) raws = map Some es" "intact x es"
    unfolding recover_valid_iff by blast
  then have "valid_prefix x 0 None (List.map_filter (parse_event x) raws) = es"
    using map_filter_parsed valid_prefix_chained by (simp add: intact_def)
  then show ?thesis using es(1) by (metis length_map recoverLedger_simps(2))
qed

text \<open>
  C8: the head hash binds the whole ledger. Two ledgers that both recover as valid and
  whose last events store the same hash hold the same events, up to a collision of the
  digest among the events at hand: neither an edit, a reordering nor a truncation keeps the head.
\<close>

theorem head_hash_binds_ledger:
  assumes "integrity_status (recoverLedger x raws opts) = Valid"
    and "integrity_status (recoverLedger x raws' opts') = Valid"
    and "map (parse_event x) raws = map Some es" and "map (parse_event x) raws' = map Some fs"
    and "map_option event_hash (last_opt es) = map_option event_hash (last_opt fs)"
    and "collision_free (hashCanonical x) (unsealed ` (set es \<union> set fs))"
  shows "es = fs"
proof -
  have inj: "inj (Some :: ledger_event \<Rightarrow> _)" by (rule injI) simp
  from assms(1,3) have "intact x es"
    unfolding recover_valid_iff using inj by (metis inj_map_eq_map)
  moreover from assms(2,4) have "intact x fs"
    unfolding recover_valid_iff using inj by (metis inj_map_eq_map)
  ultimately show ?thesis
    using assms(5,6) by (intro event_chain.head_binds) (auto simp: intact_def)
qed

subsection \<open>Sealed ledgers recover as valid\<close>

definition draft_ok :: "externals \<Rightarrow> ledger_event_draft \<Rightarrow> bool" where
  "draft_ok x d \<longleftrightarrow>
     SchemaVersion (schema_version d) \<and> MachineId (event_id d) \<and> MachineId (run_id d) \<and>
     isoDatetime x (timestamp d) \<and> event_type d \<noteq> [] \<and> source d \<in> set LedgerSource \<and>
     risk_tier d \<in> set RiskTier \<and> (case payload d of JObj fs \<Rightarrow> True | _ \<Rightarrow> False)"

lemmas append_defs =
  appendToLedger_def Let_def ledger_event_draft.defs ledger_event.defs

lemma appendToLedger_fields [simp]:
  "event_id (appendToLedger x led d) = event_id d"
  "run_id (appendToLedger x led d) = run_id d"
  "sequence (appendToLedger x led d) = int (length led) + 1"
  "previous_event_hash (appendToLedger x led d) = map_option event_hash (last_opt led)"
  by (simp_all add: append_defs)

lemma unsealed_event_hash [simp]: "unsealed (e\<lparr>event_hash := h\<rparr>) = unsealed e"
  by (simp add: unsealed_def unsealed_fields_def)

lemma appendToLedger_hash [simp]:
  "event_hash (appendToLedger x led d) = hashCanonical x (unsealed (appendToLedger x led d))"
  by (simp add: appendToLedger_def Let_def)

lemma seal_all_chained: "chained x 0 None led \<Longrightarrow> chained x 0 None (seal_all x led ds)"
  by (induction ds arbitrary: led) (simp_all add: sound_chain_snoc)

lemma seal_all_fields:
  "length (seal_all x led ds) = length led + length ds"
  "map event_id (seal_all x led ds) = map event_id led @ map event_id ds"
  "map run_id (seal_all x led ds) = map run_id led @ map run_id ds"
  by (induction ds arbitrary: led) simp_all

lemma appendToLedger_ok:
  assumes "hash_shaped x" and "draft_ok x d" and "\<forall>e\<in>set led. event_ok x e"
    and "int (length led) < MAX_SAFE_INTEGER"
  shows "event_ok x (appendToLedger x led d)"
proof -
  have "case last_opt led of None \<Rightarrow> True | Some e \<Rightarrow> Hash (event_hash e)"
    using assms(3) last_opt_in [of led] by (auto simp: event_ok_def split: option.splits)
  moreover have "Hash (event_hash (appendToLedger x led d))"
    using assms(1) by (simp add: hash_shaped_def)
  ultimately show ?thesis
    using assms(2,4)
    by (auto simp: event_ok_def draft_ok_def split: option.splits)
      (simp_all add: append_defs)
qed

lemma seal_all_ok:
  assumes "hash_shaped x" and "\<forall>d\<in>set ds. draft_ok x d" and "\<forall>e\<in>set led. event_ok x e"
    and "int (length led + length ds) \<le> MAX_SAFE_INTEGER"
  shows "\<forall>e\<in>set (seal_all x led ds). event_ok x e"
  using assms
proof (induction ds arbitrary: led)
  case Nil
  then show ?case by simp
next
  case (Cons d ds)
  have "event_ok x (appendToLedger x led d)"
    using Cons.prems by (intro appendToLedger_ok) simp_all
  then show ?case
    unfolding seal_all.simps using Cons.prems by (intro Cons.IH) auto
qed

lemma parse_event_jsons:
  "\<forall>e\<in>set es. event_ok x e \<Longrightarrow> map (parse_event x) (map event_json es) = map Some es"
  by (simp add: parse_event_json)

text \<open>
  C9: sealing well-formed drafts of one run with different event ids gives a ledger
  that recovers as valid, at any length up to the largest safe integer; digests are
  assumed to have the digest shape.
\<close>

theorem sealed_ledger_valid:
  assumes "hash_shaped x" and "\<forall>d\<in>set ds. draft_ok x d"
    and "distinct (map event_id ds)" and "\<forall>d\<in>set ds. run_id d = r"
    and "int (length ds) \<le> MAX_SAFE_INTEGER"
  shows "integrity_status (recoverLedger x (map event_json (seal_all x [] ds)) no_opts) = Valid"
proof -
  let ?es = "seal_all x [] ds"
  have "set (map run_id ?es) \<subseteq> {r}" using assms(4) by (auto simp: seal_all_fields(3) [of x "[]" ds])
  then have "same_run ?es"
    by (cases ?es) (auto simp: same_run_def)
  moreover have "map (parse_event x) (map event_json ?es) = map Some ?es"
    using assms(1,2,5) by (intro parse_event_jsons seal_all_ok) simp_all
  moreover have "chained x 0 None ?es" "distinct (map event_id ?es)"
    using assms(3) seal_all_chained [of x "[]" ds] seal_all_fields(2) [of x "[]" ds] by simp_all
  ultimately have "\<exists>es. map (parse_event x) (map event_json ?es) = map Some es \<and> intact x es"
    unfolding intact_def by blast
  then show ?thesis unfolding recover_valid_iff by (simp add: no_opts_def)
qed

subsection \<open>The text of a ledger\<close>

lemma read_lines:
  assumes "\<forall>e\<in>set es. json_text_ok x (event_json e)"
  shows "foldl (read_line x n) st (zip ks (map (\<lambda>e. jsonStringify x (event_json e)) es)) =
    st\<lparr>pl_events := pl_events st @ map event_json (take (length ks) es)\<rparr>"
  using assms
proof (induction es arbitrary: ks st)
  case Nil
  then show ?case by simp
next
  case (Cons e es)
  then show ?case by (cases ks) (simp_all add: read_line_def json_text_ok_def)
qed

lemma drop_trailing_empty_snoc:
  "[] \<notin> set ls \<Longrightarrow> drop_trailing_empty (ls @ [[]]) = ls"
  by (cases ls rule: rev_cases) auto

text \<open>
  C10: reading back the serialised text of a ledger gives the events that were
  written, with no dropped and no quarantined line, for every JSON printer whose
  output the parser reads back and that keeps a value on one line.
\<close>

theorem parse_serialized_ledger:
  assumes "\<forall>e\<in>set es. json_text_ok x (event_json e)"
  shows "parseLedgerText x (serializeLedger x es) =
    \<lparr>pl_events = map event_json es, partialFinalLineDropped = False, corruptLines = []\<rparr>"
proof -
  let ?ls = "map (\<lambda>e. jsonStringify x (event_json e)) es"
  have ne: "[] \<notin> set ?ls" using assms by (force simp: json_text_ok_def trim_def)
  have "drop_trailing_empty (split_on newline (serializeLedger x es)) = ?ls"
  proof (cases "es = []")
    case True
    then show ?thesis by (simp add: serializeLedger_def)
  next
    case False
    then have "serializeLedger x es = join [newline] (?ls @ [[]])"
      by (simp add: serializeLedger_def join_snoc_empty)
    moreover have "split_on newline (join [newline] (?ls @ [[]])) = ?ls @ [[]]"
      using assms by (intro split_on_join) (auto simp: json_text_ok_def newline_def)
    ultimately show ?thesis using ne drop_trailing_empty_snoc by metis
  qed
  then show ?thesis
    using read_lines [OF assms] by (simp add: parseLedgerText_def Let_def indexed_def)
qed

subsection \<open>A concrete instance of the parameters\<close>

text \<open>A digest by position and a printer for one event: enough to evaluate two-event ledgers.\<close>

definition demo_digest :: "json \<Rightarrow> string" where
  "demo_digest v = ''sha256:'' @
     replicate 64 (if jget v ''sequence'' = Some (JInt 1) then CHR ''1''
                   else if jget v ''sequence'' = Some (JInt 2) then CHR ''2'' else CHR ''0'')"

definition demo_draft :: "string \<Rightarrow> string \<Rightarrow> ledger_event_draft" where
  "demo_draft eid ty =
     \<lparr>schema_version = ''0.1'', event_id = eid, run_id = ''run_a'', timestamp = ''2026-01-01T00:00:00Z'',
      event_type = ty, source = ''loopeix'', actor_id = None, task_run_id = None,
      risk_tier = ''T1'', payload = JObj [], related_ids = []\<rparr>"

definition demo_externals :: externals where
  "demo_externals =
     \<lparr>hashCanonical = demo_digest, hashBytes = (\<lambda>_. ''sha256:''), isoDatetime = (\<lambda>_. True),
      jsonParse = (\<lambda>s. if s = ''one'' then Some (event_json (hd (seal_all
         \<lparr>hashCanonical = demo_digest, hashBytes = (\<lambda>_. []), isoDatetime = (\<lambda>_. True),
          jsonParse = (\<lambda>_. None), jsonStringify = (\<lambda>_. [])\<rparr> [] [demo_draft ''event_a'' ''run.started''])))
        else None),
      jsonStringify = (\<lambda>_. ''one'')\<rparr>"

definition demo_ledger :: "ledger_event list" where
  "demo_ledger =
     seal_all demo_externals []
       [demo_draft ''event_a'' ''run.started'', demo_draft ''event_b'' ''run.completed'']"

end
