(* ===== verification/Brief.thy ===== *)
theory Brief
  imports Ledger
begin

text \<open>
  Sealed briefs (\<open>src/schema/brief.ts\<close>, \<open>src/brief.ts\<close>): the structured clauses, the
  strict schema with its reserved and unique clause ids, loading and the sealed payload.
  The YAML parser is a parameter that gives a JSON value or None when it throws.
\<close>

datatype acceptance_kind = TestsPass | FreeformAcceptance

record acceptance_clause =
  ac_id :: string
  ac_label :: string
  ac_kind :: acceptance_kind

datatype path_kind = DeletePaths | WritePaths

datatype forbidden_clause =
    PathClause (fc_id: string) (fc_label: string) (fc_kind: path_kind) (fc_globs: "string list")
  | Freeform (fc_id: string) (fc_label: string)

record brief =
  b_task :: string
  b_acceptance :: "acceptance_clause list"
  b_forbidden :: "forbidden_clause list"
  b_scope :: "string list"

definition RESERVED_CLAUSE_ID :: string where
  "RESERVED_CLAUSE_ID = ''scope''"

datatype brief_issue = ReservedId | DuplicateClauseId string

definition clause_ids :: "brief \<Rightarrow> string list" where
  "clause_ids b = map ac_id (b_acceptance b) @ map fc_id (b_forbidden b)"

fun clause_id_issues :: "string list \<Rightarrow> string list \<Rightarrow> brief_issue list" where
  "clause_id_issues seen [] = []"
| "clause_id_issues seen (i # is) =
     (if i = RESERVED_CLAUSE_ID then [ReservedId] else []) @
     (if i \<in> set seen then [DuplicateClauseId i] else []) @
     clause_id_issues (i # seen) is"

subsection \<open>The schema\<close>

abbreviation nonempty :: "string \<Rightarrow> bool" where "nonempty s \<equiv> s \<noteq> []"

definition parse_acceptance :: "json \<Rightarrow> acceptance_clause option" where
  "parse_acceptance v =
     (if \<not> keys_within [''id'', ''label'', ''kind''] v then None
      else do {
        i \<leftarrow> field_string HumanId v ''id'';
        l \<leftarrow> field_string nonempty v ''label'';
        k \<leftarrow> (case jget v ''kind'' of
               Some (JStr t) \<Rightarrow>
                 if t = ''tests-pass'' then Some TestsPass
                 else if t = ''freeform'' then Some FreeformAcceptance else None
             | _ \<Rightarrow> None);
        Some \<lparr>ac_id = i, ac_label = l, ac_kind = k\<rparr>
      })"

definition parse_path_clause :: "path_kind \<Rightarrow> json \<Rightarrow> forbidden_clause option" where
  "parse_path_clause k v =
     (if \<not> keys_within [''id'', ''label'', ''kind'', ''globs''] v then None
      else do {
        i \<leftarrow> field_string HumanId v ''id'';
        l \<leftarrow> field_string nonempty v ''label'';
        gs \<leftarrow> field_strings v ''globs'';
        if list_all nonempty gs \<and> gs \<noteq> [] then Some (PathClause i l k gs) else None
      })"

definition parse_freeform_clause :: "json \<Rightarrow> forbidden_clause option" where
  "parse_freeform_clause v =
     (if \<not> keys_within [''id'', ''label'', ''kind''] v then None
      else do {
        i \<leftarrow> field_string HumanId v ''id'';
        l \<leftarrow> field_string nonempty v ''label'';
        Some (Freeform i l)
      })"

definition parse_forbidden :: "json \<Rightarrow> forbidden_clause option" where
  "parse_forbidden v =
     (case jget v ''kind'' of
        Some (JStr t) \<Rightarrow>
          if t = ''delete_paths'' then parse_path_clause DeletePaths v
          else if t = ''write_paths'' then parse_path_clause WritePaths v
          else if t = ''freeform'' then parse_freeform_clause v
          else None
      | _ \<Rightarrow> None)"

fun parse_all :: "('a \<Rightarrow> 'b option) \<Rightarrow> 'a list \<Rightarrow> 'b list option" where
  "parse_all p [] = Some []"
| "parse_all p (v # vs) = do { x \<leftarrow> p v; xs \<leftarrow> parse_all p vs; Some (x # xs) }"

text \<open>An array field that is absent takes its default, the empty list.\<close>

definition field_list :: "(json \<Rightarrow> 'a option) \<Rightarrow> json \<Rightarrow> string \<Rightarrow> 'a list option" where
  "field_list p v k = (case jget v k of Some (JArr vs) \<Rightarrow> parse_all p vs | _ \<Rightarrow> None)"

definition field_list_or_empty :: "(json \<Rightarrow> 'a option) \<Rightarrow> json \<Rightarrow> string \<Rightarrow> 'a list option" where
  "field_list_or_empty p v k = (if jget v k = None then Some [] else field_list p v k)"

fun nonempty_text :: "json \<Rightarrow> string option" where
  "nonempty_text (JStr s) = (if s = [] then None else Some s)"
| "nonempty_text _ = None"

definition BriefShape :: "json \<Rightarrow> brief option" where
  "BriefShape raw =
     (if \<not> keys_within [''brief_version'', ''task'', ''acceptance'', ''forbidden'', ''scope''] raw then None
      else do {
        v \<leftarrow> field_string (\<lambda>s. s = ''0.1'') raw ''brief_version'';
        t \<leftarrow> field_string nonempty raw ''task'';
        acc \<leftarrow> field_list parse_acceptance raw ''acceptance'';
        forb \<leftarrow> field_list_or_empty parse_forbidden raw ''forbidden'';
        sc \<leftarrow> field_list_or_empty nonempty_text raw ''scope'';
        b \<leftarrow> Some \<lparr>b_task = t, b_acceptance = acc, b_forbidden = forb, b_scope = sc\<rparr>;
        if acc \<noteq> [] \<and> clause_id_issues [] (clause_ids b) = [] then Some b else None
      })"

subsection \<open>Loading and sealing\<close>

datatype brief_error = NotYaml | InvalidBrief

definition nfc_clause :: "(string \<Rightarrow> string) \<Rightarrow> forbidden_clause \<Rightarrow> forbidden_clause" where
  "nfc_clause nfc c =
     (case c of
        PathClause i l k gs \<Rightarrow> PathClause i l k (map nfc gs)
      | Freeform i l \<Rightarrow> Freeform i l)"

definition loadBrief ::
  "(string \<Rightarrow> json option) \<Rightarrow> (string \<Rightarrow> string) \<Rightarrow> string \<Rightarrow> brief_error + brief" where
  "loadBrief parseYaml nfc text =
     (case parseYaml text of
        None \<Rightarrow> Inl NotYaml
      | Some raw \<Rightarrow>
          (case BriefShape raw of
             None \<Rightarrow> Inl InvalidBrief
           | Some b \<Rightarrow>
               Inr (b\<lparr>b_scope := map nfc (b_scope b),
                      b_forbidden := map (nfc_clause nfc) (b_forbidden b)\<rparr>)))"

definition acceptance_json :: "acceptance_clause \<Rightarrow> json" where
  "acceptance_json c =
     JObj [(''id'', JStr (ac_id c)), (''label'', JStr (ac_label c)),
       (''kind'', JStr (case ac_kind c of TestsPass \<Rightarrow> ''tests-pass'' | FreeformAcceptance \<Rightarrow> ''freeform''))]"

definition forbidden_json :: "forbidden_clause \<Rightarrow> json" where
  "forbidden_json c =
     (case c of
        PathClause i l k gs \<Rightarrow>
          JObj [(''id'', JStr i), (''label'', JStr l),
            (''kind'', JStr (case k of DeletePaths \<Rightarrow> ''delete_paths'' | WritePaths \<Rightarrow> ''write_paths'')),
            (''globs'', JArr (map JStr gs))]
      | Freeform i l \<Rightarrow>
          JObj [(''id'', JStr i), (''label'', JStr l), (''kind'', JStr ''freeform'')])"

definition brief_json :: "brief \<Rightarrow> json" where
  "brief_json b =
     JObj [(''brief_version'', JStr ''0.1''),
       (''task'', JStr (b_task b)),
       (''acceptance'', JArr (map acceptance_json (b_acceptance b))),
       (''forbidden'', JArr (map forbidden_json (b_forbidden b))),
       (''scope'', JArr (map JStr (b_scope b)))]"

definition computeBriefHash :: "externals \<Rightarrow> brief \<Rightarrow> string" where
  "computeBriefHash x b = hashCanonical x (brief_json b)"

definition sealedBriefPayload :: "externals \<Rightarrow> brief \<Rightarrow> json" where
  "sealedBriefPayload x b =
     JObj [(''brief'', brief_json b), (''brief_hash'', JStr (computeBriefHash x b))]"

subsection \<open>What a loaded brief satisfies\<close>

lemma clause_id_issues_Nil:
  "clause_id_issues seen is = [] \<longleftrightarrow>
     distinct is \<and> set is \<inter> set seen = {} \<and> RESERVED_CLAUSE_ID \<notin> set is"
  by (induction seen "is" rule: clause_id_issues.induct) auto

definition clause_ok :: "forbidden_clause \<Rightarrow> bool" where
  "clause_ok c \<longleftrightarrow> HumanId (fc_id c) \<and> nonempty (fc_label c) \<and>
     (case c of PathClause i l k gs \<Rightarrow> gs \<noteq> [] \<and> list_all nonempty gs | Freeform i l \<Rightarrow> True)"

definition brief_ok :: "brief \<Rightarrow> bool" where
  "brief_ok b \<longleftrightarrow>
     nonempty (b_task b) \<and> b_acceptance b \<noteq> [] \<and>
     list_all (\<lambda>c. HumanId (ac_id c) \<and> nonempty (ac_label c)) (b_acceptance b) \<and>
     list_all clause_ok (b_forbidden b) \<and> list_all nonempty (b_scope b) \<and>
     distinct (clause_ids b) \<and> RESERVED_CLAUSE_ID \<notin> set (clause_ids b)"

lemma field_string_Some: "field_string ok v k = Some s \<Longrightarrow> jget v k = Some (JStr s) \<and> ok s"
  by (simp add: field_string_def split: option.splits json.splits if_splits)

lemma parse_all_list_all:
  "parse_all p vs = Some xs \<Longrightarrow> (\<And>v x. p v = Some x \<Longrightarrow> P x) \<Longrightarrow> list_all P xs"
  by (induction vs arbitrary: xs) (auto split: Option.bind_splits)

lemma field_list_all:
  "field_list p v k = Some xs \<Longrightarrow> (\<And>v x. p v = Some x \<Longrightarrow> P x) \<Longrightarrow> list_all P xs"
  by (auto simp: field_list_def split: option.splits json.splits intro: parse_all_list_all)

lemma field_list_or_empty_all:
  "field_list_or_empty p v k = Some xs \<Longrightarrow> (\<And>v x. p v = Some x \<Longrightarrow> P x) \<Longrightarrow> list_all P xs"
  by (auto simp: field_list_or_empty_def split: if_splits intro: field_list_all)

lemma parse_acceptance_ok:
  "parse_acceptance v = Some c \<Longrightarrow> HumanId (ac_id c) \<and> nonempty (ac_label c)"
  by (auto simp: parse_acceptance_def split: if_splits Option.bind_splits dest!: field_string_Some)

lemma parse_path_clause_ok: "parse_path_clause k v = Some c \<Longrightarrow> clause_ok c"
  by (auto simp: parse_path_clause_def clause_ok_def split: if_splits Option.bind_splits
      dest!: field_string_Some)

lemma parse_forbidden_ok: "parse_forbidden v = Some c \<Longrightarrow> clause_ok c"
  by (auto simp: parse_forbidden_def split: option.splits json.splits if_splits
      dest: parse_path_clause_ok)
    (auto simp: parse_freeform_clause_def clause_ok_def split: if_splits Option.bind_splits
      dest!: field_string_Some)

lemma nonempty_text_ok: "nonempty_text v = Some s \<Longrightarrow> nonempty s"
  by (cases v) (auto split: if_splits)

lemmas brief_lists_ok =
  field_list_all [where p = parse_acceptance, OF _ parse_acceptance_ok]
  field_list_or_empty_all [where p = parse_forbidden, OF _ parse_forbidden_ok]
  field_list_or_empty_all [where p = nonempty_text, OF _ nonempty_text_ok]

lemma BriefShape_ok: "BriefShape raw = Some b \<Longrightarrow> brief_ok b"
  unfolding BriefShape_def brief_ok_def
  by (auto simp: clause_id_issues_Nil split: if_splits Option.bind_splits
      dest!: field_string_Some intro: brief_lists_ok)

lemma clause_ids_nfc [simp]: "fc_id (nfc_clause nfc c) = fc_id c" "fc_label (nfc_clause nfc c) = fc_label c"
  by (cases c; simp add: nfc_clause_def)+

lemma nfc_clause_ok: "clause_ok c \<Longrightarrow> (\<And>s. s \<noteq> [] \<Longrightarrow> nfc s \<noteq> []) \<Longrightarrow> clause_ok (nfc_clause nfc c)"
  by (cases c) (auto simp: clause_ok_def nfc_clause_def list_all_iff)

text \<open>
  C25: a brief that loads is well formed, whatever the YAML text: some acceptance clause,
  ids of the identifier form that are pairwise different over both clause lists and never
  the reserved one, and for every path clause at least one glob, none of them empty.
  Normalisation is only assumed not to erase a text.
\<close>

theorem loaded_brief_ok:
  assumes "loadBrief parseYaml nfc text = Inr b" and "\<And>s. s \<noteq> [] \<Longrightarrow> nfc s \<noteq> []"
  shows "brief_ok b"
proof -
  obtain raw c where c: "BriefShape raw = Some c"
    and b: "b = c\<lparr>b_scope := map nfc (b_scope c), b_forbidden := map (nfc_clause nfc) (b_forbidden c)\<rparr>"
    using assms(1) by (auto simp: loadBrief_def split: option.splits)
  have "clause_ids b = clause_ids c" by (simp add: b clause_ids_def o_def)
  with BriefShape_ok [OF c] assms(2) show ?thesis
    by (auto simp: b brief_ok_def list_all_iff intro: nfc_clause_ok)
qed

definition demo_brief_json :: json where
  "demo_brief_json =
     JObj [(''brief_version'', JStr ''0.1''), (''task'', JStr ''fix the parser''),
       (''acceptance'', JArr [JObj [(''id'', JStr ''tests''), (''label'', JStr ''tests pass''),
          (''kind'', JStr ''tests-pass'')]]),
       (''forbidden'', JArr [JObj [(''id'', JStr ''keep-tests''), (''label'', JStr ''do not delete tests''),
          (''kind'', JStr ''delete_paths''), (''globs'', JArr [JStr ''tests/**''])]]),
       (''scope'', JArr [JStr ''src/**''])]"

definition demo_brief :: brief where
  "demo_brief =
     \<lparr>b_task = ''fix the parser'',
      b_acceptance = [\<lparr>ac_id = ''tests'', ac_label = ''tests pass'', ac_kind = TestsPass\<rparr>],
      b_forbidden = [PathClause ''keep-tests'' ''do not delete tests'' DeletePaths [''tests/**'']],
      b_scope = [''src/**'']\<rparr>"

lemma loaded_brief_ok_demo: "brief_ok demo_brief"
  by code_simp

theorem loaded_brief_ok_witness: "brief_ok demo_brief"
  by (rule loaded_brief_ok [of "\<lambda>_. Some demo_brief_json" "\<lambda>s. s" "[]"]) (code_simp, simp)

end
