(* ===== verification/Glob.thy ===== *)
theory Glob
  imports Regex
begin

text \<open>
  Path normalisation and glob matching (\<open>src/glob.ts\<close>). A glob compiles to an
  anchored regular expression (\<open>globToRegExp\<close>), which is tested against the
  normalised path. The second half gives the meaning a reader expects, segment
  by segment, and proves the compiled pattern equal to it on every path without
  line terminators; the last part shows that line terminators really differ.
  \<open>nfc\<close> stands for \<open>String.prototype.normalize("NFC")\<close>.
\<close>

subsection \<open>From globs to regular expressions\<close>

fun segmentToRegex :: "string \<Rightarrow> re" where
  "segmentToRegex [] = REps"
| "segmentToRegex (c # cs) =
     RSeq (if c = CHR ''*'' then RStar (RChr NotSlash)
           else if c = CHR ''?'' then RChr NotSlash
           else RChr (Only c))
       (segmentToRegex cs)"

definition any_segments :: re where
  "any_segments = RStar (RSeq (RPlus (RChr NotSlash)) (RChr (Only (CHR ''/''))))"

fun segments_to_re :: "string list \<Rightarrow> re" where
  "segments_to_re [] = REps"
| "segments_to_re [seg] =
     (if seg = ''**'' then ROpt (RStar (RChr AnyDot)) else segmentToRegex seg)"
| "segments_to_re (seg # next # segs) =
     (if seg = ''**'' then RSeq any_segments (segments_to_re (next # segs))
      else RSeq (segmentToRegex seg)
             (RSeq (RChr (Only (CHR ''/''))) (segments_to_re (next # segs))))"

definition glob_segments :: "string \<Rightarrow> string list" where
  "glob_segments pat =
     split_on (CHR ''/'') (if ends_with ''/'' pat then pat @ ''**'' else pat)"

definition globToRegExp :: "string \<Rightarrow> re" where
  "globToRegExp pat = segments_to_re (glob_segments pat)"

subsection \<open>Normalising a path\<close>

fun resolve_segments :: "string list \<Rightarrow> string list \<Rightarrow> string list option" where
  "resolve_segments resolved [] = Some resolved"
| "resolve_segments resolved (seg # segs) =
     (if seg = [] \<or> seg = ''.'' then resolve_segments resolved segs
      else if seg = ''..'' then
        (if resolved = [] then None else resolve_segments (butlast resolved) segs)
      else resolve_segments (resolved @ [seg]) segs)"

definition strip_root :: "string option \<Rightarrow> string \<Rightarrow> string option" where
  "strip_root workspaceRoot p =
     (if starts_with ''/'' p then
        (case workspaceRoot of
           None \<Rightarrow> None
         | Some wr \<Rightarrow>
             (let root = (if ends_with ''/'' wr then wr else wr @ ''/'') in
              if starts_with root p then Some (drop (length root) p)
              else if p = wr then Some []
              else None))
      else Some p)"

definition strip_dot :: "string \<Rightarrow> string" where
  "strip_dot p = (if starts_with ''./'' p then drop 2 p else p)"

definition normalizePath ::
  "(string \<Rightarrow> string) \<Rightarrow> string \<Rightarrow> string option \<Rightarrow> string option" where
  "normalizePath nfc path workspaceRoot =
     (case strip_root workspaceRoot path of
        None \<Rightarrow> None
      | Some p \<Rightarrow>
          map_option (join ''/'')
            (resolve_segments [] (split_on (CHR ''/'') (nfc (strip_dot p)))))"

definition matchesGlob :: "(string \<Rightarrow> string) \<Rightarrow> string \<Rightarrow> string \<Rightarrow> bool" where
  "matchesGlob nfc path pat =
     (case normalizePath nfc path None of
        None \<Rightarrow> False
      | Some p \<Rightarrow> re_test (globToRegExp (nfc pat)) p)"

definition matchesAnyGlob :: "(string \<Rightarrow> string) \<Rightarrow> string \<Rightarrow> string list \<Rightarrow> bool" where
  "matchesAnyGlob nfc path pats = list_ex (matchesGlob nfc path) pats"

subsection \<open>Normalised paths stay inside the workspace\<close>

text \<open>A clean segment names an entry of a directory: it moves neither up nor nowhere.\<close>

definition clean_segment :: "string \<Rightarrow> bool" where
  "clean_segment w \<longleftrightarrow> w \<noteq> [] \<and> w \<noteq> ''.'' \<and> w \<noteq> ''..'' \<and> CHR ''/'' \<notin> set w"

lemma resolve_segments_clean:
  assumes "resolve_segments acc segs = Some out"
    and "\<forall>w\<in>set acc. clean_segment w" and "\<forall>w\<in>set segs. CHR ''/'' \<notin> set w"
  shows "\<forall>w\<in>set out. clean_segment w"
  using assms
proof (induction acc segs rule: resolve_segments.induct)
  case (1 acc)
  then show ?case by simp
next
  case (2 acc seg segs)
  show ?case
  proof (cases "seg = [] \<or> seg = ''.''")
    case True
    with 2 show ?thesis by simp
  next
    case skip: False
    show ?thesis
    proof (cases "seg = ''..''")
      case True
      have clean: "\<forall>w\<in>set (butlast acc). clean_segment w"
        using "2.prems"(2) by (blast dest: in_set_butlastD)
      from True skip "2.prems"(1) have "acc \<noteq> []"
        and res: "resolve_segments (butlast acc) segs = Some out"
        by (simp_all split: if_splits)
      moreover from "2.prems"(3) have "\<forall>w\<in>set segs. CHR ''/'' \<notin> set w" by simp
      ultimately show ?thesis using "2.IH"(2) [OF skip True _ res clean] by blast
    next
      case False
      with skip "2.prems"(1) have res: "resolve_segments (acc @ [seg]) segs = Some out" by simp
      have "clean_segment seg"
        using skip False "2.prems"(3) unfolding clean_segment_def by simp
      with "2.prems"(2) have "\<forall>w\<in>set (acc @ [seg]). clean_segment w" by simp
      moreover from "2.prems"(3) have "\<forall>w\<in>set segs. CHR ''/'' \<notin> set w" by simp
      ultimately show ?thesis using "2.IH"(3) [OF skip False res] by blast
    qed
  qed
qed

lemma resolve_segments_id:
  "\<forall>w\<in>set segs. clean_segment w \<Longrightarrow> resolve_segments acc segs = Some (acc @ segs)"
  by (induction segs arbitrary: acc) (auto simp: clean_segment_def)

lemma normalizePath_segments:
  assumes "normalizePath nfc path root = Some p"
  obtains segs where "p = join ''/'' segs" and "\<forall>w\<in>set segs. clean_segment w"
proof -
  from assms obtain q segs where
    "resolve_segments [] (split_on (CHR ''/'') (nfc (strip_dot q))) = Some segs"
    and p: "p = join ''/'' segs"
    by (auto simp: normalizePath_def split: option.splits)
  then have "\<forall>w\<in>set segs. clean_segment w"
    using resolve_segments_clean split_on_no_sep by (metis empty_iff list.set(1))
  with p show thesis by (rule that)
qed

lemma split_join_clean:
  "segs \<noteq> [] \<Longrightarrow> \<forall>w\<in>set segs. clean_segment w \<Longrightarrow> split_on (CHR ''/'') (join ''/'' segs) = segs"
  by (rule split_on_join) (auto simp: clean_segment_def)

lemma clean_join_not_absolute:
  "\<forall>w\<in>set segs. clean_segment w \<Longrightarrow> \<not> starts_with ''/'' (join ''/'' segs)"
proof -
  assume clean: "\<forall>w\<in>set segs. clean_segment w"
  show ?thesis
  proof (cases segs)
    case Nil
    then show ?thesis by (simp add: starts_with_def)
  next
    case (Cons w ws)
    with clean obtain c cs where "w = c # cs" and "c \<noteq> CHR ''/''"
      by (cases w) (auto simp: clean_segment_def)
    with Cons show ?thesis by (cases ws) (simp_all add: starts_with_def)
  qed
qed

lemma clean_join_no_dot:
  assumes "\<forall>w\<in>set segs. clean_segment w"
  shows "strip_dot (join ''/'' segs) = join ''/'' segs"
proof -
  have "\<not> starts_with ''./'' (join ''/'' segs)"
  proof (cases segs)
    case Nil
    then show ?thesis by (simp add: starts_with_def)
  next
    case (Cons w ws)
    then obtain c cs where w: "w = c # cs" "clean_segment w"
      using assms by (cases w) (auto simp: clean_segment_def)
    show ?thesis
    proof
      assume "starts_with ''./'' (join ''/'' segs)"
      then have d: "join ''/'' segs = ''./'' @ drop 2 (join ''/'' segs)"
        by (drule_tac starts_withD) (simp add: numeral_2_eq_2)
      have "split_on (CHR ''/'') (join ''/'' segs) = segs"
        using Cons assms by (intro split_join_clean) auto
      moreover have "hd (split_on (CHR ''/'') (join ''/'' segs)) = ''.''"
        by (subst d) simp
      ultimately show False using Cons w by (simp add: clean_segment_def)
    qed
  qed
  then show ?thesis by (simp add: strip_dot_def)
qed

subsection \<open>The segment-wise meaning of a glob\<close>

fun seg_glob :: "string \<Rightarrow> string \<Rightarrow> bool" where
  "seg_glob [] s \<longleftrightarrow> s = []"
| "seg_glob (p # ps) [] \<longleftrightarrow> p = CHR ''*'' \<and> seg_glob ps []"
| "seg_glob (p # ps) (c # cs) \<longleftrightarrow>
     (if p = CHR ''*'' then seg_glob ps (c # cs) \<or> seg_glob (p # ps) cs
      else if p = CHR ''?'' then seg_glob ps cs
      else p = c \<and> seg_glob ps cs)"

fun path_glob :: "string list \<Rightarrow> string list \<Rightarrow> bool" where
  "path_glob [] ss \<longleftrightarrow> False"
| "path_glob [p] ss \<longleftrightarrow> p = ''**'' \<or> (\<exists>s. ss = [s] \<and> seg_glob p s)"
| "path_glob (p # q # ps) [] \<longleftrightarrow> False"
| "path_glob (p # q # ps) (s # ss) \<longleftrightarrow>
     (if p = ''**'' then
        path_glob (q # ps) (s # ss) \<or> (s \<noteq> [] \<and> ss \<noteq> [] \<and> path_glob (p # q # ps) ss)
      else seg_glob p s \<and> ss \<noteq> [] \<and> path_glob (q # ps) ss)"

abbreviation name_chars :: re where
  "name_chars \<equiv> RStar (RChr NotSlash)"

lemma lang_name_chars: "s \<in> lang name_chars \<longleftrightarrow> CHR ''/'' \<notin> set s"
  unfolding lang_star_class by auto

lemma lang_star_Cons:
  "s \<in> lang (RSeq name_chars r) \<longleftrightarrow>
     s \<in> lang r \<or> (\<exists>c cs. s = c # cs \<and> c \<noteq> CHR ''/'' \<and> cs \<in> lang (RSeq name_chars r))"
  (is "?l \<longleftrightarrow> ?r")
proof
  assume ?l
  then obtain u v where uv: "s = u @ v" "CHR ''/'' \<notin> set u" "v \<in> lang r"
    by (rule lang_SeqE) (simp add: lang_name_chars del: lang.simps(6))
  show ?r
  proof (cases u)
    case Nil
    with uv show ?thesis by simp
  next
    case (Cons c u')
    with uv have "s = c # u' @ v" "c \<noteq> CHR ''/''" "u' @ v \<in> lang (RSeq name_chars r)"
      by (auto intro!: lang_SeqI simp: lang_name_chars simp del: lang.simps)
    then show ?thesis by blast
  qed
next
  assume ?r
  then show ?l
  proof
    assume "s \<in> lang r"
    then show ?l by (rule lang_Seq_Nil [rotated]) (simp add: iterate_empty)
  next
    assume "\<exists>c cs. s = c # cs \<and> c \<noteq> CHR ''/'' \<and> cs \<in> lang (RSeq name_chars r)"
    then obtain c cs where s: "s = c # cs" "c \<noteq> CHR ''/''" "cs \<in> lang (RSeq name_chars r)" by blast
    from s(3) obtain u v where "cs = u @ v" "CHR ''/'' \<notin> set u" "v \<in> lang r"
      by (rule lang_SeqE) (simp add: lang_name_chars del: lang.simps)
    with s(1,2) have "s = (c # u) @ v" "c # u \<in> lang name_chars" "v \<in> lang r"
      by (simp_all add: lang_name_chars del: lang.simps)
    then show ?l using lang_SeqI by blast
  qed
qed

lemma segmentToRegex_seg_glob:
  "CHR ''/'' \<notin> set p \<Longrightarrow> s \<in> lang (segmentToRegex p) \<longleftrightarrow> CHR ''/'' \<notin> set s \<and> seg_glob p s"
proof (induction p s rule: seg_glob.induct)
  case (1 s)
  then show ?case by auto
next
  case (2 p ps)
  then show ?case
    by (auto simp: lang_star_Cons [of "[]"] lang_class_Cons simp del: lang.simps)
next
  case (3 p ps c cs)
  then show ?case
    by (cases "p = CHR ''*''"; cases "p = CHR ''?''")
      (auto simp: lang_star_Cons [of "c # cs"] lang_class_Cons simp del: lang.simps)
qed

lemma any_segments_unfold:
  "s \<in> lang (RSeq any_segments r) \<longleftrightarrow>
     s \<in> lang r \<or>
     (\<exists>w v. s = w @ CHR ''/'' # v \<and> w \<noteq> [] \<and> CHR ''/'' \<notin> set w \<and> v \<in> lang (RSeq any_segments r))"
  (is "?l \<longleftrightarrow> ?r")
proof
  let ?seg = "RSeq (RPlus (RChr NotSlash)) (RChr (Only (CHR ''/'')))"
  assume ?l
  then obtain u v where s: "s = u @ v" "u \<in> iterate (lang ?seg)" "v \<in> lang r"
    unfolding any_segments_def by (rule lang_SeqE) simp
  from s(2) show ?r
  proof (cases rule: iterate.cases)
    case iterate_empty
    with s show ?thesis by simp
  next
    case (iterate_more a b)
    from iterate_more(2) obtain w where "a = w @ ''/''" "w \<noteq> []" "CHR ''/'' \<notin> set w"
      by (rule lang_SeqE) (auto simp: lang_plus_class)
    moreover from iterate_more(3) s(3) have "b @ v \<in> lang (RSeq any_segments r)"
      by (intro lang_SeqI) (simp_all add: any_segments_def)
    ultimately show ?thesis using s(1) iterate_more(1) by auto
  qed
next
  let ?seg = "RSeq (RPlus (RChr NotSlash)) (RChr (Only (CHR ''/'')))"
  assume ?r
  then show ?l
  proof
    assume "s \<in> lang r"
    then show ?l by (rule lang_Seq_Nil [rotated]) (simp add: any_segments_def iterate_empty)
  next
    assume "\<exists>w v. s = w @ CHR ''/'' # v \<and> w \<noteq> [] \<and> CHR ''/'' \<notin> set w \<and> v \<in> lang (RSeq any_segments r)"
    then obtain w v where s: "s = w @ CHR ''/'' # v" "w \<noteq> []" "CHR ''/'' \<notin> set w"
      and v: "v \<in> lang (RSeq any_segments r)" by blast
    have "w @ ''/'' \<in> lang ?seg"
      using s by (intro lang_SeqI) (auto simp: lang_plus_class)
    moreover from v obtain b c where "v = b @ c" "b \<in> iterate (lang ?seg)" "c \<in> lang r"
      unfolding any_segments_def by (rule lang_SeqE) simp
    ultimately have "s = ((w @ ''/'') @ b) @ c" "(w @ ''/'') @ b \<in> lang any_segments" "c \<in> lang r"
      using s(1) by (simp_all only: any_segments_def lang.simps(6) iterate.iterate_more) simp
    then show ?l using lang_SeqI by blast
  qed
qed

lemma slash_then_iff:
  assumes "\<And>v. v \<in> lang r \<Longrightarrow> CHR ''/'' \<notin> set v"
  shows "s \<in> lang (RSeq r (RSeq (RChr (Only (CHR ''/''))) q)) \<longleftrightarrow>
     (\<exists>t ts. split_on (CHR ''/'') s = t # ts \<and> t \<in> lang r \<and> ts \<noteq> [] \<and> join ''/'' ts \<in> lang q)"
    (is "?l \<longleftrightarrow> ?r")
proof
  assume ?l
  then obtain u v where s: "s = u @ v" "u \<in> lang r" "v \<in> lang (RSeq (RChr (Only (CHR ''/''))) q)"
    by (rule lang_SeqE)
  from s(3) obtain w where "v = CHR ''/'' # w" "w \<in> lang q" unfolding lang_class_Cons by auto
  with s(1,2) assms show ?r by (simp add: split_on_append)
next
  assume ?r
  then obtain t ts where st: "split_on (CHR ''/'') s = t # ts" "t \<in> lang r" "ts \<noteq> []"
    "join ''/'' ts \<in> lang q" by blast
  from st(1,3) have "s = t @ CHR ''/'' # join ''/'' ts"
    using join_split_on [of "CHR ''/''" s] by (simp add: join_Cons)
  moreover from st(4) have "CHR ''/'' # join ''/'' ts \<in> lang (RSeq (RChr (Only (CHR ''/''))) q)"
    unfolding lang_class_Cons by auto
  ultimately show ?l using st(2) lang_SeqI by blast
qed

text \<open>
  The segments of a path have no slash; a path without line terminators is one
  whose segments have none.
\<close>

definition plain_segments :: "string list \<Rightarrow> bool" where
  "plain_segments ss \<longleftrightarrow> (\<forall>w\<in>set ss. \<forall>c\<in>set w. c \<noteq> CHR ''/'' \<and> \<not> line_end c)"

lemma join_no_line_end: "plain_segments ss \<Longrightarrow> c \<in> set (join ''/'' ss) \<Longrightarrow> \<not> line_end c"
  using set_join [of "''/''" ss] by (force simp: plain_segments_def line_end_def)

lemma split_join_plain:
  "plain_segments ss \<Longrightarrow> ss \<noteq> [] \<Longrightarrow> split_on (CHR ''/'') (join ''/'' ss) = ss"
  by (rule split_on_join) (auto simp: plain_segments_def)

lemma slash_cut:
  assumes sp: "split_on (CHR ''/'') (join ''/'' (s # ss)) = s # ss"
  shows "(\<exists>w v. join ''/'' (s # ss) = w @ CHR ''/'' # v \<and> w \<noteq> [] \<and> CHR ''/'' \<notin> set w \<and> P v) \<longleftrightarrow>
    s \<noteq> [] \<and> ss \<noteq> [] \<and> P (join ''/'' ss)" (is "?l \<longleftrightarrow> ?r")
proof
  assume ?l
  then obtain w v where w: "join ''/'' (s # ss) = w @ CHR ''/'' # v" "w \<noteq> []"
    "CHR ''/'' \<notin> set w" "P v" by blast
  with sp have "s # ss = w # split_on (CHR ''/'') v" by (simp add: split_on_append)
  with w(2,4) show ?r by simp
next
  assume ?r
  moreover from this have "join ''/'' (s # ss) = s @ CHR ''/'' # join ''/'' ss"
    by (simp add: join_Cons)
  moreover have "CHR ''/'' \<notin> set s"
    using split_on_no_sep [of s "CHR ''/''" "join ''/'' (s # ss)"] sp by simp
  ultimately show ?l by blast
qed

lemma segments_to_re_path_glob:
  assumes "ps \<noteq> []" and "\<forall>p\<in>set ps. CHR ''/'' \<notin> set p"
    and "ss \<noteq> []" and "plain_segments ss"
  shows "join ''/'' ss \<in> lang (segments_to_re ps) \<longleftrightarrow> path_glob ps ss"
  using assms
proof (induction ps ss rule: path_glob.induct)
  case (2 p ss)
  show ?case
  proof (cases "p = ''**''")
    case True
    have "join ''/'' ss \<in> lang (RStar (RChr AnyDot))"
      unfolding lang_star_class using join_no_line_end "2.prems"(4) by auto
    with True show ?thesis by (simp add: ROpt_def)
  next
    case False
    have "join ''/'' ss \<in> lang (segmentToRegex p) \<longleftrightarrow> (\<exists>s. ss = [s] \<and> seg_glob p s)"
      using "2.prems" by (cases "(''/'', ss)" rule: join.cases)
        (auto simp: segmentToRegex_seg_glob plain_segments_def)
    with False show ?thesis by simp
  qed
next
  case (4 p q ps s ss)
  have rest: "plain_segments ss" and slash: "\<forall>p\<in>set (q # ps). CHR ''/'' \<notin> set p"
    using "4.prems" by (simp_all add: plain_segments_def)
  have sp: "split_on (CHR ''/'') (join ''/'' (s # ss)) = s # ss"
    using "4.prems"(4) by (rule split_join_plain) simp
  show ?case
  proof (cases "p = ''**''")
    case True
    have "join ''/'' (s # ss) \<in> lang (RSeq any_segments (segments_to_re (q # ps))) \<longleftrightarrow>
        join ''/'' (s # ss) \<in> lang (segments_to_re (q # ps)) \<or>
        (s \<noteq> [] \<and> ss \<noteq> [] \<and> join ''/'' ss \<in> lang (RSeq any_segments (segments_to_re (q # ps))))"
      by (subst any_segments_unfold) (simp only: slash_cut [OF sp])
    moreover have "join ''/'' (s # ss) \<in> lang (segments_to_re (q # ps)) \<longleftrightarrow> path_glob (q # ps) (s # ss)"
      using "4.IH"(1) [OF True] slash "4.prems"(4) by simp
    moreover have "s \<noteq> [] \<Longrightarrow> ss \<noteq> [] \<Longrightarrow>
        join ''/'' ss \<in> lang (RSeq any_segments (segments_to_re (q # ps))) \<longleftrightarrow> path_glob (p # q # ps) ss"
      using "4.IH"(2) [OF True] "4.prems"(2) rest True by simp
    ultimately show ?thesis using True by auto
  next
    case False
    have seg: "v \<in> lang (segmentToRegex p) \<longleftrightarrow> CHR ''/'' \<notin> set v \<and> seg_glob p v" for v
      using "4.prems"(2) by (intro segmentToRegex_seg_glob) simp
    have "join ''/'' (s # ss) \<in> lang (segments_to_re (p # q # ps)) \<longleftrightarrow>
        s \<in> lang (segmentToRegex p) \<and> ss \<noteq> [] \<and> join ''/'' ss \<in> lang (segments_to_re (q # ps))"
      using False slash_then_iff [of "segmentToRegex p" "join ''/'' (s # ss)"] seg sp by auto
    also have "\<dots> \<longleftrightarrow> seg_glob p s \<and> ss \<noteq> [] \<and> path_glob (q # ps) ss"
      using "4.IH"(3) [OF False] slash rest "4.prems"(4) by (auto simp: seg plain_segments_def)
    finally show ?thesis using False by simp
  qed
qed simp_all

lemma glob_segments_ok:
  "glob_segments pat \<noteq> [] \<and> (\<forall>p\<in>set (glob_segments pat). CHR ''/'' \<notin> set p)"
  by (auto simp: glob_segments_def dest: split_on_no_sep)

lemma split_plain:
  "\<forall>c\<in>set p. \<not> line_end c \<Longrightarrow> plain_segments (split_on (CHR ''/'') p)"
proof (induction p)
  case Nil
  then show ?case by (simp add: plain_segments_def)
next
  case (Cons c p)
  then have "plain_segments (split_on (CHR ''/'') p)" by simp
  with Cons.prems show ?case
    by (cases "split_on (CHR ''/'') p") (simp_all add: plain_segments_def)
qed

lemma segmentToRegex_literal:
  "CHR ''*'' \<notin> set w \<Longrightarrow> CHR ''?'' \<notin> set w \<Longrightarrow> lang (segmentToRegex w) = {w}"
proof (induction w)
  case Nil
  then show ?case by simp
next
  case (Cons c w)
  then have "lang (segmentToRegex w) = {w}" by simp
  moreover have "c \<noteq> CHR ''*''" and "c \<noteq> CHR ''?''"
    using Cons.prems by (metis list.set_intros(1))+
  then have "segmentToRegex (c # w) = RSeq (RChr (Only c)) (segmentToRegex w)" by simp
  ultimately show ?case by (simp only: lang_Only_Seq image_insert image_empty)
qed

subsection \<open>Properties\<close>

text \<open>
  C22: a glob means what the module's header says, segment by segment: on a path
  without line terminators the compiled regular expression matches exactly when
  the segments of the path match the segments of the pattern, a star or question
  mark inside one segment and a double star over whole segments.
\<close>

theorem globToRegExp_meaning:
  assumes "\<forall>c\<in>set p. \<not> line_end c"
  shows "re_test (globToRegExp pat) p \<longleftrightarrow>
    path_glob (glob_segments pat) (split_on (CHR ''/'') p)"
proof -
  have "join ''/'' (split_on (CHR ''/'') p) \<in> lang (segments_to_re (glob_segments pat)) \<longleftrightarrow>
      path_glob (glob_segments pat) (split_on (CHR ''/'') p)"
    using glob_segments_ok split_plain [OF assms] by (intro segments_to_re_path_glob) auto
  then show ?thesis by (simp add: re_test_lang globToRegExp_def)
qed

theorem globToRegExp_meaning_witness:
  "re_test (globToRegExp ''src/**/*.ts'') ''src/a/b.ts'' \<longleftrightarrow>
     path_glob (glob_segments ''src/**/*.ts'') (split_on (CHR ''/'') ''src/a/b.ts'')"
  by (rule globToRegExp_meaning) (simp add: line_end_def)

text \<open>
  A directory pattern (a literal name, a slash and a double star) matches a path
  below that directory only if the rest of the path has no line terminator: the
  dot of the compiled expression stops there, although the header promises the
  directory and everything under it. A file whose name holds a line feed escapes
  such a clause.
\<close>

theorem directory_glob_line_terminators:
  assumes "CHR ''*'' \<notin> set d" "CHR ''?'' \<notin> set d" "CHR ''/'' \<notin> set d"
  shows "re_test (globToRegExp (d @ ''/**'')) (d @ ''/'' @ x) \<longleftrightarrow> (\<forall>c\<in>set x. \<not> line_end c)"
proof -
  let ?all = "RAlt (RStar (RChr AnyDot)) REps"
  have segs: "glob_segments (d @ ''/**'') = [d, ''**'']"
    using assms(3) by (simp add: glob_segments_def ends_with_def starts_with_def split_on_append)
  have "globToRegExp (d @ ''/**'') =
      RSeq (segmentToRegex d) (RSeq (RChr (Only (CHR ''/''))) ?all)"
    using assms(1) by (cases "d = ''**''") (simp_all add: globToRegExp_def segs ROpt_def)
  moreover have lit: "lang (segmentToRegex d) = {d}"
    using assms(1,2) by (rule segmentToRegex_literal)
  moreover have "x \<in> lang ?all \<longleftrightarrow> (\<forall>c\<in>set x. \<not> line_end c)"
    using lang_star_class [of AnyDot] by auto
  ultimately have "re_test (globToRegExp (d @ ''/**'')) (d @ ''/'' @ x) \<longleftrightarrow>
      (\<exists>v. d @ ''/'' @ x = d @ v \<and> v \<in> lang (RSeq (RChr (Only (CHR ''/''))) ?all))"
    by (simp add: re_test_lang lang.simps(4) [of "segmentToRegex d"] del: lang.simps)
  also have "\<dots> \<longleftrightarrow> x \<in> lang ?all" unfolding lang_class_Cons by simp
  finally show ?thesis using \<open>x \<in> lang ?all \<longleftrightarrow> _\<close> by simp
qed

theorem directory_glob_line_terminators_witness:
  "\<not> re_test (globToRegExp (''tests'' @ ''/**'')) (''tests'' @ ''/'' @ [CHR ''a'', CHR 0x0A])"
  by (subst directory_glob_line_terminators) (simp_all add: line_end_def)

text \<open>
  C23: a path that normalises stays inside the workspace: the result is made of
  segments that are non-empty and neither a dot nor a double dot, so it is relative
  and never climbs.
\<close>

theorem normalizePath_inside:
  assumes "normalizePath nfc path root = Some p"
  shows "\<not> starts_with ''/'' p \<and> (if p = [] then True else list_all clean_segment (split_on (CHR ''/'') p))"
proof -
  from assms obtain segs where p: "p = join ''/'' segs" and c: "\<forall>w\<in>set segs. clean_segment w"
    by (rule normalizePath_segments)
  have "split_on (CHR ''/'') p = segs" if "p \<noteq> []"
  proof -
    from that p have "segs \<noteq> []" by auto
    then show ?thesis using split_join_clean c p by blast
  qed
  then show ?thesis using c clean_join_not_absolute [OF c] by (simp add: p list_all_iff)
qed

theorem normalizePath_inside_witness:
  "\<not> starts_with ''/'' ''src/a.ts'' \<and>
   list_all clean_segment (split_on (CHR ''/'') ''src/a.ts'')"
proof -
  have "normalizePath (\<lambda>s. s) ''/w/x/../src//a.ts'' (Some ''/w'') = Some ''src/a.ts''" by code_simp
  from normalizePath_inside [OF this] show ?thesis by simp
qed

text \<open>
  Normalising is idempotent: a normalised path, given that Unicode normalisation
  leaves it alone, normalises to itself whatever the workspace root is.
\<close>

theorem normalizePath_idempotent:
  assumes "normalizePath nfc path root = Some p" and "nfc p = p"
  shows "normalizePath nfc p root' = Some p"
proof -
  from assms(1) obtain segs where p: "p = join ''/'' segs" and c: "\<forall>w\<in>set segs. clean_segment w"
    by (rule normalizePath_segments)
  have "\<not> starts_with ''/'' p" and "strip_dot p = p"
    using clean_join_not_absolute [OF c] clean_join_no_dot [OF c] p by simp_all
  moreover have "resolve_segments [] (split_on (CHR ''/'') p) = Some segs"
    using split_join_clean [OF _ c] resolve_segments_id [OF c, of "[]"] p by (cases "segs = []") simp_all
  ultimately have "normalizePath nfc p root' = Some (join ''/'' segs)"
    using assms(2) by (simp add: normalizePath_def strip_root_def)
  then show ?thesis using p by simp
qed

theorem normalizePath_idempotent_witness:
  "normalizePath (\<lambda>s. s) ''src/a.ts'' (Some ''/other'') = Some ''src/a.ts''"
  by (rule normalizePath_idempotent [of "\<lambda>s. s" "''./src/./a.ts''" None]) code_simp+

end
