(* ===== verification/Recognizers.thy ===== *)
theory Recognizers
  imports Regex
begin

text \<open>
  The recognisers of the verdict engine (\<open>src/verdicts.ts\<close>): the command tokeniser,
  the test-runner test at program position, the assertion pattern over the engine's
  final message, and the sanitiser of receipt texts.
\<close>

subsection \<open>Tokens of a command line\<close>

record token_state =
  tk_tokens :: "string list"
  tk_cur :: string
  tk_single :: bool
  tk_double :: bool

definition single_quote :: char where "single_quote = CHR 0x27"
definition double_quote :: char where "double_quote = CHR 0x22"

definition token_step :: "token_state \<Rightarrow> char \<Rightarrow> token_state" where
  "token_step st ch =
     (if ch = single_quote \<and> \<not> tk_double st then st\<lparr>tk_single := \<not> tk_single st\<rparr>
      else if ch = double_quote \<and> \<not> tk_single st then st\<lparr>tk_double := \<not> tk_double st\<rparr>
      else if is_ws ch \<and> \<not> tk_single st \<and> \<not> tk_double st then
        (if tk_cur st \<noteq> [] then st\<lparr>tk_tokens := tk_tokens st @ [tk_cur st], tk_cur := []\<rparr> else st)
      else st\<lparr>tk_cur := tk_cur st @ [ch]\<rparr>)"

definition tokenize :: "string \<Rightarrow> string list" where
  "tokenize cmd =
     (let st = foldl token_step \<lparr>tk_tokens = [], tk_cur = [], tk_single = False, tk_double = False\<rparr> cmd
      in if tk_cur st \<noteq> [] then tk_tokens st @ [tk_cur st] else tk_tokens st)"

definition basenameOf :: "string \<Rightarrow> string" where
  "basenameOf token = last (split_on (CHR ''/'') token)"

subsection \<open>Test runners\<close>

definition DIRECT_RUNNERS :: "string list" where
  "DIRECT_RUNNERS = [''vitest'', ''jest'', ''pytest'', ''mocha'']"

definition PKG_MANAGERS :: "string list" where
  "PKG_MANAGERS = [''npm'', ''pnpm'', ''yarn'', ''bun'', ''deno'']"

definition PROXY_RUNNERS :: "string list" where
  "PROXY_RUNNERS = [''npx'', ''bunx'']"

text \<open>\<open>/^[A-Z_][A-Z0-9_]*=/i\<close>: the flag makes letters of both cases match.\<close>

definition env_start :: "char \<Rightarrow> bool" where
  "env_start c \<longleftrightarrow> is_upper c \<or> is_lower c \<or> c = CHR ''_''"

definition ENV_ASSIGNMENT :: "string \<Rightarrow> bool" where
  "ENV_ASSIGNMENT t =
     (case t of
        [] \<Rightarrow> False
      | c # cs \<Rightarrow>
          env_start c \<and>
          (case dropWhile (\<lambda>d. env_start d \<or> is_digit d) cs of [] \<Rightarrow> False | d # _ \<Rightarrow> d = CHR ''=''))"

fun proxied_runner :: "string list \<Rightarrow> bool" where
  "proxied_runner [] = False"
| "proxied_runner (t # ts) =
     (if starts_with ''-'' t then proxied_runner ts else basenameOf t \<in> set DIRECT_RUNNERS)"

fun program_is_runner :: "string list \<Rightarrow> bool" where
  "program_is_runner [] = False"
| "program_is_runner (prog # args) =
     (let base = basenameOf prog in
      if base \<in> set DIRECT_RUNNERS then True
      else if (base = ''go'' \<or> base = ''cargo'') \<and> nth_opt args 0 = Some ''test'' then True
      else if base = ''node'' then ''--test'' \<in> set args
      else if base = ''pnpm'' \<and> nth_opt args 0 = Some ''exec'' then
        (case nth_opt args 1 of None \<Rightarrow> False | Some r \<Rightarrow> basenameOf r \<in> set DIRECT_RUNNERS)
      else if base \<in> set PKG_MANAGERS then
        nth_opt args (if nth_opt args 0 = Some ''run'' then 1 else 0) = Some ''test''
      else if base \<in> set PROXY_RUNNERS then proxied_runner args
      else False)"

definition isTestRunnerCommand :: "string \<Rightarrow> bool" where
  "isTestRunnerCommand command = program_is_runner (dropWhile ENV_ASSIGNMENT (tokenize (trim command)))"

subsection \<open>Numbers\<close>

text \<open>
  \<open>Number(digits)\<close> is a double: exact up to 53 significant bits, then rounded to the
  nearest value with ties to even, and infinite from \<open>2^1024 - 2^970\<close> on (None).
\<close>

fun digits_value :: "string \<Rightarrow> int \<Rightarrow> int" where
  "digits_value [] acc = acc"
| "digits_value (c # cs) acc = digits_value cs (10 * acc + (int (of_char c) - 48))"

definition two_53 :: int where "two_53 = 9007199254740992"

function excess_bits :: "int \<Rightarrow> nat" where
  "excess_bits n = (if n < two_53 then 0 else Suc (excess_bits (n div 2)))"
  by pat_completeness auto
termination
  by (relation "measure nat") (auto simp: two_53_def)

declare excess_bits.simps [simp del]

definition double_of :: "int \<Rightarrow> int option" where
  "double_of n =
     (if n < two_53 then Some n
      else
        (let e = excess_bits n; unit = 2 ^ e; q = n div unit; r = n mod unit;
             m = (if 2 * r > unit \<or> (2 * r = unit \<and> odd q) then (q + 1) * unit else q * unit)
         in if m \<ge> 2 ^ 1024 then None else Some m))"

text \<open>
  \<open>String(x)\<close> of such a double: the shortest decimal digits that read back as the
  same double, in exponent form from \<open>10^21\<close> on.
\<close>

definition nearest_multiple :: "int \<Rightarrow> int \<Rightarrow> int option" where
  "nearest_multiple n u =
     (let lo = n div u * u; hi = lo + u; okl = (double_of lo = Some n); okh = (double_of hi = Some n) in
      if okl \<and> (\<not> okh \<or> n - lo < hi - n \<or> (n - lo = hi - n \<and> even (n div u))) then Some lo
      else if okh then Some hi else None)"

fun shortest_from :: "int \<Rightarrow> nat \<Rightarrow> int" where
  "shortest_from n 0 = n"
| "shortest_from n (Suc k) =
     (case nearest_multiple n (10 ^ Suc k) of Some m \<Rightarrow> m | None \<Rightarrow> shortest_from n k)"

definition exponent_text :: "string \<Rightarrow> string" where
  "exponent_text ds =
     (let sig = rev (dropWhile (\<lambda>c. c = CHR ''0'') (rev ds)) in
      take 1 sig @ (if length sig > 1 then ''.'' @ drop 1 sig else []) @ ''e+'' @ dec (length ds - 1))"

definition number_text :: "int option \<Rightarrow> string" where
  "number_text x =
     (case x of
        None \<Rightarrow> ''Infinity''
      | Some n \<Rightarrow>
          if n < two_53 then dec_int n
          else (let ds = dec_int (shortest_from n (length (dec_int n))) in
                if length ds > 21 then exponent_text ds else ds))"

subsection \<open>The engine's assertion\<close>

record assertion =
  as_text :: string
  as_passed :: "int option"
  as_total :: "int option"
  claimsFullSuccess :: bool

text \<open>The pattern at one position: digits, slash, digits and the fixed words.\<close>

definition strip_prefix :: "string \<Rightarrow> string \<Rightarrow> string option" where
  "strip_prefix p s = (if starts_with p s then Some (drop (length p) s) else None)"

definition optional :: "string \<Rightarrow> string \<Rightarrow> string" where
  "optional p s = (case strip_prefix p s of None \<Rightarrow> s | Some t \<Rightarrow> t)"

definition match_here :: "string \<Rightarrow> (string \<times> string \<times> string) option" where
  "match_here s =
     (let m1 = takeWhile is_digit s; s1 = dropWhile is_digit s in
      if m1 = [] then None
      else (case strip_prefix ''/'' s1 of
        None \<Rightarrow> None
      | Some s2 \<Rightarrow>
          (let m2 = takeWhile is_digit s2; s3 = dropWhile is_digit s2 in
           if m2 = [] then None
           else (case strip_prefix '' test'' s3 of
             None \<Rightarrow> None
           | Some s4 \<Rightarrow>
               (case strip_prefix '' pass'' (optional ''s'' s4) of
                  None \<Rightarrow> None
                | Some s5 \<Rightarrow>
                    (let s6 = (case strip_prefix ''ing'' s5 of Some t \<Rightarrow> t | None \<Rightarrow> optional ''ed'' s5)
                     in Some (m1, m2, take (length s - length s6) s)))))))"

fun find_match :: "string \<Rightarrow> (string \<times> string \<times> string) option" where
  "find_match [] = match_here []"
| "find_match (c # cs) = (case match_here (c # cs) of Some m \<Rightarrow> Some m | None \<Rightarrow> find_match cs)"

definition number_positive :: "int option \<Rightarrow> bool" where
  "number_positive n = (case n of None \<Rightarrow> True | Some k \<Rightarrow> k > 0)"

definition recognizeAssertion :: "string option \<Rightarrow> assertion option" where
  "recognizeAssertion finalText =
     (case finalText of
        None \<Rightarrow> None
      | Some t \<Rightarrow>
          (case find_match t of
             None \<Rightarrow> None
           | Some (m1, m2, m0) \<Rightarrow>
               (let p = double_of (digits_value m1 0); n = double_of (digits_value m2 0) in
                Some \<lparr>as_text = m0, as_passed = p, as_total = n,
                  claimsFullSuccess = (number_positive n \<and> p = n)\<rparr>)))"

subsection \<open>Sanitised texts\<close>

text \<open>\<open>s.replace(/[class]+/g, " ")\<close>: each maximal run becomes one space.\<close>

function replace_runs :: "(char \<Rightarrow> bool) \<Rightarrow> string \<Rightarrow> string" where
  "replace_runs p [] = []"
| "replace_runs p (c # cs) =
     (if p c then CHR '' '' # replace_runs p (dropWhile p cs) else c # replace_runs p cs)"
  by pat_completeness auto
termination
  by (relation "measure (\<lambda>(p, s). length s)") (auto simp: le_imp_less_Suc length_dropWhile_le)

definition is_control :: "char \<Rightarrow> bool" where
  "is_control c \<longleftrightarrow> of_char c \<le> (31 :: nat) \<or> of_char c = (127 :: nat)"

definition is_space :: "char \<Rightarrow> bool" where
  "is_space c \<longleftrightarrow> c = CHR '' ''"

definition sanitizeText :: "string \<Rightarrow> string" where
  "sanitizeText s = trim (replace_runs is_space (replace_runs is_control s))"

lemma set_replace_runs: "set (replace_runs p s) \<subseteq> {c \<in> set s. \<not> p c} \<union> {CHR '' ''}"
  by (induction p s rule: replace_runs.induct) (auto dest: set_dropWhileD)

lemma set_trim: "set (trim s) \<subseteq> set s"
proof
  fix c assume "c \<in> set (trim s)"
  then have "c \<in> set (dropWhile is_ws (rev (dropWhile is_ws s)))" by (simp add: trim_def)
  then have "c \<in> set (dropWhile is_ws s)" by (drule_tac set_dropWhileD) simp
  then show "c \<in> set s" by (rule set_dropWhileD)
qed

fun double_space :: "string \<Rightarrow> bool" where
  "double_space [] \<longleftrightarrow> False"
| "double_space [a] \<longleftrightarrow> False"
| "double_space (a # b # s) \<longleftrightarrow> (a = CHR '' '' \<and> b = CHR '' '') \<or> double_space (b # s)"

lemma double_space_append:
  "double_space (u @ v) \<longleftrightarrow> double_space u \<or> double_space v \<or>
     (u \<noteq> [] \<and> v \<noteq> [] \<and> last u = CHR '' '' \<and> hd v = CHR '' '')"
proof (induction u rule: double_space.induct)
  case (2 a)
  then show ?case by (cases v) auto
qed auto

lemma replace_spaces_single: "\<not> double_space (replace_runs is_space s)"
proof (induction is_space s rule: replace_runs.induct)
  case (2 c cs)
  have hd: "hd (replace_runs is_space t) = CHR '' '' \<longleftrightarrow> is_space (hd t)" if "t \<noteq> []" for t
    using that by (cases t) (auto simp: is_space_def)
  have nil: "replace_runs is_space t = [] \<longleftrightarrow> t = []" for t by (cases t) auto
  show ?case
  proof (cases "is_space c")
    case True
    let ?t = "dropWhile is_space cs"
    have "\<not> double_space (replace_runs is_space ?t)" using "2.hyps"(1) True by simp
    moreover have "hd (replace_runs is_space ?t) \<noteq> CHR '' ''" if "replace_runs is_space ?t \<noteq> []"
      using that hd [of ?t] hd_dropWhile [of is_space cs] nil [of ?t] by simp
    ultimately have "\<not> double_space ([CHR '' ''] @ replace_runs is_space ?t)"
      unfolding double_space_append by auto
    with True show ?thesis by simp
  next
    case False
    have "\<not> double_space (replace_runs is_space cs)" using "2.hyps"(2) False by simp
    with False have "\<not> double_space ([c] @ replace_runs is_space cs)"
      unfolding double_space_append by (simp add: is_space_def)
    with False show ?thesis by simp
  qed
qed simp

lemma double_space_dropWhile: "double_space (dropWhile q s) \<Longrightarrow> double_space s"
  using double_space_append [of "takeWhile q s" "dropWhile q s"] by simp

lemma double_space_rev: "double_space (rev s) \<longleftrightarrow> double_space s"
proof (induction s)
  case (Cons a s)
  then show ?case
    using double_space_append [of "rev s" "[a]"] double_space_append [of "[a]" s]
    by (auto simp: last_rev)
qed simp

lemma double_space_trim: "double_space (trim s) \<Longrightarrow> double_space s"
  unfolding trim_def by (metis double_space_dropWhile double_space_rev)

text \<open>
  A sanitised text holds no control character, so no line break, and no two spaces
  in a row, whatever the input: a recorded path or label cannot start a new line in a receipt.
\<close>

theorem sanitizeText_one_line:
  "filter is_control (sanitizeText s) = [] \<and> \<not> double_space (sanitizeText s)"
proof
  have "\<not> is_control (CHR '' '')" by code_simp
  moreover have "set (sanitizeText s) \<subseteq> {c \<in> set s. \<not> is_control c} \<union> {CHR '' ''}"
    unfolding sanitizeText_def
    using set_trim [of "replace_runs is_space (replace_runs is_control s)"]
      set_replace_runs [of is_space "replace_runs is_control s"] set_replace_runs [of is_control s]
    by blast
  ultimately show "filter is_control (sanitizeText s) = []"
    by (auto simp: filter_empty_conv)
  show "\<not> double_space (sanitizeText s)"
    unfolding sanitizeText_def using double_space_trim replace_spaces_single by blast
qed

subsection \<open>Recognition is by program position\<close>

text \<open>A command line made of plain words: neither white space nor quotes inside a word.\<close>

definition plain_word :: "string \<Rightarrow> bool" where
  "plain_word w \<longleftrightarrow> w \<noteq> [] \<and> list_all (\<lambda>c. \<not> is_ws c \<and> c \<noteq> single_quote \<and> c \<noteq> double_quote) w"

abbreviation tk :: "string list \<Rightarrow> string \<Rightarrow> token_state" where
  "tk ts c \<equiv> \<lparr>tk_tokens = ts, tk_cur = c, tk_single = False, tk_double = False\<rparr>"

lemma token_step_space: "token_step (tk ts c) (CHR '' '') = (if c = [] then tk ts [] else tk (ts @ [c]) [])"
  by (simp add: token_step_def is_ws_def single_quote_def double_quote_def)

lemma token_word:
  "list_all (\<lambda>c. \<not> is_ws c \<and> c \<noteq> single_quote \<and> c \<noteq> double_quote) w \<Longrightarrow>
     foldl token_step (tk ts c) w = tk ts (c @ w)"
  by (induction w arbitrary: c) (auto simp: token_step_def)

lemma tokenize_words:
  assumes "list_all plain_word ws" and "ws \<noteq> []"
  shows "foldl token_step (tk ts []) (join '' '' ws) = tk (ts @ butlast ws) (last ws)"
  using assms
proof (induction ws arbitrary: ts)
  case Nil
  then show ?case by simp
next
  case (Cons w ws)
  have w: "foldl token_step (tk ts []) w = tk ts w"
    using Cons.prems token_word [of w ts "[]"] by (simp add: plain_word_def)
  show ?case
  proof (cases ws)
    case Nil
    with w show ?thesis by simp
  next
    case (Cons v vs)
    have "w \<noteq> []" using Cons.prems by (simp add: plain_word_def)
    then have "foldl token_step (tk ts []) (join '' '' (w # ws)) =
        foldl token_step (tk (ts @ [w]) []) (join '' '' ws)"
      using w Cons by (simp add: token_step_space)
    also have "\<dots> = tk ((ts @ [w]) @ butlast ws) (last ws)"
      using Cons.prems Cons by (intro Cons.IH) simp_all
    finally show ?thesis using Cons by simp
  qed
qed

lemma tokenize_join:
  assumes "list_all plain_word ws" and "ws \<noteq> []"
  shows "tokenize (join '' '' ws) = ws"
proof -
  have "last ws \<noteq> []" using assms by (auto simp: list_all_iff plain_word_def)
  then show ?thesis
    using tokenize_words [OF assms, of "[]"] assms(2) by (simp add: tokenize_def)
qed

lemma trim_solid: "s \<noteq> [] \<Longrightarrow> \<not> is_ws (hd s) \<Longrightarrow> \<not> is_ws (last s) \<Longrightarrow> trim s = s"
proof -
  assume s: "s \<noteq> []" "\<not> is_ws (hd s)" "\<not> is_ws (last s)"
  have "dropWhile is_ws t = t" if "t \<noteq> []" "\<not> is_ws (hd t)" for t :: string
    using that by (cases t) simp_all
  with s show ?thesis by (simp add: trim_def hd_rev)
qed

lemma plain_join_solid:
  assumes "list_all plain_word ws" and "ws \<noteq> []"
  shows "join '' '' ws \<noteq> [] \<and> hd (join '' '' ws) = hd (hd ws) \<and> last (join '' '' ws) = last (last ws)"
  using assms
proof (induction ws)
  case Nil
  then show ?case by simp
next
  case (Cons w ws)
  then show ?case by (cases ws) (auto simp: plain_word_def)
qed

lemma plain_word_solid: "plain_word w \<Longrightarrow> \<not> is_ws (hd w) \<and> \<not> is_ws (last w)"
  by (simp add: plain_word_def list_all_iff)

lemma runner_of_words:
  assumes "list_all plain_word ws" and "ws \<noteq> []"
  shows "isTestRunnerCommand (join '' '' ws) = program_is_runner (dropWhile ENV_ASSIGNMENT ws)"
proof -
  have "plain_word (hd ws)" "plain_word (last ws)" using assms by (simp_all add: list_all_iff)
  then have "trim (join '' '' ws) = join '' '' ws"
    using plain_join_solid [OF assms] plain_word_solid by (intro trim_solid) auto
  then show ?thesis by (simp add: isTestRunnerCommand_def tokenize_join [OF assms])
qed

text \<open>
  Naming a runner in an argument is not running it. A command of plain words whose
  program, after environment assignments, is no runner, package manager, proxy, \<open>go\<close>,
  \<open>cargo\<close> or \<open>node\<close> is not recognised, whatever its arguments say.
\<close>

theorem arguments_never_recognised:
  assumes "list_all plain_word (envs @ prog # args)" and "list_all ENV_ASSIGNMENT envs"
    and "\<not> ENV_ASSIGNMENT prog"
    and "basenameOf prog \<notin> set (DIRECT_RUNNERS @ PKG_MANAGERS @ PROXY_RUNNERS @ [''go'', ''cargo'', ''node''])"
  shows "\<not> isTestRunnerCommand (join '' '' (envs @ prog # args))"
proof -
  have "dropWhile ENV_ASSIGNMENT (envs @ prog # args) = prog # args"
    using assms(2,3) by (simp add: dropWhile_append2 list_all_iff)
  moreover have "basenameOf prog \<noteq> ''pnpm''" using assms(4) by (auto simp: PKG_MANAGERS_def)
  ultimately show ?thesis
    using runner_of_words [OF assms(1)] assms(4) by (simp add: Let_def)
qed

theorem arguments_never_recognised_witness:
  "\<not> isTestRunnerCommand (join '' '' ([''CI=1''] @ ''git'' # [''commit'', ''vitest'', ''test'']))"
  by (rule arguments_never_recognised) code_simp+

text \<open>
  Recognition says nothing about what the shell reports. A compound command that
  discards the exit code of its tests is recognised like the tests themselves, and a
  package named after a flag of a proxy is taken for the program.
\<close>

theorem recognised_without_test_outcome:
  "isTestRunnerCommand ''npm test || true'' \<and> isTestRunnerCommand ''npx -p vitest echo hi'' \<and>
   isTestRunnerCommand ''npm test ; echo done''"
  by code_simp

end
