(* ===== verification/Verdicts.thy ===== *)
theory Verdicts
  imports Adapters Brief Glob Recognizers
begin

text \<open>
  The verdict engine (\<open>src/verdicts.ts\<close>): the evidence index over an event stream, the
  three adjudications and their composition \<open>computeVerdicts\<close>. Events that were
  recorded may convict at any capture level; events that are missing acquit nobody.
  \<open>nfc\<close> is Unicode normalisation; digests are those of the ledger.
\<close>

subsection \<open>Records of a receipt\<close>

datatype claim_verdict = VERIFIED | CONTRADICTED | UNSUPPORTED
datatype clause_verdict = KEPT | PROMISE_BROKEN | UNEVALUATED
datatype claim_family = TestsRan | RecognizedAssertion
datatype clause_type = Acceptance | Forbidden | Scope

record evidence_record =
  re_id :: string
  re_type :: string
  re_sha256 :: "string option"
  re_level :: capture_level
  re_source :: string

record claim_record =
  rc_id :: string
  rc_family :: claim_family
  rc_text :: string
  rc_verdict :: claim_verdict
  rc_evidence_ids :: "string list"
  rc_reason :: "string option"

record clause_record =
  rb_id :: string
  rb_type :: clause_type
  rb_text :: string
  rb_verdict :: clause_verdict
  rb_evidence_ids :: "string list"
  rb_reason :: "string option"

record command_evidence =
  ce_id :: string
  ce_command :: "string option"
  ce_exit_code :: "number option"

record file_change =
  ch_path :: string
  ch_kind :: "string option"

record file_change_evidence =
  fe_id :: string
  fe_changes :: "file_change list"

record evidence_index =
  ix_evidence :: "evidence_record list"
  ix_commands :: "command_evidence list"
  ix_fileChanges :: "file_change_evidence list"

record verdict_output =
  vo_claims :: "claim_record list"
  vo_brief_clauses :: "clause_record list"
  vo_evidence :: "evidence_record list"

subsection \<open>Evidence indexing\<close>

definition declared_gap :: "capture_gap list \<Rightarrow> capability \<Rightarrow> capture_gap option" where
  "declared_gap gaps c = List.find (\<lambda>g. gap_capability g = c) gaps"

definition levelFor :: "capture_gap list \<Rightarrow> capability \<Rightarrow> capture_level" where
  "levelFor gaps c =
     (case declared_gap gaps c of
        Some g \<Rightarrow> if gap_level g = Full then Full else Partial
      | None \<Rightarrow> Partial)"

definition machineId :: "string \<Rightarrow> string \<Rightarrow> string" where
  "machineId pre briefId =
     pre @ ''_'' @ map (\<lambda>c. if c = CHR ''-'' then CHR ''_'' else c) briefId"

fun EVIDENCE_TYPE :: "kind \<Rightarrow> string option" where
  "EVIDENCE_TYPE Command = Some ''command''"
| "EVIDENCE_TYPE FileChange = Some ''file''"
| "EVIDENCE_TYPE ToolCall = Some ''adapter_event''"
| "EVIDENCE_TYPE _ = None"

text \<open>Read only for the three kinds that have an evidence type.\<close>

fun EVIDENCE_CAPABILITY :: "kind \<Rightarrow> capability" where
  "EVIDENCE_CAPABILITY Command = ShellCommandExecution"
| "EVIDENCE_CAPABILITY FileChange = FileChanges"
| "EVIDENCE_CAPABILITY _ = McpActivity"

definition evidence_name :: "nat \<Rightarrow> string" where
  "evidence_name n = ''ev_'' @ pad_start 4 (CHR ''0'') (dec n)"

fun kind_text :: "kind \<Rightarrow> string" where
  "kind_text Command = ''command''"
| "kind_text FileChange = ''file_change''"
| "kind_text ToolCall = ''tool_call''"
| "kind_text _ = []"

definition event_digest :: "externals \<Rightarrow> normalized_event \<Rightarrow> string" where
  "event_digest x e =
     hashCanonical x (JObj [(''kind'', JStr (kind_text (ne_kind e))),
       (''raw_type'', JStr (ne_raw_type e)), (''payload'', ne_payload e)])"

definition read_change :: "json \<Rightarrow> file_change list" where
  "read_change c =
     (if \<not> is_objectish c then []
      else (case jget c ''path'' of
              Some (JStr p) \<Rightarrow> [\<lparr>ch_path = p, ch_kind = as_string (jget c ''kind'')\<rparr>]
            | _ \<Rightarrow> []))"

definition read_changes :: "json \<Rightarrow> file_change list" where
  "read_changes p =
     concat (map read_change (case as_array (jget p ''changes'') of None \<Rightarrow> [] | Some cs \<Rightarrow> cs))"

definition index_step ::
  "externals \<Rightarrow> capture_gap list \<Rightarrow> evidence_index \<Rightarrow> normalized_event \<Rightarrow> evidence_index" where
  "index_step x gaps ix e =
     (case EVIDENCE_TYPE (ne_kind e) of
        None \<Rightarrow> ix
      | Some ty \<Rightarrow>
          (let eid = evidence_name (length (ix_evidence ix) + 1);
               p = ne_payload e;
               ix' = ix\<lparr>ix_evidence := ix_evidence ix @
                  [\<lparr>re_id = eid, re_type = ty, re_sha256 = Some (event_digest x e),
                    re_level = levelFor gaps (EVIDENCE_CAPABILITY (ne_kind e)), re_source = ''engine_stream''\<rparr>]\<rparr>
           in if ne_kind e = Command then
                ix'\<lparr>ix_commands := ix_commands ix @
                  [\<lparr>ce_id = eid, ce_command = as_string (jget p ''command''),
                    ce_exit_code = as_number (jget p ''exit_code'')\<rparr>]\<rparr>
              else if ne_kind e = FileChange then
                ix'\<lparr>ix_fileChanges := ix_fileChanges ix @
                  [\<lparr>fe_id = eid, fe_changes = read_changes p\<rparr>]\<rparr>
              else ix'))"

definition indexEvidence ::
  "externals \<Rightarrow> normalized_event list \<Rightarrow> capture_gap list \<Rightarrow> evidence_index" where
  "indexEvidence x events gaps =
     foldl (index_step x gaps) \<lparr>ix_evidence = [], ix_commands = [], ix_fileChanges = []\<rparr> events"

subsection \<open>Path clauses and scope\<close>

definition FREEFORM_REASON :: string where
  "FREEFORM_REASON = ''freeform clause '' @ em_dash @ '' not machine-adjudicable''"

definition NO_VIOLATION_REASON :: string where
  "NO_VIOLATION_REASON =
     ''no violation recorded; stream completeness not independently verified (wrapper diff: phase two)''"

definition UNNORMALIZABLE_REASON :: string where
  "UNNORMALIZABLE_REASON = ''unnormalizable path '' @ em_dash @ '' excluded from adjudication''"

definition AMBIGUOUS_REASON :: string where
  "AMBIGUOUS_REASON =
     ''a recorded change matches the clause globs but carries no change kind '' @ em_dash @
     '' cannot rule out violation''"

definition changeMatchesKind :: "string option \<Rightarrow> path_kind \<Rightarrow> bool" where
  "changeMatchesKind k clauseKind =
     (case k of
        None \<Rightarrow> False
      | Some t \<Rightarrow> (case clauseKind of DeletePaths \<Rightarrow> t = ''delete'' | WritePaths \<Rightarrow> t = ''add'' \<or> t = ''update''))"

definition globMatchesNormalized :: "(string \<Rightarrow> string) \<Rightarrow> string \<Rightarrow> string \<Rightarrow> bool" where
  "globMatchesNormalized nfc normalized pat = re_test (globToRegExp (nfc pat)) normalized"

record adjudication =
  aj_violations :: "(string \<times> string) list"   \<comment> \<open>evidence id and normalised path\<close>
  aj_ambiguous :: bool
  aj_excluded :: bool

definition adjudication_start :: adjudication where
  "adjudication_start = \<lparr>aj_violations = [], aj_ambiguous = False, aj_excluded = False\<rparr>"

text \<open>The nested loops over evidence and changes, as one list of pairs.\<close>

definition recorded_changes :: "file_change_evidence list \<Rightarrow> (string \<times> file_change) list" where
  "recorded_changes fcs = concat (map (\<lambda>fc. map (Pair (fe_id fc)) (fe_changes fc)) fcs)"

definition forbidden_step ::
  "(string \<Rightarrow> string) \<Rightarrow> string option \<Rightarrow> path_kind \<Rightarrow> string list \<Rightarrow>
   adjudication \<Rightarrow> string \<times> file_change \<Rightarrow> adjudication" where
  "forbidden_step nfc root k globs st c =
     (case normalizePath nfc (ch_path (snd c)) root of
        None \<Rightarrow> st\<lparr>aj_excluded := True\<rparr>
      | Some normalized \<Rightarrow>
          if \<not> list_ex (globMatchesNormalized nfc normalized) globs then st
          else if changeMatchesKind (ch_kind (snd c)) k then
            st\<lparr>aj_violations := aj_violations st @ [(fst c, normalized)]\<rparr>
          else if ch_kind (snd c) = None then st\<lparr>aj_ambiguous := True\<rparr>
          else st)"

definition scope_step ::
  "(string \<Rightarrow> string) \<Rightarrow> string option \<Rightarrow> string list \<Rightarrow>
   adjudication \<Rightarrow> string \<times> file_change \<Rightarrow> adjudication" where
  "scope_step nfc root scope st c =
     (case normalizePath nfc (ch_path (snd c)) root of
        None \<Rightarrow> st\<lparr>aj_excluded := True\<rparr>
      | Some normalized \<Rightarrow>
          if \<not> list_ex (globMatchesNormalized nfc normalized) scope then
            st\<lparr>aj_violations := aj_violations st @ [(fst c, normalized)]\<rparr>
          else st)"

definition forbidden_shown :: "path_kind \<Rightarrow> string \<times> string \<Rightarrow> string" where
  "forbidden_shown k v =
     [single_quote] @ sanitizeText (snd v) @ [single_quote] @ '' '' @
     (case k of DeletePaths \<Rightarrow> ''deleted'' | WritePaths \<Rightarrow> ''written'') @ '' ('' @ fst v @ '')''"

definition adjudicateForbidden ::
  "(string \<Rightarrow> string) \<Rightarrow> string option \<Rightarrow> string \<Rightarrow> string \<Rightarrow> path_kind \<Rightarrow> string list \<Rightarrow>
   file_change_evidence list \<Rightarrow> clause_record" where
  "adjudicateForbidden nfc root cid label k globs fileChanges =
     (let st = foldl (forbidden_step nfc root k globs) adjudication_start (recorded_changes fileChanges);
          base = \<lparr>rb_id = machineId ''clause'' cid, rb_type = Forbidden, rb_text = sanitizeText label,
                  rb_verdict = UNEVALUATED, rb_evidence_ids = [], rb_reason = Some NO_VIOLATION_REASON\<rparr>
      in if aj_violations st \<noteq> [] then
           base\<lparr>rb_verdict := PROMISE_BROKEN,
             rb_evidence_ids := uniq (map fst (aj_violations st)),
             rb_reason := Some (sanitizeText
               (join ''; '' (map (forbidden_shown k) (take 3 (aj_violations st)))))\<rparr>
         else if aj_excluded st then base\<lparr>rb_reason := Some UNNORMALIZABLE_REASON\<rparr>
         else if aj_ambiguous st then base\<lparr>rb_reason := Some AMBIGUOUS_REASON\<rparr>
         else base)"

definition scope_shown :: "string \<times> string \<Rightarrow> string" where
  "scope_shown v = [single_quote] @ sanitizeText (snd v) @ [single_quote] @ '' ('' @ fst v @ '')''"

definition adjudicateScope ::
  "(string \<Rightarrow> string) \<Rightarrow> string option \<Rightarrow> string list \<Rightarrow> file_change_evidence list \<Rightarrow> clause_record" where
  "adjudicateScope nfc root scope fileChanges =
     (let st = foldl (scope_step nfc root scope) adjudication_start (recorded_changes fileChanges);
          base = \<lparr>rb_id = ''clause_scope'', rb_type = Scope,
                  rb_text = sanitizeText (''the run may only touch: '' @ join '', '' scope),
                  rb_verdict = UNEVALUATED, rb_evidence_ids = [], rb_reason = Some NO_VIOLATION_REASON\<rparr>
      in if aj_violations st \<noteq> [] then
           base\<lparr>rb_verdict := PROMISE_BROKEN,
             rb_evidence_ids := uniq (map fst (aj_violations st)),
             rb_reason := Some (sanitizeText
               (''touched outside scope: '' @ join ''; '' (map scope_shown (take 3 (aj_violations st)))))\<rparr>
         else if aj_excluded st then base\<lparr>rb_reason := Some UNNORMALIZABLE_REASON\<rparr>
         else base)"

subsection \<open>Tests-ran adjudication\<close>

record f1_result =
  f1_verdict :: claim_verdict
  f1_evidence_ids :: "string list"
  f1_reason :: "string option"

definition ids_of :: "command_evidence option \<Rightarrow> string list" where
  "ids_of c = (case c of None \<Rightarrow> [] | Some e \<Rightarrow> [ce_id e])"

definition unsupported :: "string list \<Rightarrow> string \<Rightarrow> f1_result" where
  "unsupported ids r = \<lparr>f1_verdict = UNSUPPORTED, f1_evidence_ids = ids, f1_reason = Some r\<rparr>"

definition recognized_runners :: "command_evidence list \<Rightarrow> command_evidence list" where
  "recognized_runners commands =
     filter (\<lambda>c. case ce_command c of None \<Rightarrow> False | Some t \<Rightarrow> isTestRunnerCommand t) commands"

definition runner_exit :: "assertion option \<Rightarrow> command_evidence \<Rightarrow> f1_result" where
  "runner_exit assertion l =
     (case ce_exit_code l of
        None \<Rightarrow>
          unsupported [ce_id l]
            (''a test-runner execution ('' @ ce_id l @ '') was recorded without an exit code'')
      | Some code \<Rightarrow>
          if code = Whole 0 then
            \<lparr>f1_verdict = VERIFIED, f1_evidence_ids = [ce_id l], f1_reason = None\<rparr>
          else (case assertion of
              Some a \<Rightarrow>
                if claimsFullSuccess a then
                  \<lparr>f1_verdict = CONTRADICTED, f1_evidence_ids = [ce_id l],
                   f1_reason = Some (sanitizeText
                     (''the last recognized test-runner execution ('' @ ce_id l @ '') exited '' @
                      show_number code @ '' while '' @ [single_quote] @ as_text a @ [single_quote] @
                      '' was claimed''))\<rparr>
                else unsupported [ce_id l]
                  (''the last test-runner execution ('' @ ce_id l @ '') exited '' @ show_number code)
            | None \<Rightarrow> unsupported [ce_id l]
                (''the last test-runner execution ('' @ ce_id l @ '') exited '' @ show_number code)))"

definition adjudicateTestsRan ::
  "command_evidence list \<Rightarrow> capture_level \<Rightarrow> string \<Rightarrow> (string \<times> string list) option \<Rightarrow>
   assertion option \<Rightarrow> f1_result" where
  "adjudicateTestsRan commands cmdLevel cmdGapNote mutation assertion =
     (let l = last_opt (recognized_runners commands) in
      if cmdLevel \<noteq> Full then
        unsupported (ids_of l)
          (''command capture for this engine is partial '' @ em_dash @
           '' test execution cannot be verified ('' @ cmdGapNote @ '')'')
      else (case mutation of
        Some (r, ids) \<Rightarrow> unsupported (uniq (ids_of l @ ids)) (''suite-mutated: '' @ r)
      | None \<Rightarrow>
          (case (case assertion of Some a \<Rightarrow> if claimsFullSuccess a then None else Some a | None \<Rightarrow> None) of
             Some a \<Rightarrow>
               unsupported (ids_of l)
                 (''reported totals ('' @ number_text (as_passed a) @ ''/'' @ number_text (as_total a) @
                  '') are not a full pass'')
           | None \<Rightarrow>
               (case l of
                  Some e \<Rightarrow> runner_exit assertion e
                | None \<Rightarrow> unsupported []
                    ''no recognized test-runner execution in the captured command stream''))))"

fun F1_TO_CLAUSE :: "claim_verdict \<Rightarrow> clause_verdict" where
  "F1_TO_CLAUSE VERIFIED = KEPT"
| "F1_TO_CLAUSE CONTRADICTED = PROMISE_BROKEN"
| "F1_TO_CLAUSE UNSUPPORTED = UNEVALUATED"

subsection \<open>Composition\<close>

definition freeform_record :: "clause_type \<Rightarrow> string \<Rightarrow> string \<Rightarrow> clause_record" where
  "freeform_record ty i label =
     \<lparr>rb_id = machineId ''clause'' i, rb_type = ty, rb_text = sanitizeText label,
      rb_verdict = UNEVALUATED, rb_evidence_ids = [], rb_reason = Some FREEFORM_REASON\<rparr>"

definition forbidden_record ::
  "(string \<Rightarrow> string) \<Rightarrow> string option \<Rightarrow> file_change_evidence list \<Rightarrow> forbidden_clause \<Rightarrow> clause_record" where
  "forbidden_record nfc root fileChanges c =
     (case c of
        Freeform i label \<Rightarrow> freeform_record Forbidden i label
      | PathClause i label k globs \<Rightarrow> adjudicateForbidden nfc root i label k globs fileChanges)"

definition mutation_of :: "clause_record list \<Rightarrow> (string \<times> string list) option" where
  "mutation_of forbiddenClauses =
     map_option (\<lambda>broken.
        (''forbidden clause '' @ [single_quote] @ rb_text broken @ [single_quote] @ '' broken '' @ em_dash @
         '' tests-pass cannot be evaluated on a mutated workspace'', rb_evidence_ids broken))
       (List.find (\<lambda>c. rb_verdict c = PROMISE_BROKEN) forbiddenClauses)"

definition claim_of :: "f1_result \<Rightarrow> assertion option \<Rightarrow> acceptance_clause \<Rightarrow> claim_record" where
  "claim_of f1 assertion c =
     \<lparr>rc_id = machineId ''claim'' (ac_id c), rc_family = TestsRan,
      rc_text = (case assertion of Some a \<Rightarrow> as_text a | None \<Rightarrow> sanitizeText (ac_label c)),
      rc_verdict = f1_verdict f1, rc_evidence_ids = f1_evidence_ids f1, rc_reason = f1_reason f1\<rparr>"

definition acceptance_record :: "f1_result \<Rightarrow> acceptance_clause \<Rightarrow> clause_record" where
  "acceptance_record f1 c =
     (case ac_kind c of
        FreeformAcceptance \<Rightarrow> freeform_record Acceptance (ac_id c) (ac_label c)
      | TestsPass \<Rightarrow>
          \<lparr>rb_id = machineId ''clause'' (ac_id c), rb_type = Acceptance, rb_text = sanitizeText (ac_label c),
           rb_verdict = F1_TO_CLAUSE (f1_verdict f1), rb_evidence_ids = f1_evidence_ids f1,
           rb_reason = f1_reason f1\<rparr>)"

definition assertion_evidence ::
  "externals \<Rightarrow> capture_gap list \<Rightarrow> string option \<Rightarrow> evidence_record list \<Rightarrow> evidence_record list" where
  "assertion_evidence x gaps finalText evidence =
     (case (recognizeAssertion finalText, finalText) of
        (Some a, Some t) \<Rightarrow>
          [\<lparr>re_id = evidence_name (length evidence + 1), re_type = ''adapter_event'',
            re_sha256 = Some (hashBytes x t), re_level = levelFor gaps FinalStructuredOutput,
            re_source = ''engine_stream''\<rparr>]
      | _ \<Rightarrow> [])"

record verdict_input =
  vi_brief :: brief
  vi_events :: "normalized_event list"
  vi_captureGaps :: "capture_gap list"
  vi_finalText :: "string option"
  vi_workspaceRoot :: "string option"

definition forbidden_records :: "externals \<Rightarrow> (string \<Rightarrow> string) \<Rightarrow> verdict_input \<Rightarrow> clause_record list" where
  "forbidden_records x nfc inp =
     map (forbidden_record nfc (vi_workspaceRoot inp)
           (ix_fileChanges (indexEvidence x (vi_events inp) (vi_captureGaps inp))))
       (b_forbidden (vi_brief inp))"

definition tests_ran :: "externals \<Rightarrow> (string \<Rightarrow> string) \<Rightarrow> verdict_input \<Rightarrow> f1_result" where
  "tests_ran x nfc inp =
     adjudicateTestsRan
       (ix_commands (indexEvidence x (vi_events inp) (vi_captureGaps inp)))
       (levelFor (vi_captureGaps inp) ShellCommandExecution)
       (case declared_gap (vi_captureGaps inp) ShellCommandExecution of
          Some g \<Rightarrow> gap_note g | None \<Rightarrow> ''capability not declared'')
       (mutation_of (forbidden_records x nfc inp))
       (recognizeAssertion (vi_finalText inp))"

definition computeVerdicts :: "externals \<Rightarrow> (string \<Rightarrow> string) \<Rightarrow> verdict_input \<Rightarrow> verdict_output" where
  "computeVerdicts x nfc inp =
     (let brief = vi_brief inp;
          index = indexEvidence x (vi_events inp) (vi_captureGaps inp);
          assertion = recognizeAssertion (vi_finalText inp);
          evidence = ix_evidence index @
            assertion_evidence x (vi_captureGaps inp) (vi_finalText inp) (ix_evidence index);
          forbiddenClauses = forbidden_records x nfc inp;
          f1 = tests_ran x nfc inp;
          tested = filter (\<lambda>c. ac_kind c = TestsPass) (b_acceptance brief);
          claims = map (claim_of f1 assertion) tested;
          standalone =
            (case assertion of
               Some a \<Rightarrow>
                 if tested = [] then
                   [\<lparr>rc_id = ''claim_recognized_assertion'', rc_family = RecognizedAssertion,
                     rc_text = as_text a, rc_verdict = f1_verdict f1,
                     rc_evidence_ids = f1_evidence_ids f1, rc_reason = f1_reason f1\<rparr>]
                 else []
             | None \<Rightarrow> []);
          scopeClauses =
            (if b_scope brief \<noteq> [] then
               [adjudicateScope nfc (vi_workspaceRoot inp) (b_scope brief) (ix_fileChanges index)]
             else [])
      in \<lparr>vo_claims = claims @ standalone,
          vo_brief_clauses = map (acceptance_record f1) (b_acceptance brief) @ forbiddenClauses @ scopeClauses,
          vo_evidence = evidence\<rparr>)"

end
