(* ===== verification/Doctrine.thy ===== *)
theory Doctrine
  imports Verdicts
begin

text \<open>
  What the verdict engine promises (the header of \<open>src/verdicts.ts\<close>): recorded events
  convict whatever else was not seen, absence never acquits or convicts, and every
  condemnation cites evidence of the index. The two path adjudications share one
  interface, \<open>admission_adjudicator\<close>.
\<close>

subsection \<open>Adjudication by admission\<close>

text \<open>A loop over recorded changes in which each change alone decides whether it convicts.\<close>

locale admission_adjudicator =
  fixes step :: "adjudication \<Rightarrow> 'c \<Rightarrow> adjudication"
    and source :: "'c \<Rightarrow> string"
    and convicts :: "'c \<Rightarrow> string option"
  assumes step_violations:
    "aj_violations (step st c) =
       aj_violations st @ (case convicts c of None \<Rightarrow> [] | Some p \<Rightarrow> [(source c, p)])"
begin

lemma fold_violations:
  "aj_violations (foldl step st cs) =
     aj_violations st @ List.map_filter (\<lambda>c. map_option (Pair (source c)) (convicts c)) cs"
  by (induction cs arbitrary: st)
    (simp_all add: step_violations map_filter_simps split: option.splits)

lemma convicted_iff:
  "aj_violations (foldl step adjudication_start cs) = [] \<longleftrightarrow> (\<forall>c\<in>set cs. convicts c = None)"
  unfolding fold_violations by (induction cs) (simp_all add: adjudication_start_def map_filter_simps split: option.splits)

lemma violation_sources:
  "fst ` set (aj_violations (foldl step adjudication_start cs)) \<subseteq> source ` set cs"
  unfolding fold_violations
  by (induction cs) (auto simp: adjudication_start_def map_filter_simps split: option.splits)

lemma violations_monotone:
  "prefix (aj_violations (foldl step st cs)) (aj_violations (foldl step st (cs @ ds)))"
  by (simp add: fold_violations map_filter_def)

end

definition forbidden_convicts ::
  "(string \<Rightarrow> string) \<Rightarrow> string option \<Rightarrow> path_kind \<Rightarrow> string list \<Rightarrow> file_change \<Rightarrow> string option" where
  "forbidden_convicts nfc root k globs ch =
     (case normalizePath nfc (ch_path ch) root of
        None \<Rightarrow> None
      | Some p \<Rightarrow>
          if list_ex (globMatchesNormalized nfc p) globs \<and> changeMatchesKind (ch_kind ch) k then Some p
          else None)"

definition scope_convicts ::
  "(string \<Rightarrow> string) \<Rightarrow> string option \<Rightarrow> string list \<Rightarrow> file_change \<Rightarrow> string option" where
  "scope_convicts nfc root scope ch =
     (case normalizePath nfc (ch_path ch) root of
        None \<Rightarrow> None
      | Some p \<Rightarrow> if list_ex (globMatchesNormalized nfc p) scope then None else Some p)"

lemma matching_kind: "changeMatchesKind t k \<Longrightarrow> \<exists>y. t = Some y"
  by (cases t) (simp_all add: changeMatchesKind_def)

interpretation forbidden_clause: admission_adjudicator
  "forbidden_step nfc root k globs" fst "\<lambda>c. forbidden_convicts nfc root k globs (snd c)"
  for nfc root k globs
  by unfold_locales (auto simp: forbidden_step_def forbidden_convicts_def split: option.splits
      dest: matching_kind)

interpretation scope_clause: admission_adjudicator
  "scope_step nfc root scope" fst "\<lambda>c. scope_convicts nfc root scope (snd c)"
  for nfc root scope
  by unfold_locales (simp add: scope_step_def scope_convicts_def split: option.splits)

subsection \<open>Evidence names\<close>

lemma digits_value_append: "digits_value (s @ t) acc = digits_value t (digits_value s acc)"
  by (induction s arbitrary: acc) auto

lemma digits_value_zeros: "digits_value (replicate n (CHR ''0'') @ s) 0 = digits_value s 0"
  by (induction n) auto

lemma digit_value: "k < 10 \<Longrightarrow> of_char (char_of (48 + k) :: char) = (48 + k :: nat)"
  by simp

lemma digits_value_dec: "digits_value (dec n) 0 = int n"
proof (induction n rule: dec.induct)
  case (1 n)
  show ?case
  proof (cases "n < 10")
    case True
    then show ?thesis using digit_value [of n] by (simp add: dec.simps del: of_char_of)
  next
    case False
    then have d: "dec n = dec (n div 10) @ [char_of (48 + n mod 10)]" by (subst dec.simps) simp
    have "int n = 10 * int (n div 10) + int (n mod 10)"
      by (simp add: zdiv_int zmod_int)
    then show ?thesis
      unfolding d digits_value_append using 1 False digit_value [of "n mod 10"] by (simp del: of_char_of)
  qed
qed

lemma evidence_name_inj: "inj evidence_name"
proof (rule injI)
  fix m n assume "evidence_name m = evidence_name n"
  then have "pad_start 4 (CHR ''0'') (dec m) = pad_start 4 (CHR ''0'') (dec n)"
    by (simp add: evidence_name_def)
  from arg_cong [OF this, of "\<lambda>s. digits_value s 0"] show "m = n"
    by (simp add: pad_start_def digits_value_zeros digits_value_dec)
qed

subsection \<open>The evidence index\<close>

definition names_upto :: "nat \<Rightarrow> string list" where
  "names_upto n = map evidence_name [1..<Suc n]"

lemma names_upto_Suc: "names_upto (Suc n) = names_upto n @ [evidence_name (Suc n)]"
  by (simp add: names_upto_def)

lemma distinct_names_upto: "distinct (names_upto n)"
  using evidence_name_inj by (simp add: names_upto_def distinct_map inj_on_def inj_def)

definition index_ok :: "evidence_index \<Rightarrow> bool" where
  "index_ok ix \<longleftrightarrow>
     map re_id (ix_evidence ix) = names_upto (length (ix_evidence ix)) \<and>
     ce_id ` set (ix_commands ix) \<subseteq> re_id ` set (ix_evidence ix) \<and>
     fe_id ` set (ix_fileChanges ix) \<subseteq> re_id ` set (ix_evidence ix)"

lemma index_step_ok: "index_ok ix \<Longrightarrow> index_ok (index_step x gaps ix e)"
  by (auto simp: index_ok_def index_step_def Let_def names_upto_Suc split: option.splits)

lemma indexEvidence_ok: "index_ok (indexEvidence x events gaps)"
proof -
  have "index_ok (foldl (index_step x gaps) ix events)" if "index_ok ix" for ix
    using that by (induction events arbitrary: ix) (simp_all add: index_step_ok)
  moreover have "index_ok \<lparr>ix_evidence = [], ix_commands = [], ix_fileChanges = []\<rparr>"
    by (simp add: index_ok_def names_upto_def)
  ultimately show ?thesis by (simp add: indexEvidence_def)
qed

text \<open>The changes and commands an event stream admits, apart from evidence ids.\<close>

definition admitted_changes :: "normalized_event list \<Rightarrow> file_change list" where
  "admitted_changes events =
     concat (map (\<lambda>e. read_changes (ne_payload e)) (filter (\<lambda>e. ne_kind e = FileChange) events))"

definition runs_tests :: "normalized_event \<Rightarrow> bool" where
  "runs_tests e \<longleftrightarrow> ne_kind e = Command \<and>
     (case as_string (jget (ne_payload e) ''command'') of None \<Rightarrow> False | Some t \<Rightarrow> isTestRunnerCommand t)"

lemma index_changes:
  "map snd (recorded_changes (ix_fileChanges (indexEvidence x events gaps))) = admitted_changes events"
proof -
  have "map snd (recorded_changes (ix_fileChanges (foldl (index_step x gaps) ix events))) =
      map snd (recorded_changes (ix_fileChanges ix)) @ admitted_changes events" for ix
  proof (induction events arbitrary: ix)
    case Nil
    then show ?case by (simp add: admitted_changes_def)
  next
    case (Cons e es)
    then show ?case
      by (cases "ne_kind e")
        (simp_all add: index_step_def Let_def admitted_changes_def recorded_changes_def o_def)
  qed
  from this [of "\<lparr>ix_evidence = [], ix_commands = [], ix_fileChanges = []\<rparr>"] show ?thesis
    by (simp add: indexEvidence_def recorded_changes_def)
qed

lemma index_commands:
  "map (\<lambda>c. (ce_command c, ce_exit_code c)) (ix_commands (indexEvidence x events gaps)) =
     map (\<lambda>e. (as_string (jget (ne_payload e) ''command''), as_number (jget (ne_payload e) ''exit_code'')))
       (filter (\<lambda>e. ne_kind e = Command) events)"
proof -
  have "map (\<lambda>c. (ce_command c, ce_exit_code c)) (ix_commands (foldl (index_step x gaps) ix events)) =
      map (\<lambda>c. (ce_command c, ce_exit_code c)) (ix_commands ix) @
      map (\<lambda>e. (as_string (jget (ne_payload e) ''command''), as_number (jget (ne_payload e) ''exit_code'')))
       (filter (\<lambda>e. ne_kind e = Command) events)" for ix
  proof (induction events arbitrary: ix)
    case (Cons e es)
    then show ?case by (cases "ne_kind e") (simp_all add: index_step_def Let_def)
  qed simp
  from this [of "\<lparr>ix_evidence = [], ix_commands = [], ix_fileChanges = []\<rparr>"] show ?thesis
    by (simp add: indexEvidence_def)
qed

lemma last_filter_map:
  "map f xs = map g ys \<Longrightarrow> (\<And>x. P x = R (f x)) \<Longrightarrow> (\<And>y. Q y = R (g y)) \<Longrightarrow>
     map_option f (last_opt (filter P xs)) = map_option g (last_opt (filter Q ys))"
proof -
  assume *: "map f xs = map g ys" "\<And>x. P x = R (f x)" "\<And>y. Q y = R (g y)"
  have "P = R \<circ> f" "Q = R \<circ> g" using *(2,3) by (simp_all add: fun_eq_iff)
  then have "map f (filter P xs) = filter R (map f xs)" "map g (filter Q ys) = filter R (map g ys)"
    by (simp_all add: filter_map)
  with *(1) have eq: "map f (filter P xs) = map g (filter Q ys)" by simp
  then have "last_opt (map f (filter P xs)) = last_opt (map g (filter Q ys))" by simp
  then show ?thesis by (simp only: last_opt_map)
qed

lemma last_runner:
  "map_option ce_exit_code (last_opt (recognized_runners (ix_commands (indexEvidence x events gaps)))) =
     map_option (\<lambda>e. as_number (jget (ne_payload e) ''exit_code'')) (last_opt (filter runs_tests events))"
proof -
  let ?f = "\<lambda>c. (ce_command c, ce_exit_code c)"
  let ?g = "\<lambda>e. (as_string (jget (ne_payload e) ''command''), as_number (jget (ne_payload e) ''exit_code''))"
  let ?R = "\<lambda>p. case fst p of None \<Rightarrow> False | Some t \<Rightarrow> isTestRunnerCommand t"
  have "map_option ?f (last_opt (filter (\<lambda>c. ?R (?f c)) (ix_commands (indexEvidence x events gaps)))) =
      map_option ?g (last_opt (filter (\<lambda>e. ?R (?g e)) (filter (\<lambda>e. ne_kind e = Command) events)))"
    by (rule last_filter_map [where R = ?R, OF index_commands]) (rule refl)+
  moreover have "filter (\<lambda>e. ?R (?g e)) (filter (\<lambda>e. ne_kind e = Command) events) = filter runs_tests events"
    unfolding filter_filter by (rule filter_cong) (auto simp: runs_tests_def)
  moreover have "filter (\<lambda>c. ?R (?f c)) cs = recognized_runners cs" for cs
    by (simp add: recognized_runners_def)
  ultimately have "map_option snd (map_option ?f (last_opt (recognized_runners (ix_commands (indexEvidence x events gaps))))) =
      map_option snd (map_option ?g (last_opt (filter runs_tests events)))" by simp
  then show ?thesis by (simp add: option.map_comp o_def)
qed

subsection \<open>Path clauses\<close>

lemma recorded_all:
  "(\<forall>c\<in>set (recorded_changes (ix_fileChanges (indexEvidence x events gaps))). P (snd c)) \<longleftrightarrow>
     (\<forall>ch\<in>set (admitted_changes events). P ch)"
proof -
  have "snd ` set (recorded_changes (ix_fileChanges (indexEvidence x events gaps))) = set (admitted_changes events)"
    using index_changes [of x events gaps] by (metis list.set_map)
  then show ?thesis by (metis (no_types, lifting) image_iff)
qed

lemma adjudicateForbidden_verdict:
  "rb_verdict (adjudicateForbidden nfc root i label k globs (ix_fileChanges (indexEvidence x events gaps))) =
     (if list_ex (\<lambda>ch. forbidden_convicts nfc root k globs ch \<noteq> None) (admitted_changes events)
      then PROMISE_BROKEN else UNEVALUATED)"
  using forbidden_clause.convicted_iff [of nfc root k globs]
    recorded_all [where P = "\<lambda>ch. forbidden_convicts nfc root k globs ch = None"]
  by (simp add: adjudicateForbidden_def Let_def list_ex_iff)

lemma adjudicateScope_verdict:
  "rb_verdict (adjudicateScope nfc root scope (ix_fileChanges (indexEvidence x events gaps))) =
     (if list_ex (\<lambda>ch. scope_convicts nfc root scope ch \<noteq> None) (admitted_changes events)
      then PROMISE_BROKEN else UNEVALUATED)"
  using scope_clause.convicted_iff [of nfc root scope]
    recorded_all [where P = "\<lambda>ch. scope_convicts nfc root scope ch = None"]
  by (simp add: adjudicateScope_def Let_def list_ex_iff)

lemma changeMatchesKind_cases:
  "changeMatchesKind t k \<longleftrightarrow>
     k = DeletePaths \<and> t = Some ''delete'' \<or> k = WritePaths \<and> (t = Some ''add'' \<or> t = Some ''update'')"
  by (cases k) (auto simp: changeMatchesKind_def split: option.splits)

text \<open>
  C2: a path clause is broken exactly when some recorded file change normalises to a path
  that one of its globs matches and has a kind the clause forbids: a deletion for a clause
  on deletions, an addition or an update for a clause on writes. Otherwise, and for a change
  whose kind is unknown, it is unevaluated. No capture gap enters the verdict, and the clause
  is never kept.
\<close>

theorem forbidden_verdict_iff:
  "rb_verdict (forbidden_record nfc root (ix_fileChanges (indexEvidence x events gaps)) (PathClause i label k globs)) =
     (if \<exists>ch\<in>set (admitted_changes events). \<exists>p g.
          normalizePath nfc (ch_path ch) root = Some p \<and> g \<in> set globs \<and> re_test (globToRegExp (nfc g)) p \<and>
          (k = DeletePaths \<and> ch_kind ch = Some ''delete'' \<or>
           k = WritePaths \<and> (ch_kind ch = Some ''add'' \<or> ch_kind ch = Some ''update''))
      then PROMISE_BROKEN else UNEVALUATED)"
proof -
  have "forbidden_convicts nfc root k globs ch \<noteq> None \<longleftrightarrow>
      (\<exists>p g. normalizePath nfc (ch_path ch) root = Some p \<and> g \<in> set globs \<and> re_test (globToRegExp (nfc g)) p \<and>
          (k = DeletePaths \<and> ch_kind ch = Some ''delete'' \<or>
           k = WritePaths \<and> (ch_kind ch = Some ''add'' \<or> ch_kind ch = Some ''update'')))" for ch
    by (auto simp: forbidden_convicts_def globMatchesNormalized_def [abs_def] list_ex_iff changeMatchesKind_cases
        split: option.splits)
  then show ?thesis by (simp add: forbidden_record_def adjudicateForbidden_verdict list_ex_iff)
qed

lemma admitted_append: "admitted_changes (es @ fs) = admitted_changes es @ admitted_changes fs"
  by (simp add: admitted_changes_def)

text \<open>
  A conviction stands. A clause broken by a prefix of the event stream stays broken
  whatever events follow and whatever capture gaps are declared, for path clauses and scope alike.
\<close>

theorem conviction_monotone:
  assumes "rb_verdict (adjudicateForbidden nfc root i label k globs (ix_fileChanges (indexEvidence x es gaps))) = PROMISE_BROKEN"
    and "rb_verdict (adjudicateScope nfc root scope (ix_fileChanges (indexEvidence x es gaps))) = PROMISE_BROKEN"
  shows "rb_verdict (adjudicateForbidden nfc root i label k globs (ix_fileChanges (indexEvidence x (es @ fs) gaps'))) = PROMISE_BROKEN \<and>
    rb_verdict (adjudicateScope nfc root scope (ix_fileChanges (indexEvidence x (es @ fs) gaps'))) = PROMISE_BROKEN"
  using assms by (simp add: adjudicateForbidden_verdict adjudicateScope_verdict admitted_append split: if_splits)

definition deletion :: "string \<Rightarrow> normalized_event" where
  "deletion p =
     \<lparr>ne_source = Codex, ne_kind = FileChange, ne_raw_type = ''item.completed:file_change'',
      ne_payload = JObj [(''changes'', JArr [JObj [(''path'', JStr p), (''kind'', JStr ''delete'')]])]\<rparr>"

theorem conviction_monotone_witness:
  "rb_verdict (adjudicateForbidden (\<lambda>s. s) None ''keep-tests'' ''keep'' DeletePaths [''tests/**'']
     (ix_fileChanges (indexEvidence demo_externals ([deletion ''tests/a.ts''] @ [deletion ''b'']) []))) = PROMISE_BROKEN \<and>
   rb_verdict (adjudicateScope (\<lambda>s. s) None [''src/**'']
     (ix_fileChanges (indexEvidence demo_externals ([deletion ''tests/a.ts''] @ [deletion ''b'']) []))) = PROMISE_BROKEN"
  by (rule conviction_monotone [where gaps = CODEX_GAPS]) code_simp+

subsection \<open>Tests ran\<close>

lemma mutation_of_None:
  "mutation_of cs = None \<longleftrightarrow> (\<forall>c\<in>set cs. rb_verdict c \<noteq> PROMISE_BROKEN)"
  by (auto simp: mutation_of_def find_None_iff)

lemma runner_exit_VERIFIED:
  "f1_verdict (runner_exit assertion l) = VERIFIED \<longleftrightarrow> ce_exit_code l = Some (Whole 0)"
  by (auto simp: runner_exit_def unsupported_def split: option.splits)

lemma adjudicateTestsRan_VERIFIED:
  "f1_verdict (adjudicateTestsRan commands cmdLevel note mutation assertion) = VERIFIED \<longleftrightarrow>
     cmdLevel = Full \<and> mutation = None \<and>
     (case assertion of None \<Rightarrow> True | Some a \<Rightarrow> claimsFullSuccess a) \<and>
     map_option ce_exit_code (last_opt (recognized_runners commands)) = Some (Some (Whole 0))"
  by (simp add: adjudicateTestsRan_def Let_def unsupported_def runner_exit_VERIFIED
      split: option.splits prod.splits)

text \<open>
  C3: passing tests are verified exactly when commands are captured in full, no
  forbidden clause of the brief is broken, the final message asserts nothing but full
  success, and the last recognised test run of the stream recorded exit code 0.
\<close>

theorem tests_verified_iff:
  "f1_verdict (tests_ran x nfc inp) = VERIFIED \<longleftrightarrow>
     levelFor (vi_captureGaps inp) ShellCommandExecution = Full \<and>
     filter (\<lambda>c. rb_verdict c = PROMISE_BROKEN) (forbidden_records x nfc inp) = [] \<and>
     (case recognizeAssertion (vi_finalText inp) of None \<Rightarrow> True | Some a \<Rightarrow> claimsFullSuccess a) \<and>
     map_option (\<lambda>e. as_number (jget (ne_payload e) ''exit_code''))
       (last_opt (filter runs_tests (vi_events inp))) = Some (Some (Whole 0))"
  by (simp add: tests_ran_def adjudicateTestsRan_VERIFIED mutation_of_None last_runner filter_empty_conv)

text \<open>
  Absence never convicts. Without a recognised test run in the stream the claim is
  unsupported, whatever the final message asserts.
\<close>

theorem no_runner_unsupported:
  assumes "filter runs_tests (vi_events inp) = []"
  shows "f1_verdict (tests_ran x nfc inp) = UNSUPPORTED"
proof -
  have "last_opt (recognized_runners (ix_commands (indexEvidence x (vi_events inp) (vi_captureGaps inp)))) = None"
    using last_runner [of x "vi_events inp" "vi_captureGaps inp"] assms by simp
  then show ?thesis
    by (auto simp: tests_ran_def adjudicateTestsRan_def unsupported_def split: option.splits)
qed

definition demo_input :: "normalized_event list \<Rightarrow> verdict_input" where
  "demo_input es =
     \<lparr>vi_brief = demo_brief, vi_events = es, vi_captureGaps = CODEX_GAPS,
      vi_finalText = Some ''all good: 12/12 tests passed'', vi_workspaceRoot = None\<rparr>"

theorem no_runner_unsupported_witness:
  "f1_verdict (tests_ran demo_externals (\<lambda>s. s) (demo_input [deletion ''src/a.ts''])) = UNSUPPORTED"
  by (rule no_runner_unsupported) code_simp

subsection \<open>Every condemnation cites evidence\<close>

lemma last_runner_in: "last_opt (recognized_runners commands) = Some l \<Longrightarrow> ce_id l \<in> ce_id ` set commands"
  by (drule last_opt_in) (simp add: recognized_runners_def)

lemma runner_exit_ids: "f1_evidence_ids (runner_exit assertion l) = [ce_id l]"
  by (simp add: runner_exit_def unsupported_def split: option.splits)

lemma adjudicateTestsRan_ids:
  "set (f1_evidence_ids (adjudicateTestsRan commands cmdLevel note mutation assertion)) \<subseteq>
     ce_id ` set commands \<union> (case mutation of None \<Rightarrow> {} | Some m \<Rightarrow> set (snd m))"
proof (cases "last_opt (recognized_runners commands)")
  case None
  then show ?thesis
    by (auto simp: adjudicateTestsRan_def Let_def unsupported_def ids_of_def split: option.splits)
next
  case (Some l)
  then show ?thesis
    using last_runner_in [OF Some]
    by (auto simp: adjudicateTestsRan_def Let_def unsupported_def ids_of_def runner_exit_ids
        split: option.splits)
qed

lemma adjudicateTestsRan_cites:
  "f1_verdict (adjudicateTestsRan commands cmdLevel note mutation assertion) = CONTRADICTED \<Longrightarrow>
     f1_evidence_ids (adjudicateTestsRan commands cmdLevel note mutation assertion) \<noteq> []"
  by (cases "last_opt (recognized_runners commands)")
    (auto simp: adjudicateTestsRan_def Let_def unsupported_def runner_exit_ids
      split: option.splits if_splits)

lemma recorded_ids: "fst ` set (recorded_changes fcs) \<subseteq> fe_id ` set fcs"
  by (auto simp: recorded_changes_def)

definition cites :: "string set \<Rightarrow> clause_record \<Rightarrow> bool" where
  "cites ids c \<longleftrightarrow>
     (rb_verdict c = PROMISE_BROKEN \<longrightarrow> rb_evidence_ids c \<noteq> []) \<and> set (rb_evidence_ids c) \<subseteq> ids"

lemma adjudicateForbidden_cites:
  "cites (fe_id ` set fcs) (adjudicateForbidden nfc root i label k globs fcs)"
  using forbidden_clause.violation_sources [of nfc root k globs "recorded_changes fcs"] recorded_ids [of fcs]
  by (simp add: cites_def adjudicateForbidden_def Let_def) blast

lemma adjudicateScope_cites: "cites (fe_id ` set fcs) (adjudicateScope nfc root scope fcs)"
  using scope_clause.violation_sources [of nfc root scope "recorded_changes fcs"] recorded_ids [of fcs]
  by (simp add: cites_def adjudicateScope_def Let_def) blast

lemma freeform_cites: "cites ids (freeform_record ty i label)"
  by (simp add: cites_def freeform_record_def)

lemma forbidden_record_cites: "cites (fe_id ` set fcs) (forbidden_record nfc root fcs c)"
  by (cases c) (simp_all add: forbidden_record_def adjudicateForbidden_cites freeform_cites)

lemma cites_mono: "cites A c \<Longrightarrow> A \<subseteq> B \<Longrightarrow> cites B c"
  by (auto simp: cites_def)

definition index_ids :: "externals \<Rightarrow> verdict_input \<Rightarrow> string set" where
  "index_ids x inp = re_id ` set (ix_evidence (indexEvidence x (vi_events inp) (vi_captureGaps inp)))"

lemma forbidden_records_cite: "c \<in> set (forbidden_records x nfc inp) \<Longrightarrow> cites (index_ids x inp) c"
  using indexEvidence_ok [of x "vi_events inp" "vi_captureGaps inp"]
  by (auto simp: forbidden_records_def index_ok_def index_ids_def
      intro!: cites_mono [OF forbidden_record_cites])

lemma tests_ran_ids: "set (f1_evidence_ids (tests_ran x nfc inp)) \<subseteq> index_ids x inp"
proof -
  have "set (snd m) \<subseteq> index_ids x inp" if "mutation_of (forbidden_records x nfc inp) = Some m" for m
  proof -
    from that obtain c where "List.find (\<lambda>c. rb_verdict c = PROMISE_BROKEN) (forbidden_records x nfc inp) = Some c"
      and m: "snd m = rb_evidence_ids c"
      by (auto simp: mutation_of_def)
    then have "c \<in> set (forbidden_records x nfc inp)" by (auto simp: find_Some_iff)
    from forbidden_records_cite [OF this] m show ?thesis by (simp add: cites_def)
  qed
  moreover have "ce_id ` set (ix_commands (indexEvidence x (vi_events inp) (vi_captureGaps inp))) \<subseteq> index_ids x inp"
    using indexEvidence_ok [of x "vi_events inp" "vi_captureGaps inp"] by (simp add: index_ok_def index_ids_def)
  ultimately show ?thesis
    unfolding tests_ran_def
    by (intro subset_trans [OF adjudicateTestsRan_ids]) (simp split: option.splits)
qed

lemma F1_broken: "F1_TO_CLAUSE v = PROMISE_BROKEN \<longleftrightarrow> v = CONTRADICTED"
  by (cases v) simp_all

lemma clauses_cite:
  "c \<in> set (vo_brief_clauses (computeVerdicts x nfc inp)) \<Longrightarrow> cites (index_ids x inp) c"
proof -
  have acc: "cites (index_ids x inp) (acceptance_record (tests_ran x nfc inp) a)" for a
    using tests_ran_ids [of x nfc inp] adjudicateTestsRan_cites
    by (auto simp: acceptance_record_def cites_def freeform_record_def F1_broken tests_ran_def
        split: acceptance_kind.splits)
  have scope: "cites (index_ids x inp)
      (adjudicateScope nfc root scope (ix_fileChanges (indexEvidence x (vi_events inp) (vi_captureGaps inp))))" for root scope
    using indexEvidence_ok [of x "vi_events inp" "vi_captureGaps inp"]
    by (intro cites_mono [OF adjudicateScope_cites]) (simp add: index_ok_def index_ids_def)
  assume "c \<in> set (vo_brief_clauses (computeVerdicts x nfc inp))"
  then show ?thesis
    using acc scope forbidden_records_cite by (auto simp: computeVerdicts_def Let_def split: if_splits)
qed

lemma claims_verdict:
  "c \<in> set (vo_claims (computeVerdicts x nfc inp)) \<Longrightarrow>
     rc_verdict c = f1_verdict (tests_ran x nfc inp) \<and> rc_evidence_ids c = f1_evidence_ids (tests_ran x nfc inp)"
  by (auto simp: computeVerdicts_def Let_def claim_of_def split: option.splits if_splits)

lemma index_ids_output: "index_ids x inp \<subseteq> re_id ` set (vo_evidence (computeVerdicts x nfc inp))"
  by (auto simp: index_ids_def computeVerdicts_def Let_def)

lemma output_ids_distinct: "distinct (map re_id (vo_evidence (computeVerdicts x nfc inp)))"
proof -
  let ?ev = "ix_evidence (indexEvidence x (vi_events inp) (vi_captureGaps inp))"
  have *: "map re_id ?ev = names_upto (length ?ev)"
    using indexEvidence_ok [of x "vi_events inp" "vi_captureGaps inp"] by (simp add: index_ok_def)
  have "map re_id (vo_evidence (computeVerdicts x nfc inp)) = names_upto (length ?ev) \<or>
      map re_id (vo_evidence (computeVerdicts x nfc inp)) = names_upto (Suc (length ?ev))"
    by (simp add: computeVerdicts_def Let_def assertion_evidence_def * names_upto_Suc split: option.splits)
  then show ?thesis using distinct_names_upto by metis
qed

text \<open>
  C1: for every brief, stream and declared gaps, no contradicted claim and no broken
  clause lacks a cited evidence id, every id cited anywhere is an id of the evidence
  index of the same output, and the ids of the index are pairwise different.
\<close>

theorem condemnations_cite_evidence:
  "filter (\<lambda>c. rc_verdict c = CONTRADICTED \<and> rc_evidence_ids c = []) (vo_claims (computeVerdicts x nfc inp)) = [] \<and>
   filter (\<lambda>c. rb_verdict c = PROMISE_BROKEN \<and> rb_evidence_ids c = []) (vo_brief_clauses (computeVerdicts x nfc inp)) = [] \<and>
   set (concat (map rc_evidence_ids (vo_claims (computeVerdicts x nfc inp))) @
        concat (map rb_evidence_ids (vo_brief_clauses (computeVerdicts x nfc inp)))) \<subseteq>
     set (map re_id (vo_evidence (computeVerdicts x nfc inp))) \<and>
   distinct (map re_id (vo_evidence (computeVerdicts x nfc inp)))"
proof (intro conjI)
  show "filter (\<lambda>c. rc_verdict c = CONTRADICTED \<and> rc_evidence_ids c = []) (vo_claims (computeVerdicts x nfc inp)) = []"
    using claims_verdict [of _ x nfc inp] adjudicateTestsRan_cites
    by (auto simp: filter_empty_conv tests_ran_def)
  show "filter (\<lambda>c. rb_verdict c = PROMISE_BROKEN \<and> rb_evidence_ids c = [])
      (vo_brief_clauses (computeVerdicts x nfc inp)) = []"
    using clauses_cite [of _ x nfc inp] by (auto simp: filter_empty_conv cites_def)
  have "set (rc_evidence_ids c) \<subseteq> index_ids x inp" if "c \<in> set (vo_claims (computeVerdicts x nfc inp))" for c
    using claims_verdict [OF that] tests_ran_ids [of x nfc inp] by simp
  moreover have "set (rb_evidence_ids c) \<subseteq> index_ids x inp"
    if "c \<in> set (vo_brief_clauses (computeVerdicts x nfc inp))" for c
    using clauses_cite [OF that] by (simp add: cites_def)
  ultimately show "set (concat (map rc_evidence_ids (vo_claims (computeVerdicts x nfc inp))) @
        concat (map rb_evidence_ids (vo_brief_clauses (computeVerdicts x nfc inp)))) \<subseteq>
     set (map re_id (vo_evidence (computeVerdicts x nfc inp)))"
    using index_ids_output [of x inp nfc] by fastforce
  show "distinct (map re_id (vo_evidence (computeVerdicts x nfc inp)))" by (rule output_ids_distinct)
qed

text \<open>
  A run of Claude Code is never reported as verified or contradicted on its tests:
  its adapter declares command capture partial, so each claim is unsupported.
\<close>

theorem claude_claims_unsupported:
  assumes "vi_captureGaps inp = ar_capture_gaps (claude_normalize raw)"
  shows "set (map rc_verdict (vo_claims (computeVerdicts x nfc inp))) \<subseteq> {UNSUPPORTED}"
proof -
  have "levelFor CLAUDE_GAPS ShellCommandExecution = Partial" by code_simp
  then have "levelFor (vi_captureGaps inp) ShellCommandExecution = Partial"
    by (simp add: assms claude_normalize_def Let_def)
  then have "f1_verdict (tests_ran x nfc inp) = UNSUPPORTED"
    by (simp add: tests_ran_def adjudicateTestsRan_def unsupported_def)
  then show ?thesis using claims_verdict [of _ x nfc inp] by auto
qed

theorem claude_claims_unsupported_witness:
  "set (map rc_verdict (vo_claims (computeVerdicts demo_externals (\<lambda>s. s)
     (demo_input []\<lparr>vi_captureGaps := CLAUDE_GAPS\<rparr>)))) \<subseteq> {UNSUPPORTED}"
  by (rule claude_claims_unsupported [of _ "[]"]) code_simp

end
