(* ===== verification/Ledger_Examples.thy ===== *)
theory Ledger_Examples
  imports Ledger
begin

text \<open>Concrete two-event ledgers at which the theorems of the ledger apply.\<close>

lemma demo_hash_shaped: "hash_shaped demo_externals"
proof -
  have "Hash (''sha256:'' @ replicate 64 (CHR ''0''))" "Hash (''sha256:'' @ replicate 64 (CHR ''1''))"
    "Hash (''sha256:'' @ replicate 64 (CHR ''2''))"
    by code_simp+
  then show ?thesis by (simp add: hash_shaped_def demo_externals_def demo_digest_def)
qed

lemma demo_ledger_recovers:
  "integrity_status (recoverLedger demo_externals (map event_json demo_ledger) no_opts) = Valid"
  by code_simp

lemma demo_ledger_parses:
  "map (parse_event demo_externals) (map event_json demo_ledger) = map Some demo_ledger"
  by code_simp

theorem recover_valid_reaches_end_witness:
  "last_valid_sequence (recoverLedger demo_externals (map event_json demo_ledger) no_opts) =
     int (length (map event_json demo_ledger))"
  by (rule recover_valid_reaches_end [OF demo_ledger_recovers])

lemma demo_collision_free:
  "collision_free (hashCanonical demo_externals) (unsealed ` (set demo_ledger \<union> set demo_ledger))"
proof -
  have ab: "demo_ledger = [demo_ledger ! 0, demo_ledger ! 1]" by code_simp
  have "hashCanonical demo_externals (unsealed (demo_ledger ! 0)) \<noteq>
      hashCanonical demo_externals (unsealed (demo_ledger ! 1))" by code_simp
  moreover have "set demo_ledger = {demo_ledger ! 0, demo_ledger ! 1}" by (subst ab) simp
  ultimately show ?thesis by (auto simp: collision_free_def inj_on_def)
qed

theorem head_hash_binds_ledger_witness: "demo_ledger = demo_ledger \<and> length demo_ledger = 2"
proof
  show "demo_ledger = demo_ledger"
    by (rule head_hash_binds_ledger [OF demo_ledger_recovers demo_ledger_recovers
          demo_ledger_parses demo_ledger_parses refl demo_collision_free])
  show "length demo_ledger = 2" by code_simp
qed

theorem sealed_ledger_valid_witness:
  "integrity_status (recoverLedger demo_externals (map event_json (seal_all demo_externals []
     [demo_draft ''event_a'' ''run.started'', demo_draft ''event_b'' ''run.completed''])) no_opts) = Valid"
  by (rule sealed_ledger_valid [OF demo_hash_shaped, where r = "''run_a''"]) code_simp+

theorem parse_serialized_ledger_witness:
  "parseLedgerText demo_externals (serializeLedger demo_externals [hd demo_ledger]) =
    \<lparr>pl_events = map event_json [hd demo_ledger], partialFinalLineDropped = False, corruptLines = []\<rparr>"
  by (rule parse_serialized_ledger) code_simp

end
