(* ===== verification/Scalars_V02.thy ===== *)
theory Scalars_V02
  imports Scalars
begin

text \<open>
  The bounded scalar contracts of the version 0.2 records (\<open>src/schema/scalars-v02.ts\<close>) and
  their relation to the earlier ones: every value they accept is accepted there too.
\<close>

definition MAX_HUMAN_ID_BYTES_V02 :: nat where "MAX_HUMAN_ID_BYTES_V02 = 128"
definition MAX_MACHINE_ID_BYTES_V02 :: nat where "MAX_MACHINE_ID_BYTES_V02 = 160"
definition MAX_RELATIVE_RUN_PATH_BYTES_V02 :: nat where "MAX_RELATIVE_RUN_PATH_BYTES_V02 = 1024"
definition MAX_RELATIVE_RUN_PATH_SEGMENTS_V02 :: nat where "MAX_RELATIVE_RUN_PATH_SEGMENTS_V02 = 32"

text \<open>A code unit below 256 takes one byte of UTF-8, or two from 128 on; no such string has a surrogate.\<close>

definition utf8ByteLength :: "string \<Rightarrow> nat" where
  "utf8ByteLength s = sum_list (map (\<lambda>c. if of_char c < (128 :: nat) then 1 else 2) s)"

definition boundedStringV02 :: "nat \<Rightarrow> string \<Rightarrow> bool" where
  "boundedStringV02 maxBytes s \<longleftrightarrow> utf8ByteLength s \<le> maxBytes"

definition boundedNonBlankStringV02 :: "nat \<Rightarrow> string \<Rightarrow> bool" where
  "boundedNonBlankStringV02 maxBytes s \<longleftrightarrow> boundedStringV02 maxBytes s \<and> trim s \<noteq> []"

definition HUMAN_ID_PATTERN_V02 :: re where
  "HUMAN_ID_PATTERN_V02 =
     RSeq lower_char (RSeq (RStar token_char) (RStar (RSeq (RChr (Only (CHR ''-''))) (RPlus token_char))))"

definition MACHINE_ID_PATTERN_V02 :: re where
  "MACHINE_ID_PATTERN_V02 =
     RSeq lower_char (RSeq (RStar token_char)
       (RSeq (RSeq (RChr (Only (CHR ''_''))) (RPlus token_char))
         (RStar (RSeq (RChr (Only (CHR ''_''))) (RPlus token_char)))))"

definition HumanIdV02 :: "string \<Rightarrow> bool" where
  "HumanIdV02 s \<longleftrightarrow> 1 \<le> length s \<and> length s \<le> MAX_HUMAN_ID_BYTES_V02 \<and> re_test HUMAN_ID_PATTERN_V02 s"

definition MachineIdV02 :: "string \<Rightarrow> bool" where
  "MachineIdV02 s \<longleftrightarrow> 3 \<le> length s \<and> length s \<le> MAX_MACHINE_ID_BYTES_V02 \<and> re_test MACHINE_ID_PATTERN_V02 s"

definition EXACT_UTC_SECOND_PATTERN_V02 :: re where
  "EXACT_UTC_SECOND_PATTERN_V02 =
     RSeq (RTimes 4 digit_char) (RSeq (RText ''-'') (RSeq (RTimes 2 digit_char) (RSeq (RText ''-'')
       (RSeq (RTimes 2 digit_char) (RSeq (RText ''T'') (RSeq (RTimes 2 digit_char) (RSeq (RText '':'')
         (RSeq (RTimes 2 digit_char) (RSeq (RText '':'') (RSeq (RTimes 2 digit_char) (RText ''Z'')))))))))))"

definition IsoTimestampV02 :: "(string \<Rightarrow> bool) \<Rightarrow> string \<Rightarrow> bool" where
  "IsoTimestampV02 isoSecond s \<longleftrightarrow> length s = 20 \<and> re_test EXACT_UTC_SECOND_PATTERN_V02 s \<and> isoSecond s"

definition RelativeRunPathV02 :: "string \<Rightarrow> bool" where
  "RelativeRunPathV02 p \<longleftrightarrow>
     boundedStringV02 MAX_RELATIVE_RUN_PATH_BYTES_V02 p \<and>
     (let segments = split_on (CHR ''/'') p in
      \<not> (p = [] \<or> starts_with ''/'' p \<or> backslash \<in> set p \<or> CHR 0x00 \<in> set p \<or>
         length segments > MAX_RELATIVE_RUN_PATH_SEGMENTS_V02 \<or>
         list_ex (\<lambda>w. w = [] \<or> w = ''.'' \<or> w = ''..'' \<or> windows_drive w) segments))"

subsection \<open>Version 0.2 values are values of version 0.1\<close>

lemma HumanIdV02_HumanId: "HumanIdV02 s \<Longrightarrow> HumanId s"
proof -
  assume "HumanIdV02 s"
  then obtain u v w where s: "s = u @ v @ w" and u: "u \<in> lang lower_char" and v: "v \<in> lang (RStar token_char)"
    and w: "w \<in> lang (RStar (RSeq (RChr (Only (CHR ''-''))) (RPlus token_char)))"
    unfolding HumanIdV02_def HUMAN_ID_PATTERN_V02_def re_test_lang by (blast elim: lang_SeqE)
  from u have "u \<in> lang token_char" by auto
  from this v have "u @ v \<in> lang (RPlus token_char)" unfolding RPlus_def by (rule lang_SeqI)
  from lang_SeqI [OF this w] show ?thesis by (simp add: s HumanId_def re_test_lang del: lang.simps)
qed

lemma machine_ids_differ: "MachineIdV02 ''a1_b'' \<and> \<not> MachineId ''a1_b''"
  by code_simp

lemma windows_drive_segment:
  "windows_drive p \<Longrightarrow> windows_drive (hd (split_on (CHR ''/'') p))"
  by (auto simp: windows_drive_def is_lower_def is_upper_def split: list.splits if_splits)

lemma split_on_chars: "w \<in> set (split_on d s) \<Longrightarrow> set w \<subseteq> set s"
  by (induction s arbitrary: w) (fastforce split: if_split_asm list.split_asm)+

lemma plain_slashes: "backslash \<notin> set p \<Longrightarrow> split_slashes p = split_on (CHR ''/'') p"
proof -
  assume b: "backslash \<notin> set p"
  have "split_on backslash w = [w]" if "w \<in> set (split_on (CHR ''/'') p)" for w
  proof (rule split_on_word)
    show "backslash \<notin> set w" using b split_on_chars [OF that] by auto
  qed
  then have "map (split_on backslash) (split_on (CHR ''/'') p) = map (\<lambda>w. [w]) (split_on (CHR ''/'') p)"
    by (intro map_cong refl)
  then show ?thesis unfolding split_slashes_def by (simp only: concat_map_singleton map_ident)
qed

text \<open>
  Every run-relative path of version 0.2 is one of version 0.1, of at most 32 segments, each
  of them a name: neither empty nor a dot or double dot.
\<close>

theorem RelativeRunPathV02_refines:
  assumes "RelativeRunPathV02 p"
  shows "RelativeRunPath p \<and> length (split_on (CHR ''/'') p) \<le> 32 \<and>
    set (split_on (CHR ''/'') p) \<inter> {[], ''.'', ''..''} = {}"
proof -
  let ?segs = "split_on (CHR ''/'') p"
  from assms have b: "backslash \<notin> set p" and a: "\<not> starts_with ''/'' p" and n: "length ?segs \<le> 32"
    and w: "\<forall>w\<in>set ?segs. w \<noteq> [] \<and> w \<noteq> ''.'' \<and> w \<noteq> ''..'' \<and> \<not> windows_drive w"
    by (auto simp: RelativeRunPathV02_def MAX_RELATIVE_RUN_PATH_SEGMENTS_V02_def Let_def list_ex_iff)
  have "\<not> starts_with [backslash] p" using b by (cases p) (auto dest!: starts_withD)
  moreover have "\<not> windows_drive p" using w windows_drive_segment split_on_not_Nil by (metis hd_in_set)
  ultimately have "RelativeRunPath p" using a w by (auto simp: RelativeRunPath_def plain_slashes [OF b])
  with n w show ?thesis by auto
qed

theorem RelativeRunPathV02_refines_witness:
  "RelativeRunPath ''summaries/records/a.json'' \<and> length (split_on (CHR ''/'') ''summaries/records/a.json'') \<le> 32 \<and>
    set (split_on (CHR ''/'') ''summaries/records/a.json'') \<inter> {[], ''.'', ''..''} = {}"
  by (rule RelativeRunPathV02_refines) code_simp

end
