(* ===== verification/Limit_Rules.thy ===== *)
theory Limit_Rules
  imports Scalars_V02 "HOL-Library.Monad_Syntax"
begin

text \<open>
  Run limits and retry delays (\<open>src/run/runtime-limit-accounting-v04.ts\<close>). One request is
  checked against the counters of the run and the ceilings of its plan; the retry schedule
  derives a delay from a failure's identity. The plan is the part of the validated plan the
  code reads; the digest of an identity is a parameter.
\<close>

subsection \<open>Checked arithmetic\<close>

definition nat_safe :: "int \<Rightarrow> bool" where
  "nat_safe n \<longleftrightarrow> 0 \<le> n \<and> n \<le> MAX_SAFE_INTEGER"

definition checkedAdd :: "int \<Rightarrow> int \<Rightarrow> int option" where
  "checkedAdd left right =
     (if \<not> isSafeInteger left \<or> \<not> isSafeInteger right \<or> left < 0 \<or> right < 0 then None
      else if left \<le> MAX_SAFE_INTEGER - right then Some (left + right) else None)"

definition checkedSubtract :: "int \<Rightarrow> int \<Rightarrow> int option" where
  "checkedSubtract left right =
     (if \<not> isSafeInteger left \<or> \<not> isSafeInteger right \<or> left < 0 \<or> right < 0 \<or> right > left then None
      else Some (left - right))"

lemma checkedAdd_Some:
  "checkedAdd a b = Some c \<longleftrightarrow> 0 \<le> a \<and> 0 \<le> b \<and> c = a + b \<and> c \<le> MAX_SAFE_INTEGER"
  by (auto simp: checkedAdd_def isSafeInteger_def split: if_splits)

lemma checkedSubtract_Some:
  "checkedSubtract a b = Some c \<longleftrightarrow> 0 \<le> b \<and> b \<le> a \<and> a \<le> MAX_SAFE_INTEGER \<and> c = a - b"
  by (auto simp: checkedSubtract_def isSafeInteger_def split: if_splits)

subsection \<open>Inputs\<close>

record limit_policy =
  lp_loop_attempts :: int
  lp_elapsed_ms :: int
  lp_tool_calls :: int
  lp_output_bytes :: int
  lp_control_reserve :: int
  lp_tokens :: "int option"
  lp_cost :: "int option"
  lp_workers :: int

record recovery_reserve =
  rv_elapsed_ms :: int
  rv_tool_calls :: int
  rv_output_bytes :: int
  rv_tokens :: "int option"
  rv_cost :: "int option"

record limit_plan =
  pl_tasks :: "string list"
  pl_limits :: limit_policy
  pl_reserve :: recovery_reserve
  pl_compensation_workers :: int
  pl_execution_attempts :: int
  pl_process_runtime_ms :: int
  pl_retry_rules :: "(string \<times> int) list"       \<comment> \<open>task and its maximum of executions\<close>

datatype limit_phase = Work | Compensation

record limit_counters =
  ct_loop_attempts :: int
  ct_execution_attempts :: int
  ct_task_executions :: "(string \<times> int) list"
  ct_elapsed_ms :: int
  ct_tool_calls :: int
  ct_action_output_bytes :: int
  ct_control_output_bytes :: int
  ct_token_count :: int
  ct_cost_minor_units :: int
  ct_active_workers :: int

record limit_request =
  rq_task_ref :: "string option"
  rq_loop_attempts :: int
  rq_execution_attempts :: int
  rq_task_executions :: int
  rq_elapsed_ms :: int
  rq_tool_calls :: int
  rq_action_output_bytes :: int
  rq_control_output_bytes :: int
  rq_token_count :: int
  rq_cost_minor_units :: int
  rq_workers :: int
  rq_process_runtime_ms :: int

definition counters_parse :: "limit_counters \<Rightarrow> bool" where
  "counters_parse c \<longleftrightarrow>
     nat_safe (ct_loop_attempts c) \<and> nat_safe (ct_execution_attempts c) \<and>
     list_all (nat_safe \<circ> snd) (ct_task_executions c) \<and> distinct (map fst (ct_task_executions c)) \<and>
     nat_safe (ct_elapsed_ms c) \<and> nat_safe (ct_tool_calls c) \<and> nat_safe (ct_action_output_bytes c) \<and>
     nat_safe (ct_control_output_bytes c) \<and> nat_safe (ct_token_count c) \<and>
     nat_safe (ct_cost_minor_units c) \<and> nat_safe (ct_active_workers c)"

definition request_parse :: "limit_request \<Rightarrow> bool" where
  "request_parse r \<longleftrightarrow>
     nat_safe (rq_loop_attempts r) \<and> nat_safe (rq_execution_attempts r) \<and> nat_safe (rq_task_executions r) \<and>
     nat_safe (rq_elapsed_ms r) \<and> nat_safe (rq_tool_calls r) \<and> nat_safe (rq_action_output_bytes r) \<and>
     nat_safe (rq_control_output_bytes r) \<and> nat_safe (rq_token_count r) \<and> nat_safe (rq_cost_minor_units r) \<and>
     nat_safe (rq_workers r) \<and> nat_safe (rq_process_runtime_ms r)"

subsection \<open>Accounting\<close>

text \<open>One value per limited quantity; tokens and cost may be unlimited in a ceiling.\<close>

record 'n limit_vector =
  lv_loop_attempts :: int
  lv_execution_attempts :: int
  lv_task_executions :: "int option"
  lv_elapsed_ms :: int
  lv_tool_calls :: int
  lv_action_output_bytes :: int
  lv_control_output_bytes :: int
  lv_token_count :: 'n
  lv_cost_minor_units :: 'n
  lv_workers :: int
  lv_process_runtime_ms :: int

record limit_violation =
  vl_ref :: string
  vl_consumed :: int
  vl_requested :: int
  vl_ceiling :: int

record accounting =
  ac_admitted :: bool
  ac_execution_exhausted :: bool
  ac_task_exhausted :: bool
  ac_exhausted_refs :: "string list"
  ac_ceilings :: "int option limit_vector"
  ac_prospective :: "int limit_vector"
  ac_remaining :: "int option limit_vector"
  ac_violations :: "limit_violation list"

definition no_reserve :: recovery_reserve where
  "no_reserve = \<lparr>rv_elapsed_ms = 0, rv_tool_calls = 0, rv_output_bytes = 0, rv_tokens = None, rv_cost = None\<rparr>"

definition maximumTaskExecutions :: "limit_plan \<Rightarrow> string \<Rightarrow> int option" where
  "maximumTaskExecutions plan t =
     (case map snd (filter (\<lambda>rule. fst rule = t) (pl_retry_rules plan)) of
        [] \<Rightarrow> None | n # ns \<Rightarrow> Some (foldl max n ns))"

text \<open>The checks on the input before any arithmetic.\<close>

definition limit_input_ok :: "limit_plan \<Rightarrow> limit_counters \<Rightarrow> limit_request \<Rightarrow> bool" where
  "limit_input_ok plan c r \<longleftrightarrow>
     counters_parse c \<and> request_parse r \<and>
     length (ct_task_executions c) = length (pl_tasks plan) \<and>
     set (pl_tasks plan) \<subseteq> fst ` set (ct_task_executions c) \<and>
     fst ` set (ct_task_executions c) \<subseteq> set (pl_tasks plan) \<and>
     \<not> (rq_task_executions r > 0 \<and> rq_task_ref r = None) \<and>
     (case rq_task_ref r of None \<Rightarrow> True | Some t \<Rightarrow> t \<in> set (pl_tasks plan)) \<and>
     \<not> (rq_action_output_bytes r > 0 \<and> rq_control_output_bytes r > 0)"

definition optional_subtract :: "int option \<Rightarrow> int option \<Rightarrow> int option option" where
  "optional_subtract limit reserve =
     (case limit of
        None \<Rightarrow> Some None
      | Some n \<Rightarrow> map_option Some (checkedSubtract n (case reserve of None \<Rightarrow> 0 | Some k \<Rightarrow> k)))"

definition limit_ceilings :: "limit_plan \<Rightarrow> limit_phase \<Rightarrow> limit_request \<Rightarrow> int option limit_vector option" where
  "limit_ceilings plan phase r =
     (let l = pl_limits plan; rv = (if phase = Work then pl_reserve plan else no_reserve) in
      do {
        outputAfterControl \<leftarrow> checkedSubtract (lp_output_bytes l) (lp_control_reserve l);
        actions \<leftarrow> checkedSubtract outputAfterControl (rv_output_bytes rv);
        elapsed \<leftarrow> checkedSubtract (lp_elapsed_ms l) (rv_elapsed_ms rv);
        tools \<leftarrow> checkedSubtract (lp_tool_calls l) (rv_tool_calls rv);
        tokens \<leftarrow> optional_subtract (lp_tokens l) (rv_tokens rv);
        cost \<leftarrow> optional_subtract (lp_cost l) (rv_cost rv);
        task \<leftarrow> (case rq_task_ref r of
                    None \<Rightarrow> Some None
                  | Some t \<Rightarrow> map_option Some (maximumTaskExecutions plan t));
        Some \<lparr>lv_loop_attempts = lp_loop_attempts l, lv_execution_attempts = pl_execution_attempts plan,
              lv_task_executions = task, lv_elapsed_ms = elapsed, lv_tool_calls = tools,
              lv_action_output_bytes = actions, lv_control_output_bytes = lp_control_reserve l,
              lv_token_count = tokens, lv_cost_minor_units = cost,
              lv_workers = (if phase = Compensation then min (lp_workers l) (pl_compensation_workers plan)
                            else lp_workers l),
              lv_process_runtime_ms = pl_process_runtime_ms plan\<rparr>
      })"

definition limit_totals :: "limit_counters \<Rightarrow> limit_request \<Rightarrow> int limit_vector option" where
  "limit_totals c r =
     do {
       loops \<leftarrow> checkedAdd (ct_loop_attempts c) (rq_loop_attempts r);
       execs \<leftarrow> checkedAdd (ct_execution_attempts c) (rq_execution_attempts r);
       task \<leftarrow> (case rq_task_ref r of
                   None \<Rightarrow> Some None
                 | Some t \<Rightarrow>
                     do { n \<leftarrow> map_of (ct_task_executions c) t;
                          map_option Some (checkedAdd n (rq_task_executions r)) });
       elapsed \<leftarrow> checkedAdd (ct_elapsed_ms c) (rq_elapsed_ms r);
       tools \<leftarrow> checkedAdd (ct_tool_calls c) (rq_tool_calls r);
       actions \<leftarrow> checkedAdd (ct_action_output_bytes c) (rq_action_output_bytes r);
       control \<leftarrow> checkedAdd (ct_control_output_bytes c) (rq_control_output_bytes r);
       tokens \<leftarrow> checkedAdd (ct_token_count c) (rq_token_count r);
       cost \<leftarrow> checkedAdd (ct_cost_minor_units c) (rq_cost_minor_units r);
       workers \<leftarrow> checkedAdd (ct_active_workers c) (rq_workers r);
       Some \<lparr>lv_loop_attempts = loops, lv_execution_attempts = execs, lv_task_executions = task,
             lv_elapsed_ms = elapsed, lv_tool_calls = tools, lv_action_output_bytes = actions,
             lv_control_output_bytes = control, lv_token_count = tokens, lv_cost_minor_units = cost,
             lv_workers = workers, lv_process_runtime_ms = rq_process_runtime_ms r\<rparr>
     }"

definition addViolation :: "string \<Rightarrow> int \<Rightarrow> int \<Rightarrow> int option \<Rightarrow> limit_violation list" where
  "addViolation ref current delta ceiling =
     (case ceiling of
        None \<Rightarrow> []
      | Some n \<Rightarrow>
          if delta > 0 \<and> current \<le> n \<and> current + delta > n
          then [\<lparr>vl_ref = ref, vl_consumed = current, vl_requested = delta, vl_ceiling = n\<rparr>] else [])"

definition limit_violations ::
  "limit_counters \<Rightarrow> limit_request \<Rightarrow> int option limit_vector \<Rightarrow> limit_violation list" where
  "limit_violations c r k =
     sort_key vl_ref
       (addViolation ''max-loop-attempts'' (ct_loop_attempts c) (rq_loop_attempts r) (Some (lv_loop_attempts k)) @
        addViolation ''max-elapsed-ms'' (ct_elapsed_ms c) (rq_elapsed_ms r) (Some (lv_elapsed_ms k)) @
        addViolation ''max-tool-calls'' (ct_tool_calls c) (rq_tool_calls r) (Some (lv_tool_calls k)) @
        (if rq_action_output_bytes r > 0
         then addViolation ''max-output-bytes'' (ct_action_output_bytes c) (rq_action_output_bytes r)
                (Some (lv_action_output_bytes k))
         else addViolation ''max-output-bytes'' (ct_control_output_bytes c) (rq_control_output_bytes r)
                (Some (lv_control_output_bytes k))) @
        addViolation ''max-tokens'' (ct_token_count c) (rq_token_count r) (lv_token_count k) @
        addViolation ''max-cost'' (ct_cost_minor_units c) (rq_cost_minor_units r) (lv_cost_minor_units k) @
        addViolation ''max-process-runtime'' 0 (rq_process_runtime_ms r) (Some (lv_process_runtime_ms k)) @
        addViolation ''max-workers'' (ct_active_workers c) (rq_workers r) (Some (lv_workers k)))"

definition limit_rows :: "int limit_vector \<Rightarrow> int option limit_vector \<Rightarrow> (string \<times> int \<times> int option) list" where
  "limit_rows t k =
     [(''max-loop-attempts'', lv_loop_attempts t, Some (lv_loop_attempts k)),
      (''max-elapsed-ms'', lv_elapsed_ms t, Some (lv_elapsed_ms k)),
      (''max-tool-calls'', lv_tool_calls t, Some (lv_tool_calls k)),
      (''max-output-bytes'', lv_action_output_bytes t, Some (lv_action_output_bytes k)),
      (''max-output-bytes'', lv_control_output_bytes t, Some (lv_control_output_bytes k)),
      (''max-tokens'', lv_token_count t, lv_token_count k),
      (''max-cost'', lv_cost_minor_units t, lv_cost_minor_units k),
      (''max-process-runtime'', lv_process_runtime_ms t, Some (lv_process_runtime_ms k)),
      (''max-workers'', lv_workers t, Some (lv_workers k))]"

definition rows_where :: "(int \<Rightarrow> int \<Rightarrow> bool) \<Rightarrow> (string \<times> int \<times> int option) list \<Rightarrow> string list" where
  "rows_where P rows =
     concat (map (\<lambda>(ref, v, ceiling). case ceiling of None \<Rightarrow> [] | Some n \<Rightarrow> if P v n then [ref] else []) rows)"

definition remaining :: "int \<Rightarrow> int \<Rightarrow> int" where
  "remaining ceiling prospective = (if prospective \<ge> ceiling then 0 else ceiling - prospective)"

definition nullableRemaining :: "int option \<Rightarrow> int \<Rightarrow> int option" where
  "nullableRemaining ceiling prospective =
     (case ceiling of None \<Rightarrow> None | Some n \<Rightarrow> Some (remaining n prospective))"

definition limit_remaining :: "int option limit_vector \<Rightarrow> int limit_vector \<Rightarrow> int option limit_vector" where
  "limit_remaining k t =
     \<lparr>lv_loop_attempts = remaining (lv_loop_attempts k) (lv_loop_attempts t),
      lv_execution_attempts = remaining (lv_execution_attempts k) (lv_execution_attempts t),
      lv_task_executions =
        (case (lv_task_executions k, lv_task_executions t) of
           (Some n, Some m) \<Rightarrow> Some (remaining n m) | _ \<Rightarrow> None),
      lv_elapsed_ms = remaining (lv_elapsed_ms k) (lv_elapsed_ms t),
      lv_tool_calls = remaining (lv_tool_calls k) (lv_tool_calls t),
      lv_action_output_bytes = remaining (lv_action_output_bytes k) (lv_action_output_bytes t),
      lv_control_output_bytes = remaining (lv_control_output_bytes k) (lv_control_output_bytes t),
      lv_token_count = nullableRemaining (lv_token_count k) (lv_token_count t),
      lv_cost_minor_units = nullableRemaining (lv_cost_minor_units k) (lv_cost_minor_units t),
      lv_workers = remaining (lv_workers k) (lv_workers t),
      lv_process_runtime_ms = remaining (lv_process_runtime_ms k) (lv_process_runtime_ms t)\<rparr>"

definition task_compare :: "(int \<Rightarrow> int \<Rightarrow> bool) \<Rightarrow> bool \<Rightarrow> int limit_vector \<Rightarrow> int option limit_vector \<Rightarrow> bool" where
  "task_compare P absent t k =
     (case (lv_task_executions t, lv_task_executions k) of (Some n, Some m) \<Rightarrow> P n m | _ \<Rightarrow> absent)"

text \<open>None is \<open>INVALID_RUNTIME_LIMIT_ACCOUNTING\<close>.\<close>

definition evaluateRuntimeLimitAccounting ::
  "limit_plan \<Rightarrow> limit_phase \<Rightarrow> limit_counters \<Rightarrow> limit_request \<Rightarrow> accounting option" where
  "evaluateRuntimeLimitAccounting plan phase c r =
     (if \<not> limit_input_ok plan c r then None
      else do {
        k \<leftarrow> limit_ceilings plan phase r;
        t \<leftarrow> limit_totals c r;
        let violations = limit_violations c r k;
        Some \<lparr>ac_admitted =
                violations = [] \<and> rows_where (\<lambda>v n. v > n) (limit_rows t k) = [] \<and>
                lv_execution_attempts t \<le> lv_execution_attempts k \<and> task_compare (\<le>) True t k,
              ac_execution_exhausted = (lv_execution_attempts t \<ge> lv_execution_attempts k),
              ac_task_exhausted = task_compare (\<ge>) False t k,
              ac_exhausted_refs = sort (remdups (rows_where (\<lambda>v n. v \<ge> n) (limit_rows t k))),
              ac_ceilings = k, ac_prospective = t, ac_remaining = limit_remaining k t,
              ac_violations = violations\<rparr>
      })"


subsection \<open>Retry delays\<close>

datatype backoff = NoBackoff | Fixed | Exponential

record retry_rule =
  rr_retryable :: bool
  rr_backoff :: backoff
  rr_base_delay_ms :: int
  rr_max_delay_ms :: int

text \<open>The loop over the remaining doublings; None when a delay leaves the safe integers.\<close>

fun double_delay :: "int \<Rightarrow> int \<Rightarrow> nat \<Rightarrow> int option" where
  "double_delay maxDelay delay 0 = Some delay"
| "double_delay maxDelay delay (Suc n) =
     (if delay < maxDelay then
        (let d = (if delay > maxDelay div 2 then maxDelay else delay * 2) in
         if \<not> isSafeInteger d then None else double_delay maxDelay d n)
      else Some delay)"

definition deterministicBackoff :: "retry_rule \<Rightarrow> int \<Rightarrow> int option" where
  "deterministicBackoff rule failureOrdinal =
     (if \<not> rr_retryable rule \<or> rr_backoff rule = NoBackoff then
        (if rr_backoff rule = NoBackoff \<and> rr_base_delay_ms rule = 0 \<and> rr_max_delay_ms rule = 0 then Some 0 else None)
      else if rr_base_delay_ms rule \<le> 0 \<or> rr_max_delay_ms rule \<le> 0 \<or>
              rr_base_delay_ms rule > rr_max_delay_ms rule then None
      else if rr_backoff rule = Fixed then
        (if rr_base_delay_ms rule = rr_max_delay_ms rule then Some (rr_base_delay_ms rule) else None)
      else double_delay (rr_max_delay_ms rule) (rr_base_delay_ms rule) (nat (failureOrdinal - 1)))"

record retry_input =
  ri_run_id :: string
  ri_task_ref :: string
  ri_failure_event :: "int \<times> string"
  ri_ordinal :: int
  ri_rule :: retry_rule

record retry_schedule =
  rs_identity_hash :: string
  rs_backoff_ms :: int
  rs_jitter_window_ms :: int
  rs_signed_jitter_ms :: int
  rs_delay_ms :: int

text \<open>\<open>sha256\<close> of the canonical form: its printed form and its first six bytes as an integer.\<close>

record digester =
  dg_text :: "json \<Rightarrow> string"
  dg_six_bytes :: "json \<Rightarrow> int"

definition retry_parse :: "retry_input \<Rightarrow> bool" where
  "retry_parse inp \<longleftrightarrow>
     MachineIdV02 (ri_run_id inp) \<and> (HumanIdV02 (ri_task_ref inp) \<or> MachineIdV02 (ri_task_ref inp)) \<and>
     0 < fst (ri_failure_event inp) \<and> isSafeInteger (fst (ri_failure_event inp)) \<and>
     Hash (snd (ri_failure_event inp)) \<and> 0 < ri_ordinal inp \<and> isSafeInteger (ri_ordinal inp) \<and>
     nat_safe (rr_base_delay_ms (ri_rule inp)) \<and> nat_safe (rr_max_delay_ms (ri_rule inp))"

definition retry_identity :: "retry_input \<Rightarrow> json" where
  "retry_identity inp =
     JObj [(''domain'', JStr ''loopeix.runtime-retry-jitter.v04''), (''run_id'', JStr (ri_run_id inp)),
           (''task_ref'', JStr (ri_task_ref inp)),
           (''failure_event_ref'', JObj [(''ledger_sequence'', JInt (fst (ri_failure_event inp))),
                                        (''event_hash'', JStr (snd (ri_failure_event inp)))]),
           (''failure_ordinal'', JInt (ri_ordinal inp))]"

definition scheduleRuntimeRetry :: "digester \<Rightarrow> retry_input \<Rightarrow> retry_schedule option" where
  "scheduleRuntimeRetry dg inp =
     (if \<not> retry_parse inp then None
      else (case deterministicBackoff (ri_rule inp) (ri_ordinal inp) of
              None \<Rightarrow> None
            | Some delay \<Rightarrow>
                (let h = dg_text dg (retry_identity inp) in
                 if delay = 0 then
                   Some \<lparr>rs_identity_hash = h, rs_backoff_ms = 0, rs_jitter_window_ms = 0,
                         rs_signed_jitter_ms = 0, rs_delay_ms = 0\<rparr>
                 else
                   (let jitterWindow = min 1000 (delay div 5);
                        modulus = 2 * jitterWindow + 1;
                        signedJitter = dg_six_bytes dg (retry_identity inp) mod modulus - jitterWindow;
                        jittered = delay + signedJitter
                    in if \<not> isSafeInteger modulus \<or> modulus < 1 \<or> \<not> isSafeInteger jittered then None
                       else Some \<lparr>rs_identity_hash = h, rs_backoff_ms = delay, rs_jitter_window_ms = jitterWindow,
                                 rs_signed_jitter_ms = signedJitter,
                                 rs_delay_ms = max 0 (min (rr_max_delay_ms (ri_rule inp)) jittered)\<rparr>))))"

end
