(* ===== verification/Reducer_V04.thy ===== *)
theory Reducer_V04
  imports Scalars
begin

text \<open>
  The version 0.4 run reducer (\<open>src/run/runtime-state-reducer-v04.ts\<close>): attempts with
  fences, owner leases, recovery requests, restricted attempt modes and the closure of
  actions proven not to have started. Leases are shared and mutated in place by the
  code, so they live in a store, and the maps and the active owner hold positions of it.
  A refusal carries the index of the event; \<open>TypeErrorThrown\<close> stands for an exception on
  an admission payload that has no list of side effects.
\<close>

subsection \<open>Events\<close>

type_synonym ledger_ref = "int \<times> string"

datatype run_state4 =
    Initialized | Running | Paused | QuarantineRequired | Quarantined | Held | Aborting | Sealed

datatype attempt_mode = Ordinary | ReconciliationOnly | CompensationContinuation

record execution_identity =
  xi_adapter_invocation :: string
  xi_host :: string
  xi_boot :: string
  xi_unit :: string
  xi_cgroup :: string

record resume_request =
  rq_id :: string
  rq_mode :: attempt_mode
  rq_nonce :: string
  rq_previous_attempt :: ledger_ref
  rq_boundary :: ledger_ref            \<comment> \<open>source boundary sequence and head hash\<close>

record attempt_start =
  at_ordinal :: int
  at_previous :: "ledger_ref option"
  at_resume_ref :: "ledger_ref option"
  at_nonce :: "string option"
  at_boundary :: ledger_ref
  at_mode :: attempt_mode
  at_owner_lease :: string
  at_deadline :: int
  at_boot :: string
  at_clock :: string
  at_previous_fence :: int
  at_fence :: int

record lease_acquired =
  la_id :: string
  la_scope :: string
  la_scope_ref :: string
  la_parent :: string
  la_attempt :: ledger_ref
  la_deadline :: int
  la_boot :: string
  la_clock :: string
  la_fence :: int

record heartbeat =
  hb_lease :: ledger_ref
  hb_fence :: int
  hb_boot :: string
  hb_clock :: string
  hb_ordinal :: int
  hb_previous_deadline :: int
  hb_deadline :: int

record non_entry =
  ne_action :: string
  ne_admission :: ledger_ref
  ne_task :: string
  ne_attempt :: ledger_ref
  ne_fence :: int
  ne_adapter_ref :: string
  ne_adapter_version :: string
  ne_identity :: execution_identity

record termination_fact =
  tm_trigger :: string
  tm_trigger_ref :: ledger_ref
  tm_admission :: ledger_ref
  tm_identity :: execution_identity
  tm_outcome :: string

record non_start =
  ns_action :: string
  ns_task :: string
  ns_admission :: ledger_ref
  ns_attempt :: ledger_ref
  ns_fence :: int
  ns_adapter_invocation :: string
  ns_adapter_ref :: string
  ns_adapter_version :: string
  ns_ack :: ledger_ref
  ns_termination :: ledger_ref

record effect_outcome =
  eo_action :: string
  eo_outcome :: string
  eo_reconciliation :: "ledger_ref option"
  eo_task :: string
  eo_effect :: string

record settlement =
  st_action :: string
  st_task :: string
  st_terminal :: ledger_ref
  st_outcomes :: "(string \<times> string \<times> ledger_ref) list"   \<comment> \<open>outcome, effect, outcome event\<close>

record pause =
  pa_request :: ledger_ref
  pa_attempt :: ledger_ref
  pa_previous_fence :: int
  pa_fence :: int
  pa_boundary_sequence :: int
  pa_boundary_head :: "string option"
  pa_invalidated :: "ledger_ref list"

datatype body4 =
    RunInitialized int
  | RunStarted
  | ResumeRequested resume_request
  | AttemptStarted attempt_start
  | LeaseAcquired lease_acquired
  | HeartbeatRecorded heartbeat
  | LeaseReleased ledger_ref int
  | PauseRequested ledger_ref ledger_ref int      \<comment> \<open>attempt, run owner, fence\<close>
  | FenceAdvanced ledger_ref int int "ledger_ref list"
  | ActionAdmitted json
  | NonEntryAcknowledged non_entry
  | TerminationAttempted termination_fact
  | OutcomeUnknownRemains string                  \<comment> \<open>reconciled: outcome-remains-unknown\<close>
  | ProvenNonStart non_start                      \<comment> \<open>reconciled: proven-non-start\<close>
  | ActionFact string string                      \<comment> \<open>event type and action\<close>
  | EffectOutcome effect_outcome
  | ActionSettled settlement
  | RunPaused pause
  | ObservationRejected
  | RunQuarantined
  | GrantRevoked
  | AbortRequested
  | FreezeEntered
  | FreezeRevised
  | TerminalSealed int int
  | CompensationSettled string
  | Phased string string                          \<comment> \<open>event type and phase\<close>
  | ArtifactRecorded string
  | CallAdmitted string string                    \<comment> \<open>tool call or artifact write, action\<close>
  | PlainEvent string

record event4 =
  e4_sequence :: int
  e4_hash :: string
  e4_previous :: "string option"
  e4_source :: string
  e4_run_id :: string
  e4_body :: body4

definition refOf :: "event4 \<Rightarrow> ledger_ref" where
  "refOf e = (e4_sequence e, e4_hash e)"

fun event_type4 :: "body4 \<Rightarrow> string" where
  "event_type4 (RunInitialized _) = ''run.initialized''"
| "event_type4 RunStarted = ''run.started''"
| "event_type4 (ResumeRequested _) = ''recovery.resume-requested''"
| "event_type4 (AttemptStarted _) = ''execution.attempt-started''"
| "event_type4 (LeaseAcquired _) = ''ownership.lease-acquired''"
| "event_type4 (HeartbeatRecorded _) = ''ownership.lease-heartbeat-recorded''"
| "event_type4 (LeaseReleased _ _) = ''ownership.lease-released''"
| "event_type4 (PauseRequested _ _ _) = ''control.pause-requested''"
| "event_type4 (FenceAdvanced _ _ _ _) = ''run.fence-advanced''"
| "event_type4 (ActionAdmitted _) = ''task.action-admitted''"
| "event_type4 (NonEntryAcknowledged _) = ''task.execution-non-entry-acknowledged''"
| "event_type4 (TerminationAttempted _) = ''process.termination-attempted''"
| "event_type4 (OutcomeUnknownRemains _) = ''task.action-outcome-reconciled''"
| "event_type4 (ProvenNonStart _) = ''task.action-outcome-reconciled''"
| "event_type4 (ActionFact t _) = t"
| "event_type4 (EffectOutcome _) = ''effect.outcome''"
| "event_type4 (ActionSettled _) = ''task.action-settled''"
| "event_type4 (RunPaused _) = ''run.paused''"
| "event_type4 ObservationRejected = ''integrity.observation-rejected''"
| "event_type4 RunQuarantined = ''run.quarantined''"
| "event_type4 GrantRevoked = ''authority.grant-revoked''"
| "event_type4 AbortRequested = ''control.abort-requested''"
| "event_type4 FreezeEntered = ''run.terminal-freeze-entered''"
| "event_type4 FreezeRevised = ''run.terminal-freeze-revised''"
| "event_type4 (TerminalSealed _ _) = ''run.terminal-sealed''"
| "event_type4 (CompensationSettled _) = ''compensation.settled''"
| "event_type4 (Phased t _) = t"
| "event_type4 (ArtifactRecorded _) = ''artifact.recorded''"
| "event_type4 (CallAdmitted t _) = t"
| "event_type4 (PlainEvent t) = t"

text \<open>
  What the event schema fixes: events of one type carry the payload of that type, and a
  run starts with fence zero.
\<close>

definition typed_event_types :: "string list" where
  "typed_event_types =
     [''run.initialized'', ''run.started'', ''recovery.resume-requested'', ''execution.attempt-started'',
      ''ownership.lease-acquired'', ''ownership.lease-heartbeat-recorded'', ''ownership.lease-released'',
      ''control.pause-requested'', ''run.fence-advanced'', ''task.action-admitted'',
      ''task.execution-non-entry-acknowledged'', ''process.termination-attempted'',
      ''task.action-outcome-reconciled'', ''task.execution-started'', ''task.execution-completed'',
      ''task.execution-failed'', ''task.progress-fact-recorded'', ''task.action-outcome-unknown'',
      ''effect.outcome'', ''task.action-settled'', ''run.paused'', ''integrity.observation-rejected'',
      ''run.quarantined'', ''authority.grant-revoked'', ''control.abort-requested'',
      ''run.terminal-freeze-entered'', ''run.terminal-freeze-revised'', ''run.terminal-sealed'',
      ''compensation.settled'', ''approval.recommendation-recorded'', ''policy.decision-recorded'',
      ''lease.issued'', ''limit.admission-blocked'', ''artifact.recorded'', ''tool.call-admitted'',
      ''artifact.write-admitted'']"

fun body4_typed :: "body4 \<Rightarrow> bool" where
  "body4_typed (ActionFact t _) \<longleftrightarrow>
     t \<in> {''task.execution-started'', ''task.execution-completed'', ''task.execution-failed'',
          ''task.progress-fact-recorded'', ''task.action-outcome-unknown''}"
| "body4_typed (Phased t _) \<longleftrightarrow>
     t \<in> {''approval.recommendation-recorded'', ''policy.decision-recorded'', ''lease.issued'',
          ''limit.admission-blocked''}"
| "body4_typed (CallAdmitted t _) \<longleftrightarrow> t \<in> {''tool.call-admitted'', ''artifact.write-admitted''}"
| "body4_typed (PlainEvent t) \<longleftrightarrow> t \<notin> set typed_event_types"
| "body4_typed (RunInitialized fence) \<longleftrightarrow> fence = 0"
| "body4_typed _ \<longleftrightarrow> True"

subsection \<open>Admission payloads, read tolerantly\<close>

definition safe_int :: "json option \<Rightarrow> int option" where
  "safe_int v = (case v of Some (JInt n) \<Rightarrow> if isSafeInteger n then Some n else None | _ \<Rightarrow> None)"

definition read_ref :: "json option \<Rightarrow> ledger_ref option" where
  "read_ref v =
     (case v of
        Some w \<Rightarrow>
          if is_objectish w then
            (case (safe_int (jget w ''ledger_sequence''), as_string (jget w ''event_hash'')) of
               (Some n, Some h) \<Rightarrow> Some (n, h)
             | _ \<Rightarrow> None)
          else None
      | None \<Rightarrow> None)"

record admission =
  ad_action :: string
  ad_attempt :: ledger_ref
  ad_parent :: string
  ad_fence :: int

definition actionAdmissionBindings :: "json \<Rightarrow> admission option" where
  "actionAdmissionBindings p =
     (if \<not> is_objectish p then None
      else (case (as_string (jget p ''action_id''), as_string (jget p ''parent_run_owner_lease_id''),
                  safe_int (jget p ''fence_epoch''), read_ref (jget p ''attempt_event_ref'')) of
              (Some a, Some o', Some f, Some r) \<Rightarrow>
                Some \<lparr>ad_action = a, ad_attempt = r, ad_parent = o', ad_fence = f\<rparr>
            | _ \<Rightarrow> None))"

definition compensationAdmissionBindings :: "json \<Rightarrow> (string \<times> ledger_ref) option" where
  "compensationAdmissionBindings p =
     (if \<not> is_objectish p then None
      else (case (as_string (jget p ''action_id''), read_ref (jget p ''lease_event_ref'')) of
              (Some a, Some r) \<Rightarrow> Some (a, r)
            | _ \<Rightarrow> None))"

text \<open>The fields the later checks read through a cast.\<close>

definition admitted_task :: "json \<Rightarrow> string option" where
  "admitted_task p = as_string (jget p ''task_ref'')"

definition admitted_effects :: "json \<Rightarrow> json list option" where
  "admitted_effects p = as_array (jget p ''side_effect_refs'')"

subsection \<open>Restricted attempt modes\<close>

definition RESTRICTED_SHARED_EVENT_TYPES :: "string list" where
  "RESTRICTED_SHARED_EVENT_TYPES =
     [''run.clock-observed'', ''control.pause-requested'', ''control.abort-requested'',
      ''run.fence-advanced'', ''run.paused'', ''integrity.observation-rejected'',
      ''run.quarantined'', ''authority.grant-revoked'', ''ownership.lease-heartbeat-recorded'',
      ''ownership.lease-released'', ''run.terminal-freeze-entered'', ''run.terminal-freeze-revised'',
      ''run.compensation-requested'', ''run.compensation-request-revised'',
      ''run.compensation-candidate-escalated'', ''run.terminal-sealed'',
      ''recovery.resume-requested'', ''execution.attempt-started'']"

definition RECONCILIATION_EVIDENCE_EVENT_TYPES :: "string list" where
  "RECONCILIATION_EVIDENCE_EVENT_TYPES =
     [''evidence.recorded'', ''observation.manual-recorded'', ''claim.recorded'',
      ''finding.recorded'', ''process.termination-attempted'',
      ''task.execution-non-entry-acknowledged'', ''task.action-outcome-reconciled'',
      ''effect.outcome'', ''task.action-settled'']"

definition COMPENSATION_VERIFICATION_EVENT_TYPES :: "string list" where
  "COMPENSATION_VERIFICATION_EVENT_TYPES =
     [''gate.result-required'', ''gate.result-recorded'', ''evaluation.result-required'',
      ''evaluation.result-recorded'', ''evidence.recorded'', ''observation.manual-recorded'',
      ''claim.recorded'', ''finding.recorded'', ''waiver.recorded'',
      ''record.redaction-derivative-recorded'', ''record.custody-state-recorded'',
      ''record.export-decision-recorded'', ''run.compensation-phase-entered'',
      ''compensation.settled'', ''ownership.lease-acquired'']"

record compensation_scope =
  cp_leases :: "ledger_ref list"
  cp_actions :: "string list"
  cp_admissions :: "ledger_ref list"

text \<open>The action an event is about, for the types that are scoped to one.\<close>

fun scoped_action :: "body4 \<Rightarrow> string option" where
  "scoped_action (CallAdmitted t a) = Some a"
| "scoped_action (ActionFact t a) = (if t = ''task.progress-fact-recorded'' then None else Some a)"
| "scoped_action (NonEntryAcknowledged n) = Some (ne_action n)"
| "scoped_action (OutcomeUnknownRemains a) = Some a"
| "scoped_action (ProvenNonStart n) = Some (ns_action n)"
| "scoped_action (EffectOutcome o') = Some (eo_action o')"
| "scoped_action (ActionSettled s) = Some (st_action s)"
| "scoped_action _ = None"

definition compensation_permits :: "compensation_scope \<Rightarrow> body4 \<Rightarrow> bool" where
  "compensation_permits cs b \<longleftrightarrow>
     (if event_type4 b \<in> set COMPENSATION_VERIFICATION_EVENT_TYPES then True
      else (case b of
          Phased t ph \<Rightarrow> ph = ''compensation''
        | ActionAdmitted p \<Rightarrow>
            (case compensationAdmissionBindings p of
               Some (a, lease) \<Rightarrow> lease \<in> set (cp_leases cs) | None \<Rightarrow> False)
        | ArtifactRecorded a \<Rightarrow> a \<in> set (cp_actions cs)
        | TerminationAttempted t \<Rightarrow> tm_admission t \<in> set (cp_admissions cs)
        | _ \<Rightarrow> (case scoped_action b of Some a \<Rightarrow> a \<in> set (cp_actions cs) | None \<Rightarrow> False)))"

text \<open>True when \<open>restrictedAttemptModeViolation\<close> returns null.\<close>

definition mode_permits :: "attempt_mode \<Rightarrow> compensation_scope \<Rightarrow> body4 \<Rightarrow> bool" where
  "mode_permits mode cs b \<longleftrightarrow>
     (if mode = Ordinary \<or> event_type4 b \<in> set RESTRICTED_SHARED_EVENT_TYPES then True
      else if mode = ReconciliationOnly then
        event_type4 b \<in> set RECONCILIATION_EVIDENCE_EVENT_TYPES \<or> b = CompensationSettled ''unable''
      else compensation_permits cs b)"

definition PENDING_BLOCKED_EVENT_TYPES :: "string list" where
  "PENDING_BLOCKED_EVENT_TYPES =
     [''lease.issued'', ''task.action-admitted'', ''tool.call-admitted'', ''artifact.write-admitted'',
      ''task.execution-started'', ''task.execution-completed'', ''task.progress-fact-recorded'',
      ''task.execution-failed'', ''artifact.recorded'', ''loop.attempt-completed'',
      ''task.progress-observed'', ''run.compaction-recorded'', ''run.compensation-phase-entered'']"

subsection \<open>State\<close>

record owner_lease =
  ow_id :: string
  ow_event :: ledger_ref
  ow_scope :: string
  ow_scope_ref :: string
  ow_parent :: "string option"
  ow_attempt :: ledger_ref
  ow_fence :: int
  ow_deadline :: int
  ow_boot :: string
  ow_clock :: string
  ow_heartbeat :: int
  ow_active :: bool
  ow_released :: bool

record pending_request =
  pn_id :: string
  pn_event :: ledger_ref
  pn_mode :: attempt_mode
  pn_nonce :: string
  pn_previous :: ledger_ref
  pn_boundary :: ledger_ref

record reducer4 =
  r4_state :: run_state4
  r4_started :: bool
  r4_abort :: bool
  r4_freeze :: bool
  r4_sealed :: bool
  r4_ordinal :: "int option"
  r4_attempt :: "ledger_ref option"
  r4_mode :: "attempt_mode option"
  r4_fence :: int
  r4_owner :: "nat option"                        \<comment> \<open>position in the lease store\<close>
  r4_pending :: "pending_request option"
  r4_pause :: "ledger_ref option"
  r4_last_fence :: "int option"
  r4_last_owners :: "ledger_ref list"
  r4_store :: "owner_lease list"
  r4_subordinates :: "(string \<times> nat) list"
  r4_by_event :: "(ledger_ref \<times> nat) list"       \<comment> \<open>most recent first\<close>
  r4_consumed_ids :: "string list"
  r4_consumed_nonces :: "string list"
  r4_seen_ids :: "string list"
  r4_seen_nonces :: "string list"
  r4_in_flight :: "string list"
  r4_scope :: compensation_scope
  r4_by_ref :: "(ledger_ref \<times> event4) list"
  r4_admissions :: "(string \<times> ledger_ref \<times> json) list"
  r4_acks :: "string list"
  r4_contradictory :: "string list"
  r4_proven :: "(string \<times> ledger_ref \<times> non_start) list"
  r4_run_started :: "ledger_ref option"

definition no_scope :: compensation_scope where
  "no_scope = \<lparr>cp_leases = [], cp_actions = [], cp_admissions = []\<rparr>"

definition reducer4_start :: reducer4 where
  "reducer4_start =
     \<lparr>r4_state = Initialized, r4_started = False, r4_abort = False, r4_freeze = False, r4_sealed = False,
      r4_ordinal = None, r4_attempt = None, r4_mode = None, r4_fence = 0, r4_owner = None,
      r4_pending = None, r4_pause = None, r4_last_fence = None, r4_last_owners = [], r4_store = [],
      r4_subordinates = [], r4_by_event = [], r4_consumed_ids = [], r4_consumed_nonces = [],
      r4_seen_ids = [], r4_seen_nonces = [], r4_in_flight = [], r4_scope = no_scope, r4_by_ref = [],
      r4_admissions = [], r4_acks = [], r4_contradictory = [], r4_proven = [], r4_run_started = None\<rparr>"

datatype refusal4 =
    MustBeginInitialized | AfterSeal | QuarantineMustFollow | WorkWhilePending | ModeViolation
  | InitializedTwice | StartNeedsInitialized
  | ResumeNeedsAttempt | ResumeWrongAttempt | ResumeReplayed
  | AttemptNeedsStart | InitialAttemptUnbound | RecoveryNeedsRequest | OrdinalNotNext
  | RecoveryUnbound | RecoveryFenceNotNext
  | LeaseWhilePending | LeaseNeedsOwner | LeaseUnbound | LeaseIdReused
  | HeartbeatNeedsLease | HeartbeatUnbound | ReleaseNeedsLease | ReleaseWrongFence
  | PauseRequestUnbound | FenceNotNext | FenceUnknownOwner
  | AdmissionMalformed | AdmissionWhilePending | AdmissionUnbound | AdmittedTwice
  | NonEntryUnbound | TerminationTrigger | ReconciliationTrigger | NonStartContradicted
  | EffectNotNonCommit | SettlementForeignEffect | SettlementIncomplete | SettleNeedsInFlight
  | PauseNeedsQuiescence | PauseUnbound | RejectionNeedsActive | QuarantineNeedsRejection
  | SealNeedsFreeze | SealNeedsNoInFlight | SealFenceNotNext | TypeErrorThrown

definition active_owner :: "reducer4 \<Rightarrow> owner_lease option" where
  "active_owner s =
     (case r4_owner s of
        None \<Rightarrow> None
      | Some i \<Rightarrow> (case nth_opt (r4_store s) i of
                    Some l \<Rightarrow> if ow_active l then Some l else None | None \<Rightarrow> None))"

definition lease_at :: "reducer4 \<Rightarrow> ledger_ref \<Rightarrow> (nat \<times> owner_lease) option" where
  "lease_at s ref =
     (case map_of (r4_by_event s) ref of
        None \<Rightarrow> None
      | Some i \<Rightarrow> map_option (Pair i) (nth_opt (r4_store s) i))"

definition put_lease :: "nat \<Rightarrow> owner_lease \<Rightarrow> reducer4 \<Rightarrow> reducer4" where
  "put_lease i l s = s\<lparr>r4_store := (r4_store s)[i := l]\<rparr>"

text \<open>Deactivate the run owner and every subordinate lease.\<close>

definition owned_positions :: "reducer4 \<Rightarrow> nat list" where
  "owned_positions s = (case r4_owner s of None \<Rightarrow> [] | Some i \<Rightarrow> [i]) @ map snd (r4_subordinates s)"

definition deactivate_all :: "reducer4 \<Rightarrow> reducer4" where
  "deactivate_all s =
     s\<lparr>r4_store := map (\<lambda>(i, l). if i \<in> set (owned_positions s) then l\<lparr>ow_active := False\<rparr> else l)
                     (indexed (r4_store s))\<rparr>"


subsection \<open>Recovery requests and attempts\<close>

definition resume_requested :: "ledger_ref \<Rightarrow> resume_request \<Rightarrow> reducer4 \<Rightarrow> refusal4 + reducer4" where
  "resume_requested ref rq s =
     (if r4_attempt s = None \<or> r4_pending s \<noteq> None then Inl ResumeNeedsAttempt
      else if r4_attempt s \<noteq> Some (rq_previous_attempt rq) then Inl ResumeWrongAttempt
      else if rq_id rq \<in> set (r4_seen_ids s) \<or> rq_nonce rq \<in> set (r4_seen_nonces s) then Inl ResumeReplayed
      else Inr (s\<lparr>r4_seen_ids := r4_seen_ids s @ [rq_id rq], r4_seen_nonces := r4_seen_nonces s @ [rq_nonce rq],
                  r4_pending := Some \<lparr>pn_id = rq_id rq, pn_event = ref, pn_mode = rq_mode rq,
                    pn_nonce = rq_nonce rq, pn_previous = rq_previous_attempt rq,
                    pn_boundary = rq_boundary rq\<rparr>\<rparr>))"

definition initial_attempt_bound :: "attempt_start \<Rightarrow> reducer4 \<Rightarrow> bool" where
  "initial_attempt_bound a s \<longleftrightarrow>
     at_ordinal a = 1 \<and> at_previous a = None \<and> at_resume_ref a = None \<and> at_nonce a = None \<and>
     at_previous_fence a = 0 \<and> at_fence a = 0 \<and> r4_run_started s = Some (at_boundary a)"

definition recovery_bound :: "attempt_start \<Rightarrow> pending_request \<Rightarrow> reducer4 \<Rightarrow> bool" where
  "recovery_bound a p s \<longleftrightarrow>
     at_previous a = r4_attempt s \<and> at_resume_ref a = Some (pn_event p) \<and>
     at_nonce a = Some (pn_nonce p) \<and> at_boundary a = pn_boundary p"

text \<open>The branch for a later attempt: it consumes the request and invalidates every owner.\<close>

definition consume_request :: "attempt_start \<Rightarrow> int \<Rightarrow> reducer4 \<Rightarrow> refusal4 + reducer4" where
  "consume_request a ordinal s =
     (case r4_pending s of
        None \<Rightarrow> Inl RecoveryNeedsRequest
      | Some p \<Rightarrow>
          if at_ordinal a \<noteq> ordinal + 1 then Inl OrdinalNotNext
          else if \<not> recovery_bound a p s then Inl RecoveryUnbound
          else if at_previous_fence a \<noteq> r4_fence s \<or> r4_fence s \<ge> MAX_SAFE_INTEGER \<or>
                  at_fence a \<noteq> r4_fence s + 1 then Inl RecoveryFenceNotNext
          else Inr (deactivate_all (s\<lparr>r4_consumed_ids := r4_consumed_ids s @ [pn_id p],
                 r4_consumed_nonces := r4_consumed_nonces s @ [pn_nonce p], r4_pending := None\<rparr>)))"

definition run_owner_lease :: "event4 \<Rightarrow> attempt_start \<Rightarrow> owner_lease" where
  "run_owner_lease e a =
     \<lparr>ow_id = at_owner_lease a, ow_event = refOf e, ow_scope = ''run'', ow_scope_ref = e4_run_id e,
      ow_parent = None, ow_attempt = refOf e, ow_fence = at_fence a, ow_deadline = at_deadline a,
      ow_boot = at_boot a, ow_clock = at_clock a, ow_heartbeat = 0, ow_active = True, ow_released = False\<rparr>"

definition begin_attempt :: "event4 \<Rightarrow> attempt_start \<Rightarrow> reducer4 \<Rightarrow> reducer4" where
  "begin_attempt e a s =
     s\<lparr>r4_ordinal := Some (at_ordinal a), r4_attempt := Some (refOf e), r4_mode := Some (at_mode a),
       r4_scope := no_scope, r4_fence := at_fence a, r4_owner := Some (length (r4_store s)),
       r4_store := r4_store s @ [run_owner_lease e a],
       r4_by_event := (refOf e, length (r4_store s)) # r4_by_event s, r4_state := Running\<rparr>"

definition attempt_started :: "event4 \<Rightarrow> attempt_start \<Rightarrow> reducer4 \<Rightarrow> refusal4 + reducer4" where
  "attempt_started e a s =
     (if \<not> r4_started s then Inl AttemptNeedsStart
      else (case r4_ordinal s of
              None \<Rightarrow> if initial_attempt_bound a s then Inr (begin_attempt e a s) else Inl InitialAttemptUnbound
            | Some n \<Rightarrow> (case consume_request a n s of Inl f \<Rightarrow> Inl f | Inr t \<Rightarrow> Inr (begin_attempt e a t))))"

subsection \<open>Owner leases\<close>

definition subordinate_bound :: "lease_acquired \<Rightarrow> owner_lease \<Rightarrow> reducer4 \<Rightarrow> bool" where
  "subordinate_bound la owner s \<longleftrightarrow>
     la_parent la = ow_id owner \<and> r4_attempt s = Some (la_attempt la) \<and> la_fence la = r4_fence s \<and>
     la_boot la = ow_boot owner \<and> la_clock la = ow_clock owner \<and> la_deadline la \<le> ow_deadline owner"

definition subordinate_lease :: "ledger_ref \<Rightarrow> lease_acquired \<Rightarrow> owner_lease" where
  "subordinate_lease ref la =
     \<lparr>ow_id = la_id la, ow_event = ref, ow_scope = la_scope la, ow_scope_ref = la_scope_ref la,
      ow_parent = Some (la_parent la), ow_attempt = la_attempt la, ow_fence = la_fence la,
      ow_deadline = la_deadline la, ow_boot = la_boot la, ow_clock = la_clock la,
      ow_heartbeat = 0, ow_active = True, ow_released = False\<rparr>"

definition acquire_lease :: "ledger_ref \<Rightarrow> lease_acquired \<Rightarrow> reducer4 \<Rightarrow> refusal4 + reducer4" where
  "acquire_lease ref la s =
     (if r4_pending s \<noteq> None then Inl LeaseWhilePending
      else if r4_state s \<noteq> Running \<or> r4_attempt s = None then Inl LeaseNeedsOwner
      else (case active_owner s of
              None \<Rightarrow> Inl LeaseNeedsOwner
            | Some owner \<Rightarrow>
                if \<not> subordinate_bound la owner s then Inl LeaseUnbound
                else if la_id la \<in> fst ` set (r4_subordinates s) then Inl LeaseIdReused
                else Inr (s\<lparr>r4_subordinates := r4_subordinates s @ [(la_id la, length (r4_store s))],
                            r4_by_event := (ref, length (r4_store s)) # r4_by_event s,
                            r4_store := r4_store s @ [subordinate_lease ref la]\<rparr>)))"

definition heartbeat_bound :: "heartbeat \<Rightarrow> owner_lease \<Rightarrow> reducer4 \<Rightarrow> bool" where
  "heartbeat_bound hb l s \<longleftrightarrow>
     hb_fence hb = r4_fence s \<and> ow_fence l = r4_fence s \<and> hb_boot hb = ow_boot l \<and>
     hb_clock hb = ow_clock l \<and> hb_ordinal hb = ow_heartbeat l + 1 \<and>
     hb_previous_deadline hb = ow_deadline l \<and> hb_deadline hb > ow_deadline l"

definition record_heartbeat :: "heartbeat \<Rightarrow> reducer4 \<Rightarrow> refusal4 + reducer4" where
  "record_heartbeat hb s =
     (case lease_at s (hb_lease hb) of
        None \<Rightarrow> Inl HeartbeatNeedsLease
      | Some (i, l) \<Rightarrow>
          if \<not> ow_active l \<or> ow_released l then Inl HeartbeatNeedsLease
          else if \<not> heartbeat_bound hb l s then Inl HeartbeatUnbound
          else Inr (put_lease i (l\<lparr>ow_heartbeat := hb_ordinal hb, ow_deadline := hb_deadline hb\<rparr>) s))"

definition release_lease :: "ledger_ref \<Rightarrow> int \<Rightarrow> reducer4 \<Rightarrow> refusal4 + reducer4" where
  "release_lease ref fence s =
     (case lease_at s ref of
        None \<Rightarrow> Inl ReleaseNeedsLease
      | Some (i, l) \<Rightarrow>
          if \<not> ow_active l \<or> ow_released l then Inl ReleaseNeedsLease
          else if fence \<noteq> r4_fence s then Inl ReleaseWrongFence
          else Inr (put_lease i (l\<lparr>ow_active := False, ow_released := True\<rparr>) s))"

definition request_pause ::
  "ledger_ref \<Rightarrow> ledger_ref \<Rightarrow> ledger_ref \<Rightarrow> int \<Rightarrow> reducer4 \<Rightarrow> refusal4 + reducer4" where
  "request_pause ref attempt owner fence s =
     (case active_owner s of
        None \<Rightarrow> Inl PauseRequestUnbound
      | Some l \<Rightarrow>
          if r4_attempt s \<noteq> Some attempt \<or> owner \<noteq> ow_event l \<or> fence \<noteq> r4_fence s then Inl PauseRequestUnbound
          else Inr (s\<lparr>r4_pause := Some ref\<rparr>))"

text \<open>The owners a fence advance names are invalidated in turn; a repeated one is refused.\<close>

fun invalidate_owners :: "ledger_ref list \<Rightarrow> reducer4 \<Rightarrow> refusal4 + reducer4" where
  "invalidate_owners [] s = Inr s"
| "invalidate_owners (ref # refs) s =
     (case lease_at s ref of
        None \<Rightarrow> Inl FenceUnknownOwner
      | Some (i, l) \<Rightarrow>
          if \<not> ow_active l then Inl FenceUnknownOwner
          else invalidate_owners refs (put_lease i (l\<lparr>ow_active := False\<rparr>) s))"

definition advance_fence ::
  "ledger_ref \<Rightarrow> int \<Rightarrow> int \<Rightarrow> ledger_ref list \<Rightarrow> reducer4 \<Rightarrow> refusal4 + reducer4" where
  "advance_fence attempt previous fence owners s =
     (if r4_attempt s \<noteq> Some attempt \<or> previous \<noteq> r4_fence s \<or> r4_fence s \<ge> MAX_SAFE_INTEGER \<or>
         fence \<noteq> r4_fence s + 1 then Inl FenceNotNext
      else invalidate_owners owners
             (s\<lparr>r4_last_fence := Some (r4_fence s), r4_last_owners := owners, r4_fence := fence\<rparr>))"

subsection \<open>Actions\<close>

definition admit_action :: "ledger_ref \<Rightarrow> json \<Rightarrow> reducer4 \<Rightarrow> refusal4 + reducer4" where
  "admit_action ref p s =
     (case actionAdmissionBindings p of
        None \<Rightarrow> Inl AdmissionMalformed
      | Some ad \<Rightarrow>
          if r4_pending s \<noteq> None then Inl AdmissionWhilePending
          else if r4_state s \<noteq> Running then Inl AdmissionUnbound
          else (case active_owner s of
                  None \<Rightarrow> Inl AdmissionUnbound
                | Some owner \<Rightarrow>
                    if r4_attempt s \<noteq> Some (ad_attempt ad) \<or> ad_parent ad \<noteq> ow_id owner \<or>
                       ad_fence ad \<noteq> r4_fence s then Inl AdmissionUnbound
                    else if ad_action ad \<in> set (r4_in_flight s) then Inl AdmittedTwice
                    else Inr (s\<lparr>r4_in_flight := r4_in_flight s @ [ad_action ad],
                                r4_admissions := (ad_action ad, ref, p) # r4_admissions s\<rparr>)))"

text \<open>The admission an event about an action must repeat: its event, task, attempt and fence.\<close>

definition admission_matches ::
  "reducer4 \<Rightarrow> string \<Rightarrow> ledger_ref \<Rightarrow> string \<Rightarrow> ledger_ref \<Rightarrow> int \<Rightarrow> bool" where
  "admission_matches s action ref task attempt fence \<longleftrightarrow>
     (case map_of (r4_admissions s) action of
        None \<Rightarrow> False
      | Some (r, p) \<Rightarrow>
          ref = r \<and> admitted_task p = Some task \<and>
          read_ref (jget p ''attempt_event_ref'') = Some attempt \<and> safe_int (jget p ''fence_epoch'') = Some fence)"

definition acknowledge_non_entry :: "non_entry \<Rightarrow> reducer4 \<Rightarrow> refusal4 + reducer4" where
  "acknowledge_non_entry n s =
     (if ne_action n \<in> set (r4_acks s) \<or>
         \<not> admission_matches s (ne_action n) (ne_admission n) (ne_task n) (ne_attempt n) (ne_fence n) \<or>
         ne_action n \<in> set (r4_contradictory s) then Inl NonEntryUnbound
      else Inr (s\<lparr>r4_acks := r4_acks s @ [ne_action n]\<rparr>))"

definition body_at :: "reducer4 \<Rightarrow> ledger_ref \<Rightarrow> body4 option" where
  "body_at s ref = map_option e4_body (map_of (r4_by_ref s) ref)"

definition attempt_termination :: "termination_fact \<Rightarrow> reducer4 \<Rightarrow> refusal4 + reducer4" where
  "attempt_termination t s =
     (let trigger = body_at s (tm_trigger_ref t) in
      if (tm_trigger t = ''abort'' \<and> trigger \<noteq> Some AbortRequested) \<or>
         (tm_trigger t = ''quarantine'' \<and> trigger \<noteq> Some RunQuarantined) then Inl TerminationTrigger
      else if tm_trigger t = ''reconciliation'' \<and>
              \<not> (case trigger of
                   Some (NonEntryAcknowledged n) \<Rightarrow>
                     ne_admission n = tm_admission t \<and> ne_identity n = tm_identity t
                 | _ \<Rightarrow> False) then Inl ReconciliationTrigger
      else Inr s)"

definition non_start_proven :: "non_start \<Rightarrow> reducer4 \<Rightarrow> bool" where
  "non_start_proven n s \<longleftrightarrow>
     (case (body_at s (ns_ack n), body_at s (ns_termination n)) of
        (Some (NonEntryAcknowledged k), Some (TerminationAttempted t)) \<Rightarrow>
          tm_trigger t = ''reconciliation'' \<and> tm_trigger_ref t = ns_ack n \<and>
          fst (ns_ack n) < fst (ns_termination n) \<and>
          admission_matches s (ns_action n) (ns_admission n) (ns_task n) (ns_attempt n) (ns_fence n) \<and>
          ne_action k = ns_action n \<and> ne_task k = ns_task n \<and> ne_admission k = ns_admission n \<and>
          ne_attempt k = ns_attempt n \<and> xi_adapter_invocation (ne_identity k) = ns_adapter_invocation n \<and>
          ne_adapter_ref k = ns_adapter_ref n \<and> ne_adapter_version k = ns_adapter_version n \<and>
          ne_fence k = ns_fence n \<and> tm_admission t = ns_admission n \<and> tm_identity t = ne_identity k \<and>
          tm_outcome t = ''terminated''
      | _ \<Rightarrow> False) \<and>
     ns_action n \<notin> set (r4_contradictory s)"

definition reconcile_non_start :: "ledger_ref \<Rightarrow> non_start \<Rightarrow> reducer4 \<Rightarrow> refusal4 + reducer4" where
  "reconcile_non_start ref n s =
     (if non_start_proven n s then Inr (s\<lparr>r4_proven := (ns_action n, ref, n) # r4_proven s\<rparr>)
      else Inl NonStartContradicted)"

definition contradict :: "string \<Rightarrow> reducer4 \<Rightarrow> reducer4" where
  "contradict action s = s\<lparr>r4_contradictory := action # r4_contradictory s\<rparr>"

definition record_effect :: "string \<Rightarrow> effect_outcome \<Rightarrow> reducer4 \<Rightarrow> refusal4 + reducer4" where
  "record_effect source eo s =
     (case map_of (r4_proven s) (eo_action eo) of
        None \<Rightarrow> Inr (contradict (eo_action eo) s)
      | Some (pref, n) \<Rightarrow>
          if source \<noteq> ''integrity'' \<or> eo_outcome eo \<noteq> ''not-committed'' \<or>
             eo_reconciliation eo \<noteq> Some pref \<or> eo_task eo \<noteq> ns_task n then Inl EffectNotNonCommit
          else (case map_of (r4_admissions s) (eo_action eo) of
                  None \<Rightarrow> Inl EffectNotNonCommit
                | Some (aref, p) \<Rightarrow>
                    (case admitted_effects p of
                       None \<Rightarrow> Inl TypeErrorThrown
                     | Some refs \<Rightarrow> if JStr (eo_effect eo) \<in> set refs then Inr s else Inl EffectNotNonCommit)))"

definition proven_outcome :: "reducer4 \<Rightarrow> ledger_ref \<Rightarrow> string \<times> string \<times> ledger_ref \<Rightarrow> bool" where
  "proven_outcome s pref oc =
     (case oc of (outcome, effect, ref) \<Rightarrow>
        outcome = ''not-committed'' \<and>
        (case map_of (r4_by_ref s) ref of
           None \<Rightarrow> False
         | Some e \<Rightarrow>
             (case e4_body e of
                EffectOutcome eo \<Rightarrow> e4_source e = ''integrity'' \<and> eo_reconciliation eo = Some pref
              | _ \<Rightarrow> False)))"

definition settlement_closes :: "settlement \<Rightarrow> ledger_ref \<Rightarrow> non_start \<Rightarrow> reducer4 \<Rightarrow> refusal4 option" where
  "settlement_closes st pref n s =
     (if \<not> list_all (proven_outcome s pref) (st_outcomes st) then Some SettlementForeignEffect
      else (case map_of (r4_admissions s) (st_action st) of
              None \<Rightarrow> Some SettlementIncomplete
            | Some (aref, p) \<Rightarrow>
                if st_terminal st \<noteq> pref \<or> st_task st \<noteq> ns_task n then Some SettlementIncomplete
                else (case admitted_effects p of
                        None \<Rightarrow> Some TypeErrorThrown
                      | Some refs \<Rightarrow>
                          let closed = remdups (map (\<lambda>(outcome, effect, ref). effect) (st_outcomes st)) in
                          if length closed \<noteq> length refs \<or> list_ex (\<lambda>r. r \<notin> JStr ` set closed) refs
                          then Some SettlementIncomplete else None)))"

definition settle_action :: "settlement \<Rightarrow> reducer4 \<Rightarrow> refusal4 + reducer4" where
  "settle_action st s =
     (case (case map_of (r4_proven s) (st_action st) of
              None \<Rightarrow> None | Some (pref, n) \<Rightarrow> settlement_closes st pref n s) of
        Some f \<Rightarrow> Inl f
      | None \<Rightarrow>
          if st_action st \<notin> set (r4_in_flight s) then Inl SettleNeedsInFlight
          else Inr (s\<lparr>r4_in_flight := filter (\<lambda>a. a \<noteq> st_action st) (r4_in_flight s)\<rparr>))"

subsection \<open>Pause and seal\<close>

definition enter_pause :: "event4 \<Rightarrow> pause \<Rightarrow> reducer4 \<Rightarrow> refusal4 + reducer4" where
  "enter_pause e pa s =
     (if r4_state s \<noteq> Running \<or> r4_in_flight s \<noteq> [] then Inl PauseNeedsQuiescence
      else if r4_pause s \<noteq> Some (pa_request pa) \<or> r4_attempt s \<noteq> Some (pa_attempt pa) \<or>
              r4_last_fence s \<noteq> Some (pa_previous_fence pa) \<or> pa_fence pa \<noteq> r4_fence s \<or>
              pa_boundary_sequence pa \<noteq> e4_sequence e - 1 \<or> pa_boundary_head pa \<noteq> e4_previous e \<or>
              pa_invalidated pa \<noteq> r4_last_owners s then Inl PauseUnbound
      else Inr (s\<lparr>r4_state := Paused, r4_pause := None\<rparr>))"

definition seal_run :: "int \<Rightarrow> int \<Rightarrow> reducer4 \<Rightarrow> refusal4 + reducer4" where
  "seal_run previous fence s =
     (if \<not> r4_freeze s then Inl SealNeedsFreeze
      else if r4_in_flight s \<noteq> [] then Inl SealNeedsNoInFlight
      else if previous \<noteq> r4_fence s \<or> r4_fence s \<ge> MAX_SAFE_INTEGER \<or> fence \<noteq> r4_fence s + 1
      then Inl SealFenceNotNext
      else Inr (deactivate_all (s\<lparr>r4_fence := fence, r4_sealed := True, r4_state := Sealed\<rparr>)))"

subsection \<open>The reducer\<close>

text \<open>One case of the switch.\<close>

fun handle4 :: "event4 \<Rightarrow> body4 \<Rightarrow> reducer4 \<Rightarrow> refusal4 + reducer4" where
  "handle4 e (RunInitialized _) s = Inl InitializedTwice"
| "handle4 e RunStarted s =
     (if r4_started s \<or> r4_state s \<noteq> Initialized then Inl StartNeedsInitialized
      else Inr (s\<lparr>r4_started := True, r4_state := Running, r4_run_started := Some (refOf e)\<rparr>))"
| "handle4 e (ResumeRequested rq) s = resume_requested (refOf e) rq s"
| "handle4 e (AttemptStarted a) s = attempt_started e a s"
| "handle4 e (LeaseAcquired la) s = acquire_lease (refOf e) la s"
| "handle4 e (HeartbeatRecorded hb) s = record_heartbeat hb s"
| "handle4 e (LeaseReleased ref fence) s = release_lease ref fence s"
| "handle4 e (PauseRequested attempt owner fence) s = request_pause (refOf e) attempt owner fence s"
| "handle4 e (FenceAdvanced attempt previous fence owners) s = advance_fence attempt previous fence owners s"
| "handle4 e (ActionAdmitted p) s = admit_action (refOf e) p s"
| "handle4 e (NonEntryAcknowledged n) s = acknowledge_non_entry n s"
| "handle4 e (TerminationAttempted t) s = attempt_termination t s"
| "handle4 e (OutcomeUnknownRemains a) s = Inr (contradict a s)"
| "handle4 e (ProvenNonStart n) s = reconcile_non_start (refOf e) n s"
| "handle4 e (ActionFact t a) s = Inr (contradict a s)"
| "handle4 e (EffectOutcome eo) s = record_effect (e4_source e) eo s"
| "handle4 e (ActionSettled st) s = settle_action st s"
| "handle4 e (RunPaused pa) s = enter_pause e pa s"
| "handle4 e ObservationRejected s =
     (if \<not> r4_started s \<or> (r4_state s \<noteq> Running \<and> r4_state s \<noteq> Paused) then Inl RejectionNeedsActive
      else Inr (s\<lparr>r4_state := QuarantineRequired\<rparr>))"
| "handle4 e RunQuarantined s =
     (if r4_state s \<noteq> QuarantineRequired then Inl QuarantineNeedsRejection
      else Inr (s\<lparr>r4_state := Quarantined\<rparr>))"
| "handle4 e GrantRevoked s =
     Inr (if r4_state s \<noteq> Aborting \<and> r4_state s \<noteq> Quarantined then s\<lparr>r4_state := Held\<rparr> else s)"
| "handle4 e AbortRequested s =
     Inr (if r4_state s \<noteq> Quarantined then s\<lparr>r4_abort := True, r4_state := Aborting\<rparr>
          else s\<lparr>r4_abort := True\<rparr>)"
| "handle4 e FreezeEntered s = Inr (s\<lparr>r4_freeze := True\<rparr>)"
| "handle4 e FreezeRevised s = Inr (s\<lparr>r4_freeze := True\<rparr>)"
| "handle4 e (TerminalSealed previous fence) s = seal_run previous fence s"
| "handle4 e (CompensationSettled _) s = Inr s"
| "handle4 e (Phased _ _) s = Inr s"
| "handle4 e (ArtifactRecorded _) s = Inr s"
| "handle4 e (CallAdmitted _ _) s = Inr s"
| "handle4 e (PlainEvent _) s = Inr s"

text \<open>After the switch: what a compensation continuation may refer to, and the event itself.\<close>

definition extend_scope :: "event4 \<Rightarrow> reducer4 \<Rightarrow> reducer4" where
  "extend_scope e s =
     (if r4_mode s \<noteq> Some CompensationContinuation then s
      else (case e4_body e of
              Phased t ph \<Rightarrow>
                if t = ''lease.issued'' \<and> ph = ''compensation''
                then s\<lparr>r4_scope := (r4_scope s)\<lparr>cp_leases := refOf e # cp_leases (r4_scope s)\<rparr>\<rparr> else s
            | ActionAdmitted p \<Rightarrow>
                (case compensationAdmissionBindings p of
                   None \<Rightarrow> s
                 | Some (a, lease) \<Rightarrow>
                     s\<lparr>r4_scope := (r4_scope s)\<lparr>cp_actions := a # cp_actions (r4_scope s),
                                  cp_admissions := refOf e # cp_admissions (r4_scope s)\<rparr>\<rparr>)
            | _ \<Rightarrow> s))"

definition remember4 :: "event4 \<Rightarrow> reducer4 \<Rightarrow> reducer4" where
  "remember4 e s = s\<lparr>r4_by_ref := (refOf e, e) # r4_by_ref s\<rparr>"

text \<open>The checks before the switch.\<close>

definition precheck4 :: "reducer4 \<Rightarrow> body4 \<Rightarrow> refusal4 option" where
  "precheck4 s b =
     (if r4_state s = Sealed then Some AfterSeal
      else if r4_state s = QuarantineRequired \<and> b \<noteq> RunQuarantined then Some QuarantineMustFollow
      else if r4_pending s \<noteq> None \<and> event_type4 b \<in> set PENDING_BLOCKED_EVENT_TYPES then Some WorkWhilePending
      else (case r4_mode s of
              None \<Rightarrow> None
            | Some mode \<Rightarrow> if mode_permits mode (r4_scope s) b then None else Some ModeViolation))"

definition step4 :: "nat \<Rightarrow> reducer4 \<Rightarrow> event4 \<Rightarrow> (nat \<times> refusal4) + reducer4" where
  "step4 i s e =
     (if i = 0 then
        (case e4_body e of
           RunInitialized fence \<Rightarrow> Inr (remember4 e (s\<lparr>r4_fence := fence\<rparr>))
         | _ \<Rightarrow> Inl (i, MustBeginInitialized))
      else (case precheck4 s (e4_body e) of
              Some f \<Rightarrow> Inl (i, f)
            | None \<Rightarrow>
                (case handle4 e (e4_body e) s of
                   Inl f \<Rightarrow> Inl (i, f)
                 | Inr t \<Rightarrow> Inr (remember4 e (extend_scope e t)))))"

definition reduceRuntimeEventPrefixV04 :: "event4 list \<Rightarrow> (nat \<times> refusal4) + reducer4" where
  "reduceRuntimeEventPrefixV04 events = fold_events step4 0 reducer4_start events"

end
