(* ===== verification/Limit_Counters.thy ===== *)
theory Limit_Counters
  imports Limit_Rules Reducer_V04 "HOL-Library.AList"
begin

text \<open>
  The counters of a run, projected from its ledger (\<open>src/run/runtime-limit-accounting-v04.ts\<close>,
  second part): what the accounting takes as consumed. Events carry, besides what the reducer
  reads, what the counters read of the payload; the coherence of both readings of one payload
  is the predicate \<open>coherent\<close>.
\<close>

subsection \<open>Events\<close>

record finish =
  fi_action :: string
  fi_task :: string
  fi_executions_after :: int
  fi_workers_after :: int
  fi_output_after :: int
  fi_tools_after :: int
  fi_loops_after :: int
  fi_tokens :: int
  fi_tokens_after :: int
  fi_cost :: "int option"
  fi_cost_after :: "int option"

datatype limit_body =
    ClockObserved int
  | AttemptCounted int
  | AdmissionCounted json
  | WriteCounted string int
  | CallCounted string int
  | FinishCounted finish                       \<comment> \<open>completed or failed\<close>
  | LoopCounted int
  | CompactionCounted string string int        \<comment> \<open>record path, record hash, summary size\<close>
  | SettlementCounted string
  | Uncounted

record limited_event = event4 +
  le_limit :: limit_body

definition coherent :: "limited_event \<Rightarrow> bool" where
  "coherent e \<longleftrightarrow>
     (case e4_body e of
        AttemptStarted a \<Rightarrow> le_limit e = AttemptCounted (at_ordinal a)
      | ActionAdmitted p \<Rightarrow> le_limit e = AdmissionCounted p
      | ActionSettled st \<Rightarrow> le_limit e = SettlementCounted (st_action st)
      | _ \<Rightarrow> (case le_limit e of AttemptCounted _ \<Rightarrow> False | AdmissionCounted _ \<Rightarrow> False
                           | SettlementCounted _ \<Rightarrow> False | _ \<Rightarrow> True))"

record admission_counters =
  an_action :: string
  an_task :: string
  an_executions_after :: int
  an_output_after :: int

definition actionAdmissionCounters :: "json \<Rightarrow> admission_counters option" where
  "actionAdmissionCounters p =
     (if \<not> is_objectish p then None
      else (case (as_string (jget p ''action_id''), as_string (jget p ''task_ref''),
                  safe_int (jget p ''task_executions_after''), safe_int (jget p ''action_output_bytes_after'')) of
              (Some a, Some t, Some n, Some b) \<Rightarrow>
                if n < 1 \<or> b < 0 then None
                else Some \<lparr>an_action = a, an_task = t, an_executions_after = n, an_output_after = b\<rparr>
            | _ \<Rightarrow> None))"

subsection \<open>Counting\<close>

record counting =
  cn_tasks :: "(string \<times> int) list"
  cn_in_flight :: "string list"
  cn_admissions :: "(string \<times> string \<times> int) list"
  cn_terminal :: "string list"
  cn_execution :: int
  cn_loops :: int
  cn_completed_loops :: int
  cn_elapsed :: int
  cn_tools :: int
  cn_output :: int
  cn_tokens :: int
  cn_cost :: int

definition counting_start :: "string list \<Rightarrow> counting" where
  "counting_start tasks =
     \<lparr>cn_tasks = map (\<lambda>t. (t, 0)) (sort (remdups tasks)), cn_in_flight = [], cn_admissions = [], cn_terminal = [],
      cn_execution = 0, cn_loops = 0, cn_completed_loops = 0, cn_elapsed = 0, cn_tools = 0, cn_output = 0,
      cn_tokens = 0, cn_cost = 0\<rparr>"

definition count_admission :: "json \<Rightarrow> counting \<Rightarrow> counting option" where
  "count_admission p s = do {
     an \<leftarrow> actionAdmissionCounters p;
     previous \<leftarrow> map_of (cn_tasks s) (an_task an);
     if an_action an \<in> fst ` set (cn_admissions s) \<or> an_executions_after an \<noteq> previous + 1 \<or>
        \<not> isSafeInteger (previous + 1) \<or> an_output_after an < cn_output s then None
     else Some (s\<lparr>cn_tasks := AList.update (an_task an) (an_executions_after an) (cn_tasks s),
                  cn_output := an_output_after an,
                  cn_admissions := (an_action an, an_task an, an_executions_after an) # cn_admissions s,
                  cn_in_flight := cn_in_flight s @ [an_action an]\<rparr>)
   }"

definition count_finish :: "finish \<Rightarrow> counting \<Rightarrow> counting option" where
  "count_finish fi s =
     (case map_of (cn_admissions s) (fi_action fi) of
        None \<Rightarrow> None
      | Some (task, executions) \<Rightarrow>
          if fi_action fi \<notin> set (cn_in_flight s) \<or> fi_action fi \<in> set (cn_terminal s) \<or> task \<noteq> fi_task fi \<or>
             fi_executions_after fi \<noteq> executions \<or> fi_workers_after fi \<noteq> int (length (cn_in_flight s)) \<or>
             fi_output_after fi < cn_output s \<or> fi_tools_after fi < cn_tools s \<or>
             fi_loops_after fi < cn_loops s \<or> fi_loops_after fi > cn_loops s + 1 then None
          else do {
            tokens \<leftarrow> checkedAdd (cn_tokens s) (fi_tokens fi);
            cost \<leftarrow> fi_cost fi;
            costAfter \<leftarrow> fi_cost_after fi;
            nextCost \<leftarrow> checkedAdd (cn_cost s) cost;
            if fi_tokens_after fi \<noteq> tokens \<or> costAfter \<noteq> nextCost then None
            else Some (s\<lparr>cn_loops := fi_loops_after fi, cn_output := fi_output_after fi,
                         cn_tools := fi_tools_after fi, cn_tokens := tokens, cn_cost := nextCost,
                         cn_terminal := fi_action fi # cn_terminal s\<rparr>)
          })"

fun count_event :: "counting \<Rightarrow> limit_body \<Rightarrow> counting option" where
  "count_event s (ClockObserved ms) = (if ms < cn_elapsed s then None else Some (s\<lparr>cn_elapsed := ms\<rparr>))"
| "count_event s (AttemptCounted ordinal) =
     (if \<not> isSafeInteger (cn_execution s + 1) \<or> ordinal \<noteq> cn_execution s + 1 then None
      else Some (s\<lparr>cn_execution := cn_execution s + 1\<rparr>))"
| "count_event s (AdmissionCounted p) = count_admission p s"
| "count_event s (WriteCounted action after) =
     (if action \<notin> set (cn_in_flight s) \<or> after < cn_output s then None else Some (s\<lparr>cn_output := after\<rparr>))"
| "count_event s (CallCounted action after) =
     (case checkedAdd (cn_tools s) 1 of
        None \<Rightarrow> None
      | Some n \<Rightarrow> if action \<notin> set (cn_in_flight s) \<or> after \<noteq> n then None else Some (s\<lparr>cn_tools := n\<rparr>))"
| "count_event s (FinishCounted fi) = count_finish fi s"
| "count_event s (LoopCounted ordinal) =
     (let n = cn_completed_loops s + 1 in
      if \<not> isSafeInteger n \<or> ordinal \<noteq> n \<or> n < cn_loops s \<or> n > cn_loops s + 1 then None
      else Some (s\<lparr>cn_completed_loops := n, cn_loops := n\<rparr>))"
| "count_event s (CompactionCounted path h size') =
     map_option (\<lambda>n. s\<lparr>cn_output := n\<rparr>) (checkedAdd (cn_output s) size')"
| "count_event s (SettlementCounted action) =
     (if action \<notin> set (cn_in_flight s) then None
      else Some (s\<lparr>cn_in_flight := filter (\<lambda>a. a \<noteq> action) (cn_in_flight s)\<rparr>))"
| "count_event s Uncounted = Some s"

fun count_all :: "counting \<Rightarrow> limit_body list \<Rightarrow> counting option" where
  "count_all s [] = Some s"
| "count_all s (b # bs) = (case count_event s b of None \<Rightarrow> None | Some t \<Rightarrow> count_all t bs)"

definition counters_of :: "int \<Rightarrow> counting \<Rightarrow> limit_counters" where
  "counters_of controlOutputBytes s =
     \<lparr>ct_loop_attempts = cn_loops s, ct_execution_attempts = cn_execution s, ct_task_executions = cn_tasks s,
      ct_elapsed_ms = cn_elapsed s, ct_tool_calls = cn_tools s, ct_action_output_bytes = cn_output s,
      ct_control_output_bytes = controlOutputBytes, ct_token_count = cn_tokens s,
      ct_cost_minor_units = cn_cost s, ct_active_workers = int (length (cn_in_flight s))\<rparr>"

definition agrees_with_state :: "counting \<Rightarrow> reducer4 \<Rightarrow> bool" where
  "agrees_with_state s st \<longleftrightarrow>
     cn_execution s = (case r4_ordinal st of None \<Rightarrow> 0 | Some n \<Rightarrow> n) \<and>
     length (cn_in_flight s) = length (r4_in_flight st) \<and> set (cn_in_flight s) \<subseteq> set (r4_in_flight st)"

definition projectCounterStateFromPrefix ::
  "string list \<Rightarrow> limited_event list \<Rightarrow> int \<Rightarrow> reducer4 \<Rightarrow> limit_counters option" where
  "projectCounterStateFromPrefix tasks events controlOutputBytes expectedState =
     (case count_all (counting_start tasks) (map le_limit events) of
        None \<Rightarrow> None
      | Some s \<Rightarrow> if agrees_with_state s expectedState then Some (counters_of controlOutputBytes s) else None)"

subsection \<open>Control output and the captured ledger\<close>

record file_row =
  fr_path :: string
  fr_exists :: bool
  fr_family :: string
  fr_required :: bool
  fr_mode :: int
  fr_size :: "int option"
  fr_hash :: "string option"

record captured_ledger =
  cl_run_id :: string
  cl_plan_hash :: string
  cl_events :: "limited_event list"
  cl_line_bytes :: "int list"
  cl_bytes :: int
  cl_state :: reducer4

record run_manifest =
  rm_run_id :: string
  rm_plan_hash :: string
  rm_inventory :: "file_row list"

record validated_plan =
  vp_run_id :: string
  vp_plan_run_id :: string
  vp_plan_hash :: string
  vp_tasks :: "string list"

fun checked_sum :: "int \<Rightarrow> int list \<Rightarrow> int option" where
  "checked_sum bytes' [] = Some bytes'"
| "checked_sum bytes' (n # ns) = (case checkedAdd bytes' n of None \<Rightarrow> None | Some t \<Rightarrow> checked_sum t ns)"

definition summedLedgerLineBytes :: "int list \<Rightarrow> int \<Rightarrow> int option" where
  "summedLedgerLineBytes lengths prefixLength =
     (if prefixLength < 0 \<or> prefixLength > int (length lengths) then None
      else checked_sum 0 (take (nat prefixLength) lengths))"

definition committed_row :: "file_row \<Rightarrow> string \<Rightarrow> int option" where
  "committed_row row h =
     (if fr_family row \<noteq> ''record'' \<or> \<not> fr_required row \<or> fr_mode row \<noteq> 384 \<or> fr_hash row \<noteq> Some h then None
      else fr_size row)"

text \<open>Each compaction commits its record's row once; the rest of the map is passed on.\<close>

fun commit_records :: "(string \<times> file_row) list \<Rightarrow> int \<Rightarrow> nat \<Rightarrow> limit_body list \<Rightarrow> (int \<times> nat) option" where
  "commit_records byPath bytes' n [] = Some (bytes', n)"
| "commit_records byPath bytes' n (CompactionCounted path h size' # bs) =
     (case map_of byPath path of
        None \<Rightarrow> None
      | Some row \<Rightarrow>
          (case committed_row row h of
             None \<Rightarrow> None
           | Some size' \<Rightarrow>
               (case checkedAdd bytes' size' of
                  None \<Rightarrow> None
                | Some t \<Rightarrow> commit_records (filter (\<lambda>r. fst r \<noteq> path) byPath) t (Suc n) bs)))"
| "commit_records byPath bytes' n (_ # bs) = commit_records byPath bytes' n bs"

definition summaryRecordControlBytesAtPrefix ::
  "captured_ledger \<Rightarrow> run_manifest \<Rightarrow> int \<Rightarrow> bool \<Rightarrow> int option" where
  "summaryRecordControlBytesAtPrefix ledger manifest prefixLength exhaustive =
     (case summedLedgerLineBytes (cl_line_bytes ledger) prefixLength of
        None \<Rightarrow> None
      | Some bytes \<Rightarrow>
          (let rows = filter (\<lambda>r. fr_exists r \<and> starts_with ''summaries/records/'' (fr_path r)) (rm_inventory manifest) in
           if \<not> distinct (map fr_path rows) then None
           else (case commit_records (map (\<lambda>r. (fr_path r, r)) rows) bytes 0
                        (map le_limit (take (nat prefixLength) (cl_events ledger))) of
                   None \<Rightarrow> None
                 | Some (bytes', n) \<Rightarrow> if exhaustive \<and> n \<noteq> length rows then None else Some bytes')))"

definition validatedProjectionScope :: "validated_plan \<Rightarrow> captured_ledger \<Rightarrow> run_manifest \<Rightarrow> bool" where
  "validatedProjectionScope vp ledger manifest \<longleftrightarrow>
     vp_run_id vp = vp_plan_run_id vp \<and> vp_run_id vp = cl_run_id ledger \<and> cl_run_id ledger = rm_run_id manifest \<and>
     vp_plan_hash vp = cl_plan_hash ledger \<and> cl_plan_hash ledger = rm_plan_hash manifest"

definition hasExactCapturedLedgerBytes :: "captured_ledger \<Rightarrow> bool" where
  "hasExactCapturedLedgerBytes ledger \<longleftrightarrow>
     length (cl_line_bytes ledger) = length (cl_events ledger) \<and>
     summedLedgerLineBytes (cl_line_bytes ledger) (int (length (cl_line_bytes ledger))) = Some (cl_bytes ledger)"

text \<open>\<open>branded\<close>: the three values carry the marks of their validators.\<close>

definition projectRuntimeLimitCounters ::
  "bool \<Rightarrow> validated_plan \<Rightarrow> captured_ledger \<Rightarrow> run_manifest \<Rightarrow> limit_counters option" where
  "projectRuntimeLimitCounters branded vp ledger manifest =
     (if \<not> branded \<or> \<not> validatedProjectionScope vp ledger manifest \<or> \<not> hasExactCapturedLedgerBytes ledger then None
      else (case summaryRecordControlBytesAtPrefix ledger manifest (int (length (cl_events ledger))) True of
              None \<Rightarrow> None
            | Some control \<Rightarrow>
                projectCounterStateFromPrefix (vp_tasks vp) (cl_events ledger) control (cl_state ledger)))"

definition exactReferencedEvent :: "limited_event list \<Rightarrow> int \<times> string \<Rightarrow> limited_event option" where
  "exactReferencedEvent events ref =
     (case nth_opt events (nat (fst ref - 1)) of
        None \<Rightarrow> None | Some e \<Rightarrow> if e4_hash e = snd ref then Some e else None)"

definition LedgerRefV02 :: "int \<times> string \<Rightarrow> bool" where
  "LedgerRefV02 ref \<longleftrightarrow> 0 < fst ref \<and> isSafeInteger (fst ref) \<and> Hash (snd ref)"

definition projectRuntimeLimitCountersAtPrefix ::
  "bool \<Rightarrow> validated_plan \<Rightarrow> captured_ledger \<Rightarrow> run_manifest \<Rightarrow> int \<times> string \<Rightarrow> limit_counters option" where
  "projectRuntimeLimitCountersAtPrefix branded vp ledger manifest ref =
     (if \<not> LedgerRefV02 ref \<or> \<not> branded \<or> \<not> validatedProjectionScope vp ledger manifest \<or>
         \<not> hasExactCapturedLedgerBytes ledger then None
      else (case exactReferencedEvent (cl_events ledger) ref of
              None \<Rightarrow> None
            | Some e \<Rightarrow>
                (let prefixEvents = take (nat (e4_sequence e)) (cl_events ledger) in
                 (case reduceRuntimeEventPrefixV04 (map event4.truncate prefixEvents) of
                    Inl _ \<Rightarrow> None
                  | Inr state \<Rightarrow>
                      (case summaryRecordControlBytesAtPrefix ledger manifest (e4_sequence e) False of
                         None \<Rightarrow> None
                       | Some control \<Rightarrow>
                           projectCounterStateFromPrefix (vp_tasks vp) prefixEvents control state)))))"

end
