(* ===== verification/Replay.thy ===== *)
theory Replay
  imports Prelude
begin

text \<open>
  A second contract of the reducers of the prelude: a relation between the events accepted
  so far and the state, which every accepted event extends. It carries facts about a whole
  ledger (no identifier used twice, ordinals counting up) that a state invariant cannot say.
\<close>

locale recorded_reducer =
  fixes step :: "nat \<Rightarrow> 's \<Rightarrow> 'e \<Rightarrow> 'f + 's"
    and start :: 's
    and record_of :: "'e list \<Rightarrow> 's \<Rightarrow> bool"
  assumes record_start: "record_of [] start"
    and record_step: "record_of es s \<Longrightarrow> step (length es) s e = Inr t \<Longrightarrow> record_of (es @ [e]) t"
begin

lemma replay_record: "fold_events step 0 start es = Inr s \<Longrightarrow> record_of es s"
proof (induction es arbitrary: s rule: rev_induct)
  case Nil
  then show ?case using record_start by simp
next
  case (snoc e es)
  then obtain u where "fold_events step 0 start es = Inr u" "step (length es) u e = Inr s"
    by (auto simp: fold_events_snoc)
  with snoc.IH show ?case using record_step by blast
qed

text \<open>The state before any event of an accepted ledger, and that event's step.\<close>

lemma replay_at:
  assumes "fold_events step 0 start (es @ e # fs) = Inr s"
  obtains u v where "fold_events step 0 start es = Inr u" "record_of es u" "step (length es) u e = Inr v"
    "fold_events step (Suc (length es)) v fs = Inr s"
  using assms replay_record by (auto simp: fold_events_append split: sum.splits)

end

end
