(* ===== verification/Reducer_V04_Laws.thy ===== *)
theory Reducer_V04_Laws
  imports Reducer_V04 Replay
begin

text \<open>
  What every ledger accepted by the version 0.4 reducer satisfies: consistent actions and
  leases, fences that only grow, recovery requests used once, and no proof of a non-start
  for an action with a recorded start.
\<close>

lemmas handler_defs =
  resume_requested_def attempt_started_def acquire_lease_def record_heartbeat_def release_lease_def
  request_pause_def advance_fence_def admit_action_def acknowledge_non_entry_def attempt_termination_def
  reconcile_non_start_def record_effect_def settle_action_def enter_pause_def seal_run_def contradict_def

lemmas handler_splits = if_split_asm option.split_asm sum.split_asm prod.split_asm

subsection \<open>Leases\<close>

text \<open>A lease may lose its activity, never gain it or move to another attempt or fence.\<close>

definition lease_le :: "owner_lease \<Rightarrow> owner_lease \<Rightarrow> bool" where
  "lease_le l' l \<longleftrightarrow> (ow_active l' \<longrightarrow> ow_active l) \<and> ow_attempt l' = ow_attempt l \<and> ow_fence l' = ow_fence l"

definition lease_inv :: "reducer4 \<Rightarrow> bool" where
  "lease_inv s \<longleftrightarrow>
     (\<forall>i < length (r4_store s). ow_active (r4_store s ! i) \<longrightarrow>
        i \<in> set (owned_positions s) \<and> r4_attempt s = Some (ow_attempt (r4_store s ! i)) \<and>
        ow_fence (r4_store s ! i) \<le> r4_fence s \<and> \<not> r4_sealed s)"

lemma lease_inv_weaken:
  assumes "lease_inv s" and "list_all2 lease_le (r4_store t) (r4_store s)"
    and "owned_positions t = owned_positions s" "r4_attempt t = r4_attempt s"
    and "r4_fence s \<le> r4_fence t" "r4_sealed t = r4_sealed s"
  shows "lease_inv t"
  using assms unfolding lease_inv_def list_all2_conv_all_nth lease_le_def
  by (metis (no_types, lifting) order_trans)

lemma lease_le_refl [simp]: "lease_le l l"
  by (simp add: lease_le_def)

lemma store_le_refl [simp]: "list_all2 lease_le ls ls"
  by (simp add: list_all2_refl)

lemma store_le_update:
  "nth_opt ls i = Some l \<Longrightarrow> lease_le l' l \<Longrightarrow> list_all2 lease_le (ls[i := l']) ls"
  by (auto simp: nth_opt_conv list_all2_conv_all_nth nth_list_update split: if_split_asm)

lemma store_le_trans:
  "list_all2 lease_le a b \<Longrightarrow> list_all2 lease_le b c \<Longrightarrow> list_all2 lease_le a c"
  unfolding list_all2_conv_all_nth lease_le_def by metis

lemma lease_at_store: "lease_at s ref = Some (i, l) \<Longrightarrow> nth_opt (r4_store s) i = Some l"
  by (auto simp: lease_at_def split: option.splits)

lemma put_lease_inv:
  assumes "lease_inv s" and "lease_at s ref = Some (i, l)" and "lease_le l' l"
  shows "lease_inv (put_lease i l' s)"
  using store_le_update [OF lease_at_store [OF assms(2)] assms(3)]
  by (intro lease_inv_weaken [OF assms(1)]) (simp_all add: put_lease_def owned_positions_def)

lemma invalidate_owners_frame:
  "invalidate_owners refs s = Inr t \<Longrightarrow>
     \<exists>ls. t = s\<lparr>r4_store := ls\<rparr> \<and> list_all2 lease_le ls (r4_store s)"
proof (induction refs s rule: invalidate_owners.induct)
  case (1 s)
  then show ?case by (intro exI [of _ "r4_store s"]) simp
next
  case (2 ref refs s)
  then obtain i l where l: "lease_at s ref = Some (i, l)" "ow_active l"
    and t: "invalidate_owners refs (put_lease i (l\<lparr>ow_active := False\<rparr>) s) = Inr t"
    by (auto split: option.splits if_splits)
  from "2.IH" [OF l(1) refl _ t] l(2) obtain ls where "t = s\<lparr>r4_store := ls\<rparr>"
    "list_all2 lease_le ls ((r4_store s)[i := l\<lparr>ow_active := False\<rparr>])"
    unfolding put_lease_def by auto
  moreover have "list_all2 lease_le ((r4_store s)[i := l\<lparr>ow_active := False\<rparr>]) (r4_store s)"
    by (rule store_le_update [OF lease_at_store [OF l(1)]]) (simp add: lease_le_def)
  ultimately show ?case using store_le_trans by blast
qed


lemma deactivated_none:
  assumes "\<And>i. i < length (r4_store s) \<Longrightarrow> ow_active (r4_store s ! i) \<Longrightarrow> i \<in> set (owned_positions s)"
  shows "\<forall>l\<in>set (r4_store (deactivate_all s)). \<not> ow_active l"
  using assms by (auto simp: deactivate_all_def set_indexed split: if_splits)

lemma none_active_lease_inv: "\<forall>l\<in>set (r4_store s). \<not> ow_active l \<Longrightarrow> lease_inv s"
  by (simp add: lease_inv_def)

lemma owned_frame [simp]:
  "owned_positions (r4_fence_update f s) = owned_positions s"
  "owned_positions (r4_sealed_update g s) = owned_positions s"
  "owned_positions (r4_state_update h s) = owned_positions s"
  "owned_positions (r4_pending_update k s) = owned_positions s"
  "owned_positions (r4_consumed_ids_update m s) = owned_positions s"
  "owned_positions (r4_consumed_nonces_update n s) = owned_positions s"
  by (simp_all add: owned_positions_def)

lemma consume_request_none:
  assumes "lease_inv s" and "consume_request a n s = Inr t"
  shows "\<forall>l\<in>set (r4_store t). \<not> ow_active l"
proof -
  from assms(2) obtain u where "t = deactivate_all u" "r4_store u = r4_store s"
    "owned_positions u = owned_positions s"
    by (auto simp: consume_request_def split: option.splits if_splits)
  then show ?thesis
    using assms(1) deactivated_none [of u] by (simp add: lease_inv_def)
qed

lemma begin_attempt_inv:
  assumes "\<forall>l\<in>set (r4_store s). \<not> ow_active l" and "\<not> r4_sealed s"
  shows "lease_inv (begin_attempt e a s)"
  using assms
  by (auto simp: lease_inv_def begin_attempt_def nth_append owned_positions_def run_owner_lease_def less_Suc_eq
      split: if_split_asm)


text \<open>What an event other than an attempt, a lease, a fence advance or a seal leaves alone.\<close>

definition lease_view where
  "lease_view s = (r4_store s, r4_owner s, r4_subordinates s, r4_attempt s, r4_ordinal s, r4_fence s, r4_sealed s)"

lemma lease_view_inv: "lease_view t = lease_view s \<Longrightarrow> lease_inv t = lease_inv s"
  by (simp add: lease_view_def lease_inv_def owned_positions_def)

fun touches_leases :: "body4 \<Rightarrow> bool" where
  "touches_leases (AttemptStarted _) = True"
| "touches_leases (LeaseAcquired _) = True"
| "touches_leases (HeartbeatRecorded _) = True"
| "touches_leases (LeaseReleased _ _) = True"
| "touches_leases (FenceAdvanced _ _ _ _) = True"
| "touches_leases (TerminalSealed _ _) = True"
| "touches_leases _ = False"

lemma handle4_view:
  "handle4 e b s = Inr t \<Longrightarrow> \<not> touches_leases b \<Longrightarrow> lease_view t = lease_view s"
  by (cases b) (auto simp: handler_defs lease_view_def Let_def split: handler_splits)

lemma acquire_lease_inv:
  assumes "lease_inv s" and "acquire_lease ref la s = Inr t" and "\<not> r4_sealed s"
  shows "lease_inv t"
  using assms
  by (auto simp: lease_inv_def acquire_lease_def subordinate_bound_def subordinate_lease_def nth_append
      owned_positions_def less_Suc_eq split: handler_splits)

lemma record_heartbeat_inv: "lease_inv s \<Longrightarrow> record_heartbeat hb s = Inr t \<Longrightarrow> lease_inv t"
  by (auto simp: record_heartbeat_def lease_le_def split: handler_splits elim!: put_lease_inv)

lemma release_lease_inv: "lease_inv s \<Longrightarrow> release_lease ref f s = Inr t \<Longrightarrow> lease_inv t"
  by (auto simp: release_lease_def lease_le_def split: handler_splits elim!: put_lease_inv)

lemma advance_fence_inv:
  assumes "lease_inv s" and "advance_fence a p f owners s = Inr t"
  shows "lease_inv t"
proof -
  from assms(2) have "f = r4_fence s + 1" and "invalidate_owners owners
      (s\<lparr>r4_last_fence := Some (r4_fence s), r4_last_owners := owners, r4_fence := f\<rparr>) = Inr t"
    by (auto simp: advance_fence_def split: if_splits)
  from this(1) invalidate_owners_frame [OF this(2)] show ?thesis
    by (auto intro!: lease_inv_weaken [OF assms(1)] simp: owned_positions_def)
qed

lemma seal_run_none:
  assumes "lease_inv s" and "seal_run p f s = Inr t"
  shows "\<forall>l\<in>set (r4_store t). \<not> ow_active l"
proof -
  from assms(2) have "t = deactivate_all (s\<lparr>r4_fence := f, r4_sealed := True, r4_state := Sealed\<rparr>)"
    by (auto simp: seal_run_def split: if_split_asm)
  then show ?thesis
    using deactivated_none [of "s\<lparr>r4_fence := f, r4_sealed := True, r4_state := Sealed\<rparr>"] assms(1)
    by (simp add: lease_inv_def)
qed


lemma attempt_started_inv:
  assumes "lease_inv s" and "attempt_started e a s = Inr t" and "\<not> r4_sealed s"
    and "r4_ordinal s = None \<longleftrightarrow> r4_attempt s = None"
  shows "lease_inv t"
proof (cases "r4_ordinal s")
  case None
  then have "\<forall>l\<in>set (r4_store s). \<not> ow_active l"
    using assms(1,4) by (auto simp: lease_inv_def in_set_conv_nth)
  then show ?thesis
    using None assms(2,3) by (auto simp: attempt_started_def split: if_split_asm intro: begin_attempt_inv)
next
  case (Some n)
  with assms(2) obtain u where u: "consume_request a n s = Inr u" "t = begin_attempt e a u"
    by (auto simp: attempt_started_def split: if_split_asm sum.splits)
  have "\<not> r4_sealed u"
    using u(1) assms(3) by (auto simp: consume_request_def deactivate_all_def split: option.splits if_splits)
  with u consume_request_none [OF assms(1) u(1)] show ?thesis by (simp add: begin_attempt_inv)
qed

lemma handle4_lease_inv:
  assumes "lease_inv s" and "handle4 e b s = Inr t" and "\<not> r4_sealed s"
    and "r4_ordinal s = None \<longleftrightarrow> r4_attempt s = None"
  shows "lease_inv t"
proof (cases "touches_leases b")
  case False
  then show ?thesis using handle4_view [OF assms(2)] lease_view_inv assms(1) by blast
next
  case True
  then show ?thesis
    using assms
    by (cases b) (auto intro: attempt_started_inv acquire_lease_inv record_heartbeat_inv release_lease_inv
        advance_fence_inv none_active_lease_inv [OF seal_run_none])
qed

subsection \<open>Actions and phases\<close>

definition flight_inv :: "reducer4 \<Rightarrow> bool" where
  "flight_inv s \<longleftrightarrow>
     distinct (r4_in_flight s) \<and>
     (r4_state s = Paused \<or> r4_state s = Sealed \<longrightarrow> r4_in_flight s = []) \<and>
     (r4_sealed s \<longleftrightarrow> r4_state s = Sealed) \<and> (r4_sealed s \<longrightarrow> r4_freeze s) \<and>
     (r4_ordinal s = None \<longleftrightarrow> r4_attempt s = None)"

definition flight_view where
  "flight_view s = (r4_in_flight s, r4_state s, r4_sealed s, r4_freeze s, r4_ordinal s, r4_attempt s)"

lemma flight_view_inv: "flight_view t = flight_view s \<Longrightarrow> flight_inv t = flight_inv s"
  by (simp add: flight_view_def flight_inv_def)

lemma deactivate_flight [simp]: "flight_view (deactivate_all s) = flight_view s"
  by (simp add: flight_view_def deactivate_all_def)

lemma consume_request_flight: "consume_request a n s = Inr t \<Longrightarrow> flight_view t = flight_view s"
  by (auto simp: consume_request_def split: handler_splits) (simp add: flight_view_def)

lemma advance_fence_flight: "advance_fence a p f owners s = Inr t \<Longrightarrow> flight_view t = flight_view s"
  by (auto simp: advance_fence_def flight_view_def split: if_split_asm dest!: invalidate_owners_frame)

lemma attempt_started_flight:
  assumes "flight_inv s" and "attempt_started e a s = Inr t" and "\<not> r4_sealed s"
  shows "flight_inv t"
proof -
  from assms(2) obtain u where "flight_view u = flight_view s" "t = begin_attempt e a u"
    by (auto simp: attempt_started_def split: handler_splits dest: consume_request_flight)
  with assms(1,3) show ?thesis by (auto simp: flight_view_def flight_inv_def begin_attempt_def)
qed

lemma seal_run_flight: "flight_inv s \<Longrightarrow> seal_run p f s = Inr t \<Longrightarrow> flight_inv t"
  by (auto simp: seal_run_def deactivate_all_def flight_inv_def split: if_split_asm)

fun touches_flight :: "body4 \<Rightarrow> bool" where
  "touches_flight RunStarted = True"
| "touches_flight (AttemptStarted _) = True"
| "touches_flight (ActionAdmitted _) = True"
| "touches_flight (ActionSettled _) = True"
| "touches_flight (RunPaused _) = True"
| "touches_flight ObservationRejected = True"
| "touches_flight RunQuarantined = True"
| "touches_flight GrantRevoked = True"
| "touches_flight AbortRequested = True"
| "touches_flight FreezeEntered = True"
| "touches_flight FreezeRevised = True"
| "touches_flight (TerminalSealed _ _) = True"
| "touches_flight _ = False"

lemma put_lease_flight [simp]: "flight_view (put_lease i l s) = flight_view s"
  by (simp add: flight_view_def put_lease_def)

lemma contradict_flight [simp]: "flight_view (contradict a s) = flight_view s"
  by (simp add: flight_view_def contradict_def)

lemma flight_view_frame [simp]:
  "flight_view (r4_pending_update p s) = flight_view s" "flight_view (r4_pause_update q s) = flight_view s"
  "flight_view (r4_seen_ids_update f s) = flight_view s" "flight_view (r4_seen_nonces_update g s) = flight_view s"
  "flight_view (r4_store_update h s) = flight_view s" "flight_view (r4_subordinates_update k s) = flight_view s"
  "flight_view (r4_by_event_update m s) = flight_view s" "flight_view (r4_acks_update n s) = flight_view s"
  "flight_view (r4_proven_update x s) = flight_view s" "flight_view (r4_admissions_update y s) = flight_view s"
  by (simp_all add: flight_view_def)

lemma leases_flight:
  "acquire_lease ref la s = Inr t \<Longrightarrow> flight_view t = flight_view s"
  "record_heartbeat hb s = Inr t \<Longrightarrow> flight_view t = flight_view s"
  "release_lease ref f s = Inr t \<Longrightarrow> flight_view t = flight_view s"
  "request_pause ref r o' f s = Inr t \<Longrightarrow> flight_view t = flight_view s"
  "resume_requested ref rq s = Inr t \<Longrightarrow> flight_view t = flight_view s"
  by (auto simp: acquire_lease_def record_heartbeat_def release_lease_def request_pause_def
      resume_requested_def split: handler_splits)

lemma facts_flight:
  "acknowledge_non_entry n s = Inr t \<Longrightarrow> flight_view t = flight_view s"
  "attempt_termination tm s = Inr t \<Longrightarrow> flight_view t = flight_view s"
  "reconcile_non_start ref ns s = Inr t \<Longrightarrow> flight_view t = flight_view s"
  "record_effect src eo s = Inr t \<Longrightarrow> flight_view t = flight_view s"
  by (auto simp: acknowledge_non_entry_def attempt_termination_def reconcile_non_start_def
      record_effect_def Let_def split: handler_splits)

lemma handle4_flight_view:
  "handle4 e b s = Inr t \<Longrightarrow> \<not> touches_flight b \<Longrightarrow> flight_view t = flight_view s"
  by (cases b) (simp_all add: leases_flight facts_flight advance_fence_flight split: if_split_asm, auto)

lemma admit_action_flight: "flight_inv s \<Longrightarrow> admit_action ref p s = Inr t \<Longrightarrow> flight_inv t"
  by (auto simp: admit_action_def flight_inv_def split: handler_splits)

lemma settle_action_Inr:
  "settle_action st s = Inr t \<Longrightarrow> t = s\<lparr>r4_in_flight := filter (\<lambda>a. a \<noteq> st_action st) (r4_in_flight s)\<rparr>"
  unfolding settle_action_def
  by (cases "case map_of (r4_proven s) (st_action st) of None \<Rightarrow> None | Some (pref, n) \<Rightarrow> settlement_closes st pref n s")
    (simp_all split: if_split_asm)

lemma settle_action_flight: "flight_inv s \<Longrightarrow> settle_action st s = Inr t \<Longrightarrow> flight_inv t"
  by (drule settle_action_Inr) (auto simp: flight_inv_def)

lemma enter_pause_flight: "flight_inv s \<Longrightarrow> enter_pause e pa s = Inr t \<Longrightarrow> flight_inv t"
  by (auto simp: enter_pause_def flight_inv_def split: if_split_asm)

lemma handle4_flight_inv:
  assumes "flight_inv s" and "handle4 e b s = Inr t" and "\<not> r4_sealed s"
  shows "flight_inv t"
proof (cases "touches_flight b")
  case False
  then show ?thesis using handle4_flight_view [OF assms(2)] flight_view_inv assms(1) by blast
next
  case True
  with assms show ?thesis
  proof (cases b)
    case RunStarted
    then show ?thesis using assms by (auto simp: flight_inv_def split: if_split_asm)
  next
    case ObservationRejected
    then show ?thesis using assms by (auto simp: flight_inv_def split: if_split_asm)
  next
    case RunQuarantined
    then show ?thesis using assms by (auto simp: flight_inv_def split: if_split_asm)
  next
    case GrantRevoked
    then show ?thesis using assms by (auto simp: flight_inv_def split: if_split_asm)
  next
    case AbortRequested
    then show ?thesis using assms by (auto simp: flight_inv_def split: if_split_asm)
  next
    case FreezeEntered
    then show ?thesis using assms by (auto simp: flight_inv_def)
  next
    case FreezeRevised
    then show ?thesis using assms by (auto simp: flight_inv_def)
  next
    case (AttemptStarted a)
    then show ?thesis using assms by (simp add: attempt_started_flight)
  next
    case (ActionAdmitted p)
    then show ?thesis using assms admit_action_flight by simp
  next
    case (ActionSettled st)
    then show ?thesis using assms settle_action_flight by simp
  next
    case (RunPaused pa)
    then show ?thesis using assms enter_pause_flight by simp
  next
    case (TerminalSealed p f)
    then show ?thesis using assms seal_run_flight by simp
  qed simp_all
qed


subsection \<open>What a ledger records\<close>

fun request_ids :: "body4 \<Rightarrow> string list" where
  "request_ids (ResumeRequested rq) = [rq_id rq]"
| "request_ids _ = []"

fun request_nonces :: "body4 \<Rightarrow> string list" where
  "request_nonces (ResumeRequested rq) = [rq_nonce rq]"
| "request_nonces _ = []"

fun attempt_ordinals :: "body4 \<Rightarrow> int list" where
  "attempt_ordinals (AttemptStarted a) = [at_ordinal a]"
| "attempt_ordinals _ = []"

fun fences_set :: "body4 \<Rightarrow> int list" where
  "fences_set (AttemptStarted a) = [at_fence a]"
| "fences_set (FenceAdvanced _ _ f _) = [f]"
| "fences_set (TerminalSealed _ f) = [f]"
| "fences_set _ = []"

fun started_actions :: "body4 \<Rightarrow> string list" where
  "started_actions (ActionFact _ a) = [a]"
| "started_actions _ = []"

definition along :: "(body4 \<Rightarrow> 'a list) \<Rightarrow> event4 list \<Rightarrow> 'a list" where
  "along f es = concat (map (\<lambda>e. f (e4_body e)) es)"

lemma along_simps [simp]: "along f [] = []" "along f (es @ fs) = along f es @ along f fs"
  "along f (e # es) = f (e4_body e) @ along f es"
  by (simp_all add: along_def)

text \<open>Frames: which handlers change the seen requests and the contradicted actions.\<close>

definition trace_view where
  "trace_view s = (r4_seen_ids s, r4_seen_nonces s, r4_contradictory s)"

lemma trace_frames [simp]:
  "trace_view (deactivate_all s) = trace_view s" "trace_view (begin_attempt e a s) = trace_view s"
  "trace_view (put_lease i l s) = trace_view s"
  "trace_view (remember4 e s) = trace_view s" "trace_view (extend_scope e s) = trace_view s"
  by (simp_all add: trace_view_def deactivate_all_def begin_attempt_def put_lease_def remember4_def extend_scope_def
      split: body4.split option.split)

lemma trace_view_frame [simp]:
  "trace_view (r4_pending_update p s) = trace_view s" "trace_view (r4_pause_update q s) = trace_view s"
  "trace_view (r4_consumed_ids_update f s) = trace_view s" "trace_view (r4_consumed_nonces_update g s) = trace_view s"
  "trace_view (r4_store_update h s) = trace_view s" "trace_view (r4_subordinates_update k s) = trace_view s"
  "trace_view (r4_by_event_update m s) = trace_view s" "trace_view (r4_acks_update n s) = trace_view s"
  "trace_view (r4_proven_update x s) = trace_view s" "trace_view (r4_admissions_update y s) = trace_view s"
  "trace_view (r4_in_flight_update z s) = trace_view s" "trace_view (r4_state_update u s) = trace_view s"
  "trace_view (r4_fence_update v s) = trace_view s" "trace_view (r4_sealed_update w s) = trace_view s"
  "trace_view (r4_started_update x1 s) = trace_view s" "trace_view (r4_run_started_update x2 s) = trace_view s"
  "trace_view (r4_abort_update x3 s) = trace_view s" "trace_view (r4_freeze_update x4 s) = trace_view s"
  "trace_view (r4_last_fence_update x5 s) = trace_view s" "trace_view (r4_last_owners_update x6 s) = trace_view s"
  by (simp_all add: trace_view_def)

lemma invalidate_trace: "invalidate_owners refs s = Inr t \<Longrightarrow> trace_view t = trace_view s"
  by (auto dest!: invalidate_owners_frame)

lemma attempts_trace:
  "consume_request a n s = Inr t \<Longrightarrow> trace_view t = trace_view s"
  "attempt_started e a s = Inr t \<Longrightarrow> trace_view t = trace_view s"
  "advance_fence r p f owners s = Inr t \<Longrightarrow> trace_view t = trace_view s"
proof -
  show consume: "consume_request a n s = Inr t \<Longrightarrow> trace_view t = trace_view s" for a n t
    by (auto simp: consume_request_def split: handler_splits)
  show "attempt_started e a s = Inr t \<Longrightarrow> trace_view t = trace_view s"
    by (auto simp: attempt_started_def split: handler_splits dest: consume)
  show "advance_fence r p f owners s = Inr t \<Longrightarrow> trace_view t = trace_view s"
    by (auto simp: advance_fence_def split: if_split_asm dest!: invalidate_trace)
qed

lemma leases_trace:
  "acquire_lease ref la s = Inr t \<Longrightarrow> trace_view t = trace_view s"
  "record_heartbeat hb s = Inr t \<Longrightarrow> trace_view t = trace_view s"
  "release_lease ref f s = Inr t \<Longrightarrow> trace_view t = trace_view s"
  "request_pause ref r o' f s = Inr t \<Longrightarrow> trace_view t = trace_view s"
  by (auto simp: acquire_lease_def record_heartbeat_def release_lease_def request_pause_def
      split: handler_splits)

lemma facts_trace:
  "admit_action ref p s = Inr t \<Longrightarrow> trace_view t = trace_view s"
  "acknowledge_non_entry n s = Inr t \<Longrightarrow> trace_view t = trace_view s"
  "attempt_termination tm s = Inr t \<Longrightarrow> trace_view t = trace_view s"
  "reconcile_non_start ref ns s = Inr t \<Longrightarrow> trace_view t = trace_view s"
  "settle_action st s = Inr t \<Longrightarrow> trace_view t = trace_view s"
  "enter_pause e pa s = Inr t \<Longrightarrow> trace_view t = trace_view s"
  "seal_run f g s = Inr t \<Longrightarrow> trace_view t = trace_view s"
  by (auto simp: admit_action_def acknowledge_non_entry_def attempt_termination_def reconcile_non_start_def
      settle_action_def enter_pause_def seal_run_def Let_def split: handler_splits)

lemmas trace_lemmas = attempts_trace leases_trace facts_trace

lemma record_effect_trace:
  "record_effect src eo s = Inr t \<Longrightarrow>
     r4_seen_ids t = r4_seen_ids s \<and> r4_seen_nonces t = r4_seen_nonces s \<and>
     set (r4_contradictory s) \<subseteq> set (r4_contradictory t)"
  by (auto simp: record_effect_def contradict_def split: handler_splits)

lemma handle4_trace:
  assumes "handle4 e b s = Inr t"
  shows "r4_seen_ids t = r4_seen_ids s @ request_ids b \<and> r4_seen_nonces t = r4_seen_nonces s @ request_nonces b \<and>
    set (r4_contradictory s) \<union> set (started_actions b) \<subseteq> set (r4_contradictory t)"
proof (cases "(\<exists>rq. b = ResumeRequested rq) \<or> (\<exists>a. b = OutcomeUnknownRemains a) \<or> (\<exists>u a. b = ActionFact u a) \<or>
    (\<exists>eo. b = EffectOutcome eo)")
  case True
  then show ?thesis
    using assms by (auto simp: resume_requested_def contradict_def split: if_split_asm dest!: record_effect_trace)
next
  case False
  then have "trace_view t = trace_view s"
    using assms by (cases b) (simp_all add: trace_lemmas split: if_split_asm, auto)
  moreover from False have "request_ids b = []" "request_nonces b = []" "started_actions b = []"
    by (cases b; simp)+
  ultimately show ?thesis by (simp add: trace_view_def)
qed


text \<open>Each attempt, fence advance and seal moves the fence.\<close>

definition fence_view where
  "fence_view s = (r4_fence s, r4_ordinal s, r4_sealed s)"

lemma attempt_started_fence:
  assumes "attempt_started e a s = Inr t"
  shows "fence_view t = (at_fence a, Some (at_ordinal a), r4_sealed s) \<and>
    (case r4_ordinal s of None \<Rightarrow> at_ordinal a = 1 \<and> at_fence a = 0
     | Some n \<Rightarrow> at_ordinal a = n + 1 \<and> at_fence a = r4_fence s + 1)"
  using assms
  by (auto simp: attempt_started_def consume_request_def initial_attempt_bound_def begin_attempt_def
      deactivate_all_def fence_view_def split: handler_splits)

lemma advance_fence_fence:
  "advance_fence r p f owners s = Inr t \<Longrightarrow>
     f = r4_fence s + 1 \<and> r4_attempt s \<noteq> None \<and> fence_view t = (f, r4_ordinal s, r4_sealed s)"
  by (auto simp: advance_fence_def fence_view_def split: if_split_asm dest!: invalidate_owners_frame)

lemma seal_run_fence:
  "seal_run p f s = Inr t \<Longrightarrow> f = r4_fence s + 1 \<and> fence_view t = (f, r4_ordinal s, True)"
  by (auto simp: seal_run_def deactivate_all_def fence_view_def split: if_split_asm)

lemma leases_fence:
  "acquire_lease ref la s = Inr t \<Longrightarrow> fence_view t = fence_view s"
  "record_heartbeat hb s = Inr t \<Longrightarrow> fence_view t = fence_view s"
  "release_lease ref f s = Inr t \<Longrightarrow> fence_view t = fence_view s"
  by (auto simp: acquire_lease_def record_heartbeat_def release_lease_def put_lease_def fence_view_def
      split: handler_splits)

lemma handle4_fence:
  assumes "handle4 e b s = Inr t" and "fences_set b = []"
  shows "fence_view t = fence_view s \<and> attempt_ordinals b = []"
proof (cases "touches_leases b")
  case False
  then show ?thesis
    using handle4_view [OF assms(1)] by (cases b) (simp_all add: lease_view_def fence_view_def)
next
  case True
  then show ?thesis using assms by (cases b) (simp_all add: leases_fence)
qed

definition counts_up :: "int list \<Rightarrow> bool" where
  "counts_up ns \<longleftrightarrow> ns = map (\<lambda>i. int i + 1) [0..<length ns]"

lemma counts_up_simps [simp]:
  "counts_up []" "counts_up (ns @ [n]) \<longleftrightarrow> counts_up ns \<and> n = int (length ns) + 1"
  "counts_up [n] \<longleftrightarrow> n = 1"
  by (auto simp: counts_up_def)

definition fences_recorded :: "event4 list \<Rightarrow> reducer4 \<Rightarrow> bool" where
  "fences_recorded es s \<longleftrightarrow>
     sorted_wrt (<) (along fences_set es) \<and> (\<forall>f\<in>set (along fences_set es). f \<le> r4_fence s) \<and>
     (r4_ordinal s = None \<longrightarrow> \<not> r4_sealed s \<longrightarrow> along fences_set es = []) \<and>
     counts_up (along attempt_ordinals es) \<and>
     r4_ordinal s = (if along attempt_ordinals es = [] then None
                     else Some (int (length (along attempt_ordinals es))))"

lemma fences_recorded_view: "fence_view t = fence_view s \<Longrightarrow> fences_recorded es t = fences_recorded es s"
  by (simp add: fence_view_def fences_recorded_def)

lemma fences_recorded_step:
  assumes "fences_recorded es s" and "handle4 e (e4_body e) s = Inr t" and "\<not> r4_sealed s"
    and "r4_ordinal s = None \<longleftrightarrow> r4_attempt s = None"
  shows "fences_recorded (es @ [e]) t"
proof (cases "fences_set (e4_body e) = []")
  case True
  from handle4_fence [OF assms(2) True] have "fence_view t = fence_view s" and o: "attempt_ordinals (e4_body e) = []"
    by auto
  then have "fences_recorded es t" using assms(1) fences_recorded_view by blast
  moreover have "along fences_set (es @ [e]) = along fences_set es"
    "along attempt_ordinals (es @ [e]) = along attempt_ordinals es"
    using True o by simp_all
  ultimately show ?thesis unfolding fences_recorded_def by metis
next
  case False
  then consider a where "e4_body e = AttemptStarted a" | r p f o' where "e4_body e = FenceAdvanced r p f o'"
    | p f where "e4_body e = TerminalSealed p f"
    by (cases "e4_body e") auto
  then show ?thesis
  proof cases
    case 1
    with assms(2) have "attempt_started e a s = Inr t" by simp
    from attempt_started_fence [OF this] show ?thesis
      using assms(1,3) 1
      by (auto simp: fences_recorded_def fence_view_def sorted_wrt_append split: option.splits if_splits)
  next
    case 2
    with assms(2) have "advance_fence r p f o' s = Inr t" by simp
    from advance_fence_fence [OF this] show ?thesis
      using assms 2 by (auto simp: fences_recorded_def fence_view_def sorted_wrt_append)
  next
    case 3
    with assms(2) have "seal_run p f s = Inr t" by simp
    from seal_run_fence [OF this] show ?thesis
      using assms 3 by (auto simp: fences_recorded_def fence_view_def sorted_wrt_append)
  qed
qed


lemma fresh_requests:
  assumes "handle4 e b s = Inr t"
  shows "distinct (request_ids b) \<and> set (request_ids b) \<inter> set (r4_seen_ids s) = {} \<and>
    distinct (request_nonces b) \<and> set (request_nonces b) \<inter> set (r4_seen_nonces s) = {}"
  using assms by (cases b) (auto simp: resume_requested_def split: if_split_asm)

subsection \<open>The record every accepted ledger extends\<close>

definition requests_recorded :: "event4 list \<Rightarrow> reducer4 \<Rightarrow> bool" where
  "requests_recorded es s \<longleftrightarrow>
     r4_seen_ids s = along request_ids es \<and> distinct (r4_seen_ids s) \<and>
     r4_seen_nonces s = along request_nonces es \<and> distinct (r4_seen_nonces s) \<and>
     set (along started_actions es) \<subseteq> set (r4_contradictory s)"

lemma requests_recorded_step:
  "requests_recorded es s \<Longrightarrow> handle4 e (e4_body e) s = Inr t \<Longrightarrow> requests_recorded (es @ [e]) t"
  using handle4_trace [of e "e4_body e" s t] fresh_requests [of e "e4_body e" s t]
  by (auto simp: requests_recorded_def)

definition record4 :: "event4 list \<Rightarrow> reducer4 \<Rightarrow> bool" where
  "record4 es s \<longleftrightarrow>
     lease_inv s \<and> flight_inv s \<and> fences_recorded es s \<and> requests_recorded es s \<and>
     (es = [] \<longrightarrow> s = reducer4_start)"

definition all_views where
  "all_views s = (lease_view s, flight_view s, trace_view s)"

lemma all_views_frame [simp]:
  "all_views (remember4 e s) = all_views s" "all_views (extend_scope e s) = all_views s"
  by (simp_all add: all_views_def lease_view_def flight_view_def)
    (simp_all add: remember4_def extend_scope_def split: body4.split option.split)

lemma record4_views:
  assumes "all_views t = all_views s" and "es \<noteq> []"
  shows "record4 es t = record4 es s"
proof -
  from assms(1) have "lease_view t = lease_view s" "flight_view t = flight_view s" "fence_view t = fence_view s"
    "trace_view t = trace_view s"
    by (simp_all add: all_views_def lease_view_def fence_view_def)
  then show ?thesis
    using assms(2) lease_view_inv [of t s] flight_view_inv [of t s] fences_recorded_view [of t s es]
    by (simp add: record4_def requests_recorded_def trace_view_def)
qed

lemma step4_cases:
  assumes "step4 i s e = Inr t"
  obtains f where "i = 0" "e4_body e = RunInitialized f" "t = remember4 e (s\<lparr>r4_fence := f\<rparr>)"
  | u where "i \<noteq> 0" "precheck4 s (e4_body e) = None" "handle4 e (e4_body e) s = Inr u"
      "t = remember4 e (extend_scope e u)"
  using assms by (auto simp: step4_def split: if_splits body4.splits option.splits sum.splits)

lemma precheck4_open: "precheck4 s b = None \<Longrightarrow> r4_state s \<noteq> Sealed"
  by (simp add: precheck4_def split: if_splits)

lemma start_record4: "record4 [] reducer4_start"
  by (simp add: record4_def reducer4_start_def lease_inv_def flight_inv_def fences_recorded_def requests_recorded_def)

lemma step4_record:
  assumes "record4 es s" and "step4 (length es) s e = Inr t"
  shows "record4 (es @ [e]) t"
  using assms(2)
proof (cases rule: step4_cases)
  case (1 f)
  then have "es = []" "s = reducer4_start" using assms(1) by (auto simp: record4_def)
  then have "record4 (es @ [e]) (s\<lparr>r4_fence := f\<rparr>)"
    using 1 by (simp add: record4_def reducer4_start_def lease_inv_def flight_inv_def fences_recorded_def
        requests_recorded_def)
  then show ?thesis using 1(3) record4_views [OF all_views_frame(1)] by simp
next
  case (2 u)
  from assms(1) have inv: "lease_inv s" "flight_inv s" "fences_recorded es s" "requests_recorded es s"
    by (auto simp: record4_def)
  then have open': "\<not> r4_sealed s" and attempt: "r4_ordinal s = None \<longleftrightarrow> r4_attempt s = None"
    using precheck4_open [OF 2(2)] by (auto simp: flight_inv_def)
  have "record4 (es @ [e]) u"
    using handle4_lease_inv [OF inv(1) 2(3) open' attempt] handle4_flight_inv [OF inv(2) 2(3) open']
      fences_recorded_step [OF inv(3) 2(3) open' attempt] requests_recorded_step [OF inv(4) 2(3)]
    by (simp add: record4_def)
  moreover have "all_views t = all_views u" using 2(4) by simp
  ultimately show ?thesis using record4_views by blast
qed

interpretation v04: recorded_reducer step4 reducer4_start record4
  by unfold_locales (rule start_record4, rule step4_record)

lemmas v04_replay = v04.replay_record [folded reduceRuntimeEventPrefixV04_def]

lemma reconciliation_refuses: "\<not> mode_permits ReconciliationOnly cs (ActionAdmitted p)"
  by (simp add: mode_permits_def RESTRICTED_SHARED_EVENT_TYPES_def RECONCILIATION_EVIDENCE_EVENT_TYPES_def)

lemma handle4_in_flight:
  assumes "handle4 e b s = Inr t"
  shows "set (r4_in_flight t) \<subseteq> set (r4_in_flight s) \<or> (\<exists>p. b = ActionAdmitted p)"
proof (cases "touches_flight b")
  case False
  then show ?thesis using handle4_flight_view [OF assms] by (simp add: flight_view_def)
next
  case True
  then show ?thesis
    using assms
    by (cases b) (auto simp: attempt_started_def begin_attempt_def settle_action_def enter_pause_def
        seal_run_def deactivate_all_def split: handler_splits dest!: consume_request_flight
        simp: flight_view_def)
qed

subsection \<open>The fence and its advances\<close>

fun advances :: "body4 \<Rightarrow> int list" where
  "advances (FenceAdvanced _ _ f _) = [f]"
| "advances _ = []"

fun seals :: "body4 \<Rightarrow> int list" where
  "seals (TerminalSealed _ f) = [f]"
| "seals _ = []"

text \<open>A recovery attempt (any but the first) that no \<open>run.fence-advanced\<close> follows.\<close>

definition recovery_unfenced :: "event4 list \<Rightarrow> bool" where
  "recovery_unfenced es \<longleftrightarrow>
     (\<exists>as e bs a. es = as @ e # bs \<and> e4_body e = AttemptStarted a \<and> 1 < at_ordinal a \<and> along advances bs = [])"

lemma recovery_unfenced_Nil [simp]: "\<not> recovery_unfenced []"
  by (simp add: recovery_unfenced_def)

lemma recovery_unfenced_snoc:
  "recovery_unfenced (es @ [e]) \<longleftrightarrow>
     (\<exists>a. e4_body e = AttemptStarted a \<and> 1 < at_ordinal a) \<or> advances (e4_body e) = [] \<and> recovery_unfenced es"
proof
  assume "recovery_unfenced (es @ [e])"
  then obtain as x bs a where eq: "es @ [e] = as @ x # bs" and x: "e4_body x = AttemptStarted a" "1 < at_ordinal a"
    and none: "along advances bs = []" by (auto simp: recovery_unfenced_def)
  show "(\<exists>a. e4_body e = AttemptStarted a \<and> 1 < at_ordinal a) \<or> advances (e4_body e) = [] \<and> recovery_unfenced es"
  proof (cases bs rule: rev_cases)
    case Nil
    with eq x show ?thesis by auto
  next
    case (snoc ys y)
    with eq have "es = as @ x # ys" "y = e" by auto
    with x none snoc show ?thesis by (auto simp: recovery_unfenced_def)
  qed
next
  assume "(\<exists>a. e4_body e = AttemptStarted a \<and> 1 < at_ordinal a) \<or> advances (e4_body e) = [] \<and> recovery_unfenced es"
  then show "recovery_unfenced (es @ [e])"
  proof
    assume "\<exists>a. e4_body e = AttemptStarted a \<and> 1 < at_ordinal a"
    then obtain a where "e4_body e = AttemptStarted a" "1 < at_ordinal a" by blast
    then have "es @ [e] = es @ e # [] \<and> e4_body e = AttemptStarted a \<and> 1 < at_ordinal a \<and> along advances [] = []" by simp
    then show ?thesis unfolding recovery_unfenced_def by blast
  next
    assume "advances (e4_body e) = [] \<and> recovery_unfenced es"
    then obtain as x bs a where "es @ [e] = as @ x # (bs @ [e])" "e4_body x = AttemptStarted a" "1 < at_ordinal a"
      "along advances (bs @ [e]) = []" by (auto simp: recovery_unfenced_def)
    then show ?thesis unfolding recovery_unfenced_def by blast
  qed
qed

definition fence_followed :: "event4 list \<Rightarrow> reducer4 \<Rightarrow> bool" where
  "fence_followed es s \<longleftrightarrow>
     record4 es s \<and>
     (list_all (body4_typed \<circ> e4_body) es \<longrightarrow> \<not> r4_sealed s \<longrightarrow>
        along seals es = [] \<and> last (0 # along advances es) \<le> r4_fence s \<and>
        (r4_fence s = last (0 # along advances es) \<longleftrightarrow> \<not> recovery_unfenced es))"

lemma views_fence: "all_views t = all_views s \<Longrightarrow> r4_fence t = r4_fence s \<and> r4_sealed t = r4_sealed s"
  by (simp add: all_views_def lease_view_def)

lemma advances_among: "along fences_set es = [] \<Longrightarrow> along advances es = [] \<and> \<not> recovery_unfenced es"
proof (induction es rule: rev_induct)
  case (snoc e es)
  then show ?case by (cases "e4_body e") (auto simp: recovery_unfenced_snoc)
qed simp

lemma fence_followed_step:
  assumes inv: "fence_followed es s" and step: "step4 (length es) s e = Inr t"
  shows "fence_followed (es @ [e]) t"
proof -
  have "record4 (es @ [e]) t" using step4_record inv step by (auto simp: fence_followed_def)
  moreover have "along seals (es @ [e]) = [] \<and> last (0 # along advances (es @ [e])) \<le> r4_fence t \<and>
      (r4_fence t = last (0 # along advances (es @ [e])) \<longleftrightarrow> \<not> recovery_unfenced (es @ [e]))"
    if typed: "list_all (body4_typed \<circ> e4_body) (es @ [e])" and unsealed: "\<not> r4_sealed t"
    using step
  proof (cases rule: step4_cases)
    case (1 f)
    then have "es = []" by simp
    with 1 typed show ?thesis by (simp add: remember4_def recovery_unfenced_snoc [of "[]", simplified])
  next
    case (2 u)
    from inv have rec: "fences_recorded es s" and open': "\<not> r4_sealed s"
      using precheck4_open [OF 2(2)] by (auto simp: fence_followed_def record4_def flight_inv_def)
    with inv typed have old: "along seals es = []" "last (0 # along advances es) \<le> r4_fence s"
      "r4_fence s = last (0 # along advances es) \<longleftrightarrow> \<not> recovery_unfenced es" by (auto simp: fence_followed_def)
    have t: "r4_fence t = r4_fence u" "r4_sealed u = r4_sealed t" using views_fence [of t u] 2(4) by simp_all
    show ?thesis
    proof (cases "fences_set (e4_body e) = []")
      case True
      with handle4_fence [OF 2(3) True] have "r4_fence u = r4_fence s" by (simp add: fence_view_def)
      with True old t show ?thesis by (cases "e4_body e") (simp_all add: recovery_unfenced_snoc)
    next
      case False
      then consider a where "e4_body e = AttemptStarted a" | r p f o' where "e4_body e = FenceAdvanced r p f o'"
        | p f where "e4_body e = TerminalSealed p f"
        by (cases "e4_body e") auto
      then show ?thesis
      proof cases
        case (1 a)
        with 2(3) have started: "attempt_started e a s = Inr u" by simp
        show ?thesis
        proof (cases "r4_ordinal s")
          case None
          with rec open' have "along fences_set es = []" by (simp add: fences_recorded_def)
          from advances_among [OF this] attempt_started_fence [OF started] None 1 old(1) t show ?thesis
            by (simp add: recovery_unfenced_snoc fence_view_def)
        next
          case (Some n)
          with rec have "0 < n" by (auto simp: fences_recorded_def split: if_splits)
          with attempt_started_fence [OF started] Some 1 old(1,2) t show ?thesis
            by (simp add: recovery_unfenced_snoc fence_view_def)
        qed
      next
        case (2 r p f o')
        with \<open>handle4 e (e4_body e) s = Inr u\<close> have "advance_fence r p f o' s = Inr u" by simp
        from advance_fence_fence [OF this] 2 old(1) t show ?thesis
          by (simp add: recovery_unfenced_snoc fence_view_def)
      next
        case (3 p f)
        with 2(3) have "seal_run p f s = Inr u" by simp
        from seal_run_fence [OF this] t unsealed show ?thesis by (simp add: fence_view_def)
      qed
    qed
  qed
  ultimately show ?thesis by (simp add: fence_followed_def)
qed

interpretation v04_fence: recorded_reducer step4 reducer4_start fence_followed
proof unfold_locales
  show "fence_followed [] reducer4_start" using start_record4 by (simp add: fence_followed_def reducer4_start_def)
qed (rule fence_followed_step)

lemmas fence_replay = v04_fence.replay_record [folded reduceRuntimeEventPrefixV04_def]

subsection \<open>Properties\<close>

text \<open>
  C27: fencing: in every accepted ledger the active owner leases belong to the current
  attempt, under a fence that has been in force, so an owner of an earlier attempt is never
  active again; a paused or sealed run has no action in flight, and a sealed run has no active owner at all.
\<close>

theorem v04_active_leases_current:
  assumes "reduceRuntimeEventPrefixV04 events = Inr s"
  shows "list_all (\<lambda>l. r4_attempt s = Some (ow_attempt l) \<and> ow_fence l \<le> r4_fence s)
           (filter ow_active (r4_store s)) \<and>
    distinct (r4_in_flight s) \<and>
    (if r4_state s = Sealed then filter ow_active (r4_store s) = [] \<and> r4_freeze s else True) \<and>
    (if r4_state s \<in> {Paused, Sealed} then r4_in_flight s = [] else True)"
proof -
  from v04_replay [OF assms] have "lease_inv s" "flight_inv s" by (auto simp: record4_def)
  then show ?thesis
    by (auto simp: list_all_iff lease_inv_def flight_inv_def in_set_conv_nth filter_empty_conv)
qed

text \<open>
  C28: attempts are numbered from one without a gap, every fence set by an attempt, a fence
  advance or a seal is larger than all before it, and no recovery request identifier and no
  nonce occurs twice in an accepted ledger.
\<close>

theorem v04_attempts_and_fences:
  assumes "reduceRuntimeEventPrefixV04 events = Inr s"
  shows "along attempt_ordinals events = map (\<lambda>i. int i + 1) [0..<length (along attempt_ordinals events)] \<and>
    sorted_wrt (<) (along fences_set events) \<and>
    distinct (along request_ids events) \<and> distinct (along request_nonces events)"
  using v04_replay [OF assms] unfolding record4_def fences_recorded_def requests_recorded_def counts_up_def
  by (metis (no_types, lifting))

text \<open>
  An action is proven not to have started only if no start, progress or end of its
  execution was recorded before.
\<close>

theorem v04_non_start_unstarted:
  assumes "reduceRuntimeEventPrefixV04 (before @ e # after) = Inr s" and "e4_body e = ProvenNonStart n"
  shows "ns_action n \<notin> set (along started_actions before)"
proof -
  from assms(1) obtain u v where u: "record4 before u" "step4 (length before) u e = Inr v"
    unfolding reduceRuntimeEventPrefixV04_def by (rule v04.replay_at)
  from u(2) have "non_start_proven n u"
    by (rule step4_cases) (use assms(2) in \<open>auto simp: reconcile_non_start_def split: if_splits\<close>)
  then show ?thesis using u(1) by (auto simp: record4_def requests_recorded_def non_start_proven_def)
qed

text \<open>
  A restricted attempt does no ordinary work: while the current attempt is for
  reconciliation only, an accepted event puts no action in flight.
\<close>

theorem v04_reconciliation_admits_nothing:
  assumes "reduceRuntimeEventPrefixV04 events = Inr s" and "r4_mode s = Some ReconciliationOnly"
    and "reduceRuntimeEventPrefixV04 (events @ [e]) = Inr t"
  shows "set (r4_in_flight t) \<subseteq> set (r4_in_flight s)"
proof -
  from assms(1,3) have step: "step4 (length events) s e = Inr t"
    by (auto simp: reduceRuntimeEventPrefixV04_def fold_events_snoc)
  from step show ?thesis
  proof (cases rule: step4_cases)
    case (1 f)
    then show ?thesis by (simp add: remember4_def)
  next
    case (2 u)
    then have "flight_view t = flight_view u" using all_views_frame by (metis all_views_def prod.inject)
    moreover have "mode_permits ReconciliationOnly (r4_scope s) (e4_body e)"
      using 2(2) assms(2) by (auto simp: precheck4_def split: if_splits)
    then have "\<nexists>p. e4_body e = ActionAdmitted p" using reconciliation_refuses by metis
    ultimately show ?thesis
      using handle4_in_flight [OF 2(3)] by (simp add: flight_view_def)
  qed
qed


subsection \<open>A concrete ledger\<close>

text \<open>
  An action is admitted and never entered, the run is resumed for reconciliation only, the
  non-start is proven and settled with its effects, and the run is sealed.
\<close>

definition ev4 :: "int \<Rightarrow> string \<Rightarrow> body4 \<Rightarrow> event4" where
  "ev4 n src b = \<lparr>e4_sequence = n, e4_hash = ''h'', e4_previous = Some ''h'', e4_source = src,
     e4_run_id = ''run'', e4_body = b\<rparr>"

definition demo_identity :: execution_identity where
  "demo_identity = \<lparr>xi_adapter_invocation = ''inv'', xi_host = ''host'', xi_boot = ''boot'', xi_unit = ''u'',
     xi_cgroup = ''c''\<rparr>"

definition demo_attempt :: "int \<Rightarrow> attempt_mode \<Rightarrow> attempt_start" where
  "demo_attempt n m =
     \<lparr>at_ordinal = n, at_previous = (if n = 1 then None else Some (3, ''h'')),
      at_resume_ref = (if n = 1 then None else Some (5, ''h'')), at_nonce = (if n = 1 then None else Some ''nonce''),
      at_boundary = (2, ''h''), at_mode = m, at_owner_lease = ''owner'', at_deadline = 100, at_boot = ''boot'',
      at_clock = ''clk'', at_previous_fence = (if n = 1 then 0 else n - 2), at_fence = n - 1\<rparr>"

definition demo_request :: resume_request where
  "demo_request = \<lparr>rq_id = ''req'', rq_mode = ReconciliationOnly, rq_nonce = ''nonce'',
     rq_previous_attempt = (3, ''h''), rq_boundary = (2, ''h'')\<rparr>"

definition demo_admission :: json where
  "demo_admission =
     JObj [(''action_id'', JStr ''act''), (''task_ref'', JStr ''task''), (''parent_run_owner_lease_id'', JStr ''owner''),
           (''fence_epoch'', JInt 0),
           (''attempt_event_ref'', JObj [(''ledger_sequence'', JInt 3), (''event_hash'', JStr ''h'')]),
           (''side_effect_refs'', JArr [JStr ''eff''])]"

definition demo_non_entry :: non_entry where
  "demo_non_entry = \<lparr>ne_action = ''act'', ne_admission = (4, ''h''), ne_task = ''task'', ne_attempt = (3, ''h''),
     ne_fence = 0, ne_adapter_ref = ''ad'', ne_adapter_version = ''v'', ne_identity = demo_identity\<rparr>"

definition demo_non_start :: non_start where
  "demo_non_start = \<lparr>ns_action = ''act'', ns_task = ''task'', ns_admission = (4, ''h''), ns_attempt = (3, ''h''),
     ns_fence = 0, ns_adapter_invocation = ''inv'', ns_adapter_ref = ''ad'', ns_adapter_version = ''v'',
     ns_ack = (7, ''h''), ns_termination = (8, ''h'')\<rparr>"

definition demo_opening :: "event4 list" where
  "demo_opening =
     [ev4 1 ''loopeix'' (RunInitialized 0), ev4 2 ''loopeix'' RunStarted,
      ev4 3 ''loopeix'' (AttemptStarted (demo_attempt 1 Ordinary)),
      ev4 4 ''loopeix'' (ActionAdmitted demo_admission), ev4 5 ''loopeix'' (ResumeRequested demo_request),
      ev4 6 ''loopeix'' (AttemptStarted (demo_attempt 2 ReconciliationOnly)),
      ev4 7 ''loopeix'' (NonEntryAcknowledged demo_non_entry),
      ev4 8 ''loopeix'' (TerminationAttempted \<lparr>tm_trigger = ''reconciliation'', tm_trigger_ref = (7, ''h''),
        tm_admission = (4, ''h''), tm_identity = demo_identity, tm_outcome = ''terminated''\<rparr>)]"

definition demo_closing :: "event4 list" where
  "demo_closing =
     [ev4 10 ''integrity'' (EffectOutcome \<lparr>eo_action = ''act'', eo_outcome = ''not-committed'',
        eo_reconciliation = Some (9, ''h''), eo_task = ''task'', eo_effect = ''eff''\<rparr>),
      ev4 11 ''loopeix'' (ActionSettled \<lparr>st_action = ''act'', st_task = ''task'', st_terminal = (9, ''h''),
        st_outcomes = [(''not-committed'', ''eff'', (10, ''h''))]\<rparr>),
      ev4 12 ''loopeix'' FreezeEntered, ev4 13 ''loopeix'' (TerminalSealed 1 2)]"

definition demo_ledger4 :: "event4 list" where
  "demo_ledger4 = demo_opening @ ev4 9 ''integrity'' (ProvenNonStart demo_non_start) # demo_closing"

definition accepted_state :: "event4 list \<Rightarrow> reducer4" where
  "accepted_state es = projr (reduceRuntimeEventPrefixV04 es)"


lemma accepted_stateI: "isl (reduceRuntimeEventPrefixV04 es) = False \<Longrightarrow>
    reduceRuntimeEventPrefixV04 es = Inr (accepted_state es)"
  by (cases "reduceRuntimeEventPrefixV04 es") (simp_all add: accepted_state_def)

lemma demo_ledger4_accepted: "reduceRuntimeEventPrefixV04 demo_ledger4 = Inr (accepted_state demo_ledger4)"
  by (rule accepted_stateI) code_simp

theorem v04_active_leases_current_witness:
  "distinct (r4_in_flight (accepted_state demo_ledger4)) \<and>
   filter ow_active (r4_store (accepted_state demo_ledger4)) = [] \<and> r4_freeze (accepted_state demo_ledger4)"
proof -
  have "r4_state (accepted_state demo_ledger4) = Sealed" by code_simp
  then show ?thesis using v04_active_leases_current [OF demo_ledger4_accepted] by simp
qed

theorem v04_attempts_and_fences_witness:
  "sorted_wrt (<) (along fences_set demo_ledger4) \<and> distinct (along request_ids demo_ledger4)"
  using v04_attempts_and_fences [OF demo_ledger4_accepted] by simp

theorem v04_non_start_unstarted_witness: "ns_action demo_non_start \<notin> set (along started_actions demo_opening)"
  by (rule v04_non_start_unstarted [OF demo_ledger4_accepted [unfolded demo_ledger4_def]]) (simp add: ev4_def)

theorem v04_reconciliation_admits_nothing_witness:
  "set (r4_in_flight (accepted_state (demo_opening @ [ev4 9 ''integrity'' (ProvenNonStart demo_non_start)])))
     \<subseteq> set (r4_in_flight (accepted_state demo_opening))"
proof (rule v04_reconciliation_admits_nothing)
  show "reduceRuntimeEventPrefixV04 demo_opening = Inr (accepted_state demo_opening)"
    by (rule accepted_stateI) code_simp
  show "r4_mode (accepted_state demo_opening) = Some ReconciliationOnly" by code_simp
  show "reduceRuntimeEventPrefixV04 (demo_opening @ [ev4 9 ''integrity'' (ProvenNonStart demo_non_start)]) =
      Inr (accepted_state (demo_opening @ [ev4 9 ''integrity'' (ProvenNonStart demo_non_start)]))"
    by (rule accepted_stateI) code_simp
qed

end
