(* ===== verification/Limit_Counters_Laws.thy ===== *)
theory Limit_Counters_Laws
  imports Limit_Counters Reducer_V04_Laws
begin

text \<open>
  The projected counters are counts and sums over the ledger, the control output is the
  ledger's lines and its committed records, and the projection agrees with the reducer on
  attempts and actions in flight.
\<close>

subsection \<open>What the counters count\<close>

fun admitted_tasks :: "limit_body \<Rightarrow> string list" where
  "admitted_tasks (AdmissionCounted p) =
     (case actionAdmissionCounters p of None \<Rightarrow> [] | Some an \<Rightarrow> [an_task an])"
| "admitted_tasks _ = []"

fun spent_tokens :: "limit_body \<Rightarrow> int" where
  "spent_tokens (FinishCounted fi) = fi_tokens fi"
| "spent_tokens _ = 0"

fun spent_cost :: "limit_body \<Rightarrow> int" where
  "spent_cost (FinishCounted fi) = (case fi_cost fi of None \<Rightarrow> 0 | Some c \<Rightarrow> c)"
| "spent_cost _ = 0"

fun is_attempt :: "limit_body \<Rightarrow> bool" where
  "is_attempt (AttemptCounted _) = True"
| "is_attempt _ = False"

definition occurrences :: "'a \<Rightarrow> 'a list \<Rightarrow> int" where
  "occurrences x xs = int (length (filter (\<lambda>y. y = x) xs))"

lemma occurrences_simps [simp]: "occurrences x [] = 0" "occurrences x (xs @ ys) = occurrences x xs + occurrences x ys"
  "occurrences x (y # ys) = (if y = x then 1 else 0) + occurrences x ys"
  by (simp_all add: occurrences_def)

lemmas counting_defs = count_admission_def count_finish_def

lemma count_event_sums:
  assumes "count_event s b = Some t"
  shows "cn_execution t = cn_execution s + of_bool (is_attempt b)"
    "cn_tokens t = cn_tokens s + spent_tokens b" "cn_cost t = cn_cost s + spent_cost b"
  using assms
  by (cases b; auto simp: counting_defs bind_eq_Some_conv checkedAdd_Some Let_def
      split: if_split_asm option.split_asm prod.split_asm)+

lemma count_event_tasks:
  assumes "count_event s b = Some t"
  shows "map_of (cn_tasks t) k = map_option (\<lambda>n. n + occurrences k (admitted_tasks b)) (map_of (cn_tasks s) k)"
  using assms
  by (cases b) (auto simp: counting_defs bind_eq_Some_conv Let_def option.map_ident update_conv
      split: if_split_asm option.split_asm prod.split_asm)

lemma count_all_sums:
  "count_all s bs = Some t \<Longrightarrow>
     cn_execution t = cn_execution s + int (length (filter is_attempt bs)) \<and>
     cn_tokens t = cn_tokens s + sum_list (map spent_tokens bs) \<and>
     cn_cost t = cn_cost s + sum_list (map spent_cost bs) \<and>
     map_of (cn_tasks t) k = map_option (\<lambda>n. n + occurrences k (concat (map admitted_tasks bs))) (map_of (cn_tasks s) k)"
proof (induction bs arbitrary: s)
  case Nil
  then show ?case by (simp add: option.map_ident)
next
  case (Cons b bs)
  then obtain u where u: "count_event s b = Some u" "count_all u bs = Some t" by (auto split: option.splits)
  show ?case
    using Cons.IH [OF u(2)] count_event_sums [OF u(1)] count_event_tasks [OF u(1), of k]
    by (simp add: option.map_comp comp_def add.assoc add.left_commute)
qed

lemma start_tasks: "map_of (cn_tasks (counting_start tasks)) k = (if k \<in> set tasks then Some 0 else None)"
  by (simp add: counting_start_def map_of_map_restrict map_of_eq_None_iff restrict_map_def)

text \<open>
  The projected counters are the counts and sums of the ledger: started attempts, the tokens
  and cost of the finished executions, and for each task of the plan its admitted executions.
\<close>

theorem projected_counters_count:
  assumes "projectCounterStateFromPrefix tasks events control st = Some v"
  shows "ct_execution_attempts v = int (length (filter (is_attempt \<circ> le_limit) events)) \<and>
    ct_token_count v = sum_list (map (spent_tokens \<circ> le_limit) events) \<and>
    ct_cost_minor_units v = sum_list (map (spent_cost \<circ> le_limit) events) \<and>
    map_of (ct_task_executions v) k =
      (if k \<in> set tasks then Some (occurrences k (concat (map (admitted_tasks \<circ> le_limit) events))) else None)"
proof -
  from assms obtain s where s: "count_all (counting_start tasks) (map le_limit events) = Some s"
    "v = counters_of control s"
    by (auto simp: projectCounterStateFromPrefix_def split: option.splits if_splits)
  have "length (filter is_attempt (map le_limit events)) = length (filter (is_attempt \<circ> le_limit) events)"
    by (simp add: filter_map)
  with s count_all_sums [OF s(1), of k] start_tasks [of tasks k] show ?thesis
    by (auto simp: counters_of_def counting_start_def)
qed


subsection \<open>Control output\<close>

definition row_size :: "file_row \<Rightarrow> int" where
  "row_size r = (case fr_size r of None \<Rightarrow> 0 | Some n \<Rightarrow> n)"

lemma checked_sum_Some: "checked_sum a ns = Some b \<Longrightarrow> b = a + sum_list ns"
  by (induction ns arbitrary: a) (fastforce simp: checkedAdd_Some split: option.splits)+

lemma remove_row:
  "map_of rows path = Some row \<Longrightarrow> distinct (map fst rows) \<Longrightarrow>
     sum_list (map (row_size \<circ> snd) rows) = row_size row + sum_list (map (row_size \<circ> snd) (filter (\<lambda>r. fst r \<noteq> path) rows)) \<and>
     length rows = Suc (length (filter (\<lambda>r. fst r \<noteq> path) rows))"
proof (induction rows)
  case Nil
  then show ?case by simp
next
  case (Cons r rows)
  show ?case
  proof (cases "fst r = path")
    case True
    then have "\<forall>q\<in>set rows. fst q \<noteq> path" using Cons.prems(2) by (auto simp: image_iff)
    then have "filter (\<lambda>r. fst r \<noteq> path) rows = rows" by (rule filter_True)
    then show ?thesis using True Cons.prems(1) by (cases r) auto
  next
    case False
    then show ?thesis using Cons by (cases r) auto
  qed
qed

lemma committed_row_size: "committed_row row h = Some n \<Longrightarrow> row_size row = n"
  by (auto simp: committed_row_def row_size_def split: if_splits)

lemma commit_records_conserves:
  assumes "commit_records rows a n bs = Some (b, m)" and "distinct (map fst rows)"
  shows "\<exists>rest :: (string \<times> file_row) list. b + sum_list (map (row_size \<circ> snd) rest) = a + sum_list (map (row_size \<circ> snd) rows) \<and>
    m + length rest = n + length rows"
  using assms
proof (induction rows a n bs rule: commit_records.induct)
  case (1 rows a n)
  then have "a = b" "n = m" by simp_all
  then show ?case by blast
next
  case (2 rows a n path h size' bs)
  from "2.prems"(1) obtain row k t where row: "map_of rows path = Some row" "committed_row row h = Some k"
    "checkedAdd a k = Some t" and rest: "commit_records (filter (\<lambda>r. fst r \<noteq> path) rows) t (Suc n) bs = Some (b, m)"
    by (auto split: option.splits)
  have "distinct (map fst (filter (\<lambda>r. fst r \<noteq> path) rows))" using "2.prems"(2) by (rule distinct_map_filter)
  from "2.IH" [OF row rest this] obtain left :: "(string \<times> file_row) list" where left:
    "b + sum_list (map (row_size \<circ> snd) left) =
       t + sum_list (map (row_size \<circ> snd) (filter (\<lambda>r. fst r \<noteq> path) rows))"
    "m + length left = Suc n + length (filter (\<lambda>r. fst r \<noteq> path) rows)"
    by blast
  have "t = a + k" "row_size row = k" using row(2,3) committed_row_size by (auto simp: checkedAdd_Some)
  then have "b + sum_list (map (row_size \<circ> snd) left) = a + sum_list (map (row_size \<circ> snd) rows)"
    and "m + length left = n + length rows"
    using left remove_row [OF row(1) "2.prems"(2)] by linarith+
  then show ?case by blast
qed auto

text \<open>
  C32: the control output of a complete ledger is exactly its lines and the present summary records,
  each counted once: nothing that was written there is left out or counted twice.
\<close>

theorem control_bytes_exact:
  assumes "summaryRecordControlBytesAtPrefix ledger manifest (int (length (cl_line_bytes ledger))) True = Some v"
  shows "v = sum_list (cl_line_bytes ledger) +
    sum_list (map row_size (filter (\<lambda>r. fr_exists r \<and> starts_with ''summaries/records/'' (fr_path r))
      (rm_inventory manifest)))"
proof -
  define rows where "rows = filter (\<lambda>r. fr_exists r \<and> starts_with ''summaries/records/'' (fr_path r)) (rm_inventory manifest)"
  from assms obtain a n bs where a: "checked_sum 0 (cl_line_bytes ledger) = Some a" and d: "distinct (map fr_path rows)"
    and c: "commit_records (map (\<lambda>r. (fr_path r, r)) rows) a 0 bs = Some (v, n)" and n: "n = length rows"
    by (auto simp: summaryRecordControlBytesAtPrefix_def summedLedgerLineBytes_def rows_def Let_def
        split: option.splits if_splits)
  have "distinct (map fst (map (\<lambda>r. (fr_path r, r)) rows))" using d by (simp add: comp_def)
  from commit_records_conserves [OF c this] n
  have "v = a + sum_list (map row_size rows)" by (auto simp: comp_def)
  then show ?thesis using checked_sum_Some [OF a] by (simp add: rows_def)
qed

subsection \<open>Agreement with the reducer\<close>

lemma handle4_in_flight_same:
  assumes "handle4 e b s = Inr t"
  shows "(case b of
      ActionAdmitted p \<Rightarrow> (\<exists>ad. actionAdmissionBindings p = Some ad \<and> r4_in_flight t = r4_in_flight s @ [ad_action ad])
    | ActionSettled st \<Rightarrow> r4_in_flight t = filter (\<lambda>a. a \<noteq> st_action st) (r4_in_flight s)
    | _ \<Rightarrow> r4_in_flight t = r4_in_flight s)"
proof (cases "touches_flight b")
  case False
  then show ?thesis
    using handle4_flight_view [OF assms] by (cases b) (simp_all add: flight_view_def)
next
  case True
  then show ?thesis
    using assms
    by (cases b) (auto simp: admit_action_def attempt_started_def begin_attempt_def settle_action_def enter_pause_def
        seal_run_def deactivate_all_def flight_view_def split: handler_splits dest!: consume_request_flight)
qed

lemma handle4_ordinal:
  assumes "handle4 e b s = Inr t"
  shows "(case b of AttemptStarted a \<Rightarrow> r4_ordinal t = Some (at_ordinal a) | _ \<Rightarrow> r4_ordinal t = r4_ordinal s)"
proof (cases "fences_set b = []")
  case True
  then show ?thesis using handle4_fence [OF assms] by (cases b) (simp_all add: fence_view_def)
next
  case False
  then show ?thesis
    using assms
    by (cases b) (auto simp: fence_view_def dest!: attempt_started_fence advance_fence_fence seal_run_fence)
qed

lemma remember_extend [simp]:
  "r4_in_flight (remember4 e (extend_scope e s)) = r4_in_flight s"
  "r4_ordinal (remember4 e (extend_scope e s)) = r4_ordinal s"
  using all_views_frame [of e "extend_scope e s"] all_views_frame(2) [of e s]
  by (simp_all add: all_views_def flight_view_def lease_view_def)

definition counts_agree :: "counting \<Rightarrow> reducer4 \<Rightarrow> bool" where
  "counts_agree s st \<longleftrightarrow>
     cn_execution s = (case r4_ordinal st of None \<Rightarrow> 0 | Some n \<Rightarrow> n) \<and> cn_in_flight s = r4_in_flight st"

lemma bindings_action:
  "actionAdmissionBindings p = Some ad \<Longrightarrow> actionAdmissionCounters p = Some an \<Longrightarrow> ad_action ad = an_action an"
  by (auto simp: actionAdmissionBindings_def actionAdmissionCounters_def split: if_splits option.splits)

lemma counts_agree_step:
  assumes "counts_agree s st" and "handle4 e' (e4_body e) st = Inr st'" and "coherent e"
    and "count_event s (le_limit e) = Some s'"
  shows "counts_agree s' st'"
proof -
  note flight = handle4_in_flight_same [OF assms(2)] and ordinal = handle4_ordinal [OF assms(2)]
  show ?thesis
  proof (cases "e4_body e")
    case (AttemptStarted a)
    then show ?thesis
      using assms(1,3,4) flight ordinal
      by (auto simp: counts_agree_def coherent_def split: if_splits)
  next
    case (ActionAdmitted p)
    then show ?thesis
      using assms(1,3,4) flight ordinal
      by (auto simp: counts_agree_def coherent_def count_admission_def bind_eq_Some_conv dest: bindings_action
          split: if_splits)
  next
    case (ActionSettled st)
    then show ?thesis
      using assms(1,3,4) flight ordinal
      by (auto simp: counts_agree_def coherent_def split: if_splits)
  qed (use assms(1,3,4) flight ordinal in
      \<open>cases "le_limit e"; auto simp: counts_agree_def coherent_def counting_defs bind_eq_Some_conv Let_def
        split: if_split_asm option.split_asm prod.split_asm\<close>)+
qed


lemma counts_agree_init:
  assumes "counts_agree s st" and "e4_body e = RunInitialized f" and "coherent e"
    and "count_event s (le_limit e) = Some s'"
  shows "counts_agree s' (remember4 e' (st\<lparr>r4_fence := f\<rparr>))"
  using assms
  by (cases "le_limit e") (auto simp: counts_agree_def coherent_def remember4_def counting_defs bind_eq_Some_conv
      Let_def split: if_split_asm option.split_asm prod.split_asm)

lemma counts_agree_fold:
  assumes "fold_events step4 i st (map event4.truncate es) = Inr st'" and "counts_agree s st"
    and "list_all coherent es" and "count_all s (map le_limit es) = Some s'"
  shows "counts_agree s' st'"
  using assms
proof (induction es arbitrary: i s st)
  case Nil
  then show ?case by simp
next
  case (Cons e es)
  from Cons.prems(1) obtain u where u: "step4 i st (event4.truncate e) = Inr u"
    "fold_events step4 (Suc i) u (map event4.truncate es) = Inr st'"
    by (auto split: sum.splits)
  from Cons.prems(4) obtain r where r: "count_event s (le_limit e) = Some r" "count_all r (map le_limit es) = Some s'"
    by (auto split: option.splits)
  have body: "e4_body (event4.truncate e) = e4_body e" by (simp add: event4.defs)
  from u(1) have "counts_agree r u"
  proof (cases rule: step4_cases)
    case (1 f)
    then show ?thesis using counts_agree_init [OF Cons.prems(2) _ _ r(1)] Cons.prems(3) body by simp
  next
    case (2 v)
    then show ?thesis
      using counts_agree_step [OF Cons.prems(2) _ _ r(1), of "event4.truncate e" v] Cons.prems(3) body
      by (simp add: counts_agree_def)
  qed
  from Cons.IH [OF u(2) this _ r(2)] Cons.prems(3) show ?case by simp
qed

text \<open>
  C31: projection and reducer agree: on a ledger the reducer accepts, whose two readings of each
  payload are coherent, a successful count has the reducer's attempt ordinal and its actions in
  flight, so the comparison that ends the projection never refuses it.
\<close>

theorem projection_agrees_with_reducer:
  assumes "reduceRuntimeEventPrefixV04 (map event4.truncate events) = Inr st" and "list_all coherent events"
  shows "projectCounterStateFromPrefix tasks events control st =
    map_option (counters_of control) (count_all (counting_start tasks) (map le_limit events))"
proof (cases "count_all (counting_start tasks) (map le_limit events)")
  case (Some s)
  have "counts_agree (counting_start tasks) reducer4_start"
    by (simp add: counts_agree_def counting_start_def reducer4_start_def)
  from counts_agree_fold [OF assms(1) [unfolded reduceRuntimeEventPrefixV04_def] this assms(2) Some]
  have "agrees_with_state s st" by (simp add: counts_agree_def agrees_with_state_def)
  with Some show ?thesis by (simp add: projectCounterStateFromPrefix_def)
qed (simp add: projectCounterStateFromPrefix_def)

subsection \<open>A concrete projection\<close>

definition demo_limited :: "limited_event list" where
  "demo_limited =
     map (\<lambda>e. event4.extend e (limited_event.fields
       (case e4_body e of AttemptStarted a \<Rightarrow> AttemptCounted (at_ordinal a) | _ \<Rightarrow> Uncounted)))
       [ev4 1 ''loopeix'' (RunInitialized 0), ev4 2 ''loopeix'' RunStarted,
        ev4 3 ''loopeix'' (AttemptStarted (demo_attempt 1 Ordinary))]"

lemma demo_limited_accepted:
  "reduceRuntimeEventPrefixV04 (map event4.truncate demo_limited) = Inr (accepted_state (map event4.truncate demo_limited))"
  by (rule accepted_stateI) code_simp

definition demo_projected :: limit_counters where
  "demo_projected = the (projectCounterStateFromPrefix [''task-a''] demo_limited 90 (accepted_state (map event4.truncate demo_limited)))"

lemma demo_projection:
  "projectCounterStateFromPrefix [''task-a''] demo_limited 90 (accepted_state (map event4.truncate demo_limited)) =
     Some demo_projected"
proof -
  have "projectCounterStateFromPrefix [''task-a''] demo_limited 90 (accepted_state (map event4.truncate demo_limited)) \<noteq> None"
    by code_simp
  then show ?thesis by (auto simp: demo_projected_def)
qed

theorem projected_counters_count_witness:
  "ct_execution_attempts demo_projected = int (length (filter (is_attempt \<circ> le_limit) demo_limited)) \<and>
   map_of (ct_task_executions demo_projected) ''task-a'' =
     Some (occurrences ''task-a'' (concat (map (admitted_tasks \<circ> le_limit) demo_limited)))"
  using projected_counters_count [OF demo_projection, of "''task-a''"] by simp

theorem projection_agrees_with_reducer_witness:
  "projectCounterStateFromPrefix [''task-a''] demo_limited 90 (accepted_state (map event4.truncate demo_limited)) =
    map_option (counters_of 90) (count_all (counting_start [''task-a'']) (map le_limit demo_limited))"
  by (rule projection_agrees_with_reducer [OF demo_limited_accepted]) code_simp

definition demo_captured :: captured_ledger where
  "demo_captured =
     \<lparr>cl_run_id = ''run_a'', cl_plan_hash = ''h'',
      cl_events = map (\<lambda>e. event4.extend (ev4 e ''loopeix'' RunStarted) (limited_event.fields
        (if e = 2 then CompactionCounted ''summaries/records/a.json'' ''h'' 5 else Uncounted))) [1, 2],
      cl_line_bytes = [40, 50], cl_bytes = 90, cl_state = reducer4_start\<rparr>"

definition demo_manifest :: run_manifest where
  "demo_manifest = \<lparr>rm_run_id = ''run_a'', rm_plan_hash = ''h'',
     rm_inventory = [\<lparr>fr_path = ''summaries/records/a.json'', fr_exists = True, fr_family = ''record'',
       fr_required = True, fr_mode = 384, fr_size = Some 7, fr_hash = Some ''h''\<rparr>]\<rparr>"

theorem control_bytes_exact_witness:
  "(97 :: int) = sum_list (cl_line_bytes demo_captured) +
    sum_list (map row_size (filter (\<lambda>r. fr_exists r \<and> starts_with ''summaries/records/'' (fr_path r))
      (rm_inventory demo_manifest)))"
  by (rule control_bytes_exact) code_simp

end
