(* ===== verification/Limit_Rules_Laws.thy ===== *)
theory Limit_Rules_Laws
  imports Limit_Rules
begin

text \<open>
  What the accounting admits and what it keeps in reserve, and the closed form and bounds of
  the retry delays.
\<close>

subsection \<open>Admission\<close>

text \<open>Every total within its ceiling.\<close>

definition under :: "int \<Rightarrow> int option \<Rightarrow> bool" where
  "under v ceiling = (case ceiling of None \<Rightarrow> True | Some n \<Rightarrow> v \<le> n)"

definition within_ceilings :: "int limit_vector \<Rightarrow> int option limit_vector \<Rightarrow> bool" where
  "within_ceilings t k \<longleftrightarrow>
     lv_loop_attempts t \<le> lv_loop_attempts k \<and> lv_execution_attempts t \<le> lv_execution_attempts k \<and>
     task_compare (\<le>) True t k \<and> lv_elapsed_ms t \<le> lv_elapsed_ms k \<and> lv_tool_calls t \<le> lv_tool_calls k \<and>
     lv_action_output_bytes t \<le> lv_action_output_bytes k \<and>
     lv_control_output_bytes t \<le> lv_control_output_bytes k \<and>
     under (lv_token_count t) (lv_token_count k) \<and> under (lv_cost_minor_units t) (lv_cost_minor_units k) \<and>
     lv_workers t \<le> lv_workers k \<and> lv_process_runtime_ms t \<le> lv_process_runtime_ms k"

lemma evaluate_Some:
  "evaluateRuntimeLimitAccounting plan phase c r = Some v \<longleftrightarrow>
     limit_input_ok plan c r \<and>
     (\<exists>k t. limit_ceilings plan phase r = Some k \<and> limit_totals c r = Some t \<and>
        v = \<lparr>ac_admitted = limit_violations c r k = [] \<and> rows_where (\<lambda>v n. v > n) (limit_rows t k) = [] \<and>
                lv_execution_attempts t \<le> lv_execution_attempts k \<and> task_compare (\<le>) True t k,
              ac_execution_exhausted = (lv_execution_attempts t \<ge> lv_execution_attempts k),
              ac_task_exhausted = task_compare (\<ge>) False t k,
              ac_exhausted_refs = sort (remdups (rows_where (\<lambda>v n. v \<ge> n) (limit_rows t k))),
              ac_ceilings = k, ac_prospective = t, ac_remaining = limit_remaining k t,
              ac_violations = limit_violations c r k\<rparr>)"
  by (auto simp: evaluateRuntimeLimitAccounting_def Let_def bind_eq_Some_conv)

lemma totals_fields:
  assumes "limit_totals c r = Some t"
  shows "lv_loop_attempts t = ct_loop_attempts c + rq_loop_attempts r"
    "lv_execution_attempts t = ct_execution_attempts c + rq_execution_attempts r"
    "lv_elapsed_ms t = ct_elapsed_ms c + rq_elapsed_ms r" "lv_tool_calls t = ct_tool_calls c + rq_tool_calls r"
    "lv_action_output_bytes t = ct_action_output_bytes c + rq_action_output_bytes r"
    "lv_control_output_bytes t = ct_control_output_bytes c + rq_control_output_bytes r"
    "lv_token_count t = ct_token_count c + rq_token_count r"
    "lv_cost_minor_units t = ct_cost_minor_units c + rq_cost_minor_units r"
    "lv_workers t = ct_active_workers c + rq_workers r" "lv_process_runtime_ms t = rq_process_runtime_ms r"
  using assms by (auto simp: limit_totals_def bind_eq_Some_conv checkedAdd_Some)

lemma rows_over_Nil:
  "rows_where (\<lambda>v n. v > n) (limit_rows t k) = [] \<longleftrightarrow>
     lv_loop_attempts t \<le> lv_loop_attempts k \<and> lv_elapsed_ms t \<le> lv_elapsed_ms k \<and>
     lv_tool_calls t \<le> lv_tool_calls k \<and> lv_action_output_bytes t \<le> lv_action_output_bytes k \<and>
     lv_control_output_bytes t \<le> lv_control_output_bytes k \<and>
     under (lv_token_count t) (lv_token_count k) \<and> under (lv_cost_minor_units t) (lv_cost_minor_units k) \<and>
     lv_process_runtime_ms t \<le> lv_process_runtime_ms k \<and> lv_workers t \<le> lv_workers k"
  by (auto simp: rows_where_def limit_rows_def under_def not_less split: option.splits)

lemma addViolation_Nil: "under (a + d) k \<Longrightarrow> addViolation ref a d k = []"
  by (simp add: addViolation_def under_def split: option.splits)

lemma no_violations_within:
  assumes "limit_totals c r = Some t" and "within_ceilings t k"
  shows "limit_violations c r k = []"
  using assms(2) totals_fields [OF assms(1)]
  by (simp add: limit_violations_def within_ceilings_def addViolation_Nil under_def)

text \<open>
  C29: a request is admitted exactly when every counter, with the request added, stays within its
  ceiling; the eight violation checks add nothing to that.
\<close>

theorem admitted_iff_within:
  assumes "evaluateRuntimeLimitAccounting plan phase c r = Some v"
  shows "ac_admitted v \<longleftrightarrow> within_ceilings (ac_prospective v) (ac_ceilings v)"
proof -
  from assms obtain k t where t: "limit_totals c r = Some t" "ac_prospective v = t" "ac_ceilings v = k"
    and a: "ac_admitted v = (limit_violations c r k = [] \<and> rows_where (\<lambda>v n. v > n) (limit_rows t k) = [] \<and>
                lv_execution_attempts t \<le> lv_execution_attempts k \<and> task_compare (\<le>) True t k)"
    unfolding evaluate_Some by auto
  show ?thesis
    using no_violations_within [OF t(1), of k] unfolding a t(2,3) rows_over_Nil
    by (auto simp: within_ceilings_def)
qed


definition plus_reserve :: "int \<Rightarrow> int option \<Rightarrow> int" where
  "plus_reserve v reserve = v + (case reserve of None \<Rightarrow> 0 | Some k \<Rightarrow> k)"

lemma optional_subtract_under:
  "optional_subtract limit reserve = Some k \<Longrightarrow> under v k \<longleftrightarrow> under (plus_reserve v reserve) limit"
  by (auto simp: optional_subtract_def under_def plus_reserve_def checkedSubtract_Some split: option.splits)

text \<open>
  C30: admitted work never eats the reserves: with the recovery reserve added, and for output the
  control reserve too, every total of an admitted work request is still within the plan's
  limits, so that much is left for compensation.
\<close>

theorem admitted_work_keeps_reserve:
  assumes "evaluateRuntimeLimitAccounting plan Work c r = Some v" and "ac_admitted v"
  shows "ct_elapsed_ms c + rq_elapsed_ms r + rv_elapsed_ms (pl_reserve plan) \<le> lp_elapsed_ms (pl_limits plan) \<and>
    ct_tool_calls c + rq_tool_calls r + rv_tool_calls (pl_reserve plan) \<le> lp_tool_calls (pl_limits plan) \<and>
    ct_action_output_bytes c + rq_action_output_bytes r + rv_output_bytes (pl_reserve plan) +
      lp_control_reserve (pl_limits plan) \<le> lp_output_bytes (pl_limits plan) \<and>
    under (plus_reserve (ct_token_count c + rq_token_count r) (rv_tokens (pl_reserve plan))) (lp_tokens (pl_limits plan)) \<and>
    under (plus_reserve (ct_cost_minor_units c + rq_cost_minor_units r) (rv_cost (pl_reserve plan)))
      (lp_cost (pl_limits plan))"
proof -
  from assms(1) obtain k t where k: "limit_ceilings plan Work r = Some k" and t: "limit_totals c r = Some t"
    "ac_prospective v = t" "ac_ceilings v = k"
    unfolding evaluate_Some by auto
  have w: "within_ceilings t k" using admitted_iff_within [OF assms(1)] assms(2) t by simp
  from k obtain outputAfterControl where
    "checkedSubtract (lp_output_bytes (pl_limits plan)) (lp_control_reserve (pl_limits plan)) = Some outputAfterControl"
    "checkedSubtract outputAfterControl (rv_output_bytes (pl_reserve plan)) = Some (lv_action_output_bytes k)"
    "checkedSubtract (lp_elapsed_ms (pl_limits plan)) (rv_elapsed_ms (pl_reserve plan)) = Some (lv_elapsed_ms k)"
    "checkedSubtract (lp_tool_calls (pl_limits plan)) (rv_tool_calls (pl_reserve plan)) = Some (lv_tool_calls k)"
    and tokens: "optional_subtract (lp_tokens (pl_limits plan)) (rv_tokens (pl_reserve plan)) = Some (lv_token_count k)"
    and cost: "optional_subtract (lp_cost (pl_limits plan)) (rv_cost (pl_reserve plan)) = Some (lv_cost_minor_units k)"
    by (auto simp: limit_ceilings_def Let_def bind_eq_Some_conv)
  then show ?thesis
    using w totals_fields [OF t(1)] optional_subtract_under [OF tokens] optional_subtract_under [OF cost]
    by (auto simp: within_ceilings_def checkedSubtract_Some)
qed

subsection \<open>Retry delays\<close>

lemma double_delay_closed:
  assumes "0 < delay" and "delay \<le> maxDelay" and "maxDelay \<le> MAX_SAFE_INTEGER"
  shows "double_delay maxDelay delay n = Some (min maxDelay (delay * 2 ^ n))"
  using assms
proof (induction maxDelay delay n rule: double_delay.induct)
  case (1 maxDelay delay)
  then show ?case by simp
next
  case (2 maxDelay delay n)
  define d where "d = (if delay > maxDelay div 2 then maxDelay else delay * 2)"
  show ?case
  proof (cases "delay < maxDelay")
    case True
    have d: "0 < d" "d \<le> maxDelay" "isSafeInteger d"
      using "2.prems" True by (auto simp: d_def isSafeInteger_def MAX_SAFE_INTEGER_def)
    have "double_delay maxDelay d n = Some (min maxDelay (d * 2 ^ n))"
      using "2.IH" [OF True refl] d "2.prems"(3) unfolding d_def by blast
    moreover have "min maxDelay (d * 2 ^ n) = min maxDelay (delay * 2 ^ Suc n)"
    proof (cases "delay > maxDelay div 2")
      case True
      have "maxDelay \<le> delay * 2 * 2 ^ n"
      proof -
        have "maxDelay \<le> delay * 2 * 1" using True by linarith
        also have "\<dots> \<le> delay * 2 * 2 ^ n" using "2.prems"(1) by (intro mult_left_mono) auto
        finally show ?thesis .
      qed
      moreover have "maxDelay * 1 \<le> maxDelay * 2 ^ n" using "2.prems" by (intro mult_left_mono) auto
      ultimately show ?thesis using True by (simp add: d_def mult.assoc)
    qed (simp add: d_def)
    ultimately show ?thesis using True d(3) by (simp add: d_def Let_def)
  next
    case False
    then have "delay = maxDelay" using "2.prems"(2) by simp
    moreover have "(1 :: int) \<le> 2 ^ Suc n" by (rule one_le_power) simp
    then have "maxDelay * 1 \<le> maxDelay * 2 ^ Suc n" using "2.prems" by (intro mult_left_mono) auto
    ultimately show ?thesis by simp
  qed
qed

text \<open>
  The exponential delay after the n-th failure is the base doubled n - 1 times, capped by the
  maximum: the loop, which halves the maximum rather than letting a product overflow, computes
  exactly that for every ordinal.
\<close>

theorem exponential_backoff_closed:
  assumes "rr_retryable rule" and "rr_backoff rule = Exponential" and "nat_safe (rr_max_delay_ms rule)"
  shows "deterministicBackoff rule n =
    (if 0 < rr_base_delay_ms rule \<and> rr_base_delay_ms rule \<le> rr_max_delay_ms rule
     then Some (min (rr_max_delay_ms rule) (rr_base_delay_ms rule * 2 ^ nat (n - 1))) else None)"
  using assms double_delay_closed [of "rr_base_delay_ms rule" "rr_max_delay_ms rule" "nat (n - 1)"]
  by (auto simp: deterministicBackoff_def nat_safe_def)

lemma backoff_bounds:
  assumes "deterministicBackoff rule n = Some b" and "nat_safe (rr_max_delay_ms rule)"
  shows "0 \<le> b \<and> b \<le> rr_max_delay_ms rule"
proof (cases "rr_retryable rule \<and> rr_backoff rule = Exponential")
  case True
  then have "b = min (rr_max_delay_ms rule) (rr_base_delay_ms rule * 2 ^ nat (n - 1))" "0 < rr_base_delay_ms rule"
    "0 < rr_max_delay_ms rule"
    using assms exponential_backoff_closed [of rule n] by (auto split: if_splits)
  then show ?thesis by simp
next
  case False
  then show ?thesis
    using assms by (cases "rr_backoff rule") (auto simp: deterministicBackoff_def nat_safe_def split: if_splits)
qed

text \<open>
  A scheduled delay is between zero and the rule's maximum and differs from the deterministic
  delay by at most the jitter window, which is at most a second and a fifth of that delay, for
  every digest. A schedule is missing only if the input is malformed, the rule is inconsistent
  or the delay is within a second of the largest safe integer.
\<close>

theorem retry_delay_bounds:
  "(case scheduleRuntimeRetry dg inp of
      Some s \<Rightarrow>
        0 \<le> rs_delay_ms s \<and> rs_delay_ms s \<le> rr_max_delay_ms (ri_rule inp) \<and>
        \<bar>rs_delay_ms s - rs_backoff_ms s\<bar> \<le> rs_jitter_window_ms s \<and>
        rs_jitter_window_ms s \<le> 1000 \<and> 5 * rs_jitter_window_ms s \<le> rs_backoff_ms s \<and>
        deterministicBackoff (ri_rule inp) (ri_ordinal inp) = Some (rs_backoff_ms s)
    | None \<Rightarrow>
        \<not> (retry_parse inp \<and>
           (\<exists>b \<le> MAX_SAFE_INTEGER - 1000. deterministicBackoff (ri_rule inp) (ri_ordinal inp) = Some b)))"
proof (cases "retry_parse inp")
  case False
  then show ?thesis by (simp add: scheduleRuntimeRetry_def)
next
  case True
  show ?thesis
  proof (cases "deterministicBackoff (ri_rule inp) (ri_ordinal inp)")
    case None
    then show ?thesis using True by (simp add: scheduleRuntimeRetry_def)
  next
    case (Some b)
    have safe: "nat_safe (rr_max_delay_ms (ri_rule inp))" using True by (simp add: retry_parse_def)
    have b: "0 \<le> b" "b \<le> rr_max_delay_ms (ri_rule inp)" using backoff_bounds [OF Some safe] by auto
    define w where "w = min 1000 (b div 5)"
    define j where "j = dg_six_bytes dg (retry_identity inp) mod (2 * w + 1) - w"
    have w: "0 \<le> w" "w \<le> 1000" "5 * w \<le> b" using b(1) by (auto simp: w_def)
    have j: "- w \<le> j" "j \<le> w"
      using pos_mod_bound [of "2 * w + 1" "dg_six_bytes dg (retry_identity inp)"]
        pos_mod_sign [of "2 * w + 1" "dg_six_bytes dg (retry_identity inp)"] w(1)
      unfolding j_def by linarith+
    show ?thesis
      using True Some b w j safe
      by (auto simp: scheduleRuntimeRetry_def Let_def w_def [symmetric] j_def [symmetric] isSafeInteger_def
          nat_safe_def MAX_SAFE_INTEGER_def)
  qed
qed


subsection \<open>A concrete plan\<close>

definition demo_plan :: limit_plan where
  "demo_plan =
     \<lparr>pl_tasks = [''task-a''],
      pl_limits = \<lparr>lp_loop_attempts = 3, lp_elapsed_ms = 1000, lp_tool_calls = 20, lp_output_bytes = 500,
        lp_control_reserve = 100, lp_tokens = Some 900, lp_cost = None, lp_workers = 2\<rparr>,
      pl_reserve = \<lparr>rv_elapsed_ms = 200, rv_tool_calls = 5, rv_output_bytes = 50, rv_tokens = Some 100, rv_cost = None\<rparr>,
      pl_compensation_workers = 1, pl_execution_attempts = 2, pl_process_runtime_ms = 600,
      pl_retry_rules = [(''task-a'', 2)]\<rparr>"

definition demo_counters :: limit_counters where
  "demo_counters =
     \<lparr>ct_loop_attempts = 1, ct_execution_attempts = 1, ct_task_executions = [(''task-a'', 1)], ct_elapsed_ms = 300,
      ct_tool_calls = 10, ct_action_output_bytes = 100, ct_control_output_bytes = 20, ct_token_count = 400,
      ct_cost_minor_units = 7, ct_active_workers = 0\<rparr>"

definition demo_limit_request :: limit_request where
  "demo_limit_request =
     \<lparr>rq_task_ref = Some ''task-a'', rq_loop_attempts = 0, rq_execution_attempts = 0, rq_task_executions = 1,
      rq_elapsed_ms = 500, rq_tool_calls = 5, rq_action_output_bytes = 250, rq_control_output_bytes = 0,
      rq_token_count = 400, rq_cost_minor_units = 1, rq_workers = 1, rq_process_runtime_ms = 600\<rparr>"

definition demo_accounting :: accounting where
  "demo_accounting = the (evaluateRuntimeLimitAccounting demo_plan Work demo_counters demo_limit_request)"

lemma demo_accounting_admitted:
  "evaluateRuntimeLimitAccounting demo_plan Work demo_counters demo_limit_request = Some demo_accounting"
  "ac_admitted demo_accounting"
proof -
  have "evaluateRuntimeLimitAccounting demo_plan Work demo_counters demo_limit_request \<noteq> None" by code_simp
  then show "evaluateRuntimeLimitAccounting demo_plan Work demo_counters demo_limit_request = Some demo_accounting"
    by (auto simp: demo_accounting_def)
  show "ac_admitted demo_accounting" by code_simp
qed

theorem admitted_iff_within_witness:
  "ac_admitted demo_accounting = within_ceilings (ac_prospective demo_accounting) (ac_ceilings demo_accounting)"
  by (rule admitted_iff_within [OF demo_accounting_admitted(1)])

theorem admitted_work_keeps_reserve_witness:
  "ct_tool_calls demo_counters + rq_tool_calls demo_limit_request + rv_tool_calls (pl_reserve demo_plan)
     \<le> lp_tool_calls (pl_limits demo_plan)"
  using admitted_work_keeps_reserve [OF demo_accounting_admitted] by blast

theorem exponential_backoff_closed_witness:
  "deterministicBackoff \<lparr>rr_retryable = True, rr_backoff = Exponential, rr_base_delay_ms = 100, rr_max_delay_ms = 1000\<rparr> 5 =
     Some 1000"
  using exponential_backoff_closed [of "\<lparr>rr_retryable = True, rr_backoff = Exponential, rr_base_delay_ms = 100,
      rr_max_delay_ms = 1000\<rparr>" 5]
  by (simp add: nat_safe_def MAX_SAFE_INTEGER_def)

end
