(* ===== verification/Lock.thy ===== *)
theory Lock
  imports Main
begin

text \<open>
  The advisory file lock (\<open>src/lock.ts\<close>) as interleaved steps of several processes on
  one lock file. Each file system call (\<open>link\<close>, a read, \<open>rename\<close>, \<open>unlink\<close>) is one
  step; a process decides on what it read at an earlier step. \<open>Unreadable\<close> is a file
  whose content \<open>readLockFile\<close> gives null for. A temporary file is private to its process.
\<close>

subsection \<open>Contents, processes and their program points\<close>

record lock_info =
  li_pid :: int
  li_acquired_at :: int
  li_host :: string

datatype lock_file = Absent | Unreadable | Record lock_info

fun readLockFile :: "lock_file \<Rightarrow> lock_info option" where
  "readLockFile (Record i) = (if li_pid i \<le> 0 then None else Some i)"
| "readLockFile _ = None"

record lock_config =
  lc_info :: "nat \<Rightarrow> lock_info"      \<comment> \<open>what each process writes\<close>
  lc_staleMs :: int
  lc_isAlive :: "int \<Rightarrow> bool"

datatype point =
    Start
  | Exists                        \<comment> \<open>\<open>link\<close> failed with EEXIST\<close>
  | Saw "lock_info option"        \<comment> \<open>the holder it read\<close>
  | Stealing
  | Renamed
  | Holding
  | Refused
  | Unlinking                     \<comment> \<open>release found its own record\<close>
  | Released

record lock_world =
  lw_file :: lock_file
  lw_point :: "nat \<Rightarrow> point"
  lw_clock :: int

definition same_holder :: "lock_info option \<Rightarrow> lock_info \<Rightarrow> bool" where
  "same_holder after info \<longleftrightarrow>
     (case after of None \<Rightarrow> False
      | Some a \<Rightarrow> li_pid a = li_pid info \<and> li_acquired_at a = li_acquired_at info)"

definition is_stale :: "lock_config \<Rightarrow> int \<Rightarrow> int \<Rightarrow> lock_info option \<Rightarrow> bool" where
  "is_stale cfg now pid holder \<longleftrightarrow>
     (case holder of None \<Rightarrow> True
      | Some h \<Rightarrow> now - li_acquired_at h > lc_staleMs cfg \<or> (li_pid h \<noteq> pid \<and> \<not> lc_isAlive cfg (li_pid h)))"

definition at :: "nat \<Rightarrow> point \<Rightarrow> lock_world \<Rightarrow> lock_world" where
  "at p q w = w\<lparr>lw_point := (lw_point w)(p := q)\<rparr>"

subsection \<open>Steps\<close>

datatype call = Link | ReadHolder | Decide | Rename | Confirm | Release | Unlink | Tick

text \<open>
  What one call of a process does; None when its program is not at that call. \<open>acquireViaLink\<close>
  is the first, \<open>stealViaRename\<close> the pair \<open>Rename\<close> and \<open>Confirm\<close>.
\<close>

fun lock_call :: "lock_config \<Rightarrow> call \<Rightarrow> nat \<Rightarrow> lock_world \<Rightarrow> lock_world option" where
  "lock_call cfg Link p w =
     (if lw_point w p \<noteq> Start then None
      else if lw_file w = Absent then Some (at p Holding (w\<lparr>lw_file := Record (lc_info cfg p)\<rparr>))
      else Some (at p Exists w))"
| "lock_call cfg ReadHolder p w =
     (if lw_point w p = Exists then Some (at p (Saw (readLockFile (lw_file w))) w) else None)"
| "lock_call cfg Decide p w =
     (case lw_point w p of
        Saw h \<Rightarrow>
          Some (at p (if is_stale cfg (lw_clock w) (li_pid (lc_info cfg p)) h then Stealing else Refused) w)
      | _ \<Rightarrow> None)"
| "lock_call cfg Rename p w =
     (if lw_point w p = Stealing then Some (at p Renamed (w\<lparr>lw_file := Record (lc_info cfg p)\<rparr>)) else None)"
| "lock_call cfg Confirm p w =
     (if lw_point w p = Renamed then
        Some (at p (if same_holder (readLockFile (lw_file w)) (lc_info cfg p) then Holding else Refused) w)
      else None)"
| "lock_call cfg Release p w =
     (if lw_point w p = Holding then
        Some (at p (if same_holder (readLockFile (lw_file w)) (lc_info cfg p) then Unlinking else Released) w)
      else None)"
| "lock_call cfg Unlink p w =
     (if lw_point w p = Unlinking then Some (at p Released (w\<lparr>lw_file := Absent\<rparr>)) else None)"
| "lock_call cfg Tick p w = Some (w\<lparr>lw_clock := lw_clock w + int p\<rparr>)"

inductive lock_run :: "lock_config \<Rightarrow> (call \<times> nat) list \<Rightarrow> lock_world \<Rightarrow> lock_world \<Rightarrow> bool"
  for cfg where
  run_empty: "lock_run cfg [] w w"
| run_step: "lock_run cfg ls w u \<Longrightarrow> lock_call cfg c p u = Some v \<Longrightarrow> lock_run cfg (ls @ [(c, p)]) w v"

fun replay :: "lock_config \<Rightarrow> (call \<times> nat) list \<Rightarrow> lock_world \<Rightarrow> lock_world option" where
  "replay cfg [] w = Some w"
| "replay cfg ((c, p) # ls) w = (case lock_call cfg c p w of None \<Rightarrow> None | Some v \<Rightarrow> replay cfg ls v)"

definition idle :: "lock_file \<Rightarrow> int \<Rightarrow> lock_world" where
  "idle f t = \<lparr>lw_file = f, lw_point = (\<lambda>_. Start), lw_clock = t\<rparr>"

lemma run_append_step:
  "lock_call cfg c p w = Some u \<Longrightarrow> lock_run cfg ls u v \<Longrightarrow> lock_run cfg ((c, p) # ls) w v"
proof -
  assume first: "lock_call cfg c p w = Some u" and "lock_run cfg ls u v"
  from this(2) show ?thesis using first
  proof (induction ls u v rule: lock_run.induct)
    case (run_empty u)
    then show ?case using lock_run.run_step [OF lock_run.run_empty, of cfg c p w u] by simp
  next
    case (run_step ls u x c' p' v)
    then have "lock_run cfg ((c, p) # ls) w x" by simp
    from lock_run.run_step [OF this run_step.hyps(2)] show ?case by simp
  qed
qed

lemma replay_run: "replay cfg ls w = Some v \<Longrightarrow> lock_run cfg ls w v"
  by (induction cfg ls w rule: replay.induct)
    (auto intro: lock_run.run_empty run_append_step split: option.splits)

subsection \<open>Exclusion without a steal\<close>

definition inside :: "point \<Rightarrow> bool" where
  "inside q \<longleftrightarrow> q = Holding \<or> q = Unlinking"

text \<open>
  The invariant of the runs in which nobody renames: whoever is inside wrote the lock
  file, and nobody is at the confirming read.
\<close>

definition owner_inv :: "lock_config \<Rightarrow> lock_world \<Rightarrow> bool" where
  "owner_inv cfg w \<longleftrightarrow>
     (\<forall>p. inside (lw_point w p) \<longrightarrow> lw_file w = Record (lc_info cfg p)) \<and>
     (\<forall>p q. inside (lw_point w p) \<and> inside (lw_point w q) \<longrightarrow> p = q) \<and>
     (\<forall>p. lw_point w p \<noteq> Renamed)"

lemma inside_simps [simp]:
  "inside Holding" "inside Unlinking" "\<not> inside Start" "\<not> inside Exists" "\<not> inside (Saw h)"
  "\<not> inside Stealing" "\<not> inside Renamed" "\<not> inside Refused" "\<not> inside Released"
  by (simp_all add: inside_def)

lemma at_simps [simp]:
  "lw_file (at p q w) = lw_file w" "lw_clock (at p q w) = lw_clock w"
  "lw_point (at p q w) r = (if r = p then q else lw_point w r)"
  by (simp_all add: at_def)

lemma lock_call_inv:
  assumes "owner_inv cfg w" and "lock_call cfg c p w = Some v" and "c \<noteq> Rename"
  shows "owner_inv cfg v"
proof (cases c)
  case Link
  with assms show ?thesis
    by (auto simp: owner_inv_def split: if_splits)
next
  case Decide
  with assms show ?thesis
    by (auto simp: owner_inv_def split: if_splits point.splits)
next
  case Unlink
  with assms show ?thesis
    by (auto simp: owner_inv_def split: if_splits)
next
  case Release
  with assms show ?thesis
    by (auto simp: owner_inv_def split: if_splits)
qed (use assms in \<open>auto simp: owner_inv_def split: if_splits\<close>)

lemma run_inv:
  "lock_run cfg ls w v \<Longrightarrow> owner_inv cfg w \<Longrightarrow> Rename \<notin> fst ` set ls \<Longrightarrow> owner_inv cfg v"
  by (induction rule: lock_run.induct) (auto intro: lock_call_inv)

text \<open>
  As long as nobody steals, the lock excludes: in every interleaving of any number of
  processes from an idle state that contains no rename, at most one process is inside,
  and the lock file then holds that process's record.
\<close>

theorem no_steal_exclusion:
  assumes "lock_run cfg ls (idle f t) w" and "Rename \<notin> fst ` set ls"
    and "inside (lw_point w p)" and "inside (lw_point w q)"
  shows "p = q \<and> lw_file w = Record (lc_info cfg p)"
proof -
  have "owner_inv cfg (idle f t)" by (simp add: owner_inv_def idle_def)
  from run_inv [OF assms(1) this assms(2)] assms(3,4) show ?thesis by (simp add: owner_inv_def)
qed

definition demo_config :: lock_config where
  "demo_config =
     \<lparr>lc_info = (\<lambda>p. \<lparr>li_pid = int p + 1, li_acquired_at = 0, li_host = ''h''\<rparr>),
      lc_staleMs = 30000, lc_isAlive = (\<lambda>pid. pid \<noteq> 99)\<rparr>"

definition contended :: "(call \<times> nat) list" where
  "contended = [(Link, 0), (Link, 1), (ReadHolder, 1), (Decide, 1)]"

lemma contended_run: "\<exists>w. lock_run demo_config contended (idle Absent 0) w \<and> lw_point w 0 = Holding"
proof -
  have "\<exists>w. replay demo_config contended (idle Absent 0) = Some w \<and> lw_point w 0 = Holding"
    by (simp add: contended_def idle_def demo_config_def is_stale_def at_def)
  then show ?thesis using replay_run by blast
qed

theorem no_steal_exclusion_witness:
  "\<exists>w. lock_run demo_config contended (idle Absent 0) w \<and> lw_file w = Record (lc_info demo_config 0)"
proof -
  obtain w where w: "lock_run demo_config contended (idle Absent 0) w" "lw_point w 0 = Holding"
    using contended_run by blast
  have "0 = (0 :: nat) \<and> lw_file w = Record (lc_info demo_config 0)"
    by (rule no_steal_exclusion [OF w(1)]) (simp_all add: w(2) contended_def)
  with w(1) show ?thesis by blast
qed

subsection \<open>A live record is never stolen on sight\<close>

lemma live_record_not_stale:
  "is_stale cfg now pid (Some h) \<longleftrightarrow>
     now - li_acquired_at h > lc_staleMs cfg \<or> li_pid h \<noteq> pid \<and> \<not> lc_isAlive cfg (li_pid h)"
  by (simp add: is_stale_def)

subsection \<open>Two holders\<close>

text \<open>
  Two processes that both saw the same dead holder: the second renames after the first
  has confirmed its own record.
\<close>

definition double_steal :: "(call \<times> nat) list" where
  "double_steal =
     [(Link, 0), (ReadHolder, 0), (Decide, 0), (Link, 1), (ReadHolder, 1), (Decide, 1),
      (Rename, 0), (Confirm, 0), (Rename, 1), (Confirm, 1)]"

text \<open>
  No holder is ever stale: the holder releases between a failed link and the read that
  follows it, so the reader finds no file, takes that for a stale lock, and renames its
  record over that of a third process that linked in the meantime.
\<close>

definition released_steal :: "(call \<times> nat) list" where
  "released_steal =
     [(Link, 0), (Link, 1), (Release, 0), (Unlink, 0), (ReadHolder, 1), (Decide, 1),
      (Link, 2), (Rename, 1), (Confirm, 1)]"

text \<open>
  The lock does not exclude once somebody steals. Two processes that find the same
  dead holder can both end up holding; and with every process alive and no time passing,
  a release between a failed link and the following read lets two processes hold as well.
\<close>

lemma two_holders_reachable:
  "(\<exists>w. lock_run demo_config double_steal
          (idle (Record \<lparr>li_pid = 99, li_acquired_at = 0, li_host = ''h''\<rparr>) 0) w \<and>
        lw_point w 0 = Holding \<and> lw_point w 1 = Holding) \<and>
   (\<exists>w. lock_run demo_config released_steal (idle Absent 0) w \<and>
        lw_point w 1 = Holding \<and> lw_point w 2 = Holding \<and>
        lc_isAlive demo_config (li_pid (lc_info demo_config 1)) \<and>
        lc_isAlive demo_config (li_pid (lc_info demo_config 2)))"
proof
  have "\<exists>w. replay demo_config double_steal
      (idle (Record \<lparr>li_pid = 99, li_acquired_at = 0, li_host = ''h''\<rparr>) 0) = Some w \<and>
      lw_point w 0 = Holding \<and> lw_point w 1 = Holding"
    by (simp add: double_steal_def idle_def demo_config_def is_stale_def same_holder_def at_def)
  then show "\<exists>w. lock_run demo_config double_steal
      (idle (Record \<lparr>li_pid = 99, li_acquired_at = 0, li_host = ''h''\<rparr>) 0) w \<and>
      lw_point w 0 = Holding \<and> lw_point w 1 = Holding"
    using replay_run by blast
  have "\<exists>w. replay demo_config released_steal (idle Absent 0) = Some w \<and>
      lw_point w 1 = Holding \<and> lw_point w 2 = Holding"
    by (simp add: released_steal_def idle_def demo_config_def is_stale_def same_holder_def at_def)
  then show "\<exists>w. lock_run demo_config released_steal (idle Absent 0) w \<and>
      lw_point w 1 = Holding \<and> lw_point w 2 = Holding \<and>
      lc_isAlive demo_config (li_pid (lc_info demo_config 1)) \<and>
      lc_isAlive demo_config (li_pid (lc_info demo_config 2))"
    using replay_run by (fastforce simp: demo_config_def)
qed

subsection \<open>What a double hold takes\<close>

text \<open>The record in the file is that of a process, by the two fields the code compares.\<close>

definition owns :: "lock_config \<Rightarrow> lock_world \<Rightarrow> nat \<Rightarrow> bool" where
  "owns cfg w p \<longleftrightarrow>
     (\<exists>i. lw_file w = Record i \<and> li_pid i = li_pid (lc_info cfg p) \<and> li_acquired_at i = li_acquired_at (lc_info cfg p))"

lemma owns_at [simp]: "owns cfg (at p q w) r = owns cfg w r"
  by (simp add: owns_def)

lemma confirmed_owns: "same_holder (readLockFile (lw_file w)) (lc_info cfg p) \<Longrightarrow> owns cfg w p"
  by (cases "lw_file w") (auto simp: same_holder_def owns_def split: if_splits)

definition distinct_holders :: "lock_config \<Rightarrow> bool" where
  "distinct_holders cfg \<longleftrightarrow> inj (\<lambda>p. (li_pid (lc_info cfg p), li_acquired_at (lc_info cfg p)))"

lemma owner_unique: "distinct_holders cfg \<Longrightarrow> owns cfg w p \<Longrightarrow> owns cfg w q \<Longrightarrow> p = q"
  by (force simp: distinct_holders_def owns_def inj_def)

lemma owners_kept:
  assumes ids: "distinct_holders cfg" and own: "\<forall>p. inside (lw_point w p) \<longrightarrow> owns cfg w p"
    and step: "lock_call cfg c p w = Some v" and quiet: "c = Rename \<Longrightarrow> \<forall>x. \<not> inside (lw_point w x)"
  shows "\<forall>q. inside (lw_point v q) \<longrightarrow> owns cfg v q"
proof (cases c)
  case Link
  with step own show ?thesis by (auto simp: owns_def split: if_splits)
next
  case Unlink
  have "q = p" if "inside (lw_point w q)" "inside (lw_point w p)" for q
    using owner_unique [OF ids] own that by blast
  with Unlink step show ?thesis by (auto split: if_splits)
next
  case Rename
  with step quiet show ?thesis by (auto split: if_splits)
next
  case Confirm
  with step own show ?thesis by (auto dest: confirmed_owns split: if_splits)
next
  case Decide
  with step own show ?thesis by (auto split: if_splits point.splits)
next
  case Tick
  with step own show ?thesis by (auto simp: owns_def)
qed (use step own in \<open>auto split: if_splits\<close>)

text \<open>The steals that rename over the lock while somebody is inside.\<close>

definition stolen_from :: "lock_config \<Rightarrow> lock_world \<Rightarrow> (call \<times> nat) list \<Rightarrow> bool" where
  "stolen_from cfg w0 ls \<longleftrightarrow>
     (\<exists>as r bs u. ls = as @ (Rename, r) # bs \<and> lock_run cfg as w0 u \<and> lw_point u r = Stealing \<and>
        (\<exists>x. inside (lw_point u x)))"

lemma stolen_from_append: "stolen_from cfg w0 ls \<Longrightarrow> stolen_from cfg w0 (ls @ [s])"
  by (auto simp: stolen_from_def) (metis append_Cons append_assoc)

lemma owners_unless_stolen:
  assumes "lock_run cfg ls w0 w" and "distinct_holders cfg" and "\<forall>p. \<not> inside (lw_point w0 p)"
  shows "stolen_from cfg w0 ls \<or> (\<forall>p. inside (lw_point w p) \<longrightarrow> owns cfg w p)"
  using assms
proof (induction rule: lock_run.induct)
  case (run_step ls w u c p v)
  show ?case
  proof (cases "stolen_from cfg w ls")
    case False
    show ?thesis
    proof (cases "c = Rename \<and> (\<exists>x. inside (lw_point u x))")
      case True
      with run_step.hyps have "stolen_from cfg w (ls @ [(c, p)])"
        by (auto simp: stolen_from_def split: if_splits)
      then show ?thesis ..
    next
      case quiet: False
      from False run_step have "\<forall>p. inside (lw_point u p) \<longrightarrow> owns cfg u p" by blast
      from owners_kept [OF run_step.prems(1) this run_step.hyps(2)] quiet show ?thesis by blast
    qed
  qed (simp add: stolen_from_append)
qed simp

text \<open>What a process that steals has read.\<close>

definition saw_before :: "lock_config \<Rightarrow> lock_world \<Rightarrow> (call \<times> nat) list \<Rightarrow> nat \<Rightarrow> lock_info option \<Rightarrow> bool" where
  "saw_before cfg w0 ls r h \<longleftrightarrow>
     (\<exists>as bs u. ls = as @ (ReadHolder, r) # bs \<and> lock_run cfg as w0 u \<and> readLockFile (lw_file u) = h)"

lemma saw_before_append: "saw_before cfg w0 ls r h \<Longrightarrow> saw_before cfg w0 (ls @ [s]) r h"
  by (auto simp: saw_before_def) (metis append_Cons append_assoc)

lemma saw_before_now:
  "lock_run cfg ls w0 u \<Longrightarrow> saw_before cfg w0 (ls @ [(ReadHolder, r)]) r (readLockFile (lw_file u))"
  by (auto simp: saw_before_def)

lemma is_stale_later: "is_stale cfg now pid h \<Longrightarrow> now \<le> later \<Longrightarrow> is_stale cfg later pid h"
  by (auto simp: is_stale_def split: option.splits)

lemma clock_grows: "lock_call cfg c p w = Some v \<Longrightarrow> lw_clock w \<le> lw_clock v"
  by (cases c) (auto split: if_splits point.splits)

definition decided_on :: "lock_config \<Rightarrow> lock_world \<Rightarrow> (call \<times> nat) list \<Rightarrow> lock_world \<Rightarrow> nat \<Rightarrow> bool" where
  "decided_on cfg w0 ls w r \<longleftrightarrow>
     (\<forall>h. lw_point w r = Saw h \<longrightarrow> saw_before cfg w0 ls r h) \<and>
     (lw_point w r = Stealing \<longrightarrow>
        (\<exists>h. saw_before cfg w0 ls r h \<and> is_stale cfg (lw_clock w) (li_pid (lc_info cfg r)) h))"

lemma decided_on_other:
  assumes "decided_on cfg w0 ls w r" and "lock_call cfg c p w = Some v" and "lw_point v r = lw_point w r"
  shows "decided_on cfg w0 (ls @ [s]) v r"
  using assms(1,3) clock_grows [OF assms(2)]
  by (auto simp: decided_on_def intro: saw_before_append is_stale_later)

lemma decided_on_step:
  assumes run: "lock_run cfg ls w0 w" and step: "lock_call cfg c p w = Some v" and "decided_on cfg w0 ls w r"
  shows "decided_on cfg w0 (ls @ [(c, p)]) v r"
proof (cases "lw_point v r = lw_point w r")
  case True
  from decided_on_other [OF assms(3) step this] show ?thesis .
next
  case False
  then have p: "p = r" using step by (cases c) (auto split: if_splits point.splits)
  show ?thesis
  proof (cases c)
    case ReadHolder
    with step p saw_before_now [OF run] show ?thesis by (auto simp: decided_on_def split: if_splits)
  next
    case Decide
    with step p assms(3) show ?thesis
      by (auto simp: decided_on_def intro: saw_before_append split: point.splits if_splits)
  qed (use step p False in \<open>auto simp: decided_on_def split: if_splits\<close>)
qed

lemma stealers_saw:
  assumes "lock_run cfg ls w0 w" and "\<forall>p. lw_point w0 p = Start"
  shows "decided_on cfg w0 ls w r"
  using assms
proof (induction rule: lock_run.induct)
  case (run_empty w)
  then show ?case by (simp add: decided_on_def)
next
  case (run_step ls w u c p v)
  from decided_on_step [OF run_step.hyps run_step.IH [OF run_step.prems]] show ?case .
qed

text \<open>
  C26: what a double hold takes. In every interleaving of any number of processes with distinct
  records, two processes are inside together only if one of the steps before was a rename over
  the lock while somebody was inside, by a process that had earlier read a file without a
  valid record, a record older than the bound by then, or the record of another process that
  is not alive. So the link, the confirmation after a steal and the check before a release
  never let two processes in by themselves.
\<close>

theorem double_hold_needs_steal:
  assumes run: "lock_run cfg ls (idle f t) w"
    and ids: "\<And>p q. li_pid (lc_info cfg p) = li_pid (lc_info cfg q) \<Longrightarrow>
        li_acquired_at (lc_info cfg p) = li_acquired_at (lc_info cfg q) \<Longrightarrow> p = q"
    and two: "inside (lw_point w p)" "inside (lw_point w q)" "p \<noteq> q"
  shows "\<exists>as r bs u x. ls = as @ (Rename, r) # bs \<and> lock_run cfg as (idle f t) u \<and> inside (lw_point u x) \<and>
    (\<exists>as' bs' u' h. as = as' @ (ReadHolder, r) # bs' \<and> lock_run cfg as' (idle f t) u' \<and> readLockFile (lw_file u') = h \<and>
       (case h of None \<Rightarrow> True
        | Some i \<Rightarrow> lw_clock u - li_acquired_at i > lc_staleMs cfg \<or>
                    li_pid i \<noteq> li_pid (lc_info cfg r) \<and> \<not> lc_isAlive cfg (li_pid i)))"
proof -
  from ids have distinct: "distinct_holders cfg" by (auto simp: distinct_holders_def inj_def)
  have "\<not> (\<forall>p. inside (lw_point w p) \<longrightarrow> owns cfg w p)" using owner_unique [OF distinct] two by blast
  with owners_unless_stolen [OF run distinct] have "stolen_from cfg (idle f t) ls" by (simp add: idle_def)
  then obtain as r bs u x where steal: "ls = as @ (Rename, r) # bs" "lock_run cfg as (idle f t) u"
    "lw_point u r = Stealing" "inside (lw_point u x)" by (auto simp: stolen_from_def)
  have "decided_on cfg (idle f t) as u r" by (rule stealers_saw [OF steal(2)]) (simp add: idle_def)
  with steal(3) obtain h where h: "saw_before cfg (idle f t) as r h"
    and stale: "is_stale cfg (lw_clock u) (li_pid (lc_info cfg r)) h" by (auto simp: decided_on_def)
  from h obtain as' bs' u' where "as = as' @ (ReadHolder, r) # bs'" "lock_run cfg as' (idle f t) u'"
    "readLockFile (lw_file u') = h" by (auto simp: saw_before_def)
  with steal stale show ?thesis unfolding is_stale_def by blast
qed

lemma double_hold_needs_steal_witness:
  "\<exists>as r bs u x. released_steal = as @ (Rename, r) # bs \<and> lock_run demo_config as (idle Absent 0) u \<and>
     inside (lw_point u x)"
proof -
  obtain w where w: "lock_run demo_config released_steal (idle Absent 0) w"
    "lw_point w 1 = Holding" "lw_point w 2 = Holding" using two_holders_reachable by blast
  have ids: "p = q" if "li_pid (lc_info demo_config p) = li_pid (lc_info demo_config q)" for p q
    using that by (simp add: demo_config_def)
  have "inside (lw_point w 1)" "inside (lw_point w 2)" unfolding w(2,3) by (rule inside_simps(1))+
  from double_hold_needs_steal [OF w(1) ids this] show ?thesis by fastforce
qed

end
