(* ===== verification/Receipt_Schema.thy ===== *)
theory Receipt_Schema
  imports Verdicts
begin

text \<open>
  Receipts (\<open>src/schema/receipt.ts\<close>): the structural schema read from JSON, in which a
  condemnation without a cited evidence id cannot be expressed, the cross-field
  invariants, and the JSON form the signature covers. Reading a printed receipt gives
  it back exactly when the schema accepts it.
\<close>

subsection \<open>The receipt\<close>

record run_info =
  ri_run_id :: string
  ri_loop_family :: string
  ri_loopeix_version :: string
  ri_engine :: string
  ri_run_state :: string
  ri_integrity :: string
  ri_sealed_at :: string

record ledger_binding =
  lb_event_count :: int
  lb_head :: string
  lb_sha256 :: string

record receipt_gap =
  rg_engine :: string
  rg_capability :: string
  rg_level :: string
  rg_note :: string

record receipt_summary =
  sm_verified :: int
  sm_contradicted :: int
  sm_unsupported :: int
  sm_kept :: int
  sm_promise_broken :: int
  sm_unevaluated :: int

record receipt_body =
  rp_run :: run_info
  rp_brief :: brief
  rp_brief_hash :: string
  rp_binding :: ledger_binding
  rp_claims :: "claim_record list"
  rp_clauses :: "clause_record list"
  rp_evidence :: "evidence_record list"
  rp_gaps :: "receipt_gap list"
  rp_summary :: receipt_summary

record signature_block =
  sg_algorithm :: string
  sg_encoding :: string
  sg_public_key :: string
  sg_signature :: string

record receipt = receipt_body +
  rp_signature :: signature_block

definition RunStates :: "string list" where
  "RunStates =
     [''planned'', ''ready'', ''running'', ''interrupted'', ''recovering'', ''held'', ''failed'',
      ''completed'', ''archived'']"

definition IntegrityStatus :: "string list" where
  "IntegrityStatus = [''unknown'', ''valid'', ''hold'', ''failed'']"

definition ReceiptEngine :: "string list" where
  "ReceiptEngine = [''codex_cli'', ''claude_code_cli'']"

definition EvidenceType :: "string list" where
  "EvidenceType =
     [''command'', ''file'', ''artifact'', ''approval'', ''test'', ''gate'', ''adapter_event'',
      ''human_note'', ''source_citation'', ''browser'']"

definition ReceiptEvidenceSource :: "string list" where
  "ReceiptEvidenceSource = [''wrapper'', ''engine_stream'']"

definition base64_char :: re where
  "base64_char =
     RAlt (RChr (Span 65 90)) (RAlt (RChr (Span 97 122)) (RAlt (RChr (Span 48 57)) (RChr (Among ''+/''))))"

definition Base64 :: "string \<Rightarrow> bool" where
  "Base64 = re_test
     (RSeq (RPlus base64_char) (RSeq (ROpt (RChr (Only (CHR ''='')))) (ROpt (RChr (Only (CHR ''=''))))))"

subsection \<open>Texts of the enumerations\<close>

fun claim_verdict_text :: "claim_verdict \<Rightarrow> string" where
  "claim_verdict_text VERIFIED = ''VERIFIED''"
| "claim_verdict_text CONTRADICTED = ''CONTRADICTED''"
| "claim_verdict_text UNSUPPORTED = ''UNSUPPORTED''"

fun clause_verdict_text :: "clause_verdict \<Rightarrow> string" where
  "clause_verdict_text KEPT = ''KEPT''"
| "clause_verdict_text PROMISE_BROKEN = ''PROMISE_BROKEN''"
| "clause_verdict_text UNEVALUATED = ''UNEVALUATED''"

fun claim_family_text :: "claim_family \<Rightarrow> string" where
  "claim_family_text TestsRan = ''tests-ran''"
| "claim_family_text RecognizedAssertion = ''recognized-assertion''"

fun clause_type_text :: "clause_type \<Rightarrow> string" where
  "clause_type_text Acceptance = ''acceptance''"
| "clause_type_text Forbidden = ''forbidden''"
| "clause_type_text Scope = ''scope''"

fun level_text :: "capture_level \<Rightarrow> string" where
  "level_text Full = ''full''"
| "level_text Partial = ''partial''"
| "level_text NoCapture = ''none''"

definition field_enum :: "('a \<Rightarrow> string) \<Rightarrow> 'a list \<Rightarrow> json \<Rightarrow> string \<Rightarrow> 'a option" where
  "field_enum txt vals v k =
     (case jget v k of Some (JStr s) \<Rightarrow> List.find (\<lambda>a. txt a = s) vals | _ \<Rightarrow> None)"

definition field_optional :: "(string \<Rightarrow> bool) \<Rightarrow> json \<Rightarrow> string \<Rightarrow> string option option" where
  "field_optional ok v k =
     (case jget v k of
        None \<Rightarrow> Some None
      | Some (JStr s) \<Rightarrow> if ok s then Some (Some s) else None
      | _ \<Rightarrow> None)"

definition optional_field :: "string \<Rightarrow> string option \<Rightarrow> (string \<times> json) list" where
  "optional_field k v = (case v of None \<Rightarrow> [] | Some s \<Rightarrow> [(k, JStr s)])"

abbreviation any_string :: "string \<Rightarrow> bool" where "any_string s \<equiv> True"

subsection \<open>The schema\<close>

definition parse_claim :: "json \<Rightarrow> claim_record option" where
  "parse_claim v = do {
     i \<leftarrow> field_string MachineId v ''claim_id'';
     f \<leftarrow> field_enum claim_family_text [TestsRan, RecognizedAssertion] v ''family'';
     t \<leftarrow> field_string nonempty v ''text'';
     ids \<leftarrow> field_strings v ''evidence_ids'';
     r \<leftarrow> field_optional any_string v ''reason'';
     w \<leftarrow> field_enum claim_verdict_text [VERIFIED, CONTRADICTED, UNSUPPORTED] v ''verdict'';
     if w = CONTRADICTED \<and> ids = [] then None
     else Some \<lparr>rc_id = i, rc_family = f, rc_text = t, rc_verdict = w, rc_evidence_ids = ids, rc_reason = r\<rparr>
   }"

definition parse_clause :: "json \<Rightarrow> clause_record option" where
  "parse_clause v = do {
     i \<leftarrow> field_string MachineId v ''clause_id'';
     y \<leftarrow> field_enum clause_type_text [Acceptance, Forbidden, Scope] v ''clause_type'';
     t \<leftarrow> field_string nonempty v ''text'';
     ids \<leftarrow> field_strings v ''evidence_ids'';
     r \<leftarrow> field_optional any_string v ''reason'';
     w \<leftarrow> field_enum clause_verdict_text [KEPT, PROMISE_BROKEN, UNEVALUATED] v ''verdict'';
     if w = PROMISE_BROKEN \<and> ids = [] then None
     else Some \<lparr>rb_id = i, rb_type = y, rb_text = t, rb_verdict = w, rb_evidence_ids = ids, rb_reason = r\<rparr>
   }"

definition parse_evidence :: "json \<Rightarrow> evidence_record option" where
  "parse_evidence v = do {
     i \<leftarrow> field_string MachineId v ''evidence_id'';
     t \<leftarrow> field_string (\<lambda>s. s \<in> set EvidenceType) v ''type'';
     h \<leftarrow> field_optional Hash v ''sha256'';
     l \<leftarrow> field_enum level_text [Full, Partial] v ''capture_level'';
     s \<leftarrow> field_string (\<lambda>s. s \<in> set ReceiptEvidenceSource) v ''source'';
     Some \<lparr>re_id = i, re_type = t, re_sha256 = h, re_level = l, re_source = s\<rparr>
   }"

definition parse_gap :: "json \<Rightarrow> receipt_gap option" where
  "parse_gap v = do {
     e \<leftarrow> field_string any_string v ''engine'';
     c \<leftarrow> field_string any_string v ''capability'';
     l \<leftarrow> field_string any_string v ''level'';
     n \<leftarrow> field_string any_string v ''note'';
     Some \<lparr>rg_engine = e, rg_capability = c, rg_level = l, rg_note = n\<rparr>
   }"

definition parse_run :: "externals \<Rightarrow> json \<Rightarrow> run_info option" where
  "parse_run x v = do {
     i \<leftarrow> field_string MachineId v ''run_id'';
     f \<leftarrow> field_string HumanId v ''loop_family'';
     n \<leftarrow> field_string LoopVersion v ''loopeix_version'';
     e \<leftarrow> field_string (\<lambda>s. s \<in> set ReceiptEngine) v ''engine'';
     st \<leftarrow> field_string (\<lambda>s. s \<in> set RunStates) v ''run_state'';
     it \<leftarrow> field_string (\<lambda>s. s \<in> set IntegrityStatus) v ''integrity_status'';
     t \<leftarrow> field_string (isoDatetime x) v ''sealed_at'';
     Some \<lparr>ri_run_id = i, ri_loop_family = f, ri_loopeix_version = n, ri_engine = e,
       ri_run_state = st, ri_integrity = it, ri_sealed_at = t\<rparr>
   }"

definition parse_receipt_brief :: "json \<Rightarrow> (brief \<times> string) option" where
  "parse_receipt_brief v = do {
     w \<leftarrow> field_string (\<lambda>s. s = ''0.1'') v ''brief_version'';
     t \<leftarrow> field_string nonempty v ''task'';
     acc \<leftarrow> field_list parse_acceptance v ''acceptance'';
     forb \<leftarrow> field_list parse_forbidden v ''forbidden'';
     sc \<leftarrow> field_list nonempty_text v ''scope'';
     h \<leftarrow> field_string Hash v ''brief_hash'';
     if acc = [] then None
     else Some (\<lparr>b_task = t, b_acceptance = acc, b_forbidden = forb, b_scope = sc\<rparr>, h)
   }"

definition parse_binding :: "json \<Rightarrow> ledger_binding option" where
  "parse_binding v = do {
     n \<leftarrow> field_int 0 v ''event_count'';
     h \<leftarrow> field_string Hash v ''head_event_hash'';
     s \<leftarrow> field_string Hash v ''ledger_sha256'';
     Some \<lparr>lb_event_count = n, lb_head = h, lb_sha256 = s\<rparr>
   }"

definition sub_object :: "json \<Rightarrow> string \<Rightarrow> json" where
  "sub_object v k = (case field_object v k of Some w \<Rightarrow> w | None \<Rightarrow> JNull)"

definition parse_summary :: "json \<Rightarrow> receipt_summary option" where
  "parse_summary v = do {
     a \<leftarrow> field_int 0 (sub_object v ''claims'') ''verified'';
     b \<leftarrow> field_int 0 (sub_object v ''claims'') ''contradicted'';
     c \<leftarrow> field_int 0 (sub_object v ''claims'') ''unsupported'';
     d \<leftarrow> field_int 0 (sub_object v ''clauses'') ''kept'';
     e \<leftarrow> field_int 0 (sub_object v ''clauses'') ''promise_broken'';
     f \<leftarrow> field_int 0 (sub_object v ''clauses'') ''unevaluated'';
     Some \<lparr>sm_verified = a, sm_contradicted = b, sm_unsupported = c, sm_kept = d,
       sm_promise_broken = e, sm_unevaluated = f\<rparr>
   }"

definition parse_signature :: "json \<Rightarrow> signature_block option" where
  "parse_signature v = do {
     a \<leftarrow> field_string (\<lambda>s. s = ''ecdsa-p256-sha256'') v ''algorithm'';
     e \<leftarrow> field_string (\<lambda>s. s = ''der-base64'') v ''encoding'';
     k \<leftarrow> field_string Base64 v ''public_key_spki_b64'';
     g \<leftarrow> field_string Base64 v ''signature_b64'';
     Some \<lparr>sg_algorithm = a, sg_encoding = e, sg_public_key = k, sg_signature = g\<rparr>
   }"

definition ReceiptShape :: "externals \<Rightarrow> json \<Rightarrow> receipt option" where
  "ReceiptShape x v = do {
     w \<leftarrow> field_string (\<lambda>s. s = ''0.1'') v ''receipt_version'';
     run \<leftarrow> parse_run x (sub_object v ''run'');
     br \<leftarrow> parse_receipt_brief (sub_object v ''brief'');
     lb \<leftarrow> parse_binding (sub_object v ''ledger_binding'');
     cs \<leftarrow> field_list parse_claim v ''claims'';
     bs \<leftarrow> field_list parse_clause v ''brief_clauses'';
     es \<leftarrow> field_list parse_evidence v ''evidence'';
     gs \<leftarrow> field_list parse_gap v ''capture_gaps'';
     sm \<leftarrow> parse_summary (sub_object v ''summary'');
     sg \<leftarrow> parse_signature (sub_object v ''signature'');
     Some \<lparr>rp_run = run, rp_brief = fst br, rp_brief_hash = snd br, rp_binding = lb, rp_claims = cs,
       rp_clauses = bs, rp_evidence = es, rp_gaps = gs, rp_summary = sm, rp_signature = sg\<rparr>
   }"

subsection \<open>The JSON form\<close>

definition claim_json :: "claim_record \<Rightarrow> json" where
  "claim_json c = JObj
     ([(''claim_id'', JStr (rc_id c)), (''family'', JStr (claim_family_text (rc_family c))),
       (''text'', JStr (rc_text c)), (''verdict'', JStr (claim_verdict_text (rc_verdict c))),
       (''evidence_ids'', JArr (map JStr (rc_evidence_ids c)))] @ optional_field ''reason'' (rc_reason c))"

definition clause_json :: "clause_record \<Rightarrow> json" where
  "clause_json c = JObj
     ([(''clause_id'', JStr (rb_id c)), (''clause_type'', JStr (clause_type_text (rb_type c))),
       (''text'', JStr (rb_text c)), (''verdict'', JStr (clause_verdict_text (rb_verdict c))),
       (''evidence_ids'', JArr (map JStr (rb_evidence_ids c)))] @ optional_field ''reason'' (rb_reason c))"

definition evidence_json :: "evidence_record \<Rightarrow> json" where
  "evidence_json e = JObj
     ([(''evidence_id'', JStr (re_id e)), (''type'', JStr (re_type e)),
       (''capture_level'', JStr (level_text (re_level e))), (''source'', JStr (re_source e))] @
      optional_field ''sha256'' (re_sha256 e))"

definition gap_json :: "receipt_gap \<Rightarrow> json" where
  "gap_json g = JObj [(''engine'', JStr (rg_engine g)), (''capability'', JStr (rg_capability g)),
     (''level'', JStr (rg_level g)), (''note'', JStr (rg_note g))]"

definition run_json :: "run_info \<Rightarrow> json" where
  "run_json r = JObj
     [(''run_id'', JStr (ri_run_id r)), (''loop_family'', JStr (ri_loop_family r)),
      (''loopeix_version'', JStr (ri_loopeix_version r)), (''engine'', JStr (ri_engine r)),
      (''run_state'', JStr (ri_run_state r)), (''integrity_status'', JStr (ri_integrity r)),
      (''sealed_at'', JStr (ri_sealed_at r))]"

fun json_fields :: "json \<Rightarrow> (string \<times> json) list" where
  "json_fields (JObj fs) = fs"
| "json_fields _ = []"

definition sealed_brief_json :: "brief \<Rightarrow> string \<Rightarrow> json" where
  "sealed_brief_json b h = JObj (json_fields (brief_json b) @ [(''brief_hash'', JStr h)])"

definition binding_json :: "ledger_binding \<Rightarrow> json" where
  "binding_json b = JObj [(''event_count'', JInt (lb_event_count b)),
     (''head_event_hash'', JStr (lb_head b)), (''ledger_sha256'', JStr (lb_sha256 b))]"

definition summary_json :: "receipt_summary \<Rightarrow> json" where
  "summary_json m = JObj
     [(''claims'', JObj [(''verified'', JInt (sm_verified m)), (''contradicted'', JInt (sm_contradicted m)),
        (''unsupported'', JInt (sm_unsupported m))]),
      (''clauses'', JObj [(''kept'', JInt (sm_kept m)), (''promise_broken'', JInt (sm_promise_broken m)),
        (''unevaluated'', JInt (sm_unevaluated m))])]"

definition signature_json :: "signature_block \<Rightarrow> json" where
  "signature_json g = JObj
     [(''algorithm'', JStr (sg_algorithm g)), (''encoding'', JStr (sg_encoding g)),
      (''public_key_spki_b64'', JStr (sg_public_key g)), (''signature_b64'', JStr (sg_signature g))]"

text \<open>The signature covers the receipt without its signature field.\<close>

definition unsigned_fields :: "'a receipt_body_scheme \<Rightarrow> (string \<times> json) list" where
  "unsigned_fields r =
     [(''receipt_version'', JStr ''0.1''),
      (''run'', run_json (rp_run r)),
      (''brief'', sealed_brief_json (rp_brief r) (rp_brief_hash r)),
      (''ledger_binding'', binding_json (rp_binding r)),
      (''claims'', JArr (map claim_json (rp_claims r))),
      (''brief_clauses'', JArr (map clause_json (rp_clauses r))),
      (''evidence'', JArr (map evidence_json (rp_evidence r))),
      (''capture_gaps'', JArr (map gap_json (rp_gaps r))),
      (''summary'', summary_json (rp_summary r))]"

definition receipt_json :: "receipt \<Rightarrow> json" where
  "receipt_json r = JObj (unsigned_fields r @ [(''signature'', signature_json (rp_signature r))])"

subsection \<open>Cross-field invariants\<close>

datatype receipt_list = InClaims | InClauses | InEvidence

datatype receipt_issue =
    DuplicateId receipt_list string
  | ClaimCitesUnknown nat nat string
  | ClauseCitesUnknown nat nat string
  | SummaryMismatch string int int
  | BriefHashMismatch

definition unknown_citations ::
  "(nat \<Rightarrow> nat \<Rightarrow> string \<Rightarrow> receipt_issue) \<Rightarrow> string list \<Rightarrow> string list list \<Rightarrow> receipt_issue list" where
  "unknown_citations mk known cited =
     concat (map (\<lambda>(i, ids). concat (map (\<lambda>(j, e). if e \<in> set known then [] else [mk i j e])
       (indexed ids))) (indexed cited))"

definition count_of :: "'v \<Rightarrow> 'v list \<Rightarrow> int" where
  "count_of v vs = int (length (filter (\<lambda>w. w = v) vs))"

definition computeSummary :: "claim_record list \<Rightarrow> clause_record list \<Rightarrow> receipt_summary" where
  "computeSummary claims clauses =
     (let cv = map rc_verdict claims; bv = map rb_verdict clauses in
      \<lparr>sm_verified = count_of VERIFIED cv, sm_contradicted = count_of CONTRADICTED cv,
       sm_unsupported = count_of UNSUPPORTED cv, sm_kept = count_of KEPT bv,
       sm_promise_broken = count_of PROMISE_BROKEN bv, sm_unevaluated = count_of UNEVALUATED bv\<rparr>)"

definition summary_issue :: "string \<Rightarrow> int \<Rightarrow> int \<Rightarrow> receipt_issue list" where
  "summary_issue k actual n = (if actual \<noteq> n then [SummaryMismatch k actual n] else [])"

definition checkReceiptInvariants :: "externals \<Rightarrow> 'a receipt_body_scheme \<Rightarrow> receipt_issue list" where
  "checkReceiptInvariants x r =
     (let known = map re_id (rp_evidence r);
          actual = rp_summary r;
          expected = computeSummary (rp_claims r) (rp_clauses r)
      in map (DuplicateId InClaims) (dups (map rc_id (rp_claims r))) @
         map (DuplicateId InClauses) (dups (map rb_id (rp_clauses r))) @
         map (DuplicateId InEvidence) (dups known) @
         unknown_citations ClaimCitesUnknown known (map rc_evidence_ids (rp_claims r)) @
         unknown_citations ClauseCitesUnknown known (map rb_evidence_ids (rp_clauses r)) @
         summary_issue ''claims.verified'' (sm_verified actual) (sm_verified expected) @
         summary_issue ''claims.contradicted'' (sm_contradicted actual) (sm_contradicted expected) @
         summary_issue ''claims.unsupported'' (sm_unsupported actual) (sm_unsupported expected) @
         summary_issue ''clauses.kept'' (sm_kept actual) (sm_kept expected) @
         summary_issue ''clauses.promise_broken'' (sm_promise_broken actual) (sm_promise_broken expected) @
         summary_issue ''clauses.unevaluated'' (sm_unevaluated actual) (sm_unevaluated expected) @
         (if computeBriefHash x (rp_brief r) \<noteq> rp_brief_hash r then [BriefHashMismatch] else []))"

lemma unknown_citations_Nil:
  "unknown_citations mk known cited = [] \<longleftrightarrow> (\<forall>ids\<in>set cited. set ids \<subseteq> set known)"
  unfolding unknown_citations_def
proof (rule concat_indexed_Nil)
  fix i ids
  have "concat (map (\<lambda>(j, e). if e \<in> set known then [] else [mk i j e]) (indexed ids)) = [] \<longleftrightarrow>
      (\<forall>e\<in>set ids. e \<in> set known)"
    by (rule concat_indexed_Nil) simp
  then show "(case (i, ids) of (i, ids) \<Rightarrow>
      concat (map (\<lambda>(j, e). if e \<in> set known then [] else [mk i j e]) (indexed ids))) = [] \<longleftrightarrow>
      set ids \<subseteq> set known"
    by (simp only: subset_eq prod.case)
qed

lemma summary_issue_Nil [simp]: "summary_issue k a n = [] \<longleftrightarrow> a = n"
  by (simp add: summary_issue_def)

lemma invariants_iff:
  "checkReceiptInvariants x r = [] \<longleftrightarrow>
     distinct (map rc_id (rp_claims r)) \<and> distinct (map rb_id (rp_clauses r)) \<and>
     distinct (map re_id (rp_evidence r)) \<and>
     (\<forall>c\<in>set (rp_claims r). set (rc_evidence_ids c) \<subseteq> re_id ` set (rp_evidence r)) \<and>
     (\<forall>c\<in>set (rp_clauses r). set (rb_evidence_ids c) \<subseteq> re_id ` set (rp_evidence r)) \<and>
     rp_summary r = computeSummary (rp_claims r) (rp_clauses r) \<and>
     rp_brief_hash r = computeBriefHash x (rp_brief r)"
  by (auto simp: checkReceiptInvariants_def Let_def unknown_citations_Nil)

subsection \<open>Reading a printed receipt\<close>

lemma field_simps:
  "jget v k = Some (JStr s) \<Longrightarrow> field_string ok v k = (if ok s then Some s else None)"
  "jget v k = Some (JArr vs) \<Longrightarrow> field_strings v k = all_strings vs"
  "jget v k = Some (JArr vs) \<Longrightarrow> field_list p v k = parse_all p vs"
  "jget v k = Some (JObj fs) \<Longrightarrow> sub_object v k = JObj fs"
  by (simp_all add: field_string_def field_strings_def field_list_def sub_object_def field_object_def)

lemma field_optional_fields:
  "k \<notin> fst ` set fs \<Longrightarrow> field_optional ok (JObj (fs @ optional_field k v)) k =
     (case v of None \<Rightarrow> Some None | Some s \<Rightarrow> if ok s then Some (Some s) else None)"
  by (auto simp: field_optional_def optional_field_def map_add_def map_of_eq_None_iff [symmetric]
      split: option.splits)

lemma field_claim_verdict:
  "jget v k = Some (JStr (claim_verdict_text w)) \<Longrightarrow> field_enum claim_verdict_text [VERIFIED, CONTRADICTED, UNSUPPORTED] v k = Some w"
  by (cases w) (simp_all add: field_enum_def)

lemma field_clause_verdict:
  "jget v k = Some (JStr (clause_verdict_text w)) \<Longrightarrow> field_enum clause_verdict_text [KEPT, PROMISE_BROKEN, UNEVALUATED] v k = Some w"
  by (cases w) (simp_all add: field_enum_def)

lemma field_claim_family:
  "jget v k = Some (JStr (claim_family_text w)) \<Longrightarrow> field_enum claim_family_text [TestsRan, RecognizedAssertion] v k = Some w"
  by (cases w) (simp_all add: field_enum_def)

lemma field_clause_type:
  "jget v k = Some (JStr (clause_type_text w)) \<Longrightarrow> field_enum clause_type_text [Acceptance, Forbidden, Scope] v k = Some w"
  by (cases w) (simp_all add: field_enum_def)

lemma field_level:
  "jget v k = Some (JStr (level_text l)) \<Longrightarrow>
     field_enum level_text [Full, Partial] v k = (if l = NoCapture then None else Some l)"
  by (cases l) (simp_all add: field_enum_def)

lemmas field_enum_simps =
  field_claim_verdict field_clause_verdict field_claim_family field_clause_type field_level

lemma parse_all_map:
  "(\<And>a. p (f a) = (if ok a then Some a else None)) \<Longrightarrow>
     parse_all p (map f xs) = (if list_all ok xs then Some xs else None)"
  by (induction xs) auto

definition claim_ok :: "claim_record \<Rightarrow> bool" where
  "claim_ok c \<longleftrightarrow> MachineId (rc_id c) \<and> rc_text c \<noteq> [] \<and>
     \<not> (rc_verdict c = CONTRADICTED \<and> rc_evidence_ids c = [])"

definition clause_record_ok :: "clause_record \<Rightarrow> bool" where
  "clause_record_ok c \<longleftrightarrow> MachineId (rb_id c) \<and> rb_text c \<noteq> [] \<and>
     \<not> (rb_verdict c = PROMISE_BROKEN \<and> rb_evidence_ids c = [])"

definition evidence_ok :: "evidence_record \<Rightarrow> bool" where
  "evidence_ok e \<longleftrightarrow> MachineId (re_id e) \<and> re_type e \<in> set EvidenceType \<and>
     (case re_sha256 e of None \<Rightarrow> True | Some h \<Rightarrow> Hash h) \<and> re_level e \<noteq> NoCapture \<and>
     re_source e \<in> set ReceiptEvidenceSource"

lemma parse_claim_json: "parse_claim (claim_json c) = (if claim_ok c then Some c else None)"
proof -
  have r: "field_optional any_string (claim_json c) ''reason'' = Some (rc_reason c)"
    unfolding claim_json_def by (subst field_optional_fields) (auto split: option.splits)
  show ?thesis
    by (simp add: parse_claim_def r) (simp add: claim_json_def field_simps field_enum_simps claim_ok_def)
qed

lemma parse_clause_json: "parse_clause (clause_json c) = (if clause_record_ok c then Some c else None)"
proof -
  have r: "field_optional any_string (clause_json c) ''reason'' = Some (rb_reason c)"
    unfolding clause_json_def by (subst field_optional_fields) (auto split: option.splits)
  show ?thesis
    by (simp add: parse_clause_def r)
      (simp add: clause_json_def field_simps field_enum_simps clause_record_ok_def)
qed

lemma parse_evidence_json: "parse_evidence (evidence_json e) = (if evidence_ok e then Some e else None)"
proof -
  have r: "field_optional Hash (evidence_json e) ''sha256'' =
      (case re_sha256 e of None \<Rightarrow> Some None | Some s \<Rightarrow> if Hash s then Some (Some s) else None)"
    unfolding evidence_json_def by (subst field_optional_fields) (auto split: option.splits)
  show ?thesis
    by (cases "re_sha256 e"; simp add: parse_evidence_def r)
      (auto simp: evidence_json_def field_simps field_enum_simps evidence_ok_def)
qed

lemma parse_gap_json: "parse_gap (gap_json g) = Some g"
  by (simp add: parse_gap_def gap_json_def field_simps)

definition run_ok :: "externals \<Rightarrow> run_info \<Rightarrow> bool" where
  "run_ok x r \<longleftrightarrow> MachineId (ri_run_id r) \<and> HumanId (ri_loop_family r) \<and>
     LoopVersion (ri_loopeix_version r) \<and> ri_engine r \<in> set ReceiptEngine \<and>
     ri_run_state r \<in> set RunStates \<and> ri_integrity r \<in> set IntegrityStatus \<and> isoDatetime x (ri_sealed_at r)"

definition receipt_brief_ok :: "brief \<Rightarrow> bool" where
  "receipt_brief_ok b \<longleftrightarrow> nonempty (b_task b) \<and> b_acceptance b \<noteq> [] \<and>
     list_all (\<lambda>c. HumanId (ac_id c) \<and> nonempty (ac_label c)) (b_acceptance b) \<and>
     list_all clause_ok (b_forbidden b) \<and> list_all nonempty (b_scope b)"

definition count_ok :: "int \<Rightarrow> bool" where
  "count_ok n \<longleftrightarrow> 0 \<le> n \<and> isSafeInteger n"

definition summary_ok :: "receipt_summary \<Rightarrow> bool" where
  "summary_ok m \<longleftrightarrow> list_all count_ok [sm_verified m, sm_contradicted m, sm_unsupported m,
     sm_kept m, sm_promise_broken m, sm_unevaluated m]"

definition signature_ok :: "signature_block \<Rightarrow> bool" where
  "signature_ok g \<longleftrightarrow> sg_algorithm g = ''ecdsa-p256-sha256'' \<and> sg_encoding g = ''der-base64'' \<and>
     Base64 (sg_public_key g) \<and> Base64 (sg_signature g)"

definition receipt_ok :: "externals \<Rightarrow> receipt \<Rightarrow> bool" where
  "receipt_ok x r \<longleftrightarrow> run_ok x (rp_run r) \<and> receipt_brief_ok (rp_brief r) \<and> Hash (rp_brief_hash r) \<and>
     count_ok (lb_event_count (rp_binding r)) \<and> Hash (lb_head (rp_binding r)) \<and> Hash (lb_sha256 (rp_binding r)) \<and>
     list_all claim_ok (rp_claims r) \<and> list_all clause_record_ok (rp_clauses r) \<and>
     list_all evidence_ok (rp_evidence r) \<and> summary_ok (rp_summary r) \<and> signature_ok (rp_signature r)"

lemma parse_run_json: "parse_run x (run_json r) = (if run_ok x r then Some r else None)"
  by (simp add: parse_run_def run_json_def field_simps run_ok_def)

lemma parse_binding_json:
  "parse_binding (binding_json b) =
     (if count_ok (lb_event_count b) \<and> Hash (lb_head b) \<and> Hash (lb_sha256 b) then Some b else None)"
  by (simp add: parse_binding_def binding_json_def field_simps field_int_def count_ok_def)

lemma parse_summary_json: "parse_summary (summary_json m) = (if summary_ok m then Some m else None)"
  by (simp add: parse_summary_def summary_json_def field_simps field_int_def summary_ok_def count_ok_def)

lemma parse_signature_json: "parse_signature (signature_json g) = (if signature_ok g then Some g else None)"
  by (simp add: parse_signature_def signature_json_def field_simps signature_ok_def)

lemma parse_acceptance_json:
  "parse_acceptance (acceptance_json c) = (if HumanId (ac_id c) \<and> nonempty (ac_label c) then Some c else None)"
  by (cases "ac_kind c") (simp_all add: parse_acceptance_def acceptance_json_def field_simps)

lemma parse_forbidden_json: "parse_forbidden (forbidden_json c) = (if clause_ok c then Some c else None)"
proof (cases c)
  case (PathClause i l k gs)
  then show ?thesis
    by (cases k) (auto simp: parse_forbidden_def forbidden_json_def parse_path_clause_def field_simps clause_ok_def)
next
  case (Freeform i l)
  then show ?thesis
    by (simp add: parse_forbidden_def forbidden_json_def parse_freeform_clause_def field_simps clause_ok_def)
qed

lemma nonempty_text_JStr: "nonempty_text (JStr s) = (if nonempty s then Some s else None)"
  by simp

lemma parse_brief_json:
  "parse_receipt_brief (sealed_brief_json b h) =
     (if receipt_brief_ok b \<and> Hash h then Some (b, h) else None)"
  by (simp add: parse_receipt_brief_def sealed_brief_json_def brief_json_def field_simps receipt_brief_ok_def
      parse_all_map [where p = parse_acceptance and f = acceptance_json and
        ok = "\<lambda>c. HumanId (ac_id c) \<and> nonempty (ac_label c)", OF parse_acceptance_json]
      parse_all_map [where p = parse_forbidden and f = forbidden_json and ok = clause_ok, OF parse_forbidden_json]
      parse_all_map [where p = nonempty_text and f = JStr and ok = nonempty, OF nonempty_text_JStr])

lemma sub_objects:
  "jget v k = Some (run_json a) \<Longrightarrow> sub_object v k = run_json a"
  "jget v k = Some (sealed_brief_json b h) \<Longrightarrow> sub_object v k = sealed_brief_json b h"
  "jget v k = Some (binding_json c) \<Longrightarrow> sub_object v k = binding_json c"
  "jget v k = Some (summary_json d) \<Longrightarrow> sub_object v k = summary_json d"
  "jget v k = Some (signature_json e) \<Longrightarrow> sub_object v k = signature_json e"
  by (simp_all add: sub_object_def field_object_def run_json_def sealed_brief_json_def binding_json_def
      summary_json_def signature_json_def)

lemma jget_receipt:
  "jget (receipt_json r) ''receipt_version'' = Some (JStr ''0.1'')"
  "jget (receipt_json r) ''run'' = Some (run_json (rp_run r))"
  "jget (receipt_json r) ''brief'' = Some (sealed_brief_json (rp_brief r) (rp_brief_hash r))"
  "jget (receipt_json r) ''ledger_binding'' = Some (binding_json (rp_binding r))"
  "jget (receipt_json r) ''claims'' = Some (JArr (map claim_json (rp_claims r)))"
  "jget (receipt_json r) ''brief_clauses'' = Some (JArr (map clause_json (rp_clauses r)))"
  "jget (receipt_json r) ''evidence'' = Some (JArr (map evidence_json (rp_evidence r)))"
  "jget (receipt_json r) ''capture_gaps'' = Some (JArr (map gap_json (rp_gaps r)))"
  "jget (receipt_json r) ''summary'' = Some (summary_json (rp_summary r))"
  "jget (receipt_json r) ''signature'' = Some (signature_json (rp_signature r))"
  by (simp_all add: receipt_json_def unsigned_fields_def)

lemma parse_gaps: "parse_all parse_gap (map gap_json gs) = Some gs"
  using parse_all_map [of parse_gap gap_json "\<lambda>_. True" gs] by (simp add: parse_gap_json list_all_iff)

text \<open>
  C6: reading back the JSON form of a receipt gives that receipt when the schema accepts
  it and nothing otherwise: no accepted receipt is changed by printing and reading, and a
  receipt with an uncited condemnation is refused.
\<close>

theorem receipt_roundtrip:
  "ReceiptShape x (receipt_json r) = (if receipt_ok x r then Some r else None)"
  by (simp add: ReceiptShape_def field_simps sub_objects jget_receipt parse_run_json parse_brief_json
      parse_binding_json parse_summary_json parse_signature_json parse_gaps
      parse_all_map [where p = parse_claim and f = claim_json and ok = claim_ok, OF parse_claim_json]
      parse_all_map [where p = parse_clause and f = clause_json and ok = clause_record_ok, OF parse_clause_json]
      parse_all_map [where p = parse_evidence and f = evidence_json and ok = evidence_ok, OF parse_evidence_json]
      receipt_ok_def)

end
