(* ===== verification/Receipt.thy ===== *)
theory Receipt
  imports Receipt_Schema Doctrine Gates
begin

text \<open>
  Building and verifying receipts (\<open>src/receipt.ts\<close>, the signature block of
  \<open>src/sign.ts\<close>, the rendering gate of \<open>src/render/shared.ts\<close>). ECDSA itself is a
  parameter: a signing function that may throw and a verification test. The detail
  texts of the checks are not modelled; their ids, order and outcomes are.
\<close>

subsection \<open>Signature blocks\<close>

record crypto =
  p256_sign :: "string \<Rightarrow> json \<Rightarrow> (string \<times> string) option"   \<comment> \<open>key, value; public key and signature\<close>
  p256_verify :: "string \<Rightarrow> json \<Rightarrow> string \<Rightarrow> bool"

definition SIGNATURE_ALGORITHM :: string where "SIGNATURE_ALGORITHM = ''ecdsa-p256-sha256''"
definition SIGNATURE_ENCODING :: string where "SIGNATURE_ENCODING = ''der-base64''"

definition signCanonical :: "crypto \<Rightarrow> json \<Rightarrow> string \<Rightarrow> signature_block option" where
  "signCanonical cr v key =
     map_option (\<lambda>(pub, sig). \<lparr>sg_algorithm = SIGNATURE_ALGORITHM, sg_encoding = SIGNATURE_ENCODING,
         sg_public_key = pub, sg_signature = sig\<rparr>) (p256_sign cr key v)"

definition verifySignatureBlock :: "crypto \<Rightarrow> json \<Rightarrow> json \<Rightarrow> bool" where
  "verifySignatureBlock cr v block \<longleftrightarrow>
     is_objectish block \<and>
     as_string (jget block ''algorithm'') = Some SIGNATURE_ALGORITHM \<and>
     as_string (jget block ''encoding'') = Some SIGNATURE_ENCODING \<and>
     (case (as_string (jget block ''public_key_spki_b64''), as_string (jget block ''signature_b64'')) of
        (Some pub, Some sig) \<Rightarrow> p256_verify cr pub v sig
      | _ \<Rightarrow> False)"

subsection \<open>Building\<close>

record build_input =
  bi_run_id :: string
  bi_loop_family :: string
  bi_loopeix_version :: string
  bi_engine :: string
  bi_sealed_at :: string
  bi_brief :: brief
  bi_claims :: "claim_record list"
  bi_clauses :: "clause_record list"
  bi_evidence :: "evidence_record list"
  bi_gaps :: "receipt_gap list"
  bi_ledger :: "ledger_event list"

datatype build_error =
    EmptyLedger | SigningFailed | SchemaInvalid | InvariantViolation receipt_issue | SignatureRejected

definition integrity_text :: "integrity \<Rightarrow> string" where
  "integrity_text i = (case i of Valid \<Rightarrow> ''valid'' | Hold \<Rightarrow> ''hold'')"

definition unsigned_receipt :: "externals \<Rightarrow> build_input \<Rightarrow> string \<Rightarrow> integrity \<Rightarrow> string \<Rightarrow> receipt_body" where
  "unsigned_receipt x inp st integ head_hash =
     \<lparr>rp_run = \<lparr>ri_run_id = bi_run_id inp, ri_loop_family = bi_loop_family inp,
        ri_loopeix_version = bi_loopeix_version inp, ri_engine = bi_engine inp, ri_run_state = st,
        ri_integrity = integrity_text integ, ri_sealed_at = bi_sealed_at inp\<rparr>,
      rp_brief = bi_brief inp, rp_brief_hash = computeBriefHash x (bi_brief inp),
      rp_binding = \<lparr>lb_event_count = int (length (bi_ledger inp)), lb_head = head_hash,
        lb_sha256 = hashBytes x (serializeLedger x (bi_ledger inp))\<rparr>,
      rp_claims = bi_claims inp, rp_clauses = bi_clauses inp, rp_evidence = bi_evidence inp,
      rp_gaps = bi_gaps inp, rp_summary = computeSummary (bi_claims inp) (bi_clauses inp)\<rparr>"

definition sealed_receipt :: "receipt_body \<Rightarrow> signature_block \<Rightarrow> receipt" where
  "sealed_receipt u g = receipt_body.extend u (receipt.fields g)"

text \<open>
  A recovered state that is no string cannot pass the schema, so the builder throws. The input
  has the keys of its types only: a key in excess would be signed and then stripped by the
  schema, so the receipt would differ from what was signed.
\<close>

definition buildReceipt :: "externals \<Rightarrow> crypto \<Rightarrow> build_input \<Rightarrow> string \<Rightarrow> build_error + receipt" where
  "buildReceipt x cr inp key =
     (case last_opt (bi_ledger inp) of
        None \<Rightarrow> Inl EmptyLedger
      | Some head \<Rightarrow>
          (let recovery = recoverLedger x (map event_json (bi_ledger inp)) no_opts in
           case run_state recovery of
             InheritedState \<Rightarrow> Inl SchemaInvalid
           | RunState st \<Rightarrow>
               (let u = unsigned_receipt x inp st (integrity_status recovery) (event_hash head) in
                case signCanonical cr (JObj (unsigned_fields u)) key of
                  None \<Rightarrow> Inl SigningFailed
                | Some g \<Rightarrow>
                    (case ReceiptShape x (receipt_json (sealed_receipt u g)) of
                       None \<Rightarrow> Inl SchemaInvalid
                     | Some parsed \<Rightarrow>
                         (case checkReceiptInvariants x parsed of
                            issue # _ \<Rightarrow> Inl (InvariantViolation issue)
                          | [] \<Rightarrow>
                              if verifySignatureBlock cr (JObj (unsigned_fields u)) (signature_json g)
                              then Inr parsed else Inl SignatureRejected)))))"

subsection \<open>Verifying\<close>

datatype check_id =
    CheckParse | CheckSchema | CheckInvariants | CheckDoctrine | CheckSignature
  | CheckLedgerHash | CheckLedgerHead | CheckLedgerChain

record verify_opts =
  vo_ledgerText :: "string option"
  vo_ledgerError :: "string option"
  vo_receiptError :: "string option"

text \<open>Condemnations of the raw value that cannot be shown to cite an id: their positions.\<close>

datatype doctrine_failure = NotAnArray string | NotAnObject string nat | Uncited string nat

definition citable :: "json \<Rightarrow> bool" where
  "citable v \<longleftrightarrow> (case v of JStr s \<Rightarrow> trim s \<noteq> [] | _ \<Rightarrow> False)"

definition inspect :: "json \<Rightarrow> string \<Rightarrow> string \<Rightarrow> doctrine_failure list" where
  "inspect rec listName badVerdict =
     (case as_array (jget rec listName) of
        None \<Rightarrow> [NotAnArray listName]
      | Some items \<Rightarrow>
          concat (map (\<lambda>(i, item).
            if \<not> is_objectish item then [NotAnObject listName i]
            else if jget item ''verdict'' \<noteq> Some (JStr badVerdict) then []
            else (case as_array (jget item ''evidence_ids'') of
                    Some ev \<Rightarrow> if list_ex citable ev then [] else [Uncited listName i]
                  | None \<Rightarrow> [Uncited listName i])) (indexed items)))"

definition doctrineFailures :: "json \<Rightarrow> doctrine_failure list" where
  "doctrineFailures rec = inspect rec ''claims'' ''CONTRADICTED'' @ inspect rec ''brief_clauses'' ''PROMISE_BROKEN''"

definition readString :: "json option \<Rightarrow> string \<Rightarrow> string \<Rightarrow> string option" where
  "readString rec outer inner =
     (case rec of None \<Rightarrow> None
      | Some r \<Rightarrow> (case jget r outer of None \<Rightarrow> None | Some o' \<Rightarrow> as_string (jget o' inner)))"

definition readNumber :: "json option \<Rightarrow> string \<Rightarrow> string \<Rightarrow> number option" where
  "readNumber rec outer inner =
     (case rec of None \<Rightarrow> None
      | Some r \<Rightarrow> (case jget r outer of None \<Rightarrow> None | Some o' \<Rightarrow> as_number (jget o' inner)))"

definition parsed_object :: "externals \<Rightarrow> string \<Rightarrow> verify_opts \<Rightarrow> json option" where
  "parsed_object x text opts =
     (if vo_receiptError opts \<noteq> None then None
      else (case jsonParse x text of Some (JObj fs) \<Rightarrow> Some (JObj fs) | _ \<Rightarrow> None))"

definition signature_check :: "crypto \<Rightarrow> json \<Rightarrow> bool" where
  "signature_check cr rec =
     (case jget rec ''signature'' of
        None \<Rightarrow> False
      | Some block \<Rightarrow>
          verifySignatureBlock cr (JObj (filter (\<lambda>f. fst f \<noteq> ''signature'') (json_fields rec))) block)"

definition head_check :: "json option \<Rightarrow> json list \<Rightarrow> bool" where
  "head_check rec events =
     (case (readString rec ''ledger_binding'' ''head_event_hash'',
            readNumber rec ''ledger_binding'' ''event_count'') of
        (Some boundHead, Some boundCount) \<Rightarrow>
          (case last_opt events of
             None \<Rightarrow> False
           | Some l \<Rightarrow>
               as_string (jget l ''event_hash'') = Some boundHead \<and>
               boundCount = Whole (int (length events)))
      | _ \<Rightarrow> False)"

definition ledger_checks :: "externals \<Rightarrow> json option \<Rightarrow> verify_opts \<Rightarrow> (check_id \<times> bool) list" where
  "ledger_checks x rec opts =
     (case (vo_ledgerError opts, vo_ledgerText opts) of
        (None, None) \<Rightarrow> []
      | (None, Some text) \<Rightarrow>
          (let pl = parseLedgerText x text in
           [(CheckLedgerHash, readString rec ''ledger_binding'' ''ledger_sha256'' = Some (hashBytes x text)),
            (CheckLedgerHead, head_check rec (pl_events pl)),
            (CheckLedgerChain,
             integrity_status (recoverLedger x (pl_events pl)
               \<lparr>opt_partial = partialFinalLineDropped pl, opt_expected = None,
                opt_corrupt = corruptLines pl\<rparr>) = Valid)])
      | _ \<Rightarrow> [(CheckLedgerHash, False), (CheckLedgerHead, False), (CheckLedgerChain, False)])"

definition verifyReceipt ::
  "externals \<Rightarrow> crypto \<Rightarrow> string \<Rightarrow> verify_opts \<Rightarrow> (check_id \<times> bool) list" where
  "verifyReceipt x cr text opts =
     (let rec = parsed_object x text opts;
          receipt = (case rec of None \<Rightarrow> None | Some v \<Rightarrow> ReceiptShape x v)
      in [(CheckParse, rec \<noteq> None),
          (CheckSchema, receipt \<noteq> None),
          (CheckInvariants, (case receipt of None \<Rightarrow> False | Some r \<Rightarrow> checkReceiptInvariants x r = [])),
          (CheckDoctrine, (case rec of None \<Rightarrow> False | Some v \<Rightarrow> doctrineFailures v = [])),
          (CheckSignature, (case rec of None \<Rightarrow> False | Some v \<Rightarrow> signature_check cr v))] @
         ledger_checks x rec opts)"

definition verify_ok :: "(check_id \<times> bool) list \<Rightarrow> bool" where
  "verify_ok checks = list_all snd checks"

text \<open>
  The gate of the renderers hands a receipt on only after all checks passed, or when the
  command layer passes one it has gated already.
\<close>

datatype gate_outcome = Refused "check_id list" | Accepted receipt | GateBroken

definition gateReceipt ::
  "externals \<Rightarrow> crypto \<Rightarrow> string \<Rightarrow> verify_opts \<Rightarrow> receipt option \<Rightarrow> gate_outcome" where
  "gateReceipt x cr text opts preGated =
     (case preGated of
        Some r \<Rightarrow> Accepted r
      | None \<Rightarrow>
          (let checks = verifyReceipt x cr text opts in
           if \<not> verify_ok checks then Refused (map fst (filter (\<lambda>c. \<not> snd c) checks))
           else (case Option.bind (jsonParse x text) (ReceiptShape x) of
                   Some r \<Rightarrow> Accepted r
                 | None \<Rightarrow> GateBroken)))"

subsection \<open>What an accepted receipt establishes\<close>

lemma parsed_object_Some: "parsed_object x text opts = Some v \<Longrightarrow> jsonParse x text = Some v"
  by (auto simp: parsed_object_def split: if_splits option.splits json.splits)

lemma verify_ok_core:
  "verify_ok (verifyReceipt x cr text opts) \<longleftrightarrow>
     (\<exists>v r. parsed_object x text opts = Some v \<and> ReceiptShape x v = Some r \<and>
        checkReceiptInvariants x r = [] \<and> doctrineFailures v = [] \<and> signature_check cr v) \<and>
     list_all snd (ledger_checks x (parsed_object x text opts) opts)"
proof (cases "parsed_object x text opts")
  case None
  then show ?thesis by (simp add: verify_ok_def verifyReceipt_def Let_def)
next
  case (Some v)
  then show ?thesis
    by (cases "ReceiptShape x v") (simp_all add: verify_ok_def verifyReceipt_def Let_def)
qed

text \<open>
  The rendering gate is closed on an unverified receipt: without a receipt gated
  before, it hands one on exactly when every check passes, that receipt satisfies the
  schema and the invariants, and it never reaches its broken state.
\<close>

theorem gate_accepts_iff:
  "(\<exists>r. gateReceipt x cr text opts None = Accepted r \<and> checkReceiptInvariants x r = []) =
     verify_ok (verifyReceipt x cr text opts) \<and> gateReceipt x cr text opts None \<noteq> GateBroken"
proof (cases "verify_ok (verifyReceipt x cr text opts)")
  case True
  then obtain v r where v: "parsed_object x text opts = Some v" "ReceiptShape x v = Some r"
    "checkReceiptInvariants x r = []"
    unfolding verify_ok_core by blast
  then show ?thesis using True parsed_object_Some [OF v(1)] by (simp add: gateReceipt_def Let_def)
qed (simp add: gateReceipt_def Let_def)

text \<open>A ledger text that a receipt accepts.\<close>

definition with_ledger :: "string \<Rightarrow> verify_opts" where
  "with_ledger t = \<lparr>vo_ledgerText = Some t, vo_ledgerError = None, vo_receiptError = None\<rparr>"

definition ledger_of :: "externals \<Rightarrow> string \<Rightarrow> ledger_event list" where
  "ledger_of x t = List.map_filter (parse_event x) (pl_events (parseLedgerText x t))"

lemma jget_event_hash:
  assumes "parse_event x v = Some e"
  shows "as_string (jget v ''event_hash'') = Some (event_hash e)"
proof -
  have "field_string Hash v ''event_hash'' = Some (event_hash e)"
    using assms unfolding parse_event_def by (auto simp: bind_eq_Some_conv split: if_split_asm)
  then show ?thesis by (auto simp: field_string_def split: option.split_asm json.split_asm if_split_asm)
qed

lemma accepted_ledger:
  assumes "verify_ok (verifyReceipt x cr text (with_ledger t))"
  shows "integrity_status (recoverLedger x (pl_events (parseLedgerText x t))
      \<lparr>opt_partial = partialFinalLineDropped (parseLedgerText x t), opt_expected = None,
       opt_corrupt = corruptLines (parseLedgerText x t)\<rparr>) = Valid"
    and "map (parse_event x) (pl_events (parseLedgerText x t)) = map Some (ledger_of x t)"
    and "ledger_of x t \<noteq> []"
    and "readString (parsed_object x text (with_ledger t)) ''ledger_binding'' ''head_event_hash'' =
      map_option event_hash (last_opt (ledger_of x t))"
proof -
  let ?raws = "pl_events (parseLedgerText x t)"
  let ?rec = "parsed_object x text (with_ledger t)"
  from assms have checks: "list_all snd (ledger_checks x ?rec (with_ledger t))"
    unfolding verify_ok_core by blast
  then show valid: "integrity_status (recoverLedger x ?raws
      \<lparr>opt_partial = partialFinalLineDropped (parseLedgerText x t), opt_expected = None,
       opt_corrupt = corruptLines (parseLedgerText x t)\<rparr>) = Valid"
    by (simp add: ledger_checks_def with_ledger_def Let_def)
  then obtain es where es: "map (parse_event x) ?raws = map Some es" unfolding recover_valid_iff by blast
  then have ledger: "ledger_of x t = es" by (simp add: ledger_of_def map_filter_parsed)
  with es show "map (parse_event x) ?raws = map Some (ledger_of x t)" by simp
  have head: "head_check ?rec ?raws" using checks by (simp add: ledger_checks_def with_ledger_def Let_def)
  then obtain l bound where l: "last_opt ?raws = Some l" and bound:
    "readString ?rec ''ledger_binding'' ''head_event_hash'' = Some bound"
    "as_string (jget l ''event_hash'') = Some bound"
    by (auto simp: head_check_def split: option.splits)
  have "map_option (parse_event x) (last_opt ?raws) = map_option Some (last_opt es)"
    using es by (metis last_opt_map)
  then obtain e where e: "last_opt es = Some e" "parse_event x l = Some e" using l by (cases "last_opt es") simp_all
  then show "ledger_of x t \<noteq> []" using ledger by auto
  show "readString ?rec ''ledger_binding'' ''head_event_hash'' = map_option event_hash (last_opt (ledger_of x t))"
    using bound e(1) ledger jget_event_hash [OF e(2)] by simp
qed

lemma readString_opts:
  "readString (parsed_object x text (with_ledger t)) a b = readString (parsed_object x text (with_ledger u)) a b"
  by (simp add: parsed_object_def with_ledger_def)

text \<open>
  C4: a receipt accepts one ledger. If the deep check passes for two ledger texts
  against the same receipt, both hold the same events in the same order, up to a digest
  collision among the events at hand: a ledger edited, cut or extended after sealing fails.
\<close>

theorem accepted_ledgers_agree:
  assumes "verify_ok (verifyReceipt x cr text (with_ledger t))"
    and "verify_ok (verifyReceipt x cr text (with_ledger u))"
    and "collision_free (hashCanonical x) (unsealed ` (set (ledger_of x t) \<union> set (ledger_of x u)))"
  shows "ledger_of x t = ledger_of x u"
proof -
  note T = accepted_ledger [OF assms(1)]
  note U = accepted_ledger [OF assms(2)]
  have inj: "inj (Some :: ledger_event \<Rightarrow> _)" by (rule injI) simp
  have "intact x (ledger_of x t)" "intact x (ledger_of x u)"
    using T(1,2) U(1,2) unfolding recover_valid_iff using inj by (metis inj_map_eq_map)+
  moreover have "map_option event_hash (last_opt (ledger_of x t)) = map_option event_hash (last_opt (ledger_of x u))"
    using T(4) U(4) readString_opts [of x "text" t _ _ u] by simp
  ultimately show ?thesis
    using assms(3) by (intro event_chain.head_binds) (auto simp: intact_def)
qed

subsection \<open>Built receipts verify\<close>

lemma sealed_receipt_simps [simp]:
  "unsigned_fields (sealed_receipt u g) = unsigned_fields u"
  "rp_signature (sealed_receipt u g) = g"
  by (simp_all add: sealed_receipt_def unsigned_fields_def receipt_body.defs receipt.defs)

lemma buildReceipt_Inr:
  assumes "buildReceipt x cr inp key = Inr r"
  shows "receipt_ok x r \<and> checkReceiptInvariants x r = [] \<and>
    verifySignatureBlock cr (JObj (unsigned_fields r)) (signature_json (rp_signature r))"
proof -
  from assms obtain u g where "ReceiptShape x (receipt_json (sealed_receipt u g)) = Some r"
    and "checkReceiptInvariants x r = []"
    and v: "verifySignatureBlock cr (JObj (unsigned_fields u)) (signature_json g)"
    by (auto simp: buildReceipt_def Let_def split: option.splits run_state.splits list.splits if_splits)
  moreover from this(1) have "receipt_ok x (sealed_receipt u g)" "r = sealed_receipt u g"
    by (simp_all add: receipt_roundtrip split: if_splits)
  ultimately show ?thesis by simp
qed

lemma citable_MachineId: "MachineId s \<Longrightarrow> citable (JStr s)"
proof -
  assume m: "MachineId s"
  have "\<not> MachineId []" by code_simp
  with m obtain c where c: "c \<in> set s" by (cases s) auto
  have chars: "is_lower d \<or> is_digit d \<or> d = CHR ''_''" if "d \<in> set s" for d
    using lang_alphabet [of s _ d] m that
    by (fastforce simp: MachineId_def re_test_lang RPlus_def is_lower_def is_digit_def simp del: lang.simps)
  have "\<not> is_ws d" if "is_lower d \<or> is_digit d \<or> d = CHR ''_''" for d
    using that by (auto simp: is_ws_def is_lower_def is_digit_def)
  with chars have "\<forall>d\<in>set s. \<not> is_ws d" by blast
  with c show ?thesis by (auto simp: citable_def trim_id)
qed

lemma inspect_records:
  assumes "jget v listName = Some (JArr (map f xs))"
    and "\<And>a. is_objectish (f a)"
    and "\<And>a. a \<in> set xs \<Longrightarrow> jget (f a) ''verdict'' = Some (JStr bad) \<Longrightarrow>
      \<exists>ids. as_array (jget (f a) ''evidence_ids'') = Some ids \<and> list_ex citable ids"
  shows "inspect v listName bad = []"
proof -
  have "list_all (\<lambda>item. (if \<not> is_objectish item then [NotAnObject listName i]
            else if jget item ''verdict'' \<noteq> Some (JStr bad) then []
            else (case as_array (jget item ''evidence_ids'') of
                    Some ev \<Rightarrow> if list_ex citable ev then [] else [Uncited listName i]
                  | None \<Rightarrow> [Uncited listName i])) = []) (map f xs)" for i
    using assms(2,3) by (fastforce simp: list_all_iff)
  then show ?thesis
    by (auto simp: inspect_def assms(1) indexed_def list_all_iff dest!: set_zip_rightD split del: if_split)
qed

lemma cited_ids_citable:
  assumes "set ids \<subseteq> re_id ` set evs" and "list_all evidence_ok evs" and "ids \<noteq> []"
  shows "list_ex citable (map JStr ids)"
proof -
  obtain i where i: "i \<in> set ids" using assms(3) by (cases ids) auto
  with assms(1) obtain e where "e \<in> set evs" "i = re_id e" by auto
  with assms(2) have "MachineId i" by (auto simp: list_all_iff evidence_ok_def)
  with i show ?thesis using citable_MachineId by (auto simp: list_ex_iff)
qed

lemma claim_json_verdict:
  "jget (claim_json c) ''verdict'' = Some (JStr (claim_verdict_text (rc_verdict c)))"
  "jget (claim_json c) ''evidence_ids'' = Some (JArr (map JStr (rc_evidence_ids c)))"
  "jget (clause_json d) ''verdict'' = Some (JStr (clause_verdict_text (rb_verdict d)))"
  "jget (clause_json d) ''evidence_ids'' = Some (JArr (map JStr (rb_evidence_ids d)))"
  "is_objectish (claim_json c)" "is_objectish (clause_json d)"
  by (simp_all add: claim_json_def clause_json_def)

lemma doctrine_of_receipt:
  assumes "receipt_ok x r" and "checkReceiptInvariants x r = []"
  shows "doctrineFailures (receipt_json r) = []"
proof -
  have "inspect (receipt_json r) ''claims'' ''CONTRADICTED'' = []"
  proof (rule inspect_records [OF jget_receipt(5)])
    fix c assume c: "c \<in> set (rp_claims r)" and "jget (claim_json c) ''verdict'' = Some (JStr ''CONTRADICTED'')"
    then have "rc_verdict c = CONTRADICTED" by (cases "rc_verdict c") (simp_all add: claim_json_verdict)
    then have "rc_evidence_ids c \<noteq> []" using c assms(1) by (auto simp: receipt_ok_def list_all_iff claim_ok_def)
    moreover have "set (rc_evidence_ids c) \<subseteq> re_id ` set (rp_evidence r)"
      using c assms(2) unfolding invariants_iff by blast
    ultimately show "\<exists>ids. as_array (jget (claim_json c) ''evidence_ids'') = Some ids \<and> list_ex citable ids"
      using assms(1) cited_ids_citable by (simp add: claim_json_verdict receipt_ok_def)
  qed (simp add: claim_json_verdict)
  moreover have "inspect (receipt_json r) ''brief_clauses'' ''PROMISE_BROKEN'' = []"
  proof (rule inspect_records [OF jget_receipt(6)])
    fix c assume c: "c \<in> set (rp_clauses r)" and "jget (clause_json c) ''verdict'' = Some (JStr ''PROMISE_BROKEN'')"
    then have "rb_verdict c = PROMISE_BROKEN" by (cases "rb_verdict c") (simp_all add: claim_json_verdict)
    then have "rb_evidence_ids c \<noteq> []" using c assms(1) by (auto simp: receipt_ok_def list_all_iff clause_record_ok_def)
    moreover have "set (rb_evidence_ids c) \<subseteq> re_id ` set (rp_evidence r)"
      using c assms(2) unfolding invariants_iff by blast
    ultimately show "\<exists>ids. as_array (jget (clause_json c) ''evidence_ids'') = Some ids \<and> list_ex citable ids"
      using assms(1) cited_ids_citable by (simp add: claim_json_verdict receipt_ok_def)
  qed (simp add: claim_json_verdict)
  ultimately show ?thesis by (simp add: doctrineFailures_def)
qed

definition no_ledger :: verify_opts where
  "no_ledger = \<lparr>vo_ledgerText = None, vo_ledgerError = None, vo_receiptError = None\<rparr>"

text \<open>
  C5: the builder never emits a receipt its own verifier would reject: whatever the
  input, key and cryptography, the printed form of a built receipt passes every offline
  check, the raw doctrine check included, as long as printing and parsing JSON are inverse on it.
\<close>

theorem built_receipt_verifies:
  assumes "buildReceipt x cr inp key = Inr r"
    and "jsonParse x text = Some (receipt_json r)"
  shows "verify_ok (verifyReceipt x cr text no_ledger)"
proof -
  note b = buildReceipt_Inr [OF assms(1)]
  have "parsed_object x text no_ledger = Some (receipt_json r)"
    using assms(2) by (simp add: parsed_object_def no_ledger_def receipt_json_def)
  moreover have "ReceiptShape x (receipt_json r) = Some r" using b by (simp add: receipt_roundtrip)
  moreover have "doctrineFailures (receipt_json r) = []" using b doctrine_of_receipt by blast
  moreover have "filter (\<lambda>f. fst f \<noteq> ''signature'') (json_fields (receipt_json r)) = unsigned_fields r"
    by (simp add: receipt_json_def unsigned_fields_def)
  then have "signature_check cr (receipt_json r)"
    using b by (simp add: signature_check_def jget_receipt)
  ultimately show ?thesis
    unfolding verify_ok_core using b by (simp add: ledger_checks_def no_ledger_def)
qed

subsection \<open>The verdict engine's output is a consistent receipt\<close>

lemma machineId_inj:
  assumes "HumanId i" and "HumanId j" and "machineId pre i = machineId pre j"
  shows "i = j"
proof -
  have u: "CHR ''_'' \<notin> set s" if "HumanId s" for s
    using HumanId_chars [OF that] by (force simp: is_lower_def is_digit_def)
  have "map (\<lambda>c. if c = CHR ''-'' then CHR ''_'' else c) i = map (\<lambda>c. if c = CHR ''-'' then CHR ''_'' else c) j"
    using assms(3) by (simp add: machineId_def)
  moreover have "inj_on (\<lambda>c. if c = CHR ''-'' then CHR ''_'' else c) (set i \<union> set j)"
    using u [OF assms(1)] u [OF assms(2)] by (auto simp: inj_on_def)
  ultimately show ?thesis using inj_on_map_eq_map by blast
qed

lemma distinct_machineIds:
  "distinct ids \<Longrightarrow> \<forall>i\<in>set ids. HumanId i \<Longrightarrow> distinct (map (machineId pre) ids)"
  by (auto simp: distinct_map inj_on_def dest: machineId_inj)

lemma machineId_scope: "HumanId i \<Longrightarrow> machineId ''clause'' i = ''clause_scope'' \<Longrightarrow> i = ''scope''"
proof -
  assume i: "HumanId i" "machineId ''clause'' i = ''clause_scope''"
  have "HumanId ''scope''" "machineId ''clause'' ''scope'' = ''clause_scope''" by code_simp+
  with i show ?thesis using machineId_inj by metis
qed

lemma forbidden_record_id: "rb_id (forbidden_record nfc root fcs c) = machineId ''clause'' (fc_id c)"
  by (cases c) (simp_all add: forbidden_record_def freeform_record_def adjudicateForbidden_def Let_def)

lemma acceptance_record_id: "rb_id (acceptance_record f c) = machineId ''clause'' (ac_id c)"
  by (simp add: acceptance_record_def freeform_record_def split: acceptance_kind.splits)

lemma brief_ids_human: "brief_ok b \<Longrightarrow> i \<in> set (clause_ids b) \<Longrightarrow> HumanId i"
  by (auto simp: brief_ok_def clause_ids_def list_all_iff clause_ok_def)

lemma output_clause_ids:
  "map rb_id (vo_brief_clauses (computeVerdicts x nfc inp)) =
     map (machineId ''clause'') (clause_ids (vi_brief inp)) @
     (if b_scope (vi_brief inp) \<noteq> [] then [''clause_scope''] else [])"
  by (simp add: computeVerdicts_def Let_def clause_ids_def forbidden_records_def o_def
      forbidden_record_id acceptance_record_id)
    (simp add: adjudicateScope_def Let_def)

lemma output_claim_ids:
  "map rc_id (vo_claims (computeVerdicts x nfc inp)) =
     map (machineId ''claim'') (map ac_id (filter (\<lambda>c. ac_kind c = TestsPass) (b_acceptance (vi_brief inp)))) \<or>
   map rc_id (vo_claims (computeVerdicts x nfc inp)) = [''claim_recognized_assertion'']"
  by (simp add: computeVerdicts_def Let_def claim_of_def o_def split: option.splits)

text \<open>
  Whatever the stream, gaps, final message and workspace root, the verdicts computed
  for a well-formed brief assemble into a receipt without invariant violations, so the
  builder's self-check on ids, citations, counts and brief hash cannot throw on them.
\<close>

theorem verdicts_pass_invariants:
  assumes "brief_ok (vi_brief inp)" and "bi_brief b = vi_brief inp"
    and "bi_claims b = vo_claims (computeVerdicts x nfc inp)"
    and "bi_clauses b = vo_brief_clauses (computeVerdicts x nfc inp)"
    and "bi_evidence b = vo_evidence (computeVerdicts x nfc inp)"
  shows "checkReceiptInvariants x (unsigned_receipt x b st integ h) = []"
proof -
  let ?out = "computeVerdicts x nfc inp"
  have human: "\<forall>i\<in>set (clause_ids (vi_brief inp)). HumanId i"
    and dist: "distinct (clause_ids (vi_brief inp))" and res: "''scope'' \<notin> set (clause_ids (vi_brief inp))"
    using assms(1) brief_ids_human by (auto simp: brief_ok_def RESERVED_CLAUSE_ID_def)
  have "''clause_scope'' \<notin> set (map (machineId ''clause'') (clause_ids (vi_brief inp)))"
  proof
    assume "''clause_scope'' \<in> set (map (machineId ''clause'') (clause_ids (vi_brief inp)))"
    then obtain i where "i \<in> set (clause_ids (vi_brief inp))" "machineId ''clause'' i = ''clause_scope''" by auto
    then show False using human res machineId_scope by metis
  qed
  then have clauses: "distinct (map rb_id (vo_brief_clauses ?out))"
    using distinct_machineIds [OF dist human] by (simp add: output_clause_ids)
  have "distinct (map ac_id (filter (\<lambda>c. ac_kind c = TestsPass) (b_acceptance (vi_brief inp))))"
    using dist by (simp add: clause_ids_def distinct_map_filter)
  moreover have "\<forall>i\<in>set (map ac_id (filter (\<lambda>c. ac_kind c = TestsPass) (b_acceptance (vi_brief inp)))). HumanId i"
    using human by (auto simp: clause_ids_def)
  ultimately have claims: "distinct (map rc_id (vo_claims ?out))"
    using distinct_machineIds output_claim_ids [of x nfc inp] by (metis distinct_singleton)
  have "set (rc_evidence_ids c) \<subseteq> re_id ` set (vo_evidence ?out)" if "c \<in> set (vo_claims ?out)" for c
    using claims_verdict [OF that] tests_ran_ids [of x nfc inp] index_ids_output [of x inp nfc] by auto
  moreover have "set (rb_evidence_ids c) \<subseteq> re_id ` set (vo_evidence ?out)" if "c \<in> set (vo_brief_clauses ?out)" for c
    using clauses_cite [OF that] index_ids_output [of x inp nfc] by (auto simp: cites_def)
  ultimately show ?thesis
    using claims clauses output_ids_distinct [of x nfc inp]
    by (simp add: invariants_iff unsigned_receipt_def assms)
qed

text \<open>
  A label of blanks or control characters passes the brief schema, yet its run can
  never be given a receipt: the sanitised clause text is empty and the receipt schema
  refuses it, whatever the run did.
\<close>

theorem blank_label_blocks_receipt:
  assumes "bi_clauses b = vo_brief_clauses (computeVerdicts x nfc inp)"
    and "c \<in> set (b_acceptance (vi_brief inp))" and "sanitizeText (ac_label c) = []"
  shows "buildReceipt x cr b key \<noteq> Inr r"
proof
  assume built: "buildReceipt x cr b key = Inr r"
  then have "rp_clauses r = bi_clauses b"
    by (auto simp: buildReceipt_def Let_def receipt_roundtrip sealed_receipt_def unsigned_receipt_def
        receipt_body.defs receipt.defs split: option.splits run_state.splits list.splits if_splits)
  moreover have "acceptance_record (tests_ran x nfc inp) c \<in> set (bi_clauses b)"
    using assms(1,2) by (simp add: computeVerdicts_def Let_def)
  moreover have "rb_text (acceptance_record (tests_ran x nfc inp) c) = []"
    using assms(3) by (simp add: acceptance_record_def freeform_record_def split: acceptance_kind.splits)
  ultimately have "\<not> list_all clause_record_ok (rp_clauses r)"
    by (auto simp: list_all_iff clause_record_ok_def)
  then show False using buildReceipt_Inr [OF built] by (simp add: receipt_ok_def)
qed

subsection \<open>A concrete receipt\<close>

definition demo_crypto :: crypto where
  "demo_crypto = \<lparr>p256_sign = (\<lambda>_ _. Some (''QQ=='', ''QQ=='')), p256_verify = (\<lambda>_ _ _. True)\<rparr>"

definition demo_hasher :: externals where
  "demo_hasher = demo_externals\<lparr>hashBytes := \<lambda>_. ''sha256:'' @ replicate 64 (CHR ''a'')\<rparr>"

definition demo_output :: verdict_output where
  "demo_output = computeVerdicts demo_hasher (\<lambda>s. s) (demo_input [deletion ''tests/a.ts''])"

definition demo_build :: build_input where
  "demo_build =
     \<lparr>bi_run_id = ''run_a'', bi_loop_family = ''demo-loop'', bi_loopeix_version = ''v001'',
      bi_engine = ''codex_cli'', bi_sealed_at = ''2026-01-01T00:00:00Z'', bi_brief = demo_brief,
      bi_claims = vo_claims demo_output, bi_clauses = vo_brief_clauses demo_output,
      bi_evidence = vo_evidence demo_output, bi_gaps = [], bi_ledger = [hd demo_ledger]\<rparr>"

theorem verdicts_pass_invariants_witness:
  "checkReceiptInvariants demo_hasher (unsigned_receipt demo_hasher demo_build ''running'' Valid ''h'') = []"
  by (rule verdicts_pass_invariants [of "demo_input [deletion ''tests/a.ts'']" _ _ "\<lambda>s. s"])
    (simp_all add: demo_build_def demo_output_def demo_input_def loaded_brief_ok_demo)

definition blank_brief :: brief where
  "blank_brief =
     \<lparr>b_task = ''t'', b_acceptance = [\<lparr>ac_id = ''a'', ac_label = '' '', ac_kind = TestsPass\<rparr>],
      b_forbidden = [], b_scope = []\<rparr>"

definition blank_input :: verdict_input where
  "blank_input =
     \<lparr>vi_brief = blank_brief, vi_events = [], vi_captureGaps = CODEX_GAPS, vi_finalText = None,
      vi_workspaceRoot = None\<rparr>"

definition blank_build :: build_input where
  "blank_build = demo_build\<lparr>bi_brief := blank_brief,
     bi_clauses := vo_brief_clauses (computeVerdicts demo_hasher (\<lambda>s. s) blank_input)\<rparr>"

lemma blank_label:
  "hd (b_acceptance blank_brief) \<in> set (b_acceptance (vi_brief blank_input))"
  "sanitizeText (ac_label (hd (b_acceptance blank_brief))) = []"
  by (simp add: blank_input_def blank_brief_def) code_simp

theorem blank_label_blocks_receipt_witness:
  "brief_ok blank_brief \<and> (\<forall>r. buildReceipt demo_hasher demo_crypto blank_build ''key'' \<noteq> Inr r)"
proof (intro conjI allI)
  show "brief_ok blank_brief" by code_simp
  have clauses: "bi_clauses blank_build = vo_brief_clauses (computeVerdicts demo_hasher (\<lambda>s. s) blank_input)"
    by (simp add: blank_build_def)
  show "buildReceipt demo_hasher demo_crypto blank_build ''key'' \<noteq> Inr r" for r
    by (rule blank_label_blocks_receipt [OF clauses blank_label])
qed

end
