(* ===== verification/Receipt_Examples.thy ===== *)
theory Receipt_Examples
  imports Receipt
begin

text \<open>A receipt built over a one-event ledger, and the checks evaluated on it.\<close>

definition small_brief :: brief where
  "small_brief =
     \<lparr>b_task = ''t'', b_acceptance = [\<lparr>ac_id = ''a'', ac_label = ''l'', ac_kind = TestsPass\<rparr>],
      b_forbidden = [], b_scope = []\<rparr>"

definition small_event :: ledger_event where
  "small_event = appendToLedger demo_hasher [] (demo_draft ''ev_a'' ''run.completed'')"

definition small_build :: build_input where
  "small_build =
     \<lparr>bi_run_id = ''run_a'', bi_loop_family = ''l'', bi_loopeix_version = ''v001'',
      bi_engine = ''codex_cli'', bi_sealed_at = ''2026'', bi_brief = small_brief,
      bi_claims = [\<lparr>rc_id = ''c_a'', rc_family = TestsRan, rc_text = ''l'', rc_verdict = CONTRADICTED,
        rc_evidence_ids = [''e_a''], rc_reason = None\<rparr>],
      bi_clauses = [],
      bi_evidence = [\<lparr>re_id = ''e_a'', re_type = ''command'', re_sha256 = None, re_level = Full,
        re_source = ''engine_stream''\<rparr>],
      bi_gaps = [], bi_ledger = [small_event]\<rparr>"

definition small_signature :: signature_block where
  "small_signature = \<lparr>sg_algorithm = SIGNATURE_ALGORITHM, sg_encoding = SIGNATURE_ENCODING,
     sg_public_key = ''QQ=='', sg_signature = ''QQ==''\<rparr>"

definition small_receipt :: receipt where
  "small_receipt = sealed_receipt
     (unsigned_receipt demo_hasher small_build ''completed'' Valid (event_hash small_event)) small_signature"

definition small_reader :: externals where
  "small_reader = demo_hasher\<lparr>jsonParse := \<lambda>s. if s = ''receipt'' then Some (receipt_json small_receipt)
     else Some (event_json small_event)\<rparr>"

lemma small_recovery:
  "integrity_status (recoverLedger small_reader [event_json small_event] no_opts) = Valid \<and>
   run_state (recoverLedger small_reader [event_json small_event] no_opts) = RunState ''completed''"
  by code_simp

lemma small_receipt_ok: "receipt_ok small_reader small_receipt"
  by code_simp

lemma small_invariants: "checkReceiptInvariants small_reader small_receipt = []"
  by code_simp

lemma small_signs: "signCanonical demo_crypto v k = Some small_signature"
  by (simp add: signCanonical_def demo_crypto_def small_signature_def)

lemma small_signed: "verifySignatureBlock demo_crypto v (signature_json small_signature)"
  by (simp add: verifySignatureBlock_def demo_crypto_def small_signature_def signature_json_def
      SIGNATURE_ALGORITHM_def SIGNATURE_ENCODING_def)

lemma small_unsigned:
  "unsigned_receipt small_reader small_build st i h = unsigned_receipt demo_hasher small_build st i h"
  by (simp add: unsigned_receipt_def small_reader_def computeBriefHash_def serializeLedger_def)

lemma small_build_succeeds: "buildReceipt small_reader demo_crypto small_build ''key'' = Inr small_receipt"
proof -
  have l: "bi_ledger small_build = [small_event]" by (simp add: small_build_def)
  have "ReceiptShape small_reader (receipt_json small_receipt) = Some small_receipt"
    using small_receipt_ok by (simp add: receipt_roundtrip)
  then show ?thesis
    using small_recovery small_invariants
    by (simp add: buildReceipt_def l Let_def small_signs small_signed small_unsigned
        flip: small_receipt_def)
qed

lemma small_reads: "jsonParse small_reader ''receipt'' = Some (receipt_json small_receipt)"
  by (simp add: small_reader_def)

theorem built_receipt_verifies_witness:
  "verify_ok (verifyReceipt small_reader demo_crypto ''receipt'' no_ledger)"
  by (rule built_receipt_verifies [OF small_build_succeeds small_reads])

lemma small_ledger_checks:
  "list_all snd (ledger_checks small_reader (Some (receipt_json small_receipt)) (with_ledger (''e'' @ [newline])))"
  by code_simp

lemma small_deep_check:
  "verify_ok (verifyReceipt small_reader demo_crypto ''receipt'' (with_ledger (''e'' @ [newline])))"
proof -
  have "parsed_object small_reader ''receipt'' opts = Some (receipt_json small_receipt)"
    if "vo_receiptError opts = None" for opts
    using small_reads that by (simp add: parsed_object_def receipt_json_def)
  then show ?thesis
    using built_receipt_verifies [OF small_build_succeeds small_reads] small_ledger_checks
    unfolding verify_ok_core by (simp add: no_ledger_def with_ledger_def)
qed

lemma small_ledger_of: "length (ledger_of small_reader (''e'' @ [newline])) = 1"
  by code_simp

theorem accepted_ledgers_agree_witness:
  "ledger_of small_reader (''e'' @ [newline]) = ledger_of small_reader (''e'' @ [newline]) \<and>
   length (ledger_of small_reader (''e'' @ [newline])) = 1"
proof
  obtain e where e: "ledger_of small_reader (''e'' @ [newline]) = [e]"
    using small_ledger_of by (metis One_nat_def length_0_conv length_Suc_conv)
  have "collision_free (hashCanonical small_reader)
      (unsealed ` (set (ledger_of small_reader (''e'' @ [newline])) \<union>
         set (ledger_of small_reader (''e'' @ [newline]))))"
    unfolding e by (simp add: collision_free_def)
  then show "ledger_of small_reader (''e'' @ [newline]) = ledger_of small_reader (''e'' @ [newline])"
    by (rule accepted_ledgers_agree [OF small_deep_check small_deep_check])
  show "length (ledger_of small_reader (''e'' @ [newline])) = 1" by (rule small_ledger_of)
qed

end
