(* ===== verification/Reducer_V03.thy ===== *)
theory Reducer_V03
  imports Prelude
begin

text \<open>
  The version 0.3 run reducer (\<open>src/run/runtime-state-reducer-v03.ts\<close>): a fold over a
  ledger prefix that accepts an event or stops at it with its index. An event keeps what
  the reducer reads of its payload. References to events are pairs of sequence and hash.
\<close>

datatype run_state3 =
    Initialized | Running | Paused | QuarantineRequired | Quarantined | Held | Aborting | Sealed

type_synonym event_ref = "int \<times> string"

datatype trigger3 = AbortTrigger | QuarantineTrigger

datatype body3 =
    RunInitialized3
  | RunStarted3
  | ActionAdmitted3 string
  | ActionSettled3 string
  | RunPaused3
  | RunQuarantined3
  | ObservationRejected3
  | GrantRevoked3
  | AbortRequested3
  | FreezeEntered3
  | TerminationAttempted3 trigger3 event_ref
  | TerminalSealed3
  | OtherEvent3 string

record event3 =
  e3_sequence :: int
  e3_hash :: string
  e3_body :: body3

datatype refusal3 =
    MustBeginInitialized | AfterSeal | QuarantineMustFollow | InitializedTwice | StartNeedsInitialized
  | AdmitNeedsRunning | AdmittedTwice | SettleNeedsInFlight | PauseNeedsQuiescence
  | QuarantineNeedsStarted | QuarantineNeedsRejection | RejectionNeedsActive | TriggerMismatch
  | SealNeedsFreeze | SealNeedsNoInFlight

record reducer3 =
  r3_state :: run_state3
  r3_started :: bool
  r3_abort :: bool
  r3_freeze :: bool
  r3_in_flight :: "string list"
  r3_by_ref :: "(event_ref \<times> body3) list"    \<comment> \<open>most recent first\<close>

definition reducer3_start :: reducer3 where
  "reducer3_start =
     \<lparr>r3_state = Initialized, r3_started = False, r3_abort = False, r3_freeze = False,
      r3_in_flight = [], r3_by_ref = []\<rparr>"

definition e3_ref :: "event3 \<Rightarrow> event_ref" where
  "e3_ref e = (e3_sequence e, e3_hash e)"

definition is_abort3 :: "body3 option \<Rightarrow> bool" where
  "is_abort3 b \<longleftrightarrow> b = Some AbortRequested3"

definition is_quarantine3 :: "body3 option \<Rightarrow> bool" where
  "is_quarantine3 b \<longleftrightarrow> b = Some RunQuarantined3"

text \<open>One case of the switch: the new state, or the refusal.\<close>

fun handle3 :: "reducer3 \<Rightarrow> body3 \<Rightarrow> refusal3 + reducer3" where
  "handle3 s RunInitialized3 = Inl InitializedTwice"
| "handle3 s RunStarted3 =
     (if r3_state s \<noteq> Initialized \<or> r3_started s then Inl StartNeedsInitialized
      else Inr (s\<lparr>r3_state := Running, r3_started := True\<rparr>))"
| "handle3 s (ActionAdmitted3 a) =
     (if r3_state s \<noteq> Running then Inl AdmitNeedsRunning
      else if a \<in> set (r3_in_flight s) then Inl AdmittedTwice
      else Inr (s\<lparr>r3_in_flight := r3_in_flight s @ [a]\<rparr>))"
| "handle3 s (ActionSettled3 a) =
     (if a \<notin> set (r3_in_flight s) then Inl SettleNeedsInFlight
      else Inr (s\<lparr>r3_in_flight := filter (\<lambda>b. b \<noteq> a) (r3_in_flight s)\<rparr>))"
| "handle3 s RunPaused3 =
     (if r3_state s \<noteq> Running \<or> r3_in_flight s \<noteq> [] then Inl PauseNeedsQuiescence
      else Inr (s\<lparr>r3_state := Paused\<rparr>))"
| "handle3 s RunQuarantined3 =
     (if \<not> r3_started s then Inl QuarantineNeedsStarted
      else if r3_state s \<noteq> QuarantineRequired then Inl QuarantineNeedsRejection
      else Inr (s\<lparr>r3_state := Quarantined\<rparr>))"
| "handle3 s ObservationRejected3 =
     (if \<not> r3_started s \<or> (r3_state s \<noteq> Running \<and> r3_state s \<noteq> Paused) then Inl RejectionNeedsActive
      else Inr (s\<lparr>r3_state := QuarantineRequired\<rparr>))"
| "handle3 s GrantRevoked3 =
     Inr (if r3_state s \<noteq> Aborting \<and> r3_state s \<noteq> Quarantined then s\<lparr>r3_state := Held\<rparr> else s)"
| "handle3 s AbortRequested3 =
     Inr (if r3_state s \<noteq> Quarantined then s\<lparr>r3_abort := True, r3_state := Aborting\<rparr>
          else s\<lparr>r3_abort := True\<rparr>)"
| "handle3 s FreezeEntered3 = Inr (s\<lparr>r3_freeze := True\<rparr>)"
| "handle3 s (TerminationAttempted3 t ref) =
     (let trigger = map_of (r3_by_ref s) ref in
      if (case t of AbortTrigger \<Rightarrow> \<not> is_abort3 trigger | QuarantineTrigger \<Rightarrow> \<not> is_quarantine3 trigger)
      then Inl TriggerMismatch else Inr s)"
| "handle3 s TerminalSealed3 =
     (if \<not> r3_freeze s then Inl SealNeedsFreeze
      else if r3_in_flight s \<noteq> [] then Inl SealNeedsNoInFlight
      else Inr (s\<lparr>r3_state := Sealed\<rparr>))"
| "handle3 s (OtherEvent3 t) = Inr s"

definition remember3 :: "event3 \<Rightarrow> reducer3 \<Rightarrow> reducer3" where
  "remember3 e s = s\<lparr>r3_by_ref := (e3_ref e, e3_body e) # r3_by_ref s\<rparr>"

definition step3 :: "nat \<Rightarrow> reducer3 \<Rightarrow> event3 \<Rightarrow> (nat \<times> refusal3) + reducer3" where
  "step3 i s e =
     (if i = 0 then
        (if e3_body e \<noteq> RunInitialized3 then Inl (i, MustBeginInitialized) else Inr (remember3 e s))
      else if r3_state s = Sealed then Inl (i, AfterSeal)
      else if r3_state s = QuarantineRequired \<and> e3_body e \<noteq> RunQuarantined3 then Inl (i, QuarantineMustFollow)
      else (case handle3 s (e3_body e) of Inl f \<Rightarrow> Inl (i, f) | Inr t \<Rightarrow> Inr (remember3 e t)))"

definition reduceRuntimeEventPrefixV03 :: "event3 list \<Rightarrow> (nat \<times> refusal3) + reducer3" where
  "reduceRuntimeEventPrefixV03 events = fold_events step3 0 reducer3_start events"

subsection \<open>Invariant\<close>

text \<open>
  What every accepted prefix keeps: no action is in flight twice, a paused or sealed run
  has none in flight, only a run in its first state has not started, unless it was
  held or aborted before starting, and a sealed run was frozen.
\<close>

definition reducer3_inv :: "reducer3 \<Rightarrow> bool" where
  "reducer3_inv s \<longleftrightarrow>
     distinct (r3_in_flight s) \<and>
     (r3_state s = Paused \<or> r3_state s = Sealed \<longrightarrow> r3_in_flight s = []) \<and>
     (r3_in_flight s \<noteq> [] \<longrightarrow> r3_started s) \<and>
     (r3_state s = Initialized \<longrightarrow> \<not> r3_started s) \<and>
     (r3_state s \<in> {Running, Paused, QuarantineRequired, Quarantined} \<longrightarrow> r3_started s) \<and>
     (r3_state s = Aborting \<longrightarrow> r3_abort s) \<and>
     (r3_state s = Sealed \<longrightarrow> r3_freeze s)"

lemma remember3_simps [simp]:
  "r3_state (remember3 e s) = r3_state s" "r3_started (remember3 e s) = r3_started s"
  "r3_abort (remember3 e s) = r3_abort s" "r3_freeze (remember3 e s) = r3_freeze s"
  "r3_in_flight (remember3 e s) = r3_in_flight s"
  by (simp_all add: remember3_def)

lemma remember3_inv [simp]: "reducer3_inv (remember3 e s) = reducer3_inv s"
  by (simp add: reducer3_inv_def)

lemma handle3_inv: "reducer3_inv s \<Longrightarrow> handle3 s b = Inr t \<Longrightarrow> r3_state s \<noteq> Sealed \<Longrightarrow> reducer3_inv t"
  by (cases b; cases "r3_state s"; clarsimp simp: reducer3_inv_def Let_def split: if_split_asm)

lemma step3_cases:
  assumes "step3 i s e = Inr t"
  obtains "i = 0" "e3_body e = RunInitialized3" "t = remember3 e s"
  | u where "i \<noteq> 0" "r3_state s \<noteq> Sealed" "handle3 s (e3_body e) = Inr u" "t = remember3 e u"
      "r3_state s = QuarantineRequired \<Longrightarrow> e3_body e = RunQuarantined3"
  using assms by (auto simp: step3_def split: if_splits sum.splits)

text \<open>Once true, these facts stay true along the ledger.\<close>

definition flags3 :: "reducer3 \<Rightarrow> nat" where
  "flags3 s = of_bool (r3_started s) + of_bool (r3_abort s) + of_bool (r3_freeze s) + of_bool (r3_state s = Sealed)"

lemma handle3_flags: "handle3 s b = Inr t \<Longrightarrow> r3_state s \<noteq> Sealed \<Longrightarrow> flags3 s \<le> flags3 t"
  by (cases b) (simp_all add: flags3_def Let_def split: if_split_asm, auto)

lemma step3_inv: "reducer3_inv s \<Longrightarrow> step3 i s e = Inr t \<Longrightarrow> reducer3_inv t"
  by (erule step3_cases) (simp_all add: handle3_inv)

lemma remember3_flags [simp]: "flags3 (remember3 e s) = flags3 s"
  by (simp add: flags3_def)

lemma step3_flags: "step3 i s e = Inr t \<Longrightarrow> flags3 s \<le> flags3 t"
  by (erule step3_cases) (simp_all add: handle3_flags)

interpretation v03: monotone_reducer step3 reducer3_inv flags3
  by unfold_locales (rule step3_inv, assumption+, rule step3_flags)

lemma reducer3_start_inv: "reducer3_inv reducer3_start"
  by (simp add: reducer3_inv_def reducer3_start_def)

text \<open>
  Every accepted prefix of a version 0.3 ledger has a consistent state. No action is
  in flight twice, a paused or sealed run has no action in flight, work happens only in
  started runs, and a seal is preceded by a freeze.
\<close>

theorem v03_accepted_invariant:
  assumes "reduceRuntimeEventPrefixV03 events = Inr s"
  shows "distinct (r3_in_flight s) \<and>
    (r3_state s = Paused \<or> r3_state s = Sealed \<longrightarrow> r3_in_flight s = []) \<and>
    (r3_in_flight s \<noteq> [] \<longrightarrow> r3_started s) \<and> (r3_state s = Sealed \<longrightarrow> r3_freeze s)"
  using v03.fold_inv [OF reducer3_start_inv assms [unfolded reduceRuntimeEventPrefixV03_def]]
  by (simp add: reducer3_inv_def)

definition ev3 :: "int \<Rightarrow> body3 \<Rightarrow> event3" where
  "ev3 n b = \<lparr>e3_sequence = n, e3_hash = ''h'', e3_body = b\<rparr>"

definition demo_ledger3 :: "event3 list" where
  "demo_ledger3 =
     [ev3 1 RunInitialized3, ev3 2 RunStarted3, ev3 3 (ActionAdmitted3 ''a''), ev3 4 (ActionSettled3 ''a''),
      ev3 5 AbortRequested3, ev3 6 (TerminationAttempted3 AbortTrigger (5, ''h'')), ev3 7 FreezeEntered3,
      ev3 8 TerminalSealed3]"

definition demo_state3 :: reducer3 where
  "demo_state3 =
     \<lparr>r3_state = Sealed, r3_started = True, r3_abort = True, r3_freeze = True, r3_in_flight = [],
      r3_by_ref = rev (map (\<lambda>e. (e3_ref e, e3_body e)) demo_ledger3)\<rparr>"

lemma demo_ledger3_accepted: "reduceRuntimeEventPrefixV03 demo_ledger3 = Inr demo_state3"
  by code_simp

theorem v03_accepted_invariant_witness:
  "distinct (r3_in_flight demo_state3) \<and> r3_in_flight demo_state3 = [] \<and> r3_freeze demo_state3"
proof -
  have "r3_state demo_state3 = Sealed" by (simp add: demo_state3_def)
  then show ?thesis using v03_accepted_invariant [OF demo_ledger3_accepted] by simp
qed

subsection \<open>A seal is final\<close>

text \<open>
  Nothing follows a seal. A ledger that was accepted up to a sealed state is refused
  at the very next event, whatever it is.
\<close>

theorem v03_seal_final:
  assumes "reduceRuntimeEventPrefixV03 events = Inr s" and "r3_state s = Sealed"
  shows "reduceRuntimeEventPrefixV03 (events @ e # rest) = Inl (length events, AfterSeal)"
proof -
  have "events \<noteq> []"
    using assms by (auto simp: reduceRuntimeEventPrefixV03_def reducer3_start_def)
  then have "step3 (length events) s e = Inl (length events, AfterSeal)"
    using assms(2) by (simp add: step3_def)
  then show ?thesis
    using assms(1) by (simp add: reduceRuntimeEventPrefixV03_def fold_events_append)
qed

theorem v03_seal_final_witness:
  "reduceRuntimeEventPrefixV03 (demo_ledger3 @ ev3 9 RunStarted3 # []) = Inl (length demo_ledger3, AfterSeal)"
  by (rule v03_seal_final [OF demo_ledger3_accepted]) (simp add: demo_state3_def)

text \<open>A rejected observation is followed by its quarantine or by nothing.\<close>

lemma v03_quarantine_adjacent:
  assumes "reduceRuntimeEventPrefixV03 (events @ [e, f]) = Inr s" and "events \<noteq> []"
    and "e3_body e = ObservationRejected3"
  shows "e3_body f = RunQuarantined3"
proof -
  from assms(1) obtain u v where "step3 (length events) u e = Inr v" and f: "step3 (Suc (length events)) v f = Inr s"
    by (auto simp: reduceRuntimeEventPrefixV03_def fold_events_append split: sum.splits)
  then have "r3_state v = QuarantineRequired"
    using assms(2,3) by (auto simp: step3_def split: if_splits sum.splits)
  with f show ?thesis by (auto simp: step3_def split: if_splits)
qed

end
