(* ===== verification/Runtime_V02.thy ===== *)
theory Runtime_V02
  imports Prelude Complex_Main "HOL-Library.Product_Lexorder"
begin

text \<open>
  The data of the version 0.2 runtime decisions (\<open>src/schema/runtime.ts\<close>,
  \<open>src/schema/loopeix-v02.ts\<close>): the events as the projections read them, the resolved plan and
  the rows of the terminal observation snapshot. Events and plans reach the modelled code
  validated by their schemas, so a discriminated union is a datatype and a payload is a record
  of the fields that are read. A ledger reference is its sequence and hash; the text key
  \<open>sequence:hash\<close> that the code compares determines the pair.
\<close>

subsection \<open>Names and references\<close>

type_synonym event_ref = "int \<times> string"

datatype terminal_state = Completed | Blocked | Held | Stalled | Exhausted | Failed | Aborted

fun TERMINAL_PRIORITY_V02 :: "terminal_state \<Rightarrow> int" where
  "TERMINAL_PRIORITY_V02 Completed = 100"
| "TERMINAL_PRIORITY_V02 Blocked = 200"
| "TERMINAL_PRIORITY_V02 Held = 300"
| "TERMINAL_PRIORITY_V02 Stalled = 400"
| "TERMINAL_PRIORITY_V02 Exhausted = 500"
| "TERMINAL_PRIORITY_V02 Failed = 600"
| "TERMINAL_PRIORITY_V02 Aborted = 700"

fun RECOVERY_PRIORITY_V02 :: "terminal_state \<Rightarrow> int option" where
  "RECOVERY_PRIORITY_V02 Stalled = Some 400"
| "RECOVERY_PRIORITY_V02 Exhausted = Some 500"
| "RECOVERY_PRIORITY_V02 Failed = Some 600"
| "RECOVERY_PRIORITY_V02 Aborted = Some 700"
| "RECOVERY_PRIORITY_V02 _ = None"

text \<open>Terminal states are ordered by their priority.\<close>

lemma priority_inj: "TERMINAL_PRIORITY_V02 a = TERMINAL_PRIORITY_V02 b \<Longrightarrow> a = b"
  by (cases a; cases b) simp_all

instantiation terminal_state :: linorder
begin

definition less_eq_terminal_state :: "terminal_state \<Rightarrow> terminal_state \<Rightarrow> bool" where
  "less_eq_terminal_state a b \<longleftrightarrow> TERMINAL_PRIORITY_V02 a \<le> TERMINAL_PRIORITY_V02 b"

definition less_terminal_state :: "terminal_state \<Rightarrow> terminal_state \<Rightarrow> bool" where
  "less_terminal_state a b \<longleftrightarrow> TERMINAL_PRIORITY_V02 a < TERMINAL_PRIORITY_V02 b"

instance
  by standard (auto simp: less_eq_terminal_state_def less_terminal_state_def dest: priority_inj)

end

lemmas state_order = less_eq_terminal_state_def less_terminal_state_def

lemma recovery_priority: "RECOVERY_PRIORITY_V02 a = Some n \<Longrightarrow> n = TERMINAL_PRIORITY_V02 a"
  by (cases a) auto

text \<open>Recovery candidates are the states from stalled upwards.\<close>

definition is_recovery :: "terminal_state \<Rightarrow> bool" where
  "is_recovery c \<longleftrightarrow> RECOVERY_PRIORITY_V02 c \<noteq> None"

lemma is_recovery_iff: "is_recovery c \<longleftrightarrow> Stalled \<le> c"
  by (cases c) (simp_all add: is_recovery_def state_order)

datatype activation_reason = TerminalFailure | TerminalExhaustion | TerminalStall | AbortRecovery

text \<open>The reason that belongs to a recovery candidate; the other states are no argument of it.\<close>

fun expectedCompensationActivationReasonV02 :: "terminal_state \<Rightarrow> activation_reason option" where
  "expectedCompensationActivationReasonV02 Stalled = Some TerminalStall"
| "expectedCompensationActivationReasonV02 Exhausted = Some TerminalExhaustion"
| "expectedCompensationActivationReasonV02 Failed = Some TerminalFailure"
| "expectedCompensationActivationReasonV02 Aborted = Some AbortRecovery"
| "expectedCompensationActivationReasonV02 _ = None"

datatype run_phase = WorkPhase | CompensationPhase

datatype failure_class =
    TransientAdapter | TransientNetwork | Contention | VerificationFailed | PolicyHold
  | InvalidInput | PermanentExecution

datatype limit_ref = MaxLoopAttempts | MaxElapsedMs | MaxToolCalls | MaxOutputBytes | MaxTokens | MaxCost

datatype unable_reason =
    ElapsedExhausted | ToolCallsExhausted | OutputExhausted | TokensExhausted | CostExhausted
  | SafetyHold | UnknownActionOutcome

datatype settlement_status = Compensated | CompensationFailed | Unable

datatype effect_state = NotStarted | NotCommitted | Committed | Unknown

datatype decision = Allow | Deny | Escalate | AbortDecision | HoldDecision

datatype disposition =
    LeaseEligible | ProposalFinal | HumanExceptionRequired | AbortRun | RedecideAfterPrefixChange
  | NonResumable

datatype result_status = Pass | Hold | Fail | Waived | Skipped | Missing

subsection \<open>Progress samples\<close>

text \<open>Finite doubles are rationals; null is a parseable value of no declared type.\<close>

datatype sample_value = NumberValue rat | TextValue string | TruthValue bool | NullValue

datatype sample = Parseable sample_value | PresentUnparseable | SourceMissing

subsection \<open>The resolved plan\<close>

datatype value_type = NumberType | TextType | TruthType

datatype improves_when = Increases | Decreases | EqualsTarget sample_value

datatype target_operator = AtLeast | AtMost | EqualTo

record observation_spec =
  ob_id :: string
  ob_type :: value_type
  ob_improves :: improves_when
  ob_target :: "(target_operator \<times> sample_value) option"

datatype task_kind = WorkTask | CompensationTask

record task_spec =
  tk_id :: string
  tk_depends_on :: "string list"
  tk_kind :: task_kind

text \<open>\<open>Always\<close>, or applicable with a compensation.\<close>

datatype applicability = Always | WithCompensation string

datatype prerequisite =
    NeedsInitialized
  | NeedsTaskTerminal string
  | NeedsArtifact string
  | NeedsEvidence string
  | NeedsGatePass string
  | NeedsEvaluationPass string
  | NeedsCompensationPhase string
  | NeedsCompensationTerminal string

record control_spec =
  co_id :: string
  co_applicability :: applicability
  co_prerequisites :: "prerequisite list"
  co_evaluator :: string
  co_policy_digest :: string
  co_check_role :: "string option"
  co_waiver_allowed :: bool            \<comment> \<open>read for gates only\<close>

record requirement_spec =
  er_id :: string
  er_minimum_roots :: nat

record limit_policy_v02 =
  lm_loop_attempts :: int
  lm_elapsed_ms :: int
  lm_tool_calls :: int
  lm_output_bytes :: int
  lm_control_reserve :: int
  lm_tokens :: "int option"
  lm_cost :: "int option"

record reserve_v02 =
  rs_elapsed :: int
  rs_tools :: int
  rs_output :: int
  rs_token :: "int option"
  rs_cost :: "int option"

datatype backoff_kind = BackoffNone | BackoffFixed | BackoffExponential

record retry_rule_v02 =
  ru_task :: string
  ru_class :: failure_class
  ru_retryable :: bool
  ru_max_executions :: int
  ru_backoff :: backoff_kind
  ru_base_delay :: int
  ru_max_delay :: int

datatype idempotency = NotRequired | Required | Unsupported

record effect_spec =
  ef_id :: string
  ef_class_none :: bool                \<comment> \<open>\<open>effect_class === "none"\<close>\<close>
  ef_idempotency :: idempotency

record side_effect_spec =
  se_task :: string
  se_effects :: "effect_spec list"

record compensation_spec =
  cp_id :: string
  cp_for_task :: string
  cp_for_effect :: string
  cp_action_task :: string
  cp_verifiers :: "string list"

record run_plan =
  rp_tasks :: "task_spec list"
  rp_gates :: "control_spec list"
  rp_evaluations :: "control_spec list"
  rp_requirements :: "requirement_spec list"
  rp_observations :: "observation_spec list"
  rp_stall_after :: int
  rp_limits :: limit_policy_v02
  rp_rules :: "retry_rule_v02 list"
  rp_reserve :: reserve_v02
  rp_side_effects :: "side_effect_spec list"
  rp_compensations :: "compensation_spec list"
  rp_control_bytes :: int
  rp_attempt_aware :: bool             \<comment> \<open>carries the two hashes of the version 0.4 plans\<close>

subsection \<open>Events\<close>

record action_fact =
  af_action :: string
  af_task :: string
  af_admission :: event_ref

record usage =
  us_output_bytes :: int               \<comment> \<open>the running totals after the action\<close>
  us_tool_calls :: int
  us_tokens :: int
  us_cost :: "int option"

record failure_fact =
  fl_class :: failure_class
  fl_ordinal :: int
  fl_clock :: event_ref
  fl_safety_evidence :: nat            \<comment> \<open>how many references\<close>

record action_admission =
  aa_action :: string
  aa_task :: string
  aa_lease :: string
  aa_clock :: event_ref
  aa_execution :: int
  aa_executions_after :: int
  aa_retry_of :: "int option"

datatype clock_reason = ActionClock | RetryCheck | WaiverBoundary | TerminalUse

record clock_fact =
  ck_elapsed :: int
  ck_reason :: clock_reason
  ck_task :: "string option"
  ck_ordinal :: "int option"
  ck_use :: "string option"

record violation_fact =
  vi_limit :: limit_ref
  vi_consumed :: int
  vi_requested :: int
  vi_ceiling :: int

record effect_fact =
  eo_task :: string
  eo_effect :: string
  eo_action :: string
  eo_outcome :: effect_state

record required_fact =
  rf_control :: string
  rf_compensation_mode :: bool         \<comment> \<open>\<open>applicability === "compensation"\<close>\<close>
  rf_compensation :: "string option"
  rf_set_hash :: string
  rf_refs :: "event_ref list"

record result_fact =
  rf_subject :: string
  rf_status :: result_status
  rf_evaluator :: string
  rf_policy :: string
  rf_role :: "string option"           \<comment> \<open>evaluations only\<close>
  rf_required :: event_ref
  rf_waiver :: "event_ref option"      \<comment> \<open>gates only\<close>

record waiver_fact =
  wv_gate :: string
  wv_required :: event_ref
  wv_set_hash :: string

record policy_fact =
  pf_task :: string
  pf_phase :: run_phase
  pf_compensation :: "string option"
  pf_proposal :: string
  pf_kind :: string
  pf_reviewed :: int                   \<comment> \<open>sequence of \<open>reviewed_through_ref\<close>\<close>
  pf_decision :: decision
  pf_disposition :: disposition
  pf_evidence :: "event_ref list"

record request_fact =
  rq_revision :: int
  rq_pending :: terminal_state
  rq_reason :: activation_reason
  rq_refs :: "string list"
  rq_freeze :: string

record revision_fact =
  rv_previous_pending :: terminal_state
  rv_previous_request :: string
  rv_added :: "string list"

record phase_fact =
  pe_request_revision :: int
  pe_request :: string
  pe_pending :: terminal_state
  pe_refs :: "string list"
  pe_freeze :: string

record escalation_fact =
  ec_previous :: terminal_state
  ec_pending :: terminal_state
  ec_previous_event :: string
  ec_refs :: "string list"

record settled_fact =
  sf_compensation :: string
  sf_status :: settlement_status
  sf_reason :: "unable_reason option"
  sf_evidence :: "event_ref list"

record seal_fact =
  sl_outcome :: terminal_state
  sl_fence :: int
  sl_previous_fence :: int
  sl_sequence :: int                   \<comment> \<open>the head and snapshot before the seal\<close>
  sl_head :: string
  sl_snapshot :: string

datatype body =
    Initialized int                    \<comment> \<open>the initial fence epoch\<close>
  | ClockObserved clock_fact
  | FenceAdvanced int bool             \<comment> \<open>the epoch; whether at a recovery boundary\<close>
  | AbortRequested
  | GateRequired required_fact
  | GateRecorded result_fact
  | EvaluationRequired required_fact
  | EvaluationRecorded result_fact
  | EffectOutcome effect_fact
  | LimitBlocked "violation_fact list"
  | ExecutionStarted action_fact
  | ExecutionCompleted action_fact usage
  | ExecutionFailed action_fact usage failure_fact
  | OutcomeUnknown action_fact
  | OutcomeReconciled action_fact
  | LeaseIssued string run_phase       \<comment> \<open>task and phase\<close>
  | ActionAdmitted action_admission
  | ActionSettled string string        \<comment> \<open>action and task\<close>
  | EvidenceRecorded "string list" "string list"  \<comment> \<open>requirements; independence keys\<close>
  | WaiverRecorded waiver_fact
  | RecommendationRecorded string run_phase
  | PolicyDecision policy_fact
  | FreezeEntered terminal_state int   \<comment> \<open>candidate and fence; its revision is one\<close>
  | FreezeRevised int terminal_state
  | CompensationRequested request_fact
  | CompensationRevised request_fact revision_fact
  | PhaseEntered phase_fact
  | CandidateEscalated escalation_fact
  | CompensationSettled settled_fact
  | Sealed seal_fact
  | LoopAttemptCompleted
  | ArtifactRecorded string
  | ProgressObserved string int sample \<comment> \<open>observation, attempt ordinal, sample\<close>
  | OtherEvent string

record event_v02 =
  ev_run :: string
  ev_seq :: int
  ev_hash :: string
  ev_body :: body

definition eventRef :: "event_v02 \<Rightarrow> event_ref" where
  "eventRef e = (ev_seq e, ev_hash e)"

text \<open>\<open>filter\<close> by a discriminating reading: the events with their payloads, in order.\<close>

definition events_where :: "(body \<Rightarrow> 'a option) \<Rightarrow> event_v02 list \<Rightarrow> (event_v02 \<times> 'a) list" where
  "events_where f es = concat (map (\<lambda>e. case f (ev_body e) of None \<Rightarrow> [] | Some p \<Rightarrow> [(e, p)]) es)"

lemma events_where_append [simp]: "events_where f (es @ fs) = events_where f es @ events_where f fs"
  by (simp add: events_where_def)

lemma events_where_Nil [simp]: "events_where f [] = []"
  by (simp add: events_where_def)

lemma events_where_skip [simp]: "f (ev_body e) = None \<Longrightarrow> events_where f [e] = []"
  by (simp add: events_where_def)

lemma events_where_hit [simp]: "f (ev_body e) = Some p \<Longrightarrow> events_where f [e] = [(e, p)]"
  by (simp add: events_where_def)

lemma set_events_where: "(e, p) \<in> set (events_where f es) \<longleftrightarrow> e \<in> set es \<and> f (ev_body e) = Some p"
  by (auto simp: events_where_def split: option.splits)

subsection \<open>Rows of the terminal observation snapshot\<close>

record gate_row =
  ga_ref :: string
  ga_applicable :: bool
  ga_due :: bool
  ga_status :: result_status
  ga_required :: "event_ref option"
  ga_result :: "event_ref option"
  ga_evidence :: "event_ref list"
  ga_waiver_active :: "bool option"
  ga_waiver_refs :: "event_ref list"

record evaluation_row =
  va_ref :: string
  va_applicable :: bool
  va_due :: bool
  va_status :: result_status
  va_required :: "event_ref option"
  va_result :: "event_ref option"
  va_evidence :: "event_ref list"

record progress_row =
  pr_ref :: string
  pr_target_reached :: bool
  pr_stalled :: bool
  pr_evidence :: "event_ref list"

datatype limit_status = Available | AtCeiling | WouldExceed | Exceeded | CaptureGap

record limit_row =
  li_ref :: limit_ref
  li_consumed :: int
  li_requested :: "int option"
  li_status :: limit_status
  li_evidence :: event_ref

datatype task_status = TaskPending | TaskRunning | TaskCompleted | TaskBlocked | TaskFailed

record task_row =
  ta_ref :: string
  ta_status :: task_status
  ta_terminal :: "event_ref option"
  ta_evidence :: "event_ref list"

record effect_row =
  fx_action :: "string option"
  fx_task :: string
  fx_effect :: string
  fx_outcome :: effect_state
  fx_event :: "event_ref option"

record durable_settlement =
  ds_status :: settlement_status
  ds_reason :: "unable_reason option"
  ds_evidence :: "event_ref list"
  ds_transition :: event_ref

text \<open>A settlement that is pending is \<^const>\<open>None\<close>.\<close>

record compensation_row =
  cm_ref :: string
  cm_requested :: bool
  cm_applicable :: bool
  cm_settlement :: "durable_settlement option"
  cm_evidence :: "event_ref list"

datatype retry_disposition = RetryWaiting | RetryReady | RetryIneligible

record failure_row =
  fr_task :: string
  fr_class :: failure_class
  fr_executions :: int
  fr_ordinal :: int
  fr_disposition :: retry_disposition
  fr_event :: event_ref
  fr_clock :: event_ref
  fr_retry_clock :: "event_ref option"

record block_row =
  bl_task :: string
  bl_phase :: run_phase
  bl_compensation :: "string option"
  bl_proposal :: string
  bl_kind :: string
  bl_decision :: decision
  bl_disposition :: disposition
  bl_active :: bool
  bl_event :: event_ref
  bl_evidence :: "event_ref list"

datatype action_state = Admitted | Started | ActionCompleted | ActionFailed | StateUnknown | StateReconciled

record action_row =
  ia_action :: string
  ia_task :: string
  ia_lease :: string
  ia_admission :: int
  ia_state :: action_state
  ia_latest :: event_ref

record freeze_row =
  fz_revision :: int
  fz_candidate :: terminal_state
  fz_event :: event_ref

record request_row =
  rr_revision :: int
  rr_pending :: terminal_state
  rr_reason :: activation_reason
  rr_refs :: "string list"
  rr_event :: event_ref

record snapshot =
  sn_run :: string
  sn_plan_hash :: string
  sn_sequence :: int
  sn_head :: string
  sn_fence :: int
  sn_phase :: run_phase
  sn_pending :: "terminal_state option"
  sn_pending_event :: "event_ref option"
  sn_freeze :: "freeze_row option"
  sn_request :: "request_row option"
  sn_seal :: "(event_ref \<times> seal_fact) option"
  sn_control :: "int \<times> int"          \<comment> \<open>consumed and reserved bytes; the rest is their difference\<close>
  sn_gates :: "gate_row list"
  sn_evaluations :: "evaluation_row list"
  sn_progress :: "progress_row list"
  sn_limits :: "limit_row list"
  sn_tasks :: "task_row list"
  sn_effects :: "effect_row list"
  sn_compensations :: "compensation_row list"
  sn_failures :: "failure_row list"
  sn_blocks :: "block_row list"
  sn_abort_requested :: bool
  sn_abort_event :: "event_ref option"
  sn_actions :: "action_row list"
  sn_workers :: nat

text \<open>The reasons a snapshot is refused with.\<close>

datatype invalid_reason =
    LineageInvalid | CoverageInvalid | ApplicabilityInvalid | LimitInvalid | TaskInvalid
  | AdmissionInvalid | FreezeInvalid | ActivationInvalid | RequestInvalid | EscalationInvalid
  | PhaseInvalid | RefSetInvalid | SettlementInvalid | WorkersAtPhaseEntry | ControlBudgetInvalid
  | SealInvalid | PostSealAction

end
