(* ===== verification/Progress.thy ===== *)
theory Progress
  imports Runtime_V02
begin

text \<open>
  The progress evaluator (\<open>src/run/progress-evaluator.ts\<close>): the samples of an observation in
  ledger order, compared with the last parseable one; the stall counter counts the samples
  since the baseline or the last improvement. The laws say what the stall flag means over
  the list of samples, without the loop's counter.
\<close>

datatype comparison = Unavailable | Baseline | UnparseableSample | Improved | Unchanged | Regressed

record observation_row =
  ov_ref :: string
  ov_attempts :: int
  ov_count :: nat
  ov_baseline :: "event_ref option"
  ov_latest :: "event_ref option"
  ov_comparison :: comparison
  ov_target :: bool
  ov_stalled :: bool

record projection_input =
  pi_plan :: run_plan
  pi_run :: string
  pi_plan_hash :: string
  pi_sequence :: int
  pi_head :: string
  pi_attempts :: int
  pi_observations :: "event_v02 list"
  pi_events :: "event_v02 list"

fun matchesExpectedValueType :: "value_type \<Rightarrow> sample_value \<Rightarrow> bool" where
  "matchesExpectedValueType NumberType (NumberValue _) = True"
| "matchesExpectedValueType TextType (TextValue _) = True"
| "matchesExpectedValueType TruthType (TruthValue _) = True"
| "matchesExpectedValueType _ _ = False"

text \<open>
  The order of two values of one type; the code compares no others. Texts are compared by
  their characters, as JavaScript does by code units; in the model both lie below 256.
\<close>

fun value_less :: "sample_value \<Rightarrow> sample_value \<Rightarrow> bool" where
  "value_less (NumberValue a) (NumberValue b) \<longleftrightarrow> a < b"
| "value_less (TextValue a) (TextValue b) \<longleftrightarrow> a < b"
| "value_less (TruthValue a) (TruthValue b) \<longleftrightarrow> \<not> a \<and> b"
| "value_less _ _ \<longleftrightarrow> False"

fun compareValues :: "sample_value \<Rightarrow> sample_value \<Rightarrow> improves_when \<Rightarrow> comparison" where
  "compareValues previous current Increases =
     (if value_less previous current then Improved else if current = previous then Unchanged else Regressed)"
| "compareValues previous current Decreases =
     (if value_less current previous then Improved else if current = previous then Unchanged else Regressed)"
| "compareValues previous current (EqualsTarget t) =
     (if (current = t) = (previous = t) then Unchanged else if current = t then Improved else Regressed)"

fun targetReached :: "(target_operator \<times> sample_value) option \<Rightarrow> sample_value \<Rightarrow> bool" where
  "targetReached None v = False"
| "targetReached (Some (EqualTo, t)) v = (v = t)"
| "targetReached (Some (AtLeast, t)) v =
     (case (v, t) of (NumberValue a, NumberValue b) \<Rightarrow> a \<ge> b | _ \<Rightarrow> False)"
| "targetReached (Some (AtMost, t)) v =
     (case (v, t) of (NumberValue a, NumberValue b) \<Rightarrow> a \<le> b | _ \<Rightarrow> False)"

subsection \<open>One observation\<close>

fun as_observed :: "body \<Rightarrow> (string \<times> int \<times> sample) option" where
  "as_observed (ProgressObserved ref n s) = Some (ref, n, s)"
| "as_observed _ = None"

definition eligible_samples :: "projection_input \<Rightarrow> string \<Rightarrow> (event_v02 \<times> sample) list" where
  "eligible_samples inp ref =
     sort_key (ev_seq \<circ> fst)
       (map (\<lambda>(e, r, n, s). (e, s))
         (filter (\<lambda>(e, r, n, s). r = ref \<and> n \<le> pi_attempts inp)
           (events_where as_observed (pi_observations inp))))"

text \<open>The variables of the loop over the eligible samples.\<close>

record watch =
  wt_previous :: "sample_value option"
  wt_baseline :: "event_ref option"
  wt_latest :: "event_ref option"
  wt_values :: "sample_value list"
  wt_stall :: nat

definition watch_start :: watch where
  "watch_start = \<lparr>wt_previous = None, wt_baseline = None, wt_latest = None, wt_values = [], wt_stall = 0\<rparr>"

definition watch_sample ::
  "observation_spec \<Rightarrow> nat \<Rightarrow> watch \<Rightarrow> event_v02 \<times> sample \<Rightarrow> invalid_reason + watch" where
  "watch_sample ob _ w es =
     (case snd es of
        Parseable v \<Rightarrow>
          if \<not> matchesExpectedValueType (ob_type ob) v then Inl CoverageInvalid
          else if wt_baseline w = None then
            Inr (w\<lparr>wt_values := wt_values w @ [v], wt_baseline := Some (eventRef (fst es)),
                   wt_latest := Some (eventRef (fst es)), wt_previous := Some v, wt_stall := 0\<rparr>)
          else (case wt_previous w of
                  None \<Rightarrow> Inl CoverageInvalid
                | Some p \<Rightarrow>
                    Inr (w\<lparr>wt_values := wt_values w @ [v], wt_latest := Some (eventRef (fst es)),
                           wt_previous := Some v,
                           wt_stall := (if compareValues p v (ob_improves ob) = Improved then 0
                                        else wt_stall w + 1)\<rparr>))
      | _ \<Rightarrow> Inr (if wt_baseline w \<noteq> None then w\<lparr>wt_stall := wt_stall w + 1\<rparr> else w))"

definition latest_comparison :: "observation_spec \<Rightarrow> watch \<Rightarrow> comparison" where
  "latest_comparison ob w =
     (case rev (wt_values w) of
        current # previous # _ \<Rightarrow> compareValues previous current (ob_improves ob)
      | _ \<Rightarrow> Baseline)"

definition unavailable_row :: "projection_input \<Rightarrow> string \<Rightarrow> observation_row" where
  "unavailable_row inp ref =
     \<lparr>ov_ref = ref, ov_attempts = pi_attempts inp, ov_count = 0, ov_baseline = None, ov_latest = None,
      ov_comparison = Unavailable, ov_target = False, ov_stalled = False\<rparr>"

definition evaluated_row ::
  "projection_input \<Rightarrow> string \<Rightarrow> watch \<Rightarrow> comparison \<Rightarrow> bool \<Rightarrow> observation_row" where
  "evaluated_row inp ref w c reached =
     \<lparr>ov_ref = ref, ov_attempts = pi_attempts inp, ov_count = length (wt_values w),
      ov_baseline = wt_baseline w, ov_latest = wt_latest w, ov_comparison = c, ov_target = reached,
      ov_stalled = (int (wt_stall w) \<ge> rp_stall_after (pi_plan inp))\<rparr>"

definition evaluateObservation :: "projection_input \<Rightarrow> string \<Rightarrow> invalid_reason + observation_row" where
  "evaluateObservation inp ref =
     (case find (\<lambda>ob. ob_id ob = ref) (rp_observations (pi_plan inp)) of
        None \<Rightarrow> Inl CoverageInvalid
      | Some ob \<Rightarrow>
          (let eligible = eligible_samples inp ref in
           case fold_events (watch_sample ob) 0 watch_start eligible of
             Inl r \<Rightarrow> Inl r
           | Inr w \<Rightarrow>
               (case (last_opt eligible, wt_baseline w, wt_previous w) of
                  (Some (e, s), Some _, Some _) \<Rightarrow>
                    (case s of
                       Parseable v \<Rightarrow>
                         if \<not> matchesExpectedValueType (ob_type ob) v then Inl CoverageInvalid
                         else Inr (evaluated_row inp ref w (latest_comparison ob w) (targetReached (ob_target ob) v))
                     | _ \<Rightarrow> Inr (evaluated_row inp ref w UnparseableSample False))
                | _ \<Rightarrow> Inr (unavailable_row inp ref))))"

subsection \<open>All observations of the plan\<close>

fun observation_error :: "projection_input \<Rightarrow> event_v02 \<times> string \<times> int \<times> sample \<Rightarrow> invalid_reason option" where
  "observation_error inp (e, ref, n, _) =
     (if ev_run e \<noteq> pi_run inp then Some LineageInvalid
      else if ref \<notin> set (map ob_id (rp_observations (pi_plan inp))) then Some CoverageInvalid
      else if n > lm_loop_attempts (rp_limits (pi_plan inp)) then Some CoverageInvalid
      else None)"

text \<open>The first refusal along a list.\<close>

fun first_error :: "('a \<Rightarrow> 'f option) \<Rightarrow> 'a list \<Rightarrow> 'f option" where
  "first_error f [] = None"
| "first_error f (x # xs) = (case f x of Some r \<Rightarrow> Some r | None \<Rightarrow> first_error f xs)"

fun collect_rows :: "('a \<Rightarrow> 'f + 'b) \<Rightarrow> 'a list \<Rightarrow> 'f + 'b list" where
  "collect_rows f [] = Inr []"
| "collect_rows f (x # xs) =
     (case f x of Inl r \<Rightarrow> Inl r
      | Inr y \<Rightarrow> (case collect_rows f xs of Inl r \<Rightarrow> Inl r | Inr ys \<Rightarrow> Inr (y # ys)))"

definition deriveProgressV02ForRuntime :: "projection_input \<Rightarrow> invalid_reason + observation_row list" where
  "deriveProgressV02ForRuntime inp =
     (case first_error (observation_error inp) (events_where as_observed (pi_observations inp)) of
        Some r \<Rightarrow> Inl r
      | None \<Rightarrow> collect_rows (evaluateObservation inp) (sort (map ob_id (rp_observations (pi_plan inp)))))"

lemma first_error_None: "first_error f xs = None \<longleftrightarrow> (\<forall>x\<in>set xs. f x = None)"
  by (induction xs) (auto split: option.splits)

lemma collect_rows_Inr: "collect_rows f xs = Inr ys \<longleftrightarrow> list_all2 (\<lambda>x y. f x = Inr y) xs ys"
proof (induction xs arbitrary: ys)
  case (Cons x xs)
  then show ?case by (cases ys; cases "f x"; cases "collect_rows f xs") auto
qed auto

subsection \<open>What the stall flag means\<close>

text \<open>
  A sample brings news if it is parseable and either the first such or an improvement on the
  last parseable one before it.
\<close>

definition parsed :: "sample list \<Rightarrow> sample_value list" where
  "parsed ss = concat (map (\<lambda>s. case s of Parseable v \<Rightarrow> [v] | _ \<Rightarrow> []) ss)"

fun brings_news :: "observation_spec \<Rightarrow> sample_value option \<Rightarrow> sample \<Rightarrow> bool" where
  "brings_news ob None (Parseable v) = True"
| "brings_news ob (Some p) (Parseable v) = (compareValues p v (ob_improves ob) = Improved)"
| "brings_news ob _ _ = False"

definition news :: "observation_spec \<Rightarrow> sample list \<Rightarrow> nat \<Rightarrow> bool" where
  "news ob ss i \<longleftrightarrow> brings_news ob (last_opt (parsed (take i ss))) (ss ! i)"

text \<open>The last sample with news lies so many samples back.\<close>

definition quiet_for :: "observation_spec \<Rightarrow> sample list \<Rightarrow> nat \<Rightarrow> bool" where
  "quiet_for ob ss k \<longleftrightarrow>
     (\<exists>m<length ss. news ob ss m \<and> (\<forall>i<length ss. m < i \<longrightarrow> \<not> news ob ss i) \<and> k + m + 1 = length ss)"

lemma parsed_snoc [simp]: "parsed (ss @ [s]) = parsed ss @ (case s of Parseable v \<Rightarrow> [v] | _ \<Rightarrow> [])"
  by (simp add: parsed_def)

lemma parsed_Nil [simp]: "parsed [] = []"
  by (simp add: parsed_def)

lemma news_snoc:
  "i < length ss \<Longrightarrow> news ob (ss @ [s]) i = news ob ss i"
  by (simp add: news_def nth_append)

lemma news_last: "news ob (ss @ [s]) (length ss) \<longleftrightarrow> brings_news ob (last_opt (parsed ss)) s"
  by (simp add: news_def)

lemma quiet_for_snoc:
  "quiet_for ob (ss @ [s]) k \<longleftrightarrow>
     (if news ob (ss @ [s]) (length ss) then k = 0 else 0 < k \<and> quiet_for ob ss (k - 1))"
proof (cases "news ob (ss @ [s]) (length ss)")
  case True
  then show ?thesis
    by (auto simp: quiet_for_def less_Suc_eq intro!: exI [of _ "length ss"])
next
  case False
  then show ?thesis
    by (cases k) (auto simp: quiet_for_def less_Suc_eq news_snoc cong: conj_cong)
qed

text \<open>The loop's counter is that distance.\<close>

definition watch_inv :: "observation_spec \<Rightarrow> sample list \<Rightarrow> watch \<Rightarrow> bool" where
  "watch_inv ob ss w \<longleftrightarrow>
     wt_values w = parsed ss \<and> wt_previous w = last_opt (parsed ss) \<and>
     (wt_baseline w = None) = (parsed ss = []) \<and>
     (\<forall>k. quiet_for ob ss k \<longleftrightarrow> parsed ss \<noteq> [] \<and> k = wt_stall w)"

lemma quiet_step:
  assumes "\<And>j. quiet_for ob ss j \<longleftrightarrow> parsed ss \<noteq> [] \<and> j = n"
  shows "quiet_for ob (ss @ [s]) k \<longleftrightarrow>
    (if brings_news ob (last_opt (parsed ss)) s then k = 0 else parsed ss \<noteq> [] \<and> k = Suc n)"
  by (cases k) (simp_all add: quiet_for_snoc news_last assms)

lemma watch_unparseable:
  assumes "watch_inv ob ss w" and "brings_news ob (last_opt (parsed ss)) s = False" and "parsed (ss @ [s]) = parsed ss"
  shows "watch_inv ob (ss @ [s]) (if wt_baseline w \<noteq> None then w\<lparr>wt_stall := wt_stall w + 1\<rparr> else w)"
proof -
  have "\<And>j. quiet_for ob ss j \<longleftrightarrow> parsed ss \<noteq> [] \<and> j = wt_stall w" using assms(1) by (simp add: watch_inv_def)
  note q = quiet_step [OF this, of s]
  from assms(1) have b: "(wt_baseline w = None) = (parsed ss = [])" by (simp add: watch_inv_def)
  show ?thesis unfolding watch_inv_def q assms(2,3)
    by (cases "parsed ss = []") (use assms(1) b in \<open>simp_all add: watch_inv_def\<close>)
qed

lemma watch_sample_inv:
  assumes "watch_inv ob ss w" and "watch_sample ob i w (e, s) = Inr u"
  shows "watch_inv ob (ss @ [s]) u"
proof (cases s)
  case (Parseable v)
  have "\<And>j. quiet_for ob ss j \<longleftrightarrow> parsed ss \<noteq> [] \<and> j = wt_stall w" using assms(1) by (simp add: watch_inv_def)
  note q = quiet_step [OF this, of s]
  from assms(1) have i: "wt_values w = parsed ss" "wt_previous w = last_opt (parsed ss)"
    "(wt_baseline w = None) = (parsed ss = [])" by (simp_all add: watch_inv_def)
  show ?thesis
  proof (cases "parsed ss = []")
    case True
    then show ?thesis using assms(2) Parseable i unfolding watch_inv_def q
      by (simp add: watch_sample_def split: if_splits) auto
  next
    case False
    then obtain p where "last_opt (parsed ss) = Some p" by fastforce
    with False show ?thesis using assms(2) Parseable i unfolding watch_inv_def q
      by (simp add: watch_sample_def split: if_splits) auto
  qed
next
  case PresentUnparseable
  with assms(2) watch_unparseable [OF assms(1), of s] show ?thesis by (simp add: watch_sample_def)
next
  case SourceMissing
  with assms(2) watch_unparseable [OF assms(1), of s] show ?thesis by (simp add: watch_sample_def)
qed

lemma watch_all_inv:
  "fold_events (watch_sample ob) 0 watch_start es = Inr w \<Longrightarrow> watch_inv ob (map snd es) w"
proof (induction es arbitrary: w rule: rev_induct)
  case Nil
  then show ?case by (auto simp: watch_inv_def watch_start_def quiet_for_def)
next
  case (snoc e es)
  then obtain u where u: "fold_events (watch_sample ob) 0 watch_start es = Inr u"
    "watch_sample ob (length es) u (fst e, snd e) = Inr w"
    by (auto simp: fold_events_snoc)
  from watch_sample_inv [OF snoc.IH [OF u(1)] u(2)] show ?case by simp
qed

text \<open>
  C20: an observation is stalled exactly if the last sample that brought news (the baseline or an
  improvement) lies at least the plan's number of samples back.
\<close>

theorem stalled_iff_no_news:
  assumes "evaluateObservation inp ref = Inr row"
    and "find (\<lambda>ob. ob_id ob = ref) (rp_observations (pi_plan inp)) = Some ob"
    and "0 < rp_stall_after (pi_plan inp)"
  shows "ov_stalled row \<longleftrightarrow>
    (\<exists>k. quiet_for ob (map snd (eligible_samples inp ref)) k \<and> rp_stall_after (pi_plan inp) \<le> int k)"
proof -
  from assms(1,2) obtain w where w: "fold_events (watch_sample ob) 0 watch_start (eligible_samples inp ref) = Inr w"
    by (auto simp: evaluateObservation_def Let_def split: sum.splits)
  from watch_all_inv [OF w] have inv: "watch_inv ob (map snd (eligible_samples inp ref)) w" .
  have "if wt_baseline w = None \<or> wt_previous w = None \<or> eligible_samples inp ref = [] then \<not> ov_stalled row
      else ov_stalled row = (int (wt_stall w) \<ge> rp_stall_after (pi_plan inp))"
    using assms(1,2) w
    by (auto simp: evaluateObservation_def Let_def unavailable_row_def evaluated_row_def
        split: option.splits sample.splits if_splits)
  then show ?thesis using inv assms(3)
    by (auto simp: watch_inv_def split: if_splits)
qed

end
