(* ===== verification/Compensation.thy ===== *)
theory Compensation
  imports Progress
begin

text \<open>
  The compensation projection (\<open>src/run/compensation-projection-v02.ts\<close>): which compensations are
  requested and applicable, the settlement that the observations call for, and the durable
  settlements of the ledger, each of which must be exactly the one called for. Hashes are
  lower-case hexadecimal, on which the comparison by locale is that of the characters.
\<close>

record compensation_input =
  ci_plan :: run_plan
  ci_events :: "event_v02 list"
  ci_tasks :: "task_row list"
  ci_evaluations :: "evaluation_row list"
  ci_effects :: "effect_row list"
  ci_limits :: "limit_row list"
  ci_blocks :: "block_row list"

record settlement_decision =
  sd_ref :: string
  sd_status :: settlement_status
  sd_reason :: "unable_reason option"
  sd_evidence :: "event_ref list"

definition BUDGET_REASONS :: "(limit_ref \<times> unable_reason) list" where
  "BUDGET_REASONS =
     [(MaxElapsedMs, ElapsedExhausted), (MaxToolCalls, ToolCallsExhausted), (MaxOutputBytes, OutputExhausted),
      (MaxTokens, TokensExhausted), (MaxCost, CostExhausted)]"

definition canonicalRefs :: "event_ref list \<Rightarrow> event_ref list" where
  "canonicalRefs refs = sort (uniq refs)"

definition protected_effect :: "compensation_input \<Rightarrow> compensation_spec \<Rightarrow> effect_row option" where
  "protected_effect inp c =
     find (\<lambda>f. fx_task f = cp_for_task c \<and> fx_effect f = cp_for_effect c) (ci_effects inp)"

definition unknown_outcome :: "effect_row option \<Rightarrow> event_ref option" where
  "unknown_outcome f =
     (case f of None \<Rightarrow> None | Some row \<Rightarrow> if fx_outcome row = Unknown then fx_event row else None)"

definition action_task_row :: "compensation_input \<Rightarrow> compensation_spec \<Rightarrow> task_row option" where
  "action_task_row inp c = find (\<lambda>t. ta_ref t = cp_action_task c) (ci_tasks inp)"

definition verifier_rows :: "compensation_input \<Rightarrow> compensation_spec \<Rightarrow> evaluation_row option list" where
  "verifier_rows inp c = map (\<lambda>r. find (\<lambda>v. va_ref v = r) (ci_evaluations inp)) (cp_verifiers c)"

definition option_list :: "'a option \<Rightarrow> 'a list" where
  "option_list x = (case x of None \<Rightarrow> [] | Some a \<Rightarrow> [a])"

definition status_is :: "task_status \<Rightarrow> task_row option \<Rightarrow> bool" where
  "status_is st t \<longleftrightarrow> (case t of None \<Rightarrow> False | Some row \<Rightarrow> ta_status row = st)"

definition terminal_refs :: "task_row option \<Rightarrow> event_ref list" where
  "terminal_refs t = (case t of None \<Rightarrow> [] | Some row \<Rightarrow> option_list (ta_terminal row))"

definition failed_verifier_refs :: "evaluation_row option list \<Rightarrow> event_ref list" where
  "failed_verifier_refs vs =
     concat (map (\<lambda>v. case v of None \<Rightarrow> []
                      | Some row \<Rightarrow> if va_status row = Fail then option_list (va_result row) else []) vs)"

definition verifier_passed :: "evaluation_row option \<Rightarrow> bool" where
  "verifier_passed v \<longleftrightarrow> (case v of None \<Rightarrow> False | Some row \<Rightarrow> va_status row = Pass \<and> va_result row \<noteq> None)"

definition verifier_result :: "evaluation_row option \<Rightarrow> event_ref" where
  "verifier_result v = the (va_result (the v))"

definition limit_reached :: "limit_row \<Rightarrow> bool" where
  "limit_reached l \<longleftrightarrow> li_status l \<in> {AtCeiling, WouldExceed, Exceeded}"

definition limit_configured :: "run_plan \<Rightarrow> limit_ref \<Rightarrow> bool" where
  "limit_configured plan r \<longleftrightarrow>
     \<not> (r = MaxTokens \<and> lm_tokens (rp_limits plan) = None) \<and> \<not> (r = MaxCost \<and> lm_cost (rp_limits plan) = None)"

fun budget_decision ::
  "compensation_input \<Rightarrow> compensation_spec \<Rightarrow> (limit_ref \<times> unable_reason) list \<Rightarrow> settlement_decision option" where
  "budget_decision inp c [] = None"
| "budget_decision inp c ((r, why) # rest) =
     (case (if limit_configured (ci_plan inp) r
            then find (\<lambda>l. li_ref l = r \<and> limit_reached l) (ci_limits inp) else None) of
        Some l \<Rightarrow> Some \<lparr>sd_ref = cp_id c, sd_status = Unable, sd_reason = Some why, sd_evidence = [li_evidence l]\<rparr>
      | None \<Rightarrow> budget_decision inp c rest)"

definition safety_blocks :: "compensation_input \<Rightarrow> compensation_spec \<Rightarrow> block_row list" where
  "safety_blocks inp c =
     filter (\<lambda>b. bl_active b \<and> bl_phase b = CompensationPhase \<and> bl_compensation b = Some (cp_id c) \<and>
               bl_task b = cp_action_task c \<and> bl_decision b = HoldDecision \<and> bl_disposition b = NonResumable)
       (ci_blocks inp)"

definition pendingDecision ::
  "compensation_input \<Rightarrow> compensation_spec \<Rightarrow> bool \<Rightarrow> string list \<Rightarrow> settlement_decision option" where
  "pendingDecision inp c applicable entered =
     (let task = action_task_row inp c; verifiers = verifier_rows inp c;
          failed = failed_verifier_refs verifiers in
      if \<not> applicable \<or> cp_id c \<notin> set entered then None
      else (case unknown_outcome (protected_effect inp c) of
              Some r \<Rightarrow>
                Some \<lparr>sd_ref = cp_id c, sd_status = Unable, sd_reason = Some UnknownActionOutcome, sd_evidence = [r]\<rparr>
            | None \<Rightarrow>
                if status_is TaskFailed task \<or> failed \<noteq> [] then
                  (let evidence = canonicalRefs (terminal_refs task @ failed) in
                   if evidence = [] then None
                   else Some \<lparr>sd_ref = cp_id c, sd_status = CompensationFailed, sd_reason = None, sd_evidence = evidence\<rparr>)
                else if status_is TaskCompleted task \<and> terminal_refs task \<noteq> [] \<and> verifiers \<noteq> [] \<and>
                        list_all verifier_passed verifiers then
                  Some \<lparr>sd_ref = cp_id c, sd_status = Compensated, sd_reason = None,
                        sd_evidence = canonicalRefs (terminal_refs task @ map verifier_result verifiers)\<rparr>
                else
                  (let held = canonicalRefs (concat (map (\<lambda>b. bl_evidence b @ [bl_event b]) (safety_blocks inp c))) in
                   if safety_blocks inp c \<noteq> [] \<and> held \<noteq> [] then
                     Some \<lparr>sd_ref = cp_id c, sd_status = Unable, sd_reason = Some SafetyHold, sd_evidence = held\<rparr>
                   else if \<not> status_is TaskCompleted task then budget_decision inp c BUDGET_REASONS
                   else None)))"

subsection \<open>Requests, phase entries and settlements of the ledger\<close>

fun as_request :: "body \<Rightarrow> request_fact option" where
  "as_request (CompensationRequested r) = Some r"
| "as_request (CompensationRevised r _) = Some r"
| "as_request _ = None"

fun as_phase_entry :: "body \<Rightarrow> phase_fact option" where
  "as_phase_entry (PhaseEntered p) = Some p"
| "as_phase_entry _ = None"

fun as_admission :: "body \<Rightarrow> action_admission option" where
  "as_admission (ActionAdmitted a) = Some a"
| "as_admission _ = None"

fun as_settled :: "body \<Rightarrow> settled_fact option" where
  "as_settled (CompensationSettled s) = Some s"
| "as_settled _ = None"

text \<open>A compensation may be requested for an effect that was committed or is unknown.\<close>

definition effect_protectable :: "effect_row option \<Rightarrow> bool" where
  "effect_protectable f \<longleftrightarrow> (case f of None \<Rightarrow> False | Some row \<Rightarrow> fx_outcome row \<in> {Committed, Unknown})"

definition request_error :: "compensation_input \<Rightarrow> string \<Rightarrow> invalid_reason option" where
  "request_error inp ref =
     (case find (\<lambda>c. cp_id c = ref) (rp_compensations (ci_plan inp)) of
        None \<Rightarrow> Some RefSetInvalid
      | Some c \<Rightarrow> if effect_protectable (protected_effect inp c) then None else Some ActivationInvalid)"

definition phase_entry_valid ::
  "run_plan \<Rightarrow> (event_v02 \<times> request_fact) option \<Rightarrow> phase_fact \<Rightarrow> bool" where
  "phase_entry_valid plan latest p \<longleftrightarrow>
     (case latest of
        None \<Rightarrow> False
      | Some (e, r) \<Rightarrow> pe_request p = ev_hash e \<and> pe_refs p = rq_refs r \<and>
          list_all (\<lambda>c. c \<in> set (map cp_id (rp_compensations plan))) (pe_refs p))"

definition durable_of :: "event_v02 \<times> settled_fact \<Rightarrow> durable_settlement" where
  "durable_of es = \<lparr>ds_status = sf_status (snd es), ds_reason = sf_reason (snd es),
     ds_evidence = sf_evidence (snd es), ds_transition = eventRef (fst es)\<rparr>"

definition settles_as :: "settled_fact \<Rightarrow> settlement_decision \<Rightarrow> bool" where
  "settles_as f d \<longleftrightarrow> sf_status f = sd_status d \<and> sf_reason f = sd_reason d \<and> sf_evidence f = sd_evidence d"

text \<open>The row of a compensation with its durable settlement or its pending decision.\<close>

record settlement_row =
  sr_row :: compensation_row
  sr_durable :: "(string \<times> durable_settlement) option"
  sr_pending :: "settlement_decision option"

definition compensation_observation ::
  "compensation_input \<Rightarrow> string list \<Rightarrow> string list \<Rightarrow> string list \<Rightarrow> (string \<times> (event_v02 \<times> settled_fact)) list \<Rightarrow>
   compensation_spec \<Rightarrow> invalid_reason + settlement_row" where
  "compensation_observation inp requested entered admitted settled c =
     (let activated = cp_id c \<in> set requested;
          applicable = activated \<or>
            (case protected_effect inp c of None \<Rightarrow> False | Some f \<Rightarrow> fx_outcome f = Unknown) \<or>
            cp_action_task c \<in> set admitted;
          decision = pendingDecision inp c applicable entered;
          row = \<lparr>cm_ref = cp_id c, cm_requested = activated, cm_applicable = applicable, cm_settlement = None,
                 cm_evidence = (case decision of None \<Rightarrow> [] | Some d \<Rightarrow> sd_evidence d)\<rparr> in
      case map_of settled (cp_id c) of
        None \<Rightarrow> Inr \<lparr>sr_row = row, sr_durable = None, sr_pending = decision\<rparr>
      | Some es \<Rightarrow>
          (case decision of
             None \<Rightarrow> Inl SettlementInvalid
           | Some d \<Rightarrow>
               if \<not> settles_as (snd es) d then Inl SettlementInvalid
               else Inr \<lparr>sr_row = row\<lparr>cm_settlement := Some (durable_of es), cm_evidence := sf_evidence (snd es)\<rparr>,
                         sr_durable = Some (cp_id c, durable_of es), sr_pending = None\<rparr>))"

record compensation_value =
  cv_rows :: "compensation_row list"
  cv_durable :: "(string \<times> durable_settlement) list"
  cv_pending :: "settlement_decision list"

definition deriveCompensationProjectionV02 :: "compensation_input \<Rightarrow> invalid_reason + compensation_value" where
  "deriveCompensationProjectionV02 inp =
     (let plan = ci_plan inp; requests = events_where as_request (ci_events inp);
          requested = concat (map (rq_refs \<circ> snd) requests);
          entries = map snd (events_where as_phase_entry (ci_events inp));
          admitted = map (aa_task \<circ> snd) (events_where as_admission (ci_events inp));
          settled = map (\<lambda>es. (sf_compensation (snd es), es)) (events_where as_settled (ci_events inp)) in
      case first_error (request_error inp) requested of
        Some r \<Rightarrow> Inl r
      | None \<Rightarrow>
          if \<not> list_all (phase_entry_valid plan (last_opt requests)) entries then Inl RefSetInvalid
          else if \<not> distinct (map fst settled) \<or> \<not> list_all (\<lambda>c. c \<in> set (map cp_id (rp_compensations plan))) (map fst settled)
            then Inl SettlementInvalid
          else (case collect_rows (compensation_observation inp requested (concat (map pe_refs entries)) admitted settled)
                       (rp_compensations plan) of
                  Inl r \<Rightarrow> Inl r
                | Inr rows \<Rightarrow>
                    Inr \<lparr>cv_rows = map sr_row rows, cv_durable = concat (map (option_list \<circ> sr_durable) rows),
                         cv_pending = concat (map (option_list \<circ> sr_pending) rows)\<rparr>))"

end
