(* ===== verification/Terminal.thy ===== *)
theory Terminal
  imports Compensation
begin

text \<open>
  The terminal evaluator (\<open>src/run/terminal-evaluator.ts\<close>): from a snapshot of the run it selects
  the terminal candidate of highest priority and decides the next step: freeze the work,
  revise the freeze, compensate, settle, seal or go on. The hash of a snapshot is a parameter;
  the check that a snapshot was built by this process is not a computation on its contents.
\<close>

datatype continuation = WorkOpen | TerminalQuiescence | CompensationOpen

record compensation_order =
  or_pending :: terminal_state
  or_reason :: "activation_reason option"
  or_refs :: "string list"

text \<open>The hash of the event that set the pending terminal state is missing if there is none: the code throws.\<close>

datatype terminal_decision =
    Continue continuation
  | FreezeWork terminal_state "event_ref list" int
  | ReviseFreeze terminal_state terminal_state int string "event_ref list"
  | RequestCompensation compensation_order "event_ref list" string
  | ReviseRequest int terminal_state compensation_order "string list" string "event_ref list" string
  | EnterCompensation int string terminal_state "string list" string
  | EscalateCompensation terminal_state compensation_order "string option" "event_ref list"
  | SettleCompensation settlement_decision
  | Seal terminal_state int string string int int
  | AlreadySealed "event_ref \<times> seal_fact"

definition isFailedFailureClass :: "failure_class \<Rightarrow> bool" where
  "isFailedFailureClass c \<longleftrightarrow> c \<in> {InvalidInput, VerificationFailed, PermanentExecution}"

definition uniqueRefs :: "event_ref list \<Rightarrow> event_ref list" where
  "uniqueRefs refs = sort_key fst (uniq refs)"

lemma uniqueRefs_Nil [simp]: "uniqueRefs refs = [] \<longleftrightarrow> refs = []"
  by (metis uniqueRefs_def set_empty set_sort set_uniq)

lemma set_uniqueRefs [simp]: "set (uniqueRefs refs) = set refs"
  by (simp add: uniqueRefs_def)

lemma distinct_uniqueRefs [simp]: "distinct (uniqueRefs refs)"
  by (simp add: uniqueRefs_def)

lemma sorted_uniqueRefs [simp]: "sorted (map fst (uniqueRefs refs))"
  by (simp add: uniqueRefs_def)

subsection \<open>Completion\<close>

definition evaluationCountsAsCompleted :: "run_plan \<Rightarrow> evaluation_row \<Rightarrow> bool" where
  "evaluationCountsAsCompleted plan v \<longleftrightarrow>
     (if va_ref v \<notin> set (map co_id (rp_evaluations plan)) then False
      else if \<not> va_applicable v then True else va_due v \<and> va_status v = Pass)"

definition taskCountsAsCompleted :: "run_plan \<Rightarrow> snapshot \<Rightarrow> task_row \<Rightarrow> bool" where
  "taskCountsAsCompleted plan s t \<longleftrightarrow>
     (case find (\<lambda>d. tk_id d = ta_ref t) (rp_tasks plan) of
        None \<Rightarrow> False
      | Some d \<Rightarrow>
          if tk_kind d = WorkTask then ta_status t = TaskCompleted
          else \<not> list_ex (\<lambda>c. cp_action_task c = ta_ref t \<and>
                     list_ex (\<lambda>o'. cm_ref o' = cp_id c \<and> cm_applicable o') (sn_compensations s)) (rp_compensations plan) \<or>
               ta_status t = TaskCompleted)"

definition gate_clear :: "gate_row \<Rightarrow> bool" where
  "gate_clear g \<longleftrightarrow> \<not> ga_applicable g \<or> \<not> ga_due g \<or> ga_status g = Pass \<or> ga_status g = Waived"

text \<open>The definition a map of the observations by identifier finds: the last one declared.\<close>

definition progress_complete :: "run_plan \<Rightarrow> progress_row \<Rightarrow> bool" where
  "progress_complete plan p \<longleftrightarrow>
     (case map_of (rev (map (\<lambda>ob. (ob_id ob, ob)) (rp_observations plan))) (pr_ref p) of
        None \<Rightarrow> False
      | Some ob \<Rightarrow> ob_target ob = None \<or> pr_target_reached p)"

definition completion_ready :: "run_plan \<Rightarrow> snapshot \<Rightarrow> bool" where
  "completion_ready plan s \<longleftrightarrow>
     list_all gate_clear (sn_gates s) \<and> list_all (evaluationCountsAsCompleted plan) (sn_evaluations s) \<and>
     list_all (taskCountsAsCompleted plan s) (sn_tasks s) \<and> list_all (progress_complete plan) (sn_progress s)"

definition completionEvidence :: "run_plan \<Rightarrow> snapshot \<Rightarrow> event_ref list" where
  "completionEvidence plan s =
     (if \<not> completion_ready plan s then []
      else concat (map ga_evidence (sn_gates s)) @ concat (map va_evidence (sn_evaluations s)) @
           concat (map ta_evidence (sn_tasks s)) @ concat (map pr_evidence (sn_progress s)))"

subsection \<open>Candidates\<close>

text \<open>The evidence of due and applicable controls with a given result: gates, then evaluations.\<close>

definition control_evidence :: "snapshot \<Rightarrow> result_status \<Rightarrow> event_ref list" where
  "control_evidence s st =
     concat (map ga_evidence (filter (\<lambda>g. ga_applicable g \<and> ga_due g \<and> ga_status g = st) (sn_gates s))) @
     concat (map va_evidence (filter (\<lambda>v. va_applicable v \<and> va_due v \<and> va_status v = st) (sn_evaluations s)))"

definition failed_evidence :: "snapshot \<Rightarrow> event_ref list" where
  "failed_evidence s =
     map fr_event (filter (\<lambda>f. isFailedFailureClass (fr_class f)) (sn_failures s)) @
     concat (map ta_evidence (filter (\<lambda>t. ta_status t = TaskFailed) (sn_tasks s))) @ control_evidence s Fail"

definition held_evidence :: "snapshot \<Rightarrow> event_ref list" where
  "held_evidence s =
     map fr_event (filter (\<lambda>f. fr_class f = PolicyHold) (sn_failures s)) @
     map bl_event (filter (\<lambda>b. bl_active b \<and> bl_decision b = HoldDecision) (sn_blocks s)) @ control_evidence s Hold"

definition blocked_evidence :: "snapshot \<Rightarrow> event_ref list" where
  "blocked_evidence s =
     (let retryable = map fr_task (filter (\<lambda>f. fr_disposition f \<in> {RetryWaiting, RetryReady}) (sn_failures s)) in
      concat (map ta_evidence (filter (\<lambda>t. ta_status t = TaskBlocked \<and> ta_ref t \<notin> set retryable) (sn_tasks s))))"

fun candidate_evidence :: "run_plan \<Rightarrow> snapshot \<Rightarrow> terminal_state \<Rightarrow> event_ref list" where
  "candidate_evidence plan s Aborted =
     (if sn_abort_requested s then option_list (sn_abort_event s) else [])"
| "candidate_evidence plan s Failed = failed_evidence s"
| "candidate_evidence plan s Exhausted = map li_evidence (filter limit_reached (sn_limits s))"
| "candidate_evidence plan s Stalled = concat (map pr_evidence (filter pr_stalled (sn_progress s)))"
| "candidate_evidence plan s Held = held_evidence s"
| "candidate_evidence plan s Blocked = blocked_evidence s"
| "candidate_evidence plan s Completed = completionEvidence plan s"

definition candidate_rows :: "run_plan \<Rightarrow> snapshot \<Rightarrow> (terminal_state \<times> event_ref list) list" where
  "candidate_rows plan s =
     filter (\<lambda>r. snd r \<noteq> [])
       (map (\<lambda>c. (c, uniqueRefs (candidate_evidence plan s c)))
         [Aborted, Failed, Exhausted, Stalled, Held, Blocked, Completed])"

definition terminalCandidate :: "run_plan \<Rightarrow> snapshot \<Rightarrow> (terminal_state \<times> event_ref list) option" where
  "terminalCandidate plan s = nth_opt (sort_key (\<lambda>r. - TERMINAL_PRIORITY_V02 (fst r)) (candidate_rows plan s)) 0"

subsection \<open>The decision table\<close>

definition preSealSnapshotHash :: "(snapshot \<Rightarrow> string) \<Rightarrow> snapshot \<Rightarrow> string" where
  "preSealSnapshotHash hs s = hs (s\<lparr>sn_seal := None\<rparr>)"

text \<open>A comparison with a state that is no recovery candidate is a comparison with undefined.\<close>

definition recovery_above :: "terminal_state \<Rightarrow> terminal_state \<Rightarrow> bool" where
  "recovery_above a b \<longleftrightarrow>
     (case (RECOVERY_PRIORITY_V02 a, RECOVERY_PRIORITY_V02 b) of (Some m, Some n) \<Rightarrow> m > n | _ \<Rightarrow> False)"

definition action_open :: "action_row \<Rightarrow> bool" where
  "action_open a \<longleftrightarrow> ia_state a = Admitted \<or> ia_state a = Started"

definition effect_to_compensate :: "effect_row \<Rightarrow> bool" where
  "effect_to_compensate f \<longleftrightarrow> fx_outcome f = Committed \<or> fx_outcome f = Unknown"

definition due_compensations :: "run_plan \<Rightarrow> snapshot \<Rightarrow> string list" where
  "due_compensations plan s =
     map cp_id (filter (\<lambda>c. list_ex (\<lambda>f. fx_task f = cp_for_task c \<and> fx_effect f = cp_for_effect c \<and>
                                  effect_to_compensate f) (sn_effects s)) (rp_compensations plan))"

definition effect_evidence :: "snapshot \<Rightarrow> event_ref list" where
  "effect_evidence s =
     uniqueRefs (concat (map (option_list \<circ> fx_event) (filter effect_to_compensate (sn_effects s))))"

definition order_for :: "terminal_state \<Rightarrow> string list \<Rightarrow> compensation_order" where
  "order_for c refs =
     \<lparr>or_pending = c, or_reason = expectedCompensationActivationReasonV02 c, or_refs = refs\<rparr>"

text \<open>Request a compensation, revise the request, or enter the phase it asked for.\<close>

definition request_decision :: "snapshot \<Rightarrow> freeze_row \<Rightarrow> string list \<Rightarrow> terminal_decision" where
  "request_decision s fz refs =
     (case sn_request s of
        None \<Rightarrow> RequestCompensation (order_for (fz_candidate fz) refs) (effect_evidence s) (snd (fz_event fz))
      | Some rq \<Rightarrow>
          (let added = filter (\<lambda>r. r \<notin> set (rr_refs rq)) refs in
           if recovery_above (fz_candidate fz) (rr_pending rq) \<or> added \<noteq> [] then
             ReviseRequest (rr_revision rq + 1) (rr_pending rq) (order_for (fz_candidate fz) refs) added
               (snd (rr_event rq)) (effect_evidence s) (snd (fz_event fz))
           else EnterCompensation (rr_revision rq) (snd (rr_event rq)) (rr_pending rq) (rr_refs rq) (snd (fz_event fz))))"

definition requested_refs :: "snapshot \<Rightarrow> string list" where
  "requested_refs s =
     (case sn_request s of
        None \<Rightarrow> map cm_ref (filter cm_requested (sn_compensations s))
      | Some rq \<Rightarrow> rr_refs rq)"

definition snapshot_compensation :: "projection_input \<Rightarrow> snapshot \<Rightarrow> compensation_input" where
  "snapshot_compensation inp s =
     \<lparr>ci_plan = pi_plan inp, ci_events = pi_events inp, ci_tasks = sn_tasks s, ci_evaluations = sn_evaluations s,
      ci_effects = sn_effects s, ci_limits = sn_limits s, ci_blocks = sn_blocks s\<rparr>"

definition pending_settlements ::
  "projection_input \<Rightarrow> compensation_value option \<Rightarrow> snapshot \<Rightarrow> settlement_decision list" where
  "pending_settlements inp captured s =
     (case captured of
        Some v \<Rightarrow> cv_pending v
      | None \<Rightarrow> (case deriveCompensationProjectionV02 (snapshot_compensation inp s) of
                   Inl _ \<Rightarrow> [] | Inr v \<Rightarrow> cv_pending v))"

text \<open>The steps of the compensation phase; \<^const>\<open>None\<close> if it is over.\<close>

definition escalation_step ::
  "snapshot \<Rightarrow> (terminal_state \<times> event_ref list) option \<Rightarrow> terminal_decision option" where
  "escalation_step s selected =
     (case (selected, sn_pending s) of
        (Some (c, evidence), Some p) \<Rightarrow>
          if recovery_above c p then
            Some (EscalateCompensation p (order_for c (requested_refs s)) (map_option snd (sn_pending_event s)) evidence)
          else None
      | _ \<Rightarrow> None)"

definition settlement_step ::
  "projection_input \<Rightarrow> compensation_value option \<Rightarrow> snapshot \<Rightarrow> terminal_decision option" where
  "settlement_step inp captured s =
     (case pending_settlements inp captured s of
        d # _ \<Rightarrow> Some (SettleCompensation d)
      | [] \<Rightarrow> if list_ex (\<lambda>c. cm_applicable c \<and> cm_settlement c = None) (sn_compensations s)
              then Some (Continue CompensationOpen) else None)"

definition seal_decision :: "(snapshot \<Rightarrow> string) \<Rightarrow> snapshot \<Rightarrow> terminal_decision" where
  "seal_decision hs s =
     (case sn_freeze s of
        Some fz \<Rightarrow>
          Seal (case sn_pending s of Some p \<Rightarrow> p | None \<Rightarrow> fz_candidate fz) (sn_sequence s) (sn_head s)
            (preSealSnapshotHash hs s) (sn_fence s) (sn_fence s + 1)
      | None \<Rightarrow> Continue (if sn_phase s = CompensationPhase then CompensationOpen else WorkOpen))"

text \<open>The decision once the run is frozen and quiet.\<close>

definition quiet_decision ::
  "(snapshot \<Rightarrow> string) \<Rightarrow> projection_input \<Rightarrow> compensation_value option \<Rightarrow> snapshot \<Rightarrow>
   (terminal_state \<times> event_ref list) option \<Rightarrow> terminal_decision" where
  "quiet_decision hs inp captured s selected =
     (let recovery = (case sn_freeze s of Some fz \<Rightarrow> if is_recovery (fz_candidate fz) then Some fz else None
                                        | None \<Rightarrow> None);
          refs = due_compensations (pi_plan inp) s in
      if sn_phase s = WorkPhase \<and> recovery \<noteq> None \<and> refs \<noteq> [] \<and> effect_evidence s \<noteq> [] then
        request_decision s (the recovery) refs
      else if sn_phase s = CompensationPhase then
        (case escalation_step s selected of
           Some d \<Rightarrow> d
         | None \<Rightarrow> (case settlement_step inp captured s of Some d \<Rightarrow> d | None \<Rightarrow> seal_decision hs s))
      else seal_decision hs s)"

text \<open>Freeze on the first candidate, raise the freeze to a higher one, or keep the work open.\<close>

definition freeze_step ::
  "snapshot \<Rightarrow> (terminal_state \<times> event_ref list) option \<Rightarrow> terminal_decision option" where
  "freeze_step s selected =
     (case (selected, sn_freeze s) of
        (None, None) \<Rightarrow> if sn_phase s = WorkPhase then Some (Continue WorkOpen) else None
      | (Some (c, evidence), None) \<Rightarrow> Some (FreezeWork c evidence (sn_fence s))
      | (Some (c, evidence), Some fz) \<Rightarrow>
          if sn_phase s = WorkPhase \<and> TERMINAL_PRIORITY_V02 c > TERMINAL_PRIORITY_V02 (fz_candidate fz) then
            Some (ReviseFreeze (fz_candidate fz) c (fz_revision fz + 1) (snd (fz_event fz)) evidence)
          else None
      | (None, Some fz) \<Rightarrow> None)"

definition evaluateTerminalDecisionTableV02 ::
  "(snapshot \<Rightarrow> string) \<Rightarrow> projection_input \<Rightarrow> compensation_value option \<Rightarrow> snapshot \<Rightarrow> terminal_decision" where
  "evaluateTerminalDecisionTableV02 hs inp captured s =
     (case sn_seal s of
        Some seal \<Rightarrow> AlreadySealed seal
      | None \<Rightarrow>
          (let selected = terminalCandidate (pi_plan inp) s in
           case freeze_step s selected of
             Some d \<Rightarrow> d
           | None \<Rightarrow>
               if sn_workers s > 0 \<or> list_ex action_open (sn_actions s) then Continue TerminalQuiescence
               else quiet_decision hs inp captured s selected))"

end
