(* ===== verification/Applicability.thy ===== *)
theory Applicability
  imports Runtime_V02
begin

text \<open>
  Applicability and due controls (\<open>src/run/applicability-projection-v02.ts\<close>): which gates and
  evaluations are due, and with what result, read from the events that require and record
  them. The hash of a control's prerequisites is a parameter. Gates and evaluations are checked
  by the same rules, so the shared part of the two loops of the code is one definition.
\<close>

definition latestEvent :: "(event_v02 \<times> 'a) list \<Rightarrow> event_v02 option" where
  "latestEvent es =
     fold (\<lambda>(e, _) latest. case latest of
             None \<Rightarrow> Some e
           | Some l \<Rightarrow> if ev_seq e > ev_seq l then Some e else Some l) es None"

fun is_initialized :: "body \<Rightarrow> int option" where
  "is_initialized (Initialized f) = Some f"
| "is_initialized _ = None"

fun settled_for :: "string \<Rightarrow> body \<Rightarrow> unit option" where
  "settled_for t (ActionSettled _ u) = (if u = t then Some () else None)"
| "settled_for t _ = None"

fun artifact_for :: "string \<Rightarrow> body \<Rightarrow> unit option" where
  "artifact_for a (ArtifactRecorded b) = (if a = b then Some () else None)"
| "artifact_for a _ = None"

fun evidence_for :: "string \<Rightarrow> body \<Rightarrow> string list option" where
  "evidence_for r (EvidenceRecorded rs keys) = (if r \<in> set rs then Some keys else None)"
| "evidence_for r _ = None"

fun gate_pass_for :: "string \<Rightarrow> body \<Rightarrow> unit option" where
  "gate_pass_for g (GateRecorded r) = (if rf_subject r = g \<and> rf_status r = Pass then Some () else None)"
| "gate_pass_for g _ = None"

fun evaluation_pass_for :: "string \<Rightarrow> body \<Rightarrow> unit option" where
  "evaluation_pass_for v (EvaluationRecorded r) = (if rf_subject r = v \<and> rf_status r = Pass then Some () else None)"
| "evaluation_pass_for v _ = None"

fun phase_entry_for :: "string \<Rightarrow> body \<Rightarrow> unit option" where
  "phase_entry_for c (PhaseEntered p) = (if c \<in> set (pe_refs p) then Some () else None)"
| "phase_entry_for c _ = None"

text \<open>The only event of a reading, and the latest one.\<close>

definition only_event :: "(event_v02 \<times> 'a) list \<Rightarrow> event_v02 list option" where
  "only_event es = (case es of [(e, _)] \<Rightarrow> Some [e] | _ \<Rightarrow> None)"

definition latest_only :: "(event_v02 \<times> 'a) list \<Rightarrow> event_v02 list option" where
  "latest_only es = map_option (\<lambda>e. [e]) (latestEvent es)"

fun resolvePrerequisiteEvents :: "run_plan \<Rightarrow> event_v02 list \<Rightarrow> prerequisite \<Rightarrow> event_v02 list option" where
  "resolvePrerequisiteEvents plan es NeedsInitialized =
     (case events_where is_initialized es of
        [(e, _)] \<Rightarrow> if ev_seq e = 1 then Some [e] else None
      | _ \<Rightarrow> None)"
| "resolvePrerequisiteEvents plan es (NeedsTaskTerminal t) = latest_only (events_where (settled_for t) es)"
| "resolvePrerequisiteEvents plan es (NeedsArtifact a) = only_event (events_where (artifact_for a) es)"
| "resolvePrerequisiteEvents plan es (NeedsEvidence r) =
     (case find (\<lambda>q. er_id q = r) (rp_requirements plan) of
        None \<Rightarrow> None
      | Some q \<Rightarrow>
          (let evidence = events_where (evidence_for r) es in
           if length (uniq (concat (map snd evidence))) \<ge> er_minimum_roots q then Some (map fst evidence) else None))"
| "resolvePrerequisiteEvents plan es (NeedsGatePass g) = only_event (events_where (gate_pass_for g) es)"
| "resolvePrerequisiteEvents plan es (NeedsEvaluationPass v) = only_event (events_where (evaluation_pass_for v) es)"
| "resolvePrerequisiteEvents plan es (NeedsCompensationPhase c) = only_event (events_where (phase_entry_for c) es)"
| "resolvePrerequisiteEvents plan es (NeedsCompensationTerminal c) =
     (case find (\<lambda>k. cp_id k = c) (rp_compensations plan) of
        None \<Rightarrow> None
      | Some k \<Rightarrow> latest_only (events_where (settled_for (cp_action_task k)) es))"

text \<open>The references of events, by sequence and then hash.\<close>

definition canonical_event_refs :: "event_v02 list \<Rightarrow> event_ref list" where
  "canonical_event_refs es = sort (map eventRef es)"

fun resolve_all :: "run_plan \<Rightarrow> event_v02 list \<Rightarrow> prerequisite list \<Rightarrow> event_v02 list option" where
  "resolve_all plan es [] = Some []"
| "resolve_all plan es (q # qs) =
     (case resolvePrerequisiteEvents plan es q of
        None \<Rightarrow> None
      | Some fs \<Rightarrow> map_option (\<lambda>gs. fs @ gs) (resolve_all plan es qs))"

definition expectedPrerequisiteRefs ::
  "run_plan \<Rightarrow> event_v02 list \<Rightarrow> control_spec \<Rightarrow> event_v02 \<Rightarrow> event_ref list option" where
  "expectedPrerequisiteRefs plan es control required =
     (case resolve_all plan (filter (\<lambda>e. ev_seq e < ev_seq required) es) (co_prerequisites control) of
        None \<Rightarrow> None
      | Some facts \<Rightarrow> (let refs = canonical_event_refs facts in if distinct refs then Some refs else None))"

fun applicabilityMatches :: "applicability \<Rightarrow> required_fact \<Rightarrow> bool" where
  "applicabilityMatches Always r \<longleftrightarrow> \<not> rf_compensation_mode r \<and> rf_compensation r = None"
| "applicabilityMatches (WithCompensation c) r \<longleftrightarrow> rf_compensation_mode r \<and> rf_compensation r = Some c"

fun control_applicable :: "string list \<Rightarrow> applicability \<Rightarrow> bool" where
  "control_applicable active Always = True"
| "control_applicable active (WithCompensation c) \<longleftrightarrow> c \<in> set active"

subsection \<open>A control's requirement and result\<close>

fun gate_required_of :: "body \<Rightarrow> required_fact option" where
  "gate_required_of (GateRequired r) = Some r"
| "gate_required_of _ = None"

fun gate_recorded :: "body \<Rightarrow> result_fact option" where
  "gate_recorded (GateRecorded r) = Some r"
| "gate_recorded _ = None"

fun evaluation_requirement :: "body \<Rightarrow> required_fact option" where
  "evaluation_requirement (EvaluationRequired r) = Some r"
| "evaluation_requirement _ = None"

fun evaluation_result :: "body \<Rightarrow> result_fact option" where
  "evaluation_result (EvaluationRecorded r) = Some r"
| "evaluation_result _ = None"

fun waiver_record :: "body \<Rightarrow> waiver_fact option" where
  "waiver_record (WaiverRecorded w) = Some w"
| "waiver_record _ = None"

definition requirement_valid ::
  "(prerequisite list \<Rightarrow> string) \<Rightarrow> run_plan \<Rightarrow> event_v02 list \<Rightarrow> control_spec \<Rightarrow> event_v02 \<times> required_fact \<Rightarrow> bool" where
  "requirement_valid hp plan es control er \<longleftrightarrow>
     applicabilityMatches (co_applicability control) (snd er) \<and>
     rf_set_hash (snd er) = hp (co_prerequisites control) \<and>
     expectedPrerequisiteRefs plan es control (fst er) = Some (rf_refs (snd er))"

definition result_bound :: "control_spec \<Rightarrow> event_v02 \<Rightarrow> event_v02 \<times> result_fact \<Rightarrow> bool" where
  "result_bound control required er \<longleftrightarrow>
     ev_seq (fst er) > ev_seq required \<and> rf_required (snd er) = eventRef required \<and>
     rf_evaluator (snd er) = co_evaluator control \<and> rf_policy (snd er) = co_policy_digest control"

text \<open>
  The requirement and the result of one control, if the ledger has at most one of each, the
  requirement is applicable and names its prerequisites, and the result answers it.
\<close>

definition control_facts ::
  "(prerequisite list \<Rightarrow> string) \<Rightarrow> run_plan \<Rightarrow> event_v02 list \<Rightarrow> string list \<Rightarrow> control_spec \<Rightarrow>
   (body \<Rightarrow> required_fact option) \<Rightarrow> (body \<Rightarrow> result_fact option) \<Rightarrow>
   ((event_v02 \<times> required_fact) option \<times> (event_v02 \<times> result_fact) option) option" where
  "control_facts hp plan es active control requirement result =
     (let requirements = filter (\<lambda>er. rf_control (snd er) = co_id control) (events_where requirement es);
          results = filter (\<lambda>er. rf_subject (snd er) = co_id control) (events_where result es);
          required = nth_opt requirements 0; recorded = nth_opt results 0 in
      if length requirements > 1 \<or> length results > 1 then None
      else if required \<noteq> None \<and> \<not> control_applicable active (co_applicability control) then None
      else (case (required, recorded) of
              (None, Some _) \<Rightarrow> None
            | (None, None) \<Rightarrow> Some (None, None)
            | (Some rq, None) \<Rightarrow> if requirement_valid hp plan es control rq then Some (Some rq, None) else None
            | (Some rq, Some rs) \<Rightarrow>
                if requirement_valid hp plan es control rq \<and> result_bound control (fst rq) rs
                then Some (Some rq, Some rs) else None))"

text \<open>A waived gate names the waiver recorded right before its result.\<close>

definition waiver_valid ::
  "event_v02 list \<Rightarrow> control_spec \<Rightarrow> event_v02 \<times> required_fact \<Rightarrow> event_v02 \<times> result_fact \<Rightarrow> bool" where
  "waiver_valid es gate rq rs \<longleftrightarrow>
     (case rf_waiver (snd rs) of
        None \<Rightarrow> False
      | Some ref \<Rightarrow>
          (case find (\<lambda>ew. eventRef (fst ew) = ref) (events_where waiver_record es) of
             None \<Rightarrow> False
           | Some (e, w) \<Rightarrow>
               co_waiver_allowed gate \<and> wv_gate w = co_id gate \<and> wv_required w = eventRef (fst rq) \<and>
               wv_set_hash w = rf_set_hash (snd rq) \<and> ev_seq e + 1 = ev_seq (fst rs)))"

definition gate_observation ::
  "(prerequisite list \<Rightarrow> string) \<Rightarrow> run_plan \<Rightarrow> event_v02 list \<Rightarrow> string list \<Rightarrow> control_spec \<Rightarrow> gate_row option" where
  "gate_observation hp plan es active gate =
     (case control_facts hp plan es active gate gate_required_of gate_recorded of
        None \<Rightarrow> None
      | Some (required, recorded) \<Rightarrow>
          (let waived = (case recorded of Some rs \<Rightarrow> rf_status (snd rs) = Waived | None \<Rightarrow> False) in
           if waived \<and> \<not> waiver_valid es gate (the required) (the recorded) then None
           else Some \<lparr>ga_ref = co_id gate, ga_applicable = control_applicable active (co_applicability gate),
                  ga_due = (required \<noteq> None),
                  ga_status = (case recorded of None \<Rightarrow> Missing | Some rs \<Rightarrow> rf_status (snd rs)),
                  ga_required = map_option (eventRef \<circ> fst) required,
                  ga_result = map_option (eventRef \<circ> fst) recorded,
                  ga_evidence = (case recorded of None \<Rightarrow> [] | Some rs \<Rightarrow> [eventRef (fst rs)]),
                  ga_waiver_active = (if waived then Some True else None),
                  ga_waiver_refs = (if waived then [the (rf_waiver (snd (the recorded)))] else [])\<rparr>))"

definition evaluation_observation ::
  "(prerequisite list \<Rightarrow> string) \<Rightarrow> run_plan \<Rightarrow> event_v02 list \<Rightarrow> string list \<Rightarrow> control_spec \<Rightarrow> evaluation_row option" where
  "evaluation_observation hp plan es active evaluation =
     (case control_facts hp plan es active evaluation evaluation_requirement evaluation_result of
        None \<Rightarrow> None
      | Some (required, recorded) \<Rightarrow>
          if (case recorded of Some rs \<Rightarrow> rf_role (snd rs) \<noteq> co_check_role evaluation | None \<Rightarrow> False) then None
          else Some \<lparr>va_ref = co_id evaluation,
                 va_applicable = control_applicable active (co_applicability evaluation),
                 va_due = (required \<noteq> None),
                 va_status = (case recorded of None \<Rightarrow> Missing | Some rs \<Rightarrow> rf_status (snd rs)),
                 va_required = map_option (eventRef \<circ> fst) required,
                 va_result = map_option (eventRef \<circ> fst) recorded,
                 va_evidence = (case recorded of None \<Rightarrow> [] | Some rs \<Rightarrow> [eventRef (fst rs)])\<rparr>)"

subsection \<open>All controls\<close>

fun unknown_control :: "run_plan \<Rightarrow> body \<Rightarrow> bool" where
  "unknown_control plan (GateRequired r) \<longleftrightarrow> rf_control r \<notin> set (map co_id (rp_gates plan))"
| "unknown_control plan (GateRecorded r) \<longleftrightarrow> rf_subject r \<notin> set (map co_id (rp_gates plan))"
| "unknown_control plan (EvaluationRequired r) \<longleftrightarrow> rf_control r \<notin> set (map co_id (rp_evaluations plan))"
| "unknown_control plan (EvaluationRecorded r) \<longleftrightarrow> rf_subject r \<notin> set (map co_id (rp_evaluations plan))"
| "unknown_control plan _ \<longleftrightarrow> False"

fun map_all :: "('a \<Rightarrow> 'b option) \<Rightarrow> 'a list \<Rightarrow> 'b list option" where
  "map_all f [] = Some []"
| "map_all f (x # xs) = (case f x of None \<Rightarrow> None | Some y \<Rightarrow> map_option ((#) y) (map_all f xs))"

lemma map_all_Some: "map_all f xs = Some ys \<longleftrightarrow> list_all2 (\<lambda>x y. f x = Some y) xs ys"
proof (induction xs arbitrary: ys)
  case (Cons x xs)
  then show ?case by (cases ys; cases "f x") (auto simp: list_all2_Cons1)
qed auto

lemma map_all_cong: "(\<And>x. x \<in> set xs \<Longrightarrow> f x = g x) \<Longrightarrow> map_all f xs = map_all g xs"
  by (induction xs) (auto split: option.splits)

definition projectApplicabilityAndDueV02 ::
  "(prerequisite list \<Rightarrow> string) \<Rightarrow> run_plan \<Rightarrow> event_v02 list \<Rightarrow> string list \<Rightarrow>
   (gate_row list \<times> evaluation_row list) option" where
  "projectApplicabilityAndDueV02 hp plan es active =
     (if list_ex (\<lambda>e. unknown_control plan (ev_body e)) es then None
      else (case map_all (gate_observation hp plan es active) (rp_gates plan) of
              None \<Rightarrow> None
            | Some gates \<Rightarrow>
                map_option (\<lambda>evaluations. (gates, evaluations))
                  (map_all (evaluation_observation hp plan es active) (rp_evaluations plan))))"

end
