(* ===== verification/Failure_Policy.thy ===== *)
theory Failure_Policy
  imports Runtime_V02
begin

text \<open>
  Active failures and policy blocks (\<open>src/run/failure-policy-projection-v02.ts\<close>): a fold over the
  admissions and failures of each task, with the clocks that bound retries, and a fold over
  the policy decisions. The maps of the code are association lists; their keys, texts joined
  with a zero character that no identifier contains, are tuples.
\<close>

definition MAX_SAFE :: int where
  "MAX_SAFE = 2 ^ 53 - 1"

definition safe_integer :: "int \<Rightarrow> bool" where
  "safe_integer n \<longleftrightarrow> - MAX_SAFE \<le> n \<and> n \<le> MAX_SAFE"

subsection \<open>Retry rules\<close>

fun doubled :: "int \<Rightarrow> int \<Rightarrow> nat \<Rightarrow> int" where
  "doubled limit delay 0 = delay"
| "doubled limit delay (Suc n) =
     (if delay < limit then doubled limit (if delay > limit div 2 then limit else delay * 2) n else delay)"

definition deterministicDelay :: "retry_rule_v02 \<Rightarrow> int \<Rightarrow> int option" where
  "deterministicDelay rule ordinal =
     (if \<not> safe_integer ordinal \<or> ordinal < 1 then None
      else if ru_backoff rule = BackoffNone then
        (if ru_base_delay rule = 0 \<and> ru_max_delay rule = 0 then Some 0 else None)
      else if \<not> safe_integer (ru_base_delay rule) \<or> \<not> safe_integer (ru_max_delay rule) \<or>
              ru_base_delay rule \<le> 0 \<or> ru_max_delay rule \<le> 0 then None
      else if ru_backoff rule = BackoffFixed then
        (if ru_base_delay rule = ru_max_delay rule then Some (ru_base_delay rule) else None)
      else if ru_base_delay rule > ru_max_delay rule then None
      else Some (doubled (ru_max_delay rule) (ru_base_delay rule) (nat (ordinal - 1))))"

definition retryRuleValid :: "retry_rule_v02 \<Rightarrow> bool" where
  "retryRuleValid rule \<longleftrightarrow>
     (if \<not> ru_retryable rule then
        ru_max_executions rule = 1 \<and> ru_backoff rule = BackoffNone \<and>
        ru_base_delay rule = 0 \<and> ru_max_delay rule = 0
      else ru_class rule \<in> {TransientAdapter, TransientNetwork, Contention} \<and>
        ru_max_executions rule \<ge> 2 \<and> ru_backoff rule \<noteq> BackoffNone \<and> deterministicDelay rule 1 \<noteq> None)"

definition retrySafetySatisfied :: "run_plan \<Rightarrow> string \<Rightarrow> nat \<Rightarrow> bool" where
  "retrySafetySatisfied plan task evidence =
     (case find (\<lambda>s. se_task s = task) (rp_side_effects plan) of
        None \<Rightarrow> False
      | Some s \<Rightarrow>
          se_effects s \<noteq> [] \<and>
          list_all (\<lambda>ef. if ef_class_none ef \<or> ef_idempotency ef = NotRequired then True
                         else if ef_idempotency ef = Unsupported then False else evidence > 0) (se_effects s))"

subsection \<open>Clocks\<close>

fun as_clock :: "body \<Rightarrow> clock_fact option" where
  "as_clock (ClockObserved c) = Some c"
| "as_clock _ = None"

record clocks =
  cl_action :: "(event_ref \<times> (event_v02 \<times> clock_fact)) list"
  cl_retry :: "((string \<times> int) \<times> (event_v02 \<times> clock_fact)) list"

definition clocks_start :: clocks where
  "clocks_start = \<lparr>cl_action = [], cl_retry = []\<rparr>"

fun read_clock :: "nat \<Rightarrow> clocks \<Rightarrow> event_v02 \<times> clock_fact \<Rightarrow> invalid_reason + clocks" where
  "read_clock _ s (e, c) =
     (case ck_reason c of
        ActionClock \<Rightarrow> Inr (s\<lparr>cl_action := (eventRef e, (e, c)) # cl_action s\<rparr>)
      | RetryCheck \<Rightarrow>
          (case (ck_task c, ck_ordinal c) of
             (Some t, Some n) \<Rightarrow>
               if map_of (cl_retry s) (t, n) \<noteq> None then Inl TaskInvalid
               else Inr (s\<lparr>cl_retry := ((t, n), (e, c)) # cl_retry s\<rparr>)
           | _ \<Rightarrow> Inl TaskInvalid)
      | _ \<Rightarrow> Inr s)"

definition read_clocks :: "event_v02 list \<Rightarrow> invalid_reason + clocks" where
  "read_clocks es = fold_events read_clock 0 clocks_start (events_where as_clock es)"

subsection \<open>Admissions and failures\<close>

text \<open>An active failure with the sequence of its retry clock.\<close>

type_synonym active_failure = "failure_row \<times> int option"

record failures =
  fa_used :: "(string \<times> int) list"                \<comment> \<open>retry clocks that a failure used\<close>
  fa_admissions :: "(string \<times> int) list"          \<comment> \<open>executions admitted, by task\<close>
  fa_current :: "(string \<times> (event_ref \<times> event_ref)) list"
  fa_failures :: "(string \<times> int) list"
  fa_by_class :: "((string \<times> failure_class) \<times> active_failure) list"
  fa_by_task :: "(string \<times> (string \<times> failure_class)) list"

definition failures_start :: failures where
  "failures_start =
     \<lparr>fa_used = [], fa_admissions = [], fa_current = [], fa_failures = [], fa_by_class = [], fa_by_task = []\<rparr>"

definition tally :: "('k \<times> int) list \<Rightarrow> 'k \<Rightarrow> int" where
  "tally m k = (case map_of m k of None \<Rightarrow> 0 | Some n \<Rightarrow> n)"

definition without_key :: "'k \<Rightarrow> ('k \<times> 'v) list \<Rightarrow> ('k \<times> 'v) list" where
  "without_key k m = filter (\<lambda>p. fst p \<noteq> k) m"

definition admission_clocked :: "clocks \<Rightarrow> event_v02 \<Rightarrow> action_admission \<Rightarrow> bool" where
  "admission_clocked cs e a \<longleftrightarrow>
     (case map_of (cl_action cs) (aa_clock a) of
        None \<Rightarrow> False
      | Some (k, c) \<Rightarrow>
          ev_seq k < ev_seq e \<and> ck_task c = Some (aa_task a) \<and> ck_use c = Some (aa_action a))"

text \<open>A later execution retries the task's active failure, whose retry clock came before.\<close>

definition retries_active :: "failures \<Rightarrow> event_v02 \<Rightarrow> action_admission \<Rightarrow> bool" where
  "retries_active s e a \<longleftrightarrow>
     (case map_of (fa_by_task s) (aa_task a) of
        None \<Rightarrow> False
      | Some k \<Rightarrow>
          (case map_of (fa_by_class s) k of
             None \<Rightarrow> False
           | Some (row, clock) \<Rightarrow>
               aa_retry_of a = Some (fr_ordinal row) \<and> fr_disposition row = RetryReady \<and>
               (case clock of None \<Rightarrow> False | Some n \<Rightarrow> n < ev_seq e)))"

definition admit_execution ::
  "run_plan \<Rightarrow> clocks \<Rightarrow> event_v02 \<Rightarrow> action_admission \<Rightarrow> failures \<Rightarrow> invalid_reason + failures" where
  "admit_execution plan cs e a s =
     (let expected = tally (fa_admissions s) (aa_task a) + 1;
          admitted = s\<lparr>fa_admissions := (aa_task a, expected) # fa_admissions s,
                       fa_current := (aa_task a, (eventRef e, aa_clock a)) # fa_current s\<rparr> in
      if aa_task a \<notin> set (map tk_id (rp_tasks plan)) then Inl AdmissionInvalid
      else if aa_execution a \<noteq> expected \<or> aa_executions_after a \<noteq> expected \<or> \<not> admission_clocked cs e a
        then Inl AdmissionInvalid
      else if expected = 1 then (if aa_retry_of a \<noteq> None then Inl AdmissionInvalid else Inr admitted)
      else if \<not> retries_active s e a then Inl AdmissionInvalid
      else Inr (admitted\<lparr>fa_by_class := without_key (the (map_of (fa_by_task s) (aa_task a))) (fa_by_class s),
                         fa_by_task := without_key (aa_task a) (fa_by_task s)\<rparr>))"

text \<open>The failed execution is the admitted one, on its clock, and its ordinal is the next.\<close>

definition failure_bound :: "clocks \<Rightarrow> event_v02 \<Rightarrow> action_fact \<Rightarrow> failure_fact \<Rightarrow> failures \<Rightarrow> bool" where
  "failure_bound cs e a f s \<longleftrightarrow>
     1 \<le> tally (fa_admissions s) (af_task a) \<and>
     map_of (fa_current s) (af_task a) = Some (af_admission a, fl_clock f) \<and>
     fl_ordinal f = tally (fa_failures s) (af_task a) + 1 \<and>
     (case map_of (cl_action cs) (fl_clock f) of
        None \<Rightarrow> False
      | Some (k, c) \<Rightarrow> ev_seq k < ev_seq e \<and> ck_task c = Some (af_task a))"

text \<open>The delay a present retry clock shows, if it obeys the rule; \<open>Some None\<close> without a clock.\<close>

definition retry_elapsed ::
  "clocks \<Rightarrow> retry_rule_v02 \<Rightarrow> int \<Rightarrow> event_v02 \<Rightarrow> action_fact \<Rightarrow> failure_fact \<Rightarrow> int option option" where
  "retry_elapsed cs rule delay e a f =
     (case map_of (cl_retry cs) (af_task a, fl_ordinal f) of
        None \<Rightarrow> Some None
      | Some (k, c) \<Rightarrow>
          (case map_of (cl_action cs) (fl_clock f) of
             None \<Rightarrow> None
           | Some (_, d) \<Rightarrow>
               if \<not> ru_retryable rule \<or> ev_seq k \<le> ev_seq e \<or> ck_elapsed c < ck_elapsed d then None
               else if \<not> safe_integer (ck_elapsed c - ck_elapsed d) \<or> ck_elapsed c - ck_elapsed d < delay then None
               else Some (Some (ck_elapsed c - ck_elapsed d))))"

definition record_failure ::
  "run_plan \<Rightarrow> clocks \<Rightarrow> event_v02 \<Rightarrow> action_fact \<Rightarrow> failure_fact \<Rightarrow> failures \<Rightarrow> invalid_reason + failures" where
  "record_failure plan cs e a f s =
     (if af_task a \<notin> set (map tk_id (rp_tasks plan)) \<or> map_of (fa_by_task s) (af_task a) \<noteq> None then Inl TaskInvalid
      else if \<not> failure_bound cs e a f s then Inl TaskInvalid
      else (case find (\<lambda>r. ru_task r = af_task a \<and> ru_class r = fl_class f) (rp_rules plan) of
              None \<Rightarrow> Inl TaskInvalid
            | Some rule \<Rightarrow>
                if \<not> retryRuleValid rule then Inl TaskInvalid
                else (case deterministicDelay rule (fl_ordinal f) of
                        None \<Rightarrow> Inl TaskInvalid
                      | Some delay \<Rightarrow>
                          (case retry_elapsed cs rule delay e a f of
                             None \<Rightarrow> Inl TaskInvalid
                           | Some elapsed \<Rightarrow>
                               (let executions = tally (fa_admissions s) (af_task a);
                                    clock = map_of (cl_retry cs) (af_task a, fl_ordinal f);
                                    eligible = ru_retryable rule \<and> executions < ru_max_executions rule \<and>
                                      retrySafetySatisfied plan (af_task a) (fl_safety_evidence f);
                                    row = \<lparr>fr_task = af_task a, fr_class = fl_class f, fr_executions = executions,
                                      fr_ordinal = fl_ordinal f,
                                      fr_disposition = (if \<not> eligible then RetryIneligible
                                        else if elapsed = None then RetryWaiting else RetryReady),
                                      fr_event = eventRef e, fr_clock = fl_clock f,
                                      fr_retry_clock = map_option (eventRef \<circ> fst) clock\<rparr>;
                                    key = (af_task a, fl_class f) in
                                Inr (s\<lparr>fa_used := (if clock = None then fa_used s
                                                   else (af_task a, fl_ordinal f) # fa_used s),
                                       fa_by_class := (key, (row, map_option (ev_seq \<circ> fst) clock)) # fa_by_class s,
                                       fa_by_task := (af_task a, key) # fa_by_task s,
                                       fa_failures := (af_task a, fl_ordinal f) # fa_failures s\<rparr>))))))"

fun failure_step ::
  "run_plan \<Rightarrow> clocks \<Rightarrow> nat \<Rightarrow> failures \<Rightarrow> event_v02 \<Rightarrow> invalid_reason + failures" where
  "failure_step plan cs _ s e =
     (case ev_body e of
        ActionAdmitted a \<Rightarrow> admit_execution plan cs e a s
      | ExecutionFailed a _ f \<Rightarrow> record_failure plan cs e a f s
      | _ \<Rightarrow> Inr s)"

subsection \<open>Policy decisions\<close>

definition phaseLineageValid :: "run_plan \<Rightarrow> policy_fact \<Rightarrow> bool" where
  "phaseLineageValid plan p \<longleftrightarrow>
     (case find (\<lambda>t. tk_id t = pf_task p) (rp_tasks plan) of
        None \<Rightarrow> False
      | Some t \<Rightarrow>
          if pf_phase p = WorkPhase then tk_kind t = WorkTask \<and> pf_compensation p = None
          else (case pf_compensation p of
                  None \<Rightarrow> False
                | Some c \<Rightarrow> tk_kind t = CompensationTask \<and>
                    list_ex (\<lambda>k. cp_id k = c \<and> cp_action_task k = pf_task p) (rp_compensations plan)))"

fun decisionBranchValid :: "decision \<Rightarrow> disposition \<Rightarrow> bool" where
  "decisionBranchValid Allow d \<longleftrightarrow> d = LeaseEligible"
| "decisionBranchValid Deny d \<longleftrightarrow> d = ProposalFinal"
| "decisionBranchValid Escalate d \<longleftrightarrow> d = HumanExceptionRequired"
| "decisionBranchValid AbortDecision d \<longleftrightarrow> d = AbortRun"
| "decisionBranchValid HoldDecision d \<longleftrightarrow> d = RedecideAfterPrefixChange \<or> d = NonResumable"

fun as_policy :: "body \<Rightarrow> policy_fact option" where
  "as_policy (PolicyDecision p) = Some p"
| "as_policy _ = None"

record policy_fold =
  po_holds :: "((string \<times> run_phase) \<times> int) list"
  po_reviewed :: "((string \<times> run_phase \<times> string \<times> string) \<times> int) list"
  po_blocks :: "block_row list"

definition policy_start :: policy_fold where
  "policy_start = \<lparr>po_holds = [], po_reviewed = [], po_blocks = []\<rparr>"

text \<open>A missing compensation is keyed as the empty text, which is no identifier.\<close>

definition proposal_key :: "policy_fact \<Rightarrow> string \<times> run_phase \<times> string \<times> string" where
  "proposal_key p = (pf_task p, pf_phase p, (case pf_compensation p of None \<Rightarrow> [] | Some c \<Rightarrow> c), pf_proposal p)"

definition superseded :: "(event_v02 \<times> policy_fact) list \<Rightarrow> event_v02 \<Rightarrow> policy_fact \<Rightarrow> bool" where
  "superseded decisions e p \<longleftrightarrow>
     pf_disposition p = RedecideAfterPrefixChange \<and>
     list_ex (\<lambda>(l, q). ev_seq l > ev_seq e \<and> pf_task q = pf_task p \<and> pf_phase q = pf_phase p \<and>
                pf_compensation q = pf_compensation p \<and> pf_proposal q = pf_proposal p \<and>
                pf_reviewed q > pf_reviewed p) decisions"

definition block_of :: "(event_v02 \<times> policy_fact) list \<Rightarrow> event_v02 \<Rightarrow> policy_fact \<Rightarrow> block_row" where
  "block_of decisions e p =
     \<lparr>bl_task = pf_task p, bl_phase = pf_phase p, bl_compensation = pf_compensation p,
      bl_proposal = pf_proposal p, bl_kind = pf_kind p, bl_decision = pf_decision p,
      bl_disposition = pf_disposition p,
      bl_active = (pf_disposition p \<in> {HumanExceptionRequired, NonResumable} \<or>
                   pf_disposition p = RedecideAfterPrefixChange \<and> \<not> superseded decisions e p),
      bl_event = eventRef e, bl_evidence = pf_evidence p\<rparr>"

fun policy_step ::
  "run_plan \<Rightarrow> (event_v02 \<times> policy_fact) list \<Rightarrow> nat \<Rightarrow> policy_fold \<Rightarrow> event_v02 \<times> policy_fact \<Rightarrow>
   invalid_reason + policy_fold" where
  "policy_step plan decisions _ s (e, p) =
     (let reviewed = s\<lparr>po_reviewed := (proposal_key p, pf_reviewed p) # po_reviewed s\<rparr>;
          held = (if pf_disposition p = NonResumable
                  then reviewed\<lparr>po_holds := ((pf_task p, pf_phase p), ev_seq e) # po_holds s\<rparr> else reviewed) in
      if \<not> phaseLineageValid plan p \<or> \<not> decisionBranchValid (pf_decision p) (pf_disposition p) then Inl AdmissionInvalid
      else if (case map_of (po_reviewed s) (proposal_key p) of None \<Rightarrow> False | Some n \<Rightarrow> pf_reviewed p \<le> n)
        then Inl AdmissionInvalid
      else if map_of (po_holds s) (pf_task p, pf_phase p) \<noteq> None then Inl AdmissionInvalid
      else if pf_decision p = Allow then Inr held
      else if pf_disposition p = LeaseEligible then Inl AdmissionInvalid
      else Inr (held\<lparr>po_blocks := po_blocks s @ [block_of decisions e p]\<rparr>))"

definition inputPlanTaskPhase :: "run_plan \<Rightarrow> string \<Rightarrow> run_phase option" where
  "inputPlanTaskPhase plan task =
     (case find (\<lambda>t. tk_id t = task) (rp_tasks plan) of
        None \<Rightarrow> None
      | Some t \<Rightarrow> Some (if tk_kind t = WorkTask then WorkPhase else CompensationPhase))"

text \<open>The task and phase that an event works on; the phase of an unknown task is missing.\<close>

fun held_subject :: "run_plan \<Rightarrow> body \<Rightarrow> (string \<times> run_phase option) option" where
  "held_subject plan (RecommendationRecorded t ph) = Some (t, Some ph)"
| "held_subject plan (PolicyDecision p) = Some (pf_task p, Some (pf_phase p))"
| "held_subject plan (LeaseIssued t ph) = Some (t, Some ph)"
| "held_subject plan (ActionAdmitted a) = Some (aa_task a, inputPlanTaskPhase plan (aa_task a))"
| "held_subject plan _ = None"

definition violates_hold :: "run_plan \<Rightarrow> (string \<times> run_phase) \<times> int \<Rightarrow> event_v02 \<Rightarrow> bool" where
  "violates_hold plan h e \<longleftrightarrow>
     ev_seq e > snd h \<and>
     (case held_subject plan (ev_body e) of
        None \<Rightarrow> False
      | Some (t, None) \<Rightarrow> True
      | Some (t, Some ph) \<Rightarrow> (t, ph) = fst h)"

definition derivePolicyBlocks :: "run_plan \<Rightarrow> event_v02 list \<Rightarrow> invalid_reason + block_row list" where
  "derivePolicyBlocks plan es =
     (let decisions = events_where as_policy es in
      case fold_events (policy_step plan decisions) 0 policy_start decisions of
        Inl r \<Rightarrow> Inl r
      | Inr s \<Rightarrow> if list_ex (\<lambda>h. list_ex (violates_hold plan h) es) (po_holds s) then Inl AdmissionInvalid
                 else Inr (po_blocks s))"

subsection \<open>The projection\<close>

definition active_failures :: "run_plan \<Rightarrow> failures \<Rightarrow> failure_row list" where
  "active_failures plan s =
     concat (map (\<lambda>r. case map_of (fa_by_class s) (ru_task r, ru_class r) of
                        None \<Rightarrow> [] | Some (row, _) \<Rightarrow> [row]) (rp_rules plan))"

definition deriveFailurePolicyProjectionV02 ::
  "run_plan \<Rightarrow> event_v02 list \<Rightarrow> invalid_reason + failure_row list \<times> block_row list" where
  "deriveFailurePolicyProjectionV02 plan es =
     (case read_clocks es of
        Inl r \<Rightarrow> Inl r
      | Inr cs \<Rightarrow>
          (case fold_events (failure_step plan cs) 0 failures_start es of
             Inl r \<Rightarrow> Inl r
           | Inr s \<Rightarrow>
               if list_ex (\<lambda>k. fst k \<notin> set (fa_used s)) (cl_retry cs) then Inl TaskInvalid
               else (case derivePolicyBlocks plan es of
                       Inl r \<Rightarrow> Inl r
                     | Inr blocks \<Rightarrow> Inr (active_failures plan s, blocks))))"

end
