(* ===== verification/Task_Rows.thy ===== *)
theory Task_Rows
  imports Runtime_V02
begin

text \<open>
  The task rows of the snapshot (\<open>src/run/terminal-snapshot.ts\<close>): the status of each task from
  its events, and the loop that blocks a pending task whose dependencies are blocked or
  failed, repeated until nothing changes. The loop ends after at most one pass per task and
  computes the tasks that a blocked or failed one holds up, however the plan lists them.
\<close>

type_synonym task_map = "string \<Rightarrow> task_row option"

definition findLast :: "('a \<Rightarrow> bool) \<Rightarrow> 'a list \<Rightarrow> 'a option" where
  "findLast P xs = find P (rev xs)"

definition uniqueLedgerRefs :: "event_ref list \<Rightarrow> event_ref list" where
  "uniqueLedgerRefs refs = uniq refs"

subsection \<open>The status of a task by its events\<close>

fun completed_task :: "body \<Rightarrow> string option" where
  "completed_task (ExecutionCompleted a _) = Some (af_task a)"
| "completed_task _ = None"

fun unknown_task :: "body \<Rightarrow> string option" where
  "unknown_task (OutcomeUnknown a) = Some (af_task a)"
| "unknown_task (OutcomeReconciled a) = Some (af_task a)"
| "unknown_task _ = None"

fun started_task :: "body \<Rightarrow> string option" where
  "started_task (ExecutionStarted a) = Some (af_task a)"
| "started_task _ = None"

definition failed_class :: "failure_class \<Rightarrow> bool" where
  "failed_class c \<longleftrightarrow> c \<in> {InvalidInput, VerificationFailed, PermanentExecution}"

definition latest_of :: "(body \<Rightarrow> string option) \<Rightarrow> event_v02 list \<Rightarrow> string \<Rightarrow> event_v02 option" where
  "latest_of f es t = map_option fst (findLast (\<lambda>p. snd p = t) (events_where f es))"

definition settled_row :: "string \<Rightarrow> task_status \<Rightarrow> event_ref \<Rightarrow> task_row" where
  "settled_row t st r = \<lparr>ta_ref = t, ta_status = st, ta_terminal = Some r, ta_evidence = [r]\<rparr>"

definition open_row :: "string \<Rightarrow> task_status \<Rightarrow> task_row" where
  "open_row t st = \<lparr>ta_ref = t, ta_status = st, ta_terminal = None, ta_evidence = []\<rparr>"

definition task_row_of :: "event_v02 list \<Rightarrow> failure_row list \<Rightarrow> string list \<Rightarrow> string \<Rightarrow> task_row" where
  "task_row_of es failures in_flight t =
     (case latest_of completed_task es t of
        Some e \<Rightarrow> settled_row t TaskCompleted (eventRef e)
      | None \<Rightarrow>
          (case findLast (\<lambda>f. fr_task f = t) failures of
             Some f \<Rightarrow> settled_row t (if failed_class (fr_class f) then TaskFailed else TaskBlocked) (fr_event f)
           | None \<Rightarrow>
               (case latest_of unknown_task es t of
                  Some e \<Rightarrow> settled_row t TaskBlocked (eventRef e)
                | None \<Rightarrow>
                    if latest_of started_task es t \<noteq> None \<or> t \<in> set in_flight then open_row t TaskRunning
                    else open_row t TaskPending)))"

subsection \<open>Blocking by dependencies\<close>

definition pending_in :: "task_map \<Rightarrow> string \<Rightarrow> bool" where
  "pending_in m t \<longleftrightarrow> (case m t of None \<Rightarrow> False | Some r \<Rightarrow> ta_status r = TaskPending)"

definition stopped_in :: "task_map \<Rightarrow> string \<Rightarrow> bool" where
  "stopped_in m t \<longleftrightarrow> (case m t of None \<Rightarrow> False | Some r \<Rightarrow> ta_status r \<in> {TaskBlocked, TaskFailed})"

definition open_dependencies :: "task_map \<Rightarrow> task_spec \<Rightarrow> task_row list" where
  "open_dependencies m t =
     filter (\<lambda>r. ta_status r \<noteq> TaskCompleted)
       (concat (map (\<lambda>d. case m d of None \<Rightarrow> [] | Some r \<Rightarrow> [r]) (tk_depends_on t)))"

definition blocked_row :: "task_map \<Rightarrow> task_spec \<Rightarrow> task_row" where
  "blocked_row m t =
     \<lparr>ta_ref = tk_id t, ta_status = TaskBlocked,
      ta_terminal = (case find (\<lambda>r. ta_terminal r \<noteq> None) (open_dependencies m t) of
                       None \<Rightarrow> None | Some r \<Rightarrow> ta_terminal r),
      ta_evidence = uniqueLedgerRefs (concat (map ta_evidence (open_dependencies m t)))\<rparr>"

definition blocks_now :: "task_map \<Rightarrow> task_spec \<Rightarrow> bool" where
  "blocks_now m t \<longleftrightarrow>
     pending_in m (tk_id t) \<and> tk_kind t = WorkTask \<and>
     list_ex (\<lambda>r. ta_status r \<in> {TaskBlocked, TaskFailed}) (open_dependencies m t)"

text \<open>One pass over the tasks: rows blocked early in it count for the later ones.\<close>

fun block_pass :: "task_spec list \<Rightarrow> task_map \<Rightarrow> task_map \<times> bool" where
  "block_pass [] m = (m, False)"
| "block_pass (t # ts) m =
     (if blocks_now m t then (fst (block_pass ts (m(tk_id t \<mapsto> blocked_row m t))), True) else block_pass ts m)"

definition pending_count :: "task_spec list \<Rightarrow> task_map \<Rightarrow> nat" where
  "pending_count ts m = length (filter (\<lambda>t. pending_in m (tk_id t)) ts)"

lemma not_pending_blocked: "\<not> pending_in (m(tk_id t \<mapsto> blocked_row m t)) (tk_id t)"
  by (simp add: pending_in_def blocked_row_def)

lemma pending_blocked: "pending_in (m(tk_id t \<mapsto> blocked_row m t)) u \<Longrightarrow> pending_in m u"
  by (auto simp: pending_in_def blocked_row_def split: if_splits)

lemma block_pass_pending: "pending_in (fst (block_pass ts m)) u \<Longrightarrow> pending_in m u"
  by (induction ts m rule: block_pass.induct) (auto split: if_splits dest: pending_blocked)

lemma length_filter_mono: "(\<And>x. x \<in> set xs \<Longrightarrow> P x \<Longrightarrow> Q x) \<Longrightarrow> length (filter P xs) \<le> length (filter Q xs)"
  by (induction xs) (auto simp: le_SucI)

lemma length_filter_less:
  "(\<And>x. x \<in> set xs \<Longrightarrow> P x \<Longrightarrow> Q x) \<Longrightarrow> x \<in> set xs \<Longrightarrow> Q x \<Longrightarrow> \<not> P x \<Longrightarrow>
     length (filter P xs) < length (filter Q xs)"
proof (induction xs)
  case (Cons y ys)
  have le: "length (filter P ys) \<le> length (filter Q ys)"
    by (rule length_filter_mono) (use Cons.prems(1) in auto)
  show ?case
  proof (cases "x = y")
    case True
    with Cons.prems le show ?thesis by simp
  next
    case False
    with Cons show ?thesis by auto
  qed
qed simp

lemma block_pass_progress: "snd (block_pass ts m) \<Longrightarrow> \<exists>t\<in>set ts. pending_in m (tk_id t) \<and> \<not> pending_in (fst (block_pass ts m)) (tk_id t)"
proof (induction ts m rule: block_pass.induct)
  case (2 t ts m)
  show ?case
  proof (cases "blocks_now m t")
    case True
    then have "pending_in m (tk_id t)" by (simp add: blocks_now_def)
    moreover have "\<not> pending_in (fst (block_pass ts (m(tk_id t \<mapsto> blocked_row m t)))) (tk_id t)"
      using block_pass_pending not_pending_blocked by blast
    ultimately show ?thesis using True by simp
  qed (use 2 in auto)
qed simp

function block_loop :: "task_spec list \<Rightarrow> task_map \<Rightarrow> task_map" where
  "block_loop ts m =
     (if snd (block_pass ts m) then block_loop ts (fst (block_pass ts m)) else fst (block_pass ts m))"
  by pat_completeness auto
termination
proof (relation "measure (\<lambda>(ts, m). pending_count ts m)")
  fix ts :: "task_spec list" and m :: task_map
  assume "snd (block_pass ts m)"
  then obtain t where "t \<in> set ts" "pending_in m (tk_id t)" "\<not> pending_in (fst (block_pass ts m)) (tk_id t)"
    using block_pass_progress by blast
  then show "((ts, fst (block_pass ts m)), (ts, m)) \<in> measure (\<lambda>(ts, m). pending_count ts m)"
    unfolding pending_count_def in_measure prod.case
    by (intro length_filter_less) (auto dest: block_pass_pending)
qed simp

declare block_loop.simps [simp del]

definition initial_rows :: "task_spec list \<Rightarrow> (string \<Rightarrow> task_row) \<Rightarrow> task_map" where
  "initial_rows ts f = map_of (map (\<lambda>t. (tk_id t, f (tk_id t))) ts)"

definition propagated_rows :: "task_spec list \<Rightarrow> (string \<Rightarrow> task_row) \<Rightarrow> task_row list" where
  "propagated_rows ts f =
     concat (map (\<lambda>t. case block_loop ts (initial_rows ts f) (tk_id t) of None \<Rightarrow> [] | Some r \<Rightarrow> [r]) ts)"

subsection \<open>What the loop computes\<close>

text \<open>A task is held up if it stopped itself, or is pending work that depends on one held up.\<close>

inductive held_up :: "task_spec list \<Rightarrow> task_map \<Rightarrow> string \<Rightarrow> bool" for ts m where
  stopped: "stopped_in m t \<Longrightarrow> held_up ts m t"
| depends: "t \<in> set ts \<Longrightarrow> tk_kind t = WorkTask \<Longrightarrow> pending_in m (tk_id t) \<Longrightarrow>
    d \<in> set (tk_depends_on t) \<Longrightarrow> held_up ts m d \<Longrightarrow> held_up ts m (tk_id t)"

inductive_cases held_upE: "held_up ts m t"

lemma set_open_dependencies:
  "set (open_dependencies m t) = {r. ta_status r \<noteq> TaskCompleted \<and> (\<exists>d\<in>set (tk_depends_on t). m d = Some r)}"
  by (force simp: open_dependencies_def split: option.splits)

lemma open_dependency_stopped:
  "list_ex (\<lambda>r. ta_status r \<in> {TaskBlocked, TaskFailed}) (open_dependencies m t) \<longleftrightarrow>
     (\<exists>d\<in>set (tk_depends_on t). stopped_in m d)"
  unfolding list_ex_iff set_open_dependencies stopped_in_def by (force split: option.splits)

lemma blocks_now_iff:
  "blocks_now m t \<longleftrightarrow> pending_in m (tk_id t) \<and> tk_kind t = WorkTask \<and> (\<exists>d\<in>set (tk_depends_on t). stopped_in m d)"
  unfolding blocks_now_def open_dependency_stopped ..

text \<open>Blocking a task that is held up changes nothing about who is held up.\<close>

lemma held_up_block:
  assumes "t \<in> set ts" and "blocks_now m t"
  shows "held_up ts (m(tk_id t \<mapsto> blocked_row m t)) u \<longleftrightarrow> held_up ts m u"
proof
  let ?m = "m(tk_id t \<mapsto> blocked_row m t)"
  have t: "held_up ts m (tk_id t)" using assms by (auto simp: blocks_now_iff intro: held_up.intros)
  show "held_up ts ?m u \<Longrightarrow> held_up ts m u"
  proof (induction rule: held_up.induct)
    case (stopped u)
    then show ?case
    proof (cases "u = tk_id t")
      case True
      with t show ?thesis by simp
    next
      case False
      with stopped show ?thesis by (intro held_up.stopped) (simp add: stopped_in_def)
    qed
  next
    case (depends v d)
    then show ?case by (blast intro: held_up.depends dest: pending_blocked)
  qed
  show "held_up ts m u \<Longrightarrow> held_up ts ?m u"
  proof (induction rule: held_up.induct)
    case (stopped u)
    with assms have "u \<noteq> tk_id t" by (auto simp: blocks_now_def pending_in_def stopped_in_def split: option.splits)
    with stopped show ?case by (intro held_up.stopped) (simp add: stopped_in_def)
  next
    case (depends v d)
    show ?case
    proof (cases "tk_id v = tk_id t")
      case True
      have "stopped_in ?m (tk_id t)" by (simp add: stopped_in_def blocked_row_def)
      then show ?thesis unfolding True by (rule held_up.stopped)
    next
      case False
      with depends.hyps have "pending_in ?m (tk_id v)" by (simp add: pending_in_def)
      with depends show ?thesis by (blast intro: held_up.depends)
    qed
  qed
qed

lemma held_up_pass: "set vs \<subseteq> set ts \<Longrightarrow> held_up ts (fst (block_pass vs m)) u \<longleftrightarrow> held_up ts m u"
  by (induction vs m rule: block_pass.induct) (auto simp: held_up_block)

lemma unchanged_pass: "\<not> snd (block_pass vs m) \<Longrightarrow> fst (block_pass vs m) = m \<and> (\<forall>t\<in>set vs. \<not> blocks_now m t)"
  by (induction vs m rule: block_pass.induct) (auto split: if_splits)

lemma held_up_closed:
  assumes "\<forall>t\<in>set ts. \<not> blocks_now m t" and "held_up ts m u"
  shows "stopped_in m u"
  using assms(2)
proof (induction rule: held_up.induct)
  case (depends t d)
  with assms(1) show ?case by (auto simp: blocks_now_iff)
qed

lemma block_loop_stopped: "stopped_in (block_loop ts m) u \<longleftrightarrow> held_up ts m u"
proof (induction ts m rule: block_loop.induct)
  case (1 ts m)
  show ?case
  proof (cases "snd (block_pass ts m)")
    case True
    with 1 show ?thesis by (simp add: block_loop.simps [of ts m] held_up_pass)
  next
    case False
    then show ?thesis using unchanged_pass [OF False] held_up_closed [of ts m u]
      by (auto simp: block_loop.simps [of ts m] intro: held_up.stopped)
  qed
qed

lemma block_loop_dom: "block_loop ts m t = None \<Longrightarrow> m t = None"
proof (induction ts m rule: block_loop.induct)
  case (1 ts m)
  have pass: "fst (block_pass vs n) t = None \<Longrightarrow> n t = None" for vs n
    by (induction vs n rule: block_pass.induct) (auto split: if_splits)
  show ?case
  proof (cases "snd (block_pass ts m)")
    case True
    with 1 pass show ?thesis by (simp add: block_loop.simps [of ts m])
  next
    case False
    with "1.prems" pass show ?thesis by (simp add: block_loop.simps [of ts m])
  qed
qed

lemma initial_rows_at: "t \<in> set (map tk_id ts) \<Longrightarrow> initial_rows ts f t = Some (f t)"
  by (induction ts) (auto simp: initial_rows_def)

text \<open>
  C19: a task ends up blocked or failed exactly if it was so by its own events or is pending work
  that depends, directly or through other pending work, on such a task; the loop that finds
  this always ends.
\<close>

theorem dependency_blocking_exact:
  "(\<exists>r. block_loop ts (initial_rows ts f) t = Some r \<and> ta_status r \<in> {TaskBlocked, TaskFailed}) \<longleftrightarrow>
     held_up ts (initial_rows ts f) t"
  using block_loop_stopped [of ts "initial_rows ts f" t] by (auto simp: stopped_in_def split: option.splits)

end
