(* ===== verification/Snapshot.thy ===== *)
theory Snapshot
  imports Terminal Applicability Failure_Policy Task_Rows
begin

text \<open>
  The terminal observation snapshot (\<open>buildTerminalObservationSnapshotCoreV02\<close> of
  \<open>src/run/terminal-snapshot.ts\<close>): every observation of the run derived from its plan and ledger
  prefix, and the checks of the durable transitions (freeze, compensation request, phase
  entry, escalation, settlement, seal) against them, in the order of the code, each with its
  reason. A sealed ledger is checked against the snapshot of the prefix before its seal. The
  admission of the captured bytes that precedes it is not modelled: its results, the counts
  of bytes, are arguments.
\<close>

record byte_facts =
  bf_consumed :: int
  bf_lines :: "int list"

text \<open>The hashes the code takes: of a control's prerequisites, and of a snapshot.\<close>

record hashing =
  hash_prerequisites :: "prerequisite list \<Rightarrow> string"
  hash_snapshot :: "snapshot \<Rightarrow> string"

text \<open>A refusal with its reason, or the exception on a negative ceiling.\<close>

datatype snapshot_error = Refused invalid_reason | TypeErrorThrown

subsection \<open>Readings of the events\<close>

fun as_freeze :: "body \<Rightarrow> (int \<times> terminal_state) option" where
  "as_freeze (FreezeEntered c _) = Some (1, c)"
| "as_freeze (FreezeRevised n c) = Some (n, c)"
| "as_freeze _ = None"

fun as_freeze_entry :: "body \<Rightarrow> int option" where
  "as_freeze_entry (FreezeEntered _ f) = Some f"
| "as_freeze_entry _ = None"

fun as_escalation :: "body \<Rightarrow> escalation_fact option" where
  "as_escalation (CandidateEscalated c) = Some c"
| "as_escalation _ = None"

fun as_seal :: "body \<Rightarrow> seal_fact option" where
  "as_seal (Sealed s) = Some s"
| "as_seal _ = None"

fun as_abort :: "body \<Rightarrow> unit option" where
  "as_abort AbortRequested = Some ()"
| "as_abort _ = None"

fun as_fence :: "body \<Rightarrow> int option" where
  "as_fence (FenceAdvanced f _) = Some f"
| "as_fence _ = None"

fun as_attempt :: "body \<Rightarrow> unit option" where
  "as_attempt LoopAttemptCompleted = Some ()"
| "as_attempt _ = None"

fun as_execution :: "body \<Rightarrow> usage option" where
  "as_execution (ExecutionCompleted _ u) = Some u"
| "as_execution (ExecutionFailed _ u _) = Some u"
| "as_execution _ = None"

fun as_limit_block :: "body \<Rightarrow> violation_fact list option" where
  "as_limit_block (LimitBlocked vs) = Some vs"
| "as_limit_block _ = None"

fun as_effect :: "body \<Rightarrow> effect_fact option" where
  "as_effect (EffectOutcome f) = Some f"
| "as_effect _ = None"

fun as_settlement :: "body \<Rightarrow> (string \<times> string) option" where
  "as_settlement (ActionSettled a t) = Some (a, t)"
| "as_settlement _ = None"

fun action_state_of :: "body \<Rightarrow> (action_fact \<times> action_state) option" where
  "action_state_of (ExecutionStarted a) = Some (a, Started)"
| "action_state_of (ExecutionCompleted a _) = Some (a, ActionCompleted)"
| "action_state_of (ExecutionFailed a _ _) = Some (a, ActionFailed)"
| "action_state_of (OutcomeUnknown a) = Some (a, StateUnknown)"
| "action_state_of (OutcomeReconciled a) = Some (a, StateReconciled)"
| "action_state_of _ = None"

text \<open>The events that end an execution or leave its outcome unknown: all states but started.\<close>

fun as_task_end :: "body \<Rightarrow> string option" where
  "as_task_end (ExecutionCompleted a _) = Some (af_task a)"
| "as_task_end (ExecutionFailed a _ _) = Some (af_task a)"
| "as_task_end (OutcomeUnknown a) = Some (af_task a)"
| "as_task_end (OutcomeReconciled a) = Some (af_task a)"
| "as_task_end _ = None"

definition last_event :: "(body \<Rightarrow> 'a option) \<Rightarrow> event_v02 list \<Rightarrow> (event_v02 \<times> 'a) option" where
  "last_event f es = last_opt (events_where f es)"

definition first_event :: "(body \<Rightarrow> 'a option) \<Rightarrow> event_v02 list \<Rightarrow> (event_v02 \<times> 'a) option" where
  "first_event f es = nth_opt (events_where f es) 0"

subsection \<open>Limits\<close>

definition configuredLimits :: "run_plan \<Rightarrow> limit_ref list" where
  "configuredLimits plan =
     [MaxLoopAttempts, MaxElapsedMs, MaxToolCalls, MaxOutputBytes] @
     (if lm_tokens (rp_limits plan) \<noteq> None then [MaxTokens] else []) @
     (if lm_cost (rp_limits plan) \<noteq> None then [MaxCost] else [])"

definition no_reserve_v02 :: reserve_v02 where
  "no_reserve_v02 = \<lparr>rs_elapsed = 0, rs_tools = 0, rs_output = 0, rs_token = None, rs_cost = None\<rparr>"

definition or_zero :: "int option \<Rightarrow> int" where
  "or_zero x = (case x of None \<Rightarrow> 0 | Some n \<Rightarrow> n)"

fun ceilingByRef :: "run_plan \<Rightarrow> reserve_v02 \<Rightarrow> limit_ref \<Rightarrow> int option" where
  "ceilingByRef plan rv MaxLoopAttempts = Some (lm_loop_attempts (rp_limits plan))"
| "ceilingByRef plan rv MaxElapsedMs = Some (lm_elapsed_ms (rp_limits plan) - rs_elapsed rv)"
| "ceilingByRef plan rv MaxToolCalls = Some (lm_tool_calls (rp_limits plan) - rs_tools rv)"
| "ceilingByRef plan rv MaxOutputBytes =
     Some (lm_output_bytes (rp_limits plan) - lm_control_reserve (rp_limits plan) - rs_output rv)"
| "ceilingByRef plan rv MaxTokens = map_option (\<lambda>n. n - or_zero (rs_token rv)) (lm_tokens (rp_limits plan))"
| "ceilingByRef plan rv MaxCost = map_option (\<lambda>n. n - or_zero (rs_cost rv)) (lm_cost (rp_limits plan))"

fun consumedByRef :: "event_v02 list \<Rightarrow> limit_ref \<Rightarrow> int" where
  "consumedByRef es MaxLoopAttempts = int (length (events_where as_attempt es))"
| "consumedByRef es MaxElapsedMs = fold (\<lambda>ec n. max n (ck_elapsed (snd ec))) (events_where as_clock es) 0"
| "consumedByRef es MaxToolCalls = (case last_event as_execution es of None \<Rightarrow> 0 | Some eu \<Rightarrow> us_tool_calls (snd eu))"
| "consumedByRef es MaxOutputBytes =
     (case last_event as_execution es of None \<Rightarrow> 0 | Some eu \<Rightarrow> us_output_bytes (snd eu))"
| "consumedByRef es MaxTokens = (case last_event as_execution es of None \<Rightarrow> 0 | Some eu \<Rightarrow> us_tokens (snd eu))"
| "consumedByRef es MaxCost = sum_list (map (or_zero \<circ> us_cost \<circ> snd) (events_where as_execution es))"

text \<open>The violation that the last block of a limit reports.\<close>

definition latest_block :: "event_v02 list \<Rightarrow> limit_ref \<Rightarrow> (event_v02 \<times> violation_fact) option" where
  "latest_block es r =
     findLast (\<lambda>ev. vi_limit (snd ev) = r)
       (concat (map (\<lambda>(e, vs). map (\<lambda>v. (e, v)) vs) (events_where as_limit_block es)))"

definition limit_source :: "event_v02 list \<Rightarrow> limit_ref \<Rightarrow> event_v02 option" where
  "limit_source es r =
     (if r = MaxLoopAttempts then map_option fst (last_event as_attempt es)
      else if r = MaxElapsedMs then map_option fst (last_event as_clock es)
      else map_option fst (last_event as_execution es))"

text \<open>A limit's row, and whether its last block states the derived ceiling; no row on a negative ceiling.\<close>

definition limit_observation :: "run_plan \<Rightarrow> reserve_v02 \<Rightarrow> event_v02 list \<Rightarrow> limit_ref \<Rightarrow> (limit_row \<times> bool) option" where
  "limit_observation plan rv es r =
     (case ceilingByRef plan rv r of
        None \<Rightarrow> None
      | Some cap \<Rightarrow>
          if cap < 0 then None
          else (let block = latest_block es r;
                    consumed = (case block of None \<Rightarrow> consumedByRef es r | Some ev \<Rightarrow> vi_consumed (snd ev));
                    requested = map_option (vi_requested \<circ> snd) block;
                    evidence = (case block of Some ev \<Rightarrow> fst ev
                                | None \<Rightarrow> (case limit_source es r of Some e \<Rightarrow> e | None \<Rightarrow> hd es)) in
                Some (\<lparr>li_ref = r, li_consumed = consumed, li_requested = requested,
                       li_status = (if consumed > cap then Exceeded
                         else if (case requested of None \<Rightarrow> False | Some n \<Rightarrow> consumed + n > cap) then WouldExceed
                         else if consumed = cap then AtCeiling else Available),
                       li_evidence = eventRef evidence\<rparr>,
                      case block of None \<Rightarrow> True | Some ev \<Rightarrow> vi_ceiling (snd ev) = cap)))"

definition limits_valid :: "(limit_row \<times> bool) list \<Rightarrow> bool" where
  "limits_valid rows \<longleftrightarrow>
     list_all snd rows \<and> \<not> list_ex (\<lambda>l. li_status l = Exceeded \<and> li_ref l \<noteq> MaxElapsedMs) (map fst rows)"

subsection \<open>Effects and actions\<close>

definition effect_rows :: "run_plan \<Rightarrow> event_v02 list \<Rightarrow> effect_row list" where
  "effect_rows plan es =
     concat (map (\<lambda>s. map (\<lambda>ef.
       (case findLast (\<lambda>p. eo_task (snd p) = se_task s \<and> eo_effect (snd p) = ef_id ef) (events_where as_effect es) of
          None \<Rightarrow> \<lparr>fx_action = None, fx_task = se_task s, fx_effect = ef_id ef, fx_outcome = NotStarted, fx_event = None\<rparr>
        | Some p \<Rightarrow> \<lparr>fx_action = Some (eo_action (snd p)), fx_task = se_task s, fx_effect = ef_id ef,
                     fx_outcome = eo_outcome (snd p), fx_event = Some (eventRef (fst p))\<rparr>)) (se_effects s))
       (rp_side_effects plan))"

text \<open>A state event refers to the earlier admission of its action.\<close>

definition state_event_bound :: "(event_v02 \<times> action_admission) list \<Rightarrow> event_v02 \<times> action_fact \<times> action_state \<Rightarrow> bool" where
  "state_event_bound admissions p \<longleftrightarrow>
     (case find (\<lambda>ea. aa_action (snd ea) = af_action (fst (snd p))) admissions of
        None \<Rightarrow> False
      | Some (e, a) \<Rightarrow>
          ev_seq e < ev_seq (fst p) \<and> aa_task a = af_task (fst (snd p)) \<and> af_admission (fst (snd p)) = eventRef e)"

definition action_rows :: "event_v02 list \<Rightarrow> action_row list" where
  "action_rows es =
     concat (map (\<lambda>(e, a).
       if list_ex (\<lambda>p. fst (snd p) = aa_action a) (events_where as_settlement es) then []
       else (let latest = findLast (\<lambda>p. af_action (fst (snd p)) = aa_action a) (events_where action_state_of es) in
             [\<lparr>ia_action = aa_action a, ia_task = aa_task a, ia_lease = aa_lease a, ia_admission = ev_seq e,
               ia_state = (case latest of None \<Rightarrow> Admitted | Some p \<Rightarrow> snd (snd p)),
               ia_latest = (case latest of None \<Rightarrow> eventRef e | Some p \<Rightarrow> eventRef (fst p))\<rparr>]))
       (events_where as_admission es))"

definition hasUnsettledActionBefore :: "event_v02 list \<Rightarrow> int \<Rightarrow> bool" where
  "hasUnsettledActionBefore es n \<longleftrightarrow>
     list_ex (\<lambda>(e, a). ev_seq e < n \<and>
         \<not> list_ex (\<lambda>p. ev_seq (fst p) < n \<and> fst (snd p) = aa_action a) (events_where as_settlement es))
       (events_where as_admission es)"

subsection \<open>The freeze\<close>

text \<open>The fence in force before the first freeze; the events before it in the ledger.\<close>

definition freeze_fence_valid :: "event_v02 list \<Rightarrow> bool" where
  "freeze_fence_valid es \<longleftrightarrow>
     (case first_event as_freeze_entry es of
        None \<Rightarrow> False
      | Some (_, f) \<Rightarrow>
          f = (case last_event as_fence (takeWhile (\<lambda>e. as_freeze_entry (ev_body e) = None) es) of
                 None \<Rightarrow> 0 | Some p \<Rightarrow> snd p))"

record observations =
  os_gates :: "gate_row list"
  os_evaluations :: "evaluation_row list"
  os_progress :: "observation_row list"
  os_limits :: "limit_row list"
  os_tasks :: "task_row list"
  os_effects :: "effect_row list"
  os_failures :: "failure_row list"
  os_blocks :: "block_row list"
  os_actions :: "action_row list"

definition active_compensation_tasks :: "run_plan \<Rightarrow> string list \<Rightarrow> string list" where
  "active_compensation_tasks plan refs =
     concat (map (\<lambda>r. map cp_action_task (filter (\<lambda>c. cp_id c = r) (rp_compensations plan))) refs)"

definition task_completed_for :: "run_plan \<Rightarrow> string list \<Rightarrow> task_row \<Rightarrow> bool" where
  "task_completed_for plan active t \<longleftrightarrow>
     (case find (\<lambda>d. tk_id d = ta_ref t) (rp_tasks plan) of
        None \<Rightarrow> False
      | Some d \<Rightarrow>
          if tk_kind d = WorkTask then ta_status t = TaskCompleted
          else ta_ref t \<notin> set active \<or> ta_status t = TaskCompleted)"

definition completed_proven :: "run_plan \<Rightarrow> string list \<Rightarrow> observations \<Rightarrow> bool" where
  "completed_proven plan active ob \<longleftrightarrow>
     list_all gate_clear (os_gates ob) \<and> list_all (evaluationCountsAsCompleted plan) (os_evaluations ob) \<and>
     list_all (task_completed_for plan active) (os_tasks ob) \<and>
     list_all (\<lambda>d. ob_target d = None \<or>
         (case map_of (rev (map (\<lambda>r. (ov_ref r, r)) (os_progress ob))) (ob_id d) of
            None \<Rightarrow> False | Some r \<Rightarrow> ov_target r)) (rp_observations plan)"

fun freeze_proven ::
  "run_plan \<Rightarrow> string list \<Rightarrow> event_v02 list \<Rightarrow> observations \<Rightarrow> terminal_state \<Rightarrow> bool" where
  "freeze_proven plan active es ob Aborted \<longleftrightarrow> last_event as_abort es \<noteq> None"
| "freeze_proven plan active es ob Exhausted \<longleftrightarrow> list_ex limit_reached (os_limits ob)"
| "freeze_proven plan active es ob Stalled \<longleftrightarrow> list_ex ov_stalled (os_progress ob)"
| "freeze_proven plan active es ob Failed \<longleftrightarrow>
     list_ex (\<lambda>f. isFailedFailureClass (fr_class f)) (os_failures ob) \<or>
     list_ex (\<lambda>t. ta_status t = TaskFailed) (os_tasks ob) \<or> list_ex (\<lambda>g. ga_status g = Fail) (os_gates ob) \<or>
     list_ex (\<lambda>v. va_status v = Fail) (os_evaluations ob)"
| "freeze_proven plan active es ob Held \<longleftrightarrow>
     list_ex (\<lambda>f. fr_class f = PolicyHold) (os_failures ob) \<or>
     list_ex (\<lambda>b. bl_active b \<and> bl_decision b = HoldDecision) (os_blocks ob) \<or>
     list_ex (\<lambda>g. ga_status g = Hold) (os_gates ob) \<or> list_ex (\<lambda>v. va_status v = Hold) (os_evaluations ob)"
| "freeze_proven plan active es ob Blocked \<longleftrightarrow> list_ex (\<lambda>t. ta_status t = TaskBlocked) (os_tasks ob)"
| "freeze_proven plan active es ob Completed \<longleftrightarrow> completed_proven plan active ob"

text \<open>Requested compensations that the plan declares protect an effect that may have happened.\<close>

definition activation_invalid :: "run_plan \<Rightarrow> effect_row list \<Rightarrow> string \<Rightarrow> bool" where
  "activation_invalid plan effects ref \<longleftrightarrow>
     (case find (\<lambda>c. cp_id c = ref) (rp_compensations plan) of
        None \<Rightarrow> False
      | Some c \<Rightarrow> \<not> effect_protectable (find (\<lambda>f. fx_task f = cp_for_task c \<and> fx_effect f = cp_for_effect c) effects))"

subsection \<open>The durable transitions\<close>

text \<open>
  The variables of the loop over the ledger: the freeze in force with its candidate, the
  latest request, the phase entry, and the event that set the pending terminal state.
\<close>

record transitions =
  tr_freeze :: "(string \<times> terminal_state) option"
  tr_request :: "(string \<times> request_fact) option"
  tr_phase :: "phase_fact option"
  tr_candidate :: "(string \<times> terminal_state) option"

definition transitions_start :: transitions where
  "transitions_start = \<lparr>tr_freeze = None, tr_request = None, tr_phase = None, tr_candidate = None\<rparr>"

definition request_valid :: "event_v02 list \<Rightarrow> event_v02 \<Rightarrow> request_fact \<Rightarrow> transitions \<Rightarrow> bool" where
  "request_valid es e r s \<longleftrightarrow>
     tr_request s = None \<and>
     (case tr_freeze s of
        None \<Rightarrow> False
      | Some (h, c) \<Rightarrow> is_recovery c \<and> rq_pending r = c \<and> rq_freeze r = h \<and> \<not> hasUnsettledActionBefore es (ev_seq e))"

definition revision_valid :: "request_fact \<Rightarrow> revision_fact \<Rightarrow> transitions \<Rightarrow> bool" where
  "revision_valid r v s \<longleftrightarrow>
     (case (tr_request s, tr_freeze s) of
        (Some (h, prior), Some (fh, c)) \<Rightarrow>
          rq_revision r = rq_revision prior + 1 \<and> rv_previous_pending v = rq_pending prior \<and>
          rv_previous_request v = h \<and> rq_freeze r = fh \<and> rq_pending r = c \<and>
          list_all (\<lambda>x. x \<in> set (rq_refs r)) (rq_refs prior) \<and>
          rv_added v = filter (\<lambda>x. x \<notin> set (rq_refs prior)) (rq_refs r)
      | _ \<Rightarrow> False)"

text \<open>The phase opens right after a fence was advanced, at a recovery boundary in plain plans.\<close>

definition recovery_boundary :: "bool \<Rightarrow> event_v02 option \<Rightarrow> bool" where
  "recovery_boundary attempt_aware previous =
     (case previous of
        None \<Rightarrow> False
      | Some e \<Rightarrow> (case ev_body e of FenceAdvanced _ at_boundary \<Rightarrow> attempt_aware \<or> at_boundary | _ \<Rightarrow> False))"

definition entry_valid :: "phase_fact \<Rightarrow> transitions \<Rightarrow> bool" where
  "entry_valid p s \<longleftrightarrow>
     tr_phase s = None \<and>
     (case (tr_request s, tr_freeze s) of
        (Some (h, r), Some (fh, _)) \<Rightarrow>
          pe_request_revision p = rq_revision r \<and> pe_request p = h \<and> pe_pending p = rq_pending r \<and>
          pe_refs p = rq_refs r \<and> pe_freeze p = fh
      | _ \<Rightarrow> False)"

definition escalation_valid :: "escalation_fact \<Rightarrow> transitions \<Rightarrow> bool" where
  "escalation_valid c s \<longleftrightarrow>
     (case (tr_phase s, tr_candidate s) of
        (Some p, Some (h, pending)) \<Rightarrow> ec_previous c = pending \<and> ec_previous_event c = h \<and> ec_refs c = pe_refs p
      | _ \<Rightarrow> False)"

definition transition_step ::
  "bool \<Rightarrow> event_v02 list \<Rightarrow> nat \<Rightarrow> transitions \<Rightarrow> event_v02 \<Rightarrow> invalid_reason + transitions" where
  "transition_step attempt_aware es i s e =
     (case ev_body e of
        FreezeEntered c _ \<Rightarrow> Inr (s\<lparr>tr_freeze := Some (ev_hash e, c)\<rparr>)
      | FreezeRevised _ c \<Rightarrow> Inr (s\<lparr>tr_freeze := Some (ev_hash e, c)\<rparr>)
      | CompensationRequested r \<Rightarrow>
          if request_valid es e r s
          then Inr (s\<lparr>tr_request := Some (ev_hash e, r), tr_candidate := Some (ev_hash e, rq_pending r)\<rparr>)
          else Inl RequestInvalid
      | CompensationRevised r v \<Rightarrow>
          if revision_valid r v s
          then Inr (s\<lparr>tr_request := Some (ev_hash e, r), tr_candidate := Some (ev_hash e, rq_pending r)\<rparr>)
          else Inl RequestInvalid
      | PhaseEntered p \<Rightarrow>
          if entry_valid p s \<and> recovery_boundary attempt_aware (if i = 0 then None else nth_opt es (i - 1))
          then Inr (s\<lparr>tr_phase := Some p, tr_candidate := Some (ev_hash e, pe_pending p)\<rparr>)
          else Inl PhaseInvalid
      | CandidateEscalated c \<Rightarrow>
          if escalation_valid c s then Inr (s\<lparr>tr_candidate := Some (ev_hash e, ec_pending c)\<rparr>)
          else Inl EscalationInvalid
      | _ \<Rightarrow> Inr s)"

subsection \<open>The observations\<close>

definition run_phase_of :: "event_v02 list \<Rightarrow> run_phase" where
  "run_phase_of es = (if last_event as_phase_entry es = None then WorkPhase else CompensationPhase)"

definition latest_request_refs :: "event_v02 list \<Rightarrow> string list" where
  "latest_request_refs es = (case last_event as_request es of None \<Rightarrow> [] | Some er \<Rightarrow> rq_refs (snd er))"

text \<open>Stages one to six of the builder: progress, limits, controls, tasks, effects, failures and actions.\<close>

definition derive_observations :: "hashing \<Rightarrow> projection_input \<Rightarrow> snapshot_error + observations" where
  "derive_observations h inp =
     (let plan = pi_plan inp; es = pi_events inp;
          rv = (if run_phase_of es = WorkPhase then rp_reserve plan else no_reserve_v02);
          ends = events_where as_task_end es in
      case deriveProgressV02ForRuntime inp of
        Inl r \<Rightarrow> Inl (Refused r)
      | Inr progress \<Rightarrow>
          if (case es of [] \<Rightarrow> True | e # _ \<Rightarrow> is_initialized (ev_body e) = None) then Inl (Refused ApplicabilityInvalid)
          else (case map_all (limit_observation plan rv es) (configuredLimits plan) of
            None \<Rightarrow> Inl TypeErrorThrown
          | Some limits \<Rightarrow>
              (case projectApplicabilityAndDueV02 (hash_prerequisites h) plan es (latest_request_refs es) of
                 None \<Rightarrow> Inl (Refused ApplicabilityInvalid)
               | Some (gates, evaluations) \<Rightarrow>
                   if \<not> limits_valid limits then Inl (Refused LimitInvalid)
                   else if \<not> list_all (\<lambda>p. snd p \<in> set (map tk_id (rp_tasks plan))) ends then Inl (Refused TaskInvalid)
                   else (case deriveFailurePolicyProjectionV02 plan es of
                           Inl r \<Rightarrow> Inl (Refused r)
                         | Inr (failures, blocks) \<Rightarrow>
                             if \<not> list_all (state_event_bound (events_where as_admission es)) (events_where action_state_of es)
                             then Inl (Refused AdmissionInvalid)
                             else Inr \<lparr>os_gates = gates, os_evaluations = evaluations, os_progress = progress,
                                    os_limits = map fst limits,
                                    os_tasks = propagated_rows (rp_tasks plan)
                                      (task_row_of es failures (map ia_task (action_rows es))),
                                    os_effects = effect_rows plan es, os_failures = failures, os_blocks = blocks,
                                    os_actions = action_rows es\<rparr>))))"

definition observed_compensation :: "projection_input \<Rightarrow> observations \<Rightarrow> compensation_input" where
  "observed_compensation inp ob =
     \<lparr>ci_plan = pi_plan inp, ci_events = pi_events inp, ci_tasks = os_tasks ob, ci_evaluations = os_evaluations ob,
      ci_effects = os_effects ob, ci_limits = os_limits ob, ci_blocks = os_blocks ob\<rparr>"

text \<open>The transitions of the ledger against the observations.\<close>

definition check_transitions ::
  "projection_input \<Rightarrow> observations \<Rightarrow> byte_facts \<Rightarrow> invalid_reason + compensation_value" where
  "check_transitions inp ob facts =
     (let plan = pi_plan inp; es = pi_events inp; freeze = last_event as_freeze es in
      if freeze \<noteq> None \<and> \<not> freeze_fence_valid es then Inl FreezeInvalid
      else if (case freeze of None \<Rightarrow> False
               | Some (_, _, c) \<Rightarrow>
                   \<not> freeze_proven plan (active_compensation_tasks plan (latest_request_refs es)) es ob c) then Inl FreezeInvalid
      else if list_ex (activation_invalid plan (os_effects ob)) (concat (map (rq_refs \<circ> snd) (events_where as_request es)))
        then Inl ActivationInvalid
      else (case fold_events (transition_step (rp_attempt_aware plan) es) 0 transitions_start es of
              Inl r \<Rightarrow> Inl r
            | Inr _ \<Rightarrow>
                (case deriveCompensationProjectionV02 (observed_compensation inp ob) of
                   Inl r \<Rightarrow> Inl r
                 | Inr value \<Rightarrow>
                     if (case last_event as_phase_entry es of None \<Rightarrow> False
                         | Some (e, _) \<Rightarrow> hasUnsettledActionBefore es (ev_seq e)) then Inl WorkersAtPhaseEntry
                     else if bf_consumed facts > rp_control_bytes plan then Inl ControlBudgetInvalid
                     else Inr value)))"

subsection \<open>The snapshot\<close>

definition pending_event :: "event_v02 list \<Rightarrow> (event_v02 \<times> terminal_state) option" where
  "pending_event es =
     (case last_event as_escalation es of
        Some (e, c) \<Rightarrow> Some (e, ec_pending c)
      | None \<Rightarrow> map_option (\<lambda>(e, p). (e, pe_pending p)) (last_event as_phase_entry es))"

definition current_fence :: "event_v02 list \<Rightarrow> int" where
  "current_fence es =
     (case last_event as_seal es of
        Some (_, s) \<Rightarrow> sl_fence s
      | None \<Rightarrow>
          (case last_event as_fence es of
             Some (_, f) \<Rightarrow> f
           | None \<Rightarrow> (case first_event is_initialized es of Some (_, f) \<Rightarrow> f | None \<Rightarrow> 0)))"

definition progress_row_of :: "observation_row \<Rightarrow> progress_row" where
  "progress_row_of r =
     \<lparr>pr_ref = ov_ref r, pr_target_reached = ov_target r, pr_stalled = ov_stalled r,
      pr_evidence = uniqueLedgerRefs (option_list (ov_baseline r) @ option_list (ov_latest r))\<rparr>"

definition snapshot_of ::
  "projection_input \<Rightarrow> observations \<Rightarrow> byte_facts \<Rightarrow> compensation_value \<Rightarrow> snapshot" where
  "snapshot_of inp ob facts value =
     (let es = pi_events inp in
      \<lparr>sn_run = pi_run inp, sn_plan_hash = pi_plan_hash inp, sn_sequence = pi_sequence inp, sn_head = pi_head inp,
       sn_fence = current_fence es, sn_phase = run_phase_of es,
       sn_pending = map_option snd (pending_event es),
       sn_pending_event = map_option (eventRef \<circ> fst) (pending_event es),
       sn_freeze = map_option (\<lambda>(e, n, c). \<lparr>fz_revision = n, fz_candidate = c, fz_event = eventRef e\<rparr>)
         (last_event as_freeze es),
       sn_request = map_option (\<lambda>(e, r). \<lparr>rr_revision = rq_revision r, rr_pending = rq_pending r,
           rr_reason = rq_reason r, rr_refs = rq_refs r, rr_event = eventRef e\<rparr>) (last_event as_request es),
       sn_seal = map_option (\<lambda>(e, s). (eventRef e, s)) (last_event as_seal es),
       sn_control = (bf_consumed facts, rp_control_bytes (pi_plan inp)),
       sn_gates = os_gates ob, sn_evaluations = os_evaluations ob,
       sn_progress = map progress_row_of (os_progress ob), sn_limits = os_limits ob, sn_tasks = os_tasks ob,
       sn_effects = os_effects ob, sn_compensations = cv_rows value, sn_failures = os_failures ob,
       sn_blocks = os_blocks ob, sn_abort_requested = (last_event as_abort es \<noteq> None),
       sn_abort_event = map_option (eventRef \<circ> fst) (last_event as_abort es),
       sn_actions = os_actions ob, sn_workers = length (os_actions ob)\<rparr>)"

text \<open>The ledger before its last seal, and the input that describes it.\<close>

definition before_last_seal :: "event_v02 list \<Rightarrow> event_v02 list" where
  "before_last_seal es = rev (tl (dropWhile (\<lambda>e. as_seal (ev_body e) = None) (rev es)))"

definition prefix_input :: "projection_input \<Rightarrow> event_v02 list \<Rightarrow> event_v02 \<Rightarrow> projection_input" where
  "prefix_input inp es head =
     inp\<lparr>pi_sequence := ev_seq head, pi_head := ev_hash head,
         pi_attempts := int (length (events_where as_attempt es)),
         pi_observations := map fst (events_where as_observed es), pi_events := es\<rparr>"

definition prefix_facts :: "byte_facts \<Rightarrow> nat \<Rightarrow> byte_facts" where
  "prefix_facts facts n = \<lparr>bf_consumed = sum_list (take n (bf_lines facts)), bf_lines = take n (bf_lines facts)\<rparr>"

text \<open>The seal names the outcome, the head before it and the fence it ends.\<close>

definition seal_outcome_valid :: "event_v02 list \<Rightarrow> seal_fact \<Rightarrow> bool" where
  "seal_outcome_valid es s \<longleftrightarrow>
     (case last_event as_freeze es of
        None \<Rightarrow> False
      | Some (_, _, c) \<Rightarrow> sl_outcome s = (case pending_event es of Some (_, p) \<Rightarrow> p | None \<Rightarrow> c))"

definition seal_head_valid :: "event_v02 list \<Rightarrow> seal_fact \<Rightarrow> event_v02 \<Rightarrow> bool" where
  "seal_head_valid es s head \<longleftrightarrow>
     sl_sequence s = ev_seq head \<and> sl_head s = ev_hash head \<and>
     sl_previous_fence s =
       (case first_event as_freeze_entry es of
          Some (_, f) \<Rightarrow> f
        | None \<Rightarrow> (case last_event as_fence es of Some (_, f) \<Rightarrow> f | None \<Rightarrow> 0))"

lemma length_before_last_seal: "last_event as_seal es = Some p \<Longrightarrow> length (before_last_seal es) < length es"
proof -
  assume "last_event as_seal es = Some p"
  then have "es \<noteq> []" by (auto simp: last_event_def)
  moreover have "length (dropWhile (\<lambda>e. as_seal (ev_body e) = None) (rev es)) \<le> length es"
    using length_dropWhile_le [of _ "rev es"] by simp
  ultimately show ?thesis by (cases es rule: rev_cases) (auto simp: before_last_seal_def length_dropWhile_le le_imp_less_Suc
      intro: le_less_trans [OF diff_le_self])
qed

function buildTerminalObservationSnapshotCoreV02 ::
  "hashing \<Rightarrow> projection_input \<Rightarrow> byte_facts \<Rightarrow> snapshot_error + snapshot \<times> compensation_value" where
  "buildTerminalObservationSnapshotCoreV02 h inp facts =
     (case derive_observations h inp of
        Inl r \<Rightarrow> Inl r
      | Inr ob \<Rightarrow>
          (case check_transitions inp ob facts of
             Inl r \<Rightarrow> Inl (Refused r)
           | Inr value \<Rightarrow>
               (let es = pi_events inp; built = snapshot_of inp ob facts value in
                case last_event as_seal es of
                  None \<Rightarrow> Inr (built, value)
                | Some (e, s) \<Rightarrow>
                    (let earlier = before_last_seal es in
                     case last_opt earlier of
                       None \<Rightarrow> Inl (Refused SealInvalid)
                     | Some head \<Rightarrow>
                         if \<not> seal_outcome_valid es s \<or> \<not> seal_head_valid es s head then Inl (Refused SealInvalid)
                         else (case buildTerminalObservationSnapshotCoreV02 h (prefix_input inp earlier head)
                                      (prefix_facts facts (length earlier)) of
                                 Inl r \<Rightarrow> Inl r
                               | Inr (prior, _) \<Rightarrow>
                                   if sl_snapshot s \<noteq> preSealSnapshotHash (hash_snapshot h) prior then Inl (Refused SealInvalid)
                                   else if length earlier + 1 \<noteq> length es then Inl (Refused PostSealAction)
                                   else Inr (built, value))))))"
  by pat_completeness auto
termination
  by (relation "measure (\<lambda>(h, inp, facts). length (pi_events inp))")
    (auto simp: prefix_input_def length_before_last_seal)

declare buildTerminalObservationSnapshotCoreV02.simps [simp del]

end
