(* ===== verification/Terminal_Laws.thy ===== *)
theory Terminal_Laws
  imports Terminal
begin

text \<open>
  Laws of the terminal evaluator: which candidate is selected, what a decision to seal
  guarantees about the run, and that a freeze is only ever raised.
\<close>

subsection \<open>The selected candidate\<close>

lemma candidate_rows_mem:
  "(c, evidence) \<in> set (candidate_rows plan s) \<longleftrightarrow>
     candidate_evidence plan s c \<noteq> [] \<and> evidence = uniqueRefs (candidate_evidence plan s c)"
proof -
  have "c \<in> set [Aborted, Failed, Exhausted, Stalled, Held, Blocked, Completed]" by (cases c) simp_all
  then show ?thesis unfolding candidate_rows_def set_filter set_map by (auto simp del: candidate_evidence.simps list.set)
qed

lemma nth_opt_0: "nth_opt xs 0 = (case xs of [] \<Rightarrow> None | x # _ \<Rightarrow> Some x)"
  by (cases xs) simp_all

lemma first_of_sorted:
  fixes f :: "'a \<Rightarrow> int"
  assumes "nth_opt (sort_key f xs) 0 = Some x"
  shows "x \<in> set xs \<and> (\<forall>y\<in>set xs. f x \<le> f y)"
proof -
  from assms obtain ys where ys: "sort_key f xs = x # ys" by (auto simp: nth_opt_0 split: list.splits)
  then have "sorted (map f (x # ys))" by (metis sorted_sort_key)
  moreover have "set xs = set (x # ys)" using ys by (metis set_sort)
  ultimately show ?thesis by auto
qed

lemma terminalCandidate_None: "terminalCandidate plan s = None \<longleftrightarrow> (\<forall>c. candidate_evidence plan s c = [])"
proof -
  have "terminalCandidate plan s = None \<longleftrightarrow> candidate_rows plan s = []"
    unfolding terminalCandidate_def nth_opt_0
    by (cases "sort_key (\<lambda>r. - TERMINAL_PRIORITY_V02 (fst r)) (candidate_rows plan s)")
      (metis list.simps(4) set_empty set_sort, metis list.distinct(1) list.simps(5) option.distinct(1) set_empty set_sort)
  also have "\<dots> \<longleftrightarrow> (\<forall>c. candidate_evidence plan s c = [])"
  proof (cases "candidate_rows plan s")
    case Nil
    then show ?thesis using candidate_rows_mem [of c "uniqueRefs (candidate_evidence plan s c)" plan s for c] by simp
  next
    case (Cons r rs)
    then have "(fst r, snd r) \<in> set (candidate_rows plan s)" by simp
    then have "candidate_evidence plan s (fst r) \<noteq> []" unfolding candidate_rows_mem ..
    with Cons show ?thesis by auto
  qed
  finally show ?thesis .
qed

lemma terminalCandidate_highest:
  assumes "terminalCandidate plan s = Some (c, evidence)"
  shows "candidate_evidence plan s c \<noteq> [] \<and> evidence = uniqueRefs (candidate_evidence plan s c) \<and>
    (candidate_evidence plan s d \<noteq> [] \<longrightarrow> d \<le> c)"
proof -
  from first_of_sorted [OF assms [unfolded terminalCandidate_def]]
  have c: "(c, evidence) \<in> set (candidate_rows plan s)"
    and top: "\<And>r. r \<in> set (candidate_rows plan s) \<Longrightarrow> TERMINAL_PRIORITY_V02 (fst r) \<le> TERMINAL_PRIORITY_V02 c"
    by auto
  have "d \<le> c" if "candidate_evidence plan s d \<noteq> []"
    using top [of "(d, uniqueRefs (candidate_evidence plan s d))"] that by (simp add: candidate_rows_mem state_order)
  with c show ?thesis by (simp add: candidate_rows_mem)
qed

text \<open>
  The evaluator selects exactly the highest of the terminal states whose condition is present,
  with all its evidence, each reference once and in ledger order; none is selected only if none
  is present.
\<close>

theorem selected_is_highest:
  "terminalCandidate plan s = Some (c, evidence) \<longleftrightarrow>
     c = Max {d. candidate_evidence plan s d \<noteq> []} \<and> candidate_evidence plan s c \<noteq> [] \<and>
     evidence = uniqueRefs (candidate_evidence plan s c)"
proof -
  have fin: "finite {d. candidate_evidence plan s d \<noteq> []}"
  proof (rule finite_subset)
    show "finite (set [Aborted, Failed, Exhausted, Stalled, Held, Blocked, Completed])" by simp
    show "{d. candidate_evidence plan s d \<noteq> []} \<subseteq> set [Aborted, Failed, Exhausted, Stalled, Held, Blocked, Completed]"
      by (auto intro: terminal_state.exhaust)
  qed
  show ?thesis
  proof
    assume a: "terminalCandidate plan s = Some (c, evidence)"
    from terminalCandidate_highest [OF a] show "c = Max {d. candidate_evidence plan s d \<noteq> []} \<and>
        candidate_evidence plan s c \<noteq> [] \<and> evidence = uniqueRefs (candidate_evidence plan s c)"
      using fin by (auto intro: Max_eqI [symmetric])
  next
    assume c: "c = Max {d. candidate_evidence plan s d \<noteq> []} \<and> candidate_evidence plan s c \<noteq> [] \<and>
      evidence = uniqueRefs (candidate_evidence plan s c)"
    then have "terminalCandidate plan s \<noteq> None" by (auto simp: terminalCandidate_None)
    then obtain b ev where b: "terminalCandidate plan s = Some (b, ev)" by auto
    from terminalCandidate_highest [OF b] have "b = Max {d. candidate_evidence plan s d \<noteq> []}"
      using fin by (auto intro: Max_eqI [symmetric])
    with b c terminalCandidate_highest [OF b, of b] show "terminalCandidate plan s = Some (c, evidence)" by simp
  qed
qed

subsection \<open>Sealing\<close>

lemmas decision_defs =
  evaluateTerminalDecisionTableV02_def quiet_decision_def freeze_step_def request_decision_def
  escalation_step_def settlement_step_def seal_decision_def

lemma seal_decision_Seal: "seal_decision hs s = Seal c n h sh f g \<longleftrightarrow>
    (\<exists>fz. sn_freeze s = Some fz \<and> c = (case sn_pending s of Some p \<Rightarrow> p | None \<Rightarrow> fz_candidate fz) \<and>
      n = sn_sequence s \<and> h = sn_head s \<and> sh = preSealSnapshotHash hs s \<and> f = sn_fence s \<and> g = sn_fence s + 1)"
  by (auto simp: seal_decision_def split: option.splits)

lemma seal_only:
  assumes "evaluateTerminalDecisionTableV02 hs inp captured s = Seal c n h sh f g"
  shows "sn_seal s = None \<and> sn_workers s = 0 \<and> \<not> list_ex action_open (sn_actions s) \<and>
    freeze_step s (terminalCandidate (pi_plan inp) s) = None \<and>
    quiet_decision hs inp captured s (terminalCandidate (pi_plan inp) s) = Seal c n h sh f g"
  using assms
  by (auto simp: evaluateTerminalDecisionTableV02_def Let_def freeze_step_def split: option.splits if_splits)

lemma quiet_seal:
  assumes "quiet_decision hs inp captured s selected = Seal c n h sh f g"
  shows "seal_decision hs s = Seal c n h sh f g \<and>
    (sn_phase s = CompensationPhase \<longrightarrow> settlement_step inp captured s = None \<and> escalation_step s selected = None) \<and>
    (sn_phase s = WorkPhase \<longrightarrow>
       \<not> (\<exists>fz. sn_freeze s = Some fz \<and> is_recovery (fz_candidate fz) \<and> due_compensations (pi_plan inp) s \<noteq> [] \<and>
           effect_evidence s \<noteq> []))"
proof (cases "sn_phase s")
  case WorkPhase
  with assms show ?thesis
    by (auto simp: quiet_decision_def request_decision_def Let_def split: option.splits if_splits)
next
  case CompensationPhase
  with assms show ?thesis
    by (auto simp: quiet_decision_def escalation_step_def settlement_step_def Let_def
        split: option.splits if_splits list.splits prod.splits)
qed

text \<open>
  C16: a run is sealed only when it is frozen and quiet: no worker, no admitted or started action,
  no seal yet. In the work phase the frozen candidate is at least every condition present and,
  if it calls for recovery, no effect is left to compensate; in the compensation phase every
  applicable compensation is durably settled. The fence is raised by one.
\<close>

theorem seal_is_safe:
  assumes "evaluateTerminalDecisionTableV02 hs inp captured s = Seal c n h sh f g"
  shows "sn_seal s = None \<and> sn_workers s = 0 \<and> \<not> list_ex action_open (sn_actions s) \<and> g = sn_fence s + 1 \<and>
    (\<exists>fz. sn_freeze s = Some fz \<and> c = (case sn_pending s of Some p \<Rightarrow> p | None \<Rightarrow> fz_candidate fz) \<and>
      (case sn_phase s of
        WorkPhase \<Rightarrow>
          (\<forall>d. candidate_evidence (pi_plan inp) s d \<noteq> [] \<longrightarrow> d \<le> fz_candidate fz) \<and>
          (is_recovery (fz_candidate fz) \<and> effect_evidence s \<noteq> [] \<longrightarrow> due_compensations (pi_plan inp) s = [])
      | CompensationPhase \<Rightarrow> \<not> list_ex (\<lambda>r. cm_applicable r \<and> cm_settlement r = None) (sn_compensations s)))"
proof -
  note q = seal_only [OF assms]
  from quiet_seal q have quiet: "seal_decision hs s = Seal c n h sh f g"
    and settled: "sn_phase s = CompensationPhase \<Longrightarrow> settlement_step inp captured s = None"
    and nothing_due: "sn_phase s = WorkPhase \<Longrightarrow>
       \<not> (\<exists>fz. sn_freeze s = Some fz \<and> is_recovery (fz_candidate fz) \<and> due_compensations (pi_plan inp) s \<noteq> [] \<and>
           effect_evidence s \<noteq> [])"
    by blast+
  from quiet obtain fz where fz: "sn_freeze s = Some fz" "g = sn_fence s + 1"
    "c = (case sn_pending s of Some p \<Rightarrow> p | None \<Rightarrow> fz_candidate fz)"
    by (auto simp: seal_decision_Seal)
  have low: "d \<le> fz_candidate fz" if "sn_phase s = WorkPhase" and "candidate_evidence (pi_plan inp) s d \<noteq> []" for d
  proof -
    from that(2) obtain b ev where b: "terminalCandidate (pi_plan inp) s = Some (b, ev)"
      using terminalCandidate_None by (metis option.exhaust surj_pair)
    with q fz(1) that(1) have "b \<le> fz_candidate fz" by (auto simp: freeze_step_def state_order split: if_splits)
    with terminalCandidate_highest [OF b, of d] that(2) show ?thesis by (meson order_trans)
  qed
  have "(case sn_phase s of
      WorkPhase \<Rightarrow>
        (\<forall>d. candidate_evidence (pi_plan inp) s d \<noteq> [] \<longrightarrow> d \<le> fz_candidate fz) \<and>
        (is_recovery (fz_candidate fz) \<and> effect_evidence s \<noteq> [] \<longrightarrow> due_compensations (pi_plan inp) s = [])
    | CompensationPhase \<Rightarrow> \<not> list_ex (\<lambda>r. cm_applicable r \<and> cm_settlement r = None) (sn_compensations s))"
  proof (cases "sn_phase s")
    case WorkPhase
    with low nothing_due fz(1) show ?thesis by auto
  next
    case CompensationPhase
    with settled show ?thesis by (simp add: settlement_step_def split: list.splits if_splits)
  qed
  with q fz show ?thesis by blast
qed

text \<open>
  A freeze is revised only in the work phase and only upwards, with the next revision number
  and evidence, so a run is revised at most six times.
\<close>

lemma revision_rises:
  assumes "evaluateTerminalDecisionTableV02 hs inp captured s = ReviseFreeze p c r h evidence"
  shows "p < c \<and> evidence \<noteq> [] \<and> (\<exists>fz. sn_freeze s = Some fz \<and> p = fz_candidate fz \<and> r = fz_revision fz + 1)"
proof -
  have no: "quiet_decision hs inp captured s sel \<noteq> ReviseFreeze p c r h evidence" for sel
    by (auto simp: quiet_decision_def request_decision_def escalation_step_def settlement_step_def seal_decision_def Let_def
        split: option.splits if_splits list.splits prod.splits)
  with assms show ?thesis
    by (auto simp: evaluateTerminalDecisionTableV02_def freeze_step_def Let_def state_order
        split: option.splits if_splits dest: terminalCandidate_highest)
qed

end
