(* ===== verification/Snapshot_Frame.thy ===== *)
theory Snapshot_Frame
  imports Snapshot Terminal_Laws
begin

text \<open>
  What an appended event leaves alone. The events of a terminal transition (freeze, fence,
  escalation, abort, seal) are no observation of the run: appended to a ledger they change
  none of the observations that the snapshot derives. The later laws about following a
  decision of the evaluator rest on this frame.
\<close>

fun silent :: "body \<Rightarrow> bool" where
  "silent (FreezeEntered _ _) = True"
| "silent (FreezeRevised _ _) = True"
| "silent (FenceAdvanced _ _) = True"
| "silent (CandidateEscalated _) = True"
| "silent (Sealed _) = True"
| "silent AbortRequested = True"
| "silent (OtherEvent _) = True"
| "silent _ = False"

text \<open>No reading of an observation sees a silent event.\<close>

lemma silent_readings:
  assumes "silent b"
  shows "as_observed b = None" "is_initialized b = None" "settled_for t b = None" "artifact_for t b = None"
    "evidence_for t b = None" "gate_pass_for t b = None" "evaluation_pass_for t b = None" "phase_entry_for t b = None"
    "gate_required_of b = None" "gate_recorded b = None" "evaluation_requirement b = None" "evaluation_result b = None"
    "waiver_record b = None" "as_clock b = None" "as_policy b = None" "held_subject plan b = None"
    "completed_task b = None" "unknown_task b = None" "started_task b = None" "as_request b = None"
    "as_phase_entry b = None" "as_admission b = None" "as_settled b = None" "as_attempt b = None"
    "as_execution b = None" "as_limit_block b = None" "as_effect b = None" "as_settlement b = None"
    "action_state_of b = None" "as_task_end b = None" "unknown_control plan b = False"
  using assms by (cases b; simp)+

definition extended :: "projection_input \<Rightarrow> event_v02 \<Rightarrow> projection_input" where
  "extended inp e = inp\<lparr>pi_sequence := ev_seq e, pi_head := ev_hash e, pi_events := pi_events inp @ [e]\<rparr>"

lemma extended_simps [simp]:
  "pi_plan (extended inp e) = pi_plan inp" "pi_run (extended inp e) = pi_run inp"
  "pi_attempts (extended inp e) = pi_attempts inp" "pi_observations (extended inp e) = pi_observations inp"
  "pi_events (extended inp e) = pi_events inp @ [e]" "pi_sequence (extended inp e) = ev_seq e"
  "pi_head (extended inp e) = ev_hash e" "pi_plan_hash (extended inp e) = pi_plan_hash inp"
  by (simp_all add: extended_def)

lemma events_where_extend: "f (ev_body e) = None \<Longrightarrow> events_where f (es @ [e]) = events_where f es"
  by simp

lemma last_event_extend: "f (ev_body e) = None \<Longrightarrow> last_event f (es @ [e]) = last_event f es"
  by (simp add: last_event_def)

lemma last_event_hit: "f (ev_body e) = Some p \<Longrightarrow> last_event f (es @ [e]) = Some (e, p)"
  by (simp add: last_event_def)

lemma first_event_extend: "f (ev_body e) = None \<Longrightarrow> first_event f (es @ [e]) = first_event f es"
  by (simp add: first_event_def)

lemma fold_events_same:
  assumes "\<And>j s. j < length es \<Longrightarrow> step (i + j) s (es ! j) = step' (i + j) s (es ! j)"
  shows "fold_events step i s es = fold_events step' i s es"
  using assms
proof (induction es arbitrary: i s)
  case (Cons e es)
  from Cons.prems [of 0] have e: "step i s e = step' i s e" by simp
  have "fold_events step (Suc i) t es = fold_events step' (Suc i) t es" for t
    by (rule Cons.IH) (use Cons.prems [of "Suc j" for j] in force)
  with e show ?case by (simp split: sum.split)
qed simp

subsection \<open>Progress\<close>

lemma evaluateObservation_extended: "evaluateObservation (extended inp e) = evaluateObservation inp"
proof -
  have rows: "evaluated_row (extended inp e) = evaluated_row inp" "unavailable_row (extended inp e) = unavailable_row inp"
    "eligible_samples (extended inp e) = eligible_samples inp"
    by (intro ext, simp add: evaluated_row_def unavailable_row_def eligible_samples_def)+
  show ?thesis
    by (rule ext) (unfold evaluateObservation_def rows extended_simps, rule refl)
qed

lemma observation_error_extended: "observation_error (extended inp e) = observation_error inp"
  by (rule ext) (auto split: prod.splits simp: observation_error.simps)

lemma progress_extended: "deriveProgressV02ForRuntime (extended inp e) = deriveProgressV02ForRuntime inp"
  unfolding deriveProgressV02ForRuntime_def evaluateObservation_extended observation_error_extended extended_simps ..

subsection \<open>Limits\<close>

text \<open>The rows of compensation read the ledger only through the observations.\<close>

lemma protected_effect_events: "protected_effect (inp\<lparr>ci_events := es\<rparr>) = protected_effect inp"
  by (rule ext) (simp add: protected_effect_def)

lemma budget_decision_events: "budget_decision (inp\<lparr>ci_events := es\<rparr>) c rs = budget_decision inp c rs"
  by (induction rs) (auto split: option.splits)

lemma request_error_events: "request_error (inp\<lparr>ci_events := es\<rparr>) = request_error inp"
  by (rule ext) (simp add: request_error_def protected_effect_events cong: option.case_cong)

lemma pendingDecision_events: "pendingDecision (inp\<lparr>ci_events := es\<rparr>) = pendingDecision inp"
proof -
  have rows: "action_task_row (inp\<lparr>ci_events := es\<rparr>) = action_task_row inp"
    "verifier_rows (inp\<lparr>ci_events := es\<rparr>) = verifier_rows inp" "safety_blocks (inp\<lparr>ci_events := es\<rparr>) = safety_blocks inp"
    by (intro ext, simp add: action_task_row_def verifier_rows_def safety_blocks_def)+
  show ?thesis
    by (intro ext) (unfold pendingDecision_def protected_effect_events budget_decision_events rows, rule refl)
qed

lemma compensation_observation_events:
  "compensation_observation (inp\<lparr>ci_events := es\<rparr>) = compensation_observation inp"
  by (intro ext) (unfold compensation_observation_def protected_effect_events pendingDecision_events, rule refl)

text \<open>The contract of an event that is appended: it is silent.\<close>

locale silent_event =
  fixes e :: event_v02
  assumes silent: "silent (ev_body e)"
begin

lemmas quiet_event = silent_readings [OF silent]

lemma reads_extended:
  "events_where as_observed (es @ [e]) = events_where as_observed es"
  "events_where is_initialized (es @ [e]) = events_where is_initialized es"
  "events_where (settled_for t) (es @ [e]) = events_where (settled_for t) es"
  "events_where (artifact_for t) (es @ [e]) = events_where (artifact_for t) es"
  "events_where (evidence_for t) (es @ [e]) = events_where (evidence_for t) es"
  "events_where (gate_pass_for t) (es @ [e]) = events_where (gate_pass_for t) es"
  "events_where (evaluation_pass_for t) (es @ [e]) = events_where (evaluation_pass_for t) es"
  "events_where (phase_entry_for t) (es @ [e]) = events_where (phase_entry_for t) es"
  "events_where gate_required_of (es @ [e]) = events_where gate_required_of es"
  "events_where gate_recorded (es @ [e]) = events_where gate_recorded es"
  "events_where evaluation_requirement (es @ [e]) = events_where evaluation_requirement es"
  "events_where evaluation_result (es @ [e]) = events_where evaluation_result es"
  "events_where waiver_record (es @ [e]) = events_where waiver_record es"
  "events_where as_clock (es @ [e]) = events_where as_clock es"
  "events_where as_policy (es @ [e]) = events_where as_policy es"
  "events_where (held_subject plan) (es @ [e]) = events_where (held_subject plan) es"
  "events_where completed_task (es @ [e]) = events_where completed_task es"
  "events_where unknown_task (es @ [e]) = events_where unknown_task es"
  "events_where started_task (es @ [e]) = events_where started_task es"
  "events_where as_request (es @ [e]) = events_where as_request es"
  "events_where as_phase_entry (es @ [e]) = events_where as_phase_entry es"
  "events_where as_admission (es @ [e]) = events_where as_admission es"
  "events_where as_settled (es @ [e]) = events_where as_settled es"
  "events_where as_attempt (es @ [e]) = events_where as_attempt es"
  "events_where as_execution (es @ [e]) = events_where as_execution es"
  "events_where as_limit_block (es @ [e]) = events_where as_limit_block es"
  "events_where as_effect (es @ [e]) = events_where as_effect es"
  "events_where as_settlement (es @ [e]) = events_where as_settlement es"
  "events_where action_state_of (es @ [e]) = events_where action_state_of es"
  "events_where as_task_end (es @ [e]) = events_where as_task_end es"
  by (simp_all add: quiet_event)

lemma consumed_extended: "consumedByRef (es @ [e]) r = consumedByRef es r"
  by (cases r) (simp_all add: quiet_event last_event_extend)

lemma latest_block_extended: "latest_block (es @ [e]) r = latest_block es r"
  by (simp add: latest_block_def quiet_event)

lemma limit_source_extended: "limit_source (es @ [e]) r = limit_source es r"
  by (simp add: limit_source_def quiet_event last_event_extend)

lemma limit_observation_extended:
  "es \<noteq> [] \<Longrightarrow> limit_observation plan rv (es @ [e]) r = limit_observation plan rv es r"
proof -
  assume "es \<noteq> []"
  then have hd: "hd (es @ [e]) = hd es" by simp
  have fs: "consumedByRef (es @ [e]) = consumedByRef es" "latest_block (es @ [e]) = latest_block es"
    "limit_source (es @ [e]) = limit_source es"
    by (intro ext, rule consumed_extended latest_block_extended limit_source_extended)+
  show ?thesis unfolding limit_observation_def fs hd ..
qed

subsection \<open>Controls\<close>

lemma resolve_extended: "resolvePrerequisiteEvents plan (es @ [e]) q = resolvePrerequisiteEvents plan es q"
  by (cases q) (simp_all add: quiet_event cong: option.case_cong)

lemma resolve_all_extended: "resolve_all plan (es @ [e]) qs = resolve_all plan es qs"
  by (induction qs) (simp_all add: resolve_extended cong: option.case_cong)

lemma expected_extended:
  "expectedPrerequisiteRefs plan (es @ [e]) control required = expectedPrerequisiteRefs plan es control required"
  by (simp add: expectedPrerequisiteRefs_def resolve_all_extended)

lemma requirement_valid_extended: "requirement_valid hp plan (es @ [e]) control = requirement_valid hp plan es control"
  by (rule ext) (simp add: requirement_valid_def expected_extended)

lemma control_facts_extended:
  assumes "requirement (ev_body e) = None" and "result (ev_body e) = None"
  shows "control_facts hp plan (es @ [e]) active control requirement result =
    control_facts hp plan es active control requirement result"
  unfolding control_facts_def events_where_extend [of requirement, OF assms(1)] events_where_extend [of result, OF assms(2)]
    requirement_valid_extended ..

lemma waiver_valid_extended: "waiver_valid (es @ [e]) gate rq rs = waiver_valid es gate rq rs"
  by (simp add: waiver_valid_def quiet_event cong: option.case_cong)

lemma gate_observation_extended: "gate_observation hp plan (es @ [e]) active = gate_observation hp plan es active"
proof (rule ext)
  have wv: "waiver_valid (es @ [e]) = waiver_valid es" by (intro ext) (rule waiver_valid_extended)
  show "gate_observation hp plan (es @ [e]) active x = gate_observation hp plan es active x" for x
    unfolding gate_observation_def wv by (simp add: control_facts_extended quiet_event)
qed

lemma evaluation_observation_extended:
  "evaluation_observation hp plan (es @ [e]) active = evaluation_observation hp plan es active"
  by (rule ext) (simp add: evaluation_observation_def control_facts_extended quiet_event)

lemma applicability_extended:
  "projectApplicabilityAndDueV02 hp plan (es @ [e]) active = projectApplicabilityAndDueV02 hp plan es active"
proof -
  have "list_ex (\<lambda>x. unknown_control plan (ev_body x)) (es @ [e]) = list_ex (\<lambda>x. unknown_control plan (ev_body x)) es"
    by (simp add: quiet_event)
  then show ?thesis
    unfolding projectApplicabilityAndDueV02_def gate_observation_extended evaluation_observation_extended by simp
qed

subsection \<open>Failures and actions\<close>

lemma failure_step_silent: "failure_step plan cs i s e = Inr s"
  using silent by (cases "ev_body e") simp_all

lemma policy_blocks_extended: "derivePolicyBlocks plan (es @ [e]) = derivePolicyBlocks plan es"
  by (simp add: derivePolicyBlocks_def quiet_event violates_hold_def cong: sum.case_cong)

lemma failures_extended: "deriveFailurePolicyProjectionV02 plan (es @ [e]) = deriveFailurePolicyProjectionV02 plan es"
proof -
  have same: "fold_events (failure_step plan cs) 0 s (es @ [e]) = fold_events (failure_step plan cs) 0 s es" for cs s
    by (simp add: fold_events_append failure_step_silent del: failure_step.simps split: sum.split)
  show ?thesis
    unfolding deriveFailurePolicyProjectionV02_def read_clocks_def reads_extended policy_blocks_extended same ..
qed

lemma effect_rows_extended: "effect_rows plan (es @ [e]) = effect_rows plan es"
  unfolding effect_rows_def reads_extended ..

lemma action_rows_extended: "action_rows (es @ [e]) = action_rows es"
  unfolding action_rows_def reads_extended ..

lemma unsettled_extended: "hasUnsettledActionBefore (es @ [e]) n = hasUnsettledActionBefore es n"
  unfolding hasUnsettledActionBefore_def reads_extended ..

lemma task_row_extended: "task_row_of (es @ [e]) = task_row_of es"
proof -
  have "latest_of completed_task (es @ [e]) = latest_of completed_task es"
    "latest_of unknown_task (es @ [e]) = latest_of unknown_task es"
    "latest_of started_task (es @ [e]) = latest_of started_task es"
    by (intro ext, simp only: latest_of_def reads_extended)+
  then show ?thesis by (intro ext) (simp only: task_row_of_def)
qed

lemma run_phase_extended: "run_phase_of (es @ [e]) = run_phase_of es"
  by (simp add: run_phase_of_def last_event_extend quiet_event)

lemma request_refs_extended: "latest_request_refs (es @ [e]) = latest_request_refs es"
  by (simp add: latest_request_refs_def last_event_extend quiet_event)

text \<open>A silent event changes no observation.\<close>

lemma observations_extended:
  assumes "pi_events inp \<noteq> []"
  shows "derive_observations h (extended inp e) = derive_observations h inp"
proof -
  have "(case pi_events inp @ [e] of [] \<Rightarrow> True | x # _ \<Rightarrow> is_initialized (ev_body x) = None) =
      (case pi_events inp of [] \<Rightarrow> True | x # _ \<Rightarrow> is_initialized (ev_body x) = None)"
    using assms by (cases "pi_events inp") simp_all
  moreover have "limit_observation plan rv (pi_events inp @ [e]) = limit_observation plan rv (pi_events inp)" for plan rv
    using assms by (intro ext) (rule limit_observation_extended)
  ultimately show ?thesis
    unfolding derive_observations_def Let_def extended_simps
    by (simp only: progress_extended applicability_extended failures_extended
        task_row_extended action_rows_extended effect_rows_extended run_phase_extended request_refs_extended
        events_where_extend quiet_event)
qed

lemma compensation_extended:
  "deriveCompensationProjectionV02 (observed_compensation (extended inp e) ob) =
     deriveCompensationProjectionV02 (observed_compensation inp ob)"
proof -
  have new: "observed_compensation (extended inp e) ob = (observed_compensation inp ob)\<lparr>ci_events := pi_events inp @ [e]\<rparr>"
    and old: "ci_events (observed_compensation inp ob) = pi_events inp"
    and same: "ci_plan (inp'\<lparr>ci_events := es\<rparr>) = ci_plan inp'" "ci_events (inp'\<lparr>ci_events := es\<rparr>) = es" for inp' es
    by (simp_all add: observed_compensation_def)
  show ?thesis
    unfolding deriveCompensationProjectionV02_def Let_def new request_error_events compensation_observation_events
      same reads_extended old ..
qed

end

text \<open>The terminal transitions satisfy the contract; so does every event whose body does.\<close>

interpretation freeze_entry: silent_event "\<lparr>ev_run = r, ev_seq = n, ev_hash = h, ev_body = FreezeEntered c f\<rparr>"
  for r n h c f
  by unfold_locales simp

interpretation freeze_revision: silent_event "\<lparr>ev_run = r, ev_seq = n, ev_hash = h, ev_body = FreezeRevised m c\<rparr>"
  for r n h m c
  by unfold_locales simp

interpretation seal_event: silent_event "\<lparr>ev_run = r, ev_seq = n, ev_hash = h, ev_body = Sealed s\<rparr>"
  for r n h s
  by unfold_locales simp

lemmas silent_observations = silent_event.observations_extended [OF silent_event.intro]
lemmas silent_compensation = silent_event.compensation_extended [OF silent_event.intro]
lemmas silent_unsettled = silent_event.unsettled_extended [OF silent_event.intro]
lemmas silent_request_refs = silent_event.request_refs_extended [OF silent_event.intro]

end
