(* ===== verification/Terminal_Write.thy ===== *)
theory Terminal_Write
  imports Snapshot
begin

text \<open>
  The event a freeze, a raised freeze or a seal of the evaluator appends to the ledger, and the
  reason of a refusal (\<open>freezeEvent\<close> and \<open>decisionRefusalReason\<close> of
  \<open>src/run/runtime-terminal-write-v04.ts\<close>). The write itself, with the check that the projection
  still describes the store, is in \<open>Terminal_V04\<close>.
\<close>

text \<open>The body of the event; the other decisions append nothing here.\<close>

fun freezeEvent :: "int \<Rightarrow> terminal_decision \<Rightarrow> body option" where
  "freezeEvent fence (FreezeWork c evidence _) = Some (FreezeEntered c fence)"
| "freezeEvent fence (ReviseFreeze p c n h evidence) = Some (FreezeRevised n c)"
| "freezeEvent fence (Seal c n h sh current next) =
     Some (Sealed \<lparr>sl_outcome = c, sl_fence = next, sl_previous_fence = current, sl_sequence = n, sl_head = h,
       sl_snapshot = sh\<rparr>)"
| "freezeEvent fence _ = None"

text \<open>The reason of a refusal: the continuation, or the name of the decision.\<close>

datatype refusal_reason = Continuation continuation | NotWrittenHere terminal_decision

fun decisionRefusalReason :: "terminal_decision \<Rightarrow> refusal_reason" where
  "decisionRefusalReason (Continue c) = Continuation c"
| "decisionRefusalReason d = NotWrittenHere d"

end
