(* ===== verification/Snapshot_Laws.thy ===== *)
theory Snapshot_Laws
  imports Snapshot_Frame Terminal_Write
begin

text \<open>
  Laws of the snapshot under the decisions of the evaluator: what a run does when the event a
  decision asks for is appended to its ledger. A freeze, or a raised freeze, is accepted by the
  next snapshot. A seal is accepted exactly when no fence was advanced since the first
  freeze and the ledger's head is the last event the snapshot sees.
\<close>

text \<open>The builder as one equation: observations, transitions, then the seal.\<close>

lemma snapshot_built:
  assumes "buildTerminalObservationSnapshotCoreV02 h inp facts = Inr (s, v)"
  obtains ob where "derive_observations h inp = Inr ob" "check_transitions inp ob facts = Inr v"
    "s = snapshot_of inp ob facts v"
  using assms
  by (subst (asm) buildTerminalObservationSnapshotCoreV02.simps)
    (auto simp: Let_def split: sum.splits option.splits if_splits prod.splits)

lemma build_unsealed:
  assumes "derive_observations h inp = Inr ob" and "last_event as_seal (pi_events inp) = None"
  shows "buildTerminalObservationSnapshotCoreV02 h inp facts =
    (case check_transitions inp ob facts of Inl r \<Rightarrow> Inl (Refused r) | Inr v \<Rightarrow> Inr (snapshot_of inp ob facts v, v))"
  using assms by (subst buildTerminalObservationSnapshotCoreV02.simps) (simp add: Let_def split: sum.split)

lemma observed_nonempty: "derive_observations h inp = Inr ob \<Longrightarrow> pi_events inp \<noteq> []"
  by (auto simp: derive_observations_def Let_def split: sum.splits)

subsection \<open>Transitions of an extended ledger\<close>

lemma transition_step_extended:
  assumes "silent (ev_body e)" and "i \<le> length es"
  shows "transition_step aware (es @ [e]) i s x = transition_step aware es i s x"
proof -
  have "nth_opt (es @ [e]) (i - 1) = nth_opt es (i - 1)" if "i \<noteq> 0"
    using that assms(2) by (simp add: nth_opt_conv nth_append)
  then have before: "(if i = 0 then None else nth_opt (es @ [e]) (i - 1)) = (if i = 0 then None else nth_opt es (i - 1))"
    by simp
  have rv: "request_valid (es @ [e]) = request_valid es"
    by (intro ext) (simp only: request_valid_def silent_unsettled [OF assms(1)])
  show ?thesis unfolding transition_step_def before rv ..
qed

lemma transitions_extended:
  assumes "silent (ev_body e)"
  shows "fold_events (transition_step aware (es @ [e])) 0 s (es @ [e]) =
    (case fold_events (transition_step aware es) 0 s es of
       Inl r \<Rightarrow> Inl r | Inr t \<Rightarrow> transition_step aware es (length es) t e)"
proof -
  have "fold_events (transition_step aware (es @ [e])) 0 s es = fold_events (transition_step aware es) 0 s es"
    by (rule fold_events_same) (simp add: transition_step_extended [OF assms])
  then show ?thesis
    by (simp add: fold_events_append transition_step_extended [OF assms] split: sum.split)
qed

text \<open>The ledger of accepted transitions has no request before its first freeze.\<close>

lemma no_request_without_freeze:
  assumes "fold_events (transition_step aware ls) i s es = Inr t" and "tr_freeze s = None" and "tr_request s = None"
    and "events_where as_freeze es = []"
  shows "events_where as_request es = []"
  using assms
proof (induction es arbitrary: i s)
  case (Cons e es)
  from Cons.prems(4) have none: "as_freeze (ev_body e) = None" "events_where as_freeze es = []"
    by (auto simp: events_where_def split: option.splits)
  from Cons.prems(1) obtain u where u: "transition_step aware ls i s e = Inr u"
    "fold_events (transition_step aware ls) (Suc i) u es = Inr t" by (auto split: sum.splits)
  have "tr_freeze u = None \<and> tr_request u = None \<and> as_request (ev_body e) = None"
    using u(1) none(1) Cons.prems(2,3)
    by (cases "ev_body e") (auto simp: transition_step_def request_valid_def revision_valid_def entry_valid_def
        split: if_splits option.splits prod.splits)
  with Cons.IH [OF u(2)] none(2) show ?case by (auto simp: events_where_def)
qed simp

lemma last_event_None: "last_event f es = None \<longleftrightarrow> events_where f es = []"
  by (auto simp: last_event_def last_opt_def)

lemma events_where_Cons: "events_where f (e # es) = events_where f [e] @ events_where f es"
  using events_where_append [of f "[e]" es] by simp

subsection \<open>What a decision to freeze rests on\<close>

definition freezes :: "terminal_decision \<Rightarrow> terminal_state \<Rightarrow> bool" where
  "freezes d c \<longleftrightarrow> (\<exists>ev f. d = FreezeWork c ev f) \<or> (\<exists>p n h ev. d = ReviseFreeze p c n h ev)"

lemma quiet_never_freezes: "\<not> freezes (quiet_decision hs inp captured s selected) c"
  by (auto simp: freezes_def quiet_decision_def request_decision_def escalation_step_def settlement_step_def
      seal_decision_def Let_def split: option.splits if_splits list.splits prod.splits)

lemma freeze_step_freezes:
  assumes "freeze_step s selected = Some d" and "freezes d c"
  obtains ev where "selected = Some (c, ev)"
    and "sn_freeze s = None \<and> d = FreezeWork c ev (sn_fence s) \<or>
      (\<exists>fz. sn_freeze s = Some fz \<and> fz_candidate fz < c \<and>
         d = ReviseFreeze (fz_candidate fz) c (fz_revision fz + 1) (snd (fz_event fz)) ev)"
  using assms by (cases selected; cases "sn_freeze s")
    (auto simp: freeze_step_def freezes_def state_order split: if_splits)

lemma freeze_selected:
  assumes "evaluateTerminalDecisionTableV02 hs inp captured s = d" and "freezes d c"
  obtains ev where "sn_seal s = None" "terminalCandidate (pi_plan inp) s = Some (c, ev)"
    and "sn_freeze s = None \<and> d = FreezeWork c ev (sn_fence s) \<or>
      (\<exists>fz. sn_freeze s = Some fz \<and> fz_candidate fz < c \<and>
         d = ReviseFreeze (fz_candidate fz) c (fz_revision fz + 1) (snd (fz_event fz)) ev)"
proof -
  from assms(2) have ne: "d \<noteq> AlreadySealed x" "d \<noteq> Continue y" for x y by (auto simp: freezes_def)
  from assms(1) ne have seal: "sn_seal s = None"
    by (auto simp: evaluateTerminalDecisionTableV02_def split: option.splits)
  show thesis
  proof (cases "freeze_step s (terminalCandidate (pi_plan inp) s)")
    case None
    with assms(1) ne quiet_never_freezes [of hs inp captured s "terminalCandidate (pi_plan inp) s" c] assms(2) seal
    show thesis by (auto simp: evaluateTerminalDecisionTableV02_def Let_def split: if_splits)
  next
    case (Some d')
    with assms(1) seal have "d' = d" by (simp add: evaluateTerminalDecisionTableV02_def Let_def)
    with Some have "freeze_step s (terminalCandidate (pi_plan inp) s) = Some d" by simp
    from freeze_step_freezes [OF this assms(2)] seal show thesis using that by blast
  qed
qed

text \<open>What the evaluator proves of a candidate is what the snapshot asks of a freeze.\<close>

lemma control_evidence_found:
  "control_evidence s st \<noteq> [] \<Longrightarrow>
     list_ex (\<lambda>g. ga_status g = st) (sn_gates s) \<or> list_ex (\<lambda>v. va_status v = st) (sn_evaluations s)"
  by (auto simp: control_evidence_def list_ex_iff)

lemma sorted_rows_cover:
  assumes "collect_rows f xs = Inr rows" and "x \<in> set xs"
  obtains r where "r \<in> set rows" "f x = Inr r"
proof -
  from assms have "list_all2 (\<lambda>x y. f x = Inr y) xs rows" by (simp add: collect_rows_Inr)
  then have "\<exists>r\<in>set rows. f x = Inr r" using assms(2) by (induction rule: list_all2_induct) auto
  then show thesis using that by blast
qed

lemma evaluated_ref: "evaluateObservation inp ref = Inr row \<Longrightarrow> ov_ref row = ref"
  by (auto simp: evaluateObservation_def evaluated_row_def unavailable_row_def Let_def
      split: option.splits sum.splits sample.splits if_splits prod.splits)

lemma observed_progress:
  assumes "derive_observations h inp = Inr ob"
  shows "collect_rows (evaluateObservation inp) (sort (map ob_id (rp_observations (pi_plan inp)))) = Inr (os_progress ob)"
  using assms
  by (auto simp: derive_observations_def deriveProgressV02ForRuntime_def Let_def split: sum.splits option.splits if_splits)

lemma map_of_rev_found: "map_of (rev (map (\<lambda>x. (key x, x)) xs)) k = Some y \<Longrightarrow> y \<in> set xs \<and> key y = k"
  by (drule map_of_SomeD) auto

lemma map_of_rev_exists: "x \<in> set xs \<Longrightarrow> \<exists>y. map_of (rev (map (\<lambda>x. (key x, x)) xs)) (key x) = Some y"
proof -
  assume "x \<in> set xs"
  then have "map_of (rev (map (\<lambda>x. (key x, x)) xs)) (key x) \<noteq> None" by (simp add: map_of_eq_None_iff image_image)
  then show ?thesis by simp
qed

lemma targets_reached:
  assumes ob: "derive_observations h inp = Inr ob" and ids: "distinct (map ob_id (rp_observations (pi_plan inp)))"
    and ready: "list_all (progress_complete (pi_plan inp)) (map progress_row_of (os_progress ob))"
    and d: "d \<in> set (rp_observations (pi_plan inp))" "ob_target d \<noteq> None"
  shows "\<exists>r. map_of (rev (map (\<lambda>r. (ov_ref r, r)) (os_progress ob))) (ob_id d) = Some r \<and> ov_target r"
proof -
  from sorted_rows_cover [OF observed_progress [OF ob], of "ob_id d"] d(1)
  obtain r0 where "r0 \<in> set (os_progress ob)" "ov_ref r0 = ob_id d" by (auto dest: evaluated_ref)
  with map_of_rev_exists [of r0 "os_progress ob" ov_ref]
  obtain r where r: "map_of (rev (map (\<lambda>r. (ov_ref r, r)) (os_progress ob))) (ob_id d) = Some r" by auto
  from map_of_rev_found [OF r] have row: "r \<in> set (os_progress ob)" "ov_ref r = ob_id d" by auto
  with ready have complete: "progress_complete (pi_plan inp) (progress_row_of r)" by (simp add: list_all_iff)
  from map_of_rev_exists [OF d(1), of ob_id]
  obtain d' where d': "map_of (rev (map (\<lambda>ob. (ob_id ob, ob)) (rp_observations (pi_plan inp)))) (ob_id d) = Some d'"
    by auto
  with map_of_rev_found [OF d'] d(1) ids have "d' = d" by (auto simp: distinct_map inj_on_def)
  with complete d' d(2) row(2) r show ?thesis by (simp add: progress_complete_def progress_row_of_def)
qed

lemma snapshot_fields [simp]:
  "sn_gates (snapshot_of inp ob facts v) = os_gates ob" "sn_evaluations (snapshot_of inp ob facts v) = os_evaluations ob"
  "sn_progress (snapshot_of inp ob facts v) = map progress_row_of (os_progress ob)"
  "sn_limits (snapshot_of inp ob facts v) = os_limits ob" "sn_tasks (snapshot_of inp ob facts v) = os_tasks ob"
  "sn_failures (snapshot_of inp ob facts v) = os_failures ob" "sn_blocks (snapshot_of inp ob facts v) = os_blocks ob"
  "sn_effects (snapshot_of inp ob facts v) = os_effects ob"
  "sn_abort_requested (snapshot_of inp ob facts v) = (last_event as_abort (pi_events inp) \<noteq> None)"
  "sn_fence (snapshot_of inp ob facts v) = current_fence (pi_events inp)"
  "sn_sequence (snapshot_of inp ob facts v) = pi_sequence inp" "sn_head (snapshot_of inp ob facts v) = pi_head inp"
  by (simp_all add: snapshot_of_def Let_def)

lemma progress_row_fields [simp]:
  "pr_stalled (progress_row_of r) = ov_stalled r" "pr_target_reached (progress_row_of r) = ov_target r"
  "pr_ref (progress_row_of r) = ov_ref r"
  by (simp_all add: progress_row_of_def)

lemma candidate_proven:
  assumes ob: "derive_observations h inp = Inr ob" and ids: "distinct (map ob_id (rp_observations (pi_plan inp)))"
    and present: "candidate_evidence (pi_plan inp) (snapshot_of inp ob facts v) c \<noteq> []"
    and first: "c = Completed \<Longrightarrow> active = []"
  shows "freeze_proven (pi_plan inp) active (pi_events inp) ob c"
proof (cases c)
  case Aborted
  with present show ?thesis by (simp split: if_splits)
next
  case Failed
  with present show ?thesis by (auto simp: failed_evidence_def list_ex_iff filter_empty_conv dest!: control_evidence_found)
next
  case Exhausted
  with present show ?thesis by (auto simp: list_ex_iff filter_empty_conv)
next
  case Stalled
  with present show ?thesis by (auto simp: list_ex_iff)
next
  case Held
  with present show ?thesis by (auto simp: held_evidence_def list_ex_iff filter_empty_conv dest!: control_evidence_found)
next
  case Blocked
  with present show ?thesis by (auto simp: blocked_evidence_def Let_def list_ex_iff)
next
  case Completed
  with present have ready: "completion_ready (pi_plan inp) (snapshot_of inp ob facts v)"
    by (auto simp: completionEvidence_def split: if_splits)
  have "task_completed_for (pi_plan inp) [] t" if "taskCountsAsCompleted (pi_plan inp) (snapshot_of inp ob facts v) t" for t
    using that by (auto simp: task_completed_for_def taskCountsAsCompleted_def split: option.splits if_splits)
  then have tasks: "list_all (task_completed_for (pi_plan inp) []) (os_tasks ob)"
    using ready by (auto simp: completion_ready_def list_all_iff)
  have "list_all (progress_complete (pi_plan inp)) (map progress_row_of (os_progress ob))"
    using ready by (simp add: completion_ready_def)
  note reached = targets_reached [OF ob ids this]
  have "list_all (\<lambda>d. ob_target d = None \<or>
      (case map_of (rev (map (\<lambda>r. (ov_ref r, r)) (os_progress ob))) (ob_id d) of
         None \<Rightarrow> False | Some r \<Rightarrow> ov_target r)) (rp_observations (pi_plan inp))"
    unfolding list_all_iff
  proof
    fix d assume "d \<in> set (rp_observations (pi_plan inp))"
    from reached [OF this] show "ob_target d = None \<or>
      (case map_of (rev (map (\<lambda>r. (ov_ref r, r)) (os_progress ob))) (ob_id d) of
         None \<Rightarrow> False | Some r \<Rightarrow> ov_target r)" by (cases "ob_target d = None") auto
  qed
  with tasks ready Completed first show ?thesis by (simp add: completed_proven_def completion_ready_def)
qed

subsection \<open>A freeze is accepted\<close>

lemma freeze_fence_entered:
  assumes "ev_body e = FreezeEntered c f" and "last_event as_freeze es = None"
    and "f = (case last_event as_fence es of None \<Rightarrow> 0 | Some p \<Rightarrow> snd p)"
  shows "freeze_fence_valid (es @ [e])"
proof -
  from assms(2) have none: "as_freeze (ev_body x) = None" if "x \<in> set es" for x
    using that by (cases "as_freeze (ev_body x)") (auto simp: last_event_None events_where_def split: option.splits)
  have entry: "as_freeze_entry (ev_body x) = None" if "x \<in> set es" for x
    using none [OF that] by (cases "ev_body x") auto
  then have "events_where as_freeze_entry es = []" by (auto simp: events_where_def)
  moreover have "takeWhile (\<lambda>e. as_freeze_entry (ev_body e) = None) (es @ [e]) = es"
    using entry assms(1) by (simp add: takeWhile_append2)
  ultimately show ?thesis using assms(1,3) by (simp add: freeze_fence_valid_def first_event_def)
qed

lemma freeze_fence_kept:
  assumes "as_freeze_entry (ev_body e) = None" and "freeze_fence_valid es"
  shows "freeze_fence_valid (es @ [e])"
proof -
  from assms(2) obtain x f where first: "first_event as_freeze_entry es = Some (x, f)"
    by (auto simp: freeze_fence_valid_def split: option.splits)
  then have "(x, f) \<in> set (events_where as_freeze_entry es)" by (auto simp: first_event_def nth_opt_0 split: list.splits)
  then have "x \<in> set es \<and> as_freeze_entry (ev_body x) \<noteq> None" by (auto simp: set_events_where)
  then have "takeWhile (\<lambda>e. as_freeze_entry (ev_body e) = None) (es @ [e]) =
      takeWhile (\<lambda>e. as_freeze_entry (ev_body e) = None) es" by (intro takeWhile_append1) auto
  with assms(2) show ?thesis unfolding freeze_fence_valid_def first_event_extend [of as_freeze_entry, OF assms(1)] by (simp only:)
qed

lemma transitions_accepted:
  assumes "check_transitions inp ob facts = Inr v"
  obtains t where
    "last_event as_freeze (pi_events inp) \<noteq> None \<Longrightarrow> freeze_fence_valid (pi_events inp)"
    "\<not> list_ex (activation_invalid (pi_plan inp) (os_effects ob)) (concat (map (rq_refs \<circ> snd) (events_where as_request (pi_events inp))))"
    "fold_events (transition_step (rp_attempt_aware (pi_plan inp)) (pi_events inp)) 0 transitions_start (pi_events inp) = Inr t"
    "deriveCompensationProjectionV02 (observed_compensation inp ob) = Inr v"
    "\<not> (case last_event as_phase_entry (pi_events inp) of None \<Rightarrow> False
        | Some (e, _) \<Rightarrow> hasUnsettledActionBefore (pi_events inp) (ev_seq e))"
  using assms by (auto simp: check_transitions_def Let_def split: sum.splits if_splits)

lemma frozen_proven:
  assumes "check_transitions inp ob facts = Inr v" and "last_event as_freeze (pi_events inp) = Some (x, n, c)"
  shows "freeze_proven (pi_plan inp) (active_compensation_tasks (pi_plan inp) (latest_request_refs (pi_events inp)))
      (pi_events inp) ob c \<and> freeze_fence_valid (pi_events inp)"
  using assms by (auto simp: check_transitions_def Let_def split: if_splits)

lemma transitions_extended_accepted:
  assumes old: "check_transitions inp ob facts = Inr v" and quiet: "silent (ev_body e)"
    and bytes: "bf_consumed facts' \<le> rp_control_bytes (pi_plan inp)"
    and fence: "last_event as_freeze (pi_events inp @ [e]) \<noteq> None \<Longrightarrow> freeze_fence_valid (pi_events inp @ [e])"
    and proven: "\<And>x n c. last_event as_freeze (pi_events inp @ [e]) = Some (x, n, c) \<Longrightarrow>
      freeze_proven (pi_plan inp) (active_compensation_tasks (pi_plan inp) (latest_request_refs (pi_events inp)))
        (pi_events inp @ [e]) ob c"
    and step: "\<And>t. \<exists>u. transition_step (rp_attempt_aware (pi_plan inp)) (pi_events inp) (length (pi_events inp)) t e = Inr u"
  shows "check_transitions (extended inp e) ob facts' = Inr v"
proof -
  from transitions_accepted [OF old] obtain t where t:
    "\<not> list_ex (activation_invalid (pi_plan inp) (os_effects ob)) (concat (map (rq_refs \<circ> snd) (events_where as_request (pi_events inp))))"
    "fold_events (transition_step (rp_attempt_aware (pi_plan inp)) (pi_events inp)) 0 transitions_start (pi_events inp) = Inr t"
    "deriveCompensationProjectionV02 (observed_compensation inp ob) = Inr v"
    "\<not> (case last_event as_phase_entry (pi_events inp) of None \<Rightarrow> False
        | Some (e, _) \<Rightarrow> hasUnsettledActionBefore (pi_events inp) (ev_seq e))" .
  from step [of t] obtain u where u: "fold_events (transition_step (rp_attempt_aware (pi_plan inp)) (pi_events inp @ [e]))
      0 transitions_start (pi_events inp @ [e]) = Inr u"
    using t(2) transitions_extended [OF quiet] by auto
  have reads: "events_where as_request (pi_events inp @ [e]) = events_where as_request (pi_events inp)"
    "last_event as_phase_entry (pi_events inp @ [e]) = last_event as_phase_entry (pi_events inp)"
    by (simp_all add: silent_readings [OF quiet] last_event_extend)
  have "\<not> (case last_event as_freeze (pi_events inp @ [e]) of None \<Rightarrow> False
      | Some (_, _, c) \<Rightarrow> \<not> freeze_proven (pi_plan inp)
          (active_compensation_tasks (pi_plan inp) (latest_request_refs (pi_events inp))) (pi_events inp @ [e]) ob c)"
    using proven by (auto split: option.splits)
  with fence t u bytes show ?thesis
    unfolding check_transitions_def Let_def extended_simps reads silent_request_refs [OF quiet]
      silent_unsettled [OF quiet] silent_compensation [OF quiet]
    by auto
qed

lemma silent_freezes: "freezeEvent f d = Some b \<Longrightarrow> silent b"
  by (cases d) auto

lemma freeze_body: "freezeEvent f d = Some b \<Longrightarrow> as_freeze b \<noteq> None \<Longrightarrow> \<exists>c. freezes d c"
  by (cases d) (auto simp: freezes_def)

text \<open>The candidates of a run do not change with a silent event that is no abort request.\<close>

lemma candidate_evidence_same:
  assumes "last_event as_abort (pi_events inp') = last_event as_abort (pi_events inp)"
  shows "candidate_evidence plan (snapshot_of inp' ob facts' v) c = candidate_evidence plan (snapshot_of inp ob facts v) c"
proof -
  let ?s = "snapshot_of inp ob facts v" and ?s' = "snapshot_of inp' ob facts' v"
  have fields: "sn_compensations ?s' = sn_compensations ?s" "sn_abort_event ?s' = sn_abort_event ?s"
    using assms by (simp_all add: snapshot_of_def Let_def)
  have "taskCountsAsCompleted plan ?s' = taskCountsAsCompleted plan ?s"
    by (rule ext) (simp only: taskCountsAsCompleted_def fields)
  then have "completionEvidence plan ?s' = completionEvidence plan ?s"
    by (simp add: completionEvidence_def completion_ready_def)
  with fields assms show ?thesis
    by (cases c) (simp_all add: failed_evidence_def held_evidence_def blocked_evidence_def control_evidence_def)
qed

lemma terminalCandidate_same:
  assumes "last_event as_abort (pi_events inp') = last_event as_abort (pi_events inp)"
  shows "terminalCandidate plan (snapshot_of inp' ob facts' v) = terminalCandidate plan (snapshot_of inp ob facts v)"
  by (simp only: terminalCandidate_def candidate_rows_def candidate_evidence_same [OF assms, where facts = facts])

lemma initial_fence:
  assumes "derive_observations h inp = Inr ob" and "is_initialized (ev_body (hd (pi_events inp))) = Some f"
    and "last_event as_seal (pi_events inp) = None"
  shows "current_fence (pi_events inp) = (case last_event as_fence (pi_events inp) of None \<Rightarrow> f | Some p \<Rightarrow> snd p)"
proof -
  from observed_nonempty [OF assms(1)] obtain x xs where es: "pi_events inp = x # xs" by (cases "pi_events inp") auto
  with assms(2) have "first_event is_initialized (pi_events inp) = Some (x, f)"
    by (simp add: first_event_def events_where_Cons [of _ x xs])
  with assms(3) show ?thesis by (auto simp: current_fence_def split: option.splits)
qed


subsection \<open>A seal is accepted if no fence moved\<close>

lemma before_appended_seal: "as_seal (ev_body e) \<noteq> None \<Longrightarrow> before_last_seal (es @ [e]) = es"
  by (cases "as_seal (ev_body e)") (simp_all add: before_last_seal_def)

lemma build_sealed:
  assumes "derive_observations h inp = Inr ob" and "check_transitions inp ob facts = Inr v"
    and "last_event as_seal (pi_events inp) = Some (e, s)" and "last_opt (before_last_seal (pi_events inp)) = Some z"
    and "length (before_last_seal (pi_events inp)) + 1 = length (pi_events inp)"
  shows "buildTerminalObservationSnapshotCoreV02 h inp facts =
    (if \<not> seal_outcome_valid (pi_events inp) s \<or> \<not> seal_head_valid (pi_events inp) s z then Inl (Refused SealInvalid)
     else (case buildTerminalObservationSnapshotCoreV02 h (prefix_input inp (before_last_seal (pi_events inp)) z)
                  (prefix_facts facts (length (before_last_seal (pi_events inp)))) of
             Inl r \<Rightarrow> Inl r
           | Inr (prior, _) \<Rightarrow>
               if sl_snapshot s \<noteq> preSealSnapshotHash (hash_snapshot h) prior then Inl (Refused SealInvalid)
               else Inr (snapshot_of inp ob facts v, v)))"
  by (subst buildTerminalObservationSnapshotCoreV02.simps) (simp only: Let_def assms sum.case option.case prod.case
      not_True_eq_False if_False simp_thms)

text \<open>What an input says of its events besides the head.\<close>

definition describes :: "projection_input \<Rightarrow> byte_facts \<Rightarrow> bool" where
  "describes inp facts \<longleftrightarrow>
     pi_attempts inp = int (length (events_where as_attempt (pi_events inp))) \<and>
     pi_observations inp = map fst (events_where as_observed (pi_events inp)) \<and>
     length (bf_lines facts) = length (pi_events inp) \<and> bf_consumed facts = sum_list (bf_lines facts)"

text \<open>The decision to seal, and what its event says.\<close>

lemma seal_decided:
  assumes built: "buildTerminalObservationSnapshotCoreV02 h inp facts = Inr (s, v)"
    and decided: "evaluateTerminalDecisionTableV02 hs inp (Some v) s = Seal c n hh sh f g"
  shows "last_event as_seal (pi_events inp) = None" "n = pi_sequence inp" "hh = pi_head inp"
    "f = current_fence (pi_events inp)" "sh = preSealSnapshotHash hs s"
    "\<exists>x m c0. last_event as_freeze (pi_events inp) = Some (x, m, c0) \<and>
       c = (case pending_event (pi_events inp) of Some (_, p) \<Rightarrow> p | None \<Rightarrow> c0)"
proof -
  from snapshot_built [OF built] obtain ob where s: "s = snapshot_of inp ob facts v" .
  from seal_only [OF decided] quiet_seal have seal: "sn_seal s = None" and d: "seal_decision hs s = Seal c n hh sh f g"
    by blast+
  from seal s show "last_event as_seal (pi_events inp) = None" by (simp add: snapshot_of_def Let_def)
  from d obtain fz where fz: "sn_freeze s = Some fz" "c = (case sn_pending s of Some p \<Rightarrow> p | None \<Rightarrow> fz_candidate fz)"
    "n = sn_sequence s" "hh = sn_head s" "sh = preSealSnapshotHash hs s" "f = sn_fence s"
    by (auto simp: seal_decision_Seal)
  then show "n = pi_sequence inp" "hh = pi_head inp" "f = current_fence (pi_events inp)" "sh = preSealSnapshotHash hs s"
    by (simp_all add: s)
  from fz(1,2) show "\<exists>x m c0. last_event as_freeze (pi_events inp) = Some (x, m, c0) \<and>
       c = (case pending_event (pi_events inp) of Some (_, p) \<Rightarrow> p | None \<Rightarrow> c0)"
    by (auto simp: s snapshot_of_def Let_def split: option.splits)
qed

lemma freeze_proven_abort:
  "last_event as_abort es' = last_event as_abort es \<Longrightarrow> freeze_proven plan active es' ob c = freeze_proven plan active es ob c"
  by (cases c) simp_all

text \<open>The snapshot of the ledger with the seal, up to the snapshot of the prefix it is checked against.\<close>

lemma sealed_build:
  assumes built: "buildTerminalObservationSnapshotCoreV02 h inp facts = Inr (s, v)"
    and decided: "evaluateTerminalDecisionTableV02 (hash_snapshot h) inp (Some v) s = Seal c n hh sh f g"
    and written: "freezeEvent fence (Seal c n hh sh f g) = Some (ev_body e)"
    and bytes: "bf_consumed facts' \<le> rp_control_bytes (pi_plan inp)"
  obtains ob z y f0 where "derive_observations h inp = Inr ob" "check_transitions inp ob facts = Inr v"
    "last_opt (pi_events inp) = Some z" "first_event as_freeze_entry (pi_events inp) = Some (y, f0)"
    "s = snapshot_of inp ob facts v"
    "buildTerminalObservationSnapshotCoreV02 h (extended inp e) facts' =
    (if \<not> (n = ev_seq z \<and> hh = ev_hash z \<and> f = f0) then Inl (Refused SealInvalid)
     else (case buildTerminalObservationSnapshotCoreV02 h (prefix_input (extended inp e) (pi_events inp) z)
                  (prefix_facts facts' (length (pi_events inp))) of
             Inl r \<Rightarrow> Inl r
           | Inr (prior, _) \<Rightarrow>
               if sh \<noteq> preSealSnapshotHash (hash_snapshot h) prior then Inl (Refused SealInvalid)
               else Inr (snapshot_of (extended inp e) ob facts' v, v)))"
proof -
  let ?es = "pi_events inp" and ?seal = "\<lparr>sl_outcome = c, sl_fence = g, sl_previous_fence = f, sl_sequence = n,
    sl_head = hh, sl_snapshot = sh\<rparr>"
  from snapshot_built [OF built] obtain ob where ob: "derive_observations h inp = Inr ob"
    and checked: "check_transitions inp ob facts = Inr v" and s: "s = snapshot_of inp ob facts v" .
  from written have body: "ev_body e = Sealed ?seal" by simp
  then have quiet: "silent (ev_body e)" and seal: "as_seal (ev_body e) = Some ?seal" by simp_all
  note d = seal_decided [OF built decided]
  from d(6) obtain x m c0 where frozen: "last_event as_freeze ?es = Some (x, m, c0)"
    and outcome: "c = (case pending_event ?es of Some (_, p) \<Rightarrow> p | None \<Rightarrow> c0)" by blast
  from frozen_proven [OF checked frozen]
  have proven: "freeze_proven (pi_plan inp) (active_compensation_tasks (pi_plan inp) (latest_request_refs ?es)) ?es ob c0"
    and valid: "freeze_fence_valid ?es" by simp_all
  from valid obtain y f0 where entry: "first_event as_freeze_entry ?es = Some (y, f0)"
    by (auto simp: freeze_fence_valid_def split: option.splits)
  have same: "last_event as_freeze (?es @ [e]) = last_event as_freeze ?es"
    "last_event as_abort (?es @ [e]) = last_event as_abort ?es"
    "pending_event (?es @ [e]) = pending_event ?es"
    "first_event as_freeze_entry (?es @ [e]) = first_event as_freeze_entry ?es"
    by (simp_all add: last_event_extend first_event_extend pending_event_def body cong: option.case_cong)
  have "freeze_fence_valid (?es @ [e])" by (rule freeze_fence_kept) (simp_all add: body valid)
  then have checked': "check_transitions (extended inp e) ob facts' = Inr v"
    by (intro transitions_extended_accepted [OF checked quiet bytes])
      (use proven in \<open>auto simp: same frozen freeze_proven_abort [OF same(2)] transition_step_def body\<close>)
  have ob': "derive_observations h (extended inp e) = Inr ob"
    using silent_observations [OF quiet observed_nonempty [OF ob]] ob by simp
  obtain z where z: "last_opt ?es = Some z" using observed_nonempty [OF ob] by (auto simp: last_opt_def)
  have outcome_valid: "seal_outcome_valid (?es @ [e]) ?seal"
    using frozen outcome by (simp add: seal_outcome_valid_def same split: option.splits)
  have head_valid: "seal_head_valid (?es @ [e]) ?seal z \<longleftrightarrow> n = ev_seq z \<and> hh = ev_hash z \<and> f = f0"
    by (simp add: seal_head_valid_def same entry)
  have last: "last_event as_seal (?es @ [e]) = Some (e, ?seal)" by (rule last_event_hit [of as_seal, OF seal])
  have before: "before_last_seal (?es @ [e]) = ?es" by (rule before_appended_seal) (simp add: seal)
  have build: "buildTerminalObservationSnapshotCoreV02 h (extended inp e) facts' =
    (if \<not> (n = ev_seq z \<and> hh = ev_hash z \<and> f = f0) then Inl (Refused SealInvalid)
     else (case buildTerminalObservationSnapshotCoreV02 h (prefix_input (extended inp e) ?es z)
                  (prefix_facts facts' (length ?es)) of
             Inl r \<Rightarrow> Inl r
           | Inr (prior, _) \<Rightarrow>
               if sl_snapshot ?seal \<noteq> preSealSnapshotHash (hash_snapshot h) prior then Inl (Refused SealInvalid)
               else Inr (snapshot_of (extended inp e) ob facts' v, v)))"
    using build_sealed [OF ob' checked', of e ?seal z] last before z outcome_valid head_valid by simp
  from build have "buildTerminalObservationSnapshotCoreV02 h (extended inp e) facts' =
    (if \<not> (n = ev_seq z \<and> hh = ev_hash z \<and> f = f0) then Inl (Refused SealInvalid)
     else (case buildTerminalObservationSnapshotCoreV02 h (prefix_input (extended inp e) ?es z)
                  (prefix_facts facts' (length ?es)) of
             Inl r \<Rightarrow> Inl r
           | Inr (prior, _) \<Rightarrow>
               if sh \<noteq> preSealSnapshotHash (hash_snapshot h) prior then Inl (Refused SealInvalid)
               else Inr (snapshot_of (extended inp e) ob facts' v, v)))"
    unfolding seal_fact.simps .
  from that [OF ob checked z entry s this] show thesis .
qed

text \<open>
  C17: the seal the evaluator asks for is accepted by the snapshot of the sealed ledger exactly when
  the fence is still the one of the first freeze and the head the seal names is the last event
  the snapshot sees; otherwise the sealed run is refused.
\<close>

theorem seal_accepted_iff:
  assumes built: "buildTerminalObservationSnapshotCoreV02 h inp facts = Inr (s, v)"
    and decided: "evaluateTerminalDecisionTableV02 (hash_snapshot h) inp (Some v) s = Seal c n hh sh f g"
    and written: "freezeEvent fence (Seal c n hh sh f g) = Some (ev_body e)"
    and input: "describes inp facts"
    and lines: "bf_lines facts' = bf_lines facts @ [k]" and bytes: "bf_consumed facts' \<le> rp_control_bytes (pi_plan inp)"
  shows "(\<exists>r. buildTerminalObservationSnapshotCoreV02 h (extended inp e) facts' = Inr r) \<longleftrightarrow>
    map_option snd (first_event as_freeze_entry (pi_events inp)) = Some (sn_fence s) \<and>
    map_option eventRef (last_opt (pi_events inp)) = Some (pi_sequence inp, pi_head inp)"
proof -
  let ?es = "pi_events inp"
  note d = seal_decided [OF built decided]
  from sealed_build [OF built decided written bytes] obtain ob z y f0 where z: "last_opt ?es = Some z"
    and entry: "first_event as_freeze_entry ?es = Some (y, f0)" and s: "s = snapshot_of inp ob facts v"
    and build: "buildTerminalObservationSnapshotCoreV02 h (extended inp e) facts' =
    (if \<not> (n = ev_seq z \<and> hh = ev_hash z \<and> f = f0) then Inl (Refused SealInvalid)
     else (case buildTerminalObservationSnapshotCoreV02 h (prefix_input (extended inp e) ?es z)
                  (prefix_facts facts' (length ?es)) of
             Inl r \<Rightarrow> Inl r
           | Inr (prior, _) \<Rightarrow>
               if sh \<noteq> preSealSnapshotHash (hash_snapshot h) prior then Inl (Refused SealInvalid)
               else Inr (snapshot_of (extended inp e) ob facts' v, v)))" .
  have result: "buildTerminalObservationSnapshotCoreV02 h (extended inp e) facts' =
    (if n = ev_seq z \<and> hh = ev_hash z \<and> f = f0 then Inr (snapshot_of (extended inp e) ob facts' v, v)
     else Inl (Refused SealInvalid))"
  proof (cases "n = ev_seq z \<and> hh = ev_hash z \<and> f = f0")
    case True
    with d input have "prefix_input (extended inp e) ?es z = inp"
      by (simp add: prefix_input_def extended_def describes_def)
    moreover have "prefix_facts facts' (length ?es) = facts"
      using input lines by (simp add: prefix_facts_def describes_def)
    ultimately show ?thesis using True built d(5) build by simp
  next
    case False
    with build show ?thesis by simp
  qed
  show ?thesis unfolding result using d z entry by (auto simp: s eventRef_def)
qed

end
