(* ===== verification/Terminal_V04.thy ===== *)
theory Terminal_V04
  imports Snapshot_Laws
begin

text \<open>
  The terminal projection of a run of version 0.4 (\<open>src/run/runtime-terminal-v04.ts\<close>): the events
  of its ledger are turned into events of version 0.2 (fields are stripped, events that the
  older schema does not know are dropped), and the snapshot of version 0.2 is built from them
  with the byte counts of the whole ledger. The admission of the captured records between the
  two and the checks of brands and source shapes are not modelled. Then the terminal write
  (\<open>src/run/runtime-terminal-write-v04.ts\<close>), up to the event it appends: the check of the projection
  against the ledger of the store, of the clock observation, and the decision. The session of the
  file store, the inspection of the ledger with the new event and the commit are not modelled.
\<close>

datatype clock_reason_v04 =
    CarriedClock clock_reason
  | RecoveryRequestClock | PauseRequestClock | RunOwnerAcquisition
  | OwnerAcquisition | OwnerHeartbeat | OwnerRelease | StaleOwnerCheck

record clock_fact_v04 =
  c4_elapsed :: int
  c4_reason :: clock_reason_v04
  c4_task :: "string option"
  c4_ordinal :: "int option"
  c4_use :: "string option"
  c4_attempt :: "event_ref option"
  c4_owner :: "event_ref option"
  c4_boot :: "string option"
  c4_clock :: "string option"

datatype fence_reason_v04 = PauseRequestFence | AuthorityRevokedFence | AbortRequestFence | LeaseRevokedFence

text \<open>The bindings that leases and admissions carry, and the counters that executions carry, since version 0.4.\<close>

record binding_v04 =
  bn_attempt :: event_ref
  bn_owner_lease :: string
  bn_operation_key :: string
  bn_input_hash :: string
  bn_recovery_policy :: string
  bn_process_ceiling :: int

record counters_v04 =
  ct_attempt :: event_ref
  ct_process_ms :: int
  ct_loop_attempts :: int
  ct_executions :: int
  ct_workers :: int

datatype limit_ref_v04 = CarriedLimit limit_ref | MaxProcessRuntime | MaxWorkers

record violation_v04 =
  v4_limit :: limit_ref_v04
  v4_consumed :: int
  v4_requested :: int
  v4_ceiling :: int

datatype outcome_source = AdapterSource | IntegritySource

text \<open>
  The events of version 0.4, by what the projection does with them. Most types are those of
  version 0.2 with the version changed; \<open>RuntimeV04\<close> stands for the types only version 0.4 has.
\<close>

datatype body_v04 =
    InitializedV04 int
  | ClockV04 clock_fact_v04
  | LeaseV04 string run_phase binding_v04
  | AdmittedV04 action_admission binding_v04
  | CompletedV04 action_fact usage counters_v04
  | FailedV04 action_fact usage failure_fact counters_v04
  | ReconciledV04 action_fact
  | ProvenNonStartV04 action_fact
  | EffectV04 effect_fact outcome_source "event_ref option"
  | FenceV04 int int fence_reason_v04
  | LimitBlockedV04 bool "violation_v04 list"   \<comment> \<open>whether the request starts a process\<close>
  | CarriedV04 body
  | RuntimeV04 string

record event_v04 =
  e4_run :: string
  e4_seq :: int
  e4_hash :: string
  e4_body :: body_v04

subsection \<open>The projection of an event\<close>

fun carried_clock :: "clock_reason_v04 \<Rightarrow> clock_reason option" where
  "carried_clock (CarriedClock r) = Some r"
| "carried_clock _ = None"

fun carried_limit :: "limit_ref_v04 \<Rightarrow> limit_ref option" where
  "carried_limit (CarriedLimit r) = Some r"
| "carried_limit _ = None"

definition carried_violation :: "violation_v04 \<Rightarrow> violation_fact option" where
  "carried_violation v =
     map_option (\<lambda>r. \<lparr>vi_limit = r, vi_consumed = v4_consumed v, vi_requested = v4_requested v,
         vi_ceiling = v4_ceiling v\<rparr>) (carried_limit (v4_limit v))"

text \<open>The older schema admits an effect that did not commit only from the adapter.\<close>

definition effect_source_known :: "effect_state \<Rightarrow> outcome_source \<Rightarrow> bool" where
  "effect_source_known st src \<longleftrightarrow> src = (if st = Unknown then IntegritySource else AdapterSource)"

fun project_body :: "body_v04 \<Rightarrow> body option" where
  "project_body (InitializedV04 f) = Some (Initialized f)"
| "project_body (ClockV04 c) =
     map_option (\<lambda>r. ClockObserved \<lparr>ck_elapsed = c4_elapsed c, ck_reason = r, ck_task = c4_task c,
         ck_ordinal = c4_ordinal c, ck_use = c4_use c\<rparr>) (carried_clock (c4_reason c))"
| "project_body (LeaseV04 t ph _) = Some (LeaseIssued t ph)"
| "project_body (AdmittedV04 a _) = Some (ActionAdmitted a)"
| "project_body (CompletedV04 a u _) = Some (ExecutionCompleted a u)"
| "project_body (FailedV04 a u f _) = Some (ExecutionFailed a u f)"
| "project_body (ReconciledV04 a) = Some (OutcomeReconciled a)"
| "project_body (ProvenNonStartV04 a) = None"
| "project_body (EffectV04 f src _) =
     (if effect_source_known (eo_outcome f) src then Some (EffectOutcome f) else None)"
| "project_body (FenceV04 _ f reason) =
     Some (FenceAdvanced f (reason \<noteq> AuthorityRevokedFence \<and> reason \<noteq> LeaseRevokedFence))"
| "project_body (LimitBlockedV04 starts vs) =
     (if starts then None else map_option LimitBlocked (map_all carried_violation vs))"
| "project_body (CarriedV04 b) = Some b"
| "project_body (RuntimeV04 _) = None"

definition projectTerminalEventToV02 :: "event_v04 \<Rightarrow> event_v02 option" where
  "projectTerminalEventToV02 e =
     map_option (\<lambda>b. \<lparr>ev_run = e4_run e, ev_seq = e4_seq e, ev_hash = e4_hash e, ev_body = b\<rparr>)
       (project_body (e4_body e))"

definition v02Events :: "event_v04 list \<Rightarrow> event_v02 list" where
  "v02Events es = concat (map (\<lambda>e. case projectTerminalEventToV02 e of None \<Rightarrow> [] | Some p \<Rightarrow> [p]) es)"

subsection \<open>The projection of a ledger\<close>

record ledger_v04 =
  l4_run :: string
  l4_plan_hash :: string
  l4_sequence :: int
  l4_head :: string
  l4_fence :: int                        \<comment> \<open>of the reduced state\<close>
  l4_events :: "event_v04 list"
  l4_bytes :: int
  l4_lines :: "int list"

fun is_loop_attempt :: "body_v04 \<Rightarrow> bool" where
  "is_loop_attempt (CarriedV04 LoopAttemptCompleted) = True"
| "is_loop_attempt _ = False"

definition projection_v04 :: "run_plan \<Rightarrow> ledger_v04 \<Rightarrow> projection_input" where
  "projection_v04 plan ledger =
     (let events = v02Events (l4_events ledger) in
      \<lparr>pi_plan = plan, pi_run = l4_run ledger, pi_plan_hash = l4_plan_hash ledger,
       pi_sequence = l4_sequence ledger, pi_head = l4_head ledger,
       pi_attempts = int (length (filter (is_loop_attempt \<circ> e4_body) (l4_events ledger))),
       pi_observations = map fst (events_where as_observed events), pi_events = events\<rparr>)"

definition facts_v04 :: "ledger_v04 \<Rightarrow> byte_facts" where
  "facts_v04 ledger = \<lparr>bf_consumed = l4_bytes ledger, bf_lines = l4_lines ledger\<rparr>"

definition buildRuntimeTerminalProjectionV04 ::
  "hashing \<Rightarrow> run_plan \<Rightarrow> ledger_v04 \<Rightarrow> snapshot_error + snapshot \<times> compensation_value" where
  "buildRuntimeTerminalProjectionV04 h plan ledger =
     buildTerminalObservationSnapshotCoreV02 h (projection_v04 plan ledger) (facts_v04 ledger)"

text \<open>
  A ledger as it is inspected: its sequence and head are those of its last event, its byte
  count is the sum of its lines, one line per event.
\<close>

definition inspected_ledger :: "ledger_v04 \<Rightarrow> bool" where
  "inspected_ledger ledger \<longleftrightarrow>
     (case last_opt (l4_events ledger) of
        None \<Rightarrow> False
      | Some e \<Rightarrow> l4_sequence ledger = e4_seq e \<and> l4_head ledger = e4_hash e) \<and>
     length (l4_lines ledger) = length (l4_events ledger) \<and> list_all (\<lambda>n. 0 < n) (l4_lines ledger) \<and>
     l4_bytes ledger = sum_list (l4_lines ledger)"

definition appended_v04 :: "ledger_v04 \<Rightarrow> event_v04 \<Rightarrow> int \<Rightarrow> int \<Rightarrow> ledger_v04" where
  "appended_v04 ledger e line fence =
     ledger\<lparr>l4_sequence := e4_seq e, l4_head := e4_hash e, l4_fence := fence, l4_events := l4_events ledger @ [e],
            l4_bytes := l4_bytes ledger + line, l4_lines := l4_lines ledger @ [line]\<rparr>"

subsection \<open>The terminal write\<close>

text \<open>The part of the inspected store the write reads: the plan's run and hash, and the ledger.\<close>

record inspected_store =
  st_plan :: "string \<times> string"
  st_ledger :: ledger_v04

fun freeze_of :: "body_v04 \<Rightarrow> (int \<times> terminal_state) option" where
  "freeze_of (CarriedV04 b) = as_freeze b"
| "freeze_of _ = None"

fun seal_of :: "body_v04 \<Rightarrow> seal_fact option" where
  "seal_of (CarriedV04 b) = as_seal b"
| "seal_of _ = None"

fun elapsed_of :: "body_v04 \<Rightarrow> int option" where
  "elapsed_of (ClockV04 c) = Some (c4_elapsed c)"
| "elapsed_of _ = None"

definition ref_v04 :: "event_v04 \<Rightarrow> event_ref" where
  "ref_v04 e = (e4_seq e, e4_hash e)"

text \<open>The events with what a reading makes of them, in order.\<close>

definition events_v04 :: "(body_v04 \<Rightarrow> 'a option) \<Rightarrow> event_v04 list \<Rightarrow> (event_v04 \<times> 'a) list" where
  "events_v04 f es = concat (map (\<lambda>e. case f (e4_body e) of None \<Rightarrow> [] | Some p \<Rightarrow> [(e, p)]) es)"

definition latestFreeze :: "ledger_v04 \<Rightarrow> (event_v04 \<times> int \<times> terminal_state) option" where
  "latestFreeze ledger = last_opt (events_v04 freeze_of (l4_events ledger))"

definition maximumObservedElapsed :: "ledger_v04 \<Rightarrow> int" where
  "maximumObservedElapsed ledger = foldl (\<lambda>m p. max m (snd p)) 0 (events_v04 elapsed_of (l4_events ledger))"

text \<open>The seal of a store is its last event; the projection keeps what it says.\<close>

definition actual_seal :: "ledger_v04 \<Rightarrow> (event_ref \<times> seal_fact) option" where
  "actual_seal ledger =
     (case last_opt (l4_events ledger) of
        None \<Rightarrow> None
      | Some e \<Rightarrow> map_option (\<lambda>s. (ref_v04 e, s)) (seal_of (e4_body e)))"

definition seal_matches :: "event_ref \<times> seal_fact \<Rightarrow> event_ref \<times> seal_fact \<Rightarrow> bool" where
  "seal_matches p a \<longleftrightarrow>
     fst p = fst a \<and> sl_outcome (snd p) = sl_outcome (snd a) \<and> sl_fence (snd p) = sl_fence (snd a) \<and>
     sl_sequence (snd p) = sl_sequence (snd a) \<and> sl_head (snd p) = sl_head (snd a) \<and>
     sl_snapshot (snd p) = sl_snapshot (snd a)"

definition freeze_matches :: "freeze_row \<Rightarrow> event_v04 \<times> int \<times> terminal_state \<Rightarrow> bool" where
  "freeze_matches p a \<longleftrightarrow>
     fz_event p = ref_v04 (fst a) \<and> fz_revision p = fst (snd a) \<and> fz_candidate p = snd (snd a)"

definition projectionMatchesStore :: "snapshot \<Rightarrow> inspected_store \<Rightarrow> bool" where
  "projectionMatchesStore p st \<longleftrightarrow>
     (let ledger = st_ledger st in
      sn_run p = fst (st_plan st) \<and> sn_run p = l4_run ledger \<and>
      sn_plan_hash p = snd (st_plan st) \<and> sn_plan_hash p = l4_plan_hash ledger \<and>
      sn_sequence p = l4_sequence ledger \<and> sn_head p = l4_head ledger \<and> sn_fence p = l4_fence ledger \<and>
      (case (latestFreeze ledger, sn_freeze p) of
         (None, None) \<Rightarrow> True | (Some a, Some f) \<Rightarrow> freeze_matches f a | _ \<Rightarrow> False) \<and>
      (case (actual_seal ledger, sn_seal p) of
         (None, None) \<Rightarrow> True | (Some a, Some s) \<Rightarrow> seal_matches s a | _ \<Rightarrow> False))"

text \<open>
  The result of a write, up to the event it commits. An observation of the clock is its elapsed
  time and whether its instant is not before the one the last event was recorded at.
\<close>

datatype write_result =
    PrefixInvalid
  | InputInvalid
  | WriteRefused refusal_reason
  | AlreadyWritten "event_ref \<times> seal_fact"
  | Writes body

definition writeRuntimeTerminalV04 :: "terminal_decision \<Rightarrow> snapshot \<Rightarrow> inspected_store \<Rightarrow> int \<times> bool \<Rightarrow> write_result" where
  "writeRuntimeTerminalV04 decision projection st observation =
     (if \<not> projectionMatchesStore projection st then PrefixInvalid
      else (case decision of
              AlreadySealed sealed \<Rightarrow>
                (case actual_seal (st_ledger st) of
                   None \<Rightarrow> PrefixInvalid
                 | Some a \<Rightarrow> AlreadyWritten (fst a, snd sealed))
            | _ \<Rightarrow>
                if fst observation < maximumObservedElapsed (st_ledger st) \<or> \<not> snd observation then InputInvalid
                else (case freezeEvent (l4_fence (st_ledger st)) decision of
                        None \<Rightarrow> WriteRefused (decisionRefusalReason decision)
                      | Some b \<Rightarrow> Writes b)))"

end
