(* ===== verification/Decision_Examples.thy ===== *)
theory Decision_Examples
  imports Snapshot_Laws
begin

text \<open>
  A small run for the laws of the terminal decisions: a plan of one task and one observation,
  a ledger whose observation stalls, its freeze and its seal, and the same run with a fence
  advanced between them.
\<close>

definition demo_limits :: limit_policy_v02 where
  "demo_limits = \<lparr>lm_loop_attempts = 5, lm_elapsed_ms = 1000, lm_tool_calls = 10, lm_output_bytes = 1000,
     lm_control_reserve = 100, lm_tokens = None, lm_cost = None\<rparr>"

definition demo_plan :: run_plan where
  "demo_plan = \<lparr>rp_tasks = [\<lparr>tk_id = ''build'', tk_depends_on = [], tk_kind = WorkTask\<rparr>], rp_gates = [],
     rp_evaluations = [], rp_requirements = [],
     rp_observations = [\<lparr>ob_id = ''green'', ob_type = TruthType, ob_improves = EqualsTarget (TruthValue True),
       ob_target = Some (EqualTo, TruthValue True)\<rparr>],
     rp_stall_after = 2, rp_limits = demo_limits, rp_rules = [],
     rp_reserve = \<lparr>rs_elapsed = 0, rs_tools = 0, rs_output = 0, rs_token = None, rs_cost = None\<rparr>,
     rp_side_effects = [], rp_compensations = [], rp_control_bytes = 100, rp_attempt_aware = True\<rparr>"

definition demo_event :: "int \<Rightarrow> body \<Rightarrow> event_v02" where
  "demo_event n b = \<lparr>ev_run = ''run'', ev_seq = n, ev_hash = replicate (nat n) (CHR ''h''), ev_body = b\<rparr>"

definition red :: body where
  "red = ProgressObserved ''green'' 1 (Parseable (TruthValue False))"

definition demo_events :: "body list \<Rightarrow> event_v02 list" where
  "demo_events bs = map (\<lambda>(i, b). demo_event (int i + 1) b) (enumerate 0 bs)"

definition demo_input :: "body list \<Rightarrow> projection_input" where
  "demo_input bs =
     (let es = demo_events bs in
      \<lparr>pi_plan = demo_plan, pi_run = ''run'', pi_plan_hash = ''plan'', pi_sequence = int (length es),
       pi_head = ev_hash (last es), pi_attempts = int (length (events_where as_attempt es)),
       pi_observations = map fst (events_where as_observed es), pi_events = es\<rparr>)"

definition demo_facts :: "nat \<Rightarrow> byte_facts" where
  "demo_facts n = \<lparr>bf_consumed = int n, bf_lines = replicate n 1\<rparr>"

definition demo_hashing :: hashing where
  "demo_hashing = \<lparr>hash_prerequisites = \<lambda>ps. ''set'', hash_snapshot = \<lambda>s. ''snapshot'' @ sn_head s\<rparr>"

definition stalled_run :: "body list" where
  "stalled_run = [Initialized 0, LoopAttemptCompleted, red, red, red]"

definition frozen_run :: "body list" where
  "frozen_run = stalled_run @ [FreezeEntered Stalled 0]"

definition fenced_run :: "body list" where
  "fenced_run = frozen_run @ [FenceAdvanced 1 True]"

definition built_of :: "body list \<Rightarrow> snapshot \<times> compensation_value" where
  "built_of bs = (case buildTerminalObservationSnapshotCoreV02 demo_hashing (demo_input bs) (demo_facts (length bs)) of
     Inr r \<Rightarrow> r | Inl _ \<Rightarrow> undefined)"

definition decided_of :: "body list \<Rightarrow> terminal_decision" where
  "decided_of bs = evaluateTerminalDecisionTableV02 (hash_snapshot demo_hashing) (demo_input bs)
     (Some (snd (built_of bs))) (fst (built_of bs))"

lemma built_ok:
  "bs \<in> {stalled_run, frozen_run, fenced_run} \<Longrightarrow>
     buildTerminalObservationSnapshotCoreV02 demo_hashing (demo_input bs) (demo_facts (length bs)) = Inr (built_of bs)"
proof -
  have ok: "case buildTerminalObservationSnapshotCoreV02 demo_hashing (demo_input stalled_run) (demo_facts (length stalled_run)) of
      Inr _ \<Rightarrow> True | Inl _ \<Rightarrow> False"
    "case buildTerminalObservationSnapshotCoreV02 demo_hashing (demo_input frozen_run) (demo_facts (length frozen_run)) of
      Inr _ \<Rightarrow> True | Inl _ \<Rightarrow> False"
    "case buildTerminalObservationSnapshotCoreV02 demo_hashing (demo_input fenced_run) (demo_facts (length fenced_run)) of
      Inr _ \<Rightarrow> True | Inl _ \<Rightarrow> False"
    by code_simp+
  assume "bs \<in> {stalled_run, frozen_run, fenced_run}"
  with ok show ?thesis by (auto simp: built_of_def split: sum.splits)
qed

lemma built_pair: "built_of bs = (fst (built_of bs), snd (built_of bs))"
  by simp

lemma stalled_decision: "decided_of stalled_run = FreezeWork Stalled [(3, ''hhh''), (5, ''hhhhh'')] 0"
  by code_simp

lemma frozen_decision: "decided_of frozen_run = Seal Stalled 6 ''hhhhhh'' ''snapshothhhhhh'' 0 1"
  by code_simp

lemma fenced_decision: "decided_of fenced_run = Seal Stalled 7 ''hhhhhhh'' ''snapshothhhhhhh'' 1 2"
  by code_simp

text \<open>The stall flag of the run: three samples, two after the baseline without news.\<close>

lemma stalled_iff_no_news_witness:
  "\<exists>k. quiet_for (hd (rp_observations demo_plan)) (map snd (eligible_samples (demo_input stalled_run) ''green'')) k \<and>
     2 \<le> int k"
proof -
  have "case evaluateObservation (demo_input stalled_run) ''green'' of Inr row \<Rightarrow> ov_stalled row | Inl _ \<Rightarrow> False"
    by code_simp
  then obtain row where row: "evaluateObservation (demo_input stalled_run) ''green'' = Inr row" "ov_stalled row"
    by (auto split: sum.splits)
  have plan: "pi_plan (demo_input stalled_run) = demo_plan" by (simp add: demo_input_def Let_def)
  show ?thesis
    using stalled_iff_no_news [OF row(1), of "hd (rp_observations demo_plan)"] row(2)
    by (simp add: plan) (simp add: demo_plan_def)
qed


text \<open>
  The frozen run is sealed and accepted; with a fence advanced after the freeze, the same
  decision is written and the sealed run refused.
\<close>

lemma seal_accepted_iff_witness:
  "(\<exists>r. buildTerminalObservationSnapshotCoreV02 demo_hashing (extended (demo_input frozen_run)
       (demo_event 7 (the (freezeEvent 0 (decided_of frozen_run))))) (demo_facts 7) = Inr r) \<and>
   \<not> (\<exists>r. buildTerminalObservationSnapshotCoreV02 demo_hashing (extended (demo_input fenced_run)
       (demo_event 8 (the (freezeEvent 1 (decided_of fenced_run))))) (demo_facts 8) = Inr r)"
proof
  have body: "ev_body (demo_event n b) = b" for n b by (simp add: demo_event_def)
  let ?s = "\<lambda>bs. fst (built_of bs)" and ?v = "\<lambda>bs. snd (built_of bs)"
  have frozen: "describes (demo_input frozen_run) (demo_facts (length frozen_run))"
    "bf_lines (demo_facts 7) = bf_lines (demo_facts (length frozen_run)) @ [1]"
    "bf_consumed (demo_facts 7) \<le> rp_control_bytes (pi_plan (demo_input frozen_run))"
    "map_option snd (first_event as_freeze_entry (pi_events (demo_input frozen_run))) = Some (sn_fence (?s frozen_run))"
    "map_option eventRef (last_opt (pi_events (demo_input frozen_run))) =
       Some (pi_sequence (demo_input frozen_run), pi_head (demo_input frozen_run))"
    by code_simp+
  have "buildTerminalObservationSnapshotCoreV02 demo_hashing (demo_input frozen_run) (demo_facts (length frozen_run)) =
      Inr (?s frozen_run, ?v frozen_run)" using built_ok [of frozen_run] by simp
  from seal_accepted_iff [OF this frozen_decision [unfolded decided_of_def] _ frozen(1,2,3)] frozen(4,5)
  show "\<exists>r. buildTerminalObservationSnapshotCoreV02 demo_hashing (extended (demo_input frozen_run)
       (demo_event 7 (the (freezeEvent 0 (decided_of frozen_run))))) (demo_facts 7) = Inr r"
    by (simp add: body frozen_decision)
next
  have body: "ev_body (demo_event n b) = b" for n b by (simp add: demo_event_def)
  let ?s = "\<lambda>bs. fst (built_of bs)" and ?v = "\<lambda>bs. snd (built_of bs)"
  have fenced: "describes (demo_input fenced_run) (demo_facts (length fenced_run))"
    "bf_lines (demo_facts 8) = bf_lines (demo_facts (length fenced_run)) @ [1]"
    "bf_consumed (demo_facts 8) \<le> rp_control_bytes (pi_plan (demo_input fenced_run))"
    "map_option snd (first_event as_freeze_entry (pi_events (demo_input fenced_run))) \<noteq> Some (sn_fence (?s fenced_run))"
    by code_simp+
  have "buildTerminalObservationSnapshotCoreV02 demo_hashing (demo_input fenced_run) (demo_facts (length fenced_run)) =
      Inr (?s fenced_run, ?v fenced_run)" using built_ok [of fenced_run] by simp
  from seal_accepted_iff [OF this fenced_decision [unfolded decided_of_def] _ fenced(1,2,3)] fenced(4)
  show "\<not> (\<exists>r. buildTerminalObservationSnapshotCoreV02 demo_hashing (extended (demo_input fenced_run)
       (demo_event 8 (the (freezeEvent 1 (decided_of fenced_run))))) (demo_facts 8) = Inr r)"
    by (simp add: body fenced_decision)
qed

text \<open>What the decision to seal the frozen run says of it.\<close>

lemma seal_is_safe_witness:
  "sn_workers (fst (built_of frozen_run)) = 0 \<and>
   (\<exists>fz. sn_freeze (fst (built_of frozen_run)) = Some fz \<and> (1::int) = sn_fence (fst (built_of frozen_run)) + 1)"
  using seal_is_safe [OF frozen_decision [unfolded decided_of_def]] by blast

end
