(* ===== verification/Terminal_V04_Laws.thy ===== *)
theory Terminal_V04_Laws
  imports Terminal_V04 Decision_Examples
begin

text \<open>
  What the terminal projection of version 0.4 does to a sealed run. The snapshot before the
  seal counts the bytes of the whole ledger, the check of the seal counts as many lines as
  events were projected: once a single event was dropped, the two differ, and no sealed
  ledger of the run is accepted again.
\<close>

lemma v02Events_append [simp]: "v02Events (es @ fs) = v02Events es @ v02Events fs"
  by (simp add: v02Events_def)

lemma v02Events_one: "v02Events [e] = (case projectTerminalEventToV02 e of None \<Rightarrow> [] | Some p \<Rightarrow> [p])"
  by (simp add: v02Events_def split: option.split)

lemma length_v02Events: "length (v02Events es) \<le> length es"
  by (induction es) (auto simp: v02Events_def split: option.split)

lemma dropped_shorter: "\<lbrakk>e \<in> set es; project_body (e4_body e) = None\<rbrakk> \<Longrightarrow> length (v02Events es) < length es"
proof (induction es)
  case (Cons x es)
  then show ?case using length_v02Events [of es]
    by (auto simp: v02Events_def projectTerminalEventToV02_def le_imp_less_Suc split: option.split)
qed simp

text \<open>The attempts and observations of the input are those of the projected events.\<close>

lemma loop_attempts_carried:
  "length (filter (is_loop_attempt \<circ> e4_body) es) = length (events_where as_attempt (v02Events es))"
proof (induction es rule: rev_induct)
  case (snoc e es)
  have "length (if is_loop_attempt (e4_body e) then [e] else []) = length (events_where as_attempt (v02Events [e]))"
  proof (cases "e4_body e")
    case (CarriedV04 b)
    then show ?thesis by (cases b) (simp_all add: v02Events_one projectTerminalEventToV02_def)
  qed (simp_all add: v02Events_one projectTerminalEventToV02_def split: option.split)
  with snoc show ?case by (auto split: if_splits)
qed (simp add: v02Events_def)

lemma take_shorter_sum:
  fixes ns :: "int list"
  assumes "list_all (\<lambda>n. 0 < n) ns" and "k < length ns"
  shows "sum_list (take k ns) < sum_list ns"
proof -
  have "sum_list ns = sum_list (take k ns) + (ns ! k + sum_list (drop (Suc k) ns))"
    using assms(2) by (metis id_take_nth_drop sum_list.Cons sum_list_append)
  moreover have "0 < ns ! k" using assms by (simp add: list_all_length)
  moreover have "0 \<le> sum_list (drop (Suc k) ns)"
    using assms(1) by (intro sum_list_nonneg) (auto simp: list_all_iff dest!: in_set_dropD intro: less_imp_le)
  ultimately show ?thesis by simp
qed

text \<open>Fewer consumed bytes leave the observations and transitions as they are.\<close>

lemma check_fewer_bytes:
  "check_transitions inp ob facts = Inr v \<Longrightarrow> bf_consumed facts' \<le> bf_consumed facts \<Longrightarrow>
     check_transitions inp ob facts' = Inr v"
  by (auto simp: check_transitions_def Let_def split: if_splits sum.splits)

text \<open>
  C18: a run of version 0.4 with an event that version 0.2 does not know cannot be read back once
  it is sealed: the ledger with the seal that the evaluator decided, and that the write
  appends, is refused for its seal. The hash of a snapshot is assumed to tell apart
  snapshots that count different bytes.
\<close>

theorem sealed_v04_run_is_refused:
  assumes built: "buildRuntimeTerminalProjectionV04 h plan ledger = Inr (s, v)"
    and decided: "evaluateTerminalDecisionTableV02 (hash_snapshot h) (projection_v04 plan ledger) (Some v) s = Seal c n hh sh f g"
    and event: "e4_body e = CarriedV04 b" "freezeEvent (l4_fence ledger) (Seal c n hh sh f g) = Some b"
    and ledger: "inspected_ledger ledger"
    and dropped: "x \<in> set (l4_events ledger)" "project_body (e4_body x) = None"
    and budget: "l4_bytes ledger + line \<le> rp_control_bytes plan"
    and hash: "\<And>s1 s2. preSealSnapshotHash (hash_snapshot h) s1 = preSealSnapshotHash (hash_snapshot h) s2 \<Longrightarrow>
      sn_control s1 = sn_control s2"
  shows "buildRuntimeTerminalProjectionV04 h plan (appended_v04 ledger e line g) = Inl (Refused SealInvalid)"
proof -
  let ?inp = "projection_v04 plan ledger" and ?es = "v02Events (l4_events ledger)"
  let ?sealed = "appended_v04 ledger e line g"
  let ?p = "\<lparr>ev_run = e4_run e, ev_seq = e4_seq e, ev_hash = e4_hash e, ev_body = b\<rparr>"
  have projected: "projectTerminalEventToV02 e = Some ?p" by (simp add: projectTerminalEventToV02_def event(1))
  from event(2) have body: "ev_body ?p = b" "as_observed b = None" by auto
  have events: "pi_events ?inp = ?es" by (simp add: projection_v04_def Let_def)
  have input: "projection_v04 plan ?sealed = extended ?inp ?p"
    using event(2) by (auto simp: projection_v04_def appended_v04_def extended_def Let_def v02Events_one projected event(1) body)
  from ledger have lines: "length (l4_lines ledger) = length (l4_events ledger)" "list_all (\<lambda>n. 0 < n) (l4_lines ledger)"
    "l4_bytes ledger = sum_list (l4_lines ledger)" by (auto simp: inspected_ledger_def)
  from dropped_shorter [OF dropped] have short: "length ?es < length (l4_lines ledger)" by (simp add: lines)
  let ?facts = "prefix_facts (facts_v04 ?sealed) (length ?es)"
  have less: "bf_consumed ?facts < bf_consumed (facts_v04 ledger)"
    using take_shorter_sum [OF lines(2) short] short lines(3)
    by (simp add: prefix_facts_def facts_v04_def appended_v04_def)
  have bytes: "bf_consumed (facts_v04 ?sealed) \<le> rp_control_bytes (pi_plan ?inp)"
    using budget by (simp add: facts_v04_def appended_v04_def projection_v04_def Let_def)
  have written: "freezeEvent (l4_fence ledger) (Seal c n hh sh f g) = Some (ev_body ?p)" using event(2) by simp
  from sealed_build [OF built [unfolded buildRuntimeTerminalProjectionV04_def] decided written bytes]
  obtain ob z y f0 where ob: "derive_observations h ?inp = Inr ob" and checked: "check_transitions ?inp ob (facts_v04 ledger) = Inr v"
    and z: "last_opt ?es = Some z" and s: "s = snapshot_of ?inp ob (facts_v04 ledger) v"
    and build: "buildTerminalObservationSnapshotCoreV02 h (extended ?inp ?p) (facts_v04 ?sealed) =
      (if \<not> (n = ev_seq z \<and> hh = ev_hash z \<and> f = f0) then Inl (Refused SealInvalid)
       else (case buildTerminalObservationSnapshotCoreV02 h (prefix_input (extended ?inp ?p) ?es z) ?facts of
               Inl r \<Rightarrow> Inl r
             | Inr (prior, _) \<Rightarrow>
                 if sh \<noteq> preSealSnapshotHash (hash_snapshot h) prior then Inl (Refused SealInvalid)
                 else Inr (snapshot_of (extended ?inp ?p) ob (facts_v04 ?sealed) v, v)))"
    unfolding events .
  note d = seal_decided [OF built [unfolded buildRuntimeTerminalProjectionV04_def] decided]
  have same: "prefix_input (extended ?inp ?p) ?es z = ?inp" if "n = ev_seq z" "hh = ev_hash z"
    using that d(2,3) by (simp add: prefix_input_def extended_def projection_v04_def Let_def loop_attempts_carried)
  have "buildTerminalObservationSnapshotCoreV02 h ?inp ?facts = Inr (snapshot_of ?inp ob ?facts v, v)"
    using build_unsealed [OF ob d(1)] check_fewer_bytes [OF checked less_imp_le [OF less]] by simp
  moreover have "sh \<noteq> preSealSnapshotHash (hash_snapshot h) (snapshot_of ?inp ob ?facts v)"
  proof
    assume "sh = preSealSnapshotHash (hash_snapshot h) (snapshot_of ?inp ob ?facts v)"
    with d(5) hash have "sn_control s = sn_control (snapshot_of ?inp ob ?facts v)" by metis
    with less show False by (simp add: s snapshot_of_def Let_def)
  qed
  ultimately show ?thesis
    unfolding buildRuntimeTerminalProjectionV04_def input build using same by simp
qed

text \<open>
  A run that was sealed once: a run started (an event of version 0.4 only), stalled and frozen.
\<close>

definition demo_v04_bodies :: "body_v04 list" where
  "demo_v04_bodies =
     [InitializedV04 0, RuntimeV04 ''run.started'', CarriedV04 LoopAttemptCompleted, CarriedV04 red, CarriedV04 red,
      CarriedV04 red, CarriedV04 (FreezeEntered Stalled 0)]"

definition demo_v04_event :: "nat \<Rightarrow> body_v04 \<Rightarrow> event_v04" where
  "demo_v04_event n b = \<lparr>e4_run = ''run'', e4_seq = int n, e4_hash = replicate n (CHR ''h''), e4_body = b\<rparr>"

definition demo_ledger :: "body_v04 list \<Rightarrow> ledger_v04" where
  "demo_ledger bs =
     (let es = map (\<lambda>(i, b). demo_v04_event (Suc i) b) (enumerate 0 bs) in
      \<lparr>l4_run = ''run'', l4_plan_hash = ''plan'', l4_sequence = int (length es), l4_head = e4_hash (last es),
       l4_fence = 0, l4_events = es, l4_bytes = int (length es), l4_lines = replicate (length es) 1\<rparr>)"

text \<open>A hash that keeps what it hashes: the bytes that are counted, in unary.\<close>

definition unary :: "int \<Rightarrow> string" where
  "unary n = replicate (nat n) (CHR ''1'') @ (if n < 0 then CHR ''-'' # replicate (nat (- n)) (CHR ''1'') else [])"

definition counting_hash :: hashing where
  "counting_hash = \<lparr>hash_prerequisites = \<lambda>ps. ''set'',
     hash_snapshot = \<lambda>s. unary (fst (sn_control s)) @ ''/'' @ unary (snd (sn_control s))\<rparr>"

lemma unary_inj: "unary a = unary b \<Longrightarrow> a = b"
proof -
  have len: "length (filter (\<lambda>c. c = CHR ''1'') (unary n)) = nat \<bar>n\<bar>" for n
    by (auto simp: unary_def)
  have neg: "CHR ''-'' \<in> set (unary n) \<longleftrightarrow> n < 0" for n by (auto simp: unary_def)
  assume "unary a = unary b"
  with len [of a] len [of b] neg [of a] neg [of b] show "a = b" by auto
qed

lemma counting_hash_control:
  "preSealSnapshotHash (hash_snapshot counting_hash) s1 = preSealSnapshotHash (hash_snapshot counting_hash) s2 \<Longrightarrow>
     sn_control s1 = sn_control s2"
proof -
  have no: "CHR ''/'' \<notin> set (unary n)" for n by (auto simp: unary_def)
  have cut: "takeWhile (\<lambda>c. c \<noteq> CHR ''/'') (unary a @ ''/'' @ r) = unary a" for a r
    using no [of a] by (subst takeWhile_append2) auto
  assume "preSealSnapshotHash (hash_snapshot counting_hash) s1 = preSealSnapshotHash (hash_snapshot counting_hash) s2"
  then have eq: "unary (fst (sn_control s1)) @ ''/'' @ unary (snd (sn_control s1)) =
      unary (fst (sn_control s2)) @ ''/'' @ unary (snd (sn_control s2))"
    by (simp add: preSealSnapshotHash_def counting_hash_def)
  then have "unary (fst (sn_control s1)) = unary (fst (sn_control s2))" using cut by metis
  with eq show ?thesis by (auto dest!: unary_inj intro: prod_eqI)
qed

lemma sealed_v04_run_is_refused_witness:
  "\<exists>b. buildRuntimeTerminalProjectionV04 counting_hash demo_plan
     (appended_v04 (demo_ledger demo_v04_bodies) (demo_v04_event 8 (CarriedV04 b)) 1 1) = Inl (Refused SealInvalid)"
proof -
  let ?l = "demo_ledger demo_v04_bodies"
  let ?b = "buildRuntimeTerminalProjectionV04 counting_hash demo_plan ?l"
  have ok: "case ?b of Inr (s, v) \<Rightarrow>
      evaluateTerminalDecisionTableV02 (hash_snapshot counting_hash) (projection_v04 demo_plan ?l) (Some v) s =
        Seal Stalled 7 ''hhhhhhh'' (preSealSnapshotHash (hash_snapshot counting_hash) s) 0 1 | Inl _ \<Rightarrow> False"
    by code_simp
  then obtain s v where built: "?b = Inr (s, v)"
    and decided: "evaluateTerminalDecisionTableV02 (hash_snapshot counting_hash) (projection_v04 demo_plan ?l) (Some v) s =
      Seal Stalled 7 ''hhhhhhh'' (preSealSnapshotHash (hash_snapshot counting_hash) s) 0 1"
    by (auto split: sum.splits)
  let ?body = "the (freezeEvent (l4_fence ?l) (Seal Stalled 7 ''hhhhhhh'' (preSealSnapshotHash (hash_snapshot counting_hash) s) 0 1))"
  have dropped: "demo_v04_event 2 (RuntimeV04 ''run.started'') \<in> set (l4_events ?l)"
    "project_body (e4_body (demo_v04_event 2 (RuntimeV04 ''run.started''))) = None" by code_simp+
  have ledger: "inspected_ledger ?l" and budget: "l4_bytes ?l + 1 \<le> rp_control_bytes demo_plan" by code_simp+
  from sealed_v04_run_is_refused [OF built decided _ _ ledger dropped budget counting_hash_control,
      of "demo_v04_event 8 (CarriedV04 ?body)" ?body]
  show ?thesis by (auto simp: demo_v04_event_def)
qed

end
