(* ===== verification/Fence_V04.thy ===== *)
theory Fence_V04
  imports Terminal_V04 Decision_Examples Reducer_V04_Laws
begin

text \<open>
  The fence of a run of version 0.4 in its two readings: the one its reducer reached, which every
  attempt after the first advances, and the one of the terminal projection, which only sees the
  events of version 0.2. The terminal write compares them; here is when they agree.
\<close>

subsection \<open>One ledger, read by the reducer and by the projection\<close>

text \<open>The two models name different parts of a payload; both keep the fence.\<close>

fun no_fence_body :: "body \<Rightarrow> bool" where
  "no_fence_body (body.Initialized _) = False"
| "no_fence_body (body.FenceAdvanced _ _) = False"
| "no_fence_body (body.Sealed _) = False"
| "no_fence_body _ = True"

fun no_fence :: "body_v04 \<Rightarrow> bool" where
  "no_fence (InitializedV04 _) = False"
| "no_fence (FenceV04 _ _ _) = False"
| "no_fence (CarriedV04 b) = no_fence_body b"
| "no_fence _ = True"

definition same_body :: "body4 \<Rightarrow> body_v04 \<Rightarrow> bool" where
  "same_body r b \<longleftrightarrow>
     (case r of
        RunInitialized f \<Rightarrow> b = InitializedV04 f
      | body4.FenceAdvanced _ p f _ \<Rightarrow> (case b of FenceV04 p' f' _ \<Rightarrow> p' = p \<and> f' = f | _ \<Rightarrow> False)
      | AttemptStarted _ \<Rightarrow> b = RuntimeV04 ''execution.attempt-started''
      | TerminalSealed p f \<Rightarrow>
          (case b of
             CarriedV04 c \<Rightarrow> (case c of body.Sealed s \<Rightarrow> sl_previous_fence s = p \<and> sl_fence s = f | _ \<Rightarrow> False)
           | _ \<Rightarrow> False)
      | _ \<Rightarrow> no_fence b)"

definition same_ledger :: "event4 list \<Rightarrow> event_v04 list \<Rightarrow> bool" where
  "same_ledger rs xs \<longleftrightarrow>
     list_all2 (\<lambda>r x. e4_sequence r = e4_seq x \<and> event4.e4_hash r = event_v04.e4_hash x \<and>
        same_body (event4.e4_body r) (event_v04.e4_body x)) rs xs"

text \<open>What a reading of events of version 0.2 makes of the projection of a body.\<close>

definition projected :: "(body \<Rightarrow> 'a option) \<Rightarrow> body_v04 \<Rightarrow> 'a list" where
  "projected g b =
     (case project_body b of None \<Rightarrow> [] | Some p \<Rightarrow> (case g p of None \<Rightarrow> [] | Some q \<Rightarrow> [q]))"

lemma projected_None [simp]:
  "no_fence b \<Longrightarrow> projected as_fence b = []" "no_fence b \<Longrightarrow> projected as_seal b = []"
  "no_fence b \<Longrightarrow> projected is_initialized b = []"
proof -
  have carried: "no_fence_body c \<Longrightarrow> as_fence c = None \<and> as_seal c = None \<and> is_initialized c = None" for c
    by (cases c) simp_all
  show "no_fence b \<Longrightarrow> projected as_fence b = []" "no_fence b \<Longrightarrow> projected as_seal b = []"
    "no_fence b \<Longrightarrow> projected is_initialized b = []"
    by (cases b; auto simp: projected_def carried split: option.splits)+
qed

lemma same_body_reads:
  assumes "same_body r b" and "body4_typed r"
  shows "projected as_fence b = advances r" "projected as_seal b = [] \<longleftrightarrow> seals r = []"
    "set (projected is_initialized b) \<subseteq> {0}"
  using assms
  by (cases r; auto simp: same_body_def projected_def [of _ "FenceV04 _ _ _"] projected_def [of _ "InitializedV04 _"]
      projected_def [of _ "RuntimeV04 _"] projected_def [of _ "CarriedV04 _"] split: body_v04.splits body.splits)+

lemma projected_events: "map snd (events_where g (v02Events xs)) = concat (map (\<lambda>x. projected g (event_v04.e4_body x)) xs)"
proof (induction xs)
  case (Cons x xs)
  have "v02Events (x # xs) = v02Events [x] @ v02Events xs" by (simp add: v02Events_def)
  with Cons show ?case
    by (auto simp: v02Events_def projectTerminalEventToV02_def projected_def split: option.split)
qed (simp add: v02Events_def)

lemma same_ledger_reads:
  assumes "same_ledger rs xs" and "list_all (body4_typed \<circ> event4.e4_body) rs"
  shows "map snd (events_where as_fence (v02Events xs)) = along advances rs"
    "map snd (events_where as_seal (v02Events xs)) = [] \<longleftrightarrow> along seals rs = []"
    "set (map snd (events_where is_initialized (v02Events xs))) \<subseteq> {0}"
proof -
  have "concat (map (\<lambda>x. projected as_fence (event_v04.e4_body x)) xs) = along advances rs \<and>
    (concat (map (\<lambda>x. projected as_seal (event_v04.e4_body x)) xs) = [] \<longleftrightarrow> along seals rs = []) \<and>
    set (concat (map (\<lambda>x. projected is_initialized (event_v04.e4_body x)) xs)) \<subseteq> {0}"
    using assms(1) [unfolded same_ledger_def] assms(2)
  proof (induction rule: list_all2_induct)
    case (Cons r rs x xs)
    with same_body_reads [of "event4.e4_body r" "event_v04.e4_body x"] show ?case by simp
  qed simp
  then show "map snd (events_where as_fence (v02Events xs)) = along advances rs"
    "map snd (events_where as_seal (v02Events xs)) = [] \<longleftrightarrow> along seals rs = []"
    "set (map snd (events_where is_initialized (v02Events xs))) \<subseteq> {0}"
    by (simp_all only: projected_events)
qed

subsection \<open>The projected fence, freeze and seal\<close>

lemma last_opt_last: "last_opt xs = (if xs = [] then None else Some (last xs))"
  by (cases xs rule: rev_cases) simp_all

lemma last_event_value: "map_option snd (last_event g es) = last_opt (map snd (events_where g es))"
  by (simp add: last_event_def last_opt_last last_map)

lemma projected_fence:
  assumes "map snd (events_where as_seal es) = []" and "set (map snd (events_where is_initialized es)) \<subseteq> {0}"
  shows "current_fence es = last (0 # map snd (events_where as_fence es))"
proof -
  from assms(1) have seal: "last_event as_seal es = None" by (simp add: last_event_def last_opt_last)
  have init: "f = 0" if "first_event is_initialized es = Some (e, f)" for e f
  proof -
    from that have "(e, f) \<in> set (events_where is_initialized es)"
      by (cases "events_where is_initialized es") (auto simp: first_event_def nth_opt_0)
    with assms(2) show ?thesis by force
  qed
  show ?thesis
  proof (cases "events_where as_fence es = []")
    case True
    then have "last_event as_fence es = None" by (simp add: last_event_def last_opt_last)
    with seal True show ?thesis by (auto simp: current_fence_def dest: init split: option.split)
  next
    case False
    then obtain e f where "last (events_where as_fence es) = (e, f)" by (cases "last (events_where as_fence es)")
    with False seal show ?thesis by (simp add: current_fence_def last_event_def last_opt_last last_map)
  qed
qed

lemma projected_freezes:
  "map (\<lambda>(e, p). (eventRef e, p)) (events_where as_freeze (v02Events xs)) =
   map (\<lambda>(x, p). (ref_v04 x, p)) (events_v04 freeze_of xs)"
proof (induction xs)
  case (Cons x xs)
  have split: "v02Events (x # xs) = v02Events [x] @ v02Events xs" "events_v04 freeze_of (x # xs) =
      events_v04 freeze_of [x] @ events_v04 freeze_of xs" by (simp_all add: v02Events_def events_v04_def)
  have "map (\<lambda>(e, p). (eventRef e, p)) (events_where as_freeze (v02Events [x])) =
      map (\<lambda>(x, p). (ref_v04 x, p)) (events_v04 freeze_of [x])"
  proof (cases "event_v04.e4_body x")
    case (CarriedV04 b)
    then show ?thesis
      by (auto simp: v02Events_def projectTerminalEventToV02_def events_where_def events_v04_def eventRef_def ref_v04_def
          split: option.split)
  next
    case (LimitBlockedV04 starts vs)
    then show ?thesis
      by (cases "map_all carried_violation vs")
        (auto simp: v02Events_def projectTerminalEventToV02_def events_where_def events_v04_def)
  next
    case (ClockV04 c)
    then show ?thesis
      by (cases "carried_clock (c4_reason c)")
        (auto simp: v02Events_def projectTerminalEventToV02_def events_where_def events_v04_def)
  qed (auto simp: v02Events_def projectTerminalEventToV02_def events_where_def events_v04_def)
  with Cons show ?case by (simp add: split)
qed (simp add: v02Events_def events_v04_def)

lemma freeze_agrees:
  "(case (latestFreeze ledger,
          map_option (\<lambda>(e, n, c). \<lparr>fz_revision = n, fz_candidate = c, fz_event = eventRef e\<rparr>)
            (last_event as_freeze (v02Events (l4_events ledger)))) of
      (None, None) \<Rightarrow> True | (Some a, Some f) \<Rightarrow> freeze_matches f a | _ \<Rightarrow> False)"
proof -
  let ?es = "events_where as_freeze (v02Events (l4_events ledger))" and ?xs = "events_v04 freeze_of (l4_events ledger)"
  note same = projected_freezes [of "l4_events ledger"]
  show ?thesis
  proof (cases "?xs = []")
    case True
    with same have "?es = []" by simp
    with True show ?thesis by (simp add: latestFreeze_def last_event_def last_opt_last)
  next
    case False
    with same have "?es \<noteq> []" by auto
    have "(\<lambda>(e, p). (eventRef e, p)) (last ?es) = (\<lambda>(x, p). (ref_v04 x, p)) (last ?xs)"
      using arg_cong [OF same, of last] False \<open>?es \<noteq> []\<close> by (simp add: last_map)
    then show ?thesis using False \<open>?es \<noteq> []\<close>
      by (auto simp: latestFreeze_def last_event_def last_opt_last freeze_matches_def split: prod.splits)
  qed
qed

lemma unsealed_store:
  assumes "events_where as_seal (v02Events (l4_events ledger)) = []"
  shows "actual_seal ledger = None"
proof (cases "last_opt (l4_events ledger)")
  case (Some x)
  then have "x \<in> set (l4_events ledger)" by (rule last_opt_in)
  moreover have "concat (map (\<lambda>x. projected as_seal (event_v04.e4_body x)) (l4_events ledger)) = []"
    using assms projected_events [of as_seal "l4_events ledger"] by simp
  ultimately have "projected as_seal (event_v04.e4_body x) = []" by simp
  then have "seal_of (event_v04.e4_body x) = None"
    by (cases "event_v04.e4_body x") (auto simp: projected_def split: option.splits)
  with Some show ?thesis by (simp add: actual_seal_def)
qed (simp add: actual_seal_def)

lemma match_is_fence:
  assumes built: "buildRuntimeTerminalProjectionV04 h plan ledger = Inr (s, v)"
    and store: "st_plan store = (l4_run ledger, l4_plan_hash ledger)" "st_ledger store = ledger"
    and unsealed: "events_where as_seal (v02Events (l4_events ledger)) = []"
  shows "projectionMatchesStore s store \<longleftrightarrow> current_fence (v02Events (l4_events ledger)) = l4_fence ledger"
    and "sn_seal s = None"
proof -
  from snapshot_built [OF built [unfolded buildRuntimeTerminalProjectionV04_def]]
  obtain ob where s: "s = snapshot_of (projection_v04 plan ledger) ob (facts_v04 ledger) v" .
  have inp: "pi_events (projection_v04 plan ledger) = v02Events (l4_events ledger)"
    "pi_run (projection_v04 plan ledger) = l4_run ledger" "pi_plan_hash (projection_v04 plan ledger) = l4_plan_hash ledger"
    "pi_sequence (projection_v04 plan ledger) = l4_sequence ledger" "pi_head (projection_v04 plan ledger) = l4_head ledger"
    by (simp_all add: projection_v04_def Let_def)
  show seal: "sn_seal s = None" using unsealed by (simp add: s inp snapshot_of_def Let_def last_event_def last_opt_last)
  have fields: "sn_run s = l4_run ledger" "sn_plan_hash s = l4_plan_hash ledger" "sn_sequence s = l4_sequence ledger"
    "sn_head s = l4_head ledger" "sn_fence s = current_fence (v02Events (l4_events ledger))"
    "sn_freeze s = map_option (\<lambda>(e, n, c). \<lparr>fz_revision = n, fz_candidate = c, fz_event = eventRef e\<rparr>)
       (last_event as_freeze (v02Events (l4_events ledger)))"
    by (simp_all add: s inp snapshot_of_def Let_def)
  show "projectionMatchesStore s store \<longleftrightarrow> current_fence (v02Events (l4_events ledger)) = l4_fence ledger"
    using freeze_agrees [of ledger]
    by (simp add: projectionMatchesStore_def Let_def store fields seal unsealed_store [OF unsealed])
qed

lemma never_already_sealed:
  "freeze_step s selected \<noteq> Some (AlreadySealed x)" "escalation_step s selected \<noteq> Some (AlreadySealed x)"
  "settlement_step inp captured s \<noteq> Some (AlreadySealed x)" "seal_decision hs s \<noteq> AlreadySealed x"
  "request_decision s fz refs \<noteq> AlreadySealed x"
  by (auto simp: freeze_step_def escalation_step_def settlement_step_def seal_decision_def request_decision_def Let_def
      split: option.split list.split)

lemma quiet_not_sealed: "quiet_decision hs inp captured s selected \<noteq> AlreadySealed x"
proof -
  have "(case escalation_step s selected of Some d \<Rightarrow> d
      | None \<Rightarrow> (case settlement_step inp captured s of Some d \<Rightarrow> d | None \<Rightarrow> seal_decision hs s)) \<noteq> AlreadySealed x"
    using never_already_sealed(2) [of s selected x] never_already_sealed(3) [of inp captured s x]
      never_already_sealed(4) [of hs s x]
    by (auto split: option.split)
  then show ?thesis unfolding quiet_decision_def Let_def
    using never_already_sealed(4,5) by (simp split del: if_split add: if_split [of "\<lambda>d. d \<noteq> AlreadySealed x"])
qed

lemma decided_unsealed:
  "sn_seal s = None \<Longrightarrow> evaluateTerminalDecisionTableV02 hs inp captured s \<noteq> AlreadySealed x"
  using never_already_sealed(1) [of s "terminalCandidate (pi_plan inp) s" x]
    quiet_not_sealed [of hs inp captured s "terminalCandidate (pi_plan inp) s" x]
  by (auto simp: evaluateTerminalDecisionTableV02_def Let_def split: option.split)

subsection \<open>Recovery and the terminal write\<close>

text \<open>
  C21: the terminal write of a run that is not sealed refuses, before it makes an event, the
  projection of the very ledger the store holds exactly when a recovery attempt (any attempt
  but the first) has started since the last \<open>run.fence-advanced\<close>: the attempt advances the
  fence of the reducer, which the ledger carries, and the projection drops its event. This holds
  whatever the evaluator decides and the clock observes, so from a recovery until the next fence
  advance no freeze and no seal is appended.
\<close>

theorem recovery_blocks_terminal_write:
  assumes reduced: "reduceRuntimeEventPrefixV04 rs = Inr st" "list_all (body4_typed \<circ> event4.e4_body) rs"
    and unsealed: "\<not> r4_sealed st"
    and ledger: "same_ledger rs (l4_events ledger)" "l4_fence ledger = r4_fence st"
    and built: "buildRuntimeTerminalProjectionV04 h plan ledger = Inr (s, v)"
    and store: "st_plan store = (l4_run ledger, l4_plan_hash ledger)" "st_ledger store = ledger"
  shows "writeRuntimeTerminalV04
      (evaluateTerminalDecisionTableV02 (hash_snapshot h) (projection_v04 plan ledger) (Some v) s) s store observation =
        PrefixInvalid \<longleftrightarrow>
    (\<exists>as e bs a. rs = as @ e # bs \<and> event4.e4_body e = AttemptStarted a \<and> 1 < at_ordinal a \<and>
       (\<forall>x\<in>set bs. \<forall>r p f owners. event4.e4_body x \<noteq> body4.FenceAdvanced r p f owners))"
proof -
  let ?es = "v02Events (l4_events ledger)"
  from fence_replay [OF reduced(1)] reduced(2) unsealed
  have fence: "along seals rs = []" "r4_fence st = last (0 # along advances rs) \<longleftrightarrow> \<not> recovery_unfenced rs"
    by (simp_all add: fence_followed_def)
  note reads = same_ledger_reads [OF ledger(1) reduced(2)]
  from reads(2) fence(1) have seals: "map snd (events_where as_seal ?es) = []" by simp
  then have none: "events_where as_seal ?es = []" by simp
  note match = match_is_fence [OF built store none]
  have "current_fence ?es = last (0 # along advances rs)"
    using projected_fence [OF seals reads(3)] by (simp only: reads(1))
  then have "projectionMatchesStore s store \<longleftrightarrow> \<not> recovery_unfenced rs"
    using match(1) fence(2) ledger(2) by auto
  moreover have "writeRuntimeTerminalV04 d s store observation = PrefixInvalid \<longleftrightarrow> \<not> projectionMatchesStore s store"
    if "\<And>x. d \<noteq> AlreadySealed x" for d
    using that by (cases d) (auto simp: writeRuntimeTerminalV04_def)
  ultimately have "writeRuntimeTerminalV04
      (evaluateTerminalDecisionTableV02 (hash_snapshot h) (projection_v04 plan ledger) (Some v) s) s store observation =
        PrefixInvalid \<longleftrightarrow> recovery_unfenced rs"
    using decided_unsealed [OF match(2)] by simp
  moreover have "along advances bs = [] \<longleftrightarrow> (\<forall>x\<in>set bs. \<forall>r p f owners. event4.e4_body x \<noteq> body4.FenceAdvanced r p f owners)"
    for bs
  proof -
    have "advances b = [] \<longleftrightarrow> (\<forall>r p f owners. b \<noteq> body4.FenceAdvanced r p f owners)" for b
      by (cases b) auto
    then show ?thesis by (simp add: along_def)
  qed
  ultimately show ?thesis by (simp add: recovery_unfenced_def)
qed

text \<open>A run that was started, and the same run after a recovery attempt.\<close>

definition started_bodies :: "(body4 \<times> body_v04) list" where
  "started_bodies =
     [(RunInitialized 0, InitializedV04 0), (RunStarted, RuntimeV04 ''run.started''),
      (AttemptStarted ((demo_attempt 1 Ordinary)\<lparr>at_boundary := (2, ''hh'')\<rparr>), RuntimeV04 ''execution.attempt-started'')]"

definition recovered_bodies :: "(body4 \<times> body_v04) list" where
  "recovered_bodies =
     started_bodies @
     [(ResumeRequested (demo_request\<lparr>rq_previous_attempt := (3, ''hhh''), rq_boundary := (2, ''hh'')\<rparr>),
       RuntimeV04 ''recovery.resume-requested''),
      (AttemptStarted ((demo_attempt 2 ReconciliationOnly)
         \<lparr>at_previous := Some (3, ''hhh''), at_resume_ref := Some (4, ''hhhh''), at_boundary := (2, ''hh'')\<rparr>),
       RuntimeV04 ''execution.attempt-started'')]"

definition reducer_events :: "(body4 \<times> body_v04) list \<Rightarrow> event4 list" where
  "reducer_events bs =
     map (\<lambda>(i, b, _). \<lparr>e4_sequence = int (Suc i), e4_hash = replicate (Suc i) (CHR ''h''), e4_previous = None,
        e4_source = ''loopeix'', e4_run_id = ''run'', e4_body = b\<rparr>) (enumerate 0 bs)"

definition store_ledger :: "(body4 \<times> body_v04) list \<Rightarrow> ledger_v04" where
  "store_ledger bs =
     (let es = map (\<lambda>(i, _, b). \<lparr>e4_run = ''run'', e4_seq = int (Suc i), e4_hash = replicate (Suc i) (CHR ''h''),
            e4_body = b\<rparr>) (enumerate 0 bs) in
      \<lparr>l4_run = ''run'', l4_plan_hash = ''plan'', l4_sequence = int (length es), l4_head = event_v04.e4_hash (last es),
       l4_fence = r4_fence (accepted_state (reducer_events bs)), l4_events = es,
       l4_bytes = int (length es), l4_lines = replicate (length es) 1\<rparr>)"

definition store_of :: "(body4 \<times> body_v04) list \<Rightarrow> inspected_store" where
  "store_of bs = \<lparr>st_plan = (''run'', ''plan''), st_ledger = store_ledger bs\<rparr>"

definition projection_of :: "(body4 \<times> body_v04) list \<Rightarrow> snapshot \<times> compensation_value" where
  "projection_of bs = projr (buildRuntimeTerminalProjectionV04 demo_hashing demo_plan (store_ledger bs))"

definition written :: "(body4 \<times> body_v04) list \<Rightarrow> write_result" where
  "written bs =
     (case projection_of bs of
        (s, v) \<Rightarrow> writeRuntimeTerminalV04 (evaluateTerminalDecisionTableV02 (hash_snapshot demo_hashing)
          (projection_v04 demo_plan (store_ledger bs)) (Some v) s) s (store_of bs) (0, True))"

lemma demo_runs:
  assumes "bs = started_bodies \<or> bs = recovered_bodies"
  shows "reduceRuntimeEventPrefixV04 (reducer_events bs) = Inr (accepted_state (reducer_events bs))"
    and "list_all (body4_typed \<circ> event4.e4_body) (reducer_events bs)" "\<not> r4_sealed (accepted_state (reducer_events bs))"
    and "same_ledger (reducer_events bs) (l4_events (store_ledger bs))"
    and "buildRuntimeTerminalProjectionV04 demo_hashing demo_plan (store_ledger bs) =
      Inr (fst (projection_of bs), snd (projection_of bs))"
proof -
  have "\<not> isl (reduceRuntimeEventPrefixV04 (reducer_events started_bodies))"
    "\<not> isl (reduceRuntimeEventPrefixV04 (reducer_events recovered_bodies))" by code_simp+
  with assms show "reduceRuntimeEventPrefixV04 (reducer_events bs) = Inr (accepted_state (reducer_events bs))"
    by (auto intro: accepted_stateI)
  have "list_all (body4_typed \<circ> event4.e4_body) (reducer_events started_bodies)"
    "list_all (body4_typed \<circ> event4.e4_body) (reducer_events recovered_bodies)" by code_simp+
  with assms show "list_all (body4_typed \<circ> event4.e4_body) (reducer_events bs)" by auto
  have "\<not> r4_sealed (accepted_state (reducer_events started_bodies))"
    "\<not> r4_sealed (accepted_state (reducer_events recovered_bodies))" by code_simp+
  with assms show "\<not> r4_sealed (accepted_state (reducer_events bs))" by auto
  have "same_ledger (reducer_events started_bodies) (l4_events (store_ledger started_bodies))"
    "same_ledger (reducer_events recovered_bodies) (l4_events (store_ledger recovered_bodies))" by code_simp+
  with assms show "same_ledger (reducer_events bs) (l4_events (store_ledger bs))" by auto
  have "\<not> isl (buildRuntimeTerminalProjectionV04 demo_hashing demo_plan (store_ledger started_bodies))"
    "\<not> isl (buildRuntimeTerminalProjectionV04 demo_hashing demo_plan (store_ledger recovered_bodies))" by code_simp+
  with assms show "buildRuntimeTerminalProjectionV04 demo_hashing demo_plan (store_ledger bs) =
      Inr (fst (projection_of bs), snd (projection_of bs))"
    by (auto simp: projection_of_def)
qed

lemma demo_store:
  "l4_fence (store_ledger bs) = r4_fence (accepted_state (reducer_events bs))"
  "st_plan (store_of bs) = (l4_run (store_ledger bs), l4_plan_hash (store_ledger bs))"
  "st_ledger (store_of bs) = store_ledger bs"
  by (simp_all add: store_of_def store_ledger_def Let_def)

lemma started_attempts: "e \<in> set (reducer_events started_bodies) \<Longrightarrow> event4.e4_body e = AttemptStarted a \<Longrightarrow> at_ordinal a = 1"
  by (auto simp: reducer_events_def started_bodies_def demo_attempt_def)

theorem recovery_blocks_terminal_write_witness:
  "written recovered_bodies = PrefixInvalid \<and> written started_bodies \<noteq> PrefixInvalid"
proof -
  have iff: "written bs = PrefixInvalid \<longleftrightarrow>
    (\<exists>as e cs a. reducer_events bs = as @ e # cs \<and> event4.e4_body e = AttemptStarted a \<and> 1 < at_ordinal a \<and>
       (\<forall>x\<in>set cs. \<forall>r p f owners. event4.e4_body x \<noteq> body4.FenceAdvanced r p f owners))"
    if "bs = started_bodies \<or> bs = recovered_bodies" for bs
    unfolding written_def prod.case_eq_if
    by (rule recovery_blocks_terminal_write [OF demo_runs(1-3) [OF that] demo_runs(4) [OF that] demo_store(1)
          demo_runs(5) [OF that] demo_store(2,3)])
  have "reducer_events recovered_bodies =
      take 4 (reducer_events recovered_bodies) @ (reducer_events recovered_bodies ! 4) # []"
    "event4.e4_body (reducer_events recovered_bodies ! 4) = fst (recovered_bodies ! 4)"
    by (simp_all add: reducer_events_def recovered_bodies_def started_bodies_def)
  moreover have "fst (recovered_bodies ! 4) = AttemptStarted ((demo_attempt 2 ReconciliationOnly)
      \<lparr>at_previous := Some (3, ''hhh''), at_resume_ref := Some (4, ''hhhh''), at_boundary := (2, ''hh'')\<rparr>)"
    by (simp add: recovered_bodies_def started_bodies_def)
  moreover have "1 < at_ordinal ((demo_attempt 2 ReconciliationOnly)
      \<lparr>at_previous := Some (3, ''hhh''), at_resume_ref := Some (4, ''hhhh''), at_boundary := (2, ''hh'')\<rparr>)"
    by (simp add: demo_attempt_def)
  ultimately have "written recovered_bodies = PrefixInvalid" using iff [of recovered_bodies] by fastforce
  moreover have "written started_bodies \<noteq> PrefixInvalid"
    using iff [of started_bodies] started_attempts by fastforce
  ultimately show ?thesis ..
qed

end
