(* ===== verification/Action_Policy.thy ===== *)
theory Action_Policy
  imports Prelude
begin

text \<open>
  The action approval policy (\<open>src/run/action-classifier-policy-v02.ts\<close>): the class of every
  kind of action, the built-in classifier rule of a kind, the validation of a policy bundle and
  the registry of immutable bundles. The canonical text of a key and the hashes are arguments.
\<close>

datatype policy_action_kind =
    Planning | LocalRead | DeterministicCheck
  | AuthenticatedRead | NetworkRead | ReversibleWorkspaceEdit
  | AuthenticatedWrite | CommitAction | Deploy | DestructiveAction | IrreversibleAction | Merge | NewSecretScope
  | PackageChange | ProtectedRefMutation | Publish | Push | Rebase | ReleaseAction | Send | T4Action
  | ApprovalContractEdit | ConnectorAdmin | ConnectorDelete | ForcePush | PolicyWeakening | SelfWidening
  | T5Action | UninspectableSideEffect

datatype approval_class = Automatic | Agency | HumanException | BlockedClass

fun POLICY_CLASS_BY_ACTION_KIND :: "policy_action_kind \<Rightarrow> approval_class" where
  "POLICY_CLASS_BY_ACTION_KIND Planning = Automatic"
| "POLICY_CLASS_BY_ACTION_KIND LocalRead = Automatic"
| "POLICY_CLASS_BY_ACTION_KIND DeterministicCheck = Automatic"
| "POLICY_CLASS_BY_ACTION_KIND AuthenticatedRead = Agency"
| "POLICY_CLASS_BY_ACTION_KIND NetworkRead = Agency"
| "POLICY_CLASS_BY_ACTION_KIND ReversibleWorkspaceEdit = Agency"
| "POLICY_CLASS_BY_ACTION_KIND ApprovalContractEdit = BlockedClass"
| "POLICY_CLASS_BY_ACTION_KIND ConnectorAdmin = BlockedClass"
| "POLICY_CLASS_BY_ACTION_KIND ConnectorDelete = BlockedClass"
| "POLICY_CLASS_BY_ACTION_KIND ForcePush = BlockedClass"
| "POLICY_CLASS_BY_ACTION_KIND PolicyWeakening = BlockedClass"
| "POLICY_CLASS_BY_ACTION_KIND SelfWidening = BlockedClass"
| "POLICY_CLASS_BY_ACTION_KIND T5Action = BlockedClass"
| "POLICY_CLASS_BY_ACTION_KIND UninspectableSideEffect = BlockedClass"
| "POLICY_CLASS_BY_ACTION_KIND _ = HumanException"

text \<open>The name of a kind in the records.\<close>

fun kind_name :: "policy_action_kind \<Rightarrow> string" where
  "kind_name Planning = ''planning''"
| "kind_name LocalRead = ''local-read''"
| "kind_name DeterministicCheck = ''deterministic-no-side-effect-check''"
| "kind_name AuthenticatedRead = ''authenticated-read''"
| "kind_name NetworkRead = ''network-read''"
| "kind_name ReversibleWorkspaceEdit = ''reversible-workspace-edit''"
| "kind_name AuthenticatedWrite = ''authenticated-write''"
| "kind_name CommitAction = ''commit''"
| "kind_name Deploy = ''deploy''"
| "kind_name DestructiveAction = ''destructive-action''"
| "kind_name IrreversibleAction = ''irreversible-action''"
| "kind_name Merge = ''merge''"
| "kind_name NewSecretScope = ''new-secret-scope''"
| "kind_name PackageChange = ''package-change''"
| "kind_name ProtectedRefMutation = ''protected-ref-mutation''"
| "kind_name Publish = ''publish''"
| "kind_name Push = ''push''"
| "kind_name Rebase = ''rebase''"
| "kind_name ReleaseAction = ''release''"
| "kind_name Send = ''send''"
| "kind_name T4Action = ''t4-action''"
| "kind_name ApprovalContractEdit = ''approval-contract-edit''"
| "kind_name ConnectorAdmin = ''connector-admin''"
| "kind_name ConnectorDelete = ''connector-delete''"
| "kind_name ForcePush = ''force-push''"
| "kind_name PolicyWeakening = ''policy-weakening''"
| "kind_name SelfWidening = ''self-widening''"
| "kind_name T5Action = ''t5-action''"
| "kind_name UninspectableSideEffect = ''uninspectable-side-effect''"

text \<open>The keys of the table in their order, and sorted by bytes.\<close>

definition table_kinds :: "policy_action_kind list" where
  "table_kinds =
     [Planning, LocalRead, DeterministicCheck, AuthenticatedRead, NetworkRead, ReversibleWorkspaceEdit,
      AuthenticatedWrite, CommitAction, Deploy, DestructiveAction, IrreversibleAction, Merge, NewSecretScope,
      PackageChange, ProtectedRefMutation, Publish, Push, Rebase, ReleaseAction, Send, T4Action,
      ApprovalContractEdit, ConnectorAdmin, ConnectorDelete, ForcePush, PolicyWeakening, SelfWidening,
      T5Action, UninspectableSideEffect]"

definition POLICY_ACTION_KINDS :: "policy_action_kind list" where
  "POLICY_ACTION_KINDS = sort_key kind_name table_kinds"

definition HUMAN_EXCEPTION_ACTION_KINDS :: "policy_action_kind list" where
  "HUMAN_EXCEPTION_ACTION_KINDS =
     [AuthenticatedWrite, CommitAction, Deploy, DestructiveAction, IrreversibleAction, Merge, NewSecretScope,
      PackageChange, ProtectedRefMutation, Publish, Push, Rebase, ReleaseAction, Send, T4Action]"

definition BLOCKED_ACTION_KINDS :: "policy_action_kind list" where
  "BLOCKED_ACTION_KINDS =
     [ApprovalContractEdit, ConnectorAdmin, ConnectorDelete, ForcePush, PolicyWeakening, SelfWidening, T5Action,
      UninspectableSideEffect]"

lemma table_complete: "k \<in> set table_kinds"
  by (cases k) (simp_all add: table_kinds_def)

lemma set_POLICY_ACTION_KINDS [simp]: "k \<in> set POLICY_ACTION_KINDS"
  by (simp add: POLICY_ACTION_KINDS_def table_complete)

subsection \<open>Classifier rules\<close>

datatype action_class = TaskClass | ToolClass | ArtifactWriteClass
datatype dispatch_kind = ProcessDispatch | ToolDispatch | ConnectorDispatch | ArtifactWriteDispatch
datatype operation = ReadOp | WriteOp | DeleteOp | ExportOp | SendOp | WaiveOp
datatype risk_tier_v1 = T0 | T1 | T2 | T3a | T3b | T3c | T3d | T4
datatype effect_class = NoEffect | WorkspaceWrite | ExternalRead | ExternalWrite | Destructive
datatype data_access = NoAccess | LocalAccess | AuthenticatedAccess | NetworkAccess | ExportAccess
datatype transition_intent = NoTransition | WorkspaceEdit | CommitTransition | ProtectedRefTransition
datatype cost_mode = NoCost | Metered

record classifier_key =
  cl_action_class :: action_class
  cl_dispatch :: dispatch_kind
  cl_adapter :: string
  cl_adapter_version :: string
  cl_capability :: string
  cl_capability_hash :: string
  cl_operation :: operation
  cl_tier :: risk_tier_v1
  cl_effects :: "effect_class list"
  cl_inspectable :: bool
  cl_reversible :: bool
  cl_access :: data_access
  cl_transition :: transition_intent
  cl_cost :: cost_mode

record classifier_rule =
  ar_key :: classifier_key
  ar_kind :: policy_action_kind
  ar_class :: approval_class
  ar_hash :: string

record classifier_registry =
  rg_rules :: "classifier_rule list"
  rg_hash :: string

record policy_entry =
  pe_kind :: policy_action_kind
  pe_class :: approval_class
  pe_rule :: string

record approval_policy =
  po_digest :: string
  po_registry :: classifier_registry
  po_entries :: "policy_entry list"
  po_human :: "policy_action_kind list"
  po_blocked :: "policy_action_kind list"
  po_hash :: string

text \<open>
  Canonical text and hashes: of a key, a rule without its hash, the rules of a registry, a
  policy without digest and hash, and without digest.
\<close>

record policy_hashing =
  ph_key :: "classifier_key \<Rightarrow> string"
  ph_rule :: "classifier_key \<times> policy_action_kind \<times> approval_class \<Rightarrow> string"
  ph_rules :: "classifier_rule list \<Rightarrow> string"
  ph_registry :: "classifier_registry \<times> policy_entry list \<times> policy_action_kind list \<times> policy_action_kind list \<Rightarrow> string"
  ph_bundle :: "approval_policy \<Rightarrow> string"
  ph_adapter :: "string \<Rightarrow> string"
  ph_capability :: "policy_action_kind \<times> approval_class \<Rightarrow> string"

definition bundle_digest :: "policy_hashing \<Rightarrow> approval_policy \<Rightarrow> string" where
  "bundle_digest h p = ph_bundle h (p\<lparr>po_digest := []\<rparr>)"

subsection \<open>Validation\<close>

datatype policy_problem =
    HumanTupleDiffers | BlockedTupleDiffers | EntriesIncomplete | EntriesNotCanonical | KeysNotUnique | RulesNotSorted
  | RuleHashWrong | RulesHashWrong | EntryUnresolved | RegistryHashWrong | DigestWrong

definition entry_canonical :: "policy_entry \<times> policy_action_kind \<Rightarrow> bool" where
  "entry_canonical ek \<longleftrightarrow> pe_kind (fst ek) = snd ek \<and> pe_class (fst ek) = POLICY_CLASS_BY_ACTION_KIND (snd ek)"

text \<open>A map of the rules by their hash finds the last rule with it.\<close>

definition rule_by_hash :: "classifier_rule list \<Rightarrow> string \<Rightarrow> classifier_rule option" where
  "rule_by_hash rules x = find (\<lambda>r. ar_hash r = x) (rev rules)"

definition entry_resolves :: "classifier_rule list \<Rightarrow> policy_entry \<Rightarrow> bool" where
  "entry_resolves rules e \<longleftrightarrow>
     (case rule_by_hash rules (pe_rule e) of
        None \<Rightarrow> False
      | Some r \<Rightarrow> ar_kind r = pe_kind e \<and> ar_class r = pe_class e)"

definition rule_hash_ok :: "policy_hashing \<Rightarrow> classifier_rule \<Rightarrow> bool" where
  "rule_hash_ok h r \<longleftrightarrow> ar_hash r = ph_rule h (ar_key r, ar_kind r, ar_class r)"

definition validatePolicy :: "policy_hashing \<Rightarrow> approval_policy \<Rightarrow> policy_problem option" where
  "validatePolicy h p =
     (let rules = rg_rules (po_registry p); keys = map (ph_key h \<circ> ar_key) rules in
      if po_human p \<noteq> HUMAN_EXCEPTION_ACTION_KINDS then Some HumanTupleDiffers
      else if po_blocked p \<noteq> BLOCKED_ACTION_KINDS then Some BlockedTupleDiffers
      else if length (po_entries p) \<noteq> length POLICY_ACTION_KINDS then Some EntriesIncomplete
      else if \<not> list_all entry_canonical (zip (po_entries p) POLICY_ACTION_KINDS) then Some EntriesNotCanonical
      else if \<not> distinct keys then Some KeysNotUnique
      else if \<not> list_all (\<lambda>(a, b). a < b) (zip keys (tl keys)) then Some RulesNotSorted
      else if \<not> list_all (rule_hash_ok h) rules then Some RuleHashWrong
      else if rg_hash (po_registry p) \<noteq> ph_rules h rules then Some RulesHashWrong
      else if \<not> list_all (entry_resolves rules) (po_entries p) then Some EntryUnresolved
      else if po_hash p \<noteq> ph_registry h (po_registry p, po_entries p, po_human p, po_blocked p) then Some RegistryHashWrong
      else if po_digest p \<noteq> bundle_digest h p then Some DigestWrong
      else None)"

subsection \<open>The built-in policy\<close>

definition workspaceKinds :: "policy_action_kind list" where
  "workspaceKinds =
     [ReversibleWorkspaceEdit, CommitAction, Merge, PackageChange, Rebase, ApprovalContractEdit, PolicyWeakening, SelfWidening]"

definition destructiveKinds :: "policy_action_kind list" where
  "destructiveKinds = [DestructiveAction, ConnectorDelete, ForcePush, T5Action, UninspectableSideEffect]"

definition externalWriteKinds :: "policy_action_kind list" where
  "externalWriteKinds =
     [AuthenticatedWrite, Deploy, IrreversibleAction, NewSecretScope, ProtectedRefMutation, Publish, Push, ReleaseAction,
      Send, T4Action, ConnectorAdmin]"

definition connectorKinds :: "policy_action_kind list" where
  "connectorKinds = [ConnectorAdmin, ConnectorDelete]"

definition effect_of :: "policy_action_kind \<Rightarrow> effect_class" where
  "effect_of k =
     (if k \<in> set destructiveKinds then Destructive
      else if k \<in> set workspaceKinds then WorkspaceWrite
      else if k \<in> set externalWriteKinds then ExternalWrite
      else if k = NetworkRead then ExternalRead else NoEffect)"

definition operation_of :: "policy_action_kind \<Rightarrow> operation" where
  "operation_of k =
     (if k = DestructiveAction \<or> k = ConnectorDelete then DeleteOp
      else if k = Publish \<or> k = ReleaseAction then ExportOp
      else if k = Push \<or> k = Send \<or> k = ForcePush then SendOp
      else if effect_of k = NoEffect \<or> effect_of k = ExternalRead then ReadOp else WriteOp)"

definition transition_of :: "policy_action_kind \<Rightarrow> transition_intent" where
  "transition_of k =
     (if k = ProtectedRefMutation then ProtectedRefTransition
      else if k = CommitAction \<or> k = Merge \<or> k = Rebase then CommitTransition
      else if effect_of k = WorkspaceWrite then WorkspaceEdit else NoTransition)"

definition access_of :: "policy_action_kind \<Rightarrow> data_access" where
  "access_of k =
     (if operation_of k = ExportOp \<or> operation_of k = SendOp then ExportAccess
      else if k \<in> {NetworkRead, Deploy, Push, ForcePush, T4Action, UninspectableSideEffect} then NetworkAccess
      else if k = AuthenticatedRead \<or> k = AuthenticatedWrite \<or> k \<in> set connectorKinds then AuthenticatedAccess
      else LocalAccess)"

definition adapter_of :: "policy_action_kind \<Rightarrow> string" where
  "adapter_of k =
     (if k \<in> set connectorKinds then ''host-connector''
      else if access_of k \<in> {NetworkAccess, AuthenticatedAccess, ExportAccess} then ''host-adapter''
      else ''loopeix-core'')"

definition builtInRuleKey :: "policy_hashing \<Rightarrow> policy_action_kind \<Rightarrow> approval_class \<Rightarrow> classifier_key" where
  "builtInRuleKey h k c =
     \<lparr>cl_action_class =
        (if k = Planning \<or> c = Automatic then TaskClass
         else if k = ReversibleWorkspaceEdit then ArtifactWriteClass else ToolClass),
      cl_dispatch =
        (if k = Planning \<or> c = Automatic then ProcessDispatch
         else if k = ReversibleWorkspaceEdit then ArtifactWriteDispatch
         else if k \<in> set connectorKinds then ConnectorDispatch else ToolDispatch),
      cl_adapter = adapter_of k, cl_adapter_version = ph_adapter h (adapter_of k),
      cl_capability = kind_name k @ ''-action'', cl_capability_hash = ph_capability h (k, c),
      cl_operation = operation_of k,
      cl_tier = (case c of Automatic \<Rightarrow> T1 | Agency \<Rightarrow> T2 | _ \<Rightarrow> T4),
      cl_effects = [effect_of k], cl_inspectable = (k \<noteq> UninspectableSideEffect),
      cl_reversible = (effect_of k = NoEffect \<or> k = ReversibleWorkspaceEdit),
      cl_access = access_of k, cl_transition = transition_of k,
      cl_cost = (if access_of k \<in> {NetworkAccess, AuthenticatedAccess, ExportAccess} then Metered else NoCost)\<rparr>"

definition built_in_rule :: "policy_hashing \<Rightarrow> policy_action_kind \<Rightarrow> classifier_rule" where
  "built_in_rule h k =
     (let c = POLICY_CLASS_BY_ACTION_KIND k; key = builtInRuleKey h k c in
      \<lparr>ar_key = key, ar_kind = k, ar_class = c, ar_hash = ph_rule h (key, k, c)\<rparr>)"

definition built_in_entry :: "classifier_rule list \<Rightarrow> policy_action_kind \<Rightarrow> policy_entry" where
  "built_in_entry rules k =
     \<lparr>pe_kind = k, pe_class = POLICY_CLASS_BY_ACTION_KIND k,
      pe_rule = ar_hash (the (find (\<lambda>r. ar_kind r = k) rules))\<rparr>"

definition createS35BuiltInActionApprovalPolicyV02 :: "policy_hashing \<Rightarrow> approval_policy" where
  "createS35BuiltInActionApprovalPolicyV02 h =
     (let rules = sort_key (ph_key h \<circ> ar_key) (map (built_in_rule h) POLICY_ACTION_KINDS);
          registry = \<lparr>rg_rules = rules, rg_hash = ph_rules h rules\<rparr>;
          entries = map (built_in_entry rules) POLICY_ACTION_KINDS;
          policy = \<lparr>po_digest = [], po_registry = registry, po_entries = entries, po_human = HUMAN_EXCEPTION_ACTION_KINDS,
            po_blocked = BLOCKED_ACTION_KINDS,
            po_hash = ph_registry h (registry, entries, HUMAN_EXCEPTION_ACTION_KINDS, BLOCKED_ACTION_KINDS)\<rparr> in
      policy\<lparr>po_digest := bundle_digest h policy\<rparr>)"

subsection \<open>The registry of immutable bundles\<close>

text \<open>
  Bundles admitted and not yet registered, by their identity as objects, and the registry by
  digest. The built-in policy is registered when the module is loaded.
\<close>

record bundles =
  bu_next :: nat
  bu_admitted :: "(nat \<times> approval_policy) list"
  bu_registry :: "(string \<times> approval_policy) list"

definition bundles_start :: "approval_policy \<Rightarrow> bundles" where
  "bundles_start builtin = \<lparr>bu_next = 0, bu_admitted = [], bu_registry = [(po_digest builtin, builtin)]\<rparr>"

text \<open>The identity of the admitted bundle, or the problem; \<^const>\<open>None\<close> if the digests disagree.\<close>

definition admitHostCapturedPolicyBundleV02 ::
  "policy_hashing \<Rightarrow> approval_policy \<Rightarrow> string \<Rightarrow> bundles \<Rightarrow> (policy_problem option + nat) \<times> bundles" where
  "admitHostCapturedPolicyBundleV02 h p digest b =
     (if po_digest p \<noteq> digest then (Inl None, b)
      else (case validatePolicy h p of
              Some problem \<Rightarrow> (Inl (Some problem), b)
            | None \<Rightarrow> (Inr (bu_next b), b\<lparr>bu_next := bu_next b + 1, bu_admitted := (bu_next b, p) # bu_admitted b\<rparr>)))"

definition registerHostCapturedPolicyBundleV02 :: "nat \<Rightarrow> bundles \<Rightarrow> bool \<times> bundles" where
  "registerHostCapturedPolicyBundleV02 i b =
     (case map_of (bu_admitted b) i of
        None \<Rightarrow> (False, b)
      | Some p \<Rightarrow>
          (let b' = b\<lparr>bu_admitted := filter (\<lambda>e. fst e \<noteq> i) (bu_admitted b)\<rparr> in
           case map_of (bu_registry b) (po_digest p) of
             Some old \<Rightarrow> (old = p, b')
           | None \<Rightarrow> (True, b'\<lparr>bu_registry := (po_digest p, p) # bu_registry b\<rparr>)))"

definition resolveImmutableActionApprovalPolicyV02 :: "string \<Rightarrow> bundles \<Rightarrow> approval_policy option" where
  "resolveImmutableActionApprovalPolicyV02 digest b = map_of (bu_registry b) digest"

text \<open>The steps of a host: admitting a candidate and registering an admitted bundle.\<close>

inductive bundle_step :: "policy_hashing \<Rightarrow> bundles \<Rightarrow> bundles \<Rightarrow> bool" for h where
  admit: "admitHostCapturedPolicyBundleV02 h p digest b = (r, b') \<Longrightarrow> bundle_step h b b'"
| register: "registerHostCapturedPolicyBundleV02 i b = (r, b') \<Longrightarrow> bundle_step h b b'"

inductive_cases bundle_stepE: "bundle_step h b b'"

end
