(* ===== verification/Authority.thy ===== *)
theory Authority
  imports Action_Policy Runtime_V02 Json
begin

text \<open>
  The authority decision point (\<open>simulateAuthorityDecisionV02\<close> and what it uses, in
  \<open>src/run/action-classifier-policy-v02.ts\<close>): the quorum requirements and reason declarations of
  the release, the decision on an action proposal from its recommendations, and the
  revalidation of the lease a decision simulates. The shapes the schema demands are the types
  of the records and \<open>input_shape\<close>; the hashes are arguments. An instant is its text with the
  milliseconds it denotes.
\<close>

type_synonym instant = "string \<times> int"

definition S35_DIGEST :: string where
  "S35_DIGEST = ''sha256:f9fb5daca837efaf274a0567e70d6b90c690ea7ed0ed69e8089cc16bbf6d0dd9''"

definition AUTHORITY_REVIEWER_ROLES_V1 :: "string list" where
  "AUTHORITY_REVIEWER_ROLES_V1 =
     [''authority-governor'', ''evidence-reviewer'', ''scope-guardian'', ''security-information-flow-reviewer'']"

subsection \<open>Quorum requirements\<close>

record quorum_requirement =
  qr_ref :: string
  qr_digest :: string
  qr_action_class :: action_class
  qr_kind :: policy_action_kind
  qr_roles :: "string list"
  qr_minimum_allow :: nat
  qr_minimum_roots :: nat
  qr_minimum_evidence :: nat
  qr_ttl_ms :: int

definition createQuorumRequirement :: "string \<Rightarrow> action_class \<Rightarrow> policy_action_kind \<Rightarrow> quorum_requirement" where
  "createQuorumRequirement ref c k =
     \<lparr>qr_ref = ref, qr_digest = S35_DIGEST, qr_action_class = c, qr_kind = k, qr_roles = AUTHORITY_REVIEWER_ROLES_V1,
      qr_minimum_allow = 4, qr_minimum_roots = 4, qr_minimum_evidence = 1, qr_ttl_ms = 300000\<rparr>"

definition S36_QUORUM_REQUIREMENTS_V1 :: "quorum_requirement list" where
  "S36_QUORUM_REQUIREMENTS_V1 =
     [createQuorumRequirement ''agency-artifact-write-reversible-workspace-edit-v1'' ArtifactWriteClass ReversibleWorkspaceEdit,
      createQuorumRequirement ''agency-tool-authenticated-read-v1'' ToolClass AuthenticatedRead,
      createQuorumRequirement ''agency-tool-network-read-v1'' ToolClass NetworkRead]"

text \<open>The selector parses for the three agency kinds and the class agency only.\<close>

definition resolveAgencyQuorumRequirementV02 ::
  "string \<Rightarrow> action_class \<Rightarrow> policy_action_kind \<Rightarrow> approval_class \<Rightarrow> quorum_requirement option" where
  "resolveAgencyQuorumRequirementV02 digest c k cls =
     (if k \<notin> {AuthenticatedRead, NetworkRead, ReversibleWorkspaceEdit} \<or> cls \<noteq> Agency then None
      else find (\<lambda>q. qr_digest q = digest \<and> qr_action_class q = c \<and> qr_kind q = k)
             (rev S36_QUORUM_REQUIREMENTS_V1))"

subsection \<open>Reason declarations\<close>

datatype record_kind = AgencyRecommendationRecord | PolicyDecisionRecord

text \<open>The decisions of both kinds of record, by their names in the records.\<close>

definition S36_REASON_DECLARATIONS_V1 :: "(string \<times> record_kind \<times> string list) list" where
  "S36_REASON_DECLARATIONS_V1 =
     [(''recommendation-abort-safety'', AgencyRecommendationRecord, [''abort'']),
      (''recommendation-allow-conditions'', AgencyRecommendationRecord, [''allow_with_conditions'']),
      (''recommendation-allow-evidence'', AgencyRecommendationRecord, [''allow'']),
      (''recommendation-deny-policy'', AgencyRecommendationRecord, [''deny'']),
      (''recommendation-escalate-human'', AgencyRecommendationRecord, [''escalate'']),
      (''decision-agency-abort'', PolicyDecisionRecord, [''abort'']),
      (''decision-agency-allow'', PolicyDecisionRecord, [''allow'']),
      (''decision-agency-condition-hold'', PolicyDecisionRecord, [''hold'']),
      (''decision-agency-deny'', PolicyDecisionRecord, [''deny'']),
      (''decision-agency-escalate'', PolicyDecisionRecord, [''escalate'']),
      (''decision-agency-quorum-hold'', PolicyDecisionRecord, [''hold'']),
      (''decision-automatic-allow'', PolicyDecisionRecord, [''allow'']),
      (''decision-automatic-enforcement-hold'', PolicyDecisionRecord, [''hold'']),
      (''decision-blocked-hold'', PolicyDecisionRecord, [''hold'']),
      (''decision-compensation-safety-hold'', PolicyDecisionRecord, [''hold'']),
      (''decision-human-exception-hold'', PolicyDecisionRecord, [''hold''])]"

definition resolveAuthorityPolicyReasonDeclarationV02 :: "string \<Rightarrow> string \<Rightarrow> (record_kind \<times> string list) option" where
  "resolveAuthorityPolicyReasonDeclarationV02 digest ref =
     (if digest \<noteq> S35_DIGEST then None else map_of (rev S36_REASON_DECLARATIONS_V1) ref)"

definition authorityPolicyReasonRefIsCompatibleV02 :: "string \<Rightarrow> string \<Rightarrow> record_kind \<Rightarrow> string \<Rightarrow> bool" where
  "authorityPolicyReasonRefIsCompatibleV02 digest ref kind d \<longleftrightarrow>
     (case resolveAuthorityPolicyReasonDeclarationV02 digest ref of
        None \<Rightarrow> False
      | Some (k, ds) \<Rightarrow> k = kind \<and> d \<in> set ds)"

subsection \<open>The extension of the policy\<close>

text \<open>The table of quorums and reasons is itself hashed; a candidate is valid only if it is the pinned table.\<close>

record policy_extension =
  px_base :: string
  px_quorums :: "quorum_requirement list"
  px_reasons :: "(string \<times> record_kind \<times> string list) list"
  px_hash :: string

type_synonym extension_digest =
  "string \<times> quorum_requirement list \<times> (string \<times> record_kind \<times> string list) list \<Rightarrow> string"

definition S36_EXTENSION :: "extension_digest \<Rightarrow> policy_extension" where
  "S36_EXTENSION digest =
     \<lparr>px_base = S35_DIGEST, px_quorums = S36_QUORUM_REQUIREMENTS_V1, px_reasons = S36_REASON_DECLARATIONS_V1,
      px_hash = digest (S35_DIGEST, S36_QUORUM_REQUIREMENTS_V1, S36_REASON_DECLARATIONS_V1)\<rparr>"

datatype extension_problem = ExtensionHashInvalid | ExtensionNotPinned

definition validateAuthorityDecisionPolicyExtensionV1 ::
  "extension_digest \<Rightarrow> policy_extension \<Rightarrow> extension_problem option" where
  "validateAuthorityDecisionPolicyExtensionV1 digest x =
     (if px_hash x \<noteq> digest (px_base x, px_quorums x, px_reasons x) then Some ExtensionHashInvalid
      else if x \<noteq> S36_EXTENSION digest then Some ExtensionNotPinned else None)"

definition resolveS36BuiltInAuthorityDecisionPolicyExtensionV1 ::
  "extension_digest \<Rightarrow> string \<Rightarrow> policy_extension option" where
  "resolveS36BuiltInAuthorityDecisionPolicyExtensionV1 digest base =
     (if base = S35_DIGEST then Some (S36_EXTENSION digest) else None)"

definition resolveAgencyQuorumRequirementByHashV02 ::
  "(quorum_requirement \<Rightarrow> string) \<Rightarrow> string \<Rightarrow> string \<Rightarrow> (quorum_requirement \<times> string) option" where
  "resolveAgencyQuorumRequirementByHashV02 digest policy quorum =
     (if policy \<noteq> S35_DIGEST then None
      else map_option (\<lambda>q. (q, quorum)) (find (\<lambda>q. digest q = quorum) (rev S36_QUORUM_REQUIREMENTS_V1)))"

definition resolveS35BuiltInActionApprovalPolicyV02 :: "policy_hashing \<Rightarrow> string \<Rightarrow> approval_policy option" where
  "resolveS35BuiltInActionApprovalPolicyV02 h digest =
     (if digest = S35_DIGEST then Some (createS35BuiltInActionApprovalPolicyV02 h) else None)"

subsection \<open>The input of a decision\<close>

record action_proposal =
  pp_id :: string
  pp_hash :: string
  pp_action_class :: action_class
  pp_kind :: policy_action_kind
  pp_class :: approval_class
  pp_digest :: string
  pp_scope :: string
  pp_dispatch :: string
  pp_pre_state :: string
  pp_rule :: string
  pp_flow :: string
  pp_tier :: risk_tier_v1

datatype recommended = RecAllow | RecAllowWithConditions | RecDeny | RecEscalate | RecAbort

record recommendation =
  re_event :: event_ref
  re_id :: string
  re_proposal :: string
  re_view :: string
  re_quorum :: string
  re_through :: event_ref
  re_role :: string
  re_identity :: string
  re_decision :: recommended
  re_conditions :: "json list"
  re_evidence :: "event_ref list"
  re_keys :: "string list"
  re_issued :: instant
  re_expires :: instant

record authority_facts =
  au_envelope_verified :: bool
  au_contained :: bool
  au_proof_fresh :: bool
  au_epoch_current :: bool

record enforcement_facts =
  en_available :: bool
  en_flow_allowed :: bool
  en_gates_passed :: bool
  en_revalidated :: bool

record decision_input =
  di_proposal :: action_proposal
  di_view :: string
  di_through :: event_ref
  di_recommendations :: "recommendation list"
  di_authority :: authority_facts
  di_enforcement :: enforcement_facts
  di_conditions :: "(string \<times> bool) list"
  di_issued :: instant
  di_expires :: instant
  di_fence :: int

definition recommendation_shape :: "recommendation \<Rightarrow> bool" where
  "recommendation_shape r \<longleftrightarrow>
     0 \<le> fst (re_event r) \<and> 0 \<le> fst (re_through r) \<and> re_evidence r \<noteq> [] \<and>
     list_all (\<lambda>e. 0 \<le> fst e) (re_evidence r) \<and> re_keys r \<noteq> []"

definition input_shape :: "decision_input \<Rightarrow> bool" where
  "input_shape inp \<longleftrightarrow>
     0 \<le> fst (di_through inp) \<and> list_all recommendation_shape (di_recommendations inp) \<and> 0 \<le> di_fence inp"

subsection \<open>The decision\<close>

record simulated_lease =
  le_proposal :: string
  le_fingerprint :: string
  le_hash :: string

record decision_branch =
  db_decision :: decision
  db_disposition :: disposition
  db_reasons :: "(string \<times> string) list"
  db_roles :: "string list"
  db_quorum :: "string option"
  db_events :: "event_ref list"
  db_conditions :: "string list"
  db_failed :: "string list"

record decision_value =
  dv_branch :: decision_branch
  dv_lease :: "simulated_lease option"
  dv_hash :: string

text \<open>\<open>dh_canonical\<close> is \<open>hashCanonical\<close>: the SHA-256 of the canonical text of a value.\<close>

record decision_hashing =
  dh_canonical :: "json \<Rightarrow> string"
  dh_lease :: "string \<times> string \<Rightarrow> string"
  dh_quorum :: "quorum_requirement \<Rightarrow> string"
  dh_condition :: "json \<Rightarrow> string"
  dh_decision :: "decision_branch \<times> simulated_lease option \<Rightarrow> string"

text \<open>The input as the object the schema returns for it, field by field.\<close>

fun action_class_name :: "action_class \<Rightarrow> string" where
  "action_class_name TaskClass = ''task''"
| "action_class_name ToolClass = ''tool''"
| "action_class_name ArtifactWriteClass = ''artifact-write''"

fun approval_class_name :: "approval_class \<Rightarrow> string" where
  "approval_class_name Automatic = ''automatic''"
| "approval_class_name Agency = ''agency''"
| "approval_class_name HumanException = ''human_exception''"
| "approval_class_name BlockedClass = ''blocked''"

fun tier_name :: "risk_tier_v1 \<Rightarrow> string" where
  "tier_name T0 = ''T0''"
| "tier_name T1 = ''T1''"
| "tier_name T2 = ''T2''"
| "tier_name T3a = ''T3a''"
| "tier_name T3b = ''T3b''"
| "tier_name T3c = ''T3c''"
| "tier_name T3d = ''T3d''"
| "tier_name T4 = ''T4''"

fun recommended_name :: "recommended \<Rightarrow> string" where
  "recommended_name RecAllow = ''allow''"
| "recommended_name RecAllowWithConditions = ''allow_with_conditions''"
| "recommended_name RecDeny = ''deny''"
| "recommended_name RecEscalate = ''escalate''"
| "recommended_name RecAbort = ''abort''"

definition ref_value :: "event_ref \<Rightarrow> json" where
  "ref_value r = JObj [(''ledger_sequence'', JInt (fst r)), (''event_hash'', JStr (snd r))]"

definition proposal_value :: "action_proposal \<Rightarrow> json" where
  "proposal_value p =
     JObj [(''action_proposal_id'', JStr (pp_id p)), (''action_proposal_hash'', JStr (pp_hash p)),
       (''action_class'', JStr (action_class_name (pp_action_class p))),
       (''policy_action_kind'', JStr (kind_name (pp_kind p))),
       (''action_approval_class'', JStr (approval_class_name (pp_class p))),
       (''policy_digest'', JStr (pp_digest p)), (''action_scope_hash'', JStr (pp_scope p)),
       (''normalized_dispatch_hash'', JStr (pp_dispatch p)), (''repository_pre_state_hash'', JStr (pp_pre_state p)),
       (''classifier_rule_hash'', JStr (pp_rule p)), (''data_flow_hash'', JStr (pp_flow p)),
       (''effective_risk_tier'', JStr (tier_name (pp_tier p)))]"

definition recommendation_value :: "recommendation \<Rightarrow> json" where
  "recommendation_value r =
     JObj [(''verified'', JBool True), (''event_ref'', ref_value (re_event r)), (''recommendation_id'', JStr (re_id r)),
       (''action_proposal_hash'', JStr (re_proposal r)), (''reviewer_view_hash'', JStr (re_view r)),
       (''quorum_requirement_hash'', JStr (re_quorum r)), (''reviewed_through_ref'', ref_value (re_through r)),
       (''evaluator_role_ref'', JStr (re_role r)), (''evaluator_stable_identity_hash'', JStr (re_identity r)),
       (''decision'', JStr (recommended_name (re_decision r))), (''conditions'', JArr (re_conditions r)),
       (''evidence_refs'', JArr (map ref_value (re_evidence r))),
       (''evidence_independence_keys'', JArr (map JStr (re_keys r))),
       (''issued_at'', JStr (fst (re_issued r))), (''expires_at'', JStr (fst (re_expires r)))]"

definition authority_value :: "authority_facts \<Rightarrow> json" where
  "authority_value a =
     JObj [(''envelope_verified'', JBool (au_envelope_verified a)), (''contained'', JBool (au_contained a)),
       (''proof_fresh'', JBool (au_proof_fresh a)), (''revocation_epoch_current'', JBool (au_epoch_current a))]"

definition enforcement_value :: "enforcement_facts \<Rightarrow> json" where
  "enforcement_value e =
     JObj [(''available'', JBool (en_available e)), (''information_flow_allowed'', JBool (en_flow_allowed e)),
       (''gates_passed'', JBool (en_gates_passed e)), (''immediate_revalidation_passed'', JBool (en_revalidated e))]"

definition condition_value :: "string \<times> bool \<Rightarrow> json" where
  "condition_value c = JObj [(''condition_hash'', JStr (fst c)), (''satisfied'', JBool (snd c))]"

definition input_fields :: "decision_input \<Rightarrow> (string \<times> json) list" where
  "input_fields inp =
     [(''proposal'', proposal_value (di_proposal inp)), (''reviewer_view_hash'', JStr (di_view inp)),
      (''reviewed_through_ref'', ref_value (di_through inp)),
      (''recommendations'', JArr (map recommendation_value (di_recommendations inp))),
      (''authority'', authority_value (di_authority inp)), (''enforcement'', enforcement_value (di_enforcement inp)),
      (''condition_results'', JArr (map condition_value (di_conditions inp))),
      (''issued_at'', JStr (fst (di_issued inp))), (''expires_at'', JStr (fst (di_expires inp))),
      (''fence_epoch'', JInt (di_fence inp))]"

definition fingerprint_value :: "decision_input \<Rightarrow> json" where
  "fingerprint_value inp =
     JObj ((''purpose'', JStr ''authority-decision-invalidation-fingerprint-v02'') # input_fields inp)"

definition authorityDecisionInputFingerprintV02 :: "decision_hashing \<Rightarrow> decision_input \<Rightarrow> string" where
  "authorityDecisionInputFingerprintV02 h inp = dh_canonical h (fingerprint_value inp)"

definition finalizeAuthorityDecisionV02 :: "decision_hashing \<Rightarrow> decision_input \<Rightarrow> decision_branch \<Rightarrow> decision_value" where
  "finalizeAuthorityDecisionV02 h inp b =
     (let fingerprint = authorityDecisionInputFingerprintV02 h inp;
          lease = (if db_decision b = Allow \<and> db_disposition b = LeaseEligible then
                     Some \<lparr>le_proposal = pp_hash (di_proposal inp), le_fingerprint = fingerprint,
                           le_hash = dh_lease h (pp_hash (di_proposal inp), fingerprint)\<rparr> else None) in
      \<lparr>dv_branch = b, dv_lease = lease, dv_hash = dh_decision h (b, lease)\<rparr>)"

definition plain_branch :: "action_proposal \<Rightarrow> decision \<Rightarrow> disposition \<Rightarrow> string \<Rightarrow> decision_branch" where
  "plain_branch p d disp reason =
     \<lparr>db_decision = d, db_disposition = disp, db_reasons = [(pp_digest p, reason)], db_roles = [], db_quorum = None,
      db_events = [], db_conditions = [], db_failed = []\<rparr>"

definition hardClosed :: "decision_input \<Rightarrow> bool" where
  "hardClosed inp \<longleftrightarrow>
     \<not> au_envelope_verified (di_authority inp) \<or> \<not> au_contained (di_authority inp) \<or>
     \<not> au_proof_fresh (di_authority inp) \<or> \<not> au_epoch_current (di_authority inp) \<or>
     \<not> en_available (di_enforcement inp) \<or> \<not> en_flow_allowed (di_enforcement inp) \<or>
     \<not> en_gates_passed (di_enforcement inp) \<or> \<not> en_revalidated (di_enforcement inp) \<or>
     snd (di_issued inp) \<ge> snd (di_expires inp)"

text \<open>A recommendation counts if it is about this proposal, view and quorum, in its place and its time.\<close>

definition recommendation_counts ::
  "decision_input \<Rightarrow> quorum_requirement \<Rightarrow> string \<Rightarrow> nat \<times> recommendation \<Rightarrow> bool" where
  "recommendation_counts inp q qh ir \<longleftrightarrow>
     (let r = snd ir in
      re_proposal r = pp_hash (di_proposal inp) \<and> re_view r = di_view inp \<and> re_quorum r = qh \<and>
      re_through r = di_through inp \<and> fst (re_event r) = fst (di_through inp) + int (fst ir) + 1 \<and>
      snd (re_issued r) \<le> snd (di_issued inp) \<and> snd (di_issued inp) < snd (re_expires r) \<and>
      snd (re_expires r) - snd (re_issued r) \<le> qr_ttl_ms q \<and>
      length (re_evidence r) \<ge> qr_minimum_evidence q \<and> length (re_keys r) \<ge> qr_minimum_evidence q)"

definition completeWindow :: "decision_input \<Rightarrow> quorum_requirement \<Rightarrow> string \<Rightarrow> bool" where
  "completeWindow inp q qh \<longleftrightarrow>
     (let recs = di_recommendations inp; roots = uniq (map re_identity recs); roles = map re_role recs in
      length recs = length (qr_roles q) \<and> length recs \<ge> qr_minimum_allow q \<and> length roots = length recs \<and>
      length roots \<ge> qr_minimum_roots q \<and>
      list_all (\<lambda>role. length (filter (\<lambda>x. x = role) roles) = 1) (qr_roles q) \<and>
      list_all (\<lambda>role. role \<in> set (qr_roles q)) roles \<and>
      list_all (recommendation_counts inp q qh) (enumerate 0 recs))"

definition combined_decision :: "recommendation list \<Rightarrow> decision" where
  "combined_decision recs =
     (if list_ex (\<lambda>r. re_decision r = RecAbort) recs then AbortDecision
      else if list_ex (\<lambda>r. re_decision r = RecDeny) recs then Deny
      else if list_ex (\<lambda>r. re_decision r = RecEscalate) recs then Escalate else Allow)"

definition condition_hashes :: "decision_hashing \<Rightarrow> recommendation list \<Rightarrow> string list" where
  "condition_hashes h recs = sort (uniq (concat (map (\<lambda>r. map (dh_condition h) (re_conditions r)) recs)))"

definition failed_conditions :: "decision_input \<Rightarrow> string list \<Rightarrow> string list" where
  "failed_conditions inp hashes =
     filter (\<lambda>x. \<not> list_ex (\<lambda>c. fst c = x \<and> snd c) (di_conditions inp)) hashes"

fun combined_disposition :: "decision \<Rightarrow> disposition" where
  "combined_disposition AbortDecision = AbortRun"
| "combined_disposition Deny = ProposalFinal"
| "combined_disposition Escalate = HumanExceptionRequired"
| "combined_disposition _ = LeaseEligible"

fun decision_name :: "decision \<Rightarrow> string" where
  "decision_name Allow = ''allow''"
| "decision_name Deny = ''deny''"
| "decision_name Escalate = ''escalate''"
| "decision_name AbortDecision = ''abort''"
| "decision_name HoldDecision = ''hold''"

definition agency_branch ::
  "decision_hashing \<Rightarrow> decision_input \<Rightarrow> quorum_requirement \<Rightarrow> decision_branch" where
  "agency_branch h inp q =
     (let p = di_proposal inp; recs = di_recommendations inp; qh = dh_quorum h q;
          branch = \<lambda>d disp reason conditions failed.
            \<lparr>db_decision = d, db_disposition = disp, db_reasons = [(pp_digest p, reason)], db_roles = qr_roles q,
             db_quorum = Some qh, db_events = map re_event recs, db_conditions = conditions, db_failed = failed\<rparr>;
          hashes = condition_hashes h recs; failed = failed_conditions inp hashes; combined = combined_decision recs in
      if hardClosed inp \<or> \<not> completeWindow inp q qh then
        branch HoldDecision NonResumable ''decision-agency-quorum-hold'' [] []
      else if combined = Allow \<and> failed \<noteq> [] then
        branch HoldDecision RedecideAfterPrefixChange ''decision-agency-condition-hold'' hashes failed
      else branch combined (combined_disposition combined) (''decision-agency-'' @ decision_name combined) hashes [])"

definition decision_branch_of :: "decision_hashing \<Rightarrow> decision_input \<Rightarrow> decision_branch option" where
  "decision_branch_of h inp =
     (let p = di_proposal inp in
      case pp_class p of
        BlockedClass \<Rightarrow> Some (plain_branch p HoldDecision NonResumable ''decision-blocked-hold'')
      | HumanException \<Rightarrow> Some (plain_branch p HoldDecision NonResumable ''decision-human-exception-hold'')
      | Automatic \<Rightarrow>
          if hardClosed inp \<or> pp_kind p \<notin> {Planning, LocalRead, DeterministicCheck}
          then Some (plain_branch p HoldDecision NonResumable ''decision-automatic-enforcement-hold'')
          else Some (plain_branch p Allow LeaseEligible ''decision-automatic-allow'')
      | Agency \<Rightarrow>
          map_option (agency_branch h inp)
            (resolveAgencyQuorumRequirementV02 (pp_digest p) (pp_action_class p) (pp_kind p) (pp_class p)))"

text \<open>\<^const>\<open>None\<close> is the refusal of the input.\<close>

definition simulateAuthorityDecisionV02 :: "decision_hashing \<Rightarrow> decision_input \<Rightarrow> decision_value option" where
  "simulateAuthorityDecisionV02 h inp =
     (if \<not> input_shape inp then None
      else map_option (finalizeAuthorityDecisionV02 h inp) (decision_branch_of h inp))"

definition revalidateSimulatedAuthorityLeaseV02 :: "decision_hashing \<Rightarrow> simulated_lease \<Rightarrow> decision_input \<Rightarrow> bool" where
  "revalidateSimulatedAuthorityLeaseV02 h l inp \<longleftrightarrow>
     input_shape inp \<and> en_revalidated (di_enforcement inp) \<and> le_proposal l = pp_hash (di_proposal inp) \<and>
     le_fingerprint l = authorityDecisionInputFingerprintV02 h inp \<and> le_hash l = dh_lease h (le_proposal l, le_fingerprint l)"

end
