(* ===== verification/Action_Policy_Laws.thy ===== *)
theory Action_Policy_Laws
  imports Action_Policy
begin

text \<open>
  Laws of the approval policy: the built-in policy passes its own validation, whatever the
  hashes are as long as they tell keys and rules apart, and a registered bundle is never
  replaced.
\<close>

lemma kind_name_inj: "kind_name a = kind_name b \<Longrightarrow> a = b"
proof -
  have "map_of (map (\<lambda>k. (kind_name k, k)) table_kinds) (kind_name k) = Some k" for k
    unfolding table_kinds_def by (cases k) simp_all
  then show "kind_name a = kind_name b \<Longrightarrow> a = b" by (metis option.inject)
qed

lemma distinct_POLICY_ACTION_KINDS: "distinct POLICY_ACTION_KINDS"
  unfolding POLICY_ACTION_KINDS_def distinct_sort table_kinds_def by simp

lemma adjacent_sorted:
  fixes xs :: "'a :: linorder list"
  assumes "sorted xs" and "distinct xs"
  shows "list_all (\<lambda>(a, b). a < b) (zip xs (tl xs))"
proof -
  from assms have "sorted_wrt (<) xs" by (simp add: strict_sorted_iff)
  then show ?thesis
  proof (induction xs)
    case (Cons x xs)
    then show ?case by (cases xs) auto
  qed simp
qed

lemma find_holds: "find P xs = Some x \<Longrightarrow> x \<in> set xs \<and> P x"
  by (induction xs) (auto split: if_splits)

lemma find_unique: "\<lbrakk>x \<in> set xs; P x; \<And>y. y \<in> set xs \<Longrightarrow> P y \<Longrightarrow> y = x\<rbrakk> \<Longrightarrow> find P xs = Some x"
proof (induction xs)
  case (Cons y ys)
  show ?case
  proof (cases "P y")
    case True
    with Cons.prems(3) [of y] show ?thesis by simp
  next
    case False
    with Cons.prems(1,2) have "x \<in> set ys" by auto
    from Cons.IH [OF this Cons.prems(2)] Cons.prems(3) False show ?thesis by simp
  qed
qed simp

subsection \<open>The built-in policy\<close>

definition built_in_rules :: "policy_hashing \<Rightarrow> classifier_rule list" where
  "built_in_rules h = sort_key (ph_key h \<circ> ar_key) (map (built_in_rule h) POLICY_ACTION_KINDS)"

lemma built_in_rules_mem: "r \<in> set (built_in_rules h) \<longleftrightarrow> (\<exists>k. r = built_in_rule h k)"
  by (auto simp: built_in_rules_def image_iff)

lemma built_in_rule_fields [simp]:
  "ar_kind (built_in_rule h k) = k" "ar_class (built_in_rule h k) = POLICY_CLASS_BY_ACTION_KIND k"
  "cl_capability (ar_key (built_in_rule h k)) = kind_name k @ ''-action''"
  "ar_hash (built_in_rule h k) = ph_rule h (ar_key (built_in_rule h k), k, POLICY_CLASS_BY_ACTION_KIND k)"
  by (simp_all add: built_in_rule_def builtInRuleKey_def Let_def)

text \<open>
  The policy that is built in passes the validation every captured bundle has to pass: each
  kind has one entry of its class, resolved by one rule of the same kind and class.
\<close>

theorem built_in_policy_valid:
  assumes keys: "\<And>k1 k2. ph_key h k1 = ph_key h k2 \<Longrightarrow> cl_capability k1 = cl_capability k2"
    and rules: "\<And>k1 a1 c1 k2 a2 c2. ph_rule h (k1, a1, c1) = ph_rule h (k2, a2, c2) \<Longrightarrow> a1 = a2 \<and> c1 = c2"
  shows "validatePolicy h (createS35BuiltInActionApprovalPolicyV02 h) = None"
proof -
  let ?rules = "built_in_rules h"
  have inj: "inj (built_in_rule h)" by (metis injI built_in_rule_fields(1))
  have key_inj: "inj_on (ph_key h \<circ> ar_key) (set (map (built_in_rule h) POLICY_ACTION_KINDS))"
  proof (rule inj_onI)
    fix r1 r2 assume "r1 \<in> set (map (built_in_rule h) POLICY_ACTION_KINDS)" "r2 \<in> set (map (built_in_rule h) POLICY_ACTION_KINDS)"
      and eq: "(ph_key h \<circ> ar_key) r1 = (ph_key h \<circ> ar_key) r2"
    then obtain k1 k2 where r: "r1 = built_in_rule h k1" "r2 = built_in_rule h k2" by auto
    from keys [OF eq [unfolded comp_apply]] have "kind_name k1 = kind_name k2" by (simp add: r)
    with r show "r1 = r2" by (auto dest: kind_name_inj)
  qed
  have "distinct (map (built_in_rule h) POLICY_ACTION_KINDS)"
    by (metis distinct_POLICY_ACTION_KINDS inj distinct_map inj_on_subset subset_UNIV)
  then have d: "distinct (map (ph_key h \<circ> ar_key) ?rules)"
    using key_inj unfolding built_in_rules_def distinct_map [of "ph_key h \<circ> ar_key"] by simp
  moreover have "sorted (map (ph_key h \<circ> ar_key) ?rules)" unfolding built_in_rules_def by simp
  ultimately have adjacent: "list_all (\<lambda>(a, b). a < b) (zip (map (ph_key h \<circ> ar_key) ?rules) (tl (map (ph_key h \<circ> ar_key) ?rules)))"
    by (intro adjacent_sorted)
  have hashes: "list_all (rule_hash_ok h) ?rules" by (auto simp: list_all_iff built_in_rules_mem rule_hash_ok_def)
  have found: "find (\<lambda>r. ar_kind r = k) ?rules = Some (built_in_rule h k)" for k
    by (rule find_unique) (auto simp: built_in_rules_mem)
  have resolves: "entry_resolves ?rules (built_in_entry ?rules k)" for k
  proof -
    let ?x = "ar_hash (built_in_rule h k)"
    have "\<exists>r\<in>set (rev ?rules). ar_hash r = ?x" by (intro bexI [of _ "built_in_rule h k"]) (auto simp: built_in_rules_mem)
    then obtain r where r: "find (\<lambda>r. ar_hash r = ?x) (rev ?rules) = Some r"
      by (cases "find (\<lambda>r. ar_hash r = ?x) (rev ?rules)") (auto simp: find_None_iff)
    from find_holds [OF r] have "r \<in> set ?rules" "ar_hash r = ?x" by simp_all
    then obtain k' where "r = built_in_rule h k'" "ar_hash r = ?x" by (auto simp: built_in_rules_mem)
    with rules have "ar_kind r = k \<and> ar_class r = POLICY_CLASS_BY_ACTION_KIND k" by auto
    with r found show ?thesis by (simp add: entry_resolves_def rule_by_hash_def built_in_entry_def)
  qed
  have canonical: "list_all entry_canonical (zip (map (built_in_entry ?rules) POLICY_ACTION_KINDS) POLICY_ACTION_KINDS)"
    by (simp add: zip_map1 zip_same_conv_map list_all_iff entry_canonical_def built_in_entry_def)
  show ?thesis
    unfolding createS35BuiltInActionApprovalPolicyV02_def Let_def built_in_rules_def [symmetric] validatePolicy_def
    using d adjacent hashes resolves canonical by (simp add: list_all_iff bundle_digest_def)
qed

definition demo_policy_hashing :: policy_hashing where
  "demo_policy_hashing =
     \<lparr>ph_key = cl_capability, ph_rule = \<lambda>(_, k, c). kind_name k @ (case c of Automatic \<Rightarrow> ''/a'' | Agency \<Rightarrow> ''/b''
        | HumanException \<Rightarrow> ''/c'' | BlockedClass \<Rightarrow> ''/d''),
      ph_rules = \<lambda>rs. concat (map ar_hash rs), ph_registry = \<lambda>p. ''registry'', ph_bundle = \<lambda>p. po_hash p,
      ph_adapter = \<lambda>a. a, ph_capability = \<lambda>p. kind_name (fst p)\<rparr>"

lemma demo_rule_inj:
  "ph_rule demo_policy_hashing (k1, a1, c1) = ph_rule demo_policy_hashing (k2, a2, c2) \<Longrightarrow> a1 = a2 \<and> c1 = c2"
  by (cases c1; cases c2) (auto simp: demo_policy_hashing_def dest: kind_name_inj)

lemma built_in_policy_valid_witness:
  "validatePolicy demo_policy_hashing (createS35BuiltInActionApprovalPolicyV02 demo_policy_hashing) = None"
  by (rule built_in_policy_valid) (use demo_rule_inj in \<open>simp_all add: demo_policy_hashing_def\<close>)

subsection \<open>The registry\<close>

text \<open>What the bundles of a host satisfy: everything admitted or registered is valid under its digest.\<close>

definition bundles_valid :: "policy_hashing \<Rightarrow> bundles \<Rightarrow> bool" where
  "bundles_valid h b \<longleftrightarrow>
     (\<forall>i p. (i, p) \<in> set (bu_admitted b) \<longrightarrow> validatePolicy h p = None) \<and>
     (\<forall>d p. (d, p) \<in> set (bu_registry b) \<longrightarrow> po_digest p = d \<and> validatePolicy h p = None)"

lemma step_registry:
  assumes "bundle_step h b b'" and "resolveImmutableActionApprovalPolicyV02 d b = Some p"
  shows "resolveImmutableActionApprovalPolicyV02 d b' = Some p"
  using assms
  by (auto elim!: bundle_stepE simp: admitHostCapturedPolicyBundleV02_def registerHostCapturedPolicyBundleV02_def
      resolveImmutableActionApprovalPolicyV02_def Let_def split: if_splits option.splits)

lemma step_valid:
  assumes "bundle_step h b b'" and "bundles_valid h b"
  shows "bundles_valid h b'"
  using assms
  by (auto elim!: bundle_stepE simp: admitHostCapturedPolicyBundleV02_def registerHostCapturedPolicyBundleV02_def
      bundles_valid_def Let_def dest!: map_of_SomeD split: if_splits option.splits)

text \<open>
  C40: from the built-in policy on, whatever a host admits and registers, every policy in the
  registry is valid and stands under its own digest, and a digest that resolves once resolves
  to the same policy ever after.
\<close>

theorem registered_policies_immutable:
  assumes start: "validatePolicy h builtin = None" and reached: "(bundle_step h)\<^sup>*\<^sup>* (bundles_start builtin) b"
    and resolved: "resolveImmutableActionApprovalPolicyV02 d b = Some p" and later: "(bundle_step h)\<^sup>*\<^sup>* b b'"
  shows "po_digest p = d \<and> validatePolicy h p = None \<and> resolveImmutableActionApprovalPolicyV02 d b' = Some p"
proof -
  from reached have "bundles_valid h b"
  proof (induction rule: rtranclp_induct)
    case base
    then show ?case using start by (simp add: bundles_valid_def bundles_start_def)
  next
    case (step y z)
    then show ?case by (blast intro: step_valid)
  qed
  then have "po_digest p = d \<and> validatePolicy h p = None"
    using resolved by (auto simp: bundles_valid_def resolveImmutableActionApprovalPolicyV02_def dest: map_of_SomeD)
  moreover from later resolved have "resolveImmutableActionApprovalPolicyV02 d b' = Some p"
  proof (induction rule: rtranclp_induct)
    case (step y z)
    then show ?case by (blast intro: step_registry)
  qed
  ultimately show ?thesis by blast
qed

lemma registered_policies_immutable_witness:
  "resolveImmutableActionApprovalPolicyV02 (po_digest (createS35BuiltInActionApprovalPolicyV02 demo_policy_hashing))
     (snd (admitHostCapturedPolicyBundleV02 demo_policy_hashing (createS35BuiltInActionApprovalPolicyV02 demo_policy_hashing)
        (po_digest (createS35BuiltInActionApprovalPolicyV02 demo_policy_hashing))
        (bundles_start (createS35BuiltInActionApprovalPolicyV02 demo_policy_hashing)))) =
   Some (createS35BuiltInActionApprovalPolicyV02 demo_policy_hashing)"
proof -
  let ?p = "createS35BuiltInActionApprovalPolicyV02 demo_policy_hashing"
  have valid: "validatePolicy demo_policy_hashing ?p = None"
    by (rule built_in_policy_valid) (use demo_rule_inj in \<open>simp_all add: demo_policy_hashing_def\<close>)
  have "resolveImmutableActionApprovalPolicyV02 (po_digest ?p) (bundles_start ?p) = Some ?p"
    by (simp add: resolveImmutableActionApprovalPolicyV02_def bundles_start_def)
  moreover have "bundle_step demo_policy_hashing (bundles_start ?p)
      (snd (admitHostCapturedPolicyBundleV02 demo_policy_hashing ?p (po_digest ?p) (bundles_start ?p)))"
    by (rule bundle_step.admit) (rule prod.collapse [symmetric])
  ultimately show ?thesis
    using registered_policies_immutable [OF valid rtranclp.rtrancl_refl] by blast
qed

end
