(* ===== verification/Authority_Laws.thy ===== *)
theory Authority_Laws
  imports Authority Action_Policy_Laws "HOL-Library.Multiset"
begin

text \<open>
  Laws of the decision point: exactly when a lease is granted, that the kind of a leased
  action has the class it was proposed under, that every reason is one the release declares
  for its decision, and that a lease is valid for the input it was granted on only.
\<close>

subsection \<open>Quorums\<close>

lemma resolved_quorum:
  assumes "resolveAgencyQuorumRequirementV02 digest c k cls = Some q"
  shows "digest = S35_DIGEST" "cls = Agency" "POLICY_CLASS_BY_ACTION_KIND k = Agency"
    "qr_roles q = AUTHORITY_REVIEWER_ROLES_V1" "qr_minimum_allow q = 4" "qr_minimum_roots q = 4"
    "qr_minimum_evidence q = 1" "qr_ttl_ms q = 300000"
  using assms
  by (auto simp: resolveAgencyQuorumRequirementV02_def S36_QUORUM_REQUIREMENTS_V1_def createQuorumRequirement_def
      split: if_splits)

lemma resolved_class:
  "resolveAgencyQuorumRequirementV02 digest c k cls = Some q \<Longrightarrow> cls = Agency \<and> POLICY_CLASS_BY_ACTION_KIND k = Agency"
  using resolved_quorum(2,3) by blast

lemma roles_distinct: "distinct AUTHORITY_REVIEWER_ROLES_V1"
  by (simp add: AUTHORITY_REVIEWER_ROLES_V1_def)

lemma uniq_length: "length (uniq xs) = length xs \<longleftrightarrow> distinct xs"
proof
  assume "length (uniq xs) = length xs"
  then have "card (set xs) = length xs" by (metis distinct_card distinct_uniq set_uniq)
  then show "distinct xs" by (rule card_distinct)
next
  assume "distinct xs"
  then show "length (uniq xs) = length xs" by (metis distinct_card distinct_uniq set_uniq)
qed

lemma each_role_once:
  assumes "distinct qs"
  shows "length roles = length qs \<and> list_all (\<lambda>q. length (filter (\<lambda>x. x = q) roles) = 1) qs \<and>
      list_all (\<lambda>x. x \<in> set qs) roles \<longleftrightarrow> mset roles = mset qs"
proof
  assume l: "length roles = length qs \<and> list_all (\<lambda>q. length (filter (\<lambda>x. x = q) roles) = 1) qs \<and>
      list_all (\<lambda>x. x \<in> set qs) roles"
  show "mset roles = mset qs"
  proof (rule multiset_eqI)
    fix x
    have c: "count (mset roles) x = length (filter (\<lambda>y. y = x) roles)"
      by (induction roles) auto
    show "count (mset roles) x = count (mset qs) x"
    proof (cases "x \<in> set qs")
      case True
      with l c assms show ?thesis by (auto simp: list_all_iff distinct_count_atmost_1)
    next
      case False
      with l have "x \<notin> set roles" by (auto simp: list_all_iff)
      with False show ?thesis by (metis count_mset_0_iff)
    qed
  qed
next
  assume m: "mset roles = mset qs"
  have c: "count (mset roles) x = length (filter (\<lambda>y. y = x) roles)" for x
    by (induction roles) auto
  have "length (filter (\<lambda>x. x = q) roles) = 1" if "q \<in> set qs" for q
    using c [of q] m assms that by (simp add: distinct_count_atmost_1)
  then show "length roles = length qs \<and> list_all (\<lambda>q. length (filter (\<lambda>x. x = q) roles) = 1) qs \<and>
      list_all (\<lambda>x. x \<in> set qs) roles"
    using m by (auto simp: list_all_iff dest: mset_eq_length mset_eq_setD)
qed

lemma completeWindow_iff:
  assumes "resolveAgencyQuorumRequirementV02 digest c k cls = Some q"
  shows "completeWindow inp q qh \<longleftrightarrow>
    mset (map re_role (di_recommendations inp)) = mset AUTHORITY_REVIEWER_ROLES_V1 \<and>
    distinct (map re_identity (di_recommendations inp)) \<and>
    list_all (recommendation_counts inp q qh) (enumerate 0 (di_recommendations inp))"
proof -
  note q = resolved_quorum [OF assms]
  have four: "length AUTHORITY_REVIEWER_ROLES_V1 = 4" by (simp add: AUTHORITY_REVIEWER_ROLES_V1_def)
  have u: "length (uniq (map re_identity (di_recommendations inp))) = length (di_recommendations inp) \<longleftrightarrow>
      distinct (map re_identity (di_recommendations inp))"
    using uniq_length [of "map re_identity (di_recommendations inp)"] by simp
  show ?thesis
    unfolding completeWindow_def Let_def q four
    using each_role_once [OF roles_distinct, of "map re_role (di_recommendations inp)"] u four by auto
qed

subsection \<open>When a lease is granted\<close>

lemma lease_of_final:
  "dv_lease (finalizeAuthorityDecisionV02 h inp b) =
     (if db_decision b = Allow \<and> db_disposition b = LeaseEligible then
        Some \<lparr>le_proposal = pp_hash (di_proposal inp), le_fingerprint = authorityDecisionInputFingerprintV02 h inp,
              le_hash = dh_lease h (pp_hash (di_proposal inp), authorityDecisionInputFingerprintV02 h inp)\<rparr> else None)"
  by (simp add: finalizeAuthorityDecisionV02_def Let_def)

lemma combined_allow:
  "combined_decision recs = Allow \<longleftrightarrow> list_all (\<lambda>r. re_decision r = RecAllow \<or> re_decision r = RecAllowWithConditions) recs"
proof -
  have "re_decision r = RecAllow \<or> re_decision r = RecAllowWithConditions \<longleftrightarrow>
      re_decision r \<noteq> RecAbort \<and> re_decision r \<noteq> RecDeny \<and> re_decision r \<noteq> RecEscalate" for r
    by (cases "re_decision r") auto
  then show ?thesis by (auto simp: combined_decision_def list_ex_iff list_all_iff)
qed

lemma combined_disposition_lease: "combined_disposition d = LeaseEligible \<and> d = Allow \<longleftrightarrow> d = Allow"
  by auto

lemma satisfied_condition: "list_ex (\<lambda>c. fst c = x \<and> snd c) cs \<longleftrightarrow> (x, True) \<in> set cs"
  by (induction cs) auto

lemma no_failed_conditions:
  "failed_conditions inp (condition_hashes h recs) = [] \<longleftrightarrow>
     list_all (\<lambda>r. list_all (\<lambda>c. (dh_condition h c, True) \<in> set (di_conditions inp)) (re_conditions r)) recs"
  by (auto simp: failed_conditions_def condition_hashes_def satisfied_condition filter_empty_conv list_all_iff)

lemma agency_allows:
  "db_decision (agency_branch h inp q) = Allow \<and> db_disposition (agency_branch h inp q) = LeaseEligible \<longleftrightarrow>
     \<not> hardClosed inp \<and> completeWindow inp q (dh_quorum h q) \<and>
     combined_decision (di_recommendations inp) = Allow \<and>
     failed_conditions inp (condition_hashes h (di_recommendations inp)) = []"
  by (cases "combined_decision (di_recommendations inp)") (auto simp: agency_branch_def Let_def)

lemma decision_not_allowed: "decision_branch_of h inp = None \<Longrightarrow> \<not> (\<exists>v. simulateAuthorityDecisionV02 h inp = Some v)"
  by (simp add: simulateAuthorityDecisionV02_def)

text \<open>The conditions for a lease, stated over the recommendations as a multiset of roles and a set of verdicts.\<close>

definition lease_conditions :: "decision_hashing \<Rightarrow> decision_input \<Rightarrow> bool" where
  "lease_conditions h inp \<longleftrightarrow>
     input_shape inp \<and> \<not> hardClosed inp \<and>
     (pp_class (di_proposal inp) = Automatic \<and> pp_kind (di_proposal inp) \<in> {Planning, LocalRead, DeterministicCheck} \<or>
      (\<exists>q. resolveAgencyQuorumRequirementV02 (pp_digest (di_proposal inp)) (pp_action_class (di_proposal inp))
               (pp_kind (di_proposal inp)) (pp_class (di_proposal inp)) = Some q \<and>
         mset (map re_role (di_recommendations inp)) = mset AUTHORITY_REVIEWER_ROLES_V1 \<and>
         distinct (map re_identity (di_recommendations inp)) \<and>
         list_all (recommendation_counts inp q (dh_quorum h q)) (enumerate 0 (di_recommendations inp)) \<and>
         list_all (\<lambda>r. re_decision r = RecAllow \<or> re_decision r = RecAllowWithConditions) (di_recommendations inp) \<and>
         list_all (\<lambda>r. list_all (\<lambda>c. (dh_condition h c, True) \<in> set (di_conditions inp)) (re_conditions r))
           (di_recommendations inp)))"

lemma lease_iff_conditions:
  "(\<exists>v. simulateAuthorityDecisionV02 h inp = Some v \<and> dv_lease v \<noteq> None) \<longleftrightarrow> lease_conditions h inp"
proof (cases "pp_class (di_proposal inp)")
  case Automatic
  then show ?thesis unfolding lease_conditions_def
    by (auto simp: simulateAuthorityDecisionV02_def decision_branch_of_def Let_def lease_of_final plain_branch_def
        dest: resolved_quorum(2))
next
  case Agency
  show ?thesis
  proof (cases "resolveAgencyQuorumRequirementV02 (pp_digest (di_proposal inp)) (pp_action_class (di_proposal inp))
      (pp_kind (di_proposal inp)) (pp_class (di_proposal inp))")
    case None
    with Agency show ?thesis unfolding lease_conditions_def by (simp add: simulateAuthorityDecisionV02_def decision_branch_of_def Let_def)
  next
    case (Some q)
    from completeWindow_iff [OF Some] agency_allows [of h inp q] combined_allow no_failed_conditions [of inp h]
    show ?thesis unfolding lease_conditions_def using Agency Some
      by (auto simp: simulateAuthorityDecisionV02_def decision_branch_of_def Let_def lease_of_final)
  qed
next
  case HumanException
  then show ?thesis unfolding lease_conditions_def
    by (auto simp: simulateAuthorityDecisionV02_def decision_branch_of_def Let_def lease_of_final plain_branch_def
        dest: resolved_quorum(2))
next
  case BlockedClass
  then show ?thesis unfolding lease_conditions_def
    by (auto simp: simulateAuthorityDecisionV02_def decision_branch_of_def Let_def lease_of_final plain_branch_def
        dest: resolved_quorum(2))
qed

text \<open>
  C38: a lease is granted in two cases only, both with every authority and enforcement fact in
  place and time left: for an automatic action of an automatic kind; or for an agency action
  of the release's table that exactly the four reviewer roles, with four identities, each
  reviewed on this prefix and in time, that all of them allow, and whose conditions all hold.
\<close>

theorem lease_granted_iff:
  "(\<exists>v. simulateAuthorityDecisionV02 h inp = Some v \<and> dv_lease v \<noteq> None) \<longleftrightarrow>
     input_shape inp \<and> \<not> hardClosed inp \<and>
     (pp_class (di_proposal inp) = Automatic \<and> pp_kind (di_proposal inp) \<in> {Planning, LocalRead, DeterministicCheck} \<or>
      (\<exists>q. resolveAgencyQuorumRequirementV02 (pp_digest (di_proposal inp)) (pp_action_class (di_proposal inp))
               (pp_kind (di_proposal inp)) (pp_class (di_proposal inp)) = Some q \<and>
         mset (map re_role (di_recommendations inp)) = mset AUTHORITY_REVIEWER_ROLES_V1 \<and>
         distinct (map re_identity (di_recommendations inp)) \<and>
         list_all (recommendation_counts inp q (dh_quorum h q)) (enumerate 0 (di_recommendations inp)) \<and>
         list_all (\<lambda>r. re_decision r = RecAllow \<or> re_decision r = RecAllowWithConditions) (di_recommendations inp) \<and>
         list_all (\<lambda>r. list_all (\<lambda>c. (dh_condition h c, True) \<in> set (di_conditions inp)) (re_conditions r))
           (di_recommendations inp)))"
  unfolding lease_iff_conditions by (simp only: lease_conditions_def)

text \<open>The class a leased action was proposed under is the class of its kind in the policy table.\<close>

lemma leased_kind_has_class:
  assumes "simulateAuthorityDecisionV02 h inp = Some v" and "dv_lease v \<noteq> None"
  shows "POLICY_CLASS_BY_ACTION_KIND (pp_kind (di_proposal inp)) = pp_class (di_proposal inp) \<and>
    pp_class (di_proposal inp) \<in> {Automatic, Agency}"
proof -
  have "\<exists>v. simulateAuthorityDecisionV02 h inp = Some v \<and> dv_lease v \<noteq> None" using assms by blast
  then show ?thesis unfolding lease_iff_conditions lease_conditions_def by (auto dest: resolved_class)
qed

subsection \<open>Reasons\<close>

lemma reasons_resolve:
  "authorityPolicyReasonRefIsCompatibleV02 S35_DIGEST ref PolicyDecisionRecord d \<longleftrightarrow>
     (case map_of (rev S36_REASON_DECLARATIONS_V1) ref of None \<Rightarrow> False | Some (k, ds) \<Rightarrow> k = PolicyDecisionRecord \<and> d \<in> set ds)"
  by (simp add: authorityPolicyReasonRefIsCompatibleV02_def resolveAuthorityPolicyReasonDeclarationV02_def)

text \<open>
  Under the release's policy every decision carries one reason, and the release declares that
  reason for policy decisions of exactly this outcome.
\<close>

theorem decision_reason_declared:
  assumes "simulateAuthorityDecisionV02 h inp = Some v" and "pp_digest (di_proposal inp) = S35_DIGEST"
  shows "\<exists>ref. db_reasons (dv_branch v) = [(S35_DIGEST, ref)] \<and>
    authorityPolicyReasonRefIsCompatibleV02 S35_DIGEST ref PolicyDecisionRecord (decision_name (db_decision (dv_branch v)))"
proof -
  from assms(1) obtain b where b: "decision_branch_of h inp = Some b" and v: "dv_branch v = b"
    by (auto simp: simulateAuthorityDecisionV02_def finalizeAuthorityDecisionV02_def Let_def split: if_splits)
  have combined: "combined_decision recs \<noteq> HoldDecision" for recs by (simp add: combined_decision_def)
  have agency: "\<exists>ref. db_reasons (agency_branch h inp q) = [(S35_DIGEST, ref)] \<and>
      authorityPolicyReasonRefIsCompatibleV02 S35_DIGEST ref PolicyDecisionRecord
        (decision_name (db_decision (agency_branch h inp q)))" for q
    using combined [of "di_recommendations inp"] assms(2)
    by (cases "combined_decision (di_recommendations inp)")
      (simp_all add: agency_branch_def Let_def reasons_resolve S36_REASON_DECLARATIONS_V1_def)
  let ?declared = "\<lambda>b. \<exists>ref. db_reasons b = [(S35_DIGEST, ref)] \<and>
      authorityPolicyReasonRefIsCompatibleV02 S35_DIGEST ref PolicyDecisionRecord (decision_name (db_decision b))"
  have plain: "?declared (plain_branch (di_proposal inp) HoldDecision NonResumable ''decision-blocked-hold'')"
    "?declared (plain_branch (di_proposal inp) HoldDecision NonResumable ''decision-human-exception-hold'')"
    "?declared (plain_branch (di_proposal inp) HoldDecision NonResumable ''decision-automatic-enforcement-hold'')"
    "?declared (plain_branch (di_proposal inp) Allow LeaseEligible ''decision-automatic-allow'')"
    using assms(2) by (simp_all add: plain_branch_def reasons_resolve S36_REASON_DECLARATIONS_V1_def)
  have "?declared b"
  proof (cases "pp_class (di_proposal inp)")
    case Automatic
    with b have "b = plain_branch (di_proposal inp) HoldDecision NonResumable ''decision-automatic-enforcement-hold'' \<or>
        b = plain_branch (di_proposal inp) Allow LeaseEligible ''decision-automatic-allow''"
      by (simp add: decision_branch_of_def Let_def split: if_splits)
    with plain(3,4) show ?thesis by (elim disjE) (simp_all only:)
  next
    case Agency
    with b obtain q where "b = agency_branch h inp q" by (auto simp: decision_branch_of_def Let_def)
    with agency [of q] show ?thesis by (simp only:)
  next
    case HumanException
    with b have "b = plain_branch (di_proposal inp) HoldDecision NonResumable ''decision-human-exception-hold''"
      by (simp add: decision_branch_of_def Let_def)
    with plain(2) show ?thesis by (simp only:)
  next
    case BlockedClass
    with b have "b = plain_branch (di_proposal inp) HoldDecision NonResumable ''decision-blocked-hold''"
      by (simp add: decision_branch_of_def Let_def)
    with plain(1) show ?thesis by (simp only:)
  qed
  then show ?thesis by (simp only: v)
qed

subsection \<open>Revalidation\<close>

text \<open>
  Two values have one canonical text exactly if they agree up to the order of the properties of
  their objects, that is, if they agree once all properties are in the order of their keys.
\<close>

primrec canonical_form :: "json \<Rightarrow> json" where
  "canonical_form JNull = JNull"
| "canonical_form (JBool b) = JBool b"
| "canonical_form (JInt n) = JInt n"
| "canonical_form (JFrac s) = JFrac s"
| "canonical_form (JStr s) = JStr s"
| "canonical_form (JArr xs) = JArr (map canonical_form xs)"
| "canonical_form (JObj fs) = JObj (sort_key fst (map (map_prod id canonical_form) fs))"

text \<open>Two objects with the same distinct keys have one canonical form only if their values do.\<close>

lemma same_keys_same_set:
  "map fst xs = map fst ys \<Longrightarrow> distinct (map fst xs) \<Longrightarrow> set xs = set ys \<Longrightarrow> xs = ys"
proof (induction xs arbitrary: ys)
  case (Cons x xs)
  from Cons.prems(1) obtain y zs where ys: "ys = y # zs" "fst y = fst x" "map fst xs = map fst zs" by (cases ys) auto
  from Cons.prems(2) ys have fresh: "fst x \<notin> fst ` set xs" "fst x \<notin> fst ` set zs" by (auto simp flip: set_map)
  from Cons.prems(3) have both: "insert x (set xs) = insert y (set zs)" by (simp add: ys)
  then have xy: "x = y" using fresh(2) by blast
  have rest: "set xs = set zs"
  proof (rule insert_ident [THEN iffD1])
    show "x \<notin> set xs" "x \<notin> set zs" using fresh by auto
    show "insert x (set xs) = insert x (set zs)" using both by (simp only: xy)
  qed
  from Cons.prems(2) have "distinct (map fst xs)" by simp
  from Cons.IH [OF ys(3) this rest] xy ys(1) show ?case by simp
qed simp

lemma canonical_objects:
  assumes "map fst fs = map fst gs" and "distinct (map fst fs)"
  shows "canonical_form (JObj fs) = canonical_form (JObj gs) \<longleftrightarrow>
    map (canonical_form \<circ> snd) fs = map (canonical_form \<circ> snd) gs"
proof
  let ?n = "map (map_prod id canonical_form)"
  have keys: "map fst (?n fs) = map fst (?n gs)" "distinct (map fst (?n fs))"
    using assms by (simp_all add: comp_def)
  assume "canonical_form (JObj fs) = canonical_form (JObj gs)"
  then have "sort_key fst (?n fs) = sort_key fst (?n gs)" by simp
  then have "set (?n fs) = set (?n gs)" by (metis set_sort)
  from same_keys_same_set [OF keys this] have "map snd (?n fs) = map snd (?n gs)" by (rule arg_cong)
  then show "map (canonical_form \<circ> snd) fs = map (canonical_form \<circ> snd) gs" by (simp add: comp_def)
next
  assume vals: "map (canonical_form \<circ> snd) fs = map (canonical_form \<circ> snd) gs"
  have zip: "map (map_prod id canonical_form) xs = zip (map fst xs) (map (canonical_form \<circ> snd) xs)" for xs
    by (induction xs) auto
  show "canonical_form (JObj fs) = canonical_form (JObj gs)"
    by (simp only: canonical_form.simps zip assms(1) vals)
qed

text \<open>What the written values say of the records.\<close>

lemma names_inj [simp]:
  "action_class_name c = action_class_name c' \<longleftrightarrow> c = c'"
  "approval_class_name a = approval_class_name a' \<longleftrightarrow> a = a'"
  "tier_name t = tier_name t' \<longleftrightarrow> t = t'"
  "recommended_name d = recommended_name d' \<longleftrightarrow> d = d'"
  "kind_name k = kind_name k' \<longleftrightarrow> k = k'"
proof -
  show "action_class_name c = action_class_name c' \<longleftrightarrow> c = c'" by (cases c; cases c') simp_all
  show "approval_class_name a = approval_class_name a' \<longleftrightarrow> a = a'" by (cases a; cases a') simp_all
  show "tier_name t = tier_name t' \<longleftrightarrow> t = t'" by (cases t; cases t') simp_all
  show "recommended_name d = recommended_name d' \<longleftrightarrow> d = d'" by (cases d; cases d') simp_all
  show "kind_name k = kind_name k' \<longleftrightarrow> k = k'" using kind_name_inj by blast
qed

lemma ref_written [simp]: "canonical_form (ref_value r) = canonical_form (ref_value r') \<longleftrightarrow> r = r'"
  by (simp add: ref_value_def canonical_objects prod_eq_iff del: canonical_form.simps(7))

lemma map_written:
  assumes "\<And>x y. f x = f y \<longleftrightarrow> g x = g y"
  shows "map f xs = map f ys \<longleftrightarrow> map g xs = map g ys"
proof (induction xs arbitrary: ys)
  case (Cons x xs)
  then show ?case using assms by (cases ys) auto
qed auto

lemma refs_written [simp]: "map (canonical_form \<circ> ref_value) rs = map (canonical_form \<circ> ref_value) rs' \<longleftrightarrow> rs = rs'"
  using map_written [of "canonical_form \<circ> ref_value" id rs rs'] by simp

lemma texts_written [simp]: "map (canonical_form \<circ> JStr) ks = map (canonical_form \<circ> JStr) ks' \<longleftrightarrow> ks = ks'"
  using map_written [of "canonical_form \<circ> JStr" id ks ks'] by simp

lemma proposal_written [simp]: "canonical_form (proposal_value p) = canonical_form (proposal_value p') \<longleftrightarrow> p = p'"
  by (cases p; cases p') (auto simp: proposal_value_def canonical_objects simp del: canonical_form.simps(7))

lemma authority_written [simp]: "canonical_form (authority_value a) = canonical_form (authority_value a') \<longleftrightarrow> a = a'"
  by (cases a; cases a') (auto simp: authority_value_def canonical_objects simp del: canonical_form.simps(7))

lemma enforcement_written [simp]:
  "canonical_form (enforcement_value e) = canonical_form (enforcement_value e') \<longleftrightarrow> e = e'"
  by (cases e; cases e') (auto simp: enforcement_value_def canonical_objects simp del: canonical_form.simps(7))

lemma condition_written [simp]: "canonical_form (condition_value c) = canonical_form (condition_value c') \<longleftrightarrow> c = c'"
  by (auto simp: condition_value_def canonical_objects prod_eq_iff simp del: canonical_form.simps(7))

lemma conditions_written [simp]:
  "map (canonical_form \<circ> condition_value) cs = map (canonical_form \<circ> condition_value) cs' \<longleftrightarrow> cs = cs'"
  using map_written [of "canonical_form \<circ> condition_value" id cs cs'] by simp

text \<open>
  An instant carries the milliseconds that \<open>Date.parse\<close> reads from its text. The conditions of
  a recommendation are free values, of which the canonical form is hashed.
\<close>

definition dated :: "(string \<Rightarrow> int) \<Rightarrow> decision_input \<Rightarrow> bool" where
  "dated parse inp \<longleftrightarrow>
     (\<forall>t\<in>set (di_issued inp # di_expires inp # concat (map (\<lambda>r. [re_issued r, re_expires r]) (di_recommendations inp))).
        snd t = parse (fst t))"

definition canonical_conditions :: "recommendation \<Rightarrow> recommendation" where
  "canonical_conditions r = r\<lparr>re_conditions := map canonical_form (re_conditions r)\<rparr>"

definition canonical_input :: "decision_input \<Rightarrow> decision_input" where
  "canonical_input inp = inp\<lparr>di_recommendations := map canonical_conditions (di_recommendations inp)\<rparr>"

definition undated :: "recommendation \<Rightarrow> recommendation" where
  "undated r = r\<lparr>re_issued := (fst (re_issued r), 0), re_expires := (fst (re_expires r), 0)\<rparr>"

abbreviation written :: "recommendation \<Rightarrow> recommendation" where
  "written r \<equiv> undated (canonical_conditions r)"

lemma recommendation_written:
  "canonical_form (recommendation_value r) = canonical_form (recommendation_value r') \<longleftrightarrow> written r = written r'"
  by (cases r; cases r')
    (auto simp: recommendation_value_def canonical_objects undated_def canonical_conditions_def
      simp del: canonical_form.simps(7))

lemma recommendations_written:
  "map (canonical_form \<circ> recommendation_value) rs = map (canonical_form \<circ> recommendation_value) rs' \<longleftrightarrow>
     map (\<lambda>r. written r) rs = map (\<lambda>r. written r) rs'"
  by (rule map_written) (simp add: recommendation_written)

lemma undated_dates:
  assumes "map (\<lambda>r. written r) rs = map (\<lambda>r. written r) rs'"
    and "\<forall>r\<in>set rs. snd (re_issued r) = parse (fst (re_issued r)) \<and> snd (re_expires r) = parse (fst (re_expires r))"
    and "\<forall>r\<in>set rs'. snd (re_issued r) = parse (fst (re_issued r)) \<and> snd (re_expires r) = parse (fst (re_expires r))"
  shows "map canonical_conditions rs = map canonical_conditions rs'"
  using assms
proof (induction rs arbitrary: rs')
  case (Cons r rs)
  then obtain r' zs where rs': "rs' = r' # zs" "written r = written r'" "map (\<lambda>r. written r) rs = map (\<lambda>r. written r) zs"
    by (cases rs') auto
  have "canonical_conditions r = canonical_conditions r'" using rs'(2) Cons.prems(2,3) rs'(1)
    by (cases r; cases r') (auto simp: undated_def canonical_conditions_def prod_eq_iff)
  with Cons rs' show ?case by auto
qed simp

lemma fingerprint_written:
  assumes "dated parse inp" and "dated parse inp'"
  shows "canonical_form (fingerprint_value inp) = canonical_form (fingerprint_value inp') \<longleftrightarrow>
    canonical_input inp = canonical_input inp'"
proof
  assume "canonical_form (fingerprint_value inp) = canonical_form (fingerprint_value inp')"
  then have f: "di_proposal inp = di_proposal inp'" "di_view inp = di_view inp'" "di_through inp = di_through inp'"
    "map (\<lambda>r. written r) (di_recommendations inp) = map (\<lambda>r. written r) (di_recommendations inp')"
    "di_authority inp = di_authority inp'" "di_enforcement inp = di_enforcement inp'"
    "di_conditions inp = di_conditions inp'" "fst (di_issued inp) = fst (di_issued inp')"
    "fst (di_expires inp) = fst (di_expires inp')" "di_fence inp = di_fence inp'"
    by (simp_all add: fingerprint_value_def input_fields_def canonical_objects recommendations_written
        del: canonical_form.simps(7))
  from undated_dates [OF f(4)] assms
  have "map canonical_conditions (di_recommendations inp) = map canonical_conditions (di_recommendations inp')"
    by (force simp: dated_def)
  moreover have "di_issued inp = di_issued inp'" "di_expires inp = di_expires inp'"
    using f(8,9) assms by (auto simp: dated_def prod_eq_iff)
  ultimately show "canonical_input inp = canonical_input inp'"
    using f by (cases inp; cases inp') (simp add: canonical_input_def)
next
  assume same: "canonical_input inp = canonical_input inp'"
  then have "map canonical_conditions (di_recommendations inp) = map canonical_conditions (di_recommendations inp')"
    by (cases inp; cases inp') (simp add: canonical_input_def)
  then have "map undated (map canonical_conditions (di_recommendations inp)) =
      map undated (map canonical_conditions (di_recommendations inp'))" by (rule arg_cong)
  then have "map (\<lambda>r. written r) (di_recommendations inp) = map (\<lambda>r. written r) (di_recommendations inp')"
    by (simp add: comp_def)
  with same show "canonical_form (fingerprint_value inp) = canonical_form (fingerprint_value inp')"
    by (cases inp; cases inp')
      (simp add: canonical_input_def fingerprint_value_def input_fields_def canonical_objects recommendations_written
        del: canonical_form.simps(7))
qed

lemma canonical_input_open:
  assumes "canonical_input inp' = canonical_input inp"
  shows "input_shape inp' = input_shape inp" "di_enforcement inp' = di_enforcement inp"
    "di_proposal inp' = di_proposal inp"
proof -
  have shape: "recommendation_shape (canonical_conditions r) = recommendation_shape r" for r
    by (simp add: recommendation_shape_def canonical_conditions_def)
  have "input_shape (canonical_input i) = input_shape i" for i
    by (simp add: input_shape_def canonical_input_def list_all_iff shape)
  then show "input_shape inp' = input_shape inp" using assms by metis
  show "di_enforcement inp' = di_enforcement inp" "di_proposal inp' = di_proposal inp"
    using assms by (cases inp; cases inp'; simp add: canonical_input_def)+
qed

text \<open>
  C39: a simulated lease is valid for exactly the input it was granted on: no field that changed
  since then, not even one the decision did not read, passes the immediate revalidation; only the
  order of the keys inside the free conditions of a recommendation is not seen. The
  fingerprint is the hash of the object written from the input field by field; of the hash it is
  assumed that a value has the hash of this one object exactly if it is the object up to the
  order of properties, and an instant is what \<open>Date.parse\<close> reads from its text.
\<close>

theorem lease_valid_for_its_input:
  assumes granted: "simulateAuthorityDecisionV02 h inp = Some v" "dv_lease v = Some l"
    and hash: "\<And>x. dh_canonical h x = dh_canonical h (fingerprint_value inp) \<longleftrightarrow>
        canonical_form x = canonical_form (fingerprint_value inp)"
    and dates: "dated parse inp" "dated parse inp'"
  shows "revalidateSimulatedAuthorityLeaseV02 h l inp' \<longleftrightarrow>
    inp'\<lparr>di_recommendations := map canonical_conditions (di_recommendations inp')\<rparr> =
    inp\<lparr>di_recommendations := map canonical_conditions (di_recommendations inp)\<rparr>"
proof -
  from granted have open_input: "input_shape inp \<and> \<not> hardClosed inp"
    using lease_iff_conditions [of h inp] by (auto simp: lease_conditions_def)
  from granted have l: "l = \<lparr>le_proposal = pp_hash (di_proposal inp),
      le_fingerprint = authorityDecisionInputFingerprintV02 h inp,
      le_hash = dh_lease h (pp_hash (di_proposal inp), authorityDecisionInputFingerprintV02 h inp)\<rparr>"
    by (auto simp: simulateAuthorityDecisionV02_def finalizeAuthorityDecisionV02_def Let_def split: if_splits)
  have "authorityDecisionInputFingerprintV02 h inp' = authorityDecisionInputFingerprintV02 h inp \<longleftrightarrow>
      canonical_input inp' = canonical_input inp"
    unfolding fingerprint_written [OF dates(2,1), symmetric] authorityDecisionInputFingerprintV02_def
    by (rule hash)
  then have "revalidateSimulatedAuthorityLeaseV02 h l inp' \<longleftrightarrow> canonical_input inp' = canonical_input inp"
    using open_input canonical_input_open [of inp' inp]
    by (auto simp: revalidateSimulatedAuthorityLeaseV02_def l hardClosed_def)
  then show ?thesis by (simp only: canonical_input_def)
qed

subsection \<open>An agency decision\<close>

definition demo_recommendation :: "nat \<Rightarrow> string \<Rightarrow> recommendation" where
  "demo_recommendation i role =
     \<lparr>re_event = (int i + 1, ''event''), re_id = ''rec'', re_proposal = ''proposal'', re_view = ''view'', re_quorum = ''quorum'',
      re_through = (0, ''head''), re_role = role, re_identity = role, re_decision = RecAllow, re_conditions = [],
      re_evidence = [(0, ''evidence'')], re_keys = [''root''], re_issued = (''0'', 0), re_expires = (''1000'', 1000)\<rparr>"

definition demo_decision_input :: decision_input where
  "demo_decision_input =
     \<lparr>di_proposal = \<lparr>pp_id = ''p'', pp_hash = ''proposal'', pp_action_class = ToolClass, pp_kind = NetworkRead, pp_class = Agency,
        pp_digest = S35_DIGEST, pp_scope = ''s'', pp_dispatch = ''d'', pp_pre_state = ''r'', pp_rule = ''c'', pp_flow = ''f'',
        pp_tier = T2\<rparr>,
      di_view = ''view'', di_through = (0, ''head''),
      di_recommendations = map (\<lambda>(i, r). demo_recommendation i r) (enumerate 0 AUTHORITY_REVIEWER_ROLES_V1),
      di_authority = \<lparr>au_envelope_verified = True, au_contained = True, au_proof_fresh = True, au_epoch_current = True\<rparr>,
      di_enforcement = \<lparr>en_available = True, en_flow_allowed = True, en_gates_passed = True, en_revalidated = True\<rparr>,
      di_conditions = [], di_issued = (''10'', 10), di_expires = (''500'', 500), di_fence = 0\<rparr>"

definition demo_decision_hashing :: decision_hashing where
  "demo_decision_hashing =
     \<lparr>dh_canonical = \<lambda>x. if canonical_form x = canonical_form (fingerprint_value demo_decision_input) then ''demo'' else ''other'', dh_lease = \<lambda>p. fst p @ snd p,
      dh_quorum = \<lambda>q. ''quorum'', dh_condition = \<lambda>c. ''condition'', dh_decision = \<lambda>d. ''decision''\<rparr>"

lemma demo_lease: "\<exists>v l. simulateAuthorityDecisionV02 demo_decision_hashing demo_decision_input = Some v \<and> dv_lease v = Some l"
proof -
  have "\<exists>v. simulateAuthorityDecisionV02 demo_decision_hashing demo_decision_input = Some v \<and> dv_lease v \<noteq> None"
    unfolding lease_iff_conditions lease_conditions_def
    by (simp add: demo_decision_input_def demo_recommendation_def demo_decision_hashing_def AUTHORITY_REVIEWER_ROLES_V1_def
        input_shape_def recommendation_shape_def hardClosed_def resolveAgencyQuorumRequirementV02_def
        S36_QUORUM_REQUIREMENTS_V1_def createQuorumRequirement_def recommendation_counts_def Let_def)
  then show ?thesis by blast
qed

definition demo_dates :: "string \<Rightarrow> int" where
  "demo_dates t = (if t = ''10'' then 10 else if t = ''500'' then 500 else if t = ''1000'' then 1000 else 0)"

lemma demo_canonical_hash:
  "dh_canonical demo_decision_hashing x = dh_canonical demo_decision_hashing (fingerprint_value demo_decision_input) \<longleftrightarrow>
   canonical_form x = canonical_form (fingerprint_value demo_decision_input)"
proof -
  define c where "c = canonical_form (fingerprint_value demo_decision_input)"
  have hash: "dh_canonical demo_decision_hashing y = (if canonical_form y = c then ''demo'' else ''other'')" for y
    unfolding c_def demo_decision_hashing_def by (simp only: decision_hashing.select_convs)
  show ?thesis unfolding hash c_def [symmetric] by simp
qed

lemma lease_valid_for_its_input_witness:
  "\<exists>v l. simulateAuthorityDecisionV02 demo_decision_hashing demo_decision_input = Some v \<and> dv_lease v = Some l \<and>
     revalidateSimulatedAuthorityLeaseV02 demo_decision_hashing l demo_decision_input \<and>
     \<not> revalidateSimulatedAuthorityLeaseV02 demo_decision_hashing l (demo_decision_input\<lparr>di_fence := 1\<rparr>)"
proof -
  from demo_lease obtain v l where v: "simulateAuthorityDecisionV02 demo_decision_hashing demo_decision_input = Some v"
    "dv_lease v = Some l" by blast
  let ?later = "demo_decision_input\<lparr>di_fence := 1\<rparr>"
  have dates: "dated demo_dates demo_decision_input" "dated demo_dates ?later" by code_simp+
  have only: "revalidateSimulatedAuthorityLeaseV02 demo_decision_hashing l inp' \<longleftrightarrow>
      inp'\<lparr>di_recommendations := map canonical_conditions (di_recommendations inp')\<rparr> =
      demo_decision_input\<lparr>di_recommendations := map canonical_conditions (di_recommendations demo_decision_input)\<rparr>"
    if "dated demo_dates inp'" for inp'
    by (rule lease_valid_for_its_input [OF v _ dates(1) that], rule demo_canonical_hash)
  have "di_fence demo_decision_input = 0" by (simp add: demo_decision_input_def)
  then have "?later\<lparr>di_recommendations := rs\<rparr> \<noteq> demo_decision_input\<lparr>di_recommendations := rs'\<rparr>" for rs rs'
    by (auto dest: arg_cong [where f = di_fence])
  then have "\<not> revalidateSimulatedAuthorityLeaseV02 demo_decision_hashing l ?later" unfolding only [OF dates(2)] .
  moreover have "revalidateSimulatedAuthorityLeaseV02 demo_decision_hashing l demo_decision_input"
    unfolding only [OF dates(1)] ..
  ultimately show ?thesis using v by blast
qed

lemma decision_reason_declared_witness:
  "\<exists>v ref. simulateAuthorityDecisionV02 demo_decision_hashing demo_decision_input = Some v \<and>
     db_reasons (dv_branch v) = [(S35_DIGEST, ref)]"
proof -
  from demo_lease obtain v where v: "simulateAuthorityDecisionV02 demo_decision_hashing demo_decision_input = Some v" by blast
  have "pp_digest (di_proposal demo_decision_input) = S35_DIGEST" by (simp add: demo_decision_input_def)
  from decision_reason_declared [OF v this] v show ?thesis by blast
qed

end
