(* ===== verification/Zod.thy ===== *)
theory Zod
  imports Json Scalars_V02
begin

text \<open>
  The schema combinators the sources build their record schemas with, on JSON values: a schema
  is the predicate of the values it accepts (no schema of the modelled records changes the value
  it parses). An object schema is the list of its fields; a strict object has exactly these.
  The digests, the canonical text, the parsing of dates and the calendar check of timestamps are
  the fields of an environment, a parameter of the schemas that use them.
\<close>

type_synonym schema = "json \<Rightarrow> bool"
type_synonym shape = "(string \<times> schema) list"

record schema_env =
  canonicalize :: "json \<Rightarrow> string"
  hashCanonical :: "json \<Rightarrow> string"
  date_parse :: "string \<Rightarrow> int"
  iso_second :: "string \<Rightarrow> bool"

named_theorems zod \<open>evaluation rules of the schema combinators\<close>

subsection \<open>Combinators\<close>

fun z_string :: "(string \<Rightarrow> bool) \<Rightarrow> schema" where
  "z_string ok (JStr s) = ok s"
| "z_string _ _ = False"

definition z_any :: schema where
  "z_any v = True"

definition z_text :: schema where
  "z_text = z_string (\<lambda>_. True)"

definition z_literal :: "json \<Rightarrow> schema" where
  "z_literal x v \<longleftrightarrow> v = x"

definition z_enum :: "string list \<Rightarrow> schema" where
  "z_enum xs = z_string (\<lambda>s. s \<in> set xs)"

definition z_null :: schema where
  "z_null v \<longleftrightarrow> v = JNull"

fun z_boolean :: schema where
  "z_boolean (JBool _) = True"
| "z_boolean _ = False"

fun z_number :: schema where
  "z_number (JInt _) = True"
| "z_number (JFrac _) = True"
| "z_number _ = False"

text \<open>\<open>z.number().int()\<close> accepts the safe integers only.\<close>

fun z_int :: "(int \<Rightarrow> bool) \<Rightarrow> schema" where
  "z_int ok (JInt n) = (isSafeInteger n \<and> ok n)"
| "z_int _ _ = False"

definition z_nullable :: "schema \<Rightarrow> schema" where
  "z_nullable s v \<longleftrightarrow> v = JNull \<or> s v"

fun z_array_of :: "(nat \<Rightarrow> bool) \<Rightarrow> schema \<Rightarrow> schema" where
  "z_array_of len s (JArr vs) = (len (length vs) \<and> list_all s vs)"
| "z_array_of _ _ _ = False"

definition z_array :: "schema \<Rightarrow> schema" where
  "z_array = z_array_of (\<lambda>_. True)"

definition z_array_min :: "nat \<Rightarrow> schema \<Rightarrow> schema" where
  "z_array_min n = z_array_of (\<lambda>k. n \<le> k)"

definition boundedArrayV02 :: "schema \<Rightarrow> nat \<Rightarrow> nat \<Rightarrow> schema" where
  "boundedArrayV02 s lo hi = z_array_of (\<lambda>k. lo \<le> k \<and> k \<le> hi) s"

fun z_tuple :: "schema list \<Rightarrow> schema" where
  "z_tuple ss (JArr vs) = (length vs = length ss \<and> list_all (\<lambda>(s, v). s v) (zip ss vs))"
| "z_tuple _ _ = False"

definition z_union :: "schema list \<Rightarrow> schema" where
  "z_union ss v = list_ex (\<lambda>s. s v) ss"

text \<open>
  A discriminated union picks the option by the literal under its key; as each option requires
  its own literal there, it accepts what the union accepts.
\<close>

definition z_discriminated :: "string \<Rightarrow> schema list \<Rightarrow> schema" where
  "z_discriminated key ss = z_union ss"

fun z_record :: "(string \<Rightarrow> bool) \<Rightarrow> schema \<Rightarrow> schema" where
  "z_record k s (JObj fs) = list_all (\<lambda>(x, v). k x \<and> s v) fs"
| "z_record _ _ _ = False"

definition fields_ok :: "shape \<Rightarrow> (string \<times> json) list \<Rightarrow> bool" where
  "fields_ok shp fs = list_all (\<lambda>(k, s). case map_of fs k of None \<Rightarrow> False | Some v \<Rightarrow> s v) shp"

definition optional_ok :: "shape \<Rightarrow> (string \<times> json) list \<Rightarrow> bool" where
  "optional_ok shp fs = list_all (\<lambda>(k, s). case map_of fs k of None \<Rightarrow> True | Some v \<Rightarrow> s v) shp"

definition only_keys :: "string list \<Rightarrow> (string \<times> json) list \<Rightarrow> bool" where
  "only_keys ks fs = list_all (\<lambda>(k, _). k \<in> set ks) fs"

text \<open>A strict object with optional fields besides the required ones; \<open>strictObject\<close> has none.\<close>

fun z_strict :: "shape \<Rightarrow> shape \<Rightarrow> schema" where
  "z_strict req opt (JObj fs) = (fields_ok req fs \<and> optional_ok opt fs \<and> only_keys (map fst (req @ opt)) fs)"
| "z_strict _ _ _ = False"

definition strictObject :: "shape \<Rightarrow> schema" where
  "strictObject shp = z_strict shp []"

definition refined :: "schema \<Rightarrow> (json \<Rightarrow> bool) \<Rightarrow> schema" where
  "refined s p v \<longleftrightarrow> s v \<and> p v"

text \<open>What acceptance says of one field.\<close>

lemma strict_field:
  assumes "strictObject shp v" and "(k, s) \<in> set shp"
  shows "\<exists>x. jget v k = Some x \<and> s x"
  using assms by (cases v) (force simp: strictObject_def fields_ok_def list_all_iff split: option.splits)+

lemma strict_no_field:
  assumes "strictObject shp (JObj fs)" and "k \<notin> fst ` set shp"
  shows "map_of fs k = None"
  using assms by (force simp: strictObject_def only_keys_def list_all_iff map_of_eq_None_iff)

lemma refinedD: "refined s p v \<Longrightarrow> s v" "refined s p v \<Longrightarrow> p v"
  by (simp_all add: refined_def)

subsection \<open>Scalars of the records\<close>

definition safeInteger :: schema where "safeInteger = z_int (\<lambda>_. True)"
definition safe_positive :: schema where "safe_positive = z_int (\<lambda>n. 0 < n)"
definition safe_nonnegative :: schema where "safe_nonnegative = z_int (\<lambda>n. 0 \<le> n)"

definition MAX_FREE_CONTROL_STRING_BYTES_V02 :: nat where "MAX_FREE_CONTROL_STRING_BYTES_V02 = 16384"

definition NonBlankStringV02 :: "string \<Rightarrow> bool" where
  "NonBlankStringV02 = boundedNonBlankStringV02 MAX_FREE_CONTROL_STRING_BYTES_V02"

definition FreeControlStringV02 :: "string \<Rightarrow> bool" where
  "FreeControlStringV02 = boundedStringV02 MAX_FREE_CONTROL_STRING_BYTES_V02"

definition z_time :: "schema_env \<Rightarrow> schema" where
  "z_time env = z_string (IsoTimestampV02 (iso_second env))"

subsection \<open>Readings in the refinements\<close>

text \<open>\<open>v.k\<close> on a value, and on the value of a field; undefined is \<^const>\<open>None\<close>.\<close>

fun attr :: "json option \<Rightarrow> string \<Rightarrow> json option" where
  "attr None k = None"
| "attr (Some v) k = jget v k"

definition pay :: "json \<Rightarrow> string \<Rightarrow> json option" where
  "pay e k = attr (jget e ''payload'') k"

fun items :: "json option \<Rightarrow> json list" where
  "items (Some (JArr vs)) = vs"
| "items _ = []"

fun text_of :: "json option \<Rightarrow> string" where
  "text_of (Some (JStr s)) = s"
| "text_of _ = []"

fun int_at :: "json option \<Rightarrow> int" where
  "int_at (Some (JInt n)) = n"
| "int_at _ = 0"

fun fields :: "json option \<Rightarrow> (string \<times> json) list" where
  "fields (Some (JObj fs)) = fs"
| "fields _ = []"

definition is_null :: "json option \<Rightarrow> bool" where "is_null v \<longleftrightarrow> v = Some JNull"

definition is_text :: "json option \<Rightarrow> string \<Rightarrow> bool" where "is_text v s \<longleftrightarrow> v = Some (JStr s)"

definition own :: "json option \<Rightarrow> json" where "own v = (case v of None \<Rightarrow> JNull | Some x \<Rightarrow> x)"

text \<open>The object written \<open>{ k: v.k, ... }\<close> for some keys of a value.\<close>

definition pick :: "json \<Rightarrow> string list \<Rightarrow> (string \<times> json) list" where
  "pick v ks = map (\<lambda>k. (k, own (jget v k))) ks"

definition without :: "string \<Rightarrow> json \<Rightarrow> (string \<times> json) list" where
  "without k v = filter (\<lambda>f. fst f \<noteq> k) (fields (Some v))"

definition purposed :: "string \<Rightarrow> (string \<times> json) list \<Rightarrow> json" where
  "purposed p fs = JObj ((''purpose'', JStr p) # fs)"

subsection \<open>Canonical orders\<close>

definition utf8_bytes :: "string \<Rightarrow> nat list" where
  "utf8_bytes s =
     concat (map (\<lambda>c. let n = of_char c :: nat in if n < 128 then [n] else [192 + n div 64, 128 + n mod 64]) s)"

text \<open>The first differing byte decides, then the length.\<close>

fun compare_bytes :: "nat list \<Rightarrow> nat list \<Rightarrow> int" where
  "compare_bytes (x # xs) (y # ys) = (if x \<noteq> y then int x - int y else compare_bytes xs ys)"
| "compare_bytes xs ys = int (length xs) - int (length ys)"

definition compareRuntimeUtf8BytesV02 :: "string \<Rightarrow> string \<Rightarrow> int" where
  "compareRuntimeUtf8BytesV02 l r = compare_bytes (utf8_bytes l) (utf8_bytes r)"

fun adjacent :: "('a \<Rightarrow> 'a \<Rightarrow> bool) \<Rightarrow> 'a list \<Rightarrow> bool" where
  "adjacent p (x # y # xs) = (p x y \<and> adjacent p (y # xs))"
| "adjacent _ _ = True"

definition sorted_unique :: "(json \<Rightarrow> string) \<Rightarrow> schema" where
  "sorted_unique key v = adjacent (\<lambda>x y. compareRuntimeUtf8BytesV02 (key x) (key y) < 0) (items (Some v))"

definition sorted_unique_texts :: schema where
  "sorted_unique_texts = sorted_unique (\<lambda>x. text_of (Some x))"

lemma adjacent_sorted_wrt: "transp p \<Longrightarrow> adjacent p xs \<longleftrightarrow> sorted_wrt p xs"
proof (induction p xs rule: adjacent.induct)
  case (1 p x y xs)
  then show ?case by (auto dest: transpD)
qed simp_all

text \<open>The bytes compare as the characters do.\<close>

lemma compare_bytes_append: "compare_bytes (us @ xs) (us @ ys) = compare_bytes xs ys"
  by (induction us) simp_all

lemma utf8_bytes_Cons:
  "utf8_bytes (c # s) =
     (if of_char c < (128 :: nat) then [of_char c] else [192 + of_char c div 64, 128 + of_char c mod 64]) @ utf8_bytes s"
  by (simp add: utf8_bytes_def Let_def)

lemma compare_bytes_differ:
  assumes "of_char c < (of_char d :: nat)"
  shows "compare_bytes (utf8_bytes (c # s)) (utf8_bytes (d # t)) < 0"
proof -
  define n m where "n = (of_char c :: nat)" and "m = (of_char d :: nat)"
  have lt: "n < m" and hi: "m < 256"
    using assms by (simp_all add: n_def m_def)
  have high: "n div 64 < m div 64 \<or> n div 64 = m div 64 \<and> n mod 64 < m mod 64"
    using lt by (metis div_le_mono div_mult_mod_eq le_less less_imp_le nat_add_left_cancel_less)
  show ?thesis
    using lt hi high by (auto simp: utf8_bytes_Cons n_def [symmetric] m_def [symmetric])
qed

lemma compare_bytes_swap: "compare_bytes xs ys = - compare_bytes ys xs"
  by (induction xs ys rule: compare_bytes.induct) simp_all

theorem compare_utf8_less: "compareRuntimeUtf8BytesV02 l r < 0 \<longleftrightarrow> l < r"
  unfolding compareRuntimeUtf8BytesV02_def
proof (induction l arbitrary: r)
  case Nil
  have "utf8_bytes [] = []" by (simp add: utf8_bytes_def)
  then show ?case by (cases r) (simp_all add: utf8_bytes_Cons)
next
  case (Cons c l)
  show ?case
  proof (cases r)
    case Nil
    then show ?thesis by (cases "utf8_bytes (c # l)") (simp_all add: utf8_bytes_def)
  next
    case (Cons d r')
    consider "c = d" | "of_char c < (of_char d :: nat)" | "of_char d < (of_char c :: nat)"
      by (metis linorder_neqE_nat of_char_eq_iff)
    then show ?thesis
    proof cases
      case 1
      then show ?thesis
        using Cons.IH [of r'] by (simp add: Cons utf8_bytes_Cons compare_bytes_append)
    next
      case 2
      then show ?thesis using compare_bytes_differ [OF 2, of l r'] by (simp add: Cons less_char_def)
    next
      case 3
      then show ?thesis
        using compare_bytes_differ [OF 3, of r' l] compare_bytes_swap [of "utf8_bytes (c # l)" "utf8_bytes (d # r')"]
        by (auto simp: Cons less_char_def)
    qed
  qed
qed

end
