(* ===== verification/Spec_Schema_V02.thy ===== *)
theory Spec_Schema_V02
  imports Zod
begin

text \<open>
  The schemas of the authored specification, version 0.2 (\<open>src/schema/loopeix-v02.ts\<close> and the
  enumerations it takes from \<open>src/schema/loopeix.ts\<close>), field by field. Its rules across fields
  are in the theory \<open>Spec_Rules_V02\<close>.
\<close>

definition ArtifactType :: schema where
  "ArtifactType =
     z_enum [''markdown'', ''json'', ''jsonl'', ''yaml'', ''html'', ''text'', ''image'', ''other'']"

definition EvaluationType :: schema where
  "EvaluationType =
     z_enum [''command'', ''manual-review'', ''source-citation'', ''browser-check'', ''schema-validation'',
             ''custom'']"

definition WorkflowPatternType :: schema where
  "WorkflowPatternType =
     z_enum [''prompt-chaining'', ''routing'', ''parallel-specialists'', ''orchestrator-workers'',
             ''evaluator-optimizer'']"

definition InputSpecV02 :: schema where
  "InputSpecV02 =
     strictObject
       [(''id'', z_string HumanIdV02), (''description'', z_text), (''required'', z_boolean)]"

definition SpecialistRoleSpecV02 :: schema where
  "SpecialistRoleSpecV02 =
     strictObject
       [(''id'', z_string HumanIdV02), (''owns'', z_array_min 1 z_text), (''must_not'', z_array z_text),
        (''allowed_tools'', z_array (z_string HumanIdV02)), (''handoff'', z_text)]"

definition ToolGrantV02 :: schema where
  "ToolGrantV02 =
     strictObject
       [(''id'', z_string HumanIdV02), (''tool'', z_text), (''scope'', z_text), (''risk_tier'', z_enum RiskTierV1),
        (''requires_approval'', z_boolean)]"

definition ArtifactPathV02 :: schema where
  "ArtifactPathV02 =
     refined
       z_text
       (\<lambda>v. let s = text_of (Some v); rest = drop (length ''artifacts/content/'') s in
         starts_with ''artifacts/content/'' s \<and> rest \<noteq> [] \<and> CHR ''/'' \<notin> set rest \<and> backslash \<notin> set rest \<and> rest \<noteq> ''.'' \<and> rest \<noteq> ''..'')"

definition ArtifactSpecV02 :: schema where
  "ArtifactSpecV02 =
     strictObject
       [(''id'', z_string HumanIdV02), (''path'', ArtifactPathV02), (''type'', ArtifactType),
        (''required'', z_boolean), (''producer_task'', z_string HumanIdV02),
        (''acceptance_checks'', z_array_min 1 z_text)]"

definition TriggerSpecV02 :: schema where
  "TriggerSpecV02 =
     strictObject
       [(''type'', z_literal (JStr ''operator-invoked'')),
        (''entrypoint'', z_enum [''compile'', ''run-plan'', ''run-start''])]"

definition success_criteria_V02 :: schema where
  "success_criteria_V02 = z_array_min 1 (strictObject
     [(''id'', z_string HumanIdV02), (''description'', z_string NonBlankStringV02),
      (''evaluation_refs'', z_array_min 1 (z_string HumanIdV02)), (''required'', z_literal (JBool True))])"

definition GoalSpecV02 :: schema where
  "GoalSpecV02 = strictObject [(''statement'', z_string NonBlankStringV02), (''success_criteria'', success_criteria_V02)]"

definition TaskSpecV02 :: schema where
  "TaskSpecV02 =
     strictObject
       [(''id'', z_string HumanIdV02), (''role'', z_string HumanIdV02),
        (''artifacts'', z_array (z_string HumanIdV02)), (''depends_on'', z_array (z_string HumanIdV02)),
        (''acceptance_checks'', z_array_min 1 z_text), (''kind'', z_enum [''work'', ''compensation'']),
        (''pre_task_gate_refs'', z_array (z_string HumanIdV02))]"

definition RequiredGateKindV02_options :: "string list" where
  "RequiredGateKindV02_options =
     [''manifest-completeness'', ''risk-tier-consistency'', ''approval'', ''workspace-boundary'',
      ''context-and-source-freshness'', ''tool-grant-adherence'', ''evidence-integrity'',
      ''claim-support'', ''unresolved-findings'', ''secrets-privacy'', ''redaction-retention'',
      ''adapter-capability'', ''report-truthfulness'', ''ad-hoc-task-provenance'', ''no-t5'',
      ''intake-boundedness'', ''catalog-selection-evidence'', ''untrusted-instruction-provenance'',
      ''autonomy-escalation'']"

definition RequiredGateKindV02 :: schema where
  "RequiredGateKindV02 =
     z_enum RequiredGateKindV02_options"

definition GateApplicabilityV02 :: schema where
  "GateApplicabilityV02 =
     z_discriminated ''mode''
       [strictObject [(''mode'', z_literal (JStr ''always''))],
        strictObject
          [(''mode'', z_literal (JStr ''compensation'')), (''compensation_ref'', z_string HumanIdV02)]]"

definition ControlPrerequisiteV02 :: schema where
  "ControlPrerequisiteV02 =
     z_discriminated ''kind''
       [strictObject [(''kind'', z_literal (JStr ''run-initialized''))],
        strictObject
          [(''kind'', z_literal (JStr ''task-terminal'')), (''task_ref'', z_string HumanIdV02)],
        strictObject
          [(''kind'', z_literal (JStr ''artifact-recorded'')), (''artifact_ref'', z_string HumanIdV02)],
        strictObject
          [(''kind'', z_literal (JStr ''evidence-recorded'')), (''evidence_requirement_ref'', z_string HumanIdV02)],
        strictObject [(''kind'', z_literal (JStr ''gate-pass'')), (''gate_ref'', z_string HumanIdV02)],
        strictObject
          [(''kind'', z_literal (JStr ''evaluation-pass'')), (''evaluation_ref'', z_string HumanIdV02)],
        strictObject
          [(''kind'', z_literal (JStr ''compensation-phase-entered'')), (''compensation_ref'', z_string HumanIdV02)],
        strictObject
          [(''kind'', z_literal (JStr ''compensation-action-terminal'')), (''compensation_ref'', z_string HumanIdV02)]]"

definition EvaluatorBindingV02 :: schema where
  "EvaluatorBindingV02 =
     strictObject
       [(''role_ref'', z_string HumanIdV02), (''evaluator_identity_ref'', z_string MachineIdV02),
        (''policy_digest'', z_string Hash),
        (''export_check_role'', z_nullable (z_enum [''credential-scan'', ''privacy-review'']))]"

definition GateSpecV02 :: schema where
  "GateSpecV02 =
     strictObject
       [(''id'', z_string HumanIdV02), (''blocking'', z_boolean), (''inputs_required'', z_array z_text),
        (''evidence_rule'', z_text), (''pass_condition'', z_text), (''hold_condition'', z_text),
        (''fail_condition'', z_text), (''waiver_allowed'', z_boolean),
        (''control_kind'', z_union [RequiredGateKindV02, z_literal (JStr ''project-specific'')]),
        (''applicability'', GateApplicabilityV02), (''risk_tier'', z_enum RiskTierV1),
        (''prerequisites'', z_array_min 1 ControlPrerequisiteV02),
        (''evidence_requirement_refs'', z_array_min 1 (z_string HumanIdV02)),
        (''evaluator_binding'', EvaluatorBindingV02)]"

definition EvidenceKindV02 :: schema where
  "EvidenceKindV02 =
     z_enum [''command-capture'', ''filesystem-capture'', ''browser-capture'', ''source-citation'',
             ''human-authorization'', ''manual-observation'']"

definition SourceAcquisitionPolicyV02 :: schema where
  "SourceAcquisitionPolicyV02 =
     strictObject
       [(''allowed_retrievers'', z_array_min 1 (strictObject
          [(''identity'', z_string NonBlankStringV02), (''version'', z_string NonBlankStringV02)])),
        (''allowed_methods'', z_array_min 1 (z_enum [''http'', ''browser'', ''repository'', ''manual-import''])),
        (''allowed_auth_classes'', z_array_min 1 (z_enum [''public'', ''authenticated''])),
        (''allowed_authenticated_scope_hashes'', z_array (z_string Hash)), (''max_age_ms'', safe_positive)]"

definition EvidenceRequirementSpecV02 :: schema where
  "EvidenceRequirementSpecV02 =
     strictObject
       [(''id'', z_string HumanIdV02),
        (''minimum_independent_roots'', z_int (\<lambda>n. 1 \<le> n \<and> n \<le> 8)),
        (''evidence_kinds'', z_array_min 1 EvidenceKindV02),
        (''source_acquisition_policy'', z_nullable SourceAcquisitionPolicyV02)]"

definition EvaluationApplicabilityV02 :: schema where
  "EvaluationApplicabilityV02 =
     GateApplicabilityV02"

definition EvaluationSpecV02 :: schema where
  "EvaluationSpecV02 =
     z_strict
       ([(''id'', z_string HumanIdV02), (''type'', EvaluationType), (''required'', z_boolean),
         (''success_condition'', z_string NonBlankStringV02), (''applicability'', EvaluationApplicabilityV02),
         (''prerequisites'', z_array_min 1 ControlPrerequisiteV02),
         (''evidence_requirement_refs'', z_array_min 1 (z_string HumanIdV02)),
         (''evaluator_binding'', EvaluatorBindingV02)])
       [(''command'', z_text)]"

definition ProgressObservationV02 :: schema where
  "ProgressObservationV02 =
     strictObject
       [(''id'', z_string HumanIdV02), (''description'', z_text),
        (''source'', z_enum [''evaluation'', ''artifact'', ''gate'', ''ledger'']),
        (''source_ref'', z_string HumanIdV02), (''value_pointer'', z_text),
        (''value_type'', z_enum [''number'', ''string'', ''boolean'']),
        (''improves_when'', z_union
          [strictObject [(''operator'', z_enum [''increases'', ''decreases''])],
           strictObject
             [(''operator'', z_literal (JStr ''equals'')), (''target'', z_union [z_number, z_text, z_boolean])]]),
        (''target'', z_union
          [strictObject
             [(''operator'', z_enum [''gte'', ''lte'', ''equals'']), (''value'', z_union [z_number, z_text, z_boolean])],
           z_null])]"

definition ProgressSpecV02 :: schema where
  "ProgressSpecV02 =
     strictObject
       [(''observations'', z_array_min 1 ProgressObservationV02), (''stall_after_loop_attempts'', safe_positive)]"

definition RetryClassV02_options :: "string list" where
  "RetryClassV02_options =
     [''transient-adapter'', ''transient-network'', ''contention'', ''verification-failed'',
      ''policy-hold'', ''invalid-input'', ''permanent-execution'']"

definition RetryClassV02 :: schema where
  "RetryClassV02 =
     z_enum RetryClassV02_options"

definition StopConditionRefV02 :: schema where
  "StopConditionRefV02 =
     z_discriminated ''source''
       [strictObject
          [(''source'', z_literal (JStr ''success-criterion'')), (''ref'', z_string HumanIdV02),
           (''outcome'', z_literal (JStr ''satisfied''))],
        strictObject
          [(''source'', z_literal (JStr ''gate'')), (''ref'', z_string HumanIdV02),
           (''outcome'', z_enum [''satisfied'', ''satisfied-or-not-applicable'', ''hold'', ''fail''])],
        strictObject
          [(''source'', z_literal (JStr ''evaluation'')), (''ref'', z_string HumanIdV02),
           (''outcome'', z_enum [''pass'', ''pass-or-not-applicable'', ''hold'', ''fail''])],
        strictObject
          [(''source'', z_literal (JStr ''progress'')), (''ref'', z_string HumanIdV02),
           (''outcome'', z_enum [''target-reached'', ''stalled''])],
        strictObject
          [(''source'', z_literal (JStr ''limit'')),
           (''ref'', z_enum [''max-loop-attempts'', ''max-elapsed-ms'', ''max-tool-calls'', ''max-output-bytes'',
                   ''max-tokens'', ''max-cost'']),
           (''outcome'', z_literal (JStr ''reached''))],
        strictObject
          [(''source'', z_literal (JStr ''task'')), (''ref'', z_string HumanIdV02),
           (''outcome'', z_enum [''completed'', ''completed-or-not-applicable''])],
        strictObject
          [(''source'', z_literal (JStr ''dependency'')), (''ref'', z_string HumanIdV02),
           (''outcome'', z_literal (JStr ''blocked''))],
        strictObject
          [(''source'', z_literal (JStr ''failure'')), (''task_ref'', z_string HumanIdV02), (''ref'', RetryClassV02),
           (''outcome'', z_literal (JStr ''observed''))],
        strictObject
          [(''source'', z_literal (JStr ''policy'')), (''task_ref'', z_string HumanIdV02),
           (''ref'', z_literal (JStr ''policy-block'')), (''outcome'', z_literal (JStr ''hold''))],
        strictObject
          [(''source'', z_literal (JStr ''control'')), (''ref'', z_literal (JStr ''abort-requested'')),
           (''outcome'', z_literal (JStr ''present''))]]"

definition terminalState :: "string \<Rightarrow> string \<Rightarrow> int \<Rightarrow> schema" where
  "terminalState state mode priority = strictObject
     [(''state'', z_literal (JStr state)), (''condition_mode'', z_literal (JStr mode)),
      (''conditions'', z_array_min 1 StopConditionRefV02), (''priority'', z_literal (JInt priority))]"

definition TerminalStateSpecV02 :: schema where
  "TerminalStateSpecV02 =
     z_discriminated ''state''
       [terminalState ''completed'' ''all'' 100,
        terminalState ''held'' ''any'' 300,
        terminalState ''blocked'' ''any'' 200,
        terminalState ''failed'' ''any'' 600,
        terminalState ''stalled'' ''any'' 400,
        terminalState ''exhausted'' ''any'' 500,
        terminalState ''aborted'' ''any'' 700]"

definition terminal_states_V02 :: schema where
  "terminal_states_V02 = z_array_of (\<lambda>k. k = 7) TerminalStateSpecV02"

definition StopPolicyV02 :: schema where
  "StopPolicyV02 = strictObject [(''terminal_states'', terminal_states_V02)]"

definition LimitPolicyV02 :: schema where
  "LimitPolicyV02 =
     strictObject
       [(''max_loop_attempts'', safe_positive), (''max_elapsed_ms'', safe_positive),
        (''max_tool_calls'', safe_positive), (''max_workers'', safe_positive),
        (''max_output_bytes'', safe_positive), (''control_plane_output_reserve_bytes'', safe_positive),
        (''max_tokens'', z_nullable safe_positive), (''max_cost_minor_units'', z_nullable safe_positive),
        (''cost_currency'', z_nullable (z_string (\<lambda>s. length s = 3 \<and> list_all is_upper s)))]"

definition RetryRuleV02 :: schema where
  "RetryRuleV02 =
     strictObject
       [(''task_ref'', z_string HumanIdV02), (''failure_class'', RetryClassV02), (''retryable'', z_boolean),
        (''max_task_executions'', safe_positive), (''backoff'', z_enum [''none'', ''fixed'', ''exponential'']),
        (''base_delay_ms'', safe_nonnegative), (''max_delay_ms'', safe_nonnegative)]"

definition RetryPolicyV02 :: schema where
  "RetryPolicyV02 =
     strictObject [(''rules'', z_array RetryRuleV02)]"

definition RecoveryReserveV02 :: schema where
  "RecoveryReserveV02 =
     strictObject
       [(''max_elapsed_ms'', safe_nonnegative), (''max_tool_calls'', safe_nonnegative),
        (''max_output_bytes'', safe_nonnegative), (''max_tokens'', z_nullable safe_nonnegative),
        (''max_cost_minor_units'', z_nullable safe_nonnegative)]"

definition RecoveryPolicyV02 :: schema where
  "RecoveryPolicyV02 =
     strictObject
       [(''resume_from'', z_literal (JStr ''last-durable-boundary'')),
        (''require_input_hash_match'', z_literal (JBool True)),
        (''require_policy_hash_match'', z_literal (JBool True)),
        (''on_unknown_outcome'', z_literal (JStr ''hold'')),
        (''terminal_compensation'', z_literal (JStr ''before-terminal-seal'')),
        (''activation_reasons'', z_tuple [z_literal (JStr ''terminal-failure''), z_literal (JStr ''terminal-exhaustion''),
                 z_literal (JStr ''terminal-stall''), z_literal (JStr ''abort-recovery'')]),
        (''max_compensation_workers'', z_literal (JInt 1)), (''reserve'', RecoveryReserveV02)]"

definition SafeStopBoundaryRefV02 :: schema where
  "SafeStopBoundaryRefV02 =
     z_discriminated ''kind''
       [strictObject [(''kind'', z_literal (JStr ''before-task'')), (''task_ref'', z_string HumanIdV02)],
        strictObject [(''kind'', z_literal (JStr ''after-gate'')), (''gate_ref'', z_string HumanIdV02)]]"

definition TaskEffectSpecV02 :: schema where
  "TaskEffectSpecV02 =
     strictObject
       [(''effect_id'', z_string HumanIdV02),
        (''effect_class'', z_enum [''none'', ''workspace-write'', ''external-read'', ''external-write'', ''destructive'']),
        (''description'', z_text), (''inspectable'', z_boolean), (''reversible'', z_boolean),
        (''idempotency'', z_enum [''not-required'', ''required'', ''unsupported'']),
        (''last_safe_stop'', SafeStopBoundaryRefV02), (''compensation_ref'', z_nullable (z_string HumanIdV02))]"

definition SideEffectSpecV02 :: schema where
  "SideEffectSpecV02 =
     strictObject [(''task_id'', z_string HumanIdV02), (''effects'', z_array_min 1 TaskEffectSpecV02)]"

definition CompensationPreconditionV02 :: schema where
  "CompensationPreconditionV02 =
     z_discriminated ''source''
       [strictObject
          [(''source'', z_literal (JStr ''effect'')), (''task_ref'', z_string HumanIdV02),
           (''effect_ref'', z_string HumanIdV02), (''outcome'', z_literal (JStr ''committed''))],
        strictObject
          [(''source'', z_literal (JStr ''gate'')), (''ref'', z_string HumanIdV02),
           (''outcome'', z_literal (JStr ''satisfied''))],
        strictObject
          [(''source'', z_literal (JStr ''evaluation'')), (''ref'', z_string HumanIdV02),
           (''outcome'', z_literal (JStr ''pass''))]]"

definition CompensationSpecV02 :: schema where
  "CompensationSpecV02 =
     strictObject
       [(''id'', z_string HumanIdV02), (''for_task'', z_string HumanIdV02), (''for_effect'', z_string HumanIdV02),
        (''action_task'', z_string HumanIdV02), (''preconditions'', z_array_min 1 CompensationPreconditionV02),
        (''verification_refs'', z_array_min 1 (z_string HumanIdV02)), (''may_fail'', z_literal (JBool True))]"

definition LoopeixV02Shape :: schema where
  "LoopeixV02Shape =
     strictObject
       [(''schema_version'', z_literal (JStr ''0.2'')), (''loop_family'', z_string HumanIdV02),
        (''version'', z_string LoopVersion), (''trigger'', TriggerSpecV02), (''goal'', GoalSpecV02),
        (''inputs'', z_array InputSpecV02),
        (''context_contract'', strictObject
          [(''required'', z_array z_text), (''forbidden'', z_array z_text), (''untrusted_sources'', z_array z_text)]),
        (''workflow_pattern'', strictObject [(''type'', WorkflowPatternType), (''phases'', z_array_min 1 z_text)]),
        (''roles'', z_array_min 1 SpecialistRoleSpecV02), (''tasks'', z_array_min 1 TaskSpecV02),
        (''tool_grants'', z_array ToolGrantV02), (''artifacts'', z_array ArtifactSpecV02),
        (''gates'', z_array_min 1 GateSpecV02), (''evaluations'', z_array EvaluationSpecV02),
        (''evidence_requirements'', z_array_min 1 EvidenceRequirementSpecV02),
        (''risk_controls'', strictObject
          [(''max_tier_without_approval'', z_enum RiskTierV1), (''t5_allowed'', z_literal (JBool False))]),
        (''progress'', ProgressSpecV02), (''stop_policy'', StopPolicyV02), (''limit_policy'', LimitPolicyV02),
        (''retry_policy'', RetryPolicyV02), (''recovery_policy'', RecoveryPolicyV02),
        (''side_effects'', z_array SideEffectSpecV02), (''compensations'', z_array CompensationSpecV02),
        (''retro'', strictObject [(''creates'', z_string NonBlankStringV02)])]"

end
