(* ===== verification/Dependency_Graph.thy ===== *)
theory Dependency_Graph
  imports Prelude
begin

text \<open>
  The search for a cycle among the work tasks (\<open>visitWorkTask\<close> in
  \<open>src/schema/loopeix-v02.ts\<close>): a depth-first visit that returns at the first task it meets
  again while it is still being visited. The tasks being visited are an argument here, since a
  visit that returns false removes what it added; a visit that finds a cycle ends the whole
  search, so its visited set is never read: it is \<^const>\<open>None\<close>.
\<close>

type_synonym graph = "(string \<times> string list) list"

definition unvisited :: "graph \<Rightarrow> string list \<Rightarrow> nat" where
  "unvisited g visiting = card (fst ` set g - set visiting)"

lemma unvisited_less:
  assumes "t \<notin> set visiting" and "map_of g t = Some deps"
  shows "unvisited g (t # visiting) < unvisited g visiting"
proof -
  from assms(2) have "t \<in> fst ` set g" by (metis map_of_eq_None_iff option.distinct(1))
  with assms(1) have "fst ` set g - set (t # visiting) \<subset> fst ` set g - set visiting" by auto
  then show ?thesis unfolding unvisited_def by (intro psubset_card_mono) simp_all
qed

function visitWorkTask :: "graph \<Rightarrow> string list \<Rightarrow> string list \<Rightarrow> string \<Rightarrow> string list option"
  and visitWorkTasks :: "graph \<Rightarrow> string list \<Rightarrow> string list \<Rightarrow> string list \<Rightarrow> string list option"
where
  "visitWorkTask g visiting visited t =
     (if t \<in> set visiting then None
      else if t \<in> set visited then Some visited
      else case map_of g t of
             None \<Rightarrow> Some visited
           | Some deps \<Rightarrow> map_option ((#) t) (visitWorkTasks g (t # visiting) visited deps))"
| "visitWorkTasks g visiting visited [] = Some visited"
| "visitWorkTasks g visiting visited (d # ds) =
     (case visitWorkTask g visiting visited d of
        None \<Rightarrow> None
      | Some visited' \<Rightarrow> visitWorkTasks g visiting visited' ds)"
  by pat_completeness auto

termination
  by (relation "measures [\<lambda>x. case x of Inl (g, visiting, _, _) \<Rightarrow> unvisited g visiting
                                     | Inr (g, visiting, _, _) \<Rightarrow> unvisited g visiting,
                          \<lambda>x. case x of Inl _ \<Rightarrow> 0 | Inr (_, _, _, ds) \<Rightarrow> Suc (length ds)]")
     (auto simp: unvisited_less)

text \<open>
  The loop over all work tasks, which stops at the first cycle. The map of the tasks is the
  reverse of its insertions, so that a lookup finds the last one; its keys are in the order of
  the first ones.
\<close>

definition has_cycle :: "graph \<Rightarrow> bool" where
  "has_cycle g \<longleftrightarrow> visitWorkTasks g [] [] (uniq (rev (map fst g))) = None"

subsection \<open>The search finds exactly the cycles\<close>

definition edges :: "graph \<Rightarrow> (string \<times> string) set" where
  "edges g = {(t, d). \<exists>deps. map_of g t = Some deps \<and> d \<in> set deps}"

text \<open>A list in which the dependencies of each task come after it, or are no tasks.\<close>

fun settled_order :: "graph \<Rightarrow> string list \<Rightarrow> bool" where
  "settled_order g [] \<longleftrightarrow> True"
| "settled_order g (t # ts) \<longleftrightarrow>
     t \<notin> set ts \<and> map_of g t \<noteq> None \<and> (\<forall>d. (t, d) \<in> edges g \<longrightarrow> d \<in> set ts \<or> map_of g d = None) \<and> settled_order g ts"

fun dependency_path :: "graph \<Rightarrow> string list \<Rightarrow> bool" where
  "dependency_path g (t # u # ts) \<longleftrightarrow> (u, t) \<in> edges g \<and> dependency_path g (u # ts)"
| "dependency_path g _ \<longleftrightarrow> True"

lemma path_reaches: "dependency_path g (t # ts) \<Longrightarrow> u \<in> set (t # ts) \<Longrightarrow> (u, t) \<in> (edges g)\<^sup>*"
  by (induction g "t # ts" arbitrary: t ts rule: dependency_path.induct)
     (auto intro: rtrancl_into_rtrancl)

lemma edge_task: "(t, d) \<in> edges g \<Longrightarrow> map_of g t \<noteq> None"
  by (auto simp: edges_def)

lemma visit_None:
  "visitWorkTask g visiting visited t = None \<Longrightarrow> dependency_path g (t # visiting) \<Longrightarrow> \<exists>x. (x, x) \<in> (edges g)\<^sup>+"
  "visitWorkTasks g visiting visited ds = None \<Longrightarrow> \<forall>d\<in>set ds. dependency_path g (d # visiting) \<Longrightarrow>
     \<exists>x. (x, x) \<in> (edges g)\<^sup>+"
proof (induction g visiting visited t and g visiting visited ds rule: visitWorkTask_visitWorkTasks.induct)
  case (1 g visiting visited t)
  show ?case
  proof (cases "t \<in> set visiting")
    case True
    then obtain u us where visiting: "visiting = u # us" by (cases visiting) auto
    from "1.prems"(2) have ut: "(u, t) \<in> edges g" and path: "dependency_path g (u # us)" by (simp_all add: visiting)
    from path_reaches [OF path] True have "(t, u) \<in> (edges g)\<^sup>*" by (simp add: visiting)
    from rtrancl_into_trancl1 [OF this ut] show ?thesis ..
  next
    case False
    with "1.prems"(1) obtain deps where fresh: "t \<notin> set visited" and deps: "map_of g t = Some deps"
      and none: "visitWorkTasks g (t # visiting) visited deps = None"
      by (auto split: if_splits option.splits)
    have "\<forall>d\<in>set deps. dependency_path g (d # t # visiting)"
      using "1.prems"(2) deps by (auto simp: edges_def)
    from "1.IH" [OF False fresh deps none this] show ?thesis .
  qed
next
  case (3 g visiting visited d ds)
  then show ?case by (cases "visitWorkTask g visiting visited d") (auto simp del: visitWorkTask.simps)
qed simp

lemma visit_Some:
  "visitWorkTask g visiting visited t = Some vs \<Longrightarrow> settled_order g visited \<Longrightarrow> set visited \<inter> set visiting = {} \<Longrightarrow>
     settled_order g vs \<and> set vs \<inter> set visiting = {} \<and> set visited \<subseteq> set vs \<and> (t \<in> set vs \<or> map_of g t = None)"
  "visitWorkTasks g visiting visited ds = Some vs \<Longrightarrow> settled_order g visited \<Longrightarrow> set visited \<inter> set visiting = {} \<Longrightarrow>
     settled_order g vs \<and> set vs \<inter> set visiting = {} \<and> set visited \<subseteq> set vs \<and>
     (\<forall>d\<in>set ds. d \<in> set vs \<or> map_of g d = None)"
proof (induction g visiting visited t and g visiting visited ds arbitrary: vs and vs
    rule: visitWorkTask_visitWorkTasks.induct)
  case (1 g visiting visited t)
  show ?case
  proof (cases "t \<notin> set visited \<and> map_of g t \<noteq> None")
    case True
    with "1.prems"(1) obtain deps w where fresh: "t \<notin> set visiting" "t \<notin> set visited" and deps: "map_of g t = Some deps"
      and w: "visitWorkTasks g (t # visiting) visited deps = Some w" and vs: "vs = t # w"
      by (auto split: if_splits)
    have "set visited \<inter> set (t # visiting) = {}" using fresh "1.prems"(3) by auto
    from "1.IH" [OF fresh deps w "1.prems"(2) this] show ?thesis
      using fresh deps by (auto simp: vs edges_def)
  next
    case False
    with "1.prems" show ?thesis by (auto split: if_splits)
  qed
next
  case (3 g visiting visited d ds)
  show ?case
  proof (cases "visitWorkTask g visiting visited d")
    case None
    with "3.prems"(1) show ?thesis by (simp only: visitWorkTasks.simps option.simps)
  next
    case (Some w)
    with "3.prems"(1) have vs: "visitWorkTasks g visiting w ds = Some vs" by (simp only: visitWorkTasks.simps option.simps)
    note first = "3.IH"(1) [OF Some "3.prems"(2,3)]
    then have "settled_order g w" "set w \<inter> set visiting = {}" by simp_all
    from "3.IH"(2) [OF Some vs this] first show ?thesis by (simp only: list.set insert_iff) auto
  qed
qed simp

lemma settled_edge:
  "settled_order g ts \<Longrightarrow> (x, y) \<in> edges g \<Longrightarrow> x \<in> set ts \<Longrightarrow> y \<in> set ts \<or> map_of g y = None"
  by (induction ts) auto

lemma settled_closed:
  assumes "settled_order g ts" and "(x, y) \<in> (edges g)\<^sup>+" and "x \<in> set ts \<or> map_of g x = None"
  shows "y \<in> set ts \<or> map_of g y = None"
  using assms(2)
proof (induction rule: trancl_induct)
  case (base y)
  with assms(3) show ?case using settled_edge [OF assms(1) base] edge_task [OF base] by auto
next
  case (step y z)
  then show ?case using settled_edge [OF assms(1) step.hyps(2)] edge_task [OF step.hyps(2)] by auto
qed

lemma settled_acyclic: "settled_order g ts \<Longrightarrow> x \<in> set ts \<Longrightarrow> (x, x) \<notin> (edges g)\<^sup>+"
proof (induction ts)
  case (Cons t ts)
  show ?case
  proof (cases "x = t")
    case True
    show ?thesis
    proof
      assume cycle: "(x, x) \<in> (edges g)\<^sup>+"
      then obtain d where d: "(x, d) \<in> edges g" "(d, x) \<in> (edges g)\<^sup>*" by (blast dest: tranclD)
      from d(1) Cons.prems(1) True have "d \<in> set ts \<or> map_of g d = None" by auto
      moreover have "d = x \<or> (d, x) \<in> (edges g)\<^sup>+" using d(2) by (auto dest: rtranclD)
      ultimately have "x \<in> set ts \<or> map_of g x = None"
        using settled_closed [of g ts d x] Cons.prems(1) by auto
      with Cons.prems(1) True edge_task [OF d(1)] show False by simp
    qed
  qed (use Cons in auto)
qed simp

text \<open>The depth-first search reports a cycle exactly if the dependencies of the tasks have one.\<close>

lemma has_cycle_iff: "has_cycle g \<longleftrightarrow> (\<exists>t. (t, t) \<in> (edges g)\<^sup>+)"
proof
  assume "has_cycle g"
  then show "\<exists>t. (t, t) \<in> (edges g)\<^sup>+" unfolding has_cycle_def by (rule visit_None(2)) simp
next
  assume "\<exists>t. (t, t) \<in> (edges g)\<^sup>+"
  then obtain t where cycle: "(t, t) \<in> (edges g)\<^sup>+" ..
  then have task: "map_of g t \<noteq> None" by (auto dest: tranclD edge_task)
  show "has_cycle g"
  proof (rule ccontr)
    assume "\<not> has_cycle g"
    then obtain vs where vs: "visitWorkTasks g [] [] (uniq (rev (map fst g))) = Some vs" by (auto simp: has_cycle_def)
    from task have "t \<in> set (uniq (rev (map fst g)))" by (simp add: map_of_eq_None_iff)
    with visit_Some(2) [OF vs] task have "settled_order g vs" "t \<in> set vs" by auto
    with settled_acyclic cycle show False by blast
  qed
qed

subsection \<open>An order to run the tasks in\<close>

text \<open>Each task of the list runs after all its dependencies are done.\<close>

fun runs_through :: "graph \<Rightarrow> string set \<Rightarrow> string list \<Rightarrow> bool" where
  "runs_through g finished [] \<longleftrightarrow> True"
| "runs_through g finished (t # ts) \<longleftrightarrow>
     {d. (t, d) \<in> edges g} \<subseteq> finished \<and> runs_through g (insert t finished) ts"

lemma runs_through_append:
  "runs_through g finished (xs @ ys) \<longleftrightarrow> runs_through g finished xs \<and> runs_through g (finished \<union> set xs) ys"
  by (induction xs arbitrary: finished) auto

lemma settled_runs:
  "settled_order g ts \<Longrightarrow> (\<And>t d. (t, d) \<in> edges g \<Longrightarrow> map_of g d \<noteq> None) \<Longrightarrow> runs_through g {} (rev ts)"
  by (induction ts) (auto simp: runs_through_append)

lemma settled_set: "settled_order g ts \<Longrightarrow> distinct ts \<and> set ts \<subseteq> fst ` set g"
proof (induction ts)
  case (Cons t ts)
  then show ?case using map_of_eq_None_iff [of g t] by auto
qed simp

lemma acyclic_order:
  assumes "\<not> has_cycle g" and "\<And>t d. (t, d) \<in> edges g \<Longrightarrow> d \<in> fst ` set g"
  shows "\<exists>order. distinct order \<and> set order = fst ` set g \<and> runs_through g {} order"
proof -
  from assms(1) obtain vs where vs: "visitWorkTasks g [] [] (uniq (rev (map fst g))) = Some vs" by (auto simp: has_cycle_def)
  from visit_Some(2) [OF vs] have settled: "settled_order g vs"
    and all: "\<forall>t\<in>set (uniq (rev (map fst g))). t \<in> set vs \<or> map_of g t = None" by auto
  have "fst ` set g \<subseteq> set vs" using all by (auto simp: map_of_eq_None_iff)
  moreover have "runs_through g {} (rev vs)"
    using assms(2) by (intro settled_runs [OF settled]) (simp add: map_of_eq_None_iff)
  ultimately show ?thesis using settled_set [OF settled] by (intro exI [of _ "rev vs"]) auto
qed

end
