(* ===== verification/Spec_Rules_V02.thy ===== *)
theory Spec_Rules_V02
  imports Spec_Schema_V02 Dependency_Graph
begin

text \<open>
  The rules across the fields of an authored specification (\<open>checkLoopeixV02Invariants\<close> of
  \<open>src/schema/loopeix-v02.ts\<close>), in the order of the code, each group as the issues it adds, and
  the parsing of a document of version 0.2 (\<open>src/schema/version-dispatch.ts\<close>). The theorem at
  the end says what a specification without issues is.
\<close>

type_synonym issue = "string \<times> string"

definition quoted :: "string \<Rightarrow> string" where
  "quoted s = [CHR 0x27] @ s @ [CHR 0x27]"

definition at_index :: "string \<Rightarrow> nat \<Rightarrow> string \<Rightarrow> string" where
  "at_index list i field = list @ ''['' @ dec i @ '']'' @ field"

definition id_of :: "json \<Rightarrow> string" where
  "id_of v = text_of (jget v ''id'')"

definition texts :: "json option \<Rightarrow> string list" where
  "texts v = map (\<lambda>x. text_of (Some x)) (items v)"

definition entries :: "json \<Rightarrow> string \<Rightarrow> json list" where
  "entries v k = items (jget v k)"

text \<open>\<open>new Map(values.map(v => [v.id, v]))\<close>: the last of several with one identifier.\<close>

definition by_id :: "json list \<Rightarrow> string \<Rightarrow> json option" where
  "by_id vs = map_of (rev (map (\<lambda>v. (id_of v, v)) vs))"

subsection \<open>Identifiers\<close>

definition duplicateIds :: "json list \<Rightarrow> string \<Rightarrow> issue list" where
  "duplicateIds vs path = map (\<lambda>i. (path, ''duplicate '' @ path @ '' id: '' @ quoted i)) (dups (map id_of vs))"

definition id_collections :: "string list" where
  "id_collections =
     [''inputs'', ''roles'', ''tasks'', ''tool_grants'', ''artifacts'', ''gates'', ''evaluations'', ''evidence_requirements'']"

definition id_issues :: "json \<Rightarrow> issue list" where
  "id_issues spec =
     concat (map (\<lambda>k. duplicateIds (entries spec k) k) id_collections) @
     duplicateIds (items (attr (jget spec ''progress'') ''observations'')) ''progress.observations'' @
     duplicateIds (entries spec ''compensations'') ''compensations''"

subsection \<open>Tasks\<close>

definition is_work :: "json \<Rightarrow> bool" where
  "is_work task \<longleftrightarrow> is_text (jget task ''kind'') ''work''"

definition work_tasks :: "json \<Rightarrow> json list" where
  "work_tasks spec = filter is_work (entries spec ''tasks'')"

definition is_blocking :: "json \<Rightarrow> bool" where
  "is_blocking gate \<longleftrightarrow> jget gate ''blocking'' = Some (JBool True)"

definition always_applies :: "json \<Rightarrow> bool" where
  "always_applies control \<longleftrightarrow> is_text (attr (jget control ''applicability'') ''mode'') ''always''"

definition pre_task_gate_issues :: "json \<Rightarrow> json \<Rightarrow> string \<Rightarrow> string \<Rightarrow> issue list" where
  "pre_task_gate_issues spec task path ref =
     (let gate = by_id (entries spec ''gates'') ref in
      (if (case gate of None \<Rightarrow> True | Some g \<Rightarrow> \<not> is_blocking g)
       then [(path, ''gate '' @ quoted ref @ '' must be blocking'')] else []) @
      (if is_work task \<and> \<not> (case gate of None \<Rightarrow> False | Some g \<Rightarrow> always_applies g)
       then [(path, ''work task gate '' @ quoted ref @ '' must always apply'')] else []))"

definition task_issues :: "json \<Rightarrow> nat \<times> json \<Rightarrow> issue list" where
  "task_issues spec it =
     (let (i, task) = it; path = at_index ''tasks'' i; role = text_of (jget task ''role'');
          gates = texts (jget task ''pre_task_gate_refs''); dependencies = texts (jget task ''depends_on'') in
      (if role \<notin> set (map id_of (entries spec ''roles'')) then [(path ''.role'', ''unknown role '' @ quoted role)] else []) @
      (if \<not> distinct gates then [(path ''.pre_task_gate_refs'', ''gate references must be unique'')] else []) @
      (if is_text (jget task ''kind'') ''compensation'' \<and> dependencies \<noteq> []
       then [(path ''.depends_on'', ''compensation tasks cannot have dependencies'')] else []) @
      concat (map (\<lambda>d. if d \<notin> set (map id_of (work_tasks spec))
                       then [(path ''.depends_on'', ''dependency '' @ quoted d @ '' is not a work task'')] else []) dependencies) @
      concat (map (\<lambda>a. if a \<notin> set (map id_of (entries spec ''artifacts''))
                       then [(path ''.artifacts'', ''unknown artifact '' @ quoted a)] else []) (texts (jget task ''artifacts''))) @
      concat (map (pre_task_gate_issues spec task (path ''.pre_task_gate_refs'')) gates))"

text \<open>The dependencies of the work tasks, as the map the search looks them up in.\<close>

definition work_graph :: "json \<Rightarrow> graph" where
  "work_graph spec = rev (map (\<lambda>t. (id_of t, texts (jget t ''depends_on''))) (work_tasks spec))"

definition all_task_issues :: "json \<Rightarrow> issue list" where
  "all_task_issues spec =
     (if work_tasks spec = [] then [(''tasks'', ''at least one work task is required'')] else []) @
     concat (map (task_issues spec) (indexed (entries spec ''tasks''))) @
     (if has_cycle (work_graph spec) then [(''tasks'', ''work-task dependency graph contains a cycle'')] else [])"

subsection \<open>Gates, criteria and evaluations\<close>

definition unknown_evidence :: "json \<Rightarrow> json \<Rightarrow> string list" where
  "unknown_evidence spec control =
     filter (\<lambda>r. r \<notin> set (map id_of (entries spec ''evidence_requirements''))) (texts (jget control ''evidence_requirement_refs''))"

definition control_kind :: "json \<Rightarrow> string" where
  "control_kind gate = text_of (jget gate ''control_kind'')"

definition gate_issues :: "json \<Rightarrow> json \<Rightarrow> issue list" where
  "gate_issues spec gate =
     (if control_kind gate \<noteq> ''project-specific'' \<and> \<not> always_applies gate
      then [(''gates'', ''required gate '' @ quoted (control_kind gate) @ '' must always apply'')] else []) @
     (if \<not> is_null (attr (jget gate ''evaluator_binding'') ''export_check_role'')
      then [(''gates'', ''gate export_check_role must be null'')] else []) @
     map (\<lambda>r. (''gates'', ''unknown evidence requirement '' @ quoted r)) (unknown_evidence spec gate)"

text \<open>\<open>requiredGateCounts.get(kind)\<close>; a kind without an entry counts as none.\<close>

definition required_count :: "json list \<Rightarrow> string \<Rightarrow> nat" where
  "required_count gates kind = length (filter (\<lambda>g. control_kind g \<noteq> ''project-specific'' \<and> control_kind g = kind) gates)"

definition all_gate_issues :: "json \<Rightarrow> issue list" where
  "all_gate_issues spec =
     (let gates = entries spec ''gates'' in
      concat (map (gate_issues spec) gates) @
      concat (map (\<lambda>kind. if required_count gates kind \<noteq> 1
                          then [(''gates'', ''exactly one '' @ quoted kind @ '' gate is required'')] else [])
                RequiredGateKindV02_options) @
      (if \<not> list_ex (\<lambda>g. is_blocking g \<and> always_applies g) gates
       then [(''gates'', ''at least one blocking always-applicable gate is required'')] else []))"

definition criterion_issues :: "json \<Rightarrow> issue list" where
  "criterion_issues spec =
     concat (map (\<lambda>r. if (case by_id (entries spec ''evaluations'') r of
                             None \<Rightarrow> True
                           | Some e \<Rightarrow> jget e ''required'' \<noteq> Some (JBool True) \<or> \<not> always_applies e)
                      then [(''goal.success_criteria'', ''evaluation '' @ quoted r @ '' must be required and always applicable'')]
                      else [])
       (concat (map (\<lambda>c. texts (jget c ''evaluation_refs'')) (items (attr (jget spec ''goal'') ''success_criteria'')))))"

definition evaluation_issues :: "json \<Rightarrow> nat \<times> json \<Rightarrow> issue list" where
  "evaluation_issues spec ie =
     (let (i, e) = ie; path = at_index ''evaluations'' i in
      (if is_text (jget e ''type'') ''command'' \<and> (case jget e ''command'' of None \<Rightarrow> True | Some c \<Rightarrow> trim (text_of (Some c)) = [])
       then [(path ''.command'', ''command evaluation requires a non-blank command'')] else []) @
      (if text_of (attr (jget e ''evaluator_binding'') ''role_ref'') \<notin> set (map id_of (entries spec ''roles''))
       then [(path ''.evaluator_binding.role_ref'', ''unknown evaluator role'')] else []) @
      map (\<lambda>r. (path ''.evidence_requirement_refs'', ''unknown evidence requirement '' @ quoted r)) (unknown_evidence spec e))"

subsection \<open>Limits, terminal states and retries\<close>

definition limit_issues :: "json \<Rightarrow> issue list" where
  "limit_issues spec =
     (let progress = jget spec ''progress''; limits = jget spec ''limit_policy'' in
      (if int_at (attr progress ''stall_after_loop_attempts'') \<ge> int_at (attr limits ''max_loop_attempts'')
       then [(''progress.stall_after_loop_attempts'', ''must be below max_loop_attempts'')] else []) @
      (if int_at (attr limits ''control_plane_output_reserve_bytes'') \<ge> int_at (attr limits ''max_output_bytes'')
       then [(''limit_policy.control_plane_output_reserve_bytes'', ''must be below max_output_bytes'')] else []) @
      (if is_null (attr limits ''max_cost_minor_units'') \<noteq> is_null (attr limits ''cost_currency'')
       then [(''limit_policy.cost_currency'', ''cost limit and currency must both be null or both be set'')] else []))"

definition terminal_state_names :: "json \<Rightarrow> string list" where
  "terminal_state_names spec =
     map (\<lambda>t. text_of (jget t ''state'')) (items (attr (jget spec ''stop_policy'') ''terminal_states''))"

definition terminal_issues :: "json \<Rightarrow> issue list" where
  "terminal_issues spec =
     (if length (uniq (terminal_state_names spec)) \<noteq> 7
      then [(''stop_policy.terminal_states'', ''each terminal state is required exactly once'')] else [])"

definition retry_pair :: "json \<Rightarrow> string \<times> string" where
  "retry_pair rule = (text_of (jget rule ''task_ref''), text_of (jget rule ''failure_class''))"

definition inert_retry :: "json \<Rightarrow> bool" where
  "inert_retry rule \<longleftrightarrow>
     jget rule ''max_task_executions'' = Some (JInt 1) \<and> is_text (jget rule ''backoff'') ''none'' \<and>
     jget rule ''base_delay_ms'' = Some (JInt 0) \<and> jget rule ''max_delay_ms'' = Some (JInt 0)"

fun retry_rule_issues :: "string list \<Rightarrow> (string \<times> string) list \<Rightarrow> json list \<Rightarrow> issue list" where
  "retry_rule_issues tasks seen [] = []"
| "retry_rule_issues tasks seen (rule # rules) =
     (if retry_pair rule \<in> set seen then [(''retry_policy.rules'', ''retry pair is duplicated'')] else []) @
     (if fst (retry_pair rule) \<notin> set tasks
      then [(''retry_policy.rules'', ''unknown task '' @ quoted (fst (retry_pair rule)))] else []) @
     (if jget rule ''retryable'' = Some (JBool False) \<and> \<not> inert_retry rule
      then [(''retry_policy.rules'', ''non-retryable rules require one execution and zero backoff'')] else []) @
     retry_rule_issues tasks (retry_pair rule # seen) rules"

definition retry_issues :: "json \<Rightarrow> issue list" where
  "retry_issues spec =
     (let tasks = map id_of (entries spec ''tasks''); rules = items (attr (jget spec ''retry_policy'') ''rules'') in
      retry_rule_issues tasks [] rules @
      map (\<lambda>_. (''retry_policy.rules'', ''every task requires every retry class''))
        (filter (\<lambda>p. p \<notin> set (map retry_pair rules)) (uniq (List.product tasks RetryClassV02_options))))"

subsection \<open>Side effects, artifacts and context\<close>

definition side_effect_ids :: "json \<Rightarrow> string list" where
  "side_effect_ids spec = map (\<lambda>s. text_of (jget s ''task_id'')) (entries spec ''side_effects'')"

definition none_effect_ok :: "json \<Rightarrow> bool" where
  "none_effect_ok side_effect \<longleftrightarrow>
     (let effects = entries side_effect ''effects'' in
      case find (\<lambda>e. is_text (jget e ''effect_class'') ''none'') effects of
        None \<Rightarrow> True
      | Some none \<Rightarrow> length effects = 1 \<and> jget none ''inspectable'' = Some (JBool True) \<and>
          jget none ''reversible'' \<noteq> Some (JBool True) \<and> is_text (jget none ''idempotency'') ''not-required'' \<and>
          is_null (jget none ''compensation_ref''))"

definition side_effect_issues :: "json \<Rightarrow> issue list" where
  "side_effect_issues spec =
     (let ids = side_effect_ids spec; tasks = map id_of (entries spec ''tasks'') in
      (if length ids \<noteq> length (uniq tasks) \<or> length (uniq ids) \<noteq> length ids \<or> list_ex (\<lambda>i. i \<notin> set tasks) ids
       then [(''side_effects'', ''exactly one side-effect container is required per task'')] else []) @
      concat (map (\<lambda>s. if \<not> none_effect_ok s then [(''side_effects'', ''a none effect must be the sole inert effect'')] else [])
                (entries spec ''side_effects'')))"

definition artifact_issues :: "json \<Rightarrow> issue list" where
  "artifact_issues spec =
     (let paths = map (\<lambda>a. text_of (jget a ''path'')) (entries spec ''artifacts'');
          context = jget spec ''context_contract'' in
      (if length (uniq paths) \<noteq> length paths then [(''artifacts'', ''artifact paths must be unique'')] else []) @
      (if list_ex (\<lambda>c. c \<in> set (texts (attr context ''required''))) (texts (attr context ''forbidden''))
       then [(''context_contract'', ''required and forbidden context cannot overlap'')] else []))"

definition checkLoopeixV02Invariants :: "json \<Rightarrow> issue list" where
  "checkLoopeixV02Invariants spec =
     id_issues spec @ all_task_issues spec @ all_gate_issues spec @ criterion_issues spec @
     concat (map (evaluation_issues spec) (indexed (entries spec ''evaluations''))) @
     limit_issues spec @ terminal_issues spec @ retry_issues spec @ side_effect_issues spec @ artifact_issues spec"

subsection \<open>Documents\<close>

datatype document_refusal = MissingVersion | MalformedVersion | UnsupportedVersion | InvalidDocument "issue list"

text \<open>The issues of a document that fails its schema are the schema library's; they are not modelled.\<close>

definition dispatch_v02 :: "json \<Rightarrow> document_refusal + json" where
  "dispatch_v02 v =
     (if \<not> LoopeixV02Shape v then Inl (InvalidDocument [])
      else if checkLoopeixV02Invariants v \<noteq> [] then Inl (InvalidDocument (checkLoopeixV02Invariants v))
      else Inr v)"

end
