(* ===== verification/Spec_V01.thy ===== *)
theory Spec_V01
  imports Spec_Rules_V02
begin

text \<open>
  The authored specification of version 0.1 (\<open>src/schema/loopeix.ts\<close>,
  \<open>src/schema/loopeix-v01.ts\<close>): its schemas, whose objects admit unknown keys and drop them from
  the parsed value, and its rules across fields, in the order of the code.
\<close>

subsection \<open>Schemas\<close>

text \<open>An object whose unknown keys are ignored; its parsed value has the known ones only.\<close>

fun z_object :: "shape \<Rightarrow> shape \<Rightarrow> schema" where
  "z_object req opt (JObj fs) = (fields_ok req fs \<and> optional_ok opt fs)"
| "z_object _ _ _ = False"

definition InputSpec :: shape where
  "InputSpec = [(''id'', z_string HumanId), (''description'', z_text), (''required'', z_boolean)]"

definition SpecialistRoleSpec :: shape where
  "SpecialistRoleSpec =
     [(''id'', z_string HumanId), (''owns'', z_array_min 1 z_text), (''must_not'', z_array z_text),
      (''allowed_tools'', z_array (z_string HumanId)), (''handoff'', z_text)]"

definition TaskSpec :: shape where
  "TaskSpec =
     [(''id'', z_string HumanId), (''role'', z_string HumanId), (''artifacts'', z_array (z_string HumanId)),
      (''depends_on'', z_array (z_string HumanId)), (''acceptance_checks'', z_array_min 1 z_text)]"

definition ToolGrant :: shape where
  "ToolGrant =
     [(''id'', z_string HumanId), (''tool'', z_text), (''scope'', z_text), (''risk_tier'', z_enum RiskTierV1),
      (''requires_approval'', z_boolean)]"

definition ArtifactSpec :: shape where
  "ArtifactSpec =
     [(''id'', z_string HumanId), (''path'', z_string (\<lambda>s. s \<noteq> [])), (''type'', ArtifactType), (''required'', z_boolean),
      (''producer_task'', z_string HumanId), (''acceptance_checks'', z_array_min 1 z_text)]"

definition GateSpec :: shape where
  "GateSpec =
     [(''id'', z_string HumanId), (''blocking'', z_boolean), (''inputs_required'', z_array z_text),
      (''evidence_rule'', z_text), (''pass_condition'', z_text), (''hold_condition'', z_text),
      (''fail_condition'', z_text), (''waiver_allowed'', z_boolean)]"

definition EvaluationSpec :: shape where
  "EvaluationSpec =
     [(''id'', z_string HumanId), (''type'', EvaluationType), (''required'', z_boolean), (''success_condition'', z_text)]"

definition EvaluationSpec_optional :: shape where
  "EvaluationSpec_optional = [(''command'', z_text)]"

definition outcome_shape :: shape where
  "outcome_shape = [(''summary'', z_string (\<lambda>s. s \<noteq> [])), (''success_criteria'', z_array_min 1 z_text)]"

definition context_shape :: shape where
  "context_shape = [(''required'', z_array z_text), (''forbidden'', z_array z_text), (''untrusted_sources'', z_array z_text)]"

definition pattern_shape :: shape where
  "pattern_shape = [(''type'', WorkflowPatternType), (''phases'', z_array_min 1 z_text)]"

definition risk_shape :: shape where
  "risk_shape = [(''max_tier_without_approval'', z_enum RiskTierV1), (''t5_allowed'', z_literal (JBool False))]"

definition retro_shape :: shape where
  "retro_shape = [(''creates'', z_string (\<lambda>s. s \<noteq> []))]"

text \<open>What a field of the specification is: a scalar, an object, or a list of objects.\<close>

datatype v01_field = Scalar schema | Object shape | Objects nat shape shape

definition LoopeixShape :: "(string \<times> v01_field) list" where
  "LoopeixShape =
     [(''schema_version'', Scalar (z_string SchemaVersion)), (''loop_family'', Scalar (z_string HumanId)),
      (''version'', Scalar (z_string LoopVersion)), (''outcome'', Object outcome_shape), (''inputs'', Objects 0 InputSpec []),
      (''context_contract'', Object context_shape), (''workflow_pattern'', Object pattern_shape),
      (''roles'', Objects 1 SpecialistRoleSpec []), (''tasks'', Objects 1 TaskSpec []), (''tool_grants'', Objects 0 ToolGrant []),
      (''artifacts'', Objects 0 ArtifactSpec []), (''gates'', Objects 1 GateSpec []),
      (''evaluations'', Objects 0 EvaluationSpec EvaluationSpec_optional),
      (''risk_controls'', Object risk_shape), (''retro'', Object retro_shape)]"

fun field_schema :: "v01_field \<Rightarrow> schema" where
  "field_schema (Scalar s) = s"
| "field_schema (Object shp) = z_object shp []"
| "field_schema (Objects n req opt) = z_array_min n (z_object req opt)"

definition known :: "shape \<Rightarrow> shape \<Rightarrow> json \<Rightarrow> json" where
  "known req opt v = JObj (pick v (map fst req @ filter (\<lambda>k. jget v k \<noteq> None) (map fst opt)))"

fun field_value :: "v01_field \<Rightarrow> json \<Rightarrow> json" where
  "field_value (Scalar s) v = v"
| "field_value (Object shp) v = known shp [] v"
| "field_value (Objects n req opt) v = JArr (map (known req opt) (items (Some v)))"

text \<open>\<open>LoopeixV01Shape\<close> narrows the version to the literal.\<close>

definition LoopeixV01Shape :: schema where
  "LoopeixV01Shape =
     z_object (map (\<lambda>(k, f). (k, field_schema f)) LoopeixShape @ [(''schema_version'', z_literal (JStr ''0.1''))]) []"

definition loopeix_v01_value :: "json \<Rightarrow> json" where
  "loopeix_v01_value v = JObj (map (\<lambda>(k, f). (k, field_value f (own (jget v k)))) LoopeixShape)"

subsection \<open>Rules across fields\<close>

definition at_item :: "string \<Rightarrow> nat \<Rightarrow> string \<Rightarrow> nat \<Rightarrow> string" where
  "at_item list i field j = at_index list i (at_index field j [])"

definition v01_collections :: "string list" where
  "v01_collections = [''roles'', ''tasks'', ''artifacts'', ''tool_grants'', ''inputs'', ''gates'', ''evaluations'']"

definition v01_task_issues :: "json \<Rightarrow> nat \<times> json \<Rightarrow> issue list" where
  "v01_task_issues spec it =
     (let (i, t) = it; named = ''task '' @ quoted (id_of t) in
      (if text_of (jget t ''role'') \<notin> set (map id_of (entries spec ''roles''))
       then [(at_index ''tasks'' i ''.role'', named @ '' references unknown role '' @ quoted (text_of (jget t ''role'')))] else []) @
      map (\<lambda>(j, a). (at_item ''tasks'' i ''.artifacts'' j, named @ '' references unknown artifact '' @ quoted a))
        (filter (\<lambda>(j, a). a \<notin> set (map id_of (entries spec ''artifacts''))) (indexed (texts (jget t ''artifacts'')))) @
      map (\<lambda>(j, d). (at_item ''tasks'' i ''.depends_on'' j, named @ '' depends on unknown task '' @ quoted d))
        (filter (\<lambda>(j, d). d \<notin> set (map id_of (entries spec ''tasks''))) (indexed (texts (jget t ''depends_on'')))))"

definition v01_artifact_issues :: "json \<Rightarrow> nat \<times> json \<Rightarrow> issue list" where
  "v01_artifact_issues spec ia =
     (let (i, a) = ia; producer = text_of (jget a ''producer_task'') in
      if jget a ''required'' = Some (JBool True) \<and> producer \<notin> set (map id_of (entries spec ''tasks''))
      then [(at_index ''artifacts'' i ''.producer_task'',
             ''required artifact '' @ quoted (id_of a) @ '' has no producing task ('' @ quoted producer @ '' not found)'')]
      else [])"

definition v01_gate_issues :: "nat \<times> json \<Rightarrow> issue list" where
  "v01_gate_issues ig =
     (let (i, g) = ig in
      if is_blocking g \<and> trim (text_of (jget g ''evidence_rule'')) = []
      then [(at_index ''gates'' i ''.evidence_rule'',
             ''blocking gate '' @ quoted (id_of g) @ '' must declare a non-empty evidence_rule'')]
      else [])"

definition v01_evaluation_issues :: "nat \<times> json \<Rightarrow> issue list" where
  "v01_evaluation_issues ie =
     (let (i, e) = ie in
      if is_text (jget e ''type'') ''command'' \<and> (case jget e ''command'' of None \<Rightarrow> True | Some c \<Rightarrow> trim (text_of (Some c)) = [])
      then [(at_index ''evaluations'' i ''.command'',
             ''command evaluation '' @ quoted (id_of e) @ '' requires a non-empty '' @ quoted ''command'')]
      else [])"

definition v01_context_issues :: "json \<Rightarrow> issue list" where
  "v01_context_issues spec =
     (let contract = jget spec ''context_contract'' in
      map (\<lambda>(i, f). (at_index ''context_contract.forbidden'' i [],
             ''context '' @ quoted f @ '' is listed as both required and forbidden''))
        (filter (\<lambda>(i, f). f \<in> set (texts (attr contract ''required''))) (indexed (texts (attr contract ''forbidden'')))))"

definition checkLoopeixInvariants :: "json \<Rightarrow> issue list" where
  "checkLoopeixInvariants spec =
     concat (map (\<lambda>k. duplicateIds (entries spec k) k) v01_collections) @
     concat (map (v01_task_issues spec) (indexed (entries spec ''tasks''))) @
     concat (map (v01_artifact_issues spec) (indexed (entries spec ''artifacts''))) @
     concat (map v01_gate_issues (indexed (entries spec ''gates''))) @
     (if \<not> list_ex is_blocking (entries spec ''gates'')
      then [(''gates'', ''at least one blocking gate is required for a V1 execution loop'')] else []) @
     concat (map v01_evaluation_issues (indexed (entries spec ''evaluations''))) @
     v01_context_issues spec"

subsection \<open>Documents\<close>

text \<open>
  The version is an own property of an object that is a text of two numbers; only two versions
  are supported. Text of the schema library's issues is not modelled.
\<close>

definition readSchemaVersion :: "json \<Rightarrow> document_refusal + string" where
  "readSchemaVersion input =
     (case input of
        JObj _ \<Rightarrow>
          (case jget input ''schema_version'' of
             None \<Rightarrow> Inl MissingVersion
           | Some (JStr raw) \<Rightarrow>
               if \<not> SchemaVersion raw then Inl MalformedVersion
               else if raw \<noteq> ''0.1'' \<and> raw \<noteq> ''0.2'' then Inl UnsupportedVersion
               else Inr raw
           | Some _ \<Rightarrow> Inl MalformedVersion)
      | _ \<Rightarrow> Inl MissingVersion)"

definition dispatch_v01 :: "json \<Rightarrow> document_refusal + json" where
  "dispatch_v01 v =
     (if \<not> LoopeixV01Shape v then Inl (InvalidDocument [])
      else let spec = loopeix_v01_value v; issues = checkLoopeixInvariants spec in
           if issues \<noteq> [] then Inl (InvalidDocument issues) else Inr spec)"

definition dispatchLoopeixValue :: "json \<Rightarrow> document_refusal + json" where
  "dispatchLoopeixValue input =
     (case readSchemaVersion input of
        Inl refusal \<Rightarrow> Inl refusal
      | Inr version \<Rightarrow> if version = ''0.1'' then dispatch_v01 input else dispatch_v02 input)"

end
