(* ===== verification/Spec_Laws_V02.thy ===== *)
theory Spec_Laws_V02
  imports Spec_Rules_V02
begin

text \<open>
  What a specification without issues is, stated without the passes of the check: identifiers
  are unique, references are declared, the work tasks have no cycle, the required gates, the
  terminal states, the retry rules and the side effects are each there exactly once. And its
  work tasks can be run in an order that respects their dependencies.
\<close>

lemma nil_if [simp]: "(if b then [x] else []) = [] \<longleftrightarrow> \<not> b"
  by simp

lemma concat_map_Nil: "concat (map f xs) = [] \<longleftrightarrow> (\<forall>x\<in>set xs. f x = [])"
  by (simp add: concat_eq_Nil_conv)

lemma length_uniq_iff: "length (uniq xs) = length xs \<longleftrightarrow> distinct xs"
  by (metis card_distinct distinct_card distinct_uniq set_uniq)

lemma duplicateIds_Nil [simp]: "duplicateIds vs path = [] \<longleftrightarrow> distinct (map id_of vs)"
  by (simp add: duplicateIds_def)

text \<open>With unique identifiers the map finds exactly the members.\<close>

lemma by_id_iff:
  assumes "distinct (map id_of vs)"
  shows "by_id vs r = Some v \<longleftrightarrow> v \<in> set vs \<and> id_of v = r"
proof -
  have "map fst (rev (map (\<lambda>v. (id_of v, v)) vs)) = rev (map id_of vs)" by (simp add: rev_map comp_def)
  then have "distinct (map fst (rev (map (\<lambda>v. (id_of v, v)) vs)))" using assms by simp
  then show ?thesis unfolding by_id_def by (subst map_of_eq_Some_iff) auto
qed

lemma by_id_ex:
  "distinct (map id_of vs) \<Longrightarrow> (\<exists>v\<in>set vs. id_of v = r \<and> P v) \<longleftrightarrow> (\<exists>v. by_id vs r = Some v \<and> P v)"
  by (auto simp: by_id_iff)

subsection \<open>The rules by group\<close>

definition declared_ids :: "json \<Rightarrow> string \<Rightarrow> string set" where
  "declared_ids spec k = set (map id_of (entries spec k))"

definition work_ids :: "json \<Rightarrow> string set" where
  "work_ids spec = set (map id_of (work_tasks spec))"

definition unique_ids :: "json \<Rightarrow> bool" where
  "unique_ids spec \<longleftrightarrow>
     (\<forall>k\<in>set id_collections. distinct (map id_of (entries spec k))) \<and>
     distinct (map id_of (items (attr (jget spec ''progress'') ''observations''))) \<and>
     distinct (map id_of (entries spec ''compensations''))"

definition task_wf :: "json \<Rightarrow> json \<Rightarrow> bool" where
  "task_wf spec task \<longleftrightarrow>
     text_of (jget task ''role'') \<in> declared_ids spec ''roles'' \<and>
     distinct (texts (jget task ''pre_task_gate_refs'')) \<and>
     (is_text (jget task ''kind'') ''compensation'' \<longrightarrow> texts (jget task ''depends_on'') = []) \<and>
     set (texts (jget task ''depends_on'')) \<subseteq> work_ids spec \<and>
     set (texts (jget task ''artifacts'')) \<subseteq> declared_ids spec ''artifacts'' \<and>
     (\<forall>r\<in>set (texts (jget task ''pre_task_gate_refs'')).
        \<exists>g\<in>set (entries spec ''gates''). id_of g = r \<and> is_blocking g \<and> (is_work task \<longrightarrow> always_applies g))"

definition gate_wf :: "json \<Rightarrow> json \<Rightarrow> bool" where
  "gate_wf spec gate \<longleftrightarrow>
     (control_kind gate \<noteq> ''project-specific'' \<longrightarrow> always_applies gate) \<and>
     is_null (attr (jget gate ''evaluator_binding'') ''export_check_role'') \<and>
     set (texts (jget gate ''evidence_requirement_refs'')) \<subseteq> declared_ids spec ''evidence_requirements''"

definition evaluation_wf :: "json \<Rightarrow> json \<Rightarrow> bool" where
  "evaluation_wf spec e \<longleftrightarrow>
     (is_text (jget e ''type'') ''command'' \<longrightarrow> (\<exists>c. jget e ''command'' = Some c \<and> trim (text_of (Some c)) \<noteq> [])) \<and>
     text_of (attr (jget e ''evaluator_binding'') ''role_ref'') \<in> declared_ids spec ''roles'' \<and>
     set (texts (jget e ''evidence_requirement_refs'')) \<subseteq> declared_ids spec ''evidence_requirements''"

lemma id_issues_Nil: "id_issues spec = [] \<longleftrightarrow> unique_ids spec"
  unfolding id_issues_def append_is_Nil_conv concat_map_Nil unique_ids_def duplicateIds_Nil ..

lemma task_issues_Nil:
  assumes "distinct (map id_of (entries spec ''gates''))"
  shows "task_issues spec (i, task) = [] \<longleftrightarrow> task_wf spec task"
proof -
  have gate: "pre_task_gate_issues spec task p r = [] \<longleftrightarrow>
      (\<exists>g\<in>set (entries spec ''gates''). id_of g = r \<and> is_blocking g \<and> (is_work task \<longrightarrow> always_applies g))" for p r
    unfolding by_id_ex [OF assms]
    by (cases "by_id (entries spec ''gates'') r") (simp_all add: pre_task_gate_issues_def Let_def)
  have if_Nil: "concat (map (\<lambda>x. if x \<notin> A then [h x] else []) xs) = [] \<longleftrightarrow> set xs \<subseteq> A" for A xs and h :: "string \<Rightarrow> issue"
    by (induction xs) simp_all
  show ?thesis
    unfolding task_issues_def Let_def prod.case append_is_Nil_conv nil_if if_Nil concat_map_Nil gate task_wf_def
      declared_ids_def work_ids_def by blast
qed

lemma all_task_issues_Nil:
  assumes "distinct (map id_of (entries spec ''gates''))"
  shows "all_task_issues spec = [] \<longleftrightarrow>
    work_tasks spec \<noteq> [] \<and> list_all (task_wf spec) (entries spec ''tasks'') \<and>
    \<not> (\<exists>t. (t, t) \<in> (edges (work_graph spec))\<^sup>+)"
  unfolding all_task_issues_def append_is_Nil_conv nil_if has_cycle_iff list_all_iff
    concat_indexed_Nil [of "task_issues spec", OF task_issues_Nil [OF assms]] by blast

lemma gate_issues_Nil: "gate_issues spec gate = [] \<longleftrightarrow> gate_wf spec gate"
  by (auto simp: gate_issues_def gate_wf_def unknown_evidence_def declared_ids_def filter_empty_conv)

lemma all_gate_issues_Nil:
  "all_gate_issues spec = [] \<longleftrightarrow>
     list_all (gate_wf spec) (entries spec ''gates'') \<and>
     list_all (\<lambda>kind. required_count (entries spec ''gates'') kind = 1) RequiredGateKindV02_options \<and>
     list_ex (\<lambda>g. is_blocking g \<and> always_applies g) (entries spec ''gates'')"
  unfolding all_gate_issues_def Let_def append_is_Nil_conv nil_if concat_map_Nil gate_issues_Nil list_all_iff by simp

lemma criterion_issues_Nil:
  assumes "distinct (map id_of (entries spec ''evaluations''))"
  shows "criterion_issues spec = [] \<longleftrightarrow>
    list_all (\<lambda>c. list_all (\<lambda>r. list_ex (\<lambda>e. id_of e = r \<and> jget e ''required'' = Some (JBool True) \<and> always_applies e)
        (entries spec ''evaluations'')) (texts (jget c ''evaluation_refs'')))
      (items (attr (jget spec ''goal'') ''success_criteria''))"
proof -
  have "(case by_id (entries spec ''evaluations'') r of None \<Rightarrow> True
         | Some e \<Rightarrow> jget e ''required'' \<noteq> Some (JBool True) \<or> \<not> always_applies e) \<longleftrightarrow>
      \<not> list_ex (\<lambda>e. id_of e = r \<and> jget e ''required'' = Some (JBool True) \<and> always_applies e) (entries spec ''evaluations'')" for r
    unfolding list_ex_iff by_id_ex [OF assms]
    by (cases "by_id (entries spec ''evaluations'') r") simp_all
  then show ?thesis
    unfolding criterion_issues_def concat_map_Nil list_all_iff by auto
qed

lemma evaluation_issues_Nil: "evaluation_issues spec (i, e) = [] \<longleftrightarrow> evaluation_wf spec e"
  by (auto simp: evaluation_issues_def evaluation_wf_def unknown_evidence_def declared_ids_def filter_empty_conv
      Let_def split: option.splits)

text \<open>The rules are a bijection with the pairs of tasks and retry classes.\<close>

lemma retry_rule_issues_Nil:
  "retry_rule_issues tasks seen rules = [] \<longleftrightarrow>
     distinct (map retry_pair rules) \<and> set (map retry_pair rules) \<inter> set seen = {} \<and>
     fst ` set (map retry_pair rules) \<subseteq> set tasks \<and>
     list_all (\<lambda>r. jget r ''retryable'' = Some (JBool False) \<longrightarrow> inert_retry r) rules"
  by (induction tasks seen rules rule: retry_rule_issues.induct) auto

definition retry_rules_wf :: "json \<Rightarrow> bool" where
  "retry_rules_wf spec \<longleftrightarrow>
     (let rules = items (attr (jget spec ''retry_policy'') ''rules'') in
      distinct (map retry_pair rules) \<and>
      declared_ids spec ''tasks'' \<times> set RetryClassV02_options \<subseteq> set (map retry_pair rules) \<and>
      set (map retry_pair rules) \<subseteq> declared_ids spec ''tasks'' \<times> UNIV \<and>
      list_all (\<lambda>r. jget r ''retryable'' = Some (JBool False) \<longrightarrow> inert_retry r) rules)"

lemma retry_issues_Nil: "retry_issues spec = [] \<longleftrightarrow> retry_rules_wf spec"
proof -
  have "fst ` A \<subseteq> B \<longleftrightarrow> A \<subseteq> B \<times> UNIV" for A :: "(string \<times> string) set" and B by force
  then show ?thesis
    unfolding retry_issues_def retry_rules_wf_def Let_def append_is_Nil_conv retry_rule_issues_Nil declared_ids_def
    by (auto simp: filter_empty_conv simp del: set_map)
qed

lemma side_effect_issues_Nil:
  "side_effect_issues spec = [] \<longleftrightarrow>
     (distinct (side_effect_ids spec) \<and> set (side_effect_ids spec) = declared_ids spec ''tasks'') \<and>
     list_all none_effect_ok (entries spec ''side_effects'')"
proof -
  have "length ids = length (uniq tasks) \<and> distinct ids \<and> set ids \<subseteq> set tasks \<longleftrightarrow> distinct ids \<and> set ids = set tasks"
    for ids tasks :: "string list"
    by (metis card_subset_eq distinct_card distinct_uniq finite_set order_refl set_uniq)
  from this [of "side_effect_ids spec" "map id_of (entries spec ''tasks'')"] show ?thesis
    unfolding side_effect_issues_def Let_def append_is_Nil_conv nil_if length_uniq_iff concat_map_Nil list_all_iff
      list_ex_iff declared_ids_def by auto
qed

definition limits_wf :: "json \<Rightarrow> bool" where
  "limits_wf spec \<longleftrightarrow>
     (let limits = jget spec ''limit_policy'' in
      int_at (attr (jget spec ''progress'') ''stall_after_loop_attempts'') < int_at (attr limits ''max_loop_attempts'') \<and>
      int_at (attr limits ''control_plane_output_reserve_bytes'') < int_at (attr limits ''max_output_bytes'') \<and>
      (is_null (attr limits ''max_cost_minor_units'') \<longleftrightarrow> is_null (attr limits ''cost_currency'')))"

lemma limit_issues_Nil: "limit_issues spec = [] \<longleftrightarrow> limits_wf spec"
  by (auto simp: limit_issues_def limits_wf_def Let_def)

definition artifacts_wf :: "json \<Rightarrow> bool" where
  "artifacts_wf spec \<longleftrightarrow>
     distinct (map (\<lambda>a. text_of (jget a ''path'')) (entries spec ''artifacts'')) \<and>
     set (texts (attr (jget spec ''context_contract'') ''required'')) \<inter>
       set (texts (attr (jget spec ''context_contract'') ''forbidden'')) = {}"

lemma artifact_issues_Nil: "artifact_issues spec = [] \<longleftrightarrow> artifacts_wf spec"
  unfolding artifact_issues_def artifacts_wf_def Let_def append_is_Nil_conv nil_if length_uniq_iff not_not list_ex_iff
  by blast

subsection \<open>Accepted specifications\<close>

text \<open>
  C35: a specification has no issues exactly if it is well-formed: identifiers are unique, every
  reference is declared, the dependencies of the work tasks have no cycle, every required gate
  is there once and applies always, criteria rest on required evaluations, the seven terminal
  states differ, the retry rules give every task every class once, and the side effects name
  every task once.
\<close>

theorem accepted_spec_iff:
  "checkLoopeixV02Invariants spec = [] \<longleftrightarrow>
     unique_ids spec \<and>
     (work_tasks spec \<noteq> [] \<and> list_all (task_wf spec) (entries spec ''tasks'') \<and>
      \<not> (\<exists>t. (t, t) \<in> (edges (work_graph spec))\<^sup>+)) \<and>
     (list_all (gate_wf spec) (entries spec ''gates'') \<and>
      list_all (\<lambda>kind. required_count (entries spec ''gates'') kind = 1) RequiredGateKindV02_options \<and>
      list_ex (\<lambda>g. is_blocking g \<and> always_applies g) (entries spec ''gates'')) \<and>
     list_all (\<lambda>c. list_all (\<lambda>r. list_ex (\<lambda>e. id_of e = r \<and> jget e ''required'' = Some (JBool True) \<and> always_applies e)
         (entries spec ''evaluations'')) (texts (jget c ''evaluation_refs'')))
       (items (attr (jget spec ''goal'') ''success_criteria'')) \<and>
     list_all (evaluation_wf spec) (entries spec ''evaluations'') \<and>
     limits_wf spec \<and>
     card (set (terminal_state_names spec)) = 7 \<and>
     retry_rules_wf spec \<and>
     (distinct (side_effect_ids spec) \<and> set (side_effect_ids spec) = declared_ids spec ''tasks'') \<and>
     list_all none_effect_ok (entries spec ''side_effects'') \<and>
     artifacts_wf spec"
proof (cases "unique_ids spec")
  case False
  then show ?thesis by (simp add: checkLoopeixV02Invariants_def id_issues_Nil)
next
  case True
  then have distinct: "distinct (map id_of (entries spec ''gates''))" "distinct (map id_of (entries spec ''evaluations''))"
    by (simp_all add: unique_ids_def id_collections_def)
  have evaluations: "concat (map (evaluation_issues spec) (indexed (entries spec ''evaluations''))) = [] \<longleftrightarrow>
      list_all (evaluation_wf spec) (entries spec ''evaluations'')"
    unfolding concat_indexed_Nil [of "evaluation_issues spec", OF evaluation_issues_Nil] list_all_iff ..
  have terminal: "terminal_issues spec = [] \<longleftrightarrow> card (set (terminal_state_names spec)) = 7"
    by (simp add: terminal_issues_def distinct_card [OF distinct_uniq, symmetric])
  show ?thesis
    unfolding checkLoopeixV02Invariants_def append_is_Nil_conv id_issues_Nil all_task_issues_Nil [OF distinct(1)]
      all_gate_issues_Nil criterion_issues_Nil [OF distinct(2)] evaluations terminal side_effect_issues_Nil
      limit_issues_Nil retry_issues_Nil artifact_issues_Nil
    by blast
qed

lemma task_issues_dependencies:
  assumes "task_issues spec (i, task) = []"
  shows "set (texts (jget task ''depends_on'')) \<subseteq> work_ids spec"
proof
  fix d assume d: "d \<in> set (texts (jget task ''depends_on''))"
  from assms have "concat (map (\<lambda>d. if d \<notin> set (map id_of (work_tasks spec))
      then [(at_index ''tasks'' i ''.depends_on'', ''dependency '' @ quoted d @ '' is not a work task'')] else [])
      (texts (jget task ''depends_on''))) = []"
    unfolding task_issues_def Let_def prod.case append_is_Nil_conv by blast
  with d show "d \<in> work_ids spec" unfolding concat_map_Nil work_ids_def nil_if by blast
qed

lemma work_graph_tasks: "fst ` set (work_graph spec) = work_ids spec"
  by (simp add: work_graph_def work_ids_def image_image)

text \<open>
  C36: the work tasks of a specification whose tasks have no issues can all be run, each once and
  each after its dependencies.
\<close>

theorem work_tasks_have_order:
  assumes "all_task_issues spec = []"
  shows "\<exists>order. distinct order \<and> set order = work_ids spec \<and> runs_through (work_graph spec) {} order"
proof -
  from assms have tasks: "\<forall>p\<in>set (indexed (entries spec ''tasks'')). task_issues spec p = []"
    and acyclic: "\<not> has_cycle (work_graph spec)"
    unfolding all_task_issues_def append_is_Nil_conv nil_if concat_map_Nil by blast+
  have "d \<in> fst ` set (work_graph spec)" if edge: "(t, d) \<in> edges (work_graph spec)" for t d
  proof -
    from edge obtain deps where deps: "map_of (work_graph spec) t = Some deps" and d: "d \<in> set deps"
      by (auto simp: edges_def)
    from map_of_SomeD [OF deps] obtain task where task: "task \<in> set (work_tasks spec)"
      and task_deps: "deps = texts (jget task ''depends_on'')"
      by (auto simp: work_graph_def)
    then have "task \<in> set (entries spec ''tasks'')" by (simp add: work_tasks_def)
    then obtain i where "i < length (entries spec ''tasks'')" "entries spec ''tasks'' ! i = task"
      by (auto simp: in_set_conv_nth)
    then have "(i, task) \<in> set (indexed (entries spec ''tasks''))" by (simp add: set_indexed)
    with tasks task_issues_dependencies d show ?thesis
      unfolding work_graph_tasks task_deps by blast
  qed
  from acyclic_order [OF acyclic this] show ?thesis unfolding work_graph_tasks .
qed

definition demo_task :: "string \<Rightarrow> string list \<Rightarrow> json" where
  "demo_task i deps = JObj
     [(''id'', JStr i), (''role'', JStr ''maker''), (''artifacts'', JArr []), (''depends_on'', JArr (map JStr deps)),
      (''kind'', JStr ''work''), (''pre_task_gate_refs'', JArr [])]"

definition demo_spec :: json where
  "demo_spec = JObj
     [(''roles'', JArr [JObj [(''id'', JStr ''maker'')]]),
      (''tasks'', JArr [demo_task ''report'' [''build'', ''test''], demo_task ''test'' [''build''], demo_task ''build'' []])]"

lemma work_tasks_have_order_witness:
  "\<exists>order. distinct order \<and> set order = work_ids demo_spec \<and> runs_through (work_graph demo_spec) {} order"
  by (rule work_tasks_have_order) code_simp

end
