(* ===== verification/Document_Laws.thy ===== *)
theory Document_Laws
  imports Spec_V01 Spec_Laws_V02
begin

text \<open>
  Laws of the parsing of authored documents: what is accepted is accepted again as itself, though
  the first parse of version 0.1 drops unknown keys; and what an accepted specification of
  version 0.1 is.
\<close>

subsection \<open>The known fields of a value\<close>

lemma map_of_pick: "map_of (pick v ks) k = (if k \<in> set ks then Some (own (jget v k)) else None)"
  unfolding pick_def by (induction ks) auto

lemma z_object_JObj: "z_object req opt v \<Longrightarrow> \<exists>fs. v = JObj fs"
  by (cases v) simp_all

lemma z_object_required:
  assumes "z_object req opt v" and "k \<in> fst ` set req"
  shows "jget v k \<noteq> None"
  using assms by (cases v) (auto simp: fields_ok_def list_all_iff split: option.splits)

lemma jget_known:
  assumes "z_object req opt v" and "k \<in> fst ` set (req @ opt)"
  shows "jget (known req opt v) k = jget v k"
proof (cases "jget v k")
  case None
  with z_object_required [OF assms(1), of k] have "k \<notin> fst ` set req" by blast
  with None show ?thesis by (simp add: known_def map_of_pick)
next
  case (Some x)
  with assms(2) show ?thesis by (auto simp: known_def map_of_pick own_def)
qed

lemma z_object_iff:
  "z_object req opt (JObj fs) \<longleftrightarrow>
     (\<forall>(k, s) \<in> set req. \<exists>x. jget (JObj fs) k = Some x \<and> s x) \<and>
     (\<forall>(k, s) \<in> set opt. \<forall>x. jget (JObj fs) k = Some x \<longrightarrow> s x)"
  by (auto simp: fields_ok_def optional_ok_def list_all_iff split: option.splits)

lemma z_object_known:
  assumes "z_object req opt v"
  shows "z_object req opt (known req opt v)"
proof -
  obtain fs where v: "v = JObj fs" using z_object_JObj [OF assms] ..
  obtain gs where known: "known req opt v = JObj gs" by (simp add: known_def)
  have req: "jget (JObj gs) k = jget (JObj fs) k" if "(k, s) \<in> set req" for k s
    using jget_known [OF assms image_eqI, of k "(k, s)"] that by (simp only: v [symmetric] known [symmetric]) simp
  have opt: "jget (JObj gs) k = jget (JObj fs) k" if "(k, s) \<in> set opt" for k s
    using jget_known [OF assms image_eqI, of k "(k, s)"] that by (simp only: v [symmetric] known [symmetric]) simp
  from assms have "(\<forall>(k, s) \<in> set req. \<exists>x. jget (JObj gs) k = Some x \<and> s x) \<and>
      (\<forall>(k, s) \<in> set opt. \<forall>x. jget (JObj gs) k = Some x \<longrightarrow> s x)"
    unfolding v z_object_iff by (auto simp: req opt simp del: jget.simps)
  then show ?thesis unfolding known z_object_iff .
qed

lemma known_known:
  assumes "z_object req opt v"
  shows "known req opt (known req opt v) = known req opt v"
proof -
  have same: "jget (known req opt v) k = jget v k" if "k \<in> set (map fst req) \<union> set (map fst opt)" for k
    using that by (intro jget_known [OF assms]) auto
  have kept: "filter (\<lambda>k. jget (known req opt v) k \<noteq> None) (map fst opt) = filter (\<lambda>k. jget v k \<noteq> None) (map fst opt)"
    by (rule filter_cong) (simp_all only: same Un_iff simp_thms)
  have again: "pick (known req opt v) ks = pick v ks" if "set ks \<subseteq> set (map fst req) \<union> set (map fst opt)" for ks
    unfolding pick_def using that same by (intro map_cong refl) (simp add: subset_eq)
  let ?ks = "map fst req @ filter (\<lambda>k. jget v k \<noteq> None) (map fst opt)"
  have "known req opt (known req opt v) = JObj (pick (known req opt v) ?ks)"
    unfolding known_def [of req opt "known req opt v"] by (simp only: kept)
  also have "pick (known req opt v) ?ks = pick v ?ks" by (rule again) auto
  also have "JObj (pick v ?ks) = known req opt v" by (simp only: known_def)
  finally show ?thesis .
qed

lemma field_value_ok: "field_schema f v \<Longrightarrow> field_schema f (field_value f v)"
  by (cases f)
     (auto simp: z_object_known z_array_min_def list_all_iff elim!: z_array_of.elims)

lemma field_value_again: "field_schema f v \<Longrightarrow> field_value f (field_value f v) = field_value f v"
  by (cases f)
     (auto simp: known_known z_array_min_def list_all_iff elim!: z_array_of.elims)

subsection \<open>Version 0.1\<close>

lemma shape_field:
  assumes "LoopeixV01Shape v" and "(k, f) \<in> set LoopeixShape"
  shows "\<exists>x. jget v k = Some x \<and> field_schema f x"
  using assms by (cases v) (force simp: LoopeixV01Shape_def fields_ok_def list_all_iff split: option.splits)+

lemma v01_keys_distinct: "distinct (map fst LoopeixShape)"
  by (simp add: LoopeixShape_def)

lemma jget_v01_value:
  assumes "(k, f) \<in> set LoopeixShape"
  shows "jget (loopeix_v01_value v) k = Some (field_value f (own (jget v k)))"
proof -
  let ?g = "\<lambda>(k, f). (k, field_value f (own (jget v k)))"
  have "map fst (map ?g LoopeixShape) = map fst LoopeixShape" by (simp add: case_prod_unfold comp_def)
  then have "distinct (map fst (map ?g LoopeixShape))" using v01_keys_distinct by (simp only:)
  moreover have "(k, field_value f (own (jget v k))) \<in> set (map ?g LoopeixShape)" using assms by force
  ultimately show ?thesis unfolding loopeix_v01_value_def jget.simps by (rule map_of_is_SomeI)
qed

lemma v01_version_field: "(''schema_version'', Scalar (z_string SchemaVersion)) \<in> set LoopeixShape"
  by (simp add: LoopeixShape_def)

lemma LoopeixV01Shape_iff:
  "LoopeixV01Shape (JObj fs) \<longleftrightarrow>
     jget (JObj fs) ''schema_version'' = Some (JStr ''0.1'') \<and>
     (\<forall>(k, f)\<in>set LoopeixShape. \<exists>x. jget (JObj fs) k = Some x \<and> field_schema f x)"
  unfolding LoopeixV01Shape_def z_object_iff by (auto simp: z_literal_def)

lemma v01_value_shape:
  assumes "LoopeixV01Shape v"
  shows "LoopeixV01Shape (loopeix_v01_value v)"
proof -
  obtain fs where v: "v = JObj fs" using assms by (cases v) (simp_all add: LoopeixV01Shape_def)
  obtain gs where val: "loopeix_v01_value v = JObj gs" by (simp add: loopeix_v01_value_def)
  have "\<exists>x. jget (JObj gs) k = Some x \<and> field_schema f x" if "(k, f) \<in> set LoopeixShape" for k f
    using jget_v01_value [OF that, of v] shape_field [OF assms that] field_value_ok
    unfolding val by (auto simp: own_def)
  moreover have "jget (JObj gs) ''schema_version'' = Some (JStr ''0.1'')"
    using jget_v01_value [OF v01_version_field, of v] assms unfolding v LoopeixV01Shape_iff val [unfolded v]
    by (simp add: own_def)
  ultimately show ?thesis unfolding val LoopeixV01Shape_iff by blast
qed

lemma v01_value_again:
  assumes "LoopeixV01Shape v"
  shows "loopeix_v01_value (loopeix_v01_value v) = loopeix_v01_value v"
proof -
  have "field_value f (own (jget (loopeix_v01_value v) k)) = field_value f (own (jget v k))"
    if "(k, f) \<in> set LoopeixShape" for k f
    using jget_v01_value [OF that, of v] shape_field [OF assms that] field_value_again by (auto simp: own_def)
  then show ?thesis unfolding loopeix_v01_value_def [of "loopeix_v01_value v"] by (subst loopeix_v01_value_def) auto
qed

lemma v01_version_only:
  assumes "LoopeixV01Shape v"
  shows "readSchemaVersion v = Inr ''0.1''"
proof -
  have version: "SchemaVersion ''0.1''" by code_simp
  obtain fs where v: "v = JObj fs" using assms by (cases v) (simp_all add: LoopeixV01Shape_def)
  from assms have "map_of fs ''schema_version'' = Some (JStr ''0.1'')" by (simp add: v LoopeixV01Shape_iff)
  with version show ?thesis by (simp add: v readSchemaVersion_def)
qed

subsection \<open>Accepted documents\<close>

lemma readSchemaVersion_cases: "readSchemaVersion v = Inr ver \<Longrightarrow> ver = ''0.1'' \<or> ver = ''0.2''"
  by (auto simp: readSchemaVersion_def split: json.splits option.splits if_splits)

lemma dispatch_accepted_cases:
  assumes "dispatchLoopeixValue input = Inr v"
  obtains (v01) "readSchemaVersion input = Inr ''0.1''" "LoopeixV01Shape input" "v = loopeix_v01_value input"
      "checkLoopeixInvariants v = []"
    | (v02) "readSchemaVersion input = Inr ''0.2''" "LoopeixV02Shape input" "v = input" "checkLoopeixV02Invariants v = []"
  using assms readSchemaVersion_cases
  by (fastforce simp: dispatchLoopeixValue_def dispatch_v01_def dispatch_v02_def Let_def split: sum.splits if_splits)

text \<open>
  C37: an accepted document parses to itself: its parsed value, from which unknown keys of version
  0.1 are gone, is accepted again and unchanged.
\<close>

theorem accepted_document_reparses:
  assumes "dispatchLoopeixValue input = Inr v"
  shows "dispatchLoopeixValue v = Inr v"
  using assms
proof (cases rule: dispatch_accepted_cases)
  case v01
  from v01(2) have "LoopeixV01Shape v" "loopeix_v01_value v = v" unfolding v01(3)
    by (rule v01_value_shape, rule v01_value_again)
  with v01(4) v01_version_only [of v] show ?thesis by (simp add: dispatchLoopeixValue_def dispatch_v01_def Let_def)
next
  case v02
  with assms show ?thesis by simp
qed

subsection \<open>Risk tiers\<close>

text \<open>The rules every version shares: no tier of a grant or of the controls is T5.\<close>

definition grant_tier_ok :: "json \<Rightarrow> bool" where
  "grant_tier_ok grant \<longleftrightarrow> z_enum RiskTierV1 (own (jget grant ''risk_tier''))"

definition controls_ok :: "json option \<Rightarrow> bool" where
  "controls_ok controls \<longleftrightarrow>
     z_enum RiskTierV1 (own (attr controls ''max_tier_without_approval'')) \<and>
     attr controls ''t5_allowed'' = Some (JBool False)"

lemma z_array_items: "z_array s v \<Longrightarrow> list_all s (items (Some v))"
  by (cases v) (simp_all add: z_array_def)

lemma v01_risk:
  assumes "LoopeixV01Shape v"
  shows "list_all grant_tier_ok (entries v ''tool_grants'') \<and> controls_ok (jget v ''risk_controls'')"
proof
  obtain x where x: "jget v ''tool_grants'' = Some x" "z_array_min 0 (z_object ToolGrant []) x"
    using shape_field [OF assms, of "''tool_grants''" "Objects 0 ToolGrant []"] by (auto simp: LoopeixShape_def)
  have "grant_tier_ok g" if "z_object ToolGrant [] g" for g
    using that by (cases g) (auto simp: ToolGrant_def grant_tier_ok_def fields_ok_def own_def split: option.splits)
  with x(2) show "list_all grant_tier_ok (entries v ''tool_grants'')"
    by (cases x) (auto simp: x(1) entries_def z_array_min_def list_all_iff)
  obtain c where c: "jget v ''risk_controls'' = Some c" "z_object risk_shape [] c"
    using shape_field [OF assms, of "''risk_controls''" "Object risk_shape"] by (auto simp: LoopeixShape_def)
  from c(2) show "controls_ok (jget v ''risk_controls'')"
    by (cases c) (auto simp: c(1) risk_shape_def controls_ok_def fields_ok_def own_def z_literal_def split: option.splits)
qed

lemma v02_risk:
  assumes "LoopeixV02Shape v"
  shows "list_all grant_tier_ok (entries v ''tool_grants'') \<and> controls_ok (jget v ''risk_controls'')"
proof
  note field = strict_field [OF assms [unfolded LoopeixV02Shape_def]]
  obtain x where x: "jget v ''tool_grants'' = Some x" "z_array ToolGrantV02 x"
    using field [of "''tool_grants''" "z_array ToolGrantV02"] by auto
  have "grant_tier_ok g" if "ToolGrantV02 g" for g
    using strict_field [OF that [unfolded ToolGrantV02_def], of "''risk_tier''" "z_enum RiskTierV1"]
    by (auto simp: grant_tier_ok_def own_def)
  with z_array_items [OF x(2)] show "list_all grant_tier_ok (entries v ''tool_grants'')"
    by (auto simp: x(1) entries_def list_all_iff)
  obtain c where c: "jget v ''risk_controls'' = Some c" and
      risk: "strictObject [(''max_tier_without_approval'', z_enum RiskTierV1), (''t5_allowed'', z_literal (JBool False))] c"
    using field [of "''risk_controls''" "strictObject _"] by auto
  show "controls_ok (jget v ''risk_controls'')"
    using strict_field [OF risk, of "''max_tier_without_approval''" "z_enum RiskTierV1"]
      strict_field [OF risk, of "''t5_allowed''" "z_literal (JBool False)"]
    by (auto simp: c controls_ok_def own_def z_literal_def)
qed

text \<open>
  No accepted document, of either version, grants a tool of tier T5 or lets T5 run without
  approval.
\<close>

theorem accepted_document_no_t5:
  assumes "dispatchLoopeixValue input = Inr v"
  shows "list_all grant_tier_ok (entries v ''tool_grants'') \<and> controls_ok (jget v ''risk_controls'')"
  using assms by (cases rule: dispatch_accepted_cases) (auto dest: v01_risk [OF v01_value_shape] v02_risk)

subsection \<open>An accepted document\<close>

definition demo_document :: json where
  "demo_document = JObj
     [(''schema_version'', JStr ''0.1''), (''loop_family'', JStr ''demo''), (''version'', JStr ''v001''),
      (''outcome'', JObj [(''summary'', JStr ''s''), (''success_criteria'', JArr [JStr ''c''])]),
      (''inputs'', JArr []),
      (''context_contract'', JObj [(''required'', JArr []), (''forbidden'', JArr []), (''untrusted_sources'', JArr [])]),
      (''workflow_pattern'', JObj [(''type'', JStr ''routing''), (''phases'', JArr [JStr ''p''])]),
      (''roles'', JArr [JObj [(''id'', JStr ''maker''), (''owns'', JArr [JStr ''o'']), (''must_not'', JArr []),
         (''allowed_tools'', JArr []), (''handoff'', JStr []), (''note'', JStr ''unknown'')]]),
      (''tasks'', JArr [JObj [(''id'', JStr ''build''), (''role'', JStr ''maker''), (''artifacts'', JArr []),
         (''depends_on'', JArr []), (''acceptance_checks'', JArr [JStr ''a''])]]),
      (''tool_grants'', JArr [JObj [(''id'', JStr ''g''), (''tool'', JStr ''t''), (''scope'', JStr []),
         (''risk_tier'', JStr ''T1''), (''requires_approval'', JBool True)]]),
      (''artifacts'', JArr []),
      (''gates'', JArr [JObj [(''id'', JStr ''q''), (''blocking'', JBool True), (''inputs_required'', JArr []),
         (''evidence_rule'', JStr ''e''), (''pass_condition'', JStr []), (''hold_condition'', JStr []),
         (''fail_condition'', JStr []), (''waiver_allowed'', JBool False)]]),
      (''evaluations'', JArr []),
      (''risk_controls'', JObj [(''max_tier_without_approval'', JStr ''T1''), (''t5_allowed'', JBool False)]),
      (''retro'', JObj [(''creates'', JStr ''r'')]), (''extra'', JNull)]"

lemma demo_document_accepted: "dispatchLoopeixValue demo_document = Inr (loopeix_v01_value demo_document)"
  by code_simp

lemma accepted_document_reparses_witness:
  "dispatchLoopeixValue (loopeix_v01_value demo_document) = Inr (loopeix_v01_value demo_document)"
  by (rule accepted_document_reparses [OF demo_document_accepted])

lemma accepted_document_no_t5_witness:
  "list_all grant_tier_ok (entries (loopeix_v01_value demo_document) ''tool_grants'') \<and>
   controls_ok (jget (loopeix_v01_value demo_document) ''risk_controls'')"
  by (rule accepted_document_no_t5 [OF demo_document_accepted])

end
