(* ===== verification/Ledger_Refs.thy ===== *)
theory Ledger_Refs
  imports Zod Replay
begin

text \<open>
  What the validators of the runtime ledgers share (\<open>src/run/runtime-ledger-v02.ts\<close>, \<open>-v03.ts\<close>,
  \<open>-v04.ts\<close>): the readings of an event, the references an event's payload holds, the event a
  reference names, and the loop that stops at the first event with a fault. Events are the JSON
  values their schema accepted; a reference names an event by its sequence and hash.
\<close>

subsection \<open>Events and references\<close>

definition ev_type :: "json \<Rightarrow> string" where
  "ev_type e = text_of (jget e ''event_type'')"

definition seq_of :: "json \<Rightarrow> int" where
  "seq_of e = int_at (jget e ''sequence'')"

definition hash_of :: "json \<Rightarrow> string" where
  "hash_of e = text_of (jget e ''event_hash'')"

type_synonym ledger_key = "int \<times> string"

definition key_of :: "json \<Rightarrow> ledger_key" where
  "key_of e = (seq_of e, hash_of e)"

definition key_ref :: "json option \<Rightarrow> ledger_key" where
  "key_ref r = (int_at (attr r ''ledger_sequence''), text_of (attr r ''event_hash''))"

text \<open>The last event under a key wins; its position stands for the identity of the object.\<close>

definition resolve :: "json list \<Rightarrow> json option \<Rightarrow> (nat \<times> json) option" where
  "resolve es r = map_of (rev (map (\<lambda>(j, e). (key_of e, (j, e))) (indexed es))) (key_ref r)"

definition resolved :: "json list \<Rightarrow> json option \<Rightarrow> string list \<Rightarrow> (nat \<Rightarrow> json \<Rightarrow> bool) \<Rightarrow> bool" where
  "resolved es r types p =
     (case resolve es r of None \<Rightarrow> False | Some (j, x) \<Rightarrow> ev_type x \<in> set types \<and> p j x)"

subsection \<open>The references of a payload\<close>

text \<open>An object with a whole \<open>ledger_sequence\<close> and a text \<open>event_hash\<close> is a reference, wherever it is.\<close>

fun as_ledger_ref :: "(string \<times> json) list \<Rightarrow> ledger_key option" where
  "as_ledger_ref fs =
     (case (map_of fs ''ledger_sequence'', map_of fs ''event_hash'') of
        (Some (JInt n), Some (JStr h)) \<Rightarrow> if isSafeInteger n then Some (n, h) else None
      | _ \<Rightarrow> None)"

fun collectLedgerRefs :: "json \<Rightarrow> ledger_key list"
  and collect_items :: "json list \<Rightarrow> ledger_key list"
  and collect_fields :: "(string \<times> json) list \<Rightarrow> ledger_key list"
where
  "collectLedgerRefs (JArr vs) = collect_items vs"
| "collectLedgerRefs (JObj fs) = (case as_ledger_ref fs of Some key \<Rightarrow> [key] | None \<Rightarrow> collect_fields fs)"
| "collectLedgerRefs _ = []"
| "collect_items [] = []"
| "collect_items (v # vs) = collectLedgerRefs v @ collect_items vs"
| "collect_fields [] = []"
| "collect_fields ((k, v) # fs) = collectLedgerRefs v @ collect_fields fs"

text \<open>A reference to a record: its kind, its identifier and the event that recorded it.\<close>

definition is_record_ref :: "(string \<times> json) list \<Rightarrow> bool" where
  "is_record_ref fs \<longleftrightarrow>
     (case (map_of fs ''record_kind'', map_of fs ''record_id'', map_of fs ''record_event_ref'') of
        (Some (JStr _), Some (JStr _), Some (JObj gs)) \<Rightarrow> as_ledger_ref gs \<noteq> None
      | _ \<Rightarrow> False)"

fun collectRecordDependencyRefs :: "json \<Rightarrow> json list"
  and collect_record_items :: "json list \<Rightarrow> json list"
  and collect_record_fields :: "(string \<times> json) list \<Rightarrow> json list"
where
  "collectRecordDependencyRefs (JArr vs) = collect_record_items vs"
| "collectRecordDependencyRefs (JObj fs) = (if is_record_ref fs then [JObj fs] else collect_record_fields fs)"
| "collectRecordDependencyRefs _ = []"
| "collect_record_items [] = []"
| "collect_record_items (v # vs) = collectRecordDependencyRefs v @ collect_record_items vs"
| "collect_record_fields [] = []"
| "collect_record_fields ((k, v) # fs) = collectRecordDependencyRefs v @ collect_record_fields fs"

subsection \<open>Scanning a ledger\<close>

text \<open>A loop over the events that keeps no state: the first event with a fault.\<close>

fun scan_from :: "(nat \<Rightarrow> 'e \<Rightarrow> 'f option) \<Rightarrow> nat \<Rightarrow> 'e list \<Rightarrow> (nat \<times> 'f) option" where
  "scan_from check i [] = None"
| "scan_from check i (e # es) =
     (case check i e of Some f \<Rightarrow> Some (i, f) | None \<Rightarrow> scan_from check (Suc i) es)"

definition scan :: "(nat \<Rightarrow> 'e \<Rightarrow> 'f option) \<Rightarrow> 'e list \<Rightarrow> (nat \<times> 'f) option" where
  "scan check es = scan_from check 0 es"

fun first_some :: "'f option list \<Rightarrow> 'f option" where
  "first_some [] = None"
| "first_some (Some f # _) = Some f"
| "first_some (None # xs) = first_some xs"

definition require :: "bool \<Rightarrow> 'f \<Rightarrow> 'f option" where
  "require ok f = (if ok then None else Some f)"

lemma require_None [simp]: "require ok f = None \<longleftrightarrow> ok"
  by (simp add: require_def)

lemma first_some_None [simp]: "first_some xs = None \<longleftrightarrow> list_all (\<lambda>x. x = None) xs"
  by (induction xs rule: first_some.induct) auto

lemma scan_from_None: "scan_from check i es = None \<longleftrightarrow> (\<forall>j<length es. check (i + j) (es ! j) = None)"
proof (induction es arbitrary: i)
  case Nil
  then show ?case by simp
next
  case (Cons e es)
  then show ?case by (auto simp: less_Suc_eq_0_disj split: option.splits)
qed

lemma scan_None: "scan check es = None \<longleftrightarrow> (\<forall>j<length es. check j (es ! j) = None)"
  by (simp add: scan_def scan_from_None)

lemma resolve_Some: "resolve es r = Some (j, x) \<Longrightarrow> j < length es \<and> es ! j = x \<and> key_of x = key_ref r"
  unfolding resolve_def by (drule map_of_SomeD) (auto simp: set_indexed)

lemma resolve_ex: "key_ref r \<in> key_of ` set es \<longleftrightarrow> (\<exists>j x. resolve es r = Some (j, x))"
proof -
  let ?entries = "map (\<lambda>(j, e). (key_of e, (j, e))) (indexed es)"
  have "map fst ?entries = map key_of (map snd (indexed es))" by (simp add: case_prod_unfold comp_def del: snd_indexed)
  then have "set (map fst ?entries) = key_of ` set es" by (simp only: snd_indexed set_map)
  then have "fst ` set (rev ?entries) = key_of ` set es" by (simp only: set_map set_rev)
  then have "map_of (rev ?entries) (key_ref r) \<noteq> None \<longleftrightarrow> key_ref r \<in> key_of ` set es"
    unfolding map_of_eq_None_iff by (simp only: not_not)
  then show ?thesis unfolding resolve_def not_None_eq split_paired_Ex by (rule sym)
qed

subsection \<open>A contiguous ledger\<close>

definition contiguous :: "json list \<Rightarrow> bool" where
  "contiguous es \<longleftrightarrow> (\<forall>j<length es. seq_of (es ! j) = int (Suc j))"

lemma contiguous_key_inj:
  assumes "contiguous es" and "j < length es" and "k < length es" and "key_of (es ! j) = key_of (es ! k)"
  shows "j = k"
  using assms by (auto simp: contiguous_def key_of_def)

lemma contiguous_resolve:
  assumes "contiguous es"
  shows "resolve es r = Some (j, x) \<longleftrightarrow> j < length es \<and> x = es ! j \<and> key_of x = key_ref r"
proof
  assume "j < length es \<and> x = es ! j \<and> key_of x = key_ref r"
  moreover from this obtain k y where "resolve es r = Some (k, y)"
    using resolve_ex [of r es] by (metis image_eqI nth_mem)
  ultimately show "resolve es r = Some (j, x)"
    using resolve_Some [of es r k y] contiguous_key_inj [OF assms, of j k] by auto
qed (use resolve_Some in blast)

end
