(* ===== verification/History_V02.thy ===== *)
theory History_V02
  imports Ledger_Refs
begin

text \<open>
  The history rules of the ledger of version 0.2 (\<open>src/run/runtime-ledger-v02.ts\<close>), first part:
  references name exact earlier events, references to records name the record, every event has
  the lineage its type requires, and leases, decisions and waivers are used once. Each rule is a
  constructor of the faults; a validator returns the position of the first event with a fault.
\<close>

datatype history_fault =
    RefNotEarlier | RecordRefMistyped
  | GateResultNotRequired | WaiverAuthorityMissing | WaiverNotRequired | WaiverClockNotDedicated | WaiverPrefixNotReviewed
  | EvaluationNotRequired | LeaseWithoutDecision | LeaseEnvelopeMismatch | AdmissionWithoutLease | AdmissionClockNotDedicated
  | EvidenceProducerMismatch | EvidenceRootMismatch | ArtifactWithoutAdmission | ProgressWithoutResult
  | SettlementWithoutTerminal | SettlementEffectMismatch | RevocationNotAdjacent | LoopPrefixMismatch | LoopLineageBroken
  | LeaseIdReused | DecisionLeasedTwice | LeaseConsumedTwice | WaiverIdReused | WaiverConsumedTwice | WaivedNotAdjacent

subsection \<open>References\<close>

definition payload_refs :: "json \<Rightarrow> ledger_key list" where
  "payload_refs e = collectLedgerRefs (own (jget e ''payload''))"

definition validateEarlierReferences :: "json list \<Rightarrow> (nat \<times> history_fault) option" where
  "validateEarlierReferences es =
     scan (\<lambda>i e. require (list_all (\<lambda>(n, h). n < seq_of e \<and> (n, h) \<in> set (map key_of (take i es))) (payload_refs e))
       RefNotEarlier) es"

text \<open>The event type and the field of the identifier, by the kind of record.\<close>

definition RECORD_TARGETS :: "(string \<times> string \<times> string) list" where
  "RECORD_TARGETS =
     [(''agency-recommendation'', ''approval.recommendation-recorded'', ''recommendation_id''),
      (''artifact'', ''artifact.recorded'', ''artifact_ref''),
      (''authority-envelope'', ''authority.envelope-recorded'', ''authority_envelope_id''),
      (''authority-revocation'', ''authority.grant-revoked'', ''revocation_id''),
      (''claim'', ''claim.recorded'', ''claim_id''),
      (''evaluation-result'', ''evaluation.result-recorded'', ''result_id''),
      (''evidence'', ''evidence.recorded'', ''evidence_id''),
      (''export-decision'', ''record.export-decision-recorded'', ''decision_id''),
      (''finding'', ''finding.recorded'', ''finding_id''),
      (''gate-result'', ''gate.result-recorded'', ''result_id''),
      (''gate-waiver-authority'', ''authority.waiver-recorded'', ''authority_record_id''),
      (''human-authorization'', ''authority.human-authorization-recorded'', ''authorization_id''),
      (''manual-observation'', ''observation.manual-recorded'', ''observation_id''),
      (''task-result'', ''task.execution-completed'', ''result_id''),
      (''waiver'', ''waiver.recorded'', ''waiver_id'')]"

text \<open>
  An inherited property of the table, found under a kind such as \<open>constructor\<close>, has no event type
  and so matches no event either; it is the same as a missing rule.
\<close>

definition record_ref_ok :: "json list \<Rightarrow> json \<Rightarrow> bool" where
  "record_ref_ok es r =
     (case map_of RECORD_TARGETS (text_of (jget r ''record_kind'')) of
        None \<Rightarrow> False
      | Some (type, field) \<Rightarrow>
          resolved es (jget r ''record_event_ref'')
            (if is_text (jget r ''record_kind'') ''task-result'' then [''task.execution-completed'', ''task.execution-failed''] else [type])
            (\<lambda>_ x. pay x field = jget r ''record_id''))"

definition validateTypedRecordReferences :: "json list \<Rightarrow> (nat \<times> history_fault) option" where
  "validateTypedRecordReferences es =
     scan (\<lambda>i e. require (list_all (record_ref_ok es) (collectRecordDependencyRefs (own (jget e ''payload'')))) RecordRefMistyped) es"

subsection \<open>Lineage\<close>

definition same_pay :: "string \<Rightarrow> json \<Rightarrow> json \<Rightarrow> bool" where
  "same_pay k x e \<longleftrightarrow> pay x k = pay e k"

definition gate_lineage :: "json list \<Rightarrow> json \<Rightarrow> history_fault option" where
  "gate_lineage es e =
     require (resolved es (pay e ''required_event_ref'') [''gate.result-required''] (\<lambda>_ x. same_pay ''gate_ref'' x e))
       GateResultNotRequired"

definition waiver_clock_ok :: "nat \<Rightarrow> json \<Rightarrow> nat \<Rightarrow> json \<Rightarrow> bool" where
  "waiver_clock_ok i e j clock \<longleftrightarrow>
     is_text (pay clock ''reason'') ''waiver-boundary'' \<and> pay clock ''use_ref'' = pay e ''waiver_id'' \<and> Suc j = i"

definition reviewed_ok :: "json list \<Rightarrow> json \<Rightarrow> bool" where
  "reviewed_ok es e =
     (case (resolve es (pay e ''reviewed_through_ref''), resolve es (pay e ''boundary_clock_ref'')) of
        (Some (_, y), Some (_, clock)) \<Rightarrow>
          seq_of y + 1 = seq_of clock \<and> jget clock ''previous_event_hash'' = jget y ''event_hash''
      | _ \<Rightarrow> False)"

definition waiver_lineage :: "json list \<Rightarrow> nat \<Rightarrow> json \<Rightarrow> history_fault option" where
  "waiver_lineage es i e =
     first_some
       [require (resolved es (pay e ''authority_record_ref'') [''authority.waiver-recorded'']
          (\<lambda>_ x. own (pay e ''gate_ref'') \<in> set (items (pay x ''allowed_gate_refs'')))) WaiverAuthorityMissing,
        require (resolved es (pay e ''required_event_ref'') [''gate.result-required''] (\<lambda>_ x. same_pay ''gate_ref'' x e))
          WaiverNotRequired,
        require (resolved es (pay e ''boundary_clock_ref'') [''run.clock-observed''] (waiver_clock_ok i e)) WaiverClockNotDedicated,
        require (reviewed_ok es e) WaiverPrefixNotReviewed]"

definition evaluation_lineage :: "json list \<Rightarrow> json \<Rightarrow> history_fault option" where
  "evaluation_lineage es e =
     require (resolved es (pay e ''required_event_ref'') [''evaluation.result-required''] (\<lambda>_ x. same_pay ''evaluation_ref'' x e))
       EvaluationNotRequired"

text \<open>A lease rests on an allowing decision for its proposal and task, under the envelope of the decision.\<close>

definition lease_decision_ok :: "json \<Rightarrow> json \<Rightarrow> bool" where
  "lease_decision_ok e d \<longleftrightarrow>
     is_text (pay d ''decision'') ''allow'' \<and> is_text (pay d ''decision_disposition'') ''lease-eligible'' \<and>
     same_pay ''action_proposal_id'' d e \<and> same_pay ''task_ref'' d e"

definition lease_envelope_ok :: "json list \<Rightarrow> json \<Rightarrow> bool" where
  "lease_envelope_ok es e \<longleftrightarrow>
     resolved es (pay e ''authority_envelope_ref'') [''authority.envelope-recorded'']
       (\<lambda>_ x. case resolve es (pay e ''policy_decision_ref'') of
                None \<Rightarrow> False
              | Some (_, d) \<Rightarrow> pay x ''authority_envelope_id'' = attr (pay d ''authority_envelope_ref'') ''record_id'')"

definition lease_lineage :: "json list \<Rightarrow> json \<Rightarrow> history_fault option" where
  "lease_lineage es e =
     first_some
       [require (resolved es (pay e ''policy_decision_ref'') [''policy.decision-recorded''] (\<lambda>_. lease_decision_ok e))
          LeaseWithoutDecision,
        require (lease_envelope_ok es e) LeaseEnvelopeMismatch]"

definition admission_lease_ok :: "json \<Rightarrow> json \<Rightarrow> bool" where
  "admission_lease_ok e l \<longleftrightarrow> same_pay ''lease_id'' l e \<and> same_pay ''task_ref'' l e \<and> same_pay ''action_proposal_id'' l e"

definition admission_lineage :: "json list \<Rightarrow> json \<Rightarrow> history_fault option" where
  "admission_lineage es e =
     first_some
       [require (resolved es (pay e ''lease_event_ref'') [''lease.issued''] (\<lambda>_. admission_lease_ok e)) AdmissionWithoutLease,
        require (resolved es (pay e ''admission_clock_ref'') [''run.clock-observed'']
          (\<lambda>_ clock. is_text (pay clock ''reason'') ''action-admission'' \<and> pay clock ''use_ref'' = pay e ''action_id'' \<and>
                     seq_of clock = seq_of e - 1)) AdmissionClockNotDedicated]"

definition producer_types :: "(string \<times> string list) list" where
  "producer_types =
     [(''command-capture'', [''task.execution-completed'', ''task.execution-failed'']),
      (''filesystem-capture'', [''artifact.recorded'']),
      (''browser-capture'', [''task.execution-completed'', ''task.execution-failed'']),
      (''source-citation'', [''task.execution-completed'']),
      (''human-authorization'', [''authority.human-authorization-recorded'']),
      (''manual-observation'', [''observation.manual-recorded''])]"

definition root_types :: "(string \<times> string list) list" where
  "root_types =
     [(''command'', [''task.execution-completed'', ''task.execution-failed'']),
      (''filesystem'', [''artifact.recorded'']),
      (''browser'', [''task.execution-completed'', ''task.execution-failed'']),
      (''source'', [''task.execution-completed'']),
      (''human-authorization'', [''authority.human-authorization-recorded'']),
      (''manual-observation'', [''observation.manual-recorded''])]"

definition types_for :: "(string \<times> string list) list \<Rightarrow> json option \<Rightarrow> string list" where
  "types_for table v = (case map_of table (text_of v) of None \<Rightarrow> [] | Some types \<Rightarrow> types)"

definition evidence_lineage :: "json list \<Rightarrow> json \<Rightarrow> history_fault option" where
  "evidence_lineage es e =
     first_some
       [require (resolved es (pay e ''producer_event_ref'') (types_for producer_types (pay e ''evidence_kind'')) (\<lambda>_ _. True))
          EvidenceProducerMismatch,
        require (list_all (\<lambda>root. resolved es (jget root ''root_event_ref'') (types_for root_types (jget root ''source_class''))
            (\<lambda>_ _. True)) (items (pay e ''independence_roots''))) EvidenceRootMismatch]"

definition artifact_lineage :: "json list \<Rightarrow> nat \<Rightarrow> json \<Rightarrow> history_fault option" where
  "artifact_lineage es i e =
     require (resolved es (pay e ''write_admission_ref'') [''artifact.write-admitted'']
         (\<lambda>j x. Suc j = i \<and> same_pay ''artifact_ref'' x e \<and> pay x ''action_id'' = pay e ''producer_action_id'' \<and>
                pay x ''task_ref'' = pay e ''producer_task_ref'' \<and> same_pay ''artifact_path'' x e))
       ArtifactWithoutAdmission"

definition progress_lineage :: "json list \<Rightarrow> json \<Rightarrow> history_fault option" where
  "progress_lineage es e =
     require (resolved es (pay e ''result_event_ref'') [''task.execution-completed'']
         (\<lambda>_ x. same_pay ''action_id'' x e \<and> same_pay ''task_ref'' x e))
       ProgressWithoutResult"

definition terminal_types :: "string list" where
  "terminal_types =
     [''task.execution-completed'', ''task.execution-failed'', ''task.action-outcome-unknown'', ''task.action-outcome-reconciled'']"

definition settlement_lineage :: "json list \<Rightarrow> json \<Rightarrow> history_fault option" where
  "settlement_lineage es e =
     first_some
       [require (resolved es (pay e ''terminal_event_ref'') terminal_types
            (\<lambda>_ x. same_pay ''action_id'' x e \<and> same_pay ''task_ref'' x e)) SettlementWithoutTerminal,
        require (list_all (\<lambda>outcome. resolved es (jget outcome ''outcome_event_ref'') [''effect.outcome'']
            (\<lambda>_ x. same_pay ''action_id'' x e \<and> pay x ''effect_ref'' = jget outcome ''effect_ref'' \<and>
                   pay x ''outcome'' = jget outcome ''outcome'')) (items (pay e ''effect_outcomes''))) SettlementEffectMismatch]"

text \<open>At the first position neither a prefix nor a previous event is there, and the two are equal.\<close>

definition revocation_lineage :: "json list \<Rightarrow> nat \<Rightarrow> json \<Rightarrow> history_fault option" where
  "revocation_lineage es i e =
     require (map_option fst (resolve es (pay e ''effective_prefix_ref'')) = (if i = 0 then None else Some (i - 1)))
       RevocationNotAdjacent"

definition attempts_before :: "json list \<Rightarrow> nat \<Rightarrow> json list" where
  "attempts_before es i = filter (\<lambda>x. ev_type x = ''loop.attempt-completed'') (take i es)"

definition attempt_lineage_ok :: "json list \<Rightarrow> nat \<Rightarrow> json \<Rightarrow> bool" where
  "attempt_lineage_ok es i e \<longleftrightarrow>
     (let prior = attempts_before es i; actual = pay e ''previous_attempt_event_ref'' in
      pay e ''attempt_ordinal'' = Some (JInt (int (length prior) + 1)) \<and>
      (prior = [] \<longleftrightarrow> is_null actual) \<and>
      (prior \<noteq> [] \<longrightarrow> key_ref actual = key_of (last prior)))"

definition loop_lineage :: "json list \<Rightarrow> nat \<Rightarrow> json \<Rightarrow> history_fault option" where
  "loop_lineage es i e =
     first_some
       [require (i \<noteq> 0 \<and> pay e ''prefix_sequence'' = jget (es ! (i - 1)) ''sequence'' \<and>
                 pay e ''prefix_head_hash'' = jget (es ! (i - 1)) ''event_hash'') LoopPrefixMismatch,
        require (attempt_lineage_ok es i e) LoopLineageBroken]"

definition lineage_fault :: "json list \<Rightarrow> nat \<Rightarrow> json \<Rightarrow> history_fault option" where
  "lineage_fault es i e =
     (if ev_type e = ''gate.result-recorded'' then gate_lineage es e
      else if ev_type e = ''waiver.recorded'' then waiver_lineage es i e
      else if ev_type e = ''evaluation.result-recorded'' then evaluation_lineage es e
      else if ev_type e = ''lease.issued'' then lease_lineage es e
      else if ev_type e = ''task.action-admitted'' then admission_lineage es e
      else if ev_type e = ''evidence.recorded'' then evidence_lineage es e
      else if ev_type e = ''artifact.recorded'' then artifact_lineage es i e
      else if ev_type e = ''task.progress-fact-recorded'' then progress_lineage es e
      else if ev_type e = ''task.action-settled'' then settlement_lineage es e
      else if ev_type e = ''authority.grant-revoked'' then revocation_lineage es i e
      else if ev_type e = ''loop.attempt-completed'' then loop_lineage es i e
      else None)"

definition validateEventLineage :: "json list \<Rightarrow> (nat \<times> history_fault) option" where
  "validateEventLineage es = scan (lineage_fault es) es"

subsection \<open>Things used once\<close>

record consumption =
  leaseIds :: "string list"
  leasedDecisionRefs :: "ledger_key list"
  consumedLeaseRefs :: "ledger_key list"
  waiverIds :: "string list"
  consumedWaiverRefs :: "ledger_key list"

definition consumption_start :: consumption where
  "consumption_start =
     \<lparr>leaseIds = [], leasedDecisionRefs = [], consumedLeaseRefs = [], waiverIds = [], consumedWaiverRefs = []\<rparr>"

definition consume_lease_issue :: "consumption \<Rightarrow> json \<Rightarrow> history_fault + consumption" where
  "consume_lease_issue c e =
     (let lease = text_of (pay e ''lease_id''); decision = key_ref (pay e ''policy_decision_ref'') in
      if lease \<in> set (leaseIds c) then Inl LeaseIdReused
      else if decision \<in> set (leasedDecisionRefs c) then Inl DecisionLeasedTwice
      else Inr (c\<lparr>leaseIds := lease # leaseIds c, leasedDecisionRefs := decision # leasedDecisionRefs c\<rparr>))"

definition consume_lease :: "consumption \<Rightarrow> json \<Rightarrow> history_fault + consumption" where
  "consume_lease c e =
     (let lease = key_ref (pay e ''lease_event_ref'') in
      if lease \<in> set (consumedLeaseRefs c) then Inl LeaseConsumedTwice
      else Inr (c\<lparr>consumedLeaseRefs := lease # consumedLeaseRefs c\<rparr>))"

definition consume_waiver_id :: "consumption \<Rightarrow> json \<Rightarrow> history_fault + consumption" where
  "consume_waiver_id c e =
     (let waiver = text_of (pay e ''waiver_id'') in
      if waiver \<in> set (waiverIds c) then Inl WaiverIdReused else Inr (c\<lparr>waiverIds := waiver # waiverIds c\<rparr>))"

definition waived_adjacent :: "json list \<Rightarrow> nat \<Rightarrow> json \<Rightarrow> bool" where
  "waived_adjacent es i e \<longleftrightarrow>
     i \<noteq> 0 \<and> ev_type (es ! (i - 1)) = ''waiver.recorded'' \<and>
     key_of (es ! (i - 1)) = key_ref (pay e ''waiver_event_ref'') \<and> same_pay ''gate_ref'' (es ! (i - 1)) e"

definition consume_waiver :: "json list \<Rightarrow> nat \<Rightarrow> consumption \<Rightarrow> json \<Rightarrow> history_fault + consumption" where
  "consume_waiver es i c e =
     (let waiver = key_ref (pay e ''waiver_event_ref'') in
      if is_null (pay e ''waiver_event_ref'') then Inr c
      else if waiver \<in> set (consumedWaiverRefs c) then Inl WaiverConsumedTwice
      else if \<not> waived_adjacent es i e then Inl WaivedNotAdjacent
      else Inr (c\<lparr>consumedWaiverRefs := waiver # consumedWaiverRefs c\<rparr>))"

definition consumption_step :: "json list \<Rightarrow> nat \<Rightarrow> consumption \<Rightarrow> json \<Rightarrow> history_fault + consumption" where
  "consumption_step es i c e =
     (if ev_type e = ''lease.issued'' then consume_lease_issue c e
      else if ev_type e = ''task.action-admitted'' then consume_lease c e
      else if ev_type e = ''waiver.recorded'' then consume_waiver_id c e
      else if ev_type e = ''gate.result-recorded'' then consume_waiver es i c e
      else Inr c)"

text \<open>The refusal names the event's position.\<close>

definition at_event :: "(nat \<Rightarrow> 's \<Rightarrow> 'e \<Rightarrow> 'f + 's) \<Rightarrow> nat \<Rightarrow> 's \<Rightarrow> 'e \<Rightarrow> (nat \<times> 'f) + 's" where
  "at_event step i s e = (case step i s e of Inl f \<Rightarrow> Inl (i, f) | Inr t \<Rightarrow> Inr t)"

lemma at_event_Inr [simp]: "at_event step i s e = Inr t \<longleftrightarrow> step i s e = Inr t"
  by (simp add: at_event_def split: sum.splits)

fun refusal :: "'f + 's \<Rightarrow> 'f option" where
  "refusal (Inl f) = Some f"
| "refusal (Inr s) = None"

lemma refusal_None: "refusal r = None \<longleftrightarrow> (\<exists>s. r = Inr s)"
  by (cases r) simp_all

definition validateUniqueConsumption :: "json list \<Rightarrow> (nat \<times> history_fault) option" where
  "validateUniqueConsumption es = refusal (fold_events (at_event (consumption_step es)) 0 consumption_start es)"

end
