(* ===== verification/Control_V02.thy ===== *)
theory Control_V02
  imports History_V02
begin

text \<open>
  The history rules of the ledger of version 0.2 (\<open>src/run/runtime-ledger-v02.ts\<close>), second part:
  \<open>validateControlHistory\<close>, a loop over the events with a state, and \<open>validateTerminalSeal\<close>.
  An action is an entry of a map from its identifier to its task and whether it is settled. A
  step for each type of event refuses or returns the new state.
\<close>

datatype control_fault =
    RecordIdentityReused | AdmissionAfterFreeze | AdmissionLeaseUnresolved | AdmissionPhaseBlocked | ActionAdmittedTwice
  | SecondAbort | FenceNotFromCurrent | GateRequiredTwice | GateRecordedTwice | EvaluationRequiredTwice
  | EvaluationRecordedTwice | CustodyTwice | PhaseBlockedTwice | AdmissionOutsideAction | SettlementOutsideAction
  | FreezeEnteredTwice | FreezeFenceMismatch | FreezeRevisionMismatch | RequestMismatch | RequestInFlight
  | RequestRevisionMismatch | RequestRefsMismatch | PhaseEntryMismatch | EscalationMismatch | CompensationNotEntered
  | SealInFlight | SealWithoutFreeze | SealMismatch
  | EventAfterSeal | SealPrefixMismatch

type_synonym admitted = "(string \<times> (string \<times> bool)) list"

record control_state =
  latestFreeze :: "json option"
  latestRequest :: "json option"
  phaseEntry :: "json option"
  latestRecovery :: "json option"
  admittedActions :: admitted
  settledCompensations :: "string list"
  requiredGates :: "string list"
  recordedGates :: "string list"
  requiredEvaluations :: "string list"
  recordedEvaluations :: "string list"
  custodySubjects :: "(string \<times> string) list"
  blockedPhases :: "string option list"
  recordIdentities :: "(string \<times> string) list"
  abortSeen :: bool
  currentFenceEpoch :: int

definition control_start :: control_state where
  "control_start =
     \<lparr>latestFreeze = None, latestRequest = None, phaseEntry = None, latestRecovery = None, admittedActions = [],
      settledCompensations = [], requiredGates = [], recordedGates = [], requiredEvaluations = [],
      recordedEvaluations = [], custodySubjects = [], blockedPhases = [], recordIdentities = [],
      abortSeen = False, currentFenceEpoch = 0\<rparr>"

subsection \<open>Identity of records\<close>

definition identity_rule :: "string \<Rightarrow> (string \<times> string \<times> string) option" where
  "identity_rule type = find (\<lambda>(kind, target, field). target = type) RECORD_TARGETS"

definition record_identity :: "control_state \<Rightarrow> json \<Rightarrow> control_fault + control_state" where
  "record_identity s e =
     (case identity_rule (ev_type e) of
        None \<Rightarrow> Inr s
      | Some (kind, _, field) \<Rightarrow>
          (case pay e field of
             Some (JStr record_id) \<Rightarrow>
               if (kind, record_id) \<in> set (recordIdentities s) then Inl RecordIdentityReused
               else Inr (s\<lparr>recordIdentities := (kind, record_id) # recordIdentities s\<rparr>)
           | _ \<Rightarrow> Inr s))"

subsection \<open>Actions and phases\<close>

text \<open>The key of the work phase, and of the phase of a compensation (as interpolated into a text).\<close>

definition phase_key :: "json \<Rightarrow> string option" where
  "phase_key x =
     (if is_text (pay x ''phase'') ''work'' then None
      else Some (if is_null (pay x ''compensation_ref'') then ''null'' else text_of (pay x ''compensation_ref'')))"

definition action_of :: "json \<Rightarrow> string" where
  "action_of e = text_of (pay e ''action_id'')"

definition task_of :: "json \<Rightarrow> string" where
  "task_of e = text_of (pay e ''task_ref'')"

definition admit_action2 :: "json list \<Rightarrow> control_state \<Rightarrow> json \<Rightarrow> control_fault + control_state" where
  "admit_action2 es s e =
     (if latestFreeze s \<noteq> None then Inl AdmissionAfterFreeze
      else case resolve es (pay e ''lease_event_ref'') of
        None \<Rightarrow> Inl AdmissionLeaseUnresolved
      | Some (_, lease) \<Rightarrow>
          if ev_type lease \<noteq> ''lease.issued'' then Inl AdmissionLeaseUnresolved
          else if phase_key lease \<in> set (blockedPhases s) then Inl AdmissionPhaseBlocked
          else if action_of e \<in> fst ` set (admittedActions s) then Inl ActionAdmittedTwice
          else Inr (s\<lparr>admittedActions := admittedActions s @ [(action_of e, (task_of e, False))]\<rparr>))"

definition request_abort2 :: "control_state \<Rightarrow> control_fault + control_state" where
  "request_abort2 s = (if abortSeen s then Inl SecondAbort else Inr (s\<lparr>abortSeen := True\<rparr>))"

definition advance_fence2 :: "control_state \<Rightarrow> json \<Rightarrow> control_fault + control_state" where
  "advance_fence2 s e =
     (if pay e ''previous_fence_epoch'' \<noteq> Some (JInt (currentFenceEpoch s)) then Inl FenceNotFromCurrent
      else Inr (s\<lparr>currentFenceEpoch := int_at (pay e ''fence_epoch'')\<rparr>))"

definition require_gate :: "control_state \<Rightarrow> json \<Rightarrow> control_fault + control_state" where
  "require_gate s e =
     (let g = text_of (pay e ''gate_ref'') in
      if g \<in> set (requiredGates s) then Inl GateRequiredTwice else Inr (s\<lparr>requiredGates := g # requiredGates s\<rparr>))"

definition record_gate :: "control_state \<Rightarrow> json \<Rightarrow> control_fault + control_state" where
  "record_gate s e =
     (let g = text_of (pay e ''gate_ref'') in
      if g \<in> set (recordedGates s) then Inl GateRecordedTwice else Inr (s\<lparr>recordedGates := g # recordedGates s\<rparr>))"

definition require_evaluation :: "control_state \<Rightarrow> json \<Rightarrow> control_fault + control_state" where
  "require_evaluation s e =
     (let g = text_of (pay e ''evaluation_ref'') in
      if g \<in> set (requiredEvaluations s) then Inl EvaluationRequiredTwice
      else Inr (s\<lparr>requiredEvaluations := g # requiredEvaluations s\<rparr>))"

definition record_evaluation :: "control_state \<Rightarrow> json \<Rightarrow> control_fault + control_state" where
  "record_evaluation s e =
     (let g = text_of (pay e ''evaluation_ref'') in
      if g \<in> set (recordedEvaluations s) then Inl EvaluationRecordedTwice
      else Inr (s\<lparr>recordedEvaluations := g # recordedEvaluations s\<rparr>))"

definition record_custody :: "control_state \<Rightarrow> json \<Rightarrow> control_fault + control_state" where
  "record_custody s e =
     (let subject = (text_of (pay e ''subject_kind''), text_of (pay e ''subject_ref'')) in
      if subject \<in> set (custodySubjects s) then Inl CustodyTwice else Inr (s\<lparr>custodySubjects := subject # custodySubjects s\<rparr>))"

definition block_phase :: "control_state \<Rightarrow> json \<Rightarrow> control_fault + control_state" where
  "block_phase s e =
     (if phase_key e \<in> set (blockedPhases s) then Inl PhaseBlockedTwice
      else Inr (s\<lparr>blockedPhases := phase_key e # blockedPhases s\<rparr>))"

text \<open>The action an event belongs to, unsettled and of the event's task.\<close>

definition open_action :: "control_state \<Rightarrow> json \<Rightarrow> bool" where
  "open_action s e \<longleftrightarrow> map_of (admittedActions s) (action_of e) = Some (task_of e, False)"

definition within_action :: "control_state \<Rightarrow> json \<Rightarrow> control_fault + control_state" where
  "within_action s e = (if open_action s e then Inr s else Inl AdmissionOutsideAction)"

definition settle_action2 :: "control_state \<Rightarrow> json \<Rightarrow> control_fault + control_state" where
  "settle_action2 s e =
     (if \<not> open_action s e then Inl SettlementOutsideAction
      else Inr (s\<lparr>admittedActions :=
        map (\<lambda>(i, (t, settled)). (i, (t, if i = action_of e then True else settled))) (admittedActions s)\<rparr>))"

definition in_flight :: "control_state \<Rightarrow> bool" where
  "in_flight s \<longleftrightarrow> list_ex (\<lambda>(i, (t, settled)). \<not> settled) (admittedActions s)"

subsection \<open>Freeze and compensation\<close>

definition enter_freeze :: "control_state \<Rightarrow> json \<Rightarrow> control_fault + control_state" where
  "enter_freeze s e =
     (if latestFreeze s \<noteq> None then Inl FreezeEnteredTwice
      else if pay e ''fence_epoch'' \<noteq> Some (JInt (currentFenceEpoch s)) then Inl FreezeFenceMismatch
      else Inr (s\<lparr>latestFreeze := Some e\<rparr>))"

definition next_revision :: "json \<Rightarrow> json \<Rightarrow> bool" where
  "next_revision prior e \<longleftrightarrow> pay e ''revision'' = Some (JInt (int_at (pay prior ''revision'') + 1))"

definition revise_freeze :: "control_state \<Rightarrow> json \<Rightarrow> control_fault + control_state" where
  "revise_freeze s e =
     (case latestFreeze s of
        None \<Rightarrow> Inl FreezeRevisionMismatch
      | Some f \<Rightarrow>
          if next_revision f e \<and> pay e ''previous_candidate'' = pay f ''candidate'' \<and>
             pay e ''previous_freeze_event_hash'' = jget f ''event_hash''
          then Inr (s\<lparr>latestFreeze := Some e\<rparr>) else Inl FreezeRevisionMismatch)"

definition RECOVERY_CANDIDATES :: "string list" where
  "RECOVERY_CANDIDATES = [''stalled'', ''exhausted'', ''failed'', ''aborted'']"

definition request_compensation2 :: "control_state \<Rightarrow> json \<Rightarrow> control_fault + control_state" where
  "request_compensation2 s e =
     (case (latestRequest s, latestFreeze s) of
        (None, Some f) \<Rightarrow>
          if \<not> (text_of (pay f ''candidate'') \<in> set RECOVERY_CANDIDATES \<and> pay e ''pending_terminal'' = pay f ''candidate'' \<and>
                pay e ''freeze_event_hash'' = jget f ''event_hash'') then Inl RequestMismatch
          else if in_flight s then Inl RequestInFlight
          else Inr (s\<lparr>latestRequest := Some e, latestRecovery := Some e\<rparr>)
      | _ \<Rightarrow> Inl RequestMismatch)"

definition refs_of :: "json \<Rightarrow> string \<Rightarrow> json list" where
  "refs_of e k = items (pay e k)"

definition revise_request2 :: "control_state \<Rightarrow> json \<Rightarrow> control_fault + control_state" where
  "revise_request2 s e =
     (case (latestRequest s, latestFreeze s) of
        (Some r, Some f) \<Rightarrow>
          if \<not> (next_revision r e \<and> pay e ''previous_pending_terminal'' = pay r ''pending_terminal'' \<and>
                pay e ''previous_request_event_hash'' = jget r ''event_hash'' \<and>
                pay e ''freeze_event_hash'' = jget f ''event_hash'' \<and> pay e ''pending_terminal'' = pay f ''candidate'')
          then Inl RequestRevisionMismatch
          else if \<not> (set (refs_of r ''compensation_refs'') \<subseteq> set (refs_of e ''compensation_refs'') \<and>
                filter (\<lambda>c. c \<notin> set (refs_of r ''compensation_refs'')) (refs_of e ''compensation_refs'') =
                  refs_of e ''added_compensation_refs'')
          then Inl RequestRefsMismatch
          else Inr (s\<lparr>latestRequest := Some e, latestRecovery := Some e\<rparr>)
      | _ \<Rightarrow> Inl RequestRevisionMismatch)"

definition boundary_before :: "json list \<Rightarrow> nat \<Rightarrow> bool" where
  "boundary_before es i \<longleftrightarrow>
     i \<noteq> 0 \<and> ev_type (es ! (i - 1)) = ''run.fence-advanced'' \<and> is_text (pay (es ! (i - 1)) ''reason'') ''recovery-boundary''"

definition enter_phase :: "json list \<Rightarrow> nat \<Rightarrow> control_state \<Rightarrow> json \<Rightarrow> control_fault + control_state" where
  "enter_phase es i s e =
     (case (phaseEntry s, latestRequest s, latestFreeze s) of
        (None, Some r, Some f) \<Rightarrow>
          if pay e ''request_revision'' = pay r ''revision'' \<and> pay e ''request_event_hash'' = jget r ''event_hash'' \<and>
             same_pay ''pending_terminal'' e r \<and> refs_of e ''compensation_refs'' = refs_of r ''compensation_refs'' \<and>
             pay e ''freeze_event_hash'' = jget f ''event_hash'' \<and> boundary_before es i \<and> \<not> in_flight s
          then Inr (s\<lparr>phaseEntry := Some e, latestRecovery := Some e\<rparr>) else Inl PhaseEntryMismatch
      | _ \<Rightarrow> Inl PhaseEntryMismatch)"

definition escalate :: "control_state \<Rightarrow> json \<Rightarrow> control_fault + control_state" where
  "escalate s e =
     (case (phaseEntry s, latestRecovery s) of
        (Some p, Some r) \<Rightarrow>
          if pay e ''previous_pending_terminal'' = pay r ''pending_terminal'' \<and>
             pay e ''previous_candidate_event_hash'' = jget r ''event_hash'' \<and>
             refs_of e ''compensation_refs'' = refs_of p ''compensation_refs''
          then Inr (s\<lparr>latestRecovery := Some e\<rparr>) else Inl EscalationMismatch
      | _ \<Rightarrow> Inl EscalationMismatch)"

definition settle_compensation2 :: "control_state \<Rightarrow> json \<Rightarrow> control_fault + control_state" where
  "settle_compensation2 s e =
     (case phaseEntry s of
        None \<Rightarrow> Inl CompensationNotEntered
      | Some p \<Rightarrow>
          if own (pay e ''compensation_ref'') \<in> set (refs_of p ''compensation_refs'') \<and>
             text_of (pay e ''compensation_ref'') \<notin> set (settledCompensations s)
          then Inr (s\<lparr>settledCompensations := text_of (pay e ''compensation_ref'') # settledCompensations s\<rparr>)
          else Inl CompensationNotEntered)"

definition seal2 :: "control_state \<Rightarrow> json \<Rightarrow> control_fault + control_state" where
  "seal2 s e =
     (if in_flight s then Inl SealInFlight
      else case latestFreeze s of
        None \<Rightarrow> Inl SealWithoutFreeze
      | Some f \<Rightarrow>
          if pay e ''outcome'' = (case latestRecovery s of None \<Rightarrow> pay f ''candidate'' | Some r \<Rightarrow> pay r ''pending_terminal'') \<and>
             pay e ''previous_fence_epoch'' = Some (JInt (currentFenceEpoch s)) \<and>
             (case phaseEntry s of None \<Rightarrow> True
              | Some p \<Rightarrow> length (settledCompensations s) = length (refs_of p ''compensation_refs''))
          then Inr s else Inl SealMismatch)"

subsection \<open>The loop\<close>

definition control_event :: "json list \<Rightarrow> nat \<Rightarrow> control_state \<Rightarrow> json \<Rightarrow> control_fault + control_state" where
  "control_event es i s e =
     (let type = ev_type e in
      if type = ''task.action-admitted'' then admit_action2 es s e
      else if type = ''control.abort-requested'' then request_abort2 s
      else if type = ''run.fence-advanced'' then advance_fence2 s e
      else if type = ''gate.result-required'' then require_gate s e
      else if type = ''gate.result-recorded'' then record_gate s e
      else if type = ''evaluation.result-required'' then require_evaluation s e
      else if type = ''evaluation.result-recorded'' then record_evaluation s e
      else if type = ''record.custody-state-recorded'' then record_custody s e
      else if type = ''limit.admission-blocked'' then block_phase s e
      else if type = ''tool.call-admitted'' \<or> type = ''artifact.write-admitted'' then within_action s e
      else if type = ''task.action-settled'' then settle_action2 s e
      else if type = ''run.terminal-freeze-entered'' then enter_freeze s e
      else if type = ''run.terminal-freeze-revised'' then revise_freeze s e
      else if type = ''run.compensation-requested'' then request_compensation2 s e
      else if type = ''run.compensation-request-revised'' then revise_request2 s e
      else if type = ''run.compensation-phase-entered'' then enter_phase es i s e
      else if type = ''run.compensation-candidate-escalated'' then escalate s e
      else if type = ''compensation.settled'' then settle_compensation2 s e
      else if type = ''run.terminal-sealed'' then seal2 s e
      else Inr s)"

definition control_step :: "json list \<Rightarrow> nat \<Rightarrow> control_state \<Rightarrow> json \<Rightarrow> control_fault + control_state" where
  "control_step es i s e = (case record_identity s e of Inl f \<Rightarrow> Inl f | Inr t \<Rightarrow> control_event es i t e)"

definition validateControlHistory :: "json list \<Rightarrow> (nat \<times> control_fault) option" where
  "validateControlHistory es = refusal (fold_events (at_event (control_step es)) 0 control_start es)"

subsection \<open>The seal\<close>

definition is_seal :: "json \<Rightarrow> bool" where
  "is_seal e \<longleftrightarrow> ev_type e = ''run.terminal-sealed''"

definition seal_index :: "json list \<Rightarrow> nat option" where
  "seal_index es = map_option fst (find (\<lambda>(i, e). is_seal e) (indexed es))"

definition validateTerminalSeal :: "json list \<Rightarrow> (nat \<times> control_fault) option" where
  "validateTerminalSeal es =
     (case seal_index es of
        None \<Rightarrow> None
      | Some i \<Rightarrow>
          if Suc i \<noteq> length es then Some (Suc i, EventAfterSeal)
          else if i = 0 \<or> pay (es ! i) ''pre_seal_ledger_sequence'' \<noteq> jget (es ! (i - 1)) ''sequence'' \<or>
                  pay (es ! i) ''pre_seal_ledger_head_hash'' \<noteq> jget (es ! (i - 1)) ''event_hash''
          then Some (i, SealPrefixMismatch)
          else None)"

end
