(* ===== verification/Record_Schema_V02.thy ===== *)
theory Record_Schema_V02
  imports Spec_Schema_V02
begin

text \<open>
  The records of the runtime, version 0.2 (\<open>src/schema/runtime.ts\<close>): references into the ledger,
  policies, repository states and changes, authority scopes and action proposals. Canonical
  lists are sorted without repetition; hashes are of the record's own other fields.
\<close>

definition lower_hex :: "char \<Rightarrow> bool" where
  "lower_hex c \<longleftrightarrow> is_digit c \<or> (97 \<le> (of_char c :: nat) \<and> (of_char c :: nat) \<le> 102)"

definition RoleAssignmentV02 :: schema where
  "RoleAssignmentV02 =
     strictObject
       [(''role_ref'', z_string HumanIdV02), (''actor_ref'', z_string MachineIdV02),
        (''actor_kind'', z_enum [''operator'', ''agent'', ''service'']), (''stable_identity_hash'', z_string Hash)]"

definition RuntimeRecordLimitsV02 :: schema where
  "RuntimeRecordLimitsV02 =
     strictObject
       [(''max_authority_records'', safe_positive), (''max_agency_recommendation_records'', safe_positive),
        (''max_authority_revocation_records'', safe_positive), (''max_evidence_records'', safe_positive),
        (''max_task_result_records'', safe_positive), (''max_manual_observation_records'', safe_positive),
        (''max_export_decision_records'', safe_positive), (''max_claim_records'', safe_positive),
        (''max_finding_records'', safe_positive), (''max_waiver_records'', safe_positive),
        (''max_preseal_custody_events'', safe_positive)]"

definition Hex40 :: schema where
  "Hex40 =
     z_string (\<lambda>s. length s = 40 \<and> list_all lower_hex s)"

definition Hex64 :: schema where
  "Hex64 =
     z_string (\<lambda>s. length s = 64 \<and> list_all lower_hex s)"

definition Utf8SortedUniqueStrings :: schema where
  "Utf8SortedUniqueStrings =
     refined (boundedArrayV02 (z_string FreeControlStringV02) 0 256) sorted_unique_texts"

definition GitObjectIdV02 :: schema where
  "GitObjectIdV02 =
     z_discriminated ''algorithm''
       [strictObject [(''algorithm'', z_literal (JStr ''sha1'')), (''value'', Hex40)],
        strictObject [(''algorithm'', z_literal (JStr ''sha256'')), (''value'', Hex64)]]"

definition RepositoryBaseRefV02 :: schema where
  "RepositoryBaseRefV02 =
     strictObject
       [(''kind'', z_literal (JStr ''git-ref'')), (''canonical_ref_name'', z_string NonBlankStringV02),
        (''object_id'', GitObjectIdV02), (''identity_hash'', z_string Hash)]"

definition RepositoryStateV02_shape :: shape where
  "RepositoryStateV02_shape =
     [(''repository_root_ref'', z_string MachineIdV02), (''base_ref_identity_hash'', z_string Hash),
      (''head'', GitObjectIdV02), (''merge_base'', GitObjectIdV02), (''head_state_hash'', z_string Hash),
      (''tracked_diff_hash'', z_string Hash), (''staged_diff_hash'', z_string Hash),
      (''untracked_content_hash'', z_string Hash), (''submodule_state_hash'', z_string Hash),
      (''repository_state_hash'', z_string Hash)]"

definition RepositoryStateV02 :: schema where
  "RepositoryStateV02 =
     strictObject RepositoryStateV02_shape"

definition VerifiedRepositoryStateV02 :: "schema_env \<Rightarrow> schema" where
  "VerifiedRepositoryStateV02 env =
     refined
       RepositoryStateV02
       (\<lambda>v. jget v ''repository_state_hash'' = Some (JStr (hashCanonical env (purposed ''repository-state-v02''
         (pick v [''repository_root_ref'', ''base_ref_identity_hash'', ''head'', ''merge_base'', ''head_state_hash'',
            ''tracked_diff_hash'', ''staged_diff_hash'', ''untracked_content_hash'', ''submodule_state_hash''])))))"

definition HumanExceptionDestinationV02 :: schema where
  "HumanExceptionDestinationV02 =
     strictObject
       [(''operator_role_ref'', z_string HumanIdV02), (''operator_actor_ref'', z_string MachineIdV02),
        (''operator_stable_identity_hash'', z_string Hash)]"

definition PolicyActionKindV1 :: schema where
  "PolicyActionKindV1 =
     z_enum [''planning'', ''local-read'', ''deterministic-no-side-effect-check'', ''authenticated-read'',
             ''network-read'', ''reversible-workspace-edit'', ''authenticated-write'', ''commit'', ''deploy'',
             ''destructive-action'', ''irreversible-action'', ''merge'', ''new-secret-scope'',
             ''package-change'', ''protected-ref-mutation'', ''publish'', ''push'', ''rebase'', ''release'',
             ''send'', ''t4-action'', ''approval-contract-edit'', ''connector-admin'', ''connector-delete'',
             ''force-push'', ''policy-weakening'', ''self-widening'', ''t5-action'',
             ''uninspectable-side-effect'']"

definition ActionApprovalClassV1 :: schema where
  "ActionApprovalClassV1 =
     z_enum [''automatic'', ''agency'', ''human_exception'', ''blocked'']"

definition ActionClassifierKeyV1 :: schema where
  "ActionClassifierKeyV1 =
     strictObject
       [(''action_class'', z_enum [''task'', ''tool'', ''artifact-write'']),
        (''dispatch_kind'', z_enum [''process'', ''tool'', ''connector'', ''artifact-write'']),
        (''adapter_ref'', z_string HumanIdV02), (''adapter_version_hash'', z_string Hash),
        (''capability_ref'', z_string HumanIdV02), (''capability_definition_hash'', z_string Hash),
        (''operation'', z_enum [''read'', ''write'', ''delete'', ''export'', ''send'', ''waive'']),
        (''effective_risk_tier'', z_enum RiskTierV1),
        (''effect_classes'', z_array (z_enum [''none'', ''workspace-write'', ''external-read'', ''external-write'', ''destructive''])),
        (''all_effects_inspectable'', z_boolean), (''all_effects_reversible'', z_boolean),
        (''data_access_mode'', z_enum [''none'', ''local'', ''authenticated'', ''network'', ''export'']),
        (''repository_transition_intent'', z_enum [''none'', ''workspace-edit'', ''commit'', ''protected-ref-mutation'']),
        (''cost_mode'', z_enum [''none'', ''metered''])]"

definition ActionClassifierRuleV1 :: schema where
  "ActionClassifierRuleV1 =
     strictObject
       [(''rule_version'', z_literal (JStr ''0.1'')), (''key'', ActionClassifierKeyV1),
        (''policy_action_kind'', PolicyActionKindV1), (''action_approval_class'', ActionApprovalClassV1),
        (''rule_hash'', z_string Hash)]"

definition ActionClassifierRegistryV1 :: schema where
  "ActionClassifierRegistryV1 =
     strictObject
       [(''registry_version'', z_literal (JStr ''0.1'')), (''rules'', z_array_min 1 ActionClassifierRuleV1),
        (''registry_hash'', z_string Hash)]"

definition ActionApprovalPolicyEntryV1 :: schema where
  "ActionApprovalPolicyEntryV1 =
     strictObject
       [(''action_kind'', PolicyActionKindV1), (''approval_class'', ActionApprovalClassV1),
        (''classifier_rule_hash'', z_string Hash)]"

definition ActionApprovalPolicyV1 :: schema where
  "ActionApprovalPolicyV1 =
     strictObject
       [(''registry_version'', z_literal (JStr ''0.1'')), (''policy_digest'', z_string Hash),
        (''classifier_registry'', ActionClassifierRegistryV1),
        (''entries'', z_array_min 1 ActionApprovalPolicyEntryV1),
        (''human_exception_action_kinds'', z_tuple [z_literal (JStr ''authenticated-write''), z_literal (JStr ''commit''),
                 z_literal (JStr ''deploy''), z_literal (JStr ''destructive-action''),
                 z_literal (JStr ''irreversible-action''), z_literal (JStr ''merge''),
                 z_literal (JStr ''new-secret-scope''), z_literal (JStr ''package-change''),
                 z_literal (JStr ''protected-ref-mutation''), z_literal (JStr ''publish''),
                 z_literal (JStr ''push''), z_literal (JStr ''rebase''), z_literal (JStr ''release''),
                 z_literal (JStr ''send''), z_literal (JStr ''t4-action'')]),
        (''blocked_action_kinds'', z_tuple [z_literal (JStr ''approval-contract-edit''), z_literal (JStr ''connector-admin''),
                 z_literal (JStr ''connector-delete''), z_literal (JStr ''force-push''),
                 z_literal (JStr ''policy-weakening''), z_literal (JStr ''self-widening''),
                 z_literal (JStr ''t5-action''), z_literal (JStr ''uninspectable-side-effect'')]),
        (''registry_hash'', z_string Hash)]"

definition AuthorityMissionSubjectV02 :: schema where
  "AuthorityMissionSubjectV02 =
     strictObject
       [(''objective'', z_string NonBlankStringV02), (''success_criteria'', success_criteria_V02),
        (''forbidden_outcomes'', refined Utf8SortedUniqueStrings (\<lambda>v. 1 \<le> length (items (Some v)))),
        (''terminal_states'', terminal_states_V02)]"

definition AuthoritySubjectV02 :: schema where
  "AuthoritySubjectV02 =
     strictObject
       [(''mission'', AuthorityMissionSubjectV02),
        (''repository'', strictObject
          [(''spec_subject'', strictObject
             [(''source_authoring_hash'', z_string Hash), (''loopeix_version_hash'', z_string Hash)]),
           (''compile_subject'', strictObject
             [(''compile_pack_manifest_hash'', z_string Hash), (''compiler_bundle_id'', z_string MachineIdV02),
              (''catalog_version_hash'', z_string Hash), (''binding_input_hash'', z_string Hash)]),
           (''repository_root_ref'', z_string MachineIdV02), (''object_format'', z_enum [''sha1'', ''sha256'']),
           (''base_ref'', RepositoryBaseRefV02),
           (''transition_mode'', z_enum [''read-only'', ''linear-settled-writes'']),
           (''initial_state'', RepositoryStateV02)]),
        (''protection'', strictObject
          [(''delegation_mode'', z_enum [''none'', ''strict-subset-once'']),
           (''action_approval_policy'', ActionApprovalPolicyV1), (''planning_approval_hash'', z_string Hash),
           (''invalidation_rules'', z_tuple [z_literal (JStr ''spec-subject-changed''), z_literal (JStr ''compile-subject-changed''),
                    z_literal (JStr ''plan-hash-changed''), z_literal (JStr ''planning-approval-changed''),
                    z_literal (JStr ''policy-digest-changed''), z_literal (JStr ''repository-root-changed''),
                    z_literal (JStr ''repository-base-ref-changed''),
                    z_literal (JStr ''repository-state-chain-broken''),
                    z_literal (JStr ''authorized-change-set-mismatched''),
                    z_literal (JStr ''tool-definition-changed''), z_literal (JStr ''authority-revoked''),
                    z_literal (JStr ''authority-expired'')]),
           (''human_exception_destination'', HumanExceptionDestinationV02)]),
        (''policy_digest'', z_string Hash)]"

subsection \<open>References into the ledger\<close>

definition LedgerRefV02 :: schema where
  "LedgerRefV02 =
     strictObject [(''ledger_sequence'', safe_positive), (''event_hash'', z_string Hash)]"

definition ledger_ref_less :: "json \<Rightarrow> json \<Rightarrow> bool" where
  "ledger_ref_less x y \<longleftrightarrow>
     (let m = int_at (jget x ''ledger_sequence''); n = int_at (jget y ''ledger_sequence'') in
      \<not> (m > n \<or> m = n \<and>
         compareRuntimeUtf8BytesV02 (text_of (jget x ''event_hash'')) (text_of (jget y ''event_hash'')) \<ge> 0))"

definition CanonicalLedgerRefsV02 :: schema where
  "CanonicalLedgerRefsV02 =
     refined (z_array LedgerRefV02) (\<lambda>v. adjacent ledger_ref_less (items (Some v)))"

definition NonEmptyCanonicalLedgerRefsV02 :: schema where
  "NonEmptyCanonicalLedgerRefsV02 =
     refined CanonicalLedgerRefsV02 (\<lambda>v. items (Some v) \<noteq> [])"

definition CanonicalHumanIdsV02 :: schema where
  "CanonicalHumanIdsV02 =
     refined (z_array (z_string HumanIdV02)) sorted_unique_texts"

definition NonEmptyCanonicalHumanIdsV02 :: schema where
  "NonEmptyCanonicalHumanIdsV02 =
     refined CanonicalHumanIdsV02 (\<lambda>v. items (Some v) \<noteq> [])"

definition RecordDependencyRefV02 :: schema where
  "RecordDependencyRefV02 =
     z_union
       [strictObject
          [(''record_kind'', z_literal (JStr ''artifact'')), (''record_id'', z_string HumanIdV02),
           (''record_event_ref'', LedgerRefV02)],
        strictObject
          [(''record_kind'', z_enum [''agency-recommendation'', ''authority-envelope'', ''authority-revocation'', ''claim'',
                   ''evaluation-result'', ''evidence'', ''export-decision'', ''finding'', ''gate-result'',
                   ''gate-waiver-authority'', ''human-authorization'', ''manual-observation'', ''task-result'',
                   ''waiver'']),
           (''record_id'', z_string MachineIdV02), (''record_event_ref'', LedgerRefV02)]]"

definition compareRecordDependencyRefsV02 :: "json \<Rightarrow> json \<Rightarrow> int" where
  "compareRecordDependencyRefsV02 l r =
     (let kind = compareRuntimeUtf8BytesV02 (text_of (jget l ''record_kind'')) (text_of (jget r ''record_kind''));
          ident = compareRuntimeUtf8BytesV02 (text_of (jget l ''record_id'')) (text_of (jget r ''record_id''));
          m = int_at (attr (jget l ''record_event_ref'') ''ledger_sequence'');
          n = int_at (attr (jget r ''record_event_ref'') ''ledger_sequence'') in
      if kind \<noteq> 0 then kind
      else if ident \<noteq> 0 then ident
      else if m \<noteq> n then (if m < n then - 1 else 1)
      else compareRuntimeUtf8BytesV02 (text_of (attr (jget l ''record_event_ref'') ''event_hash''))
             (text_of (attr (jget r ''record_event_ref'') ''event_hash'')))"

definition CanonicalRecordDependencyRefsV02 :: schema where
  "CanonicalRecordDependencyRefsV02 =
     refined
       (z_array RecordDependencyRefV02)
       (\<lambda>v. adjacent (\<lambda>x y. compareRecordDependencyRefsV02 x y < 0) (items (Some v)))"

definition ReviewEvidenceRefsV02 :: schema where
  "ReviewEvidenceRefsV02 =
     refined CanonicalRecordDependencyRefsV02 (\<lambda>v. items (Some v) \<noteq> [])"

definition AgencyRecommendationEvidenceRefsV02 :: schema where
  "AgencyRecommendationEvidenceRefsV02 =
     refined
       ReviewEvidenceRefsV02
       (\<lambda>v. list_all (\<lambda>r. is_text (jget r ''record_kind'') ''evidence'') (items (Some v)))"

subsection \<open>Results, progress and costs\<close>

definition ArtifactRecordV02 :: schema where
  "ArtifactRecordV02 =
     strictObject
       [(''schema_version'', z_literal (JStr ''0.2'')), (''artifact_ref'', z_string HumanIdV02),
        (''run_id'', z_string MachineIdV02), (''plan_hash'', z_string Hash),
        (''producer_task_ref'', z_string HumanIdV02), (''producer_action_id'', z_string MachineIdV02),
        (''write_admission_ref'', LedgerRefV02), (''artifact_path'', z_string RelativeRunPathV02),
        (''content_hash'', z_string Hash), (''size_bytes'', safe_nonnegative),
        (''media_type'', z_string NonBlankStringV02), (''record_hash'', z_string Hash)]"

definition ArtifactEvidenceSubjectV02_shape :: shape where
  "ArtifactEvidenceSubjectV02_shape =
     [(''subject_kind'', z_literal (JStr ''artifact'')), (''subject_ref'', z_string HumanIdV02)]"

definition ArtifactEvidenceSubjectV02 :: schema where
  "ArtifactEvidenceSubjectV02 =
     strictObject ArtifactEvidenceSubjectV02_shape"

definition EvidenceSubjectV02_shape :: shape where
  "EvidenceSubjectV02_shape =
     [(''subject_kind'', z_literal (JStr ''evidence'')), (''subject_ref'', z_string MachineIdV02)]"

definition EvidenceSubjectV02 :: schema where
  "EvidenceSubjectV02 =
     strictObject EvidenceSubjectV02_shape"

definition ArtifactEvidenceSubjectRefV02 :: schema where
  "ArtifactEvidenceSubjectRefV02 =
     z_discriminated ''subject_kind'' [ArtifactEvidenceSubjectV02, EvidenceSubjectV02]"

definition RedactionDerivativeRecordCommonV02 :: "schema_env \<Rightarrow> shape" where
  "RedactionDerivativeRecordCommonV02 env =
     [(''schema_version'', z_literal (JStr ''0.2'')), (''derivative_ref'', z_string MachineIdV02),
      (''run_id'', z_string MachineIdV02), (''original_record_path'', z_string RelativeRunPathV02),
      (''original_record_hash'', z_string Hash), (''original_content_path'', z_string RelativeRunPathV02),
      (''original_content_hash'', z_string Hash), (''original_content_size_bytes'', safe_nonnegative),
      (''original_media_type'', z_string NonBlankStringV02),
      (''derivative_content_path'', z_string RelativeRunPathV02), (''derivative_content_hash'', z_string Hash),
      (''derivative_size_bytes'', safe_nonnegative), (''derivative_media_type'', z_string NonBlankStringV02),
      (''policy_version'', z_string NonBlankStringV02), (''review_evidence_refs'', ReviewEvidenceRefsV02),
      (''created_at'', z_time env), (''record_hash'', z_string Hash)]"

definition RedactionDerivativeRecordV02 :: "schema_env \<Rightarrow> schema" where
  "RedactionDerivativeRecordV02 env =
     z_discriminated ''subject_kind''
       [strictObject
          (ArtifactEvidenceSubjectV02_shape @
          RedactionDerivativeRecordCommonV02 env),
        strictObject
          (EvidenceSubjectV02_shape @
          RedactionDerivativeRecordCommonV02 env)]"

definition Iso4217CurrencyCodeSyntaxV02 :: schema where
  "Iso4217CurrencyCodeSyntaxV02 =
     z_string (\<lambda>s. length s = 3 \<and> list_all is_upper s)"

definition ObservedCostV02 :: schema where
  "ObservedCostV02 =
     z_discriminated ''capture''
       [strictObject
          [(''capture'', z_literal (JStr ''not-applicable'')), (''cost_minor_units'', z_literal (JInt 0)),
           (''cost_currency'', z_null), (''cost_minor_units_after'', z_literal (JInt 0))],
        strictObject
          [(''capture'', z_literal (JStr ''captured'')), (''cost_minor_units'', safe_nonnegative),
           (''cost_currency'', Iso4217CurrencyCodeSyntaxV02), (''cost_minor_units_after'', safe_nonnegative)],
        strictObject
          [(''capture'', z_literal (JStr ''unavailable'')), (''cost_minor_units'', z_null),
           (''cost_currency'', z_nullable Iso4217CurrencyCodeSyntaxV02), (''cost_minor_units_after'', z_null)]]"

definition TaskResultObservationV02 :: "schema_env \<Rightarrow> schema" where
  "TaskResultObservationV02 env =
     z_discriminated ''kind''
       [strictObject
          [(''kind'', z_literal (JStr ''command'')), (''command_hash'', z_string Hash),
           (''cwd_identity_hash'', z_string Hash), (''input_hash'', z_string Hash), (''output_hash'', z_string Hash),
           (''exit_code'', safeInteger)],
        strictObject
          [(''kind'', z_literal (JStr ''browser'')), (''target_hash'', z_string Hash),
           (''interaction_hash'', z_string Hash), (''browser_session_authority_ref'', LedgerRefV02),
           (''capture_hash'', z_string Hash)],
        strictObject
          [(''kind'', z_literal (JStr ''source-acquisition'')), (''requested_uri_hash'', z_string Hash),
           (''final_uri_hash'', z_string Hash), (''canonical_source_identity'', z_string NonBlankStringV02),
           (''locator_hash'', z_string Hash),
           (''retrieval_method'', z_enum [''http'', ''browser'', ''repository'', ''manual-import'']),
           (''retrieved_at'', z_time env), (''retriever_identity'', z_string NonBlankStringV02),
           (''retriever_version'', z_string NonBlankStringV02),
           (''auth_class'', z_enum [''public'', ''authenticated'']),
           (''authentication_scope_hash'', z_nullable (z_string Hash)),
           (''response_class'', z_enum [''success'', ''not-found'', ''denied'', ''error'']),
           (''content_hash'', z_string Hash), (''selector_hash'', z_nullable (z_string Hash)),
           (''redaction_state'', z_enum [''none'', ''redacted''])],
        strictObject [(''kind'', z_literal (JStr ''generic'')), (''output_hash'', z_string Hash)]]"

definition CaptureGapCodesV02 :: schema where
  "CaptureGapCodesV02 =
     refined (z_array (z_string NonBlankStringV02)) sorted_unique_texts"

definition TaskResultV02 :: "schema_env \<Rightarrow> schema" where
  "TaskResultV02 env =
     strictObject
       [(''schema_version'', z_literal (JStr ''0.2'')), (''result_id'', z_string MachineIdV02),
        (''run_id'', z_string MachineIdV02), (''plan_hash'', z_string Hash), (''action_id'', z_string MachineIdV02),
        (''task_ref'', z_string HumanIdV02), (''adapter_invocation_id'', z_string MachineIdV02),
        (''status'', z_enum [''completed'', ''failed'']), (''failure_class'', z_nullable RetryClassV02),
        (''observation'', TaskResultObservationV02 env), (''capture_gap_codes'', CaptureGapCodesV02),
        (''record_hash'', z_string Hash)]"

definition TaskProgressFactStringV02 :: schema where
  "TaskProgressFactStringV02 =
     refined z_text (\<lambda>v. utf8ByteLength (text_of (Some v)) \<le> 16384)"

definition TaskProgressFactsShapeV02 :: "schema_env \<Rightarrow> schema" where
  "TaskProgressFactsShapeV02 env =
     refined
       (z_record HumanIdV02
          (z_union [TaskProgressFactStringV02, safeInteger, z_boolean]))
       (\<lambda>v. 1 \<le> length (fields (Some v)) \<and> length (fields (Some v)) \<le> 64 \<and>
         utf8ByteLength (canonicalize env v) \<le> 65536)"

text \<open>The snapshot taken before the check refuses accessors and foreign prototypes, which no JSON value has.\<close>

definition TaskProgressFactsV02 :: "schema_env \<Rightarrow> schema" where
  "TaskProgressFactsV02 env = TaskProgressFactsShapeV02 env"

definition ProgressSampleV02 :: schema where
  "ProgressSampleV02 =
     z_union
       [strictObject
          [(''status'', z_literal (JStr ''source-present'')),
           (''sample_ref'', z_union [RecordDependencyRefV02, LedgerRefV02]), (''sample_hash'', z_string Hash),
           (''value_status'', z_literal (JStr ''parseable'')),
           (''sample_value'', z_union [z_text, safeInteger, z_boolean, z_null])],
        strictObject
          [(''status'', z_literal (JStr ''source-present'')),
           (''sample_ref'', z_union [RecordDependencyRefV02, LedgerRefV02]), (''sample_hash'', z_string Hash),
           (''value_status'', z_literal (JStr ''value-unparseable'')), (''sample_value'', z_null)],
        strictObject
          [(''status'', z_literal (JStr ''source-missing'')), (''sample_ref'', z_null), (''sample_hash'', z_null),
           (''value_status'', z_literal (JStr ''value-unparseable'')), (''sample_value'', z_null)]]"

subsection \<open>Repository states and changes\<close>

definition CanonicalNonBlankStringsV02 :: schema where
  "CanonicalNonBlankStringsV02 =
     refined (z_array (z_string NonBlankStringV02)) sorted_unique_texts"

definition CanonicalHashesV02 :: schema where
  "CanonicalHashesV02 =
     refined (z_array (z_string Hash)) sorted_unique_texts"

definition PolicyReasonCodeRefV02 :: schema where
  "PolicyReasonCodeRefV02 =
     strictObject [(''policy_digest'', z_string Hash), (''declaration_ref'', z_string HumanIdV02)]"

definition NonEmptyCanonicalPolicyReasonCodeRefsV02 :: "schema_env \<Rightarrow> schema" where
  "NonEmptyCanonicalPolicyReasonCodeRefsV02 env =
     refined (z_array_min 1 PolicyReasonCodeRefV02) (sorted_unique (canonicalize env))"

definition base64_alphabet :: string where
  "base64_alphabet = ''ABCDEFGHIJKLMNOPQRSTUVWXYZabcdefghijklmnopqrstuvwxyz0123456789+/''"

fun index_of :: "string \<Rightarrow> char \<Rightarrow> nat option" where
  "index_of [] c = None"
| "index_of (x # xs) c = (if x = c then Some 0 else map_option Suc (index_of xs c))"

fun base64_encode :: "nat list \<Rightarrow> string" where
  "base64_encode (a # b # c # bs) =
     map (\<lambda>i. base64_alphabet ! i) [a div 4, a mod 4 * 16 + b div 16, b mod 16 * 4 + c div 64, c mod 64] @ base64_encode bs"
| "base64_encode [a, b] =
     map (\<lambda>i. base64_alphabet ! i) [a div 4, a mod 4 * 16 + b div 16, b mod 16 * 4] @ ''=''"
| "base64_encode [a] = map (\<lambda>i. base64_alphabet ! i) [a div 4, a mod 4 * 16] @ ''==''"
| "base64_encode [] = []"

text \<open>The bytes of padded text; text the encoding never gives may decode to anything, it is not canonical.\<close>

fun base64_decode :: "string \<Rightarrow> nat list" where
  "base64_decode (w # x # y # z # s) =
     (case (index_of base64_alphabet w, index_of base64_alphabet x, index_of base64_alphabet y, index_of base64_alphabet z) of
        (Some a, Some b, Some c, Some d) \<Rightarrow>
          [a * 4 + b div 16, b mod 16 * 16 + c div 4, c mod 4 * 64 + d] @ base64_decode s
      | (Some a, Some b, Some c, None) \<Rightarrow> [a * 4 + b div 16, b mod 16 * 16 + c div 4]
      | (Some a, Some b, None, None) \<Rightarrow> [a * 4 + b div 16]
      | _ \<Rightarrow> [])"
| "base64_decode _ = []"

definition canonical_base64 :: "string \<Rightarrow> bool" where
  "canonical_base64 s \<longleftrightarrow> base64_encode (base64_decode s) = s"

definition CanonicalBase64V02 :: schema where
  "CanonicalBase64V02 =
     refined (z_string NonBlankStringV02) (\<lambda>v. canonical_base64 (text_of (Some v)))"

definition RepositoryTreeEntryV02 :: schema where
  "RepositoryTreeEntryV02 =
     strictObject
       [(''entry_kind'', z_enum [''regular-file'', ''symlink'', ''gitlink'']),
        (''mode'', z_string NonBlankStringV02), (''object_id'', GitObjectIdV02)]"

definition RepositoryWorktreeEntryV02 :: schema where
  "RepositoryWorktreeEntryV02 =
     refined
       (strictObject
          [(''entry_kind'', z_enum [''regular-file'', ''symlink'']), (''mode'', z_string NonBlankStringV02),
           (''size_bytes'', safe_nonnegative), (''content_hash'', z_string Hash),
           (''tracking'', z_enum [''tracked'', ''untracked'']), (''ignored'', z_nullable z_boolean)])
       (\<lambda>v. is_text (jget v ''tracking'') ''tracked'' = is_null (jget v ''ignored''))"

definition RepositorySubmoduleCheckoutV02 :: schema where
  "RepositorySubmoduleCheckoutV02 =
     z_discriminated ''checkout_state''
       [strictObject
          [(''checkout_state'', z_literal (JStr ''absent'')), (''nested_object_format'', z_null),
           (''checked_out_head'', z_null), (''nested_repository_state_hash'', z_null)],
        strictObject
          [(''checkout_state'', z_literal (JStr ''present'')),
           (''nested_object_format'', z_enum [''sha1'', ''sha256'']), (''checked_out_head'', GitObjectIdV02),
           (''nested_repository_state_hash'', z_string Hash)]]"

definition RepositoryPathStateV02 :: "schema_env \<Rightarrow> schema" where
  "RepositoryPathStateV02 env =
     refined
       (strictObject
          [(''path_bytes_base64'', CanonicalBase64V02), (''head_entry'', z_nullable RepositoryTreeEntryV02),
           (''index_entry'', z_nullable RepositoryTreeEntryV02),
           (''worktree_entry'', z_nullable RepositoryWorktreeEntryV02),
           (''submodule_checkout'', z_nullable RepositorySubmoduleCheckoutV02), (''path_state_hash'', z_string Hash)])
       (\<lambda>v. \<not> (is_null (jget v ''head_entry'') \<and> is_null (jget v ''index_entry'') \<and> is_null (jget v ''worktree_entry'') \<and>
            is_null (jget v ''submodule_checkout'')) \<and>
         (is_null (jget v ''worktree_entry'') \<or> is_null (jget v ''submodule_checkout'')) \<and>
         jget v ''path_state_hash'' = Some (JStr (hashCanonical env (purposed ''repository-path-state-v02''
           (pick v [''path_bytes_base64'', ''head_entry'', ''index_entry'', ''worktree_entry'', ''submodule_checkout''])))))"

definition ObservedRepositoryChangeV02 :: "schema_env \<Rightarrow> schema" where
  "ObservedRepositoryChangeV02 env =
     refined
       (strictObject
          [(''path_bytes_base64'', CanonicalBase64V02),
           (''operation'', z_enum [''create'', ''update'', ''delete'', ''mode-change'']),
           (''before_path_state'', z_nullable (RepositoryPathStateV02 env)),
           (''after_path_state'', z_nullable (RepositoryPathStateV02 env))])
       (\<lambda>v. list_all (\<lambda>k. is_null (jget v k) \<or> attr (jget v k) ''path_bytes_base64'' = jget v ''path_bytes_base64'')
           [''before_path_state'', ''after_path_state''])"

definition sorted_by_path :: schema where
  "sorted_by_path v =
     adjacent (\<lambda>x y. compare_bytes (base64_decode (text_of (jget x ''path_bytes_base64'')))
                        (base64_decode (text_of (jget y ''path_bytes_base64''))) < 0) (items (Some v))"

definition CanonicalObservedRepositoryChangesV02 :: "schema_env \<Rightarrow> schema" where
  "CanonicalObservedRepositoryChangesV02 env =
     refined (z_array (ObservedRepositoryChangeV02 env)) sorted_by_path"

definition ObservedRepositoryChangeSetV02 :: "schema_env \<Rightarrow> schema" where
  "ObservedRepositoryChangeSetV02 env =
     refined
       (strictObject
          [(''repository_root_ref'', z_string MachineIdV02), (''base_ref_identity_hash'', z_string Hash),
           (''repository_pre_state_hash'', z_string Hash), (''repository_post_state_hash'', z_string Hash),
           (''head_before'', GitObjectIdV02), (''head_after'', GitObjectIdV02),
           (''changes'', CanonicalObservedRepositoryChangesV02 env), (''observed_change_set_hash'', z_string Hash)])
       (\<lambda>v. jget v ''observed_change_set_hash'' = Some (JStr (hashCanonical env (purposed ''observed-repository-change-set-v02''
           (pick v [''repository_root_ref'', ''base_ref_identity_hash'', ''repository_pre_state_hash'',
              ''repository_post_state_hash'', ''head_before'', ''head_after'', ''changes''])))))"

definition EffectSettlementOutcomeV02 :: schema where
  "EffectSettlementOutcomeV02 =
     strictObject
       [(''effect_ref'', z_string HumanIdV02),
        (''outcome'', z_enum [''not-committed'', ''committed'', ''unknown'']),
        (''outcome_event_ref'', LedgerRefV02)]"

definition CanonicalEffectSettlementOutcomesV02 :: schema where
  "CanonicalEffectSettlementOutcomesV02 =
     refined
       (z_array_min 1 EffectSettlementOutcomeV02)
       (sorted_unique (\<lambda>x. text_of (jget x ''effect_ref'')))"

subsection \<open>Authority scopes and action proposals\<close>

definition AuthorityOperationV02 :: schema where
  "AuthorityOperationV02 =
     z_enum [''read'', ''list'', ''search'', ''invoke'', ''create'', ''append'', ''update'', ''rename'',
             ''delete'', ''export'', ''send'', ''waive'']"

definition AuthorityResourceSelectorV02 :: schema where
  "AuthorityResourceSelectorV02 =
     z_discriminated ''kind''
       [strictObject
          [(''kind'', z_literal (JStr ''plan-object'')), (''object_kind'', z_enum [''task'', ''gate'', ''artifact'']),
           (''object_ref'', z_string HumanIdV02)],
        strictObject
          [(''kind'', z_literal (JStr ''workspace-path'')), (''workspace_root_ref'', z_string MachineIdV02),
           (''path_prefix_segments'', z_array (z_string NonBlankStringV02))],
        strictObject
          [(''kind'', z_literal (JStr ''network-origin'')), (''origin_ref'', z_string MachineIdV02),
           (''path_prefix_segments'', z_array (z_string NonBlankStringV02))],
        strictObject
          [(''kind'', z_literal (JStr ''connector-resource'')), (''connector_ref'', z_string HumanIdV02),
           (''account_ref'', z_string MachineIdV02),
           (''resource_prefix_segments'', z_array (z_string NonBlankStringV02))],
        strictObject
          [(''kind'', z_literal (JStr ''tool'')), (''tool_ref'', z_string HumanIdV02),
           (''tool_definition_hash'', z_string Hash)]]"

definition CanonicalAuthorityResourceSelectorsV02 :: "schema_env \<Rightarrow> schema" where
  "CanonicalAuthorityResourceSelectorsV02 env =
     refined (z_array AuthorityResourceSelectorV02) (sorted_unique (canonicalize env))"

definition AuthorityCapabilityConstraintV02 :: schema where
  "AuthorityCapabilityConstraintV02 =
     strictObject
       [(''classifier_key'', ActionClassifierKeyV1), (''classifier_rule_hash'', z_string Hash)]"

definition CanonicalAuthorityCapabilityConstraintsV02 :: "schema_env \<Rightarrow> schema" where
  "CanonicalAuthorityCapabilityConstraintsV02 env =
     refined (z_array_min 1 AuthorityCapabilityConstraintV02) (sorted_unique (canonicalize env))"

definition AuthorityCostConstraintV02 :: schema where
  "AuthorityCostConstraintV02 =
     z_discriminated ''capture''
       [strictObject
          [(''capture'', z_literal (JStr ''not-applicable'')), (''max_cost_minor_units'', z_literal (JInt 0)),
           (''cost_currency'', z_null)],
        strictObject
          [(''capture'', z_literal (JStr ''required'')), (''max_cost_minor_units'', safe_nonnegative),
           (''cost_currency'', Iso4217CurrencyCodeSyntaxV02)]]"

definition AuthorityScopeV02 :: "schema_env \<Rightarrow> schema" where
  "AuthorityScopeV02 env =
     strictObject
       [(''authority_subject'', AuthoritySubjectV02),
        (''action_class'', z_enum [''gate-waiver'', ''task'', ''tool'', ''artifact-write'', ''authority-delegation'']),
        (''capability_constraints'', CanonicalAuthorityCapabilityConstraintsV02 env),
        (''resource_selectors'', CanonicalAuthorityResourceSelectorsV02 env),
        (''operations'', z_array AuthorityOperationV02), (''max_risk_tier'', z_enum RiskTierV1),
        (''side_effect_constraints'', strictObject
          [(''allowed_effect_classes'', z_array (z_enum [''none'', ''workspace-write'', ''external-read'', ''external-write'', ''destructive''])),
           (''allowed_effect_refs'', z_array (strictObject [(''task_ref'', z_string HumanIdV02), (''effect_ref'', z_string HumanIdV02)])),
           (''require_inspectable'', z_boolean), (''require_reversible'', z_boolean),
           (''require_idempotency_key'', z_boolean), (''require_compensation'', z_boolean)]),
        (''data_constraints'', strictObject
          [(''readable_classifications'', CanonicalNonBlankStringsV02),
           (''exportable_classifications'', CanonicalNonBlankStringsV02),
           (''sink_refs'', z_array (z_string MachineIdV02))]),
        (''bounded_constraints'', strictObject
          [(''max_actions'', safe_nonnegative), (''max_attempts'', safe_nonnegative),
           (''max_tool_calls'', safe_nonnegative), (''max_output_bytes'', safe_nonnegative),
           (''max_elapsed_ms'', safe_nonnegative), (''cost'', AuthorityCostConstraintV02),
           (''max_workers'', safe_nonnegative), (''max_decisions'', safe_nonnegative),
           (''max_delegation_depth'', z_union [z_literal (JInt 0), z_literal (JInt 1)])])]"

definition hashAuthorityScopeV02 :: "schema_env \<Rightarrow> json \<Rightarrow> string" where
  "hashAuthorityScopeV02 env scope =
     hashCanonical env (purposed ''authority-scope-v02'' ((''schema_version'', JStr ''0.2'') # fields (Some scope)))"

definition hashLegacyRawAuthorityScopeS35V02 :: "schema_env \<Rightarrow> json \<Rightarrow> string" where
  "hashLegacyRawAuthorityScopeS35V02 env scope = hashCanonical env scope"

definition scope_hash_ok :: "schema_env \<Rightarrow> json option \<Rightarrow> json option \<Rightarrow> bool" where
  "scope_hash_ok env hash scope \<longleftrightarrow>
     hash = Some (JStr (hashAuthorityScopeV02 env (own scope))) \<or>
     hash = Some (JStr (hashLegacyRawAuthorityScopeS35V02 env (own scope)))"

definition AuthorizedRepositoryChangeV02 :: "schema_env \<Rightarrow> schema" where
  "AuthorizedRepositoryChangeV02 env =
     refined
       (strictObject
          [(''path_bytes_base64'', CanonicalBase64V02),
           (''operation'', z_enum [''create'', ''update'', ''delete'', ''mode-change'']),
           (''expected_pre_path_state'', z_nullable (RepositoryPathStateV02 env)),
           (''required_post_path_state'', z_nullable (RepositoryPathStateV02 env)),
           (''max_post_worktree_size_bytes'', safe_nonnegative)])
       (\<lambda>v. list_all (\<lambda>k. is_null (jget v k) \<or> attr (jget v k) ''path_bytes_base64'' = jget v ''path_bytes_base64'')
           [''expected_pre_path_state'', ''required_post_path_state''])"

definition CanonicalAuthorizedRepositoryChangesV02 :: "schema_env \<Rightarrow> schema" where
  "CanonicalAuthorizedRepositoryChangesV02 env =
     refined (z_array (AuthorizedRepositoryChangeV02 env)) sorted_by_path"

definition AuthorizedRepositoryChangeSetV02 :: "schema_env \<Rightarrow> schema" where
  "AuthorizedRepositoryChangeSetV02 env =
     refined
       (strictObject
          [(''repository_root_ref'', z_string MachineIdV02), (''base_ref_identity_hash'', z_string Hash),
           (''repository_pre_state_hash'', z_string Hash),
           (''transition_mode'', z_enum [''read-only'', ''linear-settled-writes'']),
           (''expected_pre_head'', GitObjectIdV02), (''required_post_head'', GitObjectIdV02),
           (''mode'', z_enum [''no-change'', ''path-set'', ''head-only'', ''head-and-path-set'']),
           (''changes'', CanonicalAuthorizedRepositoryChangesV02 env)])
       (\<lambda>v. let heads = canonicalize env (own (jget v ''expected_pre_head'')) = canonicalize env (own (jget v ''required_post_head''));
           changed = items (jget v ''changes'') \<noteq> []; mode = text_of (jget v ''mode'') in
         (mode = ''no-change'' \<and> heads \<and> \<not> changed \<or> mode = ''path-set'' \<and> heads \<and> changed \<or>
          mode = ''head-only'' \<and> \<not> heads \<and> \<not> changed \<or> mode = ''head-and-path-set'' \<and> \<not> heads \<and> changed) \<and>
         (is_text (jget v ''transition_mode'') ''read-only'' \<longrightarrow> mode = ''no-change''))"

definition NormalizedActionDispatchCommonShapeV02 :: shape where
  "NormalizedActionDispatchCommonShapeV02 =
     [(''adapter_ref'', z_string HumanIdV02), (''adapter_version_hash'', z_string Hash),
      (''capability_ref'', z_string HumanIdV02), (''capability_definition_hash'', z_string Hash),
      (''operation'', AuthorityOperationV02), (''target'', AuthorityResourceSelectorV02),
      (''destination'', z_nullable AuthorityResourceSelectorV02), (''input_subject_hashes'', CanonicalHashesV02)]"

definition NormalizedActionDispatchV02 :: schema where
  "NormalizedActionDispatchV02 =
     z_discriminated ''kind''
       [strictObject
          (NormalizedActionDispatchCommonShapeV02 @
          [(''kind'', z_literal (JStr ''process'')), (''executable_ref'', z_string MachineIdV02),
           (''executable_hash'', z_string Hash), (''program'', z_string NonBlankStringV02), (''argv'', z_array z_text),
           (''cwd_identity_hash'', z_string Hash), (''environment_hash'', z_string Hash),
           (''stdin_hash'', z_nullable (z_string Hash)), (''timeout_ms'', safe_positive),
           (''output_limit_bytes'', safe_nonnegative)]),
        strictObject
          (NormalizedActionDispatchCommonShapeV02 @
          [(''kind'', z_literal (JStr ''tool'')), (''tool_ref'', z_string HumanIdV02),
           (''tool_definition_hash'', z_string Hash), (''arguments'', z_any), (''arguments_hash'', z_string Hash)]),
        strictObject
          (NormalizedActionDispatchCommonShapeV02 @
          [(''kind'', z_literal (JStr ''connector'')), (''connector_ref'', z_string HumanIdV02),
           (''account_ref'', z_string MachineIdV02), (''resource_identity_hash'', z_string Hash),
           (''arguments'', z_any), (''arguments_hash'', z_string Hash)]),
        strictObject
          (NormalizedActionDispatchCommonShapeV02 @
          [(''kind'', z_literal (JStr ''artifact-write'')), (''artifact_ref'', z_string HumanIdV02),
           (''artifact_path_hash'', z_string Hash), (''prospective_content_hash'', z_string Hash),
           (''prospective_size_bytes'', safe_nonnegative), (''media_type'', z_string NonBlankStringV02)])]"

definition ActionDataFlowV02 :: "schema_env \<Rightarrow> schema" where
  "ActionDataFlowV02 env =
     refined
       (strictObject
          [(''readable_classifications'', CanonicalNonBlankStringsV02),
           (''exportable_classifications'', CanonicalNonBlankStringsV02),
           (''sink_refs'', z_array (z_string MachineIdV02)),
           (''data_access_mode'', z_enum [''none'', ''local'', ''authenticated'', ''network'', ''export'']),
           (''data_flow_hash'', z_string Hash)])
       (\<lambda>v. set (items (jget v ''exportable_classifications'')) \<subseteq> set (items (jget v ''readable_classifications'')) \<and>
         jget v ''data_flow_hash'' = Some (JStr (hashCanonical env (purposed ''action-data-flow-v02''
           (pick v [''readable_classifications'', ''exportable_classifications'', ''sink_refs'', ''data_access_mode''])))))"

definition AuthorityPrincipalV02 :: schema where
  "AuthorityPrincipalV02 =
     strictObject
       [(''principal_ref'', z_string MachineIdV02), (''stable_identity_hash'', z_string Hash)]"

definition ActionCostBudgetV02 :: schema where
  "ActionCostBudgetV02 =
     z_discriminated ''capture''
       [strictObject
          [(''capture'', z_literal (JStr ''not-applicable'')), (''cost_minor_units'', z_literal (JInt 0)),
           (''cost_currency'', z_null)],
        strictObject
          [(''capture'', z_literal (JStr ''required'')), (''cost_minor_units'', safe_nonnegative),
           (''cost_currency'', Iso4217CurrencyCodeSyntaxV02)]]"

definition AutomaticPolicyActionKindV1 :: schema where
  "AutomaticPolicyActionKindV1 =
     z_enum [''planning'', ''local-read'', ''deterministic-no-side-effect-check'']"

definition AgencyPolicyActionKindV1 :: schema where
  "AgencyPolicyActionKindV1 =
     z_enum [''authenticated-read'', ''network-read'', ''reversible-workspace-edit'']"

definition HumanExceptionPolicyActionKindV1 :: schema where
  "HumanExceptionPolicyActionKindV1 =
     z_enum [''authenticated-write'', ''commit'', ''deploy'', ''destructive-action'', ''irreversible-action'',
             ''merge'', ''new-secret-scope'', ''package-change'', ''protected-ref-mutation'', ''publish'',
             ''push'', ''rebase'', ''release'', ''send'', ''t4-action'']"

definition BlockedPolicyActionKindV1 :: schema where
  "BlockedPolicyActionKindV1 =
     z_enum [''approval-contract-edit'', ''connector-admin'', ''connector-delete'', ''force-push'',
             ''policy-weakening'', ''self-widening'', ''t5-action'', ''uninspectable-side-effect'']"

definition effect_ref_less :: "json \<Rightarrow> json \<Rightarrow> bool" where
  "effect_ref_less x y \<longleftrightarrow>
     (let task = compareRuntimeUtf8BytesV02 (text_of (jget x ''task_ref'')) (text_of (jget y ''task_ref''));
          effect = compareRuntimeUtf8BytesV02 (text_of (jget x ''effect_ref'')) (text_of (jget y ''effect_ref'')) in
      \<not> (task > 0 \<or> task = 0 \<and> effect \<ge> 0))"

definition CanonicalActionEffectRefsV02 :: schema where
  "CanonicalActionEffectRefsV02 =
     refined
       (z_array (strictObject [(''task_ref'', z_string HumanIdV02), (''effect_ref'', z_string HumanIdV02)]))
       (\<lambda>v. adjacent effect_ref_less (items (Some v)))"

text \<open>A compensation is named exactly in the compensation phase.\<close>

definition phase_ref_ok :: "json option \<Rightarrow> bool" where
  "phase_ref_ok v \<longleftrightarrow> is_text (attr v ''phase'') ''compensation'' = (\<not> is_null (attr v ''compensation_ref''))"

definition classification_ok :: "json \<Rightarrow> bool" where
  "classification_ok v \<longleftrightarrow>
     (let kind = own (jget v ''policy_action_kind''); cls = text_of (jget v ''action_approval_class'') in
      AutomaticPolicyActionKindV1 kind \<and> cls = ''automatic'' \<or> AgencyPolicyActionKindV1 kind \<and> cls = ''agency'' \<or>
      HumanExceptionPolicyActionKindV1 kind \<and> cls = ''human_exception'' \<or>
      BlockedPolicyActionKindV1 kind \<and> cls = ''blocked'')"

definition proposal_hashes_ok :: "schema_env \<Rightarrow> json \<Rightarrow> bool" where
  "proposal_hashes_ok env v \<longleftrightarrow>
     jget v ''on_behalf_of_chain_hash'' = Some (JStr (hashCanonical env (purposed ''action-on-behalf-of-chain-v02''
       (pick v [''on_behalf_of_chain''])))) \<and>
     jget v ''authorized_change_set_hash'' = Some (JStr (hashCanonical env (purposed
       ''authorized-repository-change-set-v02'' (fields (jget v ''authorized_change_set''))))) \<and>
     jget v ''normalized_dispatch_hash'' = Some (JStr (hashCanonical env (purposed
       ''normalized-action-dispatch-v02'' (fields (jget v ''normalized_dispatch''))))) \<and>
     scope_hash_ok env (jget v ''action_scope_hash'') (jget v ''action_scope'') \<and>
     jget v ''action_proposal_hash'' = Some (JStr (hashCanonical env (purposed ''action-proposal-v02''
       (without ''action_proposal_hash'' v))))"

definition ActionProposalV02 :: "schema_env \<Rightarrow> schema" where
  "ActionProposalV02 env =
     refined
       (strictObject
          [(''proposal_version'', z_literal (JStr ''0.2'')), (''action_proposal_id'', z_string MachineIdV02),
           (''run_id'', z_string MachineIdV02), (''plan_hash'', z_string Hash), (''task_ref'', z_string HumanIdV02),
           (''phase'', z_enum [''work'', ''compensation'']), (''compensation_ref'', z_nullable (z_string HumanIdV02)),
           (''proposer_actor_ref'', z_string MachineIdV02), (''proposer_stable_identity_hash'', z_string Hash),
           (''action_actor_ref'', z_string MachineIdV02), (''action_actor_stable_identity_hash'', z_string Hash),
           (''on_behalf_of_chain'', z_array_min 1 AuthorityPrincipalV02), (''on_behalf_of_chain_hash'', z_string Hash),
           (''repository_root_ref'', z_string MachineIdV02), (''repository_base_ref_identity_hash'', z_string Hash),
           (''repository_pre_state_hash'', z_string Hash),
           (''authorized_change_set'', AuthorizedRepositoryChangeSetV02 env),
           (''authorized_change_set_hash'', z_string Hash), (''normalized_dispatch'', NormalizedActionDispatchV02),
           (''normalized_dispatch_hash'', z_string Hash), (''action_scope'', AuthorityScopeV02 env),
           (''action_scope_hash'', z_string Hash), (''action_class'', z_enum [''task'', ''tool'', ''artifact-write'']),
           (''classification_binding'', strictObject
             [(''classifier_input_hash'', z_string Hash), (''classifier_registry_hash'', z_string Hash),
              (''classifier_rule_hash'', z_string Hash)]),
           (''policy_action_kind'', PolicyActionKindV1), (''action_approval_class'', ActionApprovalClassV1),
           (''side_effect_refs'', CanonicalActionEffectRefsV02), (''data_flow'', ActionDataFlowV02 env),
           (''effective_risk_tier'', z_enum RiskTierV1),
           (''budget_delta'', strictObject
             [(''tool_calls'', safe_nonnegative), (''output_bytes'', safe_nonnegative), (''tokens'', safe_nonnegative),
              (''cost'', ActionCostBudgetV02)]),
           (''postcondition_hashes'', CanonicalHashesV02), (''verifier_refs'', CanonicalHumanIdsV02),
           (''action_proposal_hash'', z_string Hash)])
       (\<lambda>v. phase_ref_ok (Some v) \<and> classification_ok v \<and> proposal_hashes_ok env v)"

end
