(* ===== verification/Event_Schema_V02.thy ===== *)
theory Event_Schema_V02
  imports Record_Schema_V02
begin

text \<open>
  The events of the ledger, version 0.2 (\<open>src/schema/runtime.ts\<close>): the envelope every event
  has, the payload of each of the 46 types, and the conditions each type puts on its source,
  its authority and its payload. \<open>RuntimeEventV02\<close> is their union.
\<close>

subsection \<open>Envelope and authority\<close>

definition RuntimeSchemaInventoryV02 :: schema where
  "RuntimeSchemaInventoryV02 =
     strictObject
       [(''resolved_run_plan'', z_literal (JStr ''0.2'')), (''ledger_event'', z_literal (JStr ''0.2'')),
        (''run_manifest'', z_literal (JStr ''0.2'')), (''artifact_manifest'', z_literal (JStr ''0.2'')),
        (''redaction_derivative'', z_literal (JStr ''0.2'')),
        (''human_authorization_proof'', z_literal (JStr ''0.2'')),
        (''authority_envelope'', z_literal (JStr ''0.2'')), (''agency_recommendation'', z_literal (JStr ''0.2'')),
        (''authority_revocation'', z_literal (JStr ''0.2'')), (''task_result'', z_literal (JStr ''0.2'')),
        (''manual_observation'', z_literal (JStr ''0.2'')), (''export_decision'', z_literal (JStr ''0.2'')),
        (''evidence_item'', z_literal (JStr ''0.2'')), (''gate_result'', z_literal (JStr ''0.2'')),
        (''evaluation_result'', z_literal (JStr ''0.2'')), (''claim'', z_literal (JStr ''0.2'')),
        (''finding'', z_literal (JStr ''0.2'')), (''waiver'', z_literal (JStr ''0.2'')),
        (''gate_waiver_authority'', z_literal (JStr ''0.2''))]"

definition RuntimeLedgerSourceV02 :: schema where
  "RuntimeLedgerSourceV02 =
     z_enum [''kernel'', ''policy-enforcement-point'', ''adapter'', ''evaluator'', ''operator'', ''integrity'']"

definition RuntimeEventEnvelopeV02_shape :: "schema_env \<Rightarrow> shape" where
  "RuntimeEventEnvelopeV02_shape env =
     [(''schema_version'', z_literal (JStr ''0.2'')), (''event_id'', z_string MachineIdV02),
      (''run_id'', z_string MachineIdV02), (''sequence'', safe_positive), (''recorded_at'', z_time env),
      (''source'', RuntimeLedgerSourceV02), (''authority_ref'', z_nullable (z_string MachineIdV02)),
      (''risk_tier'', z_enum RiskTier), (''related_ids'', Utf8SortedUniqueStrings),
      (''previous_event_hash'', z_nullable (z_string Hash)), (''event_hash'', z_string Hash)]"

definition RuntimeEventEnvelopeV02 :: "schema_env \<Rightarrow> schema" where
  "RuntimeEventEnvelopeV02 env =
     strictObject (RuntimeEventEnvelopeV02_shape env)"

definition event_schema :: "schema_env \<Rightarrow> string \<Rightarrow> schema \<Rightarrow> schema" where
  "event_schema env type payload =
     strictObject (RuntimeEventEnvelopeV02_shape env @ [(''event_type'', z_literal (JStr type)), (''payload'', payload)])"

definition source_is :: "json \<Rightarrow> string \<Rightarrow> bool" where
  "source_is e s \<longleftrightarrow> is_text (jget e ''source'') s"

definition no_authority :: "json \<Rightarrow> bool" where
  "no_authority e \<longleftrightarrow> is_null (jget e ''authority_ref'')"

definition validatePepAuthorityV02 :: "json \<Rightarrow> bool" where
  "validatePepAuthorityV02 e \<longleftrightarrow> source_is e ''policy-enforcement-point'' \<and> \<not> no_authority e"

definition validateEvaluatorNullAuthorityV02 :: "json \<Rightarrow> bool" where
  "validateEvaluatorNullAuthorityV02 e \<longleftrightarrow> source_is e ''evaluator'' \<and> no_authority e"

text \<open>A counter that goes up by exactly one without leaving the safe integers.\<close>

definition incremented :: "json option \<Rightarrow> json option \<Rightarrow> bool" where
  "incremented before_v after_v \<longleftrightarrow>
     int_at before_v < MAX_SAFE_INTEGER \<and> after_v = Some (JInt (int_at before_v + 1))"

definition nonempty_interval :: "schema_env \<Rightarrow> json \<Rightarrow> bool" where
  "nonempty_interval env e \<longleftrightarrow>
     date_parse env (text_of (pay e ''issued_at'')) < date_parse env (text_of (pay e ''expires_at''))"

definition reasons_ok :: "json option \<Rightarrow> bool" where
  "reasons_ok p \<longleftrightarrow>
     list_all (\<lambda>r. jget r ''policy_digest'' = attr p ''policy_digest'') (items (attr p ''reason_codes''))"

subsection \<open>Run control, gates and evaluations\<close>

definition RunInitializedEventV02 :: "schema_env \<Rightarrow> schema" where
  "RunInitializedEventV02 env =
     refined
       (event_schema env ''run.initialized''
          (strictObject
             [(''plan_hash'', z_string Hash), (''initial_fence_epoch'', z_literal (JInt 0)),
              (''runtime_schema_versions'', RuntimeSchemaInventoryV02)]))
       (\<lambda>v. source_is v ''kernel'' \<and> no_authority v \<and>
         jget v ''sequence'' = Some (JInt 1) \<and> is_null (jget v ''previous_event_hash''))"

definition clock_branch_ok :: "json option \<Rightarrow> bool" where
  "clock_branch_ok p \<longleftrightarrow>
     (let reason = text_of (attr p ''reason''); task = is_null (attr p ''task_ref'');
          ordinal = is_null (attr p ''failure_ordinal''); use = is_null (attr p ''use_ref'') in
      reason = ''action-admission'' \<and> \<not> task \<and> ordinal \<and> \<not> use \<or>
      reason = ''retry-check'' \<and> \<not> task \<and> \<not> ordinal \<and> use \<or>
      (reason = ''waiver-boundary'' \<or> reason = ''terminal-use'') \<and> task \<and> ordinal \<and> \<not> use)"

definition RunClockObservedEventV02 :: "schema_env \<Rightarrow> schema" where
  "RunClockObservedEventV02 env =
     refined
       (event_schema env ''run.clock-observed''
          (strictObject
             [(''clock_id'', z_string MachineIdV02), (''observed_at'', z_time env), (''elapsed_ms'', safe_nonnegative),
              (''reason'', z_enum [''action-admission'', ''retry-check'', ''waiver-boundary'', ''terminal-use'']),
              (''task_ref'', z_nullable (z_string HumanIdV02)), (''failure_ordinal'', z_nullable safe_positive),
              (''use_ref'', z_nullable (z_string MachineIdV02))]))
       (\<lambda>v. source_is v ''kernel'' \<and> no_authority v \<and> clock_branch_ok (jget v ''payload''))"

definition RunFenceAdvancedEventV02 :: "schema_env \<Rightarrow> schema" where
  "RunFenceAdvancedEventV02 env =
     refined
       (event_schema env ''run.fence-advanced''
          (strictObject
             [(''previous_fence_epoch'', safe_nonnegative), (''fence_epoch'', safe_positive),
              (''reason'', z_enum [''lease-revoked'', ''operator-revoked'', ''recovery-boundary'']),
              (''evidence_refs'', CanonicalLedgerRefsV02)]))
       (\<lambda>v. source_is v ''policy-enforcement-point'' \<and> \<not> no_authority v \<and>
         incremented (pay v ''previous_fence_epoch'') (pay v ''fence_epoch''))"

definition ControlAbortRequestedEventV02 :: "schema_env \<Rightarrow> schema" where
  "ControlAbortRequestedEventV02 env =
     refined
       (event_schema env ''control.abort-requested''
          (strictObject
             [(''request_id'', z_string MachineIdV02), (''requested_by'', z_enum [''operator'', ''policy'']),
              (''reason_code'', z_enum [''operator-requested'', ''safety-hold'', ''policy-revoked'', ''integrity-failure'',
                      ''agency-recommendation-abort'']),
              (''policy_decision_ref'', z_nullable LedgerRefV02), (''evidence_refs'', CanonicalLedgerRefsV02)]))
       (\<lambda>v. source_is v (if is_text (pay v ''requested_by'') ''operator'' then ''operator'' else ''policy-enforcement-point'') \<and>
         \<not> no_authority v \<and>
         (if is_text (pay v ''reason_code'') ''agency-recommendation-abort''
          then is_text (pay v ''requested_by'') ''policy'' \<and> \<not> is_null (pay v ''policy_decision_ref'')
          else is_null (pay v ''policy_decision_ref'')))"

definition ResultRequiredPayloadV02 :: shape where
  "ResultRequiredPayloadV02 =
     [(''requirement_revision'', z_literal (JInt 1)), (''applicability'', z_enum [''always'', ''compensation'']),
      (''compensation_ref'', z_nullable (z_string HumanIdV02)), (''prerequisite_set_hash'', z_string Hash),
      (''prerequisite_refs'', CanonicalLedgerRefsV02)]"

definition validateResultRequiredApplicabilityV02 :: "json option \<Rightarrow> bool" where
  "validateResultRequiredApplicabilityV02 p \<longleftrightarrow>
     (is_text (attr p ''applicability'') ''always'' \<longrightarrow> is_null (attr p ''compensation_ref'')) \<and>
     (is_text (attr p ''applicability'') ''compensation'' \<longrightarrow> \<not> is_null (attr p ''compensation_ref''))"

definition GateResultRequiredEventV02 :: "schema_env \<Rightarrow> schema" where
  "GateResultRequiredEventV02 env =
     refined
       (event_schema env ''gate.result-required''
          (strictObject
             ([(''gate_ref'', z_string HumanIdV02)] @
             ResultRequiredPayloadV02)))
       (\<lambda>v. source_is v ''kernel'' \<and> no_authority v \<and> validateResultRequiredApplicabilityV02 (jget v ''payload''))"

definition GateResultRecordedEventV02 :: "schema_env \<Rightarrow> schema" where
  "GateResultRecordedEventV02 env =
     refined
       (event_schema env ''gate.result-recorded''
          (strictObject
             [(''gate_ref'', z_string HumanIdV02), (''result_id'', z_string MachineIdV02),
              (''status'', z_enum [''PASS'', ''HOLD'', ''FAIL'', ''WAIVED'']),
              (''evaluator_identity_ref'', z_string MachineIdV02), (''policy_digest'', z_string Hash),
              (''record_path'', z_string RelativeRunPathV02), (''record_hash'', z_string Hash),
              (''required_event_ref'', LedgerRefV02), (''waiver_event_ref'', z_nullable LedgerRefV02)]))
       (\<lambda>v. source_is v ''evaluator'' \<and> no_authority v \<and>
         is_text (pay v ''status'') ''WAIVED'' = (\<not> is_null (pay v ''waiver_event_ref'')))"

definition EvaluationResultRequiredEventV02 :: "schema_env \<Rightarrow> schema" where
  "EvaluationResultRequiredEventV02 env =
     refined
       (event_schema env ''evaluation.result-required''
          (strictObject
             ([(''evaluation_ref'', z_string HumanIdV02)] @
             ResultRequiredPayloadV02)))
       (\<lambda>v. source_is v ''kernel'' \<and> no_authority v \<and> validateResultRequiredApplicabilityV02 (jget v ''payload''))"

definition EvaluationResultRecordedEventV02 :: "schema_env \<Rightarrow> schema" where
  "EvaluationResultRecordedEventV02 env =
     refined
       (event_schema env ''evaluation.result-recorded''
          (strictObject
             [(''evaluation_ref'', z_string HumanIdV02), (''result_id'', z_string MachineIdV02),
              (''status'', z_enum [''PASS'', ''HOLD'', ''FAIL'', ''SKIPPED'']),
              (''evaluator_identity_ref'', z_string MachineIdV02), (''policy_digest'', z_string Hash),
              (''export_check_role'', z_nullable (z_enum [''credential-scan'', ''privacy-review''])),
              (''record_path'', z_string RelativeRunPathV02), (''record_hash'', z_string Hash),
              (''required_event_ref'', LedgerRefV02)]))
       (\<lambda>v. source_is v ''evaluator'' \<and> no_authority v)"

definition EffectOutcomeEventV02 :: "schema_env \<Rightarrow> schema" where
  "EffectOutcomeEventV02 env =
     refined
       (event_schema env ''effect.outcome''
          (strictObject
             [(''task_ref'', z_string HumanIdV02), (''effect_ref'', z_string HumanIdV02),
              (''action_id'', z_string MachineIdV02),
              (''outcome'', z_enum [''not-committed'', ''committed'', ''unknown'']),
              (''evidence_refs'', CanonicalLedgerRefsV02)]))
       (\<lambda>v. source_is v (if is_text (pay v ''outcome'') ''unknown'' then ''integrity'' else ''adapter'') \<and> no_authority v)"

subsection \<open>Admissions, leases and limits\<close>

definition ToolCallAdmittedEventV02 :: "schema_env \<Rightarrow> schema" where
  "ToolCallAdmittedEventV02 env =
     refined
       (event_schema env ''tool.call-admitted''
          (strictObject
             [(''tool_call_id'', z_string MachineIdV02), (''action_id'', z_string MachineIdV02),
              (''task_ref'', z_string HumanIdV02), (''tool_grant_ref'', z_string HumanIdV02),
              (''fence_epoch'', safe_nonnegative), (''tool_calls_after'', safe_positive)]))
       validatePepAuthorityV02"

definition ArtifactWriteAdmittedEventV02 :: "schema_env \<Rightarrow> schema" where
  "ArtifactWriteAdmittedEventV02 env =
     refined
       (event_schema env ''artifact.write-admitted''
          (strictObject
             [(''write_id'', z_string MachineIdV02), (''artifact_ref'', z_string HumanIdV02),
              (''action_id'', z_string MachineIdV02), (''task_ref'', z_string HumanIdV02),
              (''artifact_path'', z_string RelativeRunPathV02), (''prospective_bytes'', safe_nonnegative),
              (''fence_epoch'', safe_nonnegative), (''action_output_bytes_after'', safe_nonnegative)]))
       (\<lambda>v. validatePepAuthorityV02 v \<and>
         int_at (pay v ''prospective_bytes'') \<le> int_at (pay v ''action_output_bytes_after''))"

definition RuntimeLimitRefV02 :: schema where
  "RuntimeLimitRefV02 =
     z_enum [''max-loop-attempts'', ''max-elapsed-ms'', ''max-tool-calls'', ''max-output-bytes'',
             ''max-tokens'', ''max-cost'']"

definition RuntimeLimitViolationV02 :: schema where
  "RuntimeLimitViolationV02 =
     refined
       (strictObject
          [(''limit_ref'', RuntimeLimitRefV02), (''consumed'', safe_nonnegative), (''requested'', safe_positive),
           (''ceiling'', safe_nonnegative)])
       (\<lambda>v. int_at (jget v ''consumed'') \<le> MAX_SAFE_INTEGER - int_at (jget v ''requested'') \<and>
         int_at (jget v ''ceiling'') < int_at (jget v ''consumed'') + int_at (jget v ''requested''))"

definition CanonicalRuntimeLimitViolationsV02 :: schema where
  "CanonicalRuntimeLimitViolationsV02 =
     refined
       (z_array_min 1 RuntimeLimitViolationV02)
       (sorted_unique (\<lambda>x. text_of (jget x ''limit_ref'')))"

definition LimitAdmissionBlockedEventV02 :: "schema_env \<Rightarrow> schema" where
  "LimitAdmissionBlockedEventV02 env =
     refined
       (event_schema env ''limit.admission-blocked''
          (strictObject
             [(''request_id'', z_string MachineIdV02), (''task_ref'', z_string HumanIdV02),
              (''phase'', z_enum [''work'', ''compensation'']), (''compensation_ref'', z_nullable (z_string HumanIdV02)),
              (''request_kind'', z_enum [''loop-attempt'', ''action'', ''tool-call'', ''artifact-write'', ''adapter-budget'']),
              (''request_hash'', z_string Hash), (''violations'', CanonicalRuntimeLimitViolationsV02)]))
       (\<lambda>v. validatePepAuthorityV02 v \<and> phase_ref_ok (jget v ''payload''))"

definition TaskExecutionStartedPayloadBaseV02_shape :: shape where
  "TaskExecutionStartedPayloadBaseV02_shape =
     [(''action_id'', z_string MachineIdV02), (''task_ref'', z_string HumanIdV02),
      (''admission_ref'', LedgerRefV02), (''adapter_invocation_id'', z_string MachineIdV02),
      (''action_proposal_id'', z_string MachineIdV02), (''action_proposal_hash'', z_string Hash),
      (''action_actor_ref'', z_string MachineIdV02), (''action_actor_stable_identity_hash'', z_string Hash),
      (''on_behalf_of_chain_hash'', z_string Hash), (''repository_root_ref'', z_string MachineIdV02),
      (''repository_base_ref_identity_hash'', z_string Hash), (''repository_pre_state_hash'', z_string Hash),
      (''authorized_change_set_hash'', z_string Hash), (''normalized_dispatch_hash'', z_string Hash)]"

definition TaskExecutionStartedPayloadBaseV02 :: schema where
  "TaskExecutionStartedPayloadBaseV02 =
     strictObject TaskExecutionStartedPayloadBaseV02_shape"

definition TaskExecutionStartedEventV02 :: "schema_env \<Rightarrow> schema" where
  "TaskExecutionStartedEventV02 env =
     refined
       (event_schema env ''task.execution-started''
          (z_discriminated ''action_approval_class''
             [strictObject (TaskExecutionStartedPayloadBaseV02_shape @
                [(''policy_action_kind'', AutomaticPolicyActionKindV1),
                 (''action_approval_class'', z_literal (JStr ''automatic''))]),
              strictObject (TaskExecutionStartedPayloadBaseV02_shape @
                [(''policy_action_kind'', AgencyPolicyActionKindV1),
                 (''action_approval_class'', z_literal (JStr ''agency''))])]))
       (\<lambda>v. source_is v ''adapter'' \<and> no_authority v)"

definition AdmittedActionProposalBindingsShapeV02 :: shape where
  "AdmittedActionProposalBindingsShapeV02 =
     [(''action_proposal_id'', z_string MachineIdV02), (''action_proposal_hash'', z_string Hash),
      (''action_actor_ref'', z_string MachineIdV02), (''action_actor_stable_identity_hash'', z_string Hash),
      (''on_behalf_of_chain_hash'', z_string Hash), (''repository_root_ref'', z_string MachineIdV02),
      (''repository_base_ref_identity_hash'', z_string Hash), (''repository_pre_state_hash'', z_string Hash),
      (''authorized_change_set_hash'', z_string Hash), (''normalized_dispatch_hash'', z_string Hash),
      (''action_scope_hash'', z_string Hash), (''action_class'', z_enum [''task'', ''tool'', ''artifact-write'']),
      (''classifier_input_hash'', z_string Hash), (''classifier_registry_hash'', z_string Hash),
      (''classifier_rule_hash'', z_string Hash), (''data_flow_hash'', z_string Hash)]"

definition LeaseIssuedPayloadBaseV02 :: "schema_env \<Rightarrow> shape" where
  "LeaseIssuedPayloadBaseV02 env =
     [(''lease_id'', z_string MachineIdV02), (''task_ref'', z_string HumanIdV02),
      (''phase'', z_enum [''work'', ''compensation'']), (''compensation_ref'', z_nullable (z_string HumanIdV02))] @
     AdmittedActionProposalBindingsShapeV02 @
     [(''authority_envelope_ref'', LedgerRefV02), (''policy_decision_ref'', LedgerRefV02),
      (''fence_epoch'', safe_nonnegative), (''issued_at'', z_time env), (''expires_at'', z_time env),
      (''waiver_gate_refs'', CanonicalHumanIdsV02)]"

definition LeaseIssuedEventV02 :: "schema_env \<Rightarrow> schema" where
  "LeaseIssuedEventV02 env =
     refined
       (event_schema env ''lease.issued''
          (z_discriminated ''action_approval_class''
             [strictObject
                (LeaseIssuedPayloadBaseV02 env @
                [(''policy_action_kind'', AutomaticPolicyActionKindV1),
                 (''action_approval_class'', z_literal (JStr ''automatic''))]),
              strictObject
                (LeaseIssuedPayloadBaseV02 env @
                [(''policy_action_kind'', AgencyPolicyActionKindV1),
                 (''action_approval_class'', z_literal (JStr ''agency''))])]))
       (\<lambda>v. validatePepAuthorityV02 v \<and> phase_ref_ok (jget v ''payload'') \<and> nonempty_interval env v)"

definition WaiverGateUseCheckV02 :: schema where
  "WaiverGateUseCheckV02 =
     strictObject
       [(''gate_ref'', z_string HumanIdV02), (''required_event_ref'', LedgerRefV02),
        (''result_event_ref'', LedgerRefV02), (''waiver_event_ref'', LedgerRefV02),
        (''authority_record_ref'', LedgerRefV02), (''authority_revocation_epoch'', safe_nonnegative),
        (''authority_envelope_revocation_epoch'', safe_nonnegative), (''use_clock_ref'', LedgerRefV02)]"

definition CanonicalWaiverGateUseChecksV02 :: schema where
  "CanonicalWaiverGateUseChecksV02 =
     refined (z_array WaiverGateUseCheckV02) (sorted_unique (\<lambda>x. text_of (jget x ''gate_ref'')))"

text \<open>A reference as the pair it is compared by.\<close>

definition ref_of :: "json option \<Rightarrow> json option \<times> json option" where
  "ref_of v = (attr v ''ledger_sequence'', attr v ''event_hash'')"

definition ledgerRefsEqualV02 :: "json option \<Rightarrow> json option \<Rightarrow> bool" where
  "ledgerRefsEqualV02 l r \<longleftrightarrow> ref_of l = ref_of r"

definition TaskActionAdmittedPayloadBaseV02 :: shape where
  "TaskActionAdmittedPayloadBaseV02 =
     [(''action_id'', z_string MachineIdV02), (''task_ref'', z_string HumanIdV02),
      (''lease_id'', z_string MachineIdV02), (''lease_event_ref'', LedgerRefV02),
      (''admission_clock_ref'', LedgerRefV02)] @
     AdmittedActionProposalBindingsShapeV02 @
     [(''execution_ordinal'', safe_positive), (''retry_of_failure_ordinal'', z_nullable safe_positive),
      (''fence_epoch'', safe_nonnegative), (''side_effect_refs'', NonEmptyCanonicalHumanIdsV02),
      (''waiver_gate_use_checks'', CanonicalWaiverGateUseChecksV02), (''task_executions_after'', safe_positive),
      (''action_output_bytes_after'', safe_nonnegative)]"

definition TaskActionAdmittedEventV02 :: "schema_env \<Rightarrow> schema" where
  "TaskActionAdmittedEventV02 env =
     refined
       (event_schema env ''task.action-admitted''
          (z_discriminated ''action_approval_class''
             [strictObject
                (TaskActionAdmittedPayloadBaseV02 @
                [(''policy_action_kind'', AutomaticPolicyActionKindV1),
                 (''action_approval_class'', z_literal (JStr ''automatic''))]),
              strictObject
                (TaskActionAdmittedPayloadBaseV02 @
                [(''policy_action_kind'', AgencyPolicyActionKindV1),
                 (''action_approval_class'', z_literal (JStr ''agency''))])]))
       (\<lambda>v. validatePepAuthorityV02 v \<and>
         list_all (\<lambda>c. ledgerRefsEqualV02 (jget c ''use_clock_ref'') (pay v ''admission_clock_ref''))
           (items (pay v ''waiver_gate_use_checks'')))"

subsection \<open>Evidence, claims, findings and waivers\<close>

definition EvidenceIndependenceRootV02 :: schema where
  "EvidenceIndependenceRootV02 =
     refined
       (strictObject
          [(''root_event_ref'', LedgerRefV02),
           (''source_class'', z_enum [''command'', ''filesystem'', ''browser'', ''source'', ''human-authorization'',
                   ''manual-observation'']),
           (''authority_root_ref'', LedgerRefV02),
           (''authenticated_principal_ref'', z_nullable (z_string MachineIdV02)),
           (''acquisition_scope_hash'', z_string Hash), (''independence_key'', z_string Hash)])
       (\<lambda>v. (text_of (jget v ''source_class'') \<in> {''human-authorization'', ''manual-observation''}) =
           (\<not> is_null (jget v ''authenticated_principal_ref'')))"

definition root_less :: "json \<Rightarrow> json \<Rightarrow> bool" where
  "root_less x y \<longleftrightarrow>
     (let key = compareRuntimeUtf8BytesV02 (text_of (jget x ''independence_key'')) (text_of (jget y ''independence_key''));
          m = int_at (attr (jget x ''root_event_ref'') ''ledger_sequence'');
          n = int_at (attr (jget y ''root_event_ref'') ''ledger_sequence'');
          hash = compareRuntimeUtf8BytesV02 (text_of (attr (jget x ''root_event_ref'') ''event_hash''))
                   (text_of (attr (jget y ''root_event_ref'') ''event_hash'')) in
      \<not> (key > 0 \<or> key = 0 \<and> m > n \<or> key = 0 \<and> m = n \<and> hash \<ge> 0))"

definition CanonicalEvidenceIndependenceRootsV02 :: schema where
  "CanonicalEvidenceIndependenceRootsV02 =
     refined
       (z_array_min 1 EvidenceIndependenceRootV02)
       (\<lambda>v. distinct (map (\<lambda>r. ref_of (jget r ''root_event_ref'')) (items (Some v))) \<and> adjacent root_less (items (Some v)))"

definition EvidenceRecordedEventV02 :: "schema_env \<Rightarrow> schema" where
  "EvidenceRecordedEventV02 env =
     refined
       (event_schema env ''evidence.recorded''
          (strictObject
             [(''evidence_id'', z_string MachineIdV02), (''requirement_refs'', NonEmptyCanonicalHumanIdsV02),
              (''evidence_kind'', EvidenceKindV02), (''independence_roots'', CanonicalEvidenceIndependenceRootsV02),
              (''record_path'', z_string RelativeRunPathV02), (''record_hash'', z_string Hash),
              (''content_path'', z_nullable (z_string RelativeRunPathV02)),
              (''content_hash'', z_nullable (z_string Hash)), (''size_bytes'', z_nullable safe_nonnegative),
              (''media_type'', z_nullable (z_string NonBlankStringV02)), (''producer_event_ref'', LedgerRefV02)]))
       (\<lambda>v. source_is v ''kernel'' \<and> no_authority v \<and>
         (let present = filter (\<lambda>k. \<not> is_null (pay v k)) [''content_path'', ''content_hash'', ''size_bytes'', ''media_type''] in
            length present = 0 \<or> length present = 4))"

definition ObservationManualRecordedEventV02 :: "schema_env \<Rightarrow> schema" where
  "ObservationManualRecordedEventV02 env =
     refined
       (event_schema env ''observation.manual-recorded''
          (strictObject
             [(''observation_id'', z_string MachineIdV02), (''record_path'', z_string RelativeRunPathV02),
              (''record_hash'', z_string Hash), (''run_id'', z_string MachineIdV02),
              (''authenticated_principal_ref'', z_string MachineIdV02), (''subject_hash'', z_string Hash),
              (''observation_scope_hash'', z_string Hash), (''observed_at'', z_time env),
              (''limitations'', CanonicalNonBlankStringsV02)]))
       (\<lambda>v. source_is v ''operator'' \<and>
         jget v ''authority_ref'' = pay v ''authenticated_principal_ref'' \<and> jget v ''run_id'' = pay v ''run_id'')"

definition ClaimSubjectV02 :: schema where
  "ClaimSubjectV02 =
     z_discriminated ''kind''
       [strictObject
          [(''kind'', z_literal (JStr ''goal-success-criterion'')), (''subject_ref'', z_string HumanIdV02)],
        strictObject [(''kind'', z_literal (JStr ''gate'')), (''subject_ref'', z_string HumanIdV02)],
        strictObject
          [(''kind'', z_literal (JStr ''evaluation'')), (''subject_ref'', z_string HumanIdV02)]]"

definition ClaimVerdictRecordRefV02 :: schema where
  "ClaimVerdictRecordRefV02 =
     z_discriminated ''record_kind''
       [strictObject
          [(''record_kind'', z_literal (JStr ''gate-result'')), (''record_id'', z_string MachineIdV02),
           (''record_event_ref'', LedgerRefV02)],
        strictObject
          [(''record_kind'', z_literal (JStr ''evaluation-result'')), (''record_id'', z_string MachineIdV02),
           (''record_event_ref'', LedgerRefV02)]]"

definition CanonicalClaimVerdictRefsV02 :: schema where
  "CanonicalClaimVerdictRefsV02 =
     refined
       (z_array_min 1 ClaimVerdictRecordRefV02)
       (\<lambda>v. adjacent (\<lambda>x y. compareRecordDependencyRefsV02 x y < 0) (items (Some v)))"

definition ClaimRecordedEventV02 :: "schema_env \<Rightarrow> schema" where
  "ClaimRecordedEventV02 env =
     refined
       (event_schema env ''claim.recorded''
          (strictObject
             [(''claim_id'', z_string MachineIdV02), (''subject'', ClaimSubjectV02),
              (''evidence_policy_hash'', z_string Hash), (''verdict_record_refs'', CanonicalClaimVerdictRefsV02),
              (''status'', z_enum [''verified'', ''unverified'', ''contradicted'']),
              (''record_path'', z_string RelativeRunPathV02), (''record_hash'', z_string Hash),
              (''dependency_record_refs'', CanonicalRecordDependencyRefsV02),
              (''observation_root_refs'', CanonicalLedgerRefsV02)]))
       (\<lambda>v. source_is v ''kernel'' \<and> no_authority v)"

definition FindingRecordedEventV02 :: "schema_env \<Rightarrow> schema" where
  "FindingRecordedEventV02 env =
     refined
       (event_schema env ''finding.recorded''
          (strictObject
             [(''finding_id'', z_string MachineIdV02),
              (''classification'', z_enum [''blocking'', ''accepted-risk'', ''deferred'', ''false-positive'']),
              (''disposition_authority_principal_ref'', z_nullable (z_string MachineIdV02)),
              (''disposition_authorization_statement_hash'', z_nullable (z_string Hash)),
              (''reviewed_through_ref'', z_nullable LedgerRefV02), (''record_path'', z_string RelativeRunPathV02),
              (''record_hash'', z_string Hash), (''dependency_record_refs'', CanonicalRecordDependencyRefsV02),
              (''observation_root_refs'', CanonicalLedgerRefsV02)]))
       (\<lambda>v. let blocking = is_text (pay v ''classification'') ''blocking'';
           disposition = [pay v ''disposition_authority_principal_ref'', pay v ''disposition_authorization_statement_hash'',
                          pay v ''reviewed_through_ref''] in
         (if blocking then list_all is_null disposition else list_all (\<lambda>x. \<not> is_null x) disposition) \<and>
         source_is v (if blocking then ''evaluator'' else ''operator'') \<and>
         jget v ''authority_ref'' = (if blocking then Some JNull else pay v ''disposition_authority_principal_ref''))"

definition WaiverRecordedEventV02 :: "schema_env \<Rightarrow> schema" where
  "WaiverRecordedEventV02 env =
     refined
       (event_schema env ''waiver.recorded''
          (strictObject
             [(''waiver_id'', z_string MachineIdV02), (''gate_ref'', z_string HumanIdV02),
              (''record_path'', z_string RelativeRunPathV02), (''record_hash'', z_string Hash),
              (''authority_record_ref'', LedgerRefV02), (''action_scope_hash'', z_string Hash),
              (''authority_revocation_epoch'', safe_nonnegative),
              (''authority_envelope_revocation_epoch'', safe_nonnegative), (''required_event_ref'', LedgerRefV02),
              (''prerequisite_set_hash'', z_string Hash), (''approved_risk_tier'', z_enum RiskTierV1),
              (''reviewed_through_ref'', LedgerRefV02), (''boundary_clock_ref'', LedgerRefV02),
              (''dependency_record_refs'', CanonicalRecordDependencyRefsV02),
              (''observation_root_refs'', CanonicalLedgerRefsV02)]))
       (\<lambda>v. source_is v ''operator'' \<and> \<not> no_authority v)"

subsection \<open>Authority, custody and export\<close>

definition AuthorityHumanAuthorizationRecordedEventV02 :: "schema_env \<Rightarrow> schema" where
  "AuthorityHumanAuthorizationRecordedEventV02 env =
     refined
       (event_schema env ''authority.human-authorization-recorded''
          (strictObject
             [(''authorization_id'', z_string MachineIdV02), (''record_path'', z_string RelativeRunPathV02),
              (''record_hash'', z_string Hash), (''run_id'', z_string MachineIdV02), (''plan_hash'', z_string Hash),
              (''authorization_subject_hash'', z_string Hash), (''authenticated_principal_ref'', z_string MachineIdV02),
              (''authentication_context_hash'', z_string Hash), (''action_scope_hash'', z_string Hash),
              (''approved_risk_tier'', z_enum RiskTierV1), (''operator_key_id'', z_string MachineIdV02),
              (''approval_channel'', z_enum [''local-ed25519'', ''platform-authenticated'']),
              (''approval_nonce'', z_string Hash),
              (''proof_algorithm'', z_enum [''ed25519'', ''platform-authenticated-v01'']),
              (''authorization_statement_hash'', z_string Hash), (''issued_at'', z_time env),
              (''expires_at'', z_time env), (''revocation_epoch'', safe_nonnegative)]))
       (\<lambda>v. source_is v ''operator'' \<and>
         jget v ''authority_ref'' = pay v ''authenticated_principal_ref'' \<and> jget v ''run_id'' = pay v ''run_id'' \<and>
         (is_text (pay v ''approval_channel'') ''local-ed25519'' \<and> is_text (pay v ''proof_algorithm'') ''ed25519'' \<or>
          is_text (pay v ''approval_channel'') ''platform-authenticated'' \<and>
          is_text (pay v ''proof_algorithm'') ''platform-authenticated-v01'') \<and> nonempty_interval env v)"

definition AuthorityEnvelopeRecordedEventV02 :: "schema_env \<Rightarrow> schema" where
  "AuthorityEnvelopeRecordedEventV02 env =
     refined
       (event_schema env ''authority.envelope-recorded''
          (strictObject
             [(''authority_envelope_id'', z_string MachineIdV02), (''record_path'', z_string RelativeRunPathV02),
              (''record_hash'', z_string Hash), (''run_id'', z_string MachineIdV02), (''plan_hash'', z_string Hash),
              (''policy_digest'', z_string Hash), (''subject_ref'', z_string MachineIdV02),
              (''issuer_principal_ref'', z_string MachineIdV02), (''authorization_subject_hash'', z_string Hash),
              (''human_authorization_proof_refs'', NonEmptyCanonicalLedgerRefsV02),
              (''action_class'', z_enum [''gate-waiver'', ''task'', ''tool'', ''artifact-write'', ''authority-delegation'']),
              (''action_scope_hash'', z_string Hash), (''max_risk_tier'', z_enum RiskTierV1), (''issued_at'', z_time env),
              (''expires_at'', z_time env), (''revocation_epoch'', safe_nonnegative),
              (''delegation_depth'', z_union [z_literal (JInt 0), z_literal (JInt 1)])]))
       (\<lambda>v. validatePepAuthorityV02 v \<and>
         jget v ''authority_ref'' = pay v ''issuer_principal_ref'' \<and> jget v ''run_id'' = pay v ''run_id'' \<and>
         pay v ''subject_ref'' \<noteq> pay v ''issuer_principal_ref'' \<and> nonempty_interval env v)"

definition AuthorityRevocationTargetV02 :: schema where
  "AuthorityRevocationTargetV02 =
     z_discriminated ''kind''
       [strictObject
          [(''kind'', z_literal (JStr ''authority-envelope'')),
           (''target_ref'', strictObject
             [(''record_kind'', z_literal (JStr ''authority-envelope'')), (''record_id'', z_string MachineIdV02),
              (''record_event_ref'', LedgerRefV02)]),
           (''target_scope_hash'', z_string Hash)],
        strictObject
          [(''kind'', z_literal (JStr ''gate-waiver-authority'')),
           (''target_ref'', strictObject
             [(''record_kind'', z_literal (JStr ''gate-waiver-authority'')), (''record_id'', z_string MachineIdV02),
              (''record_event_ref'', LedgerRefV02)]),
           (''target_scope_hash'', z_string Hash)]]"

definition AuthorityGrantRevokedEventV02 :: "schema_env \<Rightarrow> schema" where
  "AuthorityGrantRevokedEventV02 env =
     refined
       (event_schema env ''authority.grant-revoked''
          (strictObject
             [(''revocation_id'', z_string MachineIdV02), (''record_path'', z_string RelativeRunPathV02),
              (''record_hash'', z_string Hash), (''run_id'', z_string MachineIdV02), (''plan_hash'', z_string Hash),
              (''target'', AuthorityRevocationTargetV02), (''previous_revocation_epoch'', safe_nonnegative),
              (''revocation_epoch'', safe_positive), (''effective_prefix_ref'', LedgerRefV02),
              (''reason_code'', z_enum [''operator-revoked'', ''authority-expired'', ''scope-invalidated'', ''policy-changed'',
                      ''principal-revoked'', ''compromise-suspected'']),
              (''evidence_refs'', ReviewEvidenceRefsV02),
              (''revoker_kind'', z_enum [''operator'', ''policy-enforcement-point'']),
              (''revoker_identity_ref'', z_string MachineIdV02), (''revoker_stable_identity_hash'', z_string Hash),
              (''revoker_authentication_context_hash'', z_string Hash), (''policy_digest'', z_string Hash),
              (''revoked_at'', z_time env), (''signer_key_ref'', z_string MachineIdV02),
              (''statement_hash'', z_string Hash)]))
       (\<lambda>v. jget v ''run_id'' = pay v ''run_id'' \<and> jget v ''authority_ref'' = pay v ''revoker_identity_ref'' \<and>
         (let source = (if is_text (pay v ''reason_code'') ''operator-revoked'' then ''operator'' else ''policy-enforcement-point'') in
            source_is v source \<and> is_text (pay v ''revoker_kind'') source) \<and>
         incremented (pay v ''previous_revocation_epoch'') (pay v ''revocation_epoch'') \<and>
         incremented (attr (pay v ''effective_prefix_ref'') ''ledger_sequence'') (jget v ''sequence'') \<and>
         jget v ''previous_event_hash'' = attr (pay v ''effective_prefix_ref'') ''event_hash'')"

definition RetentionClass :: schema where
  "RetentionClass =
     z_enum [''short'', ''run'', ''project'', ''quarantine'']"

definition CustodyStatePayloadCommonV02 :: "schema_env \<Rightarrow> shape" where
  "CustodyStatePayloadCommonV02 env =
     [(''subject_hash'', z_string Hash), (''previous_state_event_ref'', z_null),
      (''retention_class'', RetentionClass), (''expires_at'', z_nullable (z_time env)),
      (''quarantine_status'', z_enum [''clear'', ''quarantined'']),
      (''quarantine_reason'', z_nullable (z_enum [''privacy-review-required'', ''redaction-unsafe''])),
      (''integrity_status'', z_literal (JStr ''valid'')), (''integrity_finding_refs'', z_tuple []),
      (''export_state'', z_enum [''exportable'', ''not-exportable'']),
      (''export_reason'', z_nullable (z_enum [''no-current-decision'', ''policy-denied'', ''quarantined'', ''expired''])),
      (''export_decision_event_ref'', z_nullable LedgerRefV02), (''policy_version'', z_string NonBlankStringV02),
      (''evidence_refs'', CanonicalLedgerRefsV02)]"

definition custody_ok :: "json option \<Rightarrow> bool" where
  "custody_ok p \<longleftrightarrow>
     is_text (attr p ''quarantine_status'') ''clear'' = is_null (attr p ''quarantine_reason'') \<and>
     (if is_text (attr p ''export_state'') ''exportable''
      then is_text (attr p ''quarantine_status'') ''clear'' \<and> is_null (attr p ''export_reason'') \<and>
           \<not> is_null (attr p ''export_decision_event_ref'')
      else \<not> is_null (attr p ''export_reason''))"

definition RecordCustodyStateRecordedEventV02 :: "schema_env \<Rightarrow> schema" where
  "RecordCustodyStateRecordedEventV02 env =
     refined
       (event_schema env ''record.custody-state-recorded''
          (z_discriminated ''subject_kind''
             [strictObject
                (ArtifactEvidenceSubjectV02_shape @
                CustodyStatePayloadCommonV02 env),
              strictObject
                (EvidenceSubjectV02_shape @
                CustodyStatePayloadCommonV02 env)]))
       (\<lambda>v. source_is v ''kernel'' \<and> no_authority v \<and> custody_ok (jget v ''payload''))"

definition ExportSelectedByteTupleShapeV02 :: shape where
  "ExportSelectedByteTupleShapeV02 =
     [(''path'', z_string RelativeRunPathV02), (''hash'', z_string Hash), (''size_bytes'', safe_nonnegative),
      (''media_type'', z_string NonBlankStringV02), (''binding_ref'', LedgerRefV02)]"

definition ArtifactExportSelectedBytesV02 :: schema where
  "ArtifactExportSelectedBytesV02 =
     z_discriminated ''kind''
       [strictObject
          ([(''kind'', z_literal (JStr ''original-content'')), (''ref'', z_string HumanIdV02)] @
          ExportSelectedByteTupleShapeV02),
        strictObject
          ([(''kind'', z_literal (JStr ''redacted-derivative'')), (''ref'', z_string MachineIdV02)] @
          ExportSelectedByteTupleShapeV02)]"

definition EvidenceExportSelectedBytesV02 :: schema where
  "EvidenceExportSelectedBytesV02 =
     z_discriminated ''kind''
       [strictObject
          ([(''kind'', z_literal (JStr ''original-content'')), (''ref'', z_string MachineIdV02)] @
          ExportSelectedByteTupleShapeV02),
        strictObject
          ([(''kind'', z_literal (JStr ''redacted-derivative'')), (''ref'', z_string MachineIdV02)] @
          ExportSelectedByteTupleShapeV02),
        strictObject
          ([(''kind'', z_literal (JStr ''record-bytes'')), (''ref'', z_string MachineIdV02)] @
          ExportSelectedByteTupleShapeV02)]"

definition ExportReviewCheckV02 :: schema where
  "ExportReviewCheckV02 =
     strictObject
       [(''result_ref'', RecordDependencyRefV02), (''evaluation_ref'', z_string HumanIdV02),
        (''evaluator_identity_ref'', z_string MachineIdV02), (''policy_digest'', z_string Hash),
        (''subject_hash'', z_string Hash)]"

definition CanonicalExportReviewChecksV02 :: schema where
  "CanonicalExportReviewChecksV02 =
     refined
       (z_array ExportReviewCheckV02)
       (\<lambda>v. adjacent (\<lambda>x y. compareRecordDependencyRefsV02 (own (jget x ''result_ref'')) (own (jget y ''result_ref'')) < 0) (items (Some v)))"

definition ExportDecisionPayloadCommonV02 :: shape where
  "ExportDecisionPayloadCommonV02 =
     [(''decision_id'', z_string MachineIdV02), (''record_path'', z_string RelativeRunPathV02),
      (''record_hash'', z_string Hash), (''original_record_hash'', z_string Hash),
      (''subject_hash'', z_string Hash), (''decision'', z_enum [''exportable'', ''not-exportable'']),
      (''credential_scan_evidence_refs'', CanonicalExportReviewChecksV02),
      (''privacy_review_evidence_refs'', CanonicalExportReviewChecksV02),
      (''policy_version'', z_string NonBlankStringV02)]"

definition export_subject_ok :: "schema_env \<Rightarrow> json \<Rightarrow> bool" where
  "export_subject_ok env e \<longleftrightarrow>
     (let p = own (jget e ''payload'') in
      jget p ''subject_hash'' = Some (JStr (hashCanonical env (purposed ''export-subject-v02''
        ([(''schema_version'', JStr ''0.2''), (''run_id'', own (jget e ''run_id''))] @
         pick p [''subject_kind'', ''subject_ref'', ''original_record_hash'', ''original_content_hash'',
           ''selected_bytes'', ''policy_version''])))))"

definition export_bytes_ok :: "json option \<Rightarrow> bool" where
  "export_bytes_ok p \<longleftrightarrow>
     (let bytes = attr p ''selected_bytes'' in
      (is_text (attr bytes ''kind'') ''original-content'' \<longrightarrow> attr bytes ''ref'' = attr p ''subject_ref'') \<and>
      (is_text (attr p ''subject_kind'') ''evidence'' \<and> is_text (attr bytes ''kind'') ''record-bytes'' \<longrightarrow>
         is_null (attr p ''original_content_hash'') \<and> attr bytes ''ref'' = attr p ''subject_ref'' \<and>
         is_text (attr bytes ''media_type'') ''application/json''))"

text \<open>Credential and privacy checks share neither results nor evaluations, and for an export no evaluator.\<close>

definition export_checks_ok :: "schema_env \<Rightarrow> json option \<Rightarrow> bool" where
  "export_checks_ok env p \<longleftrightarrow>
     (let credential = items (attr p ''credential_scan_evidence_refs''); privacy = items (attr p ''privacy_review_evidence_refs'');
          disjoint_by = (\<lambda>f. set (map f credential) \<inter> set (map f privacy) = {}) in
      list_all (\<lambda>c. jget c ''subject_hash'' = attr p ''subject_hash'') (credential @ privacy) \<and>
      disjoint_by (\<lambda>c. Some (JStr (canonicalize env (own (jget c ''result_ref''))))) \<and>
      disjoint_by (\<lambda>c. jget c ''evaluation_ref'') \<and>
      (is_text (attr p ''decision'') ''exportable'' \<longrightarrow>
         credential \<noteq> [] \<and> privacy \<noteq> [] \<and> disjoint_by (\<lambda>c. jget c ''evaluator_identity_ref'')))"

definition RecordExportDecisionRecordedEventV02 :: "schema_env \<Rightarrow> schema" where
  "RecordExportDecisionRecordedEventV02 env =
     refined
       (event_schema env ''record.export-decision-recorded''
          (z_discriminated ''subject_kind''
             [strictObject
                (ExportDecisionPayloadCommonV02 @
                [(''subject_kind'', z_literal (JStr ''artifact'')), (''subject_ref'', z_string HumanIdV02),
                 (''original_content_hash'', z_string Hash), (''selected_bytes'', ArtifactExportSelectedBytesV02)]),
              strictObject
                (ExportDecisionPayloadCommonV02 @
                [(''subject_kind'', z_literal (JStr ''evidence'')), (''subject_ref'', z_string MachineIdV02),
                 (''original_content_hash'', z_nullable (z_string Hash)),
                 (''selected_bytes'', EvidenceExportSelectedBytesV02)])]))
       (\<lambda>v. source_is v ''evaluator'' \<and> no_authority v \<and> export_subject_ok env v \<and>
         export_bytes_ok (jget v ''payload'') \<and> export_checks_ok env (jget v ''payload''))"

subsection \<open>Recommendations, decisions and settlements\<close>

definition ApprovalRecommendationRecordedEventV02 :: "schema_env \<Rightarrow> schema" where
  "ApprovalRecommendationRecordedEventV02 env =
     refined
       (event_schema env ''approval.recommendation-recorded''
          (strictObject
             [(''recommendation_id'', z_string MachineIdV02), (''record_path'', z_string RelativeRunPathV02),
              (''record_hash'', z_string Hash), (''run_id'', z_string MachineIdV02), (''plan_hash'', z_string Hash),
              (''task_ref'', z_string HumanIdV02), (''phase'', z_enum [''work'', ''compensation'']),
              (''compensation_ref'', z_nullable (z_string HumanIdV02)), (''action_proposal_id'', z_string MachineIdV02),
              (''action_proposal_hash'', z_string Hash), (''action_actor_ref'', z_string MachineIdV02),
              (''action_actor_stable_identity_hash'', z_string Hash), (''on_behalf_of_chain_hash'', z_string Hash),
              (''repository_root_ref'', z_string MachineIdV02), (''repository_base_ref_identity_hash'', z_string Hash),
              (''repository_pre_state_hash'', z_string Hash), (''authorized_change_set_hash'', z_string Hash),
              (''normalized_dispatch_hash'', z_string Hash), (''action_scope_hash'', z_string Hash),
              (''action_class'', z_enum [''task'', ''tool'', ''artifact-write'']),
              (''classifier_input_hash'', z_string Hash), (''classifier_registry_hash'', z_string Hash),
              (''classifier_rule_hash'', z_string Hash), (''data_flow_hash'', z_string Hash),
              (''policy_action_kind'', AgencyPolicyActionKindV1),
              (''action_approval_class'', z_literal (JStr ''agency'')), (''recommendation_subject_hash'', z_string Hash),
              (''quorum_requirement_hash'', z_string Hash), (''policy_digest'', z_string Hash),
              (''reviewed_through_ref'', LedgerRefV02), (''evidence_refs'', AgencyRecommendationEvidenceRefsV02),
              (''evidence_independence_keys'', refined CanonicalHashesV02 (\<lambda>v. items (Some v) \<noteq> [])),
              (''evaluator_role_ref'', z_string HumanIdV02), (''evaluator_actor_ref'', z_string MachineIdV02),
              (''evaluator_stable_identity_hash'', z_string Hash),
              (''evaluator_authentication_context_hash'', z_string Hash),
              (''decision'', z_enum [''allow'', ''allow_with_conditions'', ''deny'', ''escalate'', ''abort'']),
              (''condition_hashes'', CanonicalHashesV02),
              (''reason_codes'', NonEmptyCanonicalPolicyReasonCodeRefsV02 env), (''issued_at'', z_time env),
              (''expires_at'', z_time env), (''signer_key_ref'', z_string MachineIdV02),
              (''statement_hash'', z_string Hash)]))
       (\<lambda>v. validateEvaluatorNullAuthorityV02 v \<and> jget v ''run_id'' = pay v ''run_id'' \<and>
         phase_ref_ok (jget v ''payload'') \<and>
         (is_text (pay v ''decision'') ''allow_with_conditions'' = (items (pay v ''condition_hashes'') \<noteq> [])) \<and>
         pay v ''evaluator_actor_ref'' \<noteq> pay v ''action_actor_ref'' \<and>
         pay v ''evaluator_stable_identity_hash'' \<noteq> pay v ''action_actor_stable_identity_hash'' \<and>
         reasons_ok (jget v ''payload'') \<and> nonempty_interval env v)"

definition TaskActionSettledPayloadBaseV02 :: "schema_env \<Rightarrow> shape" where
  "TaskActionSettledPayloadBaseV02 env =
     [(''action_id'', z_string MachineIdV02), (''task_ref'', z_string HumanIdV02),
      (''terminal_event_ref'', LedgerRefV02), (''action_proposal_id'', z_string MachineIdV02),
      (''action_proposal_hash'', z_string Hash), (''action_actor_ref'', z_string MachineIdV02),
      (''action_actor_stable_identity_hash'', z_string Hash), (''on_behalf_of_chain_hash'', z_string Hash),
      (''repository_root_ref'', z_string MachineIdV02), (''repository_base_ref_identity_hash'', z_string Hash),
      (''repository_pre_state_hash'', z_string Hash), (''authorized_change_set_hash'', z_string Hash),
      (''normalized_dispatch_hash'', z_string Hash), (''repository_post_state'', VerifiedRepositoryStateV02 env),
      (''repository_post_state_hash'', z_string Hash),
      (''observed_change_set'', ObservedRepositoryChangeSetV02 env),
      (''observed_change_set_hash'', z_string Hash),
      (''repository_transition_status'', z_enum [''unchanged'', ''authorized-change'', ''drift-hold'']),
      (''effect_outcomes'', CanonicalEffectSettlementOutcomesV02)]"

definition settlement_ok :: "schema_env \<Rightarrow> json option \<Rightarrow> bool" where
  "settlement_ok env p \<longleftrightarrow>
     (let post = attr p ''repository_post_state''; observed = attr p ''observed_change_set'';
          same = (\<lambda>x y. canonicalize env (own x) = canonicalize env (own y)) in
      attr p ''repository_post_state_hash'' = attr post ''repository_state_hash'' \<and>
      attr p ''observed_change_set_hash'' = attr observed ''observed_change_set_hash'' \<and>
      attr post ''repository_root_ref'' = attr p ''repository_root_ref'' \<and>
      attr post ''base_ref_identity_hash'' = attr p ''repository_base_ref_identity_hash'' \<and>
      attr observed ''repository_root_ref'' = attr p ''repository_root_ref'' \<and>
      attr observed ''base_ref_identity_hash'' = attr p ''repository_base_ref_identity_hash'' \<and>
      attr observed ''repository_pre_state_hash'' = attr p ''repository_pre_state_hash'' \<and>
      attr observed ''repository_post_state_hash'' = attr p ''repository_post_state_hash'' \<and>
      same (attr observed ''head_after'') (attr post ''head'') \<and>
      (is_text (attr p ''repository_transition_status'') ''unchanged'' \<longrightarrow>
         attr p ''repository_pre_state_hash'' = attr p ''repository_post_state_hash'' \<and>
         same (attr observed ''head_before'') (attr observed ''head_after'') \<and> items (attr observed ''changes'') = []))"

definition TaskActionSettledEventV02 :: "schema_env \<Rightarrow> schema" where
  "TaskActionSettledEventV02 env =
     refined
       (event_schema env ''task.action-settled''
          (z_discriminated ''action_approval_class''
             [strictObject
                (TaskActionSettledPayloadBaseV02 env @
                [(''policy_action_kind'', AutomaticPolicyActionKindV1),
                 (''action_approval_class'', z_literal (JStr ''automatic''))]),
              strictObject
                (TaskActionSettledPayloadBaseV02 env @
                [(''policy_action_kind'', AgencyPolicyActionKindV1),
                 (''action_approval_class'', z_literal (JStr ''agency''))])]))
       (\<lambda>v. source_is v ''kernel'' \<and> no_authority v \<and> settlement_ok env (jget v ''payload''))"

definition PolicyDecisionCopiedBindingsShapeV02 :: "schema_env \<Rightarrow> shape" where
  "PolicyDecisionCopiedBindingsShapeV02 env =
     [(''policy_decision_id'', z_string MachineIdV02), (''run_id'', z_string MachineIdV02),
      (''plan_hash'', z_string Hash), (''task_ref'', z_string HumanIdV02),
      (''phase'', z_enum [''work'', ''compensation'']), (''compensation_ref'', z_nullable (z_string HumanIdV02)),
      (''authority_envelope_ref'', strictObject
        [(''record_kind'', z_literal (JStr ''authority-envelope'')), (''record_id'', z_string MachineIdV02),
         (''record_event_ref'', LedgerRefV02)]),
      (''action_proposal'', ActionProposalV02 env), (''action_proposal_id'', z_string MachineIdV02),
      (''action_proposal_hash'', z_string Hash), (''action_actor_ref'', z_string MachineIdV02),
      (''action_actor_stable_identity_hash'', z_string Hash), (''on_behalf_of_chain_hash'', z_string Hash),
      (''repository_root_ref'', z_string MachineIdV02), (''repository_base_ref_identity_hash'', z_string Hash),
      (''repository_pre_state_hash'', z_string Hash), (''authorized_change_set_hash'', z_string Hash),
      (''normalized_dispatch_hash'', z_string Hash), (''action_scope_hash'', z_string Hash),
      (''action_class'', z_enum [''task'', ''tool'', ''artifact-write'']),
      (''classifier_input_hash'', z_string Hash), (''classifier_registry_hash'', z_string Hash),
      (''classifier_rule_hash'', z_string Hash), (''data_flow_hash'', z_string Hash),
      (''reviewed_through_ref'', LedgerRefV02), (''policy_digest'', z_string Hash),
      (''reason_codes'', NonEmptyCanonicalPolicyReasonCodeRefsV02 env), (''issued_at'', z_time env),
      (''expires_at'', z_time env), (''revocation_epoch'', safe_nonnegative)]"

definition PolicyDecisionBranchFieldsV02 :: shape where
  "PolicyDecisionBranchFieldsV02 =
     [(''quorum_requirement_hash'', z_nullable (z_string Hash)),
      (''recommendation_event_refs'', CanonicalLedgerRefsV02), (''condition_hashes'', CanonicalHashesV02),
      (''failed_condition_hashes'', CanonicalHashesV02),
      (''decision'', z_enum [''allow'', ''deny'', ''escalate'', ''abort'', ''hold'']),
      (''decision_disposition'', z_enum [''lease-eligible'', ''proposal-final'', ''human-exception-required'', ''abort-run'',
              ''redecide-after-prefix-change'', ''non-resumable'']),
      (''evidence_refs'', CanonicalLedgerRefsV02)]"

definition decision_is :: "json \<Rightarrow> string \<Rightarrow> string \<Rightarrow> bool" where
  "decision_is v d disp \<longleftrightarrow> is_text (jget v ''decision'') d \<and> is_text (jget v ''decision_disposition'') disp"

text \<open>A branch without quorum, recommendations and conditions.\<close>

definition plain_decision :: "json \<Rightarrow> bool" where
  "plain_decision v \<longleftrightarrow>
     is_null (jget v ''quorum_requirement_hash'') \<and> items (jget v ''recommendation_event_refs'') = [] \<and>
     items (jget v ''condition_hashes'') = [] \<and> items (jget v ''failed_condition_hashes'') = []"

definition automatic_branch_ok :: "json \<Rightarrow> bool" where
  "automatic_branch_ok v \<longleftrightarrow>
     plain_decision v \<and> decision_is v ''allow'' ''lease-eligible'' \<and> items (jget v ''evidence_refs'') = []"

definition AutomaticPolicyDecisionPayloadV02 :: "schema_env \<Rightarrow> schema" where
  "AutomaticPolicyDecisionPayloadV02 env =
     refined
       (strictObject
          (PolicyDecisionCopiedBindingsShapeV02 env @
          PolicyDecisionBranchFieldsV02 @
          [(''policy_action_kind'', AutomaticPolicyActionKindV1),
           (''action_approval_class'', z_literal (JStr ''automatic''))]))
       automatic_branch_ok"

definition agency_branch_ok :: "json \<Rightarrow> bool" where
  "agency_branch_ok v \<longleftrightarrow>
     (let refs = items (jget v ''recommendation_event_refs''); conditions = items (jget v ''condition_hashes'');
          failed = items (jget v ''failed_condition_hashes''); evidence = items (jget v ''evidence_refs'') in
      if is_null (jget v ''quorum_requirement_hash'') then
        is_text (jget v ''phase'') ''compensation'' \<and> \<not> is_null (jget v ''compensation_ref'') \<and>
        decision_is v ''hold'' ''non-resumable'' \<and> refs = [] \<and> conditions = [] \<and> failed = [] \<and> evidence \<noteq> []
      else if decision_is v ''hold'' ''non-resumable'' then conditions = [] \<and> failed = []
      else if decision_is v ''hold'' ''redecide-after-prefix-change'' then
        refs \<noteq> [] \<and> conditions \<noteq> [] \<and> failed \<noteq> [] \<and> evidence \<noteq> [] \<and> set failed \<subseteq> set conditions
      else
        (decision_is v ''allow'' ''lease-eligible'' \<or> decision_is v ''deny'' ''proposal-final'' \<or>
         decision_is v ''escalate'' ''human-exception-required'' \<or> decision_is v ''abort'' ''abort-run'') \<and>
        refs \<noteq> [] \<and> failed = [] \<and> evidence \<noteq> [])"

definition AgencyPolicyDecisionPayloadV02 :: "schema_env \<Rightarrow> schema" where
  "AgencyPolicyDecisionPayloadV02 env =
     refined
       (strictObject
          (PolicyDecisionCopiedBindingsShapeV02 env @
          PolicyDecisionBranchFieldsV02 @
          [(''policy_action_kind'', AgencyPolicyActionKindV1),
           (''action_approval_class'', z_literal (JStr ''agency''))]))
       agency_branch_ok"

definition finalHoldPolicyDecisionPayloadV02 :: "schema_env \<Rightarrow> schema \<Rightarrow> string \<Rightarrow> schema" where
  "finalHoldPolicyDecisionPayloadV02 env kinds cls =
     refined
       (strictObject (PolicyDecisionCopiedBindingsShapeV02 env @ PolicyDecisionBranchFieldsV02 @
          [(''policy_action_kind'', kinds), (''action_approval_class'', z_literal (JStr cls))]))
       (\<lambda>v. plain_decision v \<and> decision_is v ''hold'' ''non-resumable'')"

definition PolicyDecisionPayloadV02 :: "schema_env \<Rightarrow> schema" where
  "PolicyDecisionPayloadV02 env =
     z_union
       [AutomaticPolicyDecisionPayloadV02 env,
        AgencyPolicyDecisionPayloadV02 env,
        finalHoldPolicyDecisionPayloadV02 env HumanExceptionPolicyActionKindV1 ''human_exception'',
        finalHoldPolicyDecisionPayloadV02 env BlockedPolicyActionKindV1 ''blocked'']"

text \<open>The fields a decision copies from its proposal under their own names, and those it reads from within it.\<close>

definition copied_bindings_ok :: "json option \<Rightarrow> bool" where
  "copied_bindings_ok p \<longleftrightarrow>
     (let proposal = attr p ''action_proposal'' in
      list_all (\<lambda>k. attr p k = attr proposal k)
        [''action_proposal_id'', ''action_proposal_hash'', ''action_actor_ref'', ''action_actor_stable_identity_hash'',
         ''on_behalf_of_chain_hash'', ''repository_root_ref'', ''repository_base_ref_identity_hash'',
         ''repository_pre_state_hash'', ''authorized_change_set_hash'', ''normalized_dispatch_hash'',
         ''action_scope_hash'', ''action_class'', ''policy_action_kind'', ''action_approval_class'', ''run_id'',
         ''plan_hash'', ''task_ref'', ''phase'', ''compensation_ref''] \<and>
      list_all (\<lambda>k. attr p k = attr (attr proposal ''classification_binding'') k)
        [''classifier_input_hash'', ''classifier_registry_hash'', ''classifier_rule_hash''] \<and>
      attr p ''data_flow_hash'' = attr (attr proposal ''data_flow'') ''data_flow_hash'')"

definition PolicyDecisionRecordedEventV02 :: "schema_env \<Rightarrow> schema" where
  "PolicyDecisionRecordedEventV02 env =
     refined
       (event_schema env ''policy.decision-recorded''
          (PolicyDecisionPayloadV02 env))
       (\<lambda>v. validatePepAuthorityV02 v \<and> jget v ''run_id'' = pay v ''run_id'' \<and>
         phase_ref_ok (jget v ''payload'') \<and> copied_bindings_ok (jget v ''payload'') \<and> reasons_ok (jget v ''payload'') \<and>
         nonempty_interval env v)"

definition waiver_scope_ok :: "schema_env \<Rightarrow> json option \<Rightarrow> bool" where
  "waiver_scope_ok env p \<longleftrightarrow>
     (let scope = attr p ''authority_scope''; same = (\<lambda>x y. canonicalize env (own x) = canonicalize env y);
          selectors = map (\<lambda>g. JObj [(''kind'', JStr ''plan-object''), (''object_kind'', JStr ''gate''), (''object_ref'', g)])
                        (items (attr p ''allowed_gate_refs'')) in
      scope_hash_ok env (attr p ''action_scope_hash'') scope \<and>
      is_text (attr scope ''action_class'') ''gate-waiver'' \<and>
      same (attr scope ''operations'') (JArr [JStr ''waive'']) \<and>
      same (attr scope ''resource_selectors'') (JArr selectors) \<and>
      attr scope ''max_risk_tier'' = attr p ''max_risk_tier'' \<and>
      same (attr (attr scope ''side_effect_constraints'') ''allowed_effect_classes'') (JArr [JStr ''none'']) \<and>
      items (attr (attr scope ''side_effect_constraints'') ''allowed_effect_refs'') = [] \<and>
      items (attr (attr scope ''data_constraints'') ''readable_classifications'') = [] \<and>
      items (attr (attr scope ''data_constraints'') ''exportable_classifications'') = [] \<and>
      items (attr (attr scope ''data_constraints'') ''sink_refs'') = [])"

definition AuthorityWaiverRecordedEventV02 :: "schema_env \<Rightarrow> schema" where
  "AuthorityWaiverRecordedEventV02 env =
     refined
       (event_schema env ''authority.waiver-recorded''
          (strictObject
             [(''authority_record_id'', z_string MachineIdV02), (''record_path'', z_string RelativeRunPathV02),
              (''record_hash'', z_string Hash), (''run_id'', z_string MachineIdV02), (''plan_hash'', z_string Hash),
              (''authority_envelope_ref'', strictObject
                [(''record_kind'', z_literal (JStr ''authority-envelope'')), (''record_id'', z_string MachineIdV02),
                 (''record_event_ref'', LedgerRefV02)]),
              (''authority_envelope_scope_hash'', z_string Hash),
              (''authority_envelope_revocation_epoch'', z_literal (JInt 0)), (''authority_scope'', AuthorityScopeV02 env),
              (''action_scope_hash'', z_string Hash), (''human_authorization_proof_ref'', LedgerRefV02),
              (''approval_evidence_refs'', ReviewEvidenceRefsV02),
              (''minimum_independent_approval_roots'', z_int (\<lambda>n. 1 \<le> n \<and> n \<le> 8)),
              (''issuer_principal_ref'', z_string MachineIdV02), (''issued_at'', z_time env),
              (''expires_at'', z_time env), (''revocation_epoch'', z_literal (JInt 0)),
              (''allowed_gate_refs'', NonEmptyCanonicalHumanIdsV02), (''max_risk_tier'', z_enum RiskTierV1)]))
       (\<lambda>v. source_is v ''operator'' \<and> jget v ''authority_ref'' = pay v ''issuer_principal_ref'' \<and>
         jget v ''run_id'' = pay v ''run_id'' \<and>
         list_all (\<lambda>r. is_text (jget r ''record_kind'') ''human-authorization'') (items (pay v ''approval_evidence_refs'')) \<and>
         waiver_scope_ok env (jget v ''payload'') \<and> nonempty_interval env v)"

subsection \<open>Terminal transitions and compensation\<close>

definition TerminalStateNameV02 :: schema where
  "TerminalStateNameV02 =
     z_enum [''completed'', ''held'', ''blocked'', ''failed'', ''stalled'', ''exhausted'', ''aborted'']"

definition RecoveryTerminalCandidateV02 :: schema where
  "RecoveryTerminalCandidateV02 =
     z_enum [''aborted'', ''failed'', ''exhausted'', ''stalled'']"

definition CompensationActivationReasonV02 :: schema where
  "CompensationActivationReasonV02 =
     z_enum [''terminal-failure'', ''terminal-exhaustion'', ''terminal-stall'', ''abort-recovery'']"

definition TERMINAL_PRIORITY_V02 :: "string \<Rightarrow> int" where
  "TERMINAL_PRIORITY_V02 s =
     (case map_of [(''completed'', 100), (''blocked'', 200), (''held'', 300), (''stalled'', 400), (''exhausted'', 500),
        (''failed'', 600), (''aborted'', 700)] s of None \<Rightarrow> 0 | Some n \<Rightarrow> n)"

definition RECOVERY_PRIORITY_V02 :: "string \<Rightarrow> int" where
  "RECOVERY_PRIORITY_V02 s =
     (case map_of [(''stalled'', 400), (''exhausted'', 500), (''failed'', 600), (''aborted'', 700)] s of
        None \<Rightarrow> 0 | Some n \<Rightarrow> n)"

definition expectedCompensationActivationReasonV02 :: "string \<Rightarrow> string option" where
  "expectedCompensationActivationReasonV02 s =
     map_of [(''stalled'', ''terminal-stall''), (''exhausted'', ''terminal-exhaustion''), (''failed'', ''terminal-failure''),
       (''aborted'', ''abort-recovery'')] s"

definition activation_ok :: "json option \<Rightarrow> bool" where
  "activation_ok p \<longleftrightarrow>
     expectedCompensationActivationReasonV02 (text_of (attr p ''pending_terminal'')) =
       Some (text_of (attr p ''activation_reason''))"

definition RunTerminalFreezeEnteredEventV02 :: "schema_env \<Rightarrow> schema" where
  "RunTerminalFreezeEnteredEventV02 env =
     refined
       (event_schema env ''run.terminal-freeze-entered''
          (strictObject
             [(''revision'', z_literal (JInt 1)), (''candidate'', TerminalStateNameV02),
              (''candidate_evidence_refs'', NonEmptyCanonicalLedgerRefsV02), (''fence_epoch'', safe_nonnegative)]))
       validateEvaluatorNullAuthorityV02"

definition RunTerminalFreezeRevisedEventV02 :: "schema_env \<Rightarrow> schema" where
  "RunTerminalFreezeRevisedEventV02 env =
     refined
       (event_schema env ''run.terminal-freeze-revised''
          (strictObject
             [(''revision'', z_int (\<lambda>n. 2 \<le> n)), (''previous_candidate'', TerminalStateNameV02),
              (''candidate'', TerminalStateNameV02), (''previous_freeze_event_hash'', z_string Hash),
              (''candidate_evidence_refs'', NonEmptyCanonicalLedgerRefsV02)]))
       (\<lambda>v. validateEvaluatorNullAuthorityV02 v \<and>
         TERMINAL_PRIORITY_V02 (text_of (pay v ''previous_candidate'')) < TERMINAL_PRIORITY_V02 (text_of (pay v ''candidate'')))"

definition RunCompensationRequestedEventV02 :: "schema_env \<Rightarrow> schema" where
  "RunCompensationRequestedEventV02 env =
     refined
       (event_schema env ''run.compensation-requested''
          (strictObject
             [(''revision'', z_literal (JInt 1)), (''pending_terminal'', RecoveryTerminalCandidateV02),
              (''activation_reason'', CompensationActivationReasonV02),
              (''compensation_refs'', NonEmptyCanonicalHumanIdsV02),
              (''effect_evidence_refs'', NonEmptyCanonicalLedgerRefsV02), (''freeze_event_hash'', z_string Hash)]))
       (\<lambda>v. validateEvaluatorNullAuthorityV02 v \<and> activation_ok (jget v ''payload''))"

definition RunCompensationRequestRevisedEventV02 :: "schema_env \<Rightarrow> schema" where
  "RunCompensationRequestRevisedEventV02 env =
     refined
       (event_schema env ''run.compensation-request-revised''
          (strictObject
             [(''revision'', z_int (\<lambda>n. 2 \<le> n)),
              (''previous_pending_terminal'', RecoveryTerminalCandidateV02),
              (''pending_terminal'', RecoveryTerminalCandidateV02),
              (''activation_reason'', CompensationActivationReasonV02),
              (''compensation_refs'', NonEmptyCanonicalHumanIdsV02), (''added_compensation_refs'', CanonicalHumanIdsV02),
              (''previous_request_event_hash'', z_string Hash), (''freeze_event_hash'', z_string Hash),
              (''effect_evidence_refs'', NonEmptyCanonicalLedgerRefsV02)]))
       (\<lambda>v. validateEvaluatorNullAuthorityV02 v \<and> activation_ok (jget v ''payload'') \<and>
         RECOVERY_PRIORITY_V02 (text_of (pay v ''previous_pending_terminal'')) \<le>
           RECOVERY_PRIORITY_V02 (text_of (pay v ''pending_terminal'')) \<and>
         (pay v ''pending_terminal'' = pay v ''previous_pending_terminal'' \<longrightarrow>
           items (pay v ''added_compensation_refs'') \<noteq> []) \<and>
         set (items (pay v ''added_compensation_refs'')) \<subseteq> set (items (pay v ''compensation_refs'')))"

definition RunCompensationPhaseEnteredEventV02 :: "schema_env \<Rightarrow> schema" where
  "RunCompensationPhaseEnteredEventV02 env =
     refined
       (event_schema env ''run.compensation-phase-entered''
          (strictObject
             [(''request_revision'', safe_positive), (''request_event_hash'', z_string Hash),
              (''pending_terminal'', RecoveryTerminalCandidateV02), (''compensation_refs'', NonEmptyCanonicalHumanIdsV02),
              (''freeze_event_hash'', z_string Hash)]))
       validateEvaluatorNullAuthorityV02"

definition RunCompensationCandidateEscalatedEventV02 :: "schema_env \<Rightarrow> schema" where
  "RunCompensationCandidateEscalatedEventV02 env =
     refined
       (event_schema env ''run.compensation-candidate-escalated''
          (strictObject
             [(''previous_pending_terminal'', RecoveryTerminalCandidateV02),
              (''pending_terminal'', RecoveryTerminalCandidateV02),
              (''activation_reason'', CompensationActivationReasonV02),
              (''compensation_refs'', NonEmptyCanonicalHumanIdsV02), (''previous_candidate_event_hash'', z_string Hash),
              (''candidate_evidence_refs'', NonEmptyCanonicalLedgerRefsV02)]))
       (\<lambda>v. validateEvaluatorNullAuthorityV02 v \<and>
         RECOVERY_PRIORITY_V02 (text_of (pay v ''previous_pending_terminal'')) <
           RECOVERY_PRIORITY_V02 (text_of (pay v ''pending_terminal'')) \<and>
         activation_ok (jget v ''payload''))"

definition CompensationUnableReasonV02 :: schema where
  "CompensationUnableReasonV02 =
     z_enum [''elapsed-budget-exhausted'', ''tool-call-budget-exhausted'', ''output-budget-exhausted'',
             ''token-budget-exhausted'', ''cost-budget-exhausted'', ''safety-hold'',
             ''unknown-action-outcome'']"

definition CompensationSettledEventV02 :: "schema_env \<Rightarrow> schema" where
  "CompensationSettledEventV02 env =
     refined
       (event_schema env ''compensation.settled''
          (strictObject
             [(''compensation_ref'', z_string HumanIdV02),
              (''status'', z_enum [''compensated'', ''compensation-failed'', ''unable'']),
              (''unable_reason'', z_nullable CompensationUnableReasonV02),
              (''evidence_refs'', NonEmptyCanonicalLedgerRefsV02)]))
       (\<lambda>v. validateEvaluatorNullAuthorityV02 v \<and>
         is_text (pay v ''status'') ''unable'' = (\<not> is_null (pay v ''unable_reason'')))"

definition RunTerminalSealedEventV02 :: "schema_env \<Rightarrow> schema" where
  "RunTerminalSealedEventV02 env =
     refined
       (event_schema env ''run.terminal-sealed''
          (strictObject
             [(''outcome'', TerminalStateNameV02), (''pre_seal_ledger_sequence'', safe_positive),
              (''pre_seal_ledger_head_hash'', z_string Hash), (''pre_seal_snapshot_hash'', z_string Hash),
              (''previous_fence_epoch'', safe_nonnegative), (''fence_epoch'', safe_positive)]))
       (\<lambda>v. validateEvaluatorNullAuthorityV02 v \<and>
         incremented (pay v ''previous_fence_epoch'') (pay v ''fence_epoch''))"

subsection \<open>Executions, artifacts and progress\<close>

definition TaskExecutionTerminalPayloadCommonV02 :: shape where
  "TaskExecutionTerminalPayloadCommonV02 =
     [(''action_id'', z_string MachineIdV02), (''task_ref'', z_string HumanIdV02),
      (''admission_ref'', LedgerRefV02), (''result_id'', z_string MachineIdV02),
      (''result_path'', z_string RelativeRunPathV02), (''result_hash'', z_string Hash),
      (''output_bytes'', safe_nonnegative), (''tool_calls'', safe_nonnegative),
      (''token_count'', safe_nonnegative), (''observed_cost'', ObservedCostV02),
      (''action_output_bytes_after'', safe_nonnegative), (''tool_calls_after'', safe_nonnegative),
      (''token_count_after'', safe_nonnegative)]"

definition TaskExecutionCompletedEventV02 :: "schema_env \<Rightarrow> schema" where
  "TaskExecutionCompletedEventV02 env =
     refined
       (event_schema env ''task.execution-completed''
          (strictObject TaskExecutionTerminalPayloadCommonV02))
       (\<lambda>v. source_is v ''adapter'' \<and> no_authority v)"

definition TaskExecutionFailedEventV02 :: "schema_env \<Rightarrow> schema" where
  "TaskExecutionFailedEventV02 env =
     refined
       (event_schema env ''task.execution-failed''
          (strictObject
             (TaskExecutionTerminalPayloadCommonV02 @
             [(''failure_class'', RetryClassV02), (''failure_ordinal'', safe_positive),
              (''failure_clock_ref'', LedgerRefV02), (''retry_safety_evidence_refs'', CanonicalLedgerRefsV02)])))
       (\<lambda>v. source_is v ''adapter'' \<and> no_authority v)"

definition TaskActionOutcomeUnknownEventV02 :: "schema_env \<Rightarrow> schema" where
  "TaskActionOutcomeUnknownEventV02 env =
     refined
       (event_schema env ''task.action-outcome-unknown''
          (strictObject
             [(''action_id'', z_string MachineIdV02), (''task_ref'', z_string HumanIdV02),
              (''admission_ref'', LedgerRefV02),
              (''detection_reason'', z_enum [''process-status-unavailable'', ''dispatch-ack-ambiguous'', ''adapter-stream-lost-after-start'']),
              (''observation_ref'', LedgerRefV02), (''evidence_refs'', CanonicalLedgerRefsV02)]))
       (\<lambda>v. source_is v ''adapter'' \<and> no_authority v)"

definition TaskActionOutcomeReconciledEventV02 :: "schema_env \<Rightarrow> schema" where
  "TaskActionOutcomeReconciledEventV02 env =
     refined
       (event_schema env ''task.action-outcome-reconciled''
          (strictObject
             [(''action_id'', z_string MachineIdV02), (''task_ref'', z_string HumanIdV02),
              (''admission_ref'', LedgerRefV02), (''process_cannot_continue_ref'', LedgerRefV02),
              (''reconciliation_status'', z_literal (JStr ''outcome-remains-unknown'')),
              (''reconciliation_evidence_refs'', CanonicalLedgerRefsV02)]))
       (\<lambda>v. source_is v ''integrity'' \<and> no_authority v)"

definition LoopAttemptCompletedEventV02 :: "schema_env \<Rightarrow> schema" where
  "LoopAttemptCompletedEventV02 env =
     refined
       (event_schema env ''loop.attempt-completed''
          (strictObject
             [(''attempt_ordinal'', safe_positive), (''previous_attempt_event_ref'', z_nullable LedgerRefV02),
              (''prefix_sequence'', safe_positive), (''prefix_head_hash'', z_string Hash),
              (''work_action_refs'', CanonicalLedgerRefsV02), (''progress_observation_refs'', CanonicalLedgerRefsV02)]))
       (\<lambda>v. source_is v ''kernel'' \<and> no_authority v)"

definition ArtifactRecordedEventV02 :: "schema_env \<Rightarrow> schema" where
  "ArtifactRecordedEventV02 env =
     refined
       (event_schema env ''artifact.recorded''
          (strictObject
             [(''artifact_ref'', z_string HumanIdV02), (''producer_task_ref'', z_string HumanIdV02),
              (''producer_action_id'', z_string MachineIdV02), (''write_admission_ref'', LedgerRefV02),
              (''artifact_record_path'', z_string RelativeRunPathV02), (''artifact_record_hash'', z_string Hash),
              (''artifact_path'', z_string RelativeRunPathV02), (''content_hash'', z_string Hash),
              (''size_bytes'', safe_nonnegative), (''media_type'', z_string NonBlankStringV02)]))
       (\<lambda>v. source_is v ''kernel'' \<and> no_authority v)"

definition RedactionDerivativeRecordedPayloadCommonV02 :: "schema_env \<Rightarrow> shape" where
  "RedactionDerivativeRecordedPayloadCommonV02 env =
     [(''original_record_path'', z_string RelativeRunPathV02), (''original_record_hash'', z_string Hash),
      (''original_content_path'', z_string RelativeRunPathV02), (''original_content_hash'', z_string Hash),
      (''original_content_size_bytes'', safe_nonnegative), (''original_media_type'', z_string NonBlankStringV02),
      (''derivative_ref'', z_string MachineIdV02), (''derivative_record_path'', z_string RelativeRunPathV02),
      (''derivative_record_hash'', z_string Hash), (''derivative_content_path'', z_string RelativeRunPathV02),
      (''derivative_content_hash'', z_string Hash), (''derivative_size_bytes'', safe_nonnegative),
      (''derivative_media_type'', z_string NonBlankStringV02), (''policy_version'', z_string NonBlankStringV02),
      (''review_evidence_refs'', ReviewEvidenceRefsV02), (''created_at'', z_time env)]"

definition RecordRedactionDerivativeRecordedEventV02 :: "schema_env \<Rightarrow> schema" where
  "RecordRedactionDerivativeRecordedEventV02 env =
     refined
       (event_schema env ''record.redaction-derivative-recorded''
          (z_discriminated ''subject_kind''
             [strictObject
                (ArtifactEvidenceSubjectV02_shape @
                RedactionDerivativeRecordedPayloadCommonV02 env),
              strictObject
                (EvidenceSubjectV02_shape @
                RedactionDerivativeRecordedPayloadCommonV02 env)]))
       (\<lambda>v. source_is v ''kernel'' \<and> no_authority v)"

definition TaskProgressFactRecordedEventV02 :: "schema_env \<Rightarrow> schema" where
  "TaskProgressFactRecordedEventV02 env =
     refined
       (event_schema env ''task.progress-fact-recorded''
          (strictObject
             [(''action_id'', z_string MachineIdV02), (''task_ref'', z_string HumanIdV02),
              (''adapter_invocation_id'', z_string MachineIdV02), (''result_event_ref'', LedgerRefV02),
              (''facts'', TaskProgressFactsV02 env)]))
       (\<lambda>v. source_is v ''adapter'' \<and> no_authority v \<and>
         int_at (attr (pay v ''result_event_ref'') ''ledger_sequence'') < int_at (jget v ''sequence''))"

text \<open>A sample's source is earlier in the ledger; a sample of an event has the event's own hash.\<close>

definition progress_sample_ok :: "json \<Rightarrow> bool" where
  "progress_sample_ok e \<longleftrightarrow>
     (let sample = pay e ''sample''; ref = attr sample ''sample_ref'' in
      is_text (attr sample ''status'') ''source-present'' \<longrightarrow>
        (if attr ref ''record_kind'' \<noteq> None then int_at (attr (attr ref ''record_event_ref'') ''ledger_sequence'')
         else int_at (attr ref ''ledger_sequence'')) < int_at (jget e ''sequence'') \<and>
        (attr ref ''ledger_sequence'' \<noteq> None \<longrightarrow> attr sample ''sample_hash'' = attr ref ''event_hash''))"

definition TaskProgressObservedEventV02 :: "schema_env \<Rightarrow> schema" where
  "TaskProgressObservedEventV02 env =
     refined
       (event_schema env ''task.progress-observed''
          (strictObject
             [(''observation_ref'', z_string HumanIdV02), (''task_ref'', z_nullable (z_string HumanIdV02)),
              (''pending_attempt_ordinal'', safe_positive), (''sample'', ProgressSampleV02)]))
       (\<lambda>v. source_is v ''evaluator'' \<and> no_authority v \<and> progress_sample_ok v)"

subsection \<open>All events\<close>

definition RuntimeEventTypesV02 :: "string list" where
  "RuntimeEventTypesV02 =
     [''run.initialized'', ''run.clock-observed'', ''run.fence-advanced'', ''control.abort-requested'',
      ''gate.result-required'', ''gate.result-recorded'', ''evaluation.result-required'',
      ''evaluation.result-recorded'', ''authority.human-authorization-recorded'',
      ''authority.envelope-recorded'', ''approval.recommendation-recorded'',
      ''policy.decision-recorded'', ''authority.waiver-recorded'', ''authority.grant-revoked'',
      ''evidence.recorded'', ''observation.manual-recorded'', ''claim.recorded'', ''finding.recorded'',
      ''waiver.recorded'', ''lease.issued'', ''task.action-admitted'', ''tool.call-admitted'',
      ''artifact.write-admitted'', ''limit.admission-blocked'', ''task.execution-started'',
      ''task.execution-completed'', ''task.progress-fact-recorded'', ''task.execution-failed'',
      ''task.action-outcome-unknown'', ''task.action-outcome-reconciled'', ''artifact.recorded'',
      ''record.redaction-derivative-recorded'', ''record.custody-state-recorded'',
      ''record.export-decision-recorded'', ''effect.outcome'', ''task.action-settled'',
      ''loop.attempt-completed'', ''task.progress-observed'', ''run.terminal-freeze-entered'',
      ''run.terminal-freeze-revised'', ''run.compensation-requested'',
      ''run.compensation-request-revised'', ''run.compensation-phase-entered'',
      ''run.compensation-candidate-escalated'', ''compensation.settled'', ''run.terminal-sealed'']"

definition RuntimeEventV02 :: "schema_env \<Rightarrow> schema" where
  "RuntimeEventV02 env =
     z_discriminated ''event_type''
       [RunInitializedEventV02 env,
        RunClockObservedEventV02 env,
        RunFenceAdvancedEventV02 env,
        ControlAbortRequestedEventV02 env,
        GateResultRequiredEventV02 env,
        GateResultRecordedEventV02 env,
        EvaluationResultRequiredEventV02 env,
        EvaluationResultRecordedEventV02 env,
        AuthorityHumanAuthorizationRecordedEventV02 env,
        AuthorityEnvelopeRecordedEventV02 env,
        ApprovalRecommendationRecordedEventV02 env,
        PolicyDecisionRecordedEventV02 env,
        AuthorityWaiverRecordedEventV02 env,
        AuthorityGrantRevokedEventV02 env,
        EvidenceRecordedEventV02 env,
        ObservationManualRecordedEventV02 env,
        ClaimRecordedEventV02 env,
        FindingRecordedEventV02 env,
        WaiverRecordedEventV02 env,
        LeaseIssuedEventV02 env,
        TaskActionAdmittedEventV02 env,
        ToolCallAdmittedEventV02 env,
        ArtifactWriteAdmittedEventV02 env,
        LimitAdmissionBlockedEventV02 env,
        TaskExecutionStartedEventV02 env,
        TaskExecutionCompletedEventV02 env,
        TaskProgressFactRecordedEventV02 env,
        TaskExecutionFailedEventV02 env,
        TaskActionOutcomeUnknownEventV02 env,
        TaskActionOutcomeReconciledEventV02 env,
        ArtifactRecordedEventV02 env,
        RecordRedactionDerivativeRecordedEventV02 env,
        RecordCustodyStateRecordedEventV02 env,
        RecordExportDecisionRecordedEventV02 env,
        EffectOutcomeEventV02 env,
        TaskActionSettledEventV02 env,
        LoopAttemptCompletedEventV02 env,
        TaskProgressObservedEventV02 env,
        RunTerminalFreezeEnteredEventV02 env,
        RunTerminalFreezeRevisedEventV02 env,
        RunCompensationRequestedEventV02 env,
        RunCompensationRequestRevisedEventV02 env,
        RunCompensationPhaseEnteredEventV02 env,
        RunCompensationCandidateEscalatedEventV02 env,
        CompensationSettledEventV02 env,
        RunTerminalSealedEventV02 env]"

end
