(* ===== verification/Ledger_V02.thy ===== *)
theory Ledger_V02
  imports Control_V02 Event_Schema_V02
begin

text \<open>
  The validation of a ledger of version 0.2 (\<open>src/run/runtime-ledger-v02.ts\<close>): the schema of each
  event, the chain with the rules on run, plan and identifiers, and the history rules, in the
  order of the code; and the reading of its text. The JSON parser and the check for repeated
  keys by the YAML library are parameters.
\<close>

datatype chain_fault =
  SequenceNotContiguous | PreviousHashMismatch | EventHashMismatch | RunMismatch | CopiedRunMismatch | CopiedPlanMismatch | EventIdReused

datatype ledger_failure =
    SyntaxInvalid "nat option"
  | SchemaInvalid nat
  | HashChainInvalid nat chain_fault
  | HistoryNotInitialized
  | HistoryInvalid nat "history_fault + control_fault"

subsection \<open>Schemas\<close>

definition validateRuntimeLedgerEventSchemasV02 :: "schema_env \<Rightarrow> json list \<Rightarrow> ledger_failure option" where
  "validateRuntimeLedgerEventSchemasV02 env es =
     map_option (SchemaInvalid \<circ> fst) (scan (\<lambda>_ e. require (RuntimeEventV02 env e) ()) es)"

subsection \<open>The chain\<close>

definition previous_hash_at :: "json list \<Rightarrow> nat \<Rightarrow> json option" where
  "previous_hash_at es i = (if i = 0 then Some JNull else jget (es ! (i - 1)) ''event_hash'')"

definition event_preimage :: "json \<Rightarrow> json" where
  "event_preimage e = JObj (without ''event_hash'' e)"

text \<open>A copy in the payload, when it is a text, equals the original.\<close>

definition copied_ok :: "json option \<Rightarrow> json option \<Rightarrow> bool" where
  "copied_ok copy original \<longleftrightarrow> (case copy of Some (JStr s) \<Rightarrow> original = Some (JStr s) | _ \<Rightarrow> True)"

definition link_fault :: "json list \<Rightarrow> nat \<Rightarrow> json \<Rightarrow> chain_fault option" where
  "link_fault es i e =
     first_some
       [require (jget e ''sequence'' = Some (JInt (int i + 1))) SequenceNotContiguous,
        require (jget e ''previous_event_hash'' = previous_hash_at es i) PreviousHashMismatch]"

definition visitor_fault :: "json list \<Rightarrow> nat \<Rightarrow> json \<Rightarrow> chain_fault option" where
  "visitor_fault es i e =
     first_some
       [require (jget e ''run_id'' = jget (es ! 0) ''run_id'') RunMismatch,
        require (copied_ok (pay e ''run_id'') (jget (es ! 0) ''run_id'')) CopiedRunMismatch,
        require (copied_ok (pay e ''plan_hash'') (pay (es ! 0) ''plan_hash'')) CopiedPlanMismatch,
        require (jget e ''event_id'' \<notin> (\<lambda>x. jget x ''event_id'') ` set (take i es)) EventIdReused]"

definition hash_fault :: "schema_env \<Rightarrow> nat \<Rightarrow> json \<Rightarrow> chain_fault option" where
  "hash_fault env i e = require (jget e ''event_hash'' = Some (JStr (hashCanonical env (event_preimage e)))) EventHashMismatch"

definition validateRuntimeLedgerHashChainV02 ::
  "schema_env \<Rightarrow> json list \<Rightarrow> (nat \<Rightarrow> json \<Rightarrow> chain_fault option) \<Rightarrow> (nat \<times> chain_fault) option" where
  "validateRuntimeLedgerHashChainV02 env es visit =
     first_some [scan (\<lambda>i e. first_some [link_fault es i e, visit i e]) es, scan (hash_fault env) es]"

subsection \<open>History and ledger\<close>

definition validateRuntimeLedgerHistoryV02 :: "json list \<Rightarrow> (nat \<times> (history_fault + control_fault)) option" where
  "validateRuntimeLedgerHistoryV02 es =
     first_some
       [map_option (map_prod id Inl) (validateEarlierReferences es),
        map_option (map_prod id Inl) (validateTypedRecordReferences es),
        map_option (map_prod id Inl) (validateEventLineage es),
        map_option (map_prod id Inl) (validateUniqueConsumption es),
        map_option (map_prod id Inr) (validateControlHistory es),
        map_option (map_prod id Inr) (validateTerminalSeal es)]"

definition ledger_sealed :: "json list \<Rightarrow> bool" where
  "ledger_sealed es \<longleftrightarrow> es \<noteq> [] \<and> is_seal (last es)"

definition validateRuntimeLedgerV02 :: "schema_env \<Rightarrow> json list \<Rightarrow> ledger_failure + json list \<times> bool" where
  "validateRuntimeLedgerV02 env es =
     (case validateRuntimeLedgerEventSchemasV02 env es of
        Some f \<Rightarrow> Inl f
      | None \<Rightarrow>
          if es = [] \<or> ev_type (es ! 0) \<noteq> ''run.initialized'' then Inl HistoryNotInitialized
          else case validateRuntimeLedgerHashChainV02 env es (visitor_fault es) of
            Some (i, f) \<Rightarrow> Inl (HashChainInvalid i f)
          | None \<Rightarrow>
              (case validateRuntimeLedgerHistoryV02 es of
                 Some (i, f) \<Rightarrow> Inl (HistoryInvalid i f)
               | None \<Rightarrow> Inr (es, ledger_sealed es)))"

subsection \<open>The text of a ledger\<close>

record line_reader =
  keys_unique :: "string \<Rightarrow> bool"
  parse_json :: "string \<Rightarrow> json option"

definition read_event_line :: "line_reader \<Rightarrow> string \<Rightarrow> json option" where
  "read_event_line rd line = (if keys_unique rd line then parse_json rd line else None)"

definition newline_char :: char where "newline_char = CHR 0x0A"

definition parseRuntimeLedgerJsonlV02 :: "line_reader \<Rightarrow> string \<Rightarrow> ledger_failure + json list" where
  "parseRuntimeLedgerJsonlV02 rd text =
     (if text = [] \<or> last text \<noteq> newline_char then Inl (SyntaxInvalid None)
      else let lns = split_on newline_char (butlast text) in
        if [] \<in> set lns then Inl (SyntaxInvalid None)
        else case scan (\<lambda>_ l. require (read_event_line rd l \<noteq> None) ()) lns of
          Some (i, _) \<Rightarrow> Inl (SyntaxInvalid (Some (i + 1)))
        | None \<Rightarrow> Inr (map (\<lambda>l. own (read_event_line rd l)) lns))"

definition parseAndValidateRuntimeLedgerV02 ::
  "line_reader \<Rightarrow> schema_env \<Rightarrow> string \<Rightarrow> ledger_failure + json list \<times> bool" where
  "parseAndValidateRuntimeLedgerV02 rd env text =
     (case parseRuntimeLedgerJsonlV02 rd text of
        Inl f \<Rightarrow> Inl f
      | Inr es \<Rightarrow> validateRuntimeLedgerV02 env es)"

definition no_visitor :: "nat \<Rightarrow> json \<Rightarrow> chain_fault option" where
  "no_visitor i e = None"

definition parseAndValidateRuntimeLedgerStructureV02 ::
  "line_reader \<Rightarrow> schema_env \<Rightarrow> string \<Rightarrow> ledger_failure + json list" where
  "parseAndValidateRuntimeLedgerStructureV02 rd env text =
     (case parseRuntimeLedgerJsonlV02 rd text of
        Inl f \<Rightarrow> Inl f
      | Inr es \<Rightarrow>
          (case validateRuntimeLedgerEventSchemasV02 env es of
             Some f \<Rightarrow> Inl f
           | None \<Rightarrow>
               (case validateRuntimeLedgerHashChainV02 env es no_visitor of
                  Some (i, f) \<Rightarrow> Inl (HashChainInvalid i f)
                | None \<Rightarrow> Inr es)))"

end
