(* ===== verification/Event_Laws_V02.thy ===== *)
theory Event_Laws_V02
  imports Ledger_V02
begin

text \<open>
  What the schema of the events of version 0.2 says to the rest: its 46 alternatives have 46
  different types, so an accepted event of a type satisfies the schema of that type; and what
  the schemas of single types say of the fields the history rules read.
\<close>

lemma event_schema_type: "event_schema env t p e \<Longrightarrow> ev_type e = t"
  unfolding event_schema_def
  using strict_field [of "RuntimeEventEnvelopeV02_shape env @ [(''event_type'', z_literal (JStr t)), (''payload'', p)]" e
      "''event_type''" "z_literal (JStr t)"]
  by (auto simp: z_literal_def ev_type_def)

lemma event_schema_payload:
  assumes "event_schema env t p e"
  shows "\<exists>x. jget e ''payload'' = Some x \<and> p x"
  using assms strict_field [of "RuntimeEventEnvelopeV02_shape env @ [(''event_type'', z_literal (JStr t)), (''payload'', p)]" e
      "''payload''" p]
  by (simp add: event_schema_def)

lemma refined_event_type: "refined (event_schema env t p) q e \<Longrightarrow> ev_type e = t"
  by (auto dest: refinedD event_schema_type)

lemmas event_schema_defs =
  RunInitializedEventV02_def RunClockObservedEventV02_def RunFenceAdvancedEventV02_def
  ControlAbortRequestedEventV02_def GateResultRequiredEventV02_def GateResultRecordedEventV02_def
  EvaluationResultRequiredEventV02_def EvaluationResultRecordedEventV02_def
  AuthorityHumanAuthorizationRecordedEventV02_def AuthorityEnvelopeRecordedEventV02_def
  ApprovalRecommendationRecordedEventV02_def PolicyDecisionRecordedEventV02_def
  AuthorityWaiverRecordedEventV02_def AuthorityGrantRevokedEventV02_def EvidenceRecordedEventV02_def
  ObservationManualRecordedEventV02_def ClaimRecordedEventV02_def FindingRecordedEventV02_def
  WaiverRecordedEventV02_def LeaseIssuedEventV02_def TaskActionAdmittedEventV02_def ToolCallAdmittedEventV02_def
  ArtifactWriteAdmittedEventV02_def LimitAdmissionBlockedEventV02_def TaskExecutionStartedEventV02_def
  TaskExecutionCompletedEventV02_def TaskProgressFactRecordedEventV02_def TaskExecutionFailedEventV02_def
  TaskActionOutcomeUnknownEventV02_def TaskActionOutcomeReconciledEventV02_def ArtifactRecordedEventV02_def
  RecordRedactionDerivativeRecordedEventV02_def RecordCustodyStateRecordedEventV02_def
  RecordExportDecisionRecordedEventV02_def EffectOutcomeEventV02_def TaskActionSettledEventV02_def
  LoopAttemptCompletedEventV02_def TaskProgressObservedEventV02_def RunTerminalFreezeEnteredEventV02_def
  RunTerminalFreezeRevisedEventV02_def RunCompensationRequestedEventV02_def
  RunCompensationRequestRevisedEventV02_def RunCompensationPhaseEnteredEventV02_def
  RunCompensationCandidateEscalatedEventV02_def CompensationSettledEventV02_def RunTerminalSealedEventV02_def

lemma event_type_of:
  "RunInitializedEventV02 env e \<Longrightarrow> ev_type e = ''run.initialized''"
  "RunClockObservedEventV02 env e \<Longrightarrow> ev_type e = ''run.clock-observed''"
  "RunFenceAdvancedEventV02 env e \<Longrightarrow> ev_type e = ''run.fence-advanced''"
  "ControlAbortRequestedEventV02 env e \<Longrightarrow> ev_type e = ''control.abort-requested''"
  "GateResultRequiredEventV02 env e \<Longrightarrow> ev_type e = ''gate.result-required''"
  "GateResultRecordedEventV02 env e \<Longrightarrow> ev_type e = ''gate.result-recorded''"
  "EvaluationResultRequiredEventV02 env e \<Longrightarrow> ev_type e = ''evaluation.result-required''"
  "EvaluationResultRecordedEventV02 env e \<Longrightarrow> ev_type e = ''evaluation.result-recorded''"
  "AuthorityHumanAuthorizationRecordedEventV02 env e \<Longrightarrow> ev_type e = ''authority.human-authorization-recorded''"
  "AuthorityEnvelopeRecordedEventV02 env e \<Longrightarrow> ev_type e = ''authority.envelope-recorded''"
  "ApprovalRecommendationRecordedEventV02 env e \<Longrightarrow> ev_type e = ''approval.recommendation-recorded''"
  "PolicyDecisionRecordedEventV02 env e \<Longrightarrow> ev_type e = ''policy.decision-recorded''"
  "AuthorityWaiverRecordedEventV02 env e \<Longrightarrow> ev_type e = ''authority.waiver-recorded''"
  "AuthorityGrantRevokedEventV02 env e \<Longrightarrow> ev_type e = ''authority.grant-revoked''"
  "EvidenceRecordedEventV02 env e \<Longrightarrow> ev_type e = ''evidence.recorded''"
  "ObservationManualRecordedEventV02 env e \<Longrightarrow> ev_type e = ''observation.manual-recorded''"
  "ClaimRecordedEventV02 env e \<Longrightarrow> ev_type e = ''claim.recorded''"
  "FindingRecordedEventV02 env e \<Longrightarrow> ev_type e = ''finding.recorded''"
  "WaiverRecordedEventV02 env e \<Longrightarrow> ev_type e = ''waiver.recorded''"
  "LeaseIssuedEventV02 env e \<Longrightarrow> ev_type e = ''lease.issued''"
  "TaskActionAdmittedEventV02 env e \<Longrightarrow> ev_type e = ''task.action-admitted''"
  "ToolCallAdmittedEventV02 env e \<Longrightarrow> ev_type e = ''tool.call-admitted''"
  "ArtifactWriteAdmittedEventV02 env e \<Longrightarrow> ev_type e = ''artifact.write-admitted''"
  "LimitAdmissionBlockedEventV02 env e \<Longrightarrow> ev_type e = ''limit.admission-blocked''"
  "TaskExecutionStartedEventV02 env e \<Longrightarrow> ev_type e = ''task.execution-started''"
  "TaskExecutionCompletedEventV02 env e \<Longrightarrow> ev_type e = ''task.execution-completed''"
  "TaskProgressFactRecordedEventV02 env e \<Longrightarrow> ev_type e = ''task.progress-fact-recorded''"
  "TaskExecutionFailedEventV02 env e \<Longrightarrow> ev_type e = ''task.execution-failed''"
  "TaskActionOutcomeUnknownEventV02 env e \<Longrightarrow> ev_type e = ''task.action-outcome-unknown''"
  "TaskActionOutcomeReconciledEventV02 env e \<Longrightarrow> ev_type e = ''task.action-outcome-reconciled''"
  "ArtifactRecordedEventV02 env e \<Longrightarrow> ev_type e = ''artifact.recorded''"
  "RecordRedactionDerivativeRecordedEventV02 env e \<Longrightarrow> ev_type e = ''record.redaction-derivative-recorded''"
  "RecordCustodyStateRecordedEventV02 env e \<Longrightarrow> ev_type e = ''record.custody-state-recorded''"
  "RecordExportDecisionRecordedEventV02 env e \<Longrightarrow> ev_type e = ''record.export-decision-recorded''"
  "EffectOutcomeEventV02 env e \<Longrightarrow> ev_type e = ''effect.outcome''"
  "TaskActionSettledEventV02 env e \<Longrightarrow> ev_type e = ''task.action-settled''"
  "LoopAttemptCompletedEventV02 env e \<Longrightarrow> ev_type e = ''loop.attempt-completed''"
  "TaskProgressObservedEventV02 env e \<Longrightarrow> ev_type e = ''task.progress-observed''"
  "RunTerminalFreezeEnteredEventV02 env e \<Longrightarrow> ev_type e = ''run.terminal-freeze-entered''"
  "RunTerminalFreezeRevisedEventV02 env e \<Longrightarrow> ev_type e = ''run.terminal-freeze-revised''"
  "RunCompensationRequestedEventV02 env e \<Longrightarrow> ev_type e = ''run.compensation-requested''"
  "RunCompensationRequestRevisedEventV02 env e \<Longrightarrow> ev_type e = ''run.compensation-request-revised''"
  "RunCompensationPhaseEnteredEventV02 env e \<Longrightarrow> ev_type e = ''run.compensation-phase-entered''"
  "RunCompensationCandidateEscalatedEventV02 env e \<Longrightarrow> ev_type e = ''run.compensation-candidate-escalated''"
  "CompensationSettledEventV02 env e \<Longrightarrow> ev_type e = ''compensation.settled''"
  "RunTerminalSealedEventV02 env e \<Longrightarrow> ev_type e = ''run.terminal-sealed''"
  unfolding event_schema_defs by (erule refined_event_type event_schema_type)+

text \<open>Of the alternatives of the union only the one of the event's own type can accept it.\<close>

lemma event_alternative:
  "RuntimeEventV02 env e \<Longrightarrow> ev_type e = ''run.fence-advanced'' \<Longrightarrow> RunFenceAdvancedEventV02 env e"
  "RuntimeEventV02 env e \<Longrightarrow> ev_type e = ''lease.issued'' \<Longrightarrow> LeaseIssuedEventV02 env e"
  "RuntimeEventV02 env e \<Longrightarrow> ev_type e = ''task.action-admitted'' \<Longrightarrow> TaskActionAdmittedEventV02 env e"
  unfolding RuntimeEventV02_def z_discriminated_def z_union_def list_ex_Cons_iff list_ex_Nil_iff
  by (elim disjE FalseE; frule event_type_of; simp)+

subsection \<open>References that the schemas require\<close>

lemma as_ledger_ref_schema:
  assumes "LedgerRefV02 v"
  obtains gs where "v = JObj gs" "as_ledger_ref gs = Some (key_ref (Some v))"
proof -
  obtain gs where v: "v = JObj gs" using assms by (cases v) (simp_all add: LedgerRefV02_def strictObject_def)
  obtain n where n: "jget v ''ledger_sequence'' = Some n" "safe_positive n"
    using strict_field [OF assms [unfolded LedgerRefV02_def], of "''ledger_sequence''" safe_positive] by auto
  obtain h where h: "jget v ''event_hash'' = Some h" "z_string Hash h"
    using strict_field [OF assms [unfolded LedgerRefV02_def], of "''event_hash''" "z_string Hash"] by auto
  from n(2) obtain m where m: "n = JInt m" "isSafeInteger m" by (cases n) (simp_all add: safe_positive_def)
  from h(2) obtain t where "h = JStr t" by (cases h) simp_all
  with n(1) h(1) m have "as_ledger_ref gs = Some (key_ref (Some v))" by (simp add: v key_ref_def)
  with v show ?thesis by (rule that)
qed

lemma collect_fields_member: "(k, v) \<in> set fs \<Longrightarrow> set (collectLedgerRefs v) \<subseteq> set (collect_fields fs)"
  by (induction fs) auto

text \<open>A field that must be a reference is among the references of the object.\<close>

lemma schema_ref_collected:
  assumes "strictObject shp p" and "(k, LedgerRefV02) \<in> set shp" and "''ledger_sequence'' \<notin> fst ` set shp"
  shows "key_ref (jget p k) \<in> set (collectLedgerRefs p)"
proof -
  obtain v where v: "jget p k = Some v" "LedgerRefV02 v" using strict_field [OF assms(1,2)] by blast
  obtain fs where p: "p = JObj fs" using v(1) by (cases p) simp_all
  obtain gs where "v = JObj gs" "as_ledger_ref gs = Some (key_ref (Some v))" by (rule as_ledger_ref_schema [OF v(2)])
  then have "key_ref (Some v) \<in> set (collectLedgerRefs v)" by simp
  moreover have "(k, v) \<in> set fs" using v(1) by (simp add: p map_of_SomeD)
  ultimately have "key_ref (Some v) \<in> set (collect_fields fs)" using collect_fields_member by blast
  moreover have "as_ledger_ref fs = None" using strict_no_field [OF assms(1) [unfolded p] assms(3)] by simp
  ultimately show ?thesis unfolding v(1) unfolding p by simp
qed

lemma admission_ref_collected:
  assumes "TaskActionAdmittedEventV02 env e"
  shows "key_ref (pay e ''lease_event_ref'') \<in> set (payload_refs e)"
proof -
  obtain p shp where p: "jget e ''payload'' = Some p" "strictObject (TaskActionAdmittedPayloadBaseV02 @ shp) p"
      "''ledger_sequence'' \<notin> fst ` set shp"
    using event_schema_payload [OF refinedD(1) [OF assms [unfolded TaskActionAdmittedEventV02_def]]]
    by (auto simp: z_discriminated_def z_union_def)
  have "key_ref (jget p ''lease_event_ref'') \<in> set (collectLedgerRefs p)"
    using p(3) by (intro schema_ref_collected [OF p(2)]) (auto simp: TaskActionAdmittedPayloadBaseV02_def AdmittedActionProposalBindingsShapeV02_def)
  with p(1) show ?thesis by (simp add: payload_refs_def own_def pay_def)
qed

lemma lease_ref_collected:
  assumes "LeaseIssuedEventV02 env e"
  shows "key_ref (pay e ''policy_decision_ref'') \<in> set (payload_refs e)"
proof -
  obtain p shp where p: "jget e ''payload'' = Some p" "strictObject (LeaseIssuedPayloadBaseV02 env @ shp) p"
      "''ledger_sequence'' \<notin> fst ` set shp"
    using event_schema_payload [OF refinedD(1) [OF assms [unfolded LeaseIssuedEventV02_def]]]
    by (auto simp: z_discriminated_def z_union_def)
  have "key_ref (jget p ''policy_decision_ref'') \<in> set (collectLedgerRefs p)"
    using p(3) by (intro schema_ref_collected [OF p(2)]) (auto simp: LeaseIssuedPayloadBaseV02_def AdmittedActionProposalBindingsShapeV02_def)
  with p(1) show ?thesis by (simp add: payload_refs_def own_def pay_def)
qed

text \<open>The fence goes up by one.\<close>

lemma fence_incremented:
  assumes "RunFenceAdvancedEventV02 env e"
  shows "int_at (pay e ''fence_epoch'') = int_at (pay e ''previous_fence_epoch'') + 1"
  using refinedD(2) [OF assms [unfolded RunFenceAdvancedEventV02_def]] by (simp add: incremented_def)

end
