(* ===== verification/Ledger_V02_Laws.thy ===== *)
theory Ledger_V02_Laws
  imports Event_Laws_V02
begin

text \<open>
  What an accepted ledger of version 0.2 guarantees: every admitted action traces to a
  lease-eligible allowing decision of its own, and nothing is admitted after the freeze. The loops with a state are
  instances of the locale \<open>recorded_reducer\<close>, each with the relation between events and state it
  keeps.
\<close>

lemma accepted_V02:
  assumes "validateRuntimeLedgerV02 env es = Inr r"
  shows "list_all (RuntimeEventV02 env) es" "contiguous es" "validateRuntimeLedgerHistoryV02 es = None"
    "r = (es, ledger_sealed es)"
proof -
  from assms have schemas: "validateRuntimeLedgerEventSchemasV02 env es = None"
    and chain: "validateRuntimeLedgerHashChainV02 env es (visitor_fault es) = None"
    and history: "validateRuntimeLedgerHistoryV02 es = None" and r: "r = (es, ledger_sealed es)"
    by (auto simp: validateRuntimeLedgerV02_def split: option.splits if_splits)
  from schemas show "list_all (RuntimeEventV02 env) es"
    by (simp add: validateRuntimeLedgerEventSchemasV02_def scan_None list_all_length)
  from chain show "contiguous es"
    by (auto simp: validateRuntimeLedgerHashChainV02_def scan_None link_fault_def contiguous_def seq_of_def)
  from history show "validateRuntimeLedgerHistoryV02 es = None" .
  from r show "r = (es, ledger_sealed es)" .
qed

lemma history_parts:
  assumes "validateRuntimeLedgerHistoryV02 es = None"
  shows "validateEarlierReferences es = None" "validateEventLineage es = None" "validateUniqueConsumption es = None"
    "validateControlHistory es = None" "validateTerminalSeal es = None"
  using assms by (simp_all add: validateRuntimeLedgerHistoryV02_def)

lemma resolve_same: "resolve es r = Some (j, x) \<Longrightarrow> resolve es q = Some (j, y) \<Longrightarrow> key_ref r = key_ref q"
  by (metis resolve_Some)

subsection \<open>Earlier references\<close>

lemma ref_is_earlier:
  assumes "validateEarlierReferences es = None" and "contiguous es" and "i < length es"
    and "key_ref r \<in> set (payload_refs (es ! i))" and "resolve es r = Some (j, x)"
  shows "j < i"
proof -
  from assms(1,3) have "list_all (\<lambda>(n, h). n < seq_of (es ! i) \<and> (n, h) \<in> set (map key_of (take i es))) (payload_refs (es ! i))"
    by (simp add: validateEarlierReferences_def scan_None)
  with assms(4) have "fst (key_ref r) < seq_of (es ! i)" unfolding list_all_iff case_prod_unfold by blast
  moreover from assms(5) have "j < length es" "es ! j = x" "key_of x = key_ref r" by (auto dest: resolve_Some)
  ultimately show "j < i" using assms(2,3) by (auto simp: contiguous_def key_of_def key_ref_def)
qed

subsection \<open>Things used once\<close>

definition of_type :: "string \<Rightarrow> json list \<Rightarrow> json list" where
  "of_type t es = filter (\<lambda>e. ev_type e = t) es"

lemma of_type_snoc [simp]: "of_type t (es @ [e]) = of_type t es @ (if ev_type e = t then [e] else [])"
  by (simp add: of_type_def)

lemma of_type_Nil [simp]: "of_type t [] = []"
  by (simp add: of_type_def)

definition decision_key :: "json \<Rightarrow> ledger_key" where
  "decision_key e = key_ref (pay e ''policy_decision_ref'')"

definition lease_key :: "json \<Rightarrow> ledger_key" where
  "lease_key e = key_ref (pay e ''lease_event_ref'')"

definition consumption_record :: "json list \<Rightarrow> consumption \<Rightarrow> bool" where
  "consumption_record es c \<longleftrightarrow>
     leasedDecisionRefs c = rev (map decision_key (of_type ''lease.issued'' es)) \<and>
     distinct (map decision_key (of_type ''lease.issued'' es)) \<and>
     consumedLeaseRefs c = rev (map lease_key (of_type ''task.action-admitted'' es)) \<and>
     distinct (map lease_key (of_type ''task.action-admitted'' es))"

lemma consumption_step_record:
  assumes "consumption_record es c" and "consumption_step all i c e = Inr d"
  shows "consumption_record (es @ [e]) d"
  using assms
  by (auto simp: consumption_record_def consumption_step_def consume_lease_issue_def consume_lease_def consume_waiver_id_def
      consume_waiver_def decision_key_def lease_key_def Let_def split: if_splits)

interpretation consumed: recorded_reducer "at_event (consumption_step all)" consumption_start consumption_record for all
proof unfold_locales
  show "consumption_record [] consumption_start" by (simp add: consumption_record_def consumption_start_def)
qed (unfold at_event_Inr, rule consumption_step_record)

lemma used_once:
  assumes "validateUniqueConsumption es = None"
  shows "distinct (map decision_key (of_type ''lease.issued'' es))" "distinct (map lease_key (of_type ''task.action-admitted'' es))"
proof -
  from assms obtain c where "fold_events (at_event (consumption_step es)) 0 consumption_start es = Inr c"
    unfolding validateUniqueConsumption_def refusal_None by blast
  from consumed.replay_record [OF this] show "distinct (map decision_key (of_type ''lease.issued'' es))"
      "distinct (map lease_key (of_type ''task.action-admitted'' es))"
    by (simp_all add: consumption_record_def)
qed

text \<open>The lease of an admission and the decision of a lease, as positions in the ledger.\<close>

definition admissions :: "json list \<Rightarrow> nat list" where
  "admissions es = filter (\<lambda>i. ev_type (es ! i) = ''task.action-admitted'') [0..<length es]"

definition lease_of :: "json list \<Rightarrow> nat \<Rightarrow> nat option" where
  "lease_of es i = map_option fst (resolve es (pay (es ! i) ''lease_event_ref''))"

definition decision_of :: "json list \<Rightarrow> nat \<Rightarrow> nat option" where
  "decision_of es l = map_option fst (resolve es (pay (es ! l) ''policy_decision_ref''))"

text \<open>An admission rests on an earlier matching lease, and the lease on an earlier decision that allows it.\<close>

definition decided :: "json list \<Rightarrow> nat \<Rightarrow> bool" where
  "decided es l \<longleftrightarrow>
     (case decision_of es l of
        None \<Rightarrow> False
      | Some d \<Rightarrow> d < l \<and> ev_type (es ! d) = ''policy.decision-recorded'' \<and> lease_decision_ok (es ! l) (es ! d))"

definition traced :: "json list \<Rightarrow> nat \<Rightarrow> bool" where
  "traced es i \<longleftrightarrow>
     (case lease_of es i of
        None \<Rightarrow> False
      | Some l \<Rightarrow> l < i \<and> ev_type (es ! l) = ''lease.issued'' \<and> admission_lease_ok (es ! i) (es ! l) \<and> decided es l)"

lemma lineage_at:
  assumes "validateEventLineage es = None" and "i < length es"
  shows "lineage_fault es i (es ! i) = None"
  using assms by (simp add: validateEventLineage_def scan_None)

lemma lease_decided:
  assumes "validateRuntimeLedgerHistoryV02 es = None" and "contiguous es" and "list_all (RuntimeEventV02 env) es"
    and "l < length es" and "ev_type (es ! l) = ''lease.issued''"
  shows "decided es l"
proof -
  note parts = history_parts [OF assms(1)]
  from lineage_at [OF parts(2) assms(4)] assms(5) obtain d x
    where d: "resolve es (pay (es ! l) ''policy_decision_ref'') = Some (d, x)"
      and x: "ev_type x = ''policy.decision-recorded''" "lease_decision_ok (es ! l) x"
    by (auto simp: lineage_fault_def lease_lineage_def resolved_def split: option.splits)
  from assms(3,4) have "RuntimeEventV02 env (es ! l)" by (simp add: list_all_length)
  from ref_is_earlier [OF parts(1) assms(2,4) lease_ref_collected [OF event_alternative(2) [OF this assms(5)]] d] have "d < l" .
  with d x resolve_Some [OF d] show ?thesis by (simp add: decided_def decision_of_def)
qed

lemma admission_traced:
  assumes "validateRuntimeLedgerHistoryV02 es = None" and "contiguous es" and "list_all (RuntimeEventV02 env) es"
    and "i < length es" and "ev_type (es ! i) = ''task.action-admitted''"
  shows "traced es i"
proof -
  note parts = history_parts [OF assms(1)]
  from lineage_at [OF parts(2) assms(4)] assms(5) obtain l x
    where l: "resolve es (pay (es ! i) ''lease_event_ref'') = Some (l, x)"
      and x: "ev_type x = ''lease.issued''" "admission_lease_ok (es ! i) x"
    by (auto simp: lineage_fault_def admission_lineage_def resolved_def split: option.splits)
  from assms(3,4) have "RuntimeEventV02 env (es ! i)" by (simp add: list_all_length)
  from ref_is_earlier [OF parts(1) assms(2,4) admission_ref_collected [OF event_alternative(3) [OF this assms(5)]] l] have "l < i" .
  moreover from resolve_Some [OF l] x(1) lease_decided [OF assms(1-3), of l] have "decided es l" by simp
  ultimately show ?thesis using l x resolve_Some [OF l] by (simp add: traced_def lease_of_def)
qed

lemma distinct_map_filter_nth:
  assumes "distinct (map f (filter P xs))" and "i < length xs" "P (xs ! i)" and "j < length xs" "P (xs ! j)"
    and "f (xs ! i) = f (xs ! j)"
  shows "i = j"
  using assms
proof (induction xs arbitrary: i j)
  case Nil
  then show ?case by simp
next
  case (Cons x xs)
  have new: "f x \<noteq> f (xs ! k)" if "P x" "k < length xs" "P (xs ! k)" for k
    using that Cons.prems(1) nth_mem [OF that(2)] by (auto simp: image_iff)
  from Cons.prems Cons.IH new new [symmetric] show ?case by (cases i; cases j) (auto split: if_splits)
qed

lemma distinct_of_type:
  assumes "distinct (map f (of_type t es))" and "i < length es" "ev_type (es ! i) = t" and "j < length es" "ev_type (es ! j) = t"
    and "f (es ! i) = f (es ! j)"
  shows "i = j"
  using distinct_map_filter_nth [of f "\<lambda>e. ev_type e = t" es i j] assms by (simp add: of_type_def)

text \<open>
  C11: every admitted action traces, by an earlier lease that matches it, to an earlier lease-eligible
  decision that allows its proposal, and no two admissions trace to the same decision.
\<close>

theorem admissions_trace_to_decisions:
  assumes "validateRuntimeLedgerV02 env es = Inr r"
  shows "list_all (traced es) (admissions es) \<and>
    distinct (map (\<lambda>i. Option.bind (lease_of es i) (decision_of es)) (admissions es))"
proof
  note ok = accepted_V02 [OF assms]
  show traced: "list_all (traced es) (admissions es)"
    using admission_traced [OF ok(3,2,1)] by (auto simp: admissions_def list_all_iff)
  have "i = k" if i: "i \<in> set (admissions es)" and k: "k \<in> set (admissions es)"
    and same: "Option.bind (lease_of es i) (decision_of es) = Option.bind (lease_of es k) (decision_of es)" for i k
  proof -
    from traced i k have "traced es i" "traced es k" by (simp_all add: list_all_iff)
    then obtain l m where l: "lease_of es i = Some l" "ev_type (es ! l) = ''lease.issued''" "decided es l"
      and m: "lease_of es k = Some m" "ev_type (es ! m) = ''lease.issued''" "decided es m"
      unfolding traced_def by (cases "lease_of es i"; cases "lease_of es k") simp_all
    from l(1) m(1) have bounds: "l < length es" "m < length es"
      and leases: "key_of (es ! l) = lease_key (es ! i)" "key_of (es ! m) = lease_key (es ! k)"
      by (auto simp: lease_of_def lease_key_def dest: resolve_Some)
    from l m same obtain d where "decision_of es l = Some d" "decision_of es m = Some d"
      by (auto simp: decided_def split: option.splits)
    then have "decision_key (es ! l) = decision_key (es ! m)"
      by (auto simp: decision_of_def decision_key_def intro: resolve_same)
    with used_once(1) [OF history_parts(3) [OF ok(3)]] bounds l(2) m(2) have "l = m"
      by (intro distinct_of_type)
    with leases have "lease_key (es ! i) = lease_key (es ! k)" by simp
    with i k show "i = k"
      by (intro distinct_of_type [OF used_once(2) [OF history_parts(3) [OF ok(3)]]]) (simp_all add: admissions_def)
  qed
  then show "distinct (map (\<lambda>i. Option.bind (lease_of es i) (decision_of es)) (admissions es))"
    by (auto simp: distinct_map inj_on_def admissions_def)
qed

subsection \<open>Steps of the control history\<close>

lemmas control_defs =
  control_event_def Let_def admit_action2_def request_abort2_def advance_fence2_def require_gate_def record_gate_def
  require_evaluation_def record_evaluation_def record_custody_def block_phase_def within_action_def settle_action2_def
  enter_freeze_def revise_freeze_def request_compensation2_def revise_request2_def enter_phase_def escalate_def
  settle_compensation2_def seal2_def

lemma record_identity_frame: "record_identity s e = Inr t \<Longrightarrow> \<exists>ids. t = s\<lparr>recordIdentities := ids\<rparr>"
  by (auto simp: record_identity_def split: option.splits json.splits if_splits prod.splits intro: exI [of _ "recordIdentities s"])

text \<open>The events of freeze and recovery, none of which comes before the first freeze.\<close>

definition recovery_types :: "string list" where
  "recovery_types =
     [''run.terminal-freeze-entered'', ''run.terminal-freeze-revised'', ''run.compensation-requested'',
      ''run.compensation-request-revised'', ''run.compensation-phase-entered'',
      ''run.compensation-candidate-escalated'', ''compensation.settled'']"

definition freeze_record :: "json list \<Rightarrow> control_state \<Rightarrow> bool" where
  "freeze_record es s \<longleftrightarrow>
     (latestFreeze s = None \<longrightarrow>
        latestRequest s = None \<and> phaseEntry s = None \<and> list_all (\<lambda>e. ev_type e \<notin> set recovery_types) es)"

lemma control_event_freeze:
  assumes "control_event all i s e = Inr t" and "latestFreeze t = None"
    and "latestFreeze s = None \<longrightarrow> latestRequest s = None \<and> phaseEntry s = None"
  shows "latestFreeze s = None \<and> latestRequest t = None \<and> phaseEntry t = None \<and> ev_type e \<notin> set recovery_types"
  using assms by (auto simp: control_defs recovery_types_def split: if_splits option.splits)

lemma control_step_freeze:
  assumes "freeze_record es s" and "control_step all i s e = Inr t"
  shows "freeze_record (es @ [e]) t"
proof -
  from assms(2) obtain u ids where "u = s\<lparr>recordIdentities := ids\<rparr>" and u: "control_event all i u e = Inr t"
    by (auto simp: control_step_def split: sum.splits dest: record_identity_frame)
  with assms(1) control_event_freeze [OF u] show ?thesis by (auto simp: freeze_record_def)
qed

interpretation frozen: recorded_reducer "at_event (control_step all)" control_start freeze_record for all
proof unfold_locales
  show "freeze_record [] control_start" by (simp add: freeze_record_def control_start_def)
qed (unfold at_event_Inr, rule control_step_freeze)

lemma admission_before_freeze:
  assumes "control_step all i s e = Inr t" and "ev_type e = ''task.action-admitted''"
  shows "latestFreeze s = None"
proof -
  from assms(1) obtain u ids where "u = s\<lparr>recordIdentities := ids\<rparr>" and u: "control_event all i u e = Inr t"
    by (auto simp: control_step_def split: sum.splits dest: record_identity_frame)
  with assms(2) show ?thesis by (simp add: control_event_def admit_action2_def split: if_splits)
qed

lemma control_accepted:
  assumes "validateControlHistory es = None"
  obtains s where "fold_events (at_event (control_step es)) 0 control_start es = Inr s"
  using assms by (auto simp: validateControlHistory_def refusal_None)

text \<open>
  C13: no action is admitted once the run has frozen: every event of the freeze and of the recovery
  comes after the last admission, that of a compensation included.
\<close>

theorem no_admission_after_freeze:
  assumes "validateRuntimeLedgerV02 env es = Inr r"
  shows "list_all (\<lambda>i. list_all (\<lambda>e. ev_type e \<notin> set recovery_types) (take i es)) (admissions es)"
proof -
  obtain s where run: "fold_events (at_event (control_step es)) 0 control_start es = Inr s"
    using control_accepted [OF history_parts(4) [OF accepted_V02(3) [OF assms]]] .
  have "list_all (\<lambda>e. ev_type e \<notin> set recovery_types) (take i es)"
    if "i < length es" "ev_type (es ! i) = ''task.action-admitted''" for i
  proof -
    have "es = take i es @ es ! i # drop (Suc i) es" using that(1) by (simp add: id_take_nth_drop)
    then have "fold_events (at_event (control_step es)) 0 control_start (take i es @ es ! i # drop (Suc i) es) = Inr s"
      using run by simp
    then obtain u v where "freeze_record (take i es) u" "control_step es (length (take i es)) u (es ! i) = Inr v"
      by (rule frozen.replay_at) (simp only: at_event_Inr)
    with admission_before_freeze [of es _ u "es ! i" v] that(2) show ?thesis by (simp add: freeze_record_def)
  qed
  then show ?thesis by (auto simp: list_all_iff admissions_def)
qed

end
