(* ===== verification/Sealed_V02_Laws.thy ===== *)
theory Sealed_V02_Laws
  imports Ledger_V02_Laws
begin

text \<open>
  What a sealed ledger of version 0.2 guarantees: the actions, the fence and the candidate that
  the control history keeps, as relations between events and state, and their values at the seal.
\<close>

subsection \<open>What a sealed run has settled\<close>

text \<open>A step as the update of the identities of records and then the step of its type.\<close>

lemma control_step_cases:
  assumes "control_step all i s e = Inr t"
  obtains ids where "control_event all i (s\<lparr>recordIdentities := ids\<rparr>) e = Inr t"
  using assms by (auto simp: control_step_def split: sum.splits dest: record_identity_frame)

definition settled_ids :: "json list \<Rightarrow> string list" where
  "settled_ids es = map action_of (of_type ''task.action-settled'' es)"

definition admitted_ids :: "json list \<Rightarrow> string list" where
  "admitted_ids es = map action_of (of_type ''task.action-admitted'' es)"

definition action_record :: "json list \<Rightarrow> control_state \<Rightarrow> bool" where
  "action_record es s \<longleftrightarrow>
     map fst (admittedActions s) = admitted_ids es \<and> distinct (admitted_ids es) \<and> distinct (settled_ids es) \<and>
     set (settled_ids es) \<subseteq> set (admitted_ids es) \<and>
     (\<forall>(a, t, b) \<in> set (admittedActions s). b \<longleftrightarrow> a \<in> set (settled_ids es))"

definition mark_settled :: "string \<Rightarrow> admitted \<Rightarrow> admitted" where
  "mark_settled x xs = map (\<lambda>(a, (t, b)). (a, (t, if a = x then True else b))) xs"

lemma mark_settled_keys [simp]: "map fst (mark_settled x xs) = map fst xs"
  by (simp add: mark_settled_def case_prod_unfold comp_def)

lemma mark_settled_exact:
  assumes "\<forall>(a, t, b) \<in> set xs. b \<longleftrightarrow> a \<in> S"
  shows "\<forall>(a, t, b) \<in> set (mark_settled x xs). b \<longleftrightarrow> a \<in> insert x S"
  using assms unfolding mark_settled_def by (fastforce split: if_splits)

lemma control_event_actions:
  assumes "control_event all i s e = Inr t"
  shows "admittedActions t =
    (if ev_type e = ''task.action-admitted'' then admittedActions s @ [(action_of e, (task_of e, False))]
     else if ev_type e = ''task.action-settled'' then mark_settled (action_of e) (admittedActions s)
     else admittedActions s)"
    and "ev_type e = ''task.action-admitted'' \<Longrightarrow> action_of e \<notin> fst ` set (admittedActions s)"
    and "ev_type e = ''task.action-settled'' \<Longrightarrow> open_action s e"
  using assms by (auto simp: control_defs mark_settled_def split: if_splits option.splits)

lemma control_step_actions:
  assumes "action_record es s" and "control_step all i s e = Inr t"
  shows "action_record (es @ [e]) t"
proof -
  from assms(2) obtain ids where step: "control_event all i (s\<lparr>recordIdentities := ids\<rparr>) e = Inr t" by (rule control_step_cases)
  note actions = control_event_actions [OF step, simplified]
  from assms(1) have keys: "fst ` set (admittedActions s) = set (admitted_ids es)"
    unfolding action_record_def by (metis set_map)
  consider "ev_type e = ''task.action-admitted''" | "ev_type e = ''task.action-settled''"
    | "ev_type e \<noteq> ''task.action-admitted''" "ev_type e \<noteq> ''task.action-settled''" by blast
  then show ?thesis
  proof cases
    case 1
    with assms(1) actions(1,2) keys show ?thesis by (auto simp: action_record_def admitted_ids_def settled_ids_def)
  next
    case 2
    from actions(3) [OF 2] have opened: "(action_of e, task_of e, False) \<in> set (admittedActions s)"
      by (simp add: open_action_def map_of_SomeD)
    then have "action_of e \<in> set (admitted_ids es)" using keys by force
    moreover have "action_of e \<notin> set (settled_ids es)" using assms(1) opened unfolding action_record_def by blast
    moreover have "\<forall>(a, t, b) \<in> set (mark_settled (action_of e) (admittedActions s)). b \<longleftrightarrow> a \<in> insert (action_of e) (set (settled_ids es))"
      using assms(1) unfolding action_record_def by (intro mark_settled_exact) blast
    moreover have "settled_ids (es @ [e]) = settled_ids es @ [action_of e]" "admitted_ids (es @ [e]) = admitted_ids es"
      using 2 by (simp_all add: settled_ids_def admitted_ids_def)
    ultimately show ?thesis using assms(1) 2 by (simp add: action_record_def actions(1))
  next
    case 3
    with assms(1) actions(1) show ?thesis by (simp add: action_record_def admitted_ids_def settled_ids_def)
  qed
qed

interpretation acted: recorded_reducer "at_event (control_step all)" control_start action_record for all
proof unfold_locales
  show "action_record [] control_start"
    by (simp add: action_record_def control_start_def admitted_ids_def settled_ids_def)
qed (unfold at_event_Inr, rule control_step_actions)

text \<open>The fence counts its advances, as each goes up by one.\<close>

definition fence_typed :: "json \<Rightarrow> bool" where
  "fence_typed e \<longleftrightarrow>
     ev_type e \<noteq> ''run.fence-advanced'' \<or> int_at (pay e ''fence_epoch'') = int_at (pay e ''previous_fence_epoch'') + 1"

definition fence_record :: "json list \<Rightarrow> control_state \<Rightarrow> bool" where
  "fence_record es s \<longleftrightarrow>
     (list_all fence_typed es \<longrightarrow> currentFenceEpoch s = int (length (of_type ''run.fence-advanced'' es)))"

lemma control_event_fence:
  assumes "control_event all i s e = Inr t"
  shows "currentFenceEpoch t =
    (if ev_type e = ''run.fence-advanced'' then int_at (pay e ''fence_epoch'') else currentFenceEpoch s)"
    and "ev_type e = ''run.fence-advanced'' \<Longrightarrow> int_at (pay e ''previous_fence_epoch'') = currentFenceEpoch s"
  using assms by (auto simp: control_defs split: if_splits option.splits)

lemma control_step_fence:
  assumes "fence_record es s" and "control_step all i s e = Inr t"
  shows "fence_record (es @ [e]) t"
proof -
  from assms(2) obtain ids where step: "control_event all i (s\<lparr>recordIdentities := ids\<rparr>) e = Inr t" by (rule control_step_cases)
  from assms(1) control_event_fence [OF step, simplified] show ?thesis by (auto simp: fence_record_def fence_typed_def)
qed

interpretation fenced: recorded_reducer "at_event (control_step all)" control_start fence_record for all
proof unfold_locales
  show "fence_record [] control_start" by (simp add: fence_record_def control_start_def)
qed (unfold at_event_Inr, rule control_step_fence)

text \<open>The events that set the candidate, and the compensations of the entered phase.\<close>

definition freeze_types :: "string list" where
  "freeze_types = [''run.terminal-freeze-entered'', ''run.terminal-freeze-revised'']"

definition candidate_types :: "string list" where
  "candidate_types =
     [''run.compensation-requested'', ''run.compensation-request-revised'', ''run.compensation-phase-entered'',
      ''run.compensation-candidate-escalated'']"

definition last_of :: "string list \<Rightarrow> json list \<Rightarrow> json option" where
  "last_of types es = last_opt (filter (\<lambda>e. ev_type e \<in> set types) es)"

lemma last_of_snoc [simp]: "last_of types (es @ [e]) = (if ev_type e \<in> set types then Some e else last_of types es)"
  by (simp add: last_of_def)

lemma last_of_Nil [simp]: "last_of types [] = None"
  by (simp add: last_of_def)

definition phase_of :: "json list \<Rightarrow> json option" where
  "phase_of es = last_of [''run.compensation-phase-entered''] es"

definition settled_compensations :: "json list \<Rightarrow> json option list" where
  "settled_compensations es = map (\<lambda>e. pay e ''compensation_ref'') (of_type ''compensation.settled'' es)"

definition candidate_record :: "json list \<Rightarrow> control_state \<Rightarrow> bool" where
  "candidate_record es s \<longleftrightarrow>
     latestFreeze s = last_of freeze_types es \<and> latestRecovery s = last_of candidate_types es \<and> phaseEntry s = phase_of es \<and>
     settledCompensations s = rev (map text_of (settled_compensations es)) \<and>
     distinct (map text_of (settled_compensations es)) \<and>
     (case phaseEntry s of None \<Rightarrow> settled_compensations es = []
      | Some p \<Rightarrow> own ` set (settled_compensations es) \<subseteq> set (refs_of p ''compensation_refs''))"

lemma control_event_candidate:
  assumes "control_event all i s e = Inr t"
  shows "latestFreeze t = (if ev_type e \<in> set freeze_types then Some e else latestFreeze s)"
    and "latestRecovery t = (if ev_type e \<in> set candidate_types then Some e else latestRecovery s)"
    and "phaseEntry t = (if ev_type e = ''run.compensation-phase-entered'' then Some e else phaseEntry s)"
    and "settledCompensations t =
      (if ev_type e = ''compensation.settled'' then [text_of (pay e ''compensation_ref'')] else []) @ settledCompensations s"
    and "ev_type e = ''run.compensation-phase-entered'' \<Longrightarrow> phaseEntry s = None"
    and "ev_type e = ''compensation.settled'' \<Longrightarrow>
      (\<exists>p. phaseEntry s = Some p \<and> own (pay e ''compensation_ref'') \<in> set (refs_of p ''compensation_refs'')) \<and>
      text_of (pay e ''compensation_ref'') \<notin> set (settledCompensations s)"
  using assms by (auto simp: control_defs freeze_types_def candidate_types_def split: if_splits option.splits)

lemma control_step_candidate:
  assumes "candidate_record es s" and "control_step all i s e = Inr t"
  shows "candidate_record (es @ [e]) t"
proof -
  from assms(2) obtain ids where step: "control_event all i (s\<lparr>recordIdentities := ids\<rparr>) e = Inr t" by (rule control_step_cases)
  note event = control_event_candidate [OF step, simplified]
  have "settled_compensations (es @ [e]) =
      settled_compensations es @ (if ev_type e = ''compensation.settled'' then [pay e ''compensation_ref''] else [])"
    by (simp add: settled_compensations_def)
  moreover have "phase_of (es @ [e]) = (if ev_type e = ''run.compensation-phase-entered'' then Some e else phase_of es)"
    by (simp add: phase_of_def)
  ultimately show ?thesis using assms(1) event unfolding candidate_record_def by (auto split: option.splits if_splits)
qed

interpretation candidate: recorded_reducer "at_event (control_step all)" control_start candidate_record for all
proof unfold_locales
  show "candidate_record [] control_start"
    by (simp add: candidate_record_def control_start_def phase_of_def settled_compensations_def)
qed (unfold at_event_Inr, rule control_step_candidate)

definition final_candidate :: "json list \<Rightarrow> json option" where
  "final_candidate es =
     (case last_of candidate_types es of
        Some r \<Rightarrow> pay r ''pending_terminal''
      | None \<Rightarrow> (case last_of freeze_types es of None \<Rightarrow> None | Some f \<Rightarrow> pay f ''candidate''))"

text \<open>Every compensation of the entered phase is settled, once; without a phase none is.\<close>

definition compensated :: "json list \<Rightarrow> bool" where
  "compensated es \<longleftrightarrow>
     distinct (settled_compensations es) \<and>
     own ` set (settled_compensations es) =
       (case phase_of es of None \<Rightarrow> {} | Some p \<Rightarrow> set (refs_of p ''compensation_refs''))"

lemma text_of_own: "text_of (Some (own v)) = text_of v"
  by (cases v) (simp_all add: own_def)

lemma compensated_if_counted:
  assumes "candidate_record es s"
    and "case phaseEntry s of None \<Rightarrow> True | Some p \<Rightarrow> length (settledCompensations s) = length (refs_of p ''compensation_refs'')"
  shows "compensated es"
proof (cases "phaseEntry s")
  case None
  with assms(1) show ?thesis by (auto simp: candidate_record_def compensated_def)
next
  case (Some p)
  let ?xs = "settled_compensations es" and ?refs = "refs_of p ''compensation_refs''"
  from assms(1) Some have xs: "distinct (map text_of ?xs)" "own ` set ?xs \<subseteq> set ?refs" "phase_of es = Some p"
    by (auto simp: candidate_record_def)
  have "map text_of ?xs = map (\<lambda>v. text_of (Some v)) (map own ?xs)" by (simp add: text_of_own)
  with xs(1) have own: "distinct (map own ?xs)" by (metis distinct_map)
  from assms(2) have "length (settledCompensations s) = length ?refs" by (simp add: Some)
  with assms(1) have "length ?xs = length ?refs" by (simp add: candidate_record_def)
  then have "card (set ?refs) \<le> card (own ` set ?xs)"
    using distinct_card [OF own] card_length [of ?refs] by simp
  with xs(2) have "own ` set ?xs = set ?refs" by (intro card_seteq) simp_all
  then show ?thesis using xs(1,3) by (simp add: compensated_def distinct_map)
qed

lemma seal_step:
  assumes "control_step all i s e = Inr t" and "is_seal e"
  shows "\<not> in_flight s" and "\<exists>f. latestFreeze s = Some f"
    and "pay e ''previous_fence_epoch'' = Some (JInt (currentFenceEpoch s))"
    and "pay e ''outcome'' = (case latestRecovery s of Some r \<Rightarrow> pay r ''pending_terminal''
           | None \<Rightarrow> (case latestFreeze s of None \<Rightarrow> None | Some f \<Rightarrow> pay f ''candidate''))"
    and "case phaseEntry s of None \<Rightarrow> True | Some p \<Rightarrow> length (settledCompensations s) = length (refs_of p ''compensation_refs'')"
proof -
  from assms(1) obtain ids where "control_event all i (s\<lparr>recordIdentities := ids\<rparr>) e = Inr t" by (rule control_step_cases)
  then have seal: "seal2 (s\<lparr>recordIdentities := ids\<rparr>) e = Inr t" using assms(2) by (simp add: control_event_def is_seal_def)
  then show "\<not> in_flight s" "\<exists>f. latestFreeze s = Some f"
      "pay e ''previous_fence_epoch'' = Some (JInt (currentFenceEpoch s))"
      "pay e ''outcome'' = (case latestRecovery s of Some r \<Rightarrow> pay r ''pending_terminal''
         | None \<Rightarrow> (case latestFreeze s of None \<Rightarrow> None | Some f \<Rightarrow> pay f ''candidate''))"
      "case phaseEntry s of None \<Rightarrow> True | Some p \<Rightarrow> length (settledCompensations s) = length (refs_of p ''compensation_refs'')"
    by (auto simp: seal2_def in_flight_def split: if_splits option.splits)
qed

lemma quiet_all_settled:
  assumes "action_record es s" and "\<not> in_flight s"
  shows "set (settled_ids es) = set (admitted_ids es)"
proof -
  have "a \<in> set (settled_ids es)" if "a \<in> set (admitted_ids es)" for a
  proof -
    from assms(1) that have "a \<in> fst ` set (admittedActions s)" unfolding action_record_def by (metis set_map)
    then obtain t b where "(a, t, b) \<in> set (admittedActions s)" by auto
    with assms show ?thesis by (auto simp: action_record_def in_flight_def list_ex_iff)
  qed
  with assms(1) show ?thesis by (auto simp: action_record_def)
qed

lemma seal_is_last:
  assumes "validateTerminalSeal es = None" and "es = run @ [seal]"
  shows "list_all (\<lambda>e. \<not> is_seal e) run"
proof -
  have "\<not> is_seal (es ! j)" if "Suc j < length es" for j
  proof
    assume "is_seal (es ! j)"
    moreover from that have "j < length es" by simp
    ultimately obtain p where p: "find (\<lambda>(i, e). is_seal e) (indexed es) = Some p"
      by (cases "find (\<lambda>(i, e). is_seal e) (indexed es)") (auto simp: find_None_iff set_indexed)
    then obtain k where k: "k < length (indexed es)" "p = indexed es ! k"
      "\<forall>l<k. \<not> (\<lambda>(i, e). is_seal e) (indexed es ! l)"
      by (auto simp: find_Some_iff)
    have nth: "indexed es ! l = (l, es ! l)" if "l < length es" for l
      using that by (simp add: indexed_def)
    from k(3) \<open>is_seal (es ! j)\<close> that nth have "k \<le> j" by (metis (mono_tags, lifting) Suc_lessD case_prod_conv not_le)
    with that nth p k(2) assms(1) show False by (auto simp: validateTerminalSeal_def seal_index_def split: if_splits)
  qed
  with assms(2) show ?thesis by (auto simp: list_all_length nth_append)
qed

text \<open>
  C12: a sealed ledger has settled exactly the actions it admitted, each once, and exactly the
  compensations of the phase it entered; its last event is the only seal, names the fence that
  its advances reach and ends in the candidate that freeze and recovery left.
\<close>

theorem sealed_run_is_settled:
  assumes "validateRuntimeLedgerV02 env es = Inr (es, True)"
  shows "distinct (settled_ids (butlast es)) \<and> distinct (admitted_ids (butlast es)) \<and>
    set (settled_ids (butlast es)) = set (admitted_ids (butlast es)) \<and>
    compensated (butlast es) \<and>
    is_seal (last es) \<and> list_all (\<lambda>e. \<not> is_seal e) (butlast es) \<and>
    pay (last es) ''previous_fence_epoch'' = Some (JInt (int (length (of_type ''run.fence-advanced'' (butlast es))))) \<and>
    pay (last es) ''outcome'' = final_candidate (butlast es)"
proof -
  note ok = accepted_V02 [OF assms]
  note parts = history_parts [OF ok(3)]
  from ok(4) have sealed: "es \<noteq> []" "is_seal (last es)" by (simp_all add: ledger_sealed_def)
  obtain s where "fold_events (at_event (control_step es)) 0 control_start es = Inr s" using control_accepted [OF parts(4)] .
  then have "fold_events (at_event (control_step es)) 0 control_start (butlast es @ [last es]) = Inr s" using sealed(1) by simp
  then obtain u where run: "fold_events (at_event (control_step es)) 0 control_start (butlast es) = Inr u"
    and step: "control_step es (length (butlast es)) u (last es) = Inr s"
    unfolding fold_events_snoc at_event_Inr by auto
  note seal = seal_step [OF step sealed(2)]
  note actions = acted.replay_record [OF run] and fence = fenced.replay_record [OF run]
    and rec = candidate.replay_record [OF run]
  have "fence_typed e" if "e \<in> set (butlast es)" for e
  proof -
    from ok(1) in_set_butlastD [OF that] have "RuntimeEventV02 env e" by (simp add: list_all_iff)
    from fence_incremented [OF event_alternative(1) [OF this]] show ?thesis unfolding fence_typed_def by blast
  qed
  then have "list_all fence_typed (butlast es)" by (simp add: list_all_iff)
  with fence have epoch: "currentFenceEpoch u = int (length (of_type ''run.fence-advanced'' (butlast es)))"
    by (simp add: fence_record_def)
  from rec have events: "latestRecovery u = last_of candidate_types (butlast es)" "latestFreeze u = last_of freeze_types (butlast es)"
    by (simp_all add: candidate_record_def)
  from seal(4) have outcome: "pay (last es) ''outcome'' = final_candidate (butlast es)"
    unfolding final_candidate_def events .
  from actions have ids: "distinct (settled_ids (butlast es))" "distinct (admitted_ids (butlast es))"
    by (simp_all add: action_record_def)
  from seal_is_last [OF parts(5), of "butlast es" "last es"] sealed(1) have "list_all (\<lambda>e. \<not> is_seal e) (butlast es)" by simp
  with ids quiet_all_settled [OF actions seal(1)] compensated_if_counted [OF rec seal(5)] sealed(2) seal(3) epoch outcome
  show ?thesis by simp
qed

end
