(* ===== verification/Zod_Eval.thy ===== *)
theory Zod_Eval
  imports Zod
begin

text \<open>
  Evaluation of the schemas on literal objects: an object is compared with its schema field by
  field, and a field is looked up from the front. The congruence rules keep the simplifier out of
  the literals until a field is needed, so that a check costs one pass over the object.
\<close>

lemma refined_iff [zod]: "refined s p v \<longleftrightarrow> s v \<and> p v"
  by (simp add: refined_def)

lemma z_array_iff [zod]:
  "z_array s (JArr vs) \<longleftrightarrow> list_all s vs"
  "z_array_min n s (JArr vs) \<longleftrightarrow> n \<le> length vs \<and> list_all s vs"
  "boundedArrayV02 s lo hi (JArr vs) \<longleftrightarrow> lo \<le> length vs \<and> length vs \<le> hi \<and> list_all s vs"
  by (simp_all add: z_array_def z_array_min_def boundedArrayV02_def)

lemma z_choice_iff [zod]:
  "z_union ss v \<longleftrightarrow> list_ex (\<lambda>s. s v) ss"
  "z_discriminated k ss v \<longleftrightarrow> list_ex (\<lambda>s. s v) ss"
  "z_enum xs (JStr s) \<longleftrightarrow> s \<in> set xs"
  "z_literal x v \<longleftrightarrow> v = x"
  by (simp_all add: z_union_def z_discriminated_def z_enum_def z_literal_def)

lemma z_null_iff [zod]:
  "z_null v \<longleftrightarrow> v = JNull" "z_nullable s JNull" "z_nullable s (JStr x) = s (JStr x)" "z_nullable s (JObj fs) = s (JObj fs)"
  by (simp_all add: z_null_def z_nullable_def)

lemma z_number_iff [zod]:
  "safe_positive (JInt n) \<longleftrightarrow> 0 < n \<and> n \<le> MAX_SAFE_INTEGER"
  "safe_nonnegative (JInt n) \<longleftrightarrow> 0 \<le> n \<and> n \<le> MAX_SAFE_INTEGER"
  by (auto simp: safe_positive_def safe_nonnegative_def isSafeInteger_def MAX_SAFE_INTEGER_def)

lemma z_time_iff [zod]: "z_time env (JStr s) \<longleftrightarrow> IsoTimestampV02 (iso_second env) s"
  by (simp add: z_time_def)

lemma sorted_unique_short [zod]:
  "sorted_unique key (JArr [])" "sorted_unique key (JArr [x])"
  "sorted_unique_texts (JArr [])" "sorted_unique_texts (JArr [x])"
  by (simp_all add: sorted_unique_texts_def sorted_unique_def)

text \<open>An object whose fields stand in the order of its schema.\<close>

lemma strictObject_zip:
  assumes "map fst shp = map fst fs" and "distinct (map fst fs)" and "list_all2 (\<lambda>(_, s) (_, v). s v) shp fs"
  shows "strictObject shp (JObj fs)"
proof -
  have field: "map_of fs k = Some v \<and> s v" if "((k, s), (k', v)) \<in> set (zip shp fs)" for k s k' v
  proof -
    from that obtain i where i: "i < length shp" "i < length fs" "shp ! i = (k, s)" "fs ! i = (k', v)"
      by (auto simp: set_zip)
    from i assms(1) have "k = k'" by (metis fst_conv length_map nth_map)
    moreover from i have "(k', v) \<in> set fs" by (metis nth_mem)
    ultimately show ?thesis using assms(2,3) i by (auto simp: list_all2_conv_all_nth)
  qed
  have "length shp = length fs" using assms(1) by (metis length_map)
  have "case map_of fs k of None \<Rightarrow> False | Some x \<Rightarrow> s x" if "(k, s) \<in> set shp" for k s
  proof -
    from that obtain i where i: "i < length shp" "shp ! i = (k, s)" by (metis in_set_conv_nth)
    obtain k' v where "fs ! i = (k', v)" by (cases "fs ! i")
    with i \<open>length shp = length fs\<close> have "zip shp fs ! i = ((k, s), (k', v))" "i < length (zip shp fs)" by simp_all
    then have "((k, s), (k', v)) \<in> set (zip shp fs)" by (metis nth_mem)
    from field [OF this] show ?thesis by simp
  qed
  then have "fields_ok shp fs" by (auto simp: fields_ok_def list_all_iff)
  moreover have "only_keys (map fst shp) fs"
    unfolding assms(1) by (force simp: only_keys_def list_all_iff)
  ultimately show ?thesis by (simp add: strictObject_def optional_ok_def)
qed

text \<open>The same comparison step by step.\<close>

fun zipped :: "shape \<Rightarrow> (string \<times> json) list \<Rightarrow> bool" where
  "zipped [] [] = True"
| "zipped ((k, s) # shp) ((l, v) # fs) = (if k = l then if s v then zipped shp fs else False else False)"
| "zipped _ _ = False"

fun fresh_key :: "string \<Rightarrow> (string \<times> json) list \<Rightarrow> bool" where
  "fresh_key k [] = True"
| "fresh_key k ((l, v) # fs) = (if k = l then False else fresh_key k fs)"

fun keys_distinct :: "(string \<times> json) list \<Rightarrow> bool" where
  "keys_distinct [] = True"
| "keys_distinct ((k, v) # fs) = (if fresh_key k fs then keys_distinct fs else False)"

lemma zipped_iff: "zipped shp fs \<longleftrightarrow> map fst shp = map fst fs \<and> list_all2 (\<lambda>(_, s) (_, v). s v) shp fs"
  by (induction shp fs rule: zipped.induct) auto

lemma fresh_key_iff: "fresh_key k fs \<longleftrightarrow> k \<notin> fst ` set fs"
  by (induction k fs rule: fresh_key.induct) auto

lemma keys_distinct_iff: "keys_distinct fs \<longleftrightarrow> distinct (map fst fs)"
  by (induction fs rule: keys_distinct.induct) (auto simp: fresh_key_iff)

lemma strict_object: "v = JObj fs \<Longrightarrow> zipped shp fs \<Longrightarrow> keys_distinct fs \<Longrightarrow> strictObject shp v"
  using strictObject_zip [of shp fs] by (simp add: zipped_iff keys_distinct_iff)

lemmas strict_literal [zod] = strict_object [OF refl]

lemma string_eq [zod]: "(x # xs = y # ys) = (if x = y then xs = ys else False)"
  by simp

lemma jget_literal [zod]:
  "jget (JObj []) x = None" "jget (JObj ((k, v) # fs)) x = (if x = k then Some v else jget (JObj fs) x)"
  by simp_all

text \<open>Used as congruence rules: no simplification below these.\<close>

lemma eval_cong:
  "zipped shp fs = zipped shp fs" "fresh_key k fs = fresh_key k fs" "keys_distinct fs = keys_distinct fs"
  "strictObject shp v = strictObject shp v" "jget v k = jget v k"
  by (rule refl)+

lemmas eval_slow = list.inject jget.simps(1)

end
