(* ===== verification/Demo_Ledger_V02.thy ===== *)
theory Demo_Ledger_V02
  imports Sealed_V02_Laws Zod_Eval
begin

text \<open>
  A ledger of version 0.2 that the validation accepts: a run with one action, from the decision
  and the lease to its settlement, frozen and sealed as held. Every digest is the same text, as
  its environment digests everything to it.
\<close>

definition demo_hash :: string where
  "demo_hash = ''sha256:0000000000000000000000000000000000000000000000000000000000000000''"

definition demo_time :: string where
  "demo_time = ''2026-01-01T00:00:00Z''"

definition demo_later :: string where
  "demo_later = ''2027-01-01T00:00:00Z''"

definition demo_object :: json where
  "demo_object = JObj [(''algorithm'', JStr ''sha1''), (''value'', JStr ''0000000000000000000000000000000000000000'')]"

definition demo_env :: schema_env where
  "demo_env =
     \<lparr>canonicalize = (\<lambda>_. []), hashCanonical = (\<lambda>_. demo_hash),
      date_parse = (\<lambda>s. if s = demo_later then 1 else 0), iso_second = (\<lambda>_. True)\<rparr>"

subsection \<open>The events\<close>

definition demo_mission :: json where
  "demo_mission =
     JObj [(''objective'', JStr ''x''), (''success_criteria'', JArr [JObj [(''id'', JStr ''a''),
       (''description'', JStr ''x''), (''evaluation_refs'', JArr [JStr ''a'']), (''required'', JBool True)]]),
       (''forbidden_outcomes'', JArr [JStr ''x'']), (''terminal_states'', JArr [JObj [(''state'', JStr
       ''completed''), (''condition_mode'', JStr ''all''), (''conditions'', JArr [JObj [(''source'', JStr
       ''success-criterion''), (''ref'', JStr ''a''), (''outcome'', JStr ''satisfied'')]]), (''priority'',
       JInt 100)], JObj [(''state'', JStr ''completed''), (''condition_mode'', JStr ''all''), (''conditions'',
       JArr [JObj [(''source'', JStr ''success-criterion''), (''ref'', JStr ''a''), (''outcome'', JStr
       ''satisfied'')]]), (''priority'', JInt 100)], JObj [(''state'', JStr ''completed''),
       (''condition_mode'', JStr ''all''), (''conditions'', JArr [JObj [(''source'', JStr
       ''success-criterion''), (''ref'', JStr ''a''), (''outcome'', JStr ''satisfied'')]]), (''priority'',
       JInt 100)], JObj [(''state'', JStr ''completed''), (''condition_mode'', JStr ''all''), (''conditions'',
       JArr [JObj [(''source'', JStr ''success-criterion''), (''ref'', JStr ''a''), (''outcome'', JStr
       ''satisfied'')]]), (''priority'', JInt 100)], JObj [(''state'', JStr ''completed''),
       (''condition_mode'', JStr ''all''), (''conditions'', JArr [JObj [(''source'', JStr
       ''success-criterion''), (''ref'', JStr ''a''), (''outcome'', JStr ''satisfied'')]]), (''priority'',
       JInt 100)], JObj [(''state'', JStr ''completed''), (''condition_mode'', JStr ''all''), (''conditions'',
       JArr [JObj [(''source'', JStr ''success-criterion''), (''ref'', JStr ''a''), (''outcome'', JStr
       ''satisfied'')]]), (''priority'', JInt 100)], JObj [(''state'', JStr ''completed''),
       (''condition_mode'', JStr ''all''), (''conditions'', JArr [JObj [(''source'', JStr
       ''success-criterion''), (''ref'', JStr ''a''), (''outcome'', JStr ''satisfied'')]]), (''priority'',
       JInt 100)]])]"

definition demo_repository :: json where
  "demo_repository =
     JObj [(''spec_subject'', JObj [(''source_authoring_hash'', JStr demo_hash), (''loopeix_version_hash'',
       JStr demo_hash)]), (''compile_subject'', JObj [(''compile_pack_manifest_hash'', JStr demo_hash),
       (''compiler_bundle_id'', JStr ''a_b''), (''catalog_version_hash'', JStr demo_hash),
       (''binding_input_hash'', JStr demo_hash)]), (''repository_root_ref'', JStr ''a_b''),
       (''object_format'', JStr ''sha1''), (''base_ref'', JObj [(''kind'', JStr ''git-ref''),
       (''canonical_ref_name'', JStr ''x''), (''object_id'', demo_object), (''identity_hash'', JStr
       demo_hash)]), (''transition_mode'', JStr ''read-only''), (''initial_state'', JObj
       [(''repository_root_ref'', JStr ''a_b''), (''base_ref_identity_hash'', JStr demo_hash), (''head'',
       demo_object), (''merge_base'', demo_object), (''head_state_hash'', JStr demo_hash),
       (''tracked_diff_hash'', JStr demo_hash), (''staged_diff_hash'', JStr demo_hash),
       (''untracked_content_hash'', JStr demo_hash), (''submodule_state_hash'', JStr demo_hash),
       (''repository_state_hash'', JStr demo_hash)])]"

definition demo_policy :: json where
  "demo_policy =
     JObj [(''registry_version'', JStr ''0.1''), (''policy_digest'', JStr demo_hash),
       (''classifier_registry'', JObj [(''registry_version'', JStr ''0.1''), (''rules'', JArr [JObj
       [(''rule_version'', JStr ''0.1''), (''key'', JObj [(''action_class'', JStr ''task''),
       (''dispatch_kind'', JStr ''process''), (''adapter_ref'', JStr ''a''), (''adapter_version_hash'', JStr
       demo_hash), (''capability_ref'', JStr ''a''), (''capability_definition_hash'', JStr demo_hash),
       (''operation'', JStr ''read''), (''effective_risk_tier'', JStr ''T0''), (''effect_classes'', JArr []),
       (''all_effects_inspectable'', JBool True), (''all_effects_reversible'', JBool True),
       (''data_access_mode'', JStr ''none''), (''repository_transition_intent'', JStr ''none''),
       (''cost_mode'', JStr ''none'')]), (''policy_action_kind'', JStr ''planning''),
       (''action_approval_class'', JStr ''automatic''), (''rule_hash'', JStr demo_hash)]]),
       (''registry_hash'', JStr demo_hash)]), (''entries'', JArr [JObj [(''action_kind'', JStr ''planning''),
       (''approval_class'', JStr ''automatic''), (''classifier_rule_hash'', JStr demo_hash)]]),
       (''human_exception_action_kinds'', JArr [JStr ''authenticated-write'', JStr ''commit'', JStr
       ''deploy'', JStr ''destructive-action'', JStr ''irreversible-action'', JStr ''merge'', JStr
       ''new-secret-scope'', JStr ''package-change'', JStr ''protected-ref-mutation'', JStr ''publish'', JStr
       ''push'', JStr ''rebase'', JStr ''release'', JStr ''send'', JStr ''t4-action'']),
       (''blocked_action_kinds'', JArr [JStr ''approval-contract-edit'', JStr ''connector-admin'', JStr
       ''connector-delete'', JStr ''force-push'', JStr ''policy-weakening'', JStr ''self-widening'', JStr
       ''t5-action'', JStr ''uninspectable-side-effect'']), (''registry_hash'', JStr demo_hash)]"

definition demo_protection :: json where
  "demo_protection =
     JObj [(''delegation_mode'', JStr ''none''), (''action_approval_policy'', demo_policy),
       (''planning_approval_hash'', JStr demo_hash), (''invalidation_rules'', JArr [JStr
       ''spec-subject-changed'', JStr ''compile-subject-changed'', JStr ''plan-hash-changed'', JStr
       ''planning-approval-changed'', JStr ''policy-digest-changed'', JStr ''repository-root-changed'', JStr
       ''repository-base-ref-changed'', JStr ''repository-state-chain-broken'', JStr
       ''authorized-change-set-mismatched'', JStr ''tool-definition-changed'', JStr ''authority-revoked'',
       JStr ''authority-expired'']), (''human_exception_destination'', JObj [(''operator_role_ref'', JStr
       ''a''), (''operator_actor_ref'', JStr ''a_b''), (''operator_stable_identity_hash'', JStr demo_hash)])]"

definition demo_subject :: json where
  "demo_subject =
     JObj [(''mission'', demo_mission), (''repository'', demo_repository), (''protection'', demo_protection),
       (''policy_digest'', JStr demo_hash)]"

definition demo_capabilities :: json where
  "demo_capabilities =
     JArr [JObj [(''classifier_key'', JObj [(''action_class'', JStr ''task''), (''dispatch_kind'', JStr
       ''process''), (''adapter_ref'', JStr ''a''), (''adapter_version_hash'', JStr demo_hash),
       (''capability_ref'', JStr ''a''), (''capability_definition_hash'', JStr demo_hash), (''operation'',
       JStr ''read''), (''effective_risk_tier'', JStr ''T0''), (''effect_classes'', JArr []),
       (''all_effects_inspectable'', JBool True), (''all_effects_reversible'', JBool True),
       (''data_access_mode'', JStr ''none''), (''repository_transition_intent'', JStr ''none''),
       (''cost_mode'', JStr ''none'')]), (''classifier_rule_hash'', JStr demo_hash)]]"

definition demo_scope :: json where
  "demo_scope =
     JObj [(''authority_subject'', demo_subject), (''action_class'', JStr ''gate-waiver''),
       (''capability_constraints'', demo_capabilities), (''resource_selectors'', JArr []), (''operations'',
       JArr []), (''max_risk_tier'', JStr ''T0''), (''side_effect_constraints'', JObj
       [(''allowed_effect_classes'', JArr []), (''allowed_effect_refs'', JArr []), (''require_inspectable'',
       JBool True), (''require_reversible'', JBool True), (''require_idempotency_key'', JBool True),
       (''require_compensation'', JBool True)]), (''data_constraints'', JObj [(''readable_classifications'',
       JArr []), (''exportable_classifications'', JArr []), (''sink_refs'', JArr [])]),
       (''bounded_constraints'', JObj [(''max_actions'', JInt 0), (''max_attempts'', JInt 0),
       (''max_tool_calls'', JInt 0), (''max_output_bytes'', JInt 0), (''max_elapsed_ms'', JInt 0), (''cost'',
       JObj [(''capture'', JStr ''not-applicable''), (''max_cost_minor_units'', JInt 0), (''cost_currency'',
       JNull)]), (''max_workers'', JInt 0), (''max_decisions'', JInt 0), (''max_delegation_depth'', JInt 0)])]"

definition demo_changes :: json where
  "demo_changes =
     JObj [(''repository_root_ref'', JStr ''a_b''), (''base_ref_identity_hash'', JStr demo_hash),
       (''repository_pre_state_hash'', JStr demo_hash), (''transition_mode'', JStr ''read-only''),
       (''expected_pre_head'', demo_object), (''required_post_head'', demo_object), (''mode'', JStr
       ''no-change''), (''changes'', JArr [])]"

definition demo_dispatch :: json where
  "demo_dispatch =
     JObj [(''adapter_ref'', JStr ''a''), (''adapter_version_hash'', JStr demo_hash), (''capability_ref'',
       JStr ''a''), (''capability_definition_hash'', JStr demo_hash), (''operation'', JStr ''read''),
       (''target'', JObj [(''kind'', JStr ''plan-object''), (''object_kind'', JStr ''task''), (''object_ref'',
       JStr ''a'')]), (''destination'', JNull), (''input_subject_hashes'', JArr []), (''kind'', JStr
       ''process''), (''executable_ref'', JStr ''a_b''), (''executable_hash'', JStr demo_hash), (''program'',
       JStr ''x''), (''argv'', JArr []), (''cwd_identity_hash'', JStr demo_hash), (''environment_hash'', JStr
       demo_hash), (''stdin_hash'', JNull), (''timeout_ms'', JInt 1), (''output_limit_bytes'', JInt 0)]"

definition demo_proposal :: json where
  "demo_proposal =
     JObj [(''proposal_version'', JStr ''0.2''), (''action_proposal_id'', JStr ''a_b''), (''run_id'', JStr
       ''a_b''), (''plan_hash'', JStr demo_hash), (''task_ref'', JStr ''a''), (''phase'', JStr ''work''),
       (''compensation_ref'', JNull), (''proposer_actor_ref'', JStr ''a_b''),
       (''proposer_stable_identity_hash'', JStr demo_hash), (''action_actor_ref'', JStr ''a_b''),
       (''action_actor_stable_identity_hash'', JStr demo_hash), (''on_behalf_of_chain'', JArr [JObj
       [(''principal_ref'', JStr ''a_b''), (''stable_identity_hash'', JStr demo_hash)]]),
       (''on_behalf_of_chain_hash'', JStr demo_hash), (''repository_root_ref'', JStr ''a_b''),
       (''repository_base_ref_identity_hash'', JStr demo_hash), (''repository_pre_state_hash'', JStr
       demo_hash), (''authorized_change_set'', demo_changes), (''authorized_change_set_hash'', JStr
       demo_hash), (''normalized_dispatch'', demo_dispatch), (''normalized_dispatch_hash'', JStr demo_hash),
       (''action_scope'', demo_scope), (''action_scope_hash'', JStr demo_hash), (''action_class'', JStr
       ''task''), (''classification_binding'', JObj [(''classifier_input_hash'', JStr demo_hash),
       (''classifier_registry_hash'', JStr demo_hash), (''classifier_rule_hash'', JStr demo_hash)]),
       (''policy_action_kind'', JStr ''planning''), (''action_approval_class'', JStr ''automatic''),
       (''side_effect_refs'', JArr []), (''data_flow'', JObj [(''readable_classifications'', JArr []),
       (''exportable_classifications'', JArr []), (''sink_refs'', JArr []), (''data_access_mode'', JStr
       ''none''), (''data_flow_hash'', JStr demo_hash)]), (''effective_risk_tier'', JStr ''T0''),
       (''budget_delta'', JObj [(''tool_calls'', JInt 0), (''output_bytes'', JInt 0), (''tokens'', JInt 0),
       (''cost'', JObj [(''capture'', JStr ''not-applicable''), (''cost_minor_units'', JInt 0),
       (''cost_currency'', JNull)])]), (''postcondition_hashes'', JArr []), (''verifier_refs'', JArr []),
       (''action_proposal_hash'', JStr demo_hash)]"

definition demo_post_state :: json where
  "demo_post_state =
     JObj [(''repository_root_ref'', JStr ''a_b''), (''base_ref_identity_hash'', JStr demo_hash), (''head'',
       demo_object), (''merge_base'', demo_object), (''head_state_hash'', JStr demo_hash),
       (''tracked_diff_hash'', JStr demo_hash), (''staged_diff_hash'', JStr demo_hash),
       (''untracked_content_hash'', JStr demo_hash), (''submodule_state_hash'', JStr demo_hash),
       (''repository_state_hash'', JStr demo_hash)]"

definition demo_observed :: json where
  "demo_observed =
     JObj [(''repository_root_ref'', JStr ''a_b''), (''base_ref_identity_hash'', JStr demo_hash),
       (''repository_pre_state_hash'', JStr demo_hash), (''repository_post_state_hash'', JStr demo_hash),
       (''head_before'', demo_object), (''head_after'', demo_object), (''changes'', JArr []),
       (''observed_change_set_hash'', JStr demo_hash)]"

definition demo_1_body :: json where
  "demo_1_body =
     JObj [(''plan_hash'', JStr demo_hash), (''initial_fence_epoch'', JInt 0), (''runtime_schema_versions'',
       JObj [(''resolved_run_plan'', JStr ''0.2''), (''ledger_event'', JStr ''0.2''), (''run_manifest'', JStr
       ''0.2''), (''artifact_manifest'', JStr ''0.2''), (''redaction_derivative'', JStr ''0.2''),
       (''human_authorization_proof'', JStr ''0.2''), (''authority_envelope'', JStr ''0.2''),
       (''agency_recommendation'', JStr ''0.2''), (''authority_revocation'', JStr ''0.2''), (''task_result'',
       JStr ''0.2''), (''manual_observation'', JStr ''0.2''), (''export_decision'', JStr ''0.2''),
       (''evidence_item'', JStr ''0.2''), (''gate_result'', JStr ''0.2''), (''evaluation_result'', JStr
       ''0.2''), (''claim'', JStr ''0.2''), (''finding'', JStr ''0.2''), (''waiver'', JStr ''0.2''),
       (''gate_waiver_authority'', JStr ''0.2'')])]"

definition demo_2_body :: json where
  "demo_2_body =
     JObj [(''authority_envelope_id'', JStr ''a_b''), (''record_path'', JStr ''p''), (''record_hash'', JStr
       demo_hash), (''run_id'', JStr ''a_b''), (''plan_hash'', JStr demo_hash), (''policy_digest'', JStr
       demo_hash), (''subject_ref'', JStr ''a_b''), (''issuer_principal_ref'', JStr ''c_d''),
       (''authorization_subject_hash'', JStr demo_hash), (''human_authorization_proof_refs'', JArr [JObj
       [(''ledger_sequence'', JInt 1), (''event_hash'', JStr demo_hash)]]), (''action_class'', JStr
       ''gate-waiver''), (''action_scope_hash'', JStr demo_hash), (''max_risk_tier'', JStr ''T0''),
       (''issued_at'', JStr demo_time), (''expires_at'', JStr demo_later), (''revocation_epoch'', JInt 0),
       (''delegation_depth'', JInt 0)]"

definition demo_decision :: json where
  "demo_decision =
     JObj [(''policy_decision_id'', JStr ''a_b''), (''run_id'', JStr ''a_b''), (''plan_hash'', JStr
       demo_hash), (''task_ref'', JStr ''a''), (''phase'', JStr ''work''), (''compensation_ref'', JNull),
       (''authority_envelope_ref'', JObj [(''record_kind'', JStr ''authority-envelope''), (''record_id'', JStr
       ''a_b''), (''record_event_ref'', JObj [(''ledger_sequence'', JInt 2), (''event_hash'', JStr
       demo_hash)])]), (''action_proposal'', demo_proposal), (''action_proposal_id'', JStr ''a_b''),
       (''action_proposal_hash'', JStr demo_hash), (''action_actor_ref'', JStr ''a_b''),
       (''action_actor_stable_identity_hash'', JStr demo_hash), (''on_behalf_of_chain_hash'', JStr demo_hash),
       (''repository_root_ref'', JStr ''a_b''), (''repository_base_ref_identity_hash'', JStr demo_hash),
       (''repository_pre_state_hash'', JStr demo_hash), (''authorized_change_set_hash'', JStr demo_hash),
       (''normalized_dispatch_hash'', JStr demo_hash), (''action_scope_hash'', JStr demo_hash),
       (''action_class'', JStr ''task''), (''classifier_input_hash'', JStr demo_hash),
       (''classifier_registry_hash'', JStr demo_hash), (''classifier_rule_hash'', JStr demo_hash),
       (''data_flow_hash'', JStr demo_hash), (''reviewed_through_ref'', JObj [(''ledger_sequence'', JInt 2),
       (''event_hash'', JStr demo_hash)]), (''policy_digest'', JStr demo_hash), (''reason_codes'', JArr [JObj
       [(''policy_digest'', JStr demo_hash), (''declaration_ref'', JStr ''a'')]]), (''issued_at'', JStr
       demo_time), (''expires_at'', JStr demo_later), (''revocation_epoch'', JInt 0),
       (''quorum_requirement_hash'', JNull), (''recommendation_event_refs'', JArr []), (''condition_hashes'',
       JArr []), (''failed_condition_hashes'', JArr []), (''decision'', JStr ''allow''),
       (''decision_disposition'', JStr ''lease-eligible''), (''evidence_refs'', JArr []),
       (''policy_action_kind'', JStr ''planning''), (''action_approval_class'', JStr ''automatic'')]"

definition demo_4_body :: json where
  "demo_4_body =
     JObj [(''lease_id'', JStr ''a_b''), (''task_ref'', JStr ''a''), (''phase'', JStr ''work''),
       (''compensation_ref'', JNull), (''action_proposal_id'', JStr ''a_b''), (''action_proposal_hash'', JStr
       demo_hash), (''action_actor_ref'', JStr ''a_b''), (''action_actor_stable_identity_hash'', JStr
       demo_hash), (''on_behalf_of_chain_hash'', JStr demo_hash), (''repository_root_ref'', JStr ''a_b''),
       (''repository_base_ref_identity_hash'', JStr demo_hash), (''repository_pre_state_hash'', JStr
       demo_hash), (''authorized_change_set_hash'', JStr demo_hash), (''normalized_dispatch_hash'', JStr
       demo_hash), (''action_scope_hash'', JStr demo_hash), (''action_class'', JStr ''task''),
       (''classifier_input_hash'', JStr demo_hash), (''classifier_registry_hash'', JStr demo_hash),
       (''classifier_rule_hash'', JStr demo_hash), (''data_flow_hash'', JStr demo_hash),
       (''authority_envelope_ref'', JObj [(''ledger_sequence'', JInt 2), (''event_hash'', JStr demo_hash)]),
       (''policy_decision_ref'', JObj [(''ledger_sequence'', JInt 3), (''event_hash'', JStr demo_hash)]),
       (''fence_epoch'', JInt 0), (''issued_at'', JStr demo_time), (''expires_at'', JStr demo_later),
       (''waiver_gate_refs'', JArr []), (''policy_action_kind'', JStr ''planning''),
       (''action_approval_class'', JStr ''automatic'')]"

definition demo_5_body :: json where
  "demo_5_body =
     JObj [(''clock_id'', JStr ''a_b''), (''observed_at'', JStr demo_time), (''elapsed_ms'', JInt 0),
       (''reason'', JStr ''action-admission''), (''task_ref'', JStr ''a''), (''failure_ordinal'', JNull),
       (''use_ref'', JStr ''a_b'')]"

definition demo_6_body :: json where
  "demo_6_body =
     JObj [(''action_id'', JStr ''a_b''), (''task_ref'', JStr ''a''), (''lease_id'', JStr ''a_b''),
       (''lease_event_ref'', JObj [(''ledger_sequence'', JInt 4), (''event_hash'', JStr demo_hash)]),
       (''admission_clock_ref'', JObj [(''ledger_sequence'', JInt 5), (''event_hash'', JStr demo_hash)]),
       (''action_proposal_id'', JStr ''a_b''), (''action_proposal_hash'', JStr demo_hash),
       (''action_actor_ref'', JStr ''a_b''), (''action_actor_stable_identity_hash'', JStr demo_hash),
       (''on_behalf_of_chain_hash'', JStr demo_hash), (''repository_root_ref'', JStr ''a_b''),
       (''repository_base_ref_identity_hash'', JStr demo_hash), (''repository_pre_state_hash'', JStr
       demo_hash), (''authorized_change_set_hash'', JStr demo_hash), (''normalized_dispatch_hash'', JStr
       demo_hash), (''action_scope_hash'', JStr demo_hash), (''action_class'', JStr ''task''),
       (''classifier_input_hash'', JStr demo_hash), (''classifier_registry_hash'', JStr demo_hash),
       (''classifier_rule_hash'', JStr demo_hash), (''data_flow_hash'', JStr demo_hash),
       (''execution_ordinal'', JInt 1), (''retry_of_failure_ordinal'', JNull), (''fence_epoch'', JInt 0),
       (''side_effect_refs'', JArr [JStr ''a'']), (''waiver_gate_use_checks'', JArr []),
       (''task_executions_after'', JInt 1), (''action_output_bytes_after'', JInt 0), (''policy_action_kind'',
       JStr ''planning''), (''action_approval_class'', JStr ''automatic'')]"

definition demo_7_body :: json where
  "demo_7_body =
     JObj [(''task_ref'', JStr ''a''), (''effect_ref'', JStr ''a''), (''action_id'', JStr ''a_b''),
       (''outcome'', JStr ''committed''), (''evidence_refs'', JArr [])]"

definition demo_8_body :: json where
  "demo_8_body =
     JObj [(''action_id'', JStr ''a_b''), (''task_ref'', JStr ''a''), (''admission_ref'', JObj
       [(''ledger_sequence'', JInt 6), (''event_hash'', JStr demo_hash)]), (''detection_reason'', JStr
       ''process-status-unavailable''), (''observation_ref'', JObj [(''ledger_sequence'', JInt 6),
       (''event_hash'', JStr demo_hash)]), (''evidence_refs'', JArr [])]"

definition demo_9_body :: json where
  "demo_9_body =
     JObj [(''action_id'', JStr ''a_b''), (''task_ref'', JStr ''a''), (''terminal_event_ref'', JObj
       [(''ledger_sequence'', JInt 8), (''event_hash'', JStr demo_hash)]), (''action_proposal_id'', JStr
       ''a_b''), (''action_proposal_hash'', JStr demo_hash), (''action_actor_ref'', JStr ''a_b''),
       (''action_actor_stable_identity_hash'', JStr demo_hash), (''on_behalf_of_chain_hash'', JStr demo_hash),
       (''repository_root_ref'', JStr ''a_b''), (''repository_base_ref_identity_hash'', JStr demo_hash),
       (''repository_pre_state_hash'', JStr demo_hash), (''authorized_change_set_hash'', JStr demo_hash),
       (''normalized_dispatch_hash'', JStr demo_hash), (''repository_post_state'', demo_post_state),
       (''repository_post_state_hash'', JStr demo_hash), (''observed_change_set'', demo_observed),
       (''observed_change_set_hash'', JStr demo_hash), (''repository_transition_status'', JStr ''unchanged''),
       (''effect_outcomes'', JArr [JObj [(''effect_ref'', JStr ''a''), (''outcome'', JStr ''committed''),
       (''outcome_event_ref'', JObj [(''ledger_sequence'', JInt 7), (''event_hash'', JStr demo_hash)])]]),
       (''policy_action_kind'', JStr ''planning''), (''action_approval_class'', JStr ''automatic'')]"

definition demo_10_body :: json where
  "demo_10_body =
     JObj [(''revision'', JInt 1), (''candidate'', JStr ''held''), (''candidate_evidence_refs'', JArr [JObj
       [(''ledger_sequence'', JInt 9), (''event_hash'', JStr demo_hash)]]), (''fence_epoch'', JInt 0)]"

definition demo_11_body :: json where
  "demo_11_body =
     JObj [(''outcome'', JStr ''held''), (''pre_seal_ledger_sequence'', JInt 10),
       (''pre_seal_ledger_head_hash'', JStr demo_hash), (''pre_seal_snapshot_hash'', JStr demo_hash),
       (''previous_fence_epoch'', JInt 0), (''fence_epoch'', JInt 1)]"

definition demo_1 :: json where
  "demo_1 =
     JObj [(''schema_version'', JStr ''0.2''), (''event_id'', JStr ''e_1''), (''run_id'', JStr ''a_b''),
       (''sequence'', JInt 1), (''recorded_at'', JStr demo_time), (''source'', JStr ''kernel''),
       (''authority_ref'', JNull), (''risk_tier'', JStr ''T0''), (''related_ids'', JArr []),
       (''previous_event_hash'', JNull), (''event_hash'', JStr demo_hash), (''event_type'', JStr
       ''run.initialized''), (''payload'', demo_1_body)]"

definition demo_2 :: json where
  "demo_2 =
     JObj [(''schema_version'', JStr ''0.2''), (''event_id'', JStr ''e_2''), (''run_id'', JStr ''a_b''),
       (''sequence'', JInt 2), (''recorded_at'', JStr demo_time), (''source'', JStr
       ''policy-enforcement-point''), (''authority_ref'', JStr ''c_d''), (''risk_tier'', JStr ''T0''),
       (''related_ids'', JArr []), (''previous_event_hash'', JStr demo_hash), (''event_hash'', JStr
       demo_hash), (''event_type'', JStr ''authority.envelope-recorded''), (''payload'', demo_2_body)]"

definition demo_3 :: json where
  "demo_3 =
     JObj [(''schema_version'', JStr ''0.2''), (''event_id'', JStr ''e_3''), (''run_id'', JStr ''a_b''),
       (''sequence'', JInt 3), (''recorded_at'', JStr demo_time), (''source'', JStr
       ''policy-enforcement-point''), (''authority_ref'', JStr ''a_b''), (''risk_tier'', JStr ''T0''),
       (''related_ids'', JArr []), (''previous_event_hash'', JStr demo_hash), (''event_hash'', JStr
       demo_hash), (''event_type'', JStr ''policy.decision-recorded''), (''payload'', demo_decision)]"

definition demo_4 :: json where
  "demo_4 =
     JObj [(''schema_version'', JStr ''0.2''), (''event_id'', JStr ''e_4''), (''run_id'', JStr ''a_b''),
       (''sequence'', JInt 4), (''recorded_at'', JStr demo_time), (''source'', JStr
       ''policy-enforcement-point''), (''authority_ref'', JStr ''a_b''), (''risk_tier'', JStr ''T0''),
       (''related_ids'', JArr []), (''previous_event_hash'', JStr demo_hash), (''event_hash'', JStr
       demo_hash), (''event_type'', JStr ''lease.issued''), (''payload'', demo_4_body)]"

definition demo_5 :: json where
  "demo_5 =
     JObj [(''schema_version'', JStr ''0.2''), (''event_id'', JStr ''e_5''), (''run_id'', JStr ''a_b''),
       (''sequence'', JInt 5), (''recorded_at'', JStr demo_time), (''source'', JStr ''kernel''),
       (''authority_ref'', JNull), (''risk_tier'', JStr ''T0''), (''related_ids'', JArr []),
       (''previous_event_hash'', JStr demo_hash), (''event_hash'', JStr demo_hash), (''event_type'', JStr
       ''run.clock-observed''), (''payload'', demo_5_body)]"

definition demo_6 :: json where
  "demo_6 =
     JObj [(''schema_version'', JStr ''0.2''), (''event_id'', JStr ''e_6''), (''run_id'', JStr ''a_b''),
       (''sequence'', JInt 6), (''recorded_at'', JStr demo_time), (''source'', JStr
       ''policy-enforcement-point''), (''authority_ref'', JStr ''a_b''), (''risk_tier'', JStr ''T0''),
       (''related_ids'', JArr []), (''previous_event_hash'', JStr demo_hash), (''event_hash'', JStr
       demo_hash), (''event_type'', JStr ''task.action-admitted''), (''payload'', demo_6_body)]"

definition demo_7 :: json where
  "demo_7 =
     JObj [(''schema_version'', JStr ''0.2''), (''event_id'', JStr ''e_7''), (''run_id'', JStr ''a_b''),
       (''sequence'', JInt 7), (''recorded_at'', JStr demo_time), (''source'', JStr ''adapter''),
       (''authority_ref'', JNull), (''risk_tier'', JStr ''T0''), (''related_ids'', JArr []),
       (''previous_event_hash'', JStr demo_hash), (''event_hash'', JStr demo_hash), (''event_type'', JStr
       ''effect.outcome''), (''payload'', demo_7_body)]"

definition demo_8 :: json where
  "demo_8 =
     JObj [(''schema_version'', JStr ''0.2''), (''event_id'', JStr ''e_8''), (''run_id'', JStr ''a_b''),
       (''sequence'', JInt 8), (''recorded_at'', JStr demo_time), (''source'', JStr ''adapter''),
       (''authority_ref'', JNull), (''risk_tier'', JStr ''T0''), (''related_ids'', JArr []),
       (''previous_event_hash'', JStr demo_hash), (''event_hash'', JStr demo_hash), (''event_type'', JStr
       ''task.action-outcome-unknown''), (''payload'', demo_8_body)]"

definition demo_9 :: json where
  "demo_9 =
     JObj [(''schema_version'', JStr ''0.2''), (''event_id'', JStr ''e_9''), (''run_id'', JStr ''a_b''),
       (''sequence'', JInt 9), (''recorded_at'', JStr demo_time), (''source'', JStr ''kernel''),
       (''authority_ref'', JNull), (''risk_tier'', JStr ''T0''), (''related_ids'', JArr []),
       (''previous_event_hash'', JStr demo_hash), (''event_hash'', JStr demo_hash), (''event_type'', JStr
       ''task.action-settled''), (''payload'', demo_9_body)]"

definition demo_10 :: json where
  "demo_10 =
     JObj [(''schema_version'', JStr ''0.2''), (''event_id'', JStr ''e_10''), (''run_id'', JStr ''a_b''),
       (''sequence'', JInt 10), (''recorded_at'', JStr demo_time), (''source'', JStr ''evaluator''),
       (''authority_ref'', JNull), (''risk_tier'', JStr ''T0''), (''related_ids'', JArr []),
       (''previous_event_hash'', JStr demo_hash), (''event_hash'', JStr demo_hash), (''event_type'', JStr
       ''run.terminal-freeze-entered''), (''payload'', demo_10_body)]"

definition demo_11 :: json where
  "demo_11 =
     JObj [(''schema_version'', JStr ''0.2''), (''event_id'', JStr ''e_11''), (''run_id'', JStr ''a_b''),
       (''sequence'', JInt 11), (''recorded_at'', JStr demo_time), (''source'', JStr ''evaluator''),
       (''authority_ref'', JNull), (''risk_tier'', JStr ''T0''), (''related_ids'', JArr []),
       (''previous_event_hash'', JStr demo_hash), (''event_hash'', JStr demo_hash), (''event_type'', JStr
       ''run.terminal-sealed''), (''payload'', demo_11_body)]"

definition demo_ledger :: "json list" where
  "demo_ledger = [demo_1, demo_2, demo_3, demo_4, demo_5, demo_6, demo_7, demo_8, demo_9, demo_10, demo_11]"

subsection \<open>What the rules read of the events\<close>

named_theorems demo_read \<open>what the rules read of the example's events\<close>

lemma read_simps [demo_read]: "own (Some v) = v" "attr (Some v) k = jget v k"
  by (simp_all add: own_def)

lemma demo_changes_reads [demo_read]:
  "jget demo_changes ''repository_root_ref'' = Some (JStr ''a_b'')"
  "jget demo_changes ''base_ref_identity_hash'' = Some (JStr demo_hash)"
  "jget demo_changes ''repository_pre_state_hash'' = Some (JStr demo_hash)"
  "jget demo_changes ''transition_mode'' = Some (JStr ''read-only'')"
  "jget demo_changes ''expected_pre_head'' = Some (demo_object)"
  "jget demo_changes ''required_post_head'' = Some (demo_object)"
  "jget demo_changes ''mode'' = Some (JStr ''no-change'')"
  "jget demo_changes ''changes'' = Some (JArr [])"
  unfolding demo_changes_def by (simp_all add: zod cong: eval_cong del: eval_slow)

lemma demo_proposal_reads [demo_read]:
  "jget demo_proposal ''proposal_version'' = Some (JStr ''0.2'')"
  "jget demo_proposal ''action_proposal_id'' = Some (JStr ''a_b'')"
  "jget demo_proposal ''run_id'' = Some (JStr ''a_b'')"
  "jget demo_proposal ''plan_hash'' = Some (JStr demo_hash)"
  "jget demo_proposal ''task_ref'' = Some (JStr ''a'')"
  "jget demo_proposal ''phase'' = Some (JStr ''work'')"
  "jget demo_proposal ''compensation_ref'' = Some (JNull)"
  "jget demo_proposal ''proposer_actor_ref'' = Some (JStr ''a_b'')"
  "jget demo_proposal ''proposer_stable_identity_hash'' = Some (JStr demo_hash)"
  "jget demo_proposal ''action_actor_ref'' = Some (JStr ''a_b'')"
  "jget demo_proposal ''action_actor_stable_identity_hash'' = Some (JStr demo_hash)"
  "jget demo_proposal ''on_behalf_of_chain'' = Some (JArr [JObj [(''principal_ref'', JStr ''a_b''), (''stable_identity_hash'', JStr demo_hash)]])"
  "jget demo_proposal ''on_behalf_of_chain_hash'' = Some (JStr demo_hash)"
  "jget demo_proposal ''repository_root_ref'' = Some (JStr ''a_b'')"
  "jget demo_proposal ''repository_base_ref_identity_hash'' = Some (JStr demo_hash)"
  "jget demo_proposal ''repository_pre_state_hash'' = Some (JStr demo_hash)"
  "jget demo_proposal ''authorized_change_set'' = Some (demo_changes)"
  "jget demo_proposal ''authorized_change_set_hash'' = Some (JStr demo_hash)"
  "jget demo_proposal ''normalized_dispatch'' = Some (demo_dispatch)"
  "jget demo_proposal ''normalized_dispatch_hash'' = Some (JStr demo_hash)"
  "jget demo_proposal ''action_scope'' = Some (demo_scope)"
  "jget demo_proposal ''action_scope_hash'' = Some (JStr demo_hash)"
  "jget demo_proposal ''action_class'' = Some (JStr ''task'')"
  "jget demo_proposal ''classification_binding'' = Some (JObj [(''classifier_input_hash'', JStr demo_hash), (''classifier_registry_hash'', JStr demo_hash), (''classifier_rule_hash'', JStr demo_hash)])"
  "jget demo_proposal ''policy_action_kind'' = Some (JStr ''planning'')"
  "jget demo_proposal ''action_approval_class'' = Some (JStr ''automatic'')"
  "jget demo_proposal ''side_effect_refs'' = Some (JArr [])"
  "jget demo_proposal ''data_flow'' = Some (JObj [(''readable_classifications'', JArr []), (''exportable_classifications'', JArr []), (''sink_refs'', JArr []), (''data_access_mode'', JStr ''none''), (''data_flow_hash'', JStr demo_hash)])"
  "jget demo_proposal ''effective_risk_tier'' = Some (JStr ''T0'')"
  "jget demo_proposal ''budget_delta'' = Some (JObj [(''tool_calls'', JInt 0), (''output_bytes'', JInt 0), (''tokens'', JInt 0), (''cost'', JObj [(''capture'', JStr ''not-applicable''), (''cost_minor_units'', JInt 0), (''cost_currency'', JNull)])])"
  "jget demo_proposal ''postcondition_hashes'' = Some (JArr [])"
  "jget demo_proposal ''verifier_refs'' = Some (JArr [])"
  "jget demo_proposal ''action_proposal_hash'' = Some (JStr demo_hash)"
  unfolding demo_proposal_def by (simp_all add: zod cong: eval_cong del: eval_slow)

lemma demo_post_state_reads [demo_read]:
  "jget demo_post_state ''repository_root_ref'' = Some (JStr ''a_b'')"
  "jget demo_post_state ''base_ref_identity_hash'' = Some (JStr demo_hash)"
  "jget demo_post_state ''head'' = Some (demo_object)"
  "jget demo_post_state ''merge_base'' = Some (demo_object)"
  "jget demo_post_state ''head_state_hash'' = Some (JStr demo_hash)"
  "jget demo_post_state ''tracked_diff_hash'' = Some (JStr demo_hash)"
  "jget demo_post_state ''staged_diff_hash'' = Some (JStr demo_hash)"
  "jget demo_post_state ''untracked_content_hash'' = Some (JStr demo_hash)"
  "jget demo_post_state ''submodule_state_hash'' = Some (JStr demo_hash)"
  "jget demo_post_state ''repository_state_hash'' = Some (JStr demo_hash)"
  unfolding demo_post_state_def by (simp_all add: zod cong: eval_cong del: eval_slow)

lemma demo_observed_reads [demo_read]:
  "jget demo_observed ''repository_root_ref'' = Some (JStr ''a_b'')"
  "jget demo_observed ''base_ref_identity_hash'' = Some (JStr demo_hash)"
  "jget demo_observed ''repository_pre_state_hash'' = Some (JStr demo_hash)"
  "jget demo_observed ''repository_post_state_hash'' = Some (JStr demo_hash)"
  "jget demo_observed ''head_before'' = Some (demo_object)"
  "jget demo_observed ''head_after'' = Some (demo_object)"
  "jget demo_observed ''changes'' = Some (JArr [])"
  "jget demo_observed ''observed_change_set_hash'' = Some (JStr demo_hash)"
  unfolding demo_observed_def by (simp_all add: zod cong: eval_cong del: eval_slow)

lemma demo_1_body_reads [demo_read]:
  "jget demo_1_body ''plan_hash'' = Some (JStr demo_hash)"
  "jget demo_1_body ''initial_fence_epoch'' = Some (JInt 0)"
  "jget demo_1_body ''runtime_schema_versions'' = Some (JObj [(''resolved_run_plan'', JStr ''0.2''), (''ledger_event'', JStr ''0.2''), (''run_manifest'', JStr ''0.2''), (''artifact_manifest'', JStr ''0.2''), (''redaction_derivative'', JStr ''0.2''), (''human_authorization_proof'', JStr ''0.2''), (''authority_envelope'', JStr ''0.2''), (''agency_recommendation'', JStr ''0.2''), (''authority_revocation'', JStr ''0.2''), (''task_result'', JStr ''0.2''), (''manual_observation'', JStr ''0.2''), (''export_decision'', JStr ''0.2''), (''evidence_item'', JStr ''0.2''), (''gate_result'', JStr ''0.2''), (''evaluation_result'', JStr ''0.2''), (''claim'', JStr ''0.2''), (''finding'', JStr ''0.2''), (''waiver'', JStr ''0.2''), (''gate_waiver_authority'', JStr ''0.2'')])"
  "jget demo_1_body ''run_id'' = None"
  unfolding demo_1_body_def by (simp_all add: zod cong: eval_cong del: eval_slow)

lemma demo_2_body_reads [demo_read]:
  "jget demo_2_body ''authority_envelope_id'' = Some (JStr ''a_b'')"
  "jget demo_2_body ''record_path'' = Some (JStr ''p'')"
  "jget demo_2_body ''record_hash'' = Some (JStr demo_hash)"
  "jget demo_2_body ''run_id'' = Some (JStr ''a_b'')"
  "jget demo_2_body ''plan_hash'' = Some (JStr demo_hash)"
  "jget demo_2_body ''policy_digest'' = Some (JStr demo_hash)"
  "jget demo_2_body ''subject_ref'' = Some (JStr ''a_b'')"
  "jget demo_2_body ''issuer_principal_ref'' = Some (JStr ''c_d'')"
  "jget demo_2_body ''authorization_subject_hash'' = Some (JStr demo_hash)"
  "jget demo_2_body ''human_authorization_proof_refs'' = Some (JArr [JObj [(''ledger_sequence'', JInt 1), (''event_hash'', JStr demo_hash)]])"
  "jget demo_2_body ''action_class'' = Some (JStr ''gate-waiver'')"
  "jget demo_2_body ''action_scope_hash'' = Some (JStr demo_hash)"
  "jget demo_2_body ''max_risk_tier'' = Some (JStr ''T0'')"
  "jget demo_2_body ''issued_at'' = Some (JStr demo_time)"
  "jget demo_2_body ''expires_at'' = Some (JStr demo_later)"
  "jget demo_2_body ''revocation_epoch'' = Some (JInt 0)"
  "jget demo_2_body ''delegation_depth'' = Some (JInt 0)"
  unfolding demo_2_body_def by (simp_all add: zod cong: eval_cong del: eval_slow)

lemma demo_decision_reads [demo_read]:
  "jget demo_decision ''policy_decision_id'' = Some (JStr ''a_b'')"
  "jget demo_decision ''run_id'' = Some (JStr ''a_b'')"
  "jget demo_decision ''plan_hash'' = Some (JStr demo_hash)"
  "jget demo_decision ''task_ref'' = Some (JStr ''a'')"
  "jget demo_decision ''phase'' = Some (JStr ''work'')"
  "jget demo_decision ''compensation_ref'' = Some (JNull)"
  "jget demo_decision ''authority_envelope_ref'' = Some (JObj [(''record_kind'', JStr ''authority-envelope''), (''record_id'', JStr ''a_b''), (''record_event_ref'', JObj [(''ledger_sequence'', JInt 2), (''event_hash'', JStr demo_hash)])])"
  "jget demo_decision ''action_proposal'' = Some (demo_proposal)"
  "jget demo_decision ''action_proposal_id'' = Some (JStr ''a_b'')"
  "jget demo_decision ''action_proposal_hash'' = Some (JStr demo_hash)"
  "jget demo_decision ''action_actor_ref'' = Some (JStr ''a_b'')"
  "jget demo_decision ''action_actor_stable_identity_hash'' = Some (JStr demo_hash)"
  "jget demo_decision ''on_behalf_of_chain_hash'' = Some (JStr demo_hash)"
  "jget demo_decision ''repository_root_ref'' = Some (JStr ''a_b'')"
  "jget demo_decision ''repository_base_ref_identity_hash'' = Some (JStr demo_hash)"
  "jget demo_decision ''repository_pre_state_hash'' = Some (JStr demo_hash)"
  "jget demo_decision ''authorized_change_set_hash'' = Some (JStr demo_hash)"
  "jget demo_decision ''normalized_dispatch_hash'' = Some (JStr demo_hash)"
  "jget demo_decision ''action_scope_hash'' = Some (JStr demo_hash)"
  "jget demo_decision ''action_class'' = Some (JStr ''task'')"
  "jget demo_decision ''classifier_input_hash'' = Some (JStr demo_hash)"
  "jget demo_decision ''classifier_registry_hash'' = Some (JStr demo_hash)"
  "jget demo_decision ''classifier_rule_hash'' = Some (JStr demo_hash)"
  "jget demo_decision ''data_flow_hash'' = Some (JStr demo_hash)"
  "jget demo_decision ''reviewed_through_ref'' = Some (JObj [(''ledger_sequence'', JInt 2), (''event_hash'', JStr demo_hash)])"
  "jget demo_decision ''policy_digest'' = Some (JStr demo_hash)"
  "jget demo_decision ''reason_codes'' = Some (JArr [JObj [(''policy_digest'', JStr demo_hash), (''declaration_ref'', JStr ''a'')]])"
  "jget demo_decision ''issued_at'' = Some (JStr demo_time)"
  "jget demo_decision ''expires_at'' = Some (JStr demo_later)"
  "jget demo_decision ''revocation_epoch'' = Some (JInt 0)"
  "jget demo_decision ''quorum_requirement_hash'' = Some (JNull)"
  "jget demo_decision ''recommendation_event_refs'' = Some (JArr [])"
  "jget demo_decision ''condition_hashes'' = Some (JArr [])"
  "jget demo_decision ''failed_condition_hashes'' = Some (JArr [])"
  "jget demo_decision ''decision'' = Some (JStr ''allow'')"
  "jget demo_decision ''decision_disposition'' = Some (JStr ''lease-eligible'')"
  "jget demo_decision ''evidence_refs'' = Some (JArr [])"
  "jget demo_decision ''policy_action_kind'' = Some (JStr ''planning'')"
  "jget demo_decision ''action_approval_class'' = Some (JStr ''automatic'')"
  "jget demo_decision ''waiver_gate_uses'' = None"
  unfolding demo_decision_def by (simp_all add: zod cong: eval_cong del: eval_slow)

lemma demo_4_body_reads [demo_read]:
  "jget demo_4_body ''lease_id'' = Some (JStr ''a_b'')"
  "jget demo_4_body ''task_ref'' = Some (JStr ''a'')"
  "jget demo_4_body ''phase'' = Some (JStr ''work'')"
  "jget demo_4_body ''compensation_ref'' = Some (JNull)"
  "jget demo_4_body ''action_proposal_id'' = Some (JStr ''a_b'')"
  "jget demo_4_body ''action_proposal_hash'' = Some (JStr demo_hash)"
  "jget demo_4_body ''action_actor_ref'' = Some (JStr ''a_b'')"
  "jget demo_4_body ''action_actor_stable_identity_hash'' = Some (JStr demo_hash)"
  "jget demo_4_body ''on_behalf_of_chain_hash'' = Some (JStr demo_hash)"
  "jget demo_4_body ''repository_root_ref'' = Some (JStr ''a_b'')"
  "jget demo_4_body ''repository_base_ref_identity_hash'' = Some (JStr demo_hash)"
  "jget demo_4_body ''repository_pre_state_hash'' = Some (JStr demo_hash)"
  "jget demo_4_body ''authorized_change_set_hash'' = Some (JStr demo_hash)"
  "jget demo_4_body ''normalized_dispatch_hash'' = Some (JStr demo_hash)"
  "jget demo_4_body ''action_scope_hash'' = Some (JStr demo_hash)"
  "jget demo_4_body ''action_class'' = Some (JStr ''task'')"
  "jget demo_4_body ''classifier_input_hash'' = Some (JStr demo_hash)"
  "jget demo_4_body ''classifier_registry_hash'' = Some (JStr demo_hash)"
  "jget demo_4_body ''classifier_rule_hash'' = Some (JStr demo_hash)"
  "jget demo_4_body ''data_flow_hash'' = Some (JStr demo_hash)"
  "jget demo_4_body ''authority_envelope_ref'' = Some (JObj [(''ledger_sequence'', JInt 2), (''event_hash'', JStr demo_hash)])"
  "jget demo_4_body ''policy_decision_ref'' = Some (JObj [(''ledger_sequence'', JInt 3), (''event_hash'', JStr demo_hash)])"
  "jget demo_4_body ''fence_epoch'' = Some (JInt 0)"
  "jget demo_4_body ''issued_at'' = Some (JStr demo_time)"
  "jget demo_4_body ''expires_at'' = Some (JStr demo_later)"
  "jget demo_4_body ''waiver_gate_refs'' = Some (JArr [])"
  "jget demo_4_body ''policy_action_kind'' = Some (JStr ''planning'')"
  "jget demo_4_body ''action_approval_class'' = Some (JStr ''automatic'')"
  "jget demo_4_body ''run_id'' = None"
  "jget demo_4_body ''plan_hash'' = None"
  unfolding demo_4_body_def by (simp_all add: zod cong: eval_cong del: eval_slow)

lemma demo_5_body_reads [demo_read]:
  "jget demo_5_body ''clock_id'' = Some (JStr ''a_b'')"
  "jget demo_5_body ''observed_at'' = Some (JStr demo_time)"
  "jget demo_5_body ''elapsed_ms'' = Some (JInt 0)"
  "jget demo_5_body ''reason'' = Some (JStr ''action-admission'')"
  "jget demo_5_body ''task_ref'' = Some (JStr ''a'')"
  "jget demo_5_body ''failure_ordinal'' = Some (JNull)"
  "jget demo_5_body ''use_ref'' = Some (JStr ''a_b'')"
  "jget demo_5_body ''run_id'' = None"
  "jget demo_5_body ''plan_hash'' = None"
  unfolding demo_5_body_def by (simp_all add: zod cong: eval_cong del: eval_slow)

lemma demo_6_body_reads [demo_read]:
  "jget demo_6_body ''action_id'' = Some (JStr ''a_b'')"
  "jget demo_6_body ''task_ref'' = Some (JStr ''a'')"
  "jget demo_6_body ''lease_id'' = Some (JStr ''a_b'')"
  "jget demo_6_body ''lease_event_ref'' = Some (JObj [(''ledger_sequence'', JInt 4), (''event_hash'', JStr demo_hash)])"
  "jget demo_6_body ''admission_clock_ref'' = Some (JObj [(''ledger_sequence'', JInt 5), (''event_hash'', JStr demo_hash)])"
  "jget demo_6_body ''action_proposal_id'' = Some (JStr ''a_b'')"
  "jget demo_6_body ''action_proposal_hash'' = Some (JStr demo_hash)"
  "jget demo_6_body ''action_actor_ref'' = Some (JStr ''a_b'')"
  "jget demo_6_body ''action_actor_stable_identity_hash'' = Some (JStr demo_hash)"
  "jget demo_6_body ''on_behalf_of_chain_hash'' = Some (JStr demo_hash)"
  "jget demo_6_body ''repository_root_ref'' = Some (JStr ''a_b'')"
  "jget demo_6_body ''repository_base_ref_identity_hash'' = Some (JStr demo_hash)"
  "jget demo_6_body ''repository_pre_state_hash'' = Some (JStr demo_hash)"
  "jget demo_6_body ''authorized_change_set_hash'' = Some (JStr demo_hash)"
  "jget demo_6_body ''normalized_dispatch_hash'' = Some (JStr demo_hash)"
  "jget demo_6_body ''action_scope_hash'' = Some (JStr demo_hash)"
  "jget demo_6_body ''action_class'' = Some (JStr ''task'')"
  "jget demo_6_body ''classifier_input_hash'' = Some (JStr demo_hash)"
  "jget demo_6_body ''classifier_registry_hash'' = Some (JStr demo_hash)"
  "jget demo_6_body ''classifier_rule_hash'' = Some (JStr demo_hash)"
  "jget demo_6_body ''data_flow_hash'' = Some (JStr demo_hash)"
  "jget demo_6_body ''execution_ordinal'' = Some (JInt 1)"
  "jget demo_6_body ''retry_of_failure_ordinal'' = Some (JNull)"
  "jget demo_6_body ''fence_epoch'' = Some (JInt 0)"
  "jget demo_6_body ''side_effect_refs'' = Some (JArr [JStr ''a''])"
  "jget demo_6_body ''waiver_gate_use_checks'' = Some (JArr [])"
  "jget demo_6_body ''task_executions_after'' = Some (JInt 1)"
  "jget demo_6_body ''action_output_bytes_after'' = Some (JInt 0)"
  "jget demo_6_body ''policy_action_kind'' = Some (JStr ''planning'')"
  "jget demo_6_body ''action_approval_class'' = Some (JStr ''automatic'')"
  "jget demo_6_body ''run_id'' = None"
  "jget demo_6_body ''plan_hash'' = None"
  unfolding demo_6_body_def by (simp_all add: zod cong: eval_cong del: eval_slow)

lemma demo_7_body_reads [demo_read]:
  "jget demo_7_body ''task_ref'' = Some (JStr ''a'')"
  "jget demo_7_body ''effect_ref'' = Some (JStr ''a'')"
  "jget demo_7_body ''action_id'' = Some (JStr ''a_b'')"
  "jget demo_7_body ''outcome'' = Some (JStr ''committed'')"
  "jget demo_7_body ''evidence_refs'' = Some (JArr [])"
  "jget demo_7_body ''run_id'' = None"
  "jget demo_7_body ''plan_hash'' = None"
  unfolding demo_7_body_def by (simp_all add: zod cong: eval_cong del: eval_slow)

lemma demo_8_body_reads [demo_read]:
  "jget demo_8_body ''action_id'' = Some (JStr ''a_b'')"
  "jget demo_8_body ''task_ref'' = Some (JStr ''a'')"
  "jget demo_8_body ''admission_ref'' = Some (JObj [(''ledger_sequence'', JInt 6), (''event_hash'', JStr demo_hash)])"
  "jget demo_8_body ''detection_reason'' = Some (JStr ''process-status-unavailable'')"
  "jget demo_8_body ''observation_ref'' = Some (JObj [(''ledger_sequence'', JInt 6), (''event_hash'', JStr demo_hash)])"
  "jget demo_8_body ''evidence_refs'' = Some (JArr [])"
  "jget demo_8_body ''run_id'' = None"
  "jget demo_8_body ''plan_hash'' = None"
  unfolding demo_8_body_def by (simp_all add: zod cong: eval_cong del: eval_slow)

lemma demo_9_body_reads [demo_read]:
  "jget demo_9_body ''action_id'' = Some (JStr ''a_b'')"
  "jget demo_9_body ''task_ref'' = Some (JStr ''a'')"
  "jget demo_9_body ''terminal_event_ref'' = Some (JObj [(''ledger_sequence'', JInt 8), (''event_hash'', JStr demo_hash)])"
  "jget demo_9_body ''action_proposal_id'' = Some (JStr ''a_b'')"
  "jget demo_9_body ''action_proposal_hash'' = Some (JStr demo_hash)"
  "jget demo_9_body ''action_actor_ref'' = Some (JStr ''a_b'')"
  "jget demo_9_body ''action_actor_stable_identity_hash'' = Some (JStr demo_hash)"
  "jget demo_9_body ''on_behalf_of_chain_hash'' = Some (JStr demo_hash)"
  "jget demo_9_body ''repository_root_ref'' = Some (JStr ''a_b'')"
  "jget demo_9_body ''repository_base_ref_identity_hash'' = Some (JStr demo_hash)"
  "jget demo_9_body ''repository_pre_state_hash'' = Some (JStr demo_hash)"
  "jget demo_9_body ''authorized_change_set_hash'' = Some (JStr demo_hash)"
  "jget demo_9_body ''normalized_dispatch_hash'' = Some (JStr demo_hash)"
  "jget demo_9_body ''repository_post_state'' = Some (demo_post_state)"
  "jget demo_9_body ''repository_post_state_hash'' = Some (JStr demo_hash)"
  "jget demo_9_body ''observed_change_set'' = Some (demo_observed)"
  "jget demo_9_body ''observed_change_set_hash'' = Some (JStr demo_hash)"
  "jget demo_9_body ''repository_transition_status'' = Some (JStr ''unchanged'')"
  "jget demo_9_body ''effect_outcomes'' = Some (JArr [JObj [(''effect_ref'', JStr ''a''), (''outcome'', JStr ''committed''), (''outcome_event_ref'', JObj [(''ledger_sequence'', JInt 7), (''event_hash'', JStr demo_hash)])]])"
  "jget demo_9_body ''policy_action_kind'' = Some (JStr ''planning'')"
  "jget demo_9_body ''action_approval_class'' = Some (JStr ''automatic'')"
  "jget demo_9_body ''run_id'' = None"
  "jget demo_9_body ''plan_hash'' = None"
  unfolding demo_9_body_def by (simp_all add: zod cong: eval_cong del: eval_slow)

lemma demo_10_body_reads [demo_read]:
  "jget demo_10_body ''revision'' = Some (JInt 1)"
  "jget demo_10_body ''candidate'' = Some (JStr ''held'')"
  "jget demo_10_body ''candidate_evidence_refs'' = Some (JArr [JObj [(''ledger_sequence'', JInt 9), (''event_hash'', JStr demo_hash)]])"
  "jget demo_10_body ''fence_epoch'' = Some (JInt 0)"
  "jget demo_10_body ''run_id'' = None"
  "jget demo_10_body ''plan_hash'' = None"
  unfolding demo_10_body_def by (simp_all add: zod cong: eval_cong del: eval_slow)

lemma demo_11_body_reads [demo_read]:
  "jget demo_11_body ''outcome'' = Some (JStr ''held'')"
  "jget demo_11_body ''pre_seal_ledger_sequence'' = Some (JInt 10)"
  "jget demo_11_body ''pre_seal_ledger_head_hash'' = Some (JStr demo_hash)"
  "jget demo_11_body ''pre_seal_snapshot_hash'' = Some (JStr demo_hash)"
  "jget demo_11_body ''previous_fence_epoch'' = Some (JInt 0)"
  "jget demo_11_body ''fence_epoch'' = Some (JInt 1)"
  "jget demo_11_body ''run_id'' = None"
  "jget demo_11_body ''plan_hash'' = None"
  unfolding demo_11_body_def by (simp_all add: zod cong: eval_cong del: eval_slow)

lemma demo_1_reads [demo_read]:
  "jget demo_1 ''event_id'' = Some (JStr ''e_1'')"
  "jget demo_1 ''run_id'' = Some (JStr ''a_b'')"
  "jget demo_1 ''sequence'' = Some (JInt 1)"
  "jget demo_1 ''recorded_at'' = Some (JStr demo_time)"
  "jget demo_1 ''source'' = Some (JStr ''kernel'')"
  "jget demo_1 ''authority_ref'' = Some (JNull)"
  "jget demo_1 ''risk_tier'' = Some (JStr ''T0'')"
  "jget demo_1 ''previous_event_hash'' = Some (JNull)"
  "jget demo_1 ''event_hash'' = Some (JStr demo_hash)"
  "jget demo_1 ''event_type'' = Some (JStr ''run.initialized'')"
  "jget demo_1 ''payload'' = Some (demo_1_body)"
  unfolding demo_1_def by (simp_all add: zod cong: eval_cong del: eval_slow)

lemma demo_1_payload [demo_read]:
  "ev_type demo_1 = ''run.initialized''"
  "pay demo_1 f = jget demo_1_body f"
  by (simp_all add: ev_type_def pay_def demo_read)

lemma demo_2_reads [demo_read]:
  "jget demo_2 ''event_id'' = Some (JStr ''e_2'')"
  "jget demo_2 ''run_id'' = Some (JStr ''a_b'')"
  "jget demo_2 ''sequence'' = Some (JInt 2)"
  "jget demo_2 ''recorded_at'' = Some (JStr demo_time)"
  "jget demo_2 ''source'' = Some (JStr ''policy-enforcement-point'')"
  "jget demo_2 ''authority_ref'' = Some (JStr ''c_d'')"
  "jget demo_2 ''risk_tier'' = Some (JStr ''T0'')"
  "jget demo_2 ''previous_event_hash'' = Some (JStr demo_hash)"
  "jget demo_2 ''event_hash'' = Some (JStr demo_hash)"
  "jget demo_2 ''event_type'' = Some (JStr ''authority.envelope-recorded'')"
  "jget demo_2 ''payload'' = Some (demo_2_body)"
  unfolding demo_2_def by (simp_all add: zod cong: eval_cong del: eval_slow)

lemma demo_2_payload [demo_read]:
  "ev_type demo_2 = ''authority.envelope-recorded''"
  "pay demo_2 f = jget demo_2_body f"
  by (simp_all add: ev_type_def pay_def demo_read)

lemma demo_3_reads [demo_read]:
  "jget demo_3 ''event_id'' = Some (JStr ''e_3'')"
  "jget demo_3 ''run_id'' = Some (JStr ''a_b'')"
  "jget demo_3 ''sequence'' = Some (JInt 3)"
  "jget demo_3 ''recorded_at'' = Some (JStr demo_time)"
  "jget demo_3 ''source'' = Some (JStr ''policy-enforcement-point'')"
  "jget demo_3 ''authority_ref'' = Some (JStr ''a_b'')"
  "jget demo_3 ''risk_tier'' = Some (JStr ''T0'')"
  "jget demo_3 ''previous_event_hash'' = Some (JStr demo_hash)"
  "jget demo_3 ''event_hash'' = Some (JStr demo_hash)"
  "jget demo_3 ''event_type'' = Some (JStr ''policy.decision-recorded'')"
  "jget demo_3 ''payload'' = Some (demo_decision)"
  unfolding demo_3_def by (simp_all add: zod cong: eval_cong del: eval_slow)

lemma demo_3_payload [demo_read]:
  "ev_type demo_3 = ''policy.decision-recorded''"
  "pay demo_3 f = jget demo_decision f"
  by (simp_all add: ev_type_def pay_def demo_read)

lemma demo_4_reads [demo_read]:
  "jget demo_4 ''event_id'' = Some (JStr ''e_4'')"
  "jget demo_4 ''run_id'' = Some (JStr ''a_b'')"
  "jget demo_4 ''sequence'' = Some (JInt 4)"
  "jget demo_4 ''recorded_at'' = Some (JStr demo_time)"
  "jget demo_4 ''source'' = Some (JStr ''policy-enforcement-point'')"
  "jget demo_4 ''authority_ref'' = Some (JStr ''a_b'')"
  "jget demo_4 ''risk_tier'' = Some (JStr ''T0'')"
  "jget demo_4 ''previous_event_hash'' = Some (JStr demo_hash)"
  "jget demo_4 ''event_hash'' = Some (JStr demo_hash)"
  "jget demo_4 ''event_type'' = Some (JStr ''lease.issued'')"
  "jget demo_4 ''payload'' = Some (demo_4_body)"
  unfolding demo_4_def by (simp_all add: zod cong: eval_cong del: eval_slow)

lemma demo_4_payload [demo_read]:
  "ev_type demo_4 = ''lease.issued''"
  "pay demo_4 f = jget demo_4_body f"
  by (simp_all add: ev_type_def pay_def demo_read)

lemma demo_5_reads [demo_read]:
  "jget demo_5 ''event_id'' = Some (JStr ''e_5'')"
  "jget demo_5 ''run_id'' = Some (JStr ''a_b'')"
  "jget demo_5 ''sequence'' = Some (JInt 5)"
  "jget demo_5 ''recorded_at'' = Some (JStr demo_time)"
  "jget demo_5 ''source'' = Some (JStr ''kernel'')"
  "jget demo_5 ''authority_ref'' = Some (JNull)"
  "jget demo_5 ''risk_tier'' = Some (JStr ''T0'')"
  "jget demo_5 ''previous_event_hash'' = Some (JStr demo_hash)"
  "jget demo_5 ''event_hash'' = Some (JStr demo_hash)"
  "jget demo_5 ''event_type'' = Some (JStr ''run.clock-observed'')"
  "jget demo_5 ''payload'' = Some (demo_5_body)"
  unfolding demo_5_def by (simp_all add: zod cong: eval_cong del: eval_slow)

lemma demo_5_payload [demo_read]:
  "ev_type demo_5 = ''run.clock-observed''"
  "pay demo_5 f = jget demo_5_body f"
  by (simp_all add: ev_type_def pay_def demo_read)

lemma demo_6_reads [demo_read]:
  "jget demo_6 ''event_id'' = Some (JStr ''e_6'')"
  "jget demo_6 ''run_id'' = Some (JStr ''a_b'')"
  "jget demo_6 ''sequence'' = Some (JInt 6)"
  "jget demo_6 ''recorded_at'' = Some (JStr demo_time)"
  "jget demo_6 ''source'' = Some (JStr ''policy-enforcement-point'')"
  "jget demo_6 ''authority_ref'' = Some (JStr ''a_b'')"
  "jget demo_6 ''risk_tier'' = Some (JStr ''T0'')"
  "jget demo_6 ''previous_event_hash'' = Some (JStr demo_hash)"
  "jget demo_6 ''event_hash'' = Some (JStr demo_hash)"
  "jget demo_6 ''event_type'' = Some (JStr ''task.action-admitted'')"
  "jget demo_6 ''payload'' = Some (demo_6_body)"
  unfolding demo_6_def by (simp_all add: zod cong: eval_cong del: eval_slow)

lemma demo_6_payload [demo_read]:
  "ev_type demo_6 = ''task.action-admitted''"
  "pay demo_6 f = jget demo_6_body f"
  by (simp_all add: ev_type_def pay_def demo_read)

lemma demo_7_reads [demo_read]:
  "jget demo_7 ''event_id'' = Some (JStr ''e_7'')"
  "jget demo_7 ''run_id'' = Some (JStr ''a_b'')"
  "jget demo_7 ''sequence'' = Some (JInt 7)"
  "jget demo_7 ''recorded_at'' = Some (JStr demo_time)"
  "jget demo_7 ''source'' = Some (JStr ''adapter'')"
  "jget demo_7 ''authority_ref'' = Some (JNull)"
  "jget demo_7 ''risk_tier'' = Some (JStr ''T0'')"
  "jget demo_7 ''previous_event_hash'' = Some (JStr demo_hash)"
  "jget demo_7 ''event_hash'' = Some (JStr demo_hash)"
  "jget demo_7 ''event_type'' = Some (JStr ''effect.outcome'')"
  "jget demo_7 ''payload'' = Some (demo_7_body)"
  unfolding demo_7_def by (simp_all add: zod cong: eval_cong del: eval_slow)

lemma demo_7_payload [demo_read]:
  "ev_type demo_7 = ''effect.outcome''"
  "pay demo_7 f = jget demo_7_body f"
  by (simp_all add: ev_type_def pay_def demo_read)

lemma demo_8_reads [demo_read]:
  "jget demo_8 ''event_id'' = Some (JStr ''e_8'')"
  "jget demo_8 ''run_id'' = Some (JStr ''a_b'')"
  "jget demo_8 ''sequence'' = Some (JInt 8)"
  "jget demo_8 ''recorded_at'' = Some (JStr demo_time)"
  "jget demo_8 ''source'' = Some (JStr ''adapter'')"
  "jget demo_8 ''authority_ref'' = Some (JNull)"
  "jget demo_8 ''risk_tier'' = Some (JStr ''T0'')"
  "jget demo_8 ''previous_event_hash'' = Some (JStr demo_hash)"
  "jget demo_8 ''event_hash'' = Some (JStr demo_hash)"
  "jget demo_8 ''event_type'' = Some (JStr ''task.action-outcome-unknown'')"
  "jget demo_8 ''payload'' = Some (demo_8_body)"
  unfolding demo_8_def by (simp_all add: zod cong: eval_cong del: eval_slow)

lemma demo_8_payload [demo_read]:
  "ev_type demo_8 = ''task.action-outcome-unknown''"
  "pay demo_8 f = jget demo_8_body f"
  by (simp_all add: ev_type_def pay_def demo_read)

lemma demo_9_reads [demo_read]:
  "jget demo_9 ''event_id'' = Some (JStr ''e_9'')"
  "jget demo_9 ''run_id'' = Some (JStr ''a_b'')"
  "jget demo_9 ''sequence'' = Some (JInt 9)"
  "jget demo_9 ''recorded_at'' = Some (JStr demo_time)"
  "jget demo_9 ''source'' = Some (JStr ''kernel'')"
  "jget demo_9 ''authority_ref'' = Some (JNull)"
  "jget demo_9 ''risk_tier'' = Some (JStr ''T0'')"
  "jget demo_9 ''previous_event_hash'' = Some (JStr demo_hash)"
  "jget demo_9 ''event_hash'' = Some (JStr demo_hash)"
  "jget demo_9 ''event_type'' = Some (JStr ''task.action-settled'')"
  "jget demo_9 ''payload'' = Some (demo_9_body)"
  unfolding demo_9_def by (simp_all add: zod cong: eval_cong del: eval_slow)

lemma demo_9_payload [demo_read]:
  "ev_type demo_9 = ''task.action-settled''"
  "pay demo_9 f = jget demo_9_body f"
  by (simp_all add: ev_type_def pay_def demo_read)

lemma demo_10_reads [demo_read]:
  "jget demo_10 ''event_id'' = Some (JStr ''e_10'')"
  "jget demo_10 ''run_id'' = Some (JStr ''a_b'')"
  "jget demo_10 ''sequence'' = Some (JInt 10)"
  "jget demo_10 ''recorded_at'' = Some (JStr demo_time)"
  "jget demo_10 ''source'' = Some (JStr ''evaluator'')"
  "jget demo_10 ''authority_ref'' = Some (JNull)"
  "jget demo_10 ''risk_tier'' = Some (JStr ''T0'')"
  "jget demo_10 ''previous_event_hash'' = Some (JStr demo_hash)"
  "jget demo_10 ''event_hash'' = Some (JStr demo_hash)"
  "jget demo_10 ''event_type'' = Some (JStr ''run.terminal-freeze-entered'')"
  "jget demo_10 ''payload'' = Some (demo_10_body)"
  unfolding demo_10_def by (simp_all add: zod cong: eval_cong del: eval_slow)

lemma demo_10_payload [demo_read]:
  "ev_type demo_10 = ''run.terminal-freeze-entered''"
  "pay demo_10 f = jget demo_10_body f"
  by (simp_all add: ev_type_def pay_def demo_read)

lemma demo_11_reads [demo_read]:
  "jget demo_11 ''event_id'' = Some (JStr ''e_11'')"
  "jget demo_11 ''run_id'' = Some (JStr ''a_b'')"
  "jget demo_11 ''sequence'' = Some (JInt 11)"
  "jget demo_11 ''recorded_at'' = Some (JStr demo_time)"
  "jget demo_11 ''source'' = Some (JStr ''evaluator'')"
  "jget demo_11 ''authority_ref'' = Some (JNull)"
  "jget demo_11 ''risk_tier'' = Some (JStr ''T0'')"
  "jget demo_11 ''previous_event_hash'' = Some (JStr demo_hash)"
  "jget demo_11 ''event_hash'' = Some (JStr demo_hash)"
  "jget demo_11 ''event_type'' = Some (JStr ''run.terminal-sealed'')"
  "jget demo_11 ''payload'' = Some (demo_11_body)"
  unfolding demo_11_def by (simp_all add: zod cong: eval_cong del: eval_slow)

lemma demo_11_payload [demo_read]:
  "ev_type demo_11 = ''run.terminal-sealed''"
  "pay demo_11 f = jget demo_11_body f"
  by (simp_all add: ev_type_def pay_def demo_read)

subsection \<open>Acceptance by the schemas\<close>

lemma hex_class:
  "in_class (Span 48 57) c \<or> in_class (Span 97 102) c \<longleftrightarrow> c \<in> set ''0123456789abcdef''"
proof -
  have digits: "x \<in> {48..57} \<union> {97..102} \<longleftrightarrow> x \<in> set ([48..<58] @ [97..<103])" for x :: nat
    unfolding set_append set_upt by auto
  have codes: "of_char ` set ''0123456789abcdef'' = set ([48..<58] @ [97..<103] :: nat list)" by code_simp
  have "in_class (Span 48 57) c \<or> in_class (Span 97 102) c \<longleftrightarrow> (of_char c :: nat) \<in> {48..57}
    \<union> {97..102}" by simp
  then show ?thesis unfolding digits codes [symmetric] by (auto simp del: set_simps)
qed

lemma demo_texts [zod]:
  "Hash demo_hash" "HumanIdV02 ''a''" "MachineIdV02 ''a_b''" "MachineIdV02 ''c_d''" "NonBlankStringV02 ''x''"
  "FreeControlStringV02 ''x''" "RelativeRunPathV02 ''p''" "IsoTimestampV02 (\<lambda>_. True) demo_time"
  "IsoTimestampV02 (\<lambda>_. True) demo_later"
  by code_simp+

lemma demo_ids [zod]:
  "MachineIdV02 ''e_1''" "MachineIdV02 ''e_2''" "MachineIdV02 ''e_3''" "MachineIdV02 ''e_4''" "MachineIdV02 ''e_5''"
  "MachineIdV02 ''e_6''" "MachineIdV02 ''e_7''" "MachineIdV02 ''e_8''" "MachineIdV02 ''e_9''" "MachineIdV02 ''e_10''"
  "MachineIdV02 ''e_11''"
  by code_simp+

lemma demo_object_ok [zod]: "GitObjectIdV02 demo_object"
  by code_simp

lemma demo_env_simps [zod]:
  "hashCanonical demo_env v = demo_hash" "canonicalize demo_env v = []" "iso_second demo_env = (\<lambda>_. True)"
  by (simp_all add: demo_env_def)

lemma demo_dates [zod]: "date_parse demo_env demo_time < date_parse demo_env demo_later"
  by (simp add: demo_env_def demo_time_def demo_later_def)

lemma ledger_ref_ok [zod]:
  "0 < n \<Longrightarrow> n \<le> MAX_SAFE_INTEGER \<Longrightarrow> LedgerRefV02 (JObj [(''ledger_sequence'', JInt n), (''event_hash'', JStr demo_hash)])"
  by (simp add: LedgerRefV02_def zod)

lemmas demo_small [zod] =
  Utf8SortedUniqueStrings_def CanonicalHumanIdsV02_def NonEmptyCanonicalHumanIdsV02_def CanonicalHashesV02_def
  CanonicalNonBlankStringsV02_def CanonicalLedgerRefsV02_def NonEmptyCanonicalLedgerRefsV02_def RiskTier_def
  MAX_SAFE_INTEGER_def

lemmas event_simps =
  event_schema_def RuntimeEventEnvelopeV02_shape_def RuntimeLedgerSourceV02_def source_is_def no_authority_def is_text_def
  is_null_def validatePepAuthorityV02_def validateEvaluatorNullAuthorityV02_def nonempty_interval_def phase_ref_ok_def
  incremented_def pay_def

lemma demo_1_ok: "RunInitializedEventV02 demo_env demo_1"
  by (simp add: RunInitializedEventV02_def strict_object [OF demo_1_def] strict_object [OF demo_1_body_def]
    RuntimeSchemaInventoryV02_def event_simps demo_read zod
    cong: eval_cong del: eval_slow)

lemma demo_2_ok: "AuthorityEnvelopeRecordedEventV02 demo_env demo_2"
  by (simp add: AuthorityEnvelopeRecordedEventV02_def strict_object [OF demo_2_def] strict_object [OF demo_2_body_def]
    RiskTierV1_def event_simps demo_read zod
    cong: eval_cong del: eval_slow)

lemma demo_4_ok: "LeaseIssuedEventV02 demo_env demo_4"
  by (simp add: LeaseIssuedEventV02_def strict_object [OF demo_4_def] strict_object [OF demo_4_body_def]
    LeaseIssuedPayloadBaseV02_def AdmittedActionProposalBindingsShapeV02_def
    AutomaticPolicyActionKindV1_def event_simps demo_read zod
    cong: eval_cong del: eval_slow)

lemma demo_5_ok: "RunClockObservedEventV02 demo_env demo_5"
  by (simp add: RunClockObservedEventV02_def strict_object [OF demo_5_def] strict_object [OF demo_5_body_def]
    clock_branch_ok_def event_simps demo_read zod
    cong: eval_cong del: eval_slow)

lemma demo_6_ok: "TaskActionAdmittedEventV02 demo_env demo_6"
  by (simp add: TaskActionAdmittedEventV02_def strict_object [OF demo_6_def] strict_object [OF demo_6_body_def]
    TaskActionAdmittedPayloadBaseV02_def
    AdmittedActionProposalBindingsShapeV02_def AutomaticPolicyActionKindV1_def CanonicalWaiverGateUseChecksV02_def
    event_simps demo_read zod
    cong: eval_cong del: eval_slow)

lemma demo_7_ok: "EffectOutcomeEventV02 demo_env demo_7"
  by (simp add: EffectOutcomeEventV02_def strict_object [OF demo_7_def] strict_object [OF demo_7_body_def] event_simps
    demo_read zod
    cong: eval_cong del: eval_slow)

lemma demo_8_ok: "TaskActionOutcomeUnknownEventV02 demo_env demo_8"
  by (simp add: TaskActionOutcomeUnknownEventV02_def strict_object [OF demo_8_def] strict_object [OF demo_8_body_def]
    event_simps demo_read zod
    cong: eval_cong del: eval_slow)

lemma demo_10_ok: "RunTerminalFreezeEnteredEventV02 demo_env demo_10"
  by (simp add: RunTerminalFreezeEnteredEventV02_def strict_object [OF demo_10_def] strict_object [OF demo_10_body_def]
    TerminalStateNameV02_def event_simps demo_read zod
    cong: eval_cong del: eval_slow)

lemma demo_11_ok: "RunTerminalSealedEventV02 demo_env demo_11"
  by (simp add: RunTerminalSealedEventV02_def strict_object [OF demo_11_def] strict_object [OF demo_11_body_def]
    TerminalStateNameV02_def event_simps demo_read zod
    cong: eval_cong del: eval_slow)

lemma demo_post_state_ok: "VerifiedRepositoryStateV02 demo_env demo_post_state"
  by (simp add: VerifiedRepositoryStateV02_def strict_object [OF demo_post_state_def] RepositoryStateV02_def
    RepositoryStateV02_shape_def demo_read zod
    cong: eval_cong del: eval_slow)

lemma no_changes_ok: "CanonicalObservedRepositoryChangesV02 demo_env (JArr [])"
  by (simp add: CanonicalObservedRepositoryChangesV02_def sorted_by_path_def demo_read zod
    cong: eval_cong del: eval_slow)

lemma demo_observed_ok: "ObservedRepositoryChangeSetV02 demo_env demo_observed"
  by (simp add: ObservedRepositoryChangeSetV02_def strict_object [OF demo_observed_def] no_changes_ok demo_read zod
    cong: eval_cong del: eval_slow)

lemma demo_9_ok: "TaskActionSettledEventV02 demo_env demo_9"
  by (simp add: TaskActionSettledEventV02_def strict_object [OF demo_9_def] strict_object [OF demo_9_body_def]
    TaskActionSettledPayloadBaseV02_def demo_post_state_ok
    demo_observed_ok CanonicalEffectSettlementOutcomesV02_def EffectSettlementOutcomeV02_def AutomaticPolicyActionKindV1_def
    settlement_ok_def Let_def demo_read event_simps zod
    cong: eval_cong del: eval_slow)

text \<open>The decision, from within its proposal.\<close>

lemma demo_mission_ok: "AuthorityMissionSubjectV02 demo_mission"
  by (simp add: AuthorityMissionSubjectV02_def strict_object [OF demo_mission_def] success_criteria_V02_def
    terminal_states_V02_def
    TerminalStateSpecV02_def terminalState_def StopConditionRefV02_def demo_read zod
    cong: eval_cong del: eval_slow)

lemma demo_policy_ok: "ActionApprovalPolicyV1 demo_policy"
  by (simp add: ActionApprovalPolicyV1_def strict_object [OF demo_policy_def] ActionClassifierRegistryV1_def
    ActionClassifierRuleV1_def
    ActionClassifierKeyV1_def ActionApprovalPolicyEntryV1_def PolicyActionKindV1_def ActionApprovalClassV1_def
    RiskTierV1_def demo_read zod
    cong: eval_cong del: eval_slow)

lemma demo_subject_ok: "AuthoritySubjectV02 demo_subject"
  by (simp add: AuthoritySubjectV02_def strict_object [OF demo_subject_def] strict_object [OF demo_repository_def]
    strict_object [OF demo_protection_def] demo_mission_ok
    demo_policy_ok RepositoryBaseRefV02_def RepositoryStateV02_def RepositoryStateV02_shape_def
    HumanExceptionDestinationV02_def demo_read zod
    cong: eval_cong del: eval_slow)

lemma demo_capabilities_ok: "CanonicalAuthorityCapabilityConstraintsV02 demo_env demo_capabilities"
  by (simp add: CanonicalAuthorityCapabilityConstraintsV02_def demo_capabilities_def AuthorityCapabilityConstraintV02_def
    ActionClassifierKeyV1_def RiskTierV1_def demo_read zod
    cong: eval_cong del: eval_slow)

lemma demo_scope_ok: "AuthorityScopeV02 demo_env demo_scope"
  by (simp add: AuthorityScopeV02_def strict_object [OF demo_scope_def] demo_subject_ok demo_capabilities_ok
    CanonicalAuthorityResourceSelectorsV02_def AuthorityCostConstraintV02_def RiskTierV1_def demo_read zod
    cong: eval_cong del: eval_slow)

lemma demo_changes_ok: "AuthorizedRepositoryChangeSetV02 demo_env demo_changes"
  by (simp add: AuthorizedRepositoryChangeSetV02_def strict_object [OF demo_changes_def]
    CanonicalAuthorizedRepositoryChangesV02_def
    sorted_by_path_def is_text_def demo_read zod
    cong: eval_cong del: eval_slow)

lemma demo_dispatch_ok: "NormalizedActionDispatchV02 demo_dispatch"
  by (simp add: NormalizedActionDispatchV02_def strict_object [OF demo_dispatch_def] NormalizedActionDispatchCommonShapeV02_def
    AuthorityOperationV02_def AuthorityResourceSelectorV02_def demo_read zod
    cong: eval_cong del: eval_slow)

lemma demo_proposal_ok: "ActionProposalV02 demo_env demo_proposal"
  by (simp add: ActionProposalV02_def strict_object [OF demo_proposal_def] demo_scope_ok demo_changes_ok demo_dispatch_ok
    AuthorityPrincipalV02_def
    PolicyActionKindV1_def ActionApprovalClassV1_def CanonicalActionEffectRefsV02_def ActionDataFlowV02_def
    ActionCostBudgetV02_def RiskTierV1_def phase_ref_ok_def is_text_def is_null_def classification_ok_def
    AutomaticPolicyActionKindV1_def proposal_hashes_ok_def scope_hash_ok_def hashAuthorityScopeV02_def own_def demo_read zod
    cong: eval_cong del: eval_slow)

lemma demo_decision_ok: "AutomaticPolicyDecisionPayloadV02 demo_env demo_decision"
  by (simp add: AutomaticPolicyDecisionPayloadV02_def strict_object [OF demo_decision_def]
    PolicyDecisionCopiedBindingsShapeV02_def PolicyDecisionBranchFieldsV02_def demo_proposal_ok AutomaticPolicyActionKindV1_def
    NonEmptyCanonicalPolicyReasonCodeRefsV02_def PolicyReasonCodeRefV02_def automatic_branch_ok_def plain_decision_def
    decision_is_def event_simps demo_read zod
    cong: eval_cong del: eval_slow)

lemma demo_decision_union: "PolicyDecisionPayloadV02 demo_env demo_decision"
  by (simp add: PolicyDecisionPayloadV02_def z_union_def demo_decision_ok)

lemma demo_copies: "copied_bindings_ok (Some demo_decision)"
  by (simp add: copied_bindings_ok_def Let_def demo_read)

lemma demo_reasons: "reasons_ok (Some demo_decision)"
  by (simp add: reasons_ok_def demo_read)

lemma demo_3_ok: "PolicyDecisionRecordedEventV02 demo_env demo_3"
  by (simp add: PolicyDecisionRecordedEventV02_def strict_object [OF demo_3_def] demo_decision_union demo_copies demo_reasons
    demo_read
    event_simps demo_read zod
    cong: eval_cong del: eval_slow)

text \<open>Each event satisfies one alternative of the union.\<close>

lemma demo_schemas: "validateRuntimeLedgerEventSchemasV02 demo_env demo_ledger = None"
proof -
  have "list_all (RuntimeEventV02 demo_env) demo_ledger"
    by (simp add: demo_ledger_def RuntimeEventV02_def zod demo_1_ok demo_2_ok demo_3_ok demo_4_ok demo_5_ok demo_6_ok
      demo_7_ok demo_8_ok demo_9_ok demo_10_ok demo_11_ok)
  then show ?thesis by (simp add: validateRuntimeLedgerEventSchemasV02_def scan_None list_all_length)
qed

subsection \<open>References\<close>

lemma demo_refs [demo_read]:
  "payload_refs demo_1 = []"
  "payload_refs demo_2 = [(1, demo_hash)]"
  "payload_refs demo_4 = [(2, demo_hash), (3, demo_hash)]"
  "payload_refs demo_5 = []"
  "payload_refs demo_6 = [(4, demo_hash), (5, demo_hash)]"
  "payload_refs demo_7 = []"
  "payload_refs demo_8 = [(6, demo_hash), (6, demo_hash)]"
  "payload_refs demo_9 = [(8, demo_hash), (7, demo_hash)]"
  "payload_refs demo_10 = [(9, demo_hash)]"
  "payload_refs demo_11 = []"
  by code_simp+

lemma demo_3_refs [demo_read]:
  "payload_refs demo_3 = [(2, demo_hash), (2, demo_hash)]"
  by code_simp

text \<open>The one reference to a record: the envelope of the decision.\<close>

lemma demo_record_refs [demo_read]:
  "collectRecordDependencyRefs demo_1_body = []"
  "collectRecordDependencyRefs demo_2_body = []"
  "collectRecordDependencyRefs demo_4_body = []"
  "collectRecordDependencyRefs demo_5_body = []"
  "collectRecordDependencyRefs demo_6_body = []"
  "collectRecordDependencyRefs demo_7_body = []"
  "collectRecordDependencyRefs demo_8_body = []"
  "collectRecordDependencyRefs demo_9_body = []"
  "collectRecordDependencyRefs demo_10_body = []"
  "collectRecordDependencyRefs demo_11_body = []"
  by code_simp+

lemma demo_3_record_refs [demo_read]:
  "collectRecordDependencyRefs demo_decision =
     [JObj [(''record_kind'', JStr ''authority-envelope''), (''record_id'', JStr ''a_b''),
        (''record_event_ref'', JObj [(''ledger_sequence'', JInt 2), (''event_hash'', JStr demo_hash)])]]"
  by code_simp

lemma demo_keys [demo_read]:
  "seq_of demo_1 = 1" "seq_of demo_2 = 2" "seq_of demo_3 = 3" "seq_of demo_4 = 4" "seq_of demo_5 = 5" "seq_of demo_6 = 6"
  "seq_of demo_7 = 7" "seq_of demo_8 = 8" "seq_of demo_9 = 9" "seq_of demo_10 = 10" "seq_of demo_11 = 11"
  "key_of demo_1 = (1, demo_hash)" "key_of demo_2 = (2, demo_hash)" "key_of demo_3 = (3, demo_hash)"
  "key_of demo_4 = (4, demo_hash)" "key_of demo_5 = (5, demo_hash)" "key_of demo_6 = (6, demo_hash)"
  "key_of demo_7 = (7, demo_hash)" "key_of demo_8 = (8, demo_hash)" "key_of demo_9 = (9, demo_hash)"
  "key_of demo_10 = (10, demo_hash)" "key_of demo_11 = (11, demo_hash)"
  by (simp_all add: key_of_def seq_of_def hash_of_def demo_read)

end
