(* ===== verification/Ledger_V02_Examples.thy ===== *)
theory Ledger_V02_Examples
  imports Demo_Ledger_V02
begin

text \<open>
  The chain and the history of the example ledger are accepted, and the laws of the ledgers of
  version 0.2 applied to it.
\<close>

lemma demo_resolve [demo_read]:
  "resolve demo_ledger r =
     map_of (rev [((1, demo_hash), (0, demo_1)), ((2, demo_hash), (1, demo_2)), ((3, demo_hash), (2, demo_3)),
       ((4, demo_hash), (3, demo_4)), ((5, demo_hash), (4, demo_5)), ((6, demo_hash), (5, demo_6)),
       ((7, demo_hash), (6, demo_7)), ((8, demo_hash), (7, demo_8)), ((9, demo_hash), (8, demo_9)),
       ((10, demo_hash), (9, demo_10)), ((11, demo_hash), (10, demo_11))]) (key_ref r)"
  by (simp add: resolve_def demo_ledger_def indexed_def upt_rec demo_read)

lemma demo_key_ref [demo_read]:
  "key_ref (Some (JObj [(''ledger_sequence'', JInt n), (''event_hash'', JStr h)])) = (n, h)"
  by (simp add: key_ref_def)

lemma demo_nth [demo_read]:
  "demo_ledger ! 0 = demo_1" "demo_ledger ! Suc 0 = demo_2" "demo_ledger ! 2 = demo_3" "demo_ledger ! 3 = demo_4"
  "demo_ledger ! 4 = demo_5" "demo_ledger ! 5 = demo_6" "demo_ledger ! 6 = demo_7" "demo_ledger ! 7 = demo_8"
  "demo_ledger ! 8 = demo_9" "demo_ledger ! 9 = demo_10" "demo_ledger ! 10 = demo_11" "length demo_ledger = 11"
  by (simp_all add: demo_ledger_def)

lemma scan_demo:
  "scan check demo_ledger = None \<longleftrightarrow>
     check 0 demo_1 = None \<and> check 1 demo_2 = None \<and> check 2 demo_3 = None \<and> check 3 demo_4 = None \<and>
     check 4 demo_5 = None \<and> check 5 demo_6 = None \<and> check 6 demo_7 = None \<and> check 7 demo_8 = None \<and>
     check 8 demo_9 = None \<and> check 9 demo_10 = None \<and> check 10 demo_11 = None"
  by (simp add: scan_def demo_ledger_def eval_nat_numeral split: option.splits)

subsection \<open>Chain and history\<close>

lemma demo_links: "scan (\<lambda>i e. first_some [link_fault demo_ledger i e, visitor_fault demo_ledger i e]) demo_ledger = None"
  unfolding scan_demo
  by (simp add: link_fault_def visitor_fault_def previous_hash_at_def copied_ok_def demo_read)
     (simp add: demo_ledger_def demo_read)

lemma demo_chain: "validateRuntimeLedgerHashChainV02 demo_env demo_ledger (visitor_fault demo_ledger) = None"
  by (simp add: validateRuntimeLedgerHashChainV02_def demo_links scan_demo hash_fault_def demo_read zod)

lemma demo_earlier: "validateEarlierReferences demo_ledger = None"
  unfolding validateEarlierReferences_def scan_demo
  by (simp add: demo_read) (simp add: demo_ledger_def demo_read)

lemma demo_typed: "validateTypedRecordReferences demo_ledger = None"
  unfolding validateTypedRecordReferences_def scan_demo
  by (simp add: record_ref_ok_def RECORD_TARGETS_def resolved_def is_text_def demo_read)

lemma demo_envelope [demo_read]: "attr (pay demo_3 ''authority_envelope_ref'') ''record_id'' = Some (JStr ''a_b'')"
  by (simp add: pay_def demo_3_def demo_decision_def)

lemma demo_lineage: "validateEventLineage demo_ledger = None"
  unfolding validateEventLineage_def scan_demo
  by (simp add: lineage_fault_def lease_lineage_def lease_decision_ok_def lease_envelope_ok_def admission_lineage_def
    admission_lease_ok_def settlement_lineage_def terminal_types_def resolved_def same_pay_def is_text_def demo_read)

lemma demo_once: "validateUniqueConsumption demo_ledger = None"
  by (simp add: validateUniqueConsumption_def demo_ledger_def at_event_def consumption_step_def consumption_start_def
    consume_lease_issue_def consume_lease_def Let_def demo_read)

lemma fold_demo:
  "fold_events step 0 s demo_ledger =
     fold_events step 0 s [demo_1, demo_2, demo_3, demo_4, demo_5, demo_6, demo_7, demo_8, demo_9, demo_10, demo_11]"
  by (simp add: demo_ledger_def)

lemma demo_control: "validateControlHistory demo_ledger = None"
  by (simp add: validateControlHistory_def fold_demo at_event_def control_step_def record_identity_def identity_rule_def
    RECORD_TARGETS_def control_event_def admit_action2_def settle_action2_def open_action_def enter_freeze_def seal2_def
    in_flight_def action_of_def task_of_def phase_key_def is_text_def is_null_def control_start_def Let_def demo_read)

lemma demo_seal: "validateTerminalSeal demo_ledger = None"
  by (simp add: validateTerminalSeal_def seal_index_def is_seal_def indexed_def demo_ledger_def upt_rec demo_read)

lemma demo_sealed: "ledger_sealed demo_ledger"
  by (simp add: ledger_sealed_def is_seal_def demo_ledger_def demo_read)

theorem demo_accepted: "validateRuntimeLedgerV02 demo_env demo_ledger = Inr (demo_ledger, True)"
proof -
  have "demo_ledger \<noteq> []" "ev_type (demo_ledger ! 0) = ''run.initialized''" by (simp_all add: demo_ledger_def demo_read)
  moreover have "validateRuntimeLedgerHistoryV02 demo_ledger = None"
    by (simp add: validateRuntimeLedgerHistoryV02_def demo_earlier demo_typed demo_lineage demo_once demo_control demo_seal)
  ultimately show ?thesis
    by (simp add: validateRuntimeLedgerV02_def demo_schemas demo_chain demo_sealed)
qed

subsection \<open>The laws at the example\<close>

theorem admissions_trace_to_decisions_witness:
  "list_all (traced demo_ledger) (admissions demo_ledger) \<and>
    distinct (map (\<lambda>i. Option.bind (lease_of demo_ledger i) (decision_of demo_ledger)) (admissions demo_ledger))"
  by (rule admissions_trace_to_decisions [OF demo_accepted])

theorem no_admission_after_freeze_witness:
  "list_all (\<lambda>i. list_all (\<lambda>e. ev_type e \<notin> set recovery_types) (take i demo_ledger)) (admissions demo_ledger)"
  by (rule no_admission_after_freeze [OF demo_accepted])

theorem sealed_run_is_settled_witness:
  "set (settled_ids (butlast demo_ledger)) = set (admitted_ids (butlast demo_ledger)) \<and>
    pay (last demo_ledger) ''outcome'' = final_candidate (butlast demo_ledger)"
  using sealed_run_is_settled [OF demo_accepted] by blast

text \<open>The example has an admission.\<close>

lemma demo_admissions: "admissions demo_ledger = [5]"
  by (simp add: admissions_def demo_ledger_def upt_rec demo_read)

end
