(* ===== verification/Ledger_Text.thy ===== *)
theory Ledger_Text
  imports Ledger_V02
begin

text \<open>
  The text of a ledger, versions 0.3 and 0.4 (\<open>src/run/runtime-ledger-v03.ts\<close>,
  \<open>src/run/runtime-ledger-v04.ts\<close>): the bounds on its bytes, its lines and their number, and the
  reading of each line as one JSON value. Bytes are numbers. The decoder of UTF-8 and the digest
  of the bytes join the parameters of the line reader: the decoder drops a byte order mark.
\<close>

definition MAX_LEDGER_BYTES :: nat where "MAX_LEDGER_BYTES = 67108864"
definition MAX_EVENT_BYTES :: nat where "MAX_EVENT_BYTES = 4194304"
definition MAX_EVENTS :: nat where "MAX_EVENTS = 100000"

record ledger_reader = line_reader +
  decode_utf8 :: "nat list \<Rightarrow> string option"
  hash_bytes :: "nat list \<Rightarrow> string"

definition captureBytes :: "nat list \<Rightarrow> nat list option" where
  "captureBytes bytes = (if bytes = [] \<or> MAX_LEDGER_BYTES < length bytes then None else Some bytes)"

definition ledger_lines :: "string \<Rightarrow> string list option" where
  "ledger_lines text =
     (if text = [] \<or> last text \<noteq> newline_char then None
      else let lns = split_on newline_char (butlast text) in
        if MAX_EVENTS < length lns \<or> list_ex (\<lambda>l. l = [] \<or> MAX_EVENT_BYTES < utf8ByteLength l) lns then None else Some lns)"

definition captured_text :: "ledger_reader \<Rightarrow> nat list \<Rightarrow> string option" where
  "captured_text rd bytes =
     (case captureBytes bytes of None \<Rightarrow> None | Some owned \<Rightarrow> decode_utf8 rd owned)"

definition captured_lines :: "ledger_reader \<Rightarrow> nat list \<Rightarrow> string list option" where
  "captured_lines rd bytes =
     (case captured_text rd bytes of None \<Rightarrow> None | Some text \<Rightarrow> ledger_lines text)"

text \<open>The value of every line, or the number of the first line that has none.\<close>

definition read_values :: "ledger_reader \<Rightarrow> string list \<Rightarrow> nat + json list" where
  "read_values rd lns =
     (let read = read_event_line (line_reader.truncate rd) in
      case scan (\<lambda>_ l. require (read l \<noteq> None) ()) lns of
        Some (i, _) \<Rightarrow> Inl (i + 1)
      | None \<Rightarrow> Inr (map (\<lambda>l. own (read l)) lns))"

definition read_ledger :: "ledger_reader \<Rightarrow> nat list \<Rightarrow> nat option + json list" where
  "read_ledger rd bytes =
     (case captured_lines rd bytes of
        None \<Rightarrow> Inl None
      | Some lns \<Rightarrow> map_sum Some id (read_values rd lns))"

lemma scan_all: "scan (\<lambda>_ x. require (P x) ()) xs = None \<longleftrightarrow> (\<forall>x \<in> set xs. P x)"
  by (simp add: scan_None all_set_conv_all_nth)

lemma read_values_length: "read_values rd lns = Inr vs \<Longrightarrow> length vs = length lns"
  by (auto simp: read_values_def Let_def split: option.splits)

lemma read_ledger_Inr:
  "read_ledger rd bytes = Inr vs \<longleftrightarrow>
     (\<exists>lns. captured_lines rd bytes = Some lns \<and> read_values rd lns = Inr vs)"
proof (cases "captured_lines rd bytes")
  case (Some lns)
  then show ?thesis by (cases "read_values rd lns") (simp_all add: read_ledger_def)
qed (simp add: read_ledger_def)

lemma ledger_lines_nonempty: "ledger_lines text = Some lns \<Longrightarrow> lns \<noteq> [] \<and> [] \<notin> set lns"
  by (auto simp: ledger_lines_def Let_def list_ex_iff split_on_not_Nil split: if_splits)

end
