(* ===== verification/Event_Schema_V03.thy ===== *)
theory Event_Schema_V03
  imports Event_Schema_V02
begin

text \<open>
  The events of the ledger, version 0.3 (\<open>src/schema/runtime-v03.ts\<close>): those of version 0.2 under
  the new version, and five more. \<open>withV03Version\<close> replaces the schema of the version field and
  keeps the conditions of the event, none of which reads that field.
\<close>

fun set_field :: "string \<Rightarrow> json \<Rightarrow> json \<Rightarrow> json" where
  "set_field k x (JObj fs) = JObj (map (\<lambda>(j, y). (j, if j = k then x else y)) fs)"
| "set_field k x v = v"

definition with_version :: "string \<Rightarrow> schema \<Rightarrow> schema" where
  "with_version ver s v \<longleftrightarrow>
     jget v ''schema_version'' = Some (JStr ver) \<and> s (set_field ''schema_version'' (JStr ''0.2'') v)"

lemma jget_set_field: "jget (set_field k x v) j = (if j = k then map_option (\<lambda>_. x) (jget v k) else jget v j)"
proof (cases v)
  case (JObj fs)
  then show ?thesis by (induction fs arbitrary: v) auto
qed simp_all

definition RuntimeSchemaInventoryV03 :: schema where
  "RuntimeSchemaInventoryV03 =
     strictObject
       [(''resolved_run_plan'', z_literal (JStr ''0.2'')), (''ledger_event'', z_literal (JStr ''0.3'')),
        (''run_manifest'', z_literal (JStr ''0.3'')), (''artifact_manifest'', z_literal (JStr ''0.2'')),
        (''redaction_derivative'', z_literal (JStr ''0.2'')),
        (''human_authorization_proof'', z_literal (JStr ''0.2'')),
        (''authority_envelope'', z_literal (JStr ''0.2'')), (''agency_recommendation'', z_literal (JStr ''0.2'')),
        (''authority_revocation'', z_literal (JStr ''0.2'')), (''task_result'', z_literal (JStr ''0.2'')),
        (''manual_observation'', z_literal (JStr ''0.2'')), (''export_decision'', z_literal (JStr ''0.2'')),
        (''evidence_item'', z_literal (JStr ''0.2'')), (''gate_result'', z_literal (JStr ''0.2'')),
        (''evaluation_result'', z_literal (JStr ''0.2'')), (''claim'', z_literal (JStr ''0.2'')),
        (''finding'', z_literal (JStr ''0.2'')), (''waiver'', z_literal (JStr ''0.2'')),
        (''gate_waiver_authority'', z_literal (JStr ''0.2''))]"

definition RuntimeEventEnvelopeV03_shape :: "schema_env \<Rightarrow> shape" where
  "RuntimeEventEnvelopeV03_shape env =
     [(''schema_version'', z_literal (JStr ''0.3'')), (''event_id'', z_string MachineIdV02),
      (''run_id'', z_string MachineIdV02), (''sequence'', safe_positive), (''recorded_at'', z_time env),
      (''source'', RuntimeLedgerSourceV02), (''authority_ref'', z_nullable (z_string MachineIdV02)),
      (''risk_tier'', z_enum RiskTier), (''related_ids'', Utf8SortedUniqueStrings),
      (''previous_event_hash'', z_nullable (z_string Hash)), (''event_hash'', z_string Hash)]"

definition event_schema_V03 :: "schema_env \<Rightarrow> string \<Rightarrow> schema \<Rightarrow> schema" where
  "event_schema_V03 env type payload =
     strictObject (RuntimeEventEnvelopeV03_shape env @ [(''event_type'', z_literal (JStr type)), (''payload'', payload)])"

definition RunInitializedEventV03 :: "schema_env \<Rightarrow> schema" where
  "RunInitializedEventV03 env =
     refined
       (event_schema_V03 env ''run.initialized''
          (strictObject
             [(''plan_hash'', z_string Hash), (''initial_fence_epoch'', z_literal (JInt 0)),
              (''runtime_schema_versions'', RuntimeSchemaInventoryV03)]))
       (\<lambda>v. source_is v ''kernel'' \<and> no_authority v \<and>
         jget v ''sequence'' = Some (JInt 1) \<and> is_null (jget v ''previous_event_hash''))"

definition ledger_refs_step :: "json \<Rightarrow> json \<Rightarrow> bool" where
  "ledger_refs_step x y \<longleftrightarrow>
     (let m = int_at (jget x ''ledger_sequence''); n = int_at (jget y ''ledger_sequence'') in
      \<not> (m > n \<or> m = n \<and> text_of (jget y ''event_hash'') \<le> text_of (jget x ''event_hash'')))"

definition CanonicalLedgerRefsV03 :: schema where
  "CanonicalLedgerRefsV03 =
     refined (z_array_of (\<lambda>k. k = 1) LedgerRefV02) (\<lambda>v. adjacent ledger_refs_step (items (Some v)))"

subsection \<open>The events of version 0.2\<close>

definition RunClockObservedEventV03 :: "schema_env \<Rightarrow> schema" where
  "RunClockObservedEventV03 env =
     with_version ''0.3'' (RunClockObservedEventV02 env)"

definition RunFenceAdvancedEventV03 :: "schema_env \<Rightarrow> schema" where
  "RunFenceAdvancedEventV03 env =
     with_version ''0.3'' (RunFenceAdvancedEventV02 env)"

definition ControlAbortRequestedEventV03 :: "schema_env \<Rightarrow> schema" where
  "ControlAbortRequestedEventV03 env =
     with_version ''0.3'' (ControlAbortRequestedEventV02 env)"

definition GateResultRequiredEventV03 :: "schema_env \<Rightarrow> schema" where
  "GateResultRequiredEventV03 env =
     with_version ''0.3'' (GateResultRequiredEventV02 env)"

definition GateResultRecordedEventV03 :: "schema_env \<Rightarrow> schema" where
  "GateResultRecordedEventV03 env =
     with_version ''0.3'' (GateResultRecordedEventV02 env)"

definition EvaluationResultRequiredEventV03 :: "schema_env \<Rightarrow> schema" where
  "EvaluationResultRequiredEventV03 env =
     with_version ''0.3'' (EvaluationResultRequiredEventV02 env)"

definition EvaluationResultRecordedEventV03 :: "schema_env \<Rightarrow> schema" where
  "EvaluationResultRecordedEventV03 env =
     with_version ''0.3'' (EvaluationResultRecordedEventV02 env)"

definition AuthorityHumanAuthorizationRecordedEventV03 :: "schema_env \<Rightarrow> schema" where
  "AuthorityHumanAuthorizationRecordedEventV03 env =
     with_version ''0.3'' (AuthorityHumanAuthorizationRecordedEventV02 env)"

definition AuthorityEnvelopeRecordedEventV03 :: "schema_env \<Rightarrow> schema" where
  "AuthorityEnvelopeRecordedEventV03 env =
     with_version ''0.3'' (AuthorityEnvelopeRecordedEventV02 env)"

definition ApprovalRecommendationRecordedEventV03 :: "schema_env \<Rightarrow> schema" where
  "ApprovalRecommendationRecordedEventV03 env =
     with_version ''0.3'' (ApprovalRecommendationRecordedEventV02 env)"

definition PolicyDecisionRecordedEventV03 :: "schema_env \<Rightarrow> schema" where
  "PolicyDecisionRecordedEventV03 env =
     with_version ''0.3'' (PolicyDecisionRecordedEventV02 env)"

definition AuthorityWaiverRecordedEventV03 :: "schema_env \<Rightarrow> schema" where
  "AuthorityWaiverRecordedEventV03 env =
     with_version ''0.3'' (AuthorityWaiverRecordedEventV02 env)"

definition AuthorityGrantRevokedEventV03 :: "schema_env \<Rightarrow> schema" where
  "AuthorityGrantRevokedEventV03 env =
     with_version ''0.3'' (AuthorityGrantRevokedEventV02 env)"

definition EvidenceRecordedEventV03 :: "schema_env \<Rightarrow> schema" where
  "EvidenceRecordedEventV03 env =
     with_version ''0.3'' (EvidenceRecordedEventV02 env)"

definition ObservationManualRecordedEventV03 :: "schema_env \<Rightarrow> schema" where
  "ObservationManualRecordedEventV03 env =
     with_version ''0.3'' (ObservationManualRecordedEventV02 env)"

definition ClaimRecordedEventV03 :: "schema_env \<Rightarrow> schema" where
  "ClaimRecordedEventV03 env =
     with_version ''0.3'' (ClaimRecordedEventV02 env)"

definition FindingRecordedEventV03 :: "schema_env \<Rightarrow> schema" where
  "FindingRecordedEventV03 env =
     with_version ''0.3'' (FindingRecordedEventV02 env)"

definition WaiverRecordedEventV03 :: "schema_env \<Rightarrow> schema" where
  "WaiverRecordedEventV03 env =
     with_version ''0.3'' (WaiverRecordedEventV02 env)"

definition LeaseIssuedEventV03 :: "schema_env \<Rightarrow> schema" where
  "LeaseIssuedEventV03 env =
     with_version ''0.3'' (LeaseIssuedEventV02 env)"

definition TaskActionAdmittedEventV03 :: "schema_env \<Rightarrow> schema" where
  "TaskActionAdmittedEventV03 env =
     with_version ''0.3'' (TaskActionAdmittedEventV02 env)"

definition ToolCallAdmittedEventV03 :: "schema_env \<Rightarrow> schema" where
  "ToolCallAdmittedEventV03 env =
     with_version ''0.3'' (ToolCallAdmittedEventV02 env)"

definition ArtifactWriteAdmittedEventV03 :: "schema_env \<Rightarrow> schema" where
  "ArtifactWriteAdmittedEventV03 env =
     with_version ''0.3'' (ArtifactWriteAdmittedEventV02 env)"

definition LimitAdmissionBlockedEventV03 :: "schema_env \<Rightarrow> schema" where
  "LimitAdmissionBlockedEventV03 env =
     with_version ''0.3'' (LimitAdmissionBlockedEventV02 env)"

definition TaskExecutionStartedEventV03 :: "schema_env \<Rightarrow> schema" where
  "TaskExecutionStartedEventV03 env =
     with_version ''0.3'' (TaskExecutionStartedEventV02 env)"

definition TaskExecutionCompletedEventV03 :: "schema_env \<Rightarrow> schema" where
  "TaskExecutionCompletedEventV03 env =
     with_version ''0.3'' (TaskExecutionCompletedEventV02 env)"

definition TaskProgressFactRecordedEventV03 :: "schema_env \<Rightarrow> schema" where
  "TaskProgressFactRecordedEventV03 env =
     with_version ''0.3'' (TaskProgressFactRecordedEventV02 env)"

definition TaskExecutionFailedEventV03 :: "schema_env \<Rightarrow> schema" where
  "TaskExecutionFailedEventV03 env =
     with_version ''0.3'' (TaskExecutionFailedEventV02 env)"

definition TaskActionOutcomeUnknownEventV03 :: "schema_env \<Rightarrow> schema" where
  "TaskActionOutcomeUnknownEventV03 env =
     with_version ''0.3'' (TaskActionOutcomeUnknownEventV02 env)"

definition TaskActionOutcomeReconciledEventV03 :: "schema_env \<Rightarrow> schema" where
  "TaskActionOutcomeReconciledEventV03 env =
     with_version ''0.3'' (TaskActionOutcomeReconciledEventV02 env)"

definition ArtifactRecordedEventV03 :: "schema_env \<Rightarrow> schema" where
  "ArtifactRecordedEventV03 env =
     with_version ''0.3'' (ArtifactRecordedEventV02 env)"

definition RecordRedactionDerivativeRecordedEventV03 :: "schema_env \<Rightarrow> schema" where
  "RecordRedactionDerivativeRecordedEventV03 env =
     with_version ''0.3'' (RecordRedactionDerivativeRecordedEventV02 env)"

definition RecordCustodyStateRecordedEventV03 :: "schema_env \<Rightarrow> schema" where
  "RecordCustodyStateRecordedEventV03 env =
     with_version ''0.3'' (RecordCustodyStateRecordedEventV02 env)"

definition RecordExportDecisionRecordedEventV03 :: "schema_env \<Rightarrow> schema" where
  "RecordExportDecisionRecordedEventV03 env =
     with_version ''0.3'' (RecordExportDecisionRecordedEventV02 env)"

definition EffectOutcomeEventV03 :: "schema_env \<Rightarrow> schema" where
  "EffectOutcomeEventV03 env =
     with_version ''0.3'' (EffectOutcomeEventV02 env)"

definition TaskActionSettledEventV03 :: "schema_env \<Rightarrow> schema" where
  "TaskActionSettledEventV03 env =
     with_version ''0.3'' (TaskActionSettledEventV02 env)"

definition LoopAttemptCompletedEventV03 :: "schema_env \<Rightarrow> schema" where
  "LoopAttemptCompletedEventV03 env =
     with_version ''0.3'' (LoopAttemptCompletedEventV02 env)"

definition TaskProgressObservedEventV03 :: "schema_env \<Rightarrow> schema" where
  "TaskProgressObservedEventV03 env =
     with_version ''0.3'' (TaskProgressObservedEventV02 env)"

definition RunTerminalFreezeEnteredEventV03 :: "schema_env \<Rightarrow> schema" where
  "RunTerminalFreezeEnteredEventV03 env =
     with_version ''0.3'' (RunTerminalFreezeEnteredEventV02 env)"

definition RunTerminalFreezeRevisedEventV03 :: "schema_env \<Rightarrow> schema" where
  "RunTerminalFreezeRevisedEventV03 env =
     with_version ''0.3'' (RunTerminalFreezeRevisedEventV02 env)"

definition RunCompensationRequestedEventV03 :: "schema_env \<Rightarrow> schema" where
  "RunCompensationRequestedEventV03 env =
     with_version ''0.3'' (RunCompensationRequestedEventV02 env)"

definition RunCompensationRequestRevisedEventV03 :: "schema_env \<Rightarrow> schema" where
  "RunCompensationRequestRevisedEventV03 env =
     with_version ''0.3'' (RunCompensationRequestRevisedEventV02 env)"

definition RunCompensationPhaseEnteredEventV03 :: "schema_env \<Rightarrow> schema" where
  "RunCompensationPhaseEnteredEventV03 env =
     with_version ''0.3'' (RunCompensationPhaseEnteredEventV02 env)"

definition RunCompensationCandidateEscalatedEventV03 :: "schema_env \<Rightarrow> schema" where
  "RunCompensationCandidateEscalatedEventV03 env =
     with_version ''0.3'' (RunCompensationCandidateEscalatedEventV02 env)"

definition CompensationSettledEventV03 :: "schema_env \<Rightarrow> schema" where
  "CompensationSettledEventV03 env =
     with_version ''0.3'' (CompensationSettledEventV02 env)"

definition RunTerminalSealedEventV03 :: "schema_env \<Rightarrow> schema" where
  "RunTerminalSealedEventV03 env =
     with_version ''0.3'' (RunTerminalSealedEventV02 env)"

subsection \<open>The events of version 0.3\<close>

definition RunStartedEventV03 :: "schema_env \<Rightarrow> schema" where
  "RunStartedEventV03 env =
     refined
       (event_schema_V03 env ''run.started''
          (strictObject [(''executor_profile_hash'', z_string Hash)]))
       (\<lambda>v. source_is v ''kernel'' \<and> no_authority v)"

definition RunPausedEventV03 :: "schema_env \<Rightarrow> schema" where
  "RunPausedEventV03 env =
     refined
       (event_schema_V03 env ''run.paused''
          (z_discriminated ''requested_by''
             [strictObject
                [(''requested_by'', z_literal (JStr ''operator'')), (''reason_code'', z_literal (JStr ''operator-request'')),
                 (''request_event_ref'', LedgerRefV02)],
              strictObject
                [(''requested_by'', z_literal (JStr ''policy'')), (''reason_code'', z_literal (JStr ''policy-hold'')),
                 (''request_event_ref'', LedgerRefV02)]]))
       (\<lambda>v. source_is v (if is_text (pay v ''requested_by'') ''operator'' then ''operator'' else ''policy-enforcement-point'') \<and> \<not> no_authority v)"

definition RunQuarantinedEventV03 :: "schema_env \<Rightarrow> schema" where
  "RunQuarantinedEventV03 env =
     refined
       (event_schema_V03 env ''run.quarantined''
          (strictObject
             [(''reason_code'', z_enum [''unmatched-observation'', ''authority-breach'', ''capture-gap'']),
              (''evidence_refs'', CanonicalLedgerRefsV03)]))
       (\<lambda>v. source_is v ''integrity'' \<and> no_authority v)"

definition ProcessTerminationAttemptedEventV03 :: "schema_env \<Rightarrow> schema" where
  "ProcessTerminationAttemptedEventV03 env =
     refined
       (event_schema_V03 env ''process.termination-attempted''
          (strictObject
             [(''trigger'', z_enum [''abort'', ''quarantine'']), (''trigger_event_ref'', LedgerRefV02),
              (''action_admission_event_ref'', LedgerRefV02), (''adapter_invocation_id'', z_string MachineIdV02),
              (''host_identity_hash'', z_string Hash), (''boot_id_hash'', z_string Hash),
              (''unit_name_hash'', z_string Hash), (''cgroup_path_hash'', z_string Hash),
              (''termination_request_hash'', z_string Hash), (''termination_observation_hash'', z_string Hash),
              (''observed_outcome'', z_enum [''terminated'', ''not-terminated'', ''unknown''])]))
       (\<lambda>v. source_is v ''adapter'' \<and> no_authority v)"

definition IntegrityObservationRejectedEventV03 :: "schema_env \<Rightarrow> schema" where
  "IntegrityObservationRejectedEventV03 env =
     refined
       (event_schema_V03 env ''integrity.observation-rejected''
          (strictObject
             [(''reason_code'', z_enum [''unmatched-observation'', ''authority-breach'', ''capture-gap'']),
              (''observation_hash'', z_string Hash), (''adapter_invocation_id'', z_nullable (z_string MachineIdV02)),
              (''claimed_action_id'', z_nullable (z_string MachineIdV02))]))
       (\<lambda>v. source_is v ''integrity'' \<and> no_authority v \<and>
         (is_text (pay v ''reason_code'') ''capture-gap'' \<longrightarrow> \<not> is_null (pay v ''adapter_invocation_id'')) \<and>
         (\<not> is_text (pay v ''reason_code'') ''capture-gap'' \<longrightarrow>
            \<not> (is_null (pay v ''adapter_invocation_id'') \<and> is_null (pay v ''claimed_action_id''))))"

definition RuntimeEventV03 :: "schema_env \<Rightarrow> schema" where
  "RuntimeEventV03 env =
     z_discriminated ''event_type''
       [RunInitializedEventV03 env,
        RunClockObservedEventV03 env,
        RunFenceAdvancedEventV03 env,
        ControlAbortRequestedEventV03 env,
        GateResultRequiredEventV03 env,
        GateResultRecordedEventV03 env,
        EvaluationResultRequiredEventV03 env,
        EvaluationResultRecordedEventV03 env,
        AuthorityHumanAuthorizationRecordedEventV03 env,
        AuthorityEnvelopeRecordedEventV03 env,
        ApprovalRecommendationRecordedEventV03 env,
        PolicyDecisionRecordedEventV03 env,
        AuthorityWaiverRecordedEventV03 env,
        AuthorityGrantRevokedEventV03 env,
        EvidenceRecordedEventV03 env,
        ObservationManualRecordedEventV03 env,
        ClaimRecordedEventV03 env,
        FindingRecordedEventV03 env,
        WaiverRecordedEventV03 env,
        LeaseIssuedEventV03 env,
        TaskActionAdmittedEventV03 env,
        ToolCallAdmittedEventV03 env,
        ArtifactWriteAdmittedEventV03 env,
        LimitAdmissionBlockedEventV03 env,
        TaskExecutionStartedEventV03 env,
        TaskExecutionCompletedEventV03 env,
        TaskProgressFactRecordedEventV03 env,
        TaskExecutionFailedEventV03 env,
        TaskActionOutcomeUnknownEventV03 env,
        TaskActionOutcomeReconciledEventV03 env,
        ArtifactRecordedEventV03 env,
        RecordRedactionDerivativeRecordedEventV03 env,
        RecordCustodyStateRecordedEventV03 env,
        RecordExportDecisionRecordedEventV03 env,
        EffectOutcomeEventV03 env,
        TaskActionSettledEventV03 env,
        LoopAttemptCompletedEventV03 env,
        TaskProgressObservedEventV03 env,
        RunTerminalFreezeEnteredEventV03 env,
        RunTerminalFreezeRevisedEventV03 env,
        RunCompensationRequestedEventV03 env,
        RunCompensationRequestRevisedEventV03 env,
        RunCompensationPhaseEnteredEventV03 env,
        RunCompensationCandidateEscalatedEventV03 env,
        CompensationSettledEventV03 env,
        RunTerminalSealedEventV03 env,
        RunStartedEventV03 env,
        RunPausedEventV03 env,
        RunQuarantinedEventV03 env,
        ProcessTerminationAttemptedEventV03 env,
        IntegrityObservationRejectedEventV03 env]"

end
