(* ===== verification/Ledger_V03.thy ===== *)
theory Ledger_V03
  imports Ledger_Text Event_Schema_V03 Reducer_V03
begin

text \<open>
  The inspection of a ledger of version 0.3 (\<open>src/run/runtime-ledger-v03.ts\<close>): the schema of each
  event, one pass over the chain with the rules of rejected observations, seal, quarantine and
  termination, then the history rules of version 0.2 and the reduction of the events.
\<close>

subsection \<open>Events of the reducer\<close>

definition trigger3_named :: "string \<Rightarrow> trigger3" where
  "trigger3_named s = (if s = ''abort'' then AbortTrigger else QuarantineTrigger)"

definition body3_of :: "json \<Rightarrow> body3" where
  "body3_of e =
     (let type = ev_type e; action = text_of (pay e ''action_id'') in
      if type = ''run.initialized'' then RunInitialized3
      else if type = ''run.started'' then RunStarted3
      else if type = ''task.action-admitted'' then ActionAdmitted3 action
      else if type = ''task.action-settled'' then ActionSettled3 action
      else if type = ''run.paused'' then RunPaused3
      else if type = ''run.quarantined'' then RunQuarantined3
      else if type = ''integrity.observation-rejected'' then ObservationRejected3
      else if type = ''authority.grant-revoked'' then GrantRevoked3
      else if type = ''control.abort-requested'' then AbortRequested3
      else if type = ''run.terminal-freeze-entered'' then FreezeEntered3
      else if type = ''process.termination-attempted''
      then TerminationAttempted3 (trigger3_named (text_of (pay e ''trigger''))) (key_ref (pay e ''trigger_event_ref''))
      else if type = ''run.terminal-sealed'' then TerminalSealed3
      else OtherEvent3 type)"

definition event3_of :: "json \<Rightarrow> event3" where
  "event3_of e = \<lparr>e3_sequence = seq_of e, e3_hash = hash_of e, e3_body = body3_of e\<rparr>"

subsection \<open>History\<close>

datatype v03_issue =
    NotInitialized3 | Chain3 chain_fault | EarlierRefMissing3 | RejectedObservationUsed
  | SealNotAdjacent3 | QuarantineNotAdjacent3 | TerminationNotAdmitted
  | Inherited "history_fault + control_fault"

text \<open>
  A reference names an earlier event; only a quarantine may name a rejected observation. The
  event at the place of the reference has its hash, since it is an earlier one.
\<close>

definition ref_issue3 :: "json list \<Rightarrow> nat \<Rightarrow> json \<Rightarrow> int \<times> string \<Rightarrow> v03_issue option" where
  "ref_issue3 es i e r =
     first_some
       [require (fst r < seq_of e \<and> r \<in> set (map key_of (take i es))) EarlierRefMissing3,
        require (ev_type e = ''run.quarantined'' \<or>
                 \<not> list_ex (\<lambda>x. key_of x = r \<and> ev_type x = ''integrity.observation-rejected'') (take i es)) RejectedObservationUsed]"

definition preceded :: "json list \<Rightarrow> nat \<Rightarrow> (json \<Rightarrow> bool) \<Rightarrow> bool" where
  "preceded es i p \<longleftrightarrow> 0 < i \<and> p (es ! (i - 1))"

definition seal_issue3 :: "json list \<Rightarrow> nat \<Rightarrow> json \<Rightarrow> v03_issue option" where
  "seal_issue3 es i e =
     require (ev_type e = ''run.terminal-sealed'' \<longrightarrow>
       preceded es i (\<lambda>y. pay e ''pre_seal_ledger_sequence'' = jget y ''sequence'' \<and>
                          pay e ''pre_seal_ledger_head_hash'' = jget y ''event_hash'')) SealNotAdjacent3"

definition names_rejection :: "json \<Rightarrow> json \<Rightarrow> bool" where
  "names_rejection e y \<longleftrightarrow>
     ev_type y = ''integrity.observation-rejected'' \<and>
     (case items (pay e ''evidence_refs'') of
        [] \<Rightarrow> False
      | r # _ \<Rightarrow> jget r ''ledger_sequence'' = jget y ''sequence'' \<and> jget r ''event_hash'' = jget y ''event_hash'') \<and>
     pay e ''reason_code'' = pay y ''reason_code''"

definition quarantine_issue3 :: "json list \<Rightarrow> nat \<Rightarrow> json \<Rightarrow> v03_issue option" where
  "quarantine_issue3 es i e =
     require (ev_type e = ''run.quarantined'' \<longrightarrow> preceded es i (names_rejection e)) QuarantineNotAdjacent3"

text \<open>The references of the payload are earlier events by now, so the place of the admission is in the ledger.\<close>

definition termination_issue3 :: "json list \<Rightarrow> json \<Rightarrow> v03_issue option" where
  "termination_issue3 es e =
     require (ev_type e = ''process.termination-attempted'' \<longrightarrow>
       (let r = pay e ''action_admission_event_ref''; n = int_at (attr r ''ledger_sequence'') in
        1 \<le> n \<and> n \<le> int (length es) \<and> jget (es ! nat (n - 1)) ''event_hash'' = attr r ''event_hash'' \<and>
        ev_type (es ! nat (n - 1)) = ''task.action-admitted'')) TerminationNotAdmitted"

definition event_issue3 :: "schema_env \<Rightarrow> json list \<Rightarrow> nat \<Rightarrow> json \<Rightarrow> v03_issue option" where
  "event_issue3 env es i e =
     first_some
       [map_option Chain3 (link_fault es i e),
        map_option Chain3 (hash_fault env i e),
        require (jget e ''run_id'' = jget (es ! 0) ''run_id'') (Chain3 RunMismatch),
        require (jget e ''event_id'' \<notin> (\<lambda>x. jget x ''event_id'') ` set (take i es)) (Chain3 EventIdReused),
        require (copied_ok (pay e ''run_id'') (jget (es ! 0) ''run_id'')) (Chain3 CopiedRunMismatch),
        require (copied_ok (pay e ''plan_hash'') (pay (es ! 0) ''plan_hash'')) (Chain3 CopiedPlanMismatch),
        first_some (map (ref_issue3 es i e) (payload_refs e)),
        seal_issue3 es i e,
        quarantine_issue3 es i e,
        termination_issue3 es e]"

datatype ledger_failure3 =
    SyntaxInvalid3 "nat option"
  | SchemaInvalid3 nat
  | HistoryInvalid3 nat v03_issue
  | TransitionInvalid3 nat refusal3

definition failure_reason3 :: "ledger_failure3 \<Rightarrow> string" where
  "failure_reason3 f =
     (case f of
        SyntaxInvalid3 _ \<Rightarrow> ''LEDGER_SYNTAX_INVALID''
      | SchemaInvalid3 _ \<Rightarrow> ''LEDGER_EVENT_SCHEMA_INVALID''
      | HistoryInvalid3 _ x \<Rightarrow>
          if x \<in> Chain3 ` {SequenceNotContiguous, PreviousHashMismatch, EventHashMismatch} then ''LEDGER_HASH_CHAIN_INVALID''
          else ''LEDGER_HISTORY_INVALID''
      | TransitionInvalid3 _ _ \<Rightarrow> ''LEDGER_TRANSITION_INVALID'')"

definition validateRuntimeLedgerHistoryV03 :: "schema_env \<Rightarrow> json list \<Rightarrow> ledger_failure3 + reducer3" where
  "validateRuntimeLedgerHistoryV03 env es =
     (if es = [] \<or> ev_type (es ! 0) \<noteq> ''run.initialized'' then Inl (HistoryInvalid3 0 NotInitialized3)
      else case scan (event_issue3 env es) es of
        Some (i, f) \<Rightarrow> Inl (HistoryInvalid3 i f)
      | None \<Rightarrow>
          (case validateRuntimeLedgerHistoryV02 es of
             Some (i, f) \<Rightarrow> Inl (HistoryInvalid3 i (Inherited f))
           | None \<Rightarrow>
               (case reduceRuntimeEventPrefixV03 (map event3_of es) of
                  Inl (i, f) \<Rightarrow> Inl (TransitionInvalid3 i f)
                | Inr s \<Rightarrow> Inr s)))"

definition validateRuntimeLedgerEventsV03 :: "schema_env \<Rightarrow> json list \<Rightarrow> ledger_failure3 + reducer3" where
  "validateRuntimeLedgerEventsV03 env es =
     (case scan (\<lambda>_ e. require (RuntimeEventV03 env e) ()) es of
        Some (i, _) \<Rightarrow> Inl (SchemaInvalid3 i)
      | None \<Rightarrow> validateRuntimeLedgerHistoryV03 env es)"

subsection \<open>The ledger\<close>

record validated_ledger3 =
  v3_run :: string
  v3_plan :: string
  v3_events :: "json list"
  v3_sequence :: nat
  v3_head :: string
  v3_bytes_hash :: string
  v3_sealed :: bool
  v3_state :: reducer3

definition validated3 :: "ledger_reader \<Rightarrow> nat list \<Rightarrow> json list \<Rightarrow> reducer3 \<Rightarrow> validated_ledger3" where
  "validated3 rd bytes es s =
     \<lparr>v3_run = text_of (jget (es ! 0) ''run_id''), v3_plan = text_of (pay (es ! 0) ''plan_hash''), v3_events = es,
      v3_sequence = length es, v3_head = hash_of (last es), v3_bytes_hash = hash_bytes rd bytes,
      v3_sealed = is_seal (last es), v3_state = s\<rparr>"

definition inspectRuntimeLedgerV03 :: "ledger_reader \<Rightarrow> schema_env \<Rightarrow> nat list \<Rightarrow> ledger_failure3 + validated_ledger3" where
  "inspectRuntimeLedgerV03 rd env bytes =
     (case read_ledger rd bytes of
        Inl at_line \<Rightarrow> Inl (SyntaxInvalid3 at_line)
      | Inr es \<Rightarrow>
          (case validateRuntimeLedgerEventsV03 env es of
             Inl f \<Rightarrow> Inl f
           | Inr s \<Rightarrow> Inr (validated3 rd bytes es s)))"

subsection \<open>Laws\<close>

lemma validateRuntimeLedgerEventsV03_Inr:
  "validateRuntimeLedgerEventsV03 env es = Inr s \<longleftrightarrow>
     (\<forall>e \<in> set es. RuntimeEventV03 env e) \<and> es \<noteq> [] \<and> ev_type (es ! 0) = ''run.initialized'' \<and>
     scan (event_issue3 env es) es = None \<and> validateRuntimeLedgerHistoryV02 es = None \<and>
     reduceRuntimeEventPrefixV03 (map event3_of es) = Inr s"
proof -
  let ?schemas = "scan (\<lambda>_ e. require (RuntimeEventV03 env e) ()) es"
  have schemas: "(case ?schemas of Some (i, _) \<Rightarrow> Inl (SchemaInvalid3 i) | None \<Rightarrow> r) = Inr s \<longleftrightarrow>
      (\<forall>e \<in> set es. RuntimeEventV03 env e) \<and> r = Inr s" for r :: "ledger_failure3 + reducer3"
    unfolding scan_all [symmetric] by (cases ?schemas) (simp_all split: prod.split)
  have history: "validateRuntimeLedgerHistoryV03 env es = Inr s \<longleftrightarrow>
      es \<noteq> [] \<and> ev_type (es ! 0) = ''run.initialized'' \<and> scan (event_issue3 env es) es = None \<and>
      validateRuntimeLedgerHistoryV02 es = None \<and> reduceRuntimeEventPrefixV03 (map event3_of es) = Inr s"
    unfolding validateRuntimeLedgerHistoryV03_def by (simp split: option.split sum.split prod.split)
  show ?thesis
    unfolding validateRuntimeLedgerEventsV03_def schemas history by blast
qed

lemma inspect3_is_accepted:
  assumes "inspectRuntimeLedgerV03 rd env bytes = Inr l"
  obtains es where "read_ledger rd bytes = Inr es" "validateRuntimeLedgerEventsV03 env es = Inr (v3_state l)"
    "l = validated3 rd bytes es (v3_state l)"
proof (cases "read_ledger rd bytes")
  case (Inr es)
  then obtain s where s: "validateRuntimeLedgerEventsV03 env es = Inr s" "l = validated3 rd bytes es s"
    using assms by (cases "validateRuntimeLedgerEventsV03 env es") (simp_all add: inspectRuntimeLedgerV03_def)
  then show thesis using that Inr by (simp add: validated3_def)
qed (use assms in \<open>simp add: inspectRuntimeLedgerV03_def\<close>)

end
