(* ===== verification/Event_Schema_V04.thy ===== *)
theory Event_Schema_V04
  imports Event_Schema_V03
begin

text \<open>
  The events of the ledger, version 0.4 (\<open>src/schema/runtime-v04.ts\<close>): those of version 0.2 under
  the new version, those whose payload is extended by the attempt they belong to, and the
  events of attempts, ownership, recovery and compaction.
\<close>

definition compareLedgerRefs :: "json \<Rightarrow> json \<Rightarrow> int" where
  "compareLedgerRefs l r =
     (let m = int_at (jget l ''ledger_sequence''); n = int_at (jget r ''ledger_sequence'') in
      if m = n then compareRuntimeUtf8BytesV02 (text_of (jget l ''event_hash'')) (text_of (jget r ''event_hash'')) else m - n)"

definition canonicalLedgerRefs :: "nat \<Rightarrow> schema" where
  "canonicalLedgerRefs least =
     refined (z_array_min least LedgerRefV02) (\<lambda>v. adjacent (\<lambda>x y. compareLedgerRefs x y < 0) (items (Some v)))"

definition CanonicalLedgerRefsV04 :: schema where
  "CanonicalLedgerRefsV04 = canonicalLedgerRefs 0"

definition NonEmptyCanonicalLedgerRefsV04 :: schema where
  "NonEmptyCanonicalLedgerRefsV04 = canonicalLedgerRefs 1"

definition RuntimeSchemaInventoryV04 :: schema where
  "RuntimeSchemaInventoryV04 =
     strictObject
       [(''resolved_run_plan'', z_literal (JStr ''0.3'')), (''ledger_event'', z_literal (JStr ''0.4'')),
        (''run_manifest'', z_literal (JStr ''0.4'')), (''artifact_manifest'', z_literal (JStr ''0.2'')),
        (''redaction_derivative'', z_literal (JStr ''0.2'')),
        (''human_authorization_proof'', z_literal (JStr ''0.2'')),
        (''authority_envelope'', z_literal (JStr ''0.2'')), (''agency_recommendation'', z_literal (JStr ''0.2'')),
        (''authority_revocation'', z_literal (JStr ''0.2'')), (''task_result'', z_literal (JStr ''0.2'')),
        (''manual_observation'', z_literal (JStr ''0.2'')), (''export_decision'', z_literal (JStr ''0.2'')),
        (''evidence_item'', z_literal (JStr ''0.2'')), (''gate_result'', z_literal (JStr ''0.2'')),
        (''evaluation_result'', z_literal (JStr ''0.2'')), (''claim'', z_literal (JStr ''0.2'')),
        (''finding'', z_literal (JStr ''0.2'')), (''waiver'', z_literal (JStr ''0.2'')),
        (''gate_waiver_authority'', z_literal (JStr ''0.2'')), (''summary_artifact'', z_literal (JStr ''0.1''))]"

definition RuntimeEventEnvelopeV04_shape :: "schema_env \<Rightarrow> shape" where
  "RuntimeEventEnvelopeV04_shape env =
     [(''schema_version'', z_literal (JStr ''0.4'')), (''event_id'', z_string MachineIdV02),
      (''run_id'', z_string MachineIdV02), (''sequence'', safe_positive), (''recorded_at'', z_time env),
      (''source'', RuntimeLedgerSourceV02), (''authority_ref'', z_nullable (z_string MachineIdV02)),
      (''risk_tier'', z_enum RiskTier), (''related_ids'', Utf8SortedUniqueStrings),
      (''previous_event_hash'', z_nullable (z_string Hash)), (''event_hash'', z_string Hash)]"

definition event_schema_V04 :: "schema_env \<Rightarrow> string \<Rightarrow> schema \<Rightarrow> schema" where
  "event_schema_V04 env type payload =
     strictObject (RuntimeEventEnvelopeV04_shape env @ [(''event_type'', z_literal (JStr type)), (''payload'', payload)])"

definition RunInitializedEventV04 :: "schema_env \<Rightarrow> schema" where
  "RunInitializedEventV04 env =
     refined
       (event_schema_V04 env ''run.initialized''
          (strictObject
             [(''plan_hash'', z_string Hash), (''initial_fence_epoch'', z_literal (JInt 0)),
              (''runtime_schema_versions'', RuntimeSchemaInventoryV04)]))
       (\<lambda>v. source_is v ''kernel'' \<and> no_authority v \<and>
         jget v ''sequence'' = Some (JInt 1) \<and> is_null (jget v ''previous_event_hash''))"

definition ClockObservedCommonV04 :: "schema_env \<Rightarrow> shape" where
  "ClockObservedCommonV04 env =
     [(''clock_id'', z_string MachineIdV02), (''observed_at'', z_time env), (''elapsed_ms'', safe_nonnegative)]"

definition RunClockObservedPayloadV04 :: "schema_env \<Rightarrow> schema" where
  "RunClockObservedPayloadV04 env =
     z_discriminated ''reason''
       [strictObject
          (ClockObservedCommonV04 env @
          [(''reason'', z_literal (JStr ''action-admission'')), (''task_ref'', z_string HumanIdV02),
           (''failure_ordinal'', z_null), (''use_ref'', z_string MachineIdV02), (''attempt_ref'', LedgerRefV02),
           (''owner_lease_ref'', LedgerRefV02), (''boot_id_hash'', z_null), (''monotonic_clock_id'', z_null)]),
        strictObject
          (ClockObservedCommonV04 env @
          [(''reason'', z_literal (JStr ''retry-check'')), (''task_ref'', z_string HumanIdV02),
           (''failure_ordinal'', safe_positive), (''use_ref'', z_null), (''attempt_ref'', LedgerRefV02),
           (''owner_lease_ref'', LedgerRefV02), (''boot_id_hash'', z_null), (''monotonic_clock_id'', z_null)]),
        strictObject
          (ClockObservedCommonV04 env @
          [(''reason'', z_enum [''waiver-boundary'', ''terminal-use'']), (''task_ref'', z_null),
           (''failure_ordinal'', z_null), (''use_ref'', z_string MachineIdV02), (''attempt_ref'', z_null),
           (''owner_lease_ref'', z_null), (''boot_id_hash'', z_null), (''monotonic_clock_id'', z_null)]),
        strictObject
          (ClockObservedCommonV04 env @
          [(''reason'', z_enum [''recovery-request'', ''pause-request'']), (''task_ref'', z_null),
           (''failure_ordinal'', z_null), (''use_ref'', z_string MachineIdV02), (''attempt_ref'', LedgerRefV02),
           (''owner_lease_ref'', LedgerRefV02), (''boot_id_hash'', z_null), (''monotonic_clock_id'', z_null)]),
        strictObject
          (ClockObservedCommonV04 env @
          [(''reason'', z_literal (JStr ''run-owner-acquisition'')), (''task_ref'', z_null),
           (''failure_ordinal'', z_null), (''use_ref'', z_string MachineIdV02), (''attempt_ref'', z_null),
           (''owner_lease_ref'', z_null), (''boot_id_hash'', z_string Hash),
           (''monotonic_clock_id'', z_string MachineIdV02)]),
        strictObject
          (ClockObservedCommonV04 env @
          [(''reason'', z_enum [''owner-acquisition'', ''owner-heartbeat'', ''owner-release'', ''stale-owner-check'']),
           (''task_ref'', z_null), (''failure_ordinal'', z_null), (''use_ref'', z_string MachineIdV02),
           (''attempt_ref'', LedgerRefV02), (''owner_lease_ref'', LedgerRefV02), (''boot_id_hash'', z_string Hash),
           (''monotonic_clock_id'', z_string MachineIdV02)])]"

definition RunClockObservedEventV04 :: "schema_env \<Rightarrow> schema" where
  "RunClockObservedEventV04 env =
     refined
       (event_schema_V04 env ''run.clock-observed''
          (RunClockObservedPayloadV04 env))
       (\<lambda>v. source_is v ''kernel'' \<and> no_authority v)"

definition RunFenceAdvancedPayloadV04 :: schema where
  "RunFenceAdvancedPayloadV04 =
     strictObject
       [(''previous_fence_epoch'', safe_nonnegative), (''fence_epoch'', safe_positive),
        (''reason'', z_enum [''pause-request'', ''authority-revoked'', ''abort-request'', ''lease-revoked'']),
        (''evidence_refs'', CanonicalLedgerRefsV04), (''attempt_ref'', LedgerRefV02),
        (''owner_lease_refs'', NonEmptyCanonicalLedgerRefsV04)]"

definition RunFenceAdvancedEventV04 :: "schema_env \<Rightarrow> schema" where
  "RunFenceAdvancedEventV04 env =
     refined
       (event_schema_V04 env ''run.fence-advanced''
          RunFenceAdvancedPayloadV04)
       (\<lambda>v. source_is v ''policy-enforcement-point'' \<and> \<not> no_authority v \<and>
         incremented (pay v ''previous_fence_epoch'') (pay v ''fence_epoch''))"

subsection \<open>The events of version 0.2\<close>

definition ControlAbortRequestedEventV04 :: "schema_env \<Rightarrow> schema" where
  "ControlAbortRequestedEventV04 env =
     with_version ''0.4'' (ControlAbortRequestedEventV02 env)"

definition GateResultRequiredEventV04 :: "schema_env \<Rightarrow> schema" where
  "GateResultRequiredEventV04 env =
     with_version ''0.4'' (GateResultRequiredEventV02 env)"

definition GateResultRecordedEventV04 :: "schema_env \<Rightarrow> schema" where
  "GateResultRecordedEventV04 env =
     with_version ''0.4'' (GateResultRecordedEventV02 env)"

definition EvaluationResultRequiredEventV04 :: "schema_env \<Rightarrow> schema" where
  "EvaluationResultRequiredEventV04 env =
     with_version ''0.4'' (EvaluationResultRequiredEventV02 env)"

definition EvaluationResultRecordedEventV04 :: "schema_env \<Rightarrow> schema" where
  "EvaluationResultRecordedEventV04 env =
     with_version ''0.4'' (EvaluationResultRecordedEventV02 env)"

definition AuthorityHumanAuthorizationRecordedEventV04 :: "schema_env \<Rightarrow> schema" where
  "AuthorityHumanAuthorizationRecordedEventV04 env =
     with_version ''0.4'' (AuthorityHumanAuthorizationRecordedEventV02 env)"

definition AuthorityEnvelopeRecordedEventV04 :: "schema_env \<Rightarrow> schema" where
  "AuthorityEnvelopeRecordedEventV04 env =
     with_version ''0.4'' (AuthorityEnvelopeRecordedEventV02 env)"

definition ApprovalRecommendationRecordedEventV04 :: "schema_env \<Rightarrow> schema" where
  "ApprovalRecommendationRecordedEventV04 env =
     with_version ''0.4'' (ApprovalRecommendationRecordedEventV02 env)"

definition PolicyDecisionRecordedEventV04 :: "schema_env \<Rightarrow> schema" where
  "PolicyDecisionRecordedEventV04 env =
     with_version ''0.4'' (PolicyDecisionRecordedEventV02 env)"

definition AuthorityWaiverRecordedEventV04 :: "schema_env \<Rightarrow> schema" where
  "AuthorityWaiverRecordedEventV04 env =
     with_version ''0.4'' (AuthorityWaiverRecordedEventV02 env)"

definition AuthorityGrantRevokedEventV04 :: "schema_env \<Rightarrow> schema" where
  "AuthorityGrantRevokedEventV04 env =
     with_version ''0.4'' (AuthorityGrantRevokedEventV02 env)"

definition EvidenceRecordedEventV04 :: "schema_env \<Rightarrow> schema" where
  "EvidenceRecordedEventV04 env =
     with_version ''0.4'' (EvidenceRecordedEventV02 env)"

definition ObservationManualRecordedEventV04 :: "schema_env \<Rightarrow> schema" where
  "ObservationManualRecordedEventV04 env =
     with_version ''0.4'' (ObservationManualRecordedEventV02 env)"

definition ClaimRecordedEventV04 :: "schema_env \<Rightarrow> schema" where
  "ClaimRecordedEventV04 env =
     with_version ''0.4'' (ClaimRecordedEventV02 env)"

definition FindingRecordedEventV04 :: "schema_env \<Rightarrow> schema" where
  "FindingRecordedEventV04 env =
     with_version ''0.4'' (FindingRecordedEventV02 env)"

definition WaiverRecordedEventV04 :: "schema_env \<Rightarrow> schema" where
  "WaiverRecordedEventV04 env =
     with_version ''0.4'' (WaiverRecordedEventV02 env)"

definition ToolCallAdmittedEventV04 :: "schema_env \<Rightarrow> schema" where
  "ToolCallAdmittedEventV04 env =
     with_version ''0.4'' (ToolCallAdmittedEventV02 env)"

definition ArtifactWriteAdmittedEventV04 :: "schema_env \<Rightarrow> schema" where
  "ArtifactWriteAdmittedEventV04 env =
     with_version ''0.4'' (ArtifactWriteAdmittedEventV02 env)"

definition TaskExecutionStartedEventV04 :: "schema_env \<Rightarrow> schema" where
  "TaskExecutionStartedEventV04 env =
     with_version ''0.4'' (TaskExecutionStartedEventV02 env)"

definition TaskProgressFactRecordedEventV04 :: "schema_env \<Rightarrow> schema" where
  "TaskProgressFactRecordedEventV04 env =
     with_version ''0.4'' (TaskProgressFactRecordedEventV02 env)"

definition TaskActionOutcomeUnknownEventV04 :: "schema_env \<Rightarrow> schema" where
  "TaskActionOutcomeUnknownEventV04 env =
     with_version ''0.4'' (TaskActionOutcomeUnknownEventV02 env)"

definition ArtifactRecordedEventV04 :: "schema_env \<Rightarrow> schema" where
  "ArtifactRecordedEventV04 env =
     with_version ''0.4'' (ArtifactRecordedEventV02 env)"

definition RecordRedactionDerivativeRecordedEventV04 :: "schema_env \<Rightarrow> schema" where
  "RecordRedactionDerivativeRecordedEventV04 env =
     with_version ''0.4'' (RecordRedactionDerivativeRecordedEventV02 env)"

definition RecordCustodyStateRecordedEventV04 :: "schema_env \<Rightarrow> schema" where
  "RecordCustodyStateRecordedEventV04 env =
     with_version ''0.4'' (RecordCustodyStateRecordedEventV02 env)"

definition RecordExportDecisionRecordedEventV04 :: "schema_env \<Rightarrow> schema" where
  "RecordExportDecisionRecordedEventV04 env =
     with_version ''0.4'' (RecordExportDecisionRecordedEventV02 env)"

definition TaskActionSettledEventV04 :: "schema_env \<Rightarrow> schema" where
  "TaskActionSettledEventV04 env =
     with_version ''0.4'' (TaskActionSettledEventV02 env)"

definition LoopAttemptCompletedEventV04 :: "schema_env \<Rightarrow> schema" where
  "LoopAttemptCompletedEventV04 env =
     with_version ''0.4'' (LoopAttemptCompletedEventV02 env)"

definition TaskProgressObservedEventV04 :: "schema_env \<Rightarrow> schema" where
  "TaskProgressObservedEventV04 env =
     with_version ''0.4'' (TaskProgressObservedEventV02 env)"

definition RunTerminalFreezeEnteredEventV04 :: "schema_env \<Rightarrow> schema" where
  "RunTerminalFreezeEnteredEventV04 env =
     with_version ''0.4'' (RunTerminalFreezeEnteredEventV02 env)"

definition RunTerminalFreezeRevisedEventV04 :: "schema_env \<Rightarrow> schema" where
  "RunTerminalFreezeRevisedEventV04 env =
     with_version ''0.4'' (RunTerminalFreezeRevisedEventV02 env)"

definition RunCompensationRequestedEventV04 :: "schema_env \<Rightarrow> schema" where
  "RunCompensationRequestedEventV04 env =
     with_version ''0.4'' (RunCompensationRequestedEventV02 env)"

definition RunCompensationRequestRevisedEventV04 :: "schema_env \<Rightarrow> schema" where
  "RunCompensationRequestRevisedEventV04 env =
     with_version ''0.4'' (RunCompensationRequestRevisedEventV02 env)"

definition RunCompensationPhaseEnteredEventV04 :: "schema_env \<Rightarrow> schema" where
  "RunCompensationPhaseEnteredEventV04 env =
     with_version ''0.4'' (RunCompensationPhaseEnteredEventV02 env)"

definition RunCompensationCandidateEscalatedEventV04 :: "schema_env \<Rightarrow> schema" where
  "RunCompensationCandidateEscalatedEventV04 env =
     with_version ''0.4'' (RunCompensationCandidateEscalatedEventV02 env)"

definition CompensationSettledEventV04 :: "schema_env \<Rightarrow> schema" where
  "CompensationSettledEventV04 env =
     with_version ''0.4'' (CompensationSettledEventV02 env)"

definition RunTerminalSealedEventV04 :: "schema_env \<Rightarrow> schema" where
  "RunTerminalSealedEventV04 env =
     with_version ''0.4'' (RunTerminalSealedEventV02 env)"

subsection \<open>Leases, admissions and limits\<close>

definition recovery_bindings :: shape where
  "recovery_bindings =
     [(''attempt_event_ref'', LedgerRefV02), (''parent_run_owner_lease_id'', z_string MachineIdV02),
      (''logical_operation_idempotency_key'', z_string Hash), (''resolved_operation_input_hash'', z_string Hash),
      (''recovery_policy_hash'', z_string Hash), (''process_runtime_ceiling_ms'', safe_positive)]"

definition LeaseIssuedPayloadV04 :: "schema_env \<Rightarrow> schema" where
  "LeaseIssuedPayloadV04 env =
     z_discriminated ''action_approval_class''
       [strictObject
          (LeaseIssuedPayloadBaseV02 env @
          [(''policy_action_kind'', AutomaticPolicyActionKindV1), (''action_approval_class'', z_literal (JStr ''automatic''))] @
          recovery_bindings),
        strictObject
          (LeaseIssuedPayloadBaseV02 env @
          [(''policy_action_kind'', AgencyPolicyActionKindV1), (''action_approval_class'', z_literal (JStr ''agency''))] @
          recovery_bindings)]"

definition TaskActionAdmittedPayloadV04 :: schema where
  "TaskActionAdmittedPayloadV04 =
     z_discriminated ''action_approval_class''
       [strictObject
          (TaskActionAdmittedPayloadBaseV02 @
          [(''policy_action_kind'', AutomaticPolicyActionKindV1), (''action_approval_class'', z_literal (JStr ''automatic''))] @
          recovery_bindings),
        strictObject
          (TaskActionAdmittedPayloadBaseV02 @
          [(''policy_action_kind'', AgencyPolicyActionKindV1), (''action_approval_class'', z_literal (JStr ''agency''))] @
          recovery_bindings)]"

definition LeaseIssuedEventV04 :: "schema_env \<Rightarrow> schema" where
  "LeaseIssuedEventV04 env =
     refined
       (event_schema_V04 env ''lease.issued''
          (LeaseIssuedPayloadV04 env))
       (\<lambda>v. validatePepAuthorityV02 v \<and> phase_ref_ok (jget v ''payload'') \<and> nonempty_interval env v)"

definition TaskActionAdmittedEventV04 :: "schema_env \<Rightarrow> schema" where
  "TaskActionAdmittedEventV04 env =
     refined
       (event_schema_V04 env ''task.action-admitted''
          TaskActionAdmittedPayloadV04)
       (\<lambda>v. validatePepAuthorityV02 v \<and>
         list_all (\<lambda>c. ledgerRefsEqualV02 (jget c ''use_clock_ref'') (pay v ''admission_clock_ref''))
           (items (pay v ''waiver_gate_use_checks'')))"

definition RuntimeLimitRefV04 :: schema where
  "RuntimeLimitRefV04 =
     z_enum [''max-loop-attempts'', ''max-elapsed-ms'', ''max-tool-calls'', ''max-output-bytes'',
             ''max-tokens'', ''max-cost'', ''max-process-runtime'', ''max-workers'']"

definition RuntimeLimitViolationV04 :: schema where
  "RuntimeLimitViolationV04 =
     refined
       (strictObject
          [(''limit_ref'', RuntimeLimitRefV04), (''consumed'', safe_nonnegative), (''requested'', safe_positive),
           (''ceiling'', safe_nonnegative)])
       (\<lambda>v. isSafeInteger (int_at (jget v ''consumed'') + int_at (jget v ''requested'')) \<and>
         int_at (jget v ''ceiling'') < int_at (jget v ''consumed'') + int_at (jget v ''requested''))"

definition CanonicalRuntimeLimitViolationsV04 :: schema where
  "CanonicalRuntimeLimitViolationsV04 =
     refined
       (z_array_min 1 RuntimeLimitViolationV04)
       (sorted_unique (\<lambda>x. text_of (jget x ''limit_ref'')))"

definition LimitAdmissionBlockedEventV04 :: "schema_env \<Rightarrow> schema" where
  "LimitAdmissionBlockedEventV04 env =
     refined
       (event_schema_V04 env ''limit.admission-blocked''
          (strictObject
             [(''request_id'', z_string MachineIdV02), (''task_ref'', z_string HumanIdV02),
              (''phase'', z_enum [''work'', ''compensation'']), (''compensation_ref'', z_nullable (z_string HumanIdV02)),
              (''request_kind'', z_enum [''loop-attempt'', ''action'', ''tool-call'', ''artifact-write'', ''adapter-budget'',
                      ''process-start'']),
              (''request_hash'', z_string Hash), (''violations'', CanonicalRuntimeLimitViolationsV04)]))
       (\<lambda>v. validatePepAuthorityV02 v \<and> phase_ref_ok (jget v ''payload''))"

subsection \<open>Executions, reconciliation and effects\<close>

definition TaskExecutionCompletedEventV04 :: "schema_env \<Rightarrow> schema" where
  "TaskExecutionCompletedEventV04 env =
     refined
       (event_schema_V04 env ''task.execution-completed''
          (strictObject
             (TaskExecutionTerminalPayloadCommonV02 @
             [(''attempt_event_ref'', LedgerRefV02), (''process_runtime_ms'', safe_nonnegative),
              (''loop_attempts_after'', safe_positive), (''task_executions_after'', safe_positive),
              (''workers_after'', safe_nonnegative)])))
       (\<lambda>v. source_is v ''adapter'' \<and> no_authority v)"

definition TaskExecutionFailedEventV04 :: "schema_env \<Rightarrow> schema" where
  "TaskExecutionFailedEventV04 env =
     refined
       (event_schema_V04 env ''task.execution-failed''
          (strictObject
             (TaskExecutionTerminalPayloadCommonV02 @
             [(''failure_class'', RetryClassV02), (''failure_ordinal'', safe_positive),
              (''failure_clock_ref'', LedgerRefV02), (''retry_safety_evidence_refs'', CanonicalLedgerRefsV02),
              (''attempt_event_ref'', LedgerRefV02), (''process_runtime_ms'', safe_nonnegative),
              (''loop_attempts_after'', safe_positive), (''task_executions_after'', safe_positive),
              (''workers_after'', safe_nonnegative)])))
       (\<lambda>v. source_is v ''adapter'' \<and> no_authority v)"

definition TaskExecutionNonEntryAcknowledgedEventV04 :: "schema_env \<Rightarrow> schema" where
  "TaskExecutionNonEntryAcknowledgedEventV04 env =
     refined
       (event_schema_V04 env ''task.execution-non-entry-acknowledged''
          (strictObject
             [(''action_id'', z_string MachineIdV02), (''task_ref'', z_string HumanIdV02),
              (''admission_ref'', LedgerRefV02), (''attempt_event_ref'', LedgerRefV02),
              (''adapter_invocation_id'', z_string MachineIdV02), (''adapter_ref'', z_string HumanIdV02),
              (''adapter_version_hash'', z_string Hash), (''fence_epoch'', safe_nonnegative),
              (''host_identity_hash'', z_string Hash), (''boot_id_hash'', z_string Hash),
              (''unit_name_hash'', z_string Hash), (''cgroup_path_hash'', z_string Hash),
              (''acknowledgement_observation_hash'', z_string Hash)]))
       (\<lambda>v. source_is v ''adapter'' \<and> no_authority v)"

definition TaskActionOutcomeReconciledPayloadV04 :: schema where
  "TaskActionOutcomeReconciledPayloadV04 =
     z_discriminated ''reconciliation_status''
       [strictObject
          [(''action_id'', z_string MachineIdV02), (''task_ref'', z_string HumanIdV02),
           (''admission_ref'', LedgerRefV02), (''process_cannot_continue_ref'', LedgerRefV02),
           (''reconciliation_evidence_refs'', CanonicalLedgerRefsV02),
           (''reconciliation_status'', z_literal (JStr ''outcome-remains-unknown''))],
        strictObject
          [(''action_id'', z_string MachineIdV02), (''task_ref'', z_string HumanIdV02),
           (''admission_ref'', LedgerRefV02), (''reconciliation_status'', z_literal (JStr ''proven-non-start'')),
           (''attempt_event_ref'', LedgerRefV02), (''adapter_invocation_id'', z_string MachineIdV02),
           (''adapter_ref'', z_string HumanIdV02), (''adapter_version_hash'', z_string Hash),
           (''non_entry_ack_event_ref'', LedgerRefV02), (''process_cannot_continue_ref'', LedgerRefV02),
           (''fence_epoch'', safe_nonnegative)]]"

definition TaskActionOutcomeReconciledEventV04 :: "schema_env \<Rightarrow> schema" where
  "TaskActionOutcomeReconciledEventV04 env =
     refined
       (event_schema_V04 env ''task.action-outcome-reconciled''
          TaskActionOutcomeReconciledPayloadV04)
       (\<lambda>v. source_is v ''integrity'' \<and> no_authority v)"

text \<open>Who may record which outcome, and which of them names the reconciliation it rests on.\<close>

definition effect_source_ok :: "json \<Rightarrow> bool" where
  "effect_source_ok e \<longleftrightarrow>
     (let outcome = text_of (pay e ''outcome''); unreconciled = is_null (pay e ''reconciliation_event_ref'') in
      if outcome = ''committed'' then source_is e ''adapter'' \<and> unreconciled
      else if outcome = ''unknown'' then source_is e ''integrity'' \<and> unreconciled
      else source_is e ''adapter'' \<and> unreconciled \<or>
        source_is e ''integrity'' \<and> \<not> unreconciled \<and> length (items (pay e ''evidence_refs'')) = 1 \<and>
        ledgerRefsEqualV02 (Some (items (pay e ''evidence_refs'') ! 0)) (pay e ''reconciliation_event_ref''))"

definition EffectOutcomeEventV04 :: "schema_env \<Rightarrow> schema" where
  "EffectOutcomeEventV04 env =
     refined
       (event_schema_V04 env ''effect.outcome''
          (strictObject
             [(''task_ref'', z_string HumanIdV02), (''effect_ref'', z_string HumanIdV02),
              (''action_id'', z_string MachineIdV02),
              (''outcome'', z_enum [''not-committed'', ''committed'', ''unknown'']),
              (''evidence_refs'', CanonicalLedgerRefsV02), (''reconciliation_event_ref'', z_nullable LedgerRefV02)]))
       (\<lambda>v. no_authority v \<and> effect_source_ok v)"

subsection \<open>Control, attempts and ownership\<close>

definition RunStartedEventV04 :: "schema_env \<Rightarrow> schema" where
  "RunStartedEventV04 env =
     refined
       (event_schema_V04 env ''run.started''
          (strictObject [(''executor_profile_hash'', z_string Hash)]))
       (\<lambda>v. source_is v ''kernel'' \<and> no_authority v)"

definition RunPausedPayloadV04 :: schema where
  "RunPausedPayloadV04 =
     z_discriminated ''requested_by''
       [strictObject
          [(''requested_by'', z_literal (JStr ''operator'')), (''reason_code'', z_literal (JStr ''operator-request'')),
           (''request_event_ref'', LedgerRefV02), (''attempt_event_ref'', LedgerRefV02),
           (''quiescent_boundary_sequence'', safe_positive), (''quiescent_boundary_head_hash'', z_string Hash),
           (''previous_fence_epoch'', safe_nonnegative), (''fence_epoch'', safe_positive),
           (''invalidated_owner_lease_refs'', NonEmptyCanonicalLedgerRefsV04)],
        strictObject
          [(''requested_by'', z_literal (JStr ''policy'')), (''reason_code'', z_literal (JStr ''policy-hold'')),
           (''request_event_ref'', LedgerRefV02), (''attempt_event_ref'', LedgerRefV02),
           (''quiescent_boundary_sequence'', safe_positive), (''quiescent_boundary_head_hash'', z_string Hash),
           (''previous_fence_epoch'', safe_nonnegative), (''fence_epoch'', safe_positive),
           (''invalidated_owner_lease_refs'', NonEmptyCanonicalLedgerRefsV04)]]"

definition RunPausedEventV04 :: "schema_env \<Rightarrow> schema" where
  "RunPausedEventV04 env =
     refined
       (event_schema_V04 env ''run.paused''
          RunPausedPayloadV04)
       (\<lambda>v. source_is v (if is_text (pay v ''requested_by'') ''operator'' then ''operator'' else ''policy-enforcement-point'') \<and> \<not> no_authority v \<and>
         incremented (pay v ''previous_fence_epoch'') (pay v ''fence_epoch''))"

definition RunQuarantinedEventV04 :: "schema_env \<Rightarrow> schema" where
  "RunQuarantinedEventV04 env =
     refined
       (event_schema_V04 env ''run.quarantined''
          (strictObject
             [(''reason_code'', z_enum [''unmatched-observation'', ''authority-breach'', ''capture-gap'']),
              (''evidence_refs'', CanonicalLedgerRefsV04)]))
       (\<lambda>v. source_is v ''integrity'' \<and> no_authority v)"

definition ProcessTerminationAttemptedEventV04 :: "schema_env \<Rightarrow> schema" where
  "ProcessTerminationAttemptedEventV04 env =
     refined
       (event_schema_V04 env ''process.termination-attempted''
          (strictObject
             [(''trigger'', z_enum [''abort'', ''quarantine'', ''reconciliation'']),
              (''trigger_event_ref'', LedgerRefV02), (''action_admission_event_ref'', LedgerRefV02),
              (''adapter_invocation_id'', z_string MachineIdV02), (''host_identity_hash'', z_string Hash),
              (''boot_id_hash'', z_string Hash), (''unit_name_hash'', z_string Hash),
              (''cgroup_path_hash'', z_string Hash), (''termination_request_hash'', z_string Hash),
              (''termination_observation_hash'', z_string Hash),
              (''observed_outcome'', z_enum [''terminated'', ''not-terminated'', ''unknown''])]))
       (\<lambda>v. source_is v ''adapter'' \<and> no_authority v)"

definition IntegrityObservationRejectedEventV04 :: "schema_env \<Rightarrow> schema" where
  "IntegrityObservationRejectedEventV04 env =
     refined
       (event_schema_V04 env ''integrity.observation-rejected''
          (strictObject
             [(''reason_code'', z_enum [''unmatched-observation'', ''authority-breach'', ''capture-gap'']),
              (''observation_hash'', z_string Hash), (''adapter_invocation_id'', z_nullable (z_string MachineIdV02)),
              (''claimed_action_id'', z_nullable (z_string MachineIdV02))]))
       (\<lambda>v. source_is v ''integrity'' \<and> no_authority v \<and>
         (is_text (pay v ''reason_code'') ''capture-gap'' \<longrightarrow> \<not> is_null (pay v ''adapter_invocation_id'')) \<and>
         (\<not> is_text (pay v ''reason_code'') ''capture-gap'' \<longrightarrow>
            \<not> (is_null (pay v ''adapter_invocation_id'') \<and> is_null (pay v ''claimed_action_id''))))"

definition ControlPauseRequestedEventV04 :: "schema_env \<Rightarrow> schema" where
  "ControlPauseRequestedEventV04 env =
     refined
       (event_schema_V04 env ''control.pause-requested''
          (z_discriminated ''requested_by''
             [strictObject
                [(''request_id'', z_string MachineIdV02), (''requested_by'', z_literal (JStr ''operator'')),
                 (''reason_code'', z_literal (JStr ''operator-request'')), (''attempt_event_ref'', LedgerRefV02),
                 (''run_owner_lease_ref'', LedgerRefV02), (''request_clock_ref'', LedgerRefV02),
                 (''fence_epoch'', safe_nonnegative)],
              strictObject
                [(''request_id'', z_string MachineIdV02), (''requested_by'', z_literal (JStr ''policy'')),
                 (''reason_code'', z_literal (JStr ''policy-hold'')), (''attempt_event_ref'', LedgerRefV02),
                 (''run_owner_lease_ref'', LedgerRefV02), (''request_clock_ref'', LedgerRefV02),
                 (''fence_epoch'', safe_nonnegative)]]))
       (\<lambda>v. source_is v (if is_text (pay v ''requested_by'') ''operator'' then ''operator'' else ''policy-enforcement-point'') \<and> \<not> no_authority v)"

definition RecoveryResumeRequestedEventV04 :: "schema_env \<Rightarrow> schema" where
  "RecoveryResumeRequestedEventV04 env =
     refined
       (event_schema_V04 env ''recovery.resume-requested''
          (z_discriminated ''mode''
             [strictObject
                [(''request_id'', z_string MachineIdV02), (''mode'', z_literal (JStr ''ordinary'')),
                 (''resume_nonce_hash'', z_string Hash), (''previous_attempt_event_ref'', LedgerRefV02),
                 (''source_boundary_sequence'', safe_positive), (''source_boundary_head_hash'', z_string Hash),
                 (''source_manifest_hash'', z_string Hash), (''repository_state_hash'', z_string Hash),
                 (''plan_hash'', z_string Hash), (''input_hash'', z_string Hash), (''recovery_policy_hash'', z_string Hash),
                 (''authority_envelope_hash'', z_string Hash), (''request_clock_ref'', LedgerRefV02),
                 (''target_action_admission_ref'', z_null), (''compensation_phase_event_ref'', z_null)],
              strictObject
                [(''request_id'', z_string MachineIdV02), (''mode'', z_literal (JStr ''reconciliation-only'')),
                 (''resume_nonce_hash'', z_string Hash), (''previous_attempt_event_ref'', LedgerRefV02),
                 (''source_boundary_sequence'', safe_positive), (''source_boundary_head_hash'', z_string Hash),
                 (''source_manifest_hash'', z_string Hash), (''repository_state_hash'', z_string Hash),
                 (''plan_hash'', z_string Hash), (''input_hash'', z_string Hash), (''recovery_policy_hash'', z_string Hash),
                 (''authority_envelope_hash'', z_string Hash), (''request_clock_ref'', LedgerRefV02),
                 (''target_action_admission_ref'', LedgerRefV02), (''compensation_phase_event_ref'', z_null)],
              strictObject
                [(''request_id'', z_string MachineIdV02), (''mode'', z_literal (JStr ''compensation-continuation'')),
                 (''resume_nonce_hash'', z_string Hash), (''previous_attempt_event_ref'', LedgerRefV02),
                 (''source_boundary_sequence'', safe_positive), (''source_boundary_head_hash'', z_string Hash),
                 (''source_manifest_hash'', z_string Hash), (''repository_state_hash'', z_string Hash),
                 (''plan_hash'', z_string Hash), (''input_hash'', z_string Hash), (''recovery_policy_hash'', z_string Hash),
                 (''authority_envelope_hash'', z_string Hash), (''request_clock_ref'', LedgerRefV02),
                 (''target_action_admission_ref'', z_null), (''compensation_phase_event_ref'', LedgerRefV02)]]))
       (\<lambda>v. source_is v ''operator'' \<and> \<not> no_authority v)"

definition attempt_refs_ok :: "json \<Rightarrow> bool" where
  "attempt_refs_ok e \<longleftrightarrow>
     (let refs = map (pay e) [''previous_attempt_event_ref'', ''resume_request_event_ref'', ''resume_nonce_hash''] in
      if pay e ''attempt_ordinal'' = Some (JInt 1)
      then list_all is_null refs \<and> pay e ''previous_fence_epoch'' = Some (JInt 0) \<and> pay e ''fence_epoch'' = Some (JInt 0)
      else list_all (\<lambda>r. \<not> is_null r) refs \<and> incremented (pay e ''previous_fence_epoch'') (pay e ''fence_epoch''))"

definition ExecutionAttemptStartedEventV04 :: "schema_env \<Rightarrow> schema" where
  "ExecutionAttemptStartedEventV04 env =
     refined
       (event_schema_V04 env ''execution.attempt-started''
          (strictObject
             [(''attempt_id'', z_string MachineIdV02), (''attempt_ordinal'', safe_positive),
              (''mode'', z_enum [''ordinary'', ''reconciliation-only'', ''compensation-continuation'']),
              (''previous_attempt_event_ref'', z_nullable LedgerRefV02),
              (''resume_request_event_ref'', z_nullable LedgerRefV02),
              (''resume_nonce_hash'', z_nullable (z_string Hash)), (''source_boundary_sequence'', safe_positive),
              (''source_boundary_head_hash'', z_string Hash), (''source_manifest_hash'', z_string Hash),
              (''repository_state_hash'', z_string Hash), (''plan_hash'', z_string Hash), (''input_hash'', z_string Hash),
              (''recovery_policy_hash'', z_string Hash), (''authority_envelope_hash'', z_string Hash),
              (''run_owner_lease_id'', z_string MachineIdV02), (''issued_clock_ref'', LedgerRefV02),
              (''deadline_elapsed_ms'', safe_positive), (''boot_id_hash'', z_string Hash),
              (''monotonic_clock_id'', z_string MachineIdV02), (''previous_fence_epoch'', safe_nonnegative),
              (''fence_epoch'', safe_nonnegative)]))
       (\<lambda>v. source_is v ''kernel'' \<and> no_authority v \<and> attempt_refs_ok v)"

definition OwnershipLeaseAcquiredEventV04 :: "schema_env \<Rightarrow> schema" where
  "OwnershipLeaseAcquiredEventV04 env =
     refined
       (event_schema_V04 env ''ownership.lease-acquired''
          (z_discriminated ''scope''
             [strictObject
                [(''owner_lease_id'', z_string MachineIdV02), (''scope'', z_literal (JStr ''task'')),
                 (''scope_ref'', z_string HumanIdV02), (''parent_run_owner_lease_id'', z_string MachineIdV02),
                 (''attempt_event_ref'', LedgerRefV02), (''issued_clock_ref'', LedgerRefV02),
                 (''deadline_elapsed_ms'', safe_positive), (''boot_id_hash'', z_string Hash),
                 (''monotonic_clock_id'', z_string MachineIdV02), (''fence_epoch'', safe_nonnegative),
                 (''heartbeat_limit'', safe_positive)],
              strictObject
                [(''owner_lease_id'', z_string MachineIdV02), (''scope'', z_literal (JStr ''integrator'')),
                 (''scope_ref'', z_string MachineIdV02), (''parent_run_owner_lease_id'', z_string MachineIdV02),
                 (''attempt_event_ref'', LedgerRefV02), (''issued_clock_ref'', LedgerRefV02),
                 (''deadline_elapsed_ms'', safe_positive), (''boot_id_hash'', z_string Hash),
                 (''monotonic_clock_id'', z_string MachineIdV02), (''fence_epoch'', safe_nonnegative),
                 (''heartbeat_limit'', safe_positive)]]))
       (\<lambda>v. source_is v ''policy-enforcement-point'' \<and> \<not> no_authority v)"

definition OwnershipLeaseHeartbeatRecordedEventV04 :: "schema_env \<Rightarrow> schema" where
  "OwnershipLeaseHeartbeatRecordedEventV04 env =
     refined
       (event_schema_V04 env ''ownership.lease-heartbeat-recorded''
          (strictObject
             [(''owner_lease_event_ref'', LedgerRefV02), (''heartbeat_ordinal'', safe_positive),
              (''observation_clock_ref'', LedgerRefV02), (''previous_deadline_elapsed_ms'', safe_nonnegative),
              (''deadline_elapsed_ms'', safe_positive), (''boot_id_hash'', z_string Hash),
              (''monotonic_clock_id'', z_string MachineIdV02), (''fence_epoch'', safe_nonnegative)]))
       (\<lambda>v. source_is v ''kernel'' \<and> no_authority v \<and>
         int_at (pay v ''previous_deadline_elapsed_ms'') < int_at (pay v ''deadline_elapsed_ms''))"

definition OwnershipLeaseReleasedEventV04 :: "schema_env \<Rightarrow> schema" where
  "OwnershipLeaseReleasedEventV04 env =
     refined
       (event_schema_V04 env ''ownership.lease-released''
          (strictObject
             [(''owner_lease_event_ref'', LedgerRefV02), (''release_clock_ref'', LedgerRefV02),
              (''reason'', z_enum [''completed'', ''pause'', ''abort'', ''revoked'', ''superseded'']),
              (''fence_epoch'', safe_nonnegative)]))
       (\<lambda>v. source_is v ''kernel'' \<and> no_authority v)"

definition RunCompactionRecordedEventV04 :: "schema_env \<Rightarrow> schema" where
  "RunCompactionRecordedEventV04 env =
     refined
       (event_schema_V04 env ''run.compaction-recorded''
          (strictObject
             [(''summary_id'', z_string MachineIdV02), (''summary_record_path'', z_string RelativeRunPathV02),
              (''summary_record_hash'', z_string Hash), (''summary_content_path'', z_string RelativeRunPathV02),
              (''summary_content_hash'', z_string Hash), (''summary_size_bytes'', safe_positive),
              (''attempt_event_ref'', LedgerRefV02), (''integrator_lease_event_ref'', LedgerRefV02),
              (''source_first_event_ref'', LedgerRefV02), (''source_last_event_ref'', LedgerRefV02),
              (''source_prefix_sequence'', safe_positive), (''source_prefix_head_hash'', z_string Hash),
              (''pre_context_hash'', z_string Hash), (''post_context_hash'', z_string Hash)]))
       (\<lambda>v. source_is v ''kernel'' \<and> no_authority v \<and>
         pay v ''summary_record_path'' = Some (JStr (''summaries/records/'' @ text_of (pay v ''summary_id'') @ ''.json'')) \<and>
         pay v ''summary_content_path'' = Some (JStr (''summaries/content/'' @ text_of (pay v ''summary_id'') @ ''.bin'')))"

subsection \<open>All events\<close>

definition RuntimeEventV04 :: "schema_env \<Rightarrow> schema" where
  "RuntimeEventV04 env =
     z_discriminated ''event_type''
       [RunInitializedEventV04 env,
        RunClockObservedEventV04 env,
        RunFenceAdvancedEventV04 env,
        ControlAbortRequestedEventV04 env,
        GateResultRequiredEventV04 env,
        GateResultRecordedEventV04 env,
        EvaluationResultRequiredEventV04 env,
        EvaluationResultRecordedEventV04 env,
        AuthorityHumanAuthorizationRecordedEventV04 env,
        AuthorityEnvelopeRecordedEventV04 env,
        ApprovalRecommendationRecordedEventV04 env,
        PolicyDecisionRecordedEventV04 env,
        AuthorityWaiverRecordedEventV04 env,
        AuthorityGrantRevokedEventV04 env,
        EvidenceRecordedEventV04 env,
        ObservationManualRecordedEventV04 env,
        ClaimRecordedEventV04 env,
        FindingRecordedEventV04 env,
        WaiverRecordedEventV04 env,
        LeaseIssuedEventV04 env,
        TaskActionAdmittedEventV04 env,
        ToolCallAdmittedEventV04 env,
        ArtifactWriteAdmittedEventV04 env,
        LimitAdmissionBlockedEventV04 env,
        TaskExecutionStartedEventV04 env,
        TaskExecutionCompletedEventV04 env,
        TaskProgressFactRecordedEventV04 env,
        TaskExecutionFailedEventV04 env,
        TaskActionOutcomeUnknownEventV04 env,
        TaskExecutionNonEntryAcknowledgedEventV04 env,
        TaskActionOutcomeReconciledEventV04 env,
        ArtifactRecordedEventV04 env,
        RecordRedactionDerivativeRecordedEventV04 env,
        RecordCustodyStateRecordedEventV04 env,
        RecordExportDecisionRecordedEventV04 env,
        EffectOutcomeEventV04 env,
        TaskActionSettledEventV04 env,
        LoopAttemptCompletedEventV04 env,
        TaskProgressObservedEventV04 env,
        RunTerminalFreezeEnteredEventV04 env,
        RunTerminalFreezeRevisedEventV04 env,
        RunCompensationRequestedEventV04 env,
        RunCompensationRequestRevisedEventV04 env,
        RunCompensationPhaseEnteredEventV04 env,
        RunCompensationCandidateEscalatedEventV04 env,
        CompensationSettledEventV04 env,
        RunTerminalSealedEventV04 env,
        RunStartedEventV04 env,
        RunPausedEventV04 env,
        RunQuarantinedEventV04 env,
        ProcessTerminationAttemptedEventV04 env,
        IntegrityObservationRejectedEventV04 env,
        ControlPauseRequestedEventV04 env,
        RecoveryResumeRequestedEventV04 env,
        ExecutionAttemptStartedEventV04 env,
        OwnershipLeaseAcquiredEventV04 env,
        OwnershipLeaseHeartbeatRecordedEventV04 env,
        OwnershipLeaseReleasedEventV04 env,
        RunCompactionRecordedEventV04 env]"

end
