(* ===== verification/History_V04.thy ===== *)
theory History_V04
  imports Ledger_V02 Event_Schema_V04
begin

text \<open>
  The history rules of the ledger of version 0.4 (\<open>src/run/runtime-ledger-v04.ts\<close>): what an event
  of attempts, ownership, recovery, pause, compaction, termination and reconciliation must find
  in the ledger. References are resolved by position, \<open>events[n - 1]\<close>, and the hash there.
  Each rule is a constructor of the faults.
\<close>

datatype v04_fault =
    QuarantineNotAdjacent | SealNotAdjacent | PauseBoundaryMismatch
  | AttemptClockMismatch | AttemptBoundaryMismatch | AttemptRequestMissing | AttemptRepositoryMismatch
  | NonEntryMismatch | TerminationTriggerMismatch | TerminationIdentityMismatch
  | NonStartUnproven | NonStartContradicted | NonCommitUnproven
  | OwnerClockMismatch | HeartbeatClockMismatch | ReleaseClockMismatch | PauseClockMismatch | RecoveryClockMismatch
  | CompactionRangeMismatch

subsection \<open>Referenced events\<close>

definition event_no :: "json list \<Rightarrow> json option \<Rightarrow> json option" where
  "event_no es n =
     (case n of
        Some (JInt k) \<Rightarrow> if 1 \<le> k \<and> k \<le> int (length es) then Some (es ! nat (k - 1)) else None
      | _ \<Rightarrow> None)"

text \<open>A null reference names no event.\<close>

definition exactReferencedEvent :: "json list \<Rightarrow> json option \<Rightarrow> json option" where
  "exactReferencedEvent es r =
     (case event_no es (attr r ''ledger_sequence'') of
        None \<Rightarrow> None
      | Some x \<Rightarrow> if jget x ''event_hash'' = attr r ''event_hash'' then Some x else None)"

definition sameLedgerRef :: "json option \<Rightarrow> json option \<Rightarrow> bool" where
  "sameLedgerRef l r \<longleftrightarrow>
     attr l ''ledger_sequence'' = attr r ''ledger_sequence'' \<and> attr l ''event_hash'' = attr r ''event_hash''"

text \<open>The reference names an event of the type with the property.\<close>

definition names :: "json list \<Rightarrow> json option \<Rightarrow> string \<Rightarrow> (json \<Rightarrow> bool) \<Rightarrow> bool" where
  "names es r type p \<longleftrightarrow>
     (case exactReferencedEvent es r of None \<Rightarrow> False | Some x \<Rightarrow> ev_type x = type \<and> p x)"

definition prior_event :: "json list \<Rightarrow> nat \<Rightarrow> json option" where
  "prior_event es i = (if i = 0 then None else Some (es ! (i - 1)))"

definition follows :: "json list \<Rightarrow> nat \<Rightarrow> (json \<Rightarrow> bool) \<Rightarrow> bool" where
  "follows es i p \<longleftrightarrow> (case prior_event es i of None \<Rightarrow> False | Some y \<Rightarrow> p y)"

definition own_ref :: "json \<Rightarrow> json option" where
  "own_ref x = Some (JObj [(''ledger_sequence'', own (jget x ''sequence'')), (''event_hash'', own (jget x ''event_hash''))])"

definition agree :: "string list \<Rightarrow> json \<Rightarrow> json \<Rightarrow> bool" where
  "agree ks x y \<longleftrightarrow> list_all (\<lambda>k. pay x k = pay y k) ks"

subsection \<open>Quarantine, seal and pause\<close>

definition rejected_before :: "json \<Rightarrow> json \<Rightarrow> bool" where
  "rejected_before e y \<longleftrightarrow>
     ev_type y = ''integrity.observation-rejected'' \<and>
     (case items (pay e ''evidence_refs'') of
        [] \<Rightarrow> False
      | r # _ \<Rightarrow> jget r ''ledger_sequence'' = jget y ''sequence'' \<and> jget r ''event_hash'' = jget y ''event_hash'') \<and>
     agree [''reason_code''] e y"

definition quarantine_fault :: "json list \<Rightarrow> nat \<Rightarrow> json \<Rightarrow> v04_fault option" where
  "quarantine_fault es i e = require (follows es i (rejected_before e)) QuarantineNotAdjacent"

definition seal_fault4 :: "json list \<Rightarrow> nat \<Rightarrow> json \<Rightarrow> v04_fault option" where
  "seal_fault4 es i e =
     require (follows es i (\<lambda>y. pay e ''pre_seal_ledger_sequence'' = jget y ''sequence'' \<and>
                                pay e ''pre_seal_ledger_head_hash'' = jget y ''event_hash'')) SealNotAdjacent"

definition pause_fault :: "json list \<Rightarrow> nat \<Rightarrow> json \<Rightarrow> v04_fault option" where
  "pause_fault es i e =
     require (follows es i (\<lambda>y. ev_type y = ''run.fence-advanced'' \<and>
                                pay e ''quiescent_boundary_sequence'' = jget y ''sequence'' \<and>
                                pay e ''quiescent_boundary_head_hash'' = jget y ''event_hash'') \<and>
              names es (pay e ''request_event_ref'') ''control.pause-requested'' (\<lambda>_. True)) PauseBoundaryMismatch"

subsection \<open>Attempts\<close>

definition first_attempt :: "json \<Rightarrow> bool" where
  "first_attempt e \<longleftrightarrow> pay e ''attempt_ordinal'' = Some (JInt 1)"

text \<open>The clock is read right before the attempt, or right before the request it resumes from.\<close>

definition clock_adjacent :: "json list \<Rightarrow> json \<Rightarrow> json \<Rightarrow> bool" where
  "clock_adjacent es e c \<longleftrightarrow>
     (if first_attempt e then seq_of c = seq_of e - 1
      else names es (pay e ''resume_request_event_ref'') ''recovery.resume-requested''
             (\<lambda>x. seq_of x = seq_of e - 1 \<and> seq_of c = seq_of x - 1))"

definition attempt_clock_ok :: "json list \<Rightarrow> json \<Rightarrow> json \<Rightarrow> bool" where
  "attempt_clock_ok es e c \<longleftrightarrow>
     is_text (pay c ''reason'') ''run-owner-acquisition'' \<and> pay c ''use_ref'' = pay e ''run_owner_lease_id'' \<and>
     agree [''boot_id_hash'', ''monotonic_clock_id''] c e \<and>
     int_at (pay c ''elapsed_ms'') < int_at (pay e ''deadline_elapsed_ms'') \<and>
     is_null (pay c ''attempt_ref'') \<and> is_null (pay c ''owner_lease_ref'') \<and> clock_adjacent es e c"

definition started_boundary :: "json list \<Rightarrow> json \<Rightarrow> bool" where
  "started_boundary es e \<longleftrightarrow>
     (case event_no es (pay e ''source_boundary_sequence'') of
        None \<Rightarrow> False
      | Some y \<Rightarrow> ev_type y = ''run.started'' \<and> jget y ''event_hash'' = pay e ''source_boundary_head_hash'')"

definition recovery_fault :: "json list \<Rightarrow> json \<Rightarrow> v04_fault option" where
  "recovery_fault es e =
     first_some
       [require (names es (pay e ''resume_request_event_ref'') ''recovery.resume-requested'' (\<lambda>_. True) \<and>
                 names es (pay e ''previous_attempt_event_ref'') ''execution.attempt-started'' (\<lambda>_. True)) AttemptRequestMissing,
        require (names es (pay e ''resume_request_event_ref'') ''recovery.resume-requested'' (agree [''repository_state_hash''] e))
          AttemptRepositoryMismatch]"

definition attempt_fault :: "json list \<Rightarrow> json \<Rightarrow> v04_fault option" where
  "attempt_fault es e =
     first_some
       [require (names es (pay e ''issued_clock_ref'') ''run.clock-observed'' (attempt_clock_ok es e)) AttemptClockMismatch,
        if first_attempt e then require (started_boundary es e) AttemptBoundaryMismatch else recovery_fault es e]"

subsection \<open>Executions that never started\<close>

text \<open>An admission of the action, in the event's attempt and under its fence.\<close>

definition admission_of :: "json \<Rightarrow> json \<Rightarrow> bool" where
  "admission_of e a \<longleftrightarrow>
     agree [''action_id'', ''task_ref'', ''fence_epoch''] a e \<and>
     sameLedgerRef (pay a ''attempt_event_ref'') (pay e ''attempt_event_ref'')"

definition non_entry_fault :: "json list \<Rightarrow> json \<Rightarrow> v04_fault option" where
  "non_entry_fault es e =
     require (names es (pay e ''admission_ref'') ''task.action-admitted'' (admission_of e) \<and>
              names es (pay e ''attempt_event_ref'') ''execution.attempt-started'' (\<lambda>_. True)) NonEntryMismatch"

definition execution_identity_keys :: "string list" where
  "execution_identity_keys =
     [''adapter_invocation_id'', ''host_identity_hash'', ''boot_id_hash'', ''unit_name_hash'', ''cgroup_path_hash'']"

definition trigger_type :: "string \<Rightarrow> string option" where
  "trigger_type t = map_of [(''abort'', ''control.abort-requested''), (''quarantine'', ''run.quarantined'')] t"

definition acknowledged_by :: "json \<Rightarrow> json \<Rightarrow> bool" where
  "acknowledged_by e k \<longleftrightarrow>
     sameLedgerRef (pay k ''admission_ref'') (pay e ''action_admission_event_ref'') \<and> agree execution_identity_keys k e"

definition termination_fault :: "json list \<Rightarrow> json \<Rightarrow> v04_fault option" where
  "termination_fault es e =
     first_some
       [require (case trigger_type (text_of (pay e ''trigger'')) of
                   None \<Rightarrow> True
                 | Some type \<Rightarrow> names es (pay e ''trigger_event_ref'') type (\<lambda>_. True)) TerminationTriggerMismatch,
        require (is_text (pay e ''trigger'') ''reconciliation'' \<longrightarrow>
                 names es (pay e ''trigger_event_ref'') ''task.execution-non-entry-acknowledged'' (acknowledged_by e))
          TerminationIdentityMismatch]"

definition non_start :: "json \<Rightarrow> bool" where
  "non_start e \<longleftrightarrow> is_text (pay e ''reconciliation_status'') ''proven-non-start''"

definition acknowledgement_of :: "json \<Rightarrow> json \<Rightarrow> bool" where
  "acknowledgement_of e k \<longleftrightarrow>
     agree [''action_id'', ''task_ref'', ''adapter_invocation_id'', ''adapter_ref'', ''adapter_version_hash'', ''fence_epoch''] k e \<and>
     sameLedgerRef (pay k ''admission_ref'') (pay e ''admission_ref'') \<and>
     sameLedgerRef (pay k ''attempt_event_ref'') (pay e ''attempt_event_ref'')"

definition terminated_after :: "json \<Rightarrow> json \<Rightarrow> json \<Rightarrow> bool" where
  "terminated_after e k t \<longleftrightarrow>
     is_text (pay t ''trigger'') ''reconciliation'' \<and>
     sameLedgerRef (pay t ''trigger_event_ref'') (pay e ''non_entry_ack_event_ref'') \<and> seq_of k < seq_of t \<and>
     sameLedgerRef (pay t ''action_admission_event_ref'') (pay e ''admission_ref'') \<and>
     agree execution_identity_keys t k \<and> is_text (pay t ''observed_outcome'') ''terminated''"

definition non_start_ok :: "json list \<Rightarrow> json \<Rightarrow> bool" where
  "non_start_ok es e \<longleftrightarrow>
     names es (pay e ''admission_ref'') ''task.action-admitted'' (admission_of e) \<and>
     names es (pay e ''non_entry_ack_event_ref'') ''task.execution-non-entry-acknowledged''
       (\<lambda>k. acknowledgement_of e k \<and>
            names es (pay e ''process_cannot_continue_ref'') ''process.termination-attempted'' (terminated_after e k))"

definition action_fact_types :: "string list" where
  "action_fact_types =
     [''task.execution-started'', ''task.execution-completed'', ''task.execution-failed'', ''task.progress-fact-recorded'',
      ''task.action-outcome-unknown'', ''task.action-outcome-reconciled'', ''effect.outcome'', ''task.action-settled'']"

definition actionFactMatches :: "json \<Rightarrow> json option \<Rightarrow> bool" where
  "actionFactMatches x action \<longleftrightarrow> pay x ''action_id'' = action \<and> ev_type x \<in> set action_fact_types"

text \<open>The events after the admission, up to the reconciliation.\<close>

definition since_admission :: "json list \<Rightarrow> nat \<Rightarrow> json \<Rightarrow> json list" where
  "since_admission es i e =
     (case exactReferencedEvent es (pay e ''admission_ref'') of None \<Rightarrow> [] | Some a \<Rightarrow> drop (nat (seq_of a)) (take i es))"

definition contradicted :: "json list \<Rightarrow> nat \<Rightarrow> json \<Rightarrow> bool" where
  "contradicted es i e \<longleftrightarrow>
     (case exactReferencedEvent es (pay e ''non_entry_ack_event_ref'') of
        None \<Rightarrow> False
      | Some k \<Rightarrow> list_ex (\<lambda>x. seq_of x \<noteq> seq_of k \<and> actionFactMatches x (pay e ''action_id'')) (since_admission es i e))"

definition reconciliation_fault :: "json list \<Rightarrow> nat \<Rightarrow> json \<Rightarrow> v04_fault option" where
  "reconciliation_fault es i e =
     (if \<not> non_start e then None
      else first_some
        [require (non_start_ok es e) NonStartUnproven, require (\<not> contradicted es i e) NonStartContradicted])"

text \<open>A reconciled non-commit names the proof that the action never started and an effect admitted for it.\<close>

definition effect_fault :: "json list \<Rightarrow> json \<Rightarrow> v04_fault option" where
  "effect_fault es e =
     (if source_is e ''integrity'' \<and> is_text (pay e ''outcome'') ''not-committed'' then
        require (names es (pay e ''reconciliation_event_ref'') ''task.action-outcome-reconciled''
          (\<lambda>r. non_start r \<and> agree [''action_id'', ''task_ref''] e r \<and>
               names es (pay r ''admission_ref'') ''task.action-admitted''
                 (\<lambda>a. own (pay e ''effect_ref'') \<in> set (items (pay a ''side_effect_refs''))))) NonCommitUnproven
      else None)"

subsection \<open>Ownership and requests\<close>

text \<open>A clock read for the use, in the attempt and under the owner.\<close>

definition clock_for :: "json list \<Rightarrow> json option \<Rightarrow> string \<Rightarrow> json option \<Rightarrow> json option \<Rightarrow> json option \<Rightarrow> (json \<Rightarrow> bool) \<Rightarrow> bool" where
  "clock_for es clock reason use attempt owner p \<longleftrightarrow>
     names es clock ''run.clock-observed''
       (\<lambda>c. is_text (pay c ''reason'') reason \<and> pay c ''use_ref'' = use \<and>
            sameLedgerRef (pay c ''attempt_ref'') attempt \<and> sameLedgerRef (pay c ''owner_lease_ref'') owner \<and> p c)"

definition same_domain :: "json \<Rightarrow> json \<Rightarrow> bool" where
  "same_domain e c \<longleftrightarrow> agree [''boot_id_hash'', ''monotonic_clock_id''] c e"

definition lease_acquired_fault :: "json list \<Rightarrow> json \<Rightarrow> v04_fault option" where
  "lease_acquired_fault es e =
     require (names es (pay e ''attempt_event_ref'') ''execution.attempt-started''
       (\<lambda>a. clock_for es (pay e ''issued_clock_ref'') ''owner-acquisition'' (pay e ''owner_lease_id'')
              (pay e ''attempt_event_ref'') (own_ref a)
              (\<lambda>c. \<not> is_null (pay c ''attempt_ref'') \<and> \<not> is_null (pay c ''owner_lease_ref'') \<and> same_domain e c)))
       OwnerClockMismatch"

text \<open>The identifier of an owner and the attempt it belongs to: an attempt owns itself.\<close>

definition owner_of :: "json list \<Rightarrow> json option \<Rightarrow> (json option \<times> json option) option" where
  "owner_of es r =
     (case exactReferencedEvent es r of
        None \<Rightarrow> None
      | Some x \<Rightarrow>
          if ev_type x = ''execution.attempt-started'' then Some (pay x ''run_owner_lease_id'', own_ref x)
          else if ev_type x = ''ownership.lease-acquired'' then Some (pay x ''owner_lease_id'', pay x ''attempt_event_ref'')
          else None)"

definition heartbeat_fault :: "json list \<Rightarrow> json \<Rightarrow> v04_fault option" where
  "heartbeat_fault es e =
     require (case owner_of es (pay e ''owner_lease_event_ref'') of
                None \<Rightarrow> False
              | Some (owner_id, attempt) \<Rightarrow>
                  clock_for es (pay e ''observation_clock_ref'') ''owner-heartbeat'' owner_id attempt (pay e ''owner_lease_event_ref'')
                    (\<lambda>c. same_domain e c \<and> int_at (pay c ''elapsed_ms'') < int_at (pay e ''previous_deadline_elapsed_ms'')))
       HeartbeatClockMismatch"

definition release_fault :: "json list \<Rightarrow> json \<Rightarrow> v04_fault option" where
  "release_fault es e =
     require (case owner_of es (pay e ''owner_lease_event_ref'') of
                None \<Rightarrow> False
              | Some (owner_id, attempt) \<Rightarrow>
                  clock_for es (pay e ''release_clock_ref'') ''owner-release'' owner_id attempt (pay e ''owner_lease_event_ref'')
                    (\<lambda>_. True))
       ReleaseClockMismatch"

definition pause_request_fault :: "json list \<Rightarrow> json \<Rightarrow> v04_fault option" where
  "pause_request_fault es e =
     require (clock_for es (pay e ''request_clock_ref'') ''pause-request'' (pay e ''request_id'') (pay e ''attempt_event_ref'')
                (pay e ''run_owner_lease_ref'') (\<lambda>_. True)) PauseClockMismatch"

definition resume_request_fault :: "json list \<Rightarrow> json \<Rightarrow> v04_fault option" where
  "resume_request_fault es e =
     require (clock_for es (pay e ''request_clock_ref'') ''recovery-request'' (pay e ''request_id'')
                (pay e ''previous_attempt_event_ref'') (pay e ''previous_attempt_event_ref'') (\<lambda>_. True)) RecoveryClockMismatch"

definition compaction_fault :: "json list \<Rightarrow> json \<Rightarrow> v04_fault option" where
  "compaction_fault es e =
     require (case (exactReferencedEvent es (pay e ''source_first_event_ref''), exactReferencedEvent es (pay e ''source_last_event_ref''),
                    event_no es (pay e ''source_prefix_sequence'')) of
                (Some a, Some b, Some p) \<Rightarrow>
                  seq_of a \<le> seq_of b \<and> seq_of b \<le> int_at (pay e ''source_prefix_sequence'') \<and>
                  jget p ''event_hash'' = pay e ''source_prefix_head_hash''
              | _ \<Rightarrow> False)
       CompactionRangeMismatch"

subsection \<open>All rules\<close>

definition validateV04SpecificHistory :: "json list \<Rightarrow> nat \<Rightarrow> json \<Rightarrow> v04_fault option" where
  "validateV04SpecificHistory es i e =
     (let type = ev_type e in
      if type = ''run.quarantined'' then quarantine_fault es i e
      else if type = ''run.terminal-sealed'' then seal_fault4 es i e
      else if type = ''run.paused'' then pause_fault es i e
      else if type = ''execution.attempt-started'' then attempt_fault es e
      else if type = ''task.execution-non-entry-acknowledged'' then non_entry_fault es e
      else if type = ''process.termination-attempted'' then termination_fault es e
      else if type = ''task.action-outcome-reconciled'' then reconciliation_fault es i e
      else if type = ''effect.outcome'' then effect_fault es e
      else if type = ''ownership.lease-acquired'' then lease_acquired_fault es e
      else if type = ''ownership.lease-heartbeat-recorded'' then heartbeat_fault es e
      else if type = ''ownership.lease-released'' then release_fault es e
      else if type = ''control.pause-requested'' then pause_request_fault es e
      else if type = ''recovery.resume-requested'' then resume_request_fault es e
      else if type = ''run.compaction-recorded'' then compaction_fault es e
      else None)"

datatype v04_issue = NotInitialized | Chain chain_fault | EarlierRefMissing | Specific v04_fault

definition history_fault4 :: "schema_env \<Rightarrow> json list \<Rightarrow> nat \<Rightarrow> json \<Rightarrow> v04_issue option" where
  "history_fault4 env es i e =
     first_some
       [map_option Chain (link_fault es i e),
        map_option Chain (hash_fault env i e),
        require (jget e ''run_id'' = jget (es ! 0) ''run_id'') (Chain RunMismatch),
        require (jget e ''event_id'' \<notin> (\<lambda>x. jget x ''event_id'') ` set (take i es)) (Chain EventIdReused),
        require (copied_ok (pay e ''plan_hash'') (pay (es ! 0) ''plan_hash'')) (Chain CopiedPlanMismatch),
        require (list_all (\<lambda>(n, h). n < seq_of e \<and> (n, h) \<in> set (map key_of (take i es))) (payload_refs e)) EarlierRefMissing,
        map_option Specific (validateV04SpecificHistory es i e)]"

end
