(* ===== verification/Ledger_V04.thy ===== *)
theory Ledger_V04
  imports History_V04 Reducer_V04 Ledger_Text
begin

text \<open>
  The inspection of a ledger of version 0.4 (\<open>src/run/runtime-ledger-v04.ts\<close>): the bounds of its
  text, its lines, the schema of each event, the history rules in one pass and the reduction of
  the events to the state of the run. The reducer's events are the JSON values read field by
  field.
\<close>

subsection \<open>Events of the reducer\<close>

definition ref_or_null :: "json option \<Rightarrow> ledger_ref option" where
  "ref_or_null v = (if is_null v then None else Some (key_ref v))"

definition text_or_null :: "json option \<Rightarrow> string option" where
  "text_or_null v = (if is_null v then None else Some (text_of v))"

definition mode_named :: "string \<Rightarrow> attempt_mode" where
  "mode_named s =
     (if s = ''ordinary'' then Ordinary else if s = ''reconciliation-only'' then ReconciliationOnly else CompensationContinuation)"

definition identity_in :: "json \<Rightarrow> execution_identity" where
  "identity_in e =
     \<lparr>xi_adapter_invocation = text_of (pay e ''adapter_invocation_id''), xi_host = text_of (pay e ''host_identity_hash''),
      xi_boot = text_of (pay e ''boot_id_hash''), xi_unit = text_of (pay e ''unit_name_hash''),
      xi_cgroup = text_of (pay e ''cgroup_path_hash'')\<rparr>"

definition boundary_in :: "json \<Rightarrow> ledger_ref" where
  "boundary_in e = (int_at (pay e ''source_boundary_sequence''), text_of (pay e ''source_boundary_head_hash''))"

definition resume_in :: "json \<Rightarrow> resume_request" where
  "resume_in e =
     \<lparr>rq_id = text_of (pay e ''request_id''), rq_mode = mode_named (text_of (pay e ''mode'')),
      rq_nonce = text_of (pay e ''resume_nonce_hash''), rq_previous_attempt = key_ref (pay e ''previous_attempt_event_ref''),
      rq_boundary = boundary_in e\<rparr>"

definition attempt_in :: "json \<Rightarrow> attempt_start" where
  "attempt_in e =
     \<lparr>at_ordinal = int_at (pay e ''attempt_ordinal''), at_previous = ref_or_null (pay e ''previous_attempt_event_ref''),
      at_resume_ref = ref_or_null (pay e ''resume_request_event_ref''), at_nonce = text_or_null (pay e ''resume_nonce_hash''),
      at_boundary = boundary_in e, at_mode = mode_named (text_of (pay e ''mode'')),
      at_owner_lease = text_of (pay e ''run_owner_lease_id''), at_deadline = int_at (pay e ''deadline_elapsed_ms''),
      at_boot = text_of (pay e ''boot_id_hash''), at_clock = text_of (pay e ''monotonic_clock_id''),
      at_previous_fence = int_at (pay e ''previous_fence_epoch''), at_fence = int_at (pay e ''fence_epoch'')\<rparr>"

definition lease_in :: "json \<Rightarrow> lease_acquired" where
  "lease_in e =
     \<lparr>la_id = text_of (pay e ''owner_lease_id''), la_scope = text_of (pay e ''scope''), la_scope_ref = text_of (pay e ''scope_ref''),
      la_parent = text_of (pay e ''parent_run_owner_lease_id''), la_attempt = key_ref (pay e ''attempt_event_ref''),
      la_deadline = int_at (pay e ''deadline_elapsed_ms''), la_boot = text_of (pay e ''boot_id_hash''),
      la_clock = text_of (pay e ''monotonic_clock_id''), la_fence = int_at (pay e ''fence_epoch'')\<rparr>"

definition heartbeat_in :: "json \<Rightarrow> heartbeat" where
  "heartbeat_in e =
     \<lparr>hb_lease = key_ref (pay e ''owner_lease_event_ref''), hb_fence = int_at (pay e ''fence_epoch''),
      hb_boot = text_of (pay e ''boot_id_hash''), hb_clock = text_of (pay e ''monotonic_clock_id''),
      hb_ordinal = int_at (pay e ''heartbeat_ordinal''), hb_previous_deadline = int_at (pay e ''previous_deadline_elapsed_ms''),
      hb_deadline = int_at (pay e ''deadline_elapsed_ms'')\<rparr>"

definition non_entry_in :: "json \<Rightarrow> non_entry" where
  "non_entry_in e =
     \<lparr>ne_action = text_of (pay e ''action_id''), ne_admission = key_ref (pay e ''admission_ref''),
      ne_task = text_of (pay e ''task_ref''), ne_attempt = key_ref (pay e ''attempt_event_ref''),
      ne_fence = int_at (pay e ''fence_epoch''), ne_adapter_ref = text_of (pay e ''adapter_ref''),
      ne_adapter_version = text_of (pay e ''adapter_version_hash''), ne_identity = identity_in e\<rparr>"

definition termination_in :: "json \<Rightarrow> termination_fact" where
  "termination_in e =
     \<lparr>tm_trigger = text_of (pay e ''trigger''), tm_trigger_ref = key_ref (pay e ''trigger_event_ref''),
      tm_admission = key_ref (pay e ''action_admission_event_ref''), tm_identity = identity_in e,
      tm_outcome = text_of (pay e ''observed_outcome'')\<rparr>"

definition non_start_in :: "json \<Rightarrow> Reducer_V04.non_start" where
  "non_start_in e =
     \<lparr>ns_action = text_of (pay e ''action_id''), ns_task = text_of (pay e ''task_ref''),
      ns_admission = key_ref (pay e ''admission_ref''), ns_attempt = key_ref (pay e ''attempt_event_ref''),
      ns_fence = int_at (pay e ''fence_epoch''), ns_adapter_invocation = text_of (pay e ''adapter_invocation_id''),
      ns_adapter_ref = text_of (pay e ''adapter_ref''), ns_adapter_version = text_of (pay e ''adapter_version_hash''),
      ns_ack = key_ref (pay e ''non_entry_ack_event_ref''), ns_termination = key_ref (pay e ''process_cannot_continue_ref'')\<rparr>"

definition effect_in :: "json \<Rightarrow> effect_outcome" where
  "effect_in e =
     \<lparr>eo_action = text_of (pay e ''action_id''), eo_outcome = text_of (pay e ''outcome''),
      eo_reconciliation = ref_or_null (pay e ''reconciliation_event_ref''), eo_task = text_of (pay e ''task_ref''),
      eo_effect = text_of (pay e ''effect_ref'')\<rparr>"

definition settlement_in :: "json \<Rightarrow> settlement" where
  "settlement_in e =
     \<lparr>st_action = text_of (pay e ''action_id''), st_task = text_of (pay e ''task_ref''),
      st_terminal = key_ref (pay e ''terminal_event_ref''),
      st_outcomes = map (\<lambda>x. (text_of (jget x ''outcome''), text_of (jget x ''effect_ref''), key_ref (jget x ''outcome_event_ref'')))
        (items (pay e ''effect_outcomes''))\<rparr>"

definition refs_in :: "json \<Rightarrow> string \<Rightarrow> ledger_ref list" where
  "refs_in e k = map (\<lambda>x. key_ref (Some x)) (items (pay e k))"

definition pause_in :: "json \<Rightarrow> pause" where
  "pause_in e =
     \<lparr>pa_request = key_ref (pay e ''request_event_ref''), pa_attempt = key_ref (pay e ''attempt_event_ref''),
      pa_previous_fence = int_at (pay e ''previous_fence_epoch''), pa_fence = int_at (pay e ''fence_epoch''),
      pa_boundary_sequence = int_at (pay e ''quiescent_boundary_sequence''),
      pa_boundary_head = text_or_null (pay e ''quiescent_boundary_head_hash''),
      pa_invalidated = refs_in e ''invalidated_owner_lease_refs''\<rparr>"

definition body4_of :: "json \<Rightarrow> body4" where
  "body4_of e =
     (let type = ev_type e; action = text_of (pay e ''action_id''); phase = text_of (pay e ''phase'') in
      if type = ''run.initialized'' then RunInitialized (int_at (pay e ''initial_fence_epoch''))
      else if type = ''run.started'' then RunStarted
      else if type = ''recovery.resume-requested'' then ResumeRequested (resume_in e)
      else if type = ''execution.attempt-started'' then AttemptStarted (attempt_in e)
      else if type = ''ownership.lease-acquired'' then LeaseAcquired (lease_in e)
      else if type = ''ownership.lease-heartbeat-recorded'' then HeartbeatRecorded (heartbeat_in e)
      else if type = ''ownership.lease-released''
      then LeaseReleased (key_ref (pay e ''owner_lease_event_ref'')) (int_at (pay e ''fence_epoch''))
      else if type = ''control.pause-requested''
      then PauseRequested (key_ref (pay e ''attempt_event_ref'')) (key_ref (pay e ''run_owner_lease_ref'')) (int_at (pay e ''fence_epoch''))
      else if type = ''run.fence-advanced''
      then FenceAdvanced (key_ref (pay e ''attempt_ref'')) (int_at (pay e ''previous_fence_epoch'')) (int_at (pay e ''fence_epoch''))
        (refs_in e ''owner_lease_refs'')
      else if type = ''task.action-admitted'' then ActionAdmitted (own (jget e ''payload''))
      else if type = ''task.execution-non-entry-acknowledged'' then NonEntryAcknowledged (non_entry_in e)
      else if type = ''process.termination-attempted'' then TerminationAttempted (termination_in e)
      else if type = ''task.action-outcome-reconciled''
      then (if non_start e then ProvenNonStart (non_start_in e) else OutcomeUnknownRemains action)
      else if type = ''effect.outcome'' then EffectOutcome (effect_in e)
      else if type = ''task.action-settled'' then ActionSettled (settlement_in e)
      else if type = ''run.paused'' then RunPaused (pause_in e)
      else if type = ''integrity.observation-rejected'' then ObservationRejected
      else if type = ''run.quarantined'' then RunQuarantined
      else if type = ''authority.grant-revoked'' then GrantRevoked
      else if type = ''control.abort-requested'' then AbortRequested
      else if type = ''run.terminal-freeze-entered'' then FreezeEntered
      else if type = ''run.terminal-freeze-revised'' then FreezeRevised
      else if type = ''run.terminal-sealed''
      then TerminalSealed (int_at (pay e ''previous_fence_epoch'')) (int_at (pay e ''fence_epoch''))
      else if type = ''compensation.settled'' then CompensationSettled (text_of (pay e ''status''))
      else if type = ''artifact.recorded'' then ArtifactRecorded (text_of (pay e ''producer_action_id''))
      else if body4_typed (ActionFact type action) then ActionFact type action
      else if body4_typed (Phased type phase) then Phased type phase
      else if body4_typed (CallAdmitted type action) then CallAdmitted type action
      else PlainEvent type)"

definition event4_of :: "json \<Rightarrow> event4" where
  "event4_of e =
     \<lparr>e4_sequence = seq_of e, e4_hash = hash_of e, e4_previous = text_or_null (jget e ''previous_event_hash''),
      e4_source = text_of (jget e ''source''), e4_run_id = text_of (jget e ''run_id''), e4_body = body4_of e\<rparr>"

subsection \<open>Validation\<close>

datatype ledger_failure4 =
    SyntaxInvalid4 "nat option"
  | SchemaInvalid4 nat
  | HistoryInvalid4 nat v04_issue
  | TransitionInvalid4 nat refusal4

text \<open>The reason the code returns: broken links and hashes are told apart from the other history rules.\<close>

definition failure_reason4 :: "ledger_failure4 \<Rightarrow> string" where
  "failure_reason4 f =
     (case f of
        SyntaxInvalid4 _ \<Rightarrow> ''LEDGER_SYNTAX_INVALID''
      | SchemaInvalid4 _ \<Rightarrow> ''LEDGER_EVENT_SCHEMA_INVALID''
      | HistoryInvalid4 _ x \<Rightarrow>
          if x \<in> Chain ` {SequenceNotContiguous, PreviousHashMismatch, EventHashMismatch} then ''LEDGER_HASH_CHAIN_INVALID''
          else ''LEDGER_HISTORY_INVALID''
      | TransitionInvalid4 _ _ \<Rightarrow> ''LEDGER_TRANSITION_INVALID'')"

definition validateHistory4 :: "schema_env \<Rightarrow> json list \<Rightarrow> ledger_failure4 + reducer4" where
  "validateHistory4 env es =
     (if es = [] \<or> ev_type (es ! 0) \<noteq> ''run.initialized'' then Inl (HistoryInvalid4 0 NotInitialized)
      else case scan (history_fault4 env es) es of
        Some (i, f) \<Rightarrow> Inl (HistoryInvalid4 i f)
      | None \<Rightarrow>
          (case reduceRuntimeEventPrefixV04 (map event4_of es) of
             Inl (i, f) \<Rightarrow> Inl (TransitionInvalid4 i f)
           | Inr s \<Rightarrow> Inr s))"

definition validateEvents4 :: "schema_env \<Rightarrow> json list \<Rightarrow> ledger_failure4 + reducer4" where
  "validateEvents4 env es =
     (case scan (\<lambda>_ e. require (RuntimeEventV04 env e) ()) es of
        Some (i, _) \<Rightarrow> Inl (SchemaInvalid4 i)
      | None \<Rightarrow> validateHistory4 env es)"

subsection \<open>The ledger\<close>

record validated_ledger =
  vl_run :: string
  vl_plan :: string
  vl_events :: "json list"
  vl_sequence :: nat
  vl_head :: string
  vl_bytes_hash :: string
  vl_byte_length :: nat
  vl_line_lengths :: "nat list"
  vl_sealed :: bool
  vl_state :: reducer4

definition validated :: "ledger_reader \<Rightarrow> nat list \<Rightarrow> json list \<Rightarrow> reducer4 \<Rightarrow> validated_ledger" where
  "validated rd bytes es s =
     \<lparr>vl_run = text_of (jget (es ! 0) ''run_id''), vl_plan = text_of (pay (es ! 0) ''plan_hash''), vl_events = es,
      vl_sequence = length es, vl_head = hash_of (last es), vl_bytes_hash = hash_bytes rd bytes,
      vl_byte_length = length bytes,
      vl_line_lengths = map (\<lambda>l. utf8ByteLength l + 1) (case captured_lines rd bytes of None \<Rightarrow> [] | Some lns \<Rightarrow> lns),
      vl_sealed = is_seal (last es), vl_state = s\<rparr>"

definition inspectRuntimeLedgerV04 :: "ledger_reader \<Rightarrow> schema_env \<Rightarrow> nat list \<Rightarrow> ledger_failure4 + validated_ledger" where
  "inspectRuntimeLedgerV04 rd env bytes =
     (case read_ledger rd bytes of
        Inl at_line \<Rightarrow> Inl (SyntaxInvalid4 at_line)
      | Inr es \<Rightarrow>
          (case validateEvents4 env es of
             Inl f \<Rightarrow> Inl f
           | Inr s \<Rightarrow> Inr (validated rd bytes es s)))"

end
