(* ===== verification/Event_Laws_V04.thy ===== *)
theory Event_Laws_V04
  imports Event_Schema_V04 Event_Laws_V02
begin

text \<open>
  What the schema of the events of version 0.4 says to the rest: the type of each alternative,
  so an accepted event of a type satisfies the schema of that type; and the references the
  schemas of a proven non-start, its acknowledgement and its termination require.
\<close>

lemma ev_type_set_version [simp]: "ev_type (set_field ''schema_version'' x e) = ev_type e"
  by (simp add: ev_type_def jget_set_field)

lemma with_version_type: "with_version ver s e \<Longrightarrow> (\<And>v. s v \<Longrightarrow> ev_type v = t) \<Longrightarrow> ev_type e = t"
  unfolding with_version_def by (metis ev_type_set_version)

lemma event_schema_V04_type: "event_schema_V04 env t p e \<Longrightarrow> ev_type e = t"
  unfolding event_schema_V04_def
  using strict_field [of "RuntimeEventEnvelopeV04_shape env @ [(''event_type'', z_literal (JStr t)), (''payload'', p)]" e
      "''event_type''" "z_literal (JStr t)"]
  by (auto simp: z_literal_def ev_type_def)

lemma event_schema_V04_payload:
  assumes "event_schema_V04 env t p e"
  shows "\<exists>x. jget e ''payload'' = Some x \<and> p x"
  using assms strict_field [of "RuntimeEventEnvelopeV04_shape env @ [(''event_type'', z_literal (JStr t)), (''payload'', p)]" e
      "''payload''" p]
  by (simp add: event_schema_V04_def)

lemma refined_V04_type: "refined (event_schema_V04 env t p) q e \<Longrightarrow> ev_type e = t"
  by (auto dest: refinedD event_schema_V04_type)

lemmas copied_event_defs =
  ControlAbortRequestedEventV04_def GateResultRequiredEventV04_def GateResultRecordedEventV04_def
  EvaluationResultRequiredEventV04_def EvaluationResultRecordedEventV04_def
  AuthorityHumanAuthorizationRecordedEventV04_def AuthorityEnvelopeRecordedEventV04_def
  ApprovalRecommendationRecordedEventV04_def PolicyDecisionRecordedEventV04_def
  AuthorityWaiverRecordedEventV04_def AuthorityGrantRevokedEventV04_def EvidenceRecordedEventV04_def
  ObservationManualRecordedEventV04_def ClaimRecordedEventV04_def FindingRecordedEventV04_def
  WaiverRecordedEventV04_def ToolCallAdmittedEventV04_def ArtifactWriteAdmittedEventV04_def
  TaskExecutionStartedEventV04_def TaskProgressFactRecordedEventV04_def
  TaskActionOutcomeUnknownEventV04_def ArtifactRecordedEventV04_def
  RecordRedactionDerivativeRecordedEventV04_def RecordCustodyStateRecordedEventV04_def
  RecordExportDecisionRecordedEventV04_def TaskActionSettledEventV04_def LoopAttemptCompletedEventV04_def
  TaskProgressObservedEventV04_def RunTerminalFreezeEnteredEventV04_def
  RunTerminalFreezeRevisedEventV04_def RunCompensationRequestedEventV04_def
  RunCompensationRequestRevisedEventV04_def RunCompensationPhaseEnteredEventV04_def
  RunCompensationCandidateEscalatedEventV04_def CompensationSettledEventV04_def
  RunTerminalSealedEventV04_def

lemmas new_event_defs =
  RunInitializedEventV04_def RunClockObservedEventV04_def RunFenceAdvancedEventV04_def
  LeaseIssuedEventV04_def TaskActionAdmittedEventV04_def LimitAdmissionBlockedEventV04_def
  TaskExecutionCompletedEventV04_def TaskExecutionFailedEventV04_def
  TaskExecutionNonEntryAcknowledgedEventV04_def TaskActionOutcomeReconciledEventV04_def
  EffectOutcomeEventV04_def RunStartedEventV04_def RunPausedEventV04_def RunQuarantinedEventV04_def
  ProcessTerminationAttemptedEventV04_def IntegrityObservationRejectedEventV04_def
  ControlPauseRequestedEventV04_def RecoveryResumeRequestedEventV04_def ExecutionAttemptStartedEventV04_def
  OwnershipLeaseAcquiredEventV04_def OwnershipLeaseHeartbeatRecordedEventV04_def
  OwnershipLeaseReleasedEventV04_def RunCompactionRecordedEventV04_def

lemma copied_event_type:
  "ControlAbortRequestedEventV04 env e \<Longrightarrow> ev_type e = ''control.abort-requested''"
  "GateResultRequiredEventV04 env e \<Longrightarrow> ev_type e = ''gate.result-required''"
  "GateResultRecordedEventV04 env e \<Longrightarrow> ev_type e = ''gate.result-recorded''"
  "EvaluationResultRequiredEventV04 env e \<Longrightarrow> ev_type e = ''evaluation.result-required''"
  "EvaluationResultRecordedEventV04 env e \<Longrightarrow> ev_type e = ''evaluation.result-recorded''"
  "AuthorityHumanAuthorizationRecordedEventV04 env e \<Longrightarrow> ev_type e = ''authority.human-authorization-recorded''"
  "AuthorityEnvelopeRecordedEventV04 env e \<Longrightarrow> ev_type e = ''authority.envelope-recorded''"
  "ApprovalRecommendationRecordedEventV04 env e \<Longrightarrow> ev_type e = ''approval.recommendation-recorded''"
  "PolicyDecisionRecordedEventV04 env e \<Longrightarrow> ev_type e = ''policy.decision-recorded''"
  "AuthorityWaiverRecordedEventV04 env e \<Longrightarrow> ev_type e = ''authority.waiver-recorded''"
  "AuthorityGrantRevokedEventV04 env e \<Longrightarrow> ev_type e = ''authority.grant-revoked''"
  "EvidenceRecordedEventV04 env e \<Longrightarrow> ev_type e = ''evidence.recorded''"
  "ObservationManualRecordedEventV04 env e \<Longrightarrow> ev_type e = ''observation.manual-recorded''"
  "ClaimRecordedEventV04 env e \<Longrightarrow> ev_type e = ''claim.recorded''"
  "FindingRecordedEventV04 env e \<Longrightarrow> ev_type e = ''finding.recorded''"
  "WaiverRecordedEventV04 env e \<Longrightarrow> ev_type e = ''waiver.recorded''"
  "ToolCallAdmittedEventV04 env e \<Longrightarrow> ev_type e = ''tool.call-admitted''"
  "ArtifactWriteAdmittedEventV04 env e \<Longrightarrow> ev_type e = ''artifact.write-admitted''"
  "TaskExecutionStartedEventV04 env e \<Longrightarrow> ev_type e = ''task.execution-started''"
  "TaskProgressFactRecordedEventV04 env e \<Longrightarrow> ev_type e = ''task.progress-fact-recorded''"
  "TaskActionOutcomeUnknownEventV04 env e \<Longrightarrow> ev_type e = ''task.action-outcome-unknown''"
  "ArtifactRecordedEventV04 env e \<Longrightarrow> ev_type e = ''artifact.recorded''"
  "RecordRedactionDerivativeRecordedEventV04 env e \<Longrightarrow> ev_type e = ''record.redaction-derivative-recorded''"
  "RecordCustodyStateRecordedEventV04 env e \<Longrightarrow> ev_type e = ''record.custody-state-recorded''"
  "RecordExportDecisionRecordedEventV04 env e \<Longrightarrow> ev_type e = ''record.export-decision-recorded''"
  "TaskActionSettledEventV04 env e \<Longrightarrow> ev_type e = ''task.action-settled''"
  "LoopAttemptCompletedEventV04 env e \<Longrightarrow> ev_type e = ''loop.attempt-completed''"
  "TaskProgressObservedEventV04 env e \<Longrightarrow> ev_type e = ''task.progress-observed''"
  "RunTerminalFreezeEnteredEventV04 env e \<Longrightarrow> ev_type e = ''run.terminal-freeze-entered''"
  "RunTerminalFreezeRevisedEventV04 env e \<Longrightarrow> ev_type e = ''run.terminal-freeze-revised''"
  "RunCompensationRequestedEventV04 env e \<Longrightarrow> ev_type e = ''run.compensation-requested''"
  "RunCompensationRequestRevisedEventV04 env e \<Longrightarrow> ev_type e = ''run.compensation-request-revised''"
  "RunCompensationPhaseEnteredEventV04 env e \<Longrightarrow> ev_type e = ''run.compensation-phase-entered''"
  "RunCompensationCandidateEscalatedEventV04 env e \<Longrightarrow> ev_type e = ''run.compensation-candidate-escalated''"
  "CompensationSettledEventV04 env e \<Longrightarrow> ev_type e = ''compensation.settled''"
  "RunTerminalSealedEventV04 env e \<Longrightarrow> ev_type e = ''run.terminal-sealed''"
  unfolding copied_event_defs by (erule with_version_type; rule event_type_of; assumption)+

lemma new_event_type:
  "RunInitializedEventV04 env e \<Longrightarrow> ev_type e = ''run.initialized''"
  "RunClockObservedEventV04 env e \<Longrightarrow> ev_type e = ''run.clock-observed''"
  "RunFenceAdvancedEventV04 env e \<Longrightarrow> ev_type e = ''run.fence-advanced''"
  "LeaseIssuedEventV04 env e \<Longrightarrow> ev_type e = ''lease.issued''"
  "TaskActionAdmittedEventV04 env e \<Longrightarrow> ev_type e = ''task.action-admitted''"
  "LimitAdmissionBlockedEventV04 env e \<Longrightarrow> ev_type e = ''limit.admission-blocked''"
  "TaskExecutionCompletedEventV04 env e \<Longrightarrow> ev_type e = ''task.execution-completed''"
  "TaskExecutionFailedEventV04 env e \<Longrightarrow> ev_type e = ''task.execution-failed''"
  "TaskExecutionNonEntryAcknowledgedEventV04 env e \<Longrightarrow> ev_type e = ''task.execution-non-entry-acknowledged''"
  "TaskActionOutcomeReconciledEventV04 env e \<Longrightarrow> ev_type e = ''task.action-outcome-reconciled''"
  "EffectOutcomeEventV04 env e \<Longrightarrow> ev_type e = ''effect.outcome''"
  "RunStartedEventV04 env e \<Longrightarrow> ev_type e = ''run.started''"
  "RunPausedEventV04 env e \<Longrightarrow> ev_type e = ''run.paused''"
  "RunQuarantinedEventV04 env e \<Longrightarrow> ev_type e = ''run.quarantined''"
  "ProcessTerminationAttemptedEventV04 env e \<Longrightarrow> ev_type e = ''process.termination-attempted''"
  "IntegrityObservationRejectedEventV04 env e \<Longrightarrow> ev_type e = ''integrity.observation-rejected''"
  "ControlPauseRequestedEventV04 env e \<Longrightarrow> ev_type e = ''control.pause-requested''"
  "RecoveryResumeRequestedEventV04 env e \<Longrightarrow> ev_type e = ''recovery.resume-requested''"
  "ExecutionAttemptStartedEventV04 env e \<Longrightarrow> ev_type e = ''execution.attempt-started''"
  "OwnershipLeaseAcquiredEventV04 env e \<Longrightarrow> ev_type e = ''ownership.lease-acquired''"
  "OwnershipLeaseHeartbeatRecordedEventV04 env e \<Longrightarrow> ev_type e = ''ownership.lease-heartbeat-recorded''"
  "OwnershipLeaseReleasedEventV04 env e \<Longrightarrow> ev_type e = ''ownership.lease-released''"
  "RunCompactionRecordedEventV04 env e \<Longrightarrow> ev_type e = ''run.compaction-recorded''"
  unfolding new_event_defs by (erule refined_V04_type event_schema_V04_type)+

text \<open>Of the alternatives of the union only the one of the event's own type can accept it.\<close>

lemma event_alternative_V04:
  "RuntimeEventV04 env e \<Longrightarrow> ev_type e = ''task.action-outcome-reconciled'' \<Longrightarrow> TaskActionOutcomeReconciledEventV04 env e"
  "RuntimeEventV04 env e \<Longrightarrow> ev_type e = ''task.execution-non-entry-acknowledged'' \<Longrightarrow>
     TaskExecutionNonEntryAcknowledgedEventV04 env e"
  unfolding RuntimeEventV04_def z_discriminated_def z_union_def list_ex_Cons_iff list_ex_Nil_iff
  by (elim disjE FalseE; frule copied_event_type new_event_type; simp)+

subsection \<open>References that the schemas require\<close>

lemma acknowledgement_ref_collected:
  assumes "TaskExecutionNonEntryAcknowledgedEventV04 env e"
  shows "key_ref (pay e ''admission_ref'') \<in> set (payload_refs e)"
proof -
  obtain p where p: "jget e ''payload'' = Some p" and shp: "strictObject
      [(''action_id'', z_string MachineIdV02), (''task_ref'', z_string HumanIdV02),
       (''admission_ref'', LedgerRefV02), (''attempt_event_ref'', LedgerRefV02),
       (''adapter_invocation_id'', z_string MachineIdV02), (''adapter_ref'', z_string HumanIdV02),
       (''adapter_version_hash'', z_string Hash), (''fence_epoch'', safe_nonnegative),
       (''host_identity_hash'', z_string Hash), (''boot_id_hash'', z_string Hash),
       (''unit_name_hash'', z_string Hash), (''cgroup_path_hash'', z_string Hash),
       (''acknowledgement_observation_hash'', z_string Hash)] p"
    using event_schema_V04_payload [OF refinedD(1) [OF assms [unfolded TaskExecutionNonEntryAcknowledgedEventV04_def]]] by blast
  have "key_ref (jget p ''admission_ref'') \<in> set (collectLedgerRefs p)"
    by (intro schema_ref_collected [OF shp]) simp_all
  with p show ?thesis by (simp add: payload_refs_def own_def pay_def)
qed

lemma non_start_refs_collected:
  assumes "TaskActionOutcomeReconciledEventV04 env e"
  shows "key_ref (pay e ''process_cannot_continue_ref'') \<in> set (payload_refs e)"
proof -
  obtain p shp where p: "jget e ''payload'' = Some p" "strictObject shp p"
      "(''process_cannot_continue_ref'', LedgerRefV02) \<in> set shp" "''ledger_sequence'' \<notin> fst ` set shp"
    using event_schema_V04_payload [OF refinedD(1) [OF assms [unfolded TaskActionOutcomeReconciledEventV04_def]]]
    by (auto simp: z_discriminated_def z_union_def TaskActionOutcomeReconciledPayloadV04_def)
  from schema_ref_collected [OF p(2-4)] p(1) show ?thesis by (simp add: payload_refs_def own_def pay_def)
qed

end
