(* ===== verification/Ledger_V04_Laws.thy ===== *)
theory Ledger_V04_Laws
  imports Ledger_V04 Event_Laws_V04 Reducer_V04_Laws
begin

text \<open>
  What an accepted ledger of version 0.4 guarantees: where its references lead, that an action
  reconciled as never started has its evidence and no execution fact before.
\<close>

subsection \<open>Accepted ledgers\<close>

lemma validateEvents4_Inr:
  "validateEvents4 env es = Inr s \<longleftrightarrow>
     (\<forall>e \<in> set es. RuntimeEventV04 env e) \<and> es \<noteq> [] \<and> ev_type (es ! 0) = ''run.initialized'' \<and>
     scan (history_fault4 env es) es = None \<and> reduceRuntimeEventPrefixV04 (map event4_of es) = Inr s"
proof -
  let ?schemas = "scan (\<lambda>_ e. require (RuntimeEventV04 env e) ()) es"
  have schemas: "(case ?schemas of Some (i, _) \<Rightarrow> Inl (SchemaInvalid4 i) | None \<Rightarrow> r) = Inr s \<longleftrightarrow>
      (\<forall>e \<in> set es. RuntimeEventV04 env e) \<and> r = Inr s" for r :: "ledger_failure4 + reducer4"
    unfolding scan_all [symmetric] by (cases ?schemas) (simp_all split: prod.split)
  have history: "validateHistory4 env es = Inr s \<longleftrightarrow>
      es \<noteq> [] \<and> ev_type (es ! 0) = ''run.initialized'' \<and> scan (history_fault4 env es) es = None \<and>
      reduceRuntimeEventPrefixV04 (map event4_of es) = Inr s"
    unfolding validateHistory4_def by (simp split: option.split sum.split prod.split)
  show ?thesis
    unfolding validateEvents4_def schemas history by blast
qed

definition accepted4 :: "schema_env \<Rightarrow> json list \<Rightarrow> bool" where
  "accepted4 env es \<longleftrightarrow> \<not> isl (validateEvents4 env es)"

lemma accepted4_parts:
  assumes "accepted4 env es" and "i < length es"
  shows "RuntimeEventV04 env (es ! i)" "seq_of (es ! i) = int i + 1"
    "\<And>n h. (n, h) \<in> set (payload_refs (es ! i)) \<Longrightarrow> n < int i + 1"
    "validateV04SpecificHistory es i (es ! i) = None"
proof -
  obtain s where s: "validateEvents4 env es = Inr s" using assms(1) by (cases "validateEvents4 env es") (simp_all add: accepted4_def)
  with assms(2) show "RuntimeEventV04 env (es ! i)" by (simp add: validateEvents4_Inr)
  from s assms(2) have rules: "history_fault4 env es i (es ! i) = None" by (simp add: validateEvents4_Inr scan_None)
  then show seq: "seq_of (es ! i) = int i + 1" by (simp add: history_fault4_def link_fault_def seq_of_def)
  from rules show "\<And>n h. (n, h) \<in> set (payload_refs (es ! i)) \<Longrightarrow> n < int i + 1"
    by (auto simp: history_fault4_def list_all_iff seq)
  from rules show "validateV04SpecificHistory es i (es ! i) = None" by (simp add: history_fault4_def)
qed

text \<open>A reference that names an event: the event's position is one below the sequence of the reference.\<close>

lemma named_event:
  assumes "names es r type p"
  obtains j where "j < length es" "fst (key_ref r) = int j + 1" "ev_type (es ! j) = type" "p (es ! j)"
    "exactReferencedEvent es r = Some (es ! j)"
proof -
  from assms obtain x where x: "exactReferencedEvent es r = Some x" "ev_type x = type" "p x"
    by (auto simp: names_def split: option.splits)
  then obtain k where k: "attr r ''ledger_sequence'' = Some (JInt k)" "1 \<le> k" "k \<le> int (length es)" "x = es ! nat (k - 1)"
    by (auto simp: exactReferencedEvent_def event_no_def split: option.splits json.splits if_splits)
  from k(1) have "fst (key_ref r) = k" by (cases r) (simp_all add: key_ref_def)
  with x k show thesis by (intro that [of "nat (k - 1)"]) auto
qed

lemma same_ref_key: "sameLedgerRef l r \<Longrightarrow> key_ref l = key_ref r"
  by (simp add: sameLedgerRef_def key_ref_def)

subsection \<open>Actions that never started\<close>

definition proven_non_start :: "json \<Rightarrow> bool" where
  "proven_non_start e \<longleftrightarrow> ev_type e = ''task.action-outcome-reconciled'' \<and> History_V04.non_start e"

definition execution_fact_types :: "string set" where
  "execution_fact_types =
     {''task.execution-started'', ''task.execution-completed'', ''task.execution-failed'', ''task.progress-fact-recorded'',
      ''task.action-outcome-unknown''}"

text \<open>The events at three positions: an admission of the action, the acknowledgement that it was not entered, its end.\<close>

definition non_start_evidence :: "json list \<Rightarrow> json \<Rightarrow> nat \<Rightarrow> nat \<Rightarrow> nat \<Rightarrow> bool" where
  "non_start_evidence es e a k t \<longleftrightarrow>
     ev_type (es ! a) = ''task.action-admitted'' \<and> admission_of e (es ! a) \<and>
     ev_type (es ! k) = ''task.execution-non-entry-acknowledged'' \<and> acknowledgement_of e (es ! k) \<and>
     ev_type (es ! t) = ''process.termination-attempted'' \<and> is_text (pay (es ! t) ''observed_outcome'') ''terminated'' \<and>
     agree execution_identity_keys (es ! t) (es ! k)"

lemma non_start_chain:
  assumes "accepted4 env es" and "i < length es" and "proven_non_start (es ! i)"
  shows "\<exists>a k t. a < k \<and> k < t \<and> t < i \<and> non_start_evidence es (es ! i) a k t"
proof -
  note at = accepted4_parts [OF assms(1)]
  let ?e = "es ! i"
  have type: "ev_type ?e = ''task.action-outcome-reconciled''" and ns: "History_V04.non_start ?e"
    using assms(3) by (simp_all add: proven_non_start_def)
  have "non_start_ok es ?e"
    using at(4) [OF assms(2)] ns by (simp add: validateV04SpecificHistory_def type reconciliation_fault_def Let_def)
  then have adm: "names es (pay ?e ''admission_ref'') ''task.action-admitted'' (admission_of ?e)"
    and ack: "names es (pay ?e ''non_entry_ack_event_ref'') ''task.execution-non-entry-acknowledged''
      (\<lambda>k. acknowledgement_of ?e k \<and>
        names es (pay ?e ''process_cannot_continue_ref'') ''process.termination-attempted'' (terminated_after ?e k))"
    by (simp_all add: non_start_ok_def)
  obtain a where a: "a < length es" "fst (key_ref (pay ?e ''admission_ref'')) = int a + 1"
      "ev_type (es ! a) = ''task.action-admitted''" "admission_of ?e (es ! a)"
    using adm by (rule named_event)
  obtain k where k: "k < length es" "ev_type (es ! k) = ''task.execution-non-entry-acknowledged''"
      "acknowledgement_of ?e (es ! k)"
      "names es (pay ?e ''process_cannot_continue_ref'') ''process.termination-attempted'' (terminated_after ?e (es ! k))"
    using named_event [OF ack] by metis
  obtain t where t: "t < length es" "fst (key_ref (pay ?e ''process_cannot_continue_ref'')) = int t + 1"
      "ev_type (es ! t) = ''process.termination-attempted''" "terminated_after ?e (es ! k) (es ! t)"
    using k(4) by (rule named_event)
  from t(4) have "seq_of (es ! k) < seq_of (es ! t)" "is_text (pay (es ! t) ''observed_outcome'') ''terminated''"
      "agree execution_identity_keys (es ! t) (es ! k)" by (simp_all add: terminated_after_def)
  moreover from k(3) have same: "key_ref (pay (es ! k) ''admission_ref'') = key_ref (pay ?e ''admission_ref'')"
    by (simp add: acknowledgement_of_def same_ref_key)
  have "int a + 1 < int k + 1"
  proof (rule at(3) [OF k(1)])
    show "(int a + 1, snd (key_ref (pay ?e ''admission_ref''))) \<in> set (payload_refs (es ! k))"
      using acknowledgement_ref_collected [OF event_alternative_V04(2) [OF at(1) [OF k(1)] k(2)]]
      unfolding same by (simp add: a(2) [symmetric])
  qed
  moreover have "int t + 1 < int i + 1"
  proof (rule at(3) [OF assms(2)])
    show "(int t + 1, snd (key_ref (pay ?e ''process_cannot_continue_ref''))) \<in> set (payload_refs ?e)"
      using non_start_refs_collected [OF event_alternative_V04(1) [OF at(1) [OF assms(2)] type]]
      by (simp add: t(2) [symmetric])
  qed
  ultimately show ?thesis
    using a k(2,3) t(3) at(2) [OF k(1)] at(2) [OF t(1)]
    by (intro exI [of _ a] exI [of _ k] exI [of _ t]) (simp add: non_start_evidence_def)
qed

lemma body4_of_fact:
  "ev_type e \<in> execution_fact_types \<Longrightarrow> body4_of e = ActionFact (ev_type e) (text_of (pay e ''action_id''))"
  unfolding execution_fact_types_def by (elim insertE emptyE) (simp_all add: body4_of_def Let_def)

lemma no_fact_before:
  assumes "accepted4 env es" and "i < length es" and "proven_non_start (es ! i)"
    and "j < i" and "ev_type (es ! j) \<in> execution_fact_types"
  shows "pay (es ! j) ''action_id'' \<noteq> pay (es ! i) ''action_id''"
proof
  assume same: "pay (es ! j) ''action_id'' = pay (es ! i) ''action_id''"
  obtain s where "reduceRuntimeEventPrefixV04 (map event4_of es) = Inr s"
    using assms(1) by (cases "validateEvents4 env es") (auto simp: accepted4_def validateEvents4_Inr)
  moreover have "map event4_of es = map event4_of (take i es) @ event4_of (es ! i) # map event4_of (drop (Suc i) es)"
    using assms(2) by (metis id_take_nth_drop list.simps(9) map_append)
  ultimately obtain u v where u: "record4 (map event4_of (take i es)) u"
      "step4 (length (map event4_of (take i es))) u (event4_of (es ! i)) = Inr v"
    unfolding reduceRuntimeEventPrefixV04_def using v04.replay_at by metis
  have body: "e4_body (event4_of (es ! i)) = ProvenNonStart (non_start_in (es ! i))"
    using assms(3) by (simp add: event4_of_def body4_of_def proven_non_start_def Let_def)
  from u(2) have "non_start_proven (non_start_in (es ! i)) u"
    by (rule step4_cases) (use body in \<open>auto simp: reconcile_non_start_def split: if_splits\<close>)
  then have "text_of (pay (es ! i) ''action_id'') \<notin> set (along started_actions (map event4_of (take i es)))"
    using u(1) by (auto simp: record4_def requests_recorded_def non_start_proven_def non_start_in_def)
  moreover have "event4_of (es ! j) \<in> set (map event4_of (take i es))" using assms(2,4) by (force simp: in_set_conv_nth)
  moreover have "text_of (pay (es ! i) ''action_id'') \<in> set (started_actions (e4_body (event4_of (es ! j))))"
    using body4_of_fact [OF assms(5)] by (simp add: event4_of_def same [symmetric])
  ultimately show False by (auto simp: along_def)
qed

lemma inspected_accepted: "inspectRuntimeLedgerV04 rd env bytes = Inr l \<Longrightarrow> accepted4 env (vl_events l)"
  by (auto simp: inspectRuntimeLedgerV04_def accepted4_def validated_def split: sum.splits)

text \<open>
  C14: what an inspected ledger reconciles as never started never ran: before the reconciliation stand,
  in this order, an admission of the action in the same attempt and under the same fence, the
  adapter's acknowledgement that it was not entered, and the end of the very process the
  acknowledgement identifies; and no event before it records a start, progress, an end or an
  unknown outcome of the action.
\<close>

theorem non_start_never_ran:
  assumes "inspectRuntimeLedgerV04 rd env bytes = Inr l" and "i < length (vl_events l)"
    and "proven_non_start (vl_events l ! i)"
  shows "(\<exists>a k t. a < k \<and> k < t \<and> t < i \<and> non_start_evidence (vl_events l) (vl_events l ! i) a k t) \<and>
    list_all (\<lambda>x. ev_type x \<in> execution_fact_types \<longrightarrow> pay x ''action_id'' \<noteq> pay (vl_events l ! i) ''action_id'')
      (take i (vl_events l))"
proof
  note accepted = inspected_accepted [OF assms(1)]
  show "\<exists>a k t. a < k \<and> k < t \<and> t < i \<and> non_start_evidence (vl_events l) (vl_events l ! i) a k t"
    by (rule non_start_chain [OF accepted assms(2,3)])
  show "list_all (\<lambda>x. ev_type x \<in> execution_fact_types \<longrightarrow> pay x ''action_id'' \<noteq> pay (vl_events l ! i) ''action_id'')
      (take i (vl_events l))"
    using no_fact_before [OF accepted assms(2,3)] assms(2) by (simp add: list_all_length)
qed

end
