(* ===== verification/Demo_Ledger_V04.thy ===== *)
theory Demo_Ledger_V04
  imports Demo_Ledger_V02 Ledger_V04_Laws
begin

text \<open>
  A ledger of version 0.4 that the validation accepts: an admitted action, a recovery into an
  attempt that only reconciles, the proof that the action never started, its settlement, freeze
  and seal. Its environment is that of the example of version 0.2.
\<close>

subsection \<open>The events\<close>

definition sample_1_body :: json where
  "sample_1_body =
     JObj [(''plan_hash'', JStr demo_hash), (''initial_fence_epoch'', JInt 0), (''runtime_schema_versions'',
       JObj [(''resolved_run_plan'', JStr ''0.3''), (''ledger_event'', JStr ''0.4''), (''run_manifest'', JStr
       ''0.4''), (''artifact_manifest'', JStr ''0.2''), (''redaction_derivative'', JStr ''0.2''),
       (''human_authorization_proof'', JStr ''0.2''), (''authority_envelope'', JStr ''0.2''),
       (''agency_recommendation'', JStr ''0.2''), (''authority_revocation'', JStr ''0.2''), (''task_result'',
       JStr ''0.2''), (''manual_observation'', JStr ''0.2''), (''export_decision'', JStr ''0.2''),
       (''evidence_item'', JStr ''0.2''), (''gate_result'', JStr ''0.2''), (''evaluation_result'', JStr
       ''0.2''), (''claim'', JStr ''0.2''), (''finding'', JStr ''0.2''), (''waiver'', JStr ''0.2''),
       (''gate_waiver_authority'', JStr ''0.2''), (''summary_artifact'', JStr ''0.1'')])]"

definition sample_1 :: json where
  "sample_1 =
     JObj [(''schema_version'', JStr ''0.4''), (''event_id'', JStr ''e_1''), (''run_id'', JStr ''a_b''),
       (''sequence'', JInt 1), (''recorded_at'', JStr demo_time), (''source'', JStr ''kernel''),
       (''authority_ref'', JNull), (''risk_tier'', JStr ''T0''), (''related_ids'', JArr []),
       (''previous_event_hash'', JNull), (''event_hash'', JStr demo_hash), (''event_type'', JStr
       ''run.initialized''), (''payload'', sample_1_body)]"

definition sample_2_body :: json where
  "sample_2_body =
     JObj [(''executor_profile_hash'', JStr demo_hash)]"

definition sample_2 :: json where
  "sample_2 =
     JObj [(''schema_version'', JStr ''0.4''), (''event_id'', JStr ''e_2''), (''run_id'', JStr ''a_b''),
       (''sequence'', JInt 2), (''recorded_at'', JStr demo_time), (''source'', JStr ''kernel''),
       (''authority_ref'', JNull), (''risk_tier'', JStr ''T0''), (''related_ids'', JArr []),
       (''previous_event_hash'', JStr demo_hash), (''event_hash'', JStr demo_hash), (''event_type'', JStr
       ''run.started''), (''payload'', sample_2_body)]"

definition sample_3_body :: json where
  "sample_3_body =
     JObj [(''clock_id'', JStr ''a_b''), (''observed_at'', JStr demo_time), (''elapsed_ms'', JInt 0),
       (''reason'', JStr ''run-owner-acquisition''), (''task_ref'', JNull), (''failure_ordinal'', JNull),
       (''use_ref'', JStr ''a_b''), (''attempt_ref'', JNull), (''owner_lease_ref'', JNull), (''boot_id_hash'',
       JStr demo_hash), (''monotonic_clock_id'', JStr ''a_b'')]"

definition sample_3 :: json where
  "sample_3 =
     JObj [(''schema_version'', JStr ''0.4''), (''event_id'', JStr ''e_3''), (''run_id'', JStr ''a_b''),
       (''sequence'', JInt 3), (''recorded_at'', JStr demo_time), (''source'', JStr ''kernel''),
       (''authority_ref'', JNull), (''risk_tier'', JStr ''T0''), (''related_ids'', JArr []),
       (''previous_event_hash'', JStr demo_hash), (''event_hash'', JStr demo_hash), (''event_type'', JStr
       ''run.clock-observed''), (''payload'', sample_3_body)]"

definition sample_4_body :: json where
  "sample_4_body =
     JObj [(''attempt_id'', JStr ''a_b''), (''attempt_ordinal'', JInt 1), (''mode'', JStr ''ordinary''),
       (''previous_attempt_event_ref'', JNull), (''resume_request_event_ref'', JNull), (''resume_nonce_hash'',
       JNull), (''source_boundary_sequence'', JInt 2), (''source_boundary_head_hash'', JStr demo_hash),
       (''source_manifest_hash'', JStr demo_hash), (''repository_state_hash'', JStr demo_hash),
       (''plan_hash'', JStr demo_hash), (''input_hash'', JStr demo_hash), (''recovery_policy_hash'', JStr
       demo_hash), (''authority_envelope_hash'', JStr demo_hash), (''run_owner_lease_id'', JStr ''a_b''),
       (''issued_clock_ref'', JObj [(''ledger_sequence'', JInt 3), (''event_hash'', JStr demo_hash)]),
       (''deadline_elapsed_ms'', JInt 1), (''boot_id_hash'', JStr demo_hash), (''monotonic_clock_id'', JStr
       ''a_b''), (''previous_fence_epoch'', JInt 0), (''fence_epoch'', JInt 0)]"

definition sample_4 :: json where
  "sample_4 =
     JObj [(''schema_version'', JStr ''0.4''), (''event_id'', JStr ''e_4''), (''run_id'', JStr ''a_b''),
       (''sequence'', JInt 4), (''recorded_at'', JStr demo_time), (''source'', JStr ''kernel''),
       (''authority_ref'', JNull), (''risk_tier'', JStr ''T0''), (''related_ids'', JArr []),
       (''previous_event_hash'', JStr demo_hash), (''event_hash'', JStr demo_hash), (''event_type'', JStr
       ''execution.attempt-started''), (''payload'', sample_4_body)]"

definition sample_5_body :: json where
  "sample_5_body =
     JObj [(''action_id'', JStr ''a_b''), (''task_ref'', JStr ''a''), (''lease_id'', JStr ''a_b''),
       (''lease_event_ref'', JObj [(''ledger_sequence'', JInt 2), (''event_hash'', JStr demo_hash)]),
       (''admission_clock_ref'', JObj [(''ledger_sequence'', JInt 3), (''event_hash'', JStr demo_hash)]),
       (''action_proposal_id'', JStr ''a_b''), (''action_proposal_hash'', JStr demo_hash),
       (''action_actor_ref'', JStr ''a_b''), (''action_actor_stable_identity_hash'', JStr demo_hash),
       (''on_behalf_of_chain_hash'', JStr demo_hash), (''repository_root_ref'', JStr ''a_b''),
       (''repository_base_ref_identity_hash'', JStr demo_hash), (''repository_pre_state_hash'', JStr
       demo_hash), (''authorized_change_set_hash'', JStr demo_hash), (''normalized_dispatch_hash'', JStr
       demo_hash), (''action_scope_hash'', JStr demo_hash), (''action_class'', JStr ''task''),
       (''classifier_input_hash'', JStr demo_hash), (''classifier_registry_hash'', JStr demo_hash),
       (''classifier_rule_hash'', JStr demo_hash), (''data_flow_hash'', JStr demo_hash),
       (''execution_ordinal'', JInt 1), (''retry_of_failure_ordinal'', JNull), (''fence_epoch'', JInt 0),
       (''side_effect_refs'', JArr [JStr ''a'']), (''waiver_gate_use_checks'', JArr []),
       (''task_executions_after'', JInt 1), (''action_output_bytes_after'', JInt 0), (''policy_action_kind'',
       JStr ''planning''), (''action_approval_class'', JStr ''automatic''), (''attempt_event_ref'', JObj
       [(''ledger_sequence'', JInt 4), (''event_hash'', JStr demo_hash)]), (''parent_run_owner_lease_id'',
       JStr ''a_b''), (''logical_operation_idempotency_key'', JStr demo_hash),
       (''resolved_operation_input_hash'', JStr demo_hash), (''recovery_policy_hash'', JStr demo_hash),
       (''process_runtime_ceiling_ms'', JInt 1)]"

definition sample_5 :: json where
  "sample_5 =
     JObj [(''schema_version'', JStr ''0.4''), (''event_id'', JStr ''e_5''), (''run_id'', JStr ''a_b''),
       (''sequence'', JInt 5), (''recorded_at'', JStr demo_time), (''source'', JStr
       ''policy-enforcement-point''), (''authority_ref'', JStr ''a_b''), (''risk_tier'', JStr ''T0''),
       (''related_ids'', JArr []), (''previous_event_hash'', JStr demo_hash), (''event_hash'', JStr
       demo_hash), (''event_type'', JStr ''task.action-admitted''), (''payload'', sample_5_body)]"

definition sample_6_body :: json where
  "sample_6_body =
     JObj [(''clock_id'', JStr ''a_b''), (''observed_at'', JStr demo_time), (''elapsed_ms'', JInt 0),
       (''reason'', JStr ''recovery-request''), (''task_ref'', JNull), (''failure_ordinal'', JNull),
       (''use_ref'', JStr ''a_b''), (''attempt_ref'', JObj [(''ledger_sequence'', JInt 4), (''event_hash'',
       JStr demo_hash)]), (''owner_lease_ref'', JObj [(''ledger_sequence'', JInt 4), (''event_hash'', JStr
       demo_hash)]), (''boot_id_hash'', JNull), (''monotonic_clock_id'', JNull)]"

definition sample_6 :: json where
  "sample_6 =
     JObj [(''schema_version'', JStr ''0.4''), (''event_id'', JStr ''e_6''), (''run_id'', JStr ''a_b''),
       (''sequence'', JInt 6), (''recorded_at'', JStr demo_time), (''source'', JStr ''kernel''),
       (''authority_ref'', JNull), (''risk_tier'', JStr ''T0''), (''related_ids'', JArr []),
       (''previous_event_hash'', JStr demo_hash), (''event_hash'', JStr demo_hash), (''event_type'', JStr
       ''run.clock-observed''), (''payload'', sample_6_body)]"

definition sample_7_body :: json where
  "sample_7_body =
     JObj [(''clock_id'', JStr ''a_b''), (''observed_at'', JStr demo_time), (''elapsed_ms'', JInt 0),
       (''reason'', JStr ''run-owner-acquisition''), (''task_ref'', JNull), (''failure_ordinal'', JNull),
       (''use_ref'', JStr ''a_b''), (''attempt_ref'', JNull), (''owner_lease_ref'', JNull), (''boot_id_hash'',
       JStr demo_hash), (''monotonic_clock_id'', JStr ''a_b'')]"

definition sample_7 :: json where
  "sample_7 =
     JObj [(''schema_version'', JStr ''0.4''), (''event_id'', JStr ''e_7''), (''run_id'', JStr ''a_b''),
       (''sequence'', JInt 7), (''recorded_at'', JStr demo_time), (''source'', JStr ''kernel''),
       (''authority_ref'', JNull), (''risk_tier'', JStr ''T0''), (''related_ids'', JArr []),
       (''previous_event_hash'', JStr demo_hash), (''event_hash'', JStr demo_hash), (''event_type'', JStr
       ''run.clock-observed''), (''payload'', sample_7_body)]"

definition sample_8_body :: json where
  "sample_8_body =
     JObj [(''request_id'', JStr ''a_b''), (''mode'', JStr ''reconciliation-only''), (''resume_nonce_hash'',
       JStr demo_hash), (''previous_attempt_event_ref'', JObj [(''ledger_sequence'', JInt 4), (''event_hash'',
       JStr demo_hash)]), (''source_boundary_sequence'', JInt 2), (''source_boundary_head_hash'', JStr
       demo_hash), (''source_manifest_hash'', JStr demo_hash), (''repository_state_hash'', JStr demo_hash),
       (''plan_hash'', JStr demo_hash), (''input_hash'', JStr demo_hash), (''recovery_policy_hash'', JStr
       demo_hash), (''authority_envelope_hash'', JStr demo_hash), (''request_clock_ref'', JObj
       [(''ledger_sequence'', JInt 6), (''event_hash'', JStr demo_hash)]), (''target_action_admission_ref'',
       JObj [(''ledger_sequence'', JInt 5), (''event_hash'', JStr demo_hash)]),
       (''compensation_phase_event_ref'', JNull)]"

definition sample_8 :: json where
  "sample_8 =
     JObj [(''schema_version'', JStr ''0.4''), (''event_id'', JStr ''e_8''), (''run_id'', JStr ''a_b''),
       (''sequence'', JInt 8), (''recorded_at'', JStr demo_time), (''source'', JStr ''operator''),
       (''authority_ref'', JStr ''a_b''), (''risk_tier'', JStr ''T0''), (''related_ids'', JArr []),
       (''previous_event_hash'', JStr demo_hash), (''event_hash'', JStr demo_hash), (''event_type'', JStr
       ''recovery.resume-requested''), (''payload'', sample_8_body)]"

definition sample_9_body :: json where
  "sample_9_body =
     JObj [(''attempt_id'', JStr ''a_b''), (''attempt_ordinal'', JInt 2), (''mode'', JStr
       ''reconciliation-only''), (''previous_attempt_event_ref'', JObj [(''ledger_sequence'', JInt 4),
       (''event_hash'', JStr demo_hash)]), (''resume_request_event_ref'', JObj [(''ledger_sequence'', JInt 8),
       (''event_hash'', JStr demo_hash)]), (''resume_nonce_hash'', JStr demo_hash),
       (''source_boundary_sequence'', JInt 2), (''source_boundary_head_hash'', JStr demo_hash),
       (''source_manifest_hash'', JStr demo_hash), (''repository_state_hash'', JStr demo_hash),
       (''plan_hash'', JStr demo_hash), (''input_hash'', JStr demo_hash), (''recovery_policy_hash'', JStr
       demo_hash), (''authority_envelope_hash'', JStr demo_hash), (''run_owner_lease_id'', JStr ''a_b''),
       (''issued_clock_ref'', JObj [(''ledger_sequence'', JInt 7), (''event_hash'', JStr demo_hash)]),
       (''deadline_elapsed_ms'', JInt 1), (''boot_id_hash'', JStr demo_hash), (''monotonic_clock_id'', JStr
       ''a_b''), (''previous_fence_epoch'', JInt 0), (''fence_epoch'', JInt 1)]"

definition sample_9 :: json where
  "sample_9 =
     JObj [(''schema_version'', JStr ''0.4''), (''event_id'', JStr ''e_9''), (''run_id'', JStr ''a_b''),
       (''sequence'', JInt 9), (''recorded_at'', JStr demo_time), (''source'', JStr ''kernel''),
       (''authority_ref'', JNull), (''risk_tier'', JStr ''T0''), (''related_ids'', JArr []),
       (''previous_event_hash'', JStr demo_hash), (''event_hash'', JStr demo_hash), (''event_type'', JStr
       ''execution.attempt-started''), (''payload'', sample_9_body)]"

definition sample_10_body :: json where
  "sample_10_body =
     JObj [(''action_id'', JStr ''a_b''), (''task_ref'', JStr ''a''), (''admission_ref'', JObj
       [(''ledger_sequence'', JInt 5), (''event_hash'', JStr demo_hash)]), (''attempt_event_ref'', JObj
       [(''ledger_sequence'', JInt 4), (''event_hash'', JStr demo_hash)]), (''adapter_invocation_id'', JStr
       ''a_b''), (''adapter_ref'', JStr ''a''), (''adapter_version_hash'', JStr demo_hash), (''fence_epoch'',
       JInt 0), (''host_identity_hash'', JStr demo_hash), (''boot_id_hash'', JStr demo_hash),
       (''unit_name_hash'', JStr demo_hash), (''cgroup_path_hash'', JStr demo_hash),
       (''acknowledgement_observation_hash'', JStr demo_hash)]"

definition sample_10 :: json where
  "sample_10 =
     JObj [(''schema_version'', JStr ''0.4''), (''event_id'', JStr ''e_10''), (''run_id'', JStr ''a_b''),
       (''sequence'', JInt 10), (''recorded_at'', JStr demo_time), (''source'', JStr ''adapter''),
       (''authority_ref'', JNull), (''risk_tier'', JStr ''T0''), (''related_ids'', JArr []),
       (''previous_event_hash'', JStr demo_hash), (''event_hash'', JStr demo_hash), (''event_type'', JStr
       ''task.execution-non-entry-acknowledged''), (''payload'', sample_10_body)]"

definition sample_11_body :: json where
  "sample_11_body =
     JObj [(''trigger'', JStr ''reconciliation''), (''trigger_event_ref'', JObj [(''ledger_sequence'', JInt
       10), (''event_hash'', JStr demo_hash)]), (''action_admission_event_ref'', JObj [(''ledger_sequence'',
       JInt 5), (''event_hash'', JStr demo_hash)]), (''adapter_invocation_id'', JStr ''a_b''),
       (''host_identity_hash'', JStr demo_hash), (''boot_id_hash'', JStr demo_hash), (''unit_name_hash'', JStr
       demo_hash), (''cgroup_path_hash'', JStr demo_hash), (''termination_request_hash'', JStr demo_hash),
       (''termination_observation_hash'', JStr demo_hash), (''observed_outcome'', JStr ''terminated'')]"

definition sample_11 :: json where
  "sample_11 =
     JObj [(''schema_version'', JStr ''0.4''), (''event_id'', JStr ''e_11''), (''run_id'', JStr ''a_b''),
       (''sequence'', JInt 11), (''recorded_at'', JStr demo_time), (''source'', JStr ''adapter''),
       (''authority_ref'', JNull), (''risk_tier'', JStr ''T0''), (''related_ids'', JArr []),
       (''previous_event_hash'', JStr demo_hash), (''event_hash'', JStr demo_hash), (''event_type'', JStr
       ''process.termination-attempted''), (''payload'', sample_11_body)]"

definition sample_12_body :: json where
  "sample_12_body =
     JObj [(''action_id'', JStr ''a_b''), (''task_ref'', JStr ''a''), (''admission_ref'', JObj
       [(''ledger_sequence'', JInt 5), (''event_hash'', JStr demo_hash)]), (''reconciliation_status'', JStr
       ''proven-non-start''), (''attempt_event_ref'', JObj [(''ledger_sequence'', JInt 4), (''event_hash'',
       JStr demo_hash)]), (''adapter_invocation_id'', JStr ''a_b''), (''adapter_ref'', JStr ''a''),
       (''adapter_version_hash'', JStr demo_hash), (''non_entry_ack_event_ref'', JObj [(''ledger_sequence'',
       JInt 10), (''event_hash'', JStr demo_hash)]), (''process_cannot_continue_ref'', JObj
       [(''ledger_sequence'', JInt 11), (''event_hash'', JStr demo_hash)]), (''fence_epoch'', JInt 0)]"

definition sample_12 :: json where
  "sample_12 =
     JObj [(''schema_version'', JStr ''0.4''), (''event_id'', JStr ''e_12''), (''run_id'', JStr ''a_b''),
       (''sequence'', JInt 12), (''recorded_at'', JStr demo_time), (''source'', JStr ''integrity''),
       (''authority_ref'', JNull), (''risk_tier'', JStr ''T0''), (''related_ids'', JArr []),
       (''previous_event_hash'', JStr demo_hash), (''event_hash'', JStr demo_hash), (''event_type'', JStr
       ''task.action-outcome-reconciled''), (''payload'', sample_12_body)]"

definition sample_13_body :: json where
  "sample_13_body =
     JObj [(''task_ref'', JStr ''a''), (''effect_ref'', JStr ''a''), (''action_id'', JStr ''a_b''),
       (''outcome'', JStr ''not-committed''), (''evidence_refs'', JArr [JObj [(''ledger_sequence'', JInt 12),
       (''event_hash'', JStr demo_hash)]]), (''reconciliation_event_ref'', JObj [(''ledger_sequence'', JInt
       12), (''event_hash'', JStr demo_hash)])]"

definition sample_13 :: json where
  "sample_13 =
     JObj [(''schema_version'', JStr ''0.4''), (''event_id'', JStr ''e_13''), (''run_id'', JStr ''a_b''),
       (''sequence'', JInt 13), (''recorded_at'', JStr demo_time), (''source'', JStr ''integrity''),
       (''authority_ref'', JNull), (''risk_tier'', JStr ''T0''), (''related_ids'', JArr []),
       (''previous_event_hash'', JStr demo_hash), (''event_hash'', JStr demo_hash), (''event_type'', JStr
       ''effect.outcome''), (''payload'', sample_13_body)]"

definition sample_14_body :: json where
  "sample_14_body =
     JObj [(''action_id'', JStr ''a_b''), (''task_ref'', JStr ''a''), (''terminal_event_ref'', JObj
       [(''ledger_sequence'', JInt 12), (''event_hash'', JStr demo_hash)]), (''action_proposal_id'', JStr
       ''a_b''), (''action_proposal_hash'', JStr demo_hash), (''action_actor_ref'', JStr ''a_b''),
       (''action_actor_stable_identity_hash'', JStr demo_hash), (''on_behalf_of_chain_hash'', JStr demo_hash),
       (''repository_root_ref'', JStr ''a_b''), (''repository_base_ref_identity_hash'', JStr demo_hash),
       (''repository_pre_state_hash'', JStr demo_hash), (''authorized_change_set_hash'', JStr demo_hash),
       (''normalized_dispatch_hash'', JStr demo_hash), (''repository_post_state'', demo_post_state),
       (''repository_post_state_hash'', JStr demo_hash), (''observed_change_set'', demo_observed),
       (''observed_change_set_hash'', JStr demo_hash), (''repository_transition_status'', JStr ''unchanged''),
       (''effect_outcomes'', JArr [JObj [(''effect_ref'', JStr ''a''), (''outcome'', JStr ''not-committed''),
       (''outcome_event_ref'', JObj [(''ledger_sequence'', JInt 13), (''event_hash'', JStr demo_hash)])]]),
       (''policy_action_kind'', JStr ''planning''), (''action_approval_class'', JStr ''automatic'')]"

definition sample_14 :: json where
  "sample_14 =
     JObj [(''schema_version'', JStr ''0.4''), (''event_id'', JStr ''e_14''), (''run_id'', JStr ''a_b''),
       (''sequence'', JInt 14), (''recorded_at'', JStr demo_time), (''source'', JStr ''kernel''),
       (''authority_ref'', JNull), (''risk_tier'', JStr ''T0''), (''related_ids'', JArr []),
       (''previous_event_hash'', JStr demo_hash), (''event_hash'', JStr demo_hash), (''event_type'', JStr
       ''task.action-settled''), (''payload'', sample_14_body)]"

definition sample_15_body :: json where
  "sample_15_body =
     JObj [(''revision'', JInt 1), (''candidate'', JStr ''held''), (''candidate_evidence_refs'', JArr [JObj
       [(''ledger_sequence'', JInt 14), (''event_hash'', JStr demo_hash)]]), (''fence_epoch'', JInt 1)]"

definition sample_15 :: json where
  "sample_15 =
     JObj [(''schema_version'', JStr ''0.4''), (''event_id'', JStr ''e_15''), (''run_id'', JStr ''a_b''),
       (''sequence'', JInt 15), (''recorded_at'', JStr demo_time), (''source'', JStr ''evaluator''),
       (''authority_ref'', JNull), (''risk_tier'', JStr ''T0''), (''related_ids'', JArr []),
       (''previous_event_hash'', JStr demo_hash), (''event_hash'', JStr demo_hash), (''event_type'', JStr
       ''run.terminal-freeze-entered''), (''payload'', sample_15_body)]"

definition sample_16_body :: json where
  "sample_16_body =
     JObj [(''outcome'', JStr ''held''), (''pre_seal_ledger_sequence'', JInt 15),
       (''pre_seal_ledger_head_hash'', JStr demo_hash), (''pre_seal_snapshot_hash'', JStr demo_hash),
       (''previous_fence_epoch'', JInt 1), (''fence_epoch'', JInt 2)]"

definition sample_16 :: json where
  "sample_16 =
     JObj [(''schema_version'', JStr ''0.4''), (''event_id'', JStr ''e_16''), (''run_id'', JStr ''a_b''),
       (''sequence'', JInt 16), (''recorded_at'', JStr demo_time), (''source'', JStr ''evaluator''),
       (''authority_ref'', JNull), (''risk_tier'', JStr ''T0''), (''related_ids'', JArr []),
       (''previous_event_hash'', JStr demo_hash), (''event_hash'', JStr demo_hash), (''event_type'', JStr
       ''run.terminal-sealed''), (''payload'', sample_16_body)]"

definition sample_ledger :: "json list" where
  "sample_ledger =
     [sample_1, sample_2, sample_3, sample_4, sample_5, sample_6, sample_7, sample_8, sample_9, sample_10,
      sample_11, sample_12, sample_13, sample_14, sample_15, sample_16]"

subsection \<open>What the rules read of the events\<close>

lemma sample_1_body_reads [demo_read]:
  "jget sample_1_body ''plan_hash'' = Some (JStr demo_hash)"
  "jget sample_1_body ''initial_fence_epoch'' = Some (JInt 0)"
  "jget sample_1_body ''runtime_schema_versions'' = Some (JObj [(''resolved_run_plan'', JStr ''0.3''), (''ledger_event'', JStr ''0.4''), (''run_manifest'', JStr ''0.4''), (''artifact_manifest'', JStr ''0.2''), (''redaction_derivative'', JStr ''0.2''), (''human_authorization_proof'', JStr ''0.2''), (''authority_envelope'', JStr ''0.2''), (''agency_recommendation'', JStr ''0.2''), (''authority_revocation'', JStr ''0.2''), (''task_result'', JStr ''0.2''), (''manual_observation'', JStr ''0.2''), (''export_decision'', JStr ''0.2''), (''evidence_item'', JStr ''0.2''), (''gate_result'', JStr ''0.2''), (''evaluation_result'', JStr ''0.2''), (''claim'', JStr ''0.2''), (''finding'', JStr ''0.2''), (''waiver'', JStr ''0.2''), (''gate_waiver_authority'', JStr ''0.2''), (''summary_artifact'', JStr ''0.1'')])"
  "jget sample_1_body ''action_id'' = None"
  "jget sample_1_body ''phase'' = None"
  unfolding sample_1_body_def by (simp_all add: zod cong: eval_cong del: eval_slow)

lemma sample_1_reads [demo_read]:
  "jget sample_1 ''schema_version'' = Some (JStr ''0.4'')"
  "jget sample_1 ''event_id'' = Some (JStr ''e_1'')"
  "jget sample_1 ''run_id'' = Some (JStr ''a_b'')"
  "jget sample_1 ''sequence'' = Some (JInt 1)"
  "jget sample_1 ''recorded_at'' = Some (JStr demo_time)"
  "jget sample_1 ''source'' = Some (JStr ''kernel'')"
  "jget sample_1 ''authority_ref'' = Some (JNull)"
  "jget sample_1 ''risk_tier'' = Some (JStr ''T0'')"
  "jget sample_1 ''previous_event_hash'' = Some (JNull)"
  "jget sample_1 ''event_hash'' = Some (JStr demo_hash)"
  "jget sample_1 ''event_type'' = Some (JStr ''run.initialized'')"
  "jget sample_1 ''payload'' = Some (sample_1_body)"
  unfolding sample_1_def by (simp_all add: zod cong: eval_cong del: eval_slow)

lemma sample_1_payload [demo_read]:
  "ev_type sample_1 = ''run.initialized''"
  "pay sample_1 f = jget sample_1_body f"
  by (simp_all add: ev_type_def pay_def demo_read)

lemma sample_2_body_reads [demo_read]:
  "jget sample_2_body ''executor_profile_hash'' = Some (JStr demo_hash)"
  "jget sample_2_body ''plan_hash'' = None"
  "jget sample_2_body ''action_id'' = None"
  "jget sample_2_body ''phase'' = None"
  unfolding sample_2_body_def by (simp_all add: zod cong: eval_cong del: eval_slow)

lemma sample_2_reads [demo_read]:
  "jget sample_2 ''schema_version'' = Some (JStr ''0.4'')"
  "jget sample_2 ''event_id'' = Some (JStr ''e_2'')"
  "jget sample_2 ''run_id'' = Some (JStr ''a_b'')"
  "jget sample_2 ''sequence'' = Some (JInt 2)"
  "jget sample_2 ''recorded_at'' = Some (JStr demo_time)"
  "jget sample_2 ''source'' = Some (JStr ''kernel'')"
  "jget sample_2 ''authority_ref'' = Some (JNull)"
  "jget sample_2 ''risk_tier'' = Some (JStr ''T0'')"
  "jget sample_2 ''previous_event_hash'' = Some (JStr demo_hash)"
  "jget sample_2 ''event_hash'' = Some (JStr demo_hash)"
  "jget sample_2 ''event_type'' = Some (JStr ''run.started'')"
  "jget sample_2 ''payload'' = Some (sample_2_body)"
  unfolding sample_2_def by (simp_all add: zod cong: eval_cong del: eval_slow)

lemma sample_2_payload [demo_read]:
  "ev_type sample_2 = ''run.started''"
  "pay sample_2 f = jget sample_2_body f"
  by (simp_all add: ev_type_def pay_def demo_read)

lemma sample_3_body_reads [demo_read]:
  "jget sample_3_body ''clock_id'' = Some (JStr ''a_b'')"
  "jget sample_3_body ''observed_at'' = Some (JStr demo_time)"
  "jget sample_3_body ''elapsed_ms'' = Some (JInt 0)"
  "jget sample_3_body ''reason'' = Some (JStr ''run-owner-acquisition'')"
  "jget sample_3_body ''task_ref'' = Some (JNull)"
  "jget sample_3_body ''failure_ordinal'' = Some (JNull)"
  "jget sample_3_body ''use_ref'' = Some (JStr ''a_b'')"
  "jget sample_3_body ''attempt_ref'' = Some (JNull)"
  "jget sample_3_body ''owner_lease_ref'' = Some (JNull)"
  "jget sample_3_body ''boot_id_hash'' = Some (JStr demo_hash)"
  "jget sample_3_body ''monotonic_clock_id'' = Some (JStr ''a_b'')"
  "jget sample_3_body ''plan_hash'' = None"
  "jget sample_3_body ''action_id'' = None"
  "jget sample_3_body ''phase'' = None"
  unfolding sample_3_body_def by (simp_all add: zod cong: eval_cong del: eval_slow)

lemma sample_3_reads [demo_read]:
  "jget sample_3 ''schema_version'' = Some (JStr ''0.4'')"
  "jget sample_3 ''event_id'' = Some (JStr ''e_3'')"
  "jget sample_3 ''run_id'' = Some (JStr ''a_b'')"
  "jget sample_3 ''sequence'' = Some (JInt 3)"
  "jget sample_3 ''recorded_at'' = Some (JStr demo_time)"
  "jget sample_3 ''source'' = Some (JStr ''kernel'')"
  "jget sample_3 ''authority_ref'' = Some (JNull)"
  "jget sample_3 ''risk_tier'' = Some (JStr ''T0'')"
  "jget sample_3 ''previous_event_hash'' = Some (JStr demo_hash)"
  "jget sample_3 ''event_hash'' = Some (JStr demo_hash)"
  "jget sample_3 ''event_type'' = Some (JStr ''run.clock-observed'')"
  "jget sample_3 ''payload'' = Some (sample_3_body)"
  unfolding sample_3_def by (simp_all add: zod cong: eval_cong del: eval_slow)

lemma sample_3_payload [demo_read]:
  "ev_type sample_3 = ''run.clock-observed''"
  "pay sample_3 f = jget sample_3_body f"
  by (simp_all add: ev_type_def pay_def demo_read)

lemma sample_4_body_reads [demo_read]:
  "jget sample_4_body ''attempt_id'' = Some (JStr ''a_b'')"
  "jget sample_4_body ''attempt_ordinal'' = Some (JInt 1)"
  "jget sample_4_body ''mode'' = Some (JStr ''ordinary'')"
  "jget sample_4_body ''previous_attempt_event_ref'' = Some (JNull)"
  "jget sample_4_body ''resume_request_event_ref'' = Some (JNull)"
  "jget sample_4_body ''resume_nonce_hash'' = Some (JNull)"
  "jget sample_4_body ''source_boundary_sequence'' = Some (JInt 2)"
  "jget sample_4_body ''source_boundary_head_hash'' = Some (JStr demo_hash)"
  "jget sample_4_body ''source_manifest_hash'' = Some (JStr demo_hash)"
  "jget sample_4_body ''repository_state_hash'' = Some (JStr demo_hash)"
  "jget sample_4_body ''plan_hash'' = Some (JStr demo_hash)"
  "jget sample_4_body ''input_hash'' = Some (JStr demo_hash)"
  "jget sample_4_body ''recovery_policy_hash'' = Some (JStr demo_hash)"
  "jget sample_4_body ''authority_envelope_hash'' = Some (JStr demo_hash)"
  "jget sample_4_body ''run_owner_lease_id'' = Some (JStr ''a_b'')"
  "jget sample_4_body ''issued_clock_ref'' = Some (JObj [(''ledger_sequence'', JInt 3), (''event_hash'', JStr demo_hash)])"
  "jget sample_4_body ''deadline_elapsed_ms'' = Some (JInt 1)"
  "jget sample_4_body ''boot_id_hash'' = Some (JStr demo_hash)"
  "jget sample_4_body ''monotonic_clock_id'' = Some (JStr ''a_b'')"
  "jget sample_4_body ''previous_fence_epoch'' = Some (JInt 0)"
  "jget sample_4_body ''fence_epoch'' = Some (JInt 0)"
  "jget sample_4_body ''action_id'' = None"
  "jget sample_4_body ''phase'' = None"
  unfolding sample_4_body_def by (simp_all add: zod cong: eval_cong del: eval_slow)

lemma sample_4_reads [demo_read]:
  "jget sample_4 ''schema_version'' = Some (JStr ''0.4'')"
  "jget sample_4 ''event_id'' = Some (JStr ''e_4'')"
  "jget sample_4 ''run_id'' = Some (JStr ''a_b'')"
  "jget sample_4 ''sequence'' = Some (JInt 4)"
  "jget sample_4 ''recorded_at'' = Some (JStr demo_time)"
  "jget sample_4 ''source'' = Some (JStr ''kernel'')"
  "jget sample_4 ''authority_ref'' = Some (JNull)"
  "jget sample_4 ''risk_tier'' = Some (JStr ''T0'')"
  "jget sample_4 ''previous_event_hash'' = Some (JStr demo_hash)"
  "jget sample_4 ''event_hash'' = Some (JStr demo_hash)"
  "jget sample_4 ''event_type'' = Some (JStr ''execution.attempt-started'')"
  "jget sample_4 ''payload'' = Some (sample_4_body)"
  unfolding sample_4_def by (simp_all add: zod cong: eval_cong del: eval_slow)

lemma sample_4_payload [demo_read]:
  "ev_type sample_4 = ''execution.attempt-started''"
  "pay sample_4 f = jget sample_4_body f"
  by (simp_all add: ev_type_def pay_def demo_read)

lemma sample_5_body_reads [demo_read]:
  "jget sample_5_body ''action_id'' = Some (JStr ''a_b'')"
  "jget sample_5_body ''task_ref'' = Some (JStr ''a'')"
  "jget sample_5_body ''lease_id'' = Some (JStr ''a_b'')"
  "jget sample_5_body ''lease_event_ref'' = Some (JObj [(''ledger_sequence'', JInt 2), (''event_hash'', JStr demo_hash)])"
  "jget sample_5_body ''admission_clock_ref'' = Some (JObj [(''ledger_sequence'', JInt 3), (''event_hash'', JStr demo_hash)])"
  "jget sample_5_body ''action_proposal_id'' = Some (JStr ''a_b'')"
  "jget sample_5_body ''action_proposal_hash'' = Some (JStr demo_hash)"
  "jget sample_5_body ''action_actor_ref'' = Some (JStr ''a_b'')"
  "jget sample_5_body ''action_actor_stable_identity_hash'' = Some (JStr demo_hash)"
  "jget sample_5_body ''on_behalf_of_chain_hash'' = Some (JStr demo_hash)"
  "jget sample_5_body ''repository_root_ref'' = Some (JStr ''a_b'')"
  "jget sample_5_body ''repository_base_ref_identity_hash'' = Some (JStr demo_hash)"
  "jget sample_5_body ''repository_pre_state_hash'' = Some (JStr demo_hash)"
  "jget sample_5_body ''authorized_change_set_hash'' = Some (JStr demo_hash)"
  "jget sample_5_body ''normalized_dispatch_hash'' = Some (JStr demo_hash)"
  "jget sample_5_body ''action_scope_hash'' = Some (JStr demo_hash)"
  "jget sample_5_body ''action_class'' = Some (JStr ''task'')"
  "jget sample_5_body ''classifier_input_hash'' = Some (JStr demo_hash)"
  "jget sample_5_body ''classifier_registry_hash'' = Some (JStr demo_hash)"
  "jget sample_5_body ''classifier_rule_hash'' = Some (JStr demo_hash)"
  "jget sample_5_body ''data_flow_hash'' = Some (JStr demo_hash)"
  "jget sample_5_body ''execution_ordinal'' = Some (JInt 1)"
  "jget sample_5_body ''retry_of_failure_ordinal'' = Some (JNull)"
  "jget sample_5_body ''fence_epoch'' = Some (JInt 0)"
  "jget sample_5_body ''side_effect_refs'' = Some (JArr [JStr ''a''])"
  "jget sample_5_body ''waiver_gate_use_checks'' = Some (JArr [])"
  "jget sample_5_body ''task_executions_after'' = Some (JInt 1)"
  "jget sample_5_body ''action_output_bytes_after'' = Some (JInt 0)"
  "jget sample_5_body ''policy_action_kind'' = Some (JStr ''planning'')"
  "jget sample_5_body ''action_approval_class'' = Some (JStr ''automatic'')"
  "jget sample_5_body ''attempt_event_ref'' = Some (JObj [(''ledger_sequence'', JInt 4), (''event_hash'', JStr demo_hash)])"
  "jget sample_5_body ''parent_run_owner_lease_id'' = Some (JStr ''a_b'')"
  "jget sample_5_body ''logical_operation_idempotency_key'' = Some (JStr demo_hash)"
  "jget sample_5_body ''resolved_operation_input_hash'' = Some (JStr demo_hash)"
  "jget sample_5_body ''recovery_policy_hash'' = Some (JStr demo_hash)"
  "jget sample_5_body ''process_runtime_ceiling_ms'' = Some (JInt 1)"
  "jget sample_5_body ''plan_hash'' = None"
  "jget sample_5_body ''phase'' = None"
  unfolding sample_5_body_def by (simp_all add: zod cong: eval_cong del: eval_slow)

lemma sample_5_reads [demo_read]:
  "jget sample_5 ''schema_version'' = Some (JStr ''0.4'')"
  "jget sample_5 ''event_id'' = Some (JStr ''e_5'')"
  "jget sample_5 ''run_id'' = Some (JStr ''a_b'')"
  "jget sample_5 ''sequence'' = Some (JInt 5)"
  "jget sample_5 ''recorded_at'' = Some (JStr demo_time)"
  "jget sample_5 ''source'' = Some (JStr ''policy-enforcement-point'')"
  "jget sample_5 ''authority_ref'' = Some (JStr ''a_b'')"
  "jget sample_5 ''risk_tier'' = Some (JStr ''T0'')"
  "jget sample_5 ''previous_event_hash'' = Some (JStr demo_hash)"
  "jget sample_5 ''event_hash'' = Some (JStr demo_hash)"
  "jget sample_5 ''event_type'' = Some (JStr ''task.action-admitted'')"
  "jget sample_5 ''payload'' = Some (sample_5_body)"
  unfolding sample_5_def by (simp_all add: zod cong: eval_cong del: eval_slow)

lemma sample_5_payload [demo_read]:
  "ev_type sample_5 = ''task.action-admitted''"
  "pay sample_5 f = jget sample_5_body f"
  by (simp_all add: ev_type_def pay_def demo_read)

lemma sample_6_body_reads [demo_read]:
  "jget sample_6_body ''clock_id'' = Some (JStr ''a_b'')"
  "jget sample_6_body ''observed_at'' = Some (JStr demo_time)"
  "jget sample_6_body ''elapsed_ms'' = Some (JInt 0)"
  "jget sample_6_body ''reason'' = Some (JStr ''recovery-request'')"
  "jget sample_6_body ''task_ref'' = Some (JNull)"
  "jget sample_6_body ''failure_ordinal'' = Some (JNull)"
  "jget sample_6_body ''use_ref'' = Some (JStr ''a_b'')"
  "jget sample_6_body ''attempt_ref'' = Some (JObj [(''ledger_sequence'', JInt 4), (''event_hash'', JStr demo_hash)])"
  "jget sample_6_body ''owner_lease_ref'' = Some (JObj [(''ledger_sequence'', JInt 4), (''event_hash'', JStr demo_hash)])"
  "jget sample_6_body ''boot_id_hash'' = Some (JNull)"
  "jget sample_6_body ''monotonic_clock_id'' = Some (JNull)"
  "jget sample_6_body ''plan_hash'' = None"
  "jget sample_6_body ''action_id'' = None"
  "jget sample_6_body ''phase'' = None"
  unfolding sample_6_body_def by (simp_all add: zod cong: eval_cong del: eval_slow)

lemma sample_6_reads [demo_read]:
  "jget sample_6 ''schema_version'' = Some (JStr ''0.4'')"
  "jget sample_6 ''event_id'' = Some (JStr ''e_6'')"
  "jget sample_6 ''run_id'' = Some (JStr ''a_b'')"
  "jget sample_6 ''sequence'' = Some (JInt 6)"
  "jget sample_6 ''recorded_at'' = Some (JStr demo_time)"
  "jget sample_6 ''source'' = Some (JStr ''kernel'')"
  "jget sample_6 ''authority_ref'' = Some (JNull)"
  "jget sample_6 ''risk_tier'' = Some (JStr ''T0'')"
  "jget sample_6 ''previous_event_hash'' = Some (JStr demo_hash)"
  "jget sample_6 ''event_hash'' = Some (JStr demo_hash)"
  "jget sample_6 ''event_type'' = Some (JStr ''run.clock-observed'')"
  "jget sample_6 ''payload'' = Some (sample_6_body)"
  unfolding sample_6_def by (simp_all add: zod cong: eval_cong del: eval_slow)

lemma sample_6_payload [demo_read]:
  "ev_type sample_6 = ''run.clock-observed''"
  "pay sample_6 f = jget sample_6_body f"
  by (simp_all add: ev_type_def pay_def demo_read)

lemma sample_7_body_reads [demo_read]:
  "jget sample_7_body ''clock_id'' = Some (JStr ''a_b'')"
  "jget sample_7_body ''observed_at'' = Some (JStr demo_time)"
  "jget sample_7_body ''elapsed_ms'' = Some (JInt 0)"
  "jget sample_7_body ''reason'' = Some (JStr ''run-owner-acquisition'')"
  "jget sample_7_body ''task_ref'' = Some (JNull)"
  "jget sample_7_body ''failure_ordinal'' = Some (JNull)"
  "jget sample_7_body ''use_ref'' = Some (JStr ''a_b'')"
  "jget sample_7_body ''attempt_ref'' = Some (JNull)"
  "jget sample_7_body ''owner_lease_ref'' = Some (JNull)"
  "jget sample_7_body ''boot_id_hash'' = Some (JStr demo_hash)"
  "jget sample_7_body ''monotonic_clock_id'' = Some (JStr ''a_b'')"
  "jget sample_7_body ''plan_hash'' = None"
  "jget sample_7_body ''action_id'' = None"
  "jget sample_7_body ''phase'' = None"
  unfolding sample_7_body_def by (simp_all add: zod cong: eval_cong del: eval_slow)

lemma sample_7_reads [demo_read]:
  "jget sample_7 ''schema_version'' = Some (JStr ''0.4'')"
  "jget sample_7 ''event_id'' = Some (JStr ''e_7'')"
  "jget sample_7 ''run_id'' = Some (JStr ''a_b'')"
  "jget sample_7 ''sequence'' = Some (JInt 7)"
  "jget sample_7 ''recorded_at'' = Some (JStr demo_time)"
  "jget sample_7 ''source'' = Some (JStr ''kernel'')"
  "jget sample_7 ''authority_ref'' = Some (JNull)"
  "jget sample_7 ''risk_tier'' = Some (JStr ''T0'')"
  "jget sample_7 ''previous_event_hash'' = Some (JStr demo_hash)"
  "jget sample_7 ''event_hash'' = Some (JStr demo_hash)"
  "jget sample_7 ''event_type'' = Some (JStr ''run.clock-observed'')"
  "jget sample_7 ''payload'' = Some (sample_7_body)"
  unfolding sample_7_def by (simp_all add: zod cong: eval_cong del: eval_slow)

lemma sample_7_payload [demo_read]:
  "ev_type sample_7 = ''run.clock-observed''"
  "pay sample_7 f = jget sample_7_body f"
  by (simp_all add: ev_type_def pay_def demo_read)

lemma sample_8_body_reads [demo_read]:
  "jget sample_8_body ''request_id'' = Some (JStr ''a_b'')"
  "jget sample_8_body ''mode'' = Some (JStr ''reconciliation-only'')"
  "jget sample_8_body ''resume_nonce_hash'' = Some (JStr demo_hash)"
  "jget sample_8_body ''previous_attempt_event_ref'' = Some (JObj [(''ledger_sequence'', JInt 4), (''event_hash'', JStr demo_hash)])"
  "jget sample_8_body ''source_boundary_sequence'' = Some (JInt 2)"
  "jget sample_8_body ''source_boundary_head_hash'' = Some (JStr demo_hash)"
  "jget sample_8_body ''source_manifest_hash'' = Some (JStr demo_hash)"
  "jget sample_8_body ''repository_state_hash'' = Some (JStr demo_hash)"
  "jget sample_8_body ''plan_hash'' = Some (JStr demo_hash)"
  "jget sample_8_body ''input_hash'' = Some (JStr demo_hash)"
  "jget sample_8_body ''recovery_policy_hash'' = Some (JStr demo_hash)"
  "jget sample_8_body ''authority_envelope_hash'' = Some (JStr demo_hash)"
  "jget sample_8_body ''request_clock_ref'' = Some (JObj [(''ledger_sequence'', JInt 6), (''event_hash'', JStr demo_hash)])"
  "jget sample_8_body ''target_action_admission_ref'' = Some (JObj [(''ledger_sequence'', JInt 5), (''event_hash'', JStr demo_hash)])"
  "jget sample_8_body ''compensation_phase_event_ref'' = Some (JNull)"
  "jget sample_8_body ''action_id'' = None"
  "jget sample_8_body ''phase'' = None"
  unfolding sample_8_body_def by (simp_all add: zod cong: eval_cong del: eval_slow)

lemma sample_8_reads [demo_read]:
  "jget sample_8 ''schema_version'' = Some (JStr ''0.4'')"
  "jget sample_8 ''event_id'' = Some (JStr ''e_8'')"
  "jget sample_8 ''run_id'' = Some (JStr ''a_b'')"
  "jget sample_8 ''sequence'' = Some (JInt 8)"
  "jget sample_8 ''recorded_at'' = Some (JStr demo_time)"
  "jget sample_8 ''source'' = Some (JStr ''operator'')"
  "jget sample_8 ''authority_ref'' = Some (JStr ''a_b'')"
  "jget sample_8 ''risk_tier'' = Some (JStr ''T0'')"
  "jget sample_8 ''previous_event_hash'' = Some (JStr demo_hash)"
  "jget sample_8 ''event_hash'' = Some (JStr demo_hash)"
  "jget sample_8 ''event_type'' = Some (JStr ''recovery.resume-requested'')"
  "jget sample_8 ''payload'' = Some (sample_8_body)"
  unfolding sample_8_def by (simp_all add: zod cong: eval_cong del: eval_slow)

lemma sample_8_payload [demo_read]:
  "ev_type sample_8 = ''recovery.resume-requested''"
  "pay sample_8 f = jget sample_8_body f"
  by (simp_all add: ev_type_def pay_def demo_read)

lemma sample_9_body_reads [demo_read]:
  "jget sample_9_body ''attempt_id'' = Some (JStr ''a_b'')"
  "jget sample_9_body ''attempt_ordinal'' = Some (JInt 2)"
  "jget sample_9_body ''mode'' = Some (JStr ''reconciliation-only'')"
  "jget sample_9_body ''previous_attempt_event_ref'' = Some (JObj [(''ledger_sequence'', JInt 4), (''event_hash'', JStr demo_hash)])"
  "jget sample_9_body ''resume_request_event_ref'' = Some (JObj [(''ledger_sequence'', JInt 8), (''event_hash'', JStr demo_hash)])"
  "jget sample_9_body ''resume_nonce_hash'' = Some (JStr demo_hash)"
  "jget sample_9_body ''source_boundary_sequence'' = Some (JInt 2)"
  "jget sample_9_body ''source_boundary_head_hash'' = Some (JStr demo_hash)"
  "jget sample_9_body ''source_manifest_hash'' = Some (JStr demo_hash)"
  "jget sample_9_body ''repository_state_hash'' = Some (JStr demo_hash)"
  "jget sample_9_body ''plan_hash'' = Some (JStr demo_hash)"
  "jget sample_9_body ''input_hash'' = Some (JStr demo_hash)"
  "jget sample_9_body ''recovery_policy_hash'' = Some (JStr demo_hash)"
  "jget sample_9_body ''authority_envelope_hash'' = Some (JStr demo_hash)"
  "jget sample_9_body ''run_owner_lease_id'' = Some (JStr ''a_b'')"
  "jget sample_9_body ''issued_clock_ref'' = Some (JObj [(''ledger_sequence'', JInt 7), (''event_hash'', JStr demo_hash)])"
  "jget sample_9_body ''deadline_elapsed_ms'' = Some (JInt 1)"
  "jget sample_9_body ''boot_id_hash'' = Some (JStr demo_hash)"
  "jget sample_9_body ''monotonic_clock_id'' = Some (JStr ''a_b'')"
  "jget sample_9_body ''previous_fence_epoch'' = Some (JInt 0)"
  "jget sample_9_body ''fence_epoch'' = Some (JInt 1)"
  "jget sample_9_body ''action_id'' = None"
  "jget sample_9_body ''phase'' = None"
  unfolding sample_9_body_def by (simp_all add: zod cong: eval_cong del: eval_slow)

lemma sample_9_reads [demo_read]:
  "jget sample_9 ''schema_version'' = Some (JStr ''0.4'')"
  "jget sample_9 ''event_id'' = Some (JStr ''e_9'')"
  "jget sample_9 ''run_id'' = Some (JStr ''a_b'')"
  "jget sample_9 ''sequence'' = Some (JInt 9)"
  "jget sample_9 ''recorded_at'' = Some (JStr demo_time)"
  "jget sample_9 ''source'' = Some (JStr ''kernel'')"
  "jget sample_9 ''authority_ref'' = Some (JNull)"
  "jget sample_9 ''risk_tier'' = Some (JStr ''T0'')"
  "jget sample_9 ''previous_event_hash'' = Some (JStr demo_hash)"
  "jget sample_9 ''event_hash'' = Some (JStr demo_hash)"
  "jget sample_9 ''event_type'' = Some (JStr ''execution.attempt-started'')"
  "jget sample_9 ''payload'' = Some (sample_9_body)"
  unfolding sample_9_def by (simp_all add: zod cong: eval_cong del: eval_slow)

lemma sample_9_payload [demo_read]:
  "ev_type sample_9 = ''execution.attempt-started''"
  "pay sample_9 f = jget sample_9_body f"
  by (simp_all add: ev_type_def pay_def demo_read)

lemma sample_10_body_reads [demo_read]:
  "jget sample_10_body ''action_id'' = Some (JStr ''a_b'')"
  "jget sample_10_body ''task_ref'' = Some (JStr ''a'')"
  "jget sample_10_body ''admission_ref'' = Some (JObj [(''ledger_sequence'', JInt 5), (''event_hash'', JStr demo_hash)])"
  "jget sample_10_body ''attempt_event_ref'' = Some (JObj [(''ledger_sequence'', JInt 4), (''event_hash'', JStr demo_hash)])"
  "jget sample_10_body ''adapter_invocation_id'' = Some (JStr ''a_b'')"
  "jget sample_10_body ''adapter_ref'' = Some (JStr ''a'')"
  "jget sample_10_body ''adapter_version_hash'' = Some (JStr demo_hash)"
  "jget sample_10_body ''fence_epoch'' = Some (JInt 0)"
  "jget sample_10_body ''host_identity_hash'' = Some (JStr demo_hash)"
  "jget sample_10_body ''boot_id_hash'' = Some (JStr demo_hash)"
  "jget sample_10_body ''unit_name_hash'' = Some (JStr demo_hash)"
  "jget sample_10_body ''cgroup_path_hash'' = Some (JStr demo_hash)"
  "jget sample_10_body ''acknowledgement_observation_hash'' = Some (JStr demo_hash)"
  "jget sample_10_body ''plan_hash'' = None"
  "jget sample_10_body ''phase'' = None"
  unfolding sample_10_body_def by (simp_all add: zod cong: eval_cong del: eval_slow)

lemma sample_10_reads [demo_read]:
  "jget sample_10 ''schema_version'' = Some (JStr ''0.4'')"
  "jget sample_10 ''event_id'' = Some (JStr ''e_10'')"
  "jget sample_10 ''run_id'' = Some (JStr ''a_b'')"
  "jget sample_10 ''sequence'' = Some (JInt 10)"
  "jget sample_10 ''recorded_at'' = Some (JStr demo_time)"
  "jget sample_10 ''source'' = Some (JStr ''adapter'')"
  "jget sample_10 ''authority_ref'' = Some (JNull)"
  "jget sample_10 ''risk_tier'' = Some (JStr ''T0'')"
  "jget sample_10 ''previous_event_hash'' = Some (JStr demo_hash)"
  "jget sample_10 ''event_hash'' = Some (JStr demo_hash)"
  "jget sample_10 ''event_type'' = Some (JStr ''task.execution-non-entry-acknowledged'')"
  "jget sample_10 ''payload'' = Some (sample_10_body)"
  unfolding sample_10_def by (simp_all add: zod cong: eval_cong del: eval_slow)

lemma sample_10_payload [demo_read]:
  "ev_type sample_10 = ''task.execution-non-entry-acknowledged''"
  "pay sample_10 f = jget sample_10_body f"
  by (simp_all add: ev_type_def pay_def demo_read)

lemma sample_11_body_reads [demo_read]:
  "jget sample_11_body ''trigger'' = Some (JStr ''reconciliation'')"
  "jget sample_11_body ''trigger_event_ref'' = Some (JObj [(''ledger_sequence'', JInt 10), (''event_hash'', JStr demo_hash)])"
  "jget sample_11_body ''action_admission_event_ref'' = Some (JObj [(''ledger_sequence'', JInt 5), (''event_hash'', JStr demo_hash)])"
  "jget sample_11_body ''adapter_invocation_id'' = Some (JStr ''a_b'')"
  "jget sample_11_body ''host_identity_hash'' = Some (JStr demo_hash)"
  "jget sample_11_body ''boot_id_hash'' = Some (JStr demo_hash)"
  "jget sample_11_body ''unit_name_hash'' = Some (JStr demo_hash)"
  "jget sample_11_body ''cgroup_path_hash'' = Some (JStr demo_hash)"
  "jget sample_11_body ''termination_request_hash'' = Some (JStr demo_hash)"
  "jget sample_11_body ''termination_observation_hash'' = Some (JStr demo_hash)"
  "jget sample_11_body ''observed_outcome'' = Some (JStr ''terminated'')"
  "jget sample_11_body ''plan_hash'' = None"
  "jget sample_11_body ''action_id'' = None"
  "jget sample_11_body ''phase'' = None"
  unfolding sample_11_body_def by (simp_all add: zod cong: eval_cong del: eval_slow)

lemma sample_11_reads [demo_read]:
  "jget sample_11 ''schema_version'' = Some (JStr ''0.4'')"
  "jget sample_11 ''event_id'' = Some (JStr ''e_11'')"
  "jget sample_11 ''run_id'' = Some (JStr ''a_b'')"
  "jget sample_11 ''sequence'' = Some (JInt 11)"
  "jget sample_11 ''recorded_at'' = Some (JStr demo_time)"
  "jget sample_11 ''source'' = Some (JStr ''adapter'')"
  "jget sample_11 ''authority_ref'' = Some (JNull)"
  "jget sample_11 ''risk_tier'' = Some (JStr ''T0'')"
  "jget sample_11 ''previous_event_hash'' = Some (JStr demo_hash)"
  "jget sample_11 ''event_hash'' = Some (JStr demo_hash)"
  "jget sample_11 ''event_type'' = Some (JStr ''process.termination-attempted'')"
  "jget sample_11 ''payload'' = Some (sample_11_body)"
  unfolding sample_11_def by (simp_all add: zod cong: eval_cong del: eval_slow)

lemma sample_11_payload [demo_read]:
  "ev_type sample_11 = ''process.termination-attempted''"
  "pay sample_11 f = jget sample_11_body f"
  by (simp_all add: ev_type_def pay_def demo_read)

lemma sample_12_body_reads [demo_read]:
  "jget sample_12_body ''action_id'' = Some (JStr ''a_b'')"
  "jget sample_12_body ''task_ref'' = Some (JStr ''a'')"
  "jget sample_12_body ''admission_ref'' = Some (JObj [(''ledger_sequence'', JInt 5), (''event_hash'', JStr demo_hash)])"
  "jget sample_12_body ''reconciliation_status'' = Some (JStr ''proven-non-start'')"
  "jget sample_12_body ''attempt_event_ref'' = Some (JObj [(''ledger_sequence'', JInt 4), (''event_hash'', JStr demo_hash)])"
  "jget sample_12_body ''adapter_invocation_id'' = Some (JStr ''a_b'')"
  "jget sample_12_body ''adapter_ref'' = Some (JStr ''a'')"
  "jget sample_12_body ''adapter_version_hash'' = Some (JStr demo_hash)"
  "jget sample_12_body ''non_entry_ack_event_ref'' = Some (JObj [(''ledger_sequence'', JInt 10), (''event_hash'', JStr demo_hash)])"
  "jget sample_12_body ''process_cannot_continue_ref'' = Some (JObj [(''ledger_sequence'', JInt 11), (''event_hash'', JStr demo_hash)])"
  "jget sample_12_body ''fence_epoch'' = Some (JInt 0)"
  "jget sample_12_body ''plan_hash'' = None"
  "jget sample_12_body ''phase'' = None"
  unfolding sample_12_body_def by (simp_all add: zod cong: eval_cong del: eval_slow)

lemma sample_12_reads [demo_read]:
  "jget sample_12 ''schema_version'' = Some (JStr ''0.4'')"
  "jget sample_12 ''event_id'' = Some (JStr ''e_12'')"
  "jget sample_12 ''run_id'' = Some (JStr ''a_b'')"
  "jget sample_12 ''sequence'' = Some (JInt 12)"
  "jget sample_12 ''recorded_at'' = Some (JStr demo_time)"
  "jget sample_12 ''source'' = Some (JStr ''integrity'')"
  "jget sample_12 ''authority_ref'' = Some (JNull)"
  "jget sample_12 ''risk_tier'' = Some (JStr ''T0'')"
  "jget sample_12 ''previous_event_hash'' = Some (JStr demo_hash)"
  "jget sample_12 ''event_hash'' = Some (JStr demo_hash)"
  "jget sample_12 ''event_type'' = Some (JStr ''task.action-outcome-reconciled'')"
  "jget sample_12 ''payload'' = Some (sample_12_body)"
  unfolding sample_12_def by (simp_all add: zod cong: eval_cong del: eval_slow)

lemma sample_12_payload [demo_read]:
  "ev_type sample_12 = ''task.action-outcome-reconciled''"
  "pay sample_12 f = jget sample_12_body f"
  by (simp_all add: ev_type_def pay_def demo_read)

lemma sample_13_body_reads [demo_read]:
  "jget sample_13_body ''task_ref'' = Some (JStr ''a'')"
  "jget sample_13_body ''effect_ref'' = Some (JStr ''a'')"
  "jget sample_13_body ''action_id'' = Some (JStr ''a_b'')"
  "jget sample_13_body ''outcome'' = Some (JStr ''not-committed'')"
  "jget sample_13_body ''evidence_refs'' = Some (JArr [JObj [(''ledger_sequence'', JInt 12), (''event_hash'', JStr demo_hash)]])"
  "jget sample_13_body ''reconciliation_event_ref'' = Some (JObj [(''ledger_sequence'', JInt 12), (''event_hash'', JStr demo_hash)])"
  "jget sample_13_body ''plan_hash'' = None"
  "jget sample_13_body ''phase'' = None"
  unfolding sample_13_body_def by (simp_all add: zod cong: eval_cong del: eval_slow)

lemma sample_13_reads [demo_read]:
  "jget sample_13 ''schema_version'' = Some (JStr ''0.4'')"
  "jget sample_13 ''event_id'' = Some (JStr ''e_13'')"
  "jget sample_13 ''run_id'' = Some (JStr ''a_b'')"
  "jget sample_13 ''sequence'' = Some (JInt 13)"
  "jget sample_13 ''recorded_at'' = Some (JStr demo_time)"
  "jget sample_13 ''source'' = Some (JStr ''integrity'')"
  "jget sample_13 ''authority_ref'' = Some (JNull)"
  "jget sample_13 ''risk_tier'' = Some (JStr ''T0'')"
  "jget sample_13 ''previous_event_hash'' = Some (JStr demo_hash)"
  "jget sample_13 ''event_hash'' = Some (JStr demo_hash)"
  "jget sample_13 ''event_type'' = Some (JStr ''effect.outcome'')"
  "jget sample_13 ''payload'' = Some (sample_13_body)"
  unfolding sample_13_def by (simp_all add: zod cong: eval_cong del: eval_slow)

lemma sample_13_payload [demo_read]:
  "ev_type sample_13 = ''effect.outcome''"
  "pay sample_13 f = jget sample_13_body f"
  by (simp_all add: ev_type_def pay_def demo_read)

lemma sample_14_body_reads [demo_read]:
  "jget sample_14_body ''action_id'' = Some (JStr ''a_b'')"
  "jget sample_14_body ''task_ref'' = Some (JStr ''a'')"
  "jget sample_14_body ''terminal_event_ref'' = Some (JObj [(''ledger_sequence'', JInt 12), (''event_hash'', JStr demo_hash)])"
  "jget sample_14_body ''action_proposal_id'' = Some (JStr ''a_b'')"
  "jget sample_14_body ''action_proposal_hash'' = Some (JStr demo_hash)"
  "jget sample_14_body ''action_actor_ref'' = Some (JStr ''a_b'')"
  "jget sample_14_body ''action_actor_stable_identity_hash'' = Some (JStr demo_hash)"
  "jget sample_14_body ''on_behalf_of_chain_hash'' = Some (JStr demo_hash)"
  "jget sample_14_body ''repository_root_ref'' = Some (JStr ''a_b'')"
  "jget sample_14_body ''repository_base_ref_identity_hash'' = Some (JStr demo_hash)"
  "jget sample_14_body ''repository_pre_state_hash'' = Some (JStr demo_hash)"
  "jget sample_14_body ''authorized_change_set_hash'' = Some (JStr demo_hash)"
  "jget sample_14_body ''normalized_dispatch_hash'' = Some (JStr demo_hash)"
  "jget sample_14_body ''repository_post_state'' = Some (demo_post_state)"
  "jget sample_14_body ''repository_post_state_hash'' = Some (JStr demo_hash)"
  "jget sample_14_body ''observed_change_set'' = Some (demo_observed)"
  "jget sample_14_body ''observed_change_set_hash'' = Some (JStr demo_hash)"
  "jget sample_14_body ''repository_transition_status'' = Some (JStr ''unchanged'')"
  "jget sample_14_body ''effect_outcomes'' = Some (JArr [JObj [(''effect_ref'', JStr ''a''), (''outcome'', JStr ''not-committed''), (''outcome_event_ref'', JObj [(''ledger_sequence'', JInt 13), (''event_hash'', JStr demo_hash)])]])"
  "jget sample_14_body ''policy_action_kind'' = Some (JStr ''planning'')"
  "jget sample_14_body ''action_approval_class'' = Some (JStr ''automatic'')"
  "jget sample_14_body ''plan_hash'' = None"
  "jget sample_14_body ''phase'' = None"
  unfolding sample_14_body_def by (simp_all add: zod cong: eval_cong del: eval_slow)

lemma sample_14_reads [demo_read]:
  "jget sample_14 ''schema_version'' = Some (JStr ''0.4'')"
  "jget sample_14 ''event_id'' = Some (JStr ''e_14'')"
  "jget sample_14 ''run_id'' = Some (JStr ''a_b'')"
  "jget sample_14 ''sequence'' = Some (JInt 14)"
  "jget sample_14 ''recorded_at'' = Some (JStr demo_time)"
  "jget sample_14 ''source'' = Some (JStr ''kernel'')"
  "jget sample_14 ''authority_ref'' = Some (JNull)"
  "jget sample_14 ''risk_tier'' = Some (JStr ''T0'')"
  "jget sample_14 ''previous_event_hash'' = Some (JStr demo_hash)"
  "jget sample_14 ''event_hash'' = Some (JStr demo_hash)"
  "jget sample_14 ''event_type'' = Some (JStr ''task.action-settled'')"
  "jget sample_14 ''payload'' = Some (sample_14_body)"
  unfolding sample_14_def by (simp_all add: zod cong: eval_cong del: eval_slow)

lemma sample_14_payload [demo_read]:
  "ev_type sample_14 = ''task.action-settled''"
  "pay sample_14 f = jget sample_14_body f"
  by (simp_all add: ev_type_def pay_def demo_read)

lemma sample_15_body_reads [demo_read]:
  "jget sample_15_body ''revision'' = Some (JInt 1)"
  "jget sample_15_body ''candidate'' = Some (JStr ''held'')"
  "jget sample_15_body ''candidate_evidence_refs'' = Some (JArr [JObj [(''ledger_sequence'', JInt 14), (''event_hash'', JStr demo_hash)]])"
  "jget sample_15_body ''fence_epoch'' = Some (JInt 1)"
  "jget sample_15_body ''plan_hash'' = None"
  "jget sample_15_body ''action_id'' = None"
  "jget sample_15_body ''phase'' = None"
  unfolding sample_15_body_def by (simp_all add: zod cong: eval_cong del: eval_slow)

lemma sample_15_reads [demo_read]:
  "jget sample_15 ''schema_version'' = Some (JStr ''0.4'')"
  "jget sample_15 ''event_id'' = Some (JStr ''e_15'')"
  "jget sample_15 ''run_id'' = Some (JStr ''a_b'')"
  "jget sample_15 ''sequence'' = Some (JInt 15)"
  "jget sample_15 ''recorded_at'' = Some (JStr demo_time)"
  "jget sample_15 ''source'' = Some (JStr ''evaluator'')"
  "jget sample_15 ''authority_ref'' = Some (JNull)"
  "jget sample_15 ''risk_tier'' = Some (JStr ''T0'')"
  "jget sample_15 ''previous_event_hash'' = Some (JStr demo_hash)"
  "jget sample_15 ''event_hash'' = Some (JStr demo_hash)"
  "jget sample_15 ''event_type'' = Some (JStr ''run.terminal-freeze-entered'')"
  "jget sample_15 ''payload'' = Some (sample_15_body)"
  unfolding sample_15_def by (simp_all add: zod cong: eval_cong del: eval_slow)

lemma sample_15_payload [demo_read]:
  "ev_type sample_15 = ''run.terminal-freeze-entered''"
  "pay sample_15 f = jget sample_15_body f"
  by (simp_all add: ev_type_def pay_def demo_read)

lemma sample_16_body_reads [demo_read]:
  "jget sample_16_body ''outcome'' = Some (JStr ''held'')"
  "jget sample_16_body ''pre_seal_ledger_sequence'' = Some (JInt 15)"
  "jget sample_16_body ''pre_seal_ledger_head_hash'' = Some (JStr demo_hash)"
  "jget sample_16_body ''pre_seal_snapshot_hash'' = Some (JStr demo_hash)"
  "jget sample_16_body ''previous_fence_epoch'' = Some (JInt 1)"
  "jget sample_16_body ''fence_epoch'' = Some (JInt 2)"
  "jget sample_16_body ''plan_hash'' = None"
  "jget sample_16_body ''action_id'' = None"
  "jget sample_16_body ''phase'' = None"
  unfolding sample_16_body_def by (simp_all add: zod cong: eval_cong del: eval_slow)

lemma sample_16_reads [demo_read]:
  "jget sample_16 ''schema_version'' = Some (JStr ''0.4'')"
  "jget sample_16 ''event_id'' = Some (JStr ''e_16'')"
  "jget sample_16 ''run_id'' = Some (JStr ''a_b'')"
  "jget sample_16 ''sequence'' = Some (JInt 16)"
  "jget sample_16 ''recorded_at'' = Some (JStr demo_time)"
  "jget sample_16 ''source'' = Some (JStr ''evaluator'')"
  "jget sample_16 ''authority_ref'' = Some (JNull)"
  "jget sample_16 ''risk_tier'' = Some (JStr ''T0'')"
  "jget sample_16 ''previous_event_hash'' = Some (JStr demo_hash)"
  "jget sample_16 ''event_hash'' = Some (JStr demo_hash)"
  "jget sample_16 ''event_type'' = Some (JStr ''run.terminal-sealed'')"
  "jget sample_16 ''payload'' = Some (sample_16_body)"
  unfolding sample_16_def by (simp_all add: zod cong: eval_cong del: eval_slow)

lemma sample_16_payload [demo_read]:
  "ev_type sample_16 = ''run.terminal-sealed''"
  "pay sample_16 f = jget sample_16_body f"
  by (simp_all add: ev_type_def pay_def demo_read)

text \<open>Events copied from version 0.2 are checked under that version.\<close>

lemma sample_14_copy:
  "set_field ''schema_version'' (JStr ''0.2'') sample_14 =
     JObj [(''schema_version'', JStr ''0.2''), (''event_id'', JStr ''e_14''), (''run_id'', JStr ''a_b''),
       (''sequence'', JInt 14), (''recorded_at'', JStr demo_time), (''source'', JStr ''kernel''),
       (''authority_ref'', JNull), (''risk_tier'', JStr ''T0''), (''related_ids'', JArr []),
       (''previous_event_hash'', JStr demo_hash), (''event_hash'', JStr demo_hash), (''event_type'', JStr
       ''task.action-settled''), (''payload'', sample_14_body)]"
  by (simp add: sample_14_def zod del: list.inject)

lemma sample_15_copy:
  "set_field ''schema_version'' (JStr ''0.2'') sample_15 =
     JObj [(''schema_version'', JStr ''0.2''), (''event_id'', JStr ''e_15''), (''run_id'', JStr ''a_b''),
       (''sequence'', JInt 15), (''recorded_at'', JStr demo_time), (''source'', JStr ''evaluator''),
       (''authority_ref'', JNull), (''risk_tier'', JStr ''T0''), (''related_ids'', JArr []),
       (''previous_event_hash'', JStr demo_hash), (''event_hash'', JStr demo_hash), (''event_type'', JStr
       ''run.terminal-freeze-entered''), (''payload'', sample_15_body)]"
  by (simp add: sample_15_def zod del: list.inject)

lemma sample_16_copy:
  "set_field ''schema_version'' (JStr ''0.2'') sample_16 =
     JObj [(''schema_version'', JStr ''0.2''), (''event_id'', JStr ''e_16''), (''run_id'', JStr ''a_b''),
       (''sequence'', JInt 16), (''recorded_at'', JStr demo_time), (''source'', JStr ''evaluator''),
       (''authority_ref'', JNull), (''risk_tier'', JStr ''T0''), (''related_ids'', JArr []),
       (''previous_event_hash'', JStr demo_hash), (''event_hash'', JStr demo_hash), (''event_type'', JStr
       ''run.terminal-sealed''), (''payload'', sample_16_body)]"
  by (simp add: sample_16_def zod del: list.inject)

subsection \<open>Acceptance by the schemas\<close>

lemma sample_ids [zod]:
  "MachineIdV02 ''e_12''" "MachineIdV02 ''e_13''" "MachineIdV02 ''e_14''" "MachineIdV02 ''e_15''" "MachineIdV02 ''e_16''"
  by code_simp+

lemmas sample_schemas =
  event_schema_V04_def RuntimeEventEnvelopeV04_shape_def with_version_def event_simps

lemma sample_1_ok: "RunInitializedEventV04 demo_env sample_1"
  by (simp add: RunInitializedEventV04_def strict_object [OF sample_1_def] strict_object [OF sample_1_body_def]
    RuntimeSchemaInventoryV04_def sample_schemas demo_read zod
    cong: eval_cong del: eval_slow)

lemma sample_2_ok: "RunStartedEventV04 demo_env sample_2"
  by (simp add: RunStartedEventV04_def strict_object [OF sample_2_def] strict_object [OF sample_2_body_def] sample_schemas
    demo_read zod
    cong: eval_cong del: eval_slow)

lemma sample_3_ok: "RunClockObservedEventV04 demo_env sample_3"
  by (simp add: RunClockObservedEventV04_def strict_object [OF sample_3_def] strict_object [OF sample_3_body_def]
    RunClockObservedPayloadV04_def ClockObservedCommonV04_def
    sample_schemas demo_read zod
    cong: eval_cong del: eval_slow)

lemma sample_4_ok: "ExecutionAttemptStartedEventV04 demo_env sample_4"
  by (simp add: ExecutionAttemptStartedEventV04_def strict_object [OF sample_4_def] strict_object [OF sample_4_body_def]
    attempt_refs_ok_def sample_schemas demo_read zod
    cong: eval_cong del: eval_slow)

lemma sample_5_ok: "TaskActionAdmittedEventV04 demo_env sample_5"
  by (simp add: TaskActionAdmittedEventV04_def strict_object [OF sample_5_def] strict_object [OF sample_5_body_def]
    TaskActionAdmittedPayloadV04_def recovery_bindings_def
    TaskActionAdmittedPayloadBaseV02_def AdmittedActionProposalBindingsShapeV02_def AutomaticPolicyActionKindV1_def
    CanonicalWaiverGateUseChecksV02_def sample_schemas demo_read zod
    cong: eval_cong del: eval_slow)

lemma sample_6_ok: "RunClockObservedEventV04 demo_env sample_6"
  by (simp add: RunClockObservedEventV04_def strict_object [OF sample_6_def] strict_object [OF sample_6_body_def]
    RunClockObservedPayloadV04_def ClockObservedCommonV04_def
    sample_schemas demo_read zod
    cong: eval_cong del: eval_slow)

lemma sample_7_ok: "RunClockObservedEventV04 demo_env sample_7"
  by (simp add: RunClockObservedEventV04_def strict_object [OF sample_7_def] strict_object [OF sample_7_body_def]
    RunClockObservedPayloadV04_def ClockObservedCommonV04_def
    sample_schemas demo_read zod
    cong: eval_cong del: eval_slow)

lemma sample_8_ok: "RecoveryResumeRequestedEventV04 demo_env sample_8"
  by (simp add: RecoveryResumeRequestedEventV04_def strict_object [OF sample_8_def] strict_object [OF sample_8_body_def]
    sample_schemas demo_read zod
    cong: eval_cong del: eval_slow)

lemma sample_9_ok: "ExecutionAttemptStartedEventV04 demo_env sample_9"
  by (simp add: ExecutionAttemptStartedEventV04_def strict_object [OF sample_9_def] strict_object [OF sample_9_body_def]
    attempt_refs_ok_def sample_schemas demo_read zod
    cong: eval_cong del: eval_slow)

lemma sample_10_ok: "TaskExecutionNonEntryAcknowledgedEventV04 demo_env sample_10"
  by (simp add: TaskExecutionNonEntryAcknowledgedEventV04_def strict_object [OF sample_10_def] strict_object [OF
    sample_10_body_def] sample_schemas demo_read zod
    cong: eval_cong del: eval_slow)

lemma sample_11_ok: "ProcessTerminationAttemptedEventV04 demo_env sample_11"
  by (simp add: ProcessTerminationAttemptedEventV04_def strict_object [OF sample_11_def] strict_object [OF
    sample_11_body_def] sample_schemas demo_read zod
    cong: eval_cong del: eval_slow)

lemma sample_12_ok: "TaskActionOutcomeReconciledEventV04 demo_env sample_12"
  by (simp add: TaskActionOutcomeReconciledEventV04_def strict_object [OF sample_12_def] strict_object [OF
    sample_12_body_def] TaskActionOutcomeReconciledPayloadV04_def
    sample_schemas demo_read zod
    cong: eval_cong del: eval_slow)

lemma sample_13_ok: "EffectOutcomeEventV04 demo_env sample_13"
  by (simp add: EffectOutcomeEventV04_def strict_object [OF sample_13_def] strict_object [OF sample_13_body_def]
    effect_source_ok_def ledgerRefsEqualV02_def Let_def
    sample_schemas demo_read zod
    cong: eval_cong del: eval_slow)

lemma sample_14_ok: "TaskActionSettledEventV04 demo_env sample_14"
  by (simp add: TaskActionSettledEventV04_def TaskActionSettledEventV02_def strict_object [OF sample_14_copy] jget_set_field
    strict_object [OF sample_14_body_def] TaskActionSettledPayloadBaseV02_def
    demo_post_state_ok demo_observed_ok CanonicalEffectSettlementOutcomesV02_def EffectSettlementOutcomeV02_def
    AutomaticPolicyActionKindV1_def settlement_ok_def Let_def sample_schemas demo_read zod
    cong: eval_cong del: eval_slow)

lemma sample_15_ok: "RunTerminalFreezeEnteredEventV04 demo_env sample_15"
  by (simp add: RunTerminalFreezeEnteredEventV04_def RunTerminalFreezeEnteredEventV02_def strict_object [OF sample_15_copy]
    jget_set_field strict_object [OF sample_15_body_def]
    TerminalStateNameV02_def sample_schemas demo_read zod
    cong: eval_cong del: eval_slow)

lemma sample_16_ok: "RunTerminalSealedEventV04 demo_env sample_16"
  by (simp add: RunTerminalSealedEventV04_def RunTerminalSealedEventV02_def strict_object [OF sample_16_copy] jget_set_field
    strict_object [OF sample_16_body_def] TerminalStateNameV02_def
    sample_schemas demo_read zod
    cong: eval_cong del: eval_slow)

lemma sample_accepted_events: "\<forall>e \<in> set sample_ledger. RuntimeEventV04 demo_env e"
  by (simp add: sample_ledger_def RuntimeEventV04_def zod sample_1_ok sample_2_ok sample_3_ok sample_4_ok sample_5_ok
    sample_6_ok sample_7_ok sample_8_ok sample_9_ok sample_10_ok sample_11_ok sample_12_ok sample_13_ok sample_14_ok
    sample_15_ok sample_16_ok)

end
