(* ===== verification/Ledger_V04_Examples.thy ===== *)
theory Ledger_V04_Examples
  imports Demo_Ledger_V04
begin

text \<open>
  The history of the example ledger of version 0.4 is accepted, its events reduce to a sealed run,
  and the laws applied to it.
\<close>

subsection \<open>Keys and references\<close>

lemma sample_keys [demo_read]:
  "seq_of sample_1 = 1" "hash_of sample_1 = demo_hash"
  "seq_of sample_2 = 2" "hash_of sample_2 = demo_hash"
  "seq_of sample_3 = 3" "hash_of sample_3 = demo_hash"
  "seq_of sample_4 = 4" "hash_of sample_4 = demo_hash"
  "seq_of sample_5 = 5" "hash_of sample_5 = demo_hash"
  "seq_of sample_6 = 6" "hash_of sample_6 = demo_hash"
  "seq_of sample_7 = 7" "hash_of sample_7 = demo_hash"
  "seq_of sample_8 = 8" "hash_of sample_8 = demo_hash"
  "seq_of sample_9 = 9" "hash_of sample_9 = demo_hash"
  "seq_of sample_10 = 10" "hash_of sample_10 = demo_hash"
  "seq_of sample_11 = 11" "hash_of sample_11 = demo_hash"
  "seq_of sample_12 = 12" "hash_of sample_12 = demo_hash"
  "seq_of sample_13 = 13" "hash_of sample_13 = demo_hash"
  "seq_of sample_14 = 14" "hash_of sample_14 = demo_hash"
  "seq_of sample_15 = 15" "hash_of sample_15 = demo_hash"
  "seq_of sample_16 = 16" "hash_of sample_16 = demo_hash"
  by (simp_all add: seq_of_def hash_of_def demo_read)

lemma sample_refs [demo_read]:
  "payload_refs sample_1 = []"
  "payload_refs sample_2 = []"
  "payload_refs sample_3 = []"
  "payload_refs sample_4 = [(3, demo_hash)]"
  "payload_refs sample_5 = [(2, demo_hash), (3, demo_hash), (4, demo_hash)]"
  "payload_refs sample_6 = [(4, demo_hash), (4, demo_hash)]"
  "payload_refs sample_7 = []"
  "payload_refs sample_8 = [(4, demo_hash), (6, demo_hash), (5, demo_hash)]"
  "payload_refs sample_9 = [(4, demo_hash), (8, demo_hash), (7, demo_hash)]"
  "payload_refs sample_10 = [(5, demo_hash), (4, demo_hash)]"
  "payload_refs sample_11 = [(10, demo_hash), (5, demo_hash)]"
  "payload_refs sample_12 = [(5, demo_hash), (4, demo_hash), (10, demo_hash), (11, demo_hash)]"
  "payload_refs sample_13 = [(12, demo_hash), (12, demo_hash)]"
  "payload_refs sample_14 = [(12, demo_hash), (13, demo_hash)]"
  "payload_refs sample_15 = [(14, demo_hash)]"
  "payload_refs sample_16 = []"
  by code_simp+

lemma scan_sample:
  "scan check sample_ledger = None \<longleftrightarrow>
     check 0 sample_1 = None \<and> check 1 sample_2 = None \<and> check 2 sample_3 = None \<and> check 3 sample_4 = None \<and>
     check 4 sample_5 = None \<and> check 5 sample_6 = None \<and> check 6 sample_7 = None \<and> check 7 sample_8 = None \<and>
     check 8 sample_9 = None \<and> check 9 sample_10 = None \<and> check 10 sample_11 = None \<and> check 11 sample_12 = None \<and>
     check 12 sample_13 = None \<and> check 13 sample_14 = None \<and> check 14 sample_15 = None \<and> check 15 sample_16 = None"
  by (simp add: scan_def sample_ledger_def eval_nat_numeral split: option.splits)

lemmas history_simps =
  history_fault4_def link_fault_def hash_fault_def previous_hash_at_def copied_ok_def key_of_def
  validateV04SpecificHistory_def names_def exactReferencedEvent_def event_no_def sameLedgerRef_def agree_def
  is_text_def is_null_def text_of.simps

lemmas rule_simps =
  attempt_fault_def first_attempt_def attempt_clock_ok_def clock_adjacent_def started_boundary_def recovery_fault_def
  resume_request_fault_def clock_for_def non_entry_fault_def admission_of_def termination_fault_def trigger_type_def
  acknowledged_by_def execution_identity_keys_def reconciliation_fault_def History_V04.non_start_def non_start_ok_def
  acknowledgement_of_def terminated_after_def contradicted_def since_admission_def actionFactMatches_def
  action_fact_types_def effect_fault_def source_is_def seal_fault4_def follows_def prior_event_def

subsection \<open>The history\<close>

lemma sample_history_1:
  "history_fault4 demo_env sample_ledger 0 sample_1 = None"
  "history_fault4 demo_env sample_ledger 1 sample_2 = None"
  "history_fault4 demo_env sample_ledger 2 sample_3 = None"
  "history_fault4 demo_env sample_ledger 3 sample_4 = None"
  by (simp_all add: history_simps rule_simps sample_ledger_def Let_def demo_read demo_env_simps)

lemma sample_history_5:
  "history_fault4 demo_env sample_ledger 4 sample_5 = None"
  "history_fault4 demo_env sample_ledger 5 sample_6 = None"
  "history_fault4 demo_env sample_ledger 6 sample_7 = None"
  "history_fault4 demo_env sample_ledger 7 sample_8 = None"
  by (simp_all add: history_simps rule_simps sample_ledger_def Let_def demo_read demo_env_simps)

lemma sample_history_9:
  "history_fault4 demo_env sample_ledger 8 sample_9 = None"
  "history_fault4 demo_env sample_ledger 9 sample_10 = None"
  "history_fault4 demo_env sample_ledger 10 sample_11 = None"
  "history_fault4 demo_env sample_ledger 11 sample_12 = None"
  by (simp_all add: history_simps rule_simps sample_ledger_def Let_def demo_read demo_env_simps)

lemma sample_history_13:
  "history_fault4 demo_env sample_ledger 12 sample_13 = None"
  "history_fault4 demo_env sample_ledger 13 sample_14 = None"
  "history_fault4 demo_env sample_ledger 14 sample_15 = None"
  "history_fault4 demo_env sample_ledger 15 sample_16 = None"
  by (simp_all add: history_simps rule_simps sample_ledger_def Let_def demo_read demo_env_simps)

lemma sample_history: "scan (history_fault4 demo_env sample_ledger) sample_ledger = None"
  unfolding scan_sample using sample_history_1 sample_history_5 sample_history_9 sample_history_13 by blast

subsection \<open>The run\<close>

text \<open>The events of the reducer, for any text in the place of the digests.\<close>

definition sample_run :: "string \<Rightarrow> event4 list" where
  "sample_run h =
     [\<lparr>e4_sequence = 1, e4_hash = h, e4_previous = None, e4_source = ''kernel'', e4_run_id = ''a_b'', e4_body
        = RunInitialized 0\<rparr>,
      \<lparr>e4_sequence = 2, e4_hash = h, e4_previous = Some h, e4_source = ''kernel'', e4_run_id =
        ''a_b'', e4_body = RunStarted\<rparr>,
      \<lparr>e4_sequence = 3, e4_hash = h, e4_previous = Some h, e4_source = ''kernel'', e4_run_id =
        ''a_b'', e4_body = PlainEvent ''run.clock-observed''\<rparr>,
      \<lparr>e4_sequence = 4, e4_hash = h, e4_previous = Some h, e4_source = ''kernel'', e4_run_id =
        ''a_b'', e4_body = AttemptStarted \<lparr>at_ordinal = 1, at_previous = None, at_resume_ref = None, at_nonce =
        None, at_boundary = (2, h), at_mode = Ordinary, at_owner_lease = ''a_b'', at_deadline = 1, at_boot =
        h, at_clock = ''a_b'', at_previous_fence = 0, at_fence = 0\<rparr>\<rparr>,
      \<lparr>e4_sequence = 5, e4_hash = h, e4_previous = Some h, e4_source = ''policy-enforcement-point'',
        e4_run_id = ''a_b'', e4_body = ActionAdmitted (JObj [(''action_id'', JStr ''a_b''), (''task_ref'', JStr ''a''), (''lease_id'', JStr ''a_b''),
          (''lease_event_ref'', JObj [(''ledger_sequence'', JInt 2), (''event_hash'', JStr h)]),
          (''admission_clock_ref'', JObj [(''ledger_sequence'', JInt 3), (''event_hash'', JStr h)]),
          (''action_proposal_id'', JStr ''a_b''), (''action_proposal_hash'', JStr h), (''action_actor_ref'',
          JStr ''a_b''), (''action_actor_stable_identity_hash'', JStr h), (''on_behalf_of_chain_hash'', JStr
          h), (''repository_root_ref'', JStr ''a_b''), (''repository_base_ref_identity_hash'', JStr h),
          (''repository_pre_state_hash'', JStr h), (''authorized_change_set_hash'', JStr h),
          (''normalized_dispatch_hash'', JStr h), (''action_scope_hash'', JStr h), (''action_class'', JStr
          ''task''), (''classifier_input_hash'', JStr h), (''classifier_registry_hash'', JStr h),
          (''classifier_rule_hash'', JStr h), (''data_flow_hash'', JStr h), (''execution_ordinal'', JInt 1),
          (''retry_of_failure_ordinal'', JNull), (''fence_epoch'', JInt 0), (''side_effect_refs'', JArr [JStr
          ''a'']), (''waiver_gate_use_checks'', JArr []), (''task_executions_after'', JInt 1),
          (''action_output_bytes_after'', JInt 0), (''policy_action_kind'', JStr ''planning''),
          (''action_approval_class'', JStr ''automatic''), (''attempt_event_ref'', JObj [(''ledger_sequence'',
          JInt 4), (''event_hash'', JStr h)]), (''parent_run_owner_lease_id'', JStr ''a_b''),
          (''logical_operation_idempotency_key'', JStr h), (''resolved_operation_input_hash'', JStr h),
          (''recovery_policy_hash'', JStr h), (''process_runtime_ceiling_ms'', JInt 1)])\<rparr>,
      \<lparr>e4_sequence = 6, e4_hash = h, e4_previous = Some h, e4_source = ''kernel'', e4_run_id =
        ''a_b'', e4_body = PlainEvent ''run.clock-observed''\<rparr>,
      \<lparr>e4_sequence = 7, e4_hash = h, e4_previous = Some h, e4_source = ''kernel'', e4_run_id =
        ''a_b'', e4_body = PlainEvent ''run.clock-observed''\<rparr>,
      \<lparr>e4_sequence = 8, e4_hash = h, e4_previous = Some h, e4_source = ''operator'', e4_run_id =
        ''a_b'', e4_body = ResumeRequested \<lparr>rq_id = ''a_b'', rq_mode = ReconciliationOnly, rq_nonce =
        h, rq_previous_attempt = (4, h), rq_boundary = (2, h)\<rparr>\<rparr>,
      \<lparr>e4_sequence = 9, e4_hash = h, e4_previous = Some h, e4_source = ''kernel'', e4_run_id =
        ''a_b'', e4_body = AttemptStarted \<lparr>at_ordinal = 2, at_previous = Some (4, h), at_resume_ref =
        Some (8, h), at_nonce = Some h, at_boundary = (2, h), at_mode = ReconciliationOnly,
        at_owner_lease = ''a_b'', at_deadline = 1, at_boot = h, at_clock = ''a_b'', at_previous_fence = 0,
        at_fence = 1\<rparr>\<rparr>,
      \<lparr>e4_sequence = 10, e4_hash = h, e4_previous = Some h, e4_source = ''adapter'', e4_run_id =
        ''a_b'', e4_body = NonEntryAcknowledged \<lparr>ne_action = ''a_b'', ne_admission = (5, h), ne_task =
        ''a'', ne_attempt = (4, h), ne_fence = 0, ne_adapter_ref = ''a'', ne_adapter_version = h,
        ne_identity = \<lparr>xi_adapter_invocation = ''a_b'', xi_host = h, xi_boot = h, xi_unit =
        h, xi_cgroup = h\<rparr>\<rparr>\<rparr>,
      \<lparr>e4_sequence = 11, e4_hash = h, e4_previous = Some h, e4_source = ''adapter'', e4_run_id =
        ''a_b'', e4_body = TerminationAttempted \<lparr>tm_trigger = ''reconciliation'', tm_trigger_ref = (10,
        h), tm_admission = (5, h), tm_identity = \<lparr>xi_adapter_invocation = ''a_b'', xi_host =
        h, xi_boot = h, xi_unit = h, xi_cgroup = h\<rparr>, tm_outcome =
        ''terminated''\<rparr>\<rparr>,
      \<lparr>e4_sequence = 12, e4_hash = h, e4_previous = Some h, e4_source = ''integrity'', e4_run_id =
        ''a_b'', e4_body = ProvenNonStart \<lparr>ns_action = ''a_b'', ns_task = ''a'', ns_admission = (5, h),
        ns_attempt = (4, h), ns_fence = 0, ns_adapter_invocation = ''a_b'', ns_adapter_ref = ''a'',
        ns_adapter_version = h, ns_ack = (10, h), ns_termination = (11, h)\<rparr>\<rparr>,
      \<lparr>e4_sequence = 13, e4_hash = h, e4_previous = Some h, e4_source = ''integrity'', e4_run_id =
        ''a_b'', e4_body = EffectOutcome \<lparr>eo_action = ''a_b'', eo_outcome = ''not-committed'',
        eo_reconciliation = Some (12, h), eo_task = ''a'', eo_effect = ''a''\<rparr>\<rparr>,
      \<lparr>e4_sequence = 14, e4_hash = h, e4_previous = Some h, e4_source = ''kernel'', e4_run_id =
        ''a_b'', e4_body = ActionSettled \<lparr>st_action = ''a_b'', st_task = ''a'', st_terminal = (12, h),
        st_outcomes = [(''not-committed'', ''a'', 13, h)]\<rparr>\<rparr>,
      \<lparr>e4_sequence = 15, e4_hash = h, e4_previous = Some h, e4_source = ''evaluator'', e4_run_id =
        ''a_b'', e4_body = FreezeEntered\<rparr>,
      \<lparr>e4_sequence = 16, e4_hash = h, e4_previous = Some h, e4_source = ''evaluator'', e4_run_id =
        ''a_b'', e4_body = TerminalSealed 1 2\<rparr>]"

lemma sample_events: "map event4_of sample_ledger = sample_run demo_hash"
  by (simp add: sample_run_def sample_ledger_def sample_5_body_def event4_of_def body4_of_def attempt_in_def resume_in_def non_entry_in_def
    termination_in_def non_start_in_def effect_in_def settlement_in_def identity_in_def boundary_in_def key_ref_def
    ref_or_null_def text_or_null_def mode_named_def is_null_def is_text_def History_V04.non_start_def Let_def demo_read)

lemma sample_reduced: "isl (reduceRuntimeEventPrefixV04 (sample_run h)) = False"
  by code_simp

lemma sample_accepted: "\<exists>s. validateEvents4 demo_env sample_ledger = Inr s"
proof -
  obtain s where "reduceRuntimeEventPrefixV04 (map event4_of sample_ledger) = Inr s"
    using sample_reduced [of demo_hash] unfolding sample_events by (cases "reduceRuntimeEventPrefixV04 (sample_run demo_hash)") simp_all
  moreover have "sample_ledger \<noteq> []" "ev_type (sample_ledger ! 0) = ''run.initialized''"
    by (simp_all add: sample_ledger_def demo_read)
  ultimately show ?thesis using sample_accepted_events sample_history by (auto simp: validateEvents4_Inr)
qed

subsection \<open>Its bytes\<close>

text \<open>A reader that knows sixteen lines, of one letter each.\<close>

definition sample_reader :: ledger_reader where
  "sample_reader =
     \<lparr>keys_unique = (\<lambda>_. True),
      parse_json = map_of (zip (map (\<lambda>c. [c]) ''abcdefghijklmnop'') sample_ledger),
      decode_utf8 = (\<lambda>bs. Some (map char_of bs)), hash_bytes = (\<lambda>_. demo_hash)\<rparr>"

definition sample_bytes :: "nat list" where
  "sample_bytes =
     [97, 10, 98, 10, 99, 10, 100, 10, 101, 10, 102, 10, 103, 10, 104, 10, 105, 10, 106, 10, 107, 10, 108, 10, 109, 10,
      110, 10, 111, 10, 112, 10]"

definition sample_lines :: "string list" where
  "sample_lines = map (\<lambda>c. [c]) ''abcdefghijklmnop''"

lemma sample_decoded:
  "map char_of sample_bytes = join [newline_char] (sample_lines @ [[]])"
  "split_on newline_char (butlast (join [newline_char] (sample_lines @ [[]]))) = sample_lines"
  "last (join [newline_char] (sample_lines @ [[]])) = newline_char"
  by code_simp+

lemma sample_line: "l \<in> set sample_lines \<Longrightarrow> l \<noteq> [] \<and> utf8ByteLength l = 1"
proof -
  have "\<forall>l \<in> set sample_lines. l \<noteq> [] \<and> utf8ByteLength l = 1" by code_simp
  then show "l \<in> set sample_lines \<Longrightarrow> l \<noteq> [] \<and> utf8ByteLength l = 1" by blast
qed

lemma sample_captured: "captured_lines sample_reader sample_bytes = Some sample_lines"
proof -
  have "captureBytes sample_bytes = Some sample_bytes"
    by (simp add: captureBytes_def sample_bytes_def MAX_LEDGER_BYTES_def)
  moreover have "join [newline_char] (sample_lines @ [[]]) \<noteq> []" by code_simp
  moreover have "\<not> list_ex (\<lambda>l. l = [] \<or> MAX_EVENT_BYTES < utf8ByteLength l) sample_lines"
    using sample_line by (auto simp: list_ex_iff MAX_EVENT_BYTES_def)
  moreover have "\<not> MAX_EVENTS < length sample_lines" by (simp add: sample_lines_def MAX_EVENTS_def)
  ultimately show ?thesis
    by (simp add: captured_lines_def captured_text_def ledger_lines_def sample_reader_def sample_decoded Let_def)
qed

lemma sample_read: "read_ledger sample_reader sample_bytes = Inr sample_ledger"
proof -
  let ?read = "read_event_line (line_reader.truncate sample_reader)"
  have lines_read: "map ?read sample_lines = map Some sample_ledger"
    by (simp add: read_event_line_def sample_reader_def line_reader.truncate_def sample_lines_def sample_ledger_def)
  then have "\<forall>l \<in> set sample_lines. ?read l \<noteq> None" by (metis image_iff list.set_map option.distinct(1))
  then have "scan (\<lambda>_ l. require (?read l \<noteq> None) ()) sample_lines = None" by (simp only: scan_all)
  moreover have "map (\<lambda>l. own (?read l)) sample_lines = sample_ledger"
    using arg_cong [OF lines_read, of "map own"] by (simp add: o_def own_def)
  ultimately have "read_values sample_reader sample_lines = Inr sample_ledger" by (simp add: read_values_def Let_def)
  then show ?thesis by (simp add: read_ledger_def sample_captured)
qed

lemma sample_inspected: "\<exists>l. inspectRuntimeLedgerV04 sample_reader demo_env sample_bytes = Inr l \<and> vl_events l = sample_ledger"
  using sample_accepted by (auto simp: inspectRuntimeLedgerV04_def sample_read validated_def)

subsection \<open>The law at the example\<close>

theorem non_start_never_ran_witness:
  "\<exists>a k t. a < k \<and> k < t \<and> t < 11 \<and> non_start_evidence sample_ledger sample_12 a k t"
proof -
  obtain l where l: "inspectRuntimeLedgerV04 sample_reader demo_env sample_bytes = Inr l" "vl_events l = sample_ledger"
    using sample_inspected by blast
  have at: "sample_ledger ! 11 = sample_12" "length sample_ledger = 16" by (simp_all add: sample_ledger_def)
  have "proven_non_start sample_12"
    by (simp add: proven_non_start_def History_V04.non_start_def is_text_def demo_read)
  with non_start_never_ran [OF l(1), of 11] show ?thesis unfolding l(2) at by simp
qed

end
