(* ===== verification/Control_Budget.thy ===== *)
theory Control_Budget
  imports Scalars
begin

text \<open>
  The budget of the control plane, version 0.2 (\<open>src/compiler/control-plane-budget-v02.ts\<close>): from
  the counts of a plan it derives how many events and files of each family the run may record
  and the bytes they may take, and compares the total with the reserve of the plan. Unbounded
  integers stand for the big integers of the code; \<open>toBigInt\<close> and \<open>toSafeNumber\<close> check the domain
  of safe integers on the way in and out. The laws compare the
  derivation with a reference definition without the conversions on the way.
\<close>

record retry_max =
  rm_task :: string
  rm_executions :: int

record side_effect_row =
  sr_task :: string
  sr_effects :: "string list"

record record_limits =
  max_authority_records :: int
  max_agency_recommendation_records :: int
  max_authority_revocation_records :: int
  max_evidence_records :: int
  max_task_result_records :: int
  max_manual_observation_records :: int
  max_export_decision_records :: int
  max_claim_records :: int
  max_finding_records :: int
  max_waiver_records :: int
  max_preseal_custody_events :: int

record budget_input =
  bi_success_criteria :: nat    \<comment> \<open>how many\<close>
  bi_tasks :: "string list"
  bi_gates :: nat
  bi_evaluations :: nat
  bi_artifacts :: nat
  bi_observations :: nat
  bi_compensations :: nat
  bi_side_effects :: "side_effect_row list"
  bi_retry_rules :: "retry_max list"
  bi_record_limits :: record_limits
  bi_loop_attempts :: int
  bi_tool_calls :: int
  bi_reserve :: int

datatype budget_error = ContractInvalid | Overflow | ExceedsReserve

record family_ceiling =
  fc_family :: string
  fc_cardinality :: int
  fc_max_bytes :: int

record control_budget =
  cb_required :: int
  cb_non_clock :: int
  cb_clocks :: int
  cb_terminal :: int
  cb_events :: "family_ceiling list"
  cb_files :: "family_ceiling list"

subsection \<open>The byte ceilings\<close>

definition ledger_standard :: int where "ledger_standard = 131072"
definition ledger_authority :: int where "ledger_authority = 524288"
definition record_standard :: int where "record_standard = 262144"
definition record_authority :: int where "record_authority = 1048576"
definition manifest_ceiling :: int where "manifest_ceiling = 4194304"
definition report_ceiling :: int where "report_ceiling = 4194304"

definition toBigInt :: "int \<Rightarrow> int option" where
  "toBigInt v = (if isSafeInteger v \<and> 0 \<le> v then Some v else None)"

definition toSafeNumber :: "int \<Rightarrow> int option" where
  "toSafeNumber v = (if 0 \<le> v \<and> v \<le> MAX_SAFE_INTEGER then Some v else None)"

type_synonym raw_row = "string \<times> int \<times> int"

definition makeRow :: "raw_row \<Rightarrow> family_ceiling option" where
  "makeRow row =
     (case row of (family, cardinality, bytes) \<Rightarrow>
        map_option (\<lambda>n. \<lparr>fc_family = family, fc_cardinality = n, fc_max_bytes = bytes\<rparr>) (toSafeNumber cardinality))"

definition charge :: "family_ceiling list \<Rightarrow> int" where
  "charge rows = sum_list (map (\<lambda>r. fc_cardinality r * fc_max_bytes r) rows)"

subsection \<open>The counts of the plan\<close>

text \<open>The highest number of executions a rule gives a task; no rule gives less than one.\<close>

fun retry_maxima :: "(string \<rightharpoonup> int) \<Rightarrow> retry_max list \<Rightarrow> (string \<rightharpoonup> int) option" where
  "retry_maxima m [] = Some m"
| "retry_maxima m (r # rs) =
     (case toBigInt (rm_executions r) of
        None \<Rightarrow> None
      | Some n \<Rightarrow>
          if n < 1 then None
          else retry_maxima (if (case m (rm_task r) of None \<Rightarrow> 0 | Some c \<Rightarrow> c) < n then m(rm_task r \<mapsto> n) else m) rs)"

text \<open>The sum over the tasks of a count each task must have.\<close>

fun sum_over :: "(string \<Rightarrow> int option) \<Rightarrow> string list \<Rightarrow> int option" where
  "sum_over f [] = Some 0"
| "sum_over f (t # ts) = (case f t of None \<Rightarrow> None | Some n \<Rightarrow> map_option (\<lambda>s. n + s) (sum_over f ts))"

fun side_effect_counts :: "string list \<Rightarrow> (string \<rightharpoonup> nat) \<Rightarrow> side_effect_row list \<Rightarrow> (string \<rightharpoonup> nat) option" where
  "side_effect_counts tasks m [] = Some m"
| "side_effect_counts tasks m (r # rs) =
     (if sr_task r \<notin> set tasks \<or> m (sr_task r) \<noteq> None \<or> length (sr_effects r) < 1 then None
      else side_effect_counts tasks (m(sr_task r \<mapsto> length (sr_effects r))) rs)"

definition expectedRecordLimits :: "int \<Rightarrow> int \<Rightarrow> int \<Rightarrow> int \<Rightarrow> int \<Rightarrow> int \<Rightarrow> record_limits" where
  "expectedRecordLimits A G E R S C =
     (let evidence = 8 * A + 12 * G + 4 * E + 2 * R + 32 in
      \<lparr>max_authority_records = 9 * A + 10 * G,
       max_agency_recommendation_records = 8 * (2 * A + C),
       max_authority_revocation_records = A + 2 * G,
       max_evidence_records = evidence,
       max_task_result_records = A,
       max_manual_observation_records = evidence,
       max_export_decision_records = R + evidence,
       max_claim_records = S + G + E,
       max_finding_records = 4 * A + 2 * G + 2 * E + 2 * R + 32,
       max_waiver_records = G,
       max_preseal_custody_events = 2 * (R + evidence)\<rparr>)"

definition limit_fields :: "(record_limits \<Rightarrow> int) list" where
  "limit_fields =
     [max_authority_records, max_agency_recommendation_records, max_authority_revocation_records, max_evidence_records,
      max_task_result_records, max_manual_observation_records, max_export_decision_records, max_claim_records,
      max_finding_records, max_waiver_records, max_preseal_custody_events]"

definition limits_match :: "record_limits \<Rightarrow> record_limits \<Rightarrow> bool" where
  "limits_match supplied expected \<longleftrightarrow> list_all (\<lambda>f. toBigInt (f supplied) = Some (f expected)) limit_fields"

text \<open>The checked counts, the attempts of all tasks and the effects of all attempts.\<close>

record budget_counts =
  ct_A :: int
  ct_G :: int
  ct_E :: int
  ct_R :: int
  ct_S :: int
  ct_C :: int
  ct_P :: int
  ct_T :: int
  ct_tools :: int
  ct_F :: int

definition counted_inputs :: "budget_input \<Rightarrow> int list" where
  "counted_inputs i =
     [int (bi_gates i), int (bi_evaluations i), int (bi_artifacts i), int (bi_success_criteria i),
      int (bi_compensations i), int (bi_observations i), bi_loop_attempts i, bi_tool_calls i, bi_reserve i]"

definition attempt_budget :: "budget_input \<Rightarrow> (string \<rightharpoonup> int) \<Rightarrow> int option" where
  "attempt_budget i m = sum_over m (bi_tasks i)"

definition effect_budget :: "budget_input \<Rightarrow> (string \<rightharpoonup> int) \<Rightarrow> int option" where
  "effect_budget i m =
     (case side_effect_counts (bi_tasks i) Map.empty (bi_side_effects i) of
        None \<Rightarrow> None
      | Some rows \<Rightarrow>
          sum_over (\<lambda>t. case rows t of None \<Rightarrow> None | Some n \<Rightarrow> map_option (\<lambda>k. int n * k) (m t)) (bi_tasks i))"

definition counts_of :: "budget_input \<Rightarrow> int \<Rightarrow> int \<Rightarrow> budget_counts" where
  "counts_of i A F =
     \<lparr>ct_A = A, ct_G = int (bi_gates i), ct_E = int (bi_evaluations i), ct_R = int (bi_artifacts i),
      ct_S = int (bi_success_criteria i), ct_C = int (bi_compensations i), ct_P = int (bi_observations i),
      ct_T = bi_loop_attempts i, ct_tools = bi_tool_calls i, ct_F = F\<rparr>"

definition expected_limits :: "budget_counts \<Rightarrow> record_limits" where
  "expected_limits c = expectedRecordLimits (ct_A c) (ct_G c) (ct_E c) (ct_R c) (ct_S c) (ct_C c)"

definition contract_counts :: "budget_input \<Rightarrow> budget_counts option" where
  "contract_counts i =
     (if None \<in> set (map toBigInt (counted_inputs i)) then None
      else case retry_maxima Map.empty (bi_retry_rules i) of
        None \<Rightarrow> None
      | Some m \<Rightarrow>
          (case attempt_budget i m of
             None \<Rightarrow> None
           | Some A \<Rightarrow>
               if \<not> limits_match (bi_record_limits i) (expected_limits (counts_of i A 0)) then None
               else map_option (counts_of i A) (effect_budget i m)))"

subsection \<open>The families\<close>

definition non_clock_rows :: "budget_counts \<Rightarrow> raw_row list" where
  "non_clock_rows c =
     (let A = ct_A c; G = ct_G c; E = ct_E c; R = ct_R c; C = ct_C c; x = expected_limits c in
      [(''initialize'', 1, ledger_standard),
       (''fence-advances-plus-abort'', A + 3, ledger_standard),
       (''gate-required-results'', 2 * G, ledger_standard),
       (''evaluation-required-results'', 2 * E, ledger_standard),
       (''authority-events'', 26 * A + 13 * G + 8 * C, ledger_authority),
       (''policy-decisions'', 2 * A + C, ledger_authority),
       (''evidence-recorded'', max_evidence_records x, ledger_standard),
       (''manual-observations'', max_manual_observation_records x, ledger_standard),
       (''export-decisions'', max_export_decision_records x, ledger_standard),
       (''claims-findings'', max_claim_records x + max_finding_records x, ledger_standard),
       (''action-lifecycle'', 7 * A, ledger_standard),
       (''tool-admission'', ct_tools c, ledger_standard),
       (''artifact-write-record'', 2 * R, ledger_standard),
       (''prospective-limit-blocks'', C + 1, ledger_standard),
       (''effect-outcomes'', ct_F c, ledger_standard),
       (''preseal-redaction-custody'', max_preseal_custody_events x, ledger_standard),
       (''task-progress-facts'', A, ledger_standard),
       (''progress-attempt-boundaries'', ct_T c * (ct_P c + 1), ledger_standard),
       (''terminal-freeze'', 7, ledger_standard),
       (''compensation-requests'', if C = 0 then 0 else C + 3, ledger_standard),
       (''compensation-phase-escalation'', if C = 0 then 0 else 4, ledger_standard),
       (''compensation-settlements'', C, ledger_standard),
       (''terminal-seal'', 1, ledger_standard)])"

definition non_clock_total :: "budget_counts \<Rightarrow> int" where
  "non_clock_total c = sum_list (map (fst \<circ> snd) (non_clock_rows c))"

definition clock_total :: "budget_counts \<Rightarrow> int" where
  "clock_total c = 2 * ct_A c + ct_G c + non_clock_total c"

definition event_rows :: "budget_counts \<Rightarrow> raw_row list" where
  "event_rows c =
     non_clock_rows c ! 0 # (''clocks'', clock_total c, ledger_standard) # drop 1 (non_clock_rows c)"

definition file_rows :: "budget_counts \<Rightarrow> raw_row list" where
  "file_rows c =
     (let x = expected_limits c in
      [(''authority-records'', max_authority_records x, record_authority),
       (''agency-recommendation-records'', max_agency_recommendation_records x, record_authority),
       (''authority-revocation-records'', max_authority_revocation_records x, record_authority),
       (''evidence-records'', max_evidence_records x, record_standard),
       (''task-result-records'', max_task_result_records x, record_standard),
       (''manual-observation-records'', max_manual_observation_records x, record_standard),
       (''export-decision-records'', max_export_decision_records x, record_standard),
       (''claim-records'', max_claim_records x, record_standard),
       (''finding-records'', max_finding_records x, record_standard),
       (''waiver-records'', max_waiver_records x, record_standard),
       (''gate-result-records'', ct_G c, record_standard),
       (''evaluation-result-records'', ct_E c, record_standard),
       (''artifact-records'', ct_R c, record_standard),
       (''redaction-derivative-records'', max_preseal_custody_events x div 2, record_standard),
       (''runtime-manifests'', 2, manifest_ceiling),
       (''final-report-projections'', 3, report_ceiling)])"

definition terminal_reservation :: "budget_counts \<Rightarrow> int" where
  "terminal_reservation c = (if ct_C c = 0 then 8 else 15 + 2 * ct_C c)"

definition deriveControlPlaneBudgetV02 :: "budget_input \<Rightarrow> budget_error + control_budget" where
  "deriveControlPlaneBudgetV02 i =
     (case contract_counts i of
        None \<Rightarrow> Inl ContractInvalid
      | Some c \<Rightarrow>
          (let events = map makeRow (event_rows c); files = map makeRow (file_rows c) in
           if None \<in> set (events @ files) then Inl Overflow
           else let required = charge (map the events) + charge (map the files) in
             if None \<in> set (map toSafeNumber [required, non_clock_total c, clock_total c, terminal_reservation c])
             then Inl Overflow
             else if bi_reserve i < required then Inl ExceedsReserve
             else Inr \<lparr>cb_required = required, cb_non_clock = non_clock_total c, cb_clocks = clock_total c,
                    cb_terminal = terminal_reservation c, cb_events = map the events, cb_files = map the files\<rparr>))"

subsection \<open>The counts\<close>

definition row_bytes :: "raw_row \<Rightarrow> int" where
  "row_bytes r = fst (snd r) * snd (snd r)"

definition required_bytes :: "budget_counts \<Rightarrow> int" where
  "required_bytes c = sum_list (map row_bytes (event_rows c @ file_rows c))"

definition counts_ok :: "budget_counts \<Rightarrow> bool" where
  "counts_ok c \<longleftrightarrow>
     0 \<le> ct_A c \<and> 0 \<le> ct_G c \<and> 0 \<le> ct_E c \<and> 0 \<le> ct_R c \<and> 0 \<le> ct_S c \<and> 0 \<le> ct_C c \<and> 0 \<le> ct_P c \<and>
     0 \<le> ct_T c \<and> 0 \<le> ct_tools c \<and> 0 \<le> ct_F c"

lemma toBigInt_Some: "toBigInt v = Some n \<longleftrightarrow> n = v \<and> 0 \<le> v \<and> v \<le> MAX_SAFE_INTEGER"
  by (auto simp: toBigInt_def isSafeInteger_def MAX_SAFE_INTEGER_def)

lemma toSafeNumber_None: "toSafeNumber v = None \<longleftrightarrow> v < 0 \<or> MAX_SAFE_INTEGER < v"
  by (auto simp: toSafeNumber_def)

lemma retry_maxima_pos:
  assumes "retry_maxima m rs = Some m'" and "\<And>t n. m t = Some n \<Longrightarrow> 1 \<le> n" and "m' t = Some n"
  shows "1 \<le> n"
  using assms
proof (induction rs arbitrary: m)
  case (Cons r rs)
  let ?k = "rm_executions r"
  let ?m = "if (case m (rm_task r) of None \<Rightarrow> 0 | Some c \<Rightarrow> c) < ?k then m(rm_task r \<mapsto> ?k) else m"
  from Cons.prems(1) have k: "1 \<le> ?k" and next_map: "retry_maxima ?m rs = Some m'"
    by (simp_all add: toBigInt_def split: if_split_asm)
  show ?case
  proof (rule Cons.IH [OF next_map _ Cons.prems(3)])
    fix u j assume "?m u = Some j"
    then show "1 \<le> j" using k Cons.prems(2) [of u j] by (simp split: if_split_asm)
  qed
qed simp

lemma sum_over_nonneg:
  "sum_over f ts = Some n \<Longrightarrow> (\<And>t k. f t = Some k \<Longrightarrow> 0 \<le> k) \<Longrightarrow> 0 \<le> n"
  by (induction ts arbitrary: n) (force split: option.splits)+

lemma contract_counts_ok:
  assumes "contract_counts i = Some c"
  shows "counts_ok c"
proof -
  from assms have inputs: "None \<notin> set (map toBigInt (counted_inputs i))" by (auto simp: contract_counts_def split: if_splits)
  then have limits: "0 \<le> bi_loop_attempts i" "0 \<le> bi_tool_calls i"
    by (auto simp: counted_inputs_def toBigInt_def split: if_splits)
  from assms obtain m A F where m: "retry_maxima Map.empty (bi_retry_rules i) = Some m" and A: "attempt_budget i m = Some A"
    and F: "effect_budget i m = Some F" and c: "c = counts_of i A F"
    by (auto simp: contract_counts_def split: if_splits option.splits)
  have pos: "0 \<le> k" if "m t = Some k" for t k using retry_maxima_pos [OF m _ that] by auto
  have "0 \<le> A" using A pos unfolding attempt_budget_def by (rule sum_over_nonneg) blast
  moreover have "0 \<le> F" using F pos unfolding effect_budget_def
    by (auto elim!: sum_over_nonneg split: option.splits)
  ultimately show ?thesis using limits by (simp add: c counts_ok_def counts_of_def)
qed

subsection \<open>Laws\<close>

definition unchecked_row :: "raw_row \<Rightarrow> family_ceiling" where
  "unchecked_row r = \<lparr>fc_family = fst r, fc_cardinality = fst (snd r), fc_max_bytes = snd (snd r)\<rparr>"

definition budget_of :: "budget_counts \<Rightarrow> control_budget" where
  "budget_of c =
     \<lparr>cb_required = required_bytes c, cb_non_clock = non_clock_total c, cb_clocks = clock_total c,
      cb_terminal = terminal_reservation c, cb_events = map unchecked_row (event_rows c),
      cb_files = map unchecked_row (file_rows c)\<rparr>"

definition budget_spec :: "budget_input \<Rightarrow> budget_error + control_budget" where
  "budget_spec i =
     (case contract_counts i of
        None \<Rightarrow> Inl ContractInvalid
      | Some c \<Rightarrow>
          if MAX_SAFE_INTEGER < required_bytes c then Inl Overflow
          else if bi_reserve i < required_bytes c then Inl ExceedsReserve
          else Inr (budget_of c))"

lemma member_le_sum: "(\<And>y. y \<in> set xs \<Longrightarrow> 0 \<le> y) \<Longrightarrow> (x :: int) \<in> set xs \<Longrightarrow> x \<le> sum_list xs"
proof (induction xs)
  case (Cons y ys)
  have "0 \<le> sum_list ys" using Cons.prems(1) by (intro sum_list_nonneg) simp
  with Cons show ?case by fastforce
qed simp

lemmas ceilings =
  ledger_standard_def ledger_authority_def record_standard_def record_authority_def manifest_ceiling_def report_ceiling_def

lemma non_clock_rows_ok:
  "counts_ok c \<Longrightarrow> r \<in> set (non_clock_rows c) \<Longrightarrow> 0 \<le> fst (snd r) \<and> 1 \<le> snd (snd r)"
  unfolding non_clock_rows_def Let_def counts_ok_def
  by (auto simp: ceilings expected_limits_def expectedRecordLimits_def Let_def)

lemma file_rows_ok:
  "counts_ok c \<Longrightarrow> r \<in> set (file_rows c) \<Longrightarrow> 0 \<le> fst (snd r) \<and> 1 \<le> snd (snd r)"
  unfolding file_rows_def Let_def counts_ok_def
  by (auto simp: ceilings expected_limits_def expectedRecordLimits_def Let_def)

lemma non_clock_total_nonneg: "counts_ok c \<Longrightarrow> 0 \<le> non_clock_total c"
  unfolding non_clock_total_def by (intro sum_list_nonneg) (auto dest: non_clock_rows_ok)

lemma event_rows_set:
  "set (event_rows c) = insert (''clocks'', clock_total c, ledger_standard) (set (non_clock_rows c))"
  by (simp add: event_rows_def non_clock_rows_def Let_def insert_commute)

lemma rows_ok:
  assumes "counts_ok c" and "r \<in> set (event_rows c @ file_rows c)"
  shows "0 \<le> fst (snd r)" "1 \<le> snd (snd r)"
proof -
  have "0 \<le> clock_total c" using non_clock_total_nonneg [OF assms(1)] assms(1) by (simp add: clock_total_def counts_ok_def)
  then show "0 \<le> fst (snd r)" "1 \<le> snd (snd r)"
    using assms non_clock_rows_ok [OF assms(1), of r] file_rows_ok [OF assms(1), of r]
    by (auto simp: event_rows_set ceilings)
qed

lemma row_bytes_nonneg: "counts_ok c \<Longrightarrow> r \<in> set (event_rows c @ file_rows c) \<Longrightarrow> 0 \<le> row_bytes r"
  using rows_ok [of c r] by (simp add: row_bytes_def)

lemma row_le_required:
  assumes "counts_ok c" and "r \<in> set (event_rows c @ file_rows c)"
  shows "row_bytes r \<le> required_bytes c"
  unfolding required_bytes_def
proof (rule member_le_sum)
  fix y assume "y \<in> set (map row_bytes (event_rows c @ file_rows c))"
  then obtain q where "q \<in> set (event_rows c @ file_rows c)" "y = row_bytes q" unfolding set_map by blast
  then show "0 \<le> y" using row_bytes_nonneg [OF assms(1)] by simp
qed (use assms(2) in \<open>simp only: set_map image_eqI\<close>)

lemma cardinality_le_required:
  assumes "counts_ok c" and "r \<in> set (event_rows c @ file_rows c)"
  shows "fst (snd r) \<le> required_bytes c"
proof -
  have "fst (snd r) \<le> row_bytes r"
    using rows_ok [OF assms] by (simp add: row_bytes_def mult_le_cancel_left1)
  then show ?thesis using row_le_required [OF assms] by linarith
qed

lemma non_clock_le_clocks: "counts_ok c \<Longrightarrow> non_clock_total c \<le> clock_total c"
  by (simp add: clock_total_def counts_ok_def)

text \<open>The reserve for the terminal events is small beside the authority events and the manifests.\<close>

lemma terminal_le_required:
  assumes "counts_ok c"
  shows "0 \<le> terminal_reservation c" "terminal_reservation c \<le> required_bytes c"
proof -
  have c: "0 \<le> ct_C c" "0 \<le> ct_A c" "0 \<le> ct_G c" using assms by (simp_all add: counts_ok_def)
  then show "0 \<le> terminal_reservation c" by (simp add: terminal_reservation_def)
  have events: "(''authority-events'', 26 * ct_A c + 13 * ct_G c + 8 * ct_C c, ledger_authority) \<in> set (event_rows c @ file_rows c)"
    unfolding set_append event_rows_set by (simp add: non_clock_rows_def Let_def)
  have freeze: "(''terminal-freeze'', 7, ledger_standard) \<in> set (event_rows c @ file_rows c)"
    unfolding set_append event_rows_set by (simp add: non_clock_rows_def Let_def)
  from row_le_required [OF assms events] have "8 * ct_C c * 524288 \<le> required_bytes c"
    using c unfolding row_bytes_def fst_conv snd_conv ceilings by (simp add: distrib_right)
  moreover from row_le_required [OF assms freeze] have "7 * 131072 \<le> required_bytes c"
    unfolding row_bytes_def fst_conv snd_conv ceilings by simp
  ultimately show "terminal_reservation c \<le> required_bytes c"
    using c by (simp add: terminal_reservation_def)
qed

lemma makeRow_some:
  assumes "0 \<le> fst (snd r)" and "fst (snd r) \<le> MAX_SAFE_INTEGER"
  shows "makeRow r = Some (unchecked_row r)"
  using assms by (simp add: makeRow_def unchecked_row_def toSafeNumber_def split_beta)

lemma makeRow_the: "makeRow r \<noteq> None \<Longrightarrow> the (makeRow r) = unchecked_row r"
  by (simp add: makeRow_def unchecked_row_def toSafeNumber_def split_beta split: if_split_asm)

lemma the_rows: "None \<notin> set (map makeRow rs) \<Longrightarrow> map the (map makeRow rs) = map unchecked_row rs"
  by (induction rs) (simp_all add: makeRow_the eq_commute [of None])

lemma charge_unchecked: "charge (map unchecked_row rs) = sum_list (map row_bytes rs)"
  by (induction rs) (simp_all add: charge_def unchecked_row_def row_bytes_def)

lemma derive_by_total: "deriveControlPlaneBudgetV02 i = budget_spec i"
proof (cases "contract_counts i")
  case (Some c)
  then have ok: "counts_ok c" by (rule contract_counts_ok)
  let ?events = "map makeRow (event_rows c)" and ?files = "map makeRow (file_rows c)"
  let ?required = "charge (map the ?events) + charge (map the ?files)"
  have le: "fst (snd r) \<le> required_bytes c" "0 \<le> fst (snd r)" if "r \<in> set (event_rows c @ file_rows c)" for r
    using cardinality_le_required [OF ok that] rows_ok [OF ok that] by auto
  have clocks: "0 \<le> clock_total c" "clock_total c \<le> required_bytes c"
    using le [of "(''clocks'', clock_total c, ledger_standard)"] by (simp_all add: event_rows_set)
  have others: "0 \<le> non_clock_total c" "non_clock_total c \<le> required_bytes c"
      "0 \<le> terminal_reservation c" "terminal_reservation c \<le> required_bytes c"
    using non_clock_total_nonneg [OF ok] non_clock_le_clocks [OF ok] clocks terminal_le_required [OF ok] by linarith+
  show ?thesis
  proof (cases "None \<in> set (?events @ ?files)")
    case True
    then have "None \<in> makeRow ` set (event_rows c @ file_rows c)" by (simp only: map_append [symmetric] set_map)
    then obtain r where r: "r \<in> set (event_rows c @ file_rows c)" "makeRow r = None" by (metis imageE)
    then have "MAX_SAFE_INTEGER < fst (snd r)" using le(2) [OF r(1)] makeRow_some [of r] by force
    then have "MAX_SAFE_INTEGER < required_bytes c" using le(1) [OF r(1)] by linarith
    with True Some show ?thesis by (simp add: deriveControlPlaneBudgetV02_def budget_spec_def Let_def)
  next
    case False
    then have rows: "map the ?events = map unchecked_row (event_rows c)" "map the ?files = map unchecked_row (file_rows c)"
      unfolding set_append Un_iff de_Morgan_disj by (blast intro: the_rows)+
    then have required: "?required = required_bytes c" unfolding rows by (simp add: charge_unchecked required_bytes_def)
    have "None \<in> set (map toSafeNumber [required_bytes c, non_clock_total c, clock_total c, terminal_reservation c]) \<longleftrightarrow>
        MAX_SAFE_INTEGER < required_bytes c"
      using clocks others by (auto simp: toSafeNumber_None eq_commute [of None])
    with False Some required rows show ?thesis
      by (simp add: deriveControlPlaneBudgetV02_def budget_spec_def budget_of_def Let_def del: map_map)
  qed
qed (simp add: deriveControlPlaneBudgetV02_def budget_spec_def)

text \<open>
  The derivation is the reference: the checks of single rows and counts on the way never decide,
  only the total does.
\<close>

theorem derive_is_spec: "deriveControlPlaneBudgetV02 i = budget_spec i"
  by (rule derive_by_total)

lemma contract_counts_reserve:
  assumes "contract_counts i = Some c" and "0 \<le> r" and "r \<le> MAX_SAFE_INTEGER"
  shows "contract_counts (i\<lparr>bi_reserve := r\<rparr>) = Some c"
proof -
  let ?j = "i\<lparr>bi_reserve := r\<rparr>"
  have same: "attempt_budget ?j = attempt_budget i" "effect_budget ?j = effect_budget i" "counts_of ?j = counts_of i"
      "bi_retry_rules ?j = bi_retry_rules i" "bi_record_limits ?j = bi_record_limits i"
    by (simp_all add: attempt_budget_def effect_budget_def counts_of_def fun_eq_iff cong: option.case_cong)
  have "toBigInt r = Some r" using assms(2,3) by (simp add: toBigInt_Some)
  moreover from assms(1) have "None \<notin> set (map toBigInt (counted_inputs i))" by (simp add: contract_counts_def split: if_split_asm)
  ultimately have "None \<notin> set (map toBigInt (counted_inputs ?j))" by (simp add: counted_inputs_def)
  with assms(1) show ?thesis unfolding contract_counts_def same by (simp split: if_split_asm)
qed

text \<open>
  C33: the derived bytes are the charge of all families and the exact threshold of the reserve: under
  any other reserve the plan derives the same budget when the reserve covers it, and exceeds the
  reserve otherwise.
\<close>

theorem reserve_threshold:
  assumes "deriveControlPlaneBudgetV02 i = Inr b" and "0 \<le> r" and "r \<le> MAX_SAFE_INTEGER"
  shows "cb_required b = charge (cb_events b) + charge (cb_files b) \<and>
    deriveControlPlaneBudgetV02 (i\<lparr>bi_reserve := r\<rparr>) = (if cb_required b \<le> r then Inr b else Inl ExceedsReserve)"
proof -
  from assms(1) obtain c where c: "contract_counts i = Some c" "required_bytes c \<le> MAX_SAFE_INTEGER" "b = budget_of c"
    unfolding derive_by_total budget_spec_def by (auto split: option.splits if_split_asm)
  have "cb_required b = charge (cb_events b) + charge (cb_files b)"
    by (simp add: c(3) budget_of_def charge_unchecked required_bytes_def)
  then show ?thesis
    using c contract_counts_reserve [OF c(1) assms(2,3)]
    by (simp add: derive_by_total budget_spec_def budget_of_def)
qed

subsection \<open>An example\<close>

definition demo_budget :: budget_input where
  "demo_budget =
     \<lparr>bi_success_criteria = 1, bi_tasks = [''a'', ''b''], bi_gates = 1, bi_evaluations = 1, bi_artifacts = 1,
      bi_observations = 1, bi_compensations = 1,
      bi_side_effects = [\<lparr>sr_task = ''a'', sr_effects = [''x'']\<rparr>, \<lparr>sr_task = ''b'', sr_effects = [''y'', ''z'']\<rparr>],
      bi_retry_rules = [\<lparr>rm_task = ''a'', rm_executions = 1\<rparr>, \<lparr>rm_task = ''b'', rm_executions = 2\<rparr>],
      bi_record_limits = expectedRecordLimits 3 1 1 1 1 1, bi_loop_attempts = 5, bi_tool_calls = 10,
      bi_reserve = 1000000000\<rparr>"

definition demo_control_budget :: control_budget where
  "demo_control_budget = budget_of (counts_of demo_budget 3 5)"

lemma demo_budget_derived: "deriveControlPlaneBudgetV02 demo_budget = Inr demo_control_budget"
  unfolding derive_by_total by code_simp

theorem reserve_threshold_witness:
  "deriveControlPlaneBudgetV02 (demo_budget\<lparr>bi_reserve := 0\<rparr>) = Inl ExceedsReserve"
proof -
  have "0 < cb_required demo_control_budget" by code_simp
  then show ?thesis using reserve_threshold [OF demo_budget_derived, of 0] by (simp add: MAX_SAFE_INTEGER_def)
qed

end
