(* ===== verification/Plan_V03.thy ===== *)
theory Plan_V03
  imports Control_Budget Zod
begin

text \<open>
  The execution policy of a plan of version 0.3 (\<open>src/schema/runtime-plan-v03.ts\<close>): from the
  plan of version 0.2 and the registered profile of its adapter, the limits on attempts, owner
  leases, heartbeats and summaries, and the control bytes they add to the budget of version 0.2;
  and the schema the policy must satisfy (\<open>src/schema/runtime-v04.ts\<close>). The plan is what the
  derivation reads of it, with the input of the budget. The laws say
  when a derived policy passes that schema.
\<close>

record plan_input = budget_input +
  pi_engine :: string
  pi_command :: string
  pi_elapsed :: int
  pi_output :: int
  pi_recovery_output :: "int option"

record adapter_profile =
  ap_profile :: string
  ap_engine :: string
  ap_command :: string
  ap_process_runtime :: int

record execution_policy =
  ep_process_runtime :: int
  ep_execution_attempts :: int
  ep_run_acquisitions :: int
  ep_task_acquisitions :: int
  ep_integrator_acquisitions :: int
  ep_lease_duration :: int
  ep_heartbeat_interval :: int
  ep_run_heartbeats :: int
  ep_task_heartbeats :: int
  ep_integrator_heartbeats :: int
  ep_run_releases :: int
  ep_task_releases :: int
  ep_integrator_releases :: int
  ep_compactions :: int
  ep_summaries :: int
  ep_summary_bytes :: int

definition PRIMARY_EVENT_MAX_BYTES :: int where "PRIMARY_EVENT_MAX_BYTES = 131072"
definition SUMMARY_RECORD_MAX_BYTES :: int where "SUMMARY_RECORD_MAX_BYTES = 262144"

definition codex_profile :: string where "codex_profile = ''s41-captured-codex-cli-v01''"
definition claude_profile :: string where "claude_profile = ''s41-captured-claude-code-cli-v01''"

definition RUNTIME_ADAPTER_PROFILES_V03 :: "adapter_profile list" where
  "RUNTIME_ADAPTER_PROFILES_V03 =
     [\<lparr>ap_profile = codex_profile, ap_engine = ''codex_cli'', ap_command = ''codex exec --json'', ap_process_runtime = 30000\<rparr>,
      \<lparr>ap_profile = claude_profile, ap_engine = ''claude_code_cli'',
       ap_command = ''claude -p --output-format stream-json --include-hook-events'', ap_process_runtime = 30000\<rparr>]"

definition registeredProfile :: "string \<Rightarrow> adapter_profile option" where
  "registeredProfile p = find (\<lambda>x. ap_profile x = p) RUNTIME_ADAPTER_PROFILES_V03"

definition ceilDivide :: "int \<Rightarrow> int \<Rightarrow> int option" where
  "ceilDivide dividend divisor =
     (if 0 \<le> dividend \<and> 0 < divisor then Some ((dividend + divisor - 1) div divisor) else None)"

text \<open>The highest number of executions of each task; a rule for another task is refused.\<close>

fun task_maxima :: "(string \<rightharpoonup> int) \<Rightarrow> retry_max list \<Rightarrow> (string \<rightharpoonup> int) option" where
  "task_maxima m [] = Some m"
| "task_maxima m (r # rs) =
     (case (toBigInt (rm_executions r), m (rm_task r)) of
        (Some n, Some c) \<Rightarrow> task_maxima (if c < n then m(rm_task r \<mapsto> n) else m) rs
      | _ \<Rightarrow> None)"

fun attempts_from :: "(string \<rightharpoonup> int) \<Rightarrow> int \<Rightarrow> string list \<Rightarrow> int option" where
  "attempts_from m acc [] = Some acc"
| "attempts_from m acc (t # ts) =
     (case m t of
        None \<Rightarrow> None
      | Some n \<Rightarrow> if n < 1 \<or> MAX_SAFE_INTEGER < acc + n then None else attempts_from m (acc + n) ts)"

definition action_attempts :: "plan_input \<Rightarrow> int option" where
  "action_attempts p =
     (case task_maxima (map_of (map (\<lambda>t. (t, 0)) (bi_tasks p))) (bi_retry_rules p) of
        None \<Rightarrow> None
      | Some m \<Rightarrow> attempts_from m 0 (bi_tasks p))"

definition plan_limits :: "plan_input \<Rightarrow> adapter_profile \<Rightarrow> int list" where
  "plan_limits p a =
     [int (bi_compensations p), bi_loop_attempts p, pi_elapsed p, pi_output p, bi_reserve p,
      (case pi_recovery_output p of None \<Rightarrow> 0 | Some n \<Rightarrow> n), ap_process_runtime a]"

text \<open>The limits of the run, each from those before it.\<close>

record run_limits =
  rl_attempts :: int              \<comment> \<open>actions\<close>
  rl_executions :: int
  rl_process :: int
  rl_lease :: int
  rl_interval :: int
  rl_run_heartbeats :: int
  rl_task_heartbeats :: int
  rl_work_output :: int

definition run_limits_of :: "plan_input \<Rightarrow> adapter_profile \<Rightarrow> int \<Rightarrow> run_limits option" where
  "run_limits_of p a A =
     (let executions = 1 + 2 * A + 2 * int (bi_compensations p) + 8;
          process = min (pi_elapsed p) (ap_process_runtime a);
          lease = min process 30000;
          interval = max (lease div 3) 1;
          work = pi_output p - bi_reserve p - (case pi_recovery_output p of None \<Rightarrow> 0 | Some n \<Rightarrow> n) in
      if MAX_SAFE_INTEGER < executions \<or> lease < 2 \<or> lease \<le> interval then None
      else case (ceilDivide (pi_elapsed p) interval, ceilDivide process interval) of
        (Some q_run, Some q_task) \<Rightarrow>
          if MAX_SAFE_INTEGER < executions * q_run \<or> MAX_SAFE_INTEGER < A * q_task \<or> work \<le> 0 then None
          else Some \<lparr>rl_attempts = A, rl_executions = executions, rl_process = process, rl_lease = lease,
                 rl_interval = interval, rl_run_heartbeats = executions * q_run, rl_task_heartbeats = A * q_task,
                 rl_work_output = work\<rparr>
      | _ \<Rightarrow> None)"

definition summary_bytes :: "run_limits \<Rightarrow> int" where
  "summary_bytes l = min (rl_work_output l) 65536"

definition policy_of :: "plan_input \<Rightarrow> run_limits \<Rightarrow> execution_policy" where
  "policy_of p l =
     \<lparr>ep_process_runtime = rl_process l, ep_execution_attempts = rl_executions l, ep_run_acquisitions = rl_executions l,
      ep_task_acquisitions = rl_attempts l, ep_integrator_acquisitions = rl_executions l, ep_lease_duration = rl_lease l,
      ep_heartbeat_interval = rl_interval l, ep_run_heartbeats = rl_run_heartbeats l,
      ep_task_heartbeats = rl_task_heartbeats l, ep_integrator_heartbeats = rl_run_heartbeats l,
      ep_run_releases = rl_executions l, ep_task_releases = rl_attempts l, ep_integrator_releases = rl_executions l,
      ep_compactions = bi_loop_attempts p, ep_summaries = bi_loop_attempts p, ep_summary_bytes = summary_bytes l\<rparr>"

text \<open>What attempts, owners, heartbeats, releases and summaries add: each event but a compaction has a clock of its own.\<close>

definition added_clock_events :: "run_limits \<Rightarrow> int" where
  "added_clock_events l =
     (let resumes = rl_executions l - 1; acquisitions = rl_attempts l + rl_executions l;
          heartbeats = rl_run_heartbeats l + rl_task_heartbeats l + rl_run_heartbeats l;
          releases = rl_attempts l + 2 * rl_executions l in
      resumes + rl_executions l + acquisitions + heartbeats + releases + rl_executions l)"

definition required_control_bytes :: "plan_input \<Rightarrow> run_limits \<Rightarrow> control_budget \<Rightarrow> int" where
  "required_control_bytes p l b =
     cb_required b + ((added_clock_events l + bi_loop_attempts p) + added_clock_events l) * PRIMARY_EVENT_MAX_BYTES +
     bi_loop_attempts p * SUMMARY_RECORD_MAX_BYTES"

definition safe_limits :: "plan_input \<Rightarrow> run_limits \<Rightarrow> bool" where
  "safe_limits p l \<longleftrightarrow>
     None \<notin> set (map toSafeNumber
       [rl_process l, rl_executions l, rl_attempts l, rl_lease l, rl_interval l, rl_run_heartbeats l,
        rl_task_heartbeats l, rl_run_heartbeats l, bi_loop_attempts p, summary_bytes l])"

definition deriveRuntimeExecutionPolicyV03 :: "plan_input \<Rightarrow> string \<Rightarrow> (execution_policy \<times> int) option" where
  "deriveRuntimeExecutionPolicyV03 p profile =
     (case registeredProfile profile of
        None \<Rightarrow> None
      | Some a \<Rightarrow>
          if pi_engine p \<noteq> ap_engine a \<or> pi_command p \<noteq> ap_command a then None
          else case action_attempts p of
            None \<Rightarrow> None
          | Some A \<Rightarrow>
              if None \<in> set (map toBigInt (plan_limits p a)) \<or> bi_loop_attempts p < 1 then None
              else case run_limits_of p a A of
                None \<Rightarrow> None
              | Some l \<Rightarrow>
                  if \<not> safe_limits p l then None
                  else case deriveControlPlaneBudgetV02 (budget_input.truncate p) of
                    Inl _ \<Rightarrow> None
                  | Inr b \<Rightarrow>
                      (let bytes = required_control_bytes p l b in
                       if toSafeNumber bytes = None \<or> bi_reserve p < bytes then None else Some (policy_of p l, bytes)))"

text \<open>The engine of the plan selects the profile. The plan is one the schema of version 0.2 has accepted.\<close>

definition deriveRuntimeExecutionPolicyForRegisteredAdapterV03 :: "plan_input \<Rightarrow> (execution_policy \<times> int) option" where
  "deriveRuntimeExecutionPolicyForRegisteredAdapterV03 p =
     deriveRuntimeExecutionPolicyV03 p (if pi_engine p = ''codex_cli'' then codex_profile else claude_profile)"

subsection \<open>The schema of the policy\<close>

definition policy_numbers :: "execution_policy \<Rightarrow> (string \<times> int) list" where
  "policy_numbers e =
     [(''max_process_runtime_ms'', ep_process_runtime e), (''max_execution_attempts'', ep_execution_attempts e),
      (''run_owner_acquisition_max'', ep_run_acquisitions e), (''task_owner_acquisition_max'', ep_task_acquisitions e),
      (''integrator_acquisition_max'', ep_integrator_acquisitions e), (''owner_lease_duration_ms'', ep_lease_duration e),
      (''heartbeat_interval_ms'', ep_heartbeat_interval e), (''run_heartbeat_event_max'', ep_run_heartbeats e),
      (''task_heartbeat_event_max'', ep_task_heartbeats e), (''integrator_heartbeat_event_max'', ep_integrator_heartbeats e),
      (''run_owner_release_max'', ep_run_releases e), (''task_owner_release_max'', ep_task_releases e),
      (''integrator_release_max'', ep_integrator_releases e), (''max_compaction_events'', ep_compactions e),
      (''max_summary_records'', ep_summaries e), (''max_summary_content_bytes'', ep_summary_bytes e)]"

definition policy_json :: "execution_policy \<Rightarrow> json" where
  "policy_json e =
     JObj ([(''profile_id'', JStr ''runtime-execution-controls-v04-s41-1''),
            (''charge_profile_id'', JStr ''control-plane-charge-ceilings-v04-s41-1'')] @
           map (\<lambda>(k, n). (k, JInt n)) (policy_numbers e))"

definition policy_rules :: "json \<Rightarrow> bool" where
  "policy_rules v \<longleftrightarrow>
     (let n = (\<lambda>k. int_at (jget v k)) in
      \<not> n ''owner_lease_duration_ms'' < 2 \<and>
      \<not> n ''heartbeat_interval_ms'' \<ge> n ''owner_lease_duration_ms'' \<and>
      \<not> n ''max_process_runtime_ms'' < n ''owner_lease_duration_ms'' \<and>
      \<not> n ''max_process_runtime_ms'' > 30000 \<and>
      n ''run_owner_acquisition_max'' = n ''max_execution_attempts'' \<and>
      n ''integrator_acquisition_max'' = n ''max_execution_attempts'' \<and>
      n ''run_owner_release_max'' = n ''run_owner_acquisition_max'' \<and>
      n ''task_owner_release_max'' = n ''task_owner_acquisition_max'' \<and>
      n ''integrator_release_max'' = n ''integrator_acquisition_max'' \<and>
      n ''max_compaction_events'' = n ''max_summary_records'' \<and>
      \<not> n ''max_summary_content_bytes'' > 65536)"

definition RuntimeExecutionPolicyV03_shape :: shape where
  "RuntimeExecutionPolicyV03_shape =
     [(''profile_id'', z_literal (JStr ''runtime-execution-controls-v04-s41-1'')),
      (''charge_profile_id'', z_literal (JStr ''control-plane-charge-ceilings-v04-s41-1'')),
      (''max_process_runtime_ms'', safe_positive), (''max_execution_attempts'', safe_positive),
      (''run_owner_acquisition_max'', safe_positive), (''task_owner_acquisition_max'', safe_positive),
      (''integrator_acquisition_max'', safe_positive), (''owner_lease_duration_ms'', safe_positive),
      (''heartbeat_interval_ms'', safe_positive), (''run_heartbeat_event_max'', safe_positive),
      (''task_heartbeat_event_max'', safe_positive), (''integrator_heartbeat_event_max'', safe_positive),
      (''run_owner_release_max'', safe_positive), (''task_owner_release_max'', safe_positive),
      (''integrator_release_max'', safe_positive), (''max_compaction_events'', safe_positive),
      (''max_summary_records'', safe_positive), (''max_summary_content_bytes'', safe_positive)]"

definition RuntimeExecutionPolicyV03 :: schema where
  "RuntimeExecutionPolicyV03 = refined (strictObject RuntimeExecutionPolicyV03_shape) policy_rules"

subsection \<open>Laws\<close>

lemma safe_positive_int: "safe_positive (JInt n) \<longleftrightarrow> 0 < n \<and> n \<le> MAX_SAFE_INTEGER"
  by (auto simp: safe_positive_def isSafeInteger_def MAX_SAFE_INTEGER_def)

definition policy_positive :: "execution_policy \<Rightarrow> bool" where
  "policy_positive e \<longleftrightarrow> list_all (\<lambda>(k, n). 0 < n \<and> n \<le> MAX_SAFE_INTEGER) (policy_numbers e)"

lemma policy_shape: "strictObject RuntimeExecutionPolicyV03_shape (policy_json e) \<longleftrightarrow> policy_positive e"
  by (simp add: strictObject_def fields_ok_def only_keys_def optional_ok_def RuntimeExecutionPolicyV03_shape_def
      policy_json_def policy_numbers_def policy_positive_def safe_positive_int z_literal_def)

lemma policy_reads:
  "policy_rules (policy_json e) \<longleftrightarrow>
     \<not> ep_lease_duration e < 2 \<and> \<not> ep_heartbeat_interval e \<ge> ep_lease_duration e \<and>
     \<not> ep_process_runtime e < ep_lease_duration e \<and> \<not> ep_process_runtime e > 30000 \<and>
     ep_run_acquisitions e = ep_execution_attempts e \<and> ep_integrator_acquisitions e = ep_execution_attempts e \<and>
     ep_run_releases e = ep_run_acquisitions e \<and> ep_task_releases e = ep_task_acquisitions e \<and>
     ep_integrator_releases e = ep_integrator_acquisitions e \<and> ep_compactions e = ep_summaries e \<and>
     \<not> ep_summary_bytes e > 65536"
  by (simp add: policy_rules_def policy_json_def policy_numbers_def Let_def)

subsection \<open>Attempts\<close>

lemma attempts_from_ge: "attempts_from m acc ts = Some A \<Longrightarrow> acc + int (length ts) \<le> A"
  by (induction ts arbitrary: acc) (fastforce split: option.splits if_split_asm)+

lemma attempts_positive: "action_attempts p = Some A \<Longrightarrow> 0 \<le> A \<and> (0 < A \<longleftrightarrow> bi_tasks p \<noteq> [])"
  unfolding action_attempts_def by (cases "bi_tasks p") (auto dest!: attempts_from_ge split: option.splits if_split_asm)

subsection \<open>Limits\<close>

lemma ceil_positive: "0 < a \<Longrightarrow> 0 < b \<Longrightarrow> ceilDivide a b = Some q \<Longrightarrow> 0 < q"
  by (auto simp: ceilDivide_def pos_imp_zdiv_pos_iff)

lemma run_limits_positive:
  assumes "run_limits_of p a A = Some l" and "0 \<le> A"
  shows "rl_attempts l = A" "9 \<le> rl_executions l" "2 \<le> rl_lease l" "rl_lease l \<le> rl_process l" "rl_process l \<le> ap_process_runtime a"
    "0 < rl_interval l" "rl_interval l < rl_lease l" "0 < rl_run_heartbeats l" "0 \<le> rl_task_heartbeats l"
    "0 < rl_task_heartbeats l \<longleftrightarrow> 0 < A" "0 < rl_work_output l"
proof -
  define executions where "executions = 1 + 2 * A + 2 * int (bi_compensations p) + 8"
  define process where "process = min (pi_elapsed p) (ap_process_runtime a)"
  define lease where "lease = min process 30000"
  define interval where "interval = max (lease div 3) 1"
  define work where "work = pi_output p - bi_reserve p - (case pi_recovery_output p of None \<Rightarrow> 0 | Some n \<Rightarrow> n)"
  note names = executions_def process_def lease_def interval_def work_def
  from assms(1) obtain q r where q: "ceilDivide (pi_elapsed p) interval = Some q" "ceilDivide process interval = Some r"
    and lease: "2 \<le> lease" "interval < lease" and work: "0 < work"
    and l: "l = \<lparr>rl_attempts = A, rl_executions = executions, rl_process = process, rl_lease = lease,
      rl_interval = interval, rl_run_heartbeats = executions * q, rl_task_heartbeats = A * r, rl_work_output = work\<rparr>"
    unfolding run_limits_of_def Let_def names [symmetric] by (auto split: if_split_asm option.split_asm)
  have order: "lease \<le> process" "process \<le> ap_process_runtime a" "process \<le> pi_elapsed p" "1 \<le> interval"
    unfolding lease_def process_def interval_def by (simp_all add: min.coboundedI1)
  have "0 < q" by (rule ceil_positive [OF _ _ q(1)]) (use lease order in linarith)+
  have "0 < r" by (rule ceil_positive [OF _ _ q(2)]) (use lease order in linarith)+
  have "9 \<le> executions" using assms(2) by (simp add: executions_def)
  with \<open>0 < q\<close> have "0 < executions * q" by simp
  moreover have "0 \<le> A * r" "0 < A * r \<longleftrightarrow> 0 < A" using \<open>0 < r\<close> assms(2) by (simp_all add: zero_less_mult_iff)
  ultimately show "rl_attempts l = A" "9 \<le> rl_executions l" "2 \<le> rl_lease l" "rl_lease l \<le> rl_process l"
      "rl_process l \<le> ap_process_runtime a" "0 < rl_interval l" "rl_interval l < rl_lease l" "0 < rl_run_heartbeats l"
      "0 \<le> rl_task_heartbeats l" "0 < rl_task_heartbeats l \<longleftrightarrow> 0 < A" "0 < rl_work_output l"
    using lease order work \<open>9 \<le> executions\<close> unfolding l by simp_all
qed

lemma profile_runtime: "registeredProfile s = Some a \<Longrightarrow> ap_process_runtime a = 30000"
  by (auto simp: registeredProfile_def RUNTIME_ADAPTER_PROFILES_V03_def split: if_split_asm)

lemma added_clock_events_nonneg:
  "9 \<le> rl_executions l \<Longrightarrow> 0 \<le> rl_attempts l \<Longrightarrow> 0 < rl_run_heartbeats l \<Longrightarrow> 0 \<le> rl_task_heartbeats l \<Longrightarrow>
    0 \<le> added_clock_events l"
  by (simp add: added_clock_events_def Let_def)

text \<open>
  C34: a derived policy passes its schema exactly when the plan has a task, and the bytes it requires
  are at least those of the budget of version 0.2 and at most the reserve.
\<close>

theorem derived_policy_accepted_iff:
  assumes "deriveRuntimeExecutionPolicyForRegisteredAdapterV03 p = Some (e, bytes)"
  shows "(RuntimeExecutionPolicyV03 (policy_json e) \<longleftrightarrow> bi_tasks p \<noteq> []) \<and>
    (case deriveControlPlaneBudgetV02 (budget_input.truncate p) of
       Inl _ \<Rightarrow> False
     | Inr b \<Rightarrow> cb_required b < bytes \<and> bytes \<le> bi_reserve p)"
proof -
  from assms obtain a A l b where a: "ap_process_runtime a = 30000" and A: "action_attempts p = Some A"
    and loops: "1 \<le> bi_loop_attempts p" and l: "run_limits_of p a A = Some l" and safe: "safe_limits p l"
    and b: "deriveControlPlaneBudgetV02 (budget_input.truncate p) = Inr b"
    and bytes: "bytes = required_control_bytes p l b" "bytes \<le> bi_reserve p" and e: "e = policy_of p l"
    unfolding deriveRuntimeExecutionPolicyForRegisteredAdapterV03_def deriveRuntimeExecutionPolicyV03_def
    by (fastforce simp: Let_def not_less dest: profile_runtime split: option.split_asm if_split_asm sum.split_asm)
  have tasks: "0 \<le> A" "0 < A \<longleftrightarrow> bi_tasks p \<noteq> []" using attempts_positive [OF A] by simp_all
  note limits = run_limits_positive [OF l tasks(1)]
  have upper: "rl_process l \<le> MAX_SAFE_INTEGER" "rl_executions l \<le> MAX_SAFE_INTEGER" "rl_attempts l \<le> MAX_SAFE_INTEGER"
      "rl_lease l \<le> MAX_SAFE_INTEGER" "rl_interval l \<le> MAX_SAFE_INTEGER" "rl_run_heartbeats l \<le> MAX_SAFE_INTEGER"
      "rl_task_heartbeats l \<le> MAX_SAFE_INTEGER" "bi_loop_attempts p \<le> MAX_SAFE_INTEGER" "summary_bytes l \<le> MAX_SAFE_INTEGER"
    using safe by (auto simp: safe_limits_def toSafeNumber_def split: if_split_asm)
  have "policy_positive e \<longleftrightarrow> 0 < A"
    using limits loops upper by (auto simp: policy_positive_def policy_numbers_def e policy_of_def summary_bytes_def)
  moreover have "policy_rules (policy_json e)"
    using limits a by (simp add: policy_reads e policy_of_def summary_bytes_def)
  ultimately have "RuntimeExecutionPolicyV03 (policy_json e) \<longleftrightarrow> bi_tasks p \<noteq> []"
    by (simp add: RuntimeExecutionPolicyV03_def refined_def policy_shape tasks)
  moreover have "cb_required b < bytes"
    using added_clock_events_nonneg [of l] limits tasks(1) loops
    by (simp add: bytes(1) required_control_bytes_def PRIMARY_EVENT_MAX_BYTES_def SUMMARY_RECORD_MAX_BYTES_def)
  ultimately show ?thesis using b bytes(2) by simp
qed

subsection \<open>An example\<close>

definition demo_plan :: plan_input where
  "demo_plan = budget_input.extend (demo_budget\<lparr>bi_reserve := 2000000000\<rparr>)
     (plan_input.fields ''codex_cli'' ''codex exec --json'' 60000 2100000000 (Some 1000))"

theorem derived_policy_accepted_iff_witness:
  "\<exists>e bytes. deriveRuntimeExecutionPolicyForRegisteredAdapterV03 demo_plan = Some (e, bytes) \<and>
     RuntimeExecutionPolicyV03 (policy_json e)"
proof -
  have "deriveRuntimeExecutionPolicyForRegisteredAdapterV03 demo_plan \<noteq> None" by code_simp
  then obtain e bytes where derived: "deriveRuntimeExecutionPolicyForRegisteredAdapterV03 demo_plan = Some (e, bytes)" by auto
  moreover have "bi_tasks demo_plan \<noteq> []" by code_simp
  ultimately show ?thesis using derived_policy_accepted_iff [OF derived] by blast
qed

end
