(* ===== verification/Spec2Isabelle.thy ===== *)
theory Spec2Isabelle
  imports Adapters Agent_Proof Brief Doctrine Evidence Gates Glob Ledger Ledger_Examples
    Limit_Counters_Laws Limit_Rules_Laws Lock Receipt Receipt_Examples Receipt_Schema Recognizers
    Reducer_V03 Reducer_V04_Laws Scalars Scalars_V02 Terminal_V04_Laws Fence_V04 Verdicts
    Authority_Laws Document_Laws Ledger_V02_Examples Ledger_V03 Ledger_V04_Examples Plan_V03
begin

text \<open>
  \<^bold>\<open>What this is.\<close> A verification library for loopeix, a program that runs coding agents under a
  declared brief, records what they do in a hash-chained ledger, and afterwards says what the
  recorded run proves. The theories translate its core logic definition by definition and prove
  the properties that make the parts trustworthy. File names below are relative to the
  package's source directory.

  \<^bold>\<open>How the parts interact.\<close> There are two generations. In the first, an engine's output stream is
  normalised by an adapter (\<^verbatim>\<open>adapters/codex.ts\<close>, \<^verbatim>\<open>adapters/claude.ts\<close>) into events, which are
  sealed into the ledger (\<^verbatim>\<open>ledger.ts\<close>) while the run directory is guarded by a lock file
  (\<^verbatim>\<open>lock.ts\<close>). A brief (\<^verbatim>\<open>brief.ts\<close>) says which paths may be touched and what is promised. At the
  end \<^verbatim>\<open>verdicts.ts\<close> decides, from ledger and brief, which clauses were respected and which claims
  hold; \<^verbatim>\<open>receipt.ts\<close> binds these verdicts to the head of the ledger, and verifies such a receipt
  offline. Gates (\<^verbatim>\<open>gates.ts\<close>), evidence (\<^verbatim>\<open>evidence-verifier.ts\<close>) and the proof assessment
  (\<^verbatim>\<open>agent-proof.ts\<close>) judge the same run by declared controls.

  In the second, an authored specification (\<^verbatim>\<open>schema/loopeix-v02.ts\<close>, dispatched on its version by
  \<^verbatim>\<open>schema/version-dispatch.ts\<close>) declares tasks, gates, limits and compensations; its plan has a
  budget for what the control plane may record (\<^verbatim>\<open>compiler/control-plane-budget-v02.ts\<close>) and an
  execution policy (\<^verbatim>\<open>schema/runtime-plan-v03.ts\<close>). Each action is decided by the authority point
  (\<^verbatim>\<open>run/action-classifier-policy-v02.ts\<close>), whose decision and lease are events of the runtime
  ledger. The ledgers of the versions 0.2, 0.3 and 0.4 (\<^verbatim>\<open>run/runtime-ledger-v02.ts\<close>, \<^verbatim>\<open>-v03.ts\<close>,
  \<^verbatim>\<open>-v04.ts\<close>) are validated event by event against the event schemas, the hash chain and history
  rules; the state of a run is a fold over the accepted events (\<^verbatim>\<open>run/runtime-state-reducer-v03.ts\<close>,
  \<^verbatim>\<open>-v04.ts\<close>), from which limits and retries are accounted (\<^verbatim>\<open>run/runtime-limit-accounting-v04.ts\<close>). A
  snapshot of the ledger (\<^verbatim>\<open>run/terminal-snapshot.ts\<close>), with projections of progress,
  applicability, failures and compensations, is what the terminal evaluator
  (\<^verbatim>\<open>run/terminal-evaluator.ts\<close>) decides on; its decision to freeze, raise or seal becomes the next
  event (\<^verbatim>\<open>run/runtime-terminal-write-v04.ts\<close>).

  \<^bold>\<open>Theories and sources.\<close>
    \<^item> Prelude, Json, Regex: strings (of characters below 256), lists, options, the JSON values of the language with
      their parameterised text form, and regular expressions with a derivative matcher (the
      subset that the code builds). Prelude has the locales \<open>guarded_reducer\<close>, \<open>monotone_reducer\<close>
      and \<open>hash_chain\<close>.
    \<^item> Replay: the locale \<open>recorded_reducer\<close>, the contract of every reducer that folds a partial
      step over an event prefix: a record invariant that the start has and each accepted step
      keeps holds of each accepted prefix. It is interpreted on the reducer of version 0.4 and on
      the consumption and control histories of version 0.2.
    \<^item> Scalars, Scalars_V02 (\<^verbatim>\<open>schema/scalars.ts\<close>, \<^verbatim>\<open>schema/scalars-v02.ts\<close>): the formats of
      identifiers and run-relative paths.
    \<^item> Glob (\<^verbatim>\<open>glob.ts\<close>): path normalisation, and globs compiled to regular expressions, with a
      reference semantics by segments.
    \<^item> Ledger, Ledger_Examples (\<^verbatim>\<open>ledger.ts\<close>, \<^verbatim>\<open>schema/runtime.ts\<close>): sealing, serialising,
      parsing, validation and recovery of the ledger of version 0.1.
    \<^item> Gates, Evidence, Agent_Proof (\<^verbatim>\<open>gates.ts\<close>, \<^verbatim>\<open>evidence-verifier.ts\<close>, \<^verbatim>\<open>agent-proof.ts\<close>).
    \<^item> Adapters, Brief (\<^verbatim>\<open>adapters/\<close>, \<^verbatim>\<open>brief.ts\<close>, \<^verbatim>\<open>schema/brief.ts\<close>).
    \<^item> Recognizers, Verdicts, Doctrine (\<^verbatim>\<open>verdicts.ts\<close>): the recognisers of test runners and
      installers, the adjudicators (locale \<open>admission_adjudicator\<close>), and their laws.
    \<^item> Receipt_Schema, Receipt, Receipt_Examples (\<^verbatim>\<open>schema/receipt.ts\<close>, \<^verbatim>\<open>receipt.ts\<close>, \<^verbatim>\<open>sign.ts\<close>).
    \<^item> Lock (\<^verbatim>\<open>lock.ts\<close>): the file system calls of competing processes as a step relation, with
      what a double hold takes in any interleaving.
    \<^item> Zod, Zod_Eval, Spec_Schema_V02, Record_Schema_V02, Event_Schema_V02, Event_Schema_V03, Event_Schema_V04
      (\<^verbatim>\<open>schema/loopeix-v02.ts\<close>, \<^verbatim>\<open>schema/runtime.ts\<close>, \<^verbatim>\<open>schema/runtime-v03.ts\<close>, \<^verbatim>\<open>schema/runtime-v04.ts\<close>): the
      combinators of the schema library as predicates on JSON values with their evaluation on
      literal objects, and with them the schemas of
      specification, records and events, field by field with their conditions. Event_Laws_V02 and
      Event_Laws_V04 say what these schemas give the history rules.
    \<^item> Spec_Rules_V02, Dependency_Graph, Spec_Laws_V02 (\<^verbatim>\<open>schema/loopeix-v02.ts\<close>): the rules across the
      fields of a specification, the search for cycles with its termination and correctness, and
      what a specification without issues is.
    \<^item> Spec_V01, Document_Laws (\<^verbatim>\<open>schema/loopeix.ts\<close>, \<^verbatim>\<open>schema/loopeix-v01.ts\<close>,
      \<^verbatim>\<open>schema/version-dispatch.ts\<close>): the specification of version 0.1, the value it parses to, and the
      dispatch of a document.
    \<^item> Control_Budget, Plan_V03 (\<^verbatim>\<open>compiler/control-plane-budget-v02.ts\<close>,
      \<^verbatim>\<open>schema/runtime-plan-v03.ts\<close>): the control-plane budget and the execution policy of a plan, on
      unbounded integers with the checks of the safe range where the code has them.
    \<^item> Action_Policy, Action_Policy_Laws, Authority, Authority_Laws
      (\<^verbatim>\<open>run/action-classifier-policy-v02.ts\<close>): the approval policy, the registry of captured policies,
      the decision on an action and the revalidation of its lease.
    \<^item> Ledger_Refs, History_V02, Control_V02, Ledger_V02 (\<^verbatim>\<open>run/runtime-ledger-v02.ts\<close>): references of
      payloads, chain, lineage, unique consumption, control history and seal. Ledger_V02_Laws and
      Sealed_V02_Laws prove where admissions come from, that none follows a freeze, and that a
      sealed run is settled; Demo_Ledger_V02 and Ledger_V02_Examples have an accepted ledger of
      eleven events.
    \<^item> Ledger_Text, Ledger_V03, History_V04, Ledger_V04 (\<^verbatim>\<open>run/runtime-ledger-v03.ts\<close>, \<^verbatim>\<open>-v04.ts\<close>): bytes,
      lines and values of a ledger, and the validation of both versions, which ends in the reducers.
      Ledger_V04_Laws shows what an accepted ledger of version 0.4 guarantees about an action
      reconciled as never started; Demo_Ledger_V04 and Ledger_V04_Examples have an accepted ledger of
      sixteen events that ends sealed after such a reconciliation, read from its bytes.
    \<^item> Reducer_V03, Reducer_V04, Reducer_V04_Laws: the run reducers, every case of the switch as
      a handler that either refuses or returns the new state.
    \<^item> Limit_Rules, Limit_Rules_Laws, Limit_Counters, Limit_Counters_Laws: admission against the
      limits of a plan, retry delays, and the projection of the counters from ledger and files.
    \<^item> Runtime_V02: the data of the terminal decisions. Progress, Applicability, Failure_Policy,
      Compensation (\<^verbatim>\<open>run/progress-evaluator.ts\<close>, \<^verbatim>\<open>run/applicability-projection-v02.ts\<close>,
      \<^verbatim>\<open>run/failure-policy-projection-v02.ts\<close>, \<^verbatim>\<open>run/compensation-projection-v02.ts\<close>): the projections.
    \<^item> Task_Rows, Snapshot (\<^verbatim>\<open>run/terminal-snapshot.ts\<close>): the rows of the tasks with the propagation of
      failures, and the snapshot with the checks of all terminal transitions. Snapshot_Frame has the
      locale \<open>silent_event\<close>, interpreted on the terminal events: appending one changes no observation.
      Snapshot_Laws proves on this frame what the next snapshot says of a written decision.
    \<^item> Terminal, Terminal_Laws, Terminal_Write, Terminal_V04, Terminal_V04_Laws, Decision_Examples
      (\<^verbatim>\<open>run/terminal-evaluator.ts\<close>, \<^verbatim>\<open>run/runtime-terminal-v04.ts\<close>, \<^verbatim>\<open>run/runtime-terminal-write-v04.ts\<close>): the
      decision, what a decision to seal guarantees, the event it writes, and the projection of a
      run of version 0.4 to these decisions. Fence_V04 relates the fence of the reducer to that of the
      projection, and so says when the terminal write refuses its own store.

  \<^bold>\<open>Correspondence.\<close> Objects are records or JSON values (where the code reads them tolerantly),
  tagged unions are datatypes, insertion-ordered maps are association lists; throwing and
  returning an error are the left of a sum or \<^const>\<open>None\<close>. A failure carries its rule and position
  in place of the code's message. Numbers are integers with the bound of the safe integers
  written out where the code checks it. Loops are structural recursion, or functions with a
  measure; no fuel is used, so every definition is total and a result is a result of the code.

  \<^bold>\<open>Parameters.\<close> The digest and the canonical JSON text (injective on the values written, as
  named hypotheses; for the fingerprint of a lease up to the order of properties), Unicode normalisation, the YAML parser, the parsing of dates and the
  timestamp format of the schema library, the decoder of UTF-8 and the JSON parser, and
  signature checking are arguments of the definitions that use them (the records \<open>schema_env\<close>,
  \<open>line_reader\<close> and \<open>ledger_reader\<close> collect those of schemas and ledgers); each property with such a
  hypothesis has a witness that instantiates it.

  \<^bold>\<open>Not modelled.\<close> The schema of the resolved run plan and of record files in \<^verbatim>\<open>schema/runtime.ts\<close>, the
  admission of record files (\<^verbatim>\<open>run/runtime-record-admission-v02.ts\<close>) and the write sessions: they
  compare and store files around the logic above. File system transactions and captures
  (\<^verbatim>\<open>io/\<close>), host enforcement and the command line are input and output. The compiler and the
  catalogue are left out but for the budget. Object freezing, brands of captured values and the
  texts of the schema library's own issues have no counterpart here.
\<close>

end
